(* ===== verification/Prelude.thy ===== *)
theory Prelude
  imports Main "HOL-Library.Word"
begin

text \<open>
  Shared material of the development: the machine types of the C++ sources and
  generic facts about lists and words.

  The two-byte integer codec \<open>ser4cpp::UInt16\<close> is a dependency that is fetched by the
  build and is not part of the repository. Every definition that reads or writes a
  16-bit field therefore takes it as an argument (the record \<open>u16_codec\<close>), and the
  locale \<open>codec16\<close> states what the code relies on: a value takes two bytes, reading
  back what was written gives the value, and writing what was read gives the bytes.
  The little-endian instance, which the name of the library's header
  (\<open>LittleEndian.h\<close>) documents, interprets the locale.
\<close>

unbundle bit_operations_syntax

type_synonym byte = "8 word"
type_synonym u16 = "16 word"
type_synonym u32 = "32 word"


section \<open>Lists\<close>

lemma take_drop_split: "n \<le> length xs \<Longrightarrow> xs = take n xs @ drop n xs"
  by simp

lemma nth_take_drop: "i < n \<Longrightarrow> k + i < length xs \<Longrightarrow> take n (drop k xs) ! i = xs ! (k + i)"
  by simp

lemma drop_eq_appendD: "drop k xs = ys @ zs \<Longrightarrow> drop (k + length ys) xs = zs"
  by (metis add.commute append_eq_conv_conj drop_drop)

lemma take_append_exact [simp]: "n = length xs \<Longrightarrow> take n (xs @ ys) = xs"
  by simp

lemma drop_append_exact [simp]: "n = length xs \<Longrightarrow> drop n (xs @ ys) = ys"
  by simp

lemma list_all2_snocD:
  "length xs = Suc n \<Longrightarrow> \<exists>ys y. xs = ys @ [y] \<and> length ys = n"
  by (metis length_append_singleton length_Suc_conv_rev)

lemma foldl_append_snoc: "foldl f a (xs @ [x]) = f (foldl f a xs) x"
  by simp

lemma list_eq_iff_differ:
  assumes "length xs = length ys" and "xs \<noteq> ys"
  obtains i where "i < length xs" and "xs ! i \<noteq> ys ! i"
  using assms by (metis nth_equalityI)

section \<open>Words\<close>

lemma unat_byte_less [simp]: "unat (b :: byte) < 256"
  using unsigned_less [of b, where ?'a = nat] by simp

lemma unat_u16_less [simp]: "unat (w :: u16) < 65536"
  using unsigned_less [of w, where ?'a = nat] by simp

lemma xor_left_cancel_word [simp]: "(a XOR b = a XOR c) = (b = (c :: 'a::len word))"
  by (metis xor.assoc xor_self_eq xor.left_neutral)

lemma xor_right_cancel_word [simp]: "(b XOR a = c XOR a) = (b = (c :: 'a::len word))"
  by (metis xor.commute xor_left_cancel_word)

lemma not_word_inject [simp]: "(NOT a = NOT b) = (a = (b :: 'a::len word))"
  by (metis bit.double_compl)

section \<open>The two-byte codec\<close>

record u16_codec =
  write_to :: "u16 \<Rightarrow> byte list"
  read_from :: "byte list \<Rightarrow> u16"

locale codec16 =
  fixes C :: u16_codec
  assumes length_write: "length (write_to C x) = 2"
    and read_write: "read_from C (write_to C x @ r) = x"
    and write_read: "2 \<le> length bs \<Longrightarrow> write_to C (read_from C bs) = take 2 bs"
begin

lemma write_inject: "write_to C x = write_to C y \<Longrightarrow> x = y"
  by (metis read_write)

lemma read_write_exact: "read_from C (write_to C x) = x"
  using read_write [of x "[]"] by simp

lemma take_write: "take 2 (write_to C x @ r) = write_to C x"
  by (simp add: length_write)

lemma drop_write: "drop 2 (write_to C x @ r) = r"
  by (simp add: length_write)

lemma read_inject:
  assumes "length a = 2" "length b = 2" "read_from C a = read_from C b"
  shows "a = b"
proof -
  have "a = write_to C (read_from C a)" using write_read [of a] assms(1) by simp
  also have "\<dots> = write_to C (read_from C b)" by (simp only: assms(3))
  also have "\<dots> = b" using write_read [of b] assms(2) by simp
  finally show ?thesis .
qed

lemma read_take: "2 \<le> length bs \<Longrightarrow> read_from C bs = read_from C (take 2 bs)"
proof -
  assume l: "2 \<le> length bs"
  have "read_from C (take 2 bs) = read_from C (write_to C (read_from C bs))"
    by (simp only: write_read [OF l])
  then show ?thesis by (simp only: read_write_exact)
qed

end

text \<open>The little-endian instance.\<close>

definition le16 :: u16_codec where
  "le16 = \<lparr> write_to = (\<lambda>x. [ucast x, ucast (drop_bit 8 x)]),
           read_from = (\<lambda>bs. case bs of a # b # r \<Rightarrow> ucast a OR push_bit 8 (ucast b) | _ \<Rightarrow> 0) \<rparr>"

lemma le16_read_write: "ucast (ucast (x :: u16) :: byte) OR push_bit 8 (ucast (ucast (drop_bit 8 x) :: byte)) = x"
  by (rule bit_word_eqI) (auto simp: bit_simps)

lemma le16_write_lo: "(ucast (ucast (a :: byte) OR push_bit 8 (ucast (b :: byte)) :: u16) :: byte) = a"
  by (rule bit_word_eqI) (auto simp: bit_simps)

lemma le16_write_hi: "(ucast (drop_bit 8 (ucast (a :: byte) OR push_bit 8 (ucast (b :: byte)) :: u16)) :: byte) = b"
  by (rule bit_word_eqI) (auto simp: bit_simps dest: bit_imp_le_length)

interpretation le16: codec16 le16
proof unfold_locales
  fix x :: u16 and r bs :: "byte list"
  show "length (write_to le16 x) = 2" by (simp add: le16_def)
  show "read_from le16 (write_to le16 x @ r) = x"
    by (simp add: le16_def le16_read_write)
  assume "2 \<le> length bs"
  then obtain a b r where "bs = a # b # r"
    by (cases bs; cases "tl bs") auto
  then show "write_to le16 (read_from le16 bs) = take 2 bs"
    using le16_write_lo [of a b] le16_write_hi [of a b] by (simp only: le16_def) simp
qed

end
