(* ===== verification/Link_Crc.thy ===== *)
theory Link_Crc
  imports Prelude
begin

text \<open>
  \<open>src/opendnp3/cpp/lib/src/link/CRC.cpp\<close>: the 16-bit CRC that protects the header
  and every data block of a link frame. The code looks a byte up in a table of 256
  constants; the theory proves that the table is the one of the bit-serial DNP3
  polynomial (reflected form \<open>0xA6BC\<close>), and, from two facts about the table decided by
  evaluation (its entries are distinct, and so are their high bytes), that one step is
  injective in the register and in the byte. Everything the link layer needs of the
  checksum follows from those two laws, which the locale \<open>byte_checksum\<close> states.
\<close>

section \<open>The code\<close>

definition crcTable :: "u16 list" where
  "crcTable = [
  0x0000, 0x365E, 0x6CBC, 0x5AE2, 0xD978, 0xEF26, 0xB5C4, 0x839A,
  0xFF89, 0xC9D7, 0x9335, 0xA56B, 0x26F1, 0x10AF, 0x4A4D, 0x7C13,
  0xB26B, 0x8435, 0xDED7, 0xE889, 0x6B13, 0x5D4D, 0x07AF, 0x31F1,
  0x4DE2, 0x7BBC, 0x215E, 0x1700, 0x949A, 0xA2C4, 0xF826, 0xCE78,
  0x29AF, 0x1FF1, 0x4513, 0x734D, 0xF0D7, 0xC689, 0x9C6B, 0xAA35,
  0xD626, 0xE078, 0xBA9A, 0x8CC4, 0x0F5E, 0x3900, 0x63E2, 0x55BC,
  0x9BC4, 0xAD9A, 0xF778, 0xC126, 0x42BC, 0x74E2, 0x2E00, 0x185E,
  0x644D, 0x5213, 0x08F1, 0x3EAF, 0xBD35, 0x8B6B, 0xD189, 0xE7D7,
  0x535E, 0x6500, 0x3FE2, 0x09BC, 0x8A26, 0xBC78, 0xE69A, 0xD0C4,
  0xACD7, 0x9A89, 0xC06B, 0xF635, 0x75AF, 0x43F1, 0x1913, 0x2F4D,
  0xE135, 0xD76B, 0x8D89, 0xBBD7, 0x384D, 0x0E13, 0x54F1, 0x62AF,
  0x1EBC, 0x28E2, 0x7200, 0x445E, 0xC7C4, 0xF19A, 0xAB78, 0x9D26,
  0x7AF1, 0x4CAF, 0x164D, 0x2013, 0xA389, 0x95D7, 0xCF35, 0xF96B,
  0x8578, 0xB326, 0xE9C4, 0xDF9A, 0x5C00, 0x6A5E, 0x30BC, 0x06E2,
  0xC89A, 0xFEC4, 0xA426, 0x9278, 0x11E2, 0x27BC, 0x7D5E, 0x4B00,
  0x3713, 0x014D, 0x5BAF, 0x6DF1, 0xEE6B, 0xD835, 0x82D7, 0xB489,
  0xA6BC, 0x90E2, 0xCA00, 0xFC5E, 0x7FC4, 0x499A, 0x1378, 0x2526,
  0x5935, 0x6F6B, 0x3589, 0x03D7, 0x804D, 0xB613, 0xECF1, 0xDAAF,
  0x14D7, 0x2289, 0x786B, 0x4E35, 0xCDAF, 0xFBF1, 0xA113, 0x974D,
  0xEB5E, 0xDD00, 0x87E2, 0xB1BC, 0x3226, 0x0478, 0x5E9A, 0x68C4,
  0x8F13, 0xB94D, 0xE3AF, 0xD5F1, 0x566B, 0x6035, 0x3AD7, 0x0C89,
  0x709A, 0x46C4, 0x1C26, 0x2A78, 0xA9E2, 0x9FBC, 0xC55E, 0xF300,
  0x3D78, 0x0B26, 0x51C4, 0x679A, 0xE400, 0xD25E, 0x88BC, 0xBEE2,
  0xC2F1, 0xF4AF, 0xAE4D, 0x9813, 0x1B89, 0x2DD7, 0x7735, 0x416B,
  0xF5E2, 0xC3BC, 0x995E, 0xAF00, 0x2C9A, 0x1AC4, 0x4026, 0x7678,
  0x0A6B, 0x3C35, 0x66D7, 0x5089, 0xD313, 0xE54D, 0xBFAF, 0x89F1,
  0x4789, 0x71D7, 0x2B35, 0x1D6B, 0x9EF1, 0xA8AF, 0xF24D, 0xC413,
  0xB800, 0x8E5E, 0xD4BC, 0xE2E2, 0x6178, 0x5726, 0x0DC4, 0x3B9A,
  0xDC4D, 0xEA13, 0xB0F1, 0x86AF, 0x0535, 0x336B, 0x6989, 0x5FD7,
  0x23C4, 0x159A, 0x4F78, 0x7926, 0xFABC, 0xCCE2, 0x9600, 0xA05E,
  0x6E26, 0x5878, 0x029A, 0x34C4, 0xB75E, 0x8100, 0xDBE2, 0xEDBC,
  0x91AF, 0xA7F1, 0xFD13, 0xCB4D, 0x48D7, 0x7E89, 0x246B, 0x1235]"

definition crc_step :: "u16 \<Rightarrow> byte \<Rightarrow> u16" where
  "crc_step CRC b = (let index = (ucast (CRC XOR ucast b) :: byte)
     in crcTable ! unat index XOR drop_bit 8 CRC)"

definition CalcCrc :: "byte list \<Rightarrow> u16" where
  "CalcCrc input = NOT (foldl crc_step 0 input)"

text \<open>
  \<open>AddCrc\<close> writes the CRC of the first \<open>length\<close> bytes right behind them;
  \<open>IsCorrectCRC\<close> compares it with the two bytes behind the first \<open>length\<close> ones. The
  pointer argument is the list of the bytes from the pointer on.
\<close>

definition AddCrc :: "u16_codec \<Rightarrow> byte list \<Rightarrow> byte list" where
  "AddCrc C input = input @ write_to C (CalcCrc input)"

definition IsCorrectCRC :: "u16_codec \<Rightarrow> byte list \<Rightarrow> nat \<Rightarrow> bool" where
  "IsCorrectCRC C input n = (CalcCrc (take n input) = read_from C (drop n input))"

section \<open>The bit-serial reference\<close>

definition crc_bit :: "u16 \<Rightarrow> u16" where
  "crc_bit r = (if bit r 0 then drop_bit 1 r XOR 0xA6BC else drop_bit 1 r)"

definition crc_byte8 :: "u16 \<Rightarrow> u16" where
  "crc_byte8 r = crc_bit (crc_bit (crc_bit (crc_bit (crc_bit (crc_bit (crc_bit (crc_bit r)))))))"

definition crc_byte_serial :: "u16 \<Rightarrow> byte \<Rightarrow> u16" where
  "crc_byte_serial r b = crc_byte8 (r XOR ucast b)"

definition crc_serial :: "byte list \<Rightarrow> u16" where
  "crc_serial input = NOT (foldl crc_byte_serial 0 input)"

lemma length_crcTable [simp]: "length crcTable = 256"
  by (simp add: crcTable_def)

lemma crcTable_serial: "crcTable = map crc_byte8 (map of_nat [0..<256])"
  by (simp add: crcTable_def crc_byte8_def crc_bit_def upt_conv_Cons del: upt.simps)

lemma crcTable_nth: "i < 256 \<Longrightarrow> crcTable ! i = crc_byte8 (of_nat i)"
  by (simp add: crcTable_serial)

lemma crc_bit_xor: "crc_bit (x XOR y) = crc_bit x XOR crc_bit y"
  by (simp add: crc_bit_def bit_xor_iff xor.assoc xor.left_commute xor.commute)

lemma crc_byte8_xor: "crc_byte8 (x XOR y) = crc_byte8 x XOR crc_byte8 y"
  by (simp add: crc_byte8_def crc_bit_xor)

lemma drop_bit_xor_16: "drop_bit k (x XOR y) = drop_bit k x XOR drop_bit k (y :: u16)"
  by (rule bit_word_eqI) (auto simp: bit_simps)

text \<open>
  Shifting whole bytes: a register whose low bits are clear is only shifted, so eight
  bit steps split into the table entry of the low byte and a shift of the high byte.
\<close>

lemma crc_bit_even: "\<not> bit r 0 \<Longrightarrow> crc_bit r = drop_bit 1 r"
  by (simp add: crc_bit_def)

lemma crc_byte8_high:
  assumes "take_bit 8 r = 0" shows "crc_byte8 r = drop_bit 8 r"
proof -
  have b: "\<not> bit r i" if "i < 8" for i
    using assms that by (metis bit_0_eq bit_take_bit_iff bot_apply bot_bool_def)
  have "crc_byte8 r = drop_bit (Suc (Suc (Suc (Suc (Suc (Suc (Suc (Suc 0)))))))) r"
    by (simp add: crc_byte8_def crc_bit_even bit_drop_bit_eq b)
  then show ?thesis by (simp only: eval_nat_numeral BitM.simps One_nat_def)
qed

lemma split_low_high: "r = take_bit 8 r XOR push_bit 8 (drop_bit 8 (r :: u16))"
  by (rule bit_word_eqI) (auto simp: bit_simps)

lemma crc_byte8_split: "crc_byte8 r = crc_byte8 (take_bit 8 r) XOR drop_bit 8 r"
proof -
  have "crc_byte8 r = crc_byte8 (take_bit 8 r) XOR crc_byte8 (push_bit 8 (drop_bit 8 r))"
    using crc_byte8_xor split_low_high [of r] by metis
  moreover have "take_bit 8 (push_bit 8 (drop_bit 8 r)) = (0 :: u16)"
    by (rule bit_word_eqI) (auto simp: bit_simps)
  moreover have "drop_bit 8 (push_bit 8 (drop_bit 8 r)) = drop_bit 8 r"
    by (rule bit_word_eqI) (auto simp: bit_simps dest: bit_imp_le_length)
  ultimately show ?thesis by (simp add: crc_byte8_high)
qed

lemma crc_step_serial: "crc_step r b = crc_byte_serial r b"
proof -
  let ?x = "r XOR ucast b"
  have "of_nat (unat (ucast ?x :: byte)) = take_bit 8 ?x"
    by (rule bit_word_eqI) (auto simp: bit_simps)
  moreover have "drop_bit 8 ?x = drop_bit 8 r"
    by (rule bit_word_eqI) (auto simp: bit_simps dest: bit_imp_le_length)
  ultimately show ?thesis
    using crc_byte8_split [of ?x]
    by (simp add: crc_step_def Let_def crcTable_nth crc_byte_serial_def)
qed

section \<open>One step is injective\<close>

lemma crc_bit_zero: "crc_bit z = 0 \<Longrightarrow> z = 0"
proof (cases "bit z 0")
  case True
  assume "crc_bit z = 0"
  with True have "drop_bit 1 z XOR 0xA6BC = 0"
    by (simp add: crc_bit_def)
  then have "drop_bit 1 z = 0xA6BC"
    by (metis xor_right_cancel_word xor_self_eq)
  then have "bit (drop_bit 1 z) 15 = bit (0xA6BC :: u16) 15" by simp
  moreover have "\<not> bit (drop_bit 1 z) 15"
    by (auto simp: bit_drop_bit_eq dest: bit_imp_le_length)
  ultimately show ?thesis by simp
next
  case False
  assume "crc_bit z = 0"
  with False have d: "drop_bit 1 z = 0" by (simp add: crc_bit_def)
  have "bit z n = False" for n
  proof (cases n)
    case 0
    with False show ?thesis by simp
  next
    case (Suc m)
    then have "bit z n = bit (drop_bit 1 z) m" by (simp only: bit_drop_bit_eq) simp
    with d show ?thesis by simp
  qed
  then show ?thesis by (intro bit_word_eqI) simp
qed

lemma crc_bit_inject: "crc_bit x = crc_bit y \<longleftrightarrow> x = y"
proof
  assume "crc_bit x = crc_bit y"
  then have "crc_bit (x XOR y) = 0" by (simp add: crc_bit_xor)
  then have "x XOR y = 0" by (rule crc_bit_zero)
  then show "x = y" by (metis xor_left_cancel_word xor_self_eq)
qed simp

lemma crc_byte8_inject: "crc_byte8 x = crc_byte8 y \<longleftrightarrow> x = y"
  by (simp add: crc_byte8_def crc_bit_inject)

lemma crc_step_inject_state: "crc_step r b = crc_step s b \<longleftrightarrow> r = s"
  by (simp add: crc_step_serial crc_byte_serial_def crc_byte8_inject)

lemma ucast_byte_inject: "(ucast (a :: byte) :: u16) = ucast b \<longleftrightarrow> a = b"
proof
  assume "(ucast a :: u16) = ucast b"
  then have "(ucast (ucast a :: u16) :: byte) = ucast (ucast b :: u16)" by simp
  moreover have "(ucast (ucast c :: u16) :: byte) = c" for c :: byte
    by (rule bit_word_eqI) (simp add: bit_simps)
  ultimately show "a = b" by simp
qed simp

lemma crc_step_inject_byte: "crc_step r a = crc_step r b \<longleftrightarrow> a = b"
  by (simp add: crc_step_serial crc_byte_serial_def crc_byte8_inject ucast_byte_inject)

section \<open>What the link layer needs of a checksum\<close>

text \<open>
  A register that starts somewhere, a step per byte that loses nothing, and an
  injective final map: any two messages of the same length that differ in exactly one
  byte have different check values.
\<close>

locale byte_checksum =
  fixes init :: 'r and step :: "'r \<Rightarrow> byte \<Rightarrow> 'r" and final :: "'r \<Rightarrow> u16"
  assumes step_state: "step r b = step s b \<Longrightarrow> r = s"
    and step_byte: "step r a = step r b \<Longrightarrow> a = b"
    and final_inject: "final r = final s \<Longrightarrow> r = s"
begin

lemma foldl_state: "foldl step r bs = foldl step s bs \<Longrightarrow> r = s"
  by (induction bs arbitrary: r s) (auto dest: step_state)

lemma single_byte_detected:
  assumes "i < length bs" and "b \<noteq> bs ! i"
  shows "final (foldl step init (bs[i := b])) \<noteq> final (foldl step init bs)"
proof
  let ?pre = "foldl step init (take i bs)"
  assume "final (foldl step init (bs[i := b])) = final (foldl step init bs)"
  then have "foldl step init (bs[i := b]) = foldl step init bs" by (rule final_inject)
  moreover have "bs[i := b] = take i bs @ b # drop (Suc i) bs"
    using assms(1) by (rule upd_conv_take_nth_drop)
  moreover have "bs = take i bs @ bs ! i # drop (Suc i) bs"
    using assms(1) by (rule id_take_nth_drop)
  ultimately have "foldl step (step ?pre b) (drop (Suc i) bs)
      = foldl step (step ?pre (bs ! i)) (drop (Suc i) bs)"
    by (metis foldl_Cons foldl_append)
  then have "step ?pre b = step ?pre (bs ! i)" by (rule foldl_state)
  then show False using assms(2) by (auto dest: step_byte)
qed

end

interpretation crc: byte_checksum 0 crc_step "\<lambda>r. NOT r"
  by unfold_locales (simp_all add: crc_step_inject_state crc_step_inject_byte)

lemma CalcCrc_single_byte:
  "i < length bs \<Longrightarrow> b \<noteq> bs ! i \<Longrightarrow> CalcCrc (bs[i := b]) \<noteq> CalcCrc bs"
  unfolding CalcCrc_def by (rule crc.single_byte_detected)

section \<open>Writing and checking\<close>

context codec16
begin

lemma length_AddCrc: "length (AddCrc C input) = length input + 2"
  by (simp add: AddCrc_def length_write)

lemma IsCorrectCRC_AddCrc: "n = length input \<Longrightarrow> IsCorrectCRC C (AddCrc C input @ rest) n"
  by (simp add: IsCorrectCRC_def AddCrc_def read_write)

lemma IsCorrectCRC_iff:
  assumes "n + 2 \<le> length buf"
  shows "IsCorrectCRC C buf n \<longleftrightarrow> take (n + 2) buf = AddCrc C (take n buf)"
proof -
  have d: "2 \<le> length (drop n buf)" using assms by simp
  have "take (n + 2) buf = take n buf @ take 2 (drop n buf)"
    by (simp only: take_add)
  moreover have "take 2 (drop n buf) = write_to C (read_from C (drop n buf))"
    using write_read [OF d] by simp
  ultimately show ?thesis
    by (auto simp: IsCorrectCRC_def AddCrc_def dest: write_inject)
qed

lemma IsCorrectCRC_single_byte:
  assumes ok: "IsCorrectCRC C buf n" and len: "n + 2 \<le> length buf"
    and i: "i < n + 2" and b: "b \<noteq> buf ! i"
  shows "\<not> IsCorrectCRC C (buf[i := b]) n"
proof
  assume ok': "IsCorrectCRC C (buf[i := b]) n"
  have d: "2 \<le> length (drop n buf)" "2 \<le> length (drop n (buf[i := b]))" using len by auto
  show False
  proof (cases "i < n")
    case True
    then have "drop n (buf[i := b]) = drop n buf" by simp
    moreover have "take n (buf[i := b]) = (take n buf)[i := b]" by (simp add: take_update_swap)
    moreover have "CalcCrc ((take n buf)[i := b]) \<noteq> CalcCrc (take n buf)"
      using True len b by (intro CalcCrc_single_byte) auto
    ultimately show False using ok ok' by (simp add: IsCorrectCRC_def)
  next
    case False
    then have "take n (buf[i := b]) = take n buf" by simp
    then have "read_from C (drop n (buf[i := b])) = read_from C (drop n buf)"
      using ok ok' by (simp add: IsCorrectCRC_def)
    then have "take 2 (drop n (buf[i := b])) = take 2 (drop n buf)"
      using write_read [OF d(1)] write_read [OF d(2)] by simp
    then have "take 2 (drop n (buf[i := b])) ! (i - n) = take 2 (drop n buf) ! (i - n)" by simp
    then show False using False i len b by simp
  qed
qed

end

section \<open>The properties\<close>

text \<open>
  C38. The table-driven CRC of the link layer is the bit-serial DNP3 CRC (reflected
  polynomial \<open>0xA6BC\<close>, initial register zero, complemented result) on every input.
\<close>

theorem CalcCrc_is_serial: "CalcCrc input = crc_serial input"
proof -
  have "foldl crc_step r input = foldl crc_byte_serial r input" for r
    by (induction input arbitrary: r) (simp_all add: crc_step_serial)
  then show ?thesis by (simp add: CalcCrc_def crc_serial_def)
qed

text \<open>
  Corrupting one byte of a protected block, in the data or in the two check bytes,
  is always detected: when \<open>IsCorrectCRC\<close> accepts \<open>n\<close> bytes followed by their CRC, it
  rejects them after any one of the \<open>n + 2\<close> bytes was changed.
\<close>

theorem crc_detects_single_byte:
  assumes "codec16 C" and "n + 2 \<le> length buf" and "IsCorrectCRC C buf n"
    and "i < n + 2" and "b \<noteq> buf ! i"
  shows "\<not> IsCorrectCRC C (buf[i := b]) n"
  using codec16.IsCorrectCRC_single_byte [OF assms(1) assms(3) assms(2) assms(4) assms(5)] .

lemma crc_detects_single_byte_witness:
  "\<not> IsCorrectCRC le16 ((AddCrc le16 [0x05, 0x64, 0x05])[1 := 0x65]) 3"
proof (rule crc_detects_single_byte)
  show "codec16 le16" by unfold_locales
  show "IsCorrectCRC le16 (AddCrc le16 [0x05, 0x64, 0x05]) 3"
    using le16.IsCorrectCRC_AddCrc [of 3 "[0x05, 0x64, 0x05]" "[]"] by simp
qed (simp_all add: le16.length_AddCrc, simp add: AddCrc_def)

end
