(* ===== verification/Link_Frame.thy ===== *)
theory Link_Frame
  imports Link_Crc
begin

text \<open>
  \<open>LinkHeader\<close>, \<open>LinkFunctionSpec\<close>, \<open>Addresses\<close> and \<open>LinkFrame\<close> of
  \<open>src/opendnp3/cpp/lib/src/link\<close>: the ten-byte header, the blocks of at most sixteen
  data bytes with their CRC, the formatting of the frames the link layer sends, and the
  two loops that check and strip the CRCs of a received body.

  A pointer into a buffer is a position in the list of the buffer's bytes. A writable
  sequence (\<open>wseq_t\<close>) is the list of the bytes from its current position on; a formatting
  function returns the formatted bytes, the memory after the write and the number of
  bytes by which it advanced the sequence.
\<close>

section \<open>Function codes and addresses\<close>

datatype LinkFunction =
    PRI_RESET_LINK_STATES
  | PRI_TEST_LINK_STATES
  | PRI_CONFIRMED_USER_DATA
  | PRI_UNCONFIRMED_USER_DATA
  | PRI_REQUEST_LINK_STATUS
  | SEC_ACK
  | SEC_NACK
  | SEC_LINK_STATUS
  | SEC_NOT_SUPPORTED
  | INVALID

fun LinkFunction_to_type :: "LinkFunction \<Rightarrow> byte" where
  "LinkFunction_to_type PRI_RESET_LINK_STATES = 0x40"
| "LinkFunction_to_type PRI_TEST_LINK_STATES = 0x42"
| "LinkFunction_to_type PRI_CONFIRMED_USER_DATA = 0x43"
| "LinkFunction_to_type PRI_UNCONFIRMED_USER_DATA = 0x44"
| "LinkFunction_to_type PRI_REQUEST_LINK_STATUS = 0x49"
| "LinkFunction_to_type SEC_ACK = 0x0"
| "LinkFunction_to_type SEC_NACK = 0x1"
| "LinkFunction_to_type SEC_LINK_STATUS = 0xB"
| "LinkFunction_to_type SEC_NOT_SUPPORTED = 0xF"
| "LinkFunction_to_type INVALID = 0xFF"

definition LinkFunction_from_type :: "byte \<Rightarrow> LinkFunction" where
  "LinkFunction_from_type arg =
     (if arg = 0x40 then PRI_RESET_LINK_STATES
      else if arg = 0x42 then PRI_TEST_LINK_STATES
      else if arg = 0x43 then PRI_CONFIRMED_USER_DATA
      else if arg = 0x44 then PRI_UNCONFIRMED_USER_DATA
      else if arg = 0x49 then PRI_REQUEST_LINK_STATUS
      else if arg = 0x0 then SEC_ACK
      else if arg = 0x1 then SEC_NACK
      else if arg = 0xB then SEC_LINK_STATUS
      else if arg = 0xF then SEC_NOT_SUPPORTED
      else INVALID)"

fun LinkFunction_to_string :: "LinkFunction \<Rightarrow> string" where
  "LinkFunction_to_string PRI_RESET_LINK_STATES = ''PRI_RESET_LINK_STATES''"
| "LinkFunction_to_string PRI_TEST_LINK_STATES = ''PRI_TEST_LINK_STATES''"
| "LinkFunction_to_string PRI_CONFIRMED_USER_DATA = ''PRI_CONFIRMED_USER_DATA''"
| "LinkFunction_to_string PRI_UNCONFIRMED_USER_DATA = ''PRI_UNCONFIRMED_USER_DATA''"
| "LinkFunction_to_string PRI_REQUEST_LINK_STATUS = ''PRI_REQUEST_LINK_STATUS''"
| "LinkFunction_to_string SEC_ACK = ''SEC_ACK''"
| "LinkFunction_to_string SEC_NACK = ''SEC_NACK''"
| "LinkFunction_to_string SEC_LINK_STATUS = ''SEC_LINK_STATUS''"
| "LinkFunction_to_string SEC_NOT_SUPPORTED = ''SEC_NOT_SUPPORTED''"
| "LinkFunction_to_string INVALID = ''INVALID''"

definition LinkFunction_from_string :: "string \<Rightarrow> LinkFunction" where
  "LinkFunction_from_string arg =
     (if arg = ''PRI_RESET_LINK_STATES'' then PRI_RESET_LINK_STATES
      else if arg = ''PRI_TEST_LINK_STATES'' then PRI_TEST_LINK_STATES
      else if arg = ''PRI_CONFIRMED_USER_DATA'' then PRI_CONFIRMED_USER_DATA
      else if arg = ''PRI_UNCONFIRMED_USER_DATA'' then PRI_UNCONFIRMED_USER_DATA
      else if arg = ''PRI_REQUEST_LINK_STATUS'' then PRI_REQUEST_LINK_STATUS
      else if arg = ''SEC_ACK'' then SEC_ACK
      else if arg = ''SEC_NACK'' then SEC_NACK
      else if arg = ''SEC_LINK_STATUS'' then SEC_LINK_STATUS
      else if arg = ''SEC_NOT_SUPPORTED'' then SEC_NOT_SUPPORTED
      else INVALID)"

record Addresses =
  source :: u16
  destination :: u16

definition Reverse :: "Addresses \<Rightarrow> Addresses" where
  "Reverse a = \<lparr> source = destination a, destination = source a \<rparr>"

definition IsBroadcast :: "Addresses \<Rightarrow> bool" where
  "IsBroadcast a \<longleftrightarrow> destination a = 0xFFFD \<or> destination a = 0xFFFE \<or> destination a = 0xFFFF"

record LinkHeaderFields =
  func :: LinkFunction
  isFromMaster :: bool
  fcb :: bool
  fcvdfc :: bool
  addresses :: Addresses

section \<open>The header\<close>

definition LPDU_MIN_LENGTH :: nat where "LPDU_MIN_LENGTH = 5"
definition LPDU_HEADER_SIZE :: nat where "LPDU_HEADER_SIZE = 10"
definition LPDU_DATA_BLOCK_SIZE :: nat where "LPDU_DATA_BLOCK_SIZE = 16"
definition LPDU_CRC_SIZE :: nat where "LPDU_CRC_SIZE = 2"
definition LPDU_DATA_PLUS_CRC_SIZE :: nat where "LPDU_DATA_PLUS_CRC_SIZE = 18"
definition LPDU_MAX_USER_DATA_SIZE :: nat where "LPDU_MAX_USER_DATA_SIZE = 250"
definition LPDU_MAX_FRAME_SIZE :: nat where "LPDU_MAX_FRAME_SIZE = 292"

lemmas lpdu_consts [simp] = LPDU_MIN_LENGTH_def LPDU_HEADER_SIZE_def LPDU_DATA_BLOCK_SIZE_def
  LPDU_CRC_SIZE_def LPDU_DATA_PLUS_CRC_SIZE_def LPDU_MAX_USER_DATA_SIZE_def LPDU_MAX_FRAME_SIZE_def

record LinkHeader =
  hlength :: byte
  hsrc :: u16
  hdest :: u16
  hctrl :: byte

definition MASK_DIR :: byte where "MASK_DIR = 0x80"
definition MASK_PRM :: byte where "MASK_PRM = 0x40"
definition MASK_FCB :: byte where "MASK_FCB = 0x20"
definition MASK_FCV :: byte where "MASK_FCV = 0x10"
definition MASK_FUNC :: byte where "MASK_FUNC = 0x0F"
definition MASK_FUNC_OR_PRM :: byte where "MASK_FUNC_OR_PRM = MASK_PRM OR MASK_FUNC"

lemmas mask_defs = MASK_DIR_def MASK_PRM_def MASK_FCB_def MASK_FCV_def MASK_FUNC_def MASK_FUNC_OR_PRM_def

definition ControlByte :: "bool \<Rightarrow> bool \<Rightarrow> bool \<Rightarrow> LinkFunction \<Rightarrow> byte" where
  "ControlByte aIsMaster aFcb aFcvDfc aFunc =
     (let ret = LinkFunction_to_type aFunc;
          ret = (if aIsMaster then ret OR MASK_DIR else ret);
          ret = (if aFcb then ret OR MASK_FCB else ret);
          ret = (if aFcvDfc then ret OR MASK_FCV else ret)
      in ret)"

definition LinkHeader_Set :: "byte \<Rightarrow> u16 \<Rightarrow> u16 \<Rightarrow> bool \<Rightarrow> bool \<Rightarrow> bool \<Rightarrow> LinkFunction \<Rightarrow> LinkHeader" where
  "LinkHeader_Set aLen aSrc aDest aFromMaster aFcvDfc aFcb aCode =
     \<lparr> hlength = aLen, hsrc = aSrc, hdest = aDest, hctrl = ControlByte aFromMaster aFcb aFcvDfc aCode \<rparr>"

definition ChangeFCB :: "LinkHeader \<Rightarrow> bool \<Rightarrow> LinkHeader" where
  "ChangeFCB h aFCB =
     (if aFCB then h\<lparr>hctrl := hctrl h OR MASK_FCB\<rparr> else h\<lparr>hctrl := hctrl h AND NOT MASK_FCB\<rparr>)"

definition IsFromMaster :: "LinkHeader \<Rightarrow> bool" where
  "IsFromMaster h \<longleftrightarrow> hctrl h AND MASK_DIR \<noteq> 0"
definition IsPriToSec :: "LinkHeader \<Rightarrow> bool" where
  "IsPriToSec h \<longleftrightarrow> hctrl h AND MASK_PRM \<noteq> 0"
definition IsFcbSet :: "LinkHeader \<Rightarrow> bool" where
  "IsFcbSet h \<longleftrightarrow> hctrl h AND MASK_FCB \<noteq> 0"
definition IsFcvDfcSet :: "LinkHeader \<Rightarrow> bool" where
  "IsFcvDfcSet h \<longleftrightarrow> hctrl h AND MASK_FCV \<noteq> 0"
definition GetFuncByte :: "LinkHeader \<Rightarrow> byte" where
  "GetFuncByte h = hctrl h AND MASK_FUNC"
definition GetFuncEnum :: "LinkHeader \<Rightarrow> LinkFunction" where
  "GetFuncEnum h = LinkFunction_from_type (hctrl h AND MASK_FUNC_OR_PRM)"
definition ValidLength :: "LinkHeader \<Rightarrow> bool" where
  "ValidLength h \<longleftrightarrow> hlength h > 4"

definition LinkHeader_Read :: "u16_codec \<Rightarrow> byte list \<Rightarrow> LinkHeader" where
  "LinkHeader_Read C apBuff =
     \<lparr> hlength = apBuff ! 2,
       hsrc = read_from C (drop 2 (take 4 (drop 4 apBuff))),
       hdest = read_from C (take 4 (drop 4 apBuff)),
       hctrl = apBuff ! 3 \<rparr>"

definition LinkHeader_Write :: "u16_codec \<Rightarrow> LinkHeader \<Rightarrow> byte list \<Rightarrow> byte list" where
  "LinkHeader_Write C h apBuff =
     AddCrc C ([0x05, 0x64, hlength h, hctrl h] @ write_to C (hdest h) @ write_to C (hsrc h))
       @ drop 10 apBuff"

section \<open>Blocks of user data\<close>

fun ReadUserData :: "byte list \<Rightarrow> nat \<Rightarrow> nat \<Rightarrow> nat \<Rightarrow> byte list" where
  "ReadUserData mem pRead pWrite len =
     (if len > 0 then
        let num = (if len \<le> LPDU_DATA_BLOCK_SIZE then len else LPDU_DATA_BLOCK_SIZE);
            num_with_crc = num + 2;
            mem = take pWrite mem @ take num (drop pRead mem) @ drop (pWrite + num) mem
        in ReadUserData mem (pRead + num_with_crc) (pWrite + num) (len - num)
      else mem)"

fun ValidateBodyCRC :: "u16_codec \<Rightarrow> byte list \<Rightarrow> nat \<Rightarrow> bool" where
  "ValidateBodyCRC C pBody len =
     (if len > 0 then
        let num = (if len \<le> LPDU_DATA_BLOCK_SIZE then len else LPDU_DATA_BLOCK_SIZE)
        in if IsCorrectCRC C pBody num
           then ValidateBodyCRC C (drop (num + 2) pBody) (len - num)
           else False
      else True)"

definition CalcUserDataSize :: "nat \<Rightarrow> nat" where
  "CalcUserDataSize dataLength =
     (if dataLength > 0 then
        let mod16 = dataLength mod LPDU_DATA_BLOCK_SIZE;
            size = (dataLength div LPDU_DATA_BLOCK_SIZE) * LPDU_DATA_PLUS_CRC_SIZE
        in if mod16 > 0 then size + mod16 + LPDU_CRC_SIZE else size
      else 0)"

definition CalcFrameSize :: "nat \<Rightarrow> nat" where
  "CalcFrameSize dataLength = LPDU_HEADER_SIZE + CalcUserDataSize dataLength"

fun WriteUserData :: "u16_codec \<Rightarrow> byte list \<Rightarrow> byte list \<Rightarrow> nat \<Rightarrow> byte list" where
  "WriteUserData C pSrc pDest len =
     (if len > 0 then
        let num = (if len > LPDU_DATA_BLOCK_SIZE then LPDU_DATA_BLOCK_SIZE else len)
        in AddCrc C (take num pSrc)
             @ WriteUserData C (drop num pSrc) (drop (num + 2) pDest) (len - num)
      else pDest)"

declare ReadUserData.simps [simp del] ValidateBodyCRC.simps [simp del] WriteUserData.simps [simp del]

section \<open>Formatting\<close>

definition FormatHeader ::
  "u16_codec \<Rightarrow> byte list \<Rightarrow> byte \<Rightarrow> bool \<Rightarrow> bool \<Rightarrow> bool \<Rightarrow> LinkFunction \<Rightarrow> u16 \<Rightarrow> u16
    \<Rightarrow> byte list \<times> byte list \<times> nat" where
  "FormatHeader C buffer aDataLength aIsMaster aFcb aFcvDfc aFuncCode aDest aSrc =
     (if length buffer < LPDU_HEADER_SIZE then ([], buffer, 0)
      else let header = LinkHeader_Set (aDataLength + of_nat LPDU_MIN_LENGTH) aSrc aDest
                          aIsMaster aFcvDfc aFcb aFuncCode;
               mem = LinkHeader_Write C header buffer
           in (take 10 mem, mem, 10))"

definition FormatAck :: "u16_codec \<Rightarrow> byte list \<Rightarrow> bool \<Rightarrow> bool \<Rightarrow> u16 \<Rightarrow> u16 \<Rightarrow> byte list \<times> byte list \<times> nat" where
  "FormatAck C buffer aIsMaster aIsRcvBuffFull aDest aSrc =
     FormatHeader C buffer 0 aIsMaster False aIsRcvBuffFull SEC_ACK aDest aSrc"

definition FormatNack :: "u16_codec \<Rightarrow> byte list \<Rightarrow> bool \<Rightarrow> bool \<Rightarrow> u16 \<Rightarrow> u16 \<Rightarrow> byte list \<times> byte list \<times> nat" where
  "FormatNack C buffer aIsMaster aIsRcvBuffFull aDest aSrc =
     FormatHeader C buffer 0 aIsMaster False aIsRcvBuffFull SEC_NACK aDest aSrc"

definition FormatLinkStatus :: "u16_codec \<Rightarrow> byte list \<Rightarrow> bool \<Rightarrow> bool \<Rightarrow> u16 \<Rightarrow> u16 \<Rightarrow> byte list \<times> byte list \<times> nat" where
  "FormatLinkStatus C buffer aIsMaster aIsRcvBuffFull aDest aSrc =
     FormatHeader C buffer 0 aIsMaster False aIsRcvBuffFull SEC_LINK_STATUS aDest aSrc"

definition FormatNotSupported :: "u16_codec \<Rightarrow> byte list \<Rightarrow> bool \<Rightarrow> bool \<Rightarrow> u16 \<Rightarrow> u16 \<Rightarrow> byte list \<times> byte list \<times> nat" where
  "FormatNotSupported C buffer aIsMaster aIsRcvBuffFull aDest aSrc =
     FormatHeader C buffer 0 aIsMaster False aIsRcvBuffFull SEC_NOT_SUPPORTED aDest aSrc"

definition FormatResetLinkStates :: "u16_codec \<Rightarrow> byte list \<Rightarrow> bool \<Rightarrow> u16 \<Rightarrow> u16 \<Rightarrow> byte list \<times> byte list \<times> nat" where
  "FormatResetLinkStates C buffer aIsMaster aDest aSrc =
     FormatHeader C buffer 0 aIsMaster False False PRI_RESET_LINK_STATES aDest aSrc"

definition FormatRequestLinkStatus :: "u16_codec \<Rightarrow> byte list \<Rightarrow> bool \<Rightarrow> u16 \<Rightarrow> u16 \<Rightarrow> byte list \<times> byte list \<times> nat" where
  "FormatRequestLinkStatus C buffer aIsMaster aDest aSrc =
     FormatHeader C buffer 0 aIsMaster False False PRI_REQUEST_LINK_STATUS aDest aSrc"

definition FormatTestLinkStatus :: "u16_codec \<Rightarrow> byte list \<Rightarrow> bool \<Rightarrow> bool \<Rightarrow> u16 \<Rightarrow> u16 \<Rightarrow> byte list \<times> byte list \<times> nat" where
  "FormatTestLinkStatus C buffer aIsMaster aFcb aDest aSrc =
     FormatHeader C buffer 0 aIsMaster aFcb True PRI_TEST_LINK_STATES aDest aSrc"

definition FormatConfirmedUserData ::
  "u16_codec \<Rightarrow> byte list \<Rightarrow> bool \<Rightarrow> bool \<Rightarrow> u16 \<Rightarrow> u16 \<Rightarrow> byte list \<Rightarrow> byte list \<times> byte list \<times> nat" where
  "FormatConfirmedUserData C buffer aIsMaster aFcb aDest aSrc user_data =
     (if length user_data > LPDU_MAX_USER_DATA_SIZE then ([], buffer, 0)
      else let userDataSize = CalcUserDataSize (length user_data);
               (_, mem, adv) = FormatHeader C buffer (of_nat (length user_data)) aIsMaster aFcb True
                                 PRI_CONFIRMED_USER_DATA aDest aSrc;
               mem = take adv mem @ WriteUserData C user_data (drop adv mem) (length user_data)
           in (take (userDataSize + LPDU_HEADER_SIZE) mem, mem, adv + userDataSize))"

definition FormatUnconfirmedUserData ::
  "u16_codec \<Rightarrow> byte list \<Rightarrow> bool \<Rightarrow> u16 \<Rightarrow> u16 \<Rightarrow> byte list \<Rightarrow> byte list \<times> byte list \<times> nat" where
  "FormatUnconfirmedUserData C buffer aIsMaster aDest aSrc user_data =
     (if length user_data > LPDU_MAX_USER_DATA_SIZE then ([], buffer, 0)
      else let userDataSize = CalcUserDataSize (length user_data);
               (_, mem, adv) = FormatHeader C buffer (of_nat (length user_data)) aIsMaster False False
                                 PRI_UNCONFIRMED_USER_DATA aDest aSrc;
               mem = take adv mem @ WriteUserData C user_data (drop adv mem) (length user_data)
           in (take (userDataSize + LPDU_HEADER_SIZE) mem, mem, adv + userDataSize))"

section \<open>Codes and masks\<close>

lemma LinkFunction_roundtrip [simp]: "LinkFunction_from_type (LinkFunction_to_type f) = f"
  by (cases f) (simp_all add: LinkFunction_from_type_def)

lemma LinkFunction_string_roundtrip: "LinkFunction_from_string (LinkFunction_to_string f) = f"
  by (cases f) (simp_all add: LinkFunction_from_string_def)

lemma GetFuncEnum_ControlByte:
  "f \<noteq> INVALID \<Longrightarrow> hctrl h = ControlByte m b v f \<Longrightarrow> GetFuncEnum h = f"
  by (cases f; cases m; cases b; cases v)
     (simp_all add: GetFuncEnum_def ControlByte_def mask_defs LinkFunction_from_type_def)

lemma flags_ControlByte:
  assumes "f \<noteq> INVALID" and "hctrl h = ControlByte m b v f"
  shows "IsFromMaster h = m" and "IsFcbSet h = b" and "IsFcvDfcSet h = v"
    and "IsPriToSec h \<longleftrightarrow> f \<in> {PRI_RESET_LINK_STATES, PRI_TEST_LINK_STATES, PRI_CONFIRMED_USER_DATA,
                                 PRI_UNCONFIRMED_USER_DATA, PRI_REQUEST_LINK_STATUS}"
  using assms
  by (cases f; cases m; cases b; cases v;
      simp add: IsFromMaster_def IsFcbSet_def IsFcvDfcSet_def IsPriToSec_def ControlByte_def mask_defs)+

section \<open>Reading back what was written\<close>

context codec16
begin

lemma LinkHeader_Write_take:
  "take 10 (LinkHeader_Write C h buf) =
     AddCrc C ([0x05, 0x64, hlength h, hctrl h] @ write_to C (hdest h) @ write_to C (hsrc h))"
  by (simp add: LinkHeader_Write_def AddCrc_def length_write)

lemma length_LinkHeader_Write: "10 \<le> length buf \<Longrightarrow> length (LinkHeader_Write C h buf) = length buf"
  by (simp add: LinkHeader_Write_def AddCrc_def length_write)

lemma LinkHeader_Read_Write: "LinkHeader_Read C (LinkHeader_Write C h buf) = h"
  by (simp add: LinkHeader_Read_def LinkHeader_Write_def AddCrc_def length_write read_write
      read_write_exact drop_write take_Cons' numeral_eq_Suc)

lemma LinkHeader_Write_crc: "IsCorrectCRC C (LinkHeader_Write C h buf) 8"
  unfolding LinkHeader_Write_def by (rule IsCorrectCRC_AddCrc) (simp add: length_write)

end
section \<open>The blocks of a body\<close>

text \<open>The reference for the received body: the data bytes without the CRCs.\<close>

fun body_data :: "byte list \<Rightarrow> nat \<Rightarrow> byte list" where
  "body_data b n = (if n > 0 then take (min n 16) b @ body_data (drop (min n 16 + 2) b) (n - min n 16) else [])"

declare body_data.simps [simp del]

lemma CalcUserDataSize_0 [simp]: "CalcUserDataSize 0 = 0"
  by (simp add: CalcUserDataSize_def)

lemma CalcUserDataSize_small: "0 < n \<Longrightarrow> n \<le> 16 \<Longrightarrow> CalcUserDataSize n = n + 2"
  by (cases "n = 16") (simp_all add: CalcUserDataSize_def)

lemma CalcUserDataSize_block: "16 < n \<Longrightarrow> CalcUserDataSize n = 18 + CalcUserDataSize (n - 16)"
proof -
  assume n: "16 < n"
  have "n div 16 = Suc ((n - 16) div 16)" using n by (simp add: le_div_geq)
  moreover have "n mod 16 = (n - 16) mod 16" using n by (simp add: le_mod_geq)
  ultimately show ?thesis using n by (simp add: CalcUserDataSize_def Let_def)
qed

lemma CalcUserDataSize_step:
  "0 < n \<Longrightarrow> CalcUserDataSize n = (min n 16 + 2) + CalcUserDataSize (n - min n 16)"
  by (cases "n \<le> 16") (simp_all add: CalcUserDataSize_small CalcUserDataSize_block)

lemma CalcUserDataSize_ge: "n \<le> CalcUserDataSize n"
proof (induction n rule: less_induct)
  case (less n)
  show ?case
  proof (cases "n = 0")
    case False
    with less.IH [of "n - min n 16"] show ?thesis by (simp add: CalcUserDataSize_step)
  qed simp
qed

lemma CalcUserDataSize_bound: "n \<le> 250 \<Longrightarrow> CalcUserDataSize n \<le> 282"
proof -
  assume n: "n \<le> 250"
  then have "n div 16 \<le> 15" by simp
  moreover have "16 * (n div 16) + n mod 16 = n" by simp
  ultimately have "n div 16 * 18 + n mod 16 \<le> 280" using n by linarith
  then show ?thesis by (simp add: CalcUserDataSize_def Let_def)
qed

lemma body_data_0 [simp]: "body_data b 0 = []"
  by (simp add: body_data.simps)

lemma body_data_step:
  "0 < n \<Longrightarrow> body_data b n = take (min n 16) b @ body_data (drop (min n 16 + 2) b) (n - min n 16)"
  by (simp add: body_data.simps)

lemma length_body_data: "CalcUserDataSize n \<le> length b \<Longrightarrow> length (body_data b n) = n"
proof (induction b n rule: body_data.induct)
  case (1 b n)
  show ?case
  proof (cases "0 < n")
    case True
    with 1 show ?thesis by (auto simp: body_data_step CalcUserDataSize_step)
  qed simp
qed

lemma block_min: "(if n \<le> LPDU_DATA_BLOCK_SIZE then n else LPDU_DATA_BLOCK_SIZE) = min n 16"
  "(if n > LPDU_DATA_BLOCK_SIZE then LPDU_DATA_BLOCK_SIZE else n) = min n 16"
  by auto

lemma ReadUserData_step:
  "0 < n \<Longrightarrow> ReadUserData mem r w n =
     ReadUserData (take w mem @ take (min n 16) (drop r mem) @ drop (w + min n 16) mem)
       (r + (min n 16 + 2)) (w + min n 16) (n - min n 16)"
  by (subst ReadUserData.simps) (simp only: block_min Let_def if_True)

lemma ValidateBodyCRC_step:
  "0 < n \<Longrightarrow> ValidateBodyCRC C b n \<longleftrightarrow>
     IsCorrectCRC C b (min n 16) \<and> ValidateBodyCRC C (drop (min n 16 + 2) b) (n - min n 16)"
  by (subst ValidateBodyCRC.simps) (simp only: block_min Let_def if_True, auto)

lemma WriteUserData_step:
  "0 < n \<Longrightarrow> WriteUserData C src dst n =
     AddCrc C (take (min n 16) src)
       @ WriteUserData C (drop (min n 16) src) (drop (min n 16 + 2) dst) (n - min n 16)"
  by (subst WriteUserData.simps) (simp only: block_min Let_def if_True)

lemma block_loop_0 [simp]:
  "ReadUserData mem r w 0 = mem" "ValidateBodyCRC C b 0" "WriteUserData C src dst 0 = dst"
  by (simp_all add: ReadUserData.simps ValidateBodyCRC.simps WriteUserData.simps)

text \<open>
  The copy runs inside one array, from behind a write position that never overtakes the
  read position, so it delivers the bytes that were there when it started and leaves
  everything outside the written range alone.
\<close>

lemma ReadUserData_in_place:
  "w \<le> r \<Longrightarrow> r + CalcUserDataSize n \<le> length mem \<Longrightarrow>
   ReadUserData mem r w n = take w mem @ body_data (drop r mem) n @ drop (w + n) mem"
proof (induction n arbitrary: mem r w rule: less_induct)
  case (less n)
  show ?case
  proof (cases "0 < n")
    case True
    define k where "k = min n 16"
    have k: "0 < k" "k \<le> n" using True by (auto simp: k_def)
    have sz: "r + (k + 2) + CalcUserDataSize (n - k) \<le> length mem"
      using less.prems(2) CalcUserDataSize_step [OF True] by (simp add: k_def)
    let ?mem = "take w mem @ take k (drop r mem) @ drop (w + k) mem"
    have pre: "length (take w mem) = w" "length (take k (drop r mem)) = k"
      using less.prems sz by auto
    have len: "length ?mem = length mem"
      using less.prems sz by simp
    have dr: "drop (r + (k + 2)) ?mem = drop (r + (k + 2)) mem"
      using pre less.prems(1) by simp
    have "ReadUserData mem r w n = ReadUserData ?mem (r + (k + 2)) (w + k) (n - k)"
      using ReadUserData_step [OF True] by (simp add: k_def)
    also have "\<dots> = take (w + k) ?mem @ body_data (drop (r + (k + 2)) ?mem) (n - k)
        @ drop (w + k + (n - k)) ?mem"
      using less.IH [of "n - k" "w + k" "r + (k + 2)" ?mem] k less.prems(1) sz len by simp
    also have "take (w + k) ?mem = take w mem @ take k (drop r mem)"
      using pre by simp
    also have "drop (w + k + (n - k)) ?mem = drop (w + n) mem"
      using pre k by (simp add: add.commute)
    also have "body_data (drop (r + (k + 2)) ?mem) (n - k) = body_data (drop (k + 2) (drop r mem)) (n - k)"
      by (simp only: dr drop_drop) (simp add: add.commute)
    finally show ?thesis
      using body_data_step [OF True, of "drop r mem"] by (simp add: k_def)
  qed simp
qed

context codec16
begin

lemma WriteUserData_valid:
  "length src = n \<Longrightarrow> ValidateBodyCRC C (WriteUserData C src dst n) n"
proof (induction n arbitrary: src dst rule: less_induct)
  case (less n)
  show ?case
  proof (cases "0 < n")
    case True
    then show ?thesis
      using less by (simp add: ValidateBodyCRC_step WriteUserData_step IsCorrectCRC_AddCrc length_AddCrc)
  qed simp
qed

lemma WriteUserData_data: "length src = n \<Longrightarrow> body_data (WriteUserData C src dst n) n = src"
proof (induction n arbitrary: src dst rule: less_induct)
  case (less n)
  show ?case
  proof (cases "0 < n")
    case True
    then have "take (min n 16) (AddCrc C (take (min n 16) src) @ z) = take (min n 16) src" for z
      using less.prems by (simp add: AddCrc_def)
    with True show ?thesis
      using less by (simp add: body_data_step WriteUserData_step length_AddCrc)
  qed (use less in simp)
qed

lemma WriteUserData_append:
  "length src = n \<Longrightarrow> WriteUserData C src dst n = WriteUserData C src [] n @ drop (CalcUserDataSize n) dst"
proof (induction n arbitrary: src dst rule: less_induct)
  case (less n)
  show ?case
  proof (cases "0 < n")
    case True
    with less.IH [of "n - min n 16" "drop (min n 16) src" "drop (min n 16 + 2) dst"] less.prems
    show ?thesis
      by (simp add: WriteUserData_step CalcUserDataSize_step add.commute)
  qed simp
qed

lemma length_WriteUserData:
  "length src = n \<Longrightarrow> length (WriteUserData C src [] n) = CalcUserDataSize n"
proof (induction n arbitrary: src rule: less_induct)
  case (less n)
  show ?case
  proof (cases "0 < n")
    case True
    with less show ?thesis
      by (simp add: WriteUserData_step CalcUserDataSize_step length_AddCrc)
  qed simp
qed

lemma ValidateBodyCRC_sound:
  "CalcUserDataSize n \<le> length b \<Longrightarrow> ValidateBodyCRC C b n
    \<Longrightarrow> take (CalcUserDataSize n) b = WriteUserData C (body_data b n) [] n"
proof (induction n arbitrary: b rule: less_induct)
  case (less n)
  show ?case
  proof (cases "0 < n")
    case True
    define k where "k = min n 16"
    have k: "0 < k" "k \<le> n" using True by (auto simp: k_def)
    have sz: "CalcUserDataSize n = (k + 2) + CalcUserDataSize (n - k)"
      using CalcUserDataSize_step [OF True] by (simp add: k_def)
    have v: "IsCorrectCRC C b k" "ValidateBodyCRC C (drop (k + 2) b) (n - k)"
      using less.prems(2) True by (simp_all add: ValidateBodyCRC_step k_def)
    have l: "k + 2 \<le> length b" using less.prems(1) sz by simp
    have "take (CalcUserDataSize n) b = take (k + 2) b @ take (CalcUserDataSize (n - k)) (drop (k + 2) b)"
      by (simp only: sz take_add)
    also have "take (k + 2) b = AddCrc C (take k b)"
      using v(1) IsCorrectCRC_iff [OF l] by simp
    also have "take (CalcUserDataSize (n - k)) (drop (k + 2) b)
        = WriteUserData C (body_data (drop (k + 2) b) (n - k)) [] (n - k)"
      using less.IH [of "n - k" "drop (k + 2) b"] k less.prems(1) sz v(2) by simp
    finally show ?thesis
      using True l by (simp add: WriteUserData_step body_data_step k_def)
  qed simp
qed

end
end
