(* ===== verification/Util_Time.thy ===== *)
theory Util_Time
  imports Prelude
begin

text \<open>
  \<open>TimeDuration\<close> and \<open>Timestamp\<close> (\<open>lib/src/util/TimeDuration.cpp\<close>, \<open>Timestamp.cpp\<close>). Both wrap
  the 64-bit signed tick count of \<open>std::chrono::steady_clock\<close>, whose tick is one nanosecond
  in the standard library of the target (a Raspberry Pi with GCC). The counts are
  64-bit words read with \<open>sint\<close>; additions are machine additions, so that the guards
  the code puts before them are what keeps the results in range.

  The lemmas show where these guards work (the constructors and the addition clamp to the
  representable range) and where they do not: the range test of the subtraction overflows
  itself.
\<close>

type_synonym i64 = "64 word"

definition I64_MAX :: i64 where "I64_MAX = 0x7FFFFFFFFFFFFFFF"
definition I64_MIN :: i64 where "I64_MIN = 0x8000000000000000"

definition TimeDuration_Min :: i64 where "TimeDuration_Min = I64_MIN"
definition TimeDuration_Max :: i64 where "TimeDuration_Max = I64_MAX"
definition TimeDuration_Zero :: i64 where "TimeDuration_Zero = 0"
definition Timestamp_Min :: i64 where "Timestamp_Min = I64_MIN"
definition Timestamp_Max :: i64 where "Timestamp_Max = I64_MAX"

text \<open>
  \<open>FromValue\<close> is a template over the unit; \<open>f\<close> is the number of ticks in one unit, and the
  two bounds are the truncating casts of the extreme durations to the unit.
\<close>

definition FromValue :: "nat \<Rightarrow> i64 \<Rightarrow> i64" where
  "FromValue f v =
     (let hi = sint I64_MAX div int f;
          lo = - (- sint I64_MIN div int f)
      in if sint v > hi then I64_MAX
         else if sint v < lo then I64_MIN
         else v * of_nat f)"

definition Milliseconds :: "i64 \<Rightarrow> i64" where "Milliseconds v = FromValue 1000000 v"
definition Seconds :: "i64 \<Rightarrow> i64" where "Seconds v = FromValue 1000000000 v"
definition Minutes :: "i64 \<Rightarrow> i64" where "Minutes v = FromValue 60000000000 v"

definition Double :: "i64 \<Rightarrow> i64" where
  "Double d = (if sint d \<ge> sint I64_MAX div 2 then TimeDuration_Max else d + d)"

definition IsNegative :: "i64 \<Rightarrow> bool" where "IsNegative d = (sint d < sint TimeDuration_Zero)"

definition Timestamp_plus :: "i64 \<Rightarrow> i64 \<Rightarrow> i64" where
  "Timestamp_plus t d =
     (let maximum = I64_MAX - t in if sint d \<ge> sint maximum then Timestamp_Max else t + d)"

definition Timestamp_minus :: "i64 \<Rightarrow> i64 \<Rightarrow> i64" where
  "Timestamp_minus t d =
     (let maximum = t - I64_MIN in if sint d \<ge> sint maximum then Timestamp_Min else t - d)"

definition Timestamp_diff :: "i64 \<Rightarrow> i64 \<Rightarrow> i64" where "Timestamp_diff t u = t - u"

section \<open>Ranges\<close>

lemma sint_extreme [simp]:
  "sint I64_MAX = 9223372036854775807" "sint I64_MIN = - 9223372036854775808"
  by (simp_all add: I64_MAX_def I64_MIN_def)

lemma sint_range: "- 9223372036854775808 \<le> sint (x :: i64)" "sint (x :: i64) \<le> 9223372036854775807"
  using sint_greater_eq [of x] sint_less [of x] by simp_all

lemma sint_eqI: "- 9223372036854775808 \<le> k \<Longrightarrow> k \<le> 9223372036854775807 \<Longrightarrow> sint (word_of_int k :: i64) = k"
  by (simp add: sint_sbintrunc' signed_take_bit_int_eq_self)

lemma sint_add_exact:
  "- 9223372036854775808 \<le> sint x + sint y \<Longrightarrow> sint x + sint y \<le> 9223372036854775807 \<Longrightarrow>
   sint (x + y :: i64) = sint x + sint y"
  using sint_eqI [of "sint x + sint y"] by simp

lemma sint_diff_exact:
  "- 9223372036854775808 \<le> sint x - sint y \<Longrightarrow> sint x - sint y \<le> 9223372036854775807 \<Longrightarrow>
   sint (x - y :: i64) = sint x - sint y"
  using sint_eqI [of "sint x - sint y"] by simp

lemma sint_mult_exact:
  "- 9223372036854775808 \<le> sint x * k \<Longrightarrow> sint x * k \<le> 9223372036854775807 \<Longrightarrow>
   sint (x * word_of_int k :: i64) = sint x * k"
  using sint_eqI [of "sint x * k"] by simp

definition clamp :: "int \<Rightarrow> int" where
  "clamp k = max (- 9223372036854775808) (min 9223372036854775807 k)"

lemma div_less_mult: "0 < k \<Longrightarrow> m div k < v \<Longrightarrow> m < v * (k :: int)"
  by (metis less_le_not_le linorder_not_less nonzero_mult_div_cancel_right zdiv_mono1)

lemma le_div_mult: "0 < k \<Longrightarrow> v \<le> m div k \<Longrightarrow> v * k \<le> (m :: int)"
  by (metis div_less_mult linorder_not_less minus_mod_eq_div_mult mult_right_mono order_less_imp_le
      pos_mod_sign le_diff_eq diff_add_cancel order_trans add_increasing2)

lemma FromValue_clamp:
  assumes "1 < f"
  shows "sint (FromValue f v) = clamp (sint v * int f)"
proof -
  have f: "1 < int f" using assms by simp
  consider "sint v > 9223372036854775807 div int f" | "sint v < - (9223372036854775808 div int f)"
    | "- (9223372036854775808 div int f) \<le> sint v" "sint v \<le> 9223372036854775807 div int f" by linarith
  then show ?thesis
  proof cases
    case 1
    then have "9223372036854775807 < sint v * int f" using f div_less_mult by simp
    with 1 show ?thesis by (simp add: FromValue_def clamp_def)
  next
    case 2
    then have "9223372036854775808 div int f < - sint v" by linarith
    then have "9223372036854775808 < - sint v * int f" using f div_less_mult [of "int f" 9223372036854775808 "- sint v"] by linarith
    moreover have "\<not> sint v > 9223372036854775807 div int f"
      using 2 f pos_imp_zdiv_nonneg_iff [of "int f" 9223372036854775807]
        pos_imp_zdiv_nonneg_iff [of "int f" 9223372036854775808] by linarith
    ultimately show ?thesis using 2 by (simp add: FromValue_def clamp_def)
  next
    case 3
    have u: "sint v * int f \<le> 9223372036854775807"
      using 3(2) f le_div_mult by simp
    have "- sint v \<le> 9223372036854775808 div int f" using 3(1) by linarith
    then have "- sint v * int f \<le> 9223372036854775808"
      using f le_div_mult [of "int f" "- sint v" 9223372036854775808] by linarith
    then have l: "- 9223372036854775808 \<le> sint v * int f" by simp
    have "of_nat f = (word_of_int (int f) :: i64)" by simp
    then have "sint (v * of_nat f) = sint v * int f" using sint_mult_exact [OF l u] by simp
    then show ?thesis using 3 l u by (simp add: FromValue_def clamp_def)
  qed
qed

lemma Double_grows: "0 \<le> sint d \<Longrightarrow> sint d \<le> sint (Double d)"
  using sint_add_exact [of d d] sint_range [of d]
  by (simp add: Double_def TimeDuration_Max_def)

lemma plus_clamp:
  assumes "0 \<le> sint t"
  shows "sint (Timestamp_plus t d) = min 9223372036854775807 (sint t + sint d)"
proof -
  have "sint (I64_MAX - t) = 9223372036854775807 - sint t"
    using sint_diff_exact [of I64_MAX t] assms sint_range [of t] by simp
  then show ?thesis
    using assms sint_add_exact [of t d] sint_range [of d]
    by (auto simp: Timestamp_plus_def Timestamp_Max_def Let_def min_def)
qed

lemma min_distance_overflows:
  assumes "0 \<le> sint t"
  shows "sint (t - I64_MIN) = sint t - 9223372036854775808"
proof -
  have "t - I64_MIN = t + I64_MIN" by (simp only: diff_conv_add_uminus I64_MIN_def) simp
  moreover have "sint (t + I64_MIN) = sint t - 9223372036854775808"
    using sint_add_exact [of t I64_MIN] assms sint_range [of t] by simp
  ultimately show ?thesis by (simp only:)
qed

section \<open>The properties\<close>

text \<open>
  The constructors of durations never overflow: a count of milliseconds, seconds or
  minutes is converted to ticks exactly, or clamped to the largest or smallest duration.
\<close>

theorem durations_are_clamped:
  "sint (Milliseconds v) = clamp (sint v * 1000000) \<and> sint (Seconds v) = clamp (sint v * 1000000000)
   \<and> sint (Minutes v) = clamp (sint v * 60000000000)"
  by (simp add: Milliseconds_def Seconds_def Minutes_def FromValue_clamp)

text \<open>
  Adding a duration to a time of the steady clock saturates: the result is the exact sum
  or the largest time, so that a deadline is never in the past because of an overflow.
\<close>

theorem timestamp_plus_saturates:
  assumes "0 \<le> sint t"
  shows "sint (Timestamp_plus t d) = min 9223372036854775807 (sint t + sint d)"
  using assms by (rule plus_clamp)

lemma timestamp_plus_saturates_witness:
  "sint (Timestamp_plus 5 I64_MAX) = min 9223372036854775807 (sint (5 :: i64) + sint I64_MAX)"
  by (rule timestamp_plus_saturates) simp

text \<open>
  The subtraction of a duration from a time does not subtract: its range test computes the
  distance to the smallest time, which overflows for every time that is not before the
  epoch, so that the result is the smallest time whatever non-negative duration is taken.
\<close>

theorem timestamp_minus_collapses:
  assumes "0 \<le> sint t" and "0 \<le> sint d"
  shows "Timestamp_minus t d = Timestamp_Min"
  using assms min_distance_overflows [OF assms(1)] sint_range [of t]
  by (simp add: Timestamp_minus_def Let_def)

lemma timestamp_minus_collapses_witness: "Timestamp_minus 1000 1 = Timestamp_Min"
  by (rule timestamp_minus_collapses) simp_all

end
