(* ===== verification/Link_Context.thy ===== *)
theory Link_Context
  imports Link_Frame Util_Time
begin

text \<open>
  The state machine of the data link layer: \<open>LinkContext.cpp\<close>, \<open>PriLinkLayerStates.cpp\<close>,
  \<open>SecLinkLayerStates.cpp\<close> and \<open>LinkLayer.cpp\<close> of \<open>lib/src/link\<close>.

  The record \<open>LinkContext\<close> has the fields of the C++ class. The singleton state objects are
  the constructors of two enumerations, and a virtual method is a function that selects
  the override by the state. What the context calls on other objects (the channel, the
  upper layer, the listener, the executor's queue) is appended to the field \<open>events\<close> in
  the order of the calls; the upper layer's own reaction to a call is a later event. The
  clock of the executor is the field \<open>executor_time\<close>; a timer field holds the argument it
  was last started with.

  A pending transmission is a reference into one of the two frame buffers. It is modelled
  as the length of the prefix it refers to, so that overwriting the buffer changes the
  bytes that are transmitted later, as in the code.

  The object behind \<open>pSegments\<close> implements \<open>ITransportSegment\<close>; its operations are the
  argument \<open>I\<close> and its state is the field \<open>segments\<close>. Using the pointer when it is null is
  undefined in C++; it is recorded as the event \<open>NullSegments\<close>, and the invariant shows
  that it never happens.
\<close>

section \<open>Data\<close>

record LinkLayerConfig =
  IsMaster :: bool
  LocalAddr :: u16
  RemoteAddr :: u16
  Timeout :: i64
  KeepAliveTimeout :: i64
  respondToAnySource :: bool

definition LinkConfig_default :: "bool \<Rightarrow> bool \<Rightarrow> LinkLayerConfig" where
  "LinkConfig_default isMaster anySource =
     \<lparr>IsMaster = isMaster, LocalAddr = (if isMaster then 1 else 1024),
      RemoteAddr = (if isMaster then 1024 else 1),
      Timeout = Seconds 1, KeepAliveTimeout = Minutes 1, respondToAnySource = anySource\<rparr>"

record LinkStatistics =
  numUnexpectedFrame :: "64 word"
  numBadMasterBit :: "64 word"
  numUnknownDestination :: "64 word"
  numUnknownSource :: "64 word"

datatype LinkTransmitMode = TxIdle | TxPrimary | TxSecondary

datatype PriState = PLLS_Idle | PLLS_SendUnconfirmedTransmitWait | PLLS_RequestLinkStatusWait

datatype SecState = SLLS_NotReset | SLLS_Reset | SLLS_TransmitWaitReset | SLLS_TransmitWaitNotReset

datatype LinkAction =
    ChannelBeginTransmit "byte list"
  | UpperOnLowerLayerUp
  | UpperOnLowerLayerDown
  | UpperOnReceive Addresses "byte list"
  | PostUpperOnTxReady
  | ListenerOnStateChangeUnreset
  | ListenerOnKeepAliveInitiated
  | ListenerOnKeepAliveFailure
  | ListenerOnKeepAliveSuccess
  | ListenerOnUnknownDestinationAddress u16
  | ListenerOnUnknownSourceAddress u16
  | NullSegments

record 'seg ITransportSegment =
  seg_GetAddresses :: "'seg \<Rightarrow> Addresses"
  seg_HasValue :: "'seg \<Rightarrow> bool"
  seg_GetSegment :: "'seg \<Rightarrow> byte list \<times> 'seg"
  seg_Advance :: "'seg \<Rightarrow> bool \<times> 'seg"

record 'seg LinkContext =
  config :: LinkLayerConfig
  priTxBuffer :: "byte list"
  secTxBuffer :: "byte list"
  pendingPriTx :: "nat option"
  pendingSecTx :: "nat option"
  pSegments :: bool
  segments :: 'seg
  txMode :: LinkTransmitMode
  executor_time :: i64
  rspTimeoutTimer :: "i64 option"
  keepAliveTimer :: "i64 option"
  nextReadFCB :: bool
  isOnline :: bool
  keepAliveTimeout :: bool
  lastMessageTimestamp :: i64
  link_stats :: LinkStatistics
  pPriState :: PriState
  pSecState :: SecState
  events :: "LinkAction list"

definition LinkContext_init :: "LinkLayerConfig \<Rightarrow> byte list \<Rightarrow> byte list \<Rightarrow> i64 \<Rightarrow> 'seg \<Rightarrow> 'seg LinkContext" where
  "LinkContext_init cfg priMem secMem now seg =
     \<lparr>config = cfg, priTxBuffer = priMem, secTxBuffer = secMem, pendingPriTx = None, pendingSecTx = None,
      pSegments = False, segments = seg, txMode = TxIdle, executor_time = now, rspTimeoutTimer = None,
      keepAliveTimer = None, nextReadFCB = False, isOnline = False, keepAliveTimeout = False,
      lastMessageTimestamp = now, link_stats = \<lparr>numUnexpectedFrame = 0, numBadMasterBit = 0,
        numUnknownDestination = 0, numUnknownSource = 0\<rparr>,
      pPriState = PLLS_Idle, pSecState = SLLS_NotReset, events = []\<rparr>"

definition emit :: "LinkAction \<Rightarrow> 'seg LinkContext \<Rightarrow> 'seg LinkContext" where
  "emit a ctx = ctx\<lparr>events := events ctx @ [a]\<rparr>"

definition count_unexpected :: "'seg LinkContext \<Rightarrow> 'seg LinkContext" where
  "count_unexpected ctx =
     ctx\<lparr>link_stats := (link_stats ctx)\<lparr>numUnexpectedFrame := numUnexpectedFrame (link_stats ctx) + 1\<rparr>\<rparr>"

section \<open>Operations of the context\<close>

definition ResetReadFCB :: "'seg LinkContext \<Rightarrow> 'seg LinkContext" where
  "ResetReadFCB ctx = ctx\<lparr>nextReadFCB := True\<rparr>"

definition ToggleReadFCB :: "'seg LinkContext \<Rightarrow> 'seg LinkContext" where
  "ToggleReadFCB ctx = ctx\<lparr>nextReadFCB := \<not> nextReadFCB ctx\<rparr>"

definition tx_slice :: "'seg LinkContext \<Rightarrow> bool \<Rightarrow> nat \<Rightarrow> byte list" where
  "tx_slice ctx primary n = take n (if primary then priTxBuffer ctx else secTxBuffer ctx)"

definition tx_mode :: "bool \<Rightarrow> LinkTransmitMode" where
  "tx_mode primary = (if primary then TxPrimary else TxSecondary)"

definition QueueTransmit :: "'seg LinkContext \<Rightarrow> nat \<Rightarrow> bool \<Rightarrow> 'seg LinkContext" where
  "QueueTransmit ctx n primary =
     (if txMode ctx = TxIdle
      then emit (ChannelBeginTransmit (tx_slice ctx primary n)) (ctx\<lparr>txMode := tx_mode primary\<rparr>)
      else if primary then ctx\<lparr>pendingPriTx := Some n\<rparr>
      else ctx\<lparr>pendingSecTx := Some n\<rparr>)"

definition TryPendingTx :: "'seg LinkContext \<Rightarrow> bool \<Rightarrow> bool \<times> 'seg LinkContext" where
  "TryPendingTx ctx primary =
     (case (if primary then pendingPriTx ctx else pendingSecTx ctx) of
        Some n \<Rightarrow>
          if txMode ctx = TxIdle
          then let ctx = emit (ChannelBeginTransmit (tx_slice ctx primary n)) ctx;
                   ctx = (if primary then ctx\<lparr>pendingPriTx := None\<rparr> else ctx\<lparr>pendingSecTx := None\<rparr>)
               in (True, ctx\<lparr>txMode := tx_mode primary\<rparr>)
          else (False, ctx)
      | None \<Rightarrow> (False, ctx))"

definition FormatPrimaryBufferWithUnconfirmed ::
  "u16_codec \<Rightarrow> 'seg LinkContext \<Rightarrow> Addresses \<Rightarrow> byte list \<Rightarrow> nat \<times> 'seg LinkContext" where
  "FormatPrimaryBufferWithUnconfirmed C ctx addr tpdu =
     (let (output, mem, _) = FormatUnconfirmedUserData C (priTxBuffer ctx) (IsMaster (config ctx))
                               (destination addr) (source addr) tpdu
      in (length output, ctx\<lparr>priTxBuffer := mem\<rparr>))"

definition QueueAck :: "u16_codec \<Rightarrow> 'seg LinkContext \<Rightarrow> u16 \<Rightarrow> 'seg LinkContext" where
  "QueueAck C ctx dest =
     (let (buffer, mem, _) = FormatAck C (secTxBuffer ctx) (IsMaster (config ctx)) False dest (LocalAddr (config ctx))
      in QueueTransmit (ctx\<lparr>secTxBuffer := mem\<rparr>) (length buffer) False)"

definition QueueLinkStatus :: "u16_codec \<Rightarrow> 'seg LinkContext \<Rightarrow> u16 \<Rightarrow> 'seg LinkContext" where
  "QueueLinkStatus C ctx dest =
     (let (buffer, mem, _) = FormatLinkStatus C (secTxBuffer ctx) (IsMaster (config ctx)) False dest (LocalAddr (config ctx))
      in QueueTransmit (ctx\<lparr>secTxBuffer := mem\<rparr>) (length buffer) False)"

definition QueueRequestLinkStatus :: "u16_codec \<Rightarrow> 'seg LinkContext \<Rightarrow> u16 \<Rightarrow> 'seg LinkContext" where
  "QueueRequestLinkStatus C ctx dest =
     (let (buffer, mem, _) = FormatRequestLinkStatus C (priTxBuffer ctx) (IsMaster (config ctx)) dest (LocalAddr (config ctx))
      in QueueTransmit (ctx\<lparr>priTxBuffer := mem\<rparr>) (length buffer) True)"

definition PushDataUp :: "'seg LinkContext \<Rightarrow> Addresses \<Rightarrow> byte list \<Rightarrow> 'seg LinkContext" where
  "PushDataUp ctx addr payload = emit (UpperOnReceive addr payload) ctx"

definition CompleteSendOperation :: "'seg LinkContext \<Rightarrow> 'seg LinkContext" where
  "CompleteSendOperation ctx = emit PostUpperOnTxReady (ctx\<lparr>pSegments := False\<rparr>)"

definition StartResponseTimer :: "'seg LinkContext \<Rightarrow> 'seg LinkContext" where
  "StartResponseTimer ctx = ctx\<lparr>rspTimeoutTimer := Some (Timeout (config ctx))\<rparr>"

definition CancelTimer :: "'seg LinkContext \<Rightarrow> 'seg LinkContext" where
  "CancelTimer ctx = ctx\<lparr>rspTimeoutTimer := None\<rparr>"

definition RestartKeepAliveTimer :: "'seg LinkContext \<Rightarrow> 'seg LinkContext" where
  "RestartKeepAliveTimer ctx =
     (let ctx = ctx\<lparr>keepAliveTimer := None, lastMessageTimestamp := executor_time ctx\<rparr>
      in ctx\<lparr>keepAliveTimer := Some (Timestamp_plus (lastMessageTimestamp ctx) (KeepAliveTimeout (config ctx)))\<rparr>)"

definition FailKeepAlive :: "'seg LinkContext \<Rightarrow> bool \<Rightarrow> 'seg LinkContext" where
  "FailKeepAlive ctx timeout = (if timeout then emit ListenerOnKeepAliveFailure ctx else ctx)"

definition CompleteKeepAlive :: "'seg LinkContext \<Rightarrow> 'seg LinkContext" where
  "CompleteKeepAlive ctx = emit ListenerOnKeepAliveSuccess ctx"

definition SetTxSegment :: "'seg LinkContext \<Rightarrow> bool \<times> 'seg LinkContext" where
  "SetTxSegment ctx =
     (if \<not> isOnline ctx then (False, ctx)
      else if pSegments ctx then (False, ctx)
      else (True, ctx\<lparr>pSegments := True\<rparr>))"

definition LinkContext_OnLowerLayerUp :: "'seg LinkContext \<Rightarrow> bool \<times> 'seg LinkContext" where
  "LinkContext_OnLowerLayerUp ctx =
     (if isOnline ctx then (False, ctx)
      else let ctx = ctx\<lparr>isOnline := True\<rparr>;
               ctx = RestartKeepAliveTimer ctx;
               ctx = emit ListenerOnStateChangeUnreset ctx
           in (True, emit UpperOnLowerLayerUp ctx))"

definition LinkContext_OnLowerLayerDown :: "'seg LinkContext \<Rightarrow> bool \<times> 'seg LinkContext" where
  "LinkContext_OnLowerLayerDown ctx =
     (if \<not> isOnline ctx then (False, ctx)
      else let ctx = ctx\<lparr>isOnline := False, keepAliveTimeout := False, pSegments := False, txMode := TxIdle,
                         pendingPriTx := None, pendingSecTx := None, rspTimeoutTimer := None,
                         keepAliveTimer := None, pPriState := PLLS_Idle, pSecState := SLLS_NotReset\<rparr>;
               ctx = emit ListenerOnStateChangeUnreset ctx
           in (True, emit UpperOnLowerLayerDown ctx))"

section \<open>Primary station states\<close>

definition PriStateBase_OnAck :: "'seg LinkContext \<Rightarrow> PriState \<times> 'seg LinkContext" where
  "PriStateBase_OnAck ctx = (pPriState ctx, count_unexpected ctx)"

definition PriStateBase_OnNack :: "'seg LinkContext \<Rightarrow> PriState \<times> 'seg LinkContext" where
  "PriStateBase_OnNack ctx = (pPriState ctx, count_unexpected ctx)"

definition PriStateBase_OnLinkStatus :: "'seg LinkContext \<Rightarrow> PriState \<times> 'seg LinkContext" where
  "PriStateBase_OnLinkStatus ctx = (pPriState ctx, count_unexpected ctx)"

definition PriStateBase_OnNotSupported :: "'seg LinkContext \<Rightarrow> PriState \<times> 'seg LinkContext" where
  "PriStateBase_OnNotSupported ctx = (pPriState ctx, count_unexpected ctx)"

definition PriStateBase_OnTxReady :: "'seg LinkContext \<Rightarrow> PriState \<times> 'seg LinkContext" where
  "PriStateBase_OnTxReady ctx = (pPriState ctx, ctx)"

definition PriStateBase_OnTimeout :: "'seg LinkContext \<Rightarrow> PriState \<times> 'seg LinkContext" where
  "PriStateBase_OnTimeout ctx = (pPriState ctx, ctx)"

definition PriStateBase_TrySendUnconfirmed :: "'seg LinkContext \<Rightarrow> PriState \<times> 'seg LinkContext" where
  "PriStateBase_TrySendUnconfirmed ctx = (pPriState ctx, ctx)"

definition PriStateBase_TrySendRequestLinkStatus :: "'seg LinkContext \<Rightarrow> PriState \<times> 'seg LinkContext" where
  "PriStateBase_TrySendRequestLinkStatus ctx = (pPriState ctx, ctx)"

definition send_segment :: "u16_codec \<Rightarrow> 'seg ITransportSegment \<Rightarrow> 'seg LinkContext \<Rightarrow> 'seg LinkContext" where
  "send_segment C I ctx =
     (let (tpdu, seg) = seg_GetSegment I (segments ctx);
          ctx = ctx\<lparr>segments := seg\<rparr>;
          (output, ctx) = FormatPrimaryBufferWithUnconfirmed C ctx (seg_GetAddresses I (segments ctx)) tpdu
      in QueueTransmit ctx output True)"

definition PLLS_Idle_TrySendUnconfirmed ::
  "u16_codec \<Rightarrow> 'seg ITransportSegment \<Rightarrow> 'seg LinkContext \<Rightarrow> PriState \<times> 'seg LinkContext" where
  "PLLS_Idle_TrySendUnconfirmed C I ctx = (PLLS_SendUnconfirmedTransmitWait, send_segment C I ctx)"

definition PLLS_Idle_TrySendRequestLinkStatus ::
  "u16_codec \<Rightarrow> 'seg LinkContext \<Rightarrow> PriState \<times> 'seg LinkContext" where
  "PLLS_Idle_TrySendRequestLinkStatus C ctx =
     (let ctx = ctx\<lparr>keepAliveTimeout := False\<rparr>;
          ctx = QueueRequestLinkStatus C ctx (RemoteAddr (config ctx));
          ctx = emit ListenerOnKeepAliveInitiated ctx;
          ctx = StartResponseTimer ctx
      in (PLLS_RequestLinkStatusWait, ctx))"

definition PLLS_SendUnconfirmedTransmitWait_OnTxReady ::
  "u16_codec \<Rightarrow> 'seg ITransportSegment \<Rightarrow> 'seg LinkContext \<Rightarrow> PriState \<times> 'seg LinkContext" where
  "PLLS_SendUnconfirmedTransmitWait_OnTxReady C I ctx =
     (if \<not> pSegments ctx then (PLLS_SendUnconfirmedTransmitWait, emit NullSegments ctx)
      else let (again, seg) = seg_Advance I (segments ctx);
               ctx = ctx\<lparr>segments := seg\<rparr>
           in if again then (PLLS_SendUnconfirmedTransmitWait, send_segment C I ctx)
              else (PLLS_Idle, CompleteSendOperation ctx))"

definition PLLS_RequestLinkStatusWait_OnAck :: "'seg LinkContext \<Rightarrow> PriState \<times> 'seg LinkContext" where
  "PLLS_RequestLinkStatusWait_OnAck ctx = (PLLS_Idle, FailKeepAlive (CancelTimer ctx) False)"

definition PLLS_RequestLinkStatusWait_OnNack :: "'seg LinkContext \<Rightarrow> PriState \<times> 'seg LinkContext" where
  "PLLS_RequestLinkStatusWait_OnNack ctx = (PLLS_Idle, FailKeepAlive (CancelTimer ctx) False)"

definition PLLS_RequestLinkStatusWait_OnLinkStatus :: "'seg LinkContext \<Rightarrow> PriState \<times> 'seg LinkContext" where
  "PLLS_RequestLinkStatusWait_OnLinkStatus ctx = (PLLS_Idle, CompleteKeepAlive (CancelTimer ctx))"

definition PLLS_RequestLinkStatusWait_OnNotSupported :: "'seg LinkContext \<Rightarrow> PriState \<times> 'seg LinkContext" where
  "PLLS_RequestLinkStatusWait_OnNotSupported ctx = (PLLS_Idle, FailKeepAlive (CancelTimer ctx) False)"

definition PLLS_RequestLinkStatusWait_OnTxReady :: "'seg LinkContext \<Rightarrow> PriState \<times> 'seg LinkContext" where
  "PLLS_RequestLinkStatusWait_OnTxReady ctx = (PLLS_RequestLinkStatusWait, ctx)"

definition PLLS_RequestLinkStatusWait_OnTimeout :: "'seg LinkContext \<Rightarrow> PriState \<times> 'seg LinkContext" where
  "PLLS_RequestLinkStatusWait_OnTimeout ctx = (PLLS_Idle, FailKeepAlive ctx True)"

text \<open>Dispatch on the current primary state, with the assignment of the returned state.\<close>

definition set_pri :: "PriState \<times> 'seg LinkContext \<Rightarrow> 'seg LinkContext" where
  "set_pri r = (snd r)\<lparr>pPriState := fst r\<rparr>"

definition PriState_OnAck :: "'seg LinkContext \<Rightarrow> 'seg LinkContext" where
  "PriState_OnAck ctx = set_pri (case pPriState ctx of
     PLLS_RequestLinkStatusWait \<Rightarrow> PLLS_RequestLinkStatusWait_OnAck ctx | _ \<Rightarrow> PriStateBase_OnAck ctx)"

definition PriState_OnNack :: "'seg LinkContext \<Rightarrow> 'seg LinkContext" where
  "PriState_OnNack ctx = set_pri (case pPriState ctx of
     PLLS_RequestLinkStatusWait \<Rightarrow> PLLS_RequestLinkStatusWait_OnNack ctx | _ \<Rightarrow> PriStateBase_OnNack ctx)"

definition PriState_OnLinkStatus :: "'seg LinkContext \<Rightarrow> 'seg LinkContext" where
  "PriState_OnLinkStatus ctx = set_pri (case pPriState ctx of
     PLLS_RequestLinkStatusWait \<Rightarrow> PLLS_RequestLinkStatusWait_OnLinkStatus ctx | _ \<Rightarrow> PriStateBase_OnLinkStatus ctx)"

definition PriState_OnNotSupported :: "'seg LinkContext \<Rightarrow> 'seg LinkContext" where
  "PriState_OnNotSupported ctx = set_pri (case pPriState ctx of
     PLLS_RequestLinkStatusWait \<Rightarrow> PLLS_RequestLinkStatusWait_OnNotSupported ctx | _ \<Rightarrow> PriStateBase_OnNotSupported ctx)"

definition PriState_OnTxReady :: "u16_codec \<Rightarrow> 'seg ITransportSegment \<Rightarrow> 'seg LinkContext \<Rightarrow> 'seg LinkContext" where
  "PriState_OnTxReady C I ctx = set_pri (case pPriState ctx of
     PLLS_Idle \<Rightarrow> PriStateBase_OnTxReady ctx
   | PLLS_SendUnconfirmedTransmitWait \<Rightarrow> PLLS_SendUnconfirmedTransmitWait_OnTxReady C I ctx
   | PLLS_RequestLinkStatusWait \<Rightarrow> PLLS_RequestLinkStatusWait_OnTxReady ctx)"

definition PriState_OnTimeout :: "'seg LinkContext \<Rightarrow> 'seg LinkContext" where
  "PriState_OnTimeout ctx = set_pri (case pPriState ctx of
     PLLS_RequestLinkStatusWait \<Rightarrow> PLLS_RequestLinkStatusWait_OnTimeout ctx | _ \<Rightarrow> PriStateBase_OnTimeout ctx)"

definition PriState_TrySendUnconfirmed :: "u16_codec \<Rightarrow> 'seg ITransportSegment \<Rightarrow> 'seg LinkContext \<Rightarrow> 'seg LinkContext" where
  "PriState_TrySendUnconfirmed C I ctx = set_pri (case pPriState ctx of
     PLLS_Idle \<Rightarrow> PLLS_Idle_TrySendUnconfirmed C I ctx | _ \<Rightarrow> PriStateBase_TrySendUnconfirmed ctx)"

definition PriState_TrySendRequestLinkStatus :: "u16_codec \<Rightarrow> 'seg LinkContext \<Rightarrow> 'seg LinkContext" where
  "PriState_TrySendRequestLinkStatus C ctx = set_pri (case pPriState ctx of
     PLLS_Idle \<Rightarrow> PLLS_Idle_TrySendRequestLinkStatus C ctx | _ \<Rightarrow> PriStateBase_TrySendRequestLinkStatus ctx)"

section \<open>Secondary station states\<close>

definition SLLS_NotReset_OnTestLinkStatus :: "'seg LinkContext \<Rightarrow> SecState \<times> 'seg LinkContext" where
  "SLLS_NotReset_OnTestLinkStatus ctx = (SLLS_NotReset, count_unexpected ctx)"

definition SLLS_NotReset_OnConfirmedUserData :: "'seg LinkContext \<Rightarrow> SecState \<times> 'seg LinkContext" where
  "SLLS_NotReset_OnConfirmedUserData ctx = (SLLS_NotReset, count_unexpected ctx)"

definition SLLS_NotReset_OnResetLinkStates :: "u16_codec \<Rightarrow> 'seg LinkContext \<Rightarrow> u16 \<Rightarrow> SecState \<times> 'seg LinkContext" where
  "SLLS_NotReset_OnResetLinkStates C ctx src = (SLLS_TransmitWaitReset, ResetReadFCB (QueueAck C ctx src))"

definition SLLS_NotReset_OnRequestLinkStatus :: "u16_codec \<Rightarrow> 'seg LinkContext \<Rightarrow> u16 \<Rightarrow> SecState \<times> 'seg LinkContext" where
  "SLLS_NotReset_OnRequestLinkStatus C ctx src = (SLLS_TransmitWaitNotReset, QueueLinkStatus C ctx src)"

definition SLLS_Reset_OnTestLinkStatus :: "u16_codec \<Rightarrow> 'seg LinkContext \<Rightarrow> u16 \<Rightarrow> bool \<Rightarrow> SecState \<times> 'seg LinkContext" where
  "SLLS_Reset_OnTestLinkStatus C ctx src aFcb =
     (if nextReadFCB ctx = aFcb then (SLLS_TransmitWaitReset, ToggleReadFCB (QueueAck C ctx src))
      else (SLLS_Reset, ctx))"

definition SLLS_Reset_OnConfirmedUserData ::
  "u16_codec \<Rightarrow> 'seg LinkContext \<Rightarrow> u16 \<Rightarrow> bool \<Rightarrow> bool \<Rightarrow> Addresses \<Rightarrow> byte list \<Rightarrow> SecState \<times> 'seg LinkContext" where
  "SLLS_Reset_OnConfirmedUserData C ctx src aFcb isBroadcast addr payload =
     (let ctx = (if \<not> isBroadcast then QueueAck C ctx src else ctx);
          ctx = (if nextReadFCB ctx = aFcb then PushDataUp (ToggleReadFCB ctx) addr payload else ctx)
      in (SLLS_TransmitWaitReset, ctx))"

definition SLLS_Reset_OnResetLinkStates :: "u16_codec \<Rightarrow> 'seg LinkContext \<Rightarrow> u16 \<Rightarrow> SecState \<times> 'seg LinkContext" where
  "SLLS_Reset_OnResetLinkStates C ctx src = (SLLS_TransmitWaitReset, ResetReadFCB (QueueAck C ctx src))"

definition SLLS_Reset_OnRequestLinkStatus :: "u16_codec \<Rightarrow> 'seg LinkContext \<Rightarrow> u16 \<Rightarrow> SecState \<times> 'seg LinkContext" where
  "SLLS_Reset_OnRequestLinkStatus C ctx src = (SLLS_TransmitWaitReset, QueueLinkStatus C ctx src)"

fun SLLS_TransmitWait_OnTxReady :: "SecState \<Rightarrow> SecState" where
  "SLLS_TransmitWait_OnTxReady SLLS_TransmitWaitReset = SLLS_Reset"
| "SLLS_TransmitWait_OnTxReady SLLS_TransmitWaitNotReset = SLLS_NotReset"
| "SLLS_TransmitWait_OnTxReady SLLS_Reset = SLLS_Reset"
| "SLLS_TransmitWait_OnTxReady SLLS_NotReset = SLLS_NotReset"

definition SLLS_TransmitWait_ignore :: "'seg LinkContext \<Rightarrow> SecState \<times> 'seg LinkContext" where
  "SLLS_TransmitWait_ignore ctx = (pSecState ctx, ctx)"

definition SecStateBase_OnTxReady :: "'seg LinkContext \<Rightarrow> SecState \<times> 'seg LinkContext" where
  "SecStateBase_OnTxReady ctx = (pSecState ctx, ctx)"

definition set_sec :: "SecState \<times> 'seg LinkContext \<Rightarrow> 'seg LinkContext" where
  "set_sec r = (snd r)\<lparr>pSecState := fst r\<rparr>"

definition SecState_OnTestLinkStatus :: "u16_codec \<Rightarrow> 'seg LinkContext \<Rightarrow> u16 \<Rightarrow> bool \<Rightarrow> 'seg LinkContext" where
  "SecState_OnTestLinkStatus C ctx src aFcb = set_sec (case pSecState ctx of
     SLLS_NotReset \<Rightarrow> SLLS_NotReset_OnTestLinkStatus ctx
   | SLLS_Reset \<Rightarrow> SLLS_Reset_OnTestLinkStatus C ctx src aFcb
   | _ \<Rightarrow> SLLS_TransmitWait_ignore ctx)"

definition SecState_OnConfirmedUserData ::
  "u16_codec \<Rightarrow> 'seg LinkContext \<Rightarrow> u16 \<Rightarrow> bool \<Rightarrow> bool \<Rightarrow> Addresses \<Rightarrow> byte list \<Rightarrow> 'seg LinkContext" where
  "SecState_OnConfirmedUserData C ctx src aFcb isBroadcast addr payload = set_sec (case pSecState ctx of
     SLLS_NotReset \<Rightarrow> SLLS_NotReset_OnConfirmedUserData ctx
   | SLLS_Reset \<Rightarrow> SLLS_Reset_OnConfirmedUserData C ctx src aFcb isBroadcast addr payload
   | _ \<Rightarrow> SLLS_TransmitWait_ignore ctx)"

definition SecState_OnResetLinkStates :: "u16_codec \<Rightarrow> 'seg LinkContext \<Rightarrow> u16 \<Rightarrow> 'seg LinkContext" where
  "SecState_OnResetLinkStates C ctx src = set_sec (case pSecState ctx of
     SLLS_NotReset \<Rightarrow> SLLS_NotReset_OnResetLinkStates C ctx src
   | SLLS_Reset \<Rightarrow> SLLS_Reset_OnResetLinkStates C ctx src
   | _ \<Rightarrow> SLLS_TransmitWait_ignore ctx)"

definition SecState_OnRequestLinkStatus :: "u16_codec \<Rightarrow> 'seg LinkContext \<Rightarrow> u16 \<Rightarrow> 'seg LinkContext" where
  "SecState_OnRequestLinkStatus C ctx src = set_sec (case pSecState ctx of
     SLLS_NotReset \<Rightarrow> SLLS_NotReset_OnRequestLinkStatus C ctx src
   | SLLS_Reset \<Rightarrow> SLLS_Reset_OnRequestLinkStatus C ctx src
   | _ \<Rightarrow> SLLS_TransmitWait_ignore ctx)"

definition SecState_OnTxReady :: "'seg LinkContext \<Rightarrow> 'seg LinkContext" where
  "SecState_OnTxReady ctx = set_sec (case pSecState ctx of
     SLLS_TransmitWaitReset \<Rightarrow> (SLLS_TransmitWait_OnTxReady (pSecState ctx), ctx)
   | SLLS_TransmitWaitNotReset \<Rightarrow> (SLLS_TransmitWait_OnTxReady (pSecState ctx), ctx)
   | _ \<Rightarrow> SecStateBase_OnTxReady ctx)"

section \<open>Event handlers of the context\<close>

definition TryStartTransmission :: "u16_codec \<Rightarrow> 'seg ITransportSegment \<Rightarrow> 'seg LinkContext \<Rightarrow> 'seg LinkContext" where
  "TryStartTransmission C I ctx =
     (let ctx = (if keepAliveTimeout ctx then PriState_TrySendRequestLinkStatus C ctx else ctx)
      in if pSegments ctx then PriState_TrySendUnconfirmed C I ctx else ctx)"

definition OnKeepAliveTimeout :: "u16_codec \<Rightarrow> 'seg ITransportSegment \<Rightarrow> 'seg LinkContext \<Rightarrow> 'seg LinkContext" where
  "OnKeepAliveTimeout C I ctx =
     (let elapsed = Timestamp_diff (executor_time ctx) (lastMessageTimestamp ctx);
          ctx = (if sint elapsed \<ge> sint (KeepAliveTimeout (config ctx)) then ctx\<lparr>keepAliveTimeout := True\<rparr> else ctx);
          ctx = RestartKeepAliveTimer ctx
      in TryStartTransmission C I ctx)"

definition OnResponseTimeout :: "u16_codec \<Rightarrow> 'seg ITransportSegment \<Rightarrow> 'seg LinkContext \<Rightarrow> 'seg LinkContext" where
  "OnResponseTimeout C I ctx = TryStartTransmission C I (PriState_OnTimeout ctx)"

definition LinkContext_OnTxReady :: "u16_codec \<Rightarrow> 'seg ITransportSegment \<Rightarrow> 'seg LinkContext \<Rightarrow> bool \<times> 'seg LinkContext" where
  "LinkContext_OnTxReady C I ctx =
     (if txMode ctx = TxIdle then (False, ctx)
      else let isPrimary = (txMode ctx = TxPrimary);
               ctx = ctx\<lparr>txMode := TxIdle\<rparr>;
               ctx = snd (TryPendingTx ctx False);
               ctx = snd (TryPendingTx ctx True)
           in (True, if isPrimary then PriState_OnTxReady C I ctx else SecState_OnTxReady ctx))"

definition dispatch_frame :: "u16_codec \<Rightarrow> 'seg LinkContext \<Rightarrow> LinkHeaderFields \<Rightarrow> byte list \<Rightarrow> 'seg LinkContext" where
  "dispatch_frame C ctx header userdata =
     (case func header of
        SEC_ACK \<Rightarrow> PriState_OnAck ctx
      | SEC_NACK \<Rightarrow> PriState_OnNack ctx
      | SEC_LINK_STATUS \<Rightarrow> PriState_OnLinkStatus ctx
      | SEC_NOT_SUPPORTED \<Rightarrow> PriState_OnNotSupported ctx
      | PRI_TEST_LINK_STATES \<Rightarrow> SecState_OnTestLinkStatus C ctx (source (addresses header)) (fcb header)
      | PRI_RESET_LINK_STATES \<Rightarrow> SecState_OnResetLinkStates C ctx (source (addresses header))
      | PRI_REQUEST_LINK_STATUS \<Rightarrow> SecState_OnRequestLinkStatus C ctx (source (addresses header))
      | PRI_CONFIRMED_USER_DATA \<Rightarrow> SecState_OnConfirmedUserData C ctx (source (addresses header)) (fcb header)
                                     (IsBroadcast (addresses header)) (addresses header) userdata
      | PRI_UNCONFIRMED_USER_DATA \<Rightarrow> PushDataUp ctx (addresses header) userdata
      | INVALID \<Rightarrow> ctx)"

definition LinkContext_OnFrame ::
  "u16_codec \<Rightarrow> 'seg LinkContext \<Rightarrow> LinkHeaderFields \<Rightarrow> byte list \<Rightarrow> bool \<times> 'seg LinkContext" where
  "LinkContext_OnFrame C ctx header userdata =
     (if \<not> isOnline ctx then (False, ctx)
      else if isFromMaster header = IsMaster (config ctx) then
        (False, ctx\<lparr>link_stats := (link_stats ctx)\<lparr>numBadMasterBit := numBadMasterBit (link_stats ctx) + 1\<rparr>\<rparr>)
      else if destination (addresses header) \<noteq> LocalAddr (config ctx) \<and> \<not> IsBroadcast (addresses header) then
        (False, emit (ListenerOnUnknownDestinationAddress (destination (addresses header)))
          (ctx\<lparr>link_stats := (link_stats ctx)\<lparr>numUnknownDestination := numUnknownDestination (link_stats ctx) + 1\<rparr>\<rparr>))
      else if source (addresses header) \<noteq> RemoteAddr (config ctx) \<and> \<not> respondToAnySource (config ctx) then
        (False, emit (ListenerOnUnknownSourceAddress (source (addresses header)))
          (ctx\<lparr>link_stats := (link_stats ctx)\<lparr>numUnknownSource := numUnknownSource (link_stats ctx) + 1\<rparr>\<rparr>))
      else if IsBroadcast (addresses header)
              \<and> \<not> (func header = PRI_UNCONFIRMED_USER_DATA \<or> func header = PRI_CONFIRMED_USER_DATA) then
        (False, count_unexpected ctx)
      else (True, dispatch_frame C (RestartKeepAliveTimer ctx) header userdata))"

section \<open>The link layer\<close>

definition LinkLayer_Send :: "u16_codec \<Rightarrow> 'seg ITransportSegment \<Rightarrow> 'seg LinkContext \<Rightarrow> bool \<times> 'seg LinkContext" where
  "LinkLayer_Send C I ctx =
     (if \<not> isOnline ctx then (False, ctx)
      else let (accepted, ctx) = SetTxSegment ctx
           in (True, if accepted then TryStartTransmission C I ctx else ctx))"

definition LinkLayer_OnTxReady :: "u16_codec \<Rightarrow> 'seg ITransportSegment \<Rightarrow> 'seg LinkContext \<Rightarrow> bool \<times> 'seg LinkContext" where
  "LinkLayer_OnTxReady C I ctx =
     (let (ret, ctx) = LinkContext_OnTxReady C I ctx
      in (True, if ret then TryStartTransmission C I ctx else ctx))"

definition LinkLayer_OnFrame ::
  "u16_codec \<Rightarrow> 'seg ITransportSegment \<Rightarrow> 'seg LinkContext \<Rightarrow> LinkHeaderFields \<Rightarrow> byte list \<Rightarrow> bool \<times> 'seg LinkContext" where
  "LinkLayer_OnFrame C I ctx header userdata =
     (let (ret, ctx) = LinkContext_OnFrame C ctx header userdata
      in (ret, if ret then TryStartTransmission C I ctx else ctx))"

definition LinkLayer_OnLowerLayerUp :: "'seg LinkContext \<Rightarrow> bool \<times> 'seg LinkContext" where
  "LinkLayer_OnLowerLayerUp ctx = LinkContext_OnLowerLayerUp ctx"

definition LinkLayer_OnLowerLayerDown :: "'seg LinkContext \<Rightarrow> bool \<times> 'seg LinkContext" where
  "LinkLayer_OnLowerLayerDown ctx = LinkContext_OnLowerLayerDown ctx"

text \<open>
  The events that reach a link layer: the calls of the channel and of the upper layer, and
  the callbacks of its two timers, which the executor runs with the guard on \<open>isOnline\<close>. A
  callback may run at any time, also after its timer was cancelled, so that nothing below
  relies on how the executor treats a callback that was queued before the cancellation.
  Before it calls \<open>Send\<close> the upper layer brings its segment object to a new state.
\<close>

datatype 'seg LinkEvent =
    EvLowerLayerUp
  | EvLowerLayerDown
  | EvFrame LinkHeaderFields "byte list"
  | EvTxReady
  | EvSend 'seg
  | EvKeepAliveTimer
  | EvResponseTimer

fun link_step :: "u16_codec \<Rightarrow> 'seg ITransportSegment \<Rightarrow> 'seg LinkContext \<Rightarrow> 'seg LinkEvent \<Rightarrow> 'seg LinkContext" where
  "link_step C I ctx EvLowerLayerUp = snd (LinkLayer_OnLowerLayerUp ctx)"
| "link_step C I ctx EvLowerLayerDown = snd (LinkLayer_OnLowerLayerDown ctx)"
| "link_step C I ctx (EvFrame h d) = snd (LinkLayer_OnFrame C I ctx h d)"
| "link_step C I ctx EvTxReady = snd (LinkLayer_OnTxReady C I ctx)"
| "link_step C I ctx (EvSend seg) = snd (LinkLayer_Send C I (ctx\<lparr>segments := seg\<rparr>))"
| "link_step C I ctx EvKeepAliveTimer =
     (let ctx = ctx\<lparr>keepAliveTimer := None\<rparr> in if isOnline ctx then OnKeepAliveTimeout C I ctx else ctx)"
| "link_step C I ctx EvResponseTimer =
     (let ctx = ctx\<lparr>rspTimeoutTimer := None\<rparr> in if isOnline ctx then OnResponseTimeout C I ctx else ctx)"

text \<open>A run: events with the time at which the executor handles them.\<close>

fun link_run :: "u16_codec \<Rightarrow> 'seg ITransportSegment \<Rightarrow> 'seg LinkContext \<Rightarrow> (i64 \<times> 'seg LinkEvent) list \<Rightarrow> 'seg LinkContext" where
  "link_run C I ctx [] = ctx"
| "link_run C I ctx ((t, e) # es) = link_run C I (link_step C I (ctx\<lparr>executor_time := t\<rparr>) e) es"

end
