(* ===== verification/Transport.thy ===== *)
theory Transport
  imports Link_Context
begin

text \<open>
  The transport layer of \<open>lib/src/transport\<close>: the header octet, the 6-bit sequence number
  (\<open>SequenceNum.h\<close>), the transmitter that cuts a message into segments, the receiver that
  reassembles them, and the layer object between the link layer and the application.

  The transmitter implements the interface \<open>ITransportSegment\<close> of the link layer, which holds
  a pointer to it: in the stack its state is the field \<open>segments\<close> of the link context, so
  that the operations of \<open>TransportLayer\<close> take it as an argument. The payload of a message
  is a reference to the application's buffer, which the application keeps unchanged while
  the layer is sending. Calls to the application and to the link layer are the actions
  that an operation returns, in the order of the calls.
\<close>

section \<open>Sequence numbers and the header\<close>

definition SequenceNum_Next :: "byte \<Rightarrow> byte \<Rightarrow> byte" where
  "SequenceNum_Next modulus s = of_nat ((unat s + 1) mod unat modulus)"

abbreviation TransportSeq_Next :: "byte \<Rightarrow> byte" where
  "TransportSeq_Next \<equiv> SequenceNum_Next 64"

definition MAX_TPDU_LENGTH :: nat where "MAX_TPDU_LENGTH = 250"
definition MAX_TPDU_PAYLOAD :: nat where "MAX_TPDU_PAYLOAD = 249"

definition FIN_MASK :: byte where "FIN_MASK = 0x80"
definition FIR_MASK :: byte where "FIR_MASK = 0x40"
definition SEQ_MASK :: byte where "SEQ_MASK = 0x3F"

record TransportHeader =
  th_fir :: bool
  th_fin :: bool
  th_seq :: byte

definition TransportHeader_of :: "byte \<Rightarrow> TransportHeader" where
  "TransportHeader_of b = \<lparr>th_fir = (b AND FIR_MASK \<noteq> 0), th_fin = (b AND FIN_MASK \<noteq> 0), th_seq = b AND SEQ_MASK\<rparr>"

definition TransportHeader_ToByte :: "bool \<Rightarrow> bool \<Rightarrow> byte \<Rightarrow> byte" where
  "TransportHeader_ToByte fir fin s =
     (let hdr = 0;
          hdr = (if fir then hdr OR FIR_MASK else hdr);
          hdr = (if fin then hdr OR FIN_MASK else hdr)
      in hdr OR (SEQ_MASK AND s))"

section \<open>The transmitter\<close>

record Message =
  msg_addresses :: Addresses
  msg_payload :: "byte list"

definition no_message :: Message where
  "no_message = \<lparr>msg_addresses = \<lparr>source = 0, destination = 0\<rparr>, msg_payload = []\<rparr>"

record TransportTx =
  tx_message :: Message
  txSegment :: "nat option"
  tpduBuffer :: "byte list"
  tx_sequence :: byte
  tpduCount :: u32
  numTransportTx :: "64 word"

definition TransportTx_init :: "byte list \<Rightarrow> TransportTx" where
  "TransportTx_init mem = \<lparr>tx_message = no_message, txSegment = None, tpduBuffer = mem, tx_sequence = 0,
     tpduCount = 0, numTransportTx = 0\<rparr>"

definition TransportTx_Configure :: "TransportTx \<Rightarrow> Message \<Rightarrow> TransportTx" where
  "TransportTx_Configure tx message = tx\<lparr>txSegment := None, tx_message := message, tpduCount := 0\<rparr>"

definition TransportTx_HasValue :: "TransportTx \<Rightarrow> bool" where
  "TransportTx_HasValue tx = (length (msg_payload (tx_message tx)) > 0)"

definition TransportTx_GetAddresses :: "TransportTx \<Rightarrow> Addresses" where
  "TransportTx_GetAddresses tx = msg_addresses (tx_message tx)"

definition num_to_send :: "TransportTx \<Rightarrow> nat" where
  "num_to_send tx = (if length (msg_payload (tx_message tx)) < MAX_TPDU_PAYLOAD
                     then length (msg_payload (tx_message tx)) else MAX_TPDU_PAYLOAD)"

definition TransportTx_GetSegment :: "TransportTx \<Rightarrow> byte list \<times> TransportTx" where
  "TransportTx_GetSegment tx =
     (case txSegment tx of
        Some n \<Rightarrow> (take n (tpduBuffer tx), tx)
      | None \<Rightarrow>
          let numToSend = num_to_send tx;
              mem = take 1 (tpduBuffer tx) @ take numToSend (msg_payload (tx_message tx))
                      @ drop (1 + numToSend) (tpduBuffer tx);
              fir = (tpduCount tx = 0);
              fin = (numToSend = length (msg_payload (tx_message tx)));
              mem = mem[0 := TransportHeader_ToByte fir fin (tx_sequence tx)];
              tx = tx\<lparr>tpduBuffer := mem, numTransportTx := numTransportTx tx + 1, txSegment := Some (numToSend + 1)\<rparr>
          in (take (numToSend + 1) mem, tx))"

definition TransportTx_Advance :: "TransportTx \<Rightarrow> bool \<times> TransportTx" where
  "TransportTx_Advance tx =
     (let tx = tx\<lparr>txSegment := None\<rparr>;
          numToSend = num_to_send tx;
          rest = drop numToSend (msg_payload (tx_message tx));
          tx = tx\<lparr>tx_message := (tx_message tx)\<lparr>msg_payload := rest\<rparr>, tpduCount := tpduCount tx + 1,
                   tx_sequence := TransportSeq_Next (tx_sequence tx)\<rparr>
      in (rest \<noteq> [], tx))"

definition TransportTx_segment :: "TransportTx ITransportSegment" where
  "TransportTx_segment = \<lparr>seg_GetAddresses = TransportTx_GetAddresses, seg_HasValue = TransportTx_HasValue,
     seg_GetSegment = TransportTx_GetSegment, seg_Advance = TransportTx_Advance\<rparr>"

section \<open>The receiver\<close>

record TransportRxStatistics =
  numTransportRx :: "64 word"
  numTransportErrorRx :: "64 word"
  numTransportBufferOverflow :: "64 word"
  numTransportDiscard :: "64 word"
  numTransportIgnore :: "64 word"

record TransportRx =
  rx_stats :: TransportRxStatistics
  reassembly :: "byte list"
  numBytesRead :: nat
  lastAddresses :: Addresses
  expectedSeq :: byte

definition TransportRx_init :: "byte list \<Rightarrow> TransportRx" where
  "TransportRx_init mem = \<lparr>rx_stats = \<lparr>numTransportRx = 0, numTransportErrorRx = 0, numTransportBufferOverflow = 0,
     numTransportDiscard = 0, numTransportIgnore = 0\<rparr>, reassembly = mem, numBytesRead = 0,
     lastAddresses = \<lparr>source = 0, destination = 0\<rparr>, expectedSeq = 0\<rparr>"

definition ClearRxBuffer :: "TransportRx \<Rightarrow> TransportRx" where
  "ClearRxBuffer rx = rx\<lparr>numBytesRead := 0\<rparr>"

definition TransportRx_Reset :: "TransportRx \<Rightarrow> TransportRx" where
  "TransportRx_Reset rx = ClearRxBuffer rx"

definition GetAvailable :: "TransportRx \<Rightarrow> nat" where
  "GetAvailable rx = length (reassembly rx) - numBytesRead rx"

definition count_ignore :: "TransportRx \<Rightarrow> TransportRx" where
  "count_ignore rx = rx\<lparr>rx_stats := (rx_stats rx)\<lparr>numTransportIgnore := numTransportIgnore (rx_stats rx) + 1\<rparr>\<rparr>"

definition ProcessReceive :: "TransportRx \<Rightarrow> Message \<Rightarrow> Message \<times> TransportRx" where
  "ProcessReceive rx segment =
     (let rx = rx\<lparr>rx_stats := (rx_stats rx)\<lparr>numTransportRx := numTransportRx (rx_stats rx) + 1\<rparr>\<rparr>
      in case msg_payload segment of
           [] \<Rightarrow> (no_message, rx\<lparr>rx_stats := (rx_stats rx)\<lparr>numTransportErrorRx := numTransportErrorRx (rx_stats rx) + 1\<rparr>\<rparr>)
         | b # payload \<Rightarrow>
             let header = TransportHeader_of b;
                 rx = (if th_fir header \<and> numBytesRead rx > 0
                       then rx\<lparr>rx_stats := (rx_stats rx)\<lparr>numTransportDiscard := numTransportDiscard (rx_stats rx) + 1\<rparr>,
                               numBytesRead := 0\<rparr>
                       else rx)
             in if \<not> th_fir header \<and> numBytesRead rx = 0 then (no_message, count_ignore rx)
                else if \<not> th_fir header \<and> th_seq header \<noteq> expectedSeq rx then (no_message, count_ignore rx)
                else if \<not> th_fir header \<and> msg_addresses segment \<noteq> lastAddresses rx then (no_message, count_ignore rx)
                else if length payload > GetAvailable rx then
                  (no_message, rx\<lparr>rx_stats := (rx_stats rx)\<lparr>numTransportBufferOverflow :=
                                    numTransportBufferOverflow (rx_stats rx) + 1\<rparr>, numBytesRead := 0\<rparr>)
                else let n = numBytesRead rx;
                         mem = take n (reassembly rx) @ payload @ drop (n + length payload) (reassembly rx);
                         rx = rx\<lparr>reassembly := mem, numBytesRead := n + length payload,
                                 lastAddresses := msg_addresses segment,
                                 expectedSeq := TransportSeq_Next (th_seq header)\<rparr>
                     in if th_fin header
                        then (\<lparr>msg_addresses = msg_addresses segment, msg_payload = take (numBytesRead rx) (reassembly rx)\<rparr>,
                              rx\<lparr>numBytesRead := 0\<rparr>)
                        else (no_message, rx))"

section \<open>The layer\<close>

record TransportLayer =
  tl_isOnline :: bool
  tl_isSending :: bool
  tl_upper :: bool
  tl_lower :: bool
  receiver :: TransportRx

datatype TransportAction =
    AppOnReceive Message
  | AppOnTxReady
  | AppOnLowerLayerUp
  | AppOnLowerLayerDown
  | LinkSend

definition TransportLayer_init :: "byte list \<Rightarrow> TransportLayer" where
  "TransportLayer_init mem = \<lparr>tl_isOnline = False, tl_isSending = False, tl_upper = False, tl_lower = False,
     receiver = TransportRx_init mem\<rparr>"

definition SetAppLayer :: "TransportLayer \<Rightarrow> TransportLayer" where
  "SetAppLayer ly = ly\<lparr>tl_upper := True\<rparr>"

definition SetLinkLayer :: "TransportLayer \<Rightarrow> TransportLayer" where
  "SetLinkLayer ly = ly\<lparr>tl_lower := True\<rparr>"

definition TransportLayer_BeginTransmit ::
  "TransportLayer \<Rightarrow> TransportTx \<Rightarrow> Message \<Rightarrow> bool \<times> TransportLayer \<times> TransportTx \<times> TransportAction list" where
  "TransportLayer_BeginTransmit ly tx message =
     (if \<not> tl_isOnline ly then (False, ly, tx, [])
      else if msg_payload message = [] then (False, ly, tx, [])
      else if tl_isSending ly then (False, ly, tx, [])
      else if \<not> tl_lower ly then (False, ly, tx, [])
      else (True, ly\<lparr>tl_isSending := True\<rparr>, TransportTx_Configure tx message, [LinkSend]))"

definition TransportLayer_OnReceive :: "TransportLayer \<Rightarrow> Message \<Rightarrow> bool \<times> TransportLayer \<times> TransportAction list" where
  "TransportLayer_OnReceive ly message =
     (if tl_isOnline ly
      then let (asdu, rx) = ProcessReceive (receiver ly) message
           in (True, ly\<lparr>receiver := rx\<rparr>, if tl_upper ly \<and> msg_payload asdu \<noteq> [] then [AppOnReceive asdu] else [])
      else (False, ly, []))"

definition TransportLayer_OnTxReady :: "TransportLayer \<Rightarrow> bool \<times> TransportLayer \<times> TransportAction list" where
  "TransportLayer_OnTxReady ly =
     (if \<not> tl_isOnline ly then (False, ly, [])
      else if \<not> tl_isSending ly then (False, ly, [])
      else (True, ly\<lparr>tl_isSending := False\<rparr>, if tl_upper ly then [AppOnTxReady] else []))"

definition TransportLayer_OnLowerLayerUp :: "TransportLayer \<Rightarrow> bool \<times> TransportLayer \<times> TransportAction list" where
  "TransportLayer_OnLowerLayerUp ly =
     (if tl_isOnline ly then (False, ly, [])
      else (True, ly\<lparr>tl_isOnline := True\<rparr>, if tl_upper ly then [AppOnLowerLayerUp] else []))"

definition TransportLayer_OnLowerLayerDown :: "TransportLayer \<Rightarrow> bool \<times> TransportLayer \<times> TransportAction list" where
  "TransportLayer_OnLowerLayerDown ly =
     (if \<not> tl_isOnline ly then (False, ly, [])
      else (True, ly\<lparr>tl_isOnline := False, tl_isSending := False, receiver := TransportRx_Reset (receiver ly)\<rparr>,
            if tl_upper ly then [AppOnLowerLayerDown] else []))"

section \<open>The stack\<close>

text \<open>
  \<open>TransportStack\<close>: one transport layer on one link layer. The calls that the link layer makes
  to its upper layer (the tail of its field \<open>events\<close> since the last step) are delivered to the
  transport layer in their order; the completion of a transmission, which the link layer posts
  to the executor, is delivered after the step. An event of the stack is an event of the link
  layer, or the application's request to send a message.
\<close>

record TransportStack =
  transport :: TransportLayer
  link :: "TransportTx LinkContext"
  app_log :: "TransportAction list"

definition TransportStack_init :: "LinkLayerConfig \<Rightarrow> byte list \<Rightarrow> byte list \<Rightarrow> byte list \<Rightarrow> byte list \<Rightarrow> i64 \<Rightarrow> TransportStack" where
  "TransportStack_init cfg priMem secMem tpduMem rxMem now =
     \<lparr>transport = SetLinkLayer (TransportLayer_init rxMem),
      link = LinkContext_init cfg priMem secMem now (TransportTx_init tpduMem), app_log = []\<rparr>"

fun deliver_up :: "TransportLayer \<Rightarrow> LinkAction \<Rightarrow> TransportLayer \<times> TransportAction list" where
  "deliver_up ly UpperOnLowerLayerUp = snd (TransportLayer_OnLowerLayerUp ly)"
| "deliver_up ly UpperOnLowerLayerDown = snd (TransportLayer_OnLowerLayerDown ly)"
| "deliver_up ly (UpperOnReceive ad d) = snd (TransportLayer_OnReceive ly \<lparr>msg_addresses = ad, msg_payload = d\<rparr>)"
| "deliver_up ly PostUpperOnTxReady = snd (TransportLayer_OnTxReady ly)"
| "deliver_up ly a = (ly, [])"

fun deliver_all :: "TransportLayer \<Rightarrow> LinkAction list \<Rightarrow> TransportLayer \<times> TransportAction list" where
  "deliver_all ly [] = (ly, [])"
| "deliver_all ly (a # as) =
     (let (ly, out) = deliver_up ly a; (ly, outs) = deliver_all ly as in (ly, out @ outs))"

definition stack_link_event :: "u16_codec \<Rightarrow> TransportStack \<Rightarrow> TransportTx LinkEvent \<Rightarrow> TransportStack" where
  "stack_link_event C st e =
     (let ln = link_step C TransportTx_segment (link st) e;
          (ly, out) = deliver_all (transport st) (drop (length (events (link st))) (events ln))
      in st\<lparr>link := ln, transport := ly, app_log := app_log st @ out\<rparr>)"

definition stack_send :: "u16_codec \<Rightarrow> TransportStack \<Rightarrow> Message \<Rightarrow> bool \<times> TransportStack" where
  "stack_send C st message =
     (let (ok, ly, tx, acts) = TransportLayer_BeginTransmit (transport st) (segments (link st)) message;
          st = st\<lparr>transport := ly\<rparr>
      in (ok, if acts = [LinkSend] then stack_link_event C st (EvSend tx) else st))"

end
