(* ===== verification/Link_Parser.thy ===== *)
theory Link_Parser
  imports Link_Frame
begin

text \<open>
  \<open>ShiftableBuffer\<close> and \<open>LinkLayerParser\<close> of \<open>src/opendnp3/cpp/lib/src/link\<close>: the
  receive path that turns the bytes of a stream into link frames. The model keeps the
  code's one array of 292 bytes, its read and write positions, the four parser states
  and the counters. \<open>userData\<close> is a view of the front of the array (the code copies
  the data there, over bytes that were read before), so the model stores its length.

  The second half gives the abstract specification \<open>decode\<close>, a function on the byte
  stream alone, and the simulation that ties the parser to it.
\<close>

section \<open>The shiftable buffer and the parser state\<close>

datatype ParserState = FindSync | ReadHeader | ReadBody | Complete

record ParserStatistics =
  numHeaderCrcError :: "64 word"
  numBodyCrcError :: "64 word"
  numLinkFrameRx :: "64 word"
  numBadLength :: "64 word"
  numBadFunctionCode :: "64 word"
  numBadFCV :: "64 word"
  numBadFCB :: "64 word"

record LinkLayerParser =
  rxBuffer :: "byte list"
  writePos :: nat
  readPos :: nat
  pheader :: LinkHeader
  pstate :: ParserState
  frameSize :: nat
  userDataLen :: nat
  pstats :: ParserStatistics

definition M_SIZE :: nat where "M_SIZE = LPDU_MAX_FRAME_SIZE"

definition NumBytesRead :: "LinkLayerParser \<Rightarrow> nat" where
  "NumBytesRead p = writePos p - readPos p"

definition ReadBuffer :: "LinkLayerParser \<Rightarrow> byte list" where
  "ReadBuffer p = take (NumBytesRead p) (drop (readPos p) (rxBuffer p))"

definition NumWriteBytes :: "LinkLayerParser \<Rightarrow> nat" where
  "NumWriteBytes p = M_SIZE - writePos p"

definition Shift :: "LinkLayerParser \<Rightarrow> LinkLayerParser" where
  "Shift p = (let numRead = NumBytesRead p in
     p\<lparr> rxBuffer := take numRead (drop (readPos p) (rxBuffer p)) @ drop numRead (rxBuffer p),
       readPos := 0, writePos := numRead \<rparr>)"

definition Buffer_Reset :: "LinkLayerParser \<Rightarrow> LinkLayerParser" where
  "Buffer_Reset p = p\<lparr> writePos := 0, readPos := 0 \<rparr>"

definition AdvanceRead :: "LinkLayerParser \<Rightarrow> nat \<Rightarrow> LinkLayerParser" where
  "AdvanceRead p numBytes = p\<lparr> readPos := readPos p + numBytes \<rparr>"

definition AdvanceWrite :: "LinkLayerParser \<Rightarrow> nat \<Rightarrow> LinkLayerParser" where
  "AdvanceWrite p numBytes = p\<lparr> writePos := writePos p + numBytes \<rparr>"

function Sync :: "LinkLayerParser \<Rightarrow> nat \<Rightarrow> bool \<times> LinkLayerParser \<times> nat" where
  "Sync p skipCount =
     (if NumBytesRead p > 1 then
        if ReadBuffer p ! 0 = 0x05 \<and> ReadBuffer p ! 1 = 0x64 then (True, p, skipCount)
        else Sync (AdvanceRead p 1) (skipCount + 1)
      else (False, p, skipCount))"
  by pat_completeness auto
termination
  by (relation "measure (\<lambda>(p, _). NumBytesRead p)") (auto simp: NumBytesRead_def AdvanceRead_def)

declare Sync.simps [simp del]

text \<open>What the channel does before \<open>OnRead\<close>: it puts bytes at the write position.\<close>

definition channel_write :: "LinkLayerParser \<Rightarrow> byte list \<Rightarrow> LinkLayerParser" where
  "channel_write p bs =
     p\<lparr> rxBuffer := take (writePos p) (rxBuffer p) @ bs @ drop (writePos p + length bs) (rxBuffer p) \<rparr>"

section \<open>Parsing\<close>

definition Parser_init :: "byte list \<Rightarrow> LinkLayerParser" where
  "Parser_init mem = \<lparr> rxBuffer = mem, writePos = 0, readPos = 0,
     pheader = \<lparr> hlength = 5, hsrc = 0, hdest = 0, hctrl = 0 \<rparr>, pstate = FindSync, frameSize = 0,
     userDataLen = 0, pstats = \<lparr> numHeaderCrcError = 0, numBodyCrcError = 0, numLinkFrameRx = 0,
       numBadLength = 0, numBadFunctionCode = 0, numBadFCV = 0, numBadFCB = 0 \<rparr> \<rparr>"

definition Parser_Reset :: "LinkLayerParser \<Rightarrow> LinkLayerParser" where
  "Parser_Reset p = Buffer_Reset (p\<lparr> pstate := FindSync, frameSize := 0 \<rparr>)"

definition FailFrame :: "LinkLayerParser \<Rightarrow> LinkLayerParser" where
  "FailFrame p = AdvanceRead p 1"

definition ValidateFunctionCode :: "LinkLayerParser \<Rightarrow> bool \<times> LinkLayerParser" where
  "ValidateFunctionCode p =
     (let st = pstats p; h = pheader p in
      if IsPriToSec h then
        (let f = GetFuncEnum h in
         if f = PRI_CONFIRMED_USER_DATA \<or> f = PRI_TEST_LINK_STATES \<or> f = PRI_REQUEST_LINK_STATUS
            \<or> f = PRI_RESET_LINK_STATES \<or> f = PRI_UNCONFIRMED_USER_DATA then
           (let fcv_set = (f = PRI_CONFIRMED_USER_DATA \<or> f = PRI_TEST_LINK_STATES) in
            if fcv_set \<noteq> IsFcvDfcSet h then (False, p\<lparr> pstats := st\<lparr> numBadFCV := numBadFCV st + 1 \<rparr> \<rparr>)
            else (True, p))
         else (False, p\<lparr> pstats := st\<lparr> numBadFunctionCode := numBadFunctionCode st + 1 \<rparr> \<rparr>))
      else
        (let f = GetFuncEnum h in
         if f = SEC_ACK \<or> f = SEC_NACK \<or> f = SEC_LINK_STATUS \<or> f = SEC_NOT_SUPPORTED then
           (if IsFcbSet h then (False, p\<lparr> pstats := st\<lparr> numBadFCB := numBadFCB st + 1 \<rparr> \<rparr>)
            else (True, p))
         else (False, p\<lparr> pstats := st\<lparr> numBadFunctionCode := numBadFunctionCode st + 1 \<rparr> \<rparr>)))"

definition ValidateHeaderParameters :: "LinkLayerParser \<Rightarrow> bool \<times> LinkLayerParser" where
  "ValidateHeaderParameters p =
     (if \<not> ValidLength (pheader p) then
        (False, p\<lparr> pstats := (pstats p)\<lparr> numBadLength := numBadLength (pstats p) + 1 \<rparr> \<rparr>)
      else
        (let (ok, p) = ValidateFunctionCode p in
         if \<not> ok then (False, p)
         else
           (let user_data_length = unat (hlength (pheader p) - of_nat LPDU_MIN_LENGTH);
                p = p\<lparr> frameSize := CalcFrameSize user_data_length \<rparr>;
                f = GetFuncEnum (pheader p);
                has_payload = (user_data_length > 0);
                should_have_payload = (f = PRI_CONFIRMED_USER_DATA \<or> f = PRI_UNCONFIRMED_USER_DATA)
            in if should_have_payload \<and> \<not> has_payload then
                 (False, p\<lparr> pstats := (pstats p)\<lparr> numBadLength := numBadLength (pstats p) + 1 \<rparr> \<rparr>)
               else if \<not> should_have_payload \<and> has_payload then
                 (False, p\<lparr> pstats := (pstats p)\<lparr> numBadLength := numBadLength (pstats p) + 1 \<rparr> \<rparr>)
               else (True, p\<lparr> frameSize := CalcFrameSize user_data_length \<rparr>))))"

definition Parser_ReadHeader :: "u16_codec \<Rightarrow> LinkLayerParser \<Rightarrow> bool \<times> LinkLayerParser" where
  "Parser_ReadHeader C p =
     (let p = p\<lparr> pheader := LinkHeader_Read C (ReadBuffer p) \<rparr> in
      if IsCorrectCRC C (ReadBuffer p) 8 then ValidateHeaderParameters p
      else (False, p\<lparr> pstats := (pstats p)\<lparr> numHeaderCrcError := numHeaderCrcError (pstats p) + 1 \<rparr> \<rparr>))"

definition body_length :: "LinkLayerParser \<Rightarrow> nat" where
  "body_length p = unat (hlength (pheader p)) - LPDU_MIN_LENGTH"

definition ValidateBody :: "u16_codec \<Rightarrow> LinkLayerParser \<Rightarrow> bool \<times> LinkLayerParser" where
  "ValidateBody C p =
     (if ValidateBodyCRC C (drop LPDU_HEADER_SIZE (ReadBuffer p)) (body_length p) then (True, p)
      else (False, p\<lparr> pstats := (pstats p)\<lparr> numBodyCrcError := numBodyCrcError (pstats p) + 1 \<rparr> \<rparr>))"

definition TransferUserData :: "LinkLayerParser \<Rightarrow> LinkLayerParser" where
  "TransferUserData p =
     p\<lparr> rxBuffer := ReadUserData (rxBuffer p) (readPos p + LPDU_HEADER_SIZE) 0 (body_length p),
       userDataLen := body_length p \<rparr>"

definition ParseSync :: "LinkLayerParser \<Rightarrow> ParserState \<times> LinkLayerParser" where
  "ParseSync p =
     (if NumBytesRead p \<ge> 10 then
        (let (synced, p, _) = Sync p 0 in (if synced then ReadHeader else FindSync, p))
      else (FindSync, p))"

definition ParseHeader :: "u16_codec \<Rightarrow> LinkLayerParser \<Rightarrow> ParserState \<times> LinkLayerParser" where
  "ParseHeader C p =
     (if NumBytesRead p \<ge> 10 then
        (let (ok, p) = Parser_ReadHeader C p in
         if ok then (ReadBody, p) else (FindSync, FailFrame p))
      else (ReadHeader, p))"

definition ParseBody :: "u16_codec \<Rightarrow> LinkLayerParser \<Rightarrow> ParserState \<times> LinkLayerParser" where
  "ParseBody C p =
     (if NumBytesRead p < frameSize p then (ReadBody, p)
      else (let (ok, p) = ValidateBody C p in
            if ok then (Complete, TransferUserData p) else (FindSync, FailFrame p)))"

definition ParseOneStep :: "u16_codec \<Rightarrow> LinkLayerParser \<Rightarrow> LinkLayerParser" where
  "ParseOneStep C p =
     (let (s, p) = (case pstate p of
          FindSync \<Rightarrow> ParseSync p
        | ReadHeader \<Rightarrow> ParseHeader C p
        | ReadBody \<Rightarrow> ParseBody C p
        | Complete \<Rightarrow> (Complete, p))
      in p\<lparr> pstate := s \<rparr>)"

definition header_fields :: "LinkHeader \<Rightarrow> LinkHeaderFields" where
  "header_fields h = \<lparr> func = GetFuncEnum h, isFromMaster = IsFromMaster h, fcb = IsFcbSet h,
     fcvdfc = IsFcvDfcSet h, addresses = \<lparr> source = hsrc h, destination = hdest h \<rparr> \<rparr>"

type_synonym link_frame = "LinkHeaderFields \<times> byte list"

definition PushFrame :: "LinkLayerParser \<Rightarrow> link_frame \<times> LinkLayerParser" where
  "PushFrame p = ((header_fields (pheader p), take (userDataLen p) (rxBuffer p)),
                  AdvanceRead p (frameSize p))"

section \<open>The loops terminate\<close>

lemma NumBytesRead_simps [simp]:
  "NumBytesRead (AdvanceRead p n) = NumBytesRead p - n"
  "NumBytesRead (p\<lparr>pstate := s\<rparr>) = NumBytesRead p"
  "NumBytesRead (p\<lparr>pheader := h\<rparr>) = NumBytesRead p"
  "NumBytesRead (p\<lparr>pstats := st\<rparr>) = NumBytesRead p"
  "NumBytesRead (p\<lparr>frameSize := fs\<rparr>) = NumBytesRead p"
  "NumBytesRead (p\<lparr>userDataLen := ul\<rparr>) = NumBytesRead p"
  "NumBytesRead (p\<lparr>rxBuffer := m\<rparr>) = NumBytesRead p"
  by (simp_all add: NumBytesRead_def AdvanceRead_def)

lemma Sync_unread: "Sync p k = (b, p', k') \<Longrightarrow> NumBytesRead p' \<le> NumBytesRead p"
proof (induction p k rule: Sync.induct)
  case (1 p k)
  then show ?case
    by (subst (asm) (2) Sync.simps) (auto split: if_splits)
qed

definition parse_measure :: "LinkLayerParser \<Rightarrow> nat" where
  "parse_measure p = (case pstate p of
     FindSync \<Rightarrow> if NumBytesRead p < 10 then 0 else 4 * NumBytesRead p + 3
   | ReadHeader \<Rightarrow> 4 * NumBytesRead p + 2
   | ReadBody \<Rightarrow> 4 * NumBytesRead p + 1
   | Complete \<Rightarrow> 0)"

lemma ValidateFunctionCode_unread:
  "ValidateFunctionCode p = (b, p') \<Longrightarrow> NumBytesRead p' = NumBytesRead p \<and> pheader p' = pheader p"
  by (auto simp: ValidateFunctionCode_def Let_def split: if_splits)

lemma ValidateHeaderParameters_unread:
  "ValidateHeaderParameters p = (b, p') \<Longrightarrow> NumBytesRead p' = NumBytesRead p \<and> (b \<longrightarrow> 10 \<le> frameSize p')"
  by (auto simp: ValidateHeaderParameters_def Let_def CalcFrameSize_def split: if_splits prod.splits
      dest!: ValidateFunctionCode_unread)

lemma Parser_ReadHeader_unread:
  "Parser_ReadHeader C p = (b, p') \<Longrightarrow> NumBytesRead p' = NumBytesRead p \<and> (b \<longrightarrow> 10 \<le> frameSize p')"
  by (auto simp: Parser_ReadHeader_def Let_def split: if_splits dest!: ValidateHeaderParameters_unread)

lemma ValidateBody_unread:
  "ValidateBody C p = (b, p') \<Longrightarrow> NumBytesRead p' = NumBytesRead p \<and> frameSize p' = frameSize p"
  by (auto simp: ValidateBody_def split: if_splits)

lemma ParseOneStep_measure:
  "pstate (ParseOneStep C p) \<noteq> pstate p \<Longrightarrow> parse_measure (ParseOneStep C p) < parse_measure p"
  by (cases "pstate p")
     (auto simp: ParseOneStep_def ParseSync_def ParseHeader_def ParseBody_def parse_measure_def Let_def
        FailFrame_def TransferUserData_def split: prod.splits if_splits
        dest!: Sync_unread Parser_ReadHeader_unread ValidateBody_unread)

function ParseUntilComplete :: "u16_codec \<Rightarrow> LinkLayerParser \<Rightarrow> LinkLayerParser" where
  "ParseUntilComplete C p =
     (let p' = ParseOneStep C p in
      if pstate p' \<noteq> pstate p then ParseUntilComplete C p' else p')"
  by pat_completeness auto
termination
  by (relation "measure (\<lambda>(C, p). parse_measure p)") (auto simp: ParseOneStep_measure)

declare ParseUntilComplete.simps [simp del]

lemma ParseOneStep_unread: "NumBytesRead (ParseOneStep C p) \<le> NumBytesRead p"
  by (cases "pstate p")
     (auto simp: ParseOneStep_def ParseSync_def ParseHeader_def ParseBody_def Let_def
        FailFrame_def TransferUserData_def split: prod.splits if_splits
        dest!: Sync_unread Parser_ReadHeader_unread ValidateBody_unread)

definition frame_ready :: "LinkLayerParser \<Rightarrow> bool" where
  "frame_ready p \<longleftrightarrow> (pstate p = ReadBody \<longrightarrow> 10 \<le> frameSize p)
     \<and> (pstate p = Complete \<longrightarrow> 10 \<le> frameSize p \<and> frameSize p \<le> NumBytesRead p)"

lemma ParseOneStep_ready: "frame_ready p \<Longrightarrow> frame_ready (ParseOneStep C p)"
  by (cases "pstate p")
     (auto simp: frame_ready_def ParseOneStep_def ParseSync_def ParseHeader_def ParseBody_def Let_def
        FailFrame_def TransferUserData_def AdvanceRead_def split: prod.splits if_splits
        dest!: Parser_ReadHeader_unread ValidateBody_unread)

lemma ParseUntilComplete_ready:
  "frame_ready p \<Longrightarrow> frame_ready (ParseUntilComplete C p)
     \<and> NumBytesRead (ParseUntilComplete C p) \<le> NumBytesRead p"
proof (induction C p rule: ParseUntilComplete.induct)
  case (1 C p)
  have r: "frame_ready (ParseOneStep C p)" using "1.prems" by (rule ParseOneStep_ready)
  show ?case
  proof (cases "pstate (ParseOneStep C p) = pstate p")
    case True
    with r show ?thesis
      by (subst (1 2) ParseUntilComplete.simps) (simp add: Let_def ParseOneStep_unread)
  next
    case False
    with "1.IH" [OF refl _ r] ParseOneStep_unread [of C p] show ?thesis
      by (subst (1 2) ParseUntilComplete.simps) (simp add: Let_def)
  qed
qed

function parse_frames :: "u16_codec \<Rightarrow> LinkLayerParser \<Rightarrow> link_frame list \<times> LinkLayerParser" where
  "parse_frames C p =
     (let p' = ParseUntilComplete C p in
      if pstate p' = Complete then
        (let st = pstats p';
             p'' = p'\<lparr> pstats := st\<lparr> numLinkFrameRx := numLinkFrameRx st + 1 \<rparr> \<rparr>;
             (f, p'') = PushFrame p'';
             (fs, q) = parse_frames C (p''\<lparr> pstate := FindSync \<rparr>)
         in (f # fs, q))
      else ([], p'))"
  by pat_completeness auto
termination
proof (relation "measures [\<lambda>(C, p). if pstate p = FindSync then 0 else 1, \<lambda>(C, p). NumBytesRead p]",
       goal_cases)
  case 1
  show ?case by simp
next
  case (2 C p p' st p'' x f p''')
  then have p''': "p''' = AdvanceRead (p'\<lparr> pstats := st\<lparr> numLinkFrameRx := numLinkFrameRx st + 1 \<rparr> \<rparr>) (frameSize p')"
    by (auto simp: PushFrame_def)
  show ?case
  proof (cases "pstate p = FindSync")
    case True
    then have "frame_ready p" by (simp add: frame_ready_def)
    from ParseUntilComplete_ready [OF this, of C] 2(1,2) have "10 \<le> frameSize p'" "frameSize p' \<le> NumBytesRead p'"
      "NumBytesRead p' \<le> NumBytesRead p"
      by (auto simp: frame_ready_def)
    with True p''' show ?thesis by auto
  next
    case False
    then show ?thesis by simp
  qed
qed

declare parse_frames.simps [simp del]

definition OnRead :: "u16_codec \<Rightarrow> LinkLayerParser \<Rightarrow> nat \<Rightarrow> link_frame list \<times> LinkLayerParser" where
  "OnRead C p numBytes =
     (let (frames, p) = parse_frames C (AdvanceWrite p numBytes) in (frames, Shift p))"

section \<open>The specification on the byte stream\<close>

definition payload_length :: "LinkHeader \<Rightarrow> nat" where
  "payload_length h = unat (hlength h) - 5"

definition valid_function :: "LinkHeader \<Rightarrow> bool" where
  "valid_function h \<longleftrightarrow>
     (if IsPriToSec h then
        GetFuncEnum h \<in> {PRI_CONFIRMED_USER_DATA, PRI_TEST_LINK_STATES, PRI_REQUEST_LINK_STATUS,
                          PRI_RESET_LINK_STATES, PRI_UNCONFIRMED_USER_DATA}
        \<and> (GetFuncEnum h \<in> {PRI_CONFIRMED_USER_DATA, PRI_TEST_LINK_STATES}) = IsFcvDfcSet h
      else GetFuncEnum h \<in> {SEC_ACK, SEC_NACK, SEC_LINK_STATUS, SEC_NOT_SUPPORTED} \<and> \<not> IsFcbSet h)"

definition valid_header :: "LinkHeader \<Rightarrow> bool" where
  "valid_header h \<longleftrightarrow> ValidLength h \<and> valid_function h
     \<and> (GetFuncEnum h \<in> {PRI_CONFIRMED_USER_DATA, PRI_UNCONFIRMED_USER_DATA} \<longleftrightarrow> 0 < payload_length h)"

definition header_ok :: "u16_codec \<Rightarrow> byte list \<Rightarrow> bool" where
  "header_ok C u \<longleftrightarrow> IsCorrectCRC C u 8 \<and> valid_header (LinkHeader_Read C u)"

definition sync_ok :: "byte list \<Rightarrow> bool" where
  "sync_ok u \<longleftrightarrow> u ! 0 = 0x05 \<and> u ! 1 = 0x64"

function decode :: "u16_codec \<Rightarrow> byte list \<Rightarrow> link_frame list" where
  "decode C u =
     (if length u < 10 then []
      else if sync_ok u \<and> header_ok C u then
        let h = LinkHeader_Read C u; n = payload_length h in
        if length u < CalcFrameSize n then []
        else if ValidateBodyCRC C (drop 10 u) n
        then (header_fields h, body_data (drop 10 u) n) # decode C (drop (CalcFrameSize n) u)
        else decode C (tl u)
      else decode C (tl u))"
  by pat_completeness auto
termination
  by (relation "measure (\<lambda>(C, u). length u)") (auto simp: CalcFrameSize_def)

declare decode.simps [simp del]

lemma decode_short [simp]: "length u < 10 \<Longrightarrow> decode C u = []"
  by (simp add: decode.simps)

lemma decode_bad_header: "10 \<le> length u \<Longrightarrow> \<not> (sync_ok u \<and> header_ok C u) \<Longrightarrow> decode C u = decode C (tl u)"
  by (subst decode.simps) auto

lemma decode_skip: "v \<noteq> [] \<Longrightarrow> \<not> sync_ok (b # v) \<Longrightarrow> decode C (b # v) = decode C v"
  by (cases "length (b # v) < 10") (auto simp: decode_bad_header)

lemma decode_incomplete:
  "10 \<le> length u \<Longrightarrow> sync_ok u \<Longrightarrow> header_ok C u
    \<Longrightarrow> length u < CalcFrameSize (payload_length (LinkHeader_Read C u)) \<Longrightarrow> decode C u = []"
  by (subst decode.simps) (simp add: Let_def)

lemma decode_frame:
  assumes "sync_ok u" "header_ok C u" "h = LinkHeader_Read C u" "n = payload_length h"
    "CalcFrameSize n \<le> length u" "ValidateBodyCRC C (drop 10 u) n"
  shows "decode C u = (header_fields h, body_data (drop 10 u) n) # decode C (drop (CalcFrameSize n) u)"
  using assms by (subst decode.simps) (simp add: Let_def CalcFrameSize_def)

lemma decode_bad_body:
  assumes "h = LinkHeader_Read C u" "n = payload_length h"
    "CalcFrameSize n \<le> length u" "\<not> ValidateBodyCRC C (drop 10 u) n"
  shows "decode C u = decode C (tl u)"
  using assms by (subst decode.simps) (simp add: Let_def CalcFrameSize_def)

subsection \<open>Only the bytes of the frame matter\<close>

context codec16
begin

lemma IsCorrectCRC_append:
  assumes "n + 2 \<le> length u"
  shows "IsCorrectCRC C (u @ x) n = IsCorrectCRC C u n"
proof -
  have a: "n + 2 \<le> length (u @ x)" using assms by simp
  show ?thesis
    unfolding IsCorrectCRC_iff [OF assms] IsCorrectCRC_iff [OF a] using assms by simp
qed

lemma LinkHeader_Read_append: "10 \<le> length u \<Longrightarrow> LinkHeader_Read C (u @ x) = LinkHeader_Read C u"
  by (simp add: LinkHeader_Read_def nth_append)

lemma header_ok_append: "10 \<le> length u \<Longrightarrow> header_ok C (u @ x) = header_ok C u"
  by (simp add: header_ok_def LinkHeader_Read_append IsCorrectCRC_append)

lemma sync_ok_append: "2 \<le> length u \<Longrightarrow> sync_ok (u @ x) = sync_ok u"
  by (auto simp: sync_ok_def nth_append)

lemma ValidateBodyCRC_append:
  "CalcUserDataSize n \<le> length b \<Longrightarrow> ValidateBodyCRC C (b @ x) n = ValidateBodyCRC C b n"
proof (induction n arbitrary: b rule: less_induct)
  case (less n)
  show ?case
  proof (cases "0 < n")
    case True
    with less.prems CalcUserDataSize_step [OF True] have l: "min n 16 + 2 \<le> length b"
      and l': "CalcUserDataSize (n - min n 16) \<le> length (drop (min n 16 + 2) b)"
      by (simp, unfold length_drop, linarith)
    have "drop (min n 16 + 2) (b @ x) = drop (min n 16 + 2) b @ x" using l by simp
    with less.IH [of "n - min n 16", OF _ l'] True show ?thesis
      by (simp add: ValidateBodyCRC_step IsCorrectCRC_append [OF l])
  qed simp
qed

end

lemma body_data_append:
  "CalcUserDataSize n \<le> length b \<Longrightarrow> body_data (b @ x) n = body_data b n"
proof (induction n arbitrary: b rule: less_induct)
  case (less n)
  show ?case
  proof (cases "0 < n")
    case True
    with less.prems CalcUserDataSize_step [OF True] have l: "min n 16 + 2 \<le> length b"
      and l': "CalcUserDataSize (n - min n 16) \<le> length (drop (min n 16 + 2) b)"
      by (simp, unfold length_drop, linarith)
    have "drop (min n 16 + 2) (b @ x) = drop (min n 16 + 2) b @ x" using l by simp
    with less.IH [of "n - min n 16", OF _ l'] True l show ?thesis
      by (simp add: body_data_step)
  qed simp
qed

section \<open>The parser simulates the specification\<close>

definition buffer_ok :: "LinkLayerParser \<Rightarrow> bool" where
  "buffer_ok p \<longleftrightarrow> length (rxBuffer p) = 292 \<and> readPos p \<le> writePos p \<and> writePos p \<le> 292"

abbreviation unread :: "LinkLayerParser \<Rightarrow> byte list" where
  "unread \<equiv> ReadBuffer"

fun state_ok :: "u16_codec \<Rightarrow> LinkLayerParser \<Rightarrow> bool" where
  "state_ok C p \<longleftrightarrow> (case pstate p of
     FindSync \<Rightarrow> True
   | ReadHeader \<Rightarrow> 2 \<le> NumBytesRead p \<and> sync_ok (unread p)
   | ReadBody \<Rightarrow> 10 \<le> NumBytesRead p \<and> sync_ok (unread p) \<and> header_ok C (unread p)
        \<and> pheader p = LinkHeader_Read C (unread p)
        \<and> frameSize p = CalcFrameSize (payload_length (pheader p))
   | Complete \<Rightarrow> False)"

lemma length_unread: "buffer_ok p \<Longrightarrow> length (unread p) = NumBytesRead p"
  by (auto simp: buffer_ok_def ReadBuffer_def NumBytesRead_def)

lemma unread_AdvanceRead: "unread (AdvanceRead p n) = drop n (unread p)"
  by (simp add: ReadBuffer_def AdvanceRead_def NumBytesRead_def drop_take add.commute)

lemma buffer_ok_AdvanceRead: "buffer_ok p \<Longrightarrow> n \<le> NumBytesRead p \<Longrightarrow> buffer_ok (AdvanceRead p n)"
  by (auto simp: buffer_ok_def AdvanceRead_def NumBytesRead_def)

lemma unread_simps [simp]:
  "unread (p\<lparr>pstate := s\<rparr>) = unread p"
  "unread (p\<lparr>pheader := h\<rparr>) = unread p"
  "unread (p\<lparr>pstats := st\<rparr>) = unread p"
  "unread (p\<lparr>frameSize := fs\<rparr>) = unread p"
  "unread (p\<lparr>userDataLen := ul\<rparr>) = unread p"
  by (simp_all add: ReadBuffer_def NumBytesRead_def)

lemma buffer_ok_simps [simp]:
  "buffer_ok (p\<lparr>pstate := s\<rparr>) = buffer_ok p"
  "buffer_ok (p\<lparr>pheader := h\<rparr>) = buffer_ok p"
  "buffer_ok (p\<lparr>pstats := st\<rparr>) = buffer_ok p"
  "buffer_ok (p\<lparr>frameSize := fs\<rparr>) = buffer_ok p"
  "buffer_ok (p\<lparr>userDataLen := ul\<rparr>) = buffer_ok p"
  by (simp_all add: buffer_ok_def)

lemma Sync_short: "\<not> NumBytesRead p > 1 \<Longrightarrow> Sync p k = (False, p, k)"
  by (subst Sync.simps) simp

lemma Sync_found: "NumBytesRead p > 1 \<Longrightarrow> sync_ok (unread p) \<Longrightarrow> Sync p k = (True, p, k)"
  by (subst Sync.simps) (simp add: sync_ok_def)

lemma Sync_skip:
  "NumBytesRead p > 1 \<Longrightarrow> \<not> sync_ok (unread p) \<Longrightarrow> Sync p k = Sync (AdvanceRead p 1) (k + 1)"
  by (subst Sync.simps) (auto simp: sync_ok_def)

lemma decode_skip_unread:
  assumes "1 < length u" "\<not> sync_ok u"
  shows "decode C (u @ x) = decode C (tl u @ x)"
proof -
  obtain c d v where u: "u = c # d # v"
    using assms(1) by (cases u; cases "tl u") auto
  then have "\<not> sync_ok (c # (d # v) @ x)" using assms(2) by (simp add: sync_ok_def)
  then show ?thesis using decode_skip [of "(d # v) @ x" c C] by (simp add: u)
qed

lemma Sync_sim:
  "Sync p k = (b, p', k') \<Longrightarrow> buffer_ok p \<Longrightarrow>
     buffer_ok p' \<and> (\<forall>x. decode C (unread p @ x) = decode C (unread p' @ x))
     \<and> (if b then 2 \<le> NumBytesRead p' \<and> sync_ok (unread p') else NumBytesRead p' \<le> 1)"
proof (induction p k rule: Sync.induct)
  case (1 p k)
  consider (short) "\<not> NumBytesRead p > 1"
    | (found) "NumBytesRead p > 1" "sync_ok (unread p)"
    | (skip) "NumBytesRead p > 1" "\<not> sync_ok (unread p)" by blast
  then show ?case
  proof cases
    case short
    with "1.prems" Sync_short [OF short, of k] show ?thesis by simp
  next
    case found
    with "1.prems" Sync_found [OF found, of k] show ?thesis by simp
  next
    case skip
    let ?q = "AdvanceRead p 1"
    have q: "buffer_ok ?q" using skip "1.prems"(2) by (intro buffer_ok_AdvanceRead) auto
    have s: "Sync ?q (k + 1) = (b, p', k')" using Sync_skip [OF skip, of k] "1.prems"(1) by simp
    have "decode C (unread p @ x) = decode C (unread ?q @ x)" for x
      using decode_skip_unread [of "unread p"] skip length_unread [OF "1.prems"(2)]
      by (simp add: unread_AdvanceRead drop_Suc)
    moreover have "\<not> (ReadBuffer p ! 0 = 5 \<and> ReadBuffer p ! 1 = 0x64)"
      using skip(2) by (simp add: sync_ok_def)
    ultimately show ?thesis using "1.IH" [OF skip(1) _ s q] by (cases b) auto
  qed
qed

definition same_input :: "LinkLayerParser \<Rightarrow> LinkLayerParser \<Rightarrow> bool" where
  "same_input p q \<longleftrightarrow> rxBuffer q = rxBuffer p \<and> writePos q = writePos p \<and> readPos q = readPos p
     \<and> pheader q = pheader p"

lemma same_inputD:
  assumes "same_input p q"
  shows "unread q = unread p" "NumBytesRead q = NumBytesRead p" "buffer_ok q = buffer_ok p"
    "pheader q = pheader p" "rxBuffer q = rxBuffer p" "readPos q = readPos p"
  using assms by (simp_all add: same_input_def ReadBuffer_def NumBytesRead_def buffer_ok_def)

lemma ValidateFunctionCode_spec:
  "ValidateFunctionCode p = (b, q) \<Longrightarrow> b = valid_function (pheader p) \<and> same_input p q"
  by (auto simp: ValidateFunctionCode_def valid_function_def Let_def same_input_def split: if_splits)

lemma payload_word: "ValidLength h \<Longrightarrow> unat (hlength h - of_nat LPDU_MIN_LENGTH) = payload_length h"
proof -
  assume "ValidLength h"
  then have "(4 :: byte) < hlength h" by (simp add: ValidLength_def)
  then have "4 < unat (hlength h)" by (simp add: word_less_nat_alt)
  then have "(5 :: byte) \<le> hlength h" by (simp add: word_le_nat_alt)
  then show ?thesis by (simp add: payload_length_def unat_sub)
qed

lemma ValidateHeaderParameters_spec:
  assumes v: "ValidateHeaderParameters p = (b, q)"
  shows "b = valid_header (pheader p) \<and> same_input p q
     \<and> (b \<longrightarrow> frameSize q = CalcFrameSize (payload_length (pheader p)))"
proof -
  obtain ok r where r: "ValidateFunctionCode p = (ok, r)" by fastforce
  from ValidateFunctionCode_spec [OF r] have ok: "ok = valid_function (pheader p)" "same_input p r"
    by auto
  show ?thesis
  proof (cases "ValidLength (pheader p)")
    case True
    with v r ok payload_word [OF True] show ?thesis
      by (auto simp: ValidateHeaderParameters_def valid_header_def Let_def same_input_def split: if_splits)
  next
    case False
    with v show ?thesis
      by (auto simp: ValidateHeaderParameters_def valid_header_def same_input_def)
  qed
qed

lemma Parser_ReadHeader_spec:
  assumes v: "Parser_ReadHeader C p = (b, q)"
  shows "b = header_ok C (unread p) \<and> same_input (p\<lparr>pheader := LinkHeader_Read C (unread p)\<rparr>) q
     \<and> (b \<longrightarrow> frameSize q = CalcFrameSize (payload_length (LinkHeader_Read C (unread p))))"
  using v
  by (auto simp: Parser_ReadHeader_def Let_def header_ok_def same_input_def split: if_splits
      dest!: ValidateHeaderParameters_spec)

lemma ValidateBody_spec:
  "ValidateBody C p = (b, q) \<Longrightarrow>
     b = ValidateBodyCRC C (drop 10 (unread p)) (payload_length (pheader p)) \<and> same_input p q
     \<and> frameSize q = frameSize p"
  by (auto simp: ValidateBody_def body_length_def payload_length_def same_input_def split: if_splits)

text \<open>One step from a state that is not \<open>Complete\<close>.\<close>

definition step_sim :: "u16_codec \<Rightarrow> LinkLayerParser \<Rightarrow> LinkLayerParser \<Rightarrow> bool" where
  "step_sim C p q \<longleftrightarrow> buffer_ok q \<and>
     (if pstate q = Complete then
        (\<forall>x. decode C (unread p @ x)
             = fst (PushFrame q) # decode C (unread (snd (PushFrame q)) @ x))
        \<and> frameSize q \<le> NumBytesRead q
      else state_ok C q \<and> (\<forall>x. decode C (unread p @ x) = decode C (unread q @ x)))"

text \<open>A state in which no step is possible: nothing more can be decoded from the unread bytes.\<close>

definition quiescent :: "LinkLayerParser \<Rightarrow> bool" where
  "quiescent p \<longleftrightarrow> (case pstate p of
     FindSync \<Rightarrow> NumBytesRead p < 10 | ReadHeader \<Rightarrow> NumBytesRead p < 10
   | ReadBody \<Rightarrow> NumBytesRead p < frameSize p | Complete \<Rightarrow> False)"

text \<open>What holds of a parser between two calls of \<open>OnRead\<close>.\<close>

definition parser_inv :: "u16_codec \<Rightarrow> LinkLayerParser \<Rightarrow> bool" where
  "parser_inv C p \<longleftrightarrow> buffer_ok p \<and> state_ok C p \<and> quiescent p \<and> readPos p = 0"

lemma window_drop:
  assumes "k \<le> w - r" "r \<le> w"
  shows "drop k (take (w - r) (drop r xs)) @ drop w xs = drop (r + k) xs"
proof -
  have w: "w = (w - r - k) + (r + k)" using assms by simp
  have "drop w xs = drop (w - r - k) (drop (r + k) xs)" using w by (metis drop_drop)
  moreover have "drop k (take (w - r) (drop r xs)) = take (w - r - k) (drop (r + k) xs)"
    by (simp add: drop_take add.commute)
  ultimately show ?thesis by (metis append_take_drop_id)
qed

context codec16
begin

lemma ParseSync_sim:
  assumes "buffer_ok p" "pstate p = FindSync"
  shows "step_sim C p (ParseOneStep C p)"
proof (cases "NumBytesRead p \<ge> 10")
  case True
  obtain b q k where q: "Sync p 0 = (b, q, k)" by (metis prod_cases3)
  with Sync_sim [OF q assms(1), of C] True assms show ?thesis
    by (auto simp: step_sim_def ParseOneStep_def ParseSync_def)
next
  case False
  with assms show ?thesis by (auto simp: step_sim_def ParseOneStep_def ParseSync_def)
qed

lemma ParseHeader_sim:
  assumes b: "buffer_ok p" and s: "state_ok C p" and st: "pstate p = ReadHeader"
  shows "step_sim C p (ParseOneStep C p)"
proof (cases "NumBytesRead p \<ge> 10")
  case True
  obtain ok q where q: "Parser_ReadHeader C p = (ok, q)" by fastforce
  let ?h = "LinkHeader_Read C (unread p)"
  from Parser_ReadHeader_spec [OF q]
  have ok: "ok = header_ok C (unread p)" and si: "same_input (p\<lparr>pheader := ?h\<rparr>) q"
    and fs: "ok \<Longrightarrow> frameSize q = CalcFrameSize (payload_length ?h)" by auto
  note qf = same_inputD [OF si, simplified]
  have sync: "sync_ok (unread p)" using s st by simp
  show ?thesis
  proof (cases ok)
    case True
    with \<open>NumBytesRead p \<ge> 10\<close> q st b qf fs ok sync show ?thesis
      by (simp add: step_sim_def ParseOneStep_def ParseHeader_def)
  next
    case False
    have len: "10 \<le> length (unread p)" using \<open>NumBytesRead p \<ge> 10\<close> length_unread [OF b] by simp
    have "decode C (unread p @ x) = decode C (drop 1 (unread p) @ x)" for x
      using decode_bad_header [of "unread p @ x" C] header_ok_append [OF len, of x] len False ok
      by (cases "unread p") auto
    then show ?thesis
      using False q st b qf True buffer_ok_AdvanceRead [of q 1]
      by (simp add: step_sim_def ParseOneStep_def ParseHeader_def FailFrame_def unread_AdvanceRead)
  qed
next
  case False
  with s st b show ?thesis by (simp add: step_sim_def ParseOneStep_def ParseHeader_def)
qed

lemma ParseBody_sim:
  assumes b: "buffer_ok p" and s: "state_ok C p" and st: "pstate p = ReadBody"
  shows "step_sim C p (ParseOneStep C p)"
proof (cases "NumBytesRead p < frameSize p")
  case True
  with s st b show ?thesis by (simp add: step_sim_def ParseOneStep_def ParseBody_def)
next
  case full: False
  let ?h = "pheader p" let ?n = "payload_length ?h" let ?u = "unread p"
  have u: "10 \<le> length ?u" "sync_ok ?u" "header_ok C ?u" "?h = LinkHeader_Read C ?u"
    "frameSize p = CalcFrameSize ?n" "CalcFrameSize ?n \<le> length ?u"
    using s st full length_unread [OF b] by auto
  have bl: "CalcUserDataSize ?n \<le> length (drop 10 ?u)" using u(6) by (simp add: CalcFrameSize_def)
  have v: "ValidateBodyCRC C (drop 10 (?u @ x)) ?n = ValidateBodyCRC C (drop 10 ?u) ?n" for x
    using ValidateBodyCRC_append [OF bl, of x] u(1) by simp
  obtain ok q where q: "ValidateBody C p = (ok, q)" by fastforce
  from ValidateBody_spec [OF q] have ok: "ok = ValidateBodyCRC C (drop 10 ?u) ?n"
    and si: "same_input p q" and fs: "frameSize q = frameSize p" by auto
  note qf = same_inputD [OF si]
  have hx: "LinkHeader_Read C (?u @ x) = ?h" for x using LinkHeader_Read_append [OF u(1)] u(4) by simp
  show ?thesis
  proof (cases ok)
    case False
    have "decode C (?u @ x) = decode C (drop 1 ?u @ x)" for x
      using decode_bad_body [of ?h C "?u @ x" ?n] hx [of x] v [of x] ok False u(1,6)
      by (cases ?u) auto
    then show ?thesis
      using False q st b qf full u buffer_ok_AdvanceRead [of q 1] length_unread [OF b]
      by (simp add: step_sim_def ParseOneStep_def ParseBody_def FailFrame_def unread_AdvanceRead)
  next
    case True
    let ?q = "TransferUserData q\<lparr>pstate := Complete\<rparr>"
    have bq: "body_length q = ?n" by (simp add: body_length_def payload_length_def qf)
    have mem: "readPos p + 10 + CalcUserDataSize ?n \<le> length (rxBuffer p)"
      using u(6) b length_unread [OF b] by (auto simp: CalcFrameSize_def buffer_ok_def NumBytesRead_def)
    have tr: "rxBuffer ?q = body_data (drop (readPos p + 10) (rxBuffer p)) ?n @ drop ?n (rxBuffer p)"
      using ReadUserData_in_place [of 0 "readPos p + 10" ?n "rxBuffer p"] mem
      by (simp add: TransferUserData_def qf bq)
    have lb: "length (body_data (drop (readPos p + 10) (rxBuffer p)) ?n) = ?n"
      using mem by (intro length_body_data) simp
    have "drop 10 ?u @ drop (writePos p) (rxBuffer p) = drop (readPos p + 10) (rxBuffer p)"
      using u(1) b length_unread [OF b] unfolding ReadBuffer_def NumBytesRead_def
      by (intro window_drop) (auto simp: buffer_ok_def NumBytesRead_def)
    then have data: "body_data (drop (readPos p + 10) (rxBuffer p)) ?n = body_data (drop 10 ?u) ?n"
      using body_data_append [OF bl] by metis
    have n: "?n \<le> readPos p + frameSize p"
      using CalcUserDataSize_ge [of ?n] u(5) by (simp add: CalcFrameSize_def)
    have rx: "drop (readPos p + frameSize p) (rxBuffer ?q) = drop (readPos p + frameSize p) (rxBuffer p)"
      using lb n by (simp only: tr) simp
    have pos: "writePos ?q = writePos p" "readPos ?q = readPos p"
      using si by (simp_all add: TransferUserData_def same_input_def)
    have rest: "unread (AdvanceRead ?q (frameSize p)) = drop (frameSize p) ?u"
      using rx pos by (simp add: ReadBuffer_def NumBytesRead_def AdvanceRead_def drop_take add.commute)
    have bok: "buffer_ok ?q"
      using b pos lb mem CalcUserDataSize_ge [of ?n] by (simp add: buffer_ok_def tr)
    have nb: "NumBytesRead ?q = NumBytesRead p" "frameSize ?q = frameSize p"
      using pos fs by (simp_all add: NumBytesRead_def TransferUserData_def)
    have "decode C (?u @ x) = (header_fields ?h, body_data (drop 10 ?u) ?n)
        # decode C (drop (frameSize p) ?u @ x)" for x
      using decode_frame [of "?u @ x" C ?h ?n] sync_ok_append [of ?u x] header_ok_append [OF u(1), of x]
        hx [of x] v [of x] ok True u body_data_append [OF bl, of x] by simp
    moreover have "PushFrame ?q = ((header_fields ?h, body_data (drop 10 ?u) ?n), AdvanceRead ?q (frameSize p))"
      using lb by (simp add: PushFrame_def tr data [symmetric]) (simp add: TransferUserData_def qf bq fs)
    moreover have "ParseOneStep C p = ?q"
      using full q True st by (simp add: ParseOneStep_def ParseBody_def)
    ultimately show ?thesis
      using bok rest full nb by (simp add: step_sim_def)
  qed
qed

lemma ParseOneStep_sim:
  assumes "buffer_ok p" "state_ok C p"
  shows "step_sim C p (ParseOneStep C p)"
  using assms ParseSync_sim ParseHeader_sim ParseBody_sim by (cases "pstate p") auto

lemma quiescent_decode:
  assumes "buffer_ok p" "state_ok C p" "quiescent p"
  shows "decode C (unread p) = []"
proof (cases "NumBytesRead p < 10")
  case True
  with length_unread [OF assms(1)] show ?thesis by simp
next
  case False
  with assms have "pstate p = ReadBody" by (cases "pstate p") (auto simp: quiescent_def)
  with assms show ?thesis
    using decode_incomplete [of "unread p" C] length_unread [OF assms(1)]
    by (simp add: quiescent_def)
qed

lemma ParseOneStep_stuck:
  assumes "buffer_ok p" "state_ok C p" "pstate (ParseOneStep C p) = pstate p"
  shows "quiescent (ParseOneStep C p)"
proof (cases "pstate p")
  case FindSync
  obtain b q k where q: "Sync p 0 = (b, q, k)" by (metis prod_cases3)
  with Sync_sim [OF q assms(1), of C] FindSync assms(3) show ?thesis
    by (auto simp: quiescent_def ParseOneStep_def ParseSync_def split: if_splits)
next
  case ReadHeader
  with assms(3) show ?thesis
    by (auto simp: quiescent_def ParseOneStep_def ParseHeader_def split: if_splits prod.splits)
next
  case ReadBody
  with assms(3) show ?thesis
    by (auto simp: quiescent_def ParseOneStep_def ParseBody_def split: if_splits prod.splits)
next
  case Complete
  with assms(2) show ?thesis by simp
qed

lemma step_sim_trans:
  assumes "step_sim C p q" "pstate q \<noteq> Complete" "step_sim C q r"
  shows "step_sim C p r"
  using assms by (simp add: step_sim_def del: state_ok.simps)

lemma ParseUntilComplete_sim:
  "buffer_ok p \<Longrightarrow> state_ok C p \<Longrightarrow>
     step_sim C p (ParseUntilComplete C p)
     \<and> (pstate (ParseUntilComplete C p) \<noteq> Complete \<longrightarrow> quiescent (ParseUntilComplete C p))"
proof (induction "parse_measure p" arbitrary: p rule: less_induct)
  case less
  let ?q = "ParseOneStep C p"
  have sim: "step_sim C p ?q" using less.prems by (rule ParseOneStep_sim)
  have unfold: "ParseUntilComplete C p = (if pstate ?q \<noteq> pstate p then ParseUntilComplete C ?q else ?q)"
    by (subst ParseUntilComplete.simps) (simp add: Let_def)
  show ?case
  proof (cases "pstate ?q = pstate p")
    case True
    with sim unfold ParseOneStep_stuck [OF less.prems True] show ?thesis by simp
  next
    case moved: False
    show ?thesis
    proof (cases "pstate ?q = Complete")
      case True
      then have "ParseUntilComplete C ?q = ?q"
        by (subst ParseUntilComplete.simps) (simp add: Let_def ParseOneStep_def)
      with sim unfold moved True show ?thesis by simp
    next
      case False
      have q: "buffer_ok ?q" "state_ok C ?q" using sim False by (auto simp: step_sim_def)
      with less.hyps [OF ParseOneStep_measure [OF moved]] step_sim_trans [OF sim False] unfold moved
      show ?thesis by simp
    qed
  qed
qed

lemma state_ok_ready: "state_ok C p \<Longrightarrow> frame_ready p"
  by (cases "pstate p") (auto simp: frame_ready_def CalcFrameSize_def)

lemma parse_frames_sim:
  "buffer_ok p \<Longrightarrow> state_ok C p \<Longrightarrow> parse_frames C p = (fs, q) \<Longrightarrow>
     buffer_ok q \<and> state_ok C q \<and> quiescent q \<and> NumBytesRead q \<le> NumBytesRead p
     \<and> (\<forall>x. decode C (unread p @ x) = fs @ decode C (unread q @ x))"
proof (induction "NumBytesRead p" arbitrary: p fs rule: less_induct)
  case less
  let ?p' = "ParseUntilComplete C p"
  have sim: "step_sim C p ?p'" and quiet: "pstate ?p' \<noteq> Complete \<Longrightarrow> quiescent ?p'"
    using ParseUntilComplete_sim [OF less.prems(1,2)] by auto
  show ?case
  proof (cases "pstate ?p' = Complete")
    case False
    then have "fs = []" "q = ?p'"
      using less.prems(3) parse_frames.simps [of C p] by (simp_all add: Let_def)
    with False sim quiet ParseUntilComplete_ready [OF state_ok_ready [OF less.prems(2)], of C]
    show ?thesis by (simp add: step_sim_def del: state_ok.simps)
  next
    case True
    let ?s = "?p'\<lparr>pstats := (pstats ?p')\<lparr>numLinkFrameRx := numLinkFrameRx (pstats ?p') + 1\<rparr>\<rparr>"
    let ?r = "snd (PushFrame ?s)\<lparr>pstate := FindSync\<rparr>"
    obtain gs where rec: "parse_frames C ?r = (gs, q)" and fs: "fs = fst (PushFrame ?s) # gs"
      using less.prems(3) True
      by (subst (asm) parse_frames.simps) (auto simp: Let_def split: prod.splits)
    have ready: "10 \<le> frameSize ?p'" "frameSize ?p' \<le> NumBytesRead ?p'" "NumBytesRead ?p' \<le> NumBytesRead p"
      using ParseUntilComplete_ready [OF state_ok_ready [OF less.prems(2)], of C] True
      by (auto simp: frame_ready_def)
    have push: "fst (PushFrame ?s) = fst (PushFrame ?p')"
      "unread ?r = unread (snd (PushFrame ?p'))"
      by (simp_all add: PushFrame_def unread_AdvanceRead)
    have "buffer_ok ?r"
      using sim ready(2) buffer_ok_AdvanceRead [of ?s "frameSize ?s"]
      by (simp add: PushFrame_def step_sim_def)
    moreover have "state_ok C ?r" by simp
    moreover have lt: "NumBytesRead ?r < NumBytesRead p"
      using ready by (simp add: PushFrame_def)
    ultimately have "buffer_ok q \<and> state_ok C q \<and> quiescent q \<and> NumBytesRead q \<le> NumBytesRead ?r
        \<and> (\<forall>x. decode C (unread ?r @ x) = gs @ decode C (unread q @ x))"
      using less.hyps [of ?r gs] rec by blast
    moreover have "decode C (unread p @ x) = fst (PushFrame ?s) # decode C (unread ?r @ x)" for x
      using sim True push by (simp add: step_sim_def)
    ultimately show ?thesis using fs lt by simp
  qed
qed

lemma frame_size_le: "valid_header h \<Longrightarrow> CalcFrameSize (payload_length h) \<le> 292"
proof -
  have "payload_length h \<le> 250"
    using unat_byte_less [of "hlength h"] unfolding payload_length_def by linarith
  then show ?thesis using CalcUserDataSize_bound by (simp add: CalcFrameSize_def)
qed

lemma quiescent_room:
  assumes "buffer_ok p" "state_ok C p" "quiescent p"
  shows "NumBytesRead p < 292"
  using assms frame_size_le [of "pheader p"]
  by (cases "pstate p") (auto simp: quiescent_def header_ok_def)

lemma unread_Shift: "buffer_ok p \<Longrightarrow> unread (Shift p) = unread p"
  by (auto simp: Shift_def Let_def ReadBuffer_def NumBytesRead_def buffer_ok_def min_def)

lemma Shift_inv:
  assumes "buffer_ok p" "state_ok C p" "quiescent p"
  shows "parser_inv C (Shift p)"
proof -
  have n: "NumBytesRead (Shift p) = NumBytesRead p"
    by (simp add: Shift_def Let_def NumBytesRead_def)
  have "buffer_ok (Shift p)"
    using assms(1) by (auto simp: Shift_def Let_def NumBytesRead_def buffer_ok_def)
  moreover have f: "pstate (Shift p) = pstate p" "pheader (Shift p) = pheader p"
    "frameSize (Shift p) = frameSize p" "readPos (Shift p) = 0"
    by (simp_all add: Shift_def Let_def)
  ultimately show ?thesis
    using assms n unread_Shift [OF assms(1)]
    by (cases "pstate p") (simp_all add: parser_inv_def quiescent_def)
qed

lemma channel_write_ok:
  assumes "parser_inv C p" "length bs \<le> NumWriteBytes p"
  defines "q \<equiv> AdvanceWrite (channel_write p bs) (length bs)"
  shows "buffer_ok q" and "state_ok C q" and "unread q = unread p @ bs"
proof -
  have b: "length (rxBuffer p) = 292" "readPos p = 0" "writePos p \<le> 292"
    "writePos p + length bs \<le> 292"
    using assms by (auto simp: parser_inv_def buffer_ok_def NumWriteBytes_def M_SIZE_def)
  show "buffer_ok q"
    using b by (simp add: q_def buffer_ok_def AdvanceWrite_def channel_write_def)
  show u: "unread q = unread p @ bs"
    using b by (simp add: q_def ReadBuffer_def NumBytesRead_def AdvanceWrite_def channel_write_def)
  have n: "NumBytesRead q = NumBytesRead p + length bs"
    using b by (simp add: q_def NumBytesRead_def AdvanceWrite_def channel_write_def)
  have f: "pstate q = pstate p" "pheader q = pheader p" "frameSize q = frameSize p"
    by (simp_all add: q_def AdvanceWrite_def channel_write_def)
  have l: "length (unread p) = NumBytesRead p"
    using assms(1) by (intro length_unread) (simp add: parser_inv_def)
  show "state_ok C q"
    using assms(1) u n f l
    by (auto simp: parser_inv_def header_ok_append LinkHeader_Read_append sync_ok_append
        split: ParserState.splits)
qed

lemma OnRead_sim:
  assumes "parser_inv C p" "length bs \<le> NumWriteBytes p"
    and "OnRead C (channel_write p bs) (length bs) = (fs, q)"
  shows "parser_inv C q \<and> NumBytesRead q \<le> NumBytesRead p + length bs
    \<and> (\<forall>x. decode C (unread p @ bs @ x) = fs @ decode C (unread q @ x))"
proof -
  obtain r where r: "parse_frames C (AdvanceWrite (channel_write p bs) (length bs)) = (fs, r)"
    and q: "q = Shift r"
    using assms(3) by (auto simp: OnRead_def split: prod.splits)
  note ok = channel_write_ok [OF assms(1,2)]
  have "NumBytesRead (AdvanceWrite (channel_write p bs) (length bs)) = NumBytesRead p + length bs"
    using assms(1) by (simp add: parser_inv_def NumBytesRead_def AdvanceWrite_def channel_write_def)
  with parse_frames_sim [OF ok(1,2) r] have "buffer_ok r" "state_ok C r" "quiescent r"
    "NumBytesRead r \<le> NumBytesRead p + length bs"
    "\<forall>x. decode C (unread p @ bs @ x) = fs @ decode C (unread r @ x)"
    by (auto simp: ok(3))
  moreover have "NumBytesRead (Shift r) = NumBytesRead r"
    by (simp add: Shift_def Let_def NumBytesRead_def)
  ultimately show ?thesis using q Shift_inv [of r] unread_Shift [of r] by simp
qed

end

section \<open>Feeding a stream in chunks\<close>

text \<open>
  The channel hands the parser chunks of the stream, each no longer than the free part
  of the buffer (\<open>WriteBuff\<close>) at that moment.
\<close>

fun feed :: "u16_codec \<Rightarrow> LinkLayerParser \<Rightarrow> byte list list \<Rightarrow> link_frame list \<times> LinkLayerParser" where
  "feed C p [] = ([], p)"
| "feed C p (c # cs) =
     (let (fs, q) = OnRead C (channel_write p c) (length c); (gs, r) = feed C q cs in (fs @ gs, r))"

fun chunks_fit :: "u16_codec \<Rightarrow> LinkLayerParser \<Rightarrow> byte list list \<Rightarrow> bool" where
  "chunks_fit C p [] \<longleftrightarrow> True"
| "chunks_fit C p (c # cs) \<longleftrightarrow> length c \<le> NumWriteBytes p
     \<and> chunks_fit C (snd (OnRead C (channel_write p c) (length c))) cs"

context codec16
begin

lemma parser_inv_init: "length mem = 292 \<Longrightarrow> parser_inv C (Parser_init mem)"
  by (simp add: parser_inv_def Parser_init_def buffer_ok_def quiescent_def NumBytesRead_def)

lemma parser_inv_Reset: "buffer_ok p \<Longrightarrow> parser_inv C (Parser_Reset p)"
  by (simp add: parser_inv_def Parser_Reset_def Buffer_Reset_def buffer_ok_def quiescent_def NumBytesRead_def)

lemma parser_inv_room: "parser_inv C p \<Longrightarrow> 0 < NumWriteBytes p"
  using quiescent_room [of p] by (simp add: parser_inv_def NumWriteBytes_def M_SIZE_def NumBytesRead_def)

text \<open>A stream no longer than the buffer may be cut in any way.\<close>

lemma chunks_fit_short:
  "parser_inv C p \<Longrightarrow> NumBytesRead p + length (concat cs) \<le> 292 \<Longrightarrow> chunks_fit C p cs"
proof (induction cs arbitrary: p)
  case Nil
  then show ?case by simp
next
  case (Cons c cs)
  obtain gs r where r: "OnRead C (channel_write p c) (length c) = (gs, r)" by fastforce
  have fit: "length c \<le> NumWriteBytes p"
    using Cons.prems by (simp add: parser_inv_def NumWriteBytes_def M_SIZE_def NumBytesRead_def)
  from OnRead_sim [OF Cons.prems(1) fit r] Cons.prems(2) have "parser_inv C r"
    "NumBytesRead r + length (concat cs) \<le> 292" by simp_all
  then show ?case using Cons.IH fit r by simp
qed

lemma feed_sim:
  "parser_inv C p \<Longrightarrow> chunks_fit C p cs \<Longrightarrow> feed C p cs = (fs, q) \<Longrightarrow>
     parser_inv C q \<and> (\<forall>x. decode C (unread p @ concat cs @ x) = fs @ decode C (unread q @ x))"
proof (induction cs arbitrary: p fs)
  case Nil
  then show ?case by simp
next
  case (Cons c cs)
  obtain gs r where r: "OnRead C (channel_write p c) (length c) = (gs, r)" by fastforce
  obtain hs where h: "feed C r cs = (hs, q)" and fs: "fs = gs @ hs"
    using Cons.prems(3) r by (auto split: prod.splits)
  have o: "parser_inv C r" "\<And>x. decode C (unread p @ c @ x) = gs @ decode C (unread r @ x)"
    using OnRead_sim [OF Cons.prems(1) _ r] Cons.prems(2) by auto
  have "chunks_fit C r cs" using Cons.prems(2) r by simp
  from Cons.IH [OF o(1) this h] show ?case by (simp add: o(2) fs)
qed

lemma feed_decode:
  assumes "parser_inv C p" "chunks_fit C p cs"
  shows "fst (feed C p cs) = decode C (unread p @ concat cs)"
proof -
  obtain fs q where f: "feed C p cs = (fs, q)" by fastforce
  from feed_sim [OF assms f] have q: "parser_inv C q"
    "decode C (unread p @ concat cs) = fs @ decode C (unread q)"
    by (auto dest: spec [of _ "[]"])
  moreover have "decode C (unread q) = []"
    using q(1) by (intro quiescent_decode) (simp_all add: parser_inv_def)
  ultimately show ?thesis by (simp add: f)
qed

end
section \<open>Every frame the link layer formats is parsed back\<close>

text \<open>The frames the layer can send, each with the arguments of its formatting function.\<close>

datatype tx_frame =
    TxAck bool bool u16 u16
  | TxNack bool bool u16 u16
  | TxLinkStatus bool bool u16 u16
  | TxNotSupported bool bool u16 u16
  | TxResetLinkStates bool u16 u16
  | TxRequestLinkStatus bool u16 u16
  | TxTestLinkStatus bool bool u16 u16
  | TxConfirmedUserData bool bool u16 u16 "byte list"
  | TxUnconfirmedUserData bool u16 u16 "byte list"

fun tx_bytes :: "u16_codec \<Rightarrow> byte list \<Rightarrow> tx_frame \<Rightarrow> byte list" where
  "tx_bytes C buf (TxAck m full d s) = fst (FormatAck C buf m full d s)"
| "tx_bytes C buf (TxNack m full d s) = fst (FormatNack C buf m full d s)"
| "tx_bytes C buf (TxLinkStatus m full d s) = fst (FormatLinkStatus C buf m full d s)"
| "tx_bytes C buf (TxNotSupported m full d s) = fst (FormatNotSupported C buf m full d s)"
| "tx_bytes C buf (TxResetLinkStates m d s) = fst (FormatResetLinkStates C buf m d s)"
| "tx_bytes C buf (TxRequestLinkStatus m d s) = fst (FormatRequestLinkStatus C buf m d s)"
| "tx_bytes C buf (TxTestLinkStatus m b d s) = fst (FormatTestLinkStatus C buf m b d s)"
| "tx_bytes C buf (TxConfirmedUserData m b d s ud) = fst (FormatConfirmedUserData C buf m b d s ud)"
| "tx_bytes C buf (TxUnconfirmedUserData m d s ud) = fst (FormatUnconfirmedUserData C buf m d s ud)"

definition mk_fields :: "LinkFunction \<Rightarrow> bool \<Rightarrow> bool \<Rightarrow> bool \<Rightarrow> u16 \<Rightarrow> u16 \<Rightarrow> LinkHeaderFields" where
  "mk_fields f m b v d s = \<lparr> func = f, isFromMaster = m, fcb = b, fcvdfc = v,
     addresses = \<lparr> source = s, destination = d \<rparr> \<rparr>"

fun tx_delivers :: "tx_frame \<Rightarrow> link_frame" where
  "tx_delivers (TxAck m full d s) = (mk_fields SEC_ACK m False full d s, [])"
| "tx_delivers (TxNack m full d s) = (mk_fields SEC_NACK m False full d s, [])"
| "tx_delivers (TxLinkStatus m full d s) = (mk_fields SEC_LINK_STATUS m False full d s, [])"
| "tx_delivers (TxNotSupported m full d s) = (mk_fields SEC_NOT_SUPPORTED m False full d s, [])"
| "tx_delivers (TxResetLinkStates m d s) = (mk_fields PRI_RESET_LINK_STATES m False False d s, [])"
| "tx_delivers (TxRequestLinkStatus m d s) = (mk_fields PRI_REQUEST_LINK_STATUS m False False d s, [])"
| "tx_delivers (TxTestLinkStatus m b d s) = (mk_fields PRI_TEST_LINK_STATES m b True d s, [])"
| "tx_delivers (TxConfirmedUserData m b d s ud) = (mk_fields PRI_CONFIRMED_USER_DATA m b True d s, ud)"
| "tx_delivers (TxUnconfirmedUserData m d s ud) = (mk_fields PRI_UNCONFIRMED_USER_DATA m False False d s, ud)"

fun tx_ok :: "tx_frame \<Rightarrow> bool" where
  "tx_ok (TxConfirmedUserData m b d s ud) \<longleftrightarrow> 1 \<le> length ud \<and> length ud \<le> 250"
| "tx_ok (TxUnconfirmedUserData m d s ud) \<longleftrightarrow> 1 \<le> length ud \<and> length ud \<le> 250"
| "tx_ok _ \<longleftrightarrow> True"

definition frame_bytes :: "u16_codec \<Rightarrow> LinkHeader \<Rightarrow> byte list \<Rightarrow> byte list" where
  "frame_bytes C h ud = take 10 (LinkHeader_Write C h []) @ WriteUserData C ud [] (length ud)"

lemma valid_function_ControlByte:
  assumes "f \<noteq> INVALID" "hctrl h = ControlByte m b v f"
    and "f \<in> {SEC_ACK, SEC_NACK, SEC_LINK_STATUS, SEC_NOT_SUPPORTED} \<Longrightarrow> \<not> b"
    and "f \<in> {PRI_CONFIRMED_USER_DATA, PRI_TEST_LINK_STATES} \<Longrightarrow> v"
    and "f \<in> {PRI_REQUEST_LINK_STATUS, PRI_RESET_LINK_STATES, PRI_UNCONFIRMED_USER_DATA} \<Longrightarrow> \<not> v"
  shows "valid_function h"
  using assms GetFuncEnum_ControlByte [OF assms(1,2)] flags_ControlByte [OF assms(1,2)]
  by (cases f) (simp_all add: valid_function_def)

context codec16
begin

lemma take_LinkHeader_Write: "take 10 (LinkHeader_Write C h buf) = take 10 (LinkHeader_Write C h [])"
  by (simp only: LinkHeader_Write_take)

lemma length_header_bytes: "length (take 10 (LinkHeader_Write C h buf)) = 10"
  by (simp add: LinkHeader_Write_take AddCrc_def length_write)

lemma decode_frame_bytes:
  assumes "valid_header h" "payload_length h = length ud"
  shows "decode C (frame_bytes C h ud @ x) = (header_fields h, ud) # decode C x"
proof -
  define hd where "hd = take 10 (LinkHeader_Write C h [])"
  define b where "b = WriteUserData C ud [] (length ud)"
  let ?hd = hd and ?b = b and ?u = "hd @ b @ x"
  have l: "length ?hd = 10" unfolding hd_def by (rule length_header_bytes)
  have w: "LinkHeader_Write C h [] = ?hd"
    unfolding hd_def by (simp add: LinkHeader_Write_take) (simp add: LinkHeader_Write_def)
  have read: "LinkHeader_Read C ?u = h"
    using LinkHeader_Read_append [of ?hd "?b @ x"] l LinkHeader_Read_Write [of h "[]"] w by simp
  have crc: "IsCorrectCRC C ?u 8"
    using IsCorrectCRC_append [of 8 ?hd "?b @ x"] l LinkHeader_Write_crc [of h "[]"] w by simp
  have sync: "sync_ok ?u" by (simp add: hd_def sync_ok_def LinkHeader_Write_take AddCrc_def)
  have d10: "drop 10 ?u = ?b @ x" using l by simp
  have lb: "length ?b = CalcUserDataSize (length ud)" unfolding b_def by (rule length_WriteUserData) simp
  have hok: "header_ok C ?u" using crc assms(1) by (simp only: header_ok_def read)
  have val: "ValidateBodyCRC C (drop 10 ?u) (length ud)"
    using ValidateBodyCRC_append [of "length ud" ?b x] WriteUserData_valid [of ud "length ud" "[]"] lb
    unfolding d10 by (simp add: b_def)
  have data: "body_data (drop 10 ?u) (length ud) = ud"
    using body_data_append [of "length ud" ?b x] WriteUserData_data [of ud "length ud" "[]"] lb
    unfolding d10 by (simp add: b_def)
  have rest: "drop (CalcFrameSize (length ud)) ?u = x"
    using l lb by (simp add: CalcFrameSize_def)
  have le: "CalcFrameSize (length ud) \<le> length ?u"
    using l lb by (simp add: CalcFrameSize_def)
  have "decode C ?u = (header_fields h, ud) # decode C x"
    using decode_frame [OF sync hok read [symmetric] assms(2) [symmetric] le val]
    by (simp only: data rest)
  then show ?thesis by (simp add: frame_bytes_def hd_def b_def)
qed

lemma FormatHeader_eq:
  "10 \<le> length buf \<Longrightarrow> FormatHeader C buf n m b v f d s =
     (take 10 (LinkHeader_Write C (LinkHeader_Set (n + 5) s d m v b f) []),
      LinkHeader_Write C (LinkHeader_Set (n + 5) s d m v b f) buf, 10)"
  by (simp add: FormatHeader_def Let_def take_LinkHeader_Write [of _ buf])

lemma header_only_decode:
  assumes "f \<notin> {INVALID, PRI_CONFIRMED_USER_DATA, PRI_UNCONFIRMED_USER_DATA}"
    and "f \<in> {SEC_ACK, SEC_NACK, SEC_LINK_STATUS, SEC_NOT_SUPPORTED} \<Longrightarrow> \<not> b"
    and "f = PRI_TEST_LINK_STATES \<Longrightarrow> v"
    and "f \<in> {PRI_REQUEST_LINK_STATUS, PRI_RESET_LINK_STATES} \<Longrightarrow> \<not> v"
  shows "decode C (take 10 (LinkHeader_Write C (LinkHeader_Set 5 s d m v b f) []) @ x)
      = (mk_fields f m b v d s, []) # decode C x"
proof -
  let ?h = "LinkHeader_Set 5 s d m v b f"
  have hc: "hctrl ?h = ControlByte m b v f" by (simp add: LinkHeader_Set_def)
  have f: "f \<noteq> INVALID" using assms(1) by auto
  have vh: "valid_header ?h"
    using valid_function_ControlByte [OF f hc] assms GetFuncEnum_ControlByte [OF f hc]
    by (auto simp: valid_header_def ValidLength_def payload_length_def LinkHeader_Set_def)
  have "header_fields ?h = mk_fields f m b v d s"
    using GetFuncEnum_ControlByte [OF f hc] flags_ControlByte [OF f hc]
    by (simp add: header_fields_def mk_fields_def) (simp add: LinkHeader_Set_def)
  then show ?thesis
    using decode_frame_bytes [OF vh, of "[]" x]
    by (simp add: frame_bytes_def payload_length_def) (simp add: LinkHeader_Set_def)
qed

lemma user_data_decode:
  fixes buf ud :: "byte list"
  assumes buf: "292 \<le> length buf" and ud: "1 \<le> length ud" "length ud \<le> 250"
    and f: "f = PRI_CONFIRMED_USER_DATA \<and> v \<or> f = PRI_UNCONFIRMED_USER_DATA \<and> \<not> v"
    and mem: "mem = LinkHeader_Write C (LinkHeader_Set (of_nat (length ud) + 5) s d m v b f) buf"
  shows "decode C (take (CalcUserDataSize (length ud) + 10)
            (take 10 mem @ WriteUserData C ud (drop 10 mem) (length ud)) @ x)
         = (mk_fields f m b v d s, ud) # decode C x"
proof -
  let ?h = "LinkHeader_Set (of_nat (length ud) + 5) s d m v b f"
  have hc: "hctrl ?h = ControlByte m b v f" by (simp add: LinkHeader_Set_def)
  have fi: "f \<noteq> INVALID" using f by auto
  have len: "unat (hlength ?h) = length ud + 5"
    using ud by (simp add: LinkHeader_Set_def unat_word_ariths unat_of_nat)
  then have pl: "payload_length ?h = length ud" by (simp add: payload_length_def)
  have "4 < hlength ?h" using len by (simp add: word_less_nat_alt)
  then have vh: "valid_header ?h"
    using valid_function_ControlByte [OF fi hc] f ud pl GetFuncEnum_ControlByte [OF fi hc]
    by (auto simp: valid_header_def ValidLength_def)
  have hf: "header_fields ?h = mk_fields f m b v d s"
    using GetFuncEnum_ControlByte [OF fi hc] flags_ControlByte [OF fi hc]
    by (simp add: header_fields_def mk_fields_def) (simp add: LinkHeader_Set_def)
  have l10: "length (take 10 mem) = 10" unfolding mem by (rule length_header_bytes)
  have lw: "length (WriteUserData C ud [] (length ud)) = CalcUserDataSize (length ud)"
    by (rule length_WriteUserData) simp
  have "take (CalcUserDataSize (length ud) + 10) (take 10 mem @ WriteUserData C ud (drop 10 mem) (length ud))
      = frame_bytes C ?h ud"
    using l10 lw WriteUserData_append [OF refl, of ud "drop 10 mem"]
    unfolding frame_bytes_def by (simp add: mem take_LinkHeader_Write [of _ buf])
  with decode_frame_bytes [OF vh pl, of x] hf show ?thesis by simp
qed

lemma FormatConfirmedUserData_decode:
  assumes "292 \<le> length buf" "1 \<le> length ud" "length ud \<le> 250"
  shows "decode C (fst (FormatConfirmedUserData C buf m b d s ud) @ x)
    = (mk_fields PRI_CONFIRMED_USER_DATA m b True d s, ud) # decode C x"
proof -
  have n: "\<not> length ud > LPDU_MAX_USER_DATA_SIZE" and b: "10 \<le> length buf" using assms by simp_all
  show ?thesis
    unfolding FormatConfirmedUserData_def FormatHeader_eq [OF b] if_not_P [OF n] Let_def prod.case fst_conv
      LPDU_HEADER_SIZE_def
    by (rule user_data_decode [OF assms]) simp_all
qed

lemma FormatUnconfirmedUserData_decode:
  assumes "292 \<le> length buf" "1 \<le> length ud" "length ud \<le> 250"
  shows "decode C (fst (FormatUnconfirmedUserData C buf m d s ud) @ x)
    = (mk_fields PRI_UNCONFIRMED_USER_DATA m False False d s, ud) # decode C x"
proof -
  have n: "\<not> length ud > LPDU_MAX_USER_DATA_SIZE" and b: "10 \<le> length buf" using assms by simp_all
  show ?thesis
    unfolding FormatUnconfirmedUserData_def FormatHeader_eq [OF b] if_not_P [OF n] Let_def prod.case fst_conv
      LPDU_HEADER_SIZE_def
    by (rule user_data_decode [OF assms]) simp_all
qed

lemma tx_decode:
  assumes "292 \<le> length buf" "tx_ok t"
  shows "decode C (tx_bytes C buf t @ x) = tx_delivers t # decode C x"
proof -
  have b: "10 \<le> length buf" using assms(1) by simp
  show ?thesis
    using assms b
    by (cases t)
       (simp_all add: FormatAck_def FormatNack_def FormatLinkStatus_def FormatNotSupported_def
          FormatResetLinkStates_def FormatRequestLinkStatus_def FormatTestLinkStatus_def
          FormatConfirmedUserData_decode FormatUnconfirmedUserData_decode FormatHeader_eq,
        (rule header_only_decode; simp)+)
qed

lemma tx_stream_decode:
  "292 \<le> length buf \<Longrightarrow> \<forall>t \<in> set ts. tx_ok t \<Longrightarrow>
     decode C (concat (map (tx_bytes C buf) ts)) = map tx_delivers ts"
  by (induction ts) (simp_all add: tx_decode)

end
section \<open>The properties\<close>

text \<open>
  The in-place copy of the received user data: although source and destination lie in
  the same array and overlap, the bytes delivered are the data bytes of the blocks as they
  were received, and no byte outside the first \<open>n\<close> of the destination is changed.
\<close>

theorem ReadUserData_overlap_safe:
  assumes "w \<le> r" and "r + CalcUserDataSize n \<le> length mem"
  shows "ReadUserData mem r w n = take w mem @ body_data (drop r mem) n @ drop (w + n) mem"
  using assms by (rule ReadUserData_in_place)

lemma ReadUserData_overlap_safe_witness:
  "ReadUserData [1, 2, 3, 4, 5] 1 0 2 = take 0 [1, 2, 3, 4, 5 :: byte] @ body_data (drop 1 [1, 2, 3, 4, 5]) 2
     @ drop (0 + 2) [1, 2, 3, 4, 5]"
  by (rule ReadUserData_overlap_safe) (simp_all add: CalcUserDataSize_def)

text \<open>
  C3. The frames that come out of the parser depend on the byte stream only, not on how the
  channel cuts it into reads: whatever chunks arrive, as long as each fits into the free part
  of the buffer, the delivered frames are exactly \<open>decode\<close> of the concatenated stream. The
  parser resynchronises after garbage and after corrupted frames as \<open>decode\<close> does.
\<close>

theorem parser_refines_stream_decoder:
  assumes "codec16 C" and "length mem = 292" and "chunks_fit C (Parser_init mem) cs"
  shows "fst (feed C (Parser_init mem) cs) = decode C (concat cs)"
proof -
  have "unread (Parser_init mem) = []"
    by (simp add: ReadBuffer_def Parser_init_def NumBytesRead_def)
  then show ?thesis
    using codec16.feed_decode [OF assms(1) codec16.parser_inv_init [OF assms(1,2)] assms(3)] by simp
qed

lemma init_chunks_fit:
  "codec16 C \<Longrightarrow> length mem = 292 \<Longrightarrow> length (concat cs) \<le> 292 \<Longrightarrow> chunks_fit C (Parser_init mem) cs"
  by (rule codec16.chunks_fit_short [OF _ codec16.parser_inv_init])
     (simp_all add: Parser_init_def NumBytesRead_def)

lemma parser_refines_stream_decoder_witness:
  "fst (feed le16 (Parser_init (replicate 292 0)) [[0x05], [0x64, 0x05]]) = decode le16 (concat [[0x05], [0x64, 0x05]])"
  by (rule parser_refines_stream_decoder [OF le16.codec16_axioms _ init_chunks_fit [OF le16.codec16_axioms]])
     simp_all

text \<open>
  C4. Round trip of the link layer: any sequence of frames formatted by the nine
  \<open>Format\<close> functions, sent back to back and cut into reads in any way, is delivered by the
  receiving parser as exactly that sequence of header fields and user data.
\<close>

theorem link_frames_roundtrip:
  assumes "codec16 C" and "292 \<le> length buf" and "length mem = 292"
    and "\<forall>t \<in> set ts. tx_ok t"
    and "concat cs = concat (map (tx_bytes C buf) ts)" and "chunks_fit C (Parser_init mem) cs"
  shows "fst (feed C (Parser_init mem) cs) = map tx_delivers ts"
proof -
  have "unread (Parser_init mem) = []"
    by (simp add: ReadBuffer_def Parser_init_def NumBytesRead_def)
  then show ?thesis
    using codec16.feed_decode [OF assms(1) codec16.parser_inv_init [OF assms(1,3)] assms(6)]
      codec16.tx_stream_decode [OF assms(1,2,4)] assms(5) by simp
qed

lemma length_tx_LinkStatus: "codec16 C \<Longrightarrow> 292 \<le> length buf \<Longrightarrow> length (tx_bytes C buf (TxLinkStatus m v d s)) = 10"
  by (simp add: FormatLinkStatus_def codec16.FormatHeader_eq codec16.length_header_bytes del: length_take)

lemma link_frames_roundtrip_witness:
  "fst (feed le16 (Parser_init (replicate 292 0))
      [tx_bytes le16 (replicate 292 0) (TxLinkStatus False False 1 2)
        @ take 3 (tx_bytes le16 (replicate 292 0) (TxLinkStatus False False 1 3)),
       drop 3 (tx_bytes le16 (replicate 292 0) (TxLinkStatus False False 1 3))])
   = map tx_delivers [TxLinkStatus False False 1 2, TxLinkStatus False False 1 3]"
  by (rule link_frames_roundtrip [OF le16.codec16_axioms, where buf = "replicate 292 0"])
     (simp_all add: init_chunks_fit [OF le16.codec16_axioms] length_tx_LinkStatus [OF le16.codec16_axioms]
        del: tx_bytes.simps chunks_fit.simps feed.simps)

text \<open>
  C39. The parser never runs out of buffer: after any sequence of reads that fit, there is
  room for at least one more byte, so the next read can always make progress, and the
  positions stay inside the array.
\<close>

theorem parser_always_has_room:
  assumes "codec16 C" and "length mem = 292" and "chunks_fit C (Parser_init mem) cs"
    and "q = snd (feed C (Parser_init mem) cs)"
  shows "0 < NumWriteBytes q \<and> readPos q = 0 \<and> writePos q < 292 \<and> length (rxBuffer q) = 292"
proof -
  have "parser_inv C q"
    using codec16.feed_sim [OF assms(1) codec16.parser_inv_init [OF assms(1,2)] assms(3)] assms(4)
    by (metis prod.collapse)
  with codec16.parser_inv_room [OF assms(1)] show ?thesis
    by (simp add: parser_inv_def buffer_ok_def NumWriteBytes_def M_SIZE_def)
qed

lemma parser_always_has_room_witness:
  "0 < NumWriteBytes (snd (feed le16 (Parser_init (replicate 292 0)) [[0x05], [0x64, 0x05]]))
   \<and> readPos (snd (feed le16 (Parser_init (replicate 292 0)) [[0x05], [0x64, 0x05]])) = 0
   \<and> writePos (snd (feed le16 (Parser_init (replicate 292 0)) [[0x05], [0x64, 0x05]])) < 292
   \<and> length (rxBuffer (snd (feed le16 (Parser_init (replicate 292 0)) [[0x05], [0x64, 0x05]]))) = 292"
  by (rule parser_always_has_room [OF le16.codec16_axioms _ init_chunks_fit [OF le16.codec16_axioms]])
     (simp_all del: feed.simps)

end
