(* ===== verification/Link_Layer.thy ===== *)
theory Link_Layer
  imports Link_Context Link_Parser
begin

text \<open>
  What makes the link layer correct: events and runs of a station (\<open>link_step\<close>, \<open>link_run\<close>), the
  invariant of its state (\<open>link_inv\<close>), the interface to the segments of the layer above (locales
  \<open>transport_segment\<close> and \<open>segment_sender\<close>), the frame filter, the frame count bit of confirmed
  data, the reply buffer, and two behaviours to know about: a confirmed broadcast and a request in flight.
\<close>

section \<open>The invariant\<close>

definition sec_waiting :: "SecState \<Rightarrow> bool" where
  "sec_waiting s = (s = SLLS_TransmitWaitReset \<or> s = SLLS_TransmitWaitNotReset)"

definition reply_outstanding :: "'seg LinkContext \<Rightarrow> bool" where
  "reply_outstanding ctx = (txMode ctx = TxSecondary \<or> pendingSecTx ctx \<noteq> None)"

definition offline_clean :: "'seg LinkContext \<Rightarrow> bool" where
  "offline_clean ctx =
     (\<not> pSegments ctx \<and> txMode ctx = TxIdle \<and> \<not> keepAliveTimeout ctx \<and> rspTimeoutTimer ctx = None
      \<and> keepAliveTimer ctx = None \<and> pPriState ctx = PLLS_Idle \<and> pSecState ctx = SLLS_NotReset)"

definition link_inv :: "'seg LinkContext \<Rightarrow> bool" where
  "link_inv ctx =
     ((\<not> isOnline ctx \<longrightarrow> offline_clean ctx)
      \<and> (pPriState ctx = PLLS_SendUnconfirmedTransmitWait \<longrightarrow> pSegments ctx)
      \<and> (pPriState ctx = PLLS_RequestLinkStatusWait \<longleftrightarrow> rspTimeoutTimer ctx \<noteq> None)
      \<and> (txMode ctx = TxIdle \<longrightarrow> pendingPriTx ctx = None \<and> pendingSecTx ctx = None)
      \<and> (txMode ctx = TxSecondary \<longrightarrow> pendingSecTx ctx = None)
      \<and> (reply_outstanding ctx \<longrightarrow> sec_waiting (pSecState ctx))
      \<and> NullSegments \<notin> set (events ctx))"

lemmas pri_defs = PriState_OnAck_def PriState_OnNack_def PriState_OnLinkStatus_def PriState_OnNotSupported_def
  PriState_OnTxReady_def PriState_OnTimeout_def PriState_TrySendUnconfirmed_def
  PriState_TrySendRequestLinkStatus_def
  PriStateBase_OnAck_def PriStateBase_OnNack_def PriStateBase_OnLinkStatus_def PriStateBase_OnNotSupported_def
  PriStateBase_OnTxReady_def PriStateBase_OnTimeout_def PriStateBase_TrySendUnconfirmed_def
  PriStateBase_TrySendRequestLinkStatus_def PLLS_Idle_TrySendUnconfirmed_def
  PLLS_Idle_TrySendRequestLinkStatus_def PLLS_SendUnconfirmedTransmitWait_OnTxReady_def
  PLLS_RequestLinkStatusWait_OnAck_def PLLS_RequestLinkStatusWait_OnNack_def
  PLLS_RequestLinkStatusWait_OnLinkStatus_def PLLS_RequestLinkStatusWait_OnNotSupported_def
  PLLS_RequestLinkStatusWait_OnTxReady_def PLLS_RequestLinkStatusWait_OnTimeout_def set_pri_def

lemmas sec_defs = SecState_OnTestLinkStatus_def SecState_OnConfirmedUserData_def
  SecState_OnResetLinkStates_def SecState_OnRequestLinkStatus_def SecState_OnTxReady_def
  SLLS_NotReset_OnTestLinkStatus_def SLLS_NotReset_OnConfirmedUserData_def
  SLLS_NotReset_OnResetLinkStates_def SLLS_NotReset_OnRequestLinkStatus_def
  SLLS_Reset_OnTestLinkStatus_def SLLS_Reset_OnConfirmedUserData_def
  SLLS_Reset_OnResetLinkStates_def SLLS_Reset_OnRequestLinkStatus_def
  SLLS_TransmitWait_ignore_def SecStateBase_OnTxReady_def set_sec_def

lemmas ctx_defs = emit_def count_unexpected_def ResetReadFCB_def ToggleReadFCB_def PushDataUp_def
  CompleteSendOperation_def StartResponseTimer_def CancelTimer_def RestartKeepAliveTimer_def
  FailKeepAlive_def CompleteKeepAlive_def

lemmas queue_defs = QueueAck_def QueueLinkStatus_def QueueRequestLinkStatus_def QueueTransmit_def
  send_segment_def FormatPrimaryBufferWithUnconfirmed_def tx_mode_def

lemmas inv_defs = link_inv_def offline_clean_def reply_outstanding_def sec_waiting_def

lemma PriState_frame_inv:
  assumes "link_inv ctx"
  shows "link_inv (PriState_OnAck ctx)" "link_inv (PriState_OnNack ctx)"
    "link_inv (PriState_OnLinkStatus ctx)" "link_inv (PriState_OnNotSupported ctx)"
  using assms by (cases "pPriState ctx"; simp add: inv_defs pri_defs ctx_defs)+

lemma PriState_OnTimeout_inv: "link_inv ctx \<Longrightarrow> link_inv (PriState_OnTimeout (ctx\<lparr>rspTimeoutTimer := None\<rparr>))"
  by (cases "pPriState ctx") (simp_all add: inv_defs pri_defs ctx_defs)

lemma SecState_frame_inv:
  assumes "link_inv ctx" and "isOnline ctx"
  shows "link_inv (SecState_OnTestLinkStatus C ctx src b)" "link_inv (SecState_OnResetLinkStates C ctx src)"
    "link_inv (SecState_OnRequestLinkStatus C ctx src)"
    "link_inv (SecState_OnConfirmedUserData C ctx src b br ad d)"
  using assms
  by (cases "pSecState ctx"; cases "txMode ctx"; simp add: inv_defs sec_defs ctx_defs queue_defs split_beta Let_def)+

lemma RestartKeepAliveTimer_inv: "link_inv ctx \<Longrightarrow> isOnline ctx \<Longrightarrow> link_inv (RestartKeepAliveTimer ctx)"
  by (simp add: inv_defs ctx_defs)

lemma TryStartTransmission_inv:
  assumes "link_inv ctx" and "isOnline ctx"
  shows "link_inv (TryStartTransmission C I ctx)"
  using assms
  by (cases "pPriState ctx"; cases "txMode ctx"; cases "keepAliveTimeout ctx"; cases "pSegments ctx")
     (simp_all add: TryStartTransmission_def inv_defs pri_defs ctx_defs queue_defs split_beta Let_def)

lemma isOnline_simps [simp]:
  "isOnline (PriState_OnAck ctx) = isOnline ctx" "isOnline (PriState_OnNack ctx) = isOnline ctx"
  "isOnline (PriState_OnLinkStatus ctx) = isOnline ctx" "isOnline (PriState_OnNotSupported ctx) = isOnline ctx"
  "isOnline (PriState_OnTimeout ctx) = isOnline ctx" "isOnline (PriState_OnTxReady C I ctx) = isOnline ctx"
  "isOnline (RestartKeepAliveTimer ctx) = isOnline ctx"
  "isOnline (PushDataUp ctx a d) = isOnline ctx"
  by (simp_all add: pri_defs ctx_defs queue_defs split_beta Let_def split: PriState.split)

lemma isOnline_sec [simp]:
  "isOnline (SecState_OnTestLinkStatus C ctx src b) = isOnline ctx"
  "isOnline (SecState_OnResetLinkStates C ctx src) = isOnline ctx"
  "isOnline (SecState_OnRequestLinkStatus C ctx src) = isOnline ctx"
  "isOnline (SecState_OnConfirmedUserData C ctx src b br ad d) = isOnline ctx"
  "isOnline (SecState_OnTxReady ctx) = isOnline ctx"
  by (simp_all add: sec_defs ctx_defs queue_defs split_beta Let_def split: SecState.split)

lemma isOnline_dispatch [simp]: "isOnline (dispatch_frame C ctx h d) = isOnline ctx"
  by (simp add: dispatch_frame_def split: LinkFunction.split)

lemma PushDataUp_inv [simp]: "link_inv (PushDataUp ctx a d) = link_inv ctx"
  by (simp add: inv_defs ctx_defs)

lemma dispatch_frame_inv: "link_inv ctx \<Longrightarrow> isOnline ctx \<Longrightarrow> link_inv (dispatch_frame C ctx h d)"
  by (simp add: dispatch_frame_def PriState_frame_inv SecState_frame_inv split: LinkFunction.split)

lemma LinkContext_OnTxReady_inv:
  assumes "link_inv ctx"
  shows "link_inv (snd (LinkContext_OnTxReady C I ctx))"
  using assms
  by (cases "txMode ctx"; cases "pPriState ctx"; cases "pSecState ctx"; cases "pendingPriTx ctx";
      cases "pendingSecTx ctx")
     (simp_all add: LinkContext_OnTxReady_def TryPendingTx_def inv_defs pri_defs sec_defs ctx_defs queue_defs
        split_beta Let_def)

lemma LinkContext_OnFrame_inv:
  assumes "link_inv ctx"
  shows "link_inv (snd (LinkContext_OnFrame C ctx h d))"
proof -
  have "link_inv (dispatch_frame C (RestartKeepAliveTimer ctx) h d)" if "isOnline ctx"
    using that assms by (simp add: dispatch_frame_inv RestartKeepAliveTimer_inv)
  with assms show ?thesis by (simp add: LinkContext_OnFrame_def) (simp add: inv_defs ctx_defs)
qed

lemma online_after:
  "fst (LinkContext_OnTxReady C I ctx) \<Longrightarrow> link_inv ctx \<Longrightarrow> isOnline (snd (LinkContext_OnTxReady C I ctx))"
  "fst (LinkContext_OnFrame C ctx h d) \<Longrightarrow> isOnline (snd (LinkContext_OnFrame C ctx h d))"
  by (auto simp: LinkContext_OnTxReady_def LinkContext_OnFrame_def TryPendingTx_def emit_def inv_defs Let_def
        split: if_splits option.splits)

lemma link_step_inv: "link_inv ctx \<Longrightarrow> link_inv (link_step C I ctx e)"
proof (cases e)
  case EvLowerLayerUp
  assume "link_inv ctx"
  with EvLowerLayerUp show ?thesis
    by (simp add: LinkLayer_OnLowerLayerUp_def LinkContext_OnLowerLayerUp_def inv_defs ctx_defs Let_def)
next
  case EvLowerLayerDown
  assume "link_inv ctx"
  with EvLowerLayerDown show ?thesis
    by (simp add: LinkLayer_OnLowerLayerDown_def LinkContext_OnLowerLayerDown_def inv_defs ctx_defs Let_def)
next
  case (EvFrame h d)
  assume "link_inv ctx"
  with EvFrame show ?thesis
    by (simp add: LinkLayer_OnFrame_def split_beta LinkContext_OnFrame_inv TryStartTransmission_inv online_after)
next
  case EvTxReady
  assume "link_inv ctx"
  with EvTxReady show ?thesis
    by (simp add: LinkLayer_OnTxReady_def split_beta LinkContext_OnTxReady_inv TryStartTransmission_inv online_after)
next
  case (EvSend seg)
  assume i: "link_inv ctx"
  have "link_inv (snd (SetTxSegment (ctx\<lparr>segments := seg\<rparr>)))"
    using i by (simp add: SetTxSegment_def inv_defs)
  moreover have "isOnline (snd (SetTxSegment (ctx\<lparr>segments := seg\<rparr>))) = isOnline ctx" by (simp add: SetTxSegment_def)
  moreover have "link_inv (ctx\<lparr>segments := seg\<rparr>)" using i by (simp add: inv_defs)
  ultimately show ?thesis
    using EvSend by (simp add: LinkLayer_Send_def split_beta Let_def TryStartTransmission_inv)
next
  case EvKeepAliveTimer
  assume i: "link_inv ctx"
  have "link_inv (RestartKeepAliveTimer (ctx\<lparr>keepAliveTimer := None\<rparr>))"
    "link_inv (RestartKeepAliveTimer (ctx\<lparr>keepAliveTimer := None, keepAliveTimeout := True\<rparr>))" if "isOnline ctx"
    using that i by (simp_all add: inv_defs ctx_defs)
  with EvKeepAliveTimer i show ?thesis
    by (simp add: OnKeepAliveTimeout_def Let_def TryStartTransmission_inv) (simp add: inv_defs)
next
  case EvResponseTimer
  assume "link_inv ctx"
  then have "link_inv (PriState_OnTimeout (ctx\<lparr>rspTimeoutTimer := None\<rparr>))" by (rule PriState_OnTimeout_inv)
  with EvResponseTimer \<open>link_inv ctx\<close> show ?thesis
    by (simp add: OnResponseTimeout_def Let_def TryStartTransmission_inv) (simp add: inv_defs)
qed

lemma link_run_inv: "link_inv ctx \<Longrightarrow> link_inv (link_run C I ctx es)"
proof (induction es arbitrary: ctx)
  case (Cons te es)
  have "link_inv (ctx\<lparr>executor_time := t\<rparr>)" for t using Cons.prems by (simp add: inv_defs)
  then show ?case by (cases te) (simp add: Cons.IH link_step_inv del: link_step.simps)
qed simp

lemma link_inv_init: "link_inv (LinkContext_init cfg priMem secMem now seg)"
  by (simp add: inv_defs LinkContext_init_def)

section \<open>The secondary station after a confirmed broadcast\<close>

definition deaf :: "'seg LinkContext \<Rightarrow> bool" where
  "deaf ctx = (isOnline ctx \<and> pSecState ctx = SLLS_TransmitWaitReset \<and> \<not> reply_outstanding ctx)"

lemma deaf_queue_pri [simp]: "deaf (QueueTransmit ctx n True) = deaf ctx"
  by (simp add: deaf_def reply_outstanding_def QueueTransmit_def emit_def tx_mode_def)

lemma deaf_frame: "deaf ctx \<Longrightarrow> deaf (dispatch_frame C ctx h d)"
  by (simp add: dispatch_frame_def pri_defs sec_defs ctx_defs deaf_def reply_outstanding_def
        split: LinkFunction.split PriState.split)

lemma deaf_TryStart: "deaf ctx \<Longrightarrow> deaf (TryStartTransmission C I ctx)"
  by (cases "pPriState ctx"; cases "txMode ctx"; cases "keepAliveTimeout ctx"; cases "pSegments ctx")
     (simp_all add: TryStartTransmission_def deaf_def reply_outstanding_def pri_defs ctx_defs queue_defs
       split_beta Let_def)

lemma deaf_OnTxReady: "deaf ctx \<Longrightarrow> deaf (snd (LinkContext_OnTxReady C I ctx))"
  by (cases "txMode ctx"; cases "pPriState ctx"; cases "pendingPriTx ctx")
     (simp_all add: LinkContext_OnTxReady_def TryPendingTx_def deaf_def reply_outstanding_def pri_defs sec_defs
        ctx_defs queue_defs split_beta Let_def)

lemma deaf_Restart [simp]: "deaf (RestartKeepAliveTimer ctx) = deaf ctx"
  by (simp add: deaf_def reply_outstanding_def ctx_defs Let_def)

lemma deaf_upd [simp]:
  "deaf (ctx\<lparr>executor_time := t\<rparr>) = deaf ctx" "deaf (ctx\<lparr>segments := sg\<rparr>) = deaf ctx"
  "deaf (ctx\<lparr>keepAliveTimer := kt\<rparr>) = deaf ctx" "deaf (ctx\<lparr>rspTimeoutTimer := rt\<rparr>) = deaf ctx"
  "deaf (ctx\<lparr>keepAliveTimeout := kb\<rparr>) = deaf ctx" "deaf (ctx\<lparr>pSegments := pb\<rparr>) = deaf ctx"
  "deaf (ctx\<lparr>link_stats := st\<rparr>) = deaf ctx" "deaf (emit a ctx) = deaf ctx" "deaf (count_unexpected ctx) = deaf ctx"
  by (simp_all add: deaf_def reply_outstanding_def ctx_defs)

lemma deaf_OnTimeout: "deaf ctx \<Longrightarrow> deaf (PriState_OnTimeout ctx)"
  by (cases "pPriState ctx") (simp_all add: pri_defs FailKeepAlive_def deaf_def reply_outstanding_def ctx_defs)

lemma deaf_online: "deaf ctx \<Longrightarrow> isOnline ctx"
  by (simp add: deaf_def)

lemma deaf_step: "deaf ctx \<Longrightarrow> e \<noteq> EvLowerLayerDown \<Longrightarrow> deaf (link_step C I ctx e)"
  by (cases e)
     (simp_all add: deaf_online LinkLayer_OnLowerLayerUp_def LinkContext_OnLowerLayerUp_def LinkLayer_OnFrame_def
       LinkContext_OnFrame_def LinkLayer_OnTxReady_def LinkLayer_Send_def SetTxSegment_def OnKeepAliveTimeout_def
       OnResponseTimeout_def split_beta Let_def deaf_TryStart deaf_frame deaf_OnTxReady deaf_OnTimeout)

lemma deaf_run: "deaf ctx \<Longrightarrow> EvLowerLayerDown \<notin> snd ` set es \<Longrightarrow> deaf (link_run C I ctx es)"
proof (induction es arbitrary: ctx)
  case (Cons te es)
  then show ?case by (cases te) (auto simp: Cons.IH deaf_step simp del: link_step.simps)
qed simp

section \<open>Frames that are not for this station\<close>

definition frame_accepted :: "LinkLayerConfig \<Rightarrow> LinkHeaderFields \<Rightarrow> bool" where
  "frame_accepted cfg h =
     (isFromMaster h \<noteq> IsMaster cfg
      \<and> (destination (addresses h) = LocalAddr cfg \<or> IsBroadcast (addresses h))
      \<and> (source (addresses h) = RemoteAddr cfg \<or> respondToAnySource cfg)
      \<and> (IsBroadcast (addresses h) \<longrightarrow> func h = PRI_UNCONFIRMED_USER_DATA \<or> func h = PRI_CONFIRMED_USER_DATA))"

lemma OnFrame_accepted: "fst (LinkContext_OnFrame C ctx h d) = (isOnline ctx \<and> frame_accepted (config ctx) h)"
  by (auto simp: LinkContext_OnFrame_def frame_accepted_def)

lemma OnFrame_dispatch:
  "isOnline ctx \<Longrightarrow> frame_accepted (config ctx) h \<Longrightarrow>
   LinkContext_OnFrame C ctx h d = (True, dispatch_frame C (RestartKeepAliveTimer ctx) h d)"
  by (auto simp: LinkContext_OnFrame_def frame_accepted_def)

lemma OnFrame_rejected:
  assumes "\<not> (isOnline ctx \<and> frame_accepted (config ctx) h)" and "ctx' = snd (LinkContext_OnFrame C ctx h d)"
  shows "ctx' = ctx\<lparr>link_stats := link_stats ctx', events := events ctx'\<rparr>"
    and "events ctx' \<in> {events ctx, events ctx @ [ListenerOnUnknownDestinationAddress (destination (addresses h))],
           events ctx @ [ListenerOnUnknownSourceAddress (source (addresses h))]}"
  using assms
  by (auto simp: LinkContext_OnFrame_def frame_accepted_def emit_def count_unexpected_def split: if_splits)

section \<open>Transmission of a segmented message\<close>

definition unconfirmed_frame :: "u16_codec \<Rightarrow> bool \<Rightarrow> Addresses \<Rightarrow> byte list \<Rightarrow> byte list" where
  "unconfirmed_frame C m ad ud =
     frame_bytes C (LinkHeader_Set (of_nat (length ud) + 5) (source ad) (destination ad) m False False
       PRI_UNCONFIRMED_USER_DATA) ud"

context codec16
begin

lemma FormatUnconfirmedUserData_eq:
  assumes "292 \<le> length buf" "length ud \<le> 250"
  obtains mem adv where
    "FormatUnconfirmedUserData C buf m (destination ad) (source ad) ud = (unconfirmed_frame C m ad ud, mem, adv)"
    and "length mem = length buf"
    and "unconfirmed_frame C m ad ud = take (length (unconfirmed_frame C m ad ud)) mem"
proof -
  define h where "h = LinkHeader_Set (of_nat (length ud) + 5) (source ad) (destination ad) m False False
    PRI_UNCONFIRMED_USER_DATA"
  define mem where "mem = take 10 (LinkHeader_Write C h buf) @
    WriteUserData C ud (drop 10 (LinkHeader_Write C h buf)) (length ud)"
  have b: "10 \<le> length buf" and n: "\<not> length ud > LPDU_MAX_USER_DATA_SIZE" using assms by simp_all
  have l10: "length (take 10 (LinkHeader_Write C h buf)) = 10" by (rule length_header_bytes)
  have lw: "length (WriteUserData C ud [] (length ud)) = CalcUserDataSize (length ud)"
    by (rule length_WriteUserData) simp
  have sz: "CalcUserDataSize (length ud) \<le> 282" using CalcUserDataSize_bound assms(2) by blast
  have out: "take (CalcUserDataSize (length ud) + 10) mem = frame_bytes C h ud"
    using l10 lw WriteUserData_append [OF refl, of ud "drop 10 (LinkHeader_Write C h buf)"]
    unfolding frame_bytes_def mem_def by (simp add: take_LinkHeader_Write [of _ buf])
  have lf: "length (frame_bytes C h ud) = 10 + CalcUserDataSize (length ud)"
    using length_header_bytes [of h "[]"] lw by (simp add: frame_bytes_def)
  have lm: "length mem = length buf"
    using l10 lw sz assms(1) WriteUserData_append [OF refl, of ud "drop 10 (LinkHeader_Write C h buf)"]
      length_LinkHeader_Write [OF b, of h]
    unfolding mem_def by simp
  show ?thesis
  proof
    show "FormatUnconfirmedUserData C buf m (destination ad) (source ad) ud
        = (unconfirmed_frame C m ad ud, mem, 10 + CalcUserDataSize (length ud))"
      using out n
      unfolding FormatUnconfirmedUserData_def FormatHeader_eq [OF b] unconfirmed_frame_def
      by (simp add: mem_def h_def)
    show "length mem = length buf" by (rule lm)
    show "unconfirmed_frame C m ad ud = take (length (unconfirmed_frame C m ad ud)) mem"
      using out lf unfolding unconfirmed_frame_def h_def [symmetric] by (simp add: add.commute)
  qed
qed

end

text \<open>
  What the link layer relies on when it transmits the segments of its user: \<open>contents\<close> is the
  list of the segments that are still to be sent, \<open>GetSegment\<close> returns the first one and may be
  called again, and \<open>Advance\<close> drops it and tells whether there is another one.
\<close>

locale transport_segment =
  fixes I :: "'seg ITransportSegment" and valid :: "'seg \<Rightarrow> bool" and contents :: "'seg \<Rightarrow> byte list list"
  assumes get_segment: "valid s \<Longrightarrow> contents s \<noteq> [] \<Longrightarrow> seg_GetSegment I s = (d, s') \<Longrightarrow>
      d = hd (contents s) \<and> valid s' \<and> contents s' = contents s \<and> seg_GetAddresses I s' = seg_GetAddresses I s"
    and advance: "valid s \<Longrightarrow> contents s \<noteq> [] \<Longrightarrow> seg_Advance I s = (again, s') \<Longrightarrow>
      again = (tl (contents s) \<noteq> []) \<and> valid s' \<and> contents s' = tl (contents s)
        \<and> seg_GetAddresses I s' = seg_GetAddresses I s"
    and segment_fits: "valid s \<Longrightarrow> d \<in> set (contents s) \<Longrightarrow> length d \<le> 250"

locale segment_sender = codec16 C + transport_segment I valid contents
  for C I valid and contents :: "'seg \<Rightarrow> byte list list"

definition link_idle :: "'seg LinkContext \<Rightarrow> bool" where
  "link_idle ctx = (isOnline ctx \<and> \<not> pSegments ctx \<and> \<not> keepAliveTimeout ctx \<and> pPriState ctx = PLLS_Idle
     \<and> txMode ctx = TxIdle \<and> pendingPriTx ctx = None \<and> pendingSecTx ctx = None \<and> 292 \<le> length (priTxBuffer ctx))"

definition link_sending :: "'seg LinkContext \<Rightarrow> bool" where
  "link_sending ctx = (isOnline ctx \<and> pSegments ctx \<and> \<not> keepAliveTimeout ctx
     \<and> pPriState ctx = PLLS_SendUnconfirmedTransmitWait \<and> txMode ctx = TxPrimary \<and> pendingPriTx ctx = None
     \<and> pendingSecTx ctx = None \<and> 292 \<le> length (priTxBuffer ctx))"

abbreviation segment_frame :: "u16_codec \<Rightarrow> 'seg ITransportSegment \<Rightarrow> 'seg LinkContext \<Rightarrow> byte list \<Rightarrow> byte list" where
  "segment_frame C I ctx d \<equiv> unconfirmed_frame C (IsMaster (config ctx)) (seg_GetAddresses I (segments ctx)) d"

context segment_sender
begin

lemma send_segment_idle:
  assumes "txMode ctx = TxIdle" "292 \<le> length (priTxBuffer ctx)"
    and "valid (segments ctx)" "contents (segments ctx) \<noteq> []"
  obtains mem seg where
    "send_segment C I ctx = ctx\<lparr>segments := seg, priTxBuffer := mem, txMode := TxPrimary,
       events := events ctx @ [ChannelBeginTransmit (segment_frame C I ctx (hd (contents (segments ctx))))]\<rparr>"
    and "292 \<le> length mem" "valid seg" "contents seg = contents (segments ctx)"
    and "seg_GetAddresses I seg = seg_GetAddresses I (segments ctx)"
proof -
  obtain d seg where g: "seg_GetSegment I (segments ctx) = (d, seg)" by fastforce
  have s: "d = hd (contents (segments ctx))" "valid seg" "contents seg = contents (segments ctx)"
    "seg_GetAddresses I seg = seg_GetAddresses I (segments ctx)"
    using get_segment [OF assms(3,4) g] by simp_all
  have d: "length d \<le> 250" using segment_fits [OF assms(3)] s(1) assms(4) by simp
  obtain mem adv where f: "FormatUnconfirmedUserData C (priTxBuffer ctx) (IsMaster (config ctx))
      (destination (seg_GetAddresses I seg)) (source (seg_GetAddresses I seg)) d
      = (segment_frame C I ctx d, mem, adv)" "length mem = length (priTxBuffer ctx)"
      "segment_frame C I ctx d = take (length (segment_frame C I ctx d)) mem"
    using FormatUnconfirmedUserData_eq [OF assms(2) d, of "IsMaster (config ctx)" "seg_GetAddresses I seg"] s(4)
    by auto
  show ?thesis
  proof
    show "send_segment C I ctx = ctx\<lparr>segments := seg, priTxBuffer := mem, txMode := TxPrimary,
       events := events ctx @ [ChannelBeginTransmit (segment_frame C I ctx (hd (contents (segments ctx))))]\<rparr>"
      using f(1) f(3) [symmetric] assms(1) s(1)
      by (simp add: send_segment_def g FormatPrimaryBufferWithUnconfirmed_def QueueTransmit_def tx_slice_def
          tx_mode_def emit_def)
  qed (use f(2) assms(2) s in simp_all)
qed

lemma send_starts:
  assumes "link_idle ctx" "valid seg" "contents seg \<noteq> []" "ctx' = link_step C I ctx (EvSend seg)"
  shows "link_sending ctx'" "valid (segments ctx')" "contents (segments ctx') = contents seg"
    "seg_GetAddresses I (segments ctx') = seg_GetAddresses I seg" "config ctx' = config ctx"
    "events ctx' = events ctx @ [ChannelBeginTransmit
       (unconfirmed_frame C (IsMaster (config ctx)) (seg_GetAddresses I seg) (hd (contents seg)))]"
proof -
  let ?c = "ctx\<lparr>segments := seg, pSegments := True\<rparr>"
  obtain mem sg where s: "send_segment C I ?c = ?c\<lparr>segments := sg, priTxBuffer := mem, txMode := TxPrimary,
       events := events ?c @ [ChannelBeginTransmit (segment_frame C I ?c (hd (contents (segments ?c))))]\<rparr>"
    "292 \<le> length mem" "valid sg" "contents sg = contents seg" "seg_GetAddresses I sg = seg_GetAddresses I seg"
    using send_segment_idle [of ?c] assms(1-3) by (auto simp: link_idle_def)
  have "ctx' = (send_segment C I ?c)\<lparr>pPriState := PLLS_SendUnconfirmedTransmitWait\<rparr>"
    using assms(1,4)
    by (simp add: link_idle_def LinkLayer_Send_def SetTxSegment_def TryStartTransmission_def
        PriState_TrySendUnconfirmed_def PLLS_Idle_TrySendUnconfirmed_def set_pri_def Let_def)
  with s assms(1) show "link_sending ctx'" "valid (segments ctx')" "contents (segments ctx') = contents seg"
    "seg_GetAddresses I (segments ctx') = seg_GetAddresses I seg" "config ctx' = config ctx"
    "events ctx' = events ctx @ [ChannelBeginTransmit
       (unconfirmed_frame C (IsMaster (config ctx)) (seg_GetAddresses I seg) (hd (contents seg)))]"
    by (simp_all add: link_idle_def link_sending_def)
qed

lemma OnTxReady_sending:
  assumes "link_sending ctx"
  shows "link_step C I ctx EvTxReady =
     TryStartTransmission C I (set_pri (PLLS_SendUnconfirmedTransmitWait_OnTxReady C I (ctx\<lparr>txMode := TxIdle\<rparr>)))"
  using assms
  by (simp add: link_sending_def LinkLayer_OnTxReady_def LinkContext_OnTxReady_def TryPendingTx_def
      PriState_OnTxReady_def Let_def)

lemma sending_continues:
  assumes "link_sending ctx" "valid (segments ctx)" "contents (segments ctx) = d # d' # ds"
    and "ctx' = link_step C I ctx EvTxReady"
  shows "link_sending ctx'" "valid (segments ctx')" "contents (segments ctx') = d' # ds"
    "seg_GetAddresses I (segments ctx') = seg_GetAddresses I (segments ctx)" "config ctx' = config ctx"
    "events ctx' = events ctx @ [ChannelBeginTransmit (segment_frame C I ctx d')]"
proof -
  obtain again seg where a: "seg_Advance I (segments ctx) = (again, seg)" by fastforce
  have s: "again" "valid seg" "contents seg = d' # ds" "seg_GetAddresses I seg = seg_GetAddresses I (segments ctx)"
    using advance [OF assms(2) _ a] assms(3) by auto
  let ?c = "ctx\<lparr>txMode := TxIdle, segments := seg\<rparr>"
  obtain mem sg where g: "send_segment C I ?c = ?c\<lparr>segments := sg, priTxBuffer := mem, txMode := TxPrimary,
       events := events ?c @ [ChannelBeginTransmit (segment_frame C I ?c (hd (contents (segments ?c))))]\<rparr>"
    "292 \<le> length mem" "valid sg" "contents sg = d' # ds" "seg_GetAddresses I sg = seg_GetAddresses I seg"
    using send_segment_idle [of ?c] assms(1) s by (auto simp: link_sending_def)
  have "ctx' = (send_segment C I ?c)\<lparr>pPriState := PLLS_SendUnconfirmedTransmitWait\<rparr>"
    using assms(1,4) s(1) OnTxReady_sending [OF assms(1)] g
    by (simp add: PLLS_SendUnconfirmedTransmitWait_OnTxReady_def a set_pri_def link_sending_def
        TryStartTransmission_def PriState_TrySendUnconfirmed_def PriStateBase_TrySendUnconfirmed_def Let_def
        del: link_step.simps)
  with g s assms(1) show "link_sending ctx'" "valid (segments ctx')" "contents (segments ctx') = d' # ds"
    "seg_GetAddresses I (segments ctx') = seg_GetAddresses I (segments ctx)" "config ctx' = config ctx"
    "events ctx' = events ctx @ [ChannelBeginTransmit (segment_frame C I ctx d')]"
    by (simp_all add: link_sending_def)
qed

lemma sending_ends:
  assumes "link_sending ctx" "valid (segments ctx)" "contents (segments ctx) = [d]"
    and "ctx' = link_step C I ctx EvTxReady"
  shows "link_idle ctx'" "valid (segments ctx')" "contents (segments ctx') = []" "config ctx' = config ctx"
    "events ctx' = events ctx @ [PostUpperOnTxReady]"
proof -
  obtain again seg where a: "seg_Advance I (segments ctx) = (again, seg)" by fastforce
  have s: "\<not> again" "valid seg" "contents seg = []"
    using advance [OF assms(2) _ a] assms(3) by auto
  have "ctx' = ctx\<lparr>txMode := TxIdle, segments := seg, pSegments := False, pPriState := PLLS_Idle,
      events := events ctx @ [PostUpperOnTxReady]\<rparr>"
    using assms(1,4) s(1) OnTxReady_sending [OF assms(1)]
    by (simp add: PLLS_SendUnconfirmedTransmitWait_OnTxReady_def a set_pri_def link_sending_def
        CompleteSendOperation_def emit_def TryStartTransmission_def Let_def del: link_step.simps)
  with s assms(1) show "link_idle ctx'" "valid (segments ctx')" "contents (segments ctx') = []"
    "config ctx' = config ctx" "events ctx' = events ctx @ [PostUpperOnTxReady]"
    by (simp_all add: link_sending_def link_idle_def)
qed

lemma link_time [simp]:
  "link_sending (ctx\<lparr>executor_time := t\<rparr>) = link_sending ctx" "link_idle (ctx\<lparr>executor_time := t\<rparr>) = link_idle ctx"
  by (simp_all add: link_sending_def link_idle_def)

lemma sending_run:
  assumes "link_sending ctx" "valid (segments ctx)" "contents (segments ctx) = d # ds"
    and "length ts = Suc (length ds)" "ctx' = link_run C I ctx (map (\<lambda>t. (t, EvTxReady)) ts)"
  shows "link_idle ctx' \<and> valid (segments ctx') \<and> contents (segments ctx') = [] \<and> config ctx' = config ctx
    \<and> events ctx' = events ctx @ map (\<lambda>d. ChannelBeginTransmit (segment_frame C I ctx d)) ds @ [PostUpperOnTxReady]"
  using assms
proof (induction ds arbitrary: ctx d ts)
  case Nil
  then obtain t where t: "ts = [t]" by (cases ts) auto
  have c: "link_sending (ctx\<lparr>executor_time := t\<rparr>)" "valid (segments (ctx\<lparr>executor_time := t\<rparr>))"
    "contents (segments (ctx\<lparr>executor_time := t\<rparr>)) = [d]" using Nil.prems by simp_all
  from sending_ends [OF c, of ctx'] Nil.prems(5) t show ?case by simp
next
  case (Cons d' ds)
  then obtain t us where t: "ts = t # us" "length us = Suc (length ds)" by (cases ts) auto
  have c: "link_sending (ctx\<lparr>executor_time := t\<rparr>)" "valid (segments (ctx\<lparr>executor_time := t\<rparr>))"
    "contents (segments (ctx\<lparr>executor_time := t\<rparr>)) = d # d' # ds" using Cons.prems by simp_all
  note s = sending_continues [OF c refl]
  have "ctx' = link_run C I (link_step C I (ctx\<lparr>executor_time := t\<rparr>) EvTxReady) (map (\<lambda>t. (t, EvTxReady)) us)"
    using Cons.prems(5) t(1) by simp
  from Cons.IH [OF s(1-3) t(2) this] s(4-6) show ?case by simp
qed

lemma message_run:
  assumes "link_idle ctx" "valid seg" "contents seg \<noteq> []" "length ts = length (contents seg)"
    and "ctx' = link_run C I ctx ((t0, EvSend seg) # map (\<lambda>t. (t, EvTxReady)) ts)"
  shows "link_idle ctx' \<and> valid (segments ctx') \<and> contents (segments ctx') = [] \<and> config ctx' = config ctx
    \<and> events ctx' = events ctx
        @ map (\<lambda>d. ChannelBeginTransmit (unconfirmed_frame C (IsMaster (config ctx)) (seg_GetAddresses I seg) d)) (contents seg)
        @ [PostUpperOnTxReady]"
proof -
  have i: "link_idle (ctx\<lparr>executor_time := t0\<rparr>)" using assms(1) by simp
  note s = send_starts [OF i assms(2,3) refl]
  obtain d ds where c: "contents seg = d # ds" using assms(3) by (cases "contents seg") auto
  have l: "length ts = Suc (length ds)" using assms(4) c by simp
  have e: "ctx' = link_run C I (link_step C I (ctx\<lparr>executor_time := t0\<rparr>) (EvSend seg)) (map (\<lambda>t. (t, EvTxReady)) ts)"
    using assms(5) by simp
  from sending_run [OF s(1,2) _ l e, of d] s(3-6) c show ?thesis by simp
qed

end

section \<open>The reply buffer\<close>

lemma reply_buffer_frame:
  "sec_waiting (pSecState ctx) \<Longrightarrow> secTxBuffer (dispatch_frame C ctx h d) = secTxBuffer ctx"
  by (auto simp: sec_waiting_def dispatch_frame_def pri_defs sec_defs ctx_defs split: LinkFunction.split PriState.split)

lemma reply_buffer_TryStart [simp]: "secTxBuffer (TryStartTransmission C I ctx) = secTxBuffer ctx"
  by (cases "pPriState ctx"; cases "txMode ctx"; cases "keepAliveTimeout ctx"; cases "pSegments ctx")
     (simp_all add: TryStartTransmission_def pri_defs ctx_defs queue_defs split_beta Let_def)

lemma reply_buffer_simps [simp]:
  "secTxBuffer (RestartKeepAliveTimer ctx) = secTxBuffer ctx" "pSecState (RestartKeepAliveTimer ctx) = pSecState ctx"
  "secTxBuffer (PriState_OnTimeout ctx) = secTxBuffer ctx" "secTxBuffer (emit a ctx) = secTxBuffer ctx"
  "secTxBuffer (count_unexpected ctx) = secTxBuffer ctx"
  by (simp_all add: ctx_defs pri_defs Let_def split: PriState.split)

section \<open>A segment source over a list, for examples\<close>

definition list_segment :: "Addresses \<Rightarrow> byte list list ITransportSegment" where
  "list_segment ad = \<lparr>seg_GetAddresses = (\<lambda>_. ad), seg_HasValue = (\<lambda>s. s \<noteq> []),
     seg_GetSegment = (\<lambda>s. (hd s, s)), seg_Advance = (\<lambda>s. (tl s \<noteq> [], tl s))\<rparr>"

abbreviation outstation_cfg :: LinkLayerConfig where "outstation_cfg \<equiv> LinkConfig_default False False"

definition fresh_link :: "byte list list LinkContext" where
  "fresh_link = (LinkContext_init outstation_cfg (replicate 292 0) (replicate 10 0) 0 [])"

definition reset_link :: "byte list list LinkContext" where
  "reset_link = fresh_link\<lparr>isOnline := True, pSecState := SLLS_Reset, nextReadFCB := True\<rparr>"

lemmas link_examples = fresh_link_def reset_link_def LinkContext_init_def LinkConfig_default_def

lemma reset_link_inv: "link_inv reset_link"
  by (simp add: inv_defs link_examples)

abbreviation seg_1_1024 :: "byte list list ITransportSegment" where
  "seg_1_1024 \<equiv> list_segment \<lparr>source = 1024, destination = 1\<rparr>"

section \<open>The properties\<close>

text \<open>
  C5. Safety of the link layer over every sequence of calls, frames and timer callbacks: the
  null segment pointer is never used, an offline layer holds no transmission, timer or
  pending frame, the response timer runs exactly while a link status request is
  unanswered, and the secondary station has at most one reply outstanding, during which
  it is in a transmit-wait state.
\<close>

theorem link_layer_invariant:
  "link_inv (link_run C I (LinkContext_init cfg priMem secMem now seg) es)"
  by (rule link_run_inv [OF link_inv_init])

text \<open>
  C29. The reply buffer is never overwritten while a reply refers to it: as long as a reply is in
  flight or pending, no event but the completion of a transmission or the loss of the
  channel changes the bytes of the buffer.
\<close>

theorem reply_buffer_is_stable:
  assumes "link_inv ctx" and "reply_outstanding ctx" and "e \<noteq> EvTxReady"
  shows "secTxBuffer (link_step C I ctx e) = secTxBuffer ctx"
proof -
  have w: "sec_waiting (pSecState ctx)" using assms(1,2) by (simp add: link_inv_def)
  show ?thesis
    using assms(3) w
    by (cases e)
       (simp_all add: LinkLayer_OnLowerLayerUp_def LinkContext_OnLowerLayerUp_def LinkLayer_OnLowerLayerDown_def
         LinkContext_OnLowerLayerDown_def LinkLayer_OnFrame_def LinkContext_OnFrame_def LinkLayer_Send_def
         SetTxSegment_def OnKeepAliveTimeout_def OnResponseTimeout_def split_beta Let_def reply_buffer_frame)
qed

lemma reply_buffer_is_stable_witness:
  "secTxBuffer (link_step le16 seg_1_1024 (fresh_link\<lparr>isOnline := True, txMode := TxSecondary,
       pSecState := SLLS_TransmitWaitReset\<rparr>) EvKeepAliveTimer)
   = secTxBuffer (fresh_link\<lparr>isOnline := True, txMode := TxSecondary, pSecState := SLLS_TransmitWaitReset\<rparr>)"
  by (rule reply_buffer_is_stable) (simp_all add: inv_defs link_examples)

text \<open>
  Which frames a link layer handles: online, from a station of the other kind, addressed to
  this station or to a broadcast address, from the configured remote station unless any
  source is allowed, and a broadcast only when it carries user data. Every other frame
  is dropped: it changes nothing but a counter, and at most tells the listener about an
  unknown address.
\<close>

theorem link_frame_filter:
  assumes "(ret, ctx') = LinkLayer_OnFrame C I ctx h d"
  shows "ret = (isOnline ctx \<and> frame_accepted (config ctx) h)
    \<and> (\<not> ret \<longrightarrow> ctx' = ctx\<lparr>link_stats := link_stats ctx', events := events ctx'\<rparr>
         \<and> events ctx' \<in> {events ctx, events ctx @ [ListenerOnUnknownDestinationAddress (destination (addresses h))],
             events ctx @ [ListenerOnUnknownSourceAddress (source (addresses h))]})"
proof -
  have r: "ret = (isOnline ctx \<and> frame_accepted (config ctx) h)"
    using assms OnFrame_accepted [of C ctx h d] by (simp add: LinkLayer_OnFrame_def split_beta)
  have "ctx' = snd (LinkContext_OnFrame C ctx h d)" if "\<not> ret"
    using assms that by (simp add: LinkLayer_OnFrame_def split_beta)
  with r show ?thesis using OnFrame_rejected [of ctx h ctx' C d] by blast
qed

lemma link_frame_filter_witness:
  "False = (isOnline fresh_link \<and> frame_accepted (config fresh_link) (mk_fields SEC_ACK True False False 1 1024))"
  using link_frame_filter [of False fresh_link le16 seg_1_1024 fresh_link "mk_fields SEC_ACK True False False 1 1024" "[]"]
  by (simp add: LinkLayer_OnFrame_def LinkContext_OnFrame_def link_examples)

text \<open>
  C28. A confirmed user data frame that is sent to a broadcast address disables the secondary
  station. No reply is queued for it, yet the station waits for the completion of a
  reply, so that it stays in the wait state through every later sequence of events in which the lower
  layer does not go down: it never replies again, and every later confirmed frame, reset, test or
  link status request is dropped without any effect. Only the loss of the lower layer ends this.
\<close>

theorem confirmed_broadcast_deafens_station:
  assumes "link_inv ctx" and "isOnline ctx" and "pSecState ctx = SLLS_Reset"
    and "frame_accepted (config ctx) h" and "func h = PRI_CONFIRMED_USER_DATA" and "IsBroadcast (addresses h)"
    and "EvLowerLayerDown \<notin> snd ` set es"
    and "ctx' = link_run C I (link_step C I ctx (EvFrame h d)) es"
    and "func h' \<in> {PRI_CONFIRMED_USER_DATA, PRI_RESET_LINK_STATES, PRI_REQUEST_LINK_STATUS, PRI_TEST_LINK_STATES}"
    and "frame_accepted (config ctx') h'"
  shows "pSecState ctx' = SLLS_TransmitWaitReset \<and> \<not> reply_outstanding ctx'
    \<and> LinkContext_OnFrame C ctx' h' d' = (True, RestartKeepAliveTimer ctx')
    \<and> pSecState (link_step C I ctx' EvLowerLayerDown) = SLLS_NotReset"
proof -
  let ?c = "RestartKeepAliveTimer ctx"
  have "\<not> reply_outstanding ctx" using assms(1,3) by (auto simp: link_inv_def sec_waiting_def)
  then have "deaf (dispatch_frame C ?c h d)"
    using assms(2,3,5,6)
    by (simp add: dispatch_frame_def sec_defs ctx_defs deaf_def reply_outstanding_def Let_def)
  then have "deaf (link_step C I ctx (EvFrame h d))"
    by (simp add: LinkLayer_OnFrame_def OnFrame_dispatch [OF assms(2,4)] deaf_TryStart)
  then have "deaf ctx'" unfolding assms(8) by (rule deaf_run [OF _ assms(7)])
  moreover have "dispatch_frame C (RestartKeepAliveTimer ctx') h' d' = RestartKeepAliveTimer ctx'"
    using calculation assms(9)
    by (auto simp: dispatch_frame_def deaf_def sec_defs RestartKeepAliveTimer_def Let_def)
  ultimately show ?thesis
    using OnFrame_dispatch [OF _ assms(10)]
    by (simp add: deaf_def LinkLayer_OnLowerLayerDown_def LinkContext_OnLowerLayerDown_def emit_def)
qed

lemma confirmed_broadcast_deafens_station_witness:
  "\<exists>ctx'. ctx' = link_run le16 seg_1_1024 (link_step le16 seg_1_1024 reset_link
       (EvFrame (mk_fields PRI_CONFIRMED_USER_DATA True True True 0xFFFE 1) [7])) [(5, EvTxReady)]
     \<and> pSecState ctx' = SLLS_TransmitWaitReset \<and> \<not> reply_outstanding ctx'"
proof -
  define ctx' where "ctx' = link_run le16 seg_1_1024 (link_step le16 seg_1_1024 reset_link
       (EvFrame (mk_fields PRI_CONFIRMED_USER_DATA True True True 0xFFFE 1) [7])) [(5, EvTxReady)]"
  have c: "config ctx' = outstation_cfg"
    unfolding ctx'_def
    by (simp add: link_examples mk_fields_def LinkLayer_OnFrame_def LinkContext_OnFrame_def IsBroadcast_def
        dispatch_frame_def sec_defs ctx_defs LinkLayer_OnTxReady_def LinkContext_OnTxReady_def TryStartTransmission_def)
  have "pSecState ctx' = SLLS_TransmitWaitReset \<and> \<not> reply_outstanding ctx'
    \<and> LinkContext_OnFrame le16 ctx' (mk_fields PRI_RESET_LINK_STATES True False False 1024 1) []
      = (True, RestartKeepAliveTimer ctx')
    \<and> pSecState (link_step le16 seg_1_1024 ctx' EvLowerLayerDown) = SLLS_NotReset"
    by (rule confirmed_broadcast_deafens_station [OF reset_link_inv _ _ _ _ _ _ ctx'_def])
       (simp_all add: c, simp_all add: link_examples mk_fields_def frame_accepted_def IsBroadcast_def)
  then show ?thesis using ctx'_def by blast
qed

section \<open>Confirmed user data\<close>

definition quiet_reset :: "'seg LinkContext \<Rightarrow> bool" where
  "quiet_reset ctx = (isOnline ctx \<and> \<not> pSegments ctx \<and> \<not> keepAliveTimeout ctx \<and> txMode ctx = TxIdle
     \<and> pendingPriTx ctx = None \<and> pendingSecTx ctx = None \<and> pSecState ctx = SLLS_Reset
     \<and> 10 \<le> length (secTxBuffer ctx))"

definition awaits_reply_tx :: "'seg LinkContext \<Rightarrow> bool" where
  "awaits_reply_tx ctx = (isOnline ctx \<and> \<not> pSegments ctx \<and> \<not> keepAliveTimeout ctx \<and> txMode ctx = TxSecondary
     \<and> pendingPriTx ctx = None \<and> pendingSecTx ctx = None \<and> pSecState ctx = SLLS_TransmitWaitReset
     \<and> 10 \<le> length (secTxBuffer ctx))"

definition ack_frame :: "u16_codec \<Rightarrow> LinkLayerConfig \<Rightarrow> u16 \<Rightarrow> byte list" where
  "ack_frame C cfg dest = take 10 (LinkHeader_Write C (LinkHeader_Set 5 (LocalAddr cfg) dest (IsMaster cfg)
     False False SEC_ACK) [])"

context codec16
begin

lemma QueueAck_idle:
  assumes "txMode ctx = TxIdle" "10 \<le> length (secTxBuffer ctx)"
  obtains mem where "QueueAck C ctx dest = ctx\<lparr>secTxBuffer := mem, txMode := TxSecondary,
      events := events ctx @ [ChannelBeginTransmit (ack_frame C (config ctx) dest)]\<rparr>"
    and "10 \<le> length mem"
proof -
  let ?m = "LinkHeader_Write C (LinkHeader_Set 5 (LocalAddr (config ctx)) dest (IsMaster (config ctx))
     False False SEC_ACK) (secTxBuffer ctx)"
  have "10 \<le> length ?m" using length_LinkHeader_Write [OF assms(2)] assms(2) by simp
  moreover have "QueueAck C ctx dest = ctx\<lparr>secTxBuffer := ?m, txMode := TxSecondary,
      events := events ctx @ [ChannelBeginTransmit (ack_frame C (config ctx) dest)]\<rparr>"
    using assms length_header_bytes
    by (simp add: QueueAck_def FormatAck_def FormatHeader_eq QueueTransmit_def tx_mode_def emit_def tx_slice_def
        ack_frame_def take_LinkHeader_Write [of _ "secTxBuffer ctx"] del: length_take)
  ultimately show ?thesis using that by blast
qed

lemma TryStart_quiet: "\<not> pSegments ctx \<Longrightarrow> \<not> keepAliveTimeout ctx \<Longrightarrow> TryStartTransmission C I ctx = ctx"
  by (simp add: TryStartTransmission_def)

lemma confirmed_frame_step:
  assumes "quiet_reset ctx" and "frame_accepted (config ctx) h" and "func h = PRI_CONFIRMED_USER_DATA"
    and "\<not> IsBroadcast (addresses h)" and "ctx' = link_step C I ctx (EvFrame h d)"
  shows "awaits_reply_tx ctx' \<and> config ctx' = config ctx
    \<and> nextReadFCB ctx' = (if nextReadFCB ctx = fcb h then \<not> nextReadFCB ctx else nextReadFCB ctx)
    \<and> events ctx' = events ctx @ ChannelBeginTransmit (ack_frame C (config ctx) (source (addresses h)))
         # (if nextReadFCB ctx = fcb h then [UpperOnReceive (addresses h) d] else [])"
proof -
  let ?c = "RestartKeepAliveTimer ctx"
  have on: "isOnline ctx" using assms(1) by (simp add: quiet_reset_def)
  have c: "txMode ?c = TxIdle" "10 \<le> length (secTxBuffer ?c)" "pSecState ?c = SLLS_Reset" "config ?c = config ctx"
    "events ?c = events ctx" "nextReadFCB ?c = nextReadFCB ctx" "\<not> pSegments ?c" "\<not> keepAliveTimeout ?c"
    "isOnline ?c" "pendingPriTx ?c = None" "pendingSecTx ?c = None"
    using assms(1) by (simp_all add: quiet_reset_def ctx_defs Let_def)
  obtain mem where q: "QueueAck C ?c (source (addresses h)) = ?c\<lparr>secTxBuffer := mem, txMode := TxSecondary,
      events := events ?c @ [ChannelBeginTransmit (ack_frame C (config ?c) (source (addresses h)))]\<rparr>" "10 \<le> length mem"
    using QueueAck_idle [OF c(1,2)] by blast
  define k where "k = dispatch_frame C ?c h d"
  have k: "k = (if nextReadFCB ctx = fcb h
      then ?c\<lparr>secTxBuffer := mem, txMode := TxSecondary, pSecState := SLLS_TransmitWaitReset,
             nextReadFCB := \<not> nextReadFCB ctx,
             events := events ctx @ [ChannelBeginTransmit (ack_frame C (config ctx) (source (addresses h))),
               UpperOnReceive (addresses h) d]\<rparr>
      else ?c\<lparr>secTxBuffer := mem, txMode := TxSecondary, pSecState := SLLS_TransmitWaitReset,
             events := events ctx @ [ChannelBeginTransmit (ack_frame C (config ctx) (source (addresses h)))]\<rparr>)"
    unfolding k_def using assms(3,4) q c
    by (simp add: dispatch_frame_def SecState_OnConfirmedUserData_def SLLS_Reset_OnConfirmedUserData_def Let_def
        set_sec_def PushDataUp_def emit_def ToggleReadFCB_def)
  have "ctx' = k"
    unfolding assms(5) k_def [symmetric]
    using TryStart_quiet [of k] c k by (simp add: LinkLayer_OnFrame_def OnFrame_dispatch [OF on assms(2)] k_def [symmetric])
  with k c q(2) show ?thesis by (simp add: awaits_reply_tx_def)
qed

lemma reply_sent_step:
  assumes "awaits_reply_tx ctx" and "ctx' = link_step C I ctx EvTxReady"
  shows "quiet_reset ctx' \<and> config ctx' = config ctx \<and> nextReadFCB ctx' = nextReadFCB ctx \<and> events ctx' = events ctx"
  using assms
  by (simp add: awaits_reply_tx_def quiet_reset_def LinkLayer_OnTxReady_def LinkContext_OnTxReady_def TryPendingTx_def
      SecState_OnTxReady_def set_sec_def TryStart_quiet Let_def)

lemma confirmed_exchange:
  assumes "quiet_reset ctx" and "frame_accepted (config ctx) h" and "func h = PRI_CONFIRMED_USER_DATA"
    and "\<not> IsBroadcast (addresses h)"
    and "ctx' = link_run C I ctx [(t, EvFrame h d), (u, EvTxReady)]"
  shows "quiet_reset ctx' \<and> config ctx' = config ctx
    \<and> nextReadFCB ctx' = (if nextReadFCB ctx = fcb h then \<not> nextReadFCB ctx else nextReadFCB ctx)
    \<and> events ctx' = events ctx @ ChannelBeginTransmit (ack_frame C (config ctx) (source (addresses h)))
         # (if nextReadFCB ctx = fcb h then [UpperOnReceive (addresses h) d] else [])"
proof -
  have "quiet_reset (ctx\<lparr>executor_time := t\<rparr>)" using assms(1) by (simp add: quiet_reset_def)
  note s = confirmed_frame_step [OF this _ assms(3,4) refl, where d = d and I = I]
  let ?m = "link_step C I (ctx\<lparr>executor_time := t\<rparr>) (EvFrame h d)"
  have "awaits_reply_tx (?m\<lparr>executor_time := u\<rparr>)" using s assms(2) by (simp add: awaits_reply_tx_def)
  from reply_sent_step [OF this refl, of I] s assms(2)
  show ?thesis unfolding assms(5) by (simp del: link_step.simps)
qed

lemma confirmed_repeats:
  assumes "quiet_reset ctx" and "frame_accepted (config ctx) h" and "func h = PRI_CONFIRMED_USER_DATA"
    and "\<not> IsBroadcast (addresses h)" and "nextReadFCB ctx \<noteq> fcb h"
    and "ctx' = link_run C I ctx (concat (map (\<lambda>(t, u). [(t, EvFrame h d), (u, EvTxReady)]) ts))"
  shows "quiet_reset ctx' \<and> nextReadFCB ctx' = nextReadFCB ctx
    \<and> events ctx' = events ctx @ replicate (length ts) (ChannelBeginTransmit (ack_frame C (config ctx) (source (addresses h))))"
  using assms
proof (induction ts arbitrary: ctx)
  case (Cons tu ts)
  obtain t u where tu: "tu = (t, u)" by fastforce
  define m where "m = link_run C I ctx [(t, EvFrame h d), (u, EvTxReady)]"
  have s: "quiet_reset m" "config m = config ctx" "nextReadFCB m = nextReadFCB ctx"
    "events m = events ctx @ [ChannelBeginTransmit (ack_frame C (config ctx) (source (addresses h)))]"
    using confirmed_exchange [OF Cons.prems(1-4) m_def] Cons.prems(5) by simp_all
  have "ctx' = link_run C I m (concat (map (\<lambda>(t, u). [(t, EvFrame h d), (u, EvTxReady)]) ts))"
    using Cons.prems(6) by (simp add: m_def tu del: link_step.simps)
  from Cons.IH [OF s(1) _ Cons.prems(3,4) _ this] s Cons.prems(2,5) show ?case by simp
qed simp

end

text \<open>
  C27. Confirmed user data is delivered to the upper layer exactly once however often the frame is
  repeated: a frame with the expected frame count bit, followed by any number of
  retransmissions, is acknowledged every time and passed up only the first time, after
  which the station expects the other frame count bit.
\<close>

theorem confirmed_data_delivered_once:
  assumes "codec16 C" and "quiet_reset ctx" and "frame_accepted (config ctx) h" and "func h = PRI_CONFIRMED_USER_DATA"
    and "\<not> IsBroadcast (addresses h)" and "nextReadFCB ctx = fcb h" and "ts \<noteq> []"
    and "ctx' = link_run C I ctx (concat (map (\<lambda>(t, u). [(t, EvFrame h d), (u, EvTxReady)]) ts))"
    and "ack = ChannelBeginTransmit (ack_frame C (config ctx) (source (addresses h)))"
  shows "events ctx' = events ctx @ [ack, UpperOnReceive (addresses h) d] @ replicate (length ts - 1) ack
    \<and> pSecState ctx' = SLLS_Reset \<and> nextReadFCB ctx' = (\<not> fcb h)"
proof -
  obtain t u us where ts: "ts = (t, u) # us" using assms(7) by (metis list.exhaust surj_pair)
  define m where "m = link_run C I ctx [(t, EvFrame h d), (u, EvTxReady)]"
  note s = codec16.confirmed_exchange [OF assms(1-5) m_def]
  have "ctx' = link_run C I m (concat (map (\<lambda>(t, u). [(t, EvFrame h d), (u, EvTxReady)]) us))"
    using assms(8) by (simp add: m_def ts del: link_step.simps)
  from codec16.confirmed_repeats [OF assms(1) _ _ assms(4,5) _ this] s assms(3,6,9) ts show ?thesis
    by (simp add: quiet_reset_def)
qed

lemma confirmed_data_delivered_once_witness:
  "pSecState (link_run le16 seg_1_1024 reset_link
      (concat (map (\<lambda>(t, u). [(t, EvFrame (mk_fields PRI_CONFIRMED_USER_DATA True True True 1024 1) [7]), (u, EvTxReady)])
         [(1, 2), (3, 4)]))) = SLLS_Reset"
  by (rule conjunct1 [OF conjunct2 [OF confirmed_data_delivered_once [OF le16.codec16_axioms _ _ _ _ _ _ refl refl]]])
     (simp_all add: quiet_reset_def link_examples mk_fields_def frame_accepted_def IsBroadcast_def)

section \<open>The primary buffer\<close>

lemma header_control_nth:
  "codec16 C \<Longrightarrow> take 10 (LinkHeader_Write C h buf) ! 3 = hctrl h"
  by (simp add: codec16.LinkHeader_Write_take AddCrc_def nth_append codec16.length_write)

text \<open>
  The buffer of the primary station, in contrast, is overwritten while a frame in it is being
  transmitted. When the response timer of a link status request expires (or its answer
  arrives) before the channel reports the end of the transmission, and a message waits to
  be sent, the layer formats the first segment into the same buffer: the request that the
  channel still refers to is replaced by the header of a user data frame.
\<close>

theorem request_overwritten_in_flight:
  assumes "codec16 C" and "isOnline ctx" and "txMode ctx = TxPrimary" and "pPriState ctx = PLLS_RequestLinkStatusWait"
    and "pSegments ctx" and "\<not> keepAliveTimeout ctx" and "292 \<le> length (priTxBuffer ctx)"
    and "10 \<le> length buf"
    and "take 10 (priTxBuffer ctx) = fst (FormatRequestLinkStatus C buf (IsMaster (config ctx)) dest (LocalAddr (config ctx)))"
    and "seg_GetSegment I (segments ctx) = (d, seg)" and "length d \<le> 250"
    and "ctx' = link_step C I ctx EvResponseTimer"
  shows "txMode ctx' = TxPrimary \<and> take 10 (priTxBuffer ctx') \<noteq> take 10 (priTxBuffer ctx)
    \<and> pPriState ctx' = PLLS_SendUnconfirmedTransmitWait \<and> pendingPriTx ctx' \<noteq> None"
proof -
  obtain mem adv where f: "FormatUnconfirmedUserData C (priTxBuffer ctx) (IsMaster (config ctx))
      (destination (seg_GetAddresses I seg)) (source (seg_GetAddresses I seg)) d
      = (unconfirmed_frame C (IsMaster (config ctx)) (seg_GetAddresses I seg) d, mem, adv)"
    "length mem = length (priTxBuffer ctx)"
    "unconfirmed_frame C (IsMaster (config ctx)) (seg_GetAddresses I seg) d
      = take (length (unconfirmed_frame C (IsMaster (config ctx)) (seg_GetAddresses I seg) d)) mem"
    using codec16.FormatUnconfirmedUserData_eq [OF assms(1,7,11)] by metis
  let ?f = "unconfirmed_frame C (IsMaster (config ctx)) (seg_GetAddresses I seg) d"
  have hd: "take 10 ?f ! 3 = ControlByte (IsMaster (config ctx)) False False PRI_UNCONFIRMED_USER_DATA"
    "10 \<le> length ?f"
    using header_control_nth [OF assms(1)] codec16.length_header_bytes [OF assms(1)]
    by (simp_all add: unconfirmed_frame_def frame_bytes_def LinkHeader_Set_def del: nth_take length_take)
  have "take 10 mem = take 10 ?f" using f(3) hd(2) by (metis min.absorb1 take_take)
  then have new: "take 10 mem ! 3 = ControlByte (IsMaster (config ctx)) False False PRI_UNCONFIRMED_USER_DATA"
    using hd(1) by simp
  have old: "take 10 (priTxBuffer ctx) ! 3 = ControlByte (IsMaster (config ctx)) False False PRI_REQUEST_LINK_STATUS"
    unfolding assms(9) using header_control_nth [OF assms(1)] assms(8)
    by (simp add: FormatRequestLinkStatus_def codec16.FormatHeader_eq [OF assms(1)] LinkHeader_Set_def del: nth_take)
  have "ControlByte (IsMaster (config ctx)) False False PRI_UNCONFIRMED_USER_DATA
      \<noteq> ControlByte (IsMaster (config ctx)) False False PRI_REQUEST_LINK_STATUS"
    by (simp add: ControlByte_def mask_defs)
  with old new have "take 10 mem \<noteq> take 10 (priTxBuffer ctx)" by metis
  moreover have "priTxBuffer ctx' = mem" "txMode ctx' = TxPrimary" "pPriState ctx' = PLLS_SendUnconfirmedTransmitWait"
    "pendingPriTx ctx' \<noteq> None"
    unfolding assms(12) using assms(2-6,10) f(1)
    by (simp_all add: OnResponseTimeout_def pri_defs FailKeepAlive_def emit_def TryStartTransmission_def send_segment_def
        FormatPrimaryBufferWithUnconfirmed_def QueueTransmit_def Let_def)
  ultimately show ?thesis by simp
qed

definition request_in_flight :: "byte list list LinkContext" where
  "request_in_flight = fresh_link\<lparr>isOnline := True, txMode := TxPrimary, pPriState := PLLS_RequestLinkStatusWait,
     pSegments := True, segments := [[1], [2]],
     priTxBuffer := fst (snd (FormatRequestLinkStatus le16 (replicate 292 0) False 1 1024))\<rparr>"

lemma request_overwritten_in_flight_witness:
  "take 10 (priTxBuffer (link_step le16 seg_1_1024 request_in_flight EvResponseTimer))
     \<noteq> take 10 (priTxBuffer request_in_flight)"
  by (rule conjunct1 [OF conjunct2 [OF request_overwritten_in_flight [OF le16.codec16_axioms, where buf = "replicate 292 0"
        and dest = 1 and d = "[1]" and seg = "[[1], [2]]"]]])
     (simp_all add: request_in_flight_def link_examples list_segment_def FormatRequestLinkStatus_def
        le16.FormatHeader_eq le16.length_LinkHeader_Write le16.take_LinkHeader_Write [of _ "replicate 292 0"] del: link_step.simps)

end
