(* ===== verification/Transport_Layer.thy ===== *)
theory Transport_Layer
  imports Transport Link_Layer "HOL-Library.Sublist"
begin

text \<open>
  What makes the transport layer correct: the header codec, the segments that the transmitter
  offers to the link layer (an interpretation of the link layer's interface), the receiver as
  the inverse of the transmitter from any prior state, and the guarantee that what the receiver
  delivers is the contiguous content of one segment sequence of one sender.
\<close>

section \<open>Header and sequence numbers\<close>

lemmas th_masks = FIN_MASK_def FIR_MASK_def SEQ_MASK_def

lemmas tpdu_consts [simp] = MAX_TPDU_LENGTH_def MAX_TPDU_PAYLOAD_def

lemma and_single_bit: "(b AND 64 \<noteq> 0) = bit b 6" "(b AND 128 \<noteq> 0) = bit b 7" for b :: byte
  using and_exp_eq_0_iff_not_bit [of b 6] and_exp_eq_0_iff_not_bit [of b 7] by simp_all

lemma TransportHeader_roundtrip:
  "TransportHeader_of (TransportHeader_ToByte fir fin s) = \<lparr>th_fir = fir, th_fin = fin, th_seq = s AND SEQ_MASK\<rparr>"
proof -
  have "(128::byte) AND 63 = 0" "(64::byte) AND 63 = 0" by simp_all
  then show ?thesis
  by (cases fir; cases fin)
     (simp_all add: TransportHeader_of_def TransportHeader_ToByte_def th_masks Let_def and_single_bit bit_simps
       bit.conj_disj_distrib2 and.assoc and.left_commute)
qed

lemma seq_small: "s < 64 \<Longrightarrow> s AND SEQ_MASK = (s :: byte)"
proof -
  assume "s < 64"
  then have "unat s < 64" by (simp add: word_less_nat_alt)
  then have "unat (take_bit 6 s) = unat s" unfolding unsigned_take_bit_eq by (simp add: take_bit_eq_mod)
  then have "take_bit 6 s = s" by (simp only: word_unat_eq_iff)
  then show ?thesis by (simp add: take_bit_eq_mask SEQ_MASK_def mask_eq_exp_minus_1)
qed

lemma TransportSeq_Next_less: "TransportSeq_Next s < 64"
  by (simp add: SequenceNum_Next_def word_less_nat_alt unat_of_nat)

section \<open>The segments of a message\<close>

text \<open>
  A specification, not the code: the segments that a transmitter has still to send. That \<open>GetSegment\<close> gives the first of
  them and \<open>Advance\<close> drops it is proved in \<open>GetSegment_spec\<close> and \<open>Advance_spec\<close>; the round trip below is stated
  over the loop of these two.
\<close>

function tx_segments :: "bool \<Rightarrow> byte \<Rightarrow> byte list \<Rightarrow> byte list list" where
  "tx_segments fir s p =
     (if p = [] then []
      else (TransportHeader_ToByte fir (length p \<le> 249) s # take 249 p)
             # tx_segments False (TransportSeq_Next s) (drop 249 p))"
  by pat_completeness auto
termination by (relation "measure (\<lambda>(_, _, p). length p)") auto

declare tx_segments.simps [simp del]

lemma tx_segments_Nil [simp]: "tx_segments fir s [] = []"
  by (simp add: tx_segments.simps)

lemma tx_segments_empty [simp]: "tx_segments fir s p = [] \<longleftrightarrow> p = []"
  by (simp add: tx_segments.simps)

lemma tx_segments_step:
  "p \<noteq> [] \<Longrightarrow> tx_segments fir s p = (TransportHeader_ToByte fir (length p \<le> 249) s # take 249 p)
     # tx_segments False (TransportSeq_Next s) (drop 249 p)"
  by (simp add: tx_segments.simps [of fir s p])

lemma length_tx_segments: "length (tx_segments fir s p) = (length p + 248) div 249"
proof (induction fir s p rule: tx_segments.induct)
  case (1 fir s p)
  show ?case
  proof (cases "p = []")
    case False
    then have "length (tx_segments fir s p) = Suc ((length p - 249 + 248) div 249)"
      using 1 by (simp add: tx_segments_step)
    with False show ?thesis by (cases "length p \<le> 249") (auto simp: div_if Suc_le_eq)
  qed simp
qed

lemma tx_segments_fit: "d \<in> set (tx_segments fir s p) \<Longrightarrow> length d \<le> 250"
proof (induction fir s p rule: tx_segments.induct)
  case (1 fir s p)
  then show ?case by (cases "p = []") (auto simp: tx_segments_step)
qed

definition tx_contents :: "TransportTx \<Rightarrow> byte list list" where
  "tx_contents tx = tx_segments (tpduCount tx = 0) (tx_sequence tx) (msg_payload (tx_message tx))"

definition tx_valid :: "TransportTx \<Rightarrow> bool" where
  "tx_valid tx =
     (250 \<le> length (tpduBuffer tx)
      \<and> unat (tpduCount tx) + length (tx_contents tx) < 4294967296
      \<and> (case txSegment tx of None \<Rightarrow> True
         | Some n \<Rightarrow> msg_payload (tx_message tx) \<noteq> [] \<and> take n (tpduBuffer tx) = hd (tx_contents tx)))"

lemma num_to_send_eq: "num_to_send tx = min (length (msg_payload (tx_message tx))) 249"
  by (simp add: num_to_send_def)

lemma GetSegment_spec:
  assumes "tx_valid tx" "tx_contents tx \<noteq> []" "TransportTx_GetSegment tx = (d, tx')"
  shows "d = hd (tx_contents tx) \<and> tx_valid tx' \<and> tx_contents tx' = tx_contents tx
    \<and> TransportTx_GetAddresses tx' = TransportTx_GetAddresses tx"
proof (cases "txSegment tx")
  case (Some n)
  with assms show ?thesis by (auto simp: TransportTx_GetSegment_def tx_valid_def)
next
  case None
  let ?p = "msg_payload (tx_message tx)" and ?n = "num_to_send tx"
  let ?mem = "(take 1 (tpduBuffer tx) @ take ?n ?p @ drop (1 + ?n) (tpduBuffer tx))
      [0 := TransportHeader_ToByte (tpduCount tx = 0) (?n = length ?p) (tx_sequence tx)]"
  have p: "?p \<noteq> []" using assms(2) by (simp add: tx_contents_def)
  have b: "250 \<le> length (tpduBuffer tx)" using assms(1) by (simp add: tx_valid_def)
  then obtain x xs where x: "tpduBuffer tx = x # xs" by (cases "tpduBuffer tx") auto
  have d: "d = take (?n + 1) ?mem" and t: "tx' = tx\<lparr>tpduBuffer := ?mem, numTransportTx := numTransportTx tx + 1,
      txSegment := Some (?n + 1)\<rparr>"
    using assms(3) None by (simp_all add: TransportTx_GetSegment_def Let_def)
  have "take (?n + 1) ?mem
      = TransportHeader_ToByte (tpduCount tx = 0) (?n = length ?p) (tx_sequence tx) # take ?n ?p"
    using x by (simp add: num_to_send_eq)
  also have "\<dots> = hd (tx_contents tx)"
    using p by (auto simp: tx_contents_def tx_segments_step num_to_send_eq min_def)
  finally have h: "take (?n + 1) ?mem = hd (tx_contents tx)" .
  have l: "250 \<le> length ?mem" using b by (auto simp: num_to_send_eq)
  have c: "tx_contents tx' = tx_contents tx" by (simp add: t tx_contents_def)
  from h l c d p assms(1) show ?thesis
    unfolding tx_valid_def c by (simp add: t TransportTx_GetAddresses_def)
qed

lemma Advance_spec:
  assumes "tx_valid tx" "tx_contents tx \<noteq> []" "TransportTx_Advance tx = (again, tx')"
  shows "again = (tl (tx_contents tx) \<noteq> []) \<and> tx_valid tx' \<and> tx_contents tx' = tl (tx_contents tx)
    \<and> TransportTx_GetAddresses tx' = TransportTx_GetAddresses tx"
proof -
  let ?p = "msg_payload (tx_message tx)"
  have p: "?p \<noteq> []" using assms(2) by (simp add: tx_contents_def)
  have c: "tx_contents tx = (TransportHeader_ToByte (tpduCount tx = 0) (length ?p \<le> 249) (tx_sequence tx) # take 249 ?p)
     # tx_segments False (TransportSeq_Next (tx_sequence tx)) (drop 249 ?p)"
    unfolding tx_contents_def by (rule tx_segments_step [OF p])
  have n: "drop (num_to_send tx) ?p = drop 249 ?p" by (simp add: num_to_send_eq min_def)
  have u: "unat (tpduCount tx) + 1 < 4294967296" using assms(1) c by (simp add: tx_valid_def)
  then have "unat (tpduCount tx + 1) = unat (tpduCount tx) + 1"
    by (simp add: unat_word_ariths)
  then have nz: "tpduCount tx + 1 \<noteq> 0" and ct: "unat (tpduCount tx + 1) = unat (tpduCount tx) + 1"
    by (auto simp: unat_eq_zero [symmetric])
  have nts: "num_to_send (tx\<lparr>txSegment := None\<rparr>) = num_to_send tx" by (simp add: num_to_send_def)
  have t: "again = (drop 249 ?p \<noteq> [])"
    "tx' = tx\<lparr>txSegment := None, tx_message := (tx_message tx)\<lparr>msg_payload := drop 249 ?p\<rparr>,
       tpduCount := tpduCount tx + 1, tx_sequence := TransportSeq_Next (tx_sequence tx)\<rparr>"
    using assms(3) by (simp_all add: TransportTx_Advance_def Let_def nts n del: drop_eq_Nil drop_eq_Nil2)
  have c': "tx_contents tx' = tl (tx_contents tx)"
    using nz by (simp add: t(2) c) (simp add: tx_contents_def)
  moreover have "tx_valid tx'"
    using assms(1) c' ct c unfolding tx_valid_def by (simp add: t(2))
  ultimately show ?thesis using c t by (simp add: TransportTx_GetAddresses_def)
qed

text \<open>The transmitter is a segment source in the sense of the link layer.\<close>

interpretation tx: transport_segment TransportTx_segment tx_valid tx_contents
proof unfold_locales
  fix s d s'
  assume "tx_valid s" "tx_contents s \<noteq> []" "seg_GetSegment TransportTx_segment s = (d, s')"
  then show "d = hd (tx_contents s) \<and> tx_valid s' \<and> tx_contents s' = tx_contents s
      \<and> seg_GetAddresses TransportTx_segment s' = seg_GetAddresses TransportTx_segment s"
    using GetSegment_spec [of s d s'] by (simp add: TransportTx_segment_def)
next
  fix s again s'
  assume "tx_valid s" "tx_contents s \<noteq> []" "seg_Advance TransportTx_segment s = (again, s')"
  then show "again = (tl (tx_contents s) \<noteq> []) \<and> tx_valid s' \<and> tx_contents s' = tl (tx_contents s)
      \<and> seg_GetAddresses TransportTx_segment s' = seg_GetAddresses TransportTx_segment s"
    using Advance_spec [of s again s'] by (simp add: TransportTx_segment_def)
next
  fix s d
  assume "tx_valid s" "d \<in> set (tx_contents s)"
  then show "length d \<le> 250" by (simp add: tx_contents_def tx_segments_fit)
qed

lemma Configure_contents:
  assumes "msg_payload m \<noteq> []" "length (msg_payload m) < 4294967296" "250 \<le> length (tpduBuffer tx)"
  shows "tx_contents (TransportTx_Configure tx m) = tx_segments True (tx_sequence tx) (msg_payload m)"
    "tx_valid (TransportTx_Configure tx m)"
    "TransportTx_GetAddresses (TransportTx_Configure tx m) = msg_addresses m"
proof -
  show c: "tx_contents (TransportTx_Configure tx m) = tx_segments True (tx_sequence tx) (msg_payload m)"
    by (simp add: tx_contents_def TransportTx_Configure_def)
  show "tx_valid (TransportTx_Configure tx m)"
    unfolding tx_valid_def c length_tx_segments using assms by (simp add: TransportTx_Configure_def)
  show "TransportTx_GetAddresses (TransportTx_Configure tx m) = msg_addresses m"
    by (simp add: TransportTx_GetAddresses_def TransportTx_Configure_def)
qed

section \<open>Reassembly\<close>

fun rx_run :: "TransportRx \<Rightarrow> Message list \<Rightarrow> Message list \<times> TransportRx" where
  "rx_run rx [] = ([], rx)"
| "rx_run rx (m # ms) =
     (let (asdu, rx) = ProcessReceive rx m; (out, rx) = rx_run rx ms
      in (if msg_payload asdu \<noteq> [] then asdu # out else out, rx))"

definition rx_ok :: "TransportRx \<Rightarrow> bool" where
  "rx_ok rx = (numBytesRead rx \<le> length (reassembly rx))"

abbreviation mk_message :: "Addresses \<Rightarrow> byte list \<Rightarrow> Message" where
  "mk_message ad d \<equiv> \<lparr>msg_addresses = ad, msg_payload = d\<rparr>"

lemma Message_eqI: "msg_addresses m = a \<Longrightarrow> msg_payload m = p \<Longrightarrow> m = mk_message a p"
  by simp

lemma no_message_payload [simp]: "msg_payload no_message = []"
  by (simp add: no_message_def)

text \<open>What a segment is accepted for, given the state of the receiver.\<close>

definition rx_start :: "TransportRx \<Rightarrow> Message \<Rightarrow> nat" where
  "rx_start rx m = (if th_fir (TransportHeader_of (hd (msg_payload m))) then 0 else numBytesRead rx)"

definition rx_accepts :: "TransportRx \<Rightarrow> Message \<Rightarrow> bool" where
  "rx_accepts rx m =
     (msg_payload m \<noteq> []
      \<and> (let h = TransportHeader_of (hd (msg_payload m))
         in th_fir h \<or> numBytesRead rx > 0 \<and> th_seq h = expectedSeq rx \<and> msg_addresses m = lastAddresses rx)
      \<and> rx_start rx m + length (tl (msg_payload m)) \<le> length (reassembly rx))"

lemma ProcessReceive_accepted:
  assumes "rx_ok rx" "rx_accepts rx m" "ProcessReceive rx m = (asdu, rx')"
    and "h = TransportHeader_of (hd (msg_payload m))" "d = tl (msg_payload m)" "n = rx_start rx m"
  shows "length (reassembly rx') = length (reassembly rx)"
    and "take (n + length d) (reassembly rx') = take n (reassembly rx) @ d"
    and "lastAddresses rx' = msg_addresses m" "expectedSeq rx' = TransportSeq_Next (th_seq h)"
    and "numBytesRead rx' = (if th_fin h then 0 else n + length d)"
    and "asdu = (if th_fin h then mk_message (msg_addresses m) (take n (reassembly rx) @ d) else no_message)"
proof -
  obtain b where p: "msg_payload m = b # d" using assms(2,5) by (cases "msg_payload m") (auto simp: rx_accepts_def)
  have h: "TransportHeader_of b = h" using assms(4) p by simp
  let ?mem = "take n (reassembly rx) @ d @ drop (n + length d) (reassembly rx)"
  have n: "n = (if th_fir h then 0 else numBytesRead rx)"
    using assms(6) h p by (simp add: rx_start_def)
  have l: "n + length d \<le> length (reassembly rx)" "n \<le> length (reassembly rx)"
    using assms(2) assms(6) p by (simp_all add: rx_accepts_def)
  have c: "th_fir h \<or> numBytesRead rx > 0 \<and> th_seq h = expectedSeq rx \<and> msg_addresses m = lastAddresses rx"
    using assms(2) h p by (simp add: rx_accepts_def Let_def)
  let ?r = "ProcessReceive rx m"
  have "fst ?r = (if th_fin h then mk_message (msg_addresses m) (take (n + length d) ?mem) else no_message)
    \<and> reassembly (snd ?r) = ?mem \<and> lastAddresses (snd ?r) = msg_addresses m
    \<and> expectedSeq (snd ?r) = TransportSeq_Next (th_seq h)
    \<and> numBytesRead (snd ?r) = (if th_fin h then 0 else n + length d)"
  proof (cases "th_fir h")
    case True
    with n l show ?thesis by (simp add: ProcessReceive_def p h Let_def GetAvailable_def)
  next
    case False
    with n l c have "\<not> length (reassembly rx) - numBytesRead rx < length d" by simp
    with False n l c show ?thesis by (simp add: ProcessReceive_def p h Let_def GetAvailable_def)
  qed
  then have r: "fst ?r = (if th_fin h then mk_message (msg_addresses m) (take (n + length d) ?mem) else no_message)"
    "reassembly (snd ?r) = ?mem" "lastAddresses (snd ?r) = msg_addresses m"
    "expectedSeq (snd ?r) = TransportSeq_Next (th_seq h)"
    "numBytesRead (snd ?r) = (if th_fin h then 0 else n + length d)" by blast+
  have m: "take (n + length d) ?mem = take n (reassembly rx) @ d" using l by simp
  have e: "asdu = fst ?r" "rx' = snd ?r" using assms(3) by simp_all
  show "length (reassembly rx') = length (reassembly rx)" unfolding e r using l by simp
  show "take (n + length d) (reassembly rx') = take n (reassembly rx) @ d" unfolding e r by (rule m)
  show "asdu = (if th_fin h then mk_message (msg_addresses m) (take n (reassembly rx) @ d) else no_message)"
    unfolding e r m ..
  show "lastAddresses rx' = msg_addresses m" "expectedSeq rx' = TransportSeq_Next (th_seq h)"
    "numBytesRead rx' = (if th_fin h then 0 else n + length d)"
    unfolding e r by (rule refl)+
qed

lemma ProcessReceive_rejected:
  assumes "rx_ok rx" "\<not> rx_accepts rx m" "ProcessReceive rx m = (asdu, rx')"
  shows "asdu = no_message" "reassembly rx' = reassembly rx"
    and "numBytesRead rx' = 0 \<or> numBytesRead rx' = numBytesRead rx \<and> lastAddresses rx' = lastAddresses rx
           \<and> expectedSeq rx' = expectedSeq rx"
proof -
  have "asdu = no_message \<and> reassembly rx' = reassembly rx \<and> (numBytesRead rx' = 0 \<or>
      numBytesRead rx' = numBytesRead rx \<and> lastAddresses rx' = lastAddresses rx \<and> expectedSeq rx' = expectedSeq rx)"
    using assms
    by (cases "msg_payload m")
       (auto simp: ProcessReceive_def Let_def GetAvailable_def count_ignore_def rx_accepts_def rx_ok_def rx_start_def
         split: if_splits)
  then show "asdu = no_message" "reassembly rx' = reassembly rx"
    "numBytesRead rx' = 0 \<or> numBytesRead rx' = numBytesRead rx \<and> lastAddresses rx' = lastAddresses rx
           \<and> expectedSeq rx' = expectedSeq rx" by blast+
qed

lemma ProcessReceive_ok:
  assumes "rx_ok rx" "ProcessReceive rx m = (asdu, rx')"
  shows "rx_ok rx' \<and> length (reassembly rx') = length (reassembly rx)"
proof (cases "rx_accepts rx m")
  case True
  from ProcessReceive_accepted [OF assms(1) True assms(2) refl refl refl] True show ?thesis
    by (auto simp: rx_ok_def rx_accepts_def)
next
  case False
  from ProcessReceive_rejected [OF assms(1) False assms(2)] assms(1) show ?thesis
    by (auto simp: rx_ok_def)
qed

text \<open>The receiver continues a message where the transmitter does.\<close>

lemma rx_continue:
  assumes "rx_ok rx" "0 < numBytesRead rx" "lastAddresses rx = ad" "expectedSeq rx = s" "s < 64"
    and "p \<noteq> []" "numBytesRead rx + length p \<le> length (reassembly rx)"
    and "rx_run rx (map (mk_message ad) (tx_segments False s p)) = (out, rx')"
  shows "out = [mk_message ad (take (numBytesRead rx) (reassembly rx) @ p)] \<and> numBytesRead rx' = 0"
  using assms
proof (induction "length p" arbitrary: rx s p out rx' rule: less_induct)
  case less
  let ?b = "TransportHeader_ToByte False (length p \<le> 249) s"
  let ?m = "mk_message ad (?b # take 249 p)"
  obtain asdu rx1 where pr: "ProcessReceive rx ?m = (asdu, rx1)" by fastforce
  have h: "TransportHeader_of ?b = \<lparr>th_fir = False, th_fin = (length p \<le> 249), th_seq = s\<rparr>"
    using less.prems(5) by (simp add: TransportHeader_roundtrip seq_small)
  have acc: "rx_accepts rx ?m" using less.prems h by (auto simp: rx_accepts_def rx_start_def)
  note a = ProcessReceive_accepted [OF less.prems(1) acc pr refl refl refl]
  have ok: "rx_ok rx1" using ProcessReceive_ok [OF less.prems(1) pr] by simp
  have segs: "tx_segments False s p = (?b # take 249 p) # tx_segments False (TransportSeq_Next s) (drop 249 p)"
    using less.prems(6) by (rule tx_segments_step)
  show ?case
  proof (cases "length p \<le> 249")
    case True
    with less.prems(8) segs pr a h less.prems(6) show ?thesis
      by (auto simp: rx_start_def)
  next
    case False
    obtain out2 rx2 where r: "rx_run rx1 (map (mk_message ad) (tx_segments False (TransportSeq_Next s) (drop 249 p))) = (out2, rx2)"
      by fastforce
    have o: "out = out2" "rx' = rx2" using less.prems(8) segs pr r a(6) h False by simp_all
    have n: "numBytesRead rx1 = numBytesRead rx + 249" "expectedSeq rx1 = TransportSeq_Next s"
      "take (numBytesRead rx1) (reassembly rx1) = take (numBytesRead rx) (reassembly rx) @ take 249 p"
      using a h False by (simp_all add: rx_start_def)
    have l: "length (drop 249 p) < length p" "drop 249 p \<noteq> []"
      "numBytesRead rx1 + length (drop 249 p) \<le> length (reassembly rx1)"
      using False less.prems(7) n(1) a(1) by auto
    have "out2 = [mk_message ad (take (numBytesRead rx1) (reassembly rx1) @ drop 249 p)] \<and> numBytesRead rx2 = 0"
      using less.hyps [OF l(1) ok _ _ n(2) TransportSeq_Next_less l(2,3) r] a(3) n(1) by simp
    then show ?thesis using o n(3) by (simp del: take_append)
  qed
qed

lemma rx_whole_message:
  assumes "rx_ok rx" "s < 64" "p \<noteq> []" "length p \<le> length (reassembly rx)"
    and "rx_run rx (map (mk_message ad) (tx_segments True s p)) = (out, rx')"
  shows "out = [mk_message ad p] \<and> numBytesRead rx' = 0"
proof -
  let ?b = "TransportHeader_ToByte True (length p \<le> 249) s"
  let ?m = "mk_message ad (?b # take 249 p)"
  obtain asdu rx1 where pr: "ProcessReceive rx ?m = (asdu, rx1)" by fastforce
  have h: "TransportHeader_of ?b = \<lparr>th_fir = True, th_fin = (length p \<le> 249), th_seq = s\<rparr>"
    using assms(2) by (simp add: TransportHeader_roundtrip seq_small)
  have acc: "rx_accepts rx ?m" using assms h by (auto simp: rx_accepts_def rx_start_def)
  note a = ProcessReceive_accepted [OF assms(1) acc pr refl refl refl]
  have ok: "rx_ok rx1" using ProcessReceive_ok [OF assms(1) pr] by simp
  have segs: "tx_segments True s p = (?b # take 249 p) # tx_segments False (TransportSeq_Next s) (drop 249 p)"
    using assms(3) by (rule tx_segments_step)
  show ?thesis
  proof (cases "length p \<le> 249")
    case True
    with assms(3,5) segs pr a h show ?thesis by (auto simp: rx_start_def)
  next
    case False
    obtain out2 rx2 where r: "rx_run rx1 (map (mk_message ad) (tx_segments False (TransportSeq_Next s) (drop 249 p))) = (out2, rx2)"
      by fastforce
    have o: "out = out2" "rx' = rx2" using assms(5) segs pr r a(6) h False by simp_all
    have n: "numBytesRead rx1 = 249" "expectedSeq rx1 = TransportSeq_Next s"
      "take (numBytesRead rx1) (reassembly rx1) = take 249 p"
      using a h False by (simp_all add: rx_start_def)
    have l: "drop 249 p \<noteq> []" "numBytesRead rx1 + length (drop 249 p) \<le> length (reassembly rx1)"
      using False assms(4) n(1) a(1) by auto
    show ?thesis
      using rx_continue [OF ok _ _ n(2) TransportSeq_Next_less l r] a(3) n o by simp
  qed
qed

section \<open>The transmitter's loop\<close>

text \<open>
  The loop by which the link layer empties a transmitter: take a segment and its addresses, send
  it, advance, and go on as long as \<open>Advance\<close> says so. Nothing bounds it in the code, so the model
  is a partial function and its end is a result.
\<close>

partial_function (option) send_segments :: "TransportTx \<Rightarrow> (Message list \<times> TransportTx) option" where
  "send_segments tx =
     (case TransportTx_GetSegment tx of (d, tx) \<Rightarrow>
      case TransportTx_Advance tx of (again, tx1) \<Rightarrow>
        if again then Option.bind (send_segments tx1)
          (\<lambda>(segs, tx2). Some (mk_message (TransportTx_GetAddresses tx) d # segs, tx2))
        else Some ([mk_message (TransportTx_GetAddresses tx) d], tx1))"

declare send_segments.simps [code]

fun send_messages :: "TransportTx \<Rightarrow> Message list \<Rightarrow> (Message list \<times> TransportTx) option" where
  "send_messages tx [] = Some ([], tx)"
| "send_messages tx (m # ms) =
     (case send_segments (TransportTx_Configure tx m) of None \<Rightarrow> None
      | Some (segs, tx) \<Rightarrow> (case send_messages tx ms of None \<Rightarrow> None
          | Some (segs', tx) \<Rightarrow> Some (segs @ segs', tx)))"

lemma Advance_sequence: "TransportTx_Advance tx = (again, tx') \<Longrightarrow> tx_sequence tx' < 64"
  by (auto simp: TransportTx_Advance_def Let_def TransportSeq_Next_less)

lemma send_segments_step:
  assumes "TransportTx_GetSegment tx = (d, tx1)" "TransportTx_Advance tx1 = (again, tx2)"
  shows "send_segments tx = (if again then Option.bind (send_segments tx2)
      (\<lambda>(segs, tx3). Some (mk_message (TransportTx_GetAddresses tx1) d # segs, tx3))
    else Some ([mk_message (TransportTx_GetAddresses tx1) d], tx2))"
  unfolding send_segments.simps [of tx] assms prod.case ..

lemma send_segments_spec:
  "tx_valid tx \<Longrightarrow> tx_contents tx = c # cs \<Longrightarrow>
   \<exists>tx'. send_segments tx = Some (map (mk_message (TransportTx_GetAddresses tx)) (c # cs), tx')
     \<and> tx_valid tx' \<and> tx_sequence tx' < 64"
proof (induction cs arbitrary: tx c)
  case (Nil tx c)
  obtain d tx1 where g: "TransportTx_GetSegment tx = (d, tx1)" by fastforce
  obtain again tx2 where a: "TransportTx_Advance tx1 = (again, tx2)" by fastforce
  have ne: "tx_contents tx \<noteq> []" using Nil.prems(2) by simp
  note g' = GetSegment_spec [OF Nil.prems(1) ne g]
  have v: "tx_valid tx1" "tx_contents tx1 \<noteq> []" using g' ne by simp_all
  note a' = Advance_spec [OF v a] and s = Advance_sequence [OF a]
  have "\<not> again" "d = c" "TransportTx_GetAddresses tx1 = TransportTx_GetAddresses tx" "tx_valid tx2"
    using g' a' Nil.prems(2) by simp_all
  with s show ?case unfolding send_segments_step [OF g a] by simp
next
  case (Cons e cs tx c)
  obtain d tx1 where g: "TransportTx_GetSegment tx = (d, tx1)" by fastforce
  obtain again tx2 where a: "TransportTx_Advance tx1 = (again, tx2)" by fastforce
  have ne: "tx_contents tx \<noteq> []" using Cons.prems(2) by simp
  note g' = GetSegment_spec [OF Cons.prems(1) ne g]
  have v: "tx_valid tx1" "tx_contents tx1 \<noteq> []" using g' ne by simp_all
  note a' = Advance_spec [OF v a]
  have r: "again" "d = c" "TransportTx_GetAddresses tx1 = TransportTx_GetAddresses tx"
      "TransportTx_GetAddresses tx2 = TransportTx_GetAddresses tx" "tx_valid tx2" "tx_contents tx2 = e # cs"
    using g' a' Cons.prems(2) by simp_all
  from Cons.IH [OF r(5,6)] r(4) obtain tx' where
    "send_segments tx2 = Some (map (mk_message (TransportTx_GetAddresses tx)) (e # cs), tx')" "tx_valid tx'" "tx_sequence tx' < 64"
    by auto
  with r(1-3) show ?case unfolding send_segments_step [OF g a] by simp
qed

lemma send_segments_Configure:
  assumes "250 \<le> length (tpduBuffer tx)" "msg_payload m \<noteq> []" "length (msg_payload m) < 4294967296"
  obtains tx' where "send_segments (TransportTx_Configure tx m)
      = Some (map (mk_message (msg_addresses m)) (tx_segments True (tx_sequence tx) (msg_payload m)), tx')"
    "250 \<le> length (tpduBuffer tx')" "tx_sequence tx' < 64"
proof -
  note c = Configure_contents [OF assms(2,3,1)]
  let ?s = "tx_segments True (tx_sequence tx) (msg_payload m)"
  obtain s ss where s: "?s = s # ss" using assms(2) by (cases ?s) auto
  from send_segments_spec [OF c(2), of s ss] c(1,3) s obtain tx' where
    "send_segments (TransportTx_Configure tx m) = Some (map (mk_message (msg_addresses m)) ?s, tx')"
    "tx_valid tx'" "tx_sequence tx' < 64" by auto
  with that show thesis by (simp add: tx_valid_def)
qed

lemma rx_run_append:
  "rx_run rx (xs @ ys) = (fst (rx_run rx xs) @ fst (rx_run (snd (rx_run rx xs)) ys), snd (rx_run (snd (rx_run rx xs)) ys))"
  by (induction xs arbitrary: rx) (auto simp: split_beta Let_def)

lemma rx_run_ok: "rx_ok rx \<Longrightarrow> rx_ok (snd (rx_run rx ms)) \<and> length (reassembly (snd (rx_run rx ms))) = length (reassembly rx)"
proof (induction ms arbitrary: rx)
  case (Cons m ms)
  obtain a rx1 where p: "ProcessReceive rx m = (a, rx1)" by fastforce
  from Cons.IH [of rx1] ProcessReceive_ok [OF Cons.prems p] p show ?case by (simp add: split_beta)
qed simp

lemma send_messages_received:
  assumes "250 \<le> length (tpduBuffer tx)" and "tx_sequence tx < 64" and "rx_ok rx"
    and "list_all (\<lambda>m. msg_payload m \<noteq> [] \<and> length (msg_payload m) \<le> length (reassembly rx)
           \<and> length (msg_payload m) < 4294967296) ms"
  shows "\<exists>segs tx'. send_messages tx ms = Some (segs, tx') \<and> fst (rx_run rx segs) = ms
    \<and> list_all (\<lambda>s. length (msg_payload s) \<le> 250) segs"
  using assms
proof (induction ms arbitrary: tx rx)
  case (Cons m ms)
  let ?sg = "map (mk_message (msg_addresses m)) (tx_segments True (tx_sequence tx) (msg_payload m))"
  let ?rx = "snd (rx_run rx ?sg)"
  have m: "msg_payload m \<noteq> []" "length (msg_payload m) \<le> length (reassembly rx)" "length (msg_payload m) < 4294967296"
    using Cons.prems(4) by simp_all
  from send_segments_Configure [OF Cons.prems(1) m(1,3)] obtain tx' where
    s: "send_segments (TransportTx_Configure tx m) = Some (?sg, tx')" "250 \<le> length (tpduBuffer tx')" "tx_sequence tx' < 64" .
  have o: "fst (rx_run rx ?sg) = [m]"
    using rx_whole_message [OF Cons.prems(3,2) m(1,2), of "msg_addresses m" "fst (rx_run rx ?sg)" ?rx] by simp
  from rx_run_ok [OF Cons.prems(3), of ?sg] have k: "rx_ok ?rx" "length (reassembly ?rx) = length (reassembly rx)" by blast+
  from Cons.IH [OF s(2,3) k(1)] Cons.prems(4) k(2) obtain segs tx2 where
    r: "send_messages tx' ms = Some (segs, tx2)" "fst (rx_run ?rx segs) = ms" "list_all (\<lambda>s. length (msg_payload s) \<le> 250) segs"
    by auto
  have "list_all (\<lambda>s. length (msg_payload s) \<le> 250) ?sg" by (auto simp: list_all_iff tx_segments_fit)
  with s(1) r o show ?case by (simp add: rx_run_append)
qed simp

section \<open>What is delivered\<close>

abbreviation seg_header :: "Message \<Rightarrow> TransportHeader" where
  "seg_header m \<equiv> TransportHeader_of (hd (msg_payload m))"

abbreviation seg_data :: "Message \<Rightarrow> byte list" where
  "seg_data m \<equiv> tl (msg_payload m)"

text \<open>
  \<open>open_chain ad s ms\<close>: the segments \<open>ms\<close> begin a message from \<open>ad\<close> that is not finished, and the
  next segment has the number \<open>s\<close>. A complete chain ends with a segment that has the final bit.
\<close>

inductive open_chain :: "Addresses \<Rightarrow> byte \<Rightarrow> Message list \<Rightarrow> bool" where
  first: "msg_payload m \<noteq> [] \<Longrightarrow> th_fir (seg_header m) \<Longrightarrow> \<not> th_fin (seg_header m)
      \<Longrightarrow> open_chain (msg_addresses m) (TransportSeq_Next (th_seq (seg_header m))) [m]"
| "next": "open_chain ad s ms \<Longrightarrow> msg_payload m \<noteq> [] \<Longrightarrow> \<not> th_fir (seg_header m) \<Longrightarrow> \<not> th_fin (seg_header m)
      \<Longrightarrow> th_seq (seg_header m) = s \<Longrightarrow> msg_addresses m = ad \<Longrightarrow> open_chain ad (TransportSeq_Next s) (ms @ [m])"

definition complete_chain :: "Addresses \<Rightarrow> Message list \<Rightarrow> bool" where
  "complete_chain ad cs = (\<exists>ms m. cs = ms @ [m] \<and> msg_payload m \<noteq> [] \<and> th_fin (seg_header m) \<and> msg_addresses m = ad
     \<and> (if ms = [] then th_fir (seg_header m)
        else \<not> th_fir (seg_header m) \<and> open_chain ad (th_seq (seg_header m)) ms))"

definition rx_history :: "TransportRx \<Rightarrow> Message list \<Rightarrow> bool" where
  "rx_history rx hist =
     (rx_ok rx \<and> (numBytesRead rx = 0 \<or>
        (\<exists>ms. subseq ms hist \<and> ms \<noteq> [] \<and> open_chain (lastAddresses rx) (expectedSeq rx) ms
           \<and> take (numBytesRead rx) (reassembly rx) = concat (map seg_data ms))))"

lemma subseq_snoc: "subseq ms hist \<Longrightarrow> subseq (ms @ [m]) (hist @ [m])"
  by (simp add: list_emb_append_mono)

lemma subseq_grow: "subseq ms hist \<Longrightarrow> subseq ms (hist @ [m])"
  by (metis append_Nil2 list_emb_Nil list_emb_append_mono)

lemma open_chain_single: "msg_payload m \<noteq> [] \<Longrightarrow> th_fir (seg_header m) \<Longrightarrow> \<not> th_fin (seg_header m) \<Longrightarrow>
  ad = msg_addresses m \<Longrightarrow> s = TransportSeq_Next (th_seq (seg_header m)) \<Longrightarrow> open_chain ad s [m]"
  by (simp add: open_chain.first)

lemma ProcessReceive_history:
  assumes "rx_history rx hist" "ProcessReceive rx m = (asdu, rx')"
  shows "rx_history rx' (hist @ [m])
    \<and> (msg_payload asdu \<noteq> [] \<longrightarrow>
       (\<exists>cs. subseq cs (hist @ [m]) \<and> complete_chain (msg_addresses asdu) cs \<and> msg_payload asdu = concat (map seg_data cs)))"
proof (cases "rx_accepts rx m")
  case False
  have ok: "rx_ok rx" using assms(1) by (simp add: rx_history_def)
  note r = ProcessReceive_rejected [OF ok False assms(2)]
  have "rx_ok rx'" using ProcessReceive_ok [OF ok assms(2)] by simp
  then show ?thesis
    using r assms(1) subseq_grow [of _ hist m] unfolding rx_history_def by auto
next
  case True
  have ok: "rx_ok rx" using assms(1) by (simp add: rx_history_def)
  note a = ProcessReceive_accepted [OF ok True assms(2) refl refl refl]
  have ok': "rx_ok rx'" using ProcessReceive_ok [OF ok assms(2)] by simp
  let ?h = "seg_header m" and ?n = "rx_start rx m"
  have p: "msg_payload m \<noteq> []" using True by (simp add: rx_accepts_def)
  obtain ms where ms: "subseq ms hist" "take ?n (reassembly rx) = concat (map seg_data ms)"
    "if ms = [] then th_fir ?h else \<not> th_fir ?h \<and> open_chain (msg_addresses m) (th_seq ?h) ms"
  proof (cases "th_fir ?h")
    case True
    then show ?thesis using that [of "[]"] by (simp add: rx_start_def)
  next
    case False
    with \<open>rx_accepts rx m\<close> have c: "numBytesRead rx > 0" "th_seq ?h = expectedSeq rx" "msg_addresses m = lastAddresses rx"
      by (simp_all add: rx_accepts_def Let_def)
    then obtain ms where "subseq ms hist" "ms \<noteq> []" "open_chain (lastAddresses rx) (expectedSeq rx) ms"
      "take (numBytesRead rx) (reassembly rx) = concat (map seg_data ms)"
      using assms(1) by (auto simp: rx_history_def)
    with c False show ?thesis using that [of ms] by (simp add: rx_start_def)
  qed
  have sub: "subseq (ms @ [m]) (hist @ [m])" using ms(1) by (rule subseq_snoc)
  show ?thesis
  proof (cases "th_fin ?h")
    case True
    then have "complete_chain (msg_addresses m) (ms @ [m])"
      using p ms(3) by (auto simp: complete_chain_def)
    moreover have "msg_addresses asdu = msg_addresses m" "msg_payload asdu = concat (map seg_data (ms @ [m]))"
      using True a(6) ms(2) by simp_all
    moreover have "rx_history rx' (hist @ [m])" using True a(5) ok' by (simp add: rx_history_def)
    ultimately show ?thesis using sub by metis
  next
    case False
    have "open_chain (lastAddresses rx') (expectedSeq rx') (ms @ [m])"
      using False p ms(3) a(3,4) by (auto intro: open_chain.next open_chain_single split: if_splits)
    moreover have "take (numBytesRead rx') (reassembly rx') = concat (map seg_data (ms @ [m]))"
      using False a(2,5) ms(2) by simp
    ultimately have "rx_history rx' (hist @ [m])"
      using ok' sub unfolding rx_history_def by (metis append_is_Nil_conv not_Cons_self2)
    then show ?thesis using False a(6) by simp
  qed
qed

lemma rx_run_history:
  "rx_history rx hist \<Longrightarrow> rx_run rx ms = (out, rx') \<Longrightarrow> asdu \<in> set out \<Longrightarrow>
   \<exists>cs. subseq cs (hist @ ms) \<and> complete_chain (msg_addresses asdu) cs \<and> msg_payload asdu = concat (map seg_data cs)"
proof (induction ms arbitrary: rx hist out)
  case (Cons m ms)
  obtain a rx1 where p: "ProcessReceive rx m = (a, rx1)" by fastforce
  obtain out1 where r: "rx_run rx1 ms = (out1, rx')" using Cons.prems(2) p by (auto split: prod.splits)
  have h: "rx_history rx1 (hist @ [m])" and
    d: "msg_payload a \<noteq> [] \<longrightarrow> (\<exists>cs. subseq cs (hist @ [m]) \<and> complete_chain (msg_addresses a) cs
          \<and> msg_payload a = concat (map seg_data cs))"
    using ProcessReceive_history [OF Cons.prems(1) p] by blast+
  have "asdu = a \<and> msg_payload a \<noteq> [] \<or> asdu \<in> set out1"
    using Cons.prems(2,3) p r by (auto split: if_splits)
  then show ?case
  proof
    assume "asdu = a \<and> msg_payload a \<noteq> []"
    with d obtain cs where "subseq cs (hist @ [m])" "complete_chain (msg_addresses asdu) cs"
      "msg_payload asdu = concat (map seg_data cs)" by blast
    moreover have "subseq cs (hist @ m # ms)"
      using calculation(1) by (metis append_Cons append_Nil append_assoc list_emb_append2 subseq_order.order_trans
          subseq_rev_drop_many subseq_drop_many list_emb_prefix)
    ultimately show ?thesis by blast
  next
    assume "asdu \<in> set out1"
    from Cons.IH [OF h r this] show ?thesis by simp
  qed
qed simp

section \<open>The properties\<close>

text \<open>
  C15. Round trip of the transport layer. Whatever messages are given to a transmitter one after
  the other, its loop of \<open>GetSegment\<close> and \<open>Advance\<close> ends for each of them, no segment is longer
  than the user data of a link frame, and a receiver in any state to which the segments come in
  order delivers exactly these messages: each once, unchanged, with its addresses, in the order in
  which they were sent. The messages are not empty and fit into the receiver's buffer.
\<close>

theorem transport_roundtrip:
  assumes "250 \<le> length (tpduBuffer tx)" and "tx_sequence tx < 64" and "rx_ok rx"
    and "list_all (\<lambda>m. msg_payload m \<noteq> [] \<and> length (msg_payload m) \<le> length (reassembly rx)
           \<and> length (msg_payload m) < 4294967296) ms"
  shows "\<exists>segs tx'. send_messages tx ms = Some (segs, tx') \<and> fst (rx_run rx segs) = ms
    \<and> list_all (\<lambda>s. length (msg_payload s) \<le> 250) segs"
  using send_messages_received [OF assms] by blast

lemma transport_roundtrip_witness:
  "\<exists>segs tx'. send_messages (TransportTx_init (replicate 250 0))
       [mk_message \<lparr>source = 1, destination = 2\<rparr> (replicate 300 7), mk_message \<lparr>source = 1, destination = 3\<rparr> [8]] = Some (segs, tx')
     \<and> fst (rx_run (TransportRx_init (replicate 400 0)) segs)
       = [mk_message \<lparr>source = 1, destination = 2\<rparr> (replicate 300 7), mk_message \<lparr>source = 1, destination = 3\<rparr> [8]]
     \<and> list_all (\<lambda>s. length (msg_payload s) \<le> 250) segs"
  by (rule transport_roundtrip) (simp_all add: TransportTx_init_def rx_ok_def TransportRx_init_def)

text \<open>
  C26. Whatever segments arrive, a message that the receiver delivers is the concatenation of the
  data of received segments that form one complete chain: the first with the first bit, the
  last with the final bit, the numbers consecutive modulo 64, all from the same sender to the same
  destination, in the order of arrival. No data of different messages is ever mixed.
\<close>

theorem delivered_messages_are_chains:
  assumes "numBytesRead rx = 0" and "asdu \<in> set (fst (rx_run rx ms))"
  shows "\<exists>cs. subseq cs ms \<and> complete_chain (msg_addresses asdu) cs \<and> msg_payload asdu = concat (map seg_data cs)"
proof -
  obtain out rx' where r: "rx_run rx ms = (out, rx')" by fastforce
  have "rx_history rx []" using assms(1) by (simp add: rx_history_def rx_ok_def)
  from rx_run_history [OF this r] assms(2) r show ?thesis by simp
qed

lemma delivered_messages_are_chains_witness:
  "\<exists>cs. subseq cs [mk_message \<lparr>source = 1, destination = 2\<rparr> [0xC0, 7]]
     \<and> complete_chain \<lparr>source = 1, destination = 2\<rparr> cs \<and> [7] = concat (map seg_data cs)"
proof -
  have "mk_message \<lparr>source = 1, destination = 2\<rparr> [7]
      \<in> set (fst (rx_run (TransportRx_init [0, 0]) [mk_message \<lparr>source = 1, destination = 2\<rparr> [0xC0, 7]]))"
    by (simp add: ProcessReceive_def TransportRx_init_def TransportHeader_of_def th_masks GetAvailable_def)
  from delivered_messages_are_chains [OF _ this] show ?thesis by (simp add: TransportRx_init_def)
qed

text \<open>
  The receiver never writes outside its buffer: for every sequence of segments, of any
  length and content, the buffer keeps its size and the write position stays inside it.
\<close>

theorem reassembly_stays_in_buffer:
  "numBytesRead (snd (rx_run (TransportRx_init mem) ms)) \<le> length mem
   \<and> length (reassembly (snd (rx_run (TransportRx_init mem) ms))) = length mem"
proof -
  from rx_run_ok [of "TransportRx_init mem" ms] show ?thesis by (simp add: rx_ok_def TransportRx_init_def)
qed

end
