(* ===== verification/Stack.thy ===== *)
theory Stack
  imports Transport_Layer
begin

text \<open>
  A transport stack run as a whole: the events of its link layer with the times at which the
  executor handles them, and the requests of its application. The lemmas lift the runs of the link
  layer to the stack, for the transmission of a message and for the reception of its frames.
\<close>

datatype StackEvent = StLink i64 "TransportTx LinkEvent" | StSend i64 Message

definition at_time :: "i64 \<Rightarrow> TransportStack \<Rightarrow> TransportStack" where
  "at_time t st = st\<lparr>link := (link st)\<lparr>executor_time := t\<rparr>\<rparr>"

fun stack_step :: "u16_codec \<Rightarrow> TransportStack \<Rightarrow> StackEvent \<Rightarrow> TransportStack" where
  "stack_step C st (StLink t e) = stack_link_event C (at_time t st) e"
| "stack_step C st (StSend t m) = snd (stack_send C (at_time t st) m)"

fun stack_run :: "u16_codec \<Rightarrow> TransportStack \<Rightarrow> StackEvent list \<Rightarrow> TransportStack" where
  "stack_run C st [] = st"
| "stack_run C st (e # es) = stack_run C (stack_step C st e) es"

section \<open>Events only grow\<close>

definition extends :: "'seg LinkContext \<Rightarrow> 'seg LinkContext \<Rightarrow> bool" where
  "extends ctx ctx' = prefix (events ctx) (events ctx')"

lemma extends_refl [simp]: "extends ctx ctx"
  by (simp add: extends_def)

lemma extends_trans: "extends a b \<Longrightarrow> extends b c \<Longrightarrow> extends a c"
  unfolding extends_def by (rule prefix_order.trans)

lemma extends_TryStart: "extends ctx (TryStartTransmission C I ctx)"
  by (cases "pPriState ctx"; cases "txMode ctx"; cases "keepAliveTimeout ctx"; cases "pSegments ctx")
     (simp_all add: TryStartTransmission_def extends_def pri_defs ctx_defs queue_defs split_beta Let_def)

lemma extends_pri:
  "extends ctx (PriState_OnAck ctx)" "extends ctx (PriState_OnNack ctx)" "extends ctx (PriState_OnLinkStatus ctx)"
  "extends ctx (PriState_OnNotSupported ctx)" "extends ctx (PriState_OnTimeout ctx)"
  by (simp_all add: extends_def pri_defs ctx_defs split: PriState.split)

lemma extends_queue: "extends ctx (QueueTransmit ctx n b)" "extends ctx (QueueAck C ctx d)" "extends ctx (QueueLinkStatus C ctx d)"
  by (simp_all add: extends_def queue_defs ctx_defs split_beta Let_def)

lemma extends_sec:
  "extends ctx (SecState_OnTestLinkStatus C ctx src b)" "extends ctx (SecState_OnResetLinkStates C ctx src)"
  "extends ctx (SecState_OnRequestLinkStatus C ctx src)" "extends ctx (SecState_OnConfirmedUserData C ctx src b br ad d)"
  "extends ctx (SecState_OnTxReady ctx)"
  by (cases "pSecState ctx"; simp add: extends_def sec_defs ctx_defs queue_defs split_beta Let_def)+

lemma extends_dispatch: "extends ctx (dispatch_frame C ctx h d)"
  by (cases "func h"; simp add: dispatch_frame_def extends_pri extends_sec)
     (simp_all add: extends_def PushDataUp_def emit_def)

lemma extends_upd:
  "extends ctx (RestartKeepAliveTimer ctx)" "extends ctx (emit a ctx)" "extends ctx (count_unexpected ctx)"
  by (simp_all add: extends_def ctx_defs Let_def)

lemma extends_simps [simp]:
  "extends (ctx\<lparr>executor_time := t\<rparr>) c = extends ctx c" "extends (ctx\<lparr>segments := sg\<rparr>) c = extends ctx c"
  "extends (ctx\<lparr>keepAliveTimer := kt\<rparr>) c = extends ctx c" "extends (ctx\<lparr>rspTimeoutTimer := rt\<rparr>) c = extends ctx c"
  "extends (ctx\<lparr>keepAliveTimeout := kb\<rparr>) c = extends ctx c" "extends (ctx\<lparr>pSegments := pb\<rparr>) c = extends ctx c"
  "extends (ctx\<lparr>txMode := m\<rparr>) c = extends ctx c" "extends (ctx\<lparr>link_stats := st\<rparr>) c = extends ctx c"
  "extends c (ctx\<lparr>keepAliveTimer := kt\<rparr>) = extends c ctx" "extends c (ctx\<lparr>rspTimeoutTimer := rt\<rparr>) = extends c ctx"
  "extends c (ctx\<lparr>link_stats := st\<rparr>) = extends c ctx" "extends c (ctx\<lparr>segments := sg\<rparr>) = extends c ctx"
  "extends c (ctx\<lparr>pSegments := pb\<rparr>) = extends c ctx" "extends c (ctx\<lparr>executor_time := t\<rparr>) = extends c ctx"
  by (simp_all add: extends_def)

lemma extends_OnTxReady: "extends ctx (snd (LinkContext_OnTxReady C I ctx))"
  by (cases "txMode ctx"; cases "pPriState ctx"; cases "pSecState ctx"; cases "pendingPriTx ctx";
      cases "pendingSecTx ctx")
     (simp_all add: LinkContext_OnTxReady_def TryPendingTx_def extends_def pri_defs sec_defs ctx_defs queue_defs
        split_beta Let_def)

lemma extends_OnFrame: "extends ctx (snd (LinkContext_OnFrame C ctx h d))"
  using extends_trans [OF extends_upd(1) extends_dispatch [of "RestartKeepAliveTimer ctx" C h d]]
  by (simp add: LinkContext_OnFrame_def) (simp add: extends_def emit_def count_unexpected_def)

lemma link_step_extends: "extends ctx (link_step C I ctx e)"
proof (cases e)
  case EvLowerLayerUp
  then show ?thesis by (simp add: LinkLayer_OnLowerLayerUp_def LinkContext_OnLowerLayerUp_def extends_def ctx_defs Let_def)
next
  case EvLowerLayerDown
  then show ?thesis by (simp add: LinkLayer_OnLowerLayerDown_def LinkContext_OnLowerLayerDown_def extends_def ctx_defs Let_def)
next
  case (EvFrame h d)
  then show ?thesis
    using extends_OnFrame [of ctx C h d] extends_trans [OF extends_OnFrame [of ctx C h d] extends_TryStart]
    by (simp add: LinkLayer_OnFrame_def split_beta)
next
  case EvTxReady
  then show ?thesis
    using extends_OnTxReady [of ctx C I] extends_trans [OF extends_OnTxReady [of ctx C I] extends_TryStart]
    by (simp add: LinkLayer_OnTxReady_def split_beta)
next
  case (EvSend seg)
  have "extends ctx (snd (SetTxSegment (ctx\<lparr>segments := seg\<rparr>)))" by (simp add: SetTxSegment_def)
  from this extends_trans [OF this extends_TryStart] EvSend show ?thesis
    by (simp add: LinkLayer_Send_def split_beta)
next
  case EvKeepAliveTimer
  have "extends ctx (RestartKeepAliveTimer (ctx\<lparr>keepAliveTimer := None\<rparr>))"
    "extends ctx (RestartKeepAliveTimer (ctx\<lparr>keepAliveTimer := None, keepAliveTimeout := True\<rparr>))"
    by (simp_all add: extends_def RestartKeepAliveTimer_def Let_def)
  from extends_trans [OF this(1) extends_TryStart] extends_trans [OF this(2) extends_TryStart] EvKeepAliveTimer
  show ?thesis by (simp add: OnKeepAliveTimeout_def Let_def)
next
  case EvResponseTimer
  have "extends ctx (PriState_OnTimeout (ctx\<lparr>rspTimeoutTimer := None\<rparr>))"
    using extends_pri(5) [of "ctx\<lparr>rspTimeoutTimer := None\<rparr>"] by simp
  from extends_trans [OF this extends_TryStart] EvResponseTimer show ?thesis
    by (simp add: OnResponseTimeout_def Let_def)
qed

lemma link_run_extends: "extends ctx (link_run C I ctx es)"
proof (induction es arbitrary: ctx)
  case (Cons te es)
  obtain t e where te: "te = (t, e)" by fastforce
  have "extends ctx (link_step C I (ctx\<lparr>executor_time := t\<rparr>) e)"
    using link_step_extends [of "ctx\<lparr>executor_time := t\<rparr>" C I e] by simp
  from extends_trans [OF this Cons.IH] te show ?case by (simp del: link_step.simps)
qed simp

section \<open>Delivery to the transport layer\<close>

definition new_events :: "'seg LinkContext \<Rightarrow> 'seg LinkContext \<Rightarrow> LinkAction list" where
  "new_events ctx ctx' = drop (length (events ctx)) (events ctx')"

lemma new_events_append:
  "extends a b \<Longrightarrow> extends b c \<Longrightarrow> new_events a c = new_events a b @ new_events b c"
  by (auto simp: extends_def new_events_def prefix_def)

lemma new_events_eq: "events ctx' = events ctx @ ev \<Longrightarrow> new_events ctx ctx' = ev"
  by (simp add: new_events_def)

lemma new_events_time [simp]: "new_events (ctx\<lparr>executor_time := t\<rparr>) c = new_events ctx c"
  by (simp add: new_events_def)

lemma deliver_all_append:
  "deliver_all ly (a @ b) = (let (ly, o1) = deliver_all ly a; (ly, o2) = deliver_all ly b in (ly, o1 @ o2))"
  by (induction a arbitrary: ly) (simp_all add: split_beta Let_def)

fun link_internal :: "LinkAction \<Rightarrow> bool" where
  "link_internal UpperOnLowerLayerUp = False"
| "link_internal UpperOnLowerLayerDown = False"
| "link_internal (UpperOnReceive ad d) = False"
| "link_internal PostUpperOnTxReady = False"
| "link_internal a = True"

lemma deliver_internal: "list_all link_internal as \<Longrightarrow> deliver_all ly as = (ly, [])"
proof (induction as)
  case (Cons a as)
  then show ?case by (cases a) simp_all
qed simp

lemma stack_link_event_eq:
  "stack_link_event C st e =
     st\<lparr>link := link_step C TransportTx_segment (link st) e,
        transport := fst (deliver_all (transport st) (new_events (link st) (link_step C TransportTx_segment (link st) e))),
        app_log := app_log st @ snd (deliver_all (transport st) (new_events (link st) (link_step C TransportTx_segment (link st) e)))\<rparr>"
  by (simp add: stack_link_event_def new_events_def split_beta Let_def)

lemma stack_run_links:
  "stack_run C st (map (\<lambda>(t, e). StLink t e) es) = st'
   \<Longrightarrow> link st' = link_run C TransportTx_segment (link st) es
     \<and> transport st' = fst (deliver_all (transport st) (new_events (link st) (link st')))
     \<and> app_log st' = app_log st @ snd (deliver_all (transport st) (new_events (link st) (link st')))"
proof (induction es arbitrary: st st')
  case Nil
  then show ?case by (auto simp: new_events_def)
next
  case (Cons te es)
  obtain t e where te: "te = (t, e)" by fastforce
  let ?c = "(link st)\<lparr>executor_time := t\<rparr>"
  let ?k = "link_step C TransportTx_segment ?c e"
  define s1 where "s1 = stack_link_event C (at_time t st) e"
  have s1: "link s1 = ?k" "transport s1 = fst (deliver_all (transport st) (new_events (link st) ?k))"
    "app_log s1 = app_log st @ snd (deliver_all (transport st) (new_events (link st) ?k))"
    by (simp_all add: s1_def stack_link_event_eq at_time_def del: link_step.simps)
  have "stack_run C s1 (map (\<lambda>(t, e). StLink t e) es) = st'" using Cons.prems by (simp add: te s1_def)
  note ih = Cons.IH [OF this]
  have x: "extends (link st) (link s1)" "extends (link s1) (link st')"
    using link_step_extends [of ?c C TransportTx_segment e] link_run_extends [of "link s1" C TransportTx_segment es] ih s1(1)
    by simp_all
  have "new_events (link st) (link st') = new_events (link st) (link s1) @ new_events (link s1) (link st')"
    using x by (rule new_events_append)
  then show ?case using ih s1 by (simp add: te deliver_all_append split_beta Let_def del: link_step.simps)
qed

section \<open>Sending\<close>

definition wire :: "LinkAction list \<Rightarrow> byte list" where
  "wire as = concat (map (\<lambda>a. case a of ChannelBeginTransmit b \<Rightarrow> b | _ \<Rightarrow> []) as)"

definition can_send :: "TransportStack \<Rightarrow> bool" where
  "can_send st = (link_idle (link st) \<and> tl_isOnline (transport st) \<and> \<not> tl_isSending (transport st)
     \<and> tl_lower (transport st) \<and> tl_upper (transport st)
     \<and> 250 \<le> length (tpduBuffer (segments (link st))) \<and> tx_sequence (segments (link st)) < 64)"

lemma stack_send_run:
  assumes "codec16 C" "can_send st" "msg_payload m \<noteq> []" "length (msg_payload m) < 4294967296"
    and "segs = tx_segments True (tx_sequence (segments (link st))) (msg_payload m)"
    and "length ts = length segs"
    and "st' = stack_run C st (StSend t0 m # map (\<lambda>t. StLink t EvTxReady) ts)"
  shows "link_idle (link st') \<and> transport st' = transport st \<and> app_log st' = app_log st @ [AppOnTxReady]
    \<and> new_events (link st) (link st')
       = map (\<lambda>d. ChannelBeginTransmit (unconfirmed_frame C (IsMaster (config (link st))) (msg_addresses m) d)) segs
         @ [PostUpperOnTxReady]"
proof -
  let ?tx = "TransportTx_Configure (segments (link st)) m"
  let ?st0 = "(at_time t0 st)\<lparr>transport := (transport st)\<lparr>tl_isSending := True\<rparr>\<rparr>"
  define es where "es = (t0, EvSend ?tx) # map (\<lambda>t. (t, EvTxReady)) ts"
  define ctx' where "ctx' = link_run C TransportTx_segment (link st) es"
  have buf: "250 \<le> length (tpduBuffer (segments (link st)))" using assms(2) by (simp add: can_send_def)
  note conf = Configure_contents [OF assms(3,4) buf]
  have sender: "segment_sender C TransportTx_segment tx_valid tx_contents"
    by (intro segment_sender.intro assms(1) tx.transport_segment_axioms)
  have run: "link_idle ctx' \<and> events ctx' = events (link st)
      @ map (\<lambda>d. ChannelBeginTransmit (unconfirmed_frame C (IsMaster (config (link st))) (msg_addresses m) d)) segs
      @ [PostUpperOnTxReady]"
    using segment_sender.message_run [OF sender _ conf(2) _ _ ctx'_def [unfolded es_def]] assms(2,3,5,6) conf
    by (simp add: can_send_def TransportTx_segment_def)
  have "stack_step C st (StSend t0 m) = stack_step C ?st0 (StLink t0 (EvSend ?tx))"
    using assms(2,3)
    by (cases st) (simp add: stack_send_def TransportLayer_BeginTransmit_def at_time_def can_send_def)
  then have "st' = stack_run C ?st0 (map (\<lambda>(t, e). StLink t e) es)"
    unfolding assms(7) es_def by (simp add: comp_def)
  note r = stack_run_links [OF this [symmetric]]
  have l: "link st' = ctx'"
    using r unfolding ctx'_def es_def by (simp add: at_time_def)
  have ne: "new_events (link st) (link st')
      = map (\<lambda>d. ChannelBeginTransmit (unconfirmed_frame C (IsMaster (config (link st))) (msg_addresses m) d)) segs
         @ [PostUpperOnTxReady]"
    using run unfolding l by (intro new_events_eq) simp
  have "deliver_all ly (map (\<lambda>d. ChannelBeginTransmit (f d)) segs) = (ly, [])" for ly f
    by (rule deliver_internal) (simp add: list_all_iff)
  then have "transport st' = transport st \<and> app_log st' = app_log st @ [AppOnTxReady]"
    using r ne assms(2)
    by (simp add: deliver_all_append at_time_def TransportLayer_OnTxReady_def can_send_def)
  with run l ne show ?thesis by simp
qed

section \<open>Receiving\<close>

lemma TryStart_internal:
  "list_all link_internal (new_events ctx (TryStartTransmission C I ctx))"
  by (cases "pPriState ctx"; cases "txMode ctx"; cases "keepAliveTimeout ctx"; cases "pSegments ctx")
     (simp_all add: TryStartTransmission_def new_events_def pri_defs ctx_defs queue_defs split_beta Let_def)

lemma TryStart_keeps [simp]:
  "config (TryStartTransmission C I ctx) = config ctx" "isOnline (TryStartTransmission C I ctx) = isOnline ctx"
  by (cases "pPriState ctx"; cases "txMode ctx"; cases "keepAliveTimeout ctx"; cases "pSegments ctx";
      simp add: TryStartTransmission_def pri_defs ctx_defs queue_defs split_beta Let_def)+

definition can_receive :: "TransportStack \<Rightarrow> Addresses \<Rightarrow> bool \<Rightarrow> bool" where
  "can_receive st ad m = (isOnline (link st) \<and> tl_isOnline (transport st) \<and> tl_upper (transport st)
     \<and> frame_accepted (config (link st)) (mk_fields PRI_UNCONFIRMED_USER_DATA m False False (destination ad) (source ad)))"

lemma stack_receive_frame:
  assumes "can_receive st ad m"
    and "st' = stack_step C st (StLink t (EvFrame (mk_fields PRI_UNCONFIRMED_USER_DATA m False False (destination ad) (source ad)) d))"
    and "ProcessReceive (receiver (transport st)) (mk_message ad d) = (asdu, rx)"
  shows "can_receive st' ad m \<and> receiver (transport st') = rx
    \<and> app_log st' = app_log st @ (if msg_payload asdu \<noteq> [] then [AppOnReceive asdu] else [])"
proof -
  let ?h = "mk_fields PRI_UNCONFIRMED_USER_DATA m False False (destination ad) (source ad)"
  let ?c = "(link st)\<lparr>executor_time := t\<rparr>"
  define k where "k = PushDataUp (RestartKeepAliveTimer ?c) (addresses ?h) d"
  have ad: "addresses ?h = ad" by (simp add: mk_fields_def)
  have on: "isOnline ?c" "frame_accepted (config ?c) ?h" using assms(1) by (simp_all add: can_receive_def)
  have step: "link_step C TransportTx_segment ?c (EvFrame ?h d) = TryStartTransmission C TransportTx_segment k"
    by (simp add: LinkLayer_OnFrame_def OnFrame_dispatch [OF on] k_def dispatch_frame_def) (simp add: mk_fields_def)
  have k: "new_events (link st) k = [UpperOnReceive ad d]" "config k = config (link st)" "isOnline k"
    using assms(1)
    by (simp_all add: k_def PushDataUp_def emit_def RestartKeepAliveTimer_def new_events_def Let_def ad can_receive_def)
  have "extends (link st) k" unfolding k_def PushDataUp_def
    by (simp add: extends_def emit_def RestartKeepAliveTimer_def Let_def)
  from new_events_append [OF this extends_TryStart] k(1)
  have n: "new_events (link st) (TryStartTransmission C TransportTx_segment k)
      = UpperOnReceive ad d # new_events k (TryStartTransmission C TransportTx_segment k)" by simp
  note internal = deliver_internal [OF TryStart_internal [of k C TransportTx_segment]]
  have "link st' = TryStartTransmission C TransportTx_segment k"
    "transport st' = (transport st)\<lparr>receiver := rx\<rparr>"
    "app_log st' = app_log st @ (if msg_payload asdu \<noteq> [] then [AppOnReceive asdu] else [])"
    unfolding assms(2)
    using assms(1,3) step n internal
    by (simp_all add: stack_link_event_eq at_time_def TransportLayer_OnReceive_def can_receive_def split_beta
        del: link_step.simps)
  with assms(1) k show ?thesis by (simp add: can_receive_def)
qed

lemma stack_receive_frames:
  assumes "can_receive st ad m"
    and "rx_run (receiver (transport st)) (map (mk_message ad) ds) = (out, rx)"
    and "st' = stack_run C st (map (\<lambda>(t, d). StLink t (EvFrame
           (mk_fields PRI_UNCONFIRMED_USER_DATA m False False (destination ad) (source ad)) d)) (zip ts ds))"
    and "length ts = length ds"
  shows "receiver (transport st') = rx \<and> app_log st' = app_log st @ map AppOnReceive out"
  using assms
proof (induction ds arbitrary: st ts out)
  case (Cons d ds)
  then obtain t us where ts: "ts = t # us" "length us = length ds" by (cases ts) auto
  obtain asdu rx1 where p: "ProcessReceive (receiver (transport st)) (mk_message ad d) = (asdu, rx1)" by fastforce
  obtain out1 rx2 where r: "rx_run rx1 (map (mk_message ad) ds) = (out1, rx2)" by fastforce
  define s1 where "s1 = stack_step C st (StLink t (EvFrame (mk_fields PRI_UNCONFIRMED_USER_DATA m False False
     (destination ad) (source ad)) d))"
  note s = stack_receive_frame [OF Cons.prems(1) s1_def p]
  have "st' = stack_run C s1 (map (\<lambda>(t, d). StLink t (EvFrame
           (mk_fields PRI_UNCONFIRMED_USER_DATA m False False (destination ad) (source ad)) d)) (zip us ds))"
    using Cons.prems(3) by (simp add: ts s1_def del: stack_step.simps)
  from Cons.IH [OF _ _ this ts(2), of out1] s r Cons.prems(2) p show ?case by (auto split: if_splits)
qed simp

section \<open>The wire between two stacks\<close>

lemma unconfirmed_frame_tx_bytes:
  assumes "codec16 C" "292 \<le> length buf" "length d \<le> 250"
  shows "unconfirmed_frame C m ad d = tx_bytes C buf (TxUnconfirmedUserData m (destination ad) (source ad) d)"
  using codec16.FormatUnconfirmedUserData_eq [OF assms, of m ad] by (metis fst_conv tx_bytes.simps(9))

lemma wire_decode:
  assumes "codec16 C" "\<And>d. d \<in> set ds \<Longrightarrow> 1 \<le> length d \<and> length d \<le> 250"
  shows "decode C (wire (map (\<lambda>d. ChannelBeginTransmit (unconfirmed_frame C m ad d)) ds @ [PostUpperOnTxReady]))
    = map (\<lambda>d. (mk_fields PRI_UNCONFIRMED_USER_DATA m False False (destination ad) (source ad), d)) ds"
proof -
  let ?buf = "replicate 292 (0 :: byte)"
  let ?ts = "map (TxUnconfirmedUserData m (destination ad) (source ad)) ds"
  have "wire (map (\<lambda>d. ChannelBeginTransmit (unconfirmed_frame C m ad d)) ds @ [PostUpperOnTxReady])
      = concat (map (unconfirmed_frame C m ad) ds)"
    by (simp add: wire_def comp_def)
  also have "map (unconfirmed_frame C m ad) ds = map (tx_bytes C ?buf) ?ts"
    using unconfirmed_frame_tx_bytes [OF assms(1), of ?buf] assms(2) by simp
  finally have "wire (map (\<lambda>d. ChannelBeginTransmit (unconfirmed_frame C m ad d)) ds @ [PostUpperOnTxReady])
      = concat (map (tx_bytes C ?buf) ?ts)" .
  then have "decode C (wire (map (\<lambda>d. ChannelBeginTransmit (unconfirmed_frame C m ad d)) ds @ [PostUpperOnTxReady])) = decode C (concat (map (tx_bytes C ?buf) ?ts))" by simp
  also have "\<dots> = map tx_delivers ?ts"
    using assms(2) by (intro codec16.tx_stream_decode [OF assms(1)]) auto
  finally show ?thesis by (simp add: comp_def)
qed

lemma tx_segments_nonempty: "d \<in> set (tx_segments fir s p) \<Longrightarrow> 1 \<le> length d"
proof (induction fir s p rule: tx_segments.induct)
  case (1 fir s p)
  then show ?case by (cases "p = []") (auto simp: tx_segments_step)
qed

end
