(* ===== verification/Gw_Numeric.thy ===== *)
theory Gw_Numeric
  imports Complex_Main Prelude
begin

text \<open>
  The floating point values of the gateway. The code converts integers and single-precision
  numbers to \<open>double\<close>, compares with zero, rounds with \<open>std::llround\<close> and converts back to
  \<open>float\<close>; it does no floating point arithmetic. A finite value is held exactly as a sign, a
  mantissa and an exponent of two, so that every one of these conversions is defined by
  integer arithmetic. A NaN carries the sign and the fraction of its single-precision image.

  The result of \<open>std::llround\<close> for a NaN, an infinity or a value outside the 64-bit range is
  unspecified by the language; it is the argument \<open>unspec\<close> of the functions that round.
\<close>

datatype double = NaN bool nat | Infinity bool | Finite bool nat int

definition double_of_int :: "int \<Rightarrow> double" where
  "double_of_int k = Finite (k < 0) (nat \<bar>k\<bar>) 0"

definition double_zero :: double where "double_zero = Finite False 0 0"

fun double_nonzero :: "double \<Rightarrow> bool" where
  "double_nonzero (Finite s m e) = (m \<noteq> 0)"
| "double_nonzero (NaN s f) = True"
| "double_nonzero (Infinity s) = True"

fun real_of_double :: "double \<Rightarrow> real option" where
  "real_of_double (Finite s m e) = Some ((if s then - 1 else 1) * real m * 2 powi e)"
| "real_of_double (NaN s f) = None"
| "real_of_double (Infinity s) = None"

section \<open>Single precision\<close>

definition double_of_float_bits :: "u32 \<Rightarrow> double" where
  "double_of_float_bits w =
     (let n = unat w; s = (n \<ge> 2147483648); E = n div 8388608 mod 256; F = n mod 8388608
      in if E = 255 then (if F = 0 then Infinity s else NaN s (if F < 4194304 then F + 4194304 else F))
         else if E = 0 then Finite s F (- 149)
         else Finite s (F + 8388608) (int E - 150))"

fun bitlen :: "nat \<Rightarrow> nat" where
  "bitlen n = (if n = 0 then 0 else Suc (bitlen (n div 2)))"

declare bitlen.simps [simp del]

definition round_shift :: "nat \<Rightarrow> nat \<Rightarrow> nat" where
  "round_shift m d =
     (let q = m div 2 ^ d; r = m mod 2 ^ d
      in if 2 * r < 2 ^ d then q else if 2 * r > 2 ^ d then q + 1 else if even q then q else q + 1)"

definition sign_bit :: "bool \<Rightarrow> nat" where
  "sign_bit s = (if s then 2147483648 else 0)"

fun float_bits_of_double :: "double \<Rightarrow> u32" where
  "float_bits_of_double (NaN s f) = of_nat (sign_bit s + 2139095040 + f)"
| "float_bits_of_double (Infinity s) = of_nat (sign_bit s + 2139095040)"
| "float_bits_of_double (Finite s m e) =
     (if m = 0 then of_nat (sign_bit s)
      else let e' = max (e + int (bitlen m) - 24) (- 149);
               q = (if e' \<le> e then m * 2 ^ nat (e - e') else round_shift m (nat (e' - e)));
               (q, e') = (if q = 16777216 then (8388608, e' + 1) else (q, e'))
           in if e' > 104 then of_nat (sign_bit s + 2139095040)
              else if q < 8388608 then of_nat (sign_bit s + q)
              else of_nat (sign_bit s + nat (e' + 150) * 8388608 + (q - 8388608)))"

section \<open>Rounding to an integer\<close>

definition llround_mag :: "nat \<Rightarrow> int \<Rightarrow> nat" where
  "llround_mag m e = (if e \<ge> 0 then m * 2 ^ nat e else (2 * m + 2 ^ nat (- e)) div 2 ^ Suc (nat (- e)))"

definition llround_exact :: "bool \<Rightarrow> nat \<Rightarrow> int \<Rightarrow> int" where
  "llround_exact s m e = (if s then - int (llround_mag m e) else int (llround_mag m e))"

definition in_llong :: "int \<Rightarrow> bool" where
  "in_llong k = (- 9223372036854775808 \<le> k \<and> k \<le> 9223372036854775807)"

fun llround :: "(double \<Rightarrow> int) \<Rightarrow> double \<Rightarrow> int" where
  "llround unspec (Finite s m e) =
     (if in_llong (llround_exact s m e) then llround_exact s m e else unspec (Finite s m e))"
| "llround unspec d = unspec d"

section \<open>Facts\<close>

lemma bitlen_0 [simp]: "bitlen 0 = 0"
  by (simp add: bitlen.simps)

lemma bitlen_eqI: "2 ^ k \<le> n \<Longrightarrow> n < 2 ^ Suc k \<Longrightarrow> bitlen n = Suc k"
proof (induction k arbitrary: n)
  case 0
  then have "n = 1" by simp
  then show ?case by (simp add: bitlen.simps)
next
  case (Suc k)
  then have "2 ^ k \<le> n div 2" "n div 2 < 2 ^ Suc k" by auto
  from Suc.IH [OF this] Suc.prems show ?case by (simp add: bitlen.simps [of n])
qed

lemma bitlen_le: "n < 2 ^ k \<Longrightarrow> bitlen n \<le> k"
proof (induction k arbitrary: n)
  case (Suc k)
  then have "n div 2 < 2 ^ k" by auto
  from Suc.IH [OF this] show ?case by (simp add: bitlen.simps [of n])
qed simp

lemma float_roundtrip:
  assumes "\<not> (unat w div 8388608 mod 256 = 255 \<and> 0 < unat w mod 8388608 \<and> unat w mod 8388608 < 4194304)"
  shows "float_bits_of_double (double_of_float_bits w) = w"
proof -
  define n s E F where "n = unat w" and "s = (n \<ge> 2147483648)" and "E = n div 8388608 mod 256"
    and "F = n mod 8388608"
  have n: "n < 4294967296" using unsigned_less [of w, where ?'a = nat] by (simp add: n_def)
  have split: "n = sign_bit s + E * 8388608 + F"
  proof -
    have "n = n div 8388608 * 8388608 + F" by (simp add: F_def)
    moreover have "n div 8388608 = n div 8388608 div 256 * 256 + E" unfolding E_def by (rule div_mult_mod_eq [symmetric])
    moreover have "n div 8388608 div 256 = n div 2147483648" by (simp flip: div_mult2_eq)
    moreover have "n div 2147483648 = (if s then 1 else 0)" using n by (auto simp: s_def div_if)
    ultimately show ?thesis by (auto simp: sign_bit_def)
  qed
  have w: "of_nat n = w" by (simp add: n_def)
  have F: "F < 8388608" and E: "E \<le> 255" by (simp_all add: F_def E_def)
  have d: "double_of_float_bits w = (if E = 255 then (if F = 0 then Infinity s else NaN s (if F < 4194304 then F + 4194304 else F))
         else if E = 0 then Finite s F (- 149) else Finite s (F + 8388608) (int E - 150))"
    unfolding double_of_float_bits_def n_def [symmetric] Let_def s_def [symmetric] E_def [symmetric] F_def [symmetric] ..
  consider "E = 255" | "E = 0" | "0 < E" "E < 255" using E by linarith
  then show ?thesis
  proof cases
    case 1
    then have "F = 0 \<or> \<not> F < 4194304" using assms by (auto simp: n_def E_def F_def)
    with 1 have "float_bits_of_double (double_of_float_bits w) = of_nat n"
      by (auto simp: d split)
    with w show ?thesis by simp
  next
    case 2
    have b: "bitlen F \<le> 23" using F by (intro bitlen_le) simp
    have "float_bits_of_double (double_of_float_bits w) = of_nat n"
      using 2 F b by (simp add: d split Let_def)
    with w show ?thesis by simp
  next
    case 3
    have b: "bitlen (F + 8388608) = 24" using F bitlen_eqI [of 23 "F + 8388608"] by simp
    have m: "max (int E - 150) (- 149) = int E - 150" using 3 by simp
    have "float_bits_of_double (double_of_float_bits w) = of_nat n"
      using 3 F by (simp add: d split b m Let_def)
    with w show ?thesis by simp
  qed
qed

section \<open>Rounding is to the nearest integer\<close>

lemma llround_mag_near: "\<bar>real (llround_mag m e) - real m * 2 powi e\<bar> \<le> 1 / 2"
proof (cases "e \<ge> 0")
  case True
  then have "(2 :: real) powi e = 2 ^ nat e" by (simp add: power_int_def)
  with True show ?thesis by (simp add: llround_mag_def)
next
  case False
  define k where "k = nat (- e)"
  have e: "(2 :: real) powi e = 1 / 2 ^ k" using False by (simp add: power_int_def k_def inverse_eq_divide power_divide)
  define D q where "D = (2 :: nat) ^ Suc k" and "q = (2 * m + 2 ^ k) div D"
  have D: "0 < D" by (simp add: D_def)
  have q: "q * D \<le> 2 * m + 2 ^ k" "2 * m + 2 ^ k < (q + 1) * D"
    using div_mult_mod_eq [of "2 * m + 2 ^ k" D] mod_less_divisor [OF D, of "2 * m + 2 ^ k"]
    unfolding q_def [symmetric] distrib_right mult_1 by linarith+
  have rD: "real D = 2 * 2 ^ k" by (simp add: D_def)
  have "real q * (2 * 2 ^ k) \<le> 2 * real m + 2 ^ k" using q(1) rD by (metis (mono_tags) of_nat_add of_nat_le_iff of_nat_mult of_nat_numeral of_nat_power)
  moreover have "2 * real m + 2 ^ k < (real q + 1) * (2 * 2 ^ k)"
    using q(2) rD by (metis (mono_tags) of_nat_1 of_nat_add of_nat_less_iff of_nat_mult of_nat_numeral of_nat_power)
  moreover have "(0 :: real) < 2 ^ k" by simp
  ultimately have "real q \<le> real m / 2 ^ k + 1 / 2" "real m / 2 ^ k < real q + 1 / 2"
    by (simp_all add: field_simps)
  then have "\<bar>real q - real m / 2 ^ k\<bar> \<le> 1 / 2" by linarith
  moreover have "llround_mag m e = q" using False by (simp add: llround_mag_def q_def D_def k_def)
  ultimately show ?thesis by (simp add: e)
qed

lemma llround_exact_near:
  "\<bar>real_of_int (llround_exact s m e) - (if s then - 1 else 1) * real m * 2 powi e\<bar> \<le> 1 / 2"
  using llround_mag_near [of m e] unfolding llround_exact_def abs_le_iff by (cases s) simp_all

lemma llround_near:
  assumes "real_of_double d = Some r" "\<bar>r\<bar> < 9223372036854775807"
  shows "\<bar>real_of_int (llround unspec d) - r\<bar> \<le> 1 / 2"
proof (cases d)
  case (Finite s m e)
  let ?k = "llround_exact s m e"
  have n: "\<bar>real_of_int ?k - r\<bar> \<le> 1 / 2" using llround_exact_near [of s m e] assms(1) Finite by auto
  then have "real_of_int ?k < 9223372036854775808" "- 9223372036854775808 < real_of_int ?k"
    using assms(2) by linarith+
  then have "in_llong ?k" by (simp add: in_llong_def)
  with n Finite show ?thesis by simp
qed (use assms in simp_all)

lemma llround_of_int: "in_llong k \<Longrightarrow> llround unspec (double_of_int k) = k"
  by (simp add: double_of_int_def llround_exact_def llround_mag_def)

lemma real_of_double_of_int [simp]: "real_of_double (double_of_int k) = Some (real_of_int k)"
  by (simp add: double_of_int_def)

lemma double_nonzero_of_int [simp]: "double_nonzero (double_of_int k) = (k \<noteq> 0)"
  by (simp add: double_of_int_def)

end
