(* ===== verification/Gw_Types.thy ===== *)
theory Gw_Types
  imports Gw_Numeric
begin

text \<open>
  The data of the gateway (\<open>RPI_slavednp3/include/Tipos.h\<close>) and the functions of
  \<open>Config.cpp\<close> that classify a Modbus point: which Modbus object it is, how many registers it has,
  and as which DNP3 object and variation it is published. Texts are the bytes of the source
  file (UTF-8). The last section has the communication status of a point.
\<close>

section \<open>Data\<close>

definition DNP3_TCP_PORT :: int where "DNP3_TCP_PORT = 20000"
definition DNP3_LOCAL_ADDR :: int where "DNP3_LOCAL_ADDR = 2"
definition DNP3_REMOTE_ADDR :: int where "DNP3_REMOTE_ADDR = 1"
definition MODBUS_RESPONSE_TIMEOUT_SEC :: int where "MODBUS_RESPONSE_TIMEOUT_SEC = 1"
definition MODBUS_RESPONSE_TIMEOUT_USEC :: int where "MODBUS_RESPONSE_TIMEOUT_USEC = 0"
definition MODBUS_BYTE_TIMEOUT_SEC :: int where "MODBUS_BYTE_TIMEOUT_SEC = 0"
definition MODBUS_BYTE_TIMEOUT_USEC :: int where "MODBUS_BYTE_TIMEOUT_USEC = 500000"
definition MAX_UI_LOGS :: nat where "MAX_UI_LOGS = 200"
definition DEFAULT_POINTS_CONFIG_FILE :: string where "DEFAULT_POINTS_CONFIG_FILE = ''points_config.csv''"
definition UI_HTTP_PORT :: int where "UI_HTTP_PORT = 8080"
definition max_failures_before_zero :: int where "max_failures_before_zero = 5"

datatype AppLogLevel = Info | Warn | Error

datatype OperatingMode = ConfigFile

datatype ReadValueType =
    CoilStatusBool
  | InputStatusBool
  | HoldingInt16
  | InputInt16
  | HoldingUInt16
  | InputUInt16
  | HoldingInt32
  | InputInt32
  | HoldingUInt32
  | InputUInt32
  | HoldingFloat32
  | InputFloat32

datatype WriteTargetType = HoldingRegister | Coil

record ReadPointConfig =
  rp_ip :: string
  rp_port :: int
  rp_slave_id :: int
  rp_type :: ReadValueType
  rp_address :: int
  rp_count :: int
  rp_dnp3_analog_index :: u16
  rp_dnp3_status_index :: u16
  rp_description :: string

record CommandPointConfig =
  cp_dnp3_index :: u16
  cp_ip :: string
  cp_port :: int
  cp_slave_id :: int
  cp_target :: WriteTargetType
  cp_modbus_address :: int
  cp_value_type :: ReadValueType
  cp_description :: string

record ReadPointState =
  analog_value :: double
  connection_status :: bool
  connection_changed :: bool
  failure_count :: int
  last_change_time :: int

definition ReadPointState_init :: ReadPointState where
  "ReadPointState_init = \<lparr>analog_value = double_zero, connection_status = False, connection_changed = True,
     failure_count = 0, last_change_time = 0\<rparr>"

record ProfileConfig =
  profile_mode :: OperatingMode
  profile_name :: string
  read_points :: "ReadPointConfig list"
  analog_commands :: "CommandPointConfig list"
  binary_commands :: "CommandPointConfig list"

definition ProfileConfig_init :: ProfileConfig where
  "ProfileConfig_init = \<lparr>profile_mode = ConfigFile, profile_name = [], read_points = [], analog_commands = [],
     binary_commands = []\<rparr>"

section \<open>Classification of the points\<close>

definition OperatingModeToString :: "OperatingMode \<Rightarrow> string" where
  "OperatingModeToString mode = ''config_file''"

fun ReadValueTypeToString :: "ReadValueType \<Rightarrow> string" where
  "ReadValueTypeToString CoilStatusBool = ''COIL_STATUS_BOOL''"
| "ReadValueTypeToString InputStatusBool = ''INPUT_STATUS_BOOL''"
| "ReadValueTypeToString HoldingInt16 = ''HOLDING_INT16''"
| "ReadValueTypeToString InputInt16 = ''INPUT_INT16''"
| "ReadValueTypeToString HoldingUInt16 = ''HOLDING_UINT16''"
| "ReadValueTypeToString InputUInt16 = ''INPUT_UINT16''"
| "ReadValueTypeToString HoldingInt32 = ''HOLDING_INT32''"
| "ReadValueTypeToString InputInt32 = ''INPUT_INT32''"
| "ReadValueTypeToString HoldingUInt32 = ''HOLDING_UINT32''"
| "ReadValueTypeToString InputUInt32 = ''INPUT_UINT32''"
| "ReadValueTypeToString HoldingFloat32 = ''HOLDING_FLOAT32''"
| "ReadValueTypeToString InputFloat32 = ''INPUT_FLOAT32''"

definition IsHoldingRegisterType :: "ReadValueType \<Rightarrow> bool" where
  "IsHoldingRegisterType type = (type \<in> {HoldingInt16, HoldingUInt16, HoldingInt32, HoldingUInt32, HoldingFloat32})"

definition IsInputRegisterType :: "ReadValueType \<Rightarrow> bool" where
  "IsInputRegisterType type = (type \<in> {InputInt16, InputUInt16, InputInt32, InputUInt32, InputFloat32})"

definition IsCoilStatusType :: "ReadValueType \<Rightarrow> bool" where
  "IsCoilStatusType type = (type = CoilStatusBool)"

definition IsInputStatusType :: "ReadValueType \<Rightarrow> bool" where
  "IsInputStatusType type = (type = InputStatusBool)"

definition IsDiscreteBitType :: "ReadValueType \<Rightarrow> bool" where
  "IsDiscreteBitType type = (IsCoilStatusType type \<or> IsInputStatusType type)"

definition RegisterCountForType :: "ReadValueType \<Rightarrow> int" where
  "RegisterCountForType type =
     (case type of
        HoldingInt32 \<Rightarrow> 2 | InputInt32 \<Rightarrow> 2 | HoldingUInt32 \<Rightarrow> 2 | InputUInt32 \<Rightarrow> 2
      | HoldingFloat32 \<Rightarrow> 2 | InputFloat32 \<Rightarrow> 2 | _ \<Rightarrow> 1)"

definition IsFloatType :: "ReadValueType \<Rightarrow> bool" where
  "IsFloatType type = (type = HoldingFloat32 \<or> type = InputFloat32)"

definition PublishesAsDnp3Binary :: "ReadValueType \<Rightarrow> bool" where
  "PublishesAsDnp3Binary type = IsDiscreteBitType type"

definition Dnp3PointTypeLabel :: "ReadValueType \<Rightarrow> string" where
  "Dnp3PointTypeLabel type = (if PublishesAsDnp3Binary type then ''Binary Input'' else ''Analog Input'')"

definition Dnp3ObjectGroup :: "ReadValueType \<Rightarrow> int" where
  "Dnp3ObjectGroup type = (if PublishesAsDnp3Binary type then 1 else 30)"

definition Dnp3StaticVariationNumber :: "ReadValueType \<Rightarrow> int" where
  "Dnp3StaticVariationNumber type =
     (if PublishesAsDnp3Binary type then 2
      else if IsFloatType type then 5
      else case type of
        HoldingInt32 \<Rightarrow> 1 | InputInt32 \<Rightarrow> 1 | HoldingUInt32 \<Rightarrow> 1 | InputUInt32 \<Rightarrow> 1 | _ \<Rightarrow> 2)"

definition Dnp3ClassLabel :: "ReadValueType \<Rightarrow> string" where
  "Dnp3ClassLabel type = ''Class 1''"

definition Dnp3SuggestionDescription :: "ReadValueType \<Rightarrow> string" where
  "Dnp3SuggestionDescription type =
     (if PublishesAsDnp3Binary type then (''Entrada bin'' @ [CHR 0xC3, CHR 0xA1] @ ''ria DNP3 para ponto discreto/booleano'')
      else if IsFloatType type then (''Entrada anal'' @ [CHR 0xC3, CHR 0xB3] @ ''gica DNP3 em ponto flutuante de 32 bits'')
      else case type of
        HoldingInt32 \<Rightarrow> (''Entrada anal'' @ [CHR 0xC3, CHR 0xB3] @ ''gica DNP3 inteira de 32 bits'')
      | InputInt32 \<Rightarrow> (''Entrada anal'' @ [CHR 0xC3, CHR 0xB3] @ ''gica DNP3 inteira de 32 bits'')
      | HoldingUInt32 \<Rightarrow> (''Entrada anal'' @ [CHR 0xC3, CHR 0xB3] @ ''gica DNP3 inteira de 32 bits'')
      | InputUInt32 \<Rightarrow> (''Entrada anal'' @ [CHR 0xC3, CHR 0xB3] @ ''gica DNP3 inteira de 32 bits'')
      | _ \<Rightarrow> (''Entrada anal'' @ [CHR 0xC3, CHR 0xB3] @ ''gica DNP3 inteira de 16 bits''))"

datatype StaticAnalogVariation = Group30Var1 | Group30Var2 | Group30Var3 | Group30Var4 | Group30Var5 | Group30Var6

definition StaticVariationForType :: "ReadValueType \<Rightarrow> StaticAnalogVariation" where
  "StaticVariationForType type =
     (case type of
        HoldingFloat32 \<Rightarrow> Group30Var5 | InputFloat32 \<Rightarrow> Group30Var5
      | HoldingInt16 \<Rightarrow> Group30Var2 | InputInt16 \<Rightarrow> Group30Var2
      | HoldingUInt16 \<Rightarrow> Group30Var2 | InputUInt16 \<Rightarrow> Group30Var2
      | _ \<Rightarrow> Group30Var1)"

definition ReadValueTypeRegisterKind :: "ReadValueType \<Rightarrow> string" where
  "ReadValueTypeRegisterKind type =
     (if IsCoilStatusType type then ''coil_status''
      else if IsInputStatusType type then ''input_status''
      else if IsHoldingRegisterType type then ''holding''
      else ''input_register'')"

fun ReadValueTypeDataType :: "ReadValueType \<Rightarrow> string" where
  "ReadValueTypeDataType CoilStatusBool = ''bool''"
| "ReadValueTypeDataType InputStatusBool = ''bool''"
| "ReadValueTypeDataType HoldingInt16 = ''int16''"
| "ReadValueTypeDataType InputInt16 = ''int16''"
| "ReadValueTypeDataType HoldingUInt16 = ''uint16''"
| "ReadValueTypeDataType InputUInt16 = ''uint16''"
| "ReadValueTypeDataType HoldingInt32 = ''int32''"
| "ReadValueTypeDataType InputInt32 = ''int32''"
| "ReadValueTypeDataType HoldingUInt32 = ''uint32''"
| "ReadValueTypeDataType InputUInt32 = ''uint32''"
| "ReadValueTypeDataType HoldingFloat32 = ''float32''"
| "ReadValueTypeDataType InputFloat32 = ''float32''"

fun WriteTargetTypeToString :: "WriteTargetType \<Rightarrow> string" where
  "WriteTargetTypeToString HoldingRegister = ''HR''"
| "WriteTargetTypeToString Coil = ''COIL''"

section \<open>Communication status of a point\<close>

text \<open>\<open>now\<close> is the time that the system clock returns.\<close>

definition HandleCommunicationFailure :: "int \<Rightarrow> ReadPointState \<Rightarrow> ReadPointState" where
  "HandleCommunicationFailure now state =
     (let previous_status = connection_status state;
          state = state\<lparr>connection_status := False\<rparr>;
          state = state\<lparr>connection_changed := (connection_status state \<noteq> previous_status)\<rparr>;
          state = state\<lparr>failure_count := failure_count state + 1\<rparr>;
          state = (if failure_count state \<ge> max_failures_before_zero then state\<lparr>analog_value := double_zero\<rparr> else state)
      in if connection_changed state then state\<lparr>last_change_time := now\<rparr> else state)"

definition HandleCommunicationSuccess :: "int \<Rightarrow> ReadPointState \<Rightarrow> ReadPointState" where
  "HandleCommunicationSuccess now state =
     (let previous_status = connection_status state;
          state = state\<lparr>connection_status := True\<rparr>;
          state = state\<lparr>connection_changed := (connection_status state \<noteq> previous_status)\<rparr>;
          state = state\<lparr>failure_count := 0\<rparr>
      in if connection_changed state then state\<lparr>last_change_time := now\<rparr> else state)"

section \<open>Facts\<close>

lemmas type_defs = IsHoldingRegisterType_def IsInputRegisterType_def IsCoilStatusType_def IsInputStatusType_def
  IsDiscreteBitType_def RegisterCountForType_def IsFloatType_def PublishesAsDnp3Binary_def

lemma one_register_kind:
  "IsHoldingRegisterType t \<longleftrightarrow> \<not> IsInputRegisterType t \<and> \<not> IsDiscreteBitType t"
  by (cases t) (simp_all add: type_defs)

lemma RegisterCountForType_cases: "RegisterCountForType t = 1 \<or> RegisterCountForType t = 2"
  by (cases t) (simp_all add: type_defs)

text \<open>The state of a point as its poller leaves it: connected points have no failures.\<close>

definition point_state_ok :: "ReadPointState \<Rightarrow> bool" where
  "point_state_ok s = (0 \<le> failure_count s \<and> (connection_status s \<longrightarrow> failure_count s = 0)
     \<and> (failure_count s \<ge> max_failures_before_zero \<longrightarrow> analog_value s = double_zero))"

lemma HandleCommunicationFailure_ok:
  "point_state_ok s \<Longrightarrow> point_state_ok (HandleCommunicationFailure now s)"
  by (auto simp: point_state_ok_def HandleCommunicationFailure_def Let_def)

lemma HandleCommunicationSuccess_ok:
  "point_state_ok s \<Longrightarrow> point_state_ok (HandleCommunicationSuccess now (s\<lparr>analog_value := v\<rparr>))"
  by (auto simp: point_state_ok_def HandleCommunicationSuccess_def Let_def max_failures_before_zero_def)

lemma HandleCommunicationFailure_fields [simp]:
  "connection_status (HandleCommunicationFailure now s) = False"
  "failure_count (HandleCommunicationFailure now s) = failure_count s + 1"
  "analog_value (HandleCommunicationFailure now s)
     = (if failure_count s + 1 \<ge> max_failures_before_zero then double_zero else analog_value s)"
  by (simp_all add: HandleCommunicationFailure_def Let_def)

lemma HandleCommunicationSuccess_fields [simp]:
  "connection_status (HandleCommunicationSuccess now s) = True"
  "failure_count (HandleCommunicationSuccess now s) = 0"
  "analog_value (HandleCommunicationSuccess now s) = analog_value s"
  by (simp_all add: HandleCommunicationSuccess_def Let_def)

fun variation_number :: "StaticAnalogVariation \<Rightarrow> int" where
  "variation_number Group30Var1 = 1"
| "variation_number Group30Var2 = 2"
| "variation_number Group30Var3 = 3"
| "variation_number Group30Var4 = 4"
| "variation_number Group30Var5 = 5"
| "variation_number Group30Var6 = 6"

section \<open>The properties\<close>

text \<open>
  The table of the web interface and the DNP3 database agree: the variation number shown for an
  analog point is the number of the static variation with which the point is configured.
\<close>

theorem shown_variation_is_configured:
  assumes "\<not> PublishesAsDnp3Binary type"
  shows "Dnp3ObjectGroup type = 30 \<and> Dnp3StaticVariationNumber type = variation_number (StaticVariationForType type)"
  using assms
  by (cases type) (simp_all add: type_defs Dnp3ObjectGroup_def Dnp3StaticVariationNumber_def StaticVariationForType_def)

lemma shown_variation_is_configured_witness:
  "Dnp3StaticVariationNumber HoldingFloat32 = variation_number (StaticVariationForType HoldingFloat32)"
  by (rule conjunct2 [OF shown_variation_is_configured]) (simp add: type_defs)

end
