(* ===== verification/Gw_Text.thy ===== *)
theory Gw_Text
  imports Gw_Types "HOL-Library.Char_ord"
begin

text \<open>
  The text functions of the gateway: \<open>TrimCopy\<close>, \<open>JsonEscape\<close>, \<open>UrlDecode\<close>, \<open>HtmlEscape\<close>,
  \<open>UrlEncodeSimple\<close> and \<open>GetQueryParam\<close> of \<open>Interface.cpp\<close>, \<open>NormalizeToken\<close> and
  \<open>SplitSemicolonLine\<close> of \<open>Config.cpp\<close>, and what they use of the standard library: \<open>std::getline\<close>,
  \<open>std::tolower\<close> in the C locale, \<open>std::stoi\<close>, \<open>std::stoul\<close> and \<open>strtol\<close> with base 16, and the decimal
  output of integers. A string is a list of bytes (\<open>char\<close>). An \<open>int\<close> has 32 bits, an \<open>unsigned long\<close> 64.
\<close>

section \<open>Standard library\<close>

definition is_blank :: "char \<Rightarrow> bool" where
  "is_blank c = (c = CHR 0x20 \<or> c = CHR 0x09 \<or> c = CHR 0x0D \<or> c = CHR 0x0A)"

definition isspace :: "char \<Rightarrow> bool" where
  "isspace c = (is_blank c \<or> c = CHR 0x0B \<or> c = CHR 0x0C)"

definition code :: "char \<Rightarrow> nat" where "code c = of_char c"

definition chr :: "nat \<Rightarrow> char" where "chr n = char_of n"

definition tolower :: "char \<Rightarrow> char" where
  "tolower c = (if 65 \<le> code c \<and> code c \<le> 90 then chr (code c + 32) else c)"

definition digit_val :: "char \<Rightarrow> nat option" where
  "digit_val c = (if 48 \<le> code c \<and> code c \<le> 57 then Some (code c - 48) else None)"

definition hex_val :: "char \<Rightarrow> nat option" where
  "hex_val c =
     (if 48 \<le> code c \<and> code c \<le> 57 then Some (code c - 48)
      else if 65 \<le> code c \<and> code c \<le> 70 then Some (code c - 55)
      else if 97 \<le> code c \<and> code c \<le> 102 then Some (code c - 87)
      else None)"

text \<open>The longest prefix of digits, read in the given base; the flag tells whether there is one.\<close>

fun read_digits :: "(char \<Rightarrow> nat option) \<Rightarrow> nat \<Rightarrow> bool \<Rightarrow> nat \<Rightarrow> string \<Rightarrow> bool \<times> nat" where
  "read_digits val base seen acc [] = (seen, acc)"
| "read_digits val base seen acc (c # cs) =
     (case val c of None \<Rightarrow> (seen, acc) | Some d \<Rightarrow> read_digits val base True (base * acc + d) cs)"

definition read_sign :: "string \<Rightarrow> bool \<times> string" where
  "read_sign s = (case s of c # cs \<Rightarrow> if c = CHR 0x2D then (True, cs) else if c = CHR 0x2B then (False, cs) else (False, s)
                  | [] \<Rightarrow> (False, []))"

definition stoi :: "string \<Rightarrow> int option" where
  "stoi s =
     (let (neg, t) = read_sign (dropWhile isspace s);
          (seen, n) = read_digits digit_val 10 False 0 t;
          v = (if neg then - int n else int n)
      in if seen \<and> - 2147483648 \<le> v \<and> v \<le> 2147483647 then Some v else None)"

definition stoul :: "string \<Rightarrow> nat option" where
  "stoul s =
     (let (neg, t) = read_sign (dropWhile isspace s);
          (seen, n) = read_digits digit_val 10 False 0 t
      in if seen \<and> n < 2 ^ 64 then Some (if neg then (2 ^ 64 - n) mod 2 ^ 64 else n) else None)"

definition strtol16 :: "string \<Rightarrow> int" where
  "strtol16 s =
     (let (neg, t) = read_sign (dropWhile isspace s);
          t = (case t of z # x # h # r \<Rightarrow>
                 if z = CHR 0x30 \<and> (x = CHR 0x78 \<or> x = CHR 0x58) \<and> hex_val h \<noteq> None then h # r else t
               | _ \<Rightarrow> t);
          n = int (snd (read_digits hex_val 16 False 0 t))
      in if neg then - n else n)"

definition to_char :: "int \<Rightarrow> char" where
  "to_char k = chr (nat (k mod 256))"

fun show_nat :: "nat \<Rightarrow> string" where
  "show_nat n = (if n < 10 then [chr (48 + n)] else show_nat (n div 10) @ [chr (48 + n mod 10)])"

declare show_nat.simps [simp del]

definition show_int :: "int \<Rightarrow> string" where
  "show_int k = (if k < 0 then CHR 0x2D # show_nat (nat (- k)) else show_nat (nat k))"

function getline_all :: "char \<Rightarrow> string \<Rightarrow> string list" where
  "getline_all d [] = []"
| "getline_all d (c # cs) = takeWhile (\<lambda>x. x \<noteq> d) (c # cs) # getline_all d (drop 1 (dropWhile (\<lambda>x. x \<noteq> d) (c # cs)))"
  by pat_completeness auto
termination
proof (relation "measure (\<lambda>(_, s). length s)", goal_cases)
  case (2 d c cs)
  have "length (dropWhile (\<lambda>x. x \<noteq> d) (c # cs)) \<le> length (c # cs)" by (rule length_dropWhile_le)
  then show ?case by (simp add: Suc_le_eq)
qed simp

declare getline_all.simps(2) [simp del]

section \<open>Decimal output of a floating point number\<close>

text \<open>
  \<open>operator<<\<close> with the default format of a stream (\<open>%g\<close> with six digits): the exact value is
  \<open>num / den\<close>, rounded half to even to six significant digits; without an exponent when the decimal exponent
  is from -4 to 5; zeros at the end of the fraction are not written.
\<close>

function small_exponent :: "nat \<Rightarrow> nat \<Rightarrow> nat" where
  "small_exponent num den = (if num = 0 \<or> den \<le> num then 0 else Suc (small_exponent (10 * num) den))"
  by auto
termination by (relation "measure (\<lambda>(num, den). den - num)") auto

declare small_exponent.simps [simp del]

definition decimal_exponent :: "nat \<Rightarrow> nat \<Rightarrow> int" where
  "decimal_exponent num den =
     (if den \<le> num then int (length (show_nat (num div den))) - 1 else - int (small_exponent num den))"

definition round_half_even :: "nat \<Rightarrow> nat \<Rightarrow> nat" where
  "round_half_even num den =
     (let q = num div den; r = num mod den
      in if 2 * r < den then q else if 2 * r > den then q + 1 else if even q then q else q + 1)"

definition strip_zeros :: "string \<Rightarrow> string" where
  "strip_zeros s = rev (dropWhile (\<lambda>c. c = CHR ''0'') (rev s))"

definition with_point :: "string \<Rightarrow> string \<Rightarrow> string" where
  "with_point whole fraction =
     (let f = strip_zeros fraction in if f = [] then whole else whole @ ''.'' @ f)"

definition two_digits :: "nat \<Rightarrow> string" where
  "two_digits n = (if n < 10 then ''0'' @ show_nat n else show_nat n)"

definition show_fraction :: "nat \<Rightarrow> nat \<Rightarrow> string" where
  "show_fraction num den =
     (let X = decimal_exponent num den;
          q = (if X \<le> 5 then round_half_even (num * 10 ^ nat (5 - X)) den else round_half_even num (den * 10 ^ nat (X - 5)));
          (q, X) = (if q = 1000000 then (100000, X + 1) else (q, X));
          digits = show_nat q
      in if X < - 4 \<or> X \<ge> 6
         then with_point (take 1 digits) (drop 1 digits) @ (if X < 0 then ''e-'' else ''e+'') @ two_digits (nat \<bar>X\<bar>)
         else if X \<ge> 0 then with_point (take (nat X + 1) digits) (drop (nat X + 1) digits)
         else with_point ''0'' (replicate (nat (- X - 1)) (CHR ''0'') @ digits))"

fun show_double :: "double \<Rightarrow> string" where
  "show_double (NaN s f) = (if s then ''-nan'' else ''nan'')"
| "show_double (Infinity s) = (if s then ''-inf'' else ''inf'')"
| "show_double (Finite s m e) =
     (if s then ''-'' else []) @
     (if m = 0 then ''0''
      else if e \<ge> 0 then show_fraction (m * 2 ^ nat e) 1 else show_fraction m (2 ^ nat (- e)))"

section \<open>Text functions\<close>

definition TrimCopy :: "string \<Rightarrow> string" where
  "TrimCopy input = rev (dropWhile is_blank (rev (dropWhile is_blank input)))"

definition NormalizeToken :: "string \<Rightarrow> string" where
  "NormalizeToken value = map tolower (TrimCopy value)"

definition SplitSemicolonLine :: "string \<Rightarrow> string list" where
  "SplitSemicolonLine line = map TrimCopy (getline_all (CHR 0x3B) line)"

definition hex_lower :: "nat \<Rightarrow> char" where
  "hex_lower n = (if n < 10 then chr (48 + n) else chr (87 + n))"

definition hex_upper :: "nat \<Rightarrow> char" where
  "hex_upper n = (if n < 10 then chr (48 + n) else chr (55 + n))"

definition JsonEscape_char :: "char \<Rightarrow> string" where
  "JsonEscape_char ch =
     (if ch = CHR 0x22 then [CHR 0x5C, CHR 0x22]
      else if ch = CHR 0x5C then [CHR 0x5C, CHR 0x5C]
      else if ch = CHR 0x08 then [CHR 0x5C, CHR ''b'']
      else if ch = CHR 0x0C then [CHR 0x5C, CHR ''f'']
      else if ch = CHR 0x0A then [CHR 0x5C, CHR ''n'']
      else if ch = CHR 0x0D then [CHR 0x5C, CHR ''r'']
      else if ch = CHR 0x09 then [CHR 0x5C, CHR ''t'']
      else if code ch < 0x20 then [CHR 0x5C, CHR ''u'', CHR ''0'', CHR ''0'', hex_lower (code ch div 16), hex_lower (code ch mod 16)]
      else [ch])"

definition JsonEscape :: "string \<Rightarrow> string" where
  "JsonEscape s = concat (map JsonEscape_char s)"

fun UrlDecode :: "string \<Rightarrow> string" where
  "UrlDecode [] = []"
| "UrlDecode (c # cs) =
     (case cs of a # b # rest \<Rightarrow>
        if c = CHR 0x25 then to_char (strtol16 [a, b]) # UrlDecode rest
        else if c = CHR 0x2B then CHR 0x20 # UrlDecode cs
        else c # UrlDecode cs
      | _ \<Rightarrow> if c = CHR 0x2B then CHR 0x20 # UrlDecode cs else c # UrlDecode cs)"

definition HtmlEscape_char :: "char \<Rightarrow> string" where
  "HtmlEscape_char c =
     (if c = CHR 0x26 then ''&amp;''
      else if c = CHR 0x3C then ''&lt;''
      else if c = CHR 0x3E then ''&gt;''
      else if c = CHR 0x22 then ''&quot;''
      else if c = CHR 0x27 then ''&#39;''
      else [c])"

definition HtmlEscape :: "string \<Rightarrow> string" where
  "HtmlEscape s = concat (map HtmlEscape_char s)"

definition url_safe :: "char \<Rightarrow> bool" where
  "url_safe c = (65 \<le> code c \<and> code c \<le> 90 \<or> 97 \<le> code c \<and> code c \<le> 122 \<or> 48 \<le> code c \<and> code c \<le> 57
     \<or> c = CHR ''-'' \<or> c = CHR ''_'' \<or> c = CHR ''.'' \<or> c = CHR ''~'')"

definition UrlEncodeSimple_char :: "char \<Rightarrow> string" where
  "UrlEncodeSimple_char c =
     (if url_safe c then [c]
      else if c = CHR 0x20 then [CHR 0x2B]
      else [CHR 0x25, hex_upper (code c div 16), hex_upper (code c mod 16)])"

definition UrlEncodeSimple :: "string \<Rightarrow> string" where
  "UrlEncodeSimple s = concat (map UrlEncodeSimple_char s)"

fun query_lookup :: "string list \<Rightarrow> string \<Rightarrow> string" where
  "query_lookup [] key = []"
| "query_lookup (token # ts) key =
     (let k = takeWhile (\<lambda>x. x \<noteq> CHR 0x3D) token;
          v = (if CHR 0x3D \<in> set token then drop 1 (dropWhile (\<lambda>x. x \<noteq> CHR 0x3D) token) else [])
      in if k = key then UrlDecode v else query_lookup ts key)"

definition GetQueryParam :: "string \<Rightarrow> string \<Rightarrow> string" where
  "GetQueryParam path key =
     (if CHR 0x3F \<notin> set path then []
      else query_lookup (getline_all (CHR 0x26) (drop 1 (dropWhile (\<lambda>x. x \<noteq> CHR 0x3F) path))) key)"

section \<open>Facts about characters and numbers\<close>

lemma code_less [simp]: "code c < 256"
  by (simp add: code_def)

lemma chr_code [simp]: "chr (code c) = c"
  by (simp add: chr_def code_def)

lemma code_chr [simp]: "n < 256 \<Longrightarrow> code (chr n) = n"
  by (simp add: chr_def code_def)

lemma code_inject: "code a = code b \<longleftrightarrow> a = b"
  by (metis chr_code)

lemma chr_eq_iff: "n < 256 \<Longrightarrow> (chr n = c) = (n = code c)"
  by auto

lemma digit_val_chr: "n < 10 \<Longrightarrow> digit_val (chr (48 + n)) = Some n"
  by (simp add: digit_val_def)

lemma hex_val_upper: "n < 16 \<Longrightarrow> hex_val (hex_upper n) = Some n"
  by (simp add: hex_val_def hex_upper_def)

lemma hex_val_lower: "n < 16 \<Longrightarrow> hex_val (hex_lower n) = Some n"
  by (simp add: hex_val_def hex_lower_def)

lemma read_digits_append:
  "\<forall>c \<in> set cs. val c \<noteq> None \<Longrightarrow> read_digits val base seen acc (cs @ ds)
     = read_digits val base (seen \<or> cs \<noteq> []) (snd (read_digits val base seen acc cs)) ds"
  by (induction cs arbitrary: seen acc) auto

lemma show_nat_digits: "c \<in> set (show_nat n) \<Longrightarrow> \<exists>d < 10. c = chr (48 + d)"
proof (induction n rule: show_nat.induct)
  case (1 n)
  show ?case
  proof (cases "n < 10")
    case True
    with 1(2) show ?thesis by (auto simp: show_nat.simps [of n])
  next
    case False
    then have "c \<in> set (show_nat (n div 10)) \<or> c = chr (48 + n mod 10)"
      using 1(2) by (auto simp: show_nat.simps [of n])
    moreover have "n mod 10 < 10" by simp
    ultimately show ?thesis using 1(1) [OF False] by blast
  qed
qed

lemma show_nat_nonempty [simp]: "show_nat n \<noteq> []"
  by (simp add: show_nat.simps)

lemma read_show_nat: "read_digits digit_val 10 seen acc (show_nat n) = (True, acc * 10 ^ length (show_nat n) + n)"
proof (induction n arbitrary: seen acc rule: show_nat.induct)
  case (1 n)
  show ?case
  proof (cases "n < 10")
    case True
    then show ?thesis by (simp add: show_nat.simps [of n] digit_val_chr)
  next
    case False
    have d: "\<forall>c \<in> set (show_nat (n div 10)). digit_val c \<noteq> None"
      using show_nat_digits digit_val_chr by fastforce
    show ?thesis
      using False 1 [OF False]
      by (simp add: show_nat.simps [of n] read_digits_append [OF d] digit_val_chr algebra_simps)
  qed
qed

section \<open>Numbers are read back\<close>

lemma digit_not_special:
  "d < 10 \<Longrightarrow> \<not> isspace (chr (48 + d)) \<and> chr (48 + d) \<noteq> CHR 0x2D \<and> chr (48 + d) \<noteq> CHR 0x2B
     \<and> chr (48 + d) \<noteq> CHR 0x3B"
  by (auto simp: isspace_def is_blank_def chr_eq_iff) (auto simp: code_def)

lemma show_nat_hd: "\<exists>d < 10. hd (show_nat n) = chr (48 + d)"
  using show_nat_digits [of "hd (show_nat n)" n] by simp

lemma dropWhile_hd: "xs \<noteq> [] \<Longrightarrow> \<not> P (hd xs) \<Longrightarrow> dropWhile P xs = xs"
  by (cases xs) simp_all

lemma read_sign_show_nat: "read_sign (show_nat n) = (False, show_nat n)"
  using show_nat_hd [of n] digit_not_special by (cases "show_nat n") (auto simp: read_sign_def)

lemma minus_not_space: "\<not> isspace (CHR 0x2D)"
  by (simp add: isspace_def is_blank_def)

lemma stoi_show_int: "- 2147483648 \<le> k \<Longrightarrow> k \<le> 2147483647 \<Longrightarrow> stoi (show_int k) = Some k"
proof (cases "k < 0")
  case True
  assume r: "- 2147483648 \<le> k" "k \<le> 2147483647"
  have "dropWhile isspace (show_int k) = show_int k" using True by (simp add: show_int_def minus_not_space)
  then show ?thesis using True r by (simp add: stoi_def show_int_def read_sign_def read_show_nat)
next
  case False
  assume r: "- 2147483648 \<le> k" "k \<le> 2147483647"
  have "\<not> isspace (hd (show_nat (nat k)))" using show_nat_hd [of "nat k"] digit_not_special by auto
  then have "dropWhile isspace (show_nat (nat k)) = show_nat (nat k)" by (simp add: dropWhile_hd)
  then show ?thesis using False r by (simp add: stoi_def show_int_def read_sign_show_nat read_show_nat)
qed

lemma stoi_range: "stoi s = Some v \<Longrightarrow> - 2147483648 \<le> v \<and> v \<le> 2147483647"
  by (auto simp: stoi_def Let_def split_beta split: if_splits)

section \<open>Trimming and splitting\<close>

definition trimmed :: "string \<Rightarrow> bool" where
  "trimmed s = (s = [] \<or> \<not> is_blank (hd s) \<and> \<not> is_blank (last s))"

lemma TrimCopy_trimmed: "trimmed s \<Longrightarrow> TrimCopy s = s"
  unfolding TrimCopy_def trimmed_def
  by (cases "s = []") (simp_all add: dropWhile_hd hd_rev)

lemma trimmed_TrimCopy: "trimmed (TrimCopy s)"
proof -
  let ?u = "dropWhile is_blank s" and ?v = "dropWhile is_blank (rev (dropWhile is_blank s))"
  show ?thesis
  proof (cases "?v = []")
    case True
    then show ?thesis by (simp add: TrimCopy_def trimmed_def)
  next
    case False
    have "\<not> is_blank (hd ?v)" using False by (metis hd_dropWhile)
    then have l: "\<not> is_blank (last (rev ?v))" using False by (simp add: last_rev)
    have u: "?u \<noteq> []" using False by (metis dropWhile.simps(1) rev.simps(1))
    obtain w where w: "rev ?u = w @ ?v" by (metis takeWhile_dropWhile_id)
    then have "?u = rev ?v @ rev w" by (metis rev_append rev_rev_ident)
    then have "hd (rev ?v) = hd ?u" using False by (metis Nil_is_rev_conv hd_append2)
    moreover have "\<not> is_blank (hd ?u)" using u by (metis hd_dropWhile)
    ultimately show ?thesis using l False by (simp add: TrimCopy_def trimmed_def)
  qed
qed

lemma TrimCopy_idem [simp]: "TrimCopy (TrimCopy s) = TrimCopy s"
  by (rule TrimCopy_trimmed [OF trimmed_TrimCopy])

lemma set_TrimCopy: "set (TrimCopy s) \<subseteq> set s"
  by (auto simp: TrimCopy_def dest!: set_dropWhileD)

lemma getline_first: "d \<notin> set a \<Longrightarrow> getline_all d (a @ d # r) = a # getline_all d r"
proof (cases "a @ d # r")
  case (Cons c cs)
  assume "d \<notin> set a"
  then have "takeWhile (\<lambda>x. x \<noteq> d) (a @ d # r) = a" "dropWhile (\<lambda>x. x \<noteq> d) (a @ d # r) = d # r"
    by (auto simp: takeWhile_append takeWhile_tail dropWhile_append)
  then show ?thesis using getline_all.simps(2) [of d c cs] Cons by simp
qed simp

lemma getline_last: "d \<notin> set a \<Longrightarrow> a \<noteq> [] \<Longrightarrow> getline_all d a = [a]"
proof (cases a)
  case (Cons c cs)
  assume "d \<notin> set a"
  then have "takeWhile (\<lambda>x. x \<noteq> d) a = a" "dropWhile (\<lambda>x. x \<noteq> d) a = []"
    by (auto simp: takeWhile_eq_all_conv dropWhile_eq_Nil_conv)
  then show ?thesis using getline_all.simps(2) [of d c cs] Cons by simp
qed simp

lemma getline_lines:
  "\<forall>l \<in> set ls. d \<notin> set l \<Longrightarrow> getline_all d (concat (map (\<lambda>l. l @ [d]) ls) @ r) = ls @ getline_all d r"
  by (induction ls) (simp_all add: getline_first)

section \<open>URL coding\<close>

lemma hex_upper_neq: "n < 16 \<Longrightarrow> hex_upper n \<noteq> CHR 0x20 \<and> \<not> isspace (hex_upper n) \<and> hex_upper n \<noteq> CHR 0x2D \<and> hex_upper n \<noteq> CHR 0x2B"
  by (auto simp: hex_upper_def isspace_def is_blank_def chr_eq_iff) (auto simp: code_def)

lemma strtol16_hex: "a < 16 \<Longrightarrow> b < 16 \<Longrightarrow> strtol16 [hex_upper a, hex_upper b] = int (16 * a + b)"
  using hex_upper_neq [of a] by (simp add: strtol16_def read_sign_def hex_val_upper)

lemma to_char_code [simp]: "to_char (int (code c)) = c"
proof -
  have "nat (int (code c) mod 256) = code c" using code_less [of c] by (simp add: nat_mod_distrib)
  then show ?thesis by (simp add: to_char_def)
qed

lemma UrlDecode_plain: "c \<noteq> CHR 0x25 \<Longrightarrow> c \<noteq> CHR 0x2B \<Longrightarrow> UrlDecode (c # cs) = c # UrlDecode cs"
  by (auto split: list.split)

lemma UrlDecode_plus: "UrlDecode (CHR 0x2B # cs) = CHR 0x20 # UrlDecode cs"
  by (auto split: list.split)

lemma UrlDecode_percent: "UrlDecode (CHR 0x25 # a # b # rest) = to_char (strtol16 [a, b]) # UrlDecode rest"
  by simp

declare UrlDecode.simps(2) [simp del]

lemma UrlDecode_char: "UrlDecode (UrlEncodeSimple_char c @ r) = c # UrlDecode r"
proof -
  consider "url_safe c" | "\<not> url_safe c" "c = CHR 0x20" | "\<not> url_safe c" "c \<noteq> CHR 0x20" by blast
  then show ?thesis
  proof cases
    case 1
    then have "c \<noteq> CHR 0x25" "c \<noteq> CHR 0x2B" by (auto simp: url_safe_def code_def)
    with 1 show ?thesis by (simp add: UrlEncodeSimple_char_def UrlDecode_plain)
  next
    case 2
    then show ?thesis by (simp add: UrlEncodeSimple_char_def UrlDecode_plus)
  next
    case 3
    have "code c div 16 < 16" using code_less [of c] by (simp add: div_less_iff_less_mult)
    with 3 show ?thesis
      by (simp add: UrlEncodeSimple_char_def UrlDecode_percent strtol16_hex del: of_nat_add of_nat_mult)
  qed
qed

lemma UrlDecode_encode: "UrlDecode (UrlEncodeSimple s @ r) = s @ UrlDecode r"
  by (induction s) (simp_all add: UrlEncodeSimple_def UrlDecode_char)

lemma url_safe_not: "url_safe c \<Longrightarrow> c \<notin> {CHR 0x26, CHR 0x3D, CHR 0x3F, CHR 0x20, CHR 0x0D, CHR 0x0A}"
  by (auto simp: url_safe_def code_def)

lemma hex_upper_plain: "n < 16 \<Longrightarrow> hex_upper n \<notin> {CHR 0x26, CHR 0x3D, CHR 0x3F, CHR 0x20, CHR 0x0D, CHR 0x0A}"
  by (auto simp: hex_upper_def chr_eq_iff) (auto simp: code_def)

lemma UrlEncodeSimple_plain:
  "c \<in> set (UrlEncodeSimple s) \<Longrightarrow> c \<notin> {CHR 0x26, CHR 0x3D, CHR 0x3F, CHR 0x20, CHR 0x0D, CHR 0x0A}"
proof (induction s)
  case (Cons x s)
  have "code x div 16 < 16" using code_less [of x] by (simp add: div_less_iff_less_mult)
  with Cons show ?case
    using url_safe_not [of x] hex_upper_plain [of "code x div 16"] hex_upper_plain [of "code x mod 16"]
    by (auto simp: UrlEncodeSimple_def UrlEncodeSimple_char_def split: if_splits)
qed (simp add: UrlEncodeSimple_def)

text \<open>Examples of the format.\<close>

lemmas show_double_eval = show_fraction_def decimal_exponent_def show_nat.simps small_exponent.simps
  round_half_even_def with_point_def strip_zeros_def two_digits_def chr_def Let_def

lemma show_double_examples:
  "show_double (Finite False 3 (- 1)) = ''1.5''" "show_double (Finite True 100000 0) = ''-100000''"
  "show_double (Finite False 1000000 0) = ''1e+06''" "show_double double_zero = ''0''"
  "show_double (Finite False 1677722 (- 24)) = ''0.1''"
  by (simp_all add: show_double_eval double_zero_def char_of_def bit_0)

end
