(* ===== verification/Gw_Log.thy ===== *)
theory Gw_Log
  imports Gw_Text
begin

text \<open>
  The log of the gateway (\<open>RPI_slavednp3/src/Log.cpp\<close>): the globals of the process that the log
  and the console use, and \<open>LogLine\<close>, which keeps the newest \<open>MAX_UI_LOGS\<close> lines for the web
  interface. What the process reads
  from its environment is the record \<open>env\<close>: the time stamps and the clock as functions of the
  number of earlier readings, whether a file can be opened for writing, the texts of the error numbers, and the result of
  \<open>std::llround\<close> where the language leaves it unspecified.
\<close>

record UiLogEntry =
  le_time :: string
  le_level :: string
  le_scope :: string
  le_text :: string

record env =
  stamp :: "nat \<Rightarrow> string"
  now :: "nat \<Rightarrow> int"
  writable :: "string \<Rightarrow> bool"
  modbus_strerror :: "int \<Rightarrow> string"
  llround_unspecified :: "double \<Rightarrow> int"

record globals =
  g_running :: bool
  g_recent_logs :: "UiLogEntry list"
  g_hidden_deleted_point_indexes :: "int list"
  clock :: nat

definition IsPointHiddenAfterDelete :: "int \<Rightarrow> 'a globals_scheme \<Rightarrow> bool" where
  "IsPointHiddenAfterDelete index st = (index \<in> set (g_hidden_deleted_point_indexes st))"

fun AppLogLevelToString :: "AppLogLevel \<Rightarrow> string" where
  "AppLogLevelToString Info = ''INFO''"
| "AppLogLevelToString Warn = ''WARN''"
| "AppLogLevelToString Error = ''ERROR''"

text \<open>The loop drops the oldest line while there are too many.\<close>

fun drop_oldest :: "UiLogEntry list \<Rightarrow> UiLogEntry list" where
  "drop_oldest logs = (if length logs > MAX_UI_LOGS then drop_oldest (butlast logs) else logs)"

declare drop_oldest.simps [simp del]

definition LogLine :: "env \<Rightarrow> AppLogLevel \<Rightarrow> string \<Rightarrow> string \<Rightarrow> 'a globals_scheme \<Rightarrow> 'a globals_scheme" where
  "LogLine E level scope t st =
     (let ts = stamp E (clock st);
          entry = \<lparr>le_time = ts, le_level = AppLogLevelToString level, le_scope = scope, le_text = t\<rparr>
      in st\<lparr>clock := clock st + 1, g_recent_logs := drop_oldest (entry # g_recent_logs st)\<rparr>)"

section \<open>Facts\<close>

lemma drop_oldest_take: "drop_oldest logs = take MAX_UI_LOGS logs"
proof (induction logs rule: drop_oldest.induct)
  case (1 logs)
  show ?case
  proof (cases "length logs > MAX_UI_LOGS")
    case True
    then have "drop_oldest logs = take MAX_UI_LOGS (butlast logs)" using 1 by (simp add: drop_oldest.simps [of logs])
    then show ?thesis using True by (simp add: take_butlast)
  qed (simp add: drop_oldest.simps [of logs])
qed

definition log_entry :: "env \<Rightarrow> nat \<Rightarrow> AppLogLevel \<times> string \<times> string \<Rightarrow> UiLogEntry" where
  "log_entry E k l = \<lparr>le_time = stamp E k, le_level = AppLogLevelToString (fst l), le_scope = fst (snd l), le_text = snd (snd l)\<rparr>"

lemma LogLine_logs:
  "g_recent_logs (LogLine E level scope t st)
     = take MAX_UI_LOGS (log_entry E (clock st) (level, scope, t) # g_recent_logs st)"
  by (simp add: LogLine_def drop_oldest_take log_entry_def Let_def)

lemma LogLine_frame [simp]:
  "g_running (LogLine E level scope t st) = g_running st"
  "clock (LogLine E level scope t st) = clock st + 1"
  "globals.more (LogLine E level scope t st) = globals.more st"
  "g_hidden_deleted_point_indexes (LogLine E level scope t st) = g_hidden_deleted_point_indexes st"
  by (simp_all add: LogLine_def Let_def)

text \<open>A sequence of log lines.\<close>

fun LogLines :: "env \<Rightarrow> (AppLogLevel \<times> string \<times> string) list \<Rightarrow> 'a globals_scheme \<Rightarrow> 'a globals_scheme" where
  "LogLines E [] st = st"
| "LogLines E (l # ls) st = LogLines E ls (LogLine E (fst l) (fst (snd l)) (snd (snd l)) st)"

lemma LogLines_frame [simp]:
  "g_running (LogLines E ls st) = g_running st"
  "clock (LogLines E ls st) = clock st + length ls"
  "globals.more (LogLines E ls st) = globals.more st"
  by (induction ls arbitrary: st) simp_all

lemma LogLines_logs:
  "g_recent_logs (LogLines E ls st)
     = take MAX_UI_LOGS (rev (map (\<lambda>(k, l). log_entry E k l) (zip [clock st ..< clock st + length ls] ls)) @ take MAX_UI_LOGS (g_recent_logs st))"
  if "length (g_recent_logs st) \<le> MAX_UI_LOGS"
  using that
proof (induction ls arbitrary: st)
  case (Cons l ls)
  let ?st = "LogLine E (fst l) (fst (snd l)) (snd (snd l)) st"
  have l: "length (g_recent_logs ?st) \<le> MAX_UI_LOGS" by (simp add: LogLine_logs)
  have e: "[clock st ..< clock st + length (l # ls)] = clock st # [Suc (clock st) ..< Suc (clock st) + length ls]"
    using upt_conv_Cons [of "clock st" "clock st + length (l # ls)"] by simp
  show ?case
    by (simp only: LogLines.simps Cons.IH [OF l] LogLine_logs e LogLine_frame zip_Cons_Cons list.map split rev.simps
        append_assoc append.simps) (simp add: Cons.prems take_append)
qed (simp add: MAX_UI_LOGS_def)

section \<open>The properties\<close>

text \<open>
  After any sequence of log lines the web interface has the newest lines, newest first, each
  with the time stamp of its call, and never more than \<open>MAX_UI_LOGS\<close>.
\<close>

theorem log_keeps_newest:
  assumes "length (g_recent_logs st) \<le> MAX_UI_LOGS"
  shows "g_recent_logs (LogLines E ls st)
      = take MAX_UI_LOGS (rev (map (\<lambda>(k, l). log_entry E k l) (zip [clock st ..< clock st + length ls] ls)) @ g_recent_logs st)"
  using assms by (simp add: LogLines_logs)

lemma log_keeps_newest_witness:
  fixes E st
  defines "E \<equiv> \<lparr>stamp = show_nat, now = int, writable = (\<lambda>path. True), modbus_strerror = (\<lambda>k. []), llround_unspecified = (\<lambda>d. 0)\<rparr>"
    and "st \<equiv> \<lparr>g_running = True, g_recent_logs = [], g_hidden_deleted_point_indexes = [], clock = 7\<rparr>"
  shows "map le_time (g_recent_logs (LogLines E [(Info, ''A'', ''x''), (Warn, ''B'', ''y'')] st)) = [show_nat 8, show_nat 7]"
proof -
  have "g_recent_logs (LogLines E [(Info, ''A'', ''x''), (Warn, ''B'', ''y'')] st)
     = take MAX_UI_LOGS (rev (map (\<lambda>(k, l). log_entry E k l)
         (zip [clock st ..< clock st + length [(Info, ''A'', ''x''), (Warn, ''B'', ''y'')]] [(Info, ''A'', ''x''), (Warn, ''B'', ''y'')]))
         @ g_recent_logs st)"
    by (rule log_keeps_newest) (simp add: st_def MAX_UI_LOGS_def)
  then show ?thesis by (simp add: st_def E_def log_entry_def MAX_UI_LOGS_def upt_rec)
qed

end
