(* ===== verification/Gw_Config.thy ===== *)
theory Gw_Config
  imports Gw_Log
begin

text \<open>
  The configuration of the gateway (the functions of \<open>RPI_slavednp3/src/Config.cpp\<close> that read and
  write the points file, and those that build the profile). A point is a line of eight fields separated by
  semicolons. The files are a map from paths to contents; \<open>writable\<close> of the environment tells
  whether a path can be opened for writing, and a file that exists can be read. Writing a file
  does not fail once it is open. The text of a conversion error is the one of the GNU library.
\<close>

record config_state = globals +
  g_active_config_file :: string
  g_profile :: ProfileConfig
  files :: "string \<rightharpoonup> string"

abbreviation newline :: char where "newline \<equiv> CHR 0x0A"

abbreviation semicolon :: char where "semicolon \<equiv> CHR 0x3B"

definition starts_with :: "string \<Rightarrow> string \<Rightarrow> bool" where
  "starts_with p s = (take (length p) s = p)"

section \<open>The line of a point\<close>

definition ParseReadValueType :: "string \<Rightarrow> string \<Rightarrow> ReadValueType option" where
  "ParseReadValueType register_kind data_type =
     (let reg = NormalizeToken register_kind;
          data = NormalizeToken data_type;
          coil_status = (reg = ''coil'' \<or> reg = ''coil_status'' \<or> reg = ''coils'' \<or> reg = ''0x'');
          input_status = (reg = ''input_status'' \<or> reg = ''discrete_input'' \<or> reg = ''discrete'' \<or> reg = ''1x'');
          holding = (reg = ''holding'' \<or> reg = ''hr'' \<or> reg = ''4x'' \<or> reg = ''holding_register'');
          input = (reg = ''input'' \<or> reg = ''ir'' \<or> reg = ''3x'' \<or> reg = ''input_register'');
          boolean = (data = ''bool'' \<or> data = ''boolean'' \<or> data = ''bit'' \<or> data = ''0_1'')
      in if coil_status then (if boolean then Some CoilStatusBool else None)
         else if input_status then (if boolean then Some InputStatusBool else None)
         else if \<not> holding \<and> \<not> input then None
         else if data = ''int16'' \<or> data = ''short'' then Some (if holding then HoldingInt16 else InputInt16)
         else if data = ''uint16'' \<or> data = ''word'' then Some (if holding then HoldingUInt16 else InputUInt16)
         else if data = ''int32'' \<or> data = ''long'' then Some (if holding then HoldingInt32 else InputInt32)
         else if data = ''uint32'' \<or> data = ''dword'' then Some (if holding then HoldingUInt32 else InputUInt32)
         else if data = ''float'' \<or> data = ''float32'' \<or> data = ''real'' then Some (if holding then HoldingFloat32 else InputFloat32)
         else None)"

definition IsLegacyAutoExampleLine :: "string \<Rightarrow> bool" where
  "IsLegacyAutoExampleLine clean =
     (starts_with ''Exemplo inteiro HR0;'' clean \<or> starts_with ''Exemplo float32 HR10_HR11;'' clean)"

definition is_comment :: "string \<Rightarrow> bool" where
  "is_comment clean = (clean = [] \<or> hd clean = CHR 0x23)"

text \<open>The conversions of the fields, in the order of the source; the first that throws ends them.\<close>

definition convert_fields :: "string list \<Rightarrow> ReadValueType \<Rightarrow> ReadPointConfig option" where
  "convert_fields parts parsed_type =
     (case stoi (parts ! 2) of None \<Rightarrow> None | Some port \<Rightarrow>
      case stoi (parts ! 3) of None \<Rightarrow> None | Some slave_id \<Rightarrow>
      case stoi (parts ! 5) of None \<Rightarrow> None | Some address \<Rightarrow>
      case stoi (parts ! 7) of None \<Rightarrow> None | Some index \<Rightarrow>
        Some \<lparr>rp_ip = parts ! 1, rp_port = port, rp_slave_id = slave_id, rp_type = parsed_type, rp_address = address,
          rp_count = RegisterCountForType parsed_type, rp_dnp3_analog_index = word_of_int index,
          rp_dnp3_status_index = 0, rp_description = parts ! 0\<rparr>)"

definition TryBuildReadPointFromCsvLine :: "string \<Rightarrow> string + ReadPointConfig" where
  "TryBuildReadPointFromCsvLine line =
     (let clean = TrimCopy line
      in if is_comment clean then Inl []
         else let parts = SplitSemicolonLine clean
              in if length parts < 8
                 then Inl (''Linha ignorada: use nome;ip;port;slave_id;registrador;endereco;tipo_dado;dnp3_indice'')
                 else case ParseReadValueType (parts ! 4) (parts ! 6) of
                   None \<Rightarrow> Inl ((''Tipo inv'' @ [CHR 0xC3, CHR 0xA1] @ ''lido na linha: registrador='') @ parts ! 4 @ '' tipo_dado='' @ parts ! 6 @ ''. Para Coil Status ou Input Status use tipo_dado=bool.'')
                 | Some parsed_type \<Rightarrow>
                     (case convert_fields parts parsed_type of
                        None \<Rightarrow> Inl (''Erro convertendo linha: '' @ ''stoi'')
                      | Some point \<Rightarrow> Inr point))"

definition csv_line :: "ReadPointConfig \<Rightarrow> string" where
  "csv_line p = rp_description p @ '';'' @ rp_ip p @ '';'' @ show_int (rp_port p) @ '';'' @ show_int (rp_slave_id p) @ '';''
     @ ReadValueTypeRegisterKind (rp_type p) @ '';'' @ show_int (rp_address p) @ '';'' @ ReadValueTypeDataType (rp_type p) @ '';''
     @ show_int (uint (rp_dnp3_analog_index p))"

definition csv_header :: string where
  "csv_header =
     (''# nome;ip;port;slave_id;registrador;endereco;tipo_dado;dnp3_indice'' @ [CHR 0x0A]) @
     (''# registrador: coil_status,input_status,holding,input_register | tipo_dado: bool,int16,uint16,int32,uint32,float32'' @ [CHR 0x0A]) @
     (''# O DNP3 '' @ [CHR 0xC3, CHR 0xA9] @ '' sugerido automaticamente. O '' @ [CHR 0xC3, CHR 0xBA] @ ''nico campo DNP3 edit'' @ [CHR 0xC3, CHR 0xA1] @ ''vel '' @ [CHR 0xC3, CHR 0xA9] @ '' o '' @ [CHR 0xC3, CHR 0xAD] @ ''ndice.'' @ [CHR 0x0A])"

section \<open>Files\<close>

definition lines_of :: "string \<Rightarrow> string list" where
  "lines_of content = getline_all newline content"

fun scan_legacy :: "string list \<Rightarrow> bool \<Rightarrow> bool" where
  "scan_legacy [] found_legacy_example = found_legacy_example"
| "scan_legacy (line # ls) found_legacy_example =
     (let clean = TrimCopy line
      in if is_comment clean then scan_legacy ls found_legacy_example
         else if \<not> IsLegacyAutoExampleLine clean then False
         else scan_legacy ls True)"

definition FileHasOnlyLegacyAutoExamples :: "string \<Rightarrow> 'a config_state_scheme \<Rightarrow> bool" where
  "FileHasOnlyLegacyAutoExamples file_path st =
     (case files st file_path of None \<Rightarrow> False | Some content \<Rightarrow> scan_legacy (lines_of content) False)"

definition SaveProfileReadPointsToCsv ::
  "env \<Rightarrow> ProfileConfig \<Rightarrow> string \<Rightarrow> 'a config_state_scheme \<Rightarrow> bool \<times> 'a config_state_scheme" where
  "SaveProfileReadPointsToCsv E profile file_path st =
     (if \<not> writable E file_path then (False, st)
      else (True, st\<lparr>files := (files st)(file_path \<mapsto>
              csv_header @ concat (map (\<lambda>p. csv_line p @ [newline]) (read_points profile)))\<rparr>))"

fun load_points :: "string list \<Rightarrow> ReadPointConfig list" where
  "load_points [] = []"
| "load_points (line # ls) =
     (case TryBuildReadPointFromCsvLine line of Inr point \<Rightarrow> point # load_points ls | Inl error \<Rightarrow> load_points ls)"

definition LoadConfiguredPointsFromCsvForUi :: "string \<Rightarrow> 'a config_state_scheme \<Rightarrow> ReadPointConfig list" where
  "LoadConfiguredPointsFromCsvForUi file_path st =
     (case files st file_path of None \<Rightarrow> [] | Some content \<Rightarrow> load_points (lines_of content))"

section \<open>The profile\<close>

definition analog_command_of :: "ReadPointConfig \<Rightarrow> CommandPointConfig" where
  "analog_command_of p = \<lparr>cp_dnp3_index = rp_dnp3_analog_index p, cp_ip = rp_ip p, cp_port = rp_port p,
     cp_slave_id = rp_slave_id p, cp_target = HoldingRegister, cp_modbus_address = rp_address p, cp_value_type = rp_type p,
     cp_description = ''Comando automatico AO -> Holding Register para: '' @ rp_description p\<rparr>"

definition binary_command_of :: "ReadPointConfig \<Rightarrow> CommandPointConfig" where
  "binary_command_of p = \<lparr>cp_dnp3_index = rp_dnp3_analog_index p, cp_ip = rp_ip p, cp_port = rp_port p,
     cp_slave_id = rp_slave_id p, cp_target = Coil, cp_modbus_address = rp_address p, cp_value_type = rp_type p,
     cp_description = ''Comando automatico CROB -> Coil para: '' @ rp_description p\<rparr>"

fun add_commands :: "ReadPointConfig list \<Rightarrow> ProfileConfig \<Rightarrow> ProfileConfig" where
  "add_commands [] profile = profile"
| "add_commands (p # ps) profile =
     add_commands ps
       (if IsHoldingRegisterType (rp_type p) then profile\<lparr>analog_commands := analog_commands profile @ [analog_command_of p]\<rparr>
        else if IsCoilStatusType (rp_type p) then profile\<lparr>binary_commands := binary_commands profile @ [binary_command_of p]\<rparr>
        else profile)"

definition BuildAutomaticCommandMappingsFromReadPoints :: "ProfileConfig \<Rightarrow> ProfileConfig" where
  "BuildAutomaticCommandMappingsFromReadPoints profile =
     add_commands (read_points profile) (profile\<lparr>analog_commands := [], binary_commands := []\<rparr>)"

fun read_lines :: "env \<Rightarrow> string list \<Rightarrow> int \<Rightarrow> ProfileConfig \<Rightarrow> 'a globals_scheme \<Rightarrow> ProfileConfig \<times> 'a globals_scheme" where
  "read_lines E [] line_number profile st = (profile, st)"
| "read_lines E (line # ls) line_number profile st =
     (let line_number = line_number + 1
      in case TryBuildReadPointFromCsvLine line of
           Inr point \<Rightarrow> read_lines E ls line_number (profile\<lparr>read_points := read_points profile @ [point]\<rparr>) st
         | Inl error \<Rightarrow>
             if \<not> is_comment (TrimCopy line)
             then read_lines E ls line_number profile
                    (LogLine E Warn ''CONFIG'' (''Linha '' @ show_int line_number @ '': '' @ error) st)
             else read_lines E ls line_number profile st)"

definition profile_title :: "string \<Rightarrow> string" where
  "profile_title file_path = (''Configura'' @ [CHR 0xC3, CHR 0xA7, CHR 0xC3, CHR 0xA3] @ ''o Modbus -> DNP3: '') @ file_path"

definition BuildConfigFileProfile :: "env \<Rightarrow> string \<Rightarrow> 'a config_state_scheme \<Rightarrow> ProfileConfig \<times> 'a config_state_scheme" where
  "BuildConfigFileProfile E file_path st =
     (let profile = ProfileConfig_init\<lparr>profile_mode := ConfigFile, profile_name := profile_title file_path\<rparr>
      in case files st file_path of
           None \<Rightarrow>
             (let st = LogLine E Warn ''CONFIG'' ((''Arquivo de configura'' @ [CHR 0xC3, CHR 0xA7, CHR 0xC3, CHR 0xA3] @ ''o n'' @ [CHR 0xC3, CHR 0xA3] @ ''o encontrado: '') @ file_path @ ''. Criando automaticamente um CSV vazio para cadastro pela interface.'') st
              in (profile, snd (SaveProfileReadPointsToCsv E profile file_path st)))
         | Some content \<Rightarrow>
             if FileHasOnlyLegacyAutoExamples file_path st
             then (let st = LogLine E Warn ''CONFIG'' ((''Foram encontrados somente exemplos autom'' @ [CHR 0xC3, CHR 0xA1] @ ''ticos antigos no points_config.csv. Limpando o arquivo para iniciar sem pontos pr'' @ [CHR 0xC3, CHR 0xA9] @ ''-configurados.'')) st
                   in (profile, snd (SaveProfileReadPointsToCsv E profile file_path st)))
             else
               (let (profile, st) = read_lines E (lines_of content) 0 profile st;
                    st = (if read_points profile = []
                          then LogLine E Info ''CONFIG'' ((''Nenhum ponto configurado ainda. A interface iniciar'' @ [CHR 0xC3, CHR 0xA1] @ '' vazia para cadastro dos pontos Modbus -> DNP3.'')) st
                          else st);
                    profile = BuildAutomaticCommandMappingsFromReadPoints profile;
                    st = LogLine E Info ''CONFIG''
                           (''Comandos DNP3 automaticos criados a partir dos pontos de leitura: ''
                            @ show_int (int (length (analog_commands profile))) @ '' analogicos e ''
                            @ show_int (int (length (binary_commands profile))) @ '' binarios. ''
                            @ ''Holding Register aceita Analog Output; Coil Status aceita CROB. ''
                            @ ''Input Register e Input Status sao somente leitura.'') st
                in (profile, st)))"

definition BuildProfile :: "env \<Rightarrow> string \<Rightarrow> 'a config_state_scheme \<Rightarrow> ProfileConfig \<times> 'a config_state_scheme" where
  "BuildProfile E config_file st = BuildConfigFileProfile E config_file st"

definition SameReadPointForUi :: "ReadPointConfig \<Rightarrow> ReadPointConfig \<Rightarrow> bool" where
  "SameReadPointForUi a b =
     (rp_description a = rp_description b \<and> rp_ip a = rp_ip b \<and> rp_port a = rp_port b \<and> rp_slave_id a = rp_slave_id b
      \<and> rp_type a = rp_type b \<and> rp_address a = rp_address b \<and> rp_dnp3_analog_index a = rp_dnp3_analog_index b)"

fun find_runtime :: "ReadPointConfig \<Rightarrow> ReadPointConfig list \<Rightarrow> int \<Rightarrow> int" where
  "find_runtime point [] i = - 1"
| "find_runtime point (q # qs) i = (if SameReadPointForUi point q then i else find_runtime point qs (i + 1))"

definition FindRuntimePointIndexForUi :: "ReadPointConfig \<Rightarrow> 'a config_state_scheme \<Rightarrow> int" where
  "FindRuntimePointIndexForUi point st = find_runtime point (read_points (g_profile st)) 0"

fun config_arg :: "string list \<Rightarrow> string" where
  "config_arg [] = DEFAULT_POINTS_CONFIG_FILE"
| "config_arg (arg # rest) =
     (if starts_with ''--config='' arg then drop (length ''--config='') arg else config_arg rest)"

definition GetConfigFileFromArgs :: "string list \<Rightarrow> string" where
  "GetConfigFileFromArgs argv = config_arg (drop 1 argv)"

section \<open>Facts about the line of a point\<close>

definition int_range :: "int \<Rightarrow> bool" where
  "int_range k = (- 2147483648 \<le> k \<and> k \<le> 2147483647)"

definition field_ok :: "string \<Rightarrow> bool" where
  "field_ok s = (trimmed s \<and> semicolon \<notin> set s \<and> newline \<notin> set s)"

definition point_wf :: "ReadPointConfig \<Rightarrow> bool" where
  "point_wf p = (field_ok (rp_description p) \<and> field_ok (rp_ip p)
     \<and> (rp_description p \<noteq> [] \<longrightarrow> hd (rp_description p) \<noteq> CHR 0x23)
     \<and> int_range (rp_port p) \<and> int_range (rp_slave_id p) \<and> int_range (rp_address p)
     \<and> rp_count p = RegisterCountForType (rp_type p) \<and> rp_dnp3_status_index p = 0)"

lemma digit_not_blank: "d < 10 \<Longrightarrow> \<not> is_blank (chr (48 + d)) \<and> chr (48 + d) \<noteq> newline \<and> chr (48 + d) \<noteq> CHR 0x23"
  by (auto simp: is_blank_def chr_eq_iff) (auto simp: code_def)

lemma show_int_chars: "c \<in> set (show_int k) \<Longrightarrow> c = CHR 0x2D \<or> (\<exists>d < 10. c = chr (48 + d))"
  using show_nat_digits by (auto simp: show_int_def split: if_splits)

lemma show_int_nonempty [simp]: "show_int k \<noteq> []"
  by (simp add: show_int_def)

lemma show_int_plain: "c \<in> set (show_int k) \<Longrightarrow> \<not> is_blank c \<and> c \<noteq> semicolon \<and> c \<noteq> newline \<and> c \<noteq> CHR 0x23"
  using show_int_chars [of c k] digit_not_blank digit_not_special by (auto simp: is_blank_def)

lemma field_ok_show_int [simp]: "field_ok (show_int k)"
  using show_int_plain [of _ k] hd_in_set [of "show_int k"] last_in_set [of "show_int k"]
  by (auto simp: field_ok_def trimmed_def)

lemma field_ok_kind [simp]: "field_ok (ReadValueTypeRegisterKind t)" "field_ok (ReadValueTypeDataType t)"
  by (cases t; simp add: field_ok_def trimmed_def is_blank_def ReadValueTypeRegisterKind_def type_defs)+

lemma kind_nonempty [simp]: "ReadValueTypeRegisterKind t \<noteq> []" "ReadValueTypeDataType t \<noteq> []"
  by (cases t; simp add: ReadValueTypeRegisterKind_def type_defs)+

lemma NormalizeToken_lower: "trimmed s \<Longrightarrow> \<forall>c \<in> set s. tolower c = c \<Longrightarrow> NormalizeToken s = s"
  by (simp add: NormalizeToken_def TrimCopy_trimmed map_idI)

lemma ParseReadValueType_roundtrip: "ParseReadValueType (ReadValueTypeRegisterKind t) (ReadValueTypeDataType t) = Some t"
proof -
  have "NormalizeToken (ReadValueTypeRegisterKind t) = ReadValueTypeRegisterKind t"
    "NormalizeToken (ReadValueTypeDataType t) = ReadValueTypeDataType t"
    by (cases t; rule NormalizeToken_lower;
        simp add: trimmed_def is_blank_def ReadValueTypeRegisterKind_def type_defs tolower_def code_def)+
  then show ?thesis
    by (cases t) (simp_all add: ParseReadValueType_def ReadValueTypeRegisterKind_def type_defs)
qed

lemma split_fields:
  "\<forall>f \<in> set fs. field_ok f \<Longrightarrow> field_ok l \<Longrightarrow> l \<noteq> []
     \<Longrightarrow> SplitSemicolonLine (concat (map (\<lambda>f. f @ [semicolon]) fs) @ l) = fs @ [l]"
proof -
  assume a: "\<forall>f \<in> set fs. field_ok f" "field_ok l" "l \<noteq> []"
  then have "getline_all semicolon (concat (map (\<lambda>f. f @ [semicolon]) fs) @ l) = fs @ [l]"
    by (simp add: getline_lines getline_last field_ok_def)
  moreover have "map TrimCopy fs = fs" using a by (simp add: map_idI TrimCopy_trimmed field_ok_def)
  ultimately show ?thesis using a by (simp add: SplitSemicolonLine_def TrimCopy_trimmed field_ok_def)
qed

definition csv_fields :: "ReadPointConfig \<Rightarrow> string list" where
  "csv_fields p = [rp_description p, rp_ip p, show_int (rp_port p), show_int (rp_slave_id p),
     ReadValueTypeRegisterKind (rp_type p), show_int (rp_address p), ReadValueTypeDataType (rp_type p)]"

lemma csv_line_fields:
  "csv_line p = concat (map (\<lambda>f. f @ [semicolon]) (csv_fields p)) @ show_int (uint (rp_dnp3_analog_index p))"
  by (simp add: csv_line_def csv_fields_def)

lemma csv_fields_ok: "point_wf p \<Longrightarrow> \<forall>f \<in> set (csv_fields p). field_ok f"
  by (simp add: point_wf_def csv_fields_def)

definition csv_line_with :: "ReadPointConfig \<Rightarrow> int \<Rightarrow> string" where
  "csv_line_with p k = concat (map (\<lambda>f. f @ [semicolon]) (csv_fields p)) @ show_int k"

lemma csv_line_with: "csv_line p = csv_line_with p (uint (rp_dnp3_analog_index p))"
  by (simp add: csv_line_fields csv_line_with_def)

lemma csv_line_trimmed:
  assumes "point_wf p"
  shows "trimmed (csv_line_with p k)" "\<not> is_comment (csv_line_with p k)"
proof -
  let ?l = "csv_line_with p k"
  have h: "hd ?l = (if rp_description p = [] then semicolon else hd (rp_description p))"
    by (simp add: csv_line_with_def csv_fields_def)
  have "?l \<noteq> []" by (simp add: csv_line_with_def)
  moreover have "last ?l \<in> set (show_int k)" by (simp add: csv_line_with_def)
  then have "\<not> is_blank (last ?l)" using show_int_plain by blast
  moreover have "\<not> is_blank (hd ?l)" "hd ?l \<noteq> CHR 0x23"
    using assms by (auto simp: h point_wf_def field_ok_def trimmed_def is_blank_def)
  ultimately show "trimmed ?l" "\<not> is_comment ?l" by (simp_all add: trimmed_def is_comment_def)
qed

lemma TryBuild_csv_line_with:
  assumes wf: "point_wf p" and k: "int_range k"
  shows "TryBuildReadPointFromCsvLine (csv_line_with p k) = Inr (p\<lparr>rp_dnp3_analog_index := word_of_int k\<rparr>)"
proof -
  let ?l = "csv_line_with p k"
  have t: "TrimCopy ?l = ?l" by (rule TrimCopy_trimmed [OF csv_line_trimmed(1) [OF wf]])
  have s: "SplitSemicolonLine ?l = csv_fields p @ [show_int k]"
    unfolding csv_line_with_def by (rule split_fields [OF csv_fields_ok [OF wf]]) simp_all
  have "convert_fields (csv_fields p @ [show_int k]) (rp_type p) = Some (p\<lparr>rp_dnp3_analog_index := word_of_int k\<rparr>)"
    using wf k by (simp add: convert_fields_def csv_fields_def stoi_show_int point_wf_def int_range_def)
  moreover have "length (csv_fields p) = 7" by (simp add: csv_fields_def)
  moreover have "(csv_fields p @ [show_int k]) ! 4 = ReadValueTypeRegisterKind (rp_type p)"
    "(csv_fields p @ [show_int k]) ! 6 = ReadValueTypeDataType (rp_type p)"
    by (simp_all add: csv_fields_def)
  ultimately show ?thesis
    using csv_line_trimmed(2) [OF wf]
    by (simp add: TryBuildReadPointFromCsvLine_def Let_def t s ParseReadValueType_roundtrip)
qed

lemma int_range_index: "int_range (uint (w :: u16))"
proof -
  have "0 \<le> uint w" "uint w < 65536" using unsigned_less [of w, where ?'a = int] by simp_all
  then show ?thesis unfolding int_range_def by linarith
qed

lemma TryBuild_csv_line: "point_wf p \<Longrightarrow> TryBuildReadPointFromCsvLine (csv_line p) = Inr p"
  using TryBuild_csv_line_with [OF _ int_range_index [of "rp_dnp3_analog_index p"]] by (simp add: csv_line_with)

section \<open>What the loader accepts\<close>

lemma getline_all_set: "l \<in> set (getline_all d s) \<Longrightarrow> d \<notin> set l \<and> set l \<subseteq> set s"
proof (induction d s rule: getline_all.induct)
  case (2 d c cs)
  let ?r = "drop 1 (dropWhile (\<lambda>x. x \<noteq> d) (c # cs))"
  have r: "set ?r \<subseteq> set (c # cs)" by (meson set_drop_subset set_dropWhileD subset_code(1) subset_trans)
  from 2(2) have "l = takeWhile (\<lambda>x. x \<noteq> d) (c # cs) \<or> l \<in> set (getline_all d ?r)"
    unfolding getline_all.simps(2) by simp
  then show ?case
  proof
    assume "l = takeWhile (\<lambda>x. x \<noteq> d) (c # cs)"
    then show ?thesis using set_takeWhileD by fastforce
  next
    assume "l \<in> set (getline_all d ?r)"
    with 2(1) r show ?thesis by blast
  qed
qed simp

lemma split_field_ok:
  assumes "newline \<notin> set s" "f \<in> set (SplitSemicolonLine s)"
  shows "field_ok f"
proof -
  obtain g where g: "g \<in> set (getline_all semicolon s)" "f = TrimCopy g" using assms(2) by (auto simp: SplitSemicolonLine_def)
  then show ?thesis using getline_all_set [OF g(1)] set_TrimCopy [of g] assms(1) by (auto simp: field_ok_def trimmed_TrimCopy)
qed

lemma TrimCopy_hd_field:
  assumes "trimmed s" "s \<noteq> []" "hd s \<noteq> CHR 0x23" "SplitSemicolonLine s = f # fs" "f \<noteq> []"
  shows "hd f \<noteq> CHR 0x23"
proof -
  obtain c cs where s: "s = c # cs" using assms(2) by (cases s) simp_all
  let ?g = "takeWhile (\<lambda>x. x \<noteq> semicolon) s"
  have f: "f = TrimCopy ?g" using assms(4) by (simp add: SplitSemicolonLine_def s getline_all.simps(2))
  then have "?g \<noteq> []" using assms(5) by (auto simp: TrimCopy_def)
  then obtain gs where g: "?g = c # gs" by (auto simp: s split: if_splits)
  have "\<not> is_blank c" using assms(1) s by (simp add: trimmed_def)
  then have d: "dropWhile is_blank ?g = ?g" by (simp add: g)
  obtain w where w: "rev ?g = w @ dropWhile is_blank (rev ?g)" by (metis takeWhile_dropWhile_id)
  then have "?g = f @ rev w" unfolding f TrimCopy_def d by (metis rev_append rev_rev_ident)
  then have "hd f = c" using assms(5) g by (metis hd_append2 list.sel(1))
  then show ?thesis using assms(3) s by simp
qed

lemma convert_fields_wf:
  assumes "convert_fields parts t = Some p" "field_ok (parts ! 0)" "field_ok (parts ! 1)"
    "parts ! 0 \<noteq> [] \<longrightarrow> hd (parts ! 0) \<noteq> CHR 0x23"
  shows "point_wf p"
  using assms stoi_range by (auto simp: convert_fields_def point_wf_def int_range_def split: option.splits)

lemma TryBuild_wf:
  assumes "newline \<notin> set line" "TryBuildReadPointFromCsvLine line = Inr p"
  shows "point_wf p"
proof -
  let ?c = "TrimCopy line" and ?parts = "SplitSemicolonLine (TrimCopy line)"
  have c: "\<not> is_comment ?c" and n: "8 \<le> length ?parts"
    using assms(2) by (auto simp: TryBuildReadPointFromCsvLine_def Let_def split: if_splits)
  obtain t where k: "convert_fields ?parts t = Some p"
    using assms(2) c n by (auto simp: TryBuildReadPointFromCsvLine_def Let_def split: if_splits option.splits)
  have nl: "newline \<notin> set ?c" using assms(1) set_TrimCopy [of line] by blast
  have f: "field_ok (?parts ! i)" if "i < 8" for i using split_field_ok [OF nl] n that by simp
  obtain f0 fs where p: "?parts = f0 # fs" using n by (cases ?parts) simp_all
  have "?parts ! 0 \<noteq> [] \<longrightarrow> hd (?parts ! 0) \<noteq> CHR 0x23"
    using TrimCopy_hd_field [OF trimmed_TrimCopy _ _ p] c p by (auto simp: is_comment_def)
  with convert_fields_wf [OF k] f show ?thesis by simp
qed

lemma load_points_append: "load_points (xs @ ys) = load_points xs @ load_points ys"
  by (induction xs) (simp_all split: sum.split)

lemma load_points_wf: "\<forall>l \<in> set ls. newline \<notin> set l \<Longrightarrow> \<forall>p \<in> set (load_points ls). point_wf p"
  by (induction ls) (auto dest: TryBuild_wf split: sum.splits)

lemma load_csv_lines: "\<forall>p \<in> set ps. point_wf p \<Longrightarrow> load_points (map csv_line ps) = ps"
  by (induction ps) (simp_all add: TryBuild_csv_line)

lemma csv_line_no_newline: "point_wf p \<Longrightarrow> newline \<notin> set (csv_line p)"
  using csv_fields_ok [of p] by (auto simp: csv_line_fields field_ok_def dest: show_int_plain)

section \<open>Files of points\<close>

definition ends_line :: "string \<Rightarrow> bool" where
  "ends_line s = (s = [] \<or> last s = newline)"

lemma getline_append: "s = [] \<or> last s = d \<Longrightarrow> getline_all d (s @ r) = getline_all d s @ getline_all d r"
proof (induction d s rule: getline_all.induct)
  case (2 d c cs)
  let ?s = "c # cs" and ?r = "drop 1 (dropWhile (\<lambda>x. x \<noteq> d) (c # cs))"
  have d: "d \<in> set ?s" using 2(2) last_in_set [of ?s] by auto
  then obtain a b where ab: "?s = a @ d # b" "d \<notin> set a" by (metis split_list_first)
  then have r: "?r = b" by (simp add: dropWhile_append takeWhile_append)
  have b: "b = [] \<or> last b = d" using 2(2) ab by (cases "b = []") auto
  have "getline_all d (b @ r) = getline_all d b @ getline_all d r" using 2(1) b unfolding r by blast
  then show ?case using ab by (simp add: getline_first)
qed simp

lemma lines_of_append: "ends_line s \<Longrightarrow> lines_of (s @ r) = lines_of s @ lines_of r"
  by (simp add: ends_line_def lines_of_def getline_append)

lemma lines_of_no_newline: "\<forall>l \<in> set (lines_of s). newline \<notin> set l"
  using getline_all_set by (auto simp: lines_of_def)

lemma csv_header_ends_line: "ends_line csv_header"
  by (simp add: ends_line_def csv_header_def)

lemma csv_header_no_points: "load_points (lines_of csv_header) = []"
  by code_simp

definition points_text :: "ReadPointConfig list \<Rightarrow> string" where
  "points_text ps = csv_header @ concat (map (\<lambda>p. csv_line p @ [newline]) ps)"

lemma lines_of_lines: "\<forall>l \<in> set ls. newline \<notin> set l \<Longrightarrow> lines_of (concat (map (\<lambda>l. l @ [newline]) ls)) = ls"
  using getline_lines [of ls newline "[]"] by (simp add: lines_of_def)

lemma load_points_text: "\<forall>p \<in> set ps. point_wf p \<Longrightarrow> load_points (lines_of (points_text ps)) = ps"
proof -
  assume wf: "\<forall>p \<in> set ps. point_wf p"
  have "lines_of (concat (map (\<lambda>p. csv_line p @ [newline]) ps)) = map csv_line ps"
    using lines_of_lines [of "map csv_line ps"] wf by (simp add: csv_line_no_newline o_def)
  then show ?thesis
    by (simp add: points_text_def lines_of_append [OF csv_header_ends_line] load_points_append csv_header_no_points
        load_csv_lines [OF wf])
qed

lemma points_text_ends_line: "ends_line (points_text ps)"
  using csv_header_ends_line by (cases ps rule: rev_cases) (auto simp: points_text_def ends_line_def)

lemma loaded_points_wf: "p \<in> set (LoadConfiguredPointsFromCsvForUi path st) \<Longrightarrow> point_wf p"
  using load_points_wf [OF lines_of_no_newline]
  by (auto simp: LoadConfiguredPointsFromCsvForUi_def split: option.splits)

lemma Save_files:
  "SaveProfileReadPointsToCsv E profile path st
     = (if writable E path then (True, st\<lparr>files := (files st)(path \<mapsto> points_text (read_points profile))\<rparr>) else (False, st))"
  by (simp add: SaveProfileReadPointsToCsv_def points_text_def)

section \<open>Facts about the profile\<close>

lemma add_commands_fields:
  "read_points (add_commands ps profile) = read_points profile"
  "analog_commands (add_commands ps profile) = analog_commands profile
     @ map analog_command_of (filter (\<lambda>p. IsHoldingRegisterType (rp_type p)) ps)"
  "binary_commands (add_commands ps profile) = binary_commands profile
     @ map binary_command_of (filter (\<lambda>p. IsCoilStatusType (rp_type p)) ps)"
  by (induction ps arbitrary: profile) (auto simp: type_defs)

lemma read_lines_points:
  "read_points (fst (read_lines E ls n profile st)) = read_points profile @ load_points ls"
  by (induction ls arbitrary: n profile st) (simp_all add: Let_def split: sum.split)

lemma read_lines_frame:
  "globals.more (snd (read_lines E ls n profile st)) = globals.more st"
  "g_running (snd (read_lines E ls n profile st)) = g_running st"
  by (induction ls arbitrary: n profile st) (simp_all add: Let_def split: sum.split)

lemma scan_legacy_no_points: "scan_legacy ls b \<Longrightarrow> \<forall>l \<in> set ls. is_comment (TrimCopy l) \<or> IsLegacyAutoExampleLine (TrimCopy l)"
  by (induction ls arbitrary: b) (auto simp: Let_def split: if_splits)

lemma find_runtime_range: "0 \<le> i \<Longrightarrow> find_runtime p qs i = - 1 \<or> i \<le> find_runtime p qs i \<and> find_runtime p qs i < i + int (length qs)"
proof (induction qs arbitrary: i)
  case (Cons q qs)
  show ?case using Cons.IH [of "i + 1"] Cons.prems by auto
qed simp

lemma LogLine_files [simp]:
  "files (LogLine E l sc t st) = files st"
  "g_active_config_file (LogLine E l sc t st) = g_active_config_file st"
  "g_profile (LogLine E l sc t st) = g_profile st"
  by (simp_all add: LogLine_def Let_def)

lemma read_lines_files [simp]: "files (snd (read_lines E ls n profile st)) = files st"
  by (induction ls arbitrary: n profile st) (simp_all add: Let_def split: sum.split)

lemma load_scan_legacy: "FileHasOnlyLegacyAutoExamples path st \<Longrightarrow> files st path \<noteq> None"
  by (auto simp: FileHasOnlyLegacyAutoExamples_def split: option.splits)

definition accepted_points :: "string \<Rightarrow> 'a config_state_scheme \<Rightarrow> ReadPointConfig list" where
  "accepted_points file_path st = (case files st file_path of None \<Rightarrow> [] | Some content \<Rightarrow>
      if FileHasOnlyLegacyAutoExamples file_path st then [] else load_points (lines_of content))"

lemma BuildProfile_result:
  "read_points (fst (BuildProfile E file_path st)) = accepted_points file_path st
    \<and> analog_commands (fst (BuildProfile E file_path st))
        = map analog_command_of (filter (\<lambda>p. IsHoldingRegisterType (rp_type p)) (accepted_points file_path st))
    \<and> binary_commands (fst (BuildProfile E file_path st))
        = map binary_command_of (filter (\<lambda>p. IsCoilStatusType (rp_type p)) (accepted_points file_path st))
    \<and> files (snd (BuildProfile E file_path st)) =
        (if (files st file_path = None \<or> FileHasOnlyLegacyAutoExamples file_path st) \<and> writable E file_path
         then (files st)(file_path \<mapsto> csv_header) else files st)"
proof (cases "files st file_path = None \<or> FileHasOnlyLegacyAutoExamples file_path st")
  case True
  then show ?thesis
    by (auto simp: BuildProfile_def BuildConfigFileProfile_def Save_files points_text_def accepted_points_def Let_def
        ProfileConfig_init_def FileHasOnlyLegacyAutoExamples_def split: option.splits)
next
  case False
  then obtain content where c: "files st file_path = Some content" by auto
  with False have "accepted_points file_path st = load_points (lines_of content)" by (simp add: accepted_points_def)
  with False c show ?thesis
    by (simp add: BuildProfile_def BuildConfigFileProfile_def BuildAutomaticCommandMappingsFromReadPoints_def
        add_commands_fields read_lines_points split_beta Let_def ProfileConfig_init_def)
qed

text \<open>An environment and a state for the examples: one file with one point.\<close>

definition example_env :: env where
  "example_env = \<lparr>stamp = (\<lambda>k. []), now = int, writable = (\<lambda>path. True), modbus_strerror = (\<lambda>k. []),
     llround_unspecified = (\<lambda>d. 0)\<rparr>"

definition example_state :: config_state where
  "example_state = \<lparr>g_running = True, g_recent_logs = [], g_hidden_deleted_point_indexes = [], clock = 0,
     g_active_config_file = ''a'', g_profile = ProfileConfig_init,
     files = [''a'' \<mapsto> ''# x'' @ [newline] @ ''T; 10.0.0.5 ;502;1;holding;30;int16;7'' @ [newline]]\<rparr>"

definition example_point :: ReadPointConfig where
  "example_point = \<lparr>rp_ip = ''10.0.0.5'', rp_port = 502, rp_slave_id = 1, rp_type = HoldingInt16, rp_address = 30,
     rp_count = 1, rp_dnp3_analog_index = 7, rp_dnp3_status_index = 0, rp_description = ''T''\<rparr>"

lemma example_points: "LoadConfiguredPointsFromCsvForUi ''a'' example_state = [example_point]"
  by code_simp

section \<open>The properties\<close>

text \<open>
  C40. Saving and loading the points file gives the points back: whatever the contents of a file,
  the points that the loader accepts from it can be written with \<open>SaveProfileReadPointsToCsv\<close> to
  any writable path, and loading that path gives exactly these points in the same order.
\<close>

theorem points_file_roundtrip:
  assumes "read_points profile = LoadConfiguredPointsFromCsvForUi source st" and "writable E path"
  shows "LoadConfiguredPointsFromCsvForUi path (snd (SaveProfileReadPointsToCsv E profile path st)) = read_points profile"
proof -
  have "\<forall>p \<in> set (read_points profile). point_wf p" using assms(1) loaded_points_wf by auto
  then show ?thesis using assms(2) by (simp add: Save_files LoadConfiguredPointsFromCsvForUi_def load_points_text)
qed

lemma points_file_roundtrip_witness:
  "LoadConfiguredPointsFromCsvForUi ''b'' (snd (SaveProfileReadPointsToCsv example_env
      (ProfileConfig_init\<lparr>read_points := LoadConfiguredPointsFromCsvForUi ''a'' example_state\<rparr>) ''b'' example_state))
     = LoadConfiguredPointsFromCsvForUi ''a'' example_state
   \<and> length (LoadConfiguredPointsFromCsvForUi ''a'' example_state) = 1"
  using points_file_roundtrip [of "ProfileConfig_init\<lparr>read_points := LoadConfiguredPointsFromCsvForUi ''a'' example_state\<rparr>"
      "''a''" example_state example_env "''b''"] example_points
  by (simp add: example_env_def)

text \<open>
  A profile built from a file has the points that the loader accepts, in the order of the
  file, an analog command for exactly the holding-register points and a binary command for
  exactly the coil points; input registers and input status points cannot be written. A file that
  does not exist, or has only the old examples, gives no points, no commands, and is replaced by
  the header alone.
\<close>

theorem profile_from_file:
  "read_points (fst (BuildProfile E file_path st)) = accepted_points file_path st
    \<and> analog_commands (fst (BuildProfile E file_path st))
        = map analog_command_of (filter (\<lambda>p. IsHoldingRegisterType (rp_type p)) (accepted_points file_path st))
    \<and> binary_commands (fst (BuildProfile E file_path st))
        = map binary_command_of (filter (\<lambda>p. IsCoilStatusType (rp_type p)) (accepted_points file_path st))
    \<and> files (snd (BuildProfile E file_path st)) =
        (if (files st file_path = None \<or> FileHasOnlyLegacyAutoExamples file_path st) \<and> writable E file_path
         then (files st)(file_path \<mapsto> csv_header) else files st)"
  by (rule BuildProfile_result)

text \<open>
  The DNP3 index of a line is cut to 16 bits without any check: a line with index \<open>k\<close>, for every
  \<open>k\<close> in the range of \<open>int\<close>, is accepted as the point with index \<open>k mod 2 ^ 16\<close>, also when \<open>k\<close> is
  negative or too large.
\<close>

theorem csv_index_is_truncated:
  assumes "point_wf p" and "int_range k"
  shows "\<exists>q. TryBuildReadPointFromCsvLine (csv_line_with p k) = Inr q \<and> uint (rp_dnp3_analog_index q) = k mod 65536"
  using TryBuild_csv_line_with [OF assms] by (simp add: uint_word_of_int)

lemma csv_index_is_truncated_witness:
  "\<exists>q. TryBuildReadPointFromCsvLine (csv_line_with example_point (- 1)) = Inr q \<and> uint (rp_dnp3_analog_index q) = 65535"
proof -
  have "point_wf example_point" using loaded_points_wf [of example_point "''a''" example_state] example_points by simp
  with csv_index_is_truncated [of example_point "- 1"] show ?thesis by (simp add: int_range_def)
qed

end
