(* ===== verification/App_Types.thy ===== *)
theory App_Types
  imports Prelude
begin

text \<open>
  Enumerations of the application layer (\<open>include/opendnp3/gen\<close> and \<open>src/gen\<close>): function codes,
  command status, and the operation and trip codes of a control relay output block, with
  their codes on the wire. A control block keeps the code that it was read from.
\<close>

datatype FunctionCode =
    CONFIRM
  | READ
  | WRITE
  | SELECT
  | OPERATE
  | DIRECT_OPERATE
  | DIRECT_OPERATE_NR
  | IMMED_FREEZE
  | IMMED_FREEZE_NR
  | FREEZE_CLEAR
  | FREEZE_CLEAR_NR
  | FREEZE_AT_TIME
  | FREEZE_AT_TIME_NR
  | COLD_RESTART
  | WARM_RESTART
  | INITIALIZE_DATA
  | INITIALIZE_APPLICATION
  | START_APPLICATION
  | STOP_APPLICATION
  | SAVE_CONFIGURATION
  | ENABLE_UNSOLICITED
  | DISABLE_UNSOLICITED
  | ASSIGN_CLASS
  | DELAY_MEASURE
  | RECORD_CURRENT_TIME
  | OPEN_FILE
  | CLOSE_FILE
  | DELETE_FILE
  | GET_FILE_INFO
  | AUTHENTICATE_FILE
  | ABORT_FILE
  | AUTH_REQUEST
  | AUTH_REQUEST_NO_ACK
  | RESPONSE
  | UNSOLICITED_RESPONSE
  | AUTH_RESPONSE
  | UNKNOWN

fun FunctionCode_to_type :: "FunctionCode \<Rightarrow> byte" where
  "FunctionCode_to_type CONFIRM = 0"
| "FunctionCode_to_type READ = 1"
| "FunctionCode_to_type WRITE = 2"
| "FunctionCode_to_type SELECT = 3"
| "FunctionCode_to_type OPERATE = 4"
| "FunctionCode_to_type DIRECT_OPERATE = 5"
| "FunctionCode_to_type DIRECT_OPERATE_NR = 6"
| "FunctionCode_to_type IMMED_FREEZE = 7"
| "FunctionCode_to_type IMMED_FREEZE_NR = 8"
| "FunctionCode_to_type FREEZE_CLEAR = 9"
| "FunctionCode_to_type FREEZE_CLEAR_NR = 10"
| "FunctionCode_to_type FREEZE_AT_TIME = 11"
| "FunctionCode_to_type FREEZE_AT_TIME_NR = 12"
| "FunctionCode_to_type COLD_RESTART = 13"
| "FunctionCode_to_type WARM_RESTART = 14"
| "FunctionCode_to_type INITIALIZE_DATA = 15"
| "FunctionCode_to_type INITIALIZE_APPLICATION = 16"
| "FunctionCode_to_type START_APPLICATION = 17"
| "FunctionCode_to_type STOP_APPLICATION = 18"
| "FunctionCode_to_type SAVE_CONFIGURATION = 19"
| "FunctionCode_to_type ENABLE_UNSOLICITED = 20"
| "FunctionCode_to_type DISABLE_UNSOLICITED = 21"
| "FunctionCode_to_type ASSIGN_CLASS = 22"
| "FunctionCode_to_type DELAY_MEASURE = 23"
| "FunctionCode_to_type RECORD_CURRENT_TIME = 24"
| "FunctionCode_to_type OPEN_FILE = 25"
| "FunctionCode_to_type CLOSE_FILE = 26"
| "FunctionCode_to_type DELETE_FILE = 27"
| "FunctionCode_to_type GET_FILE_INFO = 28"
| "FunctionCode_to_type AUTHENTICATE_FILE = 29"
| "FunctionCode_to_type ABORT_FILE = 30"
| "FunctionCode_to_type AUTH_REQUEST = 32"
| "FunctionCode_to_type AUTH_REQUEST_NO_ACK = 33"
| "FunctionCode_to_type RESPONSE = 129"
| "FunctionCode_to_type UNSOLICITED_RESPONSE = 130"
| "FunctionCode_to_type AUTH_RESPONSE = 131"
| "FunctionCode_to_type UNKNOWN = 255"

definition FunctionCode_from_type :: "byte \<Rightarrow> FunctionCode" where
  "FunctionCode_from_type arg =
     (if arg = 0 then CONFIRM
      else if arg = 1 then READ
      else if arg = 2 then WRITE
      else if arg = 3 then SELECT
      else if arg = 4 then OPERATE
      else if arg = 5 then DIRECT_OPERATE
      else if arg = 6 then DIRECT_OPERATE_NR
      else if arg = 7 then IMMED_FREEZE
      else if arg = 8 then IMMED_FREEZE_NR
      else if arg = 9 then FREEZE_CLEAR
      else if arg = 10 then FREEZE_CLEAR_NR
      else if arg = 11 then FREEZE_AT_TIME
      else if arg = 12 then FREEZE_AT_TIME_NR
      else if arg = 13 then COLD_RESTART
      else if arg = 14 then WARM_RESTART
      else if arg = 15 then INITIALIZE_DATA
      else if arg = 16 then INITIALIZE_APPLICATION
      else if arg = 17 then START_APPLICATION
      else if arg = 18 then STOP_APPLICATION
      else if arg = 19 then SAVE_CONFIGURATION
      else if arg = 20 then ENABLE_UNSOLICITED
      else if arg = 21 then DISABLE_UNSOLICITED
      else if arg = 22 then ASSIGN_CLASS
      else if arg = 23 then DELAY_MEASURE
      else if arg = 24 then RECORD_CURRENT_TIME
      else if arg = 25 then OPEN_FILE
      else if arg = 26 then CLOSE_FILE
      else if arg = 27 then DELETE_FILE
      else if arg = 28 then GET_FILE_INFO
      else if arg = 29 then AUTHENTICATE_FILE
      else if arg = 30 then ABORT_FILE
      else if arg = 32 then AUTH_REQUEST
      else if arg = 33 then AUTH_REQUEST_NO_ACK
      else if arg = 129 then RESPONSE
      else if arg = 130 then UNSOLICITED_RESPONSE
      else if arg = 131 then AUTH_RESPONSE
      else UNKNOWN)"

fun FunctionCode_to_string :: "FunctionCode \<Rightarrow> string" where
  "FunctionCode_to_string CONFIRM = ''CONFIRM''"
| "FunctionCode_to_string READ = ''READ''"
| "FunctionCode_to_string WRITE = ''WRITE''"
| "FunctionCode_to_string SELECT = ''SELECT''"
| "FunctionCode_to_string OPERATE = ''OPERATE''"
| "FunctionCode_to_string DIRECT_OPERATE = ''DIRECT_OPERATE''"
| "FunctionCode_to_string DIRECT_OPERATE_NR = ''DIRECT_OPERATE_NR''"
| "FunctionCode_to_string IMMED_FREEZE = ''IMMED_FREEZE''"
| "FunctionCode_to_string IMMED_FREEZE_NR = ''IMMED_FREEZE_NR''"
| "FunctionCode_to_string FREEZE_CLEAR = ''FREEZE_CLEAR''"
| "FunctionCode_to_string FREEZE_CLEAR_NR = ''FREEZE_CLEAR_NR''"
| "FunctionCode_to_string FREEZE_AT_TIME = ''FREEZE_AT_TIME''"
| "FunctionCode_to_string FREEZE_AT_TIME_NR = ''FREEZE_AT_TIME_NR''"
| "FunctionCode_to_string COLD_RESTART = ''COLD_RESTART''"
| "FunctionCode_to_string WARM_RESTART = ''WARM_RESTART''"
| "FunctionCode_to_string INITIALIZE_DATA = ''INITIALIZE_DATA''"
| "FunctionCode_to_string INITIALIZE_APPLICATION = ''INITIALIZE_APPLICATION''"
| "FunctionCode_to_string START_APPLICATION = ''START_APPLICATION''"
| "FunctionCode_to_string STOP_APPLICATION = ''STOP_APPLICATION''"
| "FunctionCode_to_string SAVE_CONFIGURATION = ''SAVE_CONFIGURATION''"
| "FunctionCode_to_string ENABLE_UNSOLICITED = ''ENABLE_UNSOLICITED''"
| "FunctionCode_to_string DISABLE_UNSOLICITED = ''DISABLE_UNSOLICITED''"
| "FunctionCode_to_string ASSIGN_CLASS = ''ASSIGN_CLASS''"
| "FunctionCode_to_string DELAY_MEASURE = ''DELAY_MEASURE''"
| "FunctionCode_to_string RECORD_CURRENT_TIME = ''RECORD_CURRENT_TIME''"
| "FunctionCode_to_string OPEN_FILE = ''OPEN_FILE''"
| "FunctionCode_to_string CLOSE_FILE = ''CLOSE_FILE''"
| "FunctionCode_to_string DELETE_FILE = ''DELETE_FILE''"
| "FunctionCode_to_string GET_FILE_INFO = ''GET_FILE_INFO''"
| "FunctionCode_to_string AUTHENTICATE_FILE = ''AUTHENTICATE_FILE''"
| "FunctionCode_to_string ABORT_FILE = ''ABORT_FILE''"
| "FunctionCode_to_string AUTH_REQUEST = ''AUTH_REQUEST''"
| "FunctionCode_to_string AUTH_REQUEST_NO_ACK = ''AUTH_REQUEST_NO_ACK''"
| "FunctionCode_to_string RESPONSE = ''RESPONSE''"
| "FunctionCode_to_string UNSOLICITED_RESPONSE = ''UNSOLICITED_RESPONSE''"
| "FunctionCode_to_string AUTH_RESPONSE = ''AUTH_RESPONSE''"
| "FunctionCode_to_string UNKNOWN = ''UNKNOWN''"

datatype PointClass = Class0 | Class1 | Class2 | Class3

datatype CommandStatus =
    SUCCESS
  | TIMEOUT
  | NO_SELECT
  | FORMAT_ERROR
  | NOT_SUPPORTED
  | ALREADY_ACTIVE
  | HARDWARE_ERROR
  | LOCAL
  | TOO_MANY_OPS
  | NOT_AUTHORIZED
  | AUTOMATION_INHIBIT
  | PROCESSING_LIMITED
  | OUT_OF_RANGE
  | DOWNSTREAM_LOCAL
  | ALREADY_COMPLETE
  | BLOCKED
  | CANCELLED
  | BLOCKED_OTHER_MASTER
  | DOWNSTREAM_FAIL
  | NON_PARTICIPATING
  | UNDEFINED

fun CommandStatus_to_type :: "CommandStatus \<Rightarrow> byte" where
  "CommandStatus_to_type SUCCESS = 0"
| "CommandStatus_to_type TIMEOUT = 1"
| "CommandStatus_to_type NO_SELECT = 2"
| "CommandStatus_to_type FORMAT_ERROR = 3"
| "CommandStatus_to_type NOT_SUPPORTED = 4"
| "CommandStatus_to_type ALREADY_ACTIVE = 5"
| "CommandStatus_to_type HARDWARE_ERROR = 6"
| "CommandStatus_to_type LOCAL = 7"
| "CommandStatus_to_type TOO_MANY_OPS = 8"
| "CommandStatus_to_type NOT_AUTHORIZED = 9"
| "CommandStatus_to_type AUTOMATION_INHIBIT = 10"
| "CommandStatus_to_type PROCESSING_LIMITED = 11"
| "CommandStatus_to_type OUT_OF_RANGE = 12"
| "CommandStatus_to_type DOWNSTREAM_LOCAL = 13"
| "CommandStatus_to_type ALREADY_COMPLETE = 14"
| "CommandStatus_to_type BLOCKED = 15"
| "CommandStatus_to_type CANCELLED = 16"
| "CommandStatus_to_type BLOCKED_OTHER_MASTER = 17"
| "CommandStatus_to_type DOWNSTREAM_FAIL = 18"
| "CommandStatus_to_type NON_PARTICIPATING = 126"
| "CommandStatus_to_type UNDEFINED = 127"

definition CommandStatus_from_type :: "byte \<Rightarrow> CommandStatus" where
  "CommandStatus_from_type arg =
     (if arg = 0 then SUCCESS
      else if arg = 1 then TIMEOUT
      else if arg = 2 then NO_SELECT
      else if arg = 3 then FORMAT_ERROR
      else if arg = 4 then NOT_SUPPORTED
      else if arg = 5 then ALREADY_ACTIVE
      else if arg = 6 then HARDWARE_ERROR
      else if arg = 7 then LOCAL
      else if arg = 8 then TOO_MANY_OPS
      else if arg = 9 then NOT_AUTHORIZED
      else if arg = 10 then AUTOMATION_INHIBIT
      else if arg = 11 then PROCESSING_LIMITED
      else if arg = 12 then OUT_OF_RANGE
      else if arg = 13 then DOWNSTREAM_LOCAL
      else if arg = 14 then ALREADY_COMPLETE
      else if arg = 15 then BLOCKED
      else if arg = 16 then CANCELLED
      else if arg = 17 then BLOCKED_OTHER_MASTER
      else if arg = 18 then DOWNSTREAM_FAIL
      else if arg = 126 then NON_PARTICIPATING
      else UNDEFINED)"

fun CommandStatus_to_string :: "CommandStatus \<Rightarrow> string" where
  "CommandStatus_to_string SUCCESS = ''SUCCESS''"
| "CommandStatus_to_string TIMEOUT = ''TIMEOUT''"
| "CommandStatus_to_string NO_SELECT = ''NO_SELECT''"
| "CommandStatus_to_string FORMAT_ERROR = ''FORMAT_ERROR''"
| "CommandStatus_to_string NOT_SUPPORTED = ''NOT_SUPPORTED''"
| "CommandStatus_to_string ALREADY_ACTIVE = ''ALREADY_ACTIVE''"
| "CommandStatus_to_string HARDWARE_ERROR = ''HARDWARE_ERROR''"
| "CommandStatus_to_string LOCAL = ''LOCAL''"
| "CommandStatus_to_string TOO_MANY_OPS = ''TOO_MANY_OPS''"
| "CommandStatus_to_string NOT_AUTHORIZED = ''NOT_AUTHORIZED''"
| "CommandStatus_to_string AUTOMATION_INHIBIT = ''AUTOMATION_INHIBIT''"
| "CommandStatus_to_string PROCESSING_LIMITED = ''PROCESSING_LIMITED''"
| "CommandStatus_to_string OUT_OF_RANGE = ''OUT_OF_RANGE''"
| "CommandStatus_to_string DOWNSTREAM_LOCAL = ''DOWNSTREAM_LOCAL''"
| "CommandStatus_to_string ALREADY_COMPLETE = ''ALREADY_COMPLETE''"
| "CommandStatus_to_string BLOCKED = ''BLOCKED''"
| "CommandStatus_to_string CANCELLED = ''CANCELLED''"
| "CommandStatus_to_string BLOCKED_OTHER_MASTER = ''BLOCKED_OTHER_MASTER''"
| "CommandStatus_to_string DOWNSTREAM_FAIL = ''DOWNSTREAM_FAIL''"
| "CommandStatus_to_string NON_PARTICIPATING = ''NON_PARTICIPATING''"
| "CommandStatus_to_string UNDEFINED = ''UNDEFINED''"

datatype OperationType =
    NUL
  | PULSE_ON
  | PULSE_OFF
  | LATCH_ON
  | LATCH_OFF
  | Undefined

fun OperationType_to_type :: "OperationType \<Rightarrow> byte" where
  "OperationType_to_type NUL = 0"
| "OperationType_to_type PULSE_ON = 1"
| "OperationType_to_type PULSE_OFF = 2"
| "OperationType_to_type LATCH_ON = 3"
| "OperationType_to_type LATCH_OFF = 4"
| "OperationType_to_type Undefined = 255"

definition OperationType_from_type :: "byte \<Rightarrow> OperationType" where
  "OperationType_from_type arg =
     (if arg = 0 then NUL
      else if arg = 1 then PULSE_ON
      else if arg = 2 then PULSE_OFF
      else if arg = 3 then LATCH_ON
      else if arg = 4 then LATCH_OFF
      else Undefined)"

fun OperationType_to_string :: "OperationType \<Rightarrow> string" where
  "OperationType_to_string NUL = ''NUL''"
| "OperationType_to_string PULSE_ON = ''PULSE_ON''"
| "OperationType_to_string PULSE_OFF = ''PULSE_OFF''"
| "OperationType_to_string LATCH_ON = ''LATCH_ON''"
| "OperationType_to_string LATCH_OFF = ''LATCH_OFF''"
| "OperationType_to_string Undefined = ''Undefined''"

datatype TripCloseCode =
    TCC_NUL
  | CLOSE
  | TRIP
  | RESERVED

fun TripCloseCode_to_type :: "TripCloseCode \<Rightarrow> byte" where
  "TripCloseCode_to_type TCC_NUL = 0"
| "TripCloseCode_to_type CLOSE = 1"
| "TripCloseCode_to_type TRIP = 2"
| "TripCloseCode_to_type RESERVED = 3"

definition TripCloseCode_from_type :: "byte \<Rightarrow> TripCloseCode option" where
  "TripCloseCode_from_type arg =
     (if arg = 0 then Some TCC_NUL
      else if arg = 1 then Some CLOSE
      else if arg = 2 then Some TRIP
      else if arg = 3 then Some RESERVED
      else None)"

fun TripCloseCode_to_string :: "TripCloseCode \<Rightarrow> string" where
  "TripCloseCode_to_string TCC_NUL = ''NUL''"
| "TripCloseCode_to_string CLOSE = ''CLOSE''"
| "TripCloseCode_to_string TRIP = ''TRIP''"
| "TripCloseCode_to_string RESERVED = ''RESERVED''"

datatype OperateType = SelectBeforeOperate | DirectOperate | DirectOperateNoAck

fun OperateType_to_type :: "OperateType \<Rightarrow> byte" where
  "OperateType_to_type SelectBeforeOperate = 0"
| "OperateType_to_type DirectOperate = 1"
| "OperateType_to_type DirectOperateNoAck = 2"

section \<open>Control relay output block\<close>

record ControlRelayOutputBlock =
  opType :: OperationType
  tcc :: TripCloseCode
  clear :: bool
  crob_count :: byte
  onTimeMS :: u32
  offTimeMS :: u32
  crob_status :: CommandStatus
  rawCode :: byte

definition CROB_make ::
  "OperationType \<Rightarrow> TripCloseCode \<Rightarrow> bool \<Rightarrow> byte \<Rightarrow> u32 \<Rightarrow> u32 \<Rightarrow> CommandStatus \<Rightarrow> ControlRelayOutputBlock" where
  "CROB_make op tc cl n on off st =
     \<lparr>opType = op, tcc = tc, clear = cl, crob_count = n, onTimeMS = on, offTimeMS = off, crob_status = st,
      rawCode = (push_bit 6 (TripCloseCode_to_type tc) AND 0xC0) OR (push_bit 5 (if cl then 1 else 0) AND 0x20)
        OR (OperationType_to_type op AND 0x0F)\<rparr>"

definition CROB_of_raw :: "byte \<Rightarrow> byte \<Rightarrow> u32 \<Rightarrow> u32 \<Rightarrow> CommandStatus \<Rightarrow> ControlRelayOutputBlock option" where
  "CROB_of_raw raw n on off st =
     (case TripCloseCode_from_type (drop_bit 6 raw AND 0x3) of
        None \<Rightarrow> None
      | Some tc \<Rightarrow> Some \<lparr>opType = OperationType_from_type (raw AND 0x0F), tcc = tc, clear = (raw AND 0x20 \<noteq> 0),
          crob_count = n, onTimeMS = on, offTimeMS = off, crob_status = st, rawCode = raw\<rparr>)"

section \<open>Facts\<close>

lemma FunctionCode_roundtrip [simp]: "FunctionCode_from_type (FunctionCode_to_type x) = x"
  by (cases x) (simp_all add: FunctionCode_from_type_def)

lemma CommandStatus_roundtrip [simp]: "CommandStatus_from_type (CommandStatus_to_type x) = x"
  by (cases x) (simp_all add: CommandStatus_from_type_def)

lemma OperationType_roundtrip [simp]: "OperationType_from_type (OperationType_to_type x) = x"
  by (cases x) (simp_all add: OperationType_from_type_def)

lemma TripCloseCode_roundtrip [simp]: "TripCloseCode_from_type (TripCloseCode_to_type x) = Some x"
  by (cases x) (simp_all add: TripCloseCode_from_type_def)

lemma two_bits: "x AND 3 = 0 \<or> x AND 3 = 1 \<or> x AND 3 = 2 \<or> x AND 3 = (3 :: byte)"
proof -
  have "unat (x AND 3) \<le> 3" using word_and_le1 [of x 3] by (simp add: word_le_nat_alt)
  then have "unat (x AND 3) \<in> {0, 1, 2, 3}" by auto
  then show ?thesis by (simp add: word_unat_eq_iff)
qed

lemma trip_code_total: "\<exists>tc. TripCloseCode_from_type (x AND 3) = Some tc \<and> TripCloseCode_to_type tc = x AND 3"
  using two_bits [of x] by (auto simp: TripCloseCode_from_type_def)

lemma operation_code: "OperationType_from_type x \<noteq> Undefined \<Longrightarrow> OperationType_to_type (OperationType_from_type x) = x"
  by (auto simp: OperationType_from_type_def)

lemma bit_32: "(raw AND 0x20 = 0) = (\<not> bit (raw :: byte) 5)"
  using and_exp_eq_0_iff_not_bit [of raw 5] by simp

lemma less_8_cases: "n < 8 \<Longrightarrow> n = 0 \<or> n = 1 \<or> n = 2 \<or> n = 3 \<or> n = 4 \<or> n = 5 \<or> n = 6 \<or> n = (7 :: nat)"
  by auto

lemma control_code_bits:
  "(push_bit 6 (drop_bit 6 raw AND 3) AND 0xC0) OR (push_bit 5 (if raw AND 0x20 \<noteq> 0 then 1 else 0) AND 0x20)
     OR ((raw AND 15) AND 15) = raw AND (0xEF :: byte)"
proof (rule bit_word_eqI)
  fix n assume "n < LENGTH(8)"
  then have "n < 8" by simp
  from less_8_cases [OF this]
  show "bit ((push_bit 6 (drop_bit 6 raw AND 3) AND 0xC0) OR (push_bit 5 (if raw AND 0x20 \<noteq> 0 then 1 else 0) AND 0x20)
     OR ((raw AND 15) AND 15)) n = bit (raw AND (0xEF :: byte)) n"
    by (elim disjE) (simp_all add: bit_simps bit_32 bit_numeral_word_iff)
qed

text \<open>
  The control code of a control relay output block is coded without loss: reading the raw code of a
  block with a defined operation gives the block back; reading never fails, and writing what was
  read gives the octet back, but for the queue bit, whenever the operation is defined.
\<close>

theorem control_code_roundtrip:
  "(op \<noteq> Undefined \<longrightarrow> CROB_of_raw (rawCode (CROB_make op tc cl n on off st)) n on off st = Some (CROB_make op tc cl n on off st))
   \<and> (\<exists>b. CROB_of_raw raw n on off st = Some b
        \<and> (opType b \<noteq> Undefined \<longrightarrow> rawCode (CROB_make (opType b) (tcc b) (clear b) n on off st) = raw AND 0xEF))"
proof
  show "op \<noteq> Undefined \<longrightarrow> CROB_of_raw (rawCode (CROB_make op tc cl n on off st)) n on off st = Some (CROB_make op tc cl n on off st)"
    by (cases op; cases tc; cases cl) (simp_all add: CROB_of_raw_def CROB_make_def OperationType_from_type_def TripCloseCode_from_type_def)
  obtain tc where tc: "TripCloseCode_from_type (drop_bit 6 raw AND 3) = Some tc" "TripCloseCode_to_type tc = drop_bit 6 raw AND 3"
    using trip_code_total by blast
  have written: "rawCode (CROB_make (OperationType_from_type (raw AND 15)) tc (raw AND 0x20 \<noteq> 0) n on off st) = raw AND 0xEF"
    if "OperationType_from_type (raw AND 15) \<noteq> Undefined"
    by (simp only: CROB_make_def ControlRelayOutputBlock.select_convs tc operation_code [OF that] control_code_bits)
  show "\<exists>b. CROB_of_raw raw n on off st = Some b
        \<and> (opType b \<noteq> Undefined \<longrightarrow> rawCode (CROB_make (opType b) (tcc b) (clear b) n on off st) = raw AND 0xEF)"
    using written by (simp add: CROB_of_raw_def tc)
qed

lemma control_code_roundtrip_witness:
  "CROB_of_raw (rawCode (CROB_make LATCH_ON CLOSE False 1 100 100 SUCCESS)) 1 100 100 SUCCESS
     = Some (CROB_make LATCH_ON CLOSE False 1 100 100 SUCCESS)"
  using control_code_roundtrip [of LATCH_ON CLOSE False 1 100 100 SUCCESS] by simp

end
