(* ===== verification/Gw_Modbus.thy ===== *)
theory Gw_Modbus
  imports Gw_Config App_Types
begin

text \<open>
  The Modbus side of the gateway (\<open>RPI_slavednp3/src/Modbus.cpp\<close>): connecting, reading a point,
  and writing a register or a coil. \<open>libmodbus\<close> is not part of the repository: it is the record
  \<open>modbus_lib\<close> of functions over an arbitrary world, in which the network, the devices and
  \<open>errno\<close> live. A read gives the return code and the items that it stores. Every call of the
  library is also recorded in the field \<open>calls\<close>, so that the theorems can speak about the
  calls that a function makes and their order. The mutex that each function holds from before it
  connects until it returns is reflected by the functions being single steps.
\<close>

record 'w modbus_lib =
  new_tcp :: "string \<Rightarrow> int \<Rightarrow> 'w \<Rightarrow> nat option \<times> 'w"
  set_slave :: "nat \<Rightarrow> int \<Rightarrow> 'w \<Rightarrow> int \<times> 'w"
  set_response_timeout :: "nat \<Rightarrow> int \<Rightarrow> int \<Rightarrow> 'w \<Rightarrow> 'w"
  set_byte_timeout :: "nat \<Rightarrow> int \<Rightarrow> int \<Rightarrow> 'w \<Rightarrow> 'w"
  connect :: "nat \<Rightarrow> 'w \<Rightarrow> int \<times> 'w"
  close_ctx :: "nat \<Rightarrow> 'w \<Rightarrow> 'w"
  free_ctx :: "nat \<Rightarrow> 'w \<Rightarrow> 'w"
  read_bits :: "nat \<Rightarrow> int \<Rightarrow> int \<Rightarrow> 'w \<Rightarrow> (int \<times> byte list) \<times> 'w"
  read_input_bits :: "nat \<Rightarrow> int \<Rightarrow> int \<Rightarrow> 'w \<Rightarrow> (int \<times> byte list) \<times> 'w"
  read_registers :: "nat \<Rightarrow> int \<Rightarrow> int \<Rightarrow> 'w \<Rightarrow> (int \<times> u16 list) \<times> 'w"
  read_input_registers :: "nat \<Rightarrow> int \<Rightarrow> int \<Rightarrow> 'w \<Rightarrow> (int \<times> u16 list) \<times> 'w"
  write_register :: "nat \<Rightarrow> int \<Rightarrow> u16 \<Rightarrow> 'w \<Rightarrow> int \<times> 'w"
  write_registers :: "nat \<Rightarrow> int \<Rightarrow> u16 list \<Rightarrow> 'w \<Rightarrow> int \<times> 'w"
  write_bit :: "nat \<Rightarrow> int \<Rightarrow> int \<Rightarrow> 'w \<Rightarrow> int \<times> 'w"
  errno :: "'w \<Rightarrow> int"

datatype modbus_call =
    NewTcp string int "nat option"
  | SetSlave nat int int
  | SetResponseTimeout nat
  | SetByteTimeout nat
  | Connect nat int
  | Close nat
  | Free nat
  | Read nat bool bool int int int
  | WriteRegs nat int "u16 list" int
  | WriteBit nat int int int

record 'w gateway = config_state +
  dev :: 'w
  calls :: "modbus_call list"

definition log_call :: "modbus_call \<Rightarrow> 'w \<Rightarrow> ('w, 'a) gateway_scheme \<Rightarrow> ('w, 'a) gateway_scheme" where
  "log_call c w st = st\<lparr>dev := w, calls := calls st @ [c]\<rparr>"

section \<open>Lookup and status\<close>

fun FindCommandConfig :: "CommandPointConfig list \<Rightarrow> u16 \<Rightarrow> WriteTargetType \<Rightarrow> CommandPointConfig option" where
  "FindCommandConfig [] dnp3_index expected_target = None"
| "FindCommandConfig (cfg # configs) dnp3_index expected_target =
     (if cp_dnp3_index cfg = dnp3_index \<and> cp_target cfg = expected_target then Some cfg
      else FindCommandConfig configs dnp3_index expected_target)"

definition ETIMEDOUT :: int where "ETIMEDOUT = 110"
definition EINVAL :: int where "EINVAL = 22"

definition MapModbusErrnoToDNP3Status :: "'w modbus_lib \<Rightarrow> ('w, 'a) gateway_scheme \<Rightarrow> CommandStatus" where
  "MapModbusErrnoToDNP3Status L st =
     (if errno L (dev st) = ETIMEDOUT then TIMEOUT
      else if errno L (dev st) = EINVAL then FORMAT_ERROR
      else DOWNSTREAM_FAIL)"

definition c_str :: "string \<Rightarrow> string" where
  "c_str s = takeWhile (\<lambda>c. c \<noteq> CHR 0x00) s"

section \<open>Connections\<close>

definition close_and_free :: "'w modbus_lib \<Rightarrow> nat \<Rightarrow> ('w, 'a) gateway_scheme \<Rightarrow> ('w, 'a) gateway_scheme" where
  "close_and_free L ctx st =
     (let st = log_call (Close ctx) (close_ctx L ctx (dev st)) st
      in log_call (Free ctx) (free_ctx L ctx (dev st)) st)"

text \<open>The result is the context, or \<open>None\<close> when the function returns false.\<close>

definition CreateAndConnect ::
  "'w modbus_lib \<Rightarrow> string \<Rightarrow> int \<Rightarrow> int \<Rightarrow> ('w, 'a) gateway_scheme \<Rightarrow> nat option \<times> ('w, 'a) gateway_scheme" where
  "CreateAndConnect L ip port slave_id st =
     (let (ctx, w) = new_tcp L ip port (dev st);
          st = log_call (NewTcp ip port ctx) w st
      in case ctx of None \<Rightarrow> (None, st)
         | Some ctx \<Rightarrow>
             (let (rc, w) = set_slave L ctx slave_id (dev st);
                  st = log_call (SetSlave ctx slave_id rc) w st
              in if rc = - 1 then (None, log_call (Free ctx) (free_ctx L ctx (dev st)) st)
                 else
                   (let st = log_call (SetResponseTimeout ctx)
                               (set_response_timeout L ctx MODBUS_RESPONSE_TIMEOUT_SEC MODBUS_RESPONSE_TIMEOUT_USEC (dev st)) st;
                        st = log_call (SetByteTimeout ctx)
                               (set_byte_timeout L ctx MODBUS_BYTE_TIMEOUT_SEC MODBUS_BYTE_TIMEOUT_USEC (dev st)) st;
                        (rc, w) = connect L ctx (dev st);
                        st = log_call (Connect ctx rc) w st
                    in if rc = - 1 then (None, log_call (Free ctx) (free_ctx L ctx (dev st)) st)
                       else (Some ctx, st))))"

section \<open>Reading\<close>

text \<open>What a read stores is written over the front of the buffer.\<close>

definition store :: "'b list \<Rightarrow> 'b list \<Rightarrow> 'b list" where
  "store vals tab = take (length tab) vals @ drop (length vals) tab"

definition raw32 :: "u16 list \<Rightarrow> u32" where
  "raw32 tab_reg = push_bit 16 (ucast (tab_reg ! 0)) OR ucast (tab_reg ! 1)"

definition decode_value :: "ReadValueType \<Rightarrow> u16 list \<Rightarrow> byte list \<Rightarrow> double" where
  "decode_value type tab_reg tab_bit =
     (case type of
        CoilStatusBool \<Rightarrow> double_of_int (if tab_bit ! 0 \<noteq> 0 then 1 else 0)
      | InputStatusBool \<Rightarrow> double_of_int (if tab_bit ! 0 \<noteq> 0 then 1 else 0)
      | HoldingInt16 \<Rightarrow> double_of_int (sint (tab_reg ! 0))
      | InputInt16 \<Rightarrow> double_of_int (sint (tab_reg ! 0))
      | HoldingUInt16 \<Rightarrow> double_of_int (uint (tab_reg ! 0))
      | InputUInt16 \<Rightarrow> double_of_int (uint (tab_reg ! 0))
      | HoldingInt32 \<Rightarrow> double_of_int (sint (raw32 tab_reg))
      | InputInt32 \<Rightarrow> double_of_int (sint (raw32 tab_reg))
      | HoldingUInt32 \<Rightarrow> double_of_int (uint (raw32 tab_reg))
      | InputUInt32 \<Rightarrow> double_of_int (uint (raw32 tab_reg))
      | HoldingFloat32 \<Rightarrow> double_of_float_bits (raw32 tab_reg)
      | InputFloat32 \<Rightarrow> double_of_float_bits (raw32 tab_reg))"

definition ReadModbusPoint ::
  "'w modbus_lib \<Rightarrow> ReadPointConfig \<Rightarrow> ('w, 'a) gateway_scheme \<Rightarrow> double option \<times> ('w, 'a) gateway_scheme" where
  "ReadModbusPoint L point st =
     (let (ctx, st) = CreateAndConnect L (c_str (rp_ip point)) (rp_port point) (rp_slave_id point) st
      in case ctx of None \<Rightarrow> (None, st)
         | Some ctx \<Rightarrow>
             (let register_count = RegisterCountForType (rp_type point);
                  bits = IsDiscreteBitType (rp_type point);
                  primary = (if bits then IsCoilStatusType (rp_type point) else IsHoldingRegisterType (rp_type point));
                  ((rc, tab_bit, tab_reg), w) =
                    (if bits
                     then let ((rc, bs), w) = (if primary then read_bits L ctx (rp_address point) 1 (dev st)
                                               else read_input_bits L ctx (rp_address point) 1 (dev st))
                          in ((rc, store bs [0], [0, 0, 0, 0]), w)
                     else let ((rc, rs), w) = (if primary then read_registers L ctx (rp_address point) register_count (dev st)
                                               else read_input_registers L ctx (rp_address point) register_count (dev st))
                          in ((rc, [0], store rs [0, 0, 0, 0]), w));
                  st = log_call (Read ctx bits primary (rp_address point) (if bits then 1 else register_count) rc) w st
              in if bits \<and> rc = 1 \<or> \<not> bits \<and> rc = register_count
                 then (Some (decode_value (rp_type point) tab_reg tab_bit), close_and_free L ctx st)
                 else (None, close_and_free L ctx st)))"

section \<open>Writing\<close>

definition regs16 :: "int \<Rightarrow> u16 list" where
  "regs16 v = [word_of_int v, 0]"

definition regs32 :: "u32 \<Rightarrow> u16 list" where
  "regs32 raw = [ucast (drop_bit 16 raw AND 0xFFFF), ucast (raw AND 0xFFFF)]"

definition out_of_range :: "string \<Rightarrow> (CommandStatus \<times> string) + (u16 list \<times> int)" where
  "out_of_range type = Inl (OUT_OF_RANGE, ''Valor fora da faixa '' @ type @ ''.'')"

definition BuildHoldingRegisterWritePayload ::
  "env \<Rightarrow> CommandPointConfig \<Rightarrow> double \<Rightarrow> (CommandStatus \<times> string) + (u16 list \<times> int)" where
  "BuildHoldingRegisterWritePayload E cfg value =
     (if \<not> IsHoldingRegisterType (cp_value_type cfg)
      then Inl (NOT_SUPPORTED, ''O ponto de comando nao e Holding Register.'')
      else case cp_value_type cfg of
        HoldingInt16 \<Rightarrow>
          (let v = llround (llround_unspecified E) value
           in if v < - 32768 \<or> v > 32767 then out_of_range ''int16'' else Inr (regs16 v, 1))
      | HoldingUInt16 \<Rightarrow>
          (let v = llround (llround_unspecified E) value
           in if v < 0 \<or> v > 65535 then out_of_range ''uint16'' else Inr (regs16 v, 1))
      | HoldingInt32 \<Rightarrow>
          (let v = llround (llround_unspecified E) value
           in if v < - 2147483648 \<or> v > 2147483647 then out_of_range ''int32'' else Inr (regs32 (word_of_int v), 2))
      | HoldingUInt32 \<Rightarrow>
          (let v = llround (llround_unspecified E) value
           in if v < 0 \<or> v > 4294967295 then out_of_range ''uint32'' else Inr (regs32 (word_of_int v), 2))
      | HoldingFloat32 \<Rightarrow> Inr (regs32 (float_bits_of_double value), 2)
      | _ \<Rightarrow> Inl (NOT_SUPPORTED, ''Tipo de dado nao suportado para escrita Holding Register.''))"

definition destination_text :: "CommandPointConfig \<Rightarrow> string" where
  "destination_text cfg = ''ip='' @ cp_ip cfg @ '':'' @ show_int (cp_port cfg) @ '' id='' @ show_int (cp_slave_id cfg)
     @ '' target='' @ WriteTargetTypeToString (cp_target cfg)"

definition description_text :: "string \<Rightarrow> string" where
  "description_text d = '' desc='' @ [CHR 0x22] @ d @ [CHR 0x22]"

definition error_text :: "string \<Rightarrow> string" where
  "error_text e = '' erro='' @ [CHR 0x22] @ e @ [CHR 0x22]"

definition register_text :: "CommandPointConfig \<Rightarrow> string" where
  "register_text cfg = ''idx='' @ show_int (uint (cp_dnp3_index cfg)) @ '' '' @ destination_text cfg
     @ '' tipo='' @ ReadValueTypeToString (cp_value_type cfg) @ '' addr='' @ show_int (cp_modbus_address cfg)"

definition request_text :: "CommandPointConfig \<Rightarrow> int \<Rightarrow> double \<Rightarrow> string" where
  "request_text cfg register_count value = register_text cfg @ '' qtd='' @ show_int register_count @ '' value='' @ show_double value
     @ description_text (cp_description cfg)"

definition coil_text :: "CommandPointConfig \<Rightarrow> bool \<Rightarrow> string" where
  "coil_text cfg value = destination_text cfg @ '' addr='' @ show_int (cp_modbus_address cfg)
     @ '' value='' @ (if value then ''1'' else ''0'') @ description_text (cp_description cfg)"

definition register_write ::
  "'w modbus_lib \<Rightarrow> nat \<Rightarrow> CommandPointConfig \<Rightarrow> u16 list \<Rightarrow> int \<Rightarrow> 'w \<Rightarrow> int \<times> 'w" where
  "register_write L ctx cfg regs register_count w =
     (if register_count = 1 then write_register L ctx (cp_modbus_address cfg) (regs ! 0) w
      else write_registers L ctx (cp_modbus_address cfg) regs w)"

definition WriteHoldingRegister ::
  "env \<Rightarrow> 'w modbus_lib \<Rightarrow> CommandPointConfig \<Rightarrow> double \<Rightarrow> ('w, 'a) gateway_scheme \<Rightarrow> CommandStatus \<times> ('w, 'a) gateway_scheme" where
  "WriteHoldingRegister E L cfg value st =
     (case BuildHoldingRegisterWritePayload E cfg value of
        Inl (payload_status, payload_error) \<Rightarrow>
          (payload_status, LogLine E Error ''MODBUS-WRITE-PAYLOAD''
             (register_text cfg @ '' value='' @ show_double value @ description_text (cp_description cfg) @ error_text payload_error) st)
      | Inr (regs, register_count) \<Rightarrow>
          (let msg = request_text cfg register_count value;
               st = LogLine E Info ''MODBUS-WRITE-REQ'' msg st;
               (ctx, st) = CreateAndConnect L (c_str (cp_ip cfg)) (cp_port cfg) (cp_slave_id cfg) st
           in case ctx of None \<Rightarrow> (MapModbusErrnoToDNP3Status L st, st)
              | Some ctx \<Rightarrow>
                  (let (rc, w) = register_write L ctx cfg regs register_count (dev st);
                       st = log_call (WriteRegs ctx (cp_modbus_address cfg) (take (nat register_count) regs) rc) w st
                   in if register_count = 1 \<and> rc = 1 \<or> register_count > 1 \<and> rc = register_count
                      then (SUCCESS, close_and_free L ctx (LogLine E Info ''MODBUS-WRITE-OK'' msg st))
                      else
                        (let st = LogLine E Error ''MODBUS-WRITE''
                                    (msg @ error_text (modbus_strerror E (errno L (dev st)))) st;
                             st = close_and_free L ctx st
                         in (MapModbusErrnoToDNP3Status L st, st)))))"

definition WriteCoil ::
  "env \<Rightarrow> 'w modbus_lib \<Rightarrow> CommandPointConfig \<Rightarrow> bool \<Rightarrow> ('w, 'a) gateway_scheme \<Rightarrow> CommandStatus \<times> ('w, 'a) gateway_scheme" where
  "WriteCoil E L cfg value st =
     (let msg = coil_text cfg value;
          st = LogLine E Info ''MODBUS-WRITE-REQ'' msg st;
          (ctx, st) = CreateAndConnect L (c_str (cp_ip cfg)) (cp_port cfg) (cp_slave_id cfg) st
      in case ctx of None \<Rightarrow> (MapModbusErrnoToDNP3Status L st, st)
         | Some ctx \<Rightarrow>
             (let (rc, w) = write_bit L ctx (cp_modbus_address cfg) (if value then 1 else 0) (dev st);
                  st = log_call (WriteBit ctx (cp_modbus_address cfg) (if value then 1 else 0) rc) w st
              in if rc = 1
                 then (SUCCESS, close_and_free L ctx (LogLine E Info ''MODBUS-WRITE-OK'' msg st))
                 else
                   (let st = LogLine E Error ''MODBUS-WRITE'' (msg @ error_text (modbus_strerror E (errno L (dev st)))) st;
                        st = close_and_free L ctx st
                    in (MapModbusErrnoToDNP3Status L st, st))))"

section \<open>Use of the contexts\<close>

text \<open>
  The protocol of the library: a context is created, configured, connected, used, closed and
  freed; a context that could not be connected is freed without a close. There is at most one.
\<close>

datatype ctx_state = Idle | Opened nat | Connected nat | Closed nat

fun ctx_step :: "ctx_state \<Rightarrow> modbus_call \<Rightarrow> ctx_state option" where
  "ctx_step Idle (NewTcp ip port ctx) = Some (case ctx of None \<Rightarrow> Idle | Some c \<Rightarrow> Opened c)"
| "ctx_step (Opened c) (SetSlave d slave rc) = (if c = d then Some (Opened c) else None)"
| "ctx_step (Opened c) (SetResponseTimeout d) = (if c = d then Some (Opened c) else None)"
| "ctx_step (Opened c) (SetByteTimeout d) = (if c = d then Some (Opened c) else None)"
| "ctx_step (Opened c) (Connect d rc) = (if c = d then Some (if rc = - 1 then Opened c else Connected c) else None)"
| "ctx_step (Opened c) (Free d) = (if c = d then Some Idle else None)"
| "ctx_step (Connected c) (Read d bits primary addr n rc) = (if c = d then Some (Connected c) else None)"
| "ctx_step (Connected c) (WriteRegs d addr regs rc) = (if c = d then Some (Connected c) else None)"
| "ctx_step (Connected c) (WriteBit d addr v rc) = (if c = d then Some (Connected c) else None)"
| "ctx_step (Connected c) (Close d) = (if c = d then Some (Closed c) else None)"
| "ctx_step (Closed c) (Free d) = (if c = d then Some Idle else None)"
| "ctx_step s call = None"

fun ctx_run :: "ctx_state \<Rightarrow> modbus_call list \<Rightarrow> ctx_state option" where
  "ctx_run s [] = Some s"
| "ctx_run s (c # cs) = (case ctx_step s c of None \<Rightarrow> None | Some s' \<Rightarrow> ctx_run s' cs)"

definition ctx_of :: "('w, 'a) gateway_scheme \<Rightarrow> ctx_state option" where
  "ctx_of st = ctx_run Idle (calls st)"

lemma ctx_run_append: "ctx_run s (cs @ ds) = (case ctx_run s cs of None \<Rightarrow> None | Some s' \<Rightarrow> ctx_run s' ds)"
  by (induction cs arbitrary: s) (simp_all split: option.split)

lemma ctx_of_log_call [simp]: "ctx_of (log_call c w st) = (case ctx_of st of None \<Rightarrow> None | Some s \<Rightarrow> ctx_step s c)"
  by (simp add: ctx_of_def log_call_def ctx_run_append split: option.split)

lemma LogLine_gateway [simp]:
  "calls (LogLine E l sc t st) = calls st" "dev (LogLine E l sc t st) = dev st"
  by (simp_all add: LogLine_def Let_def)

lemma ctx_of_LogLine [simp]: "ctx_of (LogLine E l sc t st) = ctx_of st"
  by (simp add: ctx_of_def)

lemma ctx_of_close_and_free [simp]: "ctx_of st = Some (Connected c) \<Longrightarrow> ctx_of (close_and_free L c st) = Some Idle"
  by (simp add: close_and_free_def Let_def)

lemma CreateAndConnect_ctx:
  assumes "ctx_of st = Some Idle"
  shows "ctx_of (snd (CreateAndConnect L ip port slave st))
     = Some (case fst (CreateAndConnect L ip port slave st) of None \<Rightarrow> Idle | Some c \<Rightarrow> Connected c)"
  using assms by (simp add: CreateAndConnect_def Let_def split_beta split: option.split)

lemma ReadModbusPoint_ctx:
  assumes "ctx_of st = Some Idle"
  shows "ctx_of (snd (ReadModbusPoint L point st)) = Some Idle"
  using CreateAndConnect_ctx [OF assms, of L "c_str (rp_ip point)" "rp_port point" "rp_slave_id point"]
  by (simp add: ReadModbusPoint_def Let_def split_beta split: option.splits)

lemma WriteHoldingRegister_ctx:
  assumes "ctx_of st = Some Idle"
  shows "ctx_of (snd (WriteHoldingRegister E L cfg v st)) = Some Idle"
proof -
  have s: "ctx_of (LogLine E l sc t st) = Some Idle" for l sc t using assms by simp
  show ?thesis
    using assms CreateAndConnect_ctx [OF s, of L "c_str (cp_ip cfg)" "cp_port cfg" "cp_slave_id cfg"]
    by (auto simp: WriteHoldingRegister_def Let_def split_beta split: option.splits sum.splits)
qed

lemma WriteCoil_ctx:
  assumes "ctx_of st = Some Idle"
  shows "ctx_of (snd (WriteCoil E L cfg v st)) = Some Idle"
proof -
  have s: "ctx_of (LogLine E l sc t st) = Some Idle" for l sc t using assms by simp
  show ?thesis
    using assms CreateAndConnect_ctx [OF s, of L "c_str (cp_ip cfg)" "cp_port cfg" "cp_slave_id cfg"]
    by (auto simp: WriteCoil_def Let_def split_beta split: option.splits)
qed

lemmas modbus_ctx = ReadModbusPoint_ctx WriteHoldingRegister_ctx WriteCoil_ctx

section \<open>Registers and values\<close>

lemma length_store [simp]: "length (store vals tab) = length tab"
  by (simp add: store_def)

lemma raw32_regs32 [simp]: "raw32 (regs32 raw @ r) = raw"
proof (rule bit_word_eqI)
  fix n assume "n < LENGTH(32)"
  then have n: "n < 32" by simp
  have m: "(0xFFFF :: u32) = mask 16" by (simp add: mask_eq_exp_minus_1)
  show "bit (raw32 (regs32 raw @ r)) n = bit raw n"
    using n unfolding raw32_def regs32_def m by (auto simp: bit_simps)
qed

lemma sint_word16: "- 32768 \<le> v \<Longrightarrow> v \<le> 32767 \<Longrightarrow> sint (word_of_int v :: u16) = v"
  by (simp add: signed_of_int signed_take_bit_int_eq_self)

lemma sint_word32: "- 2147483648 \<le> v \<Longrightarrow> v \<le> 2147483647 \<Longrightarrow> sint (word_of_int v :: u32) = v"
  by (simp add: signed_of_int signed_take_bit_int_eq_self)

lemma length_regs32 [simp]: "length (regs32 raw) = 2"
  by (simp add: regs32_def)

lemma decode_payload:
  assumes "BuildHoldingRegisterWritePayload E cfg value = Inr (regs, n)"
  shows "length regs = 2 \<and> n = RegisterCountForType (cp_value_type cfg) \<and>
     decode_value (cp_value_type cfg) (regs @ r) bs =
       (if IsFloatType (cp_value_type cfg) then double_of_float_bits (float_bits_of_double value)
        else double_of_int (llround (llround_unspecified E) value))"
  using assms
  by (cases "cp_value_type cfg")
    (auto simp: BuildHoldingRegisterWritePayload_def Let_def type_defs decode_value_def out_of_range_def
      sint_word16 sint_word32 regs16_def length_regs32 uint_word_of_int split: if_splits)


section \<open>What is written, and where\<close>

text \<open>The writes in a sequence of calls, each with the address, port and unit of its context.\<close>

type_synonym destination = "string \<times> int \<times> int"

fun write_step :: "destination \<times> (destination \<times> modbus_call) list \<Rightarrow> modbus_call \<Rightarrow> destination \<times> (destination \<times> modbus_call) list" where
  "write_step ((ip, port, slave), ws) (NewTcp ip' port' ctx) = ((ip', port', slave), ws)"
| "write_step ((ip, port, slave), ws) (SetSlave ctx slave' rc) = ((ip, port, slave'), ws)"
| "write_step (d, ws) (WriteRegs ctx addr regs rc) = (d, ws @ [(d, WriteRegs ctx addr regs rc)])"
| "write_step (d, ws) (WriteBit ctx addr v rc) = (d, ws @ [(d, WriteBit ctx addr v rc)])"
| "write_step s call = s"

definition traced :: "('w, 'a) gateway_scheme \<Rightarrow> destination \<times> (destination \<times> modbus_call) list" where
  "traced st = foldl write_step (([], 0, 0), []) (calls st)"

definition written :: "('w, 'a) gateway_scheme \<Rightarrow> (destination \<times> modbus_call) list" where
  "written st = snd (traced st)"

lemma traced_log_call [simp]: "traced (log_call c w st) = write_step (traced st) c"
  by (simp add: traced_def log_call_def)

lemma traced_LogLine [simp]: "traced (LogLine E l sc t st) = traced st"
  by (simp add: traced_def)

lemma traced_cases: obtains ip port slave ws where "traced st = ((ip, port, slave), ws)"
  by (metis prod_cases3 surj_pair)

lemma traced_close_and_free [simp]: "traced (close_and_free L c st) = traced st"
  by (rule traced_cases [of st]) (simp add: close_and_free_def Let_def)

lemma CreateAndConnect_written:
  "snd (traced (snd (CreateAndConnect L ip port slave st))) = snd (traced st)"
  "fst (CreateAndConnect L ip port slave st) = Some c \<Longrightarrow>
     traced (snd (CreateAndConnect L ip port slave st)) = ((ip, port, slave), snd (traced st))"
  by (rule traced_cases [of st]; simp add: CreateAndConnect_def Let_def split_beta split: option.splits if_splits)+

lemma ReadModbusPoint_written: "written (snd (ReadModbusPoint L point st)) = written st"
proof -
  let ?r = "CreateAndConnect L (c_str (rp_ip point)) (rp_port point) (rp_slave_id point) st"
  have "snd (traced (snd ?r)) = snd (traced st)" by (rule CreateAndConnect_written)
  then show ?thesis
    by (cases "traced (snd ?r)") (auto simp: written_def ReadModbusPoint_def Let_def split_beta split: option.splits)
qed

lemma Map_not_success [simp]: "MapModbusErrnoToDNP3Status L st \<noteq> SUCCESS"
  by (simp add: MapModbusErrnoToDNP3Status_def)

lemma WriteCoil_written:
  "(\<exists>ctx rc. written (snd (WriteCoil E L cfg v st)) = written st
       @ [((c_str (cp_ip cfg), cp_port cfg, cp_slave_id cfg), WriteBit ctx (cp_modbus_address cfg) (if v then 1 else 0) rc)]
     \<and> (fst (WriteCoil E L cfg v st) = SUCCESS \<longleftrightarrow> rc = 1))
   \<or> written (snd (WriteCoil E L cfg v st)) = written st \<and> fst (WriteCoil E L cfg v st) \<noteq> SUCCESS"
proof -
  let ?st = "LogLine E Info ''MODBUS-WRITE-REQ'' (coil_text cfg v) st"
  let ?r = "CreateAndConnect L (c_str (cp_ip cfg)) (cp_port cfg) (cp_slave_id cfg) ?st"
  show ?thesis
  proof (cases "fst ?r")
    case None
    then show ?thesis
      using CreateAndConnect_written(1) [of L "c_str (cp_ip cfg)" "cp_port cfg" "cp_slave_id cfg" ?st]
      by (simp add: WriteCoil_def Let_def split_beta written_def)
  next
    case (Some c)
    note t = CreateAndConnect_written(2) [OF Some]
    show ?thesis by (auto simp: WriteCoil_def Let_def split_beta written_def Some t)
  qed
qed

lemma WriteHoldingRegister_written:
  assumes "BuildHoldingRegisterWritePayload E cfg v = Inr (regs, n)"
  shows "(\<exists>ctx rc. written (snd (WriteHoldingRegister E L cfg v st)) = written st
       @ [((c_str (cp_ip cfg), cp_port cfg, cp_slave_id cfg), WriteRegs ctx (cp_modbus_address cfg) (take (nat n) regs) rc)]
     \<and> (fst (WriteHoldingRegister E L cfg v st) = SUCCESS \<longleftrightarrow> rc = n))
   \<or> written (snd (WriteHoldingRegister E L cfg v st)) = written st \<and> fst (WriteHoldingRegister E L cfg v st) \<noteq> SUCCESS"
proof -
  let ?st = "LogLine E Info ''MODBUS-WRITE-REQ'' (request_text cfg n v) st"
  let ?r = "CreateAndConnect L (c_str (cp_ip cfg)) (cp_port cfg) (cp_slave_id cfg) ?st"
  have n: "n = 1 \<or> n = 2" using decode_payload [OF assms] RegisterCountForType_cases by metis
  show ?thesis
  proof (cases "fst ?r")
    case None
    then show ?thesis
      using CreateAndConnect_written(1) [of L "c_str (cp_ip cfg)" "cp_port cfg" "cp_slave_id cfg" ?st]
      by (simp add: WriteHoldingRegister_def Let_def split_beta written_def assms)
  next
    case (Some c)
    define st1 where "st1 = snd ?r"
    have r: "?r = (Some c, st1)" using Some by (simp add: st1_def prod_eq_iff)
    have t: "traced st1 = ((c_str (cp_ip cfg), cp_port cfg, cp_slave_id cfg), snd (traced st))"
      using CreateAndConnect_written(2) [OF Some] by (simp add: st1_def)
    define rw where "rw = register_write L c cfg regs n (dev st1)"
    have ok: "(n = 1 \<and> fst rw = 1 \<or> 1 < n \<and> fst rw = n) = (fst rw = n)" using n by auto
    show ?thesis
      by (intro disjI1 exI [of _ c] exI [of _ "fst rw"])
        (simp add: WriteHoldingRegister_def assms r Let_def split_beta rw_def [symmetric] ok written_def t)
  qed
qed

lemma payload_error:
  assumes "BuildHoldingRegisterWritePayload E cfg v = Inl (s, e)"
  shows "fst (WriteHoldingRegister E L cfg v st) = s" "calls (snd (WriteHoldingRegister E L cfg v st)) = calls st" "s \<noteq> SUCCESS"
proof -
  show "fst (WriteHoldingRegister E L cfg v st) = s" "calls (snd (WriteHoldingRegister E L cfg v st)) = calls st"
    by (simp_all add: WriteHoldingRegister_def assms)
  show "s \<noteq> SUCCESS" using assms
    by (cases "cp_value_type cfg")
      (auto simp: BuildHoldingRegisterWritePayload_def Let_def out_of_range_def type_defs split: if_splits)
qed

lemma written_calls: "calls a = calls b \<Longrightarrow> written a = written b"
  by (simp add: written_def traced_def)

lemma decode_front:
  assumes "n = 1 \<or> n = 2" "length regs = 2 \<and> n = RegisterCountForType type \<and> P"
  shows "decode_value type (store (take (nat n) regs) [0, 0, 0, 0]) [0] = decode_value type (regs @ [0, 0]) [0]"
proof -
  have "length regs = Suc (Suc 0)" using assms(2) by simp
  then obtain a b where r: "regs = [a, b]" by (auto simp: length_Suc_conv)
  have n: "n = RegisterCountForType type" using assms(2) by simp
  have "store (take 1 regs) [0, 0, 0, 0] = [a, 0, 0, 0]" "store (take 2 regs) [0, 0, 0, 0] = [a, b, 0, 0]"
    by (simp_all add: r store_def)
  then show ?thesis unfolding n
    by (cases type) (simp_all add: decode_value_def type_defs raw32_def r)
qed

section \<open>A device\<close>

text \<open>A library over a single device with holding registers, for the examples.\<close>

definition example_lib :: "(int \<Rightarrow> u16) modbus_lib" where
  "example_lib = \<lparr>new_tcp = (\<lambda>ip port w. (Some 1, w)), set_slave = (\<lambda>c s w. (0, w)),
     set_response_timeout = (\<lambda>c s u w. w), set_byte_timeout = (\<lambda>c s u w. w), connect = (\<lambda>c w. (0, w)),
     close_ctx = (\<lambda>c w. w), free_ctx = (\<lambda>c w. w),
     read_bits = (\<lambda>c a n w. ((- 1, []), w)), read_input_bits = (\<lambda>c a n w. ((- 1, []), w)),
     read_registers = (\<lambda>c a n w. ((n, map (\<lambda>k. w (a + int k)) [0..<nat n]), w)),
     read_input_registers = (\<lambda>c a n w. ((- 1, []), w)),
     write_register = (\<lambda>c a v w. (1, w(a := v))),
     write_registers = (\<lambda>c a vs w. (int (length vs), (\<lambda>k. if a \<le> k \<and> k < a + int (length vs) then vs ! nat (k - a) else w k))),
     write_bit = (\<lambda>c a v w. (- 1, w)), errno = (\<lambda>w. ETIMEDOUT)\<rparr>"

definition example_gateway :: "(int \<Rightarrow> u16) gateway" where
  "example_gateway = config_state.extend example_state \<lparr>dev = (\<lambda>k. 0), calls = []\<rparr>"

definition example_command :: CommandPointConfig where
  "example_command = analog_command_of example_point"

section \<open>The properties\<close>

text \<open>
  C18. Contexts of the Modbus library are used as the library asks: reading a point, writing a
  register and writing a coil, on every path, create at most one context, use it only after it
  has been connected, close it once if it was connected, free it exactly once, and never use it afterwards.
\<close>

theorem modbus_context_discipline:
  assumes "ctx_of st = Some Idle"
  shows "ctx_of (snd (ReadModbusPoint L point st)) = Some Idle
    \<and> ctx_of (snd (WriteHoldingRegister E L cfg v st)) = Some Idle
    \<and> ctx_of (snd (WriteCoil E L cfg b st)) = Some Idle"
  by (intro conjI modbus_ctx assms)

lemma modbus_context_discipline_witness:
  "ctx_of (snd (WriteCoil example_env example_lib example_command True example_gateway)) = Some Idle
   \<and> length (calls (snd (WriteCoil example_env example_lib example_command True example_gateway))) = 8"
proof
  show "ctx_of (snd (WriteCoil example_env example_lib example_command True example_gateway)) = Some Idle"
    using modbus_context_discipline [of example_gateway example_lib example_point example_env example_command double_zero True]
    by (simp add: ctx_of_def example_gateway_def config_state.defs)
  show "length (calls (snd (WriteCoil example_env example_lib example_command True example_gateway))) = 8"
    by (simp add: WriteCoil_def CreateAndConnect_def close_and_free_def log_call_def example_lib_def example_gateway_def
        config_state.defs Let_def)
qed

text \<open>
  C16. An analog command writes what the supervisor asked for. When the write of a finite value
  reports success, exactly one write has been made, to the address, port, unit and register of
  the command, with as many registers as the type has; and reading these registers back as the
  type of the point gives, for the integer types, an integer nearest to the value, and for the float
  type its single-precision rounding.
\<close>

theorem analog_write_reads_back:
  assumes "fst (WriteHoldingRegister E L cfg v st) = SUCCESS"
    and "real_of_double v = Some r" and "\<bar>r\<bar> < 9223372036854775807"
  shows "\<exists>ctx regs rc. written (snd (WriteHoldingRegister E L cfg v st)) = written st
      @ [((c_str (cp_ip cfg), cp_port cfg, cp_slave_id cfg), WriteRegs ctx (cp_modbus_address cfg) regs rc)]
    \<and> int (length regs) = RegisterCountForType (cp_value_type cfg) \<and> rc = RegisterCountForType (cp_value_type cfg)
    \<and> (if IsFloatType (cp_value_type cfg)
        then decode_value (cp_value_type cfg) (store regs [0, 0, 0, 0]) [0] = double_of_float_bits (float_bits_of_double v)
        else \<exists>k. decode_value (cp_value_type cfg) (store regs [0, 0, 0, 0]) [0] = double_of_int k \<and> \<bar>real_of_int k - r\<bar> \<le> 1 / 2)"
proof (cases "BuildHoldingRegisterWritePayload E cfg v")
  case (Inl e)
  then have e: "BuildHoldingRegisterWritePayload E cfg v = Inl (fst e, snd e)" by simp
  have "fst (WriteHoldingRegister E L cfg v st) \<noteq> SUCCESS"
    using payload_error(3) [OF e] by (simp add: payload_error(1) [OF e])
  with assms(1) show ?thesis by contradiction
next
  case (Inr p)
  then obtain regs n where b: "BuildHoldingRegisterWritePayload E cfg v = Inr (regs, n)" by (cases p) simp
  note d = decode_payload [OF b]
  obtain ctx rc where w: "written (snd (WriteHoldingRegister E L cfg v st)) = written st
      @ [((c_str (cp_ip cfg), cp_port cfg, cp_slave_id cfg), WriteRegs ctx (cp_modbus_address cfg) (take (nat n) regs) rc)]"
    and rc: "rc = n"
    using WriteHoldingRegister_written [OF b, of L st] assms(1) by blast
  have n: "n = 1 \<or> n = 2" using d RegisterCountForType_cases by metis
  have "decode_value (cp_value_type cfg) (store (take (nat n) regs) [0, 0, 0, 0]) [0]
      = decode_value (cp_value_type cfg) (regs @ [0, 0]) [0]"
    using n d by (rule decode_front)
  then show ?thesis
    using w rc d n llround_near [OF assms(2,3), of "llround_unspecified E"] by auto
qed

lemma analog_write_reads_back_witness:
  "\<exists>ctx regs rc. written (snd (WriteHoldingRegister example_env example_lib example_command (Finite True 5 (- 1)) example_gateway))
      = written example_gateway @ [((c_str ''10.0.0.5'', 502, 1), WriteRegs ctx 30 regs rc)]
    \<and> (\<exists>k. decode_value HoldingInt16 (store regs [0, 0, 0, 0]) [0] = double_of_int k \<and> \<bar>real_of_int k - (- 5 / 2)\<bar> \<le> 1 / 2)"
proof -
  have "fst (WriteHoldingRegister example_env example_lib example_command (Finite True 5 (- 1)) example_gateway) = SUCCESS"
    by (simp add: WriteHoldingRegister_def BuildHoldingRegisterWritePayload_def example_command_def analog_command_of_def
        example_point_def type_defs llround_exact_def llround_mag_def in_llong_def CreateAndConnect_def example_lib_def register_write_def Let_def)
  from analog_write_reads_back [OF this, of "- 5 / 2"] show ?thesis
    by (auto simp: example_command_def analog_command_of_def example_point_def type_defs power_int_def)
qed

end
