(* ===== verification/Gw_Dnp3.thy ===== *)
theory Gw_Dnp3
  imports Gw_Modbus
begin

text \<open>
  The DNP3 side of the gateway (\<open>RPI_slavednp3/src/Dnp3.cpp\<close>): the database configuration, the
  polling of the points and their publication, and the command handler. The updates that are
  applied to the outstation are recorded in the field \<open>applied\<close>. \<open>ConfigureDatabase\<close> counts with 16-bit
  indices up to and including the largest one, so its loops may not end; the result \<open>None\<close> stands for that.
  A body of \<open>PollPoint\<close> is three steps, because it takes three locks one after the other: read, update the
  state, publish.
\<close>

section \<open>Database configuration\<close>

datatype StaticBinaryVariation = Group1Var1 | Group1Var2
datatype EventBinaryVariation = Group2Var1 | Group2Var2 | Group2Var3
datatype EventAnalogVariation =
  Group32Var1 | Group32Var2 | Group32Var3 | Group32Var4 | Group32Var5 | Group32Var6 | Group32Var7 | Group32Var8
datatype StaticBinaryOutputStatusVariation = Group10Var2
datatype EventBinaryOutputStatusVariation = Group11Var1 | Group11Var2
datatype StaticAnalogOutputStatusVariation = Group40Var1 | Group40Var2 | Group40Var3 | Group40Var4
datatype EventAnalogOutputStatusVariation =
  Group42Var1 | Group42Var2 | Group42Var3 | Group42Var4 | Group42Var5 | Group42Var6 | Group42Var7 | Group42Var8

record ('s, 'e) EventConfig =
  svariation :: 's
  clazz :: PointClass
  evariation :: 'e

record ('s, 'e) DeadbandConfig = "('s, 'e) EventConfig" +
  deadband :: double

type_synonym BinaryConfig = "(StaticBinaryVariation, EventBinaryVariation) EventConfig"
type_synonym AnalogConfig = "(StaticAnalogVariation, EventAnalogVariation) DeadbandConfig"
type_synonym BOStatusConfig = "(StaticBinaryOutputStatusVariation, EventBinaryOutputStatusVariation) EventConfig"
type_synonym AOStatusConfig = "(StaticAnalogOutputStatusVariation, EventAnalogOutputStatusVariation) DeadbandConfig"

definition BinaryConfig_default :: BinaryConfig where
  "BinaryConfig_default = \<lparr>svariation = Group1Var2, clazz = Class1, evariation = Group2Var1\<rparr>"

definition AnalogConfig_default :: AnalogConfig where
  "AnalogConfig_default = \<lparr>svariation = Group30Var1, clazz = Class1, evariation = Group32Var1, deadband = double_zero\<rparr>"

definition BOStatusConfig_default :: BOStatusConfig where
  "BOStatusConfig_default = \<lparr>svariation = Group10Var2, clazz = Class1, evariation = Group11Var1\<rparr>"

definition AOStatusConfig_default :: AOStatusConfig where
  "AOStatusConfig_default = \<lparr>svariation = Group40Var1, clazz = Class1, evariation = Group42Var1, deadband = double_zero\<rparr>"

text \<open>The fields of \<open>DatabaseConfig\<close> that the gateway fills.\<close>

record GatewayDatabaseConfig =
  binary_input :: "u16 \<rightharpoonup> BinaryConfig"
  analog_input :: "u16 \<rightharpoonup> AnalogConfig"
  binary_output_status :: "u16 \<rightharpoonup> BOStatusConfig"
  analog_output_status :: "u16 \<rightharpoonup> AOStatusConfig"

definition DatabaseConfig_empty :: GatewayDatabaseConfig where
  "DatabaseConfig_empty = \<lparr>binary_input = Map.empty, analog_input = Map.empty, binary_output_status = Map.empty,
     analog_output_status = Map.empty\<rparr>"

fun scan_points :: "ReadPointConfig list \<Rightarrow> u16 \<times> u16 \<times> bool \<times> bool \<Rightarrow> u16 \<times> u16 \<times> bool \<times> bool" where
  "scan_points [] acc = acc"
| "scan_points (point # ps) (max_analog, max_binary, has_analog, has_binary) =
     scan_points ps
       (if PublishesAsDnp3Binary (rp_type point)
        then (max_analog, max max_binary (rp_dnp3_analog_index point), has_analog, True)
        else (max max_analog (rp_dnp3_analog_index point), max_binary, True, has_binary))"

definition set_analog :: "u16 \<Rightarrow> GatewayDatabaseConfig \<Rightarrow> GatewayDatabaseConfig" where
  "set_analog index config = config
     \<lparr>analog_input := (analog_input config)(index \<mapsto> AnalogConfig_default\<lparr>clazz := Class1, svariation := Group30Var1\<rparr>),
      analog_output_status := (analog_output_status config)
        (index \<mapsto> AOStatusConfig_default\<lparr>clazz := Class1, svariation := Group40Var1, evariation := Group42Var1\<rparr>)\<rparr>"

definition set_binary :: "u16 \<Rightarrow> GatewayDatabaseConfig \<Rightarrow> GatewayDatabaseConfig" where
  "set_binary index config = config
     \<lparr>binary_input := (binary_input config)
        (index \<mapsto> BinaryConfig_default\<lparr>clazz := Class1, svariation := Group1Var2, evariation := Group2Var2\<rparr>),
      binary_output_status := (binary_output_status config)
        (index \<mapsto> BOStatusConfig_default\<lparr>clazz := Class1, svariation := Group10Var2, evariation := Group11Var2\<rparr>)\<rparr>"

text \<open>\<open>for (uint16_t index = 0; index <= max; ++index)\<close>\<close>

partial_function (option) for_indices ::
  "(u16 \<Rightarrow> GatewayDatabaseConfig \<Rightarrow> GatewayDatabaseConfig) \<Rightarrow> u16 \<Rightarrow> u16 \<Rightarrow> GatewayDatabaseConfig \<Rightarrow> GatewayDatabaseConfig option" where
  "for_indices body index max_index config =
     (if index \<le> max_index then for_indices body (index + 1) max_index (body index config) else Some config)"

text \<open>\<open>operator[]\<close> makes a default entry when there is none.\<close>

definition at_index :: "'c \<Rightarrow> ('c \<Rightarrow> 'c) \<Rightarrow> u16 \<Rightarrow> (u16 \<rightharpoonup> 'c) \<Rightarrow> (u16 \<rightharpoonup> 'c)" where
  "at_index d f k m = m(k \<mapsto> f (case m k of None \<Rightarrow> d | Some c \<Rightarrow> c))"

definition configure_point :: "ReadPointConfig \<Rightarrow> GatewayDatabaseConfig \<Rightarrow> GatewayDatabaseConfig" where
  "configure_point point config =
     (if PublishesAsDnp3Binary (rp_type point)
      then config\<lparr>binary_input := at_index BinaryConfig_default
             (\<lambda>c. c\<lparr>clazz := Class1, svariation := Group1Var2, evariation := Group2Var2\<rparr>)
             (rp_dnp3_analog_index point) (binary_input config)\<rparr>
      else config\<lparr>analog_input := at_index AnalogConfig_default
             (\<lambda>c. c\<lparr>clazz := Class1, svariation := StaticVariationForType (rp_type point)\<rparr>)
             (rp_dnp3_analog_index point) (analog_input config)\<rparr>)"

definition ConfigureDatabase :: "ProfileConfig \<Rightarrow> GatewayDatabaseConfig option" where
  "ConfigureDatabase profile =
     (let config = DatabaseConfig_empty
      in if read_points profile = [] then Some config
         else
           (let (max_analog, max_binary, has_analog, has_binary) = scan_points (read_points profile) (0, 0, False, False)
            in case (if has_analog then for_indices set_analog 0 max_analog config else Some config) of
                 None \<Rightarrow> None
               | Some config \<Rightarrow>
                   (case (if has_binary then for_indices set_binary 0 max_binary config else Some config) of
                      None \<Rightarrow> None
                    | Some config \<Rightarrow> Some (fold configure_point (read_points profile) config))))"

section \<open>Publication\<close>

datatype Update = UpdateBinary bool byte u16 | UpdateAnalog double byte u16

record 'w system = "'w gateway" +
  point_states :: "ReadPointState list"
  applied :: "Update list list"

definition UpdateDNP3Values :: "Update list \<Rightarrow> ReadPointConfig \<Rightarrow> ReadPointState \<Rightarrow> Update list" where
  "UpdateDNP3Values builder point state =
     (let too_many_failures = (failure_count state \<ge> max_failures_before_zero);
          value_to_publish = (if too_many_failures then double_zero else analog_value state)
      in if PublishesAsDnp3Binary (rp_type point)
         then builder @ [UpdateBinary (double_nonzero value_to_publish) 0x01 (rp_dnp3_analog_index point)]
         else builder @ [UpdateAnalog value_to_publish 0x01 (rp_dnp3_analog_index point)])"

definition PublishPointToDNP3 :: "nat \<Rightarrow> ReadPointConfig \<Rightarrow> ('w, 'a) system_scheme \<Rightarrow> ('w, 'a) system_scheme" where
  "PublishPointToDNP3 point_index point st =
     (let builder = UpdateDNP3Values [] point (point_states st ! point_index)
      in st\<lparr>point_states := (point_states st)[point_index := (point_states st ! point_index)\<lparr>connection_changed := False\<rparr>],
            applied := applied st @ [builder]\<rparr>)"

definition initial_point_state :: "int \<Rightarrow> ReadPointState \<Rightarrow> ReadPointState" where
  "initial_point_state t state = state\<lparr>analog_value := double_zero, connection_status := False, connection_changed := True,
     failure_count := 0, last_change_time := t\<rparr>"

definition ApplyInitialStateToDNP3 :: "env \<Rightarrow> ReadPointConfig list \<Rightarrow> ('w, 'a) system_scheme \<Rightarrow> ('w, 'a) system_scheme" where
  "ApplyInitialStateToDNP3 E points st =
     (let states = map (initial_point_state (now E (clock st))) (take (length points) (point_states st));
          builder = fold (\<lambda>(point, state) builder. UpdateDNP3Values builder point state) (zip points states) []
      in st\<lparr>point_states := states @ drop (length points) (point_states st), applied := applied st @ [builder]\<rparr>)"

section \<open>Polling\<close>

definition poll_error_text :: "env \<Rightarrow> nat \<Rightarrow> ReadPointConfig \<Rightarrow> int \<Rightarrow> string" where
  "poll_error_text E point_index point err =
     ''idx='' @ show_nat point_index @ '' ip='' @ rp_ip point @ '':'' @ show_int (rp_port point)
     @ '' id='' @ show_int (rp_slave_id point) @ '' tipo='' @ ReadValueTypeToString (rp_type point)
     @ '' addr='' @ show_int (rp_address point) @ '' qtd='' @ show_int (rp_count point)
     @ description_text (rp_description point) @ error_text (modbus_strerror E err)"

definition poll_ok_text :: "nat \<Rightarrow> ReadPointConfig \<Rightarrow> double \<Rightarrow> string" where
  "poll_ok_text point_index point new_value =
     ''idx='' @ show_nat point_index @ '' ip='' @ rp_ip point @ '':'' @ show_int (rp_port point)
     @ '' id='' @ show_int (rp_slave_id point) @ '' tipo='' @ ReadValueTypeToString (rp_type point)
     @ '' addr='' @ show_int (rp_address point) @ '' dnp='' @ Dnp3PointTypeLabel (rp_type point)
     @ '' '' @ show_int (uint (rp_dnp3_analog_index point)) @ '' valor='' @ show_double new_value
     @ description_text (rp_description point)"

definition poll_state_text :: "nat \<Rightarrow> ReadPointConfig \<Rightarrow> int \<Rightarrow> string" where
  "poll_state_text point_index point failures =
     ''idx='' @ show_nat point_index @ '' ip='' @ rp_ip point @ '':'' @ show_int (rp_port point)
     @ '' id='' @ show_int (rp_slave_id point) @ '' failure_count='' @ show_int failures
     @ description_text (rp_description point)"

definition PollPoint_read ::
  "env \<Rightarrow> 'w modbus_lib \<Rightarrow> nat \<Rightarrow> ReadPointConfig \<Rightarrow> ('w, 'a) system_scheme \<Rightarrow> double option \<times> ('w, 'a) system_scheme" where
  "PollPoint_read E L point_index point st =
     (let (result, st) = ReadModbusPoint L point st
      in case result of
           Some new_value \<Rightarrow> (Some new_value, st)
         | None \<Rightarrow> (None, LogLine E Error ''MODBUS-READ'' (poll_error_text E point_index point (errno L (dev st))) st))"

definition PollPoint_update ::
  "env \<Rightarrow> nat \<Rightarrow> ReadPointConfig \<Rightarrow> double option \<Rightarrow> ('w, 'a) system_scheme \<Rightarrow> ('w, 'a) system_scheme" where
  "PollPoint_update E point_index point result st =
     (let state = point_states st ! point_index
      in case result of
           Some new_value \<Rightarrow>
             (let state = HandleCommunicationSuccess (now E (clock st)) (state\<lparr>analog_value := new_value\<rparr>);
                  st = st\<lparr>point_states := (point_states st)[point_index := state]\<rparr>
              in LogLine E Info ''MODBUS-READ-OK'' (poll_ok_text point_index point new_value) st)
         | None \<Rightarrow>
             (let state = HandleCommunicationFailure (now E (clock st)) state;
                  st = st\<lparr>point_states := (point_states st)[point_index := state]\<rparr>
              in LogLine E Warn ''MODBUS-STATE'' (poll_state_text point_index point (failure_count state)) st))"

section \<open>Command handler\<close>

fun OperationTypeToStringSafe :: "OperationType \<Rightarrow> string" where
  "OperationTypeToStringSafe LATCH_ON = ''LATCH_ON''"
| "OperationTypeToStringSafe LATCH_OFF = ''LATCH_OFF''"
| "OperationTypeToStringSafe PULSE_ON = ''PULSE_ON''"
| "OperationTypeToStringSafe PULSE_OFF = ''PULSE_OFF''"
| "OperationTypeToStringSafe op = ''UNKNOWN('' @ show_nat (unat (OperationType_to_type op)) @ '')''"

definition OperateTypeToStringSafe :: "OperateType \<Rightarrow> string" where
  "OperateTypeToStringSafe op = show_nat (unat (OperateType_to_type op))"

definition Select_CROB ::
  "env \<Rightarrow> CommandPointConfig list \<Rightarrow> ControlRelayOutputBlock \<Rightarrow> u16 \<Rightarrow> ('w, 'a) gateway_scheme \<Rightarrow> CommandStatus \<times> ('w, 'a) gateway_scheme" where
  "Select_CROB E binary_cmds command index st =
     (let cfg = FindCommandConfig binary_cmds index Coil;
          msg = ''index='' @ show_int (uint index) @ '' opType='' @ OperationTypeToStringSafe (opType command)
                  @ (if cfg \<noteq> None then '' aceito'' else '' nao_mapeado'');
          st = LogLine E (if cfg \<noteq> None then Info else Warn) ''DNP3-CMD-SELECT-CROB'' msg st
      in (if cfg \<noteq> None then SUCCESS else NOT_SUPPORTED, st))"

text \<open>The text of the source has the words \<open><< cfg->description <<\<close> inside its literal.\<close>

definition crob_write_text :: "CommandPointConfig \<Rightarrow> ControlRelayOutputBlock \<Rightarrow> u16 \<Rightarrow> bool \<Rightarrow> bool \<Rightarrow> string" where
  "crob_write_text cfg command index opType_known coil_value =
     ''index='' @ show_int (uint index) @ '' opType='' @ OperationTypeToStringSafe (opType command)
     @ '' conhecido='' @ (if opType_known then ''sim'' else ''nao'')
     @ '' valor_modbus='' @ (if coil_value then ''1'' else ''0'')
     @ '' destino='' @ cp_ip cfg @ '':'' @ show_int (cp_port cfg) @ '' id='' @ show_int (cp_slave_id cfg)
     @ '' coil_addr='' @ show_int (cp_modbus_address cfg) @ '' desc= << cfg->description << ''"

definition Operate_CROB ::
  "env \<Rightarrow> 'w modbus_lib \<Rightarrow> CommandPointConfig list \<Rightarrow> ControlRelayOutputBlock \<Rightarrow> u16 \<Rightarrow> OperateType
    \<Rightarrow> ('w, 'a) gateway_scheme \<Rightarrow> CommandStatus \<times> ('w, 'a) gateway_scheme" where
  "Operate_CROB E L binary_cmds command index operate_type st =
     (let found = FindCommandConfig binary_cmds index Coil;
          msg = ''index='' @ show_int (uint index) @ '' opType='' @ OperationTypeToStringSafe (opType command)
                  @ '' operateType='' @ OperateTypeToStringSafe operate_type
                  @ (if found \<noteq> None then '' recebido'' else '' nao_mapeado'');
          st = LogLine E (if found \<noteq> None then Info else Warn) ''DNP3-CMD-OPERATE-CROB'' msg st
      in case found of None \<Rightarrow> (NOT_SUPPORTED, st)
         | Some cfg \<Rightarrow>
             (let (coil_value, opType_known) =
                    (case opType command of
                       LATCH_ON \<Rightarrow> (True, True) | PULSE_ON \<Rightarrow> (True, True)
                     | LATCH_OFF \<Rightarrow> (False, True) | PULSE_OFF \<Rightarrow> (False, True)
                     | _ \<Rightarrow> (True, False));
                  st = LogLine E Info ''DNP3-CMD-CROB-WRITE'' (crob_write_text cfg command index opType_known coil_value) st;
                  (status, st) = WriteCoil E L cfg coil_value st;
                  st = LogLine E (if status = SUCCESS then Info else Error) ''DNP3-CMD-CROB-RESULT''
                         (''index='' @ show_int (uint index) @ '' resultado='' @ show_nat (unat (CommandStatus_to_type status))
                          @ '' valor_modbus='' @ (if coil_value then ''1'' else ''0'')) st
              in (status, st)))"

text \<open>The four analog output commands; a float is held as its bits.\<close>

datatype AnalogCommand =
    AnalogOutputInt16 u16
  | AnalogOutputInt32 u32
  | AnalogOutputFloat32 u32
  | AnalogOutputDouble64 double

fun command_value :: "AnalogCommand \<Rightarrow> double" where
  "command_value (AnalogOutputInt16 v) = double_of_int (sint v)"
| "command_value (AnalogOutputInt32 v) = double_of_int (sint v)"
| "command_value (AnalogOutputFloat32 v) = double_of_float_bits v"
| "command_value (AnalogOutputDouble64 v) = v"

fun command_type :: "AnalogCommand \<Rightarrow> string" where
  "command_type (AnalogOutputInt16 v) = ''AO16''"
| "command_type (AnalogOutputInt32 v) = ''AO32''"
| "command_type (AnalogOutputFloat32 v) = ''AO32F''"
| "command_type (AnalogOutputDouble64 v) = ''AO64F''"

definition target_text :: "CommandPointConfig option \<Rightarrow> string" where
  "target_text found =
     (case found of None \<Rightarrow> []
      | Some cfg \<Rightarrow> '' tipo_destino='' @ ReadValueTypeToString (cp_value_type cfg) @ '' addr='' @ show_int (cp_modbus_address cfg))"

definition LogAnalogSelect ::
  "env \<Rightarrow> string \<Rightarrow> u16 \<Rightarrow> double \<Rightarrow> CommandPointConfig option \<Rightarrow> ('w, 'a) gateway_scheme \<Rightarrow> ('w, 'a) gateway_scheme" where
  "LogAnalogSelect E scope index value cfg st =
     LogLine E (if cfg \<noteq> None then Info else Warn) scope
       (''index='' @ show_int (uint index) @ '' valor='' @ show_double value
        @ (if cfg \<noteq> None then '' aceito'' else '' nao_mapeado'') @ target_text cfg) st"

definition Select_Analog ::
  "env \<Rightarrow> CommandPointConfig list \<Rightarrow> AnalogCommand \<Rightarrow> u16 \<Rightarrow> ('w, 'a) gateway_scheme \<Rightarrow> CommandStatus \<times> ('w, 'a) gateway_scheme" where
  "Select_Analog E analog_cmds command index st =
     (let cfg = FindCommandConfig analog_cmds index HoldingRegister;
          st = LogAnalogSelect E (''DNP3-CMD-SELECT-'' @ command_type command) index (command_value command) cfg st
      in (if cfg \<noteq> None then SUCCESS else NOT_SUPPORTED, st))"

definition OperateAnalog ::
  "env \<Rightarrow> 'w modbus_lib \<Rightarrow> CommandPointConfig list \<Rightarrow> double \<Rightarrow> u16 \<Rightarrow> string \<Rightarrow> OperateType
    \<Rightarrow> ('w, 'a) gateway_scheme \<Rightarrow> CommandStatus \<times> ('w, 'a) gateway_scheme" where
  "OperateAnalog E L analog_cmds value index type operate_type st =
     (let found = FindCommandConfig analog_cmds index HoldingRegister;
          msg = ''index='' @ show_int (uint index) @ '' comando='' @ type
                  @ '' operateType='' @ OperateTypeToStringSafe operate_type @ '' valor='' @ show_double value
                  @ (if found \<noteq> None then '' recebido'' else '' nao_mapeado'') @ target_text found;
          st = LogLine E (if found \<noteq> None then Info else Warn) ''DNP3-CMD-OPERATE-AO'' msg st
      in case found of None \<Rightarrow> (NOT_SUPPORTED, st) | Some cfg \<Rightarrow> WriteHoldingRegister E L cfg value st)"

definition Operate_Analog ::
  "env \<Rightarrow> 'w modbus_lib \<Rightarrow> CommandPointConfig list \<Rightarrow> AnalogCommand \<Rightarrow> u16 \<Rightarrow> OperateType
    \<Rightarrow> ('w, 'a) gateway_scheme \<Rightarrow> CommandStatus \<times> ('w, 'a) gateway_scheme" where
  "Operate_Analog E L analog_cmds command index operate_type st =
     OperateAnalog E L analog_cmds (command_value command) index (command_type command) operate_type st"

section \<open>The counting loops\<close>

lemma for_indices_never:
  assumes "for_indices body index max_index config = Some c"
  shows "max_index \<noteq> - 1"
proof (rule for_indices.raw_induct [where P = "\<lambda>body index max_index config c. max_index \<noteq> - 1", OF _ assms])
  fix f body index max_index config c
  assume IH: "\<And>body index max_index config c. f body index max_index config = Some c \<Longrightarrow> max_index \<noteq> (- 1 :: u16)"
    and step: "(if index \<le> max_index then f body (index + 1) max_index (body index config) else Some config) = Some c"
  show "max_index \<noteq> - 1"
  proof (cases "index \<le> max_index")
    case True
    with step have "f body (index + 1) max_index (body index config) = Some c" by simp
    then show ?thesis by (rule IH)
  next
    case False
    then show ?thesis by auto
  qed
qed

lemma unat_max16: "unat (- 1 :: u16) = 65535"
  by (simp add: unsigned_minus_1_eq_mask mask_eq_exp_minus_1)

lemma unat_plus_one: "(k :: u16) \<noteq> - 1 \<Longrightarrow> unat (k + 1) = Suc (unat k)"
proof -
  assume "k \<noteq> - 1"
  then have "unat k \<noteq> 65535" by (metis unat_max16 word_unat_eq_iff)
  moreover have "unat k < 65536" using unsigned_less [of k, where ?'a = nat] by simp
  ultimately have "Suc (unat k) < 65536" by linarith
  then show ?thesis by (simp add: unat_word_ariths)
qed

lemma for_indices_ends:
  assumes "max_index \<noteq> - 1"
  shows "for_indices body index max_index config = Some (fold body (map of_nat [unat index ..< Suc (unat max_index)]) config)"
proof (induction "Suc (unat max_index) - unat index" arbitrary: index config)
  case 0
  then have "\<not> index \<le> max_index" by (simp add: word_le_nat_alt)
  with 0 show ?case by (simp add: for_indices.simps)
next
  case (Suc n)
  then have le: "index \<le> max_index" by (simp add: word_le_nat_alt)
  with assms have "index \<noteq> - 1" by (auto simp: word_order.extremum_unique)
  then have u: "unat (index + 1) = Suc (unat index)" by (rule unat_plus_one)
  have "for_indices body index max_index config = for_indices body (index + 1) max_index (body index config)"
    using le by (subst for_indices.simps) simp
  also have "\<dots> = Some (fold body (map of_nat [Suc (unat index) ..< Suc (unat max_index)]) (body index config))"
    using Suc(1) [of "index + 1"] Suc(2) by (simp add: u)
  also have "\<dots> = Some (fold body (map of_nat [unat index ..< Suc (unat max_index)]) config)"
    using le upt_conv_Cons [of "unat index" "Suc (unat max_index)"] by (simp add: word_le_nat_alt less_Suc_eq_le del: upt_Suc)
  finally show ?case .
qed

lemma for_indices_None: "for_indices body index (- 1) config = None"
  by (metis for_indices_never not_None_eq)

lemma indices_upto: "k \<in> set (map of_nat [unat (0 :: u16) ..< Suc (unat m)]) \<longleftrightarrow> k \<le> (m :: u16)"
proof
  assume "k \<le> m"
  then have "unat k \<in> set [unat (0 :: u16) ..< Suc (unat m)]" by (simp add: word_le_nat_alt less_Suc_eq_le del: upt_Suc)
  then have "(of_nat (unat k) :: u16) \<in> of_nat ` set [unat (0 :: u16) ..< Suc (unat m)]" by (rule imageI)
  then show "k \<in> set (map of_nat [unat (0 :: u16) ..< Suc (unat m)])" by (simp add: ucast_id del: upt_Suc)
next
  assume "k \<in> set (map of_nat [unat (0 :: u16) ..< Suc (unat m)])"
  then obtain n where "n < Suc (unat m)" "k = of_nat n" by (auto simp del: upt_Suc)
  then have "n \<le> unat m" "k = of_nat n" by simp_all
  then show "k \<le> m" by (metis le_unat_uoi word_le_nat_alt)
qed

section \<open>The loops over the points\<close>

abbreviation binary_point :: "ReadPointConfig \<Rightarrow> bool" where
  "binary_point p \<equiv> PublishesAsDnp3Binary (rp_type p)"

lemma scan_points_binary:
  "scan_points ps (ma, mb, ha, hb) = (ma', mb', ha', hb') \<Longrightarrow>
     hb' = (hb \<or> (\<exists>p \<in> set ps. binary_point p))
     \<and> (\<forall>k. k \<le> mb' \<longleftrightarrow> k \<le> mb \<or> (\<exists>p \<in> set ps. binary_point p \<and> k \<le> rp_dnp3_analog_index p))"
  by (induction ps arbitrary: ma mb ha hb) (auto split: if_splits simp: le_max_iff_disj)

lemma scan_points_analog:
  "scan_points ps (ma, mb, ha, hb) = (ma', mb', ha', hb') \<Longrightarrow>
     ha' = (ha \<or> (\<exists>p \<in> set ps. \<not> binary_point p))
     \<and> (\<forall>k. k \<le> ma' \<longleftrightarrow> k \<le> ma \<or> (\<exists>p \<in> set ps. \<not> binary_point p \<and> k \<le> rp_dnp3_analog_index p))"
  by (induction ps arbitrary: ma mb ha hb) (auto split: if_splits simp: le_max_iff_disj)

lemma fold_set_analog:
  "analog_input (fold set_analog ks c) = (\<lambda>k. if k \<in> set ks then Some AnalogConfig_default else analog_input c k)"
  "analog_output_status (fold set_analog ks c) = (\<lambda>k. if k \<in> set ks then Some AOStatusConfig_default else analog_output_status c k)"
  "binary_input (fold set_analog ks c) = binary_input c"
  "binary_output_status (fold set_analog ks c) = binary_output_status c"
  by (induction ks arbitrary: c)
    (auto simp: set_analog_def AnalogConfig_default_def AOStatusConfig_default_def intro!: ext)

lemma fold_set_binary:
  "binary_input (fold set_binary ks c) = (\<lambda>k. if k \<in> set ks then Some (BinaryConfig_default\<lparr>evariation := Group2Var2\<rparr>) else binary_input c k)"
  "binary_output_status (fold set_binary ks c)
     = (\<lambda>k. if k \<in> set ks then Some (BOStatusConfig_default\<lparr>evariation := Group11Var2\<rparr>) else binary_output_status c k)"
  "analog_input (fold set_binary ks c) = analog_input c"
  "analog_output_status (fold set_binary ks c) = analog_output_status c"
  by (induction ks arbitrary: c)
    (auto simp: set_binary_def BinaryConfig_default_def BOStatusConfig_default_def intro!: ext)

definition analog_at :: "u16 \<Rightarrow> ReadPointConfig list \<Rightarrow> ReadPointConfig option" where
  "analog_at k ps = find (\<lambda>p. \<not> binary_point p \<and> rp_dnp3_analog_index p = k) (rev ps)"

lemma fold_configure_status:
  "analog_output_status (fold configure_point ps c) = analog_output_status c"
  "binary_output_status (fold configure_point ps c) = binary_output_status c"
  by (induction ps arbitrary: c) (auto simp: configure_point_def)

lemma fold_configure_binary:
  assumes "\<And>k b. binary_input c k = Some b \<Longrightarrow> b = BinaryConfig_default\<lparr>evariation := Group2Var2\<rparr>"
    and "\<And>p. p \<in> set ps \<Longrightarrow> binary_point p \<Longrightarrow> binary_input c (rp_dnp3_analog_index p) \<noteq> None"
  shows "binary_input (fold configure_point ps c) = binary_input c"
  using assms
proof (induction ps arbitrary: c)
  case (Cons p ps)
  have "binary_input (configure_point p c) = binary_input c"
  proof (cases "binary_point p")
    case True
    then obtain b where "binary_input c (rp_dnp3_analog_index p) = Some b" using Cons.prems(2) [of p] by auto
    moreover from this have "b = BinaryConfig_default\<lparr>evariation := Group2Var2\<rparr>" by (rule Cons.prems(1))
    ultimately show ?thesis using True
      by (simp add: configure_point_def at_index_def BinaryConfig_default_def fun_upd_idem)
  qed (simp add: configure_point_def)
  then show ?case
    using Cons.IH [of "configure_point p c"] Cons.prems by (metis (full_types) fold_simps(2) list.set_intros(2))
qed simp

lemma fold_configure_analog:
  assumes "\<And>k a. analog_input c k = Some a \<Longrightarrow> a\<lparr>svariation := Group30Var1\<rparr> = AnalogConfig_default"
    and "\<And>p. p \<in> set ps \<Longrightarrow> \<not> binary_point p \<Longrightarrow> analog_input c (rp_dnp3_analog_index p) \<noteq> None"
  shows "analog_input (fold configure_point ps c) k =
    (case analog_at k ps of
       Some p \<Rightarrow> Some (AnalogConfig_default\<lparr>svariation := StaticVariationForType (rp_type p)\<rparr>)
     | None \<Rightarrow> analog_input c k)"
  using assms
proof (induction ps rule: rev_induct)
  case (snoc p ps)
  have IH: "analog_input (fold configure_point ps c) k =
    (case analog_at k ps of
       Some p \<Rightarrow> Some (AnalogConfig_default\<lparr>svariation := StaticVariationForType (rp_type p)\<rparr>)
     | None \<Rightarrow> analog_input c k)" using snoc by simp
  show ?case
  proof (cases "\<not> binary_point p \<and> rp_dnp3_analog_index p = k")
    case False
    then have "analog_input (configure_point p d) k = analog_input d k" for d
      by (auto simp: configure_point_def at_index_def)
    moreover have "analog_at k (ps @ [p]) = analog_at k ps" using False by (auto simp: analog_at_def)
    ultimately show ?thesis using IH by simp
  next
    case True
    obtain a where a: "analog_input (fold configure_point ps c) k = Some a" "a\<lparr>svariation := Group30Var1\<rparr> = AnalogConfig_default"
      using IH snoc.prems(1) [of k] snoc.prems(2) [of p] True
      by (cases "analog_at k ps") (auto simp: AnalogConfig_default_def)
    then have "a\<lparr>clazz := Class1, svariation := v\<rparr> = AnalogConfig_default\<lparr>svariation := v\<rparr>" for v
      by (cases a) (auto simp: AnalogConfig_default_def)
    moreover have "analog_input (configure_point p d) k = at_index AnalogConfig_default
        (\<lambda>c. c\<lparr>clazz := Class1, svariation := StaticVariationForType (rp_type p)\<rparr>) k (analog_input d) k" for d
      using True by (simp add: configure_point_def)
    ultimately show ?thesis using True a(1) by (simp add: at_index_def analog_at_def)
  qed
qed (simp add: analog_at_def)


section \<open>The database\<close>

definition indices :: "u16 \<Rightarrow> u16 list" where
  "indices m = map of_nat [unat (0 :: u16) ..< Suc (unat m)]"

lemma set_indices [simp]: "k \<in> set (indices m) \<longleftrightarrow> k \<le> m"
  unfolding indices_def by (rule indices_upto)

lemma for_indices_result:
  "for_indices body 0 m config = (if m = - 1 then None else Some (fold body (indices m) config))"
  using for_indices_ends [of m body 0 config] by (simp add: for_indices_None indices_def)

definition analog_upto :: "u16 \<Rightarrow> ReadPointConfig list \<Rightarrow> bool" where
  "analog_upto k ps = (\<exists>p \<in> set ps. \<not> binary_point p \<and> k \<le> rp_dnp3_analog_index p)"

definition binary_upto :: "u16 \<Rightarrow> ReadPointConfig list \<Rightarrow> bool" where
  "binary_upto k ps = (\<exists>p \<in> set ps. binary_point p \<and> k \<le> rp_dnp3_analog_index p)"

definition base_config :: "ReadPointConfig list \<Rightarrow> GatewayDatabaseConfig" where
  "base_config ps =
     \<lparr>binary_input = (\<lambda>k. if binary_upto k ps then Some (BinaryConfig_default\<lparr>evariation := Group2Var2\<rparr>) else None),
      analog_input = (\<lambda>k. if analog_upto k ps then Some AnalogConfig_default else None),
      binary_output_status = (\<lambda>k. if binary_upto k ps then Some (BOStatusConfig_default\<lparr>evariation := Group11Var2\<rparr>) else None),
      analog_output_status = (\<lambda>k. if analog_upto k ps then Some AOStatusConfig_default else None)\<rparr>"

lemma upto_zero: "analog_upto k ps \<Longrightarrow> analog_upto 0 ps" "binary_upto k ps \<Longrightarrow> binary_upto 0 ps"
  by (auto simp: analog_upto_def binary_upto_def)

lemma scan_points_result:
  assumes "scan_points ps (0, 0, False, False) = (ma, mb, ha, hb)"
  shows "ha = analog_upto 0 ps" "hb = binary_upto 0 ps"
    and "ha \<Longrightarrow> k \<le> ma \<longleftrightarrow> analog_upto k ps" "hb \<Longrightarrow> k \<le> mb \<longleftrightarrow> binary_upto k ps"
  using scan_points_analog [OF assms] scan_points_binary [OF assms] by (auto simp: analog_upto_def binary_upto_def)

lemma ConfigureDatabase_eq:
  "ConfigureDatabase profile =
     (if analog_upto (- 1) (read_points profile) \<or> binary_upto (- 1) (read_points profile) then None
      else Some (fold configure_point (read_points profile) (base_config (read_points profile))))"
proof (cases "read_points profile = []")
  case True
  then show ?thesis
    by (simp add: ConfigureDatabase_def analog_upto_def binary_upto_def base_config_def DatabaseConfig_empty_def)
next
  case False
  let ?ps = "read_points profile"
  obtain ma mb ha hb where s: "scan_points ?ps (0, 0, False, False) = (ma, mb, ha, hb)" by (metis prod_cases4)
  note r = scan_points_result [OF s]
  have a: "ha \<and> ma = - 1 \<longleftrightarrow> analog_upto (- 1) ?ps"
    using r(1) r(3) [of "- 1"] upto_zero(1) [of "- 1" ?ps] by (metis word_order.extremum_unique)
  have b: "hb \<and> mb = - 1 \<longleftrightarrow> binary_upto (- 1) ?ps"
    using r(2) r(4) [of "- 1"] upto_zero(2) [of "- 1" ?ps] by (metis word_order.extremum_unique)
  let ?A = "if ha then fold set_analog (indices ma) DatabaseConfig_empty else DatabaseConfig_empty"
  let ?B = "if hb then fold set_binary (indices mb) ?A else ?A"
  have "?B = base_config ?ps"
    using r upto_zero(1) [of _ ?ps] upto_zero(2) [of _ ?ps]
    by (auto simp: base_config_def DatabaseConfig_empty_def fold_set_analog fold_set_binary intro!: GatewayDatabaseConfig.equality ext)
  then show ?thesis
    using False a b by (auto simp: ConfigureDatabase_def s Let_def for_indices_result split: option.split)
qed

lemma minus_one_le: "(- 1 :: u16) \<le> k \<longleftrightarrow> k = - 1"
  by (auto simp: word_order.extremum_unique)

lemma analog_at_upto: "analog_at k ps = Some p \<Longrightarrow> analog_upto k ps"
  by (auto simp: analog_at_def analog_upto_def find_Some_iff in_set_conv_nth) (metis length_rev nth_mem order_refl set_rev)

section \<open>The properties\<close>

text \<open>
  C21. \<open>ConfigureDatabase\<close> returns exactly when no point has the DNP3 index 65535. With such a point
  the 16-bit loop variable never exceeds the largest index and the gateway hangs before it starts.
\<close>

theorem ConfigureDatabase_returns:
  "ConfigureDatabase profile = None \<longleftrightarrow> (\<exists>p \<in> set (read_points profile). rp_dnp3_analog_index p = - 1)"
  by (auto simp: ConfigureDatabase_eq analog_upto_def binary_upto_def minus_one_le)

text \<open>
  C24. The database that is built. Analog inputs and analog output status exist for every index up to the
  largest one of an analog point, binary inputs and binary output status up to the largest one of a
  binary point; an analog input has the variation of the last point with its index and the 32-bit integer
  variation when there is none; all are in class 1.
\<close>

theorem database_of_profile:
  assumes "ConfigureDatabase profile = Some c"
  shows "analog_input c k = (case analog_at k (read_points profile) of
        Some p \<Rightarrow> Some (AnalogConfig_default\<lparr>svariation := StaticVariationForType (rp_type p)\<rparr>)
      | None \<Rightarrow> if analog_upto k (read_points profile) then Some AnalogConfig_default else None)
    \<and> analog_output_status c k = (if analog_upto k (read_points profile) then Some AOStatusConfig_default else None)
    \<and> binary_input c k
        = (if binary_upto k (read_points profile) then Some (BinaryConfig_default\<lparr>evariation := Group2Var2\<rparr>) else None)
    \<and> binary_output_status c k
        = (if binary_upto k (read_points profile) then Some (BOStatusConfig_default\<lparr>evariation := Group11Var2\<rparr>) else None)"
proof -
  let ?ps = "read_points profile" and ?b = "base_config (read_points profile)"
  have base: "analog_input ?b k = (if analog_upto k ?ps then Some AnalogConfig_default else None)"
    "analog_output_status ?b k = (if analog_upto k ?ps then Some AOStatusConfig_default else None)"
    "binary_input ?b k = (if binary_upto k ?ps then Some (BinaryConfig_default\<lparr>evariation := Group2Var2\<rparr>) else None)"
    "binary_output_status ?b k = (if binary_upto k ?ps then Some (BOStatusConfig_default\<lparr>evariation := Group11Var2\<rparr>) else None)"
    by (simp_all add: base_config_def)
  have c: "c = fold configure_point ?ps ?b" using assms by (auto simp: ConfigureDatabase_eq split: if_splits)
  have "analog_input c k = (case analog_at k ?ps of
        Some p \<Rightarrow> Some (AnalogConfig_default\<lparr>svariation := StaticVariationForType (rp_type p)\<rparr>) | None \<Rightarrow> analog_input ?b k)"
    unfolding c
    by (rule fold_configure_analog) (auto simp: base_config_def AnalogConfig_default_def analog_upto_def split: if_splits)
  moreover have "binary_input c = binary_input ?b"
    unfolding c by (rule fold_configure_binary) (auto simp: base_config_def binary_upto_def split: if_splits)
  ultimately show ?thesis by (simp add: c fold_configure_status base split: option.split)
qed

lemma database_of_profile_witness:
  "\<exists>c. ConfigureDatabase (ProfileConfig_init\<lparr>read_points := [example_point]\<rparr>) = Some c
     \<and> analog_input c 7 = Some (AnalogConfig_default\<lparr>svariation := Group30Var2\<rparr>) \<and> analog_input c 8 = None"
proof -
  let ?p = "ProfileConfig_init\<lparr>read_points := [example_point]\<rparr>"
  have "ConfigureDatabase ?p \<noteq> None"
    by (simp add: ConfigureDatabase_eq analog_upto_def binary_upto_def example_point_def minus_one_le)
  then obtain c where c: "ConfigureDatabase ?p = Some c" by auto
  from database_of_profile [OF c, of 7] database_of_profile [OF c, of 8] c show ?thesis
    by (simp add: analog_at_def analog_upto_def example_point_def type_defs StaticVariationForType_def)
qed

lemma fold_failures:
  "failure_count s = 0 \<Longrightarrow> failure_count (fold HandleCommunicationFailure ts s) = int (length ts)
     \<and> analog_value (fold HandleCommunicationFailure ts s) = (if length ts < 5 then analog_value s else double_zero)"
proof (induction ts arbitrary: s rule: rev_induct)
  case (snoc t ts)
  then show ?case by (auto simp: max_failures_before_zero_def)
qed simp

text \<open>
  C25. After a successful read of the value \<open>v\<close>, the failed reads that follow publish \<open>v\<close> while they are
  fewer than five and zero from the fifth on; the flag of the update is ONLINE all the time, so the
  DNP3 master cannot see that the device does not answer.
\<close>

theorem failures_publish_stale_then_zero:
  "UpdateDNP3Values builder point (fold HandleCommunicationFailure ts (HandleCommunicationSuccess t (state\<lparr>analog_value := v\<rparr>)))
     = builder @ [let value = (if length ts < 5 then v else double_zero)
                  in if PublishesAsDnp3Binary (rp_type point)
                     then UpdateBinary (double_nonzero value) 0x01 (rp_dnp3_analog_index point)
                     else UpdateAnalog value 0x01 (rp_dnp3_analog_index point)]"
proof -
  let ?s = "HandleCommunicationSuccess t (state\<lparr>analog_value := v\<rparr>)"
  have "failure_count ?s = 0" "analog_value ?s = v" by (simp_all add: HandleCommunicationSuccess_def Let_def)
  with fold_failures [of ?s ts] show ?thesis by (simp add: UpdateDNP3Values_def max_failures_before_zero_def Let_def)
qed

definition crob_coil_value :: "OperationType \<Rightarrow> bool" where
  "crob_coil_value op = (op \<noteq> LATCH_OFF \<and> op \<noteq> PULSE_OFF)"

lemma crob_value: "fst (case op of LATCH_ON \<Rightarrow> (True, True) | PULSE_ON \<Rightarrow> (True, True) | LATCH_OFF \<Rightarrow> (False, True)
    | PULSE_OFF \<Rightarrow> (False, True) | _ \<Rightarrow> (True, False)) = crob_coil_value op"
  by (cases op) (simp_all add: crob_coil_value_def)

lemma Operate_CROB_mapped:
  assumes "FindCommandConfig cmds index Coil = Some cfg"
  shows "\<exists>l sc t st'. Operate_CROB E L cmds command index op st
      = (fst (WriteCoil E L cfg (crob_coil_value (opType command)) st'),
         LogLine E l sc t (snd (WriteCoil E L cfg (crob_coil_value (opType command)) st')))
    \<and> written st' = written st"
  unfolding crob_value [symmetric] Operate_CROB_def assms
  by (auto simp: Let_def split_beta intro!: exI written_calls)

text \<open>
  C17. A control relay output block that is operated. When no coil is mapped to its index, nothing
  is written and the status is \<open>NOT_SUPPORTED\<close>. Otherwise at most one coil is written, the configured one, with 0 for
  LATCH_OFF and PULSE_OFF and 1 for every other operation, NUL and undefined codes included; the status is
  \<open>SUCCESS\<close> exactly when it was written and the device took it.
\<close>

theorem crob_effect:
  "case FindCommandConfig cmds index Coil of
     None \<Rightarrow> fst (Operate_CROB E L cmds command index op st) = NOT_SUPPORTED
       \<and> calls (snd (Operate_CROB E L cmds command index op st)) = calls st
   | Some cfg \<Rightarrow>
       (\<exists>ctx rc. written (snd (Operate_CROB E L cmds command index op st)) = written st
          @ [((c_str (cp_ip cfg), cp_port cfg, cp_slave_id cfg),
              WriteBit ctx (cp_modbus_address cfg) (if opType command \<in> {LATCH_OFF, PULSE_OFF} then 0 else 1) rc)]
          \<and> (fst (Operate_CROB E L cmds command index op st) = SUCCESS \<longleftrightarrow> rc = 1))
       \<or> written (snd (Operate_CROB E L cmds command index op st)) = written st
          \<and> fst (Operate_CROB E L cmds command index op st) \<noteq> SUCCESS"
proof (cases "FindCommandConfig cmds index Coil")
  case None
  then show ?thesis by (simp add: Operate_CROB_def Let_def)
next
  case (Some cfg)
  from Operate_CROB_mapped [OF Some] obtain l sc t st' where
    o: "Operate_CROB E L cmds command index op st
      = (fst (WriteCoil E L cfg (crob_coil_value (opType command)) st'),
         LogLine E l sc t (snd (WriteCoil E L cfg (crob_coil_value (opType command)) st')))"
    and w: "written st' = written st" by blast
  have v: "(if opType command \<in> {LATCH_OFF, PULSE_OFF} then 0 else 1) = (if crob_coil_value (opType command) then 1 else (0 :: int))"
    by (simp add: crob_coil_value_def)
  have l: "written (LogLine E l sc t s) = written s" for s by (simp add: written_def)
  show ?thesis
    using WriteCoil_written [of E L cfg "crob_coil_value (opType command)" st'] unfolding Some option.case o v fst_conv snd_conv l w .
qed

lemma Operate_Analog_mapped:
  assumes "FindCommandConfig cmds index HoldingRegister = Some cfg"
  shows "\<exists>l sc t. Operate_Analog E L cmds command index op st
     = WriteHoldingRegister E L cfg (command_value command) (LogLine E l sc t st)"
  unfolding Operate_Analog_def OperateAnalog_def assms Let_def option.case by (intro exI) (rule refl)

text \<open>
  The select of a command looks for the same mapping as the operate: it answers \<open>SUCCESS\<close> when the
  index is mapped and \<open>NOT_SUPPORTED\<close> otherwise, and never calls the Modbus library; the operate of an
  index that is not mapped answers \<open>NOT_SUPPORTED\<close> and calls nothing either.
\<close>

theorem select_checks_the_mapping:
  "fst (Select_CROB E cmds command index st) = (if FindCommandConfig cmds index Coil = None then NOT_SUPPORTED else SUCCESS)
   \<and> calls (snd (Select_CROB E cmds command index st)) = calls st
   \<and> fst (Select_Analog E cmds acommand index st) = (if FindCommandConfig cmds index HoldingRegister = None then NOT_SUPPORTED else SUCCESS)
   \<and> calls (snd (Select_Analog E cmds acommand index st)) = calls st
   \<and> (case FindCommandConfig cmds index HoldingRegister of
        None \<Rightarrow> fst (Operate_Analog E L cmds acommand index op st) = NOT_SUPPORTED
          \<and> calls (snd (Operate_Analog E L cmds acommand index op st)) = calls st
      | Some cfg \<Rightarrow> \<exists>l sc t. Operate_Analog E L cmds acommand index op st
            = WriteHoldingRegister E L cfg (command_value acommand) (LogLine E l sc t st))"
  using Operate_Analog_mapped [of cmds index _ E L acommand op st]
  by (simp add: Select_CROB_def Select_Analog_def LogAnalogSelect_def Let_def split: option.split)
    (simp add: Operate_Analog_def OperateAnalog_def Let_def)

end
