(* ===== verification/Gw_Http.thy ===== *)
theory Gw_Http
  imports Gw_Config
begin

text \<open>
  The web interface and the console of the gateway (\<open>RPI_slavednp3/src/Interface.cpp\<close>): the form that
  adds a point to the points file, removal and clearing, the page, the responses, the
  dispatch of a request, and the console commands. A request is the bytes that one \<open>recv\<close>
  returned; what is done with the socket is a list of \<open>sock\<close> actions. \<open>SendAll\<close> is modelled on its own,
  over the results of the calls of \<open>send\<close>. The state description \<open>BuildStateJson\<close>, which has no caller, is not modelled.
\<close>

datatype sock = SendBytes string | Shutdown | CloseFd

abbreviation dq :: string where "dq \<equiv> [CHR 0x22]"
abbreviation sq :: string where "sq \<equiv> [CHR 0x27]"
abbreviation crlf :: string where "crlf \<equiv> [CHR 0x0D, CHR 0x0A]"

section \<open>Console\<close>

definition LogInfo :: "env \<Rightarrow> string \<Rightarrow> string \<Rightarrow> 'a globals_scheme \<Rightarrow> 'a globals_scheme" where
  "LogInfo E scope t st = LogLine E Info scope t st"

definition read_mapping_text :: "ReadPointConfig \<Rightarrow> string" where
  "read_mapping_text p =
     ''DNP3='' @ Dnp3PointTypeLabel (rp_type p) @ '' '' @ show_int (uint (rp_dnp3_analog_index p))
     @ '' ip='' @ rp_ip p @ '':'' @ show_int (rp_port p) @ '' id='' @ show_int (rp_slave_id p)
     @ '' tipo='' @ ReadValueTypeToString (rp_type p) @ '' count='' @ show_int (rp_count p)
     @ '' addr='' @ show_int (rp_address p) @ '' desc='' @ dq @ rp_description p @ dq"

definition command_mapping_text :: "CommandPointConfig \<Rightarrow> string" where
  "command_mapping_text c =
     ''IDX='' @ show_int (uint (cp_dnp3_index c)) @ '' ip='' @ cp_ip c @ '':'' @ show_int (cp_port c)
     @ '' id='' @ show_int (cp_slave_id c) @ '' target='' @ WriteTargetTypeToString (cp_target c)
     @ '' tipo='' @ ReadValueTypeToString (cp_value_type c) @ '' addr='' @ show_int (cp_modbus_address c)
     @ '' desc='' @ dq @ cp_description c @ dq"

definition PrintMappings :: "env \<Rightarrow> 'a config_state_scheme \<Rightarrow> 'a config_state_scheme" where
  "PrintMappings E st =
     (let profile = g_profile st;
          st = LogInfo E ''MAP'' ''==== PONTOS DE LEITURA ===='' st;
          st = fold (\<lambda>p. LogInfo E ''READ'' (read_mapping_text p)) (read_points profile) st;
          st = LogInfo E ''MAP'' ''==== COMANDOS ANALOGICOS ===='' st;
          st = fold (\<lambda>c. LogInfo E ''AO'' (command_mapping_text c)) (analog_commands profile) st;
          st = LogInfo E ''MAP'' ''==== COMANDOS BINARIOS ===='' st
      in fold (\<lambda>c. LogInfo E ''CROB'' (command_mapping_text c)) (binary_commands profile) st)"

definition console_help :: "string list" where
  "console_help =
     [(''Uso normal: ./slavednp3  (l'' @ [CHR 0xC3, CHR 0xAA] @ '' automaticamente points_config.csv)''),
      ''Opcional: ./slavednp3 --config=outro_arquivo.csv'',
      ''Comandos locais: help | show | quit'',
      (''A escrita n'' @ [CHR 0xC3, CHR 0xA3] @ ''o '' @ [CHR 0xC3, CHR 0xA9] @ '' feita pela interface. Ela vem do supervis'' @ [CHR 0xC3, CHR 0xB3] @
     ''rio DNP3 e '' @ [CHR 0xC3, CHR 0xA9] @ '' convertida para Modbus automaticamente.''),
      (''Pontos grav'' @ [CHR 0xC3, CHR 0xA1] @ ''veis automaticamente: Holding Register -> Analog Output; Coil Status -> CROB.''),
      ''Painel web: abra http://localhost:8080 ou http://IP_DA_RASPBERRY:8080'']"

definition PrintConsoleHelp :: "env \<Rightarrow> 'a config_state_scheme \<Rightarrow> 'a config_state_scheme" where
  "PrintConsoleHelp E st = fold (LogInfo E ''HELP'') console_help st"

definition ExecuteCommandLine :: "env \<Rightarrow> string \<Rightarrow> 'a config_state_scheme \<Rightarrow> bool \<times> 'a config_state_scheme" where
  "ExecuteCommandLine E raw_line st =
     (let line = TrimCopy raw_line
      in if line = [] then (True, st)
         else if line = ''help'' then (True, PrintConsoleHelp E st)
         else if line = ''show'' then (True, PrintMappings E st)
         else if line = ''quit'' \<or> line = ''exit''
              then (True, LogInfo E ''CMD'' ''Encerramento solicitado pelo console.'' (st\<lparr>g_running := False\<rparr>))
         else (False, LogLine E Warn ''CMD'' ''Comando desconhecido. Use: help, show ou quit.'' st))"

section \<open>The points file\<close>

definition BuildCsvLineFromForm :: "string \<Rightarrow> string" where
  "BuildCsvLineFromForm path =
     (let name = GetQueryParam path ''name''; ip = GetQueryParam path ''ip''; port = GetQueryParam path ''port'';
          slave_id = GetQueryParam path ''slave_id''; reg = GetQueryParam path ''reg'';
          address = GetQueryParam path ''address''; data_type = GetQueryParam path ''data_type'';
          dnp_index = GetQueryParam path ''dnp_index''
      in if name = [] \<or> ip = [] \<or> port = [] \<or> slave_id = [] \<or> reg = [] \<or> address = [] \<or> data_type = [] \<or> dnp_index = []
         then []
         else
           (let reg_norm = NormalizeToken reg;
                data_type = (if reg_norm = ''coil_status'' \<or> reg_norm = ''coil'' \<or> reg_norm = ''input_status''
                                \<or> reg_norm = ''discrete_input'' then ''bool'' else data_type)
            in name @ '';'' @ ip @ '';'' @ port @ '';'' @ slave_id @ '';'' @ reg @ '';'' @ address @ '';'' @ data_type
               @ '';'' @ dnp_index))"

definition IsSameConfiguredPoint :: "ReadPointConfig \<Rightarrow> ReadPointConfig \<Rightarrow> bool" where
  "IsSameConfiguredPoint a b =
     (rp_description a = rp_description b \<and> rp_ip a = rp_ip b \<and> rp_port a = rp_port b \<and> rp_slave_id a = rp_slave_id b
      \<and> rp_type a = rp_type b \<and> rp_address a = rp_address b \<and> rp_dnp3_analog_index a = rp_dnp3_analog_index b)"

definition conflicts :: "ReadPointConfig \<Rightarrow> ReadPointConfig \<Rightarrow> bool" where
  "conflicts existing tmp =
     (PublishesAsDnp3Binary (rp_type existing) = PublishesAsDnp3Binary (rp_type tmp)
      \<and> rp_dnp3_analog_index existing = rp_dnp3_analog_index tmp)"

fun check_existing :: "ReadPointConfig \<Rightarrow> ReadPointConfig list \<Rightarrow> string option" where
  "check_existing tmp [] = None"
| "check_existing tmp (existing # es) =
     (if IsSameConfiguredPoint existing tmp
      then Some (''Este ponto j'' @ [CHR 0xC3, CHR 0xA1] @ '' existe no arquivo. Ele n'' @ [CHR 0xC3, CHR 0xA3] @ ''o foi duplicado.'')
      else if conflicts existing tmp
      then Some (''J'' @ [CHR 0xC3, CHR 0xA1] @ '' existe um ponto usando o mesmo tipo e '' @ [CHR 0xC3, CHR 0xAD] @ ''ndice DNP3. Altere o '' @ [CHR 0xC3, CHR 0xAD] @
     ''ndice antes de salvar.'')
      else check_existing tmp es)"

text \<open>The error text, or \<open>None\<close> when the point was added.\<close>

definition AppendPointToConfigFileFromLine ::
  "env \<Rightarrow> string \<Rightarrow> string \<Rightarrow> 'a config_state_scheme \<Rightarrow> string option \<times> 'a config_state_scheme" where
  "AppendPointToConfigFileFromLine E line file_path st =
     (case TryBuildReadPointFromCsvLine line of
        Inl error \<Rightarrow> (Some error, st)
      | Inr tmp \<Rightarrow>
          (case check_existing tmp (LoadConfiguredPointsFromCsvForUi file_path st) of
             Some error \<Rightarrow> (Some error, st)
           | None \<Rightarrow>
               if \<not> writable E file_path
               then (Some ((''N'' @ [CHR 0xC3, CHR 0xA3] @ ''o foi poss'' @ [CHR 0xC3, CHR 0xAD] @ ''vel abrir o arquivo '') @ file_path @ '' para escrita.''), st)
               else (None, st\<lparr>files := (files st)(file_path \<mapsto>
                      (case files st file_path of None \<Rightarrow> [] | Some content \<Rightarrow> content) @ line @ [newline])\<rparr>)))"

definition RemovePointFromConfigFileByIndex ::
  "env \<Rightarrow> nat \<Rightarrow> string \<Rightarrow> 'a config_state_scheme \<Rightarrow> string option \<times> 'a config_state_scheme" where
  "RemovePointFromConfigFileByIndex E remove_index file_path st =
     (let configured_points = LoadConfiguredPointsFromCsvForUi file_path st
      in if remove_index \<ge> length configured_points
         then (Some ([CHR 0xC3, CHR 0x8D] @ ''ndice de ponto inv'' @ [CHR 0xC3, CHR 0xA1] @ ''lido.''), st)
         else
           (let kept = map snd (filter (\<lambda>(i, p). i \<noteq> remove_index) (enumerate 0 configured_points));
                updated_profile = ProfileConfig_init\<lparr>profile_mode := ConfigFile, profile_name := profile_title file_path,
                  read_points := kept\<rparr>;
                (saved, st) = SaveProfileReadPointsToCsv E updated_profile file_path st
            in if \<not> saved
               then (Some ((''N'' @ [CHR 0xC3, CHR 0xA3] @ ''o foi poss'' @ [CHR 0xC3, CHR 0xAD] @ ''vel regravar o arquivo '') @ file_path @ ''.''), st)
               else (None, st)))"

section \<open>The page\<close>

definition page_head :: string where
  "page_head =
     (''<!doctype html><html lang='' @ dq @ ''pt-br'' @ dq @ ''><head><meta charset='' @ dq @ ''utf-8'' @ dq @ ''><meta name='' @ dq @ ''viewport'' @ dq @
     '' content='' @ dq @ ''width=device-width, initial-scale=1'' @ dq @ ''><title>Configurador de Pontos de Comunica'' @
     [CHR 0xC3, CHR 0xA7, CHR 0xC3, CHR 0xA3] @
     ''o</title><style>body{font-family:Arial,sans-serif;background:#f6f7fb;margin:0;color:#1f2937}header{padding:16p'' @
     ''x 20px;background:#111827;color:white}main{padding:20px;max-width:1280px;margin:auto}.row{display:grid;grid-te'' @
     ''mplate-columns:1.2fr 1fr;gap:16px}.card{background:white;border-radius:16px;padding:16px;box-shadow:0 1px 3px '' @
     ''rgba(0,0,0,.08);margin-bottom:16px}.title{font-size:18px;font-weight:700;margin-bottom:12px}.small{font-size:1'' @
     ''3px;color:#6b7280}.ok{display:inline-block;padding:6px 10px;border-radius:999px;background:#dcfce7;font-size:1'' @
     ''2px;margin-right:8px}.bad{display:inline-block;padding:6px 10px;border-radius:999px;background:#fee2e2;font-si'' @
     ''ze:12px;margin-right:8px}.warn{display:inline-block;padding:6px 10px;border-radius:999px;background:#fef3c7;fo'' @
     ''nt-size:12px;margin-right:8px}.grid{display:grid;gap:12px}.grid3{grid-template-columns:repeat(3,1fr)}.grid2{gr'' @
     ''id-template-columns:repeat(2,1fr)}table{width:100%;border-collapse:collapse;font-size:14px}th,td{padding:8px;b'' @
     ''order-bottom:1px solid #e5e7eb;text-align:left;vertical-align:top}input,select,button{padding:10px 12px;border'' @
     ''-radius:10px;border:1px solid #d1d5db;font-size:14px}button{cursor:pointer;background:#111827;color:#fff;borde'' @
     ''r:none}button.secondary{background:#4b5563}.logs{max-height:420px;overflow:auto}.log{border:1px solid #e5e7eb;'' @
     ''border-radius:12px;padding:10px;margin-bottom:8px;background:#fff}.statusbox{padding:12px;border-radius:12px;b'' @
     ''ackground:#f9fafb}.mono{font-family:ui-monospace,SFMono-Regular,Menlo,monospace}.formgrid{display:grid;grid-te'' @
     ''mplate-columns:1.2fr .8fr .8fr .8fr auto;gap:8px;align-items:end}.notice{padding:12px;border-radius:12px;backg'' @
     ''round:#e0f2fe;border:1px solid #bae6fd;margin-bottom:16px}.refresh-pill{display:inline-block;padding:6px 10px;'' @
     ''border-radius:999px;background:#dbeafe;font-size:12px;margin-left:8px}@media (max-width:980px){.row,.grid3,.gr'' @
     ''id2,.formgrid{grid-template-columns:1fr}}</style><script>const FORM_KEY='' @ sq @ ''dnp3_modbus_form_state_v3'' @ sq @ '';const SCROLL_KEY='' @ sq @
     ''dnp3_modbus_scroll_y_v3'' @ sq @ '';const AUTO_KEY='' @ sq @ ''dnp3_modbus_auto_refresh_v3'' @ sq @
     '';let __refreshTimer=null;function __setRefreshStatus(txt){const el=document.getElementById('' @ sq @ ''refreshStatus'' @ sq @
     '');if(!el)return;el.textContent=txt;}function __syncRefreshButtons(){const enabled=localStorage.getItem(AUTO_KE'' @ ''Y)==='' @ sq @ ''1'' @ sq @
     '';const start=document.getElementById('' @ sq @ ''startRefreshBtn'' @ sq @ '');const stop=document.getElementById('' @ sq @ ''stopRefreshBtn'' @ sq @
     '');if(start)start.disabled=enabled;if(stop)stop.disabled=!enabled;__setRefreshStatus(enabled?'' @ sq @ ''Atualiza'' @
     [CHR 0xC3, CHR 0xA7, CHR 0xC3, CHR 0xA3] @ ''o autom'' @ [CHR 0xC3, CHR 0xA1] @ ''tica ligada (2s)'' @ sq @ '':'' @ sq @ ''Atualiza'' @
     [CHR 0xC3, CHR 0xA7, CHR 0xC3, CHR 0xA3] @ ''o autom'' @ [CHR 0xC3, CHR 0xA1] @ ''tica parada'' @ sq @
     '');}function __startRefresh(){try{localStorage.setItem(AUTO_KEY,'' @ sq @ ''1'' @ sq @
     '');}catch(e){}if(__refreshTimer)clearInterval(__refreshTimer);__syncRefreshButtons();__refreshTimer=setInterval'' @
     ''(function(){if(localStorage.getItem(AUTO_KEY)==='' @ sq @ ''1'' @ sq @ ''){__saveFormState();window.location.href='' @ sq @ ''/'' @ sq @
     '';}},2000);}function __stopRefresh(){try{localStorage.setItem(AUTO_KEY,'' @ sq @ ''0'' @ sq @
     '');}catch(e){}if(__refreshTimer)clearInterval(__refreshTimer);__refreshTimer=null;__syncRefreshButtons();}funct'' @
     ''ion __syncModbusDataType(){const reg=document.getElementById('' @ sq @ ''modbusRegType'' @ sq @ '');const dt=document.getElementById('' @ sq @
     ''modbusDataType'' @ sq @ '');if(!reg||!dt)return;const bit=(reg.value==='' @ sq @ ''coil_status'' @ sq @ ''||reg.value==='' @ sq @ ''input_status'' @ sq @
     '');Array.from(dt.options).forEach(function(o){if(bit){o.hidden=(o.value!=='' @ sq @ ''bool'' @ sq @ '');}else{o.hidden=(o.value==='' @ sq @ ''bool'' @
     sq @ '');}});if(bit){dt.value='' @ sq @ ''bool'' @ sq @ '';dt.disabled=true;}else{dt.disabled=false;if(dt.value==='' @ sq @ ''bool'' @ sq @
     '')dt.value='' @ sq @ ''int16'' @ sq @ '';}__updateDnp3Suggestion();}function __updateDnp3Suggestion(){const reg=document.getElementById('' @ sq @
     ''modbusRegType'' @ sq @ '');const dt=document.getElementById('' @ sq @ ''modbusDataType'' @ sq @ '');if(!reg||!dt)return;const bit=(reg.value==='' @ sq @
     ''coil_status'' @ sq @ ''||reg.value==='' @ sq @ ''input_status'' @ sq @ '');const data=dt.value;let tipo=bit?'' @ sq @ ''Binary Input'' @ sq @ '':'' @
     sq @ ''Analog Input'' @ sq @ '';let obj=bit?'' @ sq @ ''1'' @ sq @ '':'' @ sq @ ''30'' @ sq @ '';let variation='' @ sq @ ''2'' @ sq @ '';let classe='' @
     sq @ ''Class 1'' @ sq @ '';let desc=bit?'' @ sq @ ''Entrada bin'' @ [CHR 0xC3, CHR 0xA1] @ ''ria DNP3 para ponto discreto/booleano'' @ sq @ '':'' @ sq @
     ''Entrada anal'' @ [CHR 0xC3, CHR 0xB3] @ ''gica DNP3 inteira de 16 bits'' @ sq @ '';if(!bit&&data==='' @ sq @ ''float32'' @ sq @ ''){variation='' @ sq @
     ''5'' @ sq @ '';desc='' @ sq @ ''Entrada anal'' @ [CHR 0xC3, CHR 0xB3] @ ''gica DNP3 em ponto flutuante de 32 bits'' @ sq @ '';}else if(!bit&&(data==='' @
     sq @ ''int32'' @ sq @ ''||data==='' @ sq @ ''uint32'' @ sq @ '')){variation='' @ sq @ ''1'' @ sq @ '';desc='' @ sq @ ''Entrada anal'' @
     [CHR 0xC3, CHR 0xB3] @ ''gica DNP3 inteira de 32 bits'' @ sq @
     '';}const set=(id,val)=>{const el=document.getElementById(id);if(el)el.textContent=val;};set('' @ sq @ ''dnpSugType'' @ sq @ '',tipo);set('' @ sq @
     ''dnpSugObj'' @ sq @ '',obj);set('' @ sq @ ''dnpSugVar'' @ sq @ '',variation);set('' @ sq @ ''dnpSugClass'' @ sq @ '',classe);set('' @ sq @
     ''dnpSugDesc'' @ sq @ '',desc);}function __saveFormState(){const form=document.getElementById('' @ sq @ ''pointForm'' @ sq @
     '');if(!form)return;const data={};Array.from(form.elements).forEach(function(el){if(!el.name)return;data[el.name'' @
     '']=el.value;});try{localStorage.setItem(FORM_KEY,JSON.stringify(data));localStorage.setItem(SCROLL_KEY,String(w'' @
     ''indow.scrollY||0));}catch(e){}}function __restoreFormState(){let raw=null;try{raw=localStorage.getItem(FORM_KE'' @
     ''Y);}catch(e){}if(!raw)return;let data={};try{data=JSON.parse(raw)||{};}catch(e){return;}const form=document.ge'' @ ''tElementById('' @ sq @
     ''pointForm'' @ sq @ '');if(!form)return;Array.from(form.elements).forEach(function(el){if(!el.name)return;if(Object.prototype.hasOwn'' @
     ''Property.call(data,el.name)){el.value=data[el.name];}});__syncModbusDataType();let y=0;try{y=parseInt(localSto'' @ ''rage.getItem(SCROLL_KEY)||'' @ sq @
     ''0'' @ sq @ '',10)||0;}catch(e){}if(y>0){setTimeout(function(){window.scrollTo(0,y);},50);}}window.addEventListener('' @ sq @ ''DOMContentLoaded'' @ sq @
     '',function(){const reg=document.getElementById('' @ sq @ ''modbusRegType'' @ sq @ '');if(reg){reg.addEventListener('' @ sq @ ''change'' @ sq @
     '',function(){__syncModbusDataType();__saveFormState();});}const dt=document.getElementById('' @ sq @ ''modbusDataType'' @ sq @
     '');if(dt){dt.addEventListener('' @ sq @ ''change'' @ sq @ '',function(){__updateDnp3Suggestion();__saveFormState();});}document.querySelectorAll('' @ sq @
     ''#pointForm input,#pointForm select'' @ sq @ '').forEach(function(el){el.addEventListener('' @ sq @ ''input'' @ sq @
     '',__saveFormState);el.addEventListener('' @ sq @ ''change'' @ sq @ '',__saveFormState);});document.querySelectorAll('' @ sq @ ''form'' @ sq @
     '').forEach(function(f){f.addEventListener('' @ sq @ ''submit'' @ sq @ '',function(){const dt=document.getElementById('' @ sq @ ''modbusDataType'' @ sq @
     '');if(dt)dt.disabled=false;try{localStorage.removeItem(FORM_KEY);}catch(e){}});});const start=document.getEleme'' @ ''ntById('' @ sq @
     ''startRefreshBtn'' @ sq @ '');const stop=document.getElementById('' @ sq @ ''stopRefreshBtn'' @ sq @ '');if(start)start.addEventListener('' @ sq @
     ''click'' @ sq @ '',__startRefresh);if(stop)stop.addEventListener('' @ sq @ ''click'' @ sq @
     '',__stopRefresh);__restoreFormState();__syncModbusDataType();__updateDnp3Suggestion();if(localStorage.getItem(A'' @ ''UTO_KEY)==='' @ sq @ ''1'' @ sq @
     ''){__startRefresh();}else{try{localStorage.setItem(AUTO_KEY,'' @ sq @ ''0'' @ sq @ '');}catch(e){}__syncRefreshButtons();}});</script></head><body>'')"

definition page_top :: string where
  "page_top =
     (''<header><div style='' @ dq @ ''font-size:24px;font-weight:700'' @ dq @ ''>Configurador de Pontos de Comunica'' @
     [CHR 0xC3, CHR 0xA7, CHR 0xC3, CHR 0xA3] @ ''o</div><div class='' @ dq @ ''small'' @ dq @ '' style='' @ dq @
     ''margin-top:8px;display:flex;gap:8px;align-items:center;flex-wrap:wrap'' @ dq @ ''><span id='' @ dq @ ''refreshStatus'' @ dq @ '' class='' @ dq @
     ''refresh-pill'' @ dq @ ''>Atualiza'' @ [CHR 0xC3, CHR 0xA7, CHR 0xC3, CHR 0xA3] @ ''o autom'' @ [CHR 0xC3, CHR 0xA1] @
     ''tica parada</span><button type='' @ dq @ ''button'' @ dq @ '' id='' @ dq @ ''startRefreshBtn'' @ dq @ '' class='' @ dq @ ''secondary'' @ dq @
     '' style='' @ dq @ ''padding:6px 10px;font-size:12px'' @ dq @ ''>Iniciar atualiza'' @ [CHR 0xC3, CHR 0xA7, CHR 0xC3, CHR 0xA3] @
     ''o</button><button type='' @ dq @ ''button'' @ dq @ '' id='' @ dq @ ''stopRefreshBtn'' @ dq @ '' class='' @ dq @ ''secondary'' @ dq @ '' style='' @ dq @
     ''padding:6px 10px;font-size:12px'' @ dq @ ''>Parar atualiza'' @ [CHR 0xC3, CHR 0xA7, CHR 0xC3, CHR 0xA3] @ ''o</button></div></header><main>'')"

definition page_notice :: "string \<Rightarrow> string" where
  "page_notice notice =
     (if notice = [] then []
      else (''<div class='' @ dq @ ''notice'' @ dq @ ''><strong>Resultado:</strong> '') @ HtmlEscape notice @ ''</div>'')"

definition page_form :: string where
  "page_form =
     (''<div class='' @ dq @ ''row'' @ dq @ ''><section><div class='' @ dq @ ''card'' @ dq @ ''><div class='' @ dq @ ''title'' @ dq @
     ''>Cadastrar ponto de comunica'' @ [CHR 0xC3, CHR 0xA7, CHR 0xC3, CHR 0xA3] @ ''o</div><form id='' @ dq @ ''pointForm'' @ dq @ '' method='' @ dq @
     ''GET'' @ dq @ '' action='' @ dq @ ''/addpoint'' @ dq @ '' style='' @ dq @ ''margin-top:12px'' @ dq @ ''><div class='' @ dq @ ''grid grid3'' @ dq @
     ''><div><div class='' @ dq @ ''small'' @ dq @ ''>Nome do ponto</div><input name='' @ dq @ ''name'' @ dq @ '' value='' @ dq @ ''Temperatura'' @ dq @
     ''></div><div><div class='' @ dq @ ''small'' @ dq @ ''>Protocolo de origem</div><select name='' @ dq @ ''source_protocol'' @ dq @ ''><option value='' @
     dq @ ''modbus_tcp'' @ dq @ ''>Modbus TCP</option></select></div><div><div class='' @ dq @ ''small'' @ dq @ ''>Endere'' @ [CHR 0xC3, CHR 0xA7] @
     ''o IP do equipamento</div><input name='' @ dq @ ''ip'' @ dq @ '' value='' @ dq @ ''192.168.100.200'' @ dq @ ''></div><div><div class='' @ dq @ ''small'' @
     dq @ ''>Porta TCP do equipamento</div><input name='' @ dq @ ''port'' @ dq @ '' value='' @ dq @ ''502'' @ dq @ ''></div><div><div class='' @ dq @
     ''small'' @ dq @ ''>Endere'' @ [CHR 0xC3, CHR 0xA7] @ ''o do escravo Modbus (Unit ID)</div><input name='' @ dq @ ''slave_id'' @ dq @ '' value='' @ dq @
     ''1'' @ dq @ ''></div><div><div class='' @ dq @ ''small'' @ dq @ ''>Tipo de ponto Modbus</div><select id='' @ dq @ ''modbusRegType'' @ dq @ '' name='' @
     dq @ ''reg'' @ dq @ ''><option value='' @ dq @ ''coil_status'' @ dq @ ''>Coil Status</option><option value='' @ dq @ ''input_status'' @ dq @
     ''>Input Status</option><option value='' @ dq @ ''holding'' @ dq @ '' selected>Holding Register</option><option value='' @ dq @ ''input_register'' @ dq @
     ''>Input Register</option></select></div><div><div class='' @ dq @ ''small'' @ dq @ ''>Endere'' @ [CHR 0xC3, CHR 0xA7] @
     ''o inicial do ponto Modbus</div><input name='' @ dq @ ''address'' @ dq @ '' value='' @ dq @ ''0'' @ dq @ ''></div><div><div class='' @ dq @ ''small'' @
     dq @ ''>Formato do dado lido</div><select id='' @ dq @ ''modbusDataType'' @ dq @ '' name='' @ dq @ ''data_type'' @ dq @ ''><option value='' @ dq @
     ''bool'' @ dq @ ''>bool</option><option value='' @ dq @ ''int16'' @ dq @ '' selected>int16</option><option value='' @ dq @ ''uint16'' @ dq @
     ''>uint16</option><option value='' @ dq @ ''int32'' @ dq @ ''>int32</option><option value='' @ dq @ ''uint32'' @ dq @ ''>uint32</option><option value='' @
     dq @ ''float32'' @ dq @ ''>float32</option></select></div><div><div class='' @ dq @ ''small'' @ dq @ ''>'' @ [CHR 0xC3, CHR 0x8D] @
     ''ndice DNP3 sugerido/edit'' @ [CHR 0xC3, CHR 0xA1] @ ''vel</div><input name='' @ dq @ ''dnp_index'' @ dq @ '' value='' @ dq @ ''0'' @ dq @
     ''></div></div><div class='' @ dq @ ''statusbox'' @ dq @ '' style='' @ dq @ ''margin-top:12px'' @ dq @ ''><div class='' @ dq @ ''title'' @ dq @
     '' style='' @ dq @ ''font-size:16px;margin-bottom:8px'' @ dq @ ''>Publica'' @ [CHR 0xC3, CHR 0xA7, CHR 0xC3, CHR 0xA3] @
     ''o DNP3 sugerida automaticamente</div><div class='' @ dq @ ''grid grid3'' @ dq @ ''><div><div class='' @ dq @ ''small'' @ dq @
     ''>Tipo DNP3</div><strong id='' @ dq @ ''dnpSugType'' @ dq @ ''>Analog Input</strong></div><div><div class='' @ dq @ ''small'' @ dq @
     ''>Objeto / Grupo</div><strong id='' @ dq @ ''dnpSugObj'' @ dq @ ''>30</strong></div><div><div class='' @ dq @ ''small'' @ dq @ ''>Varia'' @
     [CHR 0xC3, CHR 0xA7, CHR 0xC3, CHR 0xA3] @ ''o est'' @ [CHR 0xC3, CHR 0xA1] @ ''tica</div><strong id='' @ dq @ ''dnpSugVar'' @ dq @
     ''>2</strong></div><div><div class='' @ dq @ ''small'' @ dq @ ''>Classe</div><strong id='' @ dq @ ''dnpSugClass'' @ dq @
     ''>Class 1</strong></div><div style='' @ dq @ ''grid-column:span 2'' @ dq @ ''><div class='' @ dq @ ''small'' @ dq @ ''>Descri'' @
     [CHR 0xC3, CHR 0xA7, CHR 0xC3, CHR 0xA3] @ ''o</div><strong id='' @ dq @ ''dnpSugDesc'' @ dq @ ''>Entrada anal'' @ [CHR 0xC3, CHR 0xB3] @
     ''gica DNP3 inteira de 16 bits</strong></div></div><div class='' @ dq @ ''small'' @ dq @ '' style='' @ dq @ ''margin-top:8px'' @ dq @
     ''>O tipo, objeto, varia'' @ [CHR 0xC3, CHR 0xA7, CHR 0xC3, CHR 0xA3] @ ''o e classe s'' @ [CHR 0xC3, CHR 0xA3] @ ''o calculados pelo sistema. O '' @
     [CHR 0xC3, CHR 0xBA] @ ''nico campo DNP3 que voc'' @ [CHR 0xC3, CHR 0xAA] @ '' altera '' @ [CHR 0xC3, CHR 0xA9] @ '' o '' @ [CHR 0xC3, CHR 0xAD] @
     ''ndice.</div></div><div style='' @ dq @ ''margin-top:12px'' @ dq @ ''><button type='' @ dq @ ''submit'' @ dq @
     ''>Salvar ponto</button></div></form><div style='' @ dq @ ''margin-top:10px'' @ dq @ ''><a href='' @ dq @ ''/clearpoints'' @ dq @ '' onclick='' @ dq @
     ''return confirm('' @ sq @ ''Tem certeza que deseja limpar a lista de pontos? Depois reinicie o programa.'' @ sq @ '')'' @ dq @ ''><button type='' @ dq @
     ''button'' @ dq @ '' class='' @ dq @ ''secondary'' @ dq @ ''>Limpar lista de pontos</button></a></div></div><div class='' @ dq @ ''card'' @ dq @
     ''><div class='' @ dq @ ''title'' @ dq @ ''>Pontos configurados</div>'')"

definition no_points_text :: string where
  "no_points_text =
     (''<div class='' @ dq @ ''statusbox'' @ dq @ ''><strong>Nenhum ponto configurado ainda.</strong><br>Cadastre um ponto acima para iniciar a configura'' @
     [CHR 0xC3, CHR 0xA7, CHR 0xC3, CHR 0xA3] @ ''o.</div>'')"

definition points_table_head :: string where
  "points_table_head =
     (''<div class='' @ dq @ ''small'' @ dq @ '' style='' @ dq @ ''margin-bottom:8px'' @ dq @
     ''>Esta tabela mostra os pontos cadastrados para leitura Modbus TCP e publica'' @ [CHR 0xC3, CHR 0xA7, CHR 0xC3, CHR 0xA3] @
     ''o DNP3.</div><table><thead><tr><th>Ponto</th><th>Equipamento de origem</th><th>Tipo Modbus</th><th>Dado</th><t'' @ ''h>Endere'' @ [CHR 0xC3, CHR 0xA7] @
     ''o</th><th>Qtd</th><th>Publica'' @ [CHR 0xC3, CHR 0xA7, CHR 0xC3, CHR 0xA3] @ ''o DNP3 sugerida</th><th>Orienta'' @
     [CHR 0xC3, CHR 0xA7, CHR 0xC3, CHR 0xA3] @ ''o para supervis'' @ [CHR 0xC3, CHR 0xB3] @
     ''rio</th><th>Valor</th><th>Conectado</th><th>Falhas</th><th>Status</th><th>A'' @ [CHR 0xC3, CHR 0xA7, CHR 0xC3, CHR 0xA3] @
     ''o</th></tr></thead><tbody>'')"

definition point_cells :: "ReadPointConfig \<Rightarrow> string" where
  "point_cells p =
     ''<tr><td>'' @ HtmlEscape (rp_description p) @ ''</td>''
     @ (''<td class='' @ dq @ ''mono'' @ dq @ ''>'') @ HtmlEscape (rp_ip p) @ '':'' @ show_int (rp_port p) @ '' | id '' @ show_int (rp_slave_id p) @ ''</td>''
     @ ''<td>'' @ HtmlEscape (ReadValueTypeRegisterKind (rp_type p)) @ ''</td>''
     @ ''<td>'' @ HtmlEscape (ReadValueTypeDataType (rp_type p)) @ ''</td>''
     @ ''<td>'' @ show_int (rp_address p) @ ''</td>''
     @ ''<td>'' @ show_int (rp_count p) @ ''</td>''
     @ ''<td>'' @ HtmlEscape (Dnp3PointTypeLabel (rp_type p))
     @ '' '' @ show_int (uint (rp_dnp3_analog_index p))
     @ (''<br><span class='' @ dq @ ''small'' @ dq @ ''>Objeto '') @ show_int (Dnp3ObjectGroup (rp_type p))
     @ '' / Var '' @ show_int (Dnp3StaticVariationNumber (rp_type p))
     @ '' / '' @ HtmlEscape (Dnp3ClassLabel (rp_type p)) @ ''</span></td>''
     @ (''<td class='' @ dq @ ''small'' @ dq @ ''>Elipse E3: P1/N1=0, P2/N2=1, P3/N3='')
     @ show_int (Dnp3ObjectGroup (rp_type p) * 100 + Dnp3StaticVariationNumber (rp_type p))
     @ '', P4/N4='' @ show_int (uint (rp_dnp3_analog_index p))
     @ ''<br>Tipo: '' @ HtmlEscape (Dnp3PointTypeLabel (rp_type p))
     @ '' | porta TCP '' @ show_int DNP3_TCP_PORT @ ''</td>''"

definition state_cells :: "ReadPointState option \<Rightarrow> string" where
  "state_cells state =
     (case state of
        Some s \<Rightarrow>
          ''<td>'' @ show_double (analog_value s) @ ''</td>''
          @ ''<td>'' @ (if connection_status s then ''SIM'' else (''N'' @ [CHR 0xC3, CHR 0x83] @ ''O'')) @ ''</td>''
          @ ''<td>'' @ show_int (failure_count s) @ ''</td>''
          @ (''<td><span class='' @ dq @ ''ok'' @ dq @ ''>ATIVO</span></td>'')
      | None \<Rightarrow> (''<td>-</td><td>-</td><td>-</td><td><span class='' @ dq @ ''warn'' @ dq @ ''>PENDENTE REINICIAR</span></td>''))"

definition row_action :: "nat \<Rightarrow> string" where
  "row_action i =
     (''<td><a href='' @ dq @ ''/deletepoint?idx='') @ show_nat i
         @ (dq @ '' onclick='' @ dq @ ''return confirm('' @ sq @ ''Remover este ponto do arquivo de configura'' @ [CHR 0xC3, CHR 0xA7, CHR 0xC3, CHR 0xA3] @
     ''o? Depois reinicie o programa para o DNP3 recriar o banco.'' @ sq @ '');'' @ dq @ ''><button type='' @ dq @ ''button'' @ dq @ '' class='' @ dq @
     ''secondary'' @ dq @ ''>Remover</button></a></td></tr>'')"

definition point_row :: "ReadPointState list \<Rightarrow> 'a config_state_scheme \<Rightarrow> nat \<times> ReadPointConfig \<Rightarrow> string" where
  "point_row point_states st = (\<lambda>(i, p).
     (let runtime_index = FindRuntimePointIndexForUi p st;
          active_now = (runtime_index \<ge> 0 \<and> nat runtime_index < length point_states)
      in point_cells p @ state_cells (if active_now then Some (point_states ! nat runtime_index) else None)
         @ row_action i))"

definition log_row :: "UiLogEntry \<Rightarrow> string" where
  "log_row l =
     (let cls = (if le_level l = ''ERROR'' then ''bad'' else if le_level l = ''WARN'' then ''warn'' else ''ok'')
      in (''<div class='' @ dq @ ''log'' @ dq @ ''><div><strong>'') @ HtmlEscape (le_scope l) @ (''</strong> <span class='' @ dq) @ cls
         @ (dq @ ''>'') @ HtmlEscape (le_level l) @ ''</span></div>''
         @ ''<div>'' @ HtmlEscape (le_text l) @ ''</div>''
         @ (''<div class='' @ dq @ ''small'' @ dq @ ''>'') @ HtmlEscape (le_time l) @ ''</div></div>'')"

definition BuildHtmlPageServerRendered :: "ReadPointState list \<Rightarrow> string \<Rightarrow> 'a config_state_scheme \<Rightarrow> string" where
  "BuildHtmlPageServerRendered point_states notice st =
     (let configured_points_for_ui = LoadConfiguredPointsFromCsvForUi (g_active_config_file st) st
      in page_head @ page_top @ page_notice notice @ page_form
         @ (if configured_points_for_ui = [] then no_points_text
            else points_table_head @ concat (map (point_row point_states st) (enumerate 0 configured_points_for_ui)) @ ''</tbody></table>'')
         @ ''</div>'' @ ''</section><section>''
         @ (''<div class='' @ dq @ ''card'' @ dq @ ''><div class='' @ dq @ ''title'' @ dq @ ''>Logs</div><div class='' @ dq @ ''logs'' @ dq @ ''>'')
         @ concat (map log_row (g_recent_logs st))
         @ ''</div></div>'' @ ''</section></div></main></body></html>'')"

section \<open>Responses\<close>

datatype send_result = Sent nat | SendError int

definition EINTR :: int where "EINTR = 4"

text \<open>
  The loop of \<open>SendAll\<close> over the results of \<open>send\<close>: the flag that it returns and the bytes that were sent, or
  \<open>None\<close> while it waits for another result.
\<close>

fun SendAll :: "send_result list \<Rightarrow> string \<Rightarrow> string \<Rightarrow> (bool \<times> string) option" where
  "SendAll results sent [] = Some (True, sent)"
| "SendAll [] sent (c # cs) = None"
| "SendAll (SendError e # rs) sent (c # cs) = (if e = EINTR then SendAll rs sent (c # cs) else Some (False, sent))"
| "SendAll (Sent n # rs) sent (c # cs) =
     (if n = 0 then Some (False, sent) else SendAll rs (sent @ take n (c # cs)) (drop n (c # cs)))"

definition SendHttpResponse :: "string \<Rightarrow> string \<Rightarrow> string \<Rightarrow> sock list" where
  "SendHttpResponse status content_type body =
     [SendBytes (''HTTP/1.1 '' @ status @ crlf
        @ ''Content-Type: '' @ content_type @ crlf
        @ ''Content-Length: '' @ show_nat (length body) @ crlf
        @ ''Cache-Control: no-store'' @ crlf
        @ ''Connection: close'' @ crlf @ crlf),
      SendBytes body, Shutdown]"

definition redirect_headers :: "string \<Rightarrow> string" where
  "redirect_headers notice =
     ''HTTP/1.1 303 See Other'' @ crlf
     @ ''Location: '' @ ''/?notice='' @ UrlEncodeSimple notice @ crlf
     @ ''Content-Type: text/plain; charset=utf-8'' @ crlf
     @ ''Content-Length: '' @ show_nat (length ''Redirecionando...'') @ crlf
     @ ''Cache-Control: no-store'' @ crlf
     @ ''Connection: close'' @ crlf @ crlf"

definition SendHttpRedirectToHome :: "string \<Rightarrow> sock list" where
  "SendHttpRedirectToHome notice = [SendBytes (redirect_headers notice), SendBytes ''Redirecionando...'', Shutdown]"

section \<open>Requests\<close>

definition next_token :: "string \<Rightarrow> string \<times> string" where
  "next_token s = (let t = dropWhile isspace s in (takeWhile (\<lambda>c. \<not> isspace c) t, dropWhile (\<lambda>c. \<not> isspace c) t))"

definition request_path :: "string \<Rightarrow> string" where
  "request_path received =
     (let req = takeWhile (\<lambda>c. c \<noteq> CHR 0x00) (take 8191 received);
          (method, rest) = next_token req
      in fst (next_token rest))"

definition handle_delete :: "env \<Rightarrow> string \<Rightarrow> 'a config_state_scheme \<Rightarrow> string \<times> 'a config_state_scheme" where
  "handle_delete E path st =
     (case stoul (GetQueryParam path ''idx'') of
        None \<Rightarrow> ((''Falha ao remover ponto: '' @ [CHR 0xC3, CHR 0xAD] @ ''ndice inv'' @ [CHR 0xC3, CHR 0xA1] @ ''lido.''), st)
      | Some idx \<Rightarrow>
          (case RemovePointFromConfigFileByIndex E idx (g_active_config_file st) st of
             (None, st) \<Rightarrow> ((''Ponto removido do arquivo de configura'' @ [CHR 0xC3, CHR 0xA7, CHR 0xC3, CHR 0xA3] @
     ''o. Reinicie o programa para o DNP3 recriar o banco sem esse ponto.''), st)
           | (Some error, st) \<Rightarrow> (''Falha ao remover ponto: '' @ error, st)))"

definition handle_clear :: "env \<Rightarrow> 'a config_state_scheme \<Rightarrow> string \<times> 'a config_state_scheme" where
  "handle_clear E st =
     (let empty_profile = ProfileConfig_init\<lparr>profile_mode := ConfigFile, profile_name := profile_title (g_active_config_file st)\<rparr>
      in case SaveProfileReadPointsToCsv E empty_profile (g_active_config_file st) st of
           (True, st) \<Rightarrow> (''Arquivo de pontos limpo. Reinicie o programa para a tabela iniciar vazia.'', st)
         | (False, st) \<Rightarrow> (''Falha ao limpar o arquivo de pontos.'', st))"

definition handle_add :: "env \<Rightarrow> string \<Rightarrow> 'a config_state_scheme \<Rightarrow> string \<times> 'a config_state_scheme" where
  "handle_add E path st =
     (let line = BuildCsvLineFromForm path
      in if line \<noteq> []
         then case AppendPointToConfigFileFromLine E line (g_active_config_file st) st of
                (None, st) \<Rightarrow> (''Ponto salvo em '' @ g_active_config_file st
                    @ (''. Ele j'' @ [CHR 0xC3, CHR 0xA1] @ '' aparece na lista como ponto do arquivo. Reinicie o programa para o DNP3 criar o '' @ [CHR 0xC3, CHR 0xAD] @
     ''ndice e iniciar a leitura.''), st)
              | (Some error, st) \<Rightarrow> (''Falha ao salvar ponto: '' @ error, st)
         else ((''Formul'' @ [CHR 0xC3, CHR 0xA1] @ ''rio incompleto. Preencha todos os campos do ponto.''), st))"

definition HandleHttpClient ::
  "env \<Rightarrow> ReadPointState list \<Rightarrow> string option \<Rightarrow> 'a config_state_scheme \<Rightarrow> sock list \<times> 'a config_state_scheme" where
  "HandleHttpClient E point_states received st =
     (case received of None \<Rightarrow> ([CloseFd], st)
      | Some data \<Rightarrow>
          (let path = request_path data
           in if starts_with ''/deletepoint'' path
              then (let (notice, st) = handle_delete E path st in (SendHttpRedirectToHome notice @ [CloseFd], st))
              else if starts_with ''/clearpoints'' path
              then (let (notice, st) = handle_clear E st in (SendHttpRedirectToHome notice @ [CloseFd], st))
              else if starts_with ''/addpoint'' path
              then (let (notice, st) = handle_add E path st in (SendHttpRedirectToHome notice @ [CloseFd], st))
              else if path = ''/'' \<or> starts_with ''/index'' path \<or> starts_with ''/?'' path
              then (SendHttpResponse ''200 OK'' ''text/html; charset=utf-8''
                      (BuildHtmlPageServerRendered point_states (GetQueryParam path ''notice'') st) @ [CloseFd], st)
              else (SendHttpResponse ''404 Not Found'' ''text/plain; charset=utf-8'' ''Not found'' @ [CloseFd], st)))"

section \<open>The points file under requests\<close>

definition point_key :: "ReadPointConfig \<Rightarrow> bool \<times> u16" where
  "point_key p = (PublishesAsDnp3Binary (rp_type p), rp_dnp3_analog_index p)"

definition file_points :: "'a config_state_scheme \<Rightarrow> ReadPointConfig list" where
  "file_points st = LoadConfiguredPointsFromCsvForUi (g_active_config_file st) st"

definition file_ok :: "'a config_state_scheme \<Rightarrow> bool" where
  "file_ok st = (distinct (map point_key (file_points st))
     \<and> (case files st (g_active_config_file st) of None \<Rightarrow> True | Some content \<Rightarrow> ends_line content))"

lemma conflicts_key: "conflicts a b \<longleftrightarrow> point_key a = point_key b"
  by (simp add: conflicts_def point_key_def)

lemma IsSameConfiguredPoint_conflicts: "IsSameConfiguredPoint a b \<Longrightarrow> conflicts a b"
  by (simp add: IsSameConfiguredPoint_def conflicts_def)

lemma check_existing_None: "check_existing tmp es = None \<longleftrightarrow> point_key tmp \<notin> point_key ` set es"
  using IsSameConfiguredPoint_conflicts by (induction es) (auto simp: conflicts_key)

lemma kept_points: "map snd (filter (\<lambda>(i, p). i \<noteq> k) (enumerate n ps))
    = (if n \<le> k then take (k - n) ps @ drop (Suc (k - n)) ps else ps)"
proof (induction ps arbitrary: n)
  case (Cons p ps)
  show ?case
  proof (cases "n = k")
    case True
    then show ?thesis using Cons [of "Suc n"] by simp
  next
    case False
    show ?thesis
    proof (cases "n \<le> k")
      case True
      with False have "k - n = Suc (k - Suc n)" by simp
      with True False Cons [of "Suc n"] show ?thesis by simp
    qed (use Cons [of "Suc n"] in simp)
  qed
qed simp

lemma set_kept: "set (take k ps @ drop (Suc k) ps) \<subseteq> set ps"
  using set_take_subset [of k ps] set_drop_subset [of "Suc k" ps] by auto

lemma Append_result:
  assumes "newline \<notin> set line"
    and "case files st path of None \<Rightarrow> True | Some content \<Rightarrow> ends_line content"
    and "AppendPointToConfigFileFromLine E line path st = (None, st')"
  shows "\<exists>p. TryBuildReadPointFromCsvLine line = Inr p \<and> point_key p \<notin> point_key ` set (LoadConfiguredPointsFromCsvForUi path st)
      \<and> LoadConfiguredPointsFromCsvForUi path st' = LoadConfiguredPointsFromCsvForUi path st @ [p]
      \<and> (case files st' path of None \<Rightarrow> True | Some content \<Rightarrow> ends_line content)
      \<and> g_active_config_file st' = g_active_config_file st"
proof -
  obtain p where p: "TryBuildReadPointFromCsvLine line = Inr p"
    and k: "check_existing p (LoadConfiguredPointsFromCsvForUi path st) = None"
    and st': "st' = st\<lparr>files := (files st)(path \<mapsto> (case files st path of None \<Rightarrow> [] | Some c \<Rightarrow> c) @ line @ [newline])\<rparr>"
    using assms(3) by (auto simp: AppendPointToConfigFileFromLine_def split: sum.splits option.splits if_splits)
  let ?c = "case files st path of None \<Rightarrow> [] | Some c \<Rightarrow> c"
  have e: "ends_line ?c" using assms(2) by (simp add: ends_line_def split: option.splits)
  have "lines_of (line @ [newline]) = [line]" using lines_of_lines [of "[line]"] assms(1) by simp
  then have "load_points (lines_of (?c @ line @ [newline])) = load_points (lines_of ?c) @ [p]"
    by (simp add: lines_of_append [OF e] load_points_append p)
  moreover have "load_points (lines_of ?c) = LoadConfiguredPointsFromCsvForUi path st"
    by (simp add: LoadConfiguredPointsFromCsvForUi_def lines_of_def split: option.split)
  ultimately have "LoadConfiguredPointsFromCsvForUi path st' = LoadConfiguredPointsFromCsvForUi path st @ [p]"
    by (simp add: st' LoadConfiguredPointsFromCsvForUi_def)
  with p k show ?thesis by (auto simp: st' check_existing_None ends_line_def)
qed

lemma Append_error: "AppendPointToConfigFileFromLine E line path st = (Some e, st') \<Longrightarrow> st' = st"
  by (auto simp: AppendPointToConfigFileFromLine_def split: sum.splits option.splits if_splits)

lemma file_ok_append:
  assumes "file_ok st" "newline \<notin> set line"
  shows "file_ok (snd (AppendPointToConfigFileFromLine E line (g_active_config_file st) st))"
proof -
  obtain r st' where a: "AppendPointToConfigFileFromLine E line (g_active_config_file st) st = (r, st')" by (cases "AppendPointToConfigFileFromLine E line (g_active_config_file st) st")
  show ?thesis
  proof (cases r)
    case None
    have "case files st (g_active_config_file st) of None \<Rightarrow> True | Some content \<Rightarrow> ends_line content"
      using assms(1) by (simp add: file_ok_def)
    from Append_result [OF assms(2) this a [unfolded None]] assms(1) show ?thesis
      by (auto simp: a file_ok_def file_points_def)
  next
    case (Some e)
    then show ?thesis using Append_error [of E line "g_active_config_file st" st e st'] a assms(1) by simp
  qed
qed

lemma file_ok_saved:
  assumes "\<forall>p \<in> set ps. point_wf p" "distinct (map point_key ps)"
  shows "file_ok (st\<lparr>files := (files st)(g_active_config_file st \<mapsto> points_text ps)\<rparr>)"
  using assms by (simp add: file_ok_def file_points_def LoadConfiguredPointsFromCsvForUi_def load_points_text points_text_ends_line)

lemma file_ok_save:
  assumes "file_ok st" "\<forall>p \<in> set (read_points profile). point_wf p" "distinct (map point_key (read_points profile))"
  shows "file_ok (snd (SaveProfileReadPointsToCsv E profile (g_active_config_file st) st))"
  using assms file_ok_saved by (auto simp: Save_files)

lemma Remove_eq:
  "RemovePointFromConfigFileByIndex E k path st =
    (let ps = LoadConfiguredPointsFromCsvForUi path st
     in if k \<ge> length ps then (fst (RemovePointFromConfigFileByIndex E k path st), st)
        else if writable E path
        then (None, st\<lparr>files := (files st)(path \<mapsto> points_text (take k ps @ drop (Suc k) ps))\<rparr>)
        else (fst (RemovePointFromConfigFileByIndex E k path st), st))"
  by (simp add: RemovePointFromConfigFileByIndex_def kept_points Save_files Let_def)

lemma file_ok_remove:
  assumes "file_ok st"
  shows "file_ok (snd (RemovePointFromConfigFileByIndex E k (g_active_config_file st) st))"
proof -
  let ?ps = "file_points st" and ?qs = "take k (file_points st) @ drop (Suc k) (file_points st)"
  have "\<forall>p \<in> set ?qs. point_wf p" using set_kept [of k ?ps] loaded_points_wf by (auto simp: file_points_def)
  moreover have "distinct (map point_key ?qs)"
    using assms distinct_append [of "map point_key (take (Suc k) ?ps)" "map point_key (drop (Suc k) ?ps)"]
    by (auto simp: file_ok_def take_map [symmetric] drop_map [symmetric] set_take_disj_set_drop_if_distinct)
  ultimately show ?thesis
    using assms file_ok_saved [of ?qs st] by (subst Remove_eq) (simp add: Let_def file_points_def [symmetric])
qed

lemma file_ok_request:
  assumes "file_ok st" and "newline \<notin> set (BuildCsvLineFromForm (request_path data))"
  shows "file_ok (snd (HandleHttpClient E point_states (Some data) st))"
proof -
  let ?path = "request_path data"
  have d: "file_ok (snd (handle_delete E ?path st))"
    using file_ok_remove [OF assms(1), of E] assms(1)
    by (auto simp: handle_delete_def split: option.split prod.split) (metis snd_conv)+
  have c: "file_ok (snd (handle_clear E st))"
    using assms(1) file_ok_saved [of "[]" st] by (auto simp: handle_clear_def Save_files ProfileConfig_init_def Let_def)
  have a: "file_ok (snd (handle_add E ?path st))"
    using file_ok_append [OF assms, of E] assms(1)
    by (auto simp: handle_add_def Let_def split: option.split prod.split)
  from d c a assms(1) show ?thesis by (simp add: HandleHttpClient_def Let_def split_beta)
qed

section \<open>Escaping\<close>

definition markup :: "char \<Rightarrow> bool" where
  "markup c = (c = CHR 0x3C \<or> c = CHR 0x3E \<or> c = CHR 0x22 \<or> c = CHR 0x27)"

definition markup_count :: "string \<Rightarrow> nat" where
  "markup_count s = length (filter markup s)"

lemma markup_count_simps [simp]:
  "markup_count [] = 0" "markup_count (c # s) = (if markup c then 1 else 0) + markup_count s"
  "markup_count (s @ t) = markup_count s + markup_count t"
  by (simp_all add: markup_count_def)

lemma markup_count_concat [simp]: "markup_count (concat ss) = sum_list (map markup_count ss)"
  by (induction ss) simp_all

lemma markup_count_append: "markup_count (s @ t) = markup_count s + markup_count t"
  by simp

lemma markup_count_zero: "(\<And>c. c \<in> set s \<Longrightarrow> \<not> markup c) \<Longrightarrow> markup_count s = 0"
  by (simp add: markup_count_def filter_False)

lemma markup_HtmlEscape [simp]: "markup_count (HtmlEscape s) = 0"
proof (rule markup_count_zero)
  fix c assume "c \<in> set (HtmlEscape s)"
  then obtain d where "c \<in> set (HtmlEscape_char d)" by (auto simp: HtmlEscape_def)
  then show "\<not> markup c" by (auto simp: HtmlEscape_char_def markup_def split: if_splits)
qed

definition plain_chars :: "string \<Rightarrow> bool" where
  "plain_chars s = (\<forall>c \<in> set s. \<not> markup c)"

lemma markup_digit: "d < 10 \<Longrightarrow> \<not> markup (chr (48 + d))"
  by (auto simp: markup_def chr_eq_iff) (auto simp: code_def)

lemma markup_show_nat: "c \<in> set (show_nat n) \<Longrightarrow> \<not> markup c"
  using show_nat_digits markup_digit by blast

lemma markup_numbers [simp]: "markup_count (show_nat n) = 0" "markup_count (show_int k) = 0"
proof -
  show "markup_count (show_nat n) = 0" by (rule markup_count_zero) (rule markup_show_nat)
  then show "markup_count (show_int k) = 0"
    using markup_count_zero [of "show_nat m" for m] markup_show_nat by (auto simp: show_int_def markup_def)
qed

lemma markup_strip_zeros: "c \<in> set (strip_zeros s) \<Longrightarrow> c \<in> set s"
  by (auto simp: strip_zeros_def dest: set_dropWhileD)

lemma markup_with_point: "markup_count w = 0 \<Longrightarrow> (\<And>c. c \<in> set f \<Longrightarrow> \<not> markup c) \<Longrightarrow> markup_count (with_point w f) = 0"
  using markup_count_zero [of "strip_zeros f"] markup_strip_zeros [of _ f]
  by (auto simp: with_point_def Let_def markup_def)

lemma not_markup [simp]:
  "\<not> markup (CHR ''.'')" "\<not> markup (CHR ''0'')" "\<not> markup (CHR ''e'')" "\<not> markup (CHR ''-'')" "\<not> markup (CHR ''+'')"
  by (simp_all add: markup_def)

lemma markup_show_fraction [simp]: "markup_count (show_fraction n d) = 0"
proof -
  have tk: "\<not> markup c" if "c \<in> set (take k (show_nat q))" for c k q
    using in_set_takeD [OF that] by (rule markup_show_nat)
  have dp: "\<not> markup c" if "c \<in> set (drop k (show_nat q))" for c k q
    using in_set_dropD [OF that] by (rule markup_show_nat)
  have "markup_count (with_point (take k (show_nat q)) (drop j (show_nat q))) = 0" for k j q
    by (rule markup_with_point [OF markup_count_zero [OF tk] dp])
  moreover have "markup_count (with_point ''0'' (replicate k (CHR ''0'') @ show_nat q)) = 0" for k q
    using markup_show_nat by (intro markup_with_point) auto
  moreover have "markup_count (two_digits k) = 0" for k by (simp add: two_digits_def)
  ultimately show ?thesis by (simp add: show_fraction_def Let_def split_beta)
qed

lemma markup_show_double [simp]: "markup_count (show_double x) = 0"
  by (cases x) (auto simp: markup_def)

lemma markup_point_cells: "markup_count (point_cells p) = markup_count (point_cells q)"
  by (simp add: point_cells_def)

lemma markup_state_cells: "markup_count (state_cells (Some s)) = markup_count (state_cells (Some t))"
  by (simp add: state_cells_def markup_def)

lemma markup_log_row: "markup_count (log_row l) = markup_count (log_row k)"
  by (simp add: log_row_def Let_def markup_def)

definition shown_active :: "ReadPointState list \<Rightarrow> 'a config_state_scheme \<Rightarrow> ReadPointConfig \<Rightarrow> bool" where
  "shown_active point_states st p =
     (FindRuntimePointIndexForUi p st \<ge> 0 \<and> nat (FindRuntimePointIndexForUi p st) < length point_states)"

lemma markup_row_action: "markup_count (row_action i) = markup_count (row_action 0)"
  by (simp add: row_action_def)

definition row_markup :: "bool \<Rightarrow> nat" where
  "row_markup active = markup_count (point_cells example_point)
     + markup_count (state_cells (if active then Some ReadPointState_init else None)) + markup_count (row_action 0)"

lemma markup_point_row: "markup_count (point_row ss st x) = row_markup (shown_active ss st (snd x))"
proof -
  obtain i p where x: "x = (i, p)" by (cases x)
  have "markup_count (point_cells p) = markup_count (point_cells example_point)" by (rule markup_point_cells)
  moreover have "markup_count (state_cells (Some s)) = markup_count (state_cells (Some ReadPointState_init))" for s
    by (rule markup_state_cells)
  ultimately show ?thesis
    by (simp add: x row_markup_def point_row_def shown_active_def Let_def markup_row_action [of i])
qed

lemma markup_rows:
  "sum_list (map (\<lambda>x. markup_count (point_row ss st x)) (enumerate n ps))
     = sum_list (map row_markup (map (shown_active ss st) ps))"
  by (induction ps arbitrary: n) (simp_all add: markup_point_row)

lemma markup_logs: "sum_list (map (\<lambda>l. markup_count (log_row l)) ls) = length ls * markup_count (log_row k)"
  using markup_log_row by (induction ls) auto

lemma not_in_encoded: "CHR 0x26 \<notin> set (UrlEncodeSimple s)" "CHR 0x3D \<notin> set (UrlEncodeSimple s)"
  using UrlEncodeSimple_plain [of _ s] by blast+

lemma GetQueryParam_encoded: "GetQueryParam (''/?notice='' @ UrlEncodeSimple notice) ''notice'' = notice"
proof -
  let ?t = "''notice='' @ UrlEncodeSimple notice"
  have "getline_all (CHR 0x26) ?t = [?t]" using not_in_encoded(1) by (intro getline_last) auto
  moreover have "UrlDecode (UrlEncodeSimple notice) = notice" using UrlDecode_encode [of notice "[]"] by simp
  ultimately show ?thesis by (simp add: GetQueryParam_def)
qed

lemma SendAll_result:
  "SendAll results sent data = Some (ok, out) \<Longrightarrow> \<exists>done rest. out = sent @ done \<and> data = done @ rest \<and> (ok \<longleftrightarrow> rest = [])"
proof (induction results sent data rule: SendAll.induct)
  case (4 n rs sent c cs)
  show ?case
  proof (cases "n = 0")
    case True
    then show ?thesis using 4(2) by auto
  next
    case False
    then obtain d rest where "out = (sent @ take n (c # cs)) @ d" "drop n (c # cs) = d @ rest" "ok \<longleftrightarrow> rest = []"
      using 4 by auto
    then have "out = sent @ (take n (c # cs) @ d) \<and> c # cs = (take n (c # cs) @ d) @ rest \<and> (ok \<longleftrightarrow> rest = [])"
      using append_take_drop_id [of n "c # cs"] by (metis append.assoc)
    then show ?thesis by blast
  qed
qed (auto split: if_splits)

section \<open>The properties\<close>

text \<open>
  C19. The web page cannot be injected with markup. However the names, addresses, notices and
  log texts are chosen, the page has as many markup characters (angle brackets and quotes) as any other page
  with the same number of log lines and the same active and pending points.
\<close>

theorem page_markup_is_fixed:
  assumes "map (shown_active ss st) (file_points st) = map (shown_active ss' st') (file_points st')"
    and "length (g_recent_logs st) = length (g_recent_logs st')" and "notice = [] \<longleftrightarrow> notice' = []"
  shows "markup_count (BuildHtmlPageServerRendered ss notice st) = markup_count (BuildHtmlPageServerRendered ss' notice' st')"
proof -
  have e: "file_points st = [] \<longleftrightarrow> file_points st' = []" using assms(1) by (metis Nil_is_map_conv)
  have l: "markup_count (concat (map log_row (g_recent_logs st))) = markup_count (concat (map log_row (g_recent_logs st')))"
    using assms(2) by (simp add: o_def markup_logs [of _ "log_entry example_env 0 (Info, [], [])"])
  have r: "markup_count (concat (map (point_row ss st) (enumerate 0 (file_points st))))
      = markup_count (concat (map (point_row ss' st') (enumerate 0 (file_points st'))))"
    using arg_cong [OF assms(1), of "\<lambda>l. sum_list (map row_markup l)"] by (simp add: o_def markup_rows)
  have n: "markup_count (page_notice notice) = markup_count (page_notice notice')"
    using assms(3) by (simp add: page_notice_def)
  show ?thesis
    unfolding BuildHtmlPageServerRendered_def Let_def file_points_def [symmetric]
    by (simp only: markup_count_append l r n e split: if_split) blast
qed

lemma page_markup_is_fixed_witness:
  "markup_count (BuildHtmlPageServerRendered [] ''<script>'' example_state) = markup_count (BuildHtmlPageServerRendered [] ''x'' example_state)"
  by (rule page_markup_is_fixed) simp_all

text \<open>
  C20. The web interface keeps the DNP3 indices of the points file unique: from a file in which no two points of the
  same DNP3 kind have the same index, every request whose form text has no line break leads to such
  a file again.
\<close>

theorem web_keeps_indices_unique:
  assumes "file_ok st" and "newline \<notin> set (BuildCsvLineFromForm (request_path data))"
  shows "file_ok (snd (HandleHttpClient E point_states (Some data) st))"
  using assms by (rule file_ok_request)

definition example_request :: string where
  "example_request = ''GET /addpoint?name=B&ip=h&port=502&slave_id=1&reg=holding&address=3&data_type=int16&dnp_index=8 HTTP/1.1''"

lemma web_keeps_indices_unique_witness:
  "file_ok (snd (HandleHttpClient example_env [] (Some example_request) example_state))"
proof (rule web_keeps_indices_unique)
  show "file_ok example_state"
    using example_points by (simp add: file_ok_def file_points_def) (simp add: example_state_def ends_line_def)
  show "newline \<notin> set (BuildCsvLineFromForm (request_path example_request))"
    by code_simp
qed

definition broken_line :: string where
  "broken_line = ''a;h;1;1;holding;0;int16;5'' @ [newline] @ ''b;h;1;1;holding;0;int16;5''"

lemma broken_field: "UrlDecode ''5%0Ab'' = [CHR ''5'', newline, CHR ''b'']"
  by (simp add: UrlDecode.simps(2) code_def chr_def strtol16_def read_sign_def is_blank_def isspace_def hex_val_def
      to_char_def char_of_def bit_0)

lemma broken_points:
  "map_sum id point_key (TryBuildReadPointFromCsvLine broken_line) = Inr (False, 5)"
  "map point_key (load_points (lines_of (broken_line @ [newline]))) = [(False, 5), (False, 5)]"
  by code_simp+

definition empty_points :: config_state where
  "empty_points = example_state\<lparr>files := [''a'' \<mapsto> csv_header]\<rparr>"

text \<open>
  A form field with a line break, which a browser sends as \<open>%0A\<close>, breaks this: one added line is checked as one
  point and reported as saved, but it puts two points with the same DNP3 index into the file.
\<close>

theorem form_line_break_duplicates_index:
  "file_ok empty_points \<and> UrlDecode ''5%0Ab'' = [CHR ''5'', newline, CHR ''b'']
   \<and> fst (AppendPointToConfigFileFromLine example_env broken_line ''a'' empty_points) = None
   \<and> map point_key (file_points (snd (AppendPointToConfigFileFromLine example_env broken_line ''a'' empty_points))) = [(False, 5), (False, 5)]"
proof -
  have ok: "file_ok empty_points"
    using csv_header_ends_line
    by (simp add: empty_points_def file_ok_def file_points_def LoadConfiguredPointsFromCsvForUi_def example_state_def csv_header_no_points)
  obtain p where p: "TryBuildReadPointFromCsvLine broken_line = Inr p"
    using broken_points(1) by (cases "TryBuildReadPointFromCsvLine broken_line") simp_all
  have l: "LoadConfiguredPointsFromCsvForUi ''a'' empty_points = []"
    by (simp add: empty_points_def LoadConfiguredPointsFromCsvForUi_def csv_header_no_points)
  have a: "AppendPointToConfigFileFromLine example_env broken_line ''a'' empty_points
      = (None, empty_points\<lparr>files := [''a'' \<mapsto> csv_header @ broken_line @ [newline]]\<rparr>)"
    by (simp add: AppendPointToConfigFileFromLine_def p l example_env_def) (simp add: empty_points_def)
  have "load_points (lines_of (csv_header @ broken_line @ [newline])) = load_points (lines_of (broken_line @ [newline]))"
    by (simp add: lines_of_append [OF csv_header_ends_line] load_points_append csv_header_no_points)
  then show ?thesis using broken_points(2) ok broken_field
    by (simp add: a) (simp add: file_points_def LoadConfiguredPointsFromCsvForUi_def empty_points_def example_state_def)
qed

text \<open>
  A point that is added to a points file whose last line has no line break is lost: its line is joined to the
  last line, the file still has only the old point, and the answer reports that the point was saved.
\<close>

theorem add_without_final_line_break_is_lost:
  "file_points (snd (AppendPointToConfigFileFromLine example_env ''B;h;502;1;holding;3;int16;8'' ''a''
       (example_state\<lparr>files := [''a'' \<mapsto> ''T;10.0.0.5;502;1;holding;30;int16;7'']\<rparr>)))
     = [example_point]
   \<and> fst (AppendPointToConfigFileFromLine example_env ''B;h;502;1;holding;3;int16;8'' ''a''
       (example_state\<lparr>files := [''a'' \<mapsto> ''T;10.0.0.5;502;1;holding;30;int16;7'']\<rparr>)) = None"
  by code_simp

text \<open>
  Removing a point by its index in the list that the page shows removes exactly that point and keeps the others in order.
\<close>

theorem remove_point_exactly:
  assumes "k < length (file_points st)" and "writable E (g_active_config_file st)"
  shows "file_points (snd (RemovePointFromConfigFileByIndex E k (g_active_config_file st) st))
      = take k (file_points st) @ drop (Suc k) (file_points st)"
proof -
  let ?qs = "take k (file_points st) @ drop (Suc k) (file_points st)"
  have "\<forall>p \<in> set ?qs. point_wf p" using set_kept [of k "file_points st"] loaded_points_wf by (auto simp: file_points_def)
  then show ?thesis using assms
    by (subst Remove_eq) (simp add: Let_def file_points_def LoadConfiguredPointsFromCsvForUi_def [of _ "st\<lparr>files := m\<rparr>" for m] load_points_text)
qed

lemma remove_point_exactly_witness:
  "file_points (snd (RemovePointFromConfigFileByIndex example_env 0 ''a'' example_state)) = []"
proof -
  have f: "file_points example_state = [example_point]" "g_active_config_file example_state = ''a''"
    using example_points by (simp_all add: file_points_def) (simp_all add: example_state_def)
  show ?thesis using remove_point_exactly [of 0 example_state example_env] by (simp add: f) (simp add: example_env_def)
qed

text \<open>
  The answer to a form is a well-formed header: whatever the notice is, the location contains no line break, no
  blank, no separator of the query, and reading the notice parameter of the location gives the notice back.
\<close>

theorem redirect_carries_notice:
  "set (UrlEncodeSimple notice) \<inter> {CHR 0x0D, CHR 0x0A, CHR 0x20, CHR 0x26, CHR 0x3D, CHR 0x3F} = {}
   \<and> GetQueryParam (''/?notice='' @ UrlEncodeSimple notice) ''notice'' = notice"
proof
  show "set (UrlEncodeSimple notice) \<inter> {CHR 0x0D, CHR 0x0A, CHR 0x20, CHR 0x26, CHR 0x3D, CHR 0x3F} = {}"
    using UrlEncodeSimple_plain [of _ notice] by blast
  show "GetQueryParam (''/?notice='' @ UrlEncodeSimple notice) ''notice'' = notice"
    by (rule GetQueryParam_encoded)
qed

text \<open>
  \<open>SendAll\<close> sends the data in order: what has been sent is always a prefix of the data, and the result is
  true exactly when all of it has been sent.
\<close>

theorem SendAll_prefix:
  assumes "SendAll results [] data = Some (ok, sent)"
  shows "(\<exists>rest. data = sent @ rest) \<and> (ok \<longleftrightarrow> sent = data)"
  using SendAll_result [OF assms] by auto

lemma SendAll_prefix_witness:
  "(\<exists>rest. ''abc'' = ''abc'' @ rest) \<and> SendAll [Sent 1, SendError EINTR, Sent 2] [] ''abc'' = Some (True, ''abc'')"
proof -
  have s: "SendAll [Sent 1, SendError EINTR, Sent 2] [] ''abc'' = Some (True, ''abc'')" by (simp add: EINTR_def)
  from SendAll_prefix [OF s] s show ?thesis by simp
qed

end
