(* ===== verification/Gw_System.thy ===== *)
theory Gw_System
  imports Gw_Dnp3 Gw_Http
begin

text \<open>
  The gateway as a whole (\<open>RPI_slavednp3/src/Main.cpp\<close> and the threads that it starts): the start of
  the program, and a step relation in which the polling threads, the commands of the DNP3
  stack, the web server and the console interleave. A polling thread takes three locks one after the other, so its round is
  three steps; a command, a request and a console line are one step each, because they hold one lock or
  touch no state that is shared without one. The world outside may change at any time.
\<close>

section \<open>The program\<close>

datatype poller = ReadNext | UpdateWith "double option" | PublishNext

record 'w process = "'w system" +
  pollers :: "poller list"
  database :: GatewayDatabaseConfig

definition process_start :: "(string \<rightharpoonup> string) \<Rightarrow> 'w \<Rightarrow> 'w process" where
  "process_start fs w =
     \<lparr>g_running = True, g_recent_logs = [], g_hidden_deleted_point_indexes = [], clock = 0,
      g_active_config_file = DEFAULT_POINTS_CONFIG_FILE, g_profile = ProfileConfig_init, files = fs, dev = w, calls = [],
      point_states = [], applied = [], pollers = [], database = DatabaseConfig_empty\<rparr>"

text \<open>The result is \<open>None\<close> when the program hangs before it starts its threads.\<close>

definition main_init :: "env \<Rightarrow> string list \<Rightarrow> (string \<rightharpoonup> string) \<Rightarrow> 'w \<Rightarrow> 'w process option" where
  "main_init E argv fs w =
     (let config_file = GetConfigFileFromArgs argv;
          st = (process_start fs w)\<lparr>g_active_config_file := config_file\<rparr>;
          (profile, st) = BuildProfile E config_file st;
          st = st\<lparr>g_profile := profile\<rparr>;
          st = LogLine E Info ''SYSTEM''
                 ((''Modo '' @ [CHR 0xC3, CHR 0xBA] @ ''nico: configura'' @ [CHR 0xC3, CHR 0xA7, CHR 0xC3, CHR 0xA3] @ ''o por arquivo'') @ '' | arquivo='' @ dq @ g_active_config_file st @ dq
                  @ '' | perfil='' @ dq @ profile_name profile @ dq) st
      in case ConfigureDatabase profile of None \<Rightarrow> None
         | Some config \<Rightarrow>
             (let st = st\<lparr>database := config, point_states := replicate (length (read_points profile)) ReadPointState_init\<rparr>;
                  st = ApplyInitialStateToDNP3 E (read_points profile) st;
                  st = st\<lparr>pollers := replicate (length (read_points profile)) ReadNext\<rparr>;
                  st = LogLine E Info ''SYSTEM'' ''DNP3 outstation habilitada na porta 20000'' st;
                  st = LogLine E Info ''SYSTEM'' ''Mestre Modbus TCP ativo'' st
              in Some (PrintMappings E st)))"

section \<open>Steps\<close>

definition point_of :: "'w process \<Rightarrow> nat \<Rightarrow> ReadPointConfig" where
  "point_of st i = read_points (g_profile st) ! i"

definition set_poller :: "nat \<Rightarrow> poller \<Rightarrow> 'w process \<Rightarrow> 'w process" where
  "set_poller i p st = st\<lparr>pollers := (pollers st)[i := p]\<rparr>"

inductive gw_step :: "env \<Rightarrow> 'w modbus_lib \<Rightarrow> 'w process \<Rightarrow> 'w process \<Rightarrow> bool" for E L where
  poll_read: "i < length (pollers st) \<Longrightarrow> pollers st ! i = ReadNext \<Longrightarrow> g_running st
    \<Longrightarrow> PollPoint_read E L i (point_of st i) st = (r, st') \<Longrightarrow> gw_step E L st (set_poller i (UpdateWith r) st')"
| poll_update: "i < length (pollers st) \<Longrightarrow> pollers st ! i = UpdateWith r
    \<Longrightarrow> gw_step E L st (set_poller i PublishNext (PollPoint_update E i (point_of st i) r st))"
| poll_publish: "i < length (pollers st) \<Longrightarrow> pollers st ! i = PublishNext
    \<Longrightarrow> gw_step E L st (set_poller i ReadNext (PublishPointToDNP3 i (point_of st i) st))"
| select_crob: "Select_CROB E (binary_commands (g_profile st)) command index st = (status, st') \<Longrightarrow> gw_step E L st st'"
| operate_crob: "Operate_CROB E L (binary_commands (g_profile st)) command index op st = (status, st') \<Longrightarrow> gw_step E L st st'"
| select_analog: "Select_Analog E (analog_commands (g_profile st)) acommand index st = (status, st') \<Longrightarrow> gw_step E L st st'"
| operate_analog: "Operate_Analog E L (analog_commands (g_profile st)) acommand index op st = (status, st') \<Longrightarrow> gw_step E L st st'"
| http_client: "g_running st \<Longrightarrow> HandleHttpClient E (point_states st) received st = (out, st') \<Longrightarrow> gw_step E L st st'"
| console_line: "g_running st \<Longrightarrow> ExecuteCommandLine E line st = (ok, st') \<Longrightarrow> gw_step E L st st'"
| console_help: "gw_step E L st (PrintConsoleHelp E st)"
| world: "gw_step E L st (st\<lparr>dev := w\<rparr>)"

inductive_cases gw_stepE: "gw_step E L st st'"

inductive gw_reach :: "env \<Rightarrow> 'w modbus_lib \<Rightarrow> 'w process \<Rightarrow> 'w process \<Rightarrow> bool" for E L where
  start: "gw_reach E L st st"
| more_steps: "gw_reach E L st st' \<Longrightarrow> gw_step E L st' st'' \<Longrightarrow> gw_reach E L st st''"

section \<open>What the operations leave alone\<close>

definition core :: "'w process \<Rightarrow> ProfileConfig \<times> string \<times> ReadPointState list \<times> Update list list \<times> poller list \<times> GatewayDatabaseConfig" where
  "core st = (g_profile st, g_active_config_file st, point_states st, applied st, pollers st, database st)"

definition logs_ok :: "'w process \<Rightarrow> bool" where
  "logs_ok st = (length (g_recent_logs st) \<le> MAX_UI_LOGS)"

lemma core_LogLine [simp]: "core (LogLine E l sc t st) = core st"
  by (simp add: core_def LogLine_def Let_def)

lemma logs_ok_LogLine [simp]: "logs_ok (LogLine E l sc t st)"
  by (simp add: logs_ok_def LogLine_logs)

lemma core_log_call [simp]: "core (log_call c w st) = core st" "logs_ok (log_call c w st) = logs_ok st"
  by (simp_all add: core_def log_call_def logs_ok_def)

lemma core_close [simp]: "core (close_and_free L c st) = core st" "logs_ok (close_and_free L c st) = logs_ok st"
  by (simp_all add: close_and_free_def Let_def)

lemma core_connect [simp]:
  "core (snd (CreateAndConnect L ip port slave st)) = core st"
  "logs_ok (snd (CreateAndConnect L ip port slave st)) = logs_ok st"
  by (simp_all add: CreateAndConnect_def Let_def split_beta split: option.split)

lemma core_ReadModbusPoint [simp]:
  "core (snd (ReadModbusPoint L p st)) = core st" "logs_ok (snd (ReadModbusPoint L p st)) = logs_ok st"
  by (simp_all add: ReadModbusPoint_def Let_def split_beta split: option.split)

lemma core_WriteHoldingRegister [simp]: "core (snd (WriteHoldingRegister E L cfg v st)) = core st"
  by (simp add: WriteHoldingRegister_def Let_def split_beta split: option.split sum.split)

lemma core_WriteCoil [simp]: "core (snd (WriteCoil E L cfg v st)) = core st"
  by (simp add: WriteCoil_def Let_def split_beta split: option.split)

lemma logs_ok_writes [simp]:
  "logs_ok (snd (WriteHoldingRegister E L cfg v st))" "logs_ok (snd (WriteCoil E L cfg b st))"
  by (simp_all add: WriteHoldingRegister_def WriteCoil_def Let_def split_beta split: option.split sum.split)

lemma LogInfo_frame [simp]:
  "core (LogInfo E sc t st) = core st" "logs_ok (LogInfo E sc t st)" "calls (LogInfo E sc t st) = calls st"
  "files (LogInfo E sc t st) = files st"
  for st :: "'w process"
  by (simp_all add: LogInfo_def)

lemma fold_LogInfo [simp]:
  "core (fold (\<lambda>x. LogInfo E sc (f x)) xs st) = core st"
  "calls (fold (\<lambda>x. LogInfo E sc (f x)) xs st) = calls st"
  "files (fold (\<lambda>x. LogInfo E sc (f x)) xs st) = files st"
  "logs_ok st \<Longrightarrow> logs_ok (fold (\<lambda>x. LogInfo E sc (f x)) xs st)"
  for st :: "'w process"
  by (induction xs arbitrary: st) simp_all

lemma console_frame [simp]:
  "core (PrintMappings E st) = core st" "calls (PrintMappings E st) = calls st" "logs_ok (PrintMappings E st)"
  "core (PrintConsoleHelp E st) = core st" "calls (PrintConsoleHelp E st) = calls st"
  "logs_ok st \<Longrightarrow> logs_ok (PrintConsoleHelp E st)"
  for st :: "'w process"
  using fold_LogInfo [where E = E and sc = "''HELP''" and f = "\<lambda>x. x" and xs = console_help and st = st]
  by (simp_all add: PrintMappings_def PrintConsoleHelp_def Let_def)

lemma running_frame [simp]: "core (st\<lparr>g_running := b\<rparr>) = core st" "calls (st\<lparr>g_running := b\<rparr>) = calls st"
  by (simp_all add: core_def)

lemma ExecuteCommandLine_frame:
  "core (snd (ExecuteCommandLine E line st)) = core st" "calls (snd (ExecuteCommandLine E line st)) = calls st"
  "logs_ok st \<Longrightarrow> logs_ok (snd (ExecuteCommandLine E line st))"
  for st :: "'w process"
  by (simp_all add: ExecuteCommandLine_def Let_def)

lemma files_frame [simp]:
  "core (st\<lparr>files := f\<rparr>) = core st" "calls (st\<lparr>files := f\<rparr>) = calls st" "logs_ok (st\<lparr>files := f\<rparr>) = logs_ok st"
  by (simp_all add: core_def logs_ok_def)

lemma Save_frame [simp]:
  "core (snd (SaveProfileReadPointsToCsv E pr path st)) = core st"
  "calls (snd (SaveProfileReadPointsToCsv E pr path st)) = calls st"
  "logs_ok (snd (SaveProfileReadPointsToCsv E pr path st)) = logs_ok st"
  by (simp_all add: Save_files)

lemma Append_frame [simp]:
  "core (snd (AppendPointToConfigFileFromLine E line path st)) = core st"
  "calls (snd (AppendPointToConfigFileFromLine E line path st)) = calls st"
  "logs_ok (snd (AppendPointToConfigFileFromLine E line path st)) = logs_ok st"
  by (simp_all add: AppendPointToConfigFileFromLine_def split: sum.split option.split)

lemma Remove_frame [simp]:
  "core (snd (RemovePointFromConfigFileByIndex E k path st)) = core st"
  "calls (snd (RemovePointFromConfigFileByIndex E k path st)) = calls st"
  "logs_ok (snd (RemovePointFromConfigFileByIndex E k path st)) = logs_ok st"
  by (subst Remove_eq; simp add: Let_def)+

lemma handle_frame [simp]:
  "core (snd (handle_delete E path st)) = core st" "calls (snd (handle_delete E path st)) = calls st"
  "logs_ok (snd (handle_delete E path st)) = logs_ok st"
  "core (snd (handle_clear E st)) = core st" "calls (snd (handle_clear E st)) = calls st"
  "logs_ok (snd (handle_clear E st)) = logs_ok st"
  "core (snd (handle_add E path st)) = core st" "calls (snd (handle_add E path st)) = calls st"
  "logs_ok (snd (handle_add E path st)) = logs_ok st"
proof -
  have p: "snd (case r of (None, s) \<Rightarrow> (f s, s) | (Some e, s) \<Rightarrow> (g e s, s)) = snd r"
    for r :: "string option \<times> 'b process" and f g by (auto split: prod.split option.split)
  have q: "snd (case r of (True, s) \<Rightarrow> (f s, s) | (False, s) \<Rightarrow> (g s, s)) = snd r"
    for r :: "bool \<times> 'b process" and f g by (auto split: prod.split bool.split)
  show "core (snd (handle_delete E path st)) = core st" "calls (snd (handle_delete E path st)) = calls st"
    "logs_ok (snd (handle_delete E path st)) = logs_ok st"
    by (simp_all add: handle_delete_def p split: option.split)
  show "core (snd (handle_clear E st)) = core st" "calls (snd (handle_clear E st)) = calls st"
    "logs_ok (snd (handle_clear E st)) = logs_ok st"
    by (simp_all add: handle_clear_def q Let_def)
  show "core (snd (handle_add E path st)) = core st" "calls (snd (handle_add E path st)) = calls st"
    "logs_ok (snd (handle_add E path st)) = logs_ok st"
    by (simp_all add: handle_add_def p Let_def)
qed

lemma HandleHttpClient_frame:
  "core (snd (HandleHttpClient E ss received st)) = core st"
  "calls (snd (HandleHttpClient E ss received st)) = calls st"
  "logs_ok (snd (HandleHttpClient E ss received st)) = logs_ok st"
  by (simp_all add: HandleHttpClient_def Let_def split_beta split: option.split)

section \<open>Invariant\<close>

definition coil_allowed :: "ReadPointConfig list \<Rightarrow> destination \<Rightarrow> int \<Rightarrow> int \<Rightarrow> bool" where
  "coil_allowed ps d addr v =
     ((\<exists>p \<in> set ps. IsCoilStatusType (rp_type p) \<and> d = (c_str (rp_ip p), rp_port p, rp_slave_id p) \<and> addr = rp_address p)
      \<and> (v = 0 \<or> v = 1))"

definition registers_allowed :: "ReadPointConfig list \<Rightarrow> destination \<Rightarrow> int \<Rightarrow> u16 list \<Rightarrow> bool" where
  "registers_allowed ps d addr regs =
     (\<exists>p \<in> set ps. IsHoldingRegisterType (rp_type p) \<and> d = (c_str (rp_ip p), rp_port p, rp_slave_id p) \<and> addr = rp_address p
        \<and> int (length regs) = RegisterCountForType (rp_type p))"

fun write_allowed :: "ReadPointConfig list \<Rightarrow> destination \<times> modbus_call \<Rightarrow> bool" where
  "write_allowed ps (d, WriteBit ctx addr v rc) = coil_allowed ps d addr v"
| "write_allowed ps (d, WriteRegs ctx addr regs rc) = registers_allowed ps d addr regs"
| "write_allowed ps (d, call) = False"

fun update_allowed :: "ReadPointConfig list \<Rightarrow> Update \<Rightarrow> bool" where
  "update_allowed ps (UpdateBinary v flags index) =
     (flags = 1 \<and> (\<exists>p \<in> set ps. PublishesAsDnp3Binary (rp_type p) \<and> index = rp_dnp3_analog_index p))"
| "update_allowed ps (UpdateAnalog v flags index) =
     (flags = 1 \<and> (\<exists>p \<in> set ps. \<not> PublishesAsDnp3Binary (rp_type p) \<and> index = rp_dnp3_analog_index p))"

definition commands_ok :: "ProfileConfig \<Rightarrow> bool" where
  "commands_ok profile =
     (analog_commands profile = map analog_command_of (filter (\<lambda>p. IsHoldingRegisterType (rp_type p)) (read_points profile))
      \<and> binary_commands profile = map binary_command_of (filter (\<lambda>p. IsCoilStatusType (rp_type p)) (read_points profile)))"

definition core_ok :: "'w process \<Rightarrow> bool" where
  "core_ok st =
     (commands_ok (g_profile st) \<and> length (point_states st) = length (read_points (g_profile st))
      \<and> length (pollers st) = length (read_points (g_profile st))
      \<and> (\<forall>s \<in> set (point_states st). point_state_ok s)
      \<and> (\<forall>us \<in> set (applied st). \<forall>u \<in> set us. update_allowed (read_points (g_profile st)) u))"

definition calls_ok :: "'w process \<Rightarrow> bool" where
  "calls_ok st = (ctx_of st = Some Idle \<and> (\<forall>w \<in> set (written st). write_allowed (read_points (g_profile st)) w))"

definition gw_inv :: "'w process \<Rightarrow> bool" where
  "gw_inv st = (core_ok st \<and> calls_ok st \<and> logs_ok st)"

lemma core_ok_core: "core a = core b \<Longrightarrow> core_ok a = core_ok b"
  by (simp add: core_ok_def core_def)

lemma core_profile: "core a = core b \<Longrightarrow> g_profile a = g_profile b"
  by (simp add: core_def)

lemma calls_ok_calls: "calls a = calls b \<Longrightarrow> g_profile a = g_profile b \<Longrightarrow> calls_ok a = calls_ok b"
  by (simp add: calls_ok_def ctx_of_def written_def traced_def)

lemma FindCommandConfig_in:
  "FindCommandConfig cfgs index target = Some cfg \<Longrightarrow> cfg \<in> set cfgs \<and> cp_dnp3_index cfg = index \<and> cp_target cfg = target"
  by (induction cfgs) (auto split: if_splits)

lemma binary_command_in:
  assumes "commands_ok profile" "cfg \<in> set (binary_commands profile)"
  shows "\<exists>p \<in> set (read_points profile). IsCoilStatusType (rp_type p) \<and> cp_ip cfg = rp_ip p \<and> cp_port cfg = rp_port p
     \<and> cp_slave_id cfg = rp_slave_id p \<and> cp_modbus_address cfg = rp_address p"
  using assms by (auto simp: commands_ok_def binary_command_of_def)

lemma analog_command_in:
  assumes "commands_ok profile" "cfg \<in> set (analog_commands profile)"
  shows "\<exists>p \<in> set (read_points profile). IsHoldingRegisterType (rp_type p) \<and> cp_ip cfg = rp_ip p \<and> cp_port cfg = rp_port p
     \<and> cp_slave_id cfg = rp_slave_id p \<and> cp_modbus_address cfg = rp_address p \<and> cp_value_type cfg = rp_type p"
  using assms by (auto simp: commands_ok_def analog_command_of_def)

lemma calls_ok_extend:
  assumes "calls_ok st" "ctx_of st' = Some Idle" "g_profile st' = g_profile st"
    and "written st' = written st \<or> (\<exists>x. written st' = written st @ [x] \<and> write_allowed (read_points (g_profile st)) x)"
  shows "calls_ok st'"
  using assms by (auto simp: calls_ok_def)

lemma calls_ok_coil:
  assumes "calls_ok st" "cfg \<in> set (binary_commands (g_profile st))" "commands_ok (g_profile st)"
  shows "calls_ok (snd (WriteCoil E L cfg b st))"
proof -
  have a: "coil_allowed (read_points (g_profile st)) (c_str (cp_ip cfg), cp_port cfg, cp_slave_id cfg) (cp_modbus_address cfg) (if b then 1 else 0)"
    using binary_command_in [OF assms(3,2)] by (auto simp: coil_allowed_def)
  have g: "g_profile (snd (WriteCoil E L cfg b st)) = g_profile st" by (rule core_profile) simp
  have "ctx_of (snd (WriteCoil E L cfg b st)) = Some Idle" using assms(1) by (simp add: calls_ok_def WriteCoil_ctx)
  moreover have "written (snd (WriteCoil E L cfg b st)) = written st
      \<or> (\<exists>x. written (snd (WriteCoil E L cfg b st)) = written st @ [x] \<and> write_allowed (read_points (g_profile st)) x)"
    using WriteCoil_written [of E L cfg b st]
  proof (elim disjE exE conjE)
    fix ctx rc
    assume w: "written (snd (WriteCoil E L cfg b st)) = written st
       @ [((c_str (cp_ip cfg), cp_port cfg, cp_slave_id cfg), WriteBit ctx (cp_modbus_address cfg) (if b then 1 else 0) rc)]"
    show ?thesis unfolding w by (intro disjI2 exI conjI, rule refl, simp only: write_allowed.simps a)
  qed (rule disjI1)
  ultimately show ?thesis using g by (intro calls_ok_extend [OF assms(1)])
qed

lemma calls_ok_registers:
  assumes "calls_ok st" "cfg \<in> set (analog_commands (g_profile st))" "commands_ok (g_profile st)"
  shows "calls_ok (snd (WriteHoldingRegister E L cfg v st))"
proof -
  have g: "g_profile (snd (WriteHoldingRegister E L cfg v st)) = g_profile st" by (rule core_profile) simp
  have c: "ctx_of (snd (WriteHoldingRegister E L cfg v st)) = Some Idle"
    using assms(1) by (simp add: calls_ok_def WriteHoldingRegister_ctx)
  show ?thesis
  proof (cases "BuildHoldingRegisterWritePayload E cfg v")
    case (Inl e)
    then have "BuildHoldingRegisterWritePayload E cfg v = Inl (fst e, snd e)" by simp
    from payload_error(2) [OF this, of L st] show ?thesis by (rule calls_ok_calls [THEN iffD2, OF _ g assms(1)])
  next
    case (Inr rn)
    then obtain regs n where b: "BuildHoldingRegisterWritePayload E cfg v = Inr (regs, n)" by (cases rn) simp
    have d: "length regs = 2" "n = RegisterCountForType (cp_value_type cfg)" using decode_payload [OF b] by simp_all
    have "int (length (take (nat n) regs)) = RegisterCountForType (cp_value_type cfg)"
      using d RegisterCountForType_cases [of "cp_value_type cfg"] by auto
    then have "registers_allowed (read_points (g_profile st)) (c_str (cp_ip cfg), cp_port cfg, cp_slave_id cfg)
        (cp_modbus_address cfg) (take (nat n) regs)"
      using analog_command_in [OF assms(3,2)] by (auto simp: registers_allowed_def)
    then have "written (snd (WriteHoldingRegister E L cfg v st)) = written st
      \<or> (\<exists>x. written (snd (WriteHoldingRegister E L cfg v st)) = written st @ [x] \<and> write_allowed (read_points (g_profile st)) x)"
      using WriteHoldingRegister_written [OF b, of L st]
    proof (elim disjE exE conjE)
      fix ctx rc
      assume a: "registers_allowed (read_points (g_profile st)) (c_str (cp_ip cfg), cp_port cfg, cp_slave_id cfg)
        (cp_modbus_address cfg) (take (nat n) regs)"
      assume w: "written (snd (WriteHoldingRegister E L cfg v st)) = written st
         @ [((c_str (cp_ip cfg), cp_port cfg, cp_slave_id cfg), WriteRegs ctx (cp_modbus_address cfg) (take (nat n) regs) rc)]"
      show ?thesis unfolding w by (intro disjI2 exI conjI, rule refl, simp only: write_allowed.simps a)
    qed (rule disjI1)
    with c g show ?thesis by (intro calls_ok_extend [OF assms(1)])
  qed
qed

section \<open>The steps keep the invariant\<close>

lemma read_step_frame:
  "core (snd (PollPoint_read E L i p st)) = core st" "logs_ok st \<Longrightarrow> logs_ok (snd (PollPoint_read E L i p st))"
  "calls_ok st \<Longrightarrow> calls_ok (snd (PollPoint_read E L i p st))"
proof -
  have e: "calls (snd (PollPoint_read E L i p st)) = calls (snd (ReadModbusPoint L p st))"
    by (simp add: PollPoint_read_def split_beta split: option.split)
  show c: "core (snd (PollPoint_read E L i p st)) = core st"
    by (simp add: PollPoint_read_def split_beta split: option.split)
  show "logs_ok st \<Longrightarrow> logs_ok (snd (PollPoint_read E L i p st))"
    by (simp add: PollPoint_read_def split_beta split: option.split)
  show "calls_ok (snd (PollPoint_read E L i p st))" if "calls_ok st"
  proof (rule calls_ok_extend [OF that])
    show "ctx_of (snd (PollPoint_read E L i p st)) = Some Idle"
      using ReadModbusPoint_ctx [of st L p] that e by (simp add: calls_ok_def ctx_of_def)
    show "g_profile (snd (PollPoint_read E L i p st)) = g_profile st" by (rule core_profile [OF c])
    have "written (snd (PollPoint_read E L i p st)) = written st"
      using ReadModbusPoint_written [of L p st] written_calls [OF e] by simp
    then show "written (snd (PollPoint_read E L i p st)) = written st
        \<or> (\<exists>x. written (snd (PollPoint_read E L i p st)) = written st @ [x] \<and> write_allowed (read_points (g_profile st)) x)" ..
  qed
qed

lemma set_poller_inv: "gw_inv (set_poller i p st) = gw_inv st"
  by (simp add: gw_inv_def core_ok_def calls_ok_def logs_ok_def ctx_of_def written_def traced_def set_poller_def)

lemma point_states_update:
  "gw_inv st \<Longrightarrow> point_state_ok s \<Longrightarrow> gw_inv (st\<lparr>point_states := (point_states st)[i := s]\<rparr>)"
  using set_update_subset_insert [of "point_states st" i s]
  by (auto simp: gw_inv_def core_ok_def calls_ok_def logs_ok_def ctx_of_def written_def traced_def)

lemma LogLine_inv: "gw_inv st \<Longrightarrow> gw_inv (LogLine E l sc t st)"
  using core_ok_core [of "LogLine E l sc t st" st] calls_ok_calls [of "LogLine E l sc t st" st] core_profile [of "LogLine E l sc t st" st]
  by (simp add: gw_inv_def)

lemma frame_inv: "gw_inv st \<Longrightarrow> core st' = core st \<Longrightarrow> calls st' = calls st \<Longrightarrow> logs_ok st' \<Longrightarrow> gw_inv st'"
  using core_ok_core [of st' st] calls_ok_calls [of st' st] core_profile [of st' st] by (simp add: gw_inv_def)

lemma update_step_inv:
  assumes "gw_inv st" "i < length (pollers st)"
  shows "gw_inv (PollPoint_update E i p r st)"
proof -
  have "point_states st ! i \<in> set (point_states st)" using assms by (simp add: gw_inv_def core_ok_def)
  then have s: "point_state_ok (point_states st ! i)" using assms(1) by (auto simp: gw_inv_def core_ok_def)
  then show ?thesis
    using HandleCommunicationSuccess_ok HandleCommunicationFailure_ok assms(1)
    by (auto simp: PollPoint_update_def Let_def intro!: LogLine_inv point_states_update split: option.split)
qed

lemma UpdateDNP3Values_allowed:
  "p \<in> set ps \<Longrightarrow> \<forall>u \<in> set us. update_allowed ps u \<Longrightarrow> \<forall>u \<in> set (UpdateDNP3Values us p s). update_allowed ps u"
  by (auto simp: UpdateDNP3Values_def Let_def)

lemma publish_step_inv:
  assumes "gw_inv st" "i < length (pollers st)"
  shows "gw_inv (PublishPointToDNP3 i (point_of st i) st)"
proof -
  let ?s = "point_states st ! i"
  have l: "i < length (read_points (g_profile st))" "i < length (point_states st)"
    using assms by (simp_all add: gw_inv_def core_ok_def)
  then have "?s \<in> set (point_states st)" by simp
  then have "point_state_ok ?s" using assms(1) by (auto simp: gw_inv_def core_ok_def)
  then have "point_state_ok (?s\<lparr>connection_changed := False\<rparr>)" by (simp add: point_state_ok_def)
  from point_states_update [OF assms(1) this, of i]
  have "gw_inv (st\<lparr>point_states := (point_states st)[i := ?s\<lparr>connection_changed := False\<rparr>]\<rparr>)" .
  moreover have "\<forall>u \<in> set (UpdateDNP3Values [] (point_of st i) ?s). update_allowed (read_points (g_profile st)) u"
    using l by (intro UpdateDNP3Values_allowed) (simp_all add: point_of_def)
  ultimately show ?thesis
    by (simp add: PublishPointToDNP3_def Let_def gw_inv_def core_ok_def calls_ok_def logs_ok_def ctx_of_def written_def traced_def)
qed

lemma command_inv:
  assumes "gw_inv st" "core st' = core st" "calls_ok st'" "logs_ok st'"
  shows "gw_inv st'"
  using assms core_ok_core [of st' st] by (simp add: gw_inv_def)

lemma operate_crob_inv:
  assumes "gw_inv st"
  shows "gw_inv (snd (Operate_CROB E L (binary_commands (g_profile st)) command index op st))"
proof (cases "FindCommandConfig (binary_commands (g_profile st)) index Coil")
  case None
  then show ?thesis using LogLine_inv [OF assms] by (simp add: Operate_CROB_def Let_def)
next
  case (Some cfg)
  have c: "calls_ok (snd (WriteCoil E L cfg b (LogLine E l sc t (LogLine E l' sc' t' st))))" for b l sc t l' sc' t'
  proof -
    have i: "gw_inv (LogLine E l sc t (LogLine E l' sc' t' st))" by (intro LogLine_inv assms)
    have g: "g_profile (LogLine E l sc t (LogLine E l' sc' t' st)) = g_profile st" by simp
    show ?thesis using i FindCommandConfig_in [OF Some] by (intro calls_ok_coil) (simp_all add: gw_inv_def core_ok_def g)
  qed
  show ?thesis
    by (rule command_inv [OF assms])
      (simp_all add: Operate_CROB_def Let_def split_beta Some c calls_ok_calls [of "LogLine E l sc t s" s for l sc t s])
qed

lemma operate_analog_inv:
  assumes "gw_inv st"
  shows "gw_inv (snd (Operate_Analog E L (analog_commands (g_profile st)) command index op st))"
proof (cases "FindCommandConfig (analog_commands (g_profile st)) index HoldingRegister")
  case None
  then show ?thesis using LogLine_inv [OF assms] by (simp add: Operate_Analog_def OperateAnalog_def Let_def)
next
  case (Some cfg)
  have c: "calls_ok (snd (WriteHoldingRegister E L cfg v (LogLine E l sc t st)))" for v l sc t
  proof -
    have i: "gw_inv (LogLine E l sc t st)" by (intro LogLine_inv assms)
    show ?thesis using i FindCommandConfig_in [OF Some] by (intro calls_ok_registers) (simp_all add: gw_inv_def core_ok_def)
  qed
  show ?thesis
    by (rule command_inv [OF assms]) (simp_all add: Operate_Analog_def OperateAnalog_def Let_def Some c)
qed

lemma gw_step_inv: "gw_step E L st st' \<Longrightarrow> gw_inv st \<Longrightarrow> gw_inv st'"
proof (induction rule: gw_step.induct)
  case (poll_read i st r st')
  have "gw_inv (snd (PollPoint_read E L i (point_of st i) st))"
    using poll_read(5) read_step_frame [where E = E and L = L and i = i and p = "point_of st i" and st = st] by (intro command_inv [OF poll_read(5)]) (simp_all add: gw_inv_def)
  then show ?case using poll_read(4) by (simp add: set_poller_inv)
next
  case (poll_update i st r)
  then show ?case by (simp add: set_poller_inv update_step_inv)
next
  case (poll_publish i st)
  then show ?case by (simp add: set_poller_inv publish_step_inv)
next
  case (select_crob st command index status st')
  then have "st' = snd (Select_CROB E (binary_commands (g_profile st)) command index st)" by simp
  then show ?case using LogLine_inv [OF select_crob(2)] by (simp add: Select_CROB_def Let_def)
next
  case (operate_crob st command index op status st')
  from operate_crob_inv [OF operate_crob(2), of E L command index op] operate_crob(1) show ?case by simp
next
  case (select_analog st command index status st')
  then have "st' = snd (Select_Analog E (analog_commands (g_profile st)) command index st)" by simp
  then show ?case using LogLine_inv [OF select_analog(2)] by (simp add: Select_Analog_def LogAnalogSelect_def Let_def)
next
  case (operate_analog st command index op status st')
  from operate_analog_inv [OF operate_analog(2), of E L command index op] operate_analog(1) show ?case by simp
next
  case (http_client st received out st')
  then show ?case using HandleHttpClient_frame [of E "point_states st" received st] frame_inv [of st st'] by (simp add: gw_inv_def)
next
  case (console_line st line ok st')
  then show ?case using ExecuteCommandLine_frame [where E = E and line = line and st = st] frame_inv [of st st'] by (simp add: gw_inv_def)
next
  case (console_help st)
  then show ?case using frame_inv [of st "PrintConsoleHelp E st"] by (simp add: gw_inv_def)
next
  case (world st w)
  then show ?case by (simp add: gw_inv_def core_ok_def calls_ok_def logs_ok_def ctx_of_def written_def traced_def)
qed

section \<open>The start of the program\<close>

lemma accepted_points_active [simp]:
  "accepted_points f (st\<lparr>g_active_config_file := x\<rparr>) = accepted_points f st"
  by (simp add: accepted_points_def FileHasOnlyLegacyAutoExamples_def split: option.split)

lemma read_lines_core: "core (snd (read_lines E ls n profile st)) = core st" "calls (snd (read_lines E ls n profile st)) = calls st"
  for st :: "'w process"
  by (induction ls arbitrary: n profile st) (simp_all add: Let_def split: sum.split)

lemma BuildProfile_frame:
  "core (snd (BuildProfile E path st)) = core st" "calls (snd (BuildProfile E path st)) = calls st"
  "logs_ok (snd (BuildProfile E path st))"
  for st :: "'w process"
  by (simp_all add: BuildProfile_def BuildConfigFileProfile_def Let_def split_beta read_lines_core split: option.split)

lemma fold_updates_allowed:
  "\<forall>(p, s) \<in> set xs. p \<in> set ps \<Longrightarrow> \<forall>u \<in> set us. update_allowed ps u
     \<Longrightarrow> \<forall>u \<in> set (fold (\<lambda>(point, state) builder. UpdateDNP3Values builder point state) xs us). update_allowed ps u"
proof (induction xs arbitrary: us)
  case (Cons x xs)
  obtain p s where x: "x = (p, s)" by (cases x)
  have "\<forall>u \<in> set (UpdateDNP3Values us p s). update_allowed ps u"
    using Cons.prems by (intro UpdateDNP3Values_allowed) (simp_all add: x)
  with Cons show ?case by (simp add: x)
qed simp

lemma main_init_inv:
  assumes "main_init E argv fs w = Some st"
  shows "gw_inv st" "read_points (g_profile st) = accepted_points (GetConfigFileFromArgs argv) (process_start fs w)"
proof -
  let ?f = "GetConfigFileFromArgs argv"
  let ?s0 = "(process_start fs w)\<lparr>g_active_config_file := ?f\<rparr>"
  obtain profile s1 where b: "BuildProfile E ?f ?s0 = (profile, s1)" by (cases "BuildProfile E ?f ?s0")
  note r = BuildProfile_result [of E ?f ?s0, unfolded b fst_conv snd_conv]
  note fr = BuildProfile_frame [where E = E and path = ?f and st = ?s0, unfolded b snd_conv]
  let ?ps = "read_points profile"
  obtain config where c: "ConfigureDatabase profile = Some config"
    using assms by (auto simp: main_init_def b Let_def split: option.splits)
  define s2 where "s2 = LogLine E Info ''SYSTEM''
                 ((''Modo '' @ [CHR 0xC3, CHR 0xBA] @ ''nico: configura'' @ [CHR 0xC3, CHR 0xA7, CHR 0xC3, CHR 0xA3] @ ''o por arquivo'') @ '' | arquivo='' @ dq @ g_active_config_file s1 @ dq
                  @ '' | perfil='' @ dq @ profile_name profile @ dq) (s1\<lparr>g_profile := profile\<rparr>)"
  define s3 where "s3 = (ApplyInitialStateToDNP3 E ?ps (s2\<lparr>database := config,
      point_states := replicate (length ?ps) ReadPointState_init\<rparr>))\<lparr>pollers := replicate (length ?ps) ReadNext\<rparr>"
  have st: "st = PrintMappings E (LogLine E Info ''SYSTEM'' ''Mestre Modbus TCP ativo''
      (LogLine E Info ''SYSTEM'' ''DNP3 outstation habilitada na porta 20000'' s3))"
    using assms by (simp add: main_init_def b Let_def c s2_def s3_def)
  have s2: "applied s2 = []" "calls s2 = []" "g_profile s2 = profile"
  proof -
    have "core s2 = core (s1\<lparr>g_profile := profile\<rparr>)" "calls s2 = calls s1" by (simp_all add: s2_def)
    moreover have "applied s1 = []" "calls s1 = []" using fr by (simp_all add: core_def process_start_def)
    ultimately show "applied s2 = []" "calls s2 = []" "g_profile s2 = profile" by (simp_all add: core_def)
  qed
  let ?is = "replicate (length ?ps) (initial_point_state (now E (clock s2)) ReadPointState_init)"
  have s3: "g_profile s3 = profile" "calls s3 = []" "point_states s3 = ?is" "pollers s3 = replicate (length ?ps) ReadNext"
    "applied s3 = [fold (\<lambda>(point, state) builder. UpdateDNP3Values builder point state) (zip ?ps ?is) []]"
    by (simp_all add: s3_def ApplyInitialStateToDNP3_def Let_def s2)
  have "\<forall>u \<in> set (fold (\<lambda>(point, state) builder. UpdateDNP3Values builder point state) (zip ?ps ?is) []). update_allowed ?ps u"
    by (rule fold_updates_allowed) (auto dest: set_zip_leftD)
  moreover have "point_state_ok (initial_point_state t ReadPointState_init)" for t
    by (simp add: point_state_ok_def initial_point_state_def)
  ultimately have "core_ok s3"
    using r by (simp add: core_ok_def s3 commands_ok_def)
  moreover have "calls_ok s3" by (simp add: calls_ok_def ctx_of_def written_def traced_def s3)
  moreover have e: "core st = core s3" "calls st = calls s3" "logs_ok st" by (simp_all add: st)
  ultimately show "gw_inv st"
    using core_ok_core [OF e(1)] calls_ok_calls [OF e(2) core_profile [OF e(1)]] by (simp add: gw_inv_def)
  have "accepted_points ?f ?s0 = accepted_points ?f (process_start fs w)"
    by (simp add: accepted_points_def FileHasOnlyLegacyAutoExamples_def split: option.split)
  then show "read_points (g_profile st) = accepted_points ?f (process_start fs w)"
    using r core_profile [OF e(1)] s3(1) by simp
qed

lemma gw_reach_inv: "gw_reach E L st st' \<Longrightarrow> gw_inv st \<Longrightarrow> gw_inv st'"
  by (induction rule: gw_reach.induct) (auto dest: gw_step_inv)

lemma gw_step_profile: "gw_step E L st st' \<Longrightarrow> g_profile st' = g_profile st"
proof (induction rule: gw_step.induct)
  case (poll_read i st r st')
  then show ?case using core_profile [OF read_step_frame(1) [of E L i "point_of st i" st]] by (simp add: set_poller_def)
next
  case (poll_update i st r)
  then show ?case by (simp add: set_poller_def PollPoint_update_def Let_def core_profile [OF core_LogLine] split: option.split)
next
  case (poll_publish i st)
  then show ?case by (simp add: set_poller_def PublishPointToDNP3_def Let_def)
next
  case (select_crob st command index status st')
  then have "st' = snd (Select_CROB E (binary_commands (g_profile st)) command index st)" by simp
  then show ?case by (simp add: Select_CROB_def Let_def core_profile [OF core_LogLine])
next
  case (operate_crob st command index op status st')
  then have e: "st' = snd (Operate_CROB E L (binary_commands (g_profile st)) command index op st)" by simp
  have "core st' = core st" unfolding e by (simp add: Operate_CROB_def Let_def split_beta split: option.split)
  then show ?case by (rule core_profile)
next
  case (select_analog st command index status st')
  then have "st' = snd (Select_Analog E (analog_commands (g_profile st)) command index st)" by simp
  then show ?case by (simp add: Select_Analog_def LogAnalogSelect_def Let_def core_profile [OF core_LogLine])
next
  case (operate_analog st command index op status st')
  then have e: "st' = snd (Operate_Analog E L (analog_commands (g_profile st)) command index op st)" by simp
  have "core st' = core st" unfolding e by (simp add: Operate_Analog_def OperateAnalog_def Let_def split: option.split)
  then show ?case by (rule core_profile)
next
  case (http_client st received out st')
  then have "st' = snd (HandleHttpClient E (point_states st) received st)" by simp
  with HandleHttpClient_frame(1) show ?case by (metis core_profile)
next
  case (console_line st line ok st')
  then have "st' = snd (ExecuteCommandLine E line st)" by simp
  with ExecuteCommandLine_frame(1) show ?case by (metis core_profile)
next
  case (console_help st)
  then show ?case by (rule core_profile [OF console_frame(4)])
qed simp

lemma gw_reach_profile: "gw_reach E L st st' \<Longrightarrow> g_profile st' = g_profile st"
  by (induction rule: gw_reach.induct) (auto dest: gw_step_profile)

section \<open>An example\<close>

definition example_argv :: "string list" where
  "example_argv = [''gateway'', ''--config=a'']"

definition no_input :: "int \<Rightarrow> u16" where
  "no_input k = 0"

abbreviation "example_start \<equiv> main_init example_env example_argv (files example_state) no_input"

lemma example_accepted: "accepted_points (GetConfigFileFromArgs example_argv) (process_start (files example_state) w) = [example_point]"
proof -
  have p: "GetConfigFileFromArgs example_argv = ''a''" by code_simp
  have "\<not> FileHasOnlyLegacyAutoExamples ''a'' example_state" by code_simp
  moreover have "FileHasOnlyLegacyAutoExamples ''a'' (process_start (files example_state) w) = FileHasOnlyLegacyAutoExamples ''a'' example_state"
    by (simp add: FileHasOnlyLegacyAutoExamples_def process_start_def)
  moreover have "files example_state ''a'' \<noteq> None" by (simp add: example_state_def)
  ultimately show ?thesis
    using example_points by (auto simp: p accepted_points_def process_start_def LoadConfiguredPointsFromCsvForUi_def split: option.splits)
qed

lemma example_started:
  obtains st0 where "example_start = Some st0" "read_points (g_profile st0) = [example_point]"
proof -
  let ?f = "GetConfigFileFromArgs example_argv"
  have "read_points (fst (BuildProfile example_env ?f ((process_start (files example_state) no_input)\<lparr>g_active_config_file := ?f\<rparr>)))
      = [example_point]"
    using BuildProfile_result [of example_env ?f "(process_start (files example_state) no_input)\<lparr>g_active_config_file := ?f\<rparr>"]
    by (simp add: example_accepted)
  then have "ConfigureDatabase (fst (BuildProfile example_env ?f ((process_start (files example_state) no_input)\<lparr>g_active_config_file := ?f\<rparr>)))
      \<noteq> None"
    by (simp add: ConfigureDatabase_eq analog_upto_def binary_upto_def example_point_def minus_one_le)
  then have "example_start \<noteq> None" by (auto simp: main_init_def Let_def split_beta split: option.split)
  then obtain st0 where s: "example_start = Some st0" by blast
  from main_init_inv(2) [OF this] example_accepted have "read_points (g_profile st0) = [example_point]" by simp
  with s that show ?thesis by blast
qed

lemma example_reached:
  obtains st0 where "example_start = Some st0" "gw_reach example_env example_lib st0 (st0\<lparr>dev := \<lambda>k. 7\<rparr>)"
    "read_points (g_profile st0) = [example_point]"
  using example_started gw_reach.intros world by metis

section \<open>The properties\<close>

text \<open>
  C1. Whatever the polling threads, the DNP3 master, web clients, the console and the field devices do, in
  any interleaving, from the start of the program on: the points stay those of the configuration file;
  every Modbus write ever issued goes to the address of a configured coil, with 0 or 1, or of a
  configured holding register, with as many registers as its type has; every update ever given to the DNP3
  database carries the index of a configured point of the right kind and the flag ONLINE; every Modbus context is
  closed and freed between operations; and the log window is bounded.
\<close>

theorem gateway_safety:
  assumes "main_init E argv fs w = Some st0" and "gw_reach E L st0 st"
  shows "read_points (g_profile st) = accepted_points (GetConfigFileFromArgs argv) (process_start fs w)
    \<and> (\<forall>x \<in> set (written st). write_allowed (read_points (g_profile st)) x)
    \<and> (\<forall>us \<in> set (applied st). \<forall>u \<in> set us. update_allowed (read_points (g_profile st)) u)
    \<and> ctx_of st = Some Idle \<and> length (g_recent_logs st) \<le> MAX_UI_LOGS"
  using gw_reach_inv [OF assms(2) main_init_inv(1) [OF assms(1)]] main_init_inv(2) [OF assms(1)] gw_reach_profile [OF assms(2)]
  by (simp add: gw_inv_def core_ok_def calls_ok_def logs_ok_def)

lemma gateway_safety_witness:
  "\<exists>st0 st. example_start = Some st0 \<and> gw_reach example_env example_lib st0 st \<and> dev st 30 = 7
     \<and> read_points (g_profile st) = [example_point] \<and> ctx_of st = Some Idle"
proof -
  obtain st0 where s: "example_start = Some st0"
    "gw_reach example_env example_lib st0 (st0\<lparr>dev := \<lambda>k. 7\<rparr>)"
    using example_reached by blast
  from gateway_safety [OF s] s example_accepted show ?thesis
    by (intro exI [of _ st0] exI [of _ "st0\<lparr>dev := \<lambda>k. 7\<rparr>"]) simp
qed


text \<open>
  C23. In every reachable state of the gateway each point has its own state, each polling thread its place in
  the round, and the failure count, the connection status and the published value of a point agree
  (\<open>point_state_ok\<close>).
\<close>

theorem gateway_state_invariant:
  assumes "main_init E argv fs w = Some st0" and "gw_reach E L st0 st"
  shows "length (point_states st) = length (read_points (g_profile st)) \<and> length (pollers st) = length (read_points (g_profile st))
    \<and> (\<forall>s \<in> set (point_states st). point_state_ok s) \<and> commands_ok (g_profile st)"
  using gw_reach_inv [OF assms(2) main_init_inv(1) [OF assms(1)]] by (simp add: gw_inv_def core_ok_def)

lemma gateway_state_invariant_witness:
  "\<exists>st. gw_reach example_env example_lib (the example_start) st \<and> length (point_states st) = length (read_points (g_profile st))"
proof -
  obtain st0 where s: "example_start = Some st0"
    "gw_reach example_env example_lib st0 (st0\<lparr>dev := \<lambda>k. 7\<rparr>)"
    using example_reached by blast
  from gateway_state_invariant [OF s] s show ?thesis by auto
qed


text \<open>
  The start of the program hangs in \<open>ConfigureDatabase\<close>, before it serves anything, exactly when the
  configuration file has an accepted point with the DNP3 index 65535.
\<close>

theorem start_hangs_on_last_index:
  "main_init E argv fs w = None \<longleftrightarrow>
     (\<exists>p \<in> set (accepted_points (GetConfigFileFromArgs argv) (process_start fs w)). rp_dnp3_analog_index p = - 1)"
proof -
  let ?f = "GetConfigFileFromArgs argv"
  let ?s0 = "(process_start fs w)\<lparr>g_active_config_file := ?f\<rparr>"
  have "accepted_points ?f ?s0 = accepted_points ?f (process_start fs w)"
    by (simp add: accepted_points_def FileHasOnlyLegacyAutoExamples_def split: option.split)
  then have p: "read_points (fst (BuildProfile E ?f ?s0)) = accepted_points ?f (process_start fs w)"
    using BuildProfile_result [of E ?f ?s0] by simp
  have "main_init E argv fs w = None \<longleftrightarrow> ConfigureDatabase (fst (BuildProfile E ?f ?s0)) = None"
    by (simp add: main_init_def Let_def split_beta split: option.split)
  then show ?thesis
    by (auto simp: ConfigureDatabase_eq analog_upto_def binary_upto_def minus_one_le p)
qed

text \<open>
  C22. A polling round ends with a publication. When the thread of a point is at the start of its round,
  three steps of it, whatever the device answers, update the state of the point by the result of the read,
  give the DNP3 database one builder with the value of the new state, and leave the thread at the start of its next
  round.
\<close>

theorem poll_round_publishes:
  assumes "i < length (pollers st)" and "pollers st ! i = ReadNext" and "g_running st" and "i < length (point_states st)"
  shows "\<exists>st' t. let s = point_states st ! i;
          s' = (case fst (ReadModbusPoint L (point_of st i) st) of
                  Some v \<Rightarrow> HandleCommunicationSuccess t (s\<lparr>analog_value := v\<rparr>)
                | None \<Rightarrow> HandleCommunicationFailure t s)
      in gw_reach E L st st' \<and> pollers st' = pollers st
       \<and> applied st' = applied st @ [UpdateDNP3Values [] (point_of st i) s']
       \<and> point_states st' = (point_states st)[i := s'\<lparr>connection_changed := False\<rparr>]"
proof -
  let ?p = "point_of st i"
  obtain r s1 where r: "PollPoint_read E L i ?p st = (r, s1)" by fastforce
  define t where "t = now E (clock s1)"
  define s2 where "s2 = set_poller i (UpdateWith r) s1"
  define s3 where "s3 = set_poller i PublishNext (PollPoint_update E i ?p r s2)"
  define s4 where "s4 = set_poller i ReadNext (PublishPointToDNP3 i ?p s3)"
  have c1: "core s1 = core st" using read_step_frame(1) [of E L i ?p st] r by simp
  have r1: "r = fst (ReadModbusPoint L ?p st)"
    using r by (auto simp: PollPoint_read_def split_beta split: option.splits)
  note c = c1 [unfolded core_def, simplified]
  have c2: "core s2 = core (s1\<lparr>pollers := (pollers st)[i := UpdateWith r]\<rparr>)" "clock s2 = clock s1"
    by (simp_all add: s2_def set_poller_def core_def c)
  have p2: "point_of s2 i = ?p" "pollers s2 ! i = UpdateWith r" "i < length (pollers s2)"
    using assms(1) c by (simp_all add: s2_def set_poller_def point_of_def)
  let ?s' = "case r of Some v \<Rightarrow> HandleCommunicationSuccess t ((point_states st ! i)\<lparr>analog_value := v\<rparr>)
                | None \<Rightarrow> HandleCommunicationFailure t (point_states st ! i)"
  have u: "core (PollPoint_update E i ?p r s2) = core (s2\<lparr>point_states := (point_states st)[i := ?s']\<rparr>)"
    using c by (cases r) (simp_all add: PollPoint_update_def Let_def t_def s2_def set_poller_def core_def [of "_\<lparr>point_states := _\<rparr>"])
  note u' = u [unfolded core_def, simplified]
  have c3: "core s3 = core (st\<lparr>pollers := (pollers st)[i := PublishNext], point_states := (point_states st)[i := ?s']\<rparr>)"
    using u' c by (simp add: s3_def set_poller_def core_def s2_def)
  note c3' = c3 [unfolded core_def, simplified]
  have p3: "point_of s3 i = ?p" "pollers s3 ! i = PublishNext" "i < length (pollers s3)"
    using assms(1) c3' by (simp_all add: point_of_def)
  have "gw_step E L st s2" unfolding s2_def by (rule poll_read [OF assms(1-3) r])
  moreover have "gw_step E L s2 s3" using poll_update [OF p2(3,2), of E L] by (simp add: s3_def p2(1))
  moreover have "gw_step E L s3 s4" using poll_publish [OF p3(3,2), of E L] by (simp add: s4_def p3(1))
  ultimately have "gw_reach E L st s4" by (metis gw_reach.intros)
  moreover have "pollers s4 = pollers st" using assms(2) c3'
    by (simp add: s4_def set_poller_def PublishPointToDNP3_def Let_def) (metis list_update_id)
  moreover have "applied s4 = applied st @ [UpdateDNP3Values [] ?p ?s']" "point_states s4 = (point_states st)[i := ?s'\<lparr>connection_changed := False\<rparr>]"
    using assms(4) c3' by (simp_all add: s4_def set_poller_def PublishPointToDNP3_def Let_def)
  ultimately show ?thesis unfolding r1 [symmetric] Let_def by blast
qed

definition example_process :: "(int \<Rightarrow> u16) process" where
  "example_process = (process_start Map.empty (\<lambda>k. 5))\<lparr>g_profile := ProfileConfig_init\<lparr>read_points := [example_point]\<rparr>,
     point_states := [ReadPointState_init], pollers := [ReadNext]\<rparr>"

lemma poll_round_publishes_witness:
  "\<exists>st' us. gw_reach example_env example_lib example_process st' \<and> applied st' = [us] \<and> length us = 1 \<and> pollers st' = [ReadNext]"
proof -
  have "0 < length (pollers example_process)" "pollers example_process ! 0 = ReadNext" "g_running example_process"
    "0 < length (point_states example_process)" "applied example_process = []" "pollers example_process = [ReadNext]"
    by (simp_all add: example_process_def process_start_def)
  from poll_round_publishes [OF this(1-4), of example_lib example_env] this(5,6) show ?thesis
    by (auto simp: Let_def UpdateDNP3Values_def)
qed


end
