(* ===== verification/App_Gv.thy ===== *)
theory App_Gv
  imports App_Types
begin

text \<open>
  The objects of the application layer by group and variation: the generated enumerations
  \<open>GroupVariation\<close>, \<open>QualifierCode\<close> and \<open>DoubleBit\<close>, the record of a header
  (\<open>app/GroupVariationRecord.cpp\<close>), and the sizes of the fixed-size objects (\<open>gen/objects\<close>).
\<close>

section \<open>Enumerations\<close>

text \<open>
  A scoped enumeration with the underlying type \<open>uint16_t\<close>, held as its code.
\<close>

type_synonym GroupVariation = u16

abbreviation Group1Var0 :: GroupVariation where "Group1Var0 \<equiv> 0x100"
abbreviation Group1Var1 :: GroupVariation where "Group1Var1 \<equiv> 0x101"
abbreviation Group1Var2 :: GroupVariation where "Group1Var2 \<equiv> 0x102"
abbreviation Group2Var0 :: GroupVariation where "Group2Var0 \<equiv> 0x200"
abbreviation Group2Var1 :: GroupVariation where "Group2Var1 \<equiv> 0x201"
abbreviation Group2Var2 :: GroupVariation where "Group2Var2 \<equiv> 0x202"
abbreviation Group2Var3 :: GroupVariation where "Group2Var3 \<equiv> 0x203"
abbreviation Group3Var0 :: GroupVariation where "Group3Var0 \<equiv> 0x300"
abbreviation Group3Var1 :: GroupVariation where "Group3Var1 \<equiv> 0x301"
abbreviation Group3Var2 :: GroupVariation where "Group3Var2 \<equiv> 0x302"
abbreviation Group4Var0 :: GroupVariation where "Group4Var0 \<equiv> 0x400"
abbreviation Group4Var1 :: GroupVariation where "Group4Var1 \<equiv> 0x401"
abbreviation Group4Var2 :: GroupVariation where "Group4Var2 \<equiv> 0x402"
abbreviation Group4Var3 :: GroupVariation where "Group4Var3 \<equiv> 0x403"
abbreviation Group10Var0 :: GroupVariation where "Group10Var0 \<equiv> 0xA00"
abbreviation Group10Var1 :: GroupVariation where "Group10Var1 \<equiv> 0xA01"
abbreviation Group10Var2 :: GroupVariation where "Group10Var2 \<equiv> 0xA02"
abbreviation Group11Var0 :: GroupVariation where "Group11Var0 \<equiv> 0xB00"
abbreviation Group11Var1 :: GroupVariation where "Group11Var1 \<equiv> 0xB01"
abbreviation Group11Var2 :: GroupVariation where "Group11Var2 \<equiv> 0xB02"
abbreviation Group12Var0 :: GroupVariation where "Group12Var0 \<equiv> 0xC00"
abbreviation Group12Var1 :: GroupVariation where "Group12Var1 \<equiv> 0xC01"
abbreviation Group13Var1 :: GroupVariation where "Group13Var1 \<equiv> 0xD01"
abbreviation Group13Var2 :: GroupVariation where "Group13Var2 \<equiv> 0xD02"
abbreviation Group20Var0 :: GroupVariation where "Group20Var0 \<equiv> 0x1400"
abbreviation Group20Var1 :: GroupVariation where "Group20Var1 \<equiv> 0x1401"
abbreviation Group20Var2 :: GroupVariation where "Group20Var2 \<equiv> 0x1402"
abbreviation Group20Var5 :: GroupVariation where "Group20Var5 \<equiv> 0x1405"
abbreviation Group20Var6 :: GroupVariation where "Group20Var6 \<equiv> 0x1406"
abbreviation Group21Var0 :: GroupVariation where "Group21Var0 \<equiv> 0x1500"
abbreviation Group21Var1 :: GroupVariation where "Group21Var1 \<equiv> 0x1501"
abbreviation Group21Var2 :: GroupVariation where "Group21Var2 \<equiv> 0x1502"
abbreviation Group21Var5 :: GroupVariation where "Group21Var5 \<equiv> 0x1505"
abbreviation Group21Var6 :: GroupVariation where "Group21Var6 \<equiv> 0x1506"
abbreviation Group21Var9 :: GroupVariation where "Group21Var9 \<equiv> 0x1509"
abbreviation Group21Var10 :: GroupVariation where "Group21Var10 \<equiv> 0x150A"
abbreviation Group22Var0 :: GroupVariation where "Group22Var0 \<equiv> 0x1600"
abbreviation Group22Var1 :: GroupVariation where "Group22Var1 \<equiv> 0x1601"
abbreviation Group22Var2 :: GroupVariation where "Group22Var2 \<equiv> 0x1602"
abbreviation Group22Var5 :: GroupVariation where "Group22Var5 \<equiv> 0x1605"
abbreviation Group22Var6 :: GroupVariation where "Group22Var6 \<equiv> 0x1606"
abbreviation Group23Var0 :: GroupVariation where "Group23Var0 \<equiv> 0x1700"
abbreviation Group23Var1 :: GroupVariation where "Group23Var1 \<equiv> 0x1701"
abbreviation Group23Var2 :: GroupVariation where "Group23Var2 \<equiv> 0x1702"
abbreviation Group23Var5 :: GroupVariation where "Group23Var5 \<equiv> 0x1705"
abbreviation Group23Var6 :: GroupVariation where "Group23Var6 \<equiv> 0x1706"
abbreviation Group30Var0 :: GroupVariation where "Group30Var0 \<equiv> 0x1E00"
abbreviation Group30Var1 :: GroupVariation where "Group30Var1 \<equiv> 0x1E01"
abbreviation Group30Var2 :: GroupVariation where "Group30Var2 \<equiv> 0x1E02"
abbreviation Group30Var3 :: GroupVariation where "Group30Var3 \<equiv> 0x1E03"
abbreviation Group30Var4 :: GroupVariation where "Group30Var4 \<equiv> 0x1E04"
abbreviation Group30Var5 :: GroupVariation where "Group30Var5 \<equiv> 0x1E05"
abbreviation Group30Var6 :: GroupVariation where "Group30Var6 \<equiv> 0x1E06"
abbreviation Group32Var0 :: GroupVariation where "Group32Var0 \<equiv> 0x2000"
abbreviation Group32Var1 :: GroupVariation where "Group32Var1 \<equiv> 0x2001"
abbreviation Group32Var2 :: GroupVariation where "Group32Var2 \<equiv> 0x2002"
abbreviation Group32Var3 :: GroupVariation where "Group32Var3 \<equiv> 0x2003"
abbreviation Group32Var4 :: GroupVariation where "Group32Var4 \<equiv> 0x2004"
abbreviation Group32Var5 :: GroupVariation where "Group32Var5 \<equiv> 0x2005"
abbreviation Group32Var6 :: GroupVariation where "Group32Var6 \<equiv> 0x2006"
abbreviation Group32Var7 :: GroupVariation where "Group32Var7 \<equiv> 0x2007"
abbreviation Group32Var8 :: GroupVariation where "Group32Var8 \<equiv> 0x2008"
abbreviation Group40Var0 :: GroupVariation where "Group40Var0 \<equiv> 0x2800"
abbreviation Group40Var1 :: GroupVariation where "Group40Var1 \<equiv> 0x2801"
abbreviation Group40Var2 :: GroupVariation where "Group40Var2 \<equiv> 0x2802"
abbreviation Group40Var3 :: GroupVariation where "Group40Var3 \<equiv> 0x2803"
abbreviation Group40Var4 :: GroupVariation where "Group40Var4 \<equiv> 0x2804"
abbreviation Group41Var0 :: GroupVariation where "Group41Var0 \<equiv> 0x2900"
abbreviation Group41Var1 :: GroupVariation where "Group41Var1 \<equiv> 0x2901"
abbreviation Group41Var2 :: GroupVariation where "Group41Var2 \<equiv> 0x2902"
abbreviation Group41Var3 :: GroupVariation where "Group41Var3 \<equiv> 0x2903"
abbreviation Group41Var4 :: GroupVariation where "Group41Var4 \<equiv> 0x2904"
abbreviation Group42Var0 :: GroupVariation where "Group42Var0 \<equiv> 0x2A00"
abbreviation Group42Var1 :: GroupVariation where "Group42Var1 \<equiv> 0x2A01"
abbreviation Group42Var2 :: GroupVariation where "Group42Var2 \<equiv> 0x2A02"
abbreviation Group42Var3 :: GroupVariation where "Group42Var3 \<equiv> 0x2A03"
abbreviation Group42Var4 :: GroupVariation where "Group42Var4 \<equiv> 0x2A04"
abbreviation Group42Var5 :: GroupVariation where "Group42Var5 \<equiv> 0x2A05"
abbreviation Group42Var6 :: GroupVariation where "Group42Var6 \<equiv> 0x2A06"
abbreviation Group42Var7 :: GroupVariation where "Group42Var7 \<equiv> 0x2A07"
abbreviation Group42Var8 :: GroupVariation where "Group42Var8 \<equiv> 0x2A08"
abbreviation Group43Var1 :: GroupVariation where "Group43Var1 \<equiv> 0x2B01"
abbreviation Group43Var2 :: GroupVariation where "Group43Var2 \<equiv> 0x2B02"
abbreviation Group43Var3 :: GroupVariation where "Group43Var3 \<equiv> 0x2B03"
abbreviation Group43Var4 :: GroupVariation where "Group43Var4 \<equiv> 0x2B04"
abbreviation Group43Var5 :: GroupVariation where "Group43Var5 \<equiv> 0x2B05"
abbreviation Group43Var6 :: GroupVariation where "Group43Var6 \<equiv> 0x2B06"
abbreviation Group43Var7 :: GroupVariation where "Group43Var7 \<equiv> 0x2B07"
abbreviation Group43Var8 :: GroupVariation where "Group43Var8 \<equiv> 0x2B08"
abbreviation Group50Var1 :: GroupVariation where "Group50Var1 \<equiv> 0x3201"
abbreviation Group50Var3 :: GroupVariation where "Group50Var3 \<equiv> 0x3203"
abbreviation Group50Var4 :: GroupVariation where "Group50Var4 \<equiv> 0x3204"
abbreviation Group51Var1 :: GroupVariation where "Group51Var1 \<equiv> 0x3301"
abbreviation Group51Var2 :: GroupVariation where "Group51Var2 \<equiv> 0x3302"
abbreviation Group52Var1 :: GroupVariation where "Group52Var1 \<equiv> 0x3401"
abbreviation Group52Var2 :: GroupVariation where "Group52Var2 \<equiv> 0x3402"
abbreviation Group60Var1 :: GroupVariation where "Group60Var1 \<equiv> 0x3C01"
abbreviation Group60Var2 :: GroupVariation where "Group60Var2 \<equiv> 0x3C02"
abbreviation Group60Var3 :: GroupVariation where "Group60Var3 \<equiv> 0x3C03"
abbreviation Group60Var4 :: GroupVariation where "Group60Var4 \<equiv> 0x3C04"
abbreviation Group70Var1 :: GroupVariation where "Group70Var1 \<equiv> 0x4601"
abbreviation Group70Var2 :: GroupVariation where "Group70Var2 \<equiv> 0x4602"
abbreviation Group70Var3 :: GroupVariation where "Group70Var3 \<equiv> 0x4603"
abbreviation Group70Var4 :: GroupVariation where "Group70Var4 \<equiv> 0x4604"
abbreviation Group70Var5 :: GroupVariation where "Group70Var5 \<equiv> 0x4605"
abbreviation Group70Var6 :: GroupVariation where "Group70Var6 \<equiv> 0x4606"
abbreviation Group70Var7 :: GroupVariation where "Group70Var7 \<equiv> 0x4607"
abbreviation Group70Var8 :: GroupVariation where "Group70Var8 \<equiv> 0x4608"
abbreviation Group80Var1 :: GroupVariation where "Group80Var1 \<equiv> 0x5001"
abbreviation Group110Var0 :: GroupVariation where "Group110Var0 \<equiv> 0x6E00"
abbreviation Group111Var0 :: GroupVariation where "Group111Var0 \<equiv> 0x6F00"
abbreviation Group112Var0 :: GroupVariation where "Group112Var0 \<equiv> 0x7000"
abbreviation Group113Var0 :: GroupVariation where "Group113Var0 \<equiv> 0x7100"
abbreviation UNKNOWN_GroupVariation :: GroupVariation where "UNKNOWN_GroupVariation \<equiv> 0xFFFF"

text \<open>The codes that \<open>from_type\<close> has a case for; any other code is unknown.\<close>

definition GroupVariation_codes :: "u16 list" where
  "GroupVariation_codes =
    [0x100, 0x101, 0x102, 0x200, 0x201, 0x202, 0x203, 0x300, 0x301, 0x302, 0x400, 0x401, 0x402, 0x403, 0xA00, 0xA01, 0xA02, 0xB00, 0xB01, 0xB02, 0xC00,
     0xC01, 0xD01, 0xD02, 0x1400, 0x1401, 0x1402, 0x1405, 0x1406, 0x1500, 0x1501, 0x1502, 0x1505, 0x1506, 0x1509, 0x150A, 0x1600, 0x1601, 0x1602, 0x1605,
     0x1606, 0x1700, 0x1701, 0x1702, 0x1705, 0x1706, 0x1E00, 0x1E01, 0x1E02, 0x1E03, 0x1E04, 0x1E05, 0x1E06, 0x2000, 0x2001, 0x2002, 0x2003, 0x2004,
     0x2005, 0x2006, 0x2007, 0x2008, 0x2800, 0x2801, 0x2802, 0x2803, 0x2804, 0x2900, 0x2901, 0x2902, 0x2903, 0x2904, 0x2A00, 0x2A01, 0x2A02, 0x2A03,
     0x2A04, 0x2A05, 0x2A06, 0x2A07, 0x2A08, 0x2B01, 0x2B02, 0x2B03, 0x2B04, 0x2B05, 0x2B06, 0x2B07, 0x2B08, 0x3201, 0x3203, 0x3204, 0x3301, 0x3302,
     0x3401, 0x3402, 0x3C01, 0x3C02, 0x3C03, 0x3C04, 0x4601, 0x4602, 0x4603, 0x4604, 0x4605, 0x4606, 0x4607, 0x4608, 0x5001, 0x6E00, 0x6F00, 0x7000, 0x7100]"

definition GroupVariation_from_type :: "u16 \<Rightarrow> GroupVariation" where
  "GroupVariation_from_type arg = (if arg \<in> set GroupVariation_codes then arg else UNKNOWN_GroupVariation)"

datatype QualifierCode =
    UINT8_START_STOP
  | UINT16_START_STOP
  | ALL_OBJECTS
  | UINT8_CNT
  | UINT16_CNT
  | UINT8_CNT_UINT8_INDEX
  | UINT16_CNT_UINT16_INDEX
  | QC_UNDEFINED

fun QualifierCode_to_type :: "QualifierCode \<Rightarrow> byte" where
  "QualifierCode_to_type UINT8_START_STOP = 0"
| "QualifierCode_to_type UINT16_START_STOP = 1"
| "QualifierCode_to_type ALL_OBJECTS = 6"
| "QualifierCode_to_type UINT8_CNT = 7"
| "QualifierCode_to_type UINT16_CNT = 8"
| "QualifierCode_to_type UINT8_CNT_UINT8_INDEX = 23"
| "QualifierCode_to_type UINT16_CNT_UINT16_INDEX = 40"
| "QualifierCode_to_type QC_UNDEFINED = 255"

definition QualifierCode_from_type :: "byte \<Rightarrow> QualifierCode" where
  "QualifierCode_from_type arg =
     (if arg = 0 then UINT8_START_STOP
      else if arg = 1 then UINT16_START_STOP
      else if arg = 6 then ALL_OBJECTS
      else if arg = 7 then UINT8_CNT
      else if arg = 8 then UINT16_CNT
      else if arg = 23 then UINT8_CNT_UINT8_INDEX
      else if arg = 40 then UINT16_CNT_UINT16_INDEX
      else QC_UNDEFINED)"

fun QualifierCode_to_string :: "QualifierCode \<Rightarrow> string" where
  "QualifierCode_to_string UINT8_START_STOP = ''UINT8_START_STOP''"
| "QualifierCode_to_string UINT16_START_STOP = ''UINT16_START_STOP''"
| "QualifierCode_to_string ALL_OBJECTS = ''ALL_OBJECTS''"
| "QualifierCode_to_string UINT8_CNT = ''UINT8_CNT''"
| "QualifierCode_to_string UINT16_CNT = ''UINT16_CNT''"
| "QualifierCode_to_string UINT8_CNT_UINT8_INDEX = ''UINT8_CNT_UINT8_INDEX''"
| "QualifierCode_to_string UINT16_CNT_UINT16_INDEX = ''UINT16_CNT_UINT16_INDEX''"
| "QualifierCode_to_string QC_UNDEFINED = ''UNDEFINED''"

datatype DoubleBit =
    INTERMEDIATE
  | DETERMINED_OFF
  | DETERMINED_ON
  | INDETERMINATE

fun DoubleBit_to_type :: "DoubleBit \<Rightarrow> byte" where
  "DoubleBit_to_type INTERMEDIATE = 0"
| "DoubleBit_to_type DETERMINED_OFF = 1"
| "DoubleBit_to_type DETERMINED_ON = 2"
| "DoubleBit_to_type INDETERMINATE = 3"

definition DoubleBit_from_type :: "byte \<Rightarrow> DoubleBit" where
  "DoubleBit_from_type arg =
     (if arg = 0 then INTERMEDIATE
      else if arg = 1 then DETERMINED_OFF
      else if arg = 2 then DETERMINED_ON
      else INDETERMINATE)"

section \<open>Records\<close>

datatype GroupVariationType = STATIC | EVENT | OTHER

definition GetType :: "byte \<Rightarrow> byte \<Rightarrow> GroupVariationType" where
  "GetType grp variation =
     (if grp \<in> {1, 3, 10, 20, 21, 30, 40} then STATIC
      else if grp \<in> {2, 4, 11, 13, 22, 23, 32, 41, 42, 43} then EVENT
      else if grp = 50 then (if variation = 4 then STATIC else OTHER)
      else if grp = 60 then (if variation = 1 then STATIC else EVENT)
      else if grp \<in> {110, 121} then STATIC
      else if grp \<in> {111, 122} then EVENT
      else OTHER)"

definition GetGroupVar :: "byte \<Rightarrow> byte \<Rightarrow> u16" where
  "GetGroupVar grp variation = push_bit 8 (ucast grp) OR ucast variation"

definition GetEnumAndType :: "byte \<Rightarrow> byte \<Rightarrow> GroupVariation \<times> GroupVariationType" where
  "GetEnumAndType grp variation =
     (let type = GetType grp variation;
          enumeration = GroupVariation_from_type (GetGroupVar grp variation);
          enumeration = (if enumeration = UNKNOWN_GroupVariation
                         then if grp = 110 then Group110Var0 else if grp = 111 then Group111Var0
                              else if grp = 112 then Group112Var0 else if grp = 113 then Group113Var0
                              else enumeration
                         else enumeration)
      in (enumeration, type))"

record GroupVariationRecord =
  enumeration :: GroupVariation
  gv_type :: GroupVariationType
  gv_group :: byte
  gv_variation :: byte

definition GetRecord :: "byte \<Rightarrow> byte \<Rightarrow> GroupVariationRecord" where
  "GetRecord grp variation =
     (let (e, type) = GetEnumAndType grp variation
      in \<lparr>enumeration = e, gv_type = type, gv_group = grp, gv_variation = variation\<rparr>)"

record HeaderRecord = GroupVariationRecord +
  qualifier :: byte
  headerIndex :: u32

definition HeaderRecord_make :: "GroupVariationRecord \<Rightarrow> byte \<Rightarrow> u32 \<Rightarrow> HeaderRecord" where
  "HeaderRecord_make gv qual index = GroupVariationRecord.extend gv \<lparr>qualifier = qual, headerIndex = index\<rparr>"

definition GetQualifierCode :: "HeaderRecord \<Rightarrow> QualifierCode" where
  "GetQualifierCode record = QualifierCode_from_type (qualifier record)"

section \<open>Sizes\<close>

definition Group1Var2_Size :: nat where "Group1Var2_Size = 1"
definition Group2Var1_Size :: nat where "Group2Var1_Size = 1"
definition Group2Var2_Size :: nat where "Group2Var2_Size = 7"
definition Group2Var3_Size :: nat where "Group2Var3_Size = 3"
definition Group3Var2_Size :: nat where "Group3Var2_Size = 1"
definition Group4Var1_Size :: nat where "Group4Var1_Size = 1"
definition Group4Var2_Size :: nat where "Group4Var2_Size = 7"
definition Group4Var3_Size :: nat where "Group4Var3_Size = 3"
definition Group10Var2_Size :: nat where "Group10Var2_Size = 1"
definition Group11Var1_Size :: nat where "Group11Var1_Size = 1"
definition Group11Var2_Size :: nat where "Group11Var2_Size = 7"
definition Group12Var1_Size :: nat where "Group12Var1_Size = 11"
definition Group13Var1_Size :: nat where "Group13Var1_Size = 1"
definition Group13Var2_Size :: nat where "Group13Var2_Size = 7"
definition Group20Var1_Size :: nat where "Group20Var1_Size = 5"
definition Group20Var2_Size :: nat where "Group20Var2_Size = 3"
definition Group20Var5_Size :: nat where "Group20Var5_Size = 4"
definition Group20Var6_Size :: nat where "Group20Var6_Size = 2"
definition Group21Var1_Size :: nat where "Group21Var1_Size = 5"
definition Group21Var2_Size :: nat where "Group21Var2_Size = 3"
definition Group21Var5_Size :: nat where "Group21Var5_Size = 11"
definition Group21Var6_Size :: nat where "Group21Var6_Size = 9"
definition Group21Var9_Size :: nat where "Group21Var9_Size = 4"
definition Group21Var10_Size :: nat where "Group21Var10_Size = 2"
definition Group22Var1_Size :: nat where "Group22Var1_Size = 5"
definition Group22Var2_Size :: nat where "Group22Var2_Size = 3"
definition Group22Var5_Size :: nat where "Group22Var5_Size = 11"
definition Group22Var6_Size :: nat where "Group22Var6_Size = 9"
definition Group23Var1_Size :: nat where "Group23Var1_Size = 5"
definition Group23Var2_Size :: nat where "Group23Var2_Size = 3"
definition Group23Var5_Size :: nat where "Group23Var5_Size = 11"
definition Group23Var6_Size :: nat where "Group23Var6_Size = 9"
definition Group30Var1_Size :: nat where "Group30Var1_Size = 5"
definition Group30Var2_Size :: nat where "Group30Var2_Size = 3"
definition Group30Var3_Size :: nat where "Group30Var3_Size = 4"
definition Group30Var4_Size :: nat where "Group30Var4_Size = 2"
definition Group30Var5_Size :: nat where "Group30Var5_Size = 5"
definition Group30Var6_Size :: nat where "Group30Var6_Size = 9"
definition Group32Var1_Size :: nat where "Group32Var1_Size = 5"
definition Group32Var2_Size :: nat where "Group32Var2_Size = 3"
definition Group32Var3_Size :: nat where "Group32Var3_Size = 11"
definition Group32Var4_Size :: nat where "Group32Var4_Size = 9"
definition Group32Var5_Size :: nat where "Group32Var5_Size = 5"
definition Group32Var6_Size :: nat where "Group32Var6_Size = 9"
definition Group32Var7_Size :: nat where "Group32Var7_Size = 11"
definition Group32Var8_Size :: nat where "Group32Var8_Size = 15"
definition Group40Var1_Size :: nat where "Group40Var1_Size = 5"
definition Group40Var2_Size :: nat where "Group40Var2_Size = 3"
definition Group40Var3_Size :: nat where "Group40Var3_Size = 5"
definition Group40Var4_Size :: nat where "Group40Var4_Size = 9"
definition Group41Var1_Size :: nat where "Group41Var1_Size = 5"
definition Group41Var2_Size :: nat where "Group41Var2_Size = 3"
definition Group41Var3_Size :: nat where "Group41Var3_Size = 5"
definition Group41Var4_Size :: nat where "Group41Var4_Size = 9"
definition Group42Var1_Size :: nat where "Group42Var1_Size = 5"
definition Group42Var2_Size :: nat where "Group42Var2_Size = 3"
definition Group42Var3_Size :: nat where "Group42Var3_Size = 11"
definition Group42Var4_Size :: nat where "Group42Var4_Size = 9"
definition Group42Var5_Size :: nat where "Group42Var5_Size = 5"
definition Group42Var6_Size :: nat where "Group42Var6_Size = 9"
definition Group42Var7_Size :: nat where "Group42Var7_Size = 11"
definition Group42Var8_Size :: nat where "Group42Var8_Size = 15"
definition Group43Var1_Size :: nat where "Group43Var1_Size = 5"
definition Group43Var2_Size :: nat where "Group43Var2_Size = 3"
definition Group43Var3_Size :: nat where "Group43Var3_Size = 11"
definition Group43Var4_Size :: nat where "Group43Var4_Size = 9"
definition Group43Var5_Size :: nat where "Group43Var5_Size = 5"
definition Group43Var6_Size :: nat where "Group43Var6_Size = 9"
definition Group43Var7_Size :: nat where "Group43Var7_Size = 11"
definition Group43Var8_Size :: nat where "Group43Var8_Size = 15"
definition Group50Var1_Size :: nat where "Group50Var1_Size = 6"
definition Group50Var3_Size :: nat where "Group50Var3_Size = 6"
definition Group50Var4_Size :: nat where "Group50Var4_Size = 11"
definition Group51Var1_Size :: nat where "Group51Var1_Size = 6"
definition Group51Var2_Size :: nat where "Group51Var2_Size = 6"
definition Group52Var1_Size :: nat where "Group52Var1_Size = 2"
definition Group52Var2_Size :: nat where "Group52Var2_Size = 2"

lemmas size_defs =
  Group1Var2_Size_def Group2Var1_Size_def Group2Var2_Size_def Group2Var3_Size_def Group3Var2_Size_def Group4Var1_Size_def Group4Var2_Size_def
  Group4Var3_Size_def Group10Var2_Size_def Group11Var1_Size_def Group11Var2_Size_def Group12Var1_Size_def Group13Var1_Size_def Group13Var2_Size_def
  Group20Var1_Size_def Group20Var2_Size_def Group20Var5_Size_def Group20Var6_Size_def Group21Var1_Size_def Group21Var2_Size_def Group21Var5_Size_def
  Group21Var6_Size_def Group21Var9_Size_def Group21Var10_Size_def Group22Var1_Size_def Group22Var2_Size_def Group22Var5_Size_def Group22Var6_Size_def
  Group23Var1_Size_def Group23Var2_Size_def Group23Var5_Size_def Group23Var6_Size_def Group30Var1_Size_def Group30Var2_Size_def Group30Var3_Size_def
  Group30Var4_Size_def Group30Var5_Size_def Group30Var6_Size_def Group32Var1_Size_def Group32Var2_Size_def Group32Var3_Size_def Group32Var4_Size_def
  Group32Var5_Size_def Group32Var6_Size_def Group32Var7_Size_def Group32Var8_Size_def Group40Var1_Size_def Group40Var2_Size_def Group40Var3_Size_def
  Group40Var4_Size_def Group41Var1_Size_def Group41Var2_Size_def Group41Var3_Size_def Group41Var4_Size_def Group42Var1_Size_def Group42Var2_Size_def
  Group42Var3_Size_def Group42Var4_Size_def Group42Var5_Size_def Group42Var6_Size_def Group42Var7_Size_def Group42Var8_Size_def Group43Var1_Size_def
  Group43Var2_Size_def Group43Var3_Size_def Group43Var4_Size_def Group43Var5_Size_def Group43Var6_Size_def Group43Var7_Size_def Group43Var8_Size_def
  Group50Var1_Size_def Group50Var3_Size_def Group50Var4_Size_def Group51Var1_Size_def Group51Var2_Size_def Group52Var1_Size_def Group52Var2_Size_def

section \<open>Facts\<close>

lemma DoubleBit_roundtrip [simp]: "DoubleBit_from_type (DoubleBit_to_type x) = x"
  by (cases x) (simp_all add: DoubleBit_from_type_def)

lemma QualifierCode_codes [simp]:
  "QualifierCode_from_type 0 = UINT8_START_STOP" "QualifierCode_from_type 1 = UINT16_START_STOP"
  "QualifierCode_from_type 6 = ALL_OBJECTS" "QualifierCode_from_type 7 = UINT8_CNT" "QualifierCode_from_type 8 = UINT16_CNT"
  "QualifierCode_from_type 23 = UINT8_CNT_UINT8_INDEX" "QualifierCode_from_type 40 = UINT16_CNT_UINT16_INDEX"
  by (simp_all add: QualifierCode_from_type_def)

lemma HeaderRecord_make_simps [simp]:
  "enumeration (HeaderRecord_make gv q i) = enumeration gv" "gv_variation (HeaderRecord_make gv q i) = gv_variation gv"
  "gv_group (HeaderRecord_make gv q i) = gv_group gv" "qualifier (HeaderRecord_make gv q i) = q" "headerIndex (HeaderRecord_make gv q i) = i"
  by (simp_all add: HeaderRecord_make_def GroupVariationRecord.defs)

lemma GetRecord_simps [simp]: "gv_group (GetRecord g v) = g" "gv_variation (GetRecord g v) = v"
  by (simp_all add: GetRecord_def split_beta)

end
