(* ===== verification/App_Meas.thy ===== *)
theory App_Meas
  imports App_Gv Gw_Numeric
begin

text \<open>
  Measurements and commands of the application layer: \<open>opendnp3/app/MeasurementTypes.h\<close> with its base
  classes, \<open>DNPTime\<close>, the command events, \<open>app/QualityFlags.cpp\<close>, \<open>app/MeasurementFactory.h\<close>, and
  the conversions to the types of the wire (\<open>app/DownSampling.h\<close>, \<open>app/WriteConversionTemplates.h\<close>).
  A signed integer of the wire is the word with its bits, a \<open>float\<close> the word with its bits, a \<open>double\<close> a value
  of \<open>Gw_Numeric\<close>. A cast of a double that is not a number to an integer is undefined in C++; its
  result is the argument \<open>unspec\<close>.
\<close>

type_synonym u64 = "64 word"

section \<open>Comparison and truncation of doubles\<close>

definition scaled :: "bool \<Rightarrow> nat \<Rightarrow> int \<Rightarrow> int \<Rightarrow> int" where
  "scaled s m e k = (if s then - 1 else 1) * int m * 2 ^ nat (e - k)"

fun double_less :: "double \<Rightarrow> double \<Rightarrow> bool" where
  "double_less (Finite s m e) (Finite t n f) = (scaled s m e (min e f) < scaled t n f (min e f))"
| "double_less (Finite s m e) (Infinity t) = (\<not> t)"
| "double_less (Infinity s) (Finite t n f) = s"
| "double_less (Infinity s) (Infinity t) = (s \<and> \<not> t)"
| "double_less (NaN s f) d = False"
| "double_less d (NaN s f) = False"

definition trunc_mag :: "nat \<Rightarrow> int \<Rightarrow> nat" where
  "trunc_mag m e = (if e \<ge> 0 then m * 2 ^ nat e else m div 2 ^ nat (- e))"

fun int_of_double :: "(double \<Rightarrow> int) \<Rightarrow> double \<Rightarrow> int" where
  "int_of_double unspec (Finite s m e) = (if s then - int (trunc_mag m e) else int (trunc_mag m e))"
| "int_of_double unspec d = unspec d"

lemma scaled_real: "k \<le> e \<Longrightarrow> real_of_int (scaled s m e k) = (if s then - 1 else 1) * real m * 2 powi e * 2 powi (- k)"
proof -
  assume "k \<le> e"
  then have "(2 :: real) ^ nat (e - k) = 2 powi (e - k)" by (simp add: power_int_def)
  also have "\<dots> = 2 powi e * 2 powi (- k)" by (simp flip: power_int_add)
  finally show ?thesis by (simp add: scaled_def)
qed

lemma double_less_real:
  assumes "real_of_double a = Some x" "real_of_double b = Some y"
  shows "double_less a b = (x < y)"
proof -
  obtain s m e t n f where ab: "a = Finite s m e" "b = Finite t n f" using assms by (cases a; cases b) auto
  let ?k = "min e f"
  have pos: "0 < (2 :: real) powi (- ?k)" by simp
  have "double_less a b = (real_of_int (scaled s m e ?k) < real_of_int (scaled t n f ?k))" by (simp add: ab)
  also have "\<dots> = (x * 2 powi (- ?k) < y * 2 powi (- ?k))" using assms by (simp add: scaled_real ab)
  also have "\<dots> = (x < y)" using pos by (simp only: mult_less_cancel_right_pos)
  finally show ?thesis .
qed

lemma trunc_mag_floor: "int (trunc_mag m e) = \<lfloor>real m * 2 powi e\<rfloor>"
proof (cases "e \<ge> 0")
  case True
  then have "real m * 2 powi e = real_of_int (int (m * 2 ^ nat e))" by (simp add: power_int_def)
  then have "\<lfloor>real m * 2 powi e\<rfloor> = int (m * 2 ^ nat e)" by (simp only: floor_of_int)
  then show ?thesis using True by (simp add: trunc_mag_def)
next
  case False
  have "(2 :: real) powi e = inverse (real (2 ^ nat (- e)))" using False by (simp add: power_int_def power_one_over inverse_eq_divide)
  then have "real m * 2 powi e = real m / real (2 ^ nat (- e))" by (simp only: divide_inverse)
  then have "\<lfloor>real m * 2 powi e\<rfloor> = int (m div 2 ^ nat (- e))" by (simp only: floor_divide_of_nat_eq)
  moreover have "trunc_mag m e = m div 2 ^ nat (- e)" using False unfolding trunc_mag_def by (simp only: if_False)
  ultimately show ?thesis by (simp only:)
qed

text \<open>A cast to an integer is toward zero: less than one away, and not larger in magnitude.\<close>

lemma int_of_double_near:
  assumes "real_of_double d = Some r"
  shows "\<bar>real_of_int (int_of_double unspec d) - r\<bar> < 1" "\<bar>real_of_int (int_of_double unspec d)\<bar> \<le> \<bar>r\<bar>"
proof -
  obtain s m e where d: "d = Finite s m e" using assms by (cases d) auto
  define q where "q = real m * 2 powi e"
  have r: "r = (if s then - q else q)" using assms by (auto simp: d q_def)
  have q: "0 \<le> q" by (simp add: q_def)
  have k: "int_of_double unspec d = (if s then - \<lfloor>q\<rfloor> else \<lfloor>q\<rfloor>)"
    unfolding d int_of_double.simps trunc_mag_floor q_def ..
  define x where "x = real_of_int \<lfloor>q\<rfloor>"
  have x: "x \<le> q" "q < x + 1" "0 \<le> x" unfolding x_def using q by (linarith, linarith, simp)
  have k': "real_of_int (int_of_double unspec d) = (if s then - x else x)" by (simp add: k x_def)
  show "\<bar>real_of_int (int_of_double unspec d) - r\<bar> < 1" "\<bar>real_of_int (int_of_double unspec d)\<bar> \<le> \<bar>r\<bar>"
    using x by (cases s; simp only: k' r if_True if_False; linarith)+
qed

lemma int_of_double_of_int [simp]: "int_of_double unspec (double_of_int k) = k"
  by (simp add: double_of_int_def trunc_mag_def)

lemma double_less_of_int [simp]: "double_less (double_of_int a) (double_of_int b) = (a < b)"
  using double_less_real [OF real_of_double_of_int real_of_double_of_int, of a b] by simp

section \<open>Times and flags\<close>

datatype TimestampQuality = TQ_INVALID | SYNCHRONIZED | UNSYNCHRONIZED

record DNPTime =
  dt_value :: u64
  dt_quality :: TimestampQuality

definition DNPTime_none :: DNPTime where
  "DNPTime_none = \<lparr>dt_value = 0, dt_quality = TQ_INVALID\<rparr>"

definition DNPTime_of :: "u64 \<Rightarrow> DNPTime" where
  "DNPTime_of v = \<lparr>dt_value = v, dt_quality = SYNCHRONIZED\<rparr>"

definition ONLINE :: byte where "ONLINE = 0x01"
definition RESTART :: byte where "RESTART = 0x02"

text \<open>The bit \<open>BinaryQuality::STATE\<close> of the flags is the value.\<close>

definition BinaryQuality_STATE :: byte where "BinaryQuality_STATE = 0x80"

definition GetBinaryValue :: "byte \<Rightarrow> bool" where
  "GetBinaryValue fl = (fl AND BinaryQuality_STATE \<noteq> 0)"

definition GetBinaryFlags :: "byte \<Rightarrow> bool \<Rightarrow> byte" where
  "GetBinaryFlags fl v = (if v then fl OR BinaryQuality_STATE else fl AND NOT BinaryQuality_STATE)"

section \<open>Measurements\<close>

record 'v TypedMeasurement =
  m_flags :: byte
  m_time :: DNPTime
  m_value :: 'v

type_synonym Binary = "bool TypedMeasurement"
type_synonym DoubleBitBinary = "DoubleBit TypedMeasurement"
type_synonym BinaryOutputStatus = "bool TypedMeasurement"
type_synonym Analog = "double TypedMeasurement"
type_synonym Counter = "u32 TypedMeasurement"
type_synonym FrozenCounter = "u32 TypedMeasurement"
type_synonym AnalogOutputStatus = "double TypedMeasurement"

definition TypedMeasurement_make :: "'v \<Rightarrow> byte \<Rightarrow> 'v TypedMeasurement" where
  "TypedMeasurement_make v fl = \<lparr>m_flags = fl, m_time = DNPTime_none, m_value = v\<rparr>"

definition TypedMeasurement_make_time :: "'v \<Rightarrow> byte \<Rightarrow> DNPTime \<Rightarrow> 'v TypedMeasurement" where
  "TypedMeasurement_make_time v fl t = \<lparr>m_flags = fl, m_time = t, m_value = v\<rparr>"

definition Binary_default :: Binary where "Binary_default = TypedMeasurement_make False RESTART"
definition Binary_of_value :: "bool \<Rightarrow> Binary" where
  "Binary_of_value v = TypedMeasurement_make v (GetBinaryFlags ONLINE v)"
definition Binary_of_flags :: "byte \<Rightarrow> Binary" where
  "Binary_of_flags fl = TypedMeasurement_make (GetBinaryValue fl) fl"
definition Binary_of_flags_time :: "byte \<Rightarrow> DNPTime \<Rightarrow> Binary" where
  "Binary_of_flags_time fl t = TypedMeasurement_make_time (GetBinaryValue fl) fl t"
definition Binary_make :: "bool \<Rightarrow> byte \<Rightarrow> Binary" where
  "Binary_make v fl = TypedMeasurement_make v (GetBinaryFlags fl v)"
definition Binary_make_time :: "bool \<Rightarrow> byte \<Rightarrow> DNPTime \<Rightarrow> Binary" where
  "Binary_make_time v fl t = TypedMeasurement_make_time v (GetBinaryFlags fl v) t"

definition DoubleBitBinary_GetValue :: "byte \<Rightarrow> DoubleBit" where
  "DoubleBitBinary_GetValue fl = DoubleBit_from_type (drop_bit 6 fl)"
definition DoubleBitBinary_GetFlags :: "byte \<Rightarrow> DoubleBit \<Rightarrow> byte" where
  "DoubleBitBinary_GetFlags fl state = (0x3F AND fl) OR push_bit 6 (DoubleBit_to_type state)"
definition DoubleBitBinary_default :: DoubleBitBinary where
  "DoubleBitBinary_default = TypedMeasurement_make INDETERMINATE RESTART"
definition DoubleBitBinary_of_value :: "DoubleBit \<Rightarrow> DoubleBitBinary" where
  "DoubleBitBinary_of_value v = TypedMeasurement_make v (DoubleBitBinary_GetFlags ONLINE v)"
definition DoubleBitBinary_of_flags :: "byte \<Rightarrow> DoubleBitBinary" where
  "DoubleBitBinary_of_flags fl = TypedMeasurement_make (DoubleBitBinary_GetValue fl) fl"
definition DoubleBitBinary_of_flags_time :: "byte \<Rightarrow> DNPTime \<Rightarrow> DoubleBitBinary" where
  "DoubleBitBinary_of_flags_time fl t = TypedMeasurement_make_time (DoubleBitBinary_GetValue fl) fl t"
definition DoubleBitBinary_make :: "DoubleBit \<Rightarrow> byte \<Rightarrow> DoubleBitBinary" where
  "DoubleBitBinary_make v fl = TypedMeasurement_make v (DoubleBitBinary_GetFlags fl v)"
definition DoubleBitBinary_make_time :: "DoubleBit \<Rightarrow> byte \<Rightarrow> DNPTime \<Rightarrow> DoubleBitBinary" where
  "DoubleBitBinary_make_time v fl t = TypedMeasurement_make_time v (DoubleBitBinary_GetFlags fl v) t"

definition Analog_of_value :: "double \<Rightarrow> Analog" where "Analog_of_value v = TypedMeasurement_make v ONLINE"
definition Counter_of_value :: "u32 \<Rightarrow> Counter" where "Counter_of_value v = TypedMeasurement_make v ONLINE"

section \<open>Command events, set points and intervals\<close>

record BinaryCommandEvent =
  bce_value :: bool
  bce_status :: CommandStatus
  bce_time :: DNPTime

definition GetValueFromFlags :: "byte \<Rightarrow> bool" where
  "GetValueFromFlags fl = (fl AND 0x80 = 0x80)"
definition GetStatusFromFlags :: "byte \<Rightarrow> CommandStatus" where
  "GetStatusFromFlags fl = CommandStatus_from_type (fl AND 0x7F)"
definition BinaryCommandEvent_of_flags :: "byte \<Rightarrow> BinaryCommandEvent" where
  "BinaryCommandEvent_of_flags fl = \<lparr>bce_value = GetValueFromFlags fl, bce_status = GetStatusFromFlags fl, bce_time = DNPTime_none\<rparr>"
definition BinaryCommandEvent_of_flags_time :: "byte \<Rightarrow> DNPTime \<Rightarrow> BinaryCommandEvent" where
  "BinaryCommandEvent_of_flags_time fl t = \<lparr>bce_value = GetValueFromFlags fl, bce_status = GetStatusFromFlags fl, bce_time = t\<rparr>"
definition BinaryCommandEvent_GetFlags :: "BinaryCommandEvent \<Rightarrow> byte" where
  "BinaryCommandEvent_GetFlags ev = push_bit 7 (if bce_value ev then 1 else 0) OR CommandStatus_to_type (bce_status ev)"

record AnalogCommandEvent =
  ace_value :: double
  ace_status :: CommandStatus
  ace_time :: DNPTime

record 'v AnalogOutput =
  ao_value :: 'v
  ao_status :: CommandStatus

record TimeAndInterval =
  tai_time :: DNPTime
  tai_interval :: u32
  tai_units :: byte

section \<open>Factories\<close>

definition BinaryFactory_From :: "byte \<Rightarrow> Binary" where "BinaryFactory_From fl = Binary_of_flags fl"
definition BinaryFactory_From_time :: "byte \<Rightarrow> DNPTime \<Rightarrow> Binary" where "BinaryFactory_From_time fl t = Binary_of_flags_time fl t"
definition BinaryFactory_From_u16 :: "byte \<Rightarrow> u16 \<Rightarrow> Binary" where
  "BinaryFactory_From_u16 fl t = BinaryFactory_From_time fl (DNPTime_of (ucast t))"
definition DoubleBitBinaryFactory_From :: "byte \<Rightarrow> DoubleBitBinary" where "DoubleBitBinaryFactory_From fl = DoubleBitBinary_of_flags fl"
definition DoubleBitBinaryFactory_From_time :: "byte \<Rightarrow> DNPTime \<Rightarrow> DoubleBitBinary" where
  "DoubleBitBinaryFactory_From_time fl t = DoubleBitBinary_of_flags_time fl t"
definition DoubleBitBinaryFactory_From_u16 :: "byte \<Rightarrow> u16 \<Rightarrow> DoubleBitBinary" where
  "DoubleBitBinaryFactory_From_u16 fl t = DoubleBitBinaryFactory_From_time fl (DNPTime_of (ucast t))"
definition AnalogFactory_From_count :: "u32 \<Rightarrow> Analog" where "AnalogFactory_From_count n = Analog_of_value (double_of_int (sint n))"
definition AnalogFactory_From :: "byte \<Rightarrow> double \<Rightarrow> Analog" where "AnalogFactory_From fl v = TypedMeasurement_make v fl"
definition AnalogFactory_From_time :: "byte \<Rightarrow> double \<Rightarrow> DNPTime \<Rightarrow> Analog" where
  "AnalogFactory_From_time fl v t = TypedMeasurement_make_time v fl t"
definition CounterFactory_From_count :: "u32 \<Rightarrow> Counter" where "CounterFactory_From_count n = Counter_of_value n"
definition CounterFactory_From :: "byte \<Rightarrow> u32 \<Rightarrow> Counter" where "CounterFactory_From fl n = TypedMeasurement_make n fl"
definition CounterFactory_From_time :: "byte \<Rightarrow> u32 \<Rightarrow> DNPTime \<Rightarrow> Counter" where
  "CounterFactory_From_time fl n t = TypedMeasurement_make_time n fl t"
definition FrozenCounterFactory_From_count :: "u32 \<Rightarrow> FrozenCounter" where "FrozenCounterFactory_From_count n = Counter_of_value n"
definition FrozenCounterFactory_From :: "byte \<Rightarrow> u32 \<Rightarrow> FrozenCounter" where "FrozenCounterFactory_From fl n = TypedMeasurement_make n fl"
definition FrozenCounterFactory_From_time :: "byte \<Rightarrow> u32 \<Rightarrow> DNPTime \<Rightarrow> FrozenCounter" where
  "FrozenCounterFactory_From_time fl n t = TypedMeasurement_make_time n fl t"
definition TimeAndIntervalFactory_From :: "DNPTime \<Rightarrow> u32 \<Rightarrow> byte \<Rightarrow> TimeAndInterval" where
  "TimeAndIntervalFactory_From t i u = \<lparr>tai_time = t, tai_interval = i, tai_units = u\<rparr>"
definition BinaryOutputStatusFactory_From :: "byte \<Rightarrow> BinaryOutputStatus" where "BinaryOutputStatusFactory_From fl = Binary_of_flags fl"
definition BinaryOutputStatusFactory_From_time :: "byte \<Rightarrow> DNPTime \<Rightarrow> BinaryOutputStatus" where
  "BinaryOutputStatusFactory_From_time fl t = Binary_of_flags_time fl t"
definition BinaryCommandEventFactory_From :: "byte \<Rightarrow> BinaryCommandEvent" where
  "BinaryCommandEventFactory_From fl = BinaryCommandEvent_of_flags fl"
definition BinaryCommandEventFactory_From_time :: "byte \<Rightarrow> DNPTime \<Rightarrow> BinaryCommandEvent" where
  "BinaryCommandEventFactory_From_time fl t = BinaryCommandEvent_of_flags_time fl t"
definition AnalogOutputStatusFactory_From :: "byte \<Rightarrow> double \<Rightarrow> AnalogOutputStatus" where
  "AnalogOutputStatusFactory_From fl v = TypedMeasurement_make v fl"
definition AnalogOutputStatusFactory_From_time :: "byte \<Rightarrow> double \<Rightarrow> DNPTime \<Rightarrow> AnalogOutputStatus" where
  "AnalogOutputStatusFactory_From_time fl v t = TypedMeasurement_make_time v fl t"
definition AnalogCommandEventFactory_From :: "byte \<Rightarrow> double \<Rightarrow> AnalogCommandEvent" where
  "AnalogCommandEventFactory_From st v = \<lparr>ace_value = v, ace_status = CommandStatus_from_type st, ace_time = DNPTime_none\<rparr>"
definition AnalogCommandEventFactory_From_time :: "byte \<Rightarrow> double \<Rightarrow> DNPTime \<Rightarrow> AnalogCommandEvent" where
  "AnalogCommandEventFactory_From_time st v t = \<lparr>ace_value = v, ace_status = CommandStatus_from_type st, ace_time = t\<rparr>"
definition AnalogOutputFactory_From :: "'v \<Rightarrow> byte \<Rightarrow> 'v AnalogOutput" where
  "AnalogOutputFactory_From v st = \<lparr>ao_value = v, ao_status = CommandStatus_from_type st\<rparr>"
definition ControlRelayOutputBlockFactory_From :: "byte \<Rightarrow> byte \<Rightarrow> u32 \<Rightarrow> u32 \<Rightarrow> byte \<Rightarrow> ControlRelayOutputBlock option" where
  "ControlRelayOutputBlockFactory_From code n on off st = CROB_of_raw code n on off (CommandStatus_from_type st)"

section \<open>Down-sampling\<close>

definition DownSampling_Apply :: "double \<Rightarrow> double \<Rightarrow> 'v \<Rightarrow> 'v \<Rightarrow> (double \<Rightarrow> 'v) \<Rightarrow> double \<Rightarrow> bool \<times> 'v" where
  "DownSampling_Apply max_src min_src TARGET_MAX TARGET_MIN cast src =
     (if double_less max_src src then (True, TARGET_MAX)
      else if double_less src min_src then (True, TARGET_MIN)
      else (False, cast src))"

definition DownSampling_int32 :: "(double \<Rightarrow> int) \<Rightarrow> double \<Rightarrow> bool \<times> u32" where
  "DownSampling_int32 unspec =
     DownSampling_Apply (double_of_int 2147483647) (double_of_int (- 2147483648)) 0x7FFFFFFF 0x80000000
       (\<lambda>src. of_int (int_of_double unspec src))"

definition DownSampling_int16 :: "(double \<Rightarrow> int) \<Rightarrow> double \<Rightarrow> bool \<times> u16" where
  "DownSampling_int16 unspec =
     DownSampling_Apply (double_of_int 32767) (double_of_int (- 32768)) 0x7FFF 0x8000
       (\<lambda>src. of_int (int_of_double unspec src))"

text \<open>The largest float is \<open>16777215 * 2 ^ 104\<close>.\<close>

definition FLT_MAX :: double where "FLT_MAX = Finite False 16777215 104"
definition FLT_LOWEST :: double where "FLT_LOWEST = Finite True 16777215 104"

definition DownSampling_float :: "double \<Rightarrow> bool \<times> u32" where
  "DownSampling_float =
     DownSampling_Apply FLT_MAX FLT_LOWEST (float_bits_of_double FLT_MAX) (float_bits_of_double FLT_LOWEST) float_bits_of_double"

lemma DownSampling_in_range:
  assumes "real_of_double d = Some r" "real_of_double mx = Some a" "real_of_double mn = Some b"
  shows "DownSampling_Apply mx mn tmax tmin cast d = (if a < r then (True, tmax) else if r < b then (True, tmin) else (False, cast d))"
  by (simp add: DownSampling_Apply_def double_less_real [OF assms(2,1)] double_less_real [OF assms(1,3)])

text \<open>What a reader finds in a down-sampled integer: the bound that was passed, or the value cut to an integer.\<close>

definition clipped :: "int \<Rightarrow> int \<Rightarrow> real \<Rightarrow> int \<Rightarrow> bool" where
  "clipped lo hi r k =
     (if real_of_int hi < r then k = hi else if r < real_of_int lo then k = lo
      else \<bar>real_of_int k - r\<bar> < 1 \<and> \<bar>real_of_int k\<bar> \<le> \<bar>r\<bar> \<and> lo \<le> k \<and> k \<le> hi)"

lemma int_of_double_in_range:
  assumes "real_of_double d = Some r" "real_of_int lo \<le> r" "r \<le> real_of_int hi" "lo \<le> 0" "0 \<le> hi"
  shows "lo \<le> int_of_double unspec d \<and> int_of_double unspec d \<le> hi"
proof -
  let ?k = "int_of_double unspec d"
  have n: "\<bar>real_of_int ?k - r\<bar> < 1" "\<bar>real_of_int ?k\<bar> \<le> \<bar>r\<bar>" using int_of_double_near [OF assms(1)] by blast+
  have "real_of_int lo \<le> 0" "0 \<le> real_of_int hi" using assms(4,5) by simp_all
  then have "real_of_int lo - 1 < real_of_int ?k" "real_of_int ?k < real_of_int hi + 1" using n assms(2,3) by linarith+
  then show ?thesis by linarith
qed

lemma DownSampling_int32_clipped:
  assumes "real_of_double d = Some r"
  shows "fst (DownSampling_int32 unspec d) = (\<not> (- 2147483648 \<le> r \<and> r \<le> 2147483647))
       \<and> clipped (- 2147483648) 2147483647 r (sint (snd (DownSampling_int32 unspec d)))"
proof (cases "- 2147483648 \<le> r \<and> r \<le> 2147483647")
  case True
  have i: "- 2147483648 \<le> int_of_double unspec d \<and> int_of_double unspec d \<le> 2147483647"
    using int_of_double_in_range [OF assms, of "- 2147483648" 2147483647] True by simp
  with i have "sint (of_int (int_of_double unspec d) :: u32) = int_of_double unspec d"
    by (simp add: signed_of_int signed_take_bit_int_eq_self)
  with True int_of_double_near [OF assms, of unspec] i show ?thesis
    by (simp add: DownSampling_int32_def DownSampling_in_range [OF assms real_of_double_of_int real_of_double_of_int] clipped_def)
next
  case False
  then show ?thesis
    by (auto simp: DownSampling_int32_def DownSampling_in_range [OF assms real_of_double_of_int real_of_double_of_int] clipped_def)
qed

lemma DownSampling_int16_clipped:
  assumes "real_of_double d = Some r"
  shows "fst (DownSampling_int16 unspec d) = (\<not> (- 32768 \<le> r \<and> r \<le> 32767))
       \<and> clipped (- 32768) 32767 r (sint (snd (DownSampling_int16 unspec d)))"
proof (cases "- 32768 \<le> r \<and> r \<le> 32767")
  case True
  have i: "- 32768 \<le> int_of_double unspec d \<and> int_of_double unspec d \<le> 32767"
    using int_of_double_in_range [OF assms, of "- 32768" 32767] True by simp
  with i have "sint (of_int (int_of_double unspec d) :: u16) = int_of_double unspec d"
    by (simp add: signed_of_int signed_take_bit_int_eq_self)
  with True int_of_double_near [OF assms, of unspec] i show ?thesis
    by (simp add: DownSampling_int16_def DownSampling_in_range [OF assms real_of_double_of_int real_of_double_of_int] clipped_def)
next
  case False
  then show ?thesis
    by (auto simp: DownSampling_int16_def DownSampling_in_range [OF assms real_of_double_of_int real_of_double_of_int] clipped_def)
qed

section \<open>The structures of the objects\<close>

text \<open>
  The generated structures of \<open>gen/objects\<close> with the same members share a record: a record is named by
  its members, the quality \<open>Q\<close>, the value \<open>V\<close>, the time \<open>T\<close> and the status \<open>S\<close>, in the order of the structure.
\<close>

record obj_Q =
  o_flags :: byte

record obj_QT = obj_Q +
  qt_time :: DNPTime

record obj_QT16 = obj_Q +
  qt_time16 :: u16

record 'v obj_V =
  o_value :: 'v

record 'v obj_QV = obj_Q +
  qv_value :: 'v

record 'v obj_QVT = "'v obj_QV" +
  qvt_time :: DNPTime

record 'v obj_VS =
  vs_value :: 'v
  vs_status :: byte

record 'v obj_SV =
  sv_status :: byte
  sv_value :: 'v

record 'v obj_SVT = "'v obj_SV" +
  svt_time :: DNPTime

record obj_T =
  o_time :: DNPTime

record obj_T16 =
  o_time16 :: u16

record obj_TIU =
  tiu_time :: DNPTime
  tiu_interval :: u32
  tiu_units :: byte

record obj_CROB =
  cb_code :: byte
  cb_count :: byte
  cb_onTime :: u32
  cb_offTime :: u32
  cb_status :: byte

section \<open>Conversion templates\<close>

definition ConvertQ :: "'v TypedMeasurement \<Rightarrow> obj_Q" where
  "ConvertQ src = \<lparr>o_flags = m_flags src\<rparr>"

definition ConvertQV :: "'v TypedMeasurement \<Rightarrow> 'v obj_QV" where
  "ConvertQV src = \<lparr>o_flags = m_flags src, qv_value = m_value src\<rparr>"

definition ConvertV :: "'v TypedMeasurement \<Rightarrow> 'v obj_V" where
  "ConvertV src = \<lparr>o_value = m_value src\<rparr>"

definition ConvertVandTruncate :: "u32 TypedMeasurement \<Rightarrow> u16 obj_V" where
  "ConvertVandTruncate src = \<lparr>o_value = ucast (m_value src)\<rparr>"

definition ConvertVRangeCheck :: "(double \<Rightarrow> bool \<times> 't) \<Rightarrow> double TypedMeasurement \<Rightarrow> 't obj_V" where
  "ConvertVRangeCheck ds src = \<lparr>o_value = snd (ds (m_value src))\<rparr>"

definition ConvertQVRangeCheck :: "(double \<Rightarrow> bool \<times> 't) \<Rightarrow> byte \<Rightarrow> double TypedMeasurement \<Rightarrow> 't obj_QV" where
  "ConvertQVRangeCheck ds Overrange src =
     (let (overrange, v) = ds (m_value src)
      in \<lparr>o_flags = (if overrange then Overrange else 0) OR m_flags src, qv_value = v\<rparr>)"

definition ConvertQVandTruncate :: "u32 TypedMeasurement \<Rightarrow> u16 obj_QV" where
  "ConvertQVandTruncate src = \<lparr>o_flags = m_flags src, qv_value = ucast (m_value src)\<rparr>"

definition ConvertQVT :: "'v TypedMeasurement \<Rightarrow> 'v obj_QVT" where
  "ConvertQVT src = \<lparr>o_flags = m_flags src, qv_value = m_value src, qvt_time = m_time src\<rparr>"

definition ConvertQVTandTruncate :: "u32 TypedMeasurement \<Rightarrow> u16 obj_QVT" where
  "ConvertQVTandTruncate src = \<lparr>o_flags = m_flags src, qv_value = ucast (m_value src), qvt_time = m_time src\<rparr>"

definition ConvertQVTRangeCheck :: "(double \<Rightarrow> bool \<times> 't) \<Rightarrow> byte \<Rightarrow> double TypedMeasurement \<Rightarrow> 't obj_QVT" where
  "ConvertQVTRangeCheck ds Overrange src =
     (let (overrange, v) = ds (m_value src)
      in \<lparr>o_flags = (if overrange then Overrange else 0) OR m_flags src, qv_value = v, qvt_time = m_time src\<rparr>)"

definition ConvertQT :: "'v TypedMeasurement \<Rightarrow> obj_QT" where
  "ConvertQT src = \<lparr>o_flags = m_flags src, qt_time = m_time src\<rparr>"

definition ConvertQTDowncast :: "'v TypedMeasurement \<Rightarrow> obj_QT16" where
  "ConvertQTDowncast src = \<lparr>o_flags = m_flags src, qt_time16 = ucast (dt_value (m_time src))\<rparr>"

definition ConvertQS :: "'v AnalogOutput \<Rightarrow> 'v obj_VS" where
  "ConvertQS src = \<lparr>vs_value = ao_value src, vs_status = CommandStatus_to_type (ao_status src)\<rparr>"

end
