(* ===== verification/App_Codec.thy ===== *)
theory App_Codec
  imports App_Meas
begin

text \<open>
  The little-endian numbers of the external library \<open>ser4cpp\<close>. A codec of a number is a record of its
  size and its two functions; the library is the record \<open>le_lib\<close> of the codecs that the code uses, and the
  locale \<open>le_codec\<close> states their documented behaviour: a number takes its fixed size, and is read back as it
  was written, a time if it has 48 bits and a double if it is one of the values of the format.
  The last field of \<open>le_lib\<close> is not a codec: it is what the platform gives for the cast of a double that is not a
  number to an integer, which C++ leaves undefined. \<open>LE_read1\<close> and its variants are the variadic \<open>LittleEndian::read\<close>, one field after the other.
\<close>

section \<open>Codecs\<close>

record 'a codec =
  c_size :: nat
  c_put :: "'a \<Rightarrow> byte list"
  c_get :: "byte list \<Rightarrow> 'a"

definition codec_ok :: "('a \<Rightarrow> bool) \<Rightarrow> 'a codec \<Rightarrow> bool" where
  "codec_ok P c = ((\<forall>x. length (c_put c x) = c_size c) \<and> (\<forall>x r. P x \<longrightarrow> c_get c (c_put c x @ r) = x))"

definition UInt8 :: "byte codec" where
  "UInt8 = \<lparr>c_size = 1, c_put = (\<lambda>x. [x]), c_get = hd\<rparr>"

definition UInt16 :: "u16_codec \<Rightarrow> u16 codec" where
  "UInt16 C = \<lparr>c_size = 2, c_put = write_to C, c_get = read_from C\<rparr>"

text \<open>The value of a \<open>double\<close> with the given 64 bits; a number that is not one keeps its quiet 23-bit image.\<close>

definition double_of_double_bits :: "u64 \<Rightarrow> double" where
  "double_of_double_bits w =
     (let n = unat w; s = (n \<ge> 2 ^ 63); E = n div 2 ^ 52 mod 2048; F = n mod 2 ^ 52
      in if E = 2047 then (if F = 0 then Infinity s else NaN s (4194304 + F div 2 ^ 29 mod 4194304))
         else if E = 0 then Finite s F (- 1074)
         else Finite s (F + 2 ^ 52) (int E - 1075))"

definition is_double :: "double \<Rightarrow> bool" where
  "is_double d = (d \<in> range double_of_double_bits)"

record le_lib =
  lib_u16 :: u16_codec
  lib_u32 :: "u32 codec"
  lib_u48 :: "u64 codec"
  lib_i16 :: "u16 codec"
  lib_i32 :: "u32 codec"
  lib_f32 :: "u32 codec"
  lib_f64 :: "double codec"
  undef_cast :: "double \<Rightarrow> int"

locale le_codec = codec16 "lib_u16 E" for E :: le_lib +
  assumes u32: "codec_ok (\<lambda>x. True) (lib_u32 E)" "c_size (lib_u32 E) = 4"
    and u48: "codec_ok (\<lambda>x. x < 2 ^ 48) (lib_u48 E)" "c_size (lib_u48 E) = 6"
    and i16: "codec_ok (\<lambda>x. True) (lib_i16 E)" "c_size (lib_i16 E) = 2"
    and i32: "codec_ok (\<lambda>x. True) (lib_i32 E)" "c_size (lib_i32 E) = 4"
    and f32: "codec_ok (\<lambda>x. True) (lib_f32 E)" "c_size (lib_f32 E) = 4"
    and f64: "codec_ok is_double (lib_f64 E)" "c_size (lib_f64 E) = 8"

section \<open>A sequence of fields\<close>

definition read_one :: "'a codec \<Rightarrow> byte list \<Rightarrow> ('a \<times> byte list) option" where
  "read_one c buffer = (if length buffer < c_size c then None else Some (c_get c buffer, drop (c_size c) buffer))"

definition LE_read1 :: "'a codec \<Rightarrow> ('a \<Rightarrow> 'x) \<Rightarrow> byte list \<Rightarrow> ('x \<times> byte list) option" where
  "LE_read1 c f buffer = map_option (\<lambda>(a, r). (f a, r)) (read_one c buffer)"

definition LE_read2 :: "'a codec \<Rightarrow> 'b codec \<Rightarrow> ('a \<Rightarrow> 'b \<Rightarrow> 'x) \<Rightarrow> byte list \<Rightarrow> ('x \<times> byte list) option" where
  "LE_read2 c d f buffer = Option.bind (read_one c buffer) (\<lambda>(a, r). LE_read1 d (f a) r)"

definition LE_read3 :: "'a codec \<Rightarrow> 'b codec \<Rightarrow> 'c codec \<Rightarrow> ('a \<Rightarrow> 'b \<Rightarrow> 'c \<Rightarrow> 'x) \<Rightarrow> byte list \<Rightarrow> ('x \<times> byte list) option" where
  "LE_read3 c d e f buffer = Option.bind (read_one c buffer) (\<lambda>(a, r). LE_read2 d e (f a) r)"

definition LE_read5 :: "'a codec \<Rightarrow> 'b codec \<Rightarrow> 'c codec \<Rightarrow> 'd codec \<Rightarrow> 'e codec \<Rightarrow> ('a \<Rightarrow> 'b \<Rightarrow> 'c \<Rightarrow> 'd \<Rightarrow> 'e \<Rightarrow> 'x)
    \<Rightarrow> byte list \<Rightarrow> ('x \<times> byte list) option" where
  "LE_read5 c d e g h f buffer =
     Option.bind (read_one c buffer) (\<lambda>(a, r). Option.bind (read_one d r) (\<lambda>(b, r). LE_read3 e g h (f a b) r))"

text \<open>A time is written as its 48-bit count; reading sets the count of a time that is synchronized.\<close>

definition time_codec :: "le_lib \<Rightarrow> DNPTime codec" where
  "time_codec E =
     \<lparr>c_size = c_size (lib_u48 E), c_put = (\<lambda>t. c_put (lib_u48 E) (dt_value t)),
      c_get = (\<lambda>bs. DNPTime_of (c_get (lib_u48 E) bs))\<rparr>"

named_theorems codec_laws \<open>sizes and round trips of codecs\<close>

lemma codec_put [simp]: "codec_ok P c \<Longrightarrow> length (c_put c x) = c_size c"
  by (simp add: codec_ok_def)

lemma read_one_put: "codec_ok P c \<Longrightarrow> P x \<Longrightarrow> read_one c (c_put c x @ r) = Some (x, r)"
  by (simp add: codec_ok_def read_one_def)

lemma LE_read1_put: "codec_ok P c \<Longrightarrow> P x \<Longrightarrow> LE_read1 c f (c_put c x @ r) = Some (f x, r)"
  by (simp add: LE_read1_def read_one_put)

lemma LE_read2_put: "codec_ok P c \<Longrightarrow> codec_ok Q d \<Longrightarrow> P x \<Longrightarrow> Q y \<Longrightarrow> LE_read2 c d f (c_put c x @ c_put d y @ r) = Some (f x y, r)"
  by (simp add: LE_read2_def read_one_put LE_read1_put)

lemma LE_read3_put:
  "codec_ok P c \<Longrightarrow> codec_ok Q d \<Longrightarrow> codec_ok R e \<Longrightarrow> P x \<Longrightarrow> Q y \<Longrightarrow> R z
     \<Longrightarrow> LE_read3 c d e f (c_put c x @ c_put d y @ c_put e z @ r) = Some (f x y z, r)"
  by (simp add: LE_read3_def read_one_put LE_read2_put)

lemma LE_read5_put:
  "codec_ok P1 c \<Longrightarrow> codec_ok P2 d \<Longrightarrow> codec_ok P3 e \<Longrightarrow> codec_ok P4 g \<Longrightarrow> codec_ok P5 h \<Longrightarrow> P1 v \<Longrightarrow> P2 w \<Longrightarrow> P3 x \<Longrightarrow> P4 y \<Longrightarrow> P5 z
     \<Longrightarrow> LE_read5 c d e g h f (c_put c v @ c_put d w @ c_put e x @ c_put g y @ c_put h z @ r) = Some (f v w x y z, r)"
  by (simp add: LE_read5_def read_one_put LE_read3_put)

lemma read_one_None: "(read_one c buffer = None) = (length buffer < c_size c)"
  by (simp add: read_one_def)

lemma UInt8_ok [codec_laws]: "codec_ok (\<lambda>x. True) UInt8" "c_size UInt8 = 1"
  by (simp_all add: codec_ok_def UInt8_def)

text \<open>A time that the wire can carry.\<close>

definition wire_time :: "DNPTime \<Rightarrow> bool" where
  "wire_time t = (dt_value t < 2 ^ 48 \<and> dt_quality t = SYNCHRONIZED)"

context le_codec
begin

lemma UInt16_ok: "codec_ok (\<lambda>x. True) (UInt16 (lib_u16 E))" "c_size (UInt16 (lib_u16 E)) = 2"
  by (simp_all add: codec_ok_def UInt16_def length_write read_write)

lemma time_ok: "codec_ok wire_time (time_codec E)" "c_size (time_codec E) = 6"
proof -
  show "codec_ok wire_time (time_codec E)"
    using u48(1) by (auto simp: codec_ok_def time_codec_def wire_time_def DNPTime_of_def)
qed (simp add: time_codec_def u48)

lemmas codec_oks = UInt8_ok UInt16_ok u32 i16 i32 f32 f64 time_ok

end

section \<open>Serializers\<close>

record GroupVariationID =
  id_group :: byte
  id_variation :: byte

record 't DNP3Serializer =
  ser_id :: GroupVariationID
  ser_size :: nat
  ser_read :: "byte list \<Rightarrow> ('t \<times> byte list) option"
  ser_write :: "'t \<Rightarrow> byte list"

section \<open>The little-endian instance\<close>

fun le_bytes :: "nat \<Rightarrow> nat \<Rightarrow> byte list" where
  "le_bytes 0 x = []"
| "le_bytes (Suc k) x = of_nat x # le_bytes k (x div 256)"

fun le_nat :: "nat \<Rightarrow> byte list \<Rightarrow> nat" where
  "le_nat 0 bs = 0"
| "le_nat (Suc k) bs = unat (hd bs) + 256 * le_nat k (tl bs)"

definition le_word :: "nat \<Rightarrow> 'a::len word codec" where
  "le_word k = \<lparr>c_size = k, c_put = (\<lambda>x. le_bytes k (unat x)), c_get = (\<lambda>bs. of_nat (le_nat k bs))\<rparr>"

text \<open>The 64 bits of a double that has the form of the format.\<close>

fun double_bits :: "double \<Rightarrow> nat" where
  "double_bits (Infinity s) = (if s then 2 ^ 63 else 0) + 2047 * 2 ^ 52"
| "double_bits (NaN s f) = (if s then 2 ^ 63 else 0) + 2047 * 2 ^ 52 + f * 2 ^ 29"
| "double_bits (Finite s m e) =
     (if s then 2 ^ 63 else 0) + (if m < 2 ^ 52 then m else nat (e + 1075) * 2 ^ 52 + (m - 2 ^ 52))"

definition le_double :: "double codec" where
  "le_double = \<lparr>c_size = 8, c_put = (\<lambda>d. le_bytes 8 (double_bits d)), c_get = (\<lambda>bs. double_of_double_bits (of_nat (le_nat 8 bs)))\<rparr>"

definition little_endian :: le_lib where
  "little_endian =
     \<lparr>lib_u16 = le16, lib_u32 = le_word 4, lib_u48 = le_word 6, lib_i16 = le_word 2, lib_i32 = le_word 4,
      lib_f32 = le_word 4, lib_f64 = le_double, undef_cast = (\<lambda>d. - 2147483648)\<rparr>"

lemma length_le_bytes [simp]: "length (le_bytes k x) = k"
  by (induction k arbitrary: x) simp_all

lemma le_roundtrip: "x < 256 ^ k \<Longrightarrow> le_nat k (le_bytes k x @ r) = x"
proof (induction k arbitrary: x)
  case (Suc k)
  then have "x div 256 < 256 ^ k" by auto
  with Suc.IH show ?case by (simp add: unat_of_nat)
qed simp

lemma le_word_ok:
  assumes "\<And>x. P x \<Longrightarrow> unat x < 256 ^ k"
  shows "codec_ok P (le_word k :: 'a::len word codec)"
  using le_roundtrip [OF assms] by (simp add: codec_ok_def le_word_def)

lemma unat_u32_less: "unat (x :: u32) < 4294967296"
  using unsigned_less [of x, where ?'a = nat] by simp

lemma double_split:
  assumes "n < 2 ^ 64"
  defines "s \<equiv> n \<ge> 2 ^ 63" and "E \<equiv> n div 2 ^ 52 mod 2048" and "F \<equiv> n mod 2 ^ 52"
  shows "n = (if s then 2 ^ 63 else 0) + E * 2 ^ 52 + F \<and> F < 2 ^ 52 \<and> E < (2048 :: nat)"
proof -
  define q where "q = n div 2 ^ 52"
  have n: "n = q * 2 ^ 52 + F" by (simp add: F_def q_def)
  have "q = q div 2048 * 2048 + E" unfolding E_def q_def [symmetric] by (rule div_mult_mod_eq [symmetric])
  moreover have "q div 2048 = n div 2 ^ 63" by (simp add: q_def flip: div_mult2_eq)
  moreover have "n div 2 ^ 63 = (if s then 1 else 0)" using assms(1) by (auto simp: s_def div_if)
  ultimately have "q = (if s then 2048 else 0) + E" by simp
  then have "q * 2 ^ 52 = (if s then 2 ^ 63 else 0) + E * 2 ^ 52" by simp
  with n show ?thesis by (simp add: E_def F_def)
qed

lemma double_bits_roundtrip:
  assumes "is_double d"
  shows "double_bits d < 2 ^ 64 \<and> double_of_double_bits (of_nat (double_bits d)) = d"
proof -
  obtain w where d: "d = double_of_double_bits w" using assms by (auto simp: is_double_def)
  define n s E F where "n = unat w" and "s = (n \<ge> 2 ^ 63)" and "E = n div 2 ^ 52 mod 2048" and "F = n mod 2 ^ 52"
  have n: "n < 2 ^ 64" using unsigned_less [of w, where ?'a = nat] by (simp add: n_def)
  have sp: "F < 2 ^ 52" "E < 2048" using double_split [OF n] by (simp_all add: s_def E_def F_def)
  have dd: "d = (if E = 2047 then (if F = 0 then Infinity s else NaN s (4194304 + F div 2 ^ 29 mod 4194304))
         else if E = 0 then Finite s F (- 1074) else Finite s (F + 2 ^ 52) (int E - 1075))"
    unfolding d double_of_double_bits_def n_def [symmetric] Let_def s_def [symmetric] E_def [symmetric] F_def [symmetric] ..
  text \<open>Reading back bits that are composed of their parts.\<close>
  have comp: "double_of_double_bits (of_nat ((if t then 2 ^ 63 else 0) + e * 2 ^ 52 + f)) =
      (if e = 2047 then (if f = 0 then Infinity t else NaN t (4194304 + f div 2 ^ 29 mod 4194304))
         else if e = 0 then Finite t f (- 1074) else Finite t (f + 2 ^ 52) (int e - 1075))
      \<and> (if t then 2 ^ 63 else 0) + e * 2 ^ 52 + f < (2 ^ 64 :: nat)"
    if "f < 2 ^ 52" "e < 2048" for t and e f :: nat
  proof -
    define k where "k = (if t then 2 ^ 63 else 0) + e * 2 ^ 52 + f"
    have low: "e * 2 ^ 52 + f < 2 ^ 63" using that by (simp add: less_Suc_eq_le)
    then have lt: "k < 2 ^ 64" by (auto simp: k_def)
    then have u: "unat (of_nat k :: u64) = k" by (simp add: unat_of_nat)
    have ks: "(k \<ge> 2 ^ 63) = t" using low by (auto simp: k_def)
    have kf: "k mod 2 ^ 52 = f" using that by (simp add: k_def mod_add_left_eq [symmetric])
    have "k = ((if t then 2048 else 0) + e) * 2 ^ 52 + f" by (simp add: k_def)
    then have "k div 2 ^ 52 = (if t then 2048 else 0) + e" using that by (simp only: div_mult_self3) simp
    then have ke: "k div 2 ^ 52 mod 2048 = e" using that by simp
    show ?thesis unfolding k_def [symmetric] double_of_double_bits_def Let_def u ks kf ke using lt by simp
  qed
  consider "E = 2047" "F = 0" | "E = 2047" "F \<noteq> 0" | "E = 0" | "0 < E" "E < 2047" using sp by linarith
  then show ?thesis
  proof cases
    case 1
    then show ?thesis using comp [of 0 2047 s] by (simp add: dd)
  next
    case 2
    let ?f = "4194304 + F div 2 ^ 29 mod 4194304 :: nat"
    have q: "?f * 2 ^ 29 div 2 ^ 29 = ?f" by simp
    have "?f * 2 ^ 29 < 2 ^ 52" by (simp add: less_Suc_eq_le)
    from comp [OF this, of 2047 s] 2 show ?thesis unfolding dd q by simp
  next
    case 3
    then show ?thesis using comp [OF sp(1), of 0 s] sp by (simp add: dd)
  next
    case 4
    then show ?thesis using comp [OF sp, of s] by (simp add: dd add.assoc)
  qed
qed

interpretation little_endian: le_codec little_endian
proof unfold_locales
  show "codec_ok is_double (lib_f64 little_endian)"
  proof -
    have "le_nat 8 (le_bytes 8 (double_bits d) @ r) = double_bits d" if "is_double d" for d r
      using le_roundtrip [of "double_bits d" 8 r] double_bits_roundtrip [OF that] by simp
    then show ?thesis using double_bits_roundtrip by (simp add: codec_ok_def little_endian_def le_double_def)
  qed
qed (auto simp: little_endian_def le_double_def le_word_def le16.length_write le16.read_write le16.write_read
    intro!: le_word_ok [unfolded le_word_def] simp: unat_u32_less word_less_nat_alt)

end
