(* ===== verification/App_Objects.thy ===== *)
theory App_Objects
  imports App_Codec
begin

text \<open>
  The objects of \<open>gen/objects\<close>: for each structure its reading and writing, the conversion from and to the
  measurement or command that it carries (\<open>app/WriteConversions.h\<close>), and its serializer. Then the laws that
  all of them obey: an object takes its fixed size, and reading gives back what was written.
\<close>

section \<open>Group1Var2\<close>

type_synonym Group1Var2 = "obj_Q"

definition Group1Var2_Read :: "le_lib \<Rightarrow> byte list \<Rightarrow> (Group1Var2 \<times> byte list) option" where
  "Group1Var2_Read E = LE_read1 UInt8 (\<lambda>a. \<lparr>o_flags = a\<rparr>)"

definition Group1Var2_Write :: "le_lib \<Rightarrow> Group1Var2 \<Rightarrow> byte list" where
  "Group1Var2_Write E arg = c_put UInt8 (o_flags arg)"

definition Group1Var2_ReadTarget :: "le_lib \<Rightarrow> byte list \<Rightarrow> (Binary \<times> byte list) option" where
  "Group1Var2_ReadTarget E buff = map_option (\<lambda>(value, r). (BinaryFactory_From (o_flags value), r)) (Group1Var2_Read E buff)"

definition ConvertGroup1Var2 :: "le_lib \<Rightarrow> Binary \<Rightarrow> Group1Var2" where
  "ConvertGroup1Var2 E = ConvertQ"

definition Group1Var2_WriteTarget :: "le_lib \<Rightarrow> Binary \<Rightarrow> byte list" where
  "Group1Var2_WriteTarget E value = Group1Var2_Write E (ConvertGroup1Var2 E value)"

definition Group1Var2_Inst :: "le_lib \<Rightarrow> Binary DNP3Serializer" where
  "Group1Var2_Inst E =
     \<lparr>ser_id = \<lparr>id_group = 1, id_variation = 2\<rparr>, ser_size = Group1Var2_Size, ser_read = Group1Var2_ReadTarget E, ser_write = Group1Var2_WriteTarget E\<rparr>"

section \<open>Group2Var1\<close>

type_synonym Group2Var1 = "obj_Q"

definition Group2Var1_Read :: "le_lib \<Rightarrow> byte list \<Rightarrow> (Group2Var1 \<times> byte list) option" where
  "Group2Var1_Read E = LE_read1 UInt8 (\<lambda>a. \<lparr>o_flags = a\<rparr>)"

definition Group2Var1_Write :: "le_lib \<Rightarrow> Group2Var1 \<Rightarrow> byte list" where
  "Group2Var1_Write E arg = c_put UInt8 (o_flags arg)"

definition Group2Var1_ReadTarget :: "le_lib \<Rightarrow> byte list \<Rightarrow> (Binary \<times> byte list) option" where
  "Group2Var1_ReadTarget E buff = map_option (\<lambda>(value, r). (BinaryFactory_From (o_flags value), r)) (Group2Var1_Read E buff)"

definition ConvertGroup2Var1 :: "le_lib \<Rightarrow> Binary \<Rightarrow> Group2Var1" where
  "ConvertGroup2Var1 E = ConvertQ"

definition Group2Var1_WriteTarget :: "le_lib \<Rightarrow> Binary \<Rightarrow> byte list" where
  "Group2Var1_WriteTarget E value = Group2Var1_Write E (ConvertGroup2Var1 E value)"

definition Group2Var1_Inst :: "le_lib \<Rightarrow> Binary DNP3Serializer" where
  "Group2Var1_Inst E =
     \<lparr>ser_id = \<lparr>id_group = 2, id_variation = 1\<rparr>, ser_size = Group2Var1_Size, ser_read = Group2Var1_ReadTarget E, ser_write = Group2Var1_WriteTarget E\<rparr>"

section \<open>Group2Var2\<close>

type_synonym Group2Var2 = "obj_QT"

definition Group2Var2_Read :: "le_lib \<Rightarrow> byte list \<Rightarrow> (Group2Var2 \<times> byte list) option" where
  "Group2Var2_Read E = LE_read2 UInt8 (time_codec E) (\<lambda>a b. \<lparr>o_flags = a, qt_time = b\<rparr>)"

definition Group2Var2_Write :: "le_lib \<Rightarrow> Group2Var2 \<Rightarrow> byte list" where
  "Group2Var2_Write E arg = c_put UInt8 (o_flags arg) @ c_put (time_codec E) (qt_time arg)"

definition Group2Var2_ReadTarget :: "le_lib \<Rightarrow> byte list \<Rightarrow> (Binary \<times> byte list) option" where
  "Group2Var2_ReadTarget E buff = map_option (\<lambda>(value, r). (BinaryFactory_From_time (o_flags value) (qt_time value), r)) (Group2Var2_Read E buff)"

definition ConvertGroup2Var2 :: "le_lib \<Rightarrow> Binary \<Rightarrow> Group2Var2" where
  "ConvertGroup2Var2 E = ConvertQT"

definition Group2Var2_WriteTarget :: "le_lib \<Rightarrow> Binary \<Rightarrow> byte list" where
  "Group2Var2_WriteTarget E value = Group2Var2_Write E (ConvertGroup2Var2 E value)"

definition Group2Var2_Inst :: "le_lib \<Rightarrow> Binary DNP3Serializer" where
  "Group2Var2_Inst E =
     \<lparr>ser_id = \<lparr>id_group = 2, id_variation = 2\<rparr>, ser_size = Group2Var2_Size, ser_read = Group2Var2_ReadTarget E, ser_write = Group2Var2_WriteTarget E\<rparr>"

section \<open>Group2Var3\<close>

type_synonym Group2Var3 = "obj_QT16"

definition Group2Var3_Read :: "le_lib \<Rightarrow> byte list \<Rightarrow> (Group2Var3 \<times> byte list) option" where
  "Group2Var3_Read E = LE_read2 UInt8 (UInt16 (lib_u16 E)) (\<lambda>a b. \<lparr>o_flags = a, qt_time16 = b\<rparr>)"

definition Group2Var3_Write :: "le_lib \<Rightarrow> Group2Var3 \<Rightarrow> byte list" where
  "Group2Var3_Write E arg = c_put UInt8 (o_flags arg) @ c_put (UInt16 (lib_u16 E)) (qt_time16 arg)"

definition Group2Var3_ReadTarget :: "le_lib \<Rightarrow> byte list \<Rightarrow> (Binary \<times> byte list) option" where
  "Group2Var3_ReadTarget E buff = map_option (\<lambda>(value, r). (BinaryFactory_From_u16 (o_flags value) (qt_time16 value), r)) (Group2Var3_Read E buff)"

definition ConvertGroup2Var3 :: "le_lib \<Rightarrow> Binary \<Rightarrow> Group2Var3" where
  "ConvertGroup2Var3 E = ConvertQTDowncast"

definition Group2Var3_WriteTarget :: "le_lib \<Rightarrow> Binary \<Rightarrow> byte list" where
  "Group2Var3_WriteTarget E value = Group2Var3_Write E (ConvertGroup2Var3 E value)"

definition Group2Var3_Inst :: "le_lib \<Rightarrow> Binary DNP3Serializer" where
  "Group2Var3_Inst E =
     \<lparr>ser_id = \<lparr>id_group = 2, id_variation = 3\<rparr>, ser_size = Group2Var3_Size, ser_read = Group2Var3_ReadTarget E, ser_write = Group2Var3_WriteTarget E\<rparr>"

section \<open>Group3Var2\<close>

type_synonym Group3Var2 = "obj_Q"

definition Group3Var2_Read :: "le_lib \<Rightarrow> byte list \<Rightarrow> (Group3Var2 \<times> byte list) option" where
  "Group3Var2_Read E = LE_read1 UInt8 (\<lambda>a. \<lparr>o_flags = a\<rparr>)"

definition Group3Var2_Write :: "le_lib \<Rightarrow> Group3Var2 \<Rightarrow> byte list" where
  "Group3Var2_Write E arg = c_put UInt8 (o_flags arg)"

definition Group3Var2_ReadTarget :: "le_lib \<Rightarrow> byte list \<Rightarrow> (DoubleBitBinary \<times> byte list) option" where
  "Group3Var2_ReadTarget E buff = map_option (\<lambda>(value, r). (DoubleBitBinaryFactory_From (o_flags value), r)) (Group3Var2_Read E buff)"

definition ConvertGroup3Var2 :: "le_lib \<Rightarrow> DoubleBitBinary \<Rightarrow> Group3Var2" where
  "ConvertGroup3Var2 E = ConvertQ"

definition Group3Var2_WriteTarget :: "le_lib \<Rightarrow> DoubleBitBinary \<Rightarrow> byte list" where
  "Group3Var2_WriteTarget E value = Group3Var2_Write E (ConvertGroup3Var2 E value)"

definition Group3Var2_Inst :: "le_lib \<Rightarrow> DoubleBitBinary DNP3Serializer" where
  "Group3Var2_Inst E =
     \<lparr>ser_id = \<lparr>id_group = 3, id_variation = 2\<rparr>, ser_size = Group3Var2_Size, ser_read = Group3Var2_ReadTarget E, ser_write = Group3Var2_WriteTarget E\<rparr>"

section \<open>Group4Var1\<close>

type_synonym Group4Var1 = "obj_Q"

definition Group4Var1_Read :: "le_lib \<Rightarrow> byte list \<Rightarrow> (Group4Var1 \<times> byte list) option" where
  "Group4Var1_Read E = LE_read1 UInt8 (\<lambda>a. \<lparr>o_flags = a\<rparr>)"

definition Group4Var1_Write :: "le_lib \<Rightarrow> Group4Var1 \<Rightarrow> byte list" where
  "Group4Var1_Write E arg = c_put UInt8 (o_flags arg)"

definition Group4Var1_ReadTarget :: "le_lib \<Rightarrow> byte list \<Rightarrow> (DoubleBitBinary \<times> byte list) option" where
  "Group4Var1_ReadTarget E buff = map_option (\<lambda>(value, r). (DoubleBitBinaryFactory_From (o_flags value), r)) (Group4Var1_Read E buff)"

definition ConvertGroup4Var1 :: "le_lib \<Rightarrow> DoubleBitBinary \<Rightarrow> Group4Var1" where
  "ConvertGroup4Var1 E = ConvertQ"

definition Group4Var1_WriteTarget :: "le_lib \<Rightarrow> DoubleBitBinary \<Rightarrow> byte list" where
  "Group4Var1_WriteTarget E value = Group4Var1_Write E (ConvertGroup4Var1 E value)"

definition Group4Var1_Inst :: "le_lib \<Rightarrow> DoubleBitBinary DNP3Serializer" where
  "Group4Var1_Inst E =
     \<lparr>ser_id = \<lparr>id_group = 4, id_variation = 1\<rparr>, ser_size = Group4Var1_Size, ser_read = Group4Var1_ReadTarget E, ser_write = Group4Var1_WriteTarget E\<rparr>"

section \<open>Group4Var2\<close>

type_synonym Group4Var2 = "obj_QT"

definition Group4Var2_Read :: "le_lib \<Rightarrow> byte list \<Rightarrow> (Group4Var2 \<times> byte list) option" where
  "Group4Var2_Read E = LE_read2 UInt8 (time_codec E) (\<lambda>a b. \<lparr>o_flags = a, qt_time = b\<rparr>)"

definition Group4Var2_Write :: "le_lib \<Rightarrow> Group4Var2 \<Rightarrow> byte list" where
  "Group4Var2_Write E arg = c_put UInt8 (o_flags arg) @ c_put (time_codec E) (qt_time arg)"

definition Group4Var2_ReadTarget :: "le_lib \<Rightarrow> byte list \<Rightarrow> (DoubleBitBinary \<times> byte list) option" where
  "Group4Var2_ReadTarget E buff = map_option (\<lambda>(value, r). (DoubleBitBinaryFactory_From_time (o_flags value) (qt_time value), r)) (Group4Var2_Read E buff)"

definition ConvertGroup4Var2 :: "le_lib \<Rightarrow> DoubleBitBinary \<Rightarrow> Group4Var2" where
  "ConvertGroup4Var2 E = ConvertQT"

definition Group4Var2_WriteTarget :: "le_lib \<Rightarrow> DoubleBitBinary \<Rightarrow> byte list" where
  "Group4Var2_WriteTarget E value = Group4Var2_Write E (ConvertGroup4Var2 E value)"

definition Group4Var2_Inst :: "le_lib \<Rightarrow> DoubleBitBinary DNP3Serializer" where
  "Group4Var2_Inst E =
     \<lparr>ser_id = \<lparr>id_group = 4, id_variation = 2\<rparr>, ser_size = Group4Var2_Size, ser_read = Group4Var2_ReadTarget E, ser_write = Group4Var2_WriteTarget E\<rparr>"

section \<open>Group4Var3\<close>

type_synonym Group4Var3 = "obj_QT16"

definition Group4Var3_Read :: "le_lib \<Rightarrow> byte list \<Rightarrow> (Group4Var3 \<times> byte list) option" where
  "Group4Var3_Read E = LE_read2 UInt8 (UInt16 (lib_u16 E)) (\<lambda>a b. \<lparr>o_flags = a, qt_time16 = b\<rparr>)"

definition Group4Var3_Write :: "le_lib \<Rightarrow> Group4Var3 \<Rightarrow> byte list" where
  "Group4Var3_Write E arg = c_put UInt8 (o_flags arg) @ c_put (UInt16 (lib_u16 E)) (qt_time16 arg)"

definition Group4Var3_ReadTarget :: "le_lib \<Rightarrow> byte list \<Rightarrow> (DoubleBitBinary \<times> byte list) option" where
  "Group4Var3_ReadTarget E buff = map_option (\<lambda>(value, r). (DoubleBitBinaryFactory_From_u16 (o_flags value) (qt_time16 value), r)) (Group4Var3_Read E buff)"

definition ConvertGroup4Var3 :: "le_lib \<Rightarrow> DoubleBitBinary \<Rightarrow> Group4Var3" where
  "ConvertGroup4Var3 E = ConvertQTDowncast"

definition Group4Var3_WriteTarget :: "le_lib \<Rightarrow> DoubleBitBinary \<Rightarrow> byte list" where
  "Group4Var3_WriteTarget E value = Group4Var3_Write E (ConvertGroup4Var3 E value)"

definition Group4Var3_Inst :: "le_lib \<Rightarrow> DoubleBitBinary DNP3Serializer" where
  "Group4Var3_Inst E =
     \<lparr>ser_id = \<lparr>id_group = 4, id_variation = 3\<rparr>, ser_size = Group4Var3_Size, ser_read = Group4Var3_ReadTarget E, ser_write = Group4Var3_WriteTarget E\<rparr>"

section \<open>Group10Var2\<close>

type_synonym Group10Var2 = "obj_Q"

definition Group10Var2_Read :: "le_lib \<Rightarrow> byte list \<Rightarrow> (Group10Var2 \<times> byte list) option" where
  "Group10Var2_Read E = LE_read1 UInt8 (\<lambda>a. \<lparr>o_flags = a\<rparr>)"

definition Group10Var2_Write :: "le_lib \<Rightarrow> Group10Var2 \<Rightarrow> byte list" where
  "Group10Var2_Write E arg = c_put UInt8 (o_flags arg)"

definition Group10Var2_ReadTarget :: "le_lib \<Rightarrow> byte list \<Rightarrow> (BinaryOutputStatus \<times> byte list) option" where
  "Group10Var2_ReadTarget E buff = map_option (\<lambda>(value, r). (BinaryOutputStatusFactory_From (o_flags value), r)) (Group10Var2_Read E buff)"

definition ConvertGroup10Var2 :: "le_lib \<Rightarrow> BinaryOutputStatus \<Rightarrow> Group10Var2" where
  "ConvertGroup10Var2 E = ConvertQ"

definition Group10Var2_WriteTarget :: "le_lib \<Rightarrow> BinaryOutputStatus \<Rightarrow> byte list" where
  "Group10Var2_WriteTarget E value = Group10Var2_Write E (ConvertGroup10Var2 E value)"

definition Group10Var2_Inst :: "le_lib \<Rightarrow> BinaryOutputStatus DNP3Serializer" where
  "Group10Var2_Inst E =
     \<lparr>ser_id = \<lparr>id_group = 10, id_variation = 2\<rparr>, ser_size = Group10Var2_Size, ser_read = Group10Var2_ReadTarget E, ser_write = Group10Var2_WriteTarget E\<rparr>"

section \<open>Group11Var1\<close>

type_synonym Group11Var1 = "obj_Q"

definition Group11Var1_Read :: "le_lib \<Rightarrow> byte list \<Rightarrow> (Group11Var1 \<times> byte list) option" where
  "Group11Var1_Read E = LE_read1 UInt8 (\<lambda>a. \<lparr>o_flags = a\<rparr>)"

definition Group11Var1_Write :: "le_lib \<Rightarrow> Group11Var1 \<Rightarrow> byte list" where
  "Group11Var1_Write E arg = c_put UInt8 (o_flags arg)"

definition Group11Var1_ReadTarget :: "le_lib \<Rightarrow> byte list \<Rightarrow> (BinaryOutputStatus \<times> byte list) option" where
  "Group11Var1_ReadTarget E buff = map_option (\<lambda>(value, r). (BinaryOutputStatusFactory_From (o_flags value), r)) (Group11Var1_Read E buff)"

definition ConvertGroup11Var1 :: "le_lib \<Rightarrow> BinaryOutputStatus \<Rightarrow> Group11Var1" where
  "ConvertGroup11Var1 E = ConvertQ"

definition Group11Var1_WriteTarget :: "le_lib \<Rightarrow> BinaryOutputStatus \<Rightarrow> byte list" where
  "Group11Var1_WriteTarget E value = Group11Var1_Write E (ConvertGroup11Var1 E value)"

definition Group11Var1_Inst :: "le_lib \<Rightarrow> BinaryOutputStatus DNP3Serializer" where
  "Group11Var1_Inst E =
     \<lparr>ser_id = \<lparr>id_group = 11, id_variation = 1\<rparr>, ser_size = Group11Var1_Size, ser_read = Group11Var1_ReadTarget E, ser_write = Group11Var1_WriteTarget E\<rparr>"

section \<open>Group11Var2\<close>

type_synonym Group11Var2 = "obj_QT"

definition Group11Var2_Read :: "le_lib \<Rightarrow> byte list \<Rightarrow> (Group11Var2 \<times> byte list) option" where
  "Group11Var2_Read E = LE_read2 UInt8 (time_codec E) (\<lambda>a b. \<lparr>o_flags = a, qt_time = b\<rparr>)"

definition Group11Var2_Write :: "le_lib \<Rightarrow> Group11Var2 \<Rightarrow> byte list" where
  "Group11Var2_Write E arg = c_put UInt8 (o_flags arg) @ c_put (time_codec E) (qt_time arg)"

definition Group11Var2_ReadTarget :: "le_lib \<Rightarrow> byte list \<Rightarrow> (BinaryOutputStatus \<times> byte list) option" where
  "Group11Var2_ReadTarget E buff = map_option (\<lambda>(value, r). (BinaryOutputStatusFactory_From_time (o_flags value) (qt_time value), r)) (Group11Var2_Read E buff)"

definition ConvertGroup11Var2 :: "le_lib \<Rightarrow> BinaryOutputStatus \<Rightarrow> Group11Var2" where
  "ConvertGroup11Var2 E = ConvertQT"

definition Group11Var2_WriteTarget :: "le_lib \<Rightarrow> BinaryOutputStatus \<Rightarrow> byte list" where
  "Group11Var2_WriteTarget E value = Group11Var2_Write E (ConvertGroup11Var2 E value)"

definition Group11Var2_Inst :: "le_lib \<Rightarrow> BinaryOutputStatus DNP3Serializer" where
  "Group11Var2_Inst E =
     \<lparr>ser_id = \<lparr>id_group = 11, id_variation = 2\<rparr>, ser_size = Group11Var2_Size, ser_read = Group11Var2_ReadTarget E, ser_write = Group11Var2_WriteTarget E\<rparr>"

section \<open>Group12Var1\<close>

type_synonym Group12Var1 = "obj_CROB"

definition Group12Var1_Read :: "le_lib \<Rightarrow> byte list \<Rightarrow> (Group12Var1 \<times> byte list) option" where
  "Group12Var1_Read E = LE_read5 UInt8 UInt8 (lib_u32 E) (lib_u32 E) UInt8 (\<lambda>a b c d e. \<lparr>cb_code = a, cb_count = b, cb_onTime = c, cb_offTime = d, cb_status = e\<rparr>)"

definition Group12Var1_Write :: "le_lib \<Rightarrow> Group12Var1 \<Rightarrow> byte list" where
  "Group12Var1_Write E arg = c_put UInt8 (cb_code arg) @ c_put UInt8 (cb_count arg) @ c_put (lib_u32 E) (cb_onTime arg) @ c_put (lib_u32 E) (cb_offTime arg) @ c_put UInt8 (cb_status arg)"

definition Group12Var1_ReadTarget :: "le_lib \<Rightarrow> byte list \<Rightarrow> (ControlRelayOutputBlock \<times> byte list) option" where
  "Group12Var1_ReadTarget E buff =
     Option.bind (Group12Var1_Read E buff) (\<lambda>(value, r). map_option (\<lambda>output. (output, r))
       (ControlRelayOutputBlockFactory_From (cb_code value) (cb_count value) (cb_onTime value) (cb_offTime value) (cb_status value)))"

definition ConvertGroup12Var1 :: "le_lib \<Rightarrow> ControlRelayOutputBlock \<Rightarrow> Group12Var1" where
  "ConvertGroup12Var1 E src = \<lparr>cb_code = rawCode src, cb_count = crob_count src, cb_onTime = onTimeMS src, cb_offTime = offTimeMS src, cb_status = CommandStatus_to_type (crob_status src)\<rparr>"

definition Group12Var1_WriteTarget :: "le_lib \<Rightarrow> ControlRelayOutputBlock \<Rightarrow> byte list" where
  "Group12Var1_WriteTarget E value = Group12Var1_Write E (ConvertGroup12Var1 E value)"

definition Group12Var1_Inst :: "le_lib \<Rightarrow> ControlRelayOutputBlock DNP3Serializer" where
  "Group12Var1_Inst E =
     \<lparr>ser_id = \<lparr>id_group = 12, id_variation = 1\<rparr>, ser_size = Group12Var1_Size, ser_read = Group12Var1_ReadTarget E, ser_write = Group12Var1_WriteTarget E\<rparr>"

section \<open>Group13Var1\<close>

type_synonym Group13Var1 = "obj_Q"

definition Group13Var1_Read :: "le_lib \<Rightarrow> byte list \<Rightarrow> (Group13Var1 \<times> byte list) option" where
  "Group13Var1_Read E = LE_read1 UInt8 (\<lambda>a. \<lparr>o_flags = a\<rparr>)"

definition Group13Var1_Write :: "le_lib \<Rightarrow> Group13Var1 \<Rightarrow> byte list" where
  "Group13Var1_Write E arg = c_put UInt8 (o_flags arg)"

definition Group13Var1_ReadTarget :: "le_lib \<Rightarrow> byte list \<Rightarrow> (BinaryCommandEvent \<times> byte list) option" where
  "Group13Var1_ReadTarget E buff = map_option (\<lambda>(value, r). (BinaryCommandEventFactory_From (o_flags value), r)) (Group13Var1_Read E buff)"

definition ConvertGroup13Var1 :: "le_lib \<Rightarrow> BinaryCommandEvent \<Rightarrow> Group13Var1" where
  "ConvertGroup13Var1 E src = \<lparr>o_flags = BinaryCommandEvent_GetFlags src\<rparr>"

definition Group13Var1_WriteTarget :: "le_lib \<Rightarrow> BinaryCommandEvent \<Rightarrow> byte list" where
  "Group13Var1_WriteTarget E value = Group13Var1_Write E (ConvertGroup13Var1 E value)"

definition Group13Var1_Inst :: "le_lib \<Rightarrow> BinaryCommandEvent DNP3Serializer" where
  "Group13Var1_Inst E =
     \<lparr>ser_id = \<lparr>id_group = 13, id_variation = 1\<rparr>, ser_size = Group13Var1_Size, ser_read = Group13Var1_ReadTarget E, ser_write = Group13Var1_WriteTarget E\<rparr>"

section \<open>Group13Var2\<close>

type_synonym Group13Var2 = "obj_QT"

definition Group13Var2_Read :: "le_lib \<Rightarrow> byte list \<Rightarrow> (Group13Var2 \<times> byte list) option" where
  "Group13Var2_Read E = LE_read2 UInt8 (time_codec E) (\<lambda>a b. \<lparr>o_flags = a, qt_time = b\<rparr>)"

definition Group13Var2_Write :: "le_lib \<Rightarrow> Group13Var2 \<Rightarrow> byte list" where
  "Group13Var2_Write E arg = c_put UInt8 (o_flags arg) @ c_put (time_codec E) (qt_time arg)"

definition Group13Var2_ReadTarget :: "le_lib \<Rightarrow> byte list \<Rightarrow> (BinaryCommandEvent \<times> byte list) option" where
  "Group13Var2_ReadTarget E buff = map_option (\<lambda>(value, r). (BinaryCommandEventFactory_From_time (o_flags value) (qt_time value), r)) (Group13Var2_Read E buff)"

definition ConvertGroup13Var2 :: "le_lib \<Rightarrow> BinaryCommandEvent \<Rightarrow> Group13Var2" where
  "ConvertGroup13Var2 E src = \<lparr>o_flags = BinaryCommandEvent_GetFlags src, qt_time = bce_time src\<rparr>"

definition Group13Var2_WriteTarget :: "le_lib \<Rightarrow> BinaryCommandEvent \<Rightarrow> byte list" where
  "Group13Var2_WriteTarget E value = Group13Var2_Write E (ConvertGroup13Var2 E value)"

definition Group13Var2_Inst :: "le_lib \<Rightarrow> BinaryCommandEvent DNP3Serializer" where
  "Group13Var2_Inst E =
     \<lparr>ser_id = \<lparr>id_group = 13, id_variation = 2\<rparr>, ser_size = Group13Var2_Size, ser_read = Group13Var2_ReadTarget E, ser_write = Group13Var2_WriteTarget E\<rparr>"

section \<open>Group20Var1\<close>

type_synonym Group20Var1 = "u32 obj_QV"

definition Group20Var1_Read :: "le_lib \<Rightarrow> byte list \<Rightarrow> (Group20Var1 \<times> byte list) option" where
  "Group20Var1_Read E = LE_read2 UInt8 (lib_u32 E) (\<lambda>a b. \<lparr>o_flags = a, qv_value = b\<rparr>)"

definition Group20Var1_Write :: "le_lib \<Rightarrow> Group20Var1 \<Rightarrow> byte list" where
  "Group20Var1_Write E arg = c_put UInt8 (o_flags arg) @ c_put (lib_u32 E) (qv_value arg)"

definition Group20Var1_ReadTarget :: "le_lib \<Rightarrow> byte list \<Rightarrow> (Counter \<times> byte list) option" where
  "Group20Var1_ReadTarget E buff = map_option (\<lambda>(value, r). (CounterFactory_From (o_flags value) (qv_value value), r)) (Group20Var1_Read E buff)"

definition ConvertGroup20Var1 :: "le_lib \<Rightarrow> Counter \<Rightarrow> Group20Var1" where
  "ConvertGroup20Var1 E = ConvertQV"

definition Group20Var1_WriteTarget :: "le_lib \<Rightarrow> Counter \<Rightarrow> byte list" where
  "Group20Var1_WriteTarget E value = Group20Var1_Write E (ConvertGroup20Var1 E value)"

definition Group20Var1_Inst :: "le_lib \<Rightarrow> Counter DNP3Serializer" where
  "Group20Var1_Inst E =
     \<lparr>ser_id = \<lparr>id_group = 20, id_variation = 1\<rparr>, ser_size = Group20Var1_Size, ser_read = Group20Var1_ReadTarget E, ser_write = Group20Var1_WriteTarget E\<rparr>"

section \<open>Group20Var2\<close>

type_synonym Group20Var2 = "u16 obj_QV"

definition Group20Var2_Read :: "le_lib \<Rightarrow> byte list \<Rightarrow> (Group20Var2 \<times> byte list) option" where
  "Group20Var2_Read E = LE_read2 UInt8 (UInt16 (lib_u16 E)) (\<lambda>a b. \<lparr>o_flags = a, qv_value = b\<rparr>)"

definition Group20Var2_Write :: "le_lib \<Rightarrow> Group20Var2 \<Rightarrow> byte list" where
  "Group20Var2_Write E arg = c_put UInt8 (o_flags arg) @ c_put (UInt16 (lib_u16 E)) (qv_value arg)"

definition Group20Var2_ReadTarget :: "le_lib \<Rightarrow> byte list \<Rightarrow> (Counter \<times> byte list) option" where
  "Group20Var2_ReadTarget E buff = map_option (\<lambda>(value, r). (CounterFactory_From (o_flags value) (ucast (qv_value value)), r)) (Group20Var2_Read E buff)"

definition ConvertGroup20Var2 :: "le_lib \<Rightarrow> Counter \<Rightarrow> Group20Var2" where
  "ConvertGroup20Var2 E = ConvertQVandTruncate"

definition Group20Var2_WriteTarget :: "le_lib \<Rightarrow> Counter \<Rightarrow> byte list" where
  "Group20Var2_WriteTarget E value = Group20Var2_Write E (ConvertGroup20Var2 E value)"

definition Group20Var2_Inst :: "le_lib \<Rightarrow> Counter DNP3Serializer" where
  "Group20Var2_Inst E =
     \<lparr>ser_id = \<lparr>id_group = 20, id_variation = 2\<rparr>, ser_size = Group20Var2_Size, ser_read = Group20Var2_ReadTarget E, ser_write = Group20Var2_WriteTarget E\<rparr>"

section \<open>Group20Var5\<close>

type_synonym Group20Var5 = "u32 obj_V"

definition Group20Var5_Read :: "le_lib \<Rightarrow> byte list \<Rightarrow> (Group20Var5 \<times> byte list) option" where
  "Group20Var5_Read E = LE_read1 (lib_u32 E) (\<lambda>a. \<lparr>o_value = a\<rparr>)"

definition Group20Var5_Write :: "le_lib \<Rightarrow> Group20Var5 \<Rightarrow> byte list" where
  "Group20Var5_Write E arg = c_put (lib_u32 E) (o_value arg)"

definition Group20Var5_ReadTarget :: "le_lib \<Rightarrow> byte list \<Rightarrow> (Counter \<times> byte list) option" where
  "Group20Var5_ReadTarget E buff = map_option (\<lambda>(value, r). (CounterFactory_From_count (o_value value), r)) (Group20Var5_Read E buff)"

definition ConvertGroup20Var5 :: "le_lib \<Rightarrow> Counter \<Rightarrow> Group20Var5" where
  "ConvertGroup20Var5 E = ConvertV"

definition Group20Var5_WriteTarget :: "le_lib \<Rightarrow> Counter \<Rightarrow> byte list" where
  "Group20Var5_WriteTarget E value = Group20Var5_Write E (ConvertGroup20Var5 E value)"

definition Group20Var5_Inst :: "le_lib \<Rightarrow> Counter DNP3Serializer" where
  "Group20Var5_Inst E =
     \<lparr>ser_id = \<lparr>id_group = 20, id_variation = 5\<rparr>, ser_size = Group20Var5_Size, ser_read = Group20Var5_ReadTarget E, ser_write = Group20Var5_WriteTarget E\<rparr>"

section \<open>Group20Var6\<close>

type_synonym Group20Var6 = "u16 obj_V"

definition Group20Var6_Read :: "le_lib \<Rightarrow> byte list \<Rightarrow> (Group20Var6 \<times> byte list) option" where
  "Group20Var6_Read E = LE_read1 (UInt16 (lib_u16 E)) (\<lambda>a. \<lparr>o_value = a\<rparr>)"

definition Group20Var6_Write :: "le_lib \<Rightarrow> Group20Var6 \<Rightarrow> byte list" where
  "Group20Var6_Write E arg = c_put (UInt16 (lib_u16 E)) (o_value arg)"

definition Group20Var6_ReadTarget :: "le_lib \<Rightarrow> byte list \<Rightarrow> (Counter \<times> byte list) option" where
  "Group20Var6_ReadTarget E buff = map_option (\<lambda>(value, r). (CounterFactory_From_count (ucast (o_value value)), r)) (Group20Var6_Read E buff)"

definition ConvertGroup20Var6 :: "le_lib \<Rightarrow> Counter \<Rightarrow> Group20Var6" where
  "ConvertGroup20Var6 E = ConvertVandTruncate"

definition Group20Var6_WriteTarget :: "le_lib \<Rightarrow> Counter \<Rightarrow> byte list" where
  "Group20Var6_WriteTarget E value = Group20Var6_Write E (ConvertGroup20Var6 E value)"

definition Group20Var6_Inst :: "le_lib \<Rightarrow> Counter DNP3Serializer" where
  "Group20Var6_Inst E =
     \<lparr>ser_id = \<lparr>id_group = 20, id_variation = 6\<rparr>, ser_size = Group20Var6_Size, ser_read = Group20Var6_ReadTarget E, ser_write = Group20Var6_WriteTarget E\<rparr>"

section \<open>Group21Var1\<close>

type_synonym Group21Var1 = "u32 obj_QV"

definition Group21Var1_Read :: "le_lib \<Rightarrow> byte list \<Rightarrow> (Group21Var1 \<times> byte list) option" where
  "Group21Var1_Read E = LE_read2 UInt8 (lib_u32 E) (\<lambda>a b. \<lparr>o_flags = a, qv_value = b\<rparr>)"

definition Group21Var1_Write :: "le_lib \<Rightarrow> Group21Var1 \<Rightarrow> byte list" where
  "Group21Var1_Write E arg = c_put UInt8 (o_flags arg) @ c_put (lib_u32 E) (qv_value arg)"

definition Group21Var1_ReadTarget :: "le_lib \<Rightarrow> byte list \<Rightarrow> (FrozenCounter \<times> byte list) option" where
  "Group21Var1_ReadTarget E buff = map_option (\<lambda>(value, r). (FrozenCounterFactory_From (o_flags value) (qv_value value), r)) (Group21Var1_Read E buff)"

definition ConvertGroup21Var1 :: "le_lib \<Rightarrow> FrozenCounter \<Rightarrow> Group21Var1" where
  "ConvertGroup21Var1 E = ConvertQV"

definition Group21Var1_WriteTarget :: "le_lib \<Rightarrow> FrozenCounter \<Rightarrow> byte list" where
  "Group21Var1_WriteTarget E value = Group21Var1_Write E (ConvertGroup21Var1 E value)"

definition Group21Var1_Inst :: "le_lib \<Rightarrow> FrozenCounter DNP3Serializer" where
  "Group21Var1_Inst E =
     \<lparr>ser_id = \<lparr>id_group = 21, id_variation = 1\<rparr>, ser_size = Group21Var1_Size, ser_read = Group21Var1_ReadTarget E, ser_write = Group21Var1_WriteTarget E\<rparr>"

section \<open>Group21Var2\<close>

type_synonym Group21Var2 = "u16 obj_QV"

definition Group21Var2_Read :: "le_lib \<Rightarrow> byte list \<Rightarrow> (Group21Var2 \<times> byte list) option" where
  "Group21Var2_Read E = LE_read2 UInt8 (UInt16 (lib_u16 E)) (\<lambda>a b. \<lparr>o_flags = a, qv_value = b\<rparr>)"

definition Group21Var2_Write :: "le_lib \<Rightarrow> Group21Var2 \<Rightarrow> byte list" where
  "Group21Var2_Write E arg = c_put UInt8 (o_flags arg) @ c_put (UInt16 (lib_u16 E)) (qv_value arg)"

definition Group21Var2_ReadTarget :: "le_lib \<Rightarrow> byte list \<Rightarrow> (FrozenCounter \<times> byte list) option" where
  "Group21Var2_ReadTarget E buff = map_option (\<lambda>(value, r). (FrozenCounterFactory_From (o_flags value) (ucast (qv_value value)), r)) (Group21Var2_Read E buff)"

definition ConvertGroup21Var2 :: "le_lib \<Rightarrow> FrozenCounter \<Rightarrow> Group21Var2" where
  "ConvertGroup21Var2 E = ConvertQVandTruncate"

definition Group21Var2_WriteTarget :: "le_lib \<Rightarrow> FrozenCounter \<Rightarrow> byte list" where
  "Group21Var2_WriteTarget E value = Group21Var2_Write E (ConvertGroup21Var2 E value)"

definition Group21Var2_Inst :: "le_lib \<Rightarrow> FrozenCounter DNP3Serializer" where
  "Group21Var2_Inst E =
     \<lparr>ser_id = \<lparr>id_group = 21, id_variation = 2\<rparr>, ser_size = Group21Var2_Size, ser_read = Group21Var2_ReadTarget E, ser_write = Group21Var2_WriteTarget E\<rparr>"

section \<open>Group21Var5\<close>

type_synonym Group21Var5 = "u32 obj_QVT"

definition Group21Var5_Read :: "le_lib \<Rightarrow> byte list \<Rightarrow> (Group21Var5 \<times> byte list) option" where
  "Group21Var5_Read E = LE_read3 UInt8 (lib_u32 E) (time_codec E) (\<lambda>a b c. \<lparr>o_flags = a, qv_value = b, qvt_time = c\<rparr>)"

definition Group21Var5_Write :: "le_lib \<Rightarrow> Group21Var5 \<Rightarrow> byte list" where
  "Group21Var5_Write E arg = c_put UInt8 (o_flags arg) @ c_put (lib_u32 E) (qv_value arg) @ c_put (time_codec E) (qvt_time arg)"

definition Group21Var5_ReadTarget :: "le_lib \<Rightarrow> byte list \<Rightarrow> (FrozenCounter \<times> byte list) option" where
  "Group21Var5_ReadTarget E buff = map_option (\<lambda>(value, r). (FrozenCounterFactory_From_time (o_flags value) (qv_value value) (qvt_time value), r)) (Group21Var5_Read E buff)"

definition ConvertGroup21Var5 :: "le_lib \<Rightarrow> FrozenCounter \<Rightarrow> Group21Var5" where
  "ConvertGroup21Var5 E = ConvertQVT"

definition Group21Var5_WriteTarget :: "le_lib \<Rightarrow> FrozenCounter \<Rightarrow> byte list" where
  "Group21Var5_WriteTarget E value = Group21Var5_Write E (ConvertGroup21Var5 E value)"

definition Group21Var5_Inst :: "le_lib \<Rightarrow> FrozenCounter DNP3Serializer" where
  "Group21Var5_Inst E =
     \<lparr>ser_id = \<lparr>id_group = 21, id_variation = 5\<rparr>, ser_size = Group21Var5_Size, ser_read = Group21Var5_ReadTarget E, ser_write = Group21Var5_WriteTarget E\<rparr>"

section \<open>Group21Var6\<close>

type_synonym Group21Var6 = "u16 obj_QVT"

definition Group21Var6_Read :: "le_lib \<Rightarrow> byte list \<Rightarrow> (Group21Var6 \<times> byte list) option" where
  "Group21Var6_Read E = LE_read3 UInt8 (UInt16 (lib_u16 E)) (time_codec E) (\<lambda>a b c. \<lparr>o_flags = a, qv_value = b, qvt_time = c\<rparr>)"

definition Group21Var6_Write :: "le_lib \<Rightarrow> Group21Var6 \<Rightarrow> byte list" where
  "Group21Var6_Write E arg = c_put UInt8 (o_flags arg) @ c_put (UInt16 (lib_u16 E)) (qv_value arg) @ c_put (time_codec E) (qvt_time arg)"

definition Group21Var6_ReadTarget :: "le_lib \<Rightarrow> byte list \<Rightarrow> (FrozenCounter \<times> byte list) option" where
  "Group21Var6_ReadTarget E buff = map_option (\<lambda>(value, r). (FrozenCounterFactory_From_time (o_flags value) (ucast (qv_value value)) (qvt_time value), r)) (Group21Var6_Read E buff)"

definition ConvertGroup21Var6 :: "le_lib \<Rightarrow> FrozenCounter \<Rightarrow> Group21Var6" where
  "ConvertGroup21Var6 E = ConvertQVTandTruncate"

definition Group21Var6_WriteTarget :: "le_lib \<Rightarrow> FrozenCounter \<Rightarrow> byte list" where
  "Group21Var6_WriteTarget E value = Group21Var6_Write E (ConvertGroup21Var6 E value)"

definition Group21Var6_Inst :: "le_lib \<Rightarrow> FrozenCounter DNP3Serializer" where
  "Group21Var6_Inst E =
     \<lparr>ser_id = \<lparr>id_group = 21, id_variation = 6\<rparr>, ser_size = Group21Var6_Size, ser_read = Group21Var6_ReadTarget E, ser_write = Group21Var6_WriteTarget E\<rparr>"

section \<open>Group21Var9\<close>

type_synonym Group21Var9 = "u32 obj_V"

definition Group21Var9_Read :: "le_lib \<Rightarrow> byte list \<Rightarrow> (Group21Var9 \<times> byte list) option" where
  "Group21Var9_Read E = LE_read1 (lib_u32 E) (\<lambda>a. \<lparr>o_value = a\<rparr>)"

definition Group21Var9_Write :: "le_lib \<Rightarrow> Group21Var9 \<Rightarrow> byte list" where
  "Group21Var9_Write E arg = c_put (lib_u32 E) (o_value arg)"

definition Group21Var9_ReadTarget :: "le_lib \<Rightarrow> byte list \<Rightarrow> (FrozenCounter \<times> byte list) option" where
  "Group21Var9_ReadTarget E buff = map_option (\<lambda>(value, r). (FrozenCounterFactory_From_count (o_value value), r)) (Group21Var9_Read E buff)"

definition ConvertGroup21Var9 :: "le_lib \<Rightarrow> FrozenCounter \<Rightarrow> Group21Var9" where
  "ConvertGroup21Var9 E = ConvertV"

definition Group21Var9_WriteTarget :: "le_lib \<Rightarrow> FrozenCounter \<Rightarrow> byte list" where
  "Group21Var9_WriteTarget E value = Group21Var9_Write E (ConvertGroup21Var9 E value)"

definition Group21Var9_Inst :: "le_lib \<Rightarrow> FrozenCounter DNP3Serializer" where
  "Group21Var9_Inst E =
     \<lparr>ser_id = \<lparr>id_group = 21, id_variation = 9\<rparr>, ser_size = Group21Var9_Size, ser_read = Group21Var9_ReadTarget E, ser_write = Group21Var9_WriteTarget E\<rparr>"

section \<open>Group21Var10\<close>

type_synonym Group21Var10 = "u16 obj_V"

definition Group21Var10_Read :: "le_lib \<Rightarrow> byte list \<Rightarrow> (Group21Var10 \<times> byte list) option" where
  "Group21Var10_Read E = LE_read1 (UInt16 (lib_u16 E)) (\<lambda>a. \<lparr>o_value = a\<rparr>)"

definition Group21Var10_Write :: "le_lib \<Rightarrow> Group21Var10 \<Rightarrow> byte list" where
  "Group21Var10_Write E arg = c_put (UInt16 (lib_u16 E)) (o_value arg)"

definition Group21Var10_ReadTarget :: "le_lib \<Rightarrow> byte list \<Rightarrow> (FrozenCounter \<times> byte list) option" where
  "Group21Var10_ReadTarget E buff = map_option (\<lambda>(value, r). (FrozenCounterFactory_From_count (ucast (o_value value)), r)) (Group21Var10_Read E buff)"

definition ConvertGroup21Var10 :: "le_lib \<Rightarrow> FrozenCounter \<Rightarrow> Group21Var10" where
  "ConvertGroup21Var10 E = ConvertVandTruncate"

definition Group21Var10_WriteTarget :: "le_lib \<Rightarrow> FrozenCounter \<Rightarrow> byte list" where
  "Group21Var10_WriteTarget E value = Group21Var10_Write E (ConvertGroup21Var10 E value)"

definition Group21Var10_Inst :: "le_lib \<Rightarrow> FrozenCounter DNP3Serializer" where
  "Group21Var10_Inst E =
     \<lparr>ser_id = \<lparr>id_group = 21, id_variation = 10\<rparr>, ser_size = Group21Var10_Size, ser_read = Group21Var10_ReadTarget E, ser_write = Group21Var10_WriteTarget E\<rparr>"

section \<open>Group22Var1\<close>

type_synonym Group22Var1 = "u32 obj_QV"

definition Group22Var1_Read :: "le_lib \<Rightarrow> byte list \<Rightarrow> (Group22Var1 \<times> byte list) option" where
  "Group22Var1_Read E = LE_read2 UInt8 (lib_u32 E) (\<lambda>a b. \<lparr>o_flags = a, qv_value = b\<rparr>)"

definition Group22Var1_Write :: "le_lib \<Rightarrow> Group22Var1 \<Rightarrow> byte list" where
  "Group22Var1_Write E arg = c_put UInt8 (o_flags arg) @ c_put (lib_u32 E) (qv_value arg)"

definition Group22Var1_ReadTarget :: "le_lib \<Rightarrow> byte list \<Rightarrow> (Counter \<times> byte list) option" where
  "Group22Var1_ReadTarget E buff = map_option (\<lambda>(value, r). (CounterFactory_From (o_flags value) (qv_value value), r)) (Group22Var1_Read E buff)"

definition ConvertGroup22Var1 :: "le_lib \<Rightarrow> Counter \<Rightarrow> Group22Var1" where
  "ConvertGroup22Var1 E = ConvertQV"

definition Group22Var1_WriteTarget :: "le_lib \<Rightarrow> Counter \<Rightarrow> byte list" where
  "Group22Var1_WriteTarget E value = Group22Var1_Write E (ConvertGroup22Var1 E value)"

definition Group22Var1_Inst :: "le_lib \<Rightarrow> Counter DNP3Serializer" where
  "Group22Var1_Inst E =
     \<lparr>ser_id = \<lparr>id_group = 22, id_variation = 1\<rparr>, ser_size = Group22Var1_Size, ser_read = Group22Var1_ReadTarget E, ser_write = Group22Var1_WriteTarget E\<rparr>"

section \<open>Group22Var2\<close>

type_synonym Group22Var2 = "u16 obj_QV"

definition Group22Var2_Read :: "le_lib \<Rightarrow> byte list \<Rightarrow> (Group22Var2 \<times> byte list) option" where
  "Group22Var2_Read E = LE_read2 UInt8 (UInt16 (lib_u16 E)) (\<lambda>a b. \<lparr>o_flags = a, qv_value = b\<rparr>)"

definition Group22Var2_Write :: "le_lib \<Rightarrow> Group22Var2 \<Rightarrow> byte list" where
  "Group22Var2_Write E arg = c_put UInt8 (o_flags arg) @ c_put (UInt16 (lib_u16 E)) (qv_value arg)"

definition Group22Var2_ReadTarget :: "le_lib \<Rightarrow> byte list \<Rightarrow> (Counter \<times> byte list) option" where
  "Group22Var2_ReadTarget E buff = map_option (\<lambda>(value, r). (CounterFactory_From (o_flags value) (ucast (qv_value value)), r)) (Group22Var2_Read E buff)"

definition ConvertGroup22Var2 :: "le_lib \<Rightarrow> Counter \<Rightarrow> Group22Var2" where
  "ConvertGroup22Var2 E = ConvertQVandTruncate"

definition Group22Var2_WriteTarget :: "le_lib \<Rightarrow> Counter \<Rightarrow> byte list" where
  "Group22Var2_WriteTarget E value = Group22Var2_Write E (ConvertGroup22Var2 E value)"

definition Group22Var2_Inst :: "le_lib \<Rightarrow> Counter DNP3Serializer" where
  "Group22Var2_Inst E =
     \<lparr>ser_id = \<lparr>id_group = 22, id_variation = 2\<rparr>, ser_size = Group22Var2_Size, ser_read = Group22Var2_ReadTarget E, ser_write = Group22Var2_WriteTarget E\<rparr>"

section \<open>Group22Var5\<close>

type_synonym Group22Var5 = "u32 obj_QVT"

definition Group22Var5_Read :: "le_lib \<Rightarrow> byte list \<Rightarrow> (Group22Var5 \<times> byte list) option" where
  "Group22Var5_Read E = LE_read3 UInt8 (lib_u32 E) (time_codec E) (\<lambda>a b c. \<lparr>o_flags = a, qv_value = b, qvt_time = c\<rparr>)"

definition Group22Var5_Write :: "le_lib \<Rightarrow> Group22Var5 \<Rightarrow> byte list" where
  "Group22Var5_Write E arg = c_put UInt8 (o_flags arg) @ c_put (lib_u32 E) (qv_value arg) @ c_put (time_codec E) (qvt_time arg)"

definition Group22Var5_ReadTarget :: "le_lib \<Rightarrow> byte list \<Rightarrow> (Counter \<times> byte list) option" where
  "Group22Var5_ReadTarget E buff = map_option (\<lambda>(value, r). (CounterFactory_From_time (o_flags value) (qv_value value) (qvt_time value), r)) (Group22Var5_Read E buff)"

definition ConvertGroup22Var5 :: "le_lib \<Rightarrow> Counter \<Rightarrow> Group22Var5" where
  "ConvertGroup22Var5 E = ConvertQVT"

definition Group22Var5_WriteTarget :: "le_lib \<Rightarrow> Counter \<Rightarrow> byte list" where
  "Group22Var5_WriteTarget E value = Group22Var5_Write E (ConvertGroup22Var5 E value)"

definition Group22Var5_Inst :: "le_lib \<Rightarrow> Counter DNP3Serializer" where
  "Group22Var5_Inst E =
     \<lparr>ser_id = \<lparr>id_group = 22, id_variation = 5\<rparr>, ser_size = Group22Var5_Size, ser_read = Group22Var5_ReadTarget E, ser_write = Group22Var5_WriteTarget E\<rparr>"

section \<open>Group22Var6\<close>

type_synonym Group22Var6 = "u16 obj_QVT"

definition Group22Var6_Read :: "le_lib \<Rightarrow> byte list \<Rightarrow> (Group22Var6 \<times> byte list) option" where
  "Group22Var6_Read E = LE_read3 UInt8 (UInt16 (lib_u16 E)) (time_codec E) (\<lambda>a b c. \<lparr>o_flags = a, qv_value = b, qvt_time = c\<rparr>)"

definition Group22Var6_Write :: "le_lib \<Rightarrow> Group22Var6 \<Rightarrow> byte list" where
  "Group22Var6_Write E arg = c_put UInt8 (o_flags arg) @ c_put (UInt16 (lib_u16 E)) (qv_value arg) @ c_put (time_codec E) (qvt_time arg)"

definition Group22Var6_ReadTarget :: "le_lib \<Rightarrow> byte list \<Rightarrow> (Counter \<times> byte list) option" where
  "Group22Var6_ReadTarget E buff = map_option (\<lambda>(value, r). (CounterFactory_From_time (o_flags value) (ucast (qv_value value)) (qvt_time value), r)) (Group22Var6_Read E buff)"

definition ConvertGroup22Var6 :: "le_lib \<Rightarrow> Counter \<Rightarrow> Group22Var6" where
  "ConvertGroup22Var6 E = ConvertQVTandTruncate"

definition Group22Var6_WriteTarget :: "le_lib \<Rightarrow> Counter \<Rightarrow> byte list" where
  "Group22Var6_WriteTarget E value = Group22Var6_Write E (ConvertGroup22Var6 E value)"

definition Group22Var6_Inst :: "le_lib \<Rightarrow> Counter DNP3Serializer" where
  "Group22Var6_Inst E =
     \<lparr>ser_id = \<lparr>id_group = 22, id_variation = 6\<rparr>, ser_size = Group22Var6_Size, ser_read = Group22Var6_ReadTarget E, ser_write = Group22Var6_WriteTarget E\<rparr>"

section \<open>Group23Var1\<close>

type_synonym Group23Var1 = "u32 obj_QV"

definition Group23Var1_Read :: "le_lib \<Rightarrow> byte list \<Rightarrow> (Group23Var1 \<times> byte list) option" where
  "Group23Var1_Read E = LE_read2 UInt8 (lib_u32 E) (\<lambda>a b. \<lparr>o_flags = a, qv_value = b\<rparr>)"

definition Group23Var1_Write :: "le_lib \<Rightarrow> Group23Var1 \<Rightarrow> byte list" where
  "Group23Var1_Write E arg = c_put UInt8 (o_flags arg) @ c_put (lib_u32 E) (qv_value arg)"

definition Group23Var1_ReadTarget :: "le_lib \<Rightarrow> byte list \<Rightarrow> (FrozenCounter \<times> byte list) option" where
  "Group23Var1_ReadTarget E buff = map_option (\<lambda>(value, r). (FrozenCounterFactory_From (o_flags value) (qv_value value), r)) (Group23Var1_Read E buff)"

definition ConvertGroup23Var1 :: "le_lib \<Rightarrow> FrozenCounter \<Rightarrow> Group23Var1" where
  "ConvertGroup23Var1 E = ConvertQV"

definition Group23Var1_WriteTarget :: "le_lib \<Rightarrow> FrozenCounter \<Rightarrow> byte list" where
  "Group23Var1_WriteTarget E value = Group23Var1_Write E (ConvertGroup23Var1 E value)"

definition Group23Var1_Inst :: "le_lib \<Rightarrow> FrozenCounter DNP3Serializer" where
  "Group23Var1_Inst E =
     \<lparr>ser_id = \<lparr>id_group = 23, id_variation = 1\<rparr>, ser_size = Group23Var1_Size, ser_read = Group23Var1_ReadTarget E, ser_write = Group23Var1_WriteTarget E\<rparr>"

section \<open>Group23Var2\<close>

type_synonym Group23Var2 = "u16 obj_QV"

definition Group23Var2_Read :: "le_lib \<Rightarrow> byte list \<Rightarrow> (Group23Var2 \<times> byte list) option" where
  "Group23Var2_Read E = LE_read2 UInt8 (UInt16 (lib_u16 E)) (\<lambda>a b. \<lparr>o_flags = a, qv_value = b\<rparr>)"

definition Group23Var2_Write :: "le_lib \<Rightarrow> Group23Var2 \<Rightarrow> byte list" where
  "Group23Var2_Write E arg = c_put UInt8 (o_flags arg) @ c_put (UInt16 (lib_u16 E)) (qv_value arg)"

definition Group23Var2_ReadTarget :: "le_lib \<Rightarrow> byte list \<Rightarrow> (FrozenCounter \<times> byte list) option" where
  "Group23Var2_ReadTarget E buff = map_option (\<lambda>(value, r). (FrozenCounterFactory_From (o_flags value) (ucast (qv_value value)), r)) (Group23Var2_Read E buff)"

definition ConvertGroup23Var2 :: "le_lib \<Rightarrow> FrozenCounter \<Rightarrow> Group23Var2" where
  "ConvertGroup23Var2 E = ConvertQVandTruncate"

definition Group23Var2_WriteTarget :: "le_lib \<Rightarrow> FrozenCounter \<Rightarrow> byte list" where
  "Group23Var2_WriteTarget E value = Group23Var2_Write E (ConvertGroup23Var2 E value)"

definition Group23Var2_Inst :: "le_lib \<Rightarrow> FrozenCounter DNP3Serializer" where
  "Group23Var2_Inst E =
     \<lparr>ser_id = \<lparr>id_group = 23, id_variation = 2\<rparr>, ser_size = Group23Var2_Size, ser_read = Group23Var2_ReadTarget E, ser_write = Group23Var2_WriteTarget E\<rparr>"

section \<open>Group23Var5\<close>

type_synonym Group23Var5 = "u32 obj_QVT"

definition Group23Var5_Read :: "le_lib \<Rightarrow> byte list \<Rightarrow> (Group23Var5 \<times> byte list) option" where
  "Group23Var5_Read E = LE_read3 UInt8 (lib_u32 E) (time_codec E) (\<lambda>a b c. \<lparr>o_flags = a, qv_value = b, qvt_time = c\<rparr>)"

definition Group23Var5_Write :: "le_lib \<Rightarrow> Group23Var5 \<Rightarrow> byte list" where
  "Group23Var5_Write E arg = c_put UInt8 (o_flags arg) @ c_put (lib_u32 E) (qv_value arg) @ c_put (time_codec E) (qvt_time arg)"

definition Group23Var5_ReadTarget :: "le_lib \<Rightarrow> byte list \<Rightarrow> (FrozenCounter \<times> byte list) option" where
  "Group23Var5_ReadTarget E buff = map_option (\<lambda>(value, r). (FrozenCounterFactory_From_time (o_flags value) (qv_value value) (qvt_time value), r)) (Group23Var5_Read E buff)"

definition ConvertGroup23Var5 :: "le_lib \<Rightarrow> FrozenCounter \<Rightarrow> Group23Var5" where
  "ConvertGroup23Var5 E = ConvertQVT"

definition Group23Var5_WriteTarget :: "le_lib \<Rightarrow> FrozenCounter \<Rightarrow> byte list" where
  "Group23Var5_WriteTarget E value = Group23Var5_Write E (ConvertGroup23Var5 E value)"

definition Group23Var5_Inst :: "le_lib \<Rightarrow> FrozenCounter DNP3Serializer" where
  "Group23Var5_Inst E =
     \<lparr>ser_id = \<lparr>id_group = 23, id_variation = 5\<rparr>, ser_size = Group23Var5_Size, ser_read = Group23Var5_ReadTarget E, ser_write = Group23Var5_WriteTarget E\<rparr>"

section \<open>Group23Var6\<close>

type_synonym Group23Var6 = "u16 obj_QVT"

definition Group23Var6_Read :: "le_lib \<Rightarrow> byte list \<Rightarrow> (Group23Var6 \<times> byte list) option" where
  "Group23Var6_Read E = LE_read3 UInt8 (UInt16 (lib_u16 E)) (time_codec E) (\<lambda>a b c. \<lparr>o_flags = a, qv_value = b, qvt_time = c\<rparr>)"

definition Group23Var6_Write :: "le_lib \<Rightarrow> Group23Var6 \<Rightarrow> byte list" where
  "Group23Var6_Write E arg = c_put UInt8 (o_flags arg) @ c_put (UInt16 (lib_u16 E)) (qv_value arg) @ c_put (time_codec E) (qvt_time arg)"

definition Group23Var6_ReadTarget :: "le_lib \<Rightarrow> byte list \<Rightarrow> (FrozenCounter \<times> byte list) option" where
  "Group23Var6_ReadTarget E buff = map_option (\<lambda>(value, r). (FrozenCounterFactory_From_time (o_flags value) (ucast (qv_value value)) (qvt_time value), r)) (Group23Var6_Read E buff)"

definition ConvertGroup23Var6 :: "le_lib \<Rightarrow> FrozenCounter \<Rightarrow> Group23Var6" where
  "ConvertGroup23Var6 E = ConvertQVTandTruncate"

definition Group23Var6_WriteTarget :: "le_lib \<Rightarrow> FrozenCounter \<Rightarrow> byte list" where
  "Group23Var6_WriteTarget E value = Group23Var6_Write E (ConvertGroup23Var6 E value)"

definition Group23Var6_Inst :: "le_lib \<Rightarrow> FrozenCounter DNP3Serializer" where
  "Group23Var6_Inst E =
     \<lparr>ser_id = \<lparr>id_group = 23, id_variation = 6\<rparr>, ser_size = Group23Var6_Size, ser_read = Group23Var6_ReadTarget E, ser_write = Group23Var6_WriteTarget E\<rparr>"

section \<open>Group30Var1\<close>

type_synonym Group30Var1 = "u32 obj_QV"

definition Group30Var1_Read :: "le_lib \<Rightarrow> byte list \<Rightarrow> (Group30Var1 \<times> byte list) option" where
  "Group30Var1_Read E = LE_read2 UInt8 (lib_i32 E) (\<lambda>a b. \<lparr>o_flags = a, qv_value = b\<rparr>)"

definition Group30Var1_Write :: "le_lib \<Rightarrow> Group30Var1 \<Rightarrow> byte list" where
  "Group30Var1_Write E arg = c_put UInt8 (o_flags arg) @ c_put (lib_i32 E) (qv_value arg)"

definition Group30Var1_ReadTarget :: "le_lib \<Rightarrow> byte list \<Rightarrow> (Analog \<times> byte list) option" where
  "Group30Var1_ReadTarget E buff = map_option (\<lambda>(value, r). (AnalogFactory_From (o_flags value) (double_of_int (sint (qv_value value))), r)) (Group30Var1_Read E buff)"

definition ConvertGroup30Var1 :: "le_lib \<Rightarrow> Analog \<Rightarrow> Group30Var1" where
  "ConvertGroup30Var1 E = ConvertQVRangeCheck (DownSampling_int32 (undef_cast E)) 0x20"

definition Group30Var1_WriteTarget :: "le_lib \<Rightarrow> Analog \<Rightarrow> byte list" where
  "Group30Var1_WriteTarget E value = Group30Var1_Write E (ConvertGroup30Var1 E value)"

definition Group30Var1_Inst :: "le_lib \<Rightarrow> Analog DNP3Serializer" where
  "Group30Var1_Inst E =
     \<lparr>ser_id = \<lparr>id_group = 30, id_variation = 1\<rparr>, ser_size = Group30Var1_Size, ser_read = Group30Var1_ReadTarget E, ser_write = Group30Var1_WriteTarget E\<rparr>"

section \<open>Group30Var2\<close>

type_synonym Group30Var2 = "u16 obj_QV"

definition Group30Var2_Read :: "le_lib \<Rightarrow> byte list \<Rightarrow> (Group30Var2 \<times> byte list) option" where
  "Group30Var2_Read E = LE_read2 UInt8 (lib_i16 E) (\<lambda>a b. \<lparr>o_flags = a, qv_value = b\<rparr>)"

definition Group30Var2_Write :: "le_lib \<Rightarrow> Group30Var2 \<Rightarrow> byte list" where
  "Group30Var2_Write E arg = c_put UInt8 (o_flags arg) @ c_put (lib_i16 E) (qv_value arg)"

definition Group30Var2_ReadTarget :: "le_lib \<Rightarrow> byte list \<Rightarrow> (Analog \<times> byte list) option" where
  "Group30Var2_ReadTarget E buff = map_option (\<lambda>(value, r). (AnalogFactory_From (o_flags value) (double_of_int (sint (qv_value value))), r)) (Group30Var2_Read E buff)"

definition ConvertGroup30Var2 :: "le_lib \<Rightarrow> Analog \<Rightarrow> Group30Var2" where
  "ConvertGroup30Var2 E = ConvertQVRangeCheck (DownSampling_int16 (undef_cast E)) 0x20"

definition Group30Var2_WriteTarget :: "le_lib \<Rightarrow> Analog \<Rightarrow> byte list" where
  "Group30Var2_WriteTarget E value = Group30Var2_Write E (ConvertGroup30Var2 E value)"

definition Group30Var2_Inst :: "le_lib \<Rightarrow> Analog DNP3Serializer" where
  "Group30Var2_Inst E =
     \<lparr>ser_id = \<lparr>id_group = 30, id_variation = 2\<rparr>, ser_size = Group30Var2_Size, ser_read = Group30Var2_ReadTarget E, ser_write = Group30Var2_WriteTarget E\<rparr>"

section \<open>Group30Var3\<close>

type_synonym Group30Var3 = "u32 obj_V"

definition Group30Var3_Read :: "le_lib \<Rightarrow> byte list \<Rightarrow> (Group30Var3 \<times> byte list) option" where
  "Group30Var3_Read E = LE_read1 (lib_i32 E) (\<lambda>a. \<lparr>o_value = a\<rparr>)"

definition Group30Var3_Write :: "le_lib \<Rightarrow> Group30Var3 \<Rightarrow> byte list" where
  "Group30Var3_Write E arg = c_put (lib_i32 E) (o_value arg)"

definition Group30Var3_ReadTarget :: "le_lib \<Rightarrow> byte list \<Rightarrow> (Analog \<times> byte list) option" where
  "Group30Var3_ReadTarget E buff = map_option (\<lambda>(value, r). (AnalogFactory_From_count (o_value value), r)) (Group30Var3_Read E buff)"

definition ConvertGroup30Var3 :: "le_lib \<Rightarrow> Analog \<Rightarrow> Group30Var3" where
  "ConvertGroup30Var3 E = ConvertVRangeCheck (DownSampling_int32 (undef_cast E))"

definition Group30Var3_WriteTarget :: "le_lib \<Rightarrow> Analog \<Rightarrow> byte list" where
  "Group30Var3_WriteTarget E value = Group30Var3_Write E (ConvertGroup30Var3 E value)"

definition Group30Var3_Inst :: "le_lib \<Rightarrow> Analog DNP3Serializer" where
  "Group30Var3_Inst E =
     \<lparr>ser_id = \<lparr>id_group = 30, id_variation = 3\<rparr>, ser_size = Group30Var3_Size, ser_read = Group30Var3_ReadTarget E, ser_write = Group30Var3_WriteTarget E\<rparr>"

section \<open>Group30Var4\<close>

type_synonym Group30Var4 = "u16 obj_V"

definition Group30Var4_Read :: "le_lib \<Rightarrow> byte list \<Rightarrow> (Group30Var4 \<times> byte list) option" where
  "Group30Var4_Read E = LE_read1 (lib_i16 E) (\<lambda>a. \<lparr>o_value = a\<rparr>)"

definition Group30Var4_Write :: "le_lib \<Rightarrow> Group30Var4 \<Rightarrow> byte list" where
  "Group30Var4_Write E arg = c_put (lib_i16 E) (o_value arg)"

definition Group30Var4_ReadTarget :: "le_lib \<Rightarrow> byte list \<Rightarrow> (Analog \<times> byte list) option" where
  "Group30Var4_ReadTarget E buff = map_option (\<lambda>(value, r). (AnalogFactory_From_count (scast (o_value value)), r)) (Group30Var4_Read E buff)"

definition ConvertGroup30Var4 :: "le_lib \<Rightarrow> Analog \<Rightarrow> Group30Var4" where
  "ConvertGroup30Var4 E = ConvertVRangeCheck (DownSampling_int16 (undef_cast E))"

definition Group30Var4_WriteTarget :: "le_lib \<Rightarrow> Analog \<Rightarrow> byte list" where
  "Group30Var4_WriteTarget E value = Group30Var4_Write E (ConvertGroup30Var4 E value)"

definition Group30Var4_Inst :: "le_lib \<Rightarrow> Analog DNP3Serializer" where
  "Group30Var4_Inst E =
     \<lparr>ser_id = \<lparr>id_group = 30, id_variation = 4\<rparr>, ser_size = Group30Var4_Size, ser_read = Group30Var4_ReadTarget E, ser_write = Group30Var4_WriteTarget E\<rparr>"

section \<open>Group30Var5\<close>

type_synonym Group30Var5 = "u32 obj_QV"

definition Group30Var5_Read :: "le_lib \<Rightarrow> byte list \<Rightarrow> (Group30Var5 \<times> byte list) option" where
  "Group30Var5_Read E = LE_read2 UInt8 (lib_f32 E) (\<lambda>a b. \<lparr>o_flags = a, qv_value = b\<rparr>)"

definition Group30Var5_Write :: "le_lib \<Rightarrow> Group30Var5 \<Rightarrow> byte list" where
  "Group30Var5_Write E arg = c_put UInt8 (o_flags arg) @ c_put (lib_f32 E) (qv_value arg)"

definition Group30Var5_ReadTarget :: "le_lib \<Rightarrow> byte list \<Rightarrow> (Analog \<times> byte list) option" where
  "Group30Var5_ReadTarget E buff = map_option (\<lambda>(value, r). (AnalogFactory_From (o_flags value) (double_of_float_bits (qv_value value)), r)) (Group30Var5_Read E buff)"

definition ConvertGroup30Var5 :: "le_lib \<Rightarrow> Analog \<Rightarrow> Group30Var5" where
  "ConvertGroup30Var5 E = ConvertQVRangeCheck DownSampling_float 0x20"

definition Group30Var5_WriteTarget :: "le_lib \<Rightarrow> Analog \<Rightarrow> byte list" where
  "Group30Var5_WriteTarget E value = Group30Var5_Write E (ConvertGroup30Var5 E value)"

definition Group30Var5_Inst :: "le_lib \<Rightarrow> Analog DNP3Serializer" where
  "Group30Var5_Inst E =
     \<lparr>ser_id = \<lparr>id_group = 30, id_variation = 5\<rparr>, ser_size = Group30Var5_Size, ser_read = Group30Var5_ReadTarget E, ser_write = Group30Var5_WriteTarget E\<rparr>"

section \<open>Group30Var6\<close>

type_synonym Group30Var6 = "double obj_QV"

definition Group30Var6_Read :: "le_lib \<Rightarrow> byte list \<Rightarrow> (Group30Var6 \<times> byte list) option" where
  "Group30Var6_Read E = LE_read2 UInt8 (lib_f64 E) (\<lambda>a b. \<lparr>o_flags = a, qv_value = b\<rparr>)"

definition Group30Var6_Write :: "le_lib \<Rightarrow> Group30Var6 \<Rightarrow> byte list" where
  "Group30Var6_Write E arg = c_put UInt8 (o_flags arg) @ c_put (lib_f64 E) (qv_value arg)"

definition Group30Var6_ReadTarget :: "le_lib \<Rightarrow> byte list \<Rightarrow> (Analog \<times> byte list) option" where
  "Group30Var6_ReadTarget E buff = map_option (\<lambda>(value, r). (AnalogFactory_From (o_flags value) (qv_value value), r)) (Group30Var6_Read E buff)"

definition ConvertGroup30Var6 :: "le_lib \<Rightarrow> Analog \<Rightarrow> Group30Var6" where
  "ConvertGroup30Var6 E = ConvertQV"

definition Group30Var6_WriteTarget :: "le_lib \<Rightarrow> Analog \<Rightarrow> byte list" where
  "Group30Var6_WriteTarget E value = Group30Var6_Write E (ConvertGroup30Var6 E value)"

definition Group30Var6_Inst :: "le_lib \<Rightarrow> Analog DNP3Serializer" where
  "Group30Var6_Inst E =
     \<lparr>ser_id = \<lparr>id_group = 30, id_variation = 6\<rparr>, ser_size = Group30Var6_Size, ser_read = Group30Var6_ReadTarget E, ser_write = Group30Var6_WriteTarget E\<rparr>"

section \<open>Group32Var1\<close>

type_synonym Group32Var1 = "u32 obj_QV"

definition Group32Var1_Read :: "le_lib \<Rightarrow> byte list \<Rightarrow> (Group32Var1 \<times> byte list) option" where
  "Group32Var1_Read E = LE_read2 UInt8 (lib_i32 E) (\<lambda>a b. \<lparr>o_flags = a, qv_value = b\<rparr>)"

definition Group32Var1_Write :: "le_lib \<Rightarrow> Group32Var1 \<Rightarrow> byte list" where
  "Group32Var1_Write E arg = c_put UInt8 (o_flags arg) @ c_put (lib_i32 E) (qv_value arg)"

definition Group32Var1_ReadTarget :: "le_lib \<Rightarrow> byte list \<Rightarrow> (Analog \<times> byte list) option" where
  "Group32Var1_ReadTarget E buff = map_option (\<lambda>(value, r). (AnalogFactory_From (o_flags value) (double_of_int (sint (qv_value value))), r)) (Group32Var1_Read E buff)"

definition ConvertGroup32Var1 :: "le_lib \<Rightarrow> Analog \<Rightarrow> Group32Var1" where
  "ConvertGroup32Var1 E = ConvertQVRangeCheck (DownSampling_int32 (undef_cast E)) 0x20"

definition Group32Var1_WriteTarget :: "le_lib \<Rightarrow> Analog \<Rightarrow> byte list" where
  "Group32Var1_WriteTarget E value = Group32Var1_Write E (ConvertGroup32Var1 E value)"

definition Group32Var1_Inst :: "le_lib \<Rightarrow> Analog DNP3Serializer" where
  "Group32Var1_Inst E =
     \<lparr>ser_id = \<lparr>id_group = 32, id_variation = 1\<rparr>, ser_size = Group32Var1_Size, ser_read = Group32Var1_ReadTarget E, ser_write = Group32Var1_WriteTarget E\<rparr>"

section \<open>Group32Var2\<close>

type_synonym Group32Var2 = "u16 obj_QV"

definition Group32Var2_Read :: "le_lib \<Rightarrow> byte list \<Rightarrow> (Group32Var2 \<times> byte list) option" where
  "Group32Var2_Read E = LE_read2 UInt8 (lib_i16 E) (\<lambda>a b. \<lparr>o_flags = a, qv_value = b\<rparr>)"

definition Group32Var2_Write :: "le_lib \<Rightarrow> Group32Var2 \<Rightarrow> byte list" where
  "Group32Var2_Write E arg = c_put UInt8 (o_flags arg) @ c_put (lib_i16 E) (qv_value arg)"

definition Group32Var2_ReadTarget :: "le_lib \<Rightarrow> byte list \<Rightarrow> (Analog \<times> byte list) option" where
  "Group32Var2_ReadTarget E buff = map_option (\<lambda>(value, r). (AnalogFactory_From (o_flags value) (double_of_int (sint (qv_value value))), r)) (Group32Var2_Read E buff)"

definition ConvertGroup32Var2 :: "le_lib \<Rightarrow> Analog \<Rightarrow> Group32Var2" where
  "ConvertGroup32Var2 E = ConvertQVRangeCheck (DownSampling_int16 (undef_cast E)) 0x20"

definition Group32Var2_WriteTarget :: "le_lib \<Rightarrow> Analog \<Rightarrow> byte list" where
  "Group32Var2_WriteTarget E value = Group32Var2_Write E (ConvertGroup32Var2 E value)"

definition Group32Var2_Inst :: "le_lib \<Rightarrow> Analog DNP3Serializer" where
  "Group32Var2_Inst E =
     \<lparr>ser_id = \<lparr>id_group = 32, id_variation = 2\<rparr>, ser_size = Group32Var2_Size, ser_read = Group32Var2_ReadTarget E, ser_write = Group32Var2_WriteTarget E\<rparr>"

section \<open>Group32Var3\<close>

type_synonym Group32Var3 = "u32 obj_QVT"

definition Group32Var3_Read :: "le_lib \<Rightarrow> byte list \<Rightarrow> (Group32Var3 \<times> byte list) option" where
  "Group32Var3_Read E = LE_read3 UInt8 (lib_i32 E) (time_codec E) (\<lambda>a b c. \<lparr>o_flags = a, qv_value = b, qvt_time = c\<rparr>)"

definition Group32Var3_Write :: "le_lib \<Rightarrow> Group32Var3 \<Rightarrow> byte list" where
  "Group32Var3_Write E arg = c_put UInt8 (o_flags arg) @ c_put (lib_i32 E) (qv_value arg) @ c_put (time_codec E) (qvt_time arg)"

definition Group32Var3_ReadTarget :: "le_lib \<Rightarrow> byte list \<Rightarrow> (Analog \<times> byte list) option" where
  "Group32Var3_ReadTarget E buff = map_option (\<lambda>(value, r). (AnalogFactory_From_time (o_flags value) (double_of_int (sint (qv_value value))) (qvt_time value), r)) (Group32Var3_Read E buff)"

definition ConvertGroup32Var3 :: "le_lib \<Rightarrow> Analog \<Rightarrow> Group32Var3" where
  "ConvertGroup32Var3 E = ConvertQVTRangeCheck (DownSampling_int32 (undef_cast E)) 0x20"

definition Group32Var3_WriteTarget :: "le_lib \<Rightarrow> Analog \<Rightarrow> byte list" where
  "Group32Var3_WriteTarget E value = Group32Var3_Write E (ConvertGroup32Var3 E value)"

definition Group32Var3_Inst :: "le_lib \<Rightarrow> Analog DNP3Serializer" where
  "Group32Var3_Inst E =
     \<lparr>ser_id = \<lparr>id_group = 32, id_variation = 3\<rparr>, ser_size = Group32Var3_Size, ser_read = Group32Var3_ReadTarget E, ser_write = Group32Var3_WriteTarget E\<rparr>"

section \<open>Group32Var4\<close>

type_synonym Group32Var4 = "u16 obj_QVT"

definition Group32Var4_Read :: "le_lib \<Rightarrow> byte list \<Rightarrow> (Group32Var4 \<times> byte list) option" where
  "Group32Var4_Read E = LE_read3 UInt8 (lib_i16 E) (time_codec E) (\<lambda>a b c. \<lparr>o_flags = a, qv_value = b, qvt_time = c\<rparr>)"

definition Group32Var4_Write :: "le_lib \<Rightarrow> Group32Var4 \<Rightarrow> byte list" where
  "Group32Var4_Write E arg = c_put UInt8 (o_flags arg) @ c_put (lib_i16 E) (qv_value arg) @ c_put (time_codec E) (qvt_time arg)"

definition Group32Var4_ReadTarget :: "le_lib \<Rightarrow> byte list \<Rightarrow> (Analog \<times> byte list) option" where
  "Group32Var4_ReadTarget E buff = map_option (\<lambda>(value, r). (AnalogFactory_From_time (o_flags value) (double_of_int (sint (qv_value value))) (qvt_time value), r)) (Group32Var4_Read E buff)"

definition ConvertGroup32Var4 :: "le_lib \<Rightarrow> Analog \<Rightarrow> Group32Var4" where
  "ConvertGroup32Var4 E = ConvertQVTRangeCheck (DownSampling_int16 (undef_cast E)) 0x20"

definition Group32Var4_WriteTarget :: "le_lib \<Rightarrow> Analog \<Rightarrow> byte list" where
  "Group32Var4_WriteTarget E value = Group32Var4_Write E (ConvertGroup32Var4 E value)"

definition Group32Var4_Inst :: "le_lib \<Rightarrow> Analog DNP3Serializer" where
  "Group32Var4_Inst E =
     \<lparr>ser_id = \<lparr>id_group = 32, id_variation = 4\<rparr>, ser_size = Group32Var4_Size, ser_read = Group32Var4_ReadTarget E, ser_write = Group32Var4_WriteTarget E\<rparr>"

section \<open>Group32Var5\<close>

type_synonym Group32Var5 = "u32 obj_QV"

definition Group32Var5_Read :: "le_lib \<Rightarrow> byte list \<Rightarrow> (Group32Var5 \<times> byte list) option" where
  "Group32Var5_Read E = LE_read2 UInt8 (lib_f32 E) (\<lambda>a b. \<lparr>o_flags = a, qv_value = b\<rparr>)"

definition Group32Var5_Write :: "le_lib \<Rightarrow> Group32Var5 \<Rightarrow> byte list" where
  "Group32Var5_Write E arg = c_put UInt8 (o_flags arg) @ c_put (lib_f32 E) (qv_value arg)"

definition Group32Var5_ReadTarget :: "le_lib \<Rightarrow> byte list \<Rightarrow> (Analog \<times> byte list) option" where
  "Group32Var5_ReadTarget E buff = map_option (\<lambda>(value, r). (AnalogFactory_From (o_flags value) (double_of_float_bits (qv_value value)), r)) (Group32Var5_Read E buff)"

definition ConvertGroup32Var5 :: "le_lib \<Rightarrow> Analog \<Rightarrow> Group32Var5" where
  "ConvertGroup32Var5 E = ConvertQVRangeCheck DownSampling_float 0x20"

definition Group32Var5_WriteTarget :: "le_lib \<Rightarrow> Analog \<Rightarrow> byte list" where
  "Group32Var5_WriteTarget E value = Group32Var5_Write E (ConvertGroup32Var5 E value)"

definition Group32Var5_Inst :: "le_lib \<Rightarrow> Analog DNP3Serializer" where
  "Group32Var5_Inst E =
     \<lparr>ser_id = \<lparr>id_group = 32, id_variation = 5\<rparr>, ser_size = Group32Var5_Size, ser_read = Group32Var5_ReadTarget E, ser_write = Group32Var5_WriteTarget E\<rparr>"

section \<open>Group32Var6\<close>

type_synonym Group32Var6 = "double obj_QV"

definition Group32Var6_Read :: "le_lib \<Rightarrow> byte list \<Rightarrow> (Group32Var6 \<times> byte list) option" where
  "Group32Var6_Read E = LE_read2 UInt8 (lib_f64 E) (\<lambda>a b. \<lparr>o_flags = a, qv_value = b\<rparr>)"

definition Group32Var6_Write :: "le_lib \<Rightarrow> Group32Var6 \<Rightarrow> byte list" where
  "Group32Var6_Write E arg = c_put UInt8 (o_flags arg) @ c_put (lib_f64 E) (qv_value arg)"

definition Group32Var6_ReadTarget :: "le_lib \<Rightarrow> byte list \<Rightarrow> (Analog \<times> byte list) option" where
  "Group32Var6_ReadTarget E buff = map_option (\<lambda>(value, r). (AnalogFactory_From (o_flags value) (qv_value value), r)) (Group32Var6_Read E buff)"

definition ConvertGroup32Var6 :: "le_lib \<Rightarrow> Analog \<Rightarrow> Group32Var6" where
  "ConvertGroup32Var6 E = ConvertQV"

definition Group32Var6_WriteTarget :: "le_lib \<Rightarrow> Analog \<Rightarrow> byte list" where
  "Group32Var6_WriteTarget E value = Group32Var6_Write E (ConvertGroup32Var6 E value)"

definition Group32Var6_Inst :: "le_lib \<Rightarrow> Analog DNP3Serializer" where
  "Group32Var6_Inst E =
     \<lparr>ser_id = \<lparr>id_group = 32, id_variation = 6\<rparr>, ser_size = Group32Var6_Size, ser_read = Group32Var6_ReadTarget E, ser_write = Group32Var6_WriteTarget E\<rparr>"

section \<open>Group32Var7\<close>

type_synonym Group32Var7 = "u32 obj_QVT"

definition Group32Var7_Read :: "le_lib \<Rightarrow> byte list \<Rightarrow> (Group32Var7 \<times> byte list) option" where
  "Group32Var7_Read E = LE_read3 UInt8 (lib_f32 E) (time_codec E) (\<lambda>a b c. \<lparr>o_flags = a, qv_value = b, qvt_time = c\<rparr>)"

definition Group32Var7_Write :: "le_lib \<Rightarrow> Group32Var7 \<Rightarrow> byte list" where
  "Group32Var7_Write E arg = c_put UInt8 (o_flags arg) @ c_put (lib_f32 E) (qv_value arg) @ c_put (time_codec E) (qvt_time arg)"

definition Group32Var7_ReadTarget :: "le_lib \<Rightarrow> byte list \<Rightarrow> (Analog \<times> byte list) option" where
  "Group32Var7_ReadTarget E buff = map_option (\<lambda>(value, r). (AnalogFactory_From_time (o_flags value) (double_of_float_bits (qv_value value)) (qvt_time value), r)) (Group32Var7_Read E buff)"

definition ConvertGroup32Var7 :: "le_lib \<Rightarrow> Analog \<Rightarrow> Group32Var7" where
  "ConvertGroup32Var7 E = ConvertQVTRangeCheck DownSampling_float 0x20"

definition Group32Var7_WriteTarget :: "le_lib \<Rightarrow> Analog \<Rightarrow> byte list" where
  "Group32Var7_WriteTarget E value = Group32Var7_Write E (ConvertGroup32Var7 E value)"

definition Group32Var7_Inst :: "le_lib \<Rightarrow> Analog DNP3Serializer" where
  "Group32Var7_Inst E =
     \<lparr>ser_id = \<lparr>id_group = 32, id_variation = 7\<rparr>, ser_size = Group32Var7_Size, ser_read = Group32Var7_ReadTarget E, ser_write = Group32Var7_WriteTarget E\<rparr>"

section \<open>Group32Var8\<close>

type_synonym Group32Var8 = "double obj_QVT"

definition Group32Var8_Read :: "le_lib \<Rightarrow> byte list \<Rightarrow> (Group32Var8 \<times> byte list) option" where
  "Group32Var8_Read E = LE_read3 UInt8 (lib_f64 E) (time_codec E) (\<lambda>a b c. \<lparr>o_flags = a, qv_value = b, qvt_time = c\<rparr>)"

definition Group32Var8_Write :: "le_lib \<Rightarrow> Group32Var8 \<Rightarrow> byte list" where
  "Group32Var8_Write E arg = c_put UInt8 (o_flags arg) @ c_put (lib_f64 E) (qv_value arg) @ c_put (time_codec E) (qvt_time arg)"

definition Group32Var8_ReadTarget :: "le_lib \<Rightarrow> byte list \<Rightarrow> (Analog \<times> byte list) option" where
  "Group32Var8_ReadTarget E buff = map_option (\<lambda>(value, r). (AnalogFactory_From_time (o_flags value) (qv_value value) (qvt_time value), r)) (Group32Var8_Read E buff)"

definition ConvertGroup32Var8 :: "le_lib \<Rightarrow> Analog \<Rightarrow> Group32Var8" where
  "ConvertGroup32Var8 E = ConvertQVT"

definition Group32Var8_WriteTarget :: "le_lib \<Rightarrow> Analog \<Rightarrow> byte list" where
  "Group32Var8_WriteTarget E value = Group32Var8_Write E (ConvertGroup32Var8 E value)"

definition Group32Var8_Inst :: "le_lib \<Rightarrow> Analog DNP3Serializer" where
  "Group32Var8_Inst E =
     \<lparr>ser_id = \<lparr>id_group = 32, id_variation = 8\<rparr>, ser_size = Group32Var8_Size, ser_read = Group32Var8_ReadTarget E, ser_write = Group32Var8_WriteTarget E\<rparr>"

section \<open>Group40Var1\<close>

type_synonym Group40Var1 = "u32 obj_QV"

definition Group40Var1_Read :: "le_lib \<Rightarrow> byte list \<Rightarrow> (Group40Var1 \<times> byte list) option" where
  "Group40Var1_Read E = LE_read2 UInt8 (lib_i32 E) (\<lambda>a b. \<lparr>o_flags = a, qv_value = b\<rparr>)"

definition Group40Var1_Write :: "le_lib \<Rightarrow> Group40Var1 \<Rightarrow> byte list" where
  "Group40Var1_Write E arg = c_put UInt8 (o_flags arg) @ c_put (lib_i32 E) (qv_value arg)"

definition Group40Var1_ReadTarget :: "le_lib \<Rightarrow> byte list \<Rightarrow> (AnalogOutputStatus \<times> byte list) option" where
  "Group40Var1_ReadTarget E buff = map_option (\<lambda>(value, r). (AnalogOutputStatusFactory_From (o_flags value) (double_of_int (sint (qv_value value))), r)) (Group40Var1_Read E buff)"

definition ConvertGroup40Var1 :: "le_lib \<Rightarrow> AnalogOutputStatus \<Rightarrow> Group40Var1" where
  "ConvertGroup40Var1 E = ConvertQVRangeCheck (DownSampling_int32 (undef_cast E)) 0x20"

definition Group40Var1_WriteTarget :: "le_lib \<Rightarrow> AnalogOutputStatus \<Rightarrow> byte list" where
  "Group40Var1_WriteTarget E value = Group40Var1_Write E (ConvertGroup40Var1 E value)"

definition Group40Var1_Inst :: "le_lib \<Rightarrow> AnalogOutputStatus DNP3Serializer" where
  "Group40Var1_Inst E =
     \<lparr>ser_id = \<lparr>id_group = 40, id_variation = 1\<rparr>, ser_size = Group40Var1_Size, ser_read = Group40Var1_ReadTarget E, ser_write = Group40Var1_WriteTarget E\<rparr>"

section \<open>Group40Var2\<close>

type_synonym Group40Var2 = "u16 obj_QV"

definition Group40Var2_Read :: "le_lib \<Rightarrow> byte list \<Rightarrow> (Group40Var2 \<times> byte list) option" where
  "Group40Var2_Read E = LE_read2 UInt8 (lib_i16 E) (\<lambda>a b. \<lparr>o_flags = a, qv_value = b\<rparr>)"

definition Group40Var2_Write :: "le_lib \<Rightarrow> Group40Var2 \<Rightarrow> byte list" where
  "Group40Var2_Write E arg = c_put UInt8 (o_flags arg) @ c_put (lib_i16 E) (qv_value arg)"

definition Group40Var2_ReadTarget :: "le_lib \<Rightarrow> byte list \<Rightarrow> (AnalogOutputStatus \<times> byte list) option" where
  "Group40Var2_ReadTarget E buff = map_option (\<lambda>(value, r). (AnalogOutputStatusFactory_From (o_flags value) (double_of_int (sint (qv_value value))), r)) (Group40Var2_Read E buff)"

definition ConvertGroup40Var2 :: "le_lib \<Rightarrow> AnalogOutputStatus \<Rightarrow> Group40Var2" where
  "ConvertGroup40Var2 E = ConvertQVRangeCheck (DownSampling_int16 (undef_cast E)) 0x20"

definition Group40Var2_WriteTarget :: "le_lib \<Rightarrow> AnalogOutputStatus \<Rightarrow> byte list" where
  "Group40Var2_WriteTarget E value = Group40Var2_Write E (ConvertGroup40Var2 E value)"

definition Group40Var2_Inst :: "le_lib \<Rightarrow> AnalogOutputStatus DNP3Serializer" where
  "Group40Var2_Inst E =
     \<lparr>ser_id = \<lparr>id_group = 40, id_variation = 2\<rparr>, ser_size = Group40Var2_Size, ser_read = Group40Var2_ReadTarget E, ser_write = Group40Var2_WriteTarget E\<rparr>"

section \<open>Group40Var3\<close>

type_synonym Group40Var3 = "u32 obj_QV"

definition Group40Var3_Read :: "le_lib \<Rightarrow> byte list \<Rightarrow> (Group40Var3 \<times> byte list) option" where
  "Group40Var3_Read E = LE_read2 UInt8 (lib_f32 E) (\<lambda>a b. \<lparr>o_flags = a, qv_value = b\<rparr>)"

definition Group40Var3_Write :: "le_lib \<Rightarrow> Group40Var3 \<Rightarrow> byte list" where
  "Group40Var3_Write E arg = c_put UInt8 (o_flags arg) @ c_put (lib_f32 E) (qv_value arg)"

definition Group40Var3_ReadTarget :: "le_lib \<Rightarrow> byte list \<Rightarrow> (AnalogOutputStatus \<times> byte list) option" where
  "Group40Var3_ReadTarget E buff = map_option (\<lambda>(value, r). (AnalogOutputStatusFactory_From (o_flags value) (double_of_float_bits (qv_value value)), r)) (Group40Var3_Read E buff)"

definition ConvertGroup40Var3 :: "le_lib \<Rightarrow> AnalogOutputStatus \<Rightarrow> Group40Var3" where
  "ConvertGroup40Var3 E = ConvertQVRangeCheck DownSampling_float 0x20"

definition Group40Var3_WriteTarget :: "le_lib \<Rightarrow> AnalogOutputStatus \<Rightarrow> byte list" where
  "Group40Var3_WriteTarget E value = Group40Var3_Write E (ConvertGroup40Var3 E value)"

definition Group40Var3_Inst :: "le_lib \<Rightarrow> AnalogOutputStatus DNP3Serializer" where
  "Group40Var3_Inst E =
     \<lparr>ser_id = \<lparr>id_group = 40, id_variation = 3\<rparr>, ser_size = Group40Var3_Size, ser_read = Group40Var3_ReadTarget E, ser_write = Group40Var3_WriteTarget E\<rparr>"

section \<open>Group40Var4\<close>

type_synonym Group40Var4 = "double obj_QV"

definition Group40Var4_Read :: "le_lib \<Rightarrow> byte list \<Rightarrow> (Group40Var4 \<times> byte list) option" where
  "Group40Var4_Read E = LE_read2 UInt8 (lib_f64 E) (\<lambda>a b. \<lparr>o_flags = a, qv_value = b\<rparr>)"

definition Group40Var4_Write :: "le_lib \<Rightarrow> Group40Var4 \<Rightarrow> byte list" where
  "Group40Var4_Write E arg = c_put UInt8 (o_flags arg) @ c_put (lib_f64 E) (qv_value arg)"

definition Group40Var4_ReadTarget :: "le_lib \<Rightarrow> byte list \<Rightarrow> (AnalogOutputStatus \<times> byte list) option" where
  "Group40Var4_ReadTarget E buff = map_option (\<lambda>(value, r). (AnalogOutputStatusFactory_From (o_flags value) (qv_value value), r)) (Group40Var4_Read E buff)"

definition ConvertGroup40Var4 :: "le_lib \<Rightarrow> AnalogOutputStatus \<Rightarrow> Group40Var4" where
  "ConvertGroup40Var4 E = ConvertQV"

definition Group40Var4_WriteTarget :: "le_lib \<Rightarrow> AnalogOutputStatus \<Rightarrow> byte list" where
  "Group40Var4_WriteTarget E value = Group40Var4_Write E (ConvertGroup40Var4 E value)"

definition Group40Var4_Inst :: "le_lib \<Rightarrow> AnalogOutputStatus DNP3Serializer" where
  "Group40Var4_Inst E =
     \<lparr>ser_id = \<lparr>id_group = 40, id_variation = 4\<rparr>, ser_size = Group40Var4_Size, ser_read = Group40Var4_ReadTarget E, ser_write = Group40Var4_WriteTarget E\<rparr>"

section \<open>Group41Var1\<close>

type_synonym Group41Var1 = "u32 obj_VS"

definition Group41Var1_Read :: "le_lib \<Rightarrow> byte list \<Rightarrow> (Group41Var1 \<times> byte list) option" where
  "Group41Var1_Read E = LE_read2 (lib_i32 E) UInt8 (\<lambda>a b. \<lparr>vs_value = a, vs_status = b\<rparr>)"

definition Group41Var1_Write :: "le_lib \<Rightarrow> Group41Var1 \<Rightarrow> byte list" where
  "Group41Var1_Write E arg = c_put (lib_i32 E) (vs_value arg) @ c_put UInt8 (vs_status arg)"

definition Group41Var1_ReadTarget :: "le_lib \<Rightarrow> byte list \<Rightarrow> (u32 AnalogOutput \<times> byte list) option" where
  "Group41Var1_ReadTarget E buff = map_option (\<lambda>(value, r). (AnalogOutputFactory_From (vs_value value) (vs_status value), r)) (Group41Var1_Read E buff)"

definition ConvertGroup41Var1 :: "le_lib \<Rightarrow> u32 AnalogOutput \<Rightarrow> Group41Var1" where
  "ConvertGroup41Var1 E = ConvertQS"

definition Group41Var1_WriteTarget :: "le_lib \<Rightarrow> u32 AnalogOutput \<Rightarrow> byte list" where
  "Group41Var1_WriteTarget E value = Group41Var1_Write E (ConvertGroup41Var1 E value)"

definition Group41Var1_Inst :: "le_lib \<Rightarrow> u32 AnalogOutput DNP3Serializer" where
  "Group41Var1_Inst E =
     \<lparr>ser_id = \<lparr>id_group = 41, id_variation = 1\<rparr>, ser_size = Group41Var1_Size, ser_read = Group41Var1_ReadTarget E, ser_write = Group41Var1_WriteTarget E\<rparr>"

section \<open>Group41Var2\<close>

type_synonym Group41Var2 = "u16 obj_VS"

definition Group41Var2_Read :: "le_lib \<Rightarrow> byte list \<Rightarrow> (Group41Var2 \<times> byte list) option" where
  "Group41Var2_Read E = LE_read2 (lib_i16 E) UInt8 (\<lambda>a b. \<lparr>vs_value = a, vs_status = b\<rparr>)"

definition Group41Var2_Write :: "le_lib \<Rightarrow> Group41Var2 \<Rightarrow> byte list" where
  "Group41Var2_Write E arg = c_put (lib_i16 E) (vs_value arg) @ c_put UInt8 (vs_status arg)"

definition Group41Var2_ReadTarget :: "le_lib \<Rightarrow> byte list \<Rightarrow> (u16 AnalogOutput \<times> byte list) option" where
  "Group41Var2_ReadTarget E buff = map_option (\<lambda>(value, r). (AnalogOutputFactory_From (vs_value value) (vs_status value), r)) (Group41Var2_Read E buff)"

definition ConvertGroup41Var2 :: "le_lib \<Rightarrow> u16 AnalogOutput \<Rightarrow> Group41Var2" where
  "ConvertGroup41Var2 E = ConvertQS"

definition Group41Var2_WriteTarget :: "le_lib \<Rightarrow> u16 AnalogOutput \<Rightarrow> byte list" where
  "Group41Var2_WriteTarget E value = Group41Var2_Write E (ConvertGroup41Var2 E value)"

definition Group41Var2_Inst :: "le_lib \<Rightarrow> u16 AnalogOutput DNP3Serializer" where
  "Group41Var2_Inst E =
     \<lparr>ser_id = \<lparr>id_group = 41, id_variation = 2\<rparr>, ser_size = Group41Var2_Size, ser_read = Group41Var2_ReadTarget E, ser_write = Group41Var2_WriteTarget E\<rparr>"

section \<open>Group41Var3\<close>

type_synonym Group41Var3 = "u32 obj_VS"

definition Group41Var3_Read :: "le_lib \<Rightarrow> byte list \<Rightarrow> (Group41Var3 \<times> byte list) option" where
  "Group41Var3_Read E = LE_read2 (lib_f32 E) UInt8 (\<lambda>a b. \<lparr>vs_value = a, vs_status = b\<rparr>)"

definition Group41Var3_Write :: "le_lib \<Rightarrow> Group41Var3 \<Rightarrow> byte list" where
  "Group41Var3_Write E arg = c_put (lib_f32 E) (vs_value arg) @ c_put UInt8 (vs_status arg)"

definition Group41Var3_ReadTarget :: "le_lib \<Rightarrow> byte list \<Rightarrow> (u32 AnalogOutput \<times> byte list) option" where
  "Group41Var3_ReadTarget E buff = map_option (\<lambda>(value, r). (AnalogOutputFactory_From (vs_value value) (vs_status value), r)) (Group41Var3_Read E buff)"

definition ConvertGroup41Var3 :: "le_lib \<Rightarrow> u32 AnalogOutput \<Rightarrow> Group41Var3" where
  "ConvertGroup41Var3 E = ConvertQS"

definition Group41Var3_WriteTarget :: "le_lib \<Rightarrow> u32 AnalogOutput \<Rightarrow> byte list" where
  "Group41Var3_WriteTarget E value = Group41Var3_Write E (ConvertGroup41Var3 E value)"

definition Group41Var3_Inst :: "le_lib \<Rightarrow> u32 AnalogOutput DNP3Serializer" where
  "Group41Var3_Inst E =
     \<lparr>ser_id = \<lparr>id_group = 41, id_variation = 3\<rparr>, ser_size = Group41Var3_Size, ser_read = Group41Var3_ReadTarget E, ser_write = Group41Var3_WriteTarget E\<rparr>"

section \<open>Group41Var4\<close>

type_synonym Group41Var4 = "double obj_VS"

definition Group41Var4_Read :: "le_lib \<Rightarrow> byte list \<Rightarrow> (Group41Var4 \<times> byte list) option" where
  "Group41Var4_Read E = LE_read2 (lib_f64 E) UInt8 (\<lambda>a b. \<lparr>vs_value = a, vs_status = b\<rparr>)"

definition Group41Var4_Write :: "le_lib \<Rightarrow> Group41Var4 \<Rightarrow> byte list" where
  "Group41Var4_Write E arg = c_put (lib_f64 E) (vs_value arg) @ c_put UInt8 (vs_status arg)"

definition Group41Var4_ReadTarget :: "le_lib \<Rightarrow> byte list \<Rightarrow> (double AnalogOutput \<times> byte list) option" where
  "Group41Var4_ReadTarget E buff = map_option (\<lambda>(value, r). (AnalogOutputFactory_From (vs_value value) (vs_status value), r)) (Group41Var4_Read E buff)"

definition ConvertGroup41Var4 :: "le_lib \<Rightarrow> double AnalogOutput \<Rightarrow> Group41Var4" where
  "ConvertGroup41Var4 E = ConvertQS"

definition Group41Var4_WriteTarget :: "le_lib \<Rightarrow> double AnalogOutput \<Rightarrow> byte list" where
  "Group41Var4_WriteTarget E value = Group41Var4_Write E (ConvertGroup41Var4 E value)"

definition Group41Var4_Inst :: "le_lib \<Rightarrow> double AnalogOutput DNP3Serializer" where
  "Group41Var4_Inst E =
     \<lparr>ser_id = \<lparr>id_group = 41, id_variation = 4\<rparr>, ser_size = Group41Var4_Size, ser_read = Group41Var4_ReadTarget E, ser_write = Group41Var4_WriteTarget E\<rparr>"

section \<open>Group42Var1\<close>

type_synonym Group42Var1 = "u32 obj_QV"

definition Group42Var1_Read :: "le_lib \<Rightarrow> byte list \<Rightarrow> (Group42Var1 \<times> byte list) option" where
  "Group42Var1_Read E = LE_read2 UInt8 (lib_i32 E) (\<lambda>a b. \<lparr>o_flags = a, qv_value = b\<rparr>)"

definition Group42Var1_Write :: "le_lib \<Rightarrow> Group42Var1 \<Rightarrow> byte list" where
  "Group42Var1_Write E arg = c_put UInt8 (o_flags arg) @ c_put (lib_i32 E) (qv_value arg)"

definition Group42Var1_ReadTarget :: "le_lib \<Rightarrow> byte list \<Rightarrow> (AnalogOutputStatus \<times> byte list) option" where
  "Group42Var1_ReadTarget E buff = map_option (\<lambda>(value, r). (AnalogOutputStatusFactory_From (o_flags value) (double_of_int (sint (qv_value value))), r)) (Group42Var1_Read E buff)"

definition ConvertGroup42Var1 :: "le_lib \<Rightarrow> AnalogOutputStatus \<Rightarrow> Group42Var1" where
  "ConvertGroup42Var1 E = ConvertQVRangeCheck (DownSampling_int32 (undef_cast E)) 0x20"

definition Group42Var1_WriteTarget :: "le_lib \<Rightarrow> AnalogOutputStatus \<Rightarrow> byte list" where
  "Group42Var1_WriteTarget E value = Group42Var1_Write E (ConvertGroup42Var1 E value)"

definition Group42Var1_Inst :: "le_lib \<Rightarrow> AnalogOutputStatus DNP3Serializer" where
  "Group42Var1_Inst E =
     \<lparr>ser_id = \<lparr>id_group = 42, id_variation = 1\<rparr>, ser_size = Group42Var1_Size, ser_read = Group42Var1_ReadTarget E, ser_write = Group42Var1_WriteTarget E\<rparr>"

section \<open>Group42Var2\<close>

type_synonym Group42Var2 = "u16 obj_QV"

definition Group42Var2_Read :: "le_lib \<Rightarrow> byte list \<Rightarrow> (Group42Var2 \<times> byte list) option" where
  "Group42Var2_Read E = LE_read2 UInt8 (lib_i16 E) (\<lambda>a b. \<lparr>o_flags = a, qv_value = b\<rparr>)"

definition Group42Var2_Write :: "le_lib \<Rightarrow> Group42Var2 \<Rightarrow> byte list" where
  "Group42Var2_Write E arg = c_put UInt8 (o_flags arg) @ c_put (lib_i16 E) (qv_value arg)"

definition Group42Var2_ReadTarget :: "le_lib \<Rightarrow> byte list \<Rightarrow> (AnalogOutputStatus \<times> byte list) option" where
  "Group42Var2_ReadTarget E buff = map_option (\<lambda>(value, r). (AnalogOutputStatusFactory_From (o_flags value) (double_of_int (sint (qv_value value))), r)) (Group42Var2_Read E buff)"

definition ConvertGroup42Var2 :: "le_lib \<Rightarrow> AnalogOutputStatus \<Rightarrow> Group42Var2" where
  "ConvertGroup42Var2 E = ConvertQVRangeCheck (DownSampling_int16 (undef_cast E)) 0x20"

definition Group42Var2_WriteTarget :: "le_lib \<Rightarrow> AnalogOutputStatus \<Rightarrow> byte list" where
  "Group42Var2_WriteTarget E value = Group42Var2_Write E (ConvertGroup42Var2 E value)"

definition Group42Var2_Inst :: "le_lib \<Rightarrow> AnalogOutputStatus DNP3Serializer" where
  "Group42Var2_Inst E =
     \<lparr>ser_id = \<lparr>id_group = 42, id_variation = 2\<rparr>, ser_size = Group42Var2_Size, ser_read = Group42Var2_ReadTarget E, ser_write = Group42Var2_WriteTarget E\<rparr>"

section \<open>Group42Var3\<close>

type_synonym Group42Var3 = "u32 obj_QVT"

definition Group42Var3_Read :: "le_lib \<Rightarrow> byte list \<Rightarrow> (Group42Var3 \<times> byte list) option" where
  "Group42Var3_Read E = LE_read3 UInt8 (lib_i32 E) (time_codec E) (\<lambda>a b c. \<lparr>o_flags = a, qv_value = b, qvt_time = c\<rparr>)"

definition Group42Var3_Write :: "le_lib \<Rightarrow> Group42Var3 \<Rightarrow> byte list" where
  "Group42Var3_Write E arg = c_put UInt8 (o_flags arg) @ c_put (lib_i32 E) (qv_value arg) @ c_put (time_codec E) (qvt_time arg)"

definition Group42Var3_ReadTarget :: "le_lib \<Rightarrow> byte list \<Rightarrow> (AnalogOutputStatus \<times> byte list) option" where
  "Group42Var3_ReadTarget E buff = map_option (\<lambda>(value, r). (AnalogOutputStatusFactory_From_time (o_flags value) (double_of_int (sint (qv_value value))) (qvt_time value), r)) (Group42Var3_Read E buff)"

definition ConvertGroup42Var3 :: "le_lib \<Rightarrow> AnalogOutputStatus \<Rightarrow> Group42Var3" where
  "ConvertGroup42Var3 E = ConvertQVTRangeCheck (DownSampling_int32 (undef_cast E)) 0x20"

definition Group42Var3_WriteTarget :: "le_lib \<Rightarrow> AnalogOutputStatus \<Rightarrow> byte list" where
  "Group42Var3_WriteTarget E value = Group42Var3_Write E (ConvertGroup42Var3 E value)"

definition Group42Var3_Inst :: "le_lib \<Rightarrow> AnalogOutputStatus DNP3Serializer" where
  "Group42Var3_Inst E =
     \<lparr>ser_id = \<lparr>id_group = 42, id_variation = 3\<rparr>, ser_size = Group42Var3_Size, ser_read = Group42Var3_ReadTarget E, ser_write = Group42Var3_WriteTarget E\<rparr>"

section \<open>Group42Var4\<close>

type_synonym Group42Var4 = "u16 obj_QVT"

definition Group42Var4_Read :: "le_lib \<Rightarrow> byte list \<Rightarrow> (Group42Var4 \<times> byte list) option" where
  "Group42Var4_Read E = LE_read3 UInt8 (lib_i16 E) (time_codec E) (\<lambda>a b c. \<lparr>o_flags = a, qv_value = b, qvt_time = c\<rparr>)"

definition Group42Var4_Write :: "le_lib \<Rightarrow> Group42Var4 \<Rightarrow> byte list" where
  "Group42Var4_Write E arg = c_put UInt8 (o_flags arg) @ c_put (lib_i16 E) (qv_value arg) @ c_put (time_codec E) (qvt_time arg)"

definition Group42Var4_ReadTarget :: "le_lib \<Rightarrow> byte list \<Rightarrow> (AnalogOutputStatus \<times> byte list) option" where
  "Group42Var4_ReadTarget E buff = map_option (\<lambda>(value, r). (AnalogOutputStatusFactory_From_time (o_flags value) (double_of_int (sint (qv_value value))) (qvt_time value), r)) (Group42Var4_Read E buff)"

definition ConvertGroup42Var4 :: "le_lib \<Rightarrow> AnalogOutputStatus \<Rightarrow> Group42Var4" where
  "ConvertGroup42Var4 E = ConvertQVTRangeCheck (DownSampling_int16 (undef_cast E)) 0x20"

definition Group42Var4_WriteTarget :: "le_lib \<Rightarrow> AnalogOutputStatus \<Rightarrow> byte list" where
  "Group42Var4_WriteTarget E value = Group42Var4_Write E (ConvertGroup42Var4 E value)"

definition Group42Var4_Inst :: "le_lib \<Rightarrow> AnalogOutputStatus DNP3Serializer" where
  "Group42Var4_Inst E =
     \<lparr>ser_id = \<lparr>id_group = 42, id_variation = 4\<rparr>, ser_size = Group42Var4_Size, ser_read = Group42Var4_ReadTarget E, ser_write = Group42Var4_WriteTarget E\<rparr>"

section \<open>Group42Var5\<close>

type_synonym Group42Var5 = "u32 obj_QV"

definition Group42Var5_Read :: "le_lib \<Rightarrow> byte list \<Rightarrow> (Group42Var5 \<times> byte list) option" where
  "Group42Var5_Read E = LE_read2 UInt8 (lib_f32 E) (\<lambda>a b. \<lparr>o_flags = a, qv_value = b\<rparr>)"

definition Group42Var5_Write :: "le_lib \<Rightarrow> Group42Var5 \<Rightarrow> byte list" where
  "Group42Var5_Write E arg = c_put UInt8 (o_flags arg) @ c_put (lib_f32 E) (qv_value arg)"

definition Group42Var5_ReadTarget :: "le_lib \<Rightarrow> byte list \<Rightarrow> (AnalogOutputStatus \<times> byte list) option" where
  "Group42Var5_ReadTarget E buff = map_option (\<lambda>(value, r). (AnalogOutputStatusFactory_From (o_flags value) (double_of_float_bits (qv_value value)), r)) (Group42Var5_Read E buff)"

definition ConvertGroup42Var5 :: "le_lib \<Rightarrow> AnalogOutputStatus \<Rightarrow> Group42Var5" where
  "ConvertGroup42Var5 E = ConvertQVRangeCheck DownSampling_float 0x20"

definition Group42Var5_WriteTarget :: "le_lib \<Rightarrow> AnalogOutputStatus \<Rightarrow> byte list" where
  "Group42Var5_WriteTarget E value = Group42Var5_Write E (ConvertGroup42Var5 E value)"

definition Group42Var5_Inst :: "le_lib \<Rightarrow> AnalogOutputStatus DNP3Serializer" where
  "Group42Var5_Inst E =
     \<lparr>ser_id = \<lparr>id_group = 42, id_variation = 5\<rparr>, ser_size = Group42Var5_Size, ser_read = Group42Var5_ReadTarget E, ser_write = Group42Var5_WriteTarget E\<rparr>"

section \<open>Group42Var6\<close>

type_synonym Group42Var6 = "double obj_QV"

definition Group42Var6_Read :: "le_lib \<Rightarrow> byte list \<Rightarrow> (Group42Var6 \<times> byte list) option" where
  "Group42Var6_Read E = LE_read2 UInt8 (lib_f64 E) (\<lambda>a b. \<lparr>o_flags = a, qv_value = b\<rparr>)"

definition Group42Var6_Write :: "le_lib \<Rightarrow> Group42Var6 \<Rightarrow> byte list" where
  "Group42Var6_Write E arg = c_put UInt8 (o_flags arg) @ c_put (lib_f64 E) (qv_value arg)"

definition Group42Var6_ReadTarget :: "le_lib \<Rightarrow> byte list \<Rightarrow> (AnalogOutputStatus \<times> byte list) option" where
  "Group42Var6_ReadTarget E buff = map_option (\<lambda>(value, r). (AnalogOutputStatusFactory_From (o_flags value) (qv_value value), r)) (Group42Var6_Read E buff)"

definition ConvertGroup42Var6 :: "le_lib \<Rightarrow> AnalogOutputStatus \<Rightarrow> Group42Var6" where
  "ConvertGroup42Var6 E = ConvertQV"

definition Group42Var6_WriteTarget :: "le_lib \<Rightarrow> AnalogOutputStatus \<Rightarrow> byte list" where
  "Group42Var6_WriteTarget E value = Group42Var6_Write E (ConvertGroup42Var6 E value)"

definition Group42Var6_Inst :: "le_lib \<Rightarrow> AnalogOutputStatus DNP3Serializer" where
  "Group42Var6_Inst E =
     \<lparr>ser_id = \<lparr>id_group = 42, id_variation = 6\<rparr>, ser_size = Group42Var6_Size, ser_read = Group42Var6_ReadTarget E, ser_write = Group42Var6_WriteTarget E\<rparr>"

section \<open>Group42Var7\<close>

type_synonym Group42Var7 = "u32 obj_QVT"

definition Group42Var7_Read :: "le_lib \<Rightarrow> byte list \<Rightarrow> (Group42Var7 \<times> byte list) option" where
  "Group42Var7_Read E = LE_read3 UInt8 (lib_f32 E) (time_codec E) (\<lambda>a b c. \<lparr>o_flags = a, qv_value = b, qvt_time = c\<rparr>)"

definition Group42Var7_Write :: "le_lib \<Rightarrow> Group42Var7 \<Rightarrow> byte list" where
  "Group42Var7_Write E arg = c_put UInt8 (o_flags arg) @ c_put (lib_f32 E) (qv_value arg) @ c_put (time_codec E) (qvt_time arg)"

definition Group42Var7_ReadTarget :: "le_lib \<Rightarrow> byte list \<Rightarrow> (AnalogOutputStatus \<times> byte list) option" where
  "Group42Var7_ReadTarget E buff = map_option (\<lambda>(value, r). (AnalogOutputStatusFactory_From_time (o_flags value) (double_of_float_bits (qv_value value)) (qvt_time value), r)) (Group42Var7_Read E buff)"

definition ConvertGroup42Var7 :: "le_lib \<Rightarrow> AnalogOutputStatus \<Rightarrow> Group42Var7" where
  "ConvertGroup42Var7 E = ConvertQVTRangeCheck DownSampling_float 0x20"

definition Group42Var7_WriteTarget :: "le_lib \<Rightarrow> AnalogOutputStatus \<Rightarrow> byte list" where
  "Group42Var7_WriteTarget E value = Group42Var7_Write E (ConvertGroup42Var7 E value)"

definition Group42Var7_Inst :: "le_lib \<Rightarrow> AnalogOutputStatus DNP3Serializer" where
  "Group42Var7_Inst E =
     \<lparr>ser_id = \<lparr>id_group = 42, id_variation = 7\<rparr>, ser_size = Group42Var7_Size, ser_read = Group42Var7_ReadTarget E, ser_write = Group42Var7_WriteTarget E\<rparr>"

section \<open>Group42Var8\<close>

type_synonym Group42Var8 = "double obj_QVT"

definition Group42Var8_Read :: "le_lib \<Rightarrow> byte list \<Rightarrow> (Group42Var8 \<times> byte list) option" where
  "Group42Var8_Read E = LE_read3 UInt8 (lib_f64 E) (time_codec E) (\<lambda>a b c. \<lparr>o_flags = a, qv_value = b, qvt_time = c\<rparr>)"

definition Group42Var8_Write :: "le_lib \<Rightarrow> Group42Var8 \<Rightarrow> byte list" where
  "Group42Var8_Write E arg = c_put UInt8 (o_flags arg) @ c_put (lib_f64 E) (qv_value arg) @ c_put (time_codec E) (qvt_time arg)"

definition Group42Var8_ReadTarget :: "le_lib \<Rightarrow> byte list \<Rightarrow> (AnalogOutputStatus \<times> byte list) option" where
  "Group42Var8_ReadTarget E buff = map_option (\<lambda>(value, r). (AnalogOutputStatusFactory_From_time (o_flags value) (qv_value value) (qvt_time value), r)) (Group42Var8_Read E buff)"

definition ConvertGroup42Var8 :: "le_lib \<Rightarrow> AnalogOutputStatus \<Rightarrow> Group42Var8" where
  "ConvertGroup42Var8 E = ConvertQVT"

definition Group42Var8_WriteTarget :: "le_lib \<Rightarrow> AnalogOutputStatus \<Rightarrow> byte list" where
  "Group42Var8_WriteTarget E value = Group42Var8_Write E (ConvertGroup42Var8 E value)"

definition Group42Var8_Inst :: "le_lib \<Rightarrow> AnalogOutputStatus DNP3Serializer" where
  "Group42Var8_Inst E =
     \<lparr>ser_id = \<lparr>id_group = 42, id_variation = 8\<rparr>, ser_size = Group42Var8_Size, ser_read = Group42Var8_ReadTarget E, ser_write = Group42Var8_WriteTarget E\<rparr>"

section \<open>Group43Var1\<close>

type_synonym Group43Var1 = "u32 obj_SV"

definition Group43Var1_Read :: "le_lib \<Rightarrow> byte list \<Rightarrow> (Group43Var1 \<times> byte list) option" where
  "Group43Var1_Read E = LE_read2 UInt8 (lib_i32 E) (\<lambda>a b. \<lparr>sv_status = a, sv_value = b\<rparr>)"

definition Group43Var1_Write :: "le_lib \<Rightarrow> Group43Var1 \<Rightarrow> byte list" where
  "Group43Var1_Write E arg = c_put UInt8 (sv_status arg) @ c_put (lib_i32 E) (sv_value arg)"

definition Group43Var1_ReadTarget :: "le_lib \<Rightarrow> byte list \<Rightarrow> (AnalogCommandEvent \<times> byte list) option" where
  "Group43Var1_ReadTarget E buff = map_option (\<lambda>(value, r). (AnalogCommandEventFactory_From (sv_status value) (double_of_int (sint (sv_value value))), r)) (Group43Var1_Read E buff)"

definition ConvertGroup43Var1 :: "le_lib \<Rightarrow> AnalogCommandEvent \<Rightarrow> Group43Var1" where
  "ConvertGroup43Var1 E src = \<lparr>sv_status = CommandStatus_to_type (ace_status src), sv_value = snd ((DownSampling_int32 (undef_cast E)) (ace_value src))\<rparr>"

definition Group43Var1_WriteTarget :: "le_lib \<Rightarrow> AnalogCommandEvent \<Rightarrow> byte list" where
  "Group43Var1_WriteTarget E value = Group43Var1_Write E (ConvertGroup43Var1 E value)"

definition Group43Var1_Inst :: "le_lib \<Rightarrow> AnalogCommandEvent DNP3Serializer" where
  "Group43Var1_Inst E =
     \<lparr>ser_id = \<lparr>id_group = 43, id_variation = 1\<rparr>, ser_size = Group43Var1_Size, ser_read = Group43Var1_ReadTarget E, ser_write = Group43Var1_WriteTarget E\<rparr>"

section \<open>Group43Var2\<close>

type_synonym Group43Var2 = "u16 obj_SV"

definition Group43Var2_Read :: "le_lib \<Rightarrow> byte list \<Rightarrow> (Group43Var2 \<times> byte list) option" where
  "Group43Var2_Read E = LE_read2 UInt8 (lib_i16 E) (\<lambda>a b. \<lparr>sv_status = a, sv_value = b\<rparr>)"

definition Group43Var2_Write :: "le_lib \<Rightarrow> Group43Var2 \<Rightarrow> byte list" where
  "Group43Var2_Write E arg = c_put UInt8 (sv_status arg) @ c_put (lib_i16 E) (sv_value arg)"

definition Group43Var2_ReadTarget :: "le_lib \<Rightarrow> byte list \<Rightarrow> (AnalogCommandEvent \<times> byte list) option" where
  "Group43Var2_ReadTarget E buff = map_option (\<lambda>(value, r). (AnalogCommandEventFactory_From (sv_status value) (double_of_int (sint (sv_value value))), r)) (Group43Var2_Read E buff)"

definition ConvertGroup43Var2 :: "le_lib \<Rightarrow> AnalogCommandEvent \<Rightarrow> Group43Var2" where
  "ConvertGroup43Var2 E src = \<lparr>sv_status = CommandStatus_to_type (ace_status src), sv_value = snd ((DownSampling_int16 (undef_cast E)) (ace_value src))\<rparr>"

definition Group43Var2_WriteTarget :: "le_lib \<Rightarrow> AnalogCommandEvent \<Rightarrow> byte list" where
  "Group43Var2_WriteTarget E value = Group43Var2_Write E (ConvertGroup43Var2 E value)"

definition Group43Var2_Inst :: "le_lib \<Rightarrow> AnalogCommandEvent DNP3Serializer" where
  "Group43Var2_Inst E =
     \<lparr>ser_id = \<lparr>id_group = 43, id_variation = 2\<rparr>, ser_size = Group43Var2_Size, ser_read = Group43Var2_ReadTarget E, ser_write = Group43Var2_WriteTarget E\<rparr>"

section \<open>Group43Var3\<close>

type_synonym Group43Var3 = "u32 obj_SVT"

definition Group43Var3_Read :: "le_lib \<Rightarrow> byte list \<Rightarrow> (Group43Var3 \<times> byte list) option" where
  "Group43Var3_Read E = LE_read3 UInt8 (lib_i32 E) (time_codec E) (\<lambda>a b c. \<lparr>sv_status = a, sv_value = b, svt_time = c\<rparr>)"

definition Group43Var3_Write :: "le_lib \<Rightarrow> Group43Var3 \<Rightarrow> byte list" where
  "Group43Var3_Write E arg = c_put UInt8 (sv_status arg) @ c_put (lib_i32 E) (sv_value arg) @ c_put (time_codec E) (svt_time arg)"

definition Group43Var3_ReadTarget :: "le_lib \<Rightarrow> byte list \<Rightarrow> (AnalogCommandEvent \<times> byte list) option" where
  "Group43Var3_ReadTarget E buff = map_option (\<lambda>(value, r). (AnalogCommandEventFactory_From_time (sv_status value) (double_of_int (sint (sv_value value))) (svt_time value), r)) (Group43Var3_Read E buff)"

definition ConvertGroup43Var3 :: "le_lib \<Rightarrow> AnalogCommandEvent \<Rightarrow> Group43Var3" where
  "ConvertGroup43Var3 E src = \<lparr>sv_status = CommandStatus_to_type (ace_status src), sv_value = snd ((DownSampling_int32 (undef_cast E)) (ace_value src)), svt_time = ace_time src\<rparr>"

definition Group43Var3_WriteTarget :: "le_lib \<Rightarrow> AnalogCommandEvent \<Rightarrow> byte list" where
  "Group43Var3_WriteTarget E value = Group43Var3_Write E (ConvertGroup43Var3 E value)"

definition Group43Var3_Inst :: "le_lib \<Rightarrow> AnalogCommandEvent DNP3Serializer" where
  "Group43Var3_Inst E =
     \<lparr>ser_id = \<lparr>id_group = 43, id_variation = 3\<rparr>, ser_size = Group43Var3_Size, ser_read = Group43Var3_ReadTarget E, ser_write = Group43Var3_WriteTarget E\<rparr>"

section \<open>Group43Var4\<close>

type_synonym Group43Var4 = "u16 obj_SVT"

definition Group43Var4_Read :: "le_lib \<Rightarrow> byte list \<Rightarrow> (Group43Var4 \<times> byte list) option" where
  "Group43Var4_Read E = LE_read3 UInt8 (lib_i16 E) (time_codec E) (\<lambda>a b c. \<lparr>sv_status = a, sv_value = b, svt_time = c\<rparr>)"

definition Group43Var4_Write :: "le_lib \<Rightarrow> Group43Var4 \<Rightarrow> byte list" where
  "Group43Var4_Write E arg = c_put UInt8 (sv_status arg) @ c_put (lib_i16 E) (sv_value arg) @ c_put (time_codec E) (svt_time arg)"

definition Group43Var4_ReadTarget :: "le_lib \<Rightarrow> byte list \<Rightarrow> (AnalogCommandEvent \<times> byte list) option" where
  "Group43Var4_ReadTarget E buff = map_option (\<lambda>(value, r). (AnalogCommandEventFactory_From_time (sv_status value) (double_of_int (sint (sv_value value))) (svt_time value), r)) (Group43Var4_Read E buff)"

definition ConvertGroup43Var4 :: "le_lib \<Rightarrow> AnalogCommandEvent \<Rightarrow> Group43Var4" where
  "ConvertGroup43Var4 E src = \<lparr>sv_status = CommandStatus_to_type (ace_status src), sv_value = snd ((DownSampling_int16 (undef_cast E)) (ace_value src)), svt_time = ace_time src\<rparr>"

definition Group43Var4_WriteTarget :: "le_lib \<Rightarrow> AnalogCommandEvent \<Rightarrow> byte list" where
  "Group43Var4_WriteTarget E value = Group43Var4_Write E (ConvertGroup43Var4 E value)"

definition Group43Var4_Inst :: "le_lib \<Rightarrow> AnalogCommandEvent DNP3Serializer" where
  "Group43Var4_Inst E =
     \<lparr>ser_id = \<lparr>id_group = 43, id_variation = 4\<rparr>, ser_size = Group43Var4_Size, ser_read = Group43Var4_ReadTarget E, ser_write = Group43Var4_WriteTarget E\<rparr>"

section \<open>Group43Var5\<close>

type_synonym Group43Var5 = "u32 obj_SV"

definition Group43Var5_Read :: "le_lib \<Rightarrow> byte list \<Rightarrow> (Group43Var5 \<times> byte list) option" where
  "Group43Var5_Read E = LE_read2 UInt8 (lib_f32 E) (\<lambda>a b. \<lparr>sv_status = a, sv_value = b\<rparr>)"

definition Group43Var5_Write :: "le_lib \<Rightarrow> Group43Var5 \<Rightarrow> byte list" where
  "Group43Var5_Write E arg = c_put UInt8 (sv_status arg) @ c_put (lib_f32 E) (sv_value arg)"

definition Group43Var5_ReadTarget :: "le_lib \<Rightarrow> byte list \<Rightarrow> (AnalogCommandEvent \<times> byte list) option" where
  "Group43Var5_ReadTarget E buff = map_option (\<lambda>(value, r). (AnalogCommandEventFactory_From (sv_status value) (double_of_float_bits (sv_value value)), r)) (Group43Var5_Read E buff)"

definition ConvertGroup43Var5 :: "le_lib \<Rightarrow> AnalogCommandEvent \<Rightarrow> Group43Var5" where
  "ConvertGroup43Var5 E src = \<lparr>sv_status = CommandStatus_to_type (ace_status src), sv_value = snd (DownSampling_float (ace_value src))\<rparr>"

definition Group43Var5_WriteTarget :: "le_lib \<Rightarrow> AnalogCommandEvent \<Rightarrow> byte list" where
  "Group43Var5_WriteTarget E value = Group43Var5_Write E (ConvertGroup43Var5 E value)"

definition Group43Var5_Inst :: "le_lib \<Rightarrow> AnalogCommandEvent DNP3Serializer" where
  "Group43Var5_Inst E =
     \<lparr>ser_id = \<lparr>id_group = 43, id_variation = 5\<rparr>, ser_size = Group43Var5_Size, ser_read = Group43Var5_ReadTarget E, ser_write = Group43Var5_WriteTarget E\<rparr>"

section \<open>Group43Var6\<close>

type_synonym Group43Var6 = "double obj_SV"

definition Group43Var6_Read :: "le_lib \<Rightarrow> byte list \<Rightarrow> (Group43Var6 \<times> byte list) option" where
  "Group43Var6_Read E = LE_read2 UInt8 (lib_f64 E) (\<lambda>a b. \<lparr>sv_status = a, sv_value = b\<rparr>)"

definition Group43Var6_Write :: "le_lib \<Rightarrow> Group43Var6 \<Rightarrow> byte list" where
  "Group43Var6_Write E arg = c_put UInt8 (sv_status arg) @ c_put (lib_f64 E) (sv_value arg)"

definition Group43Var6_ReadTarget :: "le_lib \<Rightarrow> byte list \<Rightarrow> (AnalogCommandEvent \<times> byte list) option" where
  "Group43Var6_ReadTarget E buff = map_option (\<lambda>(value, r). (AnalogCommandEventFactory_From (sv_status value) (sv_value value), r)) (Group43Var6_Read E buff)"

definition ConvertGroup43Var6 :: "le_lib \<Rightarrow> AnalogCommandEvent \<Rightarrow> Group43Var6" where
  "ConvertGroup43Var6 E src = \<lparr>sv_status = CommandStatus_to_type (ace_status src), sv_value = ace_value src\<rparr>"

definition Group43Var6_WriteTarget :: "le_lib \<Rightarrow> AnalogCommandEvent \<Rightarrow> byte list" where
  "Group43Var6_WriteTarget E value = Group43Var6_Write E (ConvertGroup43Var6 E value)"

definition Group43Var6_Inst :: "le_lib \<Rightarrow> AnalogCommandEvent DNP3Serializer" where
  "Group43Var6_Inst E =
     \<lparr>ser_id = \<lparr>id_group = 43, id_variation = 6\<rparr>, ser_size = Group43Var6_Size, ser_read = Group43Var6_ReadTarget E, ser_write = Group43Var6_WriteTarget E\<rparr>"

section \<open>Group43Var7\<close>

type_synonym Group43Var7 = "u32 obj_SVT"

definition Group43Var7_Read :: "le_lib \<Rightarrow> byte list \<Rightarrow> (Group43Var7 \<times> byte list) option" where
  "Group43Var7_Read E = LE_read3 UInt8 (lib_f32 E) (time_codec E) (\<lambda>a b c. \<lparr>sv_status = a, sv_value = b, svt_time = c\<rparr>)"

definition Group43Var7_Write :: "le_lib \<Rightarrow> Group43Var7 \<Rightarrow> byte list" where
  "Group43Var7_Write E arg = c_put UInt8 (sv_status arg) @ c_put (lib_f32 E) (sv_value arg) @ c_put (time_codec E) (svt_time arg)"

definition Group43Var7_ReadTarget :: "le_lib \<Rightarrow> byte list \<Rightarrow> (AnalogCommandEvent \<times> byte list) option" where
  "Group43Var7_ReadTarget E buff = map_option (\<lambda>(value, r). (AnalogCommandEventFactory_From_time (sv_status value) (double_of_float_bits (sv_value value)) (svt_time value), r)) (Group43Var7_Read E buff)"

definition ConvertGroup43Var7 :: "le_lib \<Rightarrow> AnalogCommandEvent \<Rightarrow> Group43Var7" where
  "ConvertGroup43Var7 E src = \<lparr>sv_status = CommandStatus_to_type (ace_status src), sv_value = snd (DownSampling_float (ace_value src)), svt_time = ace_time src\<rparr>"

definition Group43Var7_WriteTarget :: "le_lib \<Rightarrow> AnalogCommandEvent \<Rightarrow> byte list" where
  "Group43Var7_WriteTarget E value = Group43Var7_Write E (ConvertGroup43Var7 E value)"

definition Group43Var7_Inst :: "le_lib \<Rightarrow> AnalogCommandEvent DNP3Serializer" where
  "Group43Var7_Inst E =
     \<lparr>ser_id = \<lparr>id_group = 43, id_variation = 7\<rparr>, ser_size = Group43Var7_Size, ser_read = Group43Var7_ReadTarget E, ser_write = Group43Var7_WriteTarget E\<rparr>"

section \<open>Group43Var8\<close>

type_synonym Group43Var8 = "double obj_SVT"

definition Group43Var8_Read :: "le_lib \<Rightarrow> byte list \<Rightarrow> (Group43Var8 \<times> byte list) option" where
  "Group43Var8_Read E = LE_read3 UInt8 (lib_f64 E) (time_codec E) (\<lambda>a b c. \<lparr>sv_status = a, sv_value = b, svt_time = c\<rparr>)"

definition Group43Var8_Write :: "le_lib \<Rightarrow> Group43Var8 \<Rightarrow> byte list" where
  "Group43Var8_Write E arg = c_put UInt8 (sv_status arg) @ c_put (lib_f64 E) (sv_value arg) @ c_put (time_codec E) (svt_time arg)"

definition Group43Var8_ReadTarget :: "le_lib \<Rightarrow> byte list \<Rightarrow> (AnalogCommandEvent \<times> byte list) option" where
  "Group43Var8_ReadTarget E buff = map_option (\<lambda>(value, r). (AnalogCommandEventFactory_From_time (sv_status value) (sv_value value) (svt_time value), r)) (Group43Var8_Read E buff)"

definition ConvertGroup43Var8 :: "le_lib \<Rightarrow> AnalogCommandEvent \<Rightarrow> Group43Var8" where
  "ConvertGroup43Var8 E src = \<lparr>sv_status = CommandStatus_to_type (ace_status src), sv_value = ace_value src, svt_time = ace_time src\<rparr>"

definition Group43Var8_WriteTarget :: "le_lib \<Rightarrow> AnalogCommandEvent \<Rightarrow> byte list" where
  "Group43Var8_WriteTarget E value = Group43Var8_Write E (ConvertGroup43Var8 E value)"

definition Group43Var8_Inst :: "le_lib \<Rightarrow> AnalogCommandEvent DNP3Serializer" where
  "Group43Var8_Inst E =
     \<lparr>ser_id = \<lparr>id_group = 43, id_variation = 8\<rparr>, ser_size = Group43Var8_Size, ser_read = Group43Var8_ReadTarget E, ser_write = Group43Var8_WriteTarget E\<rparr>"

section \<open>Group50Var1\<close>

type_synonym Group50Var1 = "obj_T"

definition Group50Var1_Read :: "le_lib \<Rightarrow> byte list \<Rightarrow> (Group50Var1 \<times> byte list) option" where
  "Group50Var1_Read E = LE_read1 (time_codec E) (\<lambda>a. \<lparr>o_time = a\<rparr>)"

definition Group50Var1_Write :: "le_lib \<Rightarrow> Group50Var1 \<Rightarrow> byte list" where
  "Group50Var1_Write E arg = c_put (time_codec E) (o_time arg)"

section \<open>Group50Var3\<close>

type_synonym Group50Var3 = "obj_T"

definition Group50Var3_Read :: "le_lib \<Rightarrow> byte list \<Rightarrow> (Group50Var3 \<times> byte list) option" where
  "Group50Var3_Read E = LE_read1 (time_codec E) (\<lambda>a. \<lparr>o_time = a\<rparr>)"

definition Group50Var3_Write :: "le_lib \<Rightarrow> Group50Var3 \<Rightarrow> byte list" where
  "Group50Var3_Write E arg = c_put (time_codec E) (o_time arg)"

section \<open>Group50Var4\<close>

type_synonym Group50Var4 = "obj_TIU"

definition Group50Var4_Read :: "le_lib \<Rightarrow> byte list \<Rightarrow> (Group50Var4 \<times> byte list) option" where
  "Group50Var4_Read E = LE_read3 (time_codec E) (lib_u32 E) UInt8 (\<lambda>a b c. \<lparr>tiu_time = a, tiu_interval = b, tiu_units = c\<rparr>)"

definition Group50Var4_Write :: "le_lib \<Rightarrow> Group50Var4 \<Rightarrow> byte list" where
  "Group50Var4_Write E arg = c_put (time_codec E) (tiu_time arg) @ c_put (lib_u32 E) (tiu_interval arg) @ c_put UInt8 (tiu_units arg)"

definition Group50Var4_ReadTarget :: "le_lib \<Rightarrow> byte list \<Rightarrow> (TimeAndInterval \<times> byte list) option" where
  "Group50Var4_ReadTarget E buff = map_option (\<lambda>(value, r). (TimeAndIntervalFactory_From (tiu_time value) (tiu_interval value) (tiu_units value), r)) (Group50Var4_Read E buff)"

definition ConvertGroup50Var4 :: "le_lib \<Rightarrow> TimeAndInterval \<Rightarrow> Group50Var4" where
  "ConvertGroup50Var4 E src = \<lparr>tiu_time = tai_time src, tiu_interval = tai_interval src, tiu_units = tai_units src\<rparr>"

definition Group50Var4_WriteTarget :: "le_lib \<Rightarrow> TimeAndInterval \<Rightarrow> byte list" where
  "Group50Var4_WriteTarget E value = Group50Var4_Write E (ConvertGroup50Var4 E value)"

definition Group50Var4_Inst :: "le_lib \<Rightarrow> TimeAndInterval DNP3Serializer" where
  "Group50Var4_Inst E =
     \<lparr>ser_id = \<lparr>id_group = 50, id_variation = 4\<rparr>, ser_size = Group50Var4_Size, ser_read = Group50Var4_ReadTarget E, ser_write = Group50Var4_WriteTarget E\<rparr>"

section \<open>Group51Var1\<close>

type_synonym Group51Var1 = "obj_T"

definition Group51Var1_Read :: "le_lib \<Rightarrow> byte list \<Rightarrow> (Group51Var1 \<times> byte list) option" where
  "Group51Var1_Read E = LE_read1 (time_codec E) (\<lambda>a. \<lparr>o_time = a\<rparr>)"

definition Group51Var1_Write :: "le_lib \<Rightarrow> Group51Var1 \<Rightarrow> byte list" where
  "Group51Var1_Write E arg = c_put (time_codec E) (o_time arg)"

section \<open>Group51Var2\<close>

type_synonym Group51Var2 = "obj_T"

definition Group51Var2_Read :: "le_lib \<Rightarrow> byte list \<Rightarrow> (Group51Var2 \<times> byte list) option" where
  "Group51Var2_Read E = LE_read1 (time_codec E) (\<lambda>a. \<lparr>o_time = a\<rparr>)"

definition Group51Var2_Write :: "le_lib \<Rightarrow> Group51Var2 \<Rightarrow> byte list" where
  "Group51Var2_Write E arg = c_put (time_codec E) (o_time arg)"

section \<open>Group52Var1\<close>

type_synonym Group52Var1 = "obj_T16"

definition Group52Var1_Read :: "le_lib \<Rightarrow> byte list \<Rightarrow> (Group52Var1 \<times> byte list) option" where
  "Group52Var1_Read E = LE_read1 (UInt16 (lib_u16 E)) (\<lambda>a. \<lparr>o_time16 = a\<rparr>)"

definition Group52Var1_Write :: "le_lib \<Rightarrow> Group52Var1 \<Rightarrow> byte list" where
  "Group52Var1_Write E arg = c_put (UInt16 (lib_u16 E)) (o_time16 arg)"

section \<open>Group52Var2\<close>

type_synonym Group52Var2 = "obj_T16"

definition Group52Var2_Read :: "le_lib \<Rightarrow> byte list \<Rightarrow> (Group52Var2 \<times> byte list) option" where
  "Group52Var2_Read E = LE_read1 (UInt16 (lib_u16 E)) (\<lambda>a. \<lparr>o_time16 = a\<rparr>)"

definition Group52Var2_Write :: "le_lib \<Rightarrow> Group52Var2 \<Rightarrow> byte list" where
  "Group52Var2_Write E arg = c_put (UInt16 (lib_u16 E)) (o_time16 arg)"

section \<open>Laws of all objects\<close>

lemmas Read_defs =
  Group1Var2_Read_def Group2Var1_Read_def Group2Var2_Read_def Group2Var3_Read_def Group3Var2_Read_def Group4Var1_Read_def
  Group4Var2_Read_def Group4Var3_Read_def Group10Var2_Read_def Group11Var1_Read_def Group11Var2_Read_def Group12Var1_Read_def
  Group13Var1_Read_def Group13Var2_Read_def Group20Var1_Read_def Group20Var2_Read_def Group20Var5_Read_def Group20Var6_Read_def
  Group21Var1_Read_def Group21Var2_Read_def Group21Var5_Read_def Group21Var6_Read_def Group21Var9_Read_def Group21Var10_Read_def
  Group22Var1_Read_def Group22Var2_Read_def Group22Var5_Read_def Group22Var6_Read_def Group23Var1_Read_def Group23Var2_Read_def
  Group23Var5_Read_def Group23Var6_Read_def Group30Var1_Read_def Group30Var2_Read_def Group30Var3_Read_def Group30Var4_Read_def
  Group30Var5_Read_def Group30Var6_Read_def Group32Var1_Read_def Group32Var2_Read_def Group32Var3_Read_def Group32Var4_Read_def
  Group32Var5_Read_def Group32Var6_Read_def Group32Var7_Read_def Group32Var8_Read_def Group40Var1_Read_def Group40Var2_Read_def
  Group40Var3_Read_def Group40Var4_Read_def Group41Var1_Read_def Group41Var2_Read_def Group41Var3_Read_def Group41Var4_Read_def
  Group42Var1_Read_def Group42Var2_Read_def Group42Var3_Read_def Group42Var4_Read_def Group42Var5_Read_def Group42Var6_Read_def
  Group42Var7_Read_def Group42Var8_Read_def Group43Var1_Read_def Group43Var2_Read_def Group43Var3_Read_def Group43Var4_Read_def
  Group43Var5_Read_def Group43Var6_Read_def Group43Var7_Read_def Group43Var8_Read_def Group50Var1_Read_def Group50Var3_Read_def
  Group50Var4_Read_def Group51Var1_Read_def Group51Var2_Read_def Group52Var1_Read_def Group52Var2_Read_def

lemmas Write_defs =
  Group1Var2_Write_def Group2Var1_Write_def Group2Var2_Write_def Group2Var3_Write_def Group3Var2_Write_def Group4Var1_Write_def
  Group4Var2_Write_def Group4Var3_Write_def Group10Var2_Write_def Group11Var1_Write_def Group11Var2_Write_def Group12Var1_Write_def
  Group13Var1_Write_def Group13Var2_Write_def Group20Var1_Write_def Group20Var2_Write_def Group20Var5_Write_def Group20Var6_Write_def
  Group21Var1_Write_def Group21Var2_Write_def Group21Var5_Write_def Group21Var6_Write_def Group21Var9_Write_def Group21Var10_Write_def
  Group22Var1_Write_def Group22Var2_Write_def Group22Var5_Write_def Group22Var6_Write_def Group23Var1_Write_def Group23Var2_Write_def
  Group23Var5_Write_def Group23Var6_Write_def Group30Var1_Write_def Group30Var2_Write_def Group30Var3_Write_def Group30Var4_Write_def
  Group30Var5_Write_def Group30Var6_Write_def Group32Var1_Write_def Group32Var2_Write_def Group32Var3_Write_def Group32Var4_Write_def
  Group32Var5_Write_def Group32Var6_Write_def Group32Var7_Write_def Group32Var8_Write_def Group40Var1_Write_def Group40Var2_Write_def
  Group40Var3_Write_def Group40Var4_Write_def Group41Var1_Write_def Group41Var2_Write_def Group41Var3_Write_def Group41Var4_Write_def
  Group42Var1_Write_def Group42Var2_Write_def Group42Var3_Write_def Group42Var4_Write_def Group42Var5_Write_def Group42Var6_Write_def
  Group42Var7_Write_def Group42Var8_Write_def Group43Var1_Write_def Group43Var2_Write_def Group43Var3_Write_def Group43Var4_Write_def
  Group43Var5_Write_def Group43Var6_Write_def Group43Var7_Write_def Group43Var8_Write_def Group50Var1_Write_def Group50Var3_Write_def
  Group50Var4_Write_def Group51Var1_Write_def Group51Var2_Write_def Group52Var1_Write_def Group52Var2_Write_def

lemmas ReadTarget_defs =
  Group1Var2_ReadTarget_def Group2Var1_ReadTarget_def Group2Var2_ReadTarget_def Group2Var3_ReadTarget_def Group3Var2_ReadTarget_def Group4Var1_ReadTarget_def
  Group4Var2_ReadTarget_def Group4Var3_ReadTarget_def Group10Var2_ReadTarget_def Group11Var1_ReadTarget_def Group11Var2_ReadTarget_def Group12Var1_ReadTarget_def
  Group13Var1_ReadTarget_def Group13Var2_ReadTarget_def Group20Var1_ReadTarget_def Group20Var2_ReadTarget_def Group20Var5_ReadTarget_def Group20Var6_ReadTarget_def
  Group21Var1_ReadTarget_def Group21Var2_ReadTarget_def Group21Var5_ReadTarget_def Group21Var6_ReadTarget_def Group21Var9_ReadTarget_def Group21Var10_ReadTarget_def
  Group22Var1_ReadTarget_def Group22Var2_ReadTarget_def Group22Var5_ReadTarget_def Group22Var6_ReadTarget_def Group23Var1_ReadTarget_def Group23Var2_ReadTarget_def
  Group23Var5_ReadTarget_def Group23Var6_ReadTarget_def Group30Var1_ReadTarget_def Group30Var2_ReadTarget_def Group30Var3_ReadTarget_def Group30Var4_ReadTarget_def
  Group30Var5_ReadTarget_def Group30Var6_ReadTarget_def Group32Var1_ReadTarget_def Group32Var2_ReadTarget_def Group32Var3_ReadTarget_def Group32Var4_ReadTarget_def
  Group32Var5_ReadTarget_def Group32Var6_ReadTarget_def Group32Var7_ReadTarget_def Group32Var8_ReadTarget_def Group40Var1_ReadTarget_def Group40Var2_ReadTarget_def
  Group40Var3_ReadTarget_def Group40Var4_ReadTarget_def Group41Var1_ReadTarget_def Group41Var2_ReadTarget_def Group41Var3_ReadTarget_def Group41Var4_ReadTarget_def
  Group42Var1_ReadTarget_def Group42Var2_ReadTarget_def Group42Var3_ReadTarget_def Group42Var4_ReadTarget_def Group42Var5_ReadTarget_def Group42Var6_ReadTarget_def
  Group42Var7_ReadTarget_def Group42Var8_ReadTarget_def Group43Var1_ReadTarget_def Group43Var2_ReadTarget_def Group43Var3_ReadTarget_def Group43Var4_ReadTarget_def
  Group43Var5_ReadTarget_def Group43Var6_ReadTarget_def Group43Var7_ReadTarget_def Group43Var8_ReadTarget_def Group50Var4_ReadTarget_def

lemmas WriteTarget_defs =
  Group1Var2_WriteTarget_def Group2Var1_WriteTarget_def Group2Var2_WriteTarget_def Group2Var3_WriteTarget_def Group3Var2_WriteTarget_def Group4Var1_WriteTarget_def
  Group4Var2_WriteTarget_def Group4Var3_WriteTarget_def Group10Var2_WriteTarget_def Group11Var1_WriteTarget_def Group11Var2_WriteTarget_def Group12Var1_WriteTarget_def
  Group13Var1_WriteTarget_def Group13Var2_WriteTarget_def Group20Var1_WriteTarget_def Group20Var2_WriteTarget_def Group20Var5_WriteTarget_def Group20Var6_WriteTarget_def
  Group21Var1_WriteTarget_def Group21Var2_WriteTarget_def Group21Var5_WriteTarget_def Group21Var6_WriteTarget_def Group21Var9_WriteTarget_def Group21Var10_WriteTarget_def
  Group22Var1_WriteTarget_def Group22Var2_WriteTarget_def Group22Var5_WriteTarget_def Group22Var6_WriteTarget_def Group23Var1_WriteTarget_def Group23Var2_WriteTarget_def
  Group23Var5_WriteTarget_def Group23Var6_WriteTarget_def Group30Var1_WriteTarget_def Group30Var2_WriteTarget_def Group30Var3_WriteTarget_def Group30Var4_WriteTarget_def
  Group30Var5_WriteTarget_def Group30Var6_WriteTarget_def Group32Var1_WriteTarget_def Group32Var2_WriteTarget_def Group32Var3_WriteTarget_def Group32Var4_WriteTarget_def
  Group32Var5_WriteTarget_def Group32Var6_WriteTarget_def Group32Var7_WriteTarget_def Group32Var8_WriteTarget_def Group40Var1_WriteTarget_def Group40Var2_WriteTarget_def
  Group40Var3_WriteTarget_def Group40Var4_WriteTarget_def Group41Var1_WriteTarget_def Group41Var2_WriteTarget_def Group41Var3_WriteTarget_def Group41Var4_WriteTarget_def
  Group42Var1_WriteTarget_def Group42Var2_WriteTarget_def Group42Var3_WriteTarget_def Group42Var4_WriteTarget_def Group42Var5_WriteTarget_def Group42Var6_WriteTarget_def
  Group42Var7_WriteTarget_def Group42Var8_WriteTarget_def Group43Var1_WriteTarget_def Group43Var2_WriteTarget_def Group43Var3_WriteTarget_def Group43Var4_WriteTarget_def
  Group43Var5_WriteTarget_def Group43Var6_WriteTarget_def Group43Var7_WriteTarget_def Group43Var8_WriteTarget_def Group50Var4_WriteTarget_def

lemmas Convert_defs =
  ConvertGroup1Var2_def ConvertGroup2Var1_def ConvertGroup2Var2_def ConvertGroup2Var3_def ConvertGroup3Var2_def ConvertGroup4Var1_def
  ConvertGroup4Var2_def ConvertGroup4Var3_def ConvertGroup10Var2_def ConvertGroup11Var1_def ConvertGroup11Var2_def ConvertGroup12Var1_def
  ConvertGroup13Var1_def ConvertGroup13Var2_def ConvertGroup20Var1_def ConvertGroup20Var2_def ConvertGroup20Var5_def ConvertGroup20Var6_def
  ConvertGroup21Var1_def ConvertGroup21Var2_def ConvertGroup21Var5_def ConvertGroup21Var6_def ConvertGroup21Var9_def ConvertGroup21Var10_def
  ConvertGroup22Var1_def ConvertGroup22Var2_def ConvertGroup22Var5_def ConvertGroup22Var6_def ConvertGroup23Var1_def ConvertGroup23Var2_def
  ConvertGroup23Var5_def ConvertGroup23Var6_def ConvertGroup30Var1_def ConvertGroup30Var2_def ConvertGroup30Var3_def ConvertGroup30Var4_def
  ConvertGroup30Var5_def ConvertGroup30Var6_def ConvertGroup32Var1_def ConvertGroup32Var2_def ConvertGroup32Var3_def ConvertGroup32Var4_def
  ConvertGroup32Var5_def ConvertGroup32Var6_def ConvertGroup32Var7_def ConvertGroup32Var8_def ConvertGroup40Var1_def ConvertGroup40Var2_def
  ConvertGroup40Var3_def ConvertGroup40Var4_def ConvertGroup41Var1_def ConvertGroup41Var2_def ConvertGroup41Var3_def ConvertGroup41Var4_def
  ConvertGroup42Var1_def ConvertGroup42Var2_def ConvertGroup42Var3_def ConvertGroup42Var4_def ConvertGroup42Var5_def ConvertGroup42Var6_def
  ConvertGroup42Var7_def ConvertGroup42Var8_def ConvertGroup43Var1_def ConvertGroup43Var2_def ConvertGroup43Var3_def ConvertGroup43Var4_def
  ConvertGroup43Var5_def ConvertGroup43Var6_def ConvertGroup43Var7_def ConvertGroup43Var8_def ConvertGroup50Var4_def

lemmas Inst_defs =
  Group1Var2_Inst_def Group2Var1_Inst_def Group2Var2_Inst_def Group2Var3_Inst_def Group3Var2_Inst_def Group4Var1_Inst_def
  Group4Var2_Inst_def Group4Var3_Inst_def Group10Var2_Inst_def Group11Var1_Inst_def Group11Var2_Inst_def Group12Var1_Inst_def
  Group13Var1_Inst_def Group13Var2_Inst_def Group20Var1_Inst_def Group20Var2_Inst_def Group20Var5_Inst_def Group20Var6_Inst_def
  Group21Var1_Inst_def Group21Var2_Inst_def Group21Var5_Inst_def Group21Var6_Inst_def Group21Var9_Inst_def Group21Var10_Inst_def
  Group22Var1_Inst_def Group22Var2_Inst_def Group22Var5_Inst_def Group22Var6_Inst_def Group23Var1_Inst_def Group23Var2_Inst_def
  Group23Var5_Inst_def Group23Var6_Inst_def Group30Var1_Inst_def Group30Var2_Inst_def Group30Var3_Inst_def Group30Var4_Inst_def
  Group30Var5_Inst_def Group30Var6_Inst_def Group32Var1_Inst_def Group32Var2_Inst_def Group32Var3_Inst_def Group32Var4_Inst_def
  Group32Var5_Inst_def Group32Var6_Inst_def Group32Var7_Inst_def Group32Var8_Inst_def Group40Var1_Inst_def Group40Var2_Inst_def
  Group40Var3_Inst_def Group40Var4_Inst_def Group41Var1_Inst_def Group41Var2_Inst_def Group41Var3_Inst_def Group41Var4_Inst_def
  Group42Var1_Inst_def Group42Var2_Inst_def Group42Var3_Inst_def Group42Var4_Inst_def Group42Var5_Inst_def Group42Var6_Inst_def
  Group42Var7_Inst_def Group42Var8_Inst_def Group43Var1_Inst_def Group43Var2_Inst_def Group43Var3_Inst_def Group43Var4_Inst_def
  Group43Var5_Inst_def Group43Var6_Inst_def Group43Var7_Inst_def Group43Var8_Inst_def Group50Var4_Inst_def

context le_codec
begin

lemma length_Group1Var2: "length (Group1Var2_Write E x) = Group1Var2_Size"
  by (simp add: Group1Var2_Write_def Group1Var2_Size_def codec_oks codec_put [OF UInt8_ok(1)])

lemma read_Group1Var2: "Group1Var2_Read E (Group1Var2_Write E x @ r) = Some (x, r)"
  by (simp add: Group1Var2_Read_def Group1Var2_Write_def LE_read1_put [OF UInt8_ok(1)])

lemma length_Group2Var1: "length (Group2Var1_Write E x) = Group2Var1_Size"
  by (simp add: Group2Var1_Write_def Group2Var1_Size_def codec_oks codec_put [OF UInt8_ok(1)])

lemma read_Group2Var1: "Group2Var1_Read E (Group2Var1_Write E x @ r) = Some (x, r)"
  by (simp add: Group2Var1_Read_def Group2Var1_Write_def LE_read1_put [OF UInt8_ok(1)])

lemma length_Group2Var2: "length (Group2Var2_Write E x) = Group2Var2_Size"
  by (simp add: Group2Var2_Write_def Group2Var2_Size_def codec_oks codec_put [OF UInt8_ok(1)] codec_put [OF time_ok(1)])

lemma read_Group2Var2: "wire_time (qt_time x) \<Longrightarrow> Group2Var2_Read E (Group2Var2_Write E x @ r) = Some (x, r)"
  by (simp add: Group2Var2_Read_def Group2Var2_Write_def LE_read2_put [OF UInt8_ok(1) time_ok(1)])

lemma length_Group2Var3: "length (Group2Var3_Write E x) = Group2Var3_Size"
  by (simp add: Group2Var3_Write_def Group2Var3_Size_def codec_oks codec_put [OF UInt16_ok(1)] codec_put [OF UInt8_ok(1)])

lemma read_Group2Var3: "Group2Var3_Read E (Group2Var3_Write E x @ r) = Some (x, r)"
  by (simp add: Group2Var3_Read_def Group2Var3_Write_def LE_read2_put [OF UInt8_ok(1) UInt16_ok(1)])

lemma length_Group3Var2: "length (Group3Var2_Write E x) = Group3Var2_Size"
  by (simp add: Group3Var2_Write_def Group3Var2_Size_def codec_oks codec_put [OF UInt8_ok(1)])

lemma read_Group3Var2: "Group3Var2_Read E (Group3Var2_Write E x @ r) = Some (x, r)"
  by (simp add: Group3Var2_Read_def Group3Var2_Write_def LE_read1_put [OF UInt8_ok(1)])

lemma length_Group4Var1: "length (Group4Var1_Write E x) = Group4Var1_Size"
  by (simp add: Group4Var1_Write_def Group4Var1_Size_def codec_oks codec_put [OF UInt8_ok(1)])

lemma read_Group4Var1: "Group4Var1_Read E (Group4Var1_Write E x @ r) = Some (x, r)"
  by (simp add: Group4Var1_Read_def Group4Var1_Write_def LE_read1_put [OF UInt8_ok(1)])

lemma length_Group4Var2: "length (Group4Var2_Write E x) = Group4Var2_Size"
  by (simp add: Group4Var2_Write_def Group4Var2_Size_def codec_oks codec_put [OF UInt8_ok(1)] codec_put [OF time_ok(1)])

lemma read_Group4Var2: "wire_time (qt_time x) \<Longrightarrow> Group4Var2_Read E (Group4Var2_Write E x @ r) = Some (x, r)"
  by (simp add: Group4Var2_Read_def Group4Var2_Write_def LE_read2_put [OF UInt8_ok(1) time_ok(1)])

lemma length_Group4Var3: "length (Group4Var3_Write E x) = Group4Var3_Size"
  by (simp add: Group4Var3_Write_def Group4Var3_Size_def codec_oks codec_put [OF UInt16_ok(1)] codec_put [OF UInt8_ok(1)])

lemma read_Group4Var3: "Group4Var3_Read E (Group4Var3_Write E x @ r) = Some (x, r)"
  by (simp add: Group4Var3_Read_def Group4Var3_Write_def LE_read2_put [OF UInt8_ok(1) UInt16_ok(1)])

lemma length_Group10Var2: "length (Group10Var2_Write E x) = Group10Var2_Size"
  by (simp add: Group10Var2_Write_def Group10Var2_Size_def codec_oks codec_put [OF UInt8_ok(1)])

lemma read_Group10Var2: "Group10Var2_Read E (Group10Var2_Write E x @ r) = Some (x, r)"
  by (simp add: Group10Var2_Read_def Group10Var2_Write_def LE_read1_put [OF UInt8_ok(1)])

lemma length_Group11Var1: "length (Group11Var1_Write E x) = Group11Var1_Size"
  by (simp add: Group11Var1_Write_def Group11Var1_Size_def codec_oks codec_put [OF UInt8_ok(1)])

lemma read_Group11Var1: "Group11Var1_Read E (Group11Var1_Write E x @ r) = Some (x, r)"
  by (simp add: Group11Var1_Read_def Group11Var1_Write_def LE_read1_put [OF UInt8_ok(1)])

lemma length_Group11Var2: "length (Group11Var2_Write E x) = Group11Var2_Size"
  by (simp add: Group11Var2_Write_def Group11Var2_Size_def codec_oks codec_put [OF UInt8_ok(1)] codec_put [OF time_ok(1)])

lemma read_Group11Var2: "wire_time (qt_time x) \<Longrightarrow> Group11Var2_Read E (Group11Var2_Write E x @ r) = Some (x, r)"
  by (simp add: Group11Var2_Read_def Group11Var2_Write_def LE_read2_put [OF UInt8_ok(1) time_ok(1)])

lemma length_Group12Var1: "length (Group12Var1_Write E x) = Group12Var1_Size"
  by (simp add: Group12Var1_Write_def Group12Var1_Size_def codec_oks codec_put [OF UInt8_ok(1)] codec_put [OF u32(1)])

lemma read_Group12Var1: "Group12Var1_Read E (Group12Var1_Write E x @ r) = Some (x, r)"
  by (simp add: Group12Var1_Read_def Group12Var1_Write_def LE_read5_put [OF UInt8_ok(1) UInt8_ok(1) u32(1) u32(1) UInt8_ok(1)])

lemma length_Group13Var1: "length (Group13Var1_Write E x) = Group13Var1_Size"
  by (simp add: Group13Var1_Write_def Group13Var1_Size_def codec_oks codec_put [OF UInt8_ok(1)])

lemma read_Group13Var1: "Group13Var1_Read E (Group13Var1_Write E x @ r) = Some (x, r)"
  by (simp add: Group13Var1_Read_def Group13Var1_Write_def LE_read1_put [OF UInt8_ok(1)])

lemma length_Group13Var2: "length (Group13Var2_Write E x) = Group13Var2_Size"
  by (simp add: Group13Var2_Write_def Group13Var2_Size_def codec_oks codec_put [OF UInt8_ok(1)] codec_put [OF time_ok(1)])

lemma read_Group13Var2: "wire_time (qt_time x) \<Longrightarrow> Group13Var2_Read E (Group13Var2_Write E x @ r) = Some (x, r)"
  by (simp add: Group13Var2_Read_def Group13Var2_Write_def LE_read2_put [OF UInt8_ok(1) time_ok(1)])

lemma length_Group20Var1: "length (Group20Var1_Write E x) = Group20Var1_Size"
  by (simp add: Group20Var1_Write_def Group20Var1_Size_def codec_oks codec_put [OF UInt8_ok(1)] codec_put [OF u32(1)])

lemma read_Group20Var1: "Group20Var1_Read E (Group20Var1_Write E x @ r) = Some (x, r)"
  by (simp add: Group20Var1_Read_def Group20Var1_Write_def LE_read2_put [OF UInt8_ok(1) u32(1)])

lemma length_Group20Var2: "length (Group20Var2_Write E x) = Group20Var2_Size"
  by (simp add: Group20Var2_Write_def Group20Var2_Size_def codec_oks codec_put [OF UInt16_ok(1)] codec_put [OF UInt8_ok(1)])

lemma read_Group20Var2: "Group20Var2_Read E (Group20Var2_Write E x @ r) = Some (x, r)"
  by (simp add: Group20Var2_Read_def Group20Var2_Write_def LE_read2_put [OF UInt8_ok(1) UInt16_ok(1)])

lemma length_Group20Var5: "length (Group20Var5_Write E x) = Group20Var5_Size"
  by (simp add: Group20Var5_Write_def Group20Var5_Size_def codec_oks codec_put [OF u32(1)])

lemma read_Group20Var5: "Group20Var5_Read E (Group20Var5_Write E x @ r) = Some (x, r)"
  by (simp add: Group20Var5_Read_def Group20Var5_Write_def LE_read1_put [OF u32(1)])

lemma length_Group20Var6: "length (Group20Var6_Write E x) = Group20Var6_Size"
  by (simp add: Group20Var6_Write_def Group20Var6_Size_def codec_oks codec_put [OF UInt16_ok(1)])

lemma read_Group20Var6: "Group20Var6_Read E (Group20Var6_Write E x @ r) = Some (x, r)"
  by (simp add: Group20Var6_Read_def Group20Var6_Write_def LE_read1_put [OF UInt16_ok(1)])

lemma length_Group21Var1: "length (Group21Var1_Write E x) = Group21Var1_Size"
  by (simp add: Group21Var1_Write_def Group21Var1_Size_def codec_oks codec_put [OF UInt8_ok(1)] codec_put [OF u32(1)])

lemma read_Group21Var1: "Group21Var1_Read E (Group21Var1_Write E x @ r) = Some (x, r)"
  by (simp add: Group21Var1_Read_def Group21Var1_Write_def LE_read2_put [OF UInt8_ok(1) u32(1)])

lemma length_Group21Var2: "length (Group21Var2_Write E x) = Group21Var2_Size"
  by (simp add: Group21Var2_Write_def Group21Var2_Size_def codec_oks codec_put [OF UInt16_ok(1)] codec_put [OF UInt8_ok(1)])

lemma read_Group21Var2: "Group21Var2_Read E (Group21Var2_Write E x @ r) = Some (x, r)"
  by (simp add: Group21Var2_Read_def Group21Var2_Write_def LE_read2_put [OF UInt8_ok(1) UInt16_ok(1)])

lemma length_Group21Var5: "length (Group21Var5_Write E x) = Group21Var5_Size"
  by (simp add: Group21Var5_Write_def Group21Var5_Size_def codec_oks codec_put [OF UInt8_ok(1)] codec_put [OF time_ok(1)] codec_put [OF u32(1)])

lemma read_Group21Var5: "wire_time (qvt_time x) \<Longrightarrow> Group21Var5_Read E (Group21Var5_Write E x @ r) = Some (x, r)"
  by (simp add: Group21Var5_Read_def Group21Var5_Write_def LE_read3_put [OF UInt8_ok(1) u32(1) time_ok(1)])

lemma length_Group21Var6: "length (Group21Var6_Write E x) = Group21Var6_Size"
  by (simp add: Group21Var6_Write_def Group21Var6_Size_def codec_oks codec_put [OF UInt16_ok(1)] codec_put [OF UInt8_ok(1)] codec_put [OF time_ok(1)])

lemma read_Group21Var6: "wire_time (qvt_time x) \<Longrightarrow> Group21Var6_Read E (Group21Var6_Write E x @ r) = Some (x, r)"
  by (simp add: Group21Var6_Read_def Group21Var6_Write_def LE_read3_put [OF UInt8_ok(1) UInt16_ok(1) time_ok(1)])

lemma length_Group21Var9: "length (Group21Var9_Write E x) = Group21Var9_Size"
  by (simp add: Group21Var9_Write_def Group21Var9_Size_def codec_oks codec_put [OF u32(1)])

lemma read_Group21Var9: "Group21Var9_Read E (Group21Var9_Write E x @ r) = Some (x, r)"
  by (simp add: Group21Var9_Read_def Group21Var9_Write_def LE_read1_put [OF u32(1)])

lemma length_Group21Var10: "length (Group21Var10_Write E x) = Group21Var10_Size"
  by (simp add: Group21Var10_Write_def Group21Var10_Size_def codec_oks codec_put [OF UInt16_ok(1)])

lemma read_Group21Var10: "Group21Var10_Read E (Group21Var10_Write E x @ r) = Some (x, r)"
  by (simp add: Group21Var10_Read_def Group21Var10_Write_def LE_read1_put [OF UInt16_ok(1)])

lemma length_Group22Var1: "length (Group22Var1_Write E x) = Group22Var1_Size"
  by (simp add: Group22Var1_Write_def Group22Var1_Size_def codec_oks codec_put [OF UInt8_ok(1)] codec_put [OF u32(1)])

lemma read_Group22Var1: "Group22Var1_Read E (Group22Var1_Write E x @ r) = Some (x, r)"
  by (simp add: Group22Var1_Read_def Group22Var1_Write_def LE_read2_put [OF UInt8_ok(1) u32(1)])

lemma length_Group22Var2: "length (Group22Var2_Write E x) = Group22Var2_Size"
  by (simp add: Group22Var2_Write_def Group22Var2_Size_def codec_oks codec_put [OF UInt16_ok(1)] codec_put [OF UInt8_ok(1)])

lemma read_Group22Var2: "Group22Var2_Read E (Group22Var2_Write E x @ r) = Some (x, r)"
  by (simp add: Group22Var2_Read_def Group22Var2_Write_def LE_read2_put [OF UInt8_ok(1) UInt16_ok(1)])

lemma length_Group22Var5: "length (Group22Var5_Write E x) = Group22Var5_Size"
  by (simp add: Group22Var5_Write_def Group22Var5_Size_def codec_oks codec_put [OF UInt8_ok(1)] codec_put [OF time_ok(1)] codec_put [OF u32(1)])

lemma read_Group22Var5: "wire_time (qvt_time x) \<Longrightarrow> Group22Var5_Read E (Group22Var5_Write E x @ r) = Some (x, r)"
  by (simp add: Group22Var5_Read_def Group22Var5_Write_def LE_read3_put [OF UInt8_ok(1) u32(1) time_ok(1)])

lemma length_Group22Var6: "length (Group22Var6_Write E x) = Group22Var6_Size"
  by (simp add: Group22Var6_Write_def Group22Var6_Size_def codec_oks codec_put [OF UInt16_ok(1)] codec_put [OF UInt8_ok(1)] codec_put [OF time_ok(1)])

lemma read_Group22Var6: "wire_time (qvt_time x) \<Longrightarrow> Group22Var6_Read E (Group22Var6_Write E x @ r) = Some (x, r)"
  by (simp add: Group22Var6_Read_def Group22Var6_Write_def LE_read3_put [OF UInt8_ok(1) UInt16_ok(1) time_ok(1)])

lemma length_Group23Var1: "length (Group23Var1_Write E x) = Group23Var1_Size"
  by (simp add: Group23Var1_Write_def Group23Var1_Size_def codec_oks codec_put [OF UInt8_ok(1)] codec_put [OF u32(1)])

lemma read_Group23Var1: "Group23Var1_Read E (Group23Var1_Write E x @ r) = Some (x, r)"
  by (simp add: Group23Var1_Read_def Group23Var1_Write_def LE_read2_put [OF UInt8_ok(1) u32(1)])

lemma length_Group23Var2: "length (Group23Var2_Write E x) = Group23Var2_Size"
  by (simp add: Group23Var2_Write_def Group23Var2_Size_def codec_oks codec_put [OF UInt16_ok(1)] codec_put [OF UInt8_ok(1)])

lemma read_Group23Var2: "Group23Var2_Read E (Group23Var2_Write E x @ r) = Some (x, r)"
  by (simp add: Group23Var2_Read_def Group23Var2_Write_def LE_read2_put [OF UInt8_ok(1) UInt16_ok(1)])

lemma length_Group23Var5: "length (Group23Var5_Write E x) = Group23Var5_Size"
  by (simp add: Group23Var5_Write_def Group23Var5_Size_def codec_oks codec_put [OF UInt8_ok(1)] codec_put [OF time_ok(1)] codec_put [OF u32(1)])

lemma read_Group23Var5: "wire_time (qvt_time x) \<Longrightarrow> Group23Var5_Read E (Group23Var5_Write E x @ r) = Some (x, r)"
  by (simp add: Group23Var5_Read_def Group23Var5_Write_def LE_read3_put [OF UInt8_ok(1) u32(1) time_ok(1)])

lemma length_Group23Var6: "length (Group23Var6_Write E x) = Group23Var6_Size"
  by (simp add: Group23Var6_Write_def Group23Var6_Size_def codec_oks codec_put [OF UInt16_ok(1)] codec_put [OF UInt8_ok(1)] codec_put [OF time_ok(1)])

lemma read_Group23Var6: "wire_time (qvt_time x) \<Longrightarrow> Group23Var6_Read E (Group23Var6_Write E x @ r) = Some (x, r)"
  by (simp add: Group23Var6_Read_def Group23Var6_Write_def LE_read3_put [OF UInt8_ok(1) UInt16_ok(1) time_ok(1)])

lemma length_Group30Var1: "length (Group30Var1_Write E x) = Group30Var1_Size"
  by (simp add: Group30Var1_Write_def Group30Var1_Size_def codec_oks codec_put [OF UInt8_ok(1)] codec_put [OF i32(1)])

lemma read_Group30Var1: "Group30Var1_Read E (Group30Var1_Write E x @ r) = Some (x, r)"
  by (simp add: Group30Var1_Read_def Group30Var1_Write_def LE_read2_put [OF UInt8_ok(1) i32(1)])

lemma length_Group30Var2: "length (Group30Var2_Write E x) = Group30Var2_Size"
  by (simp add: Group30Var2_Write_def Group30Var2_Size_def codec_oks codec_put [OF UInt8_ok(1)] codec_put [OF i16(1)])

lemma read_Group30Var2: "Group30Var2_Read E (Group30Var2_Write E x @ r) = Some (x, r)"
  by (simp add: Group30Var2_Read_def Group30Var2_Write_def LE_read2_put [OF UInt8_ok(1) i16(1)])

lemma length_Group30Var3: "length (Group30Var3_Write E x) = Group30Var3_Size"
  by (simp add: Group30Var3_Write_def Group30Var3_Size_def codec_oks codec_put [OF i32(1)])

lemma read_Group30Var3: "Group30Var3_Read E (Group30Var3_Write E x @ r) = Some (x, r)"
  by (simp add: Group30Var3_Read_def Group30Var3_Write_def LE_read1_put [OF i32(1)])

lemma length_Group30Var4: "length (Group30Var4_Write E x) = Group30Var4_Size"
  by (simp add: Group30Var4_Write_def Group30Var4_Size_def codec_oks codec_put [OF i16(1)])

lemma read_Group30Var4: "Group30Var4_Read E (Group30Var4_Write E x @ r) = Some (x, r)"
  by (simp add: Group30Var4_Read_def Group30Var4_Write_def LE_read1_put [OF i16(1)])

lemma length_Group30Var5: "length (Group30Var5_Write E x) = Group30Var5_Size"
  by (simp add: Group30Var5_Write_def Group30Var5_Size_def codec_oks codec_put [OF UInt8_ok(1)] codec_put [OF f32(1)])

lemma read_Group30Var5: "Group30Var5_Read E (Group30Var5_Write E x @ r) = Some (x, r)"
  by (simp add: Group30Var5_Read_def Group30Var5_Write_def LE_read2_put [OF UInt8_ok(1) f32(1)])

lemma length_Group30Var6: "length (Group30Var6_Write E x) = Group30Var6_Size"
  by (simp add: Group30Var6_Write_def Group30Var6_Size_def codec_oks codec_put [OF UInt8_ok(1)] codec_put [OF f64(1)])

lemma read_Group30Var6: "is_double (qv_value x) \<Longrightarrow> Group30Var6_Read E (Group30Var6_Write E x @ r) = Some (x, r)"
  by (simp add: Group30Var6_Read_def Group30Var6_Write_def LE_read2_put [OF UInt8_ok(1) f64(1)])

lemma length_Group32Var1: "length (Group32Var1_Write E x) = Group32Var1_Size"
  by (simp add: Group32Var1_Write_def Group32Var1_Size_def codec_oks codec_put [OF UInt8_ok(1)] codec_put [OF i32(1)])

lemma read_Group32Var1: "Group32Var1_Read E (Group32Var1_Write E x @ r) = Some (x, r)"
  by (simp add: Group32Var1_Read_def Group32Var1_Write_def LE_read2_put [OF UInt8_ok(1) i32(1)])

lemma length_Group32Var2: "length (Group32Var2_Write E x) = Group32Var2_Size"
  by (simp add: Group32Var2_Write_def Group32Var2_Size_def codec_oks codec_put [OF UInt8_ok(1)] codec_put [OF i16(1)])

lemma read_Group32Var2: "Group32Var2_Read E (Group32Var2_Write E x @ r) = Some (x, r)"
  by (simp add: Group32Var2_Read_def Group32Var2_Write_def LE_read2_put [OF UInt8_ok(1) i16(1)])

lemma length_Group32Var3: "length (Group32Var3_Write E x) = Group32Var3_Size"
  by (simp add: Group32Var3_Write_def Group32Var3_Size_def codec_oks codec_put [OF UInt8_ok(1)] codec_put [OF i32(1)] codec_put [OF time_ok(1)])

lemma read_Group32Var3: "wire_time (qvt_time x) \<Longrightarrow> Group32Var3_Read E (Group32Var3_Write E x @ r) = Some (x, r)"
  by (simp add: Group32Var3_Read_def Group32Var3_Write_def LE_read3_put [OF UInt8_ok(1) i32(1) time_ok(1)])

lemma length_Group32Var4: "length (Group32Var4_Write E x) = Group32Var4_Size"
  by (simp add: Group32Var4_Write_def Group32Var4_Size_def codec_oks codec_put [OF UInt8_ok(1)] codec_put [OF i16(1)] codec_put [OF time_ok(1)])

lemma read_Group32Var4: "wire_time (qvt_time x) \<Longrightarrow> Group32Var4_Read E (Group32Var4_Write E x @ r) = Some (x, r)"
  by (simp add: Group32Var4_Read_def Group32Var4_Write_def LE_read3_put [OF UInt8_ok(1) i16(1) time_ok(1)])

lemma length_Group32Var5: "length (Group32Var5_Write E x) = Group32Var5_Size"
  by (simp add: Group32Var5_Write_def Group32Var5_Size_def codec_oks codec_put [OF UInt8_ok(1)] codec_put [OF f32(1)])

lemma read_Group32Var5: "Group32Var5_Read E (Group32Var5_Write E x @ r) = Some (x, r)"
  by (simp add: Group32Var5_Read_def Group32Var5_Write_def LE_read2_put [OF UInt8_ok(1) f32(1)])

lemma length_Group32Var6: "length (Group32Var6_Write E x) = Group32Var6_Size"
  by (simp add: Group32Var6_Write_def Group32Var6_Size_def codec_oks codec_put [OF UInt8_ok(1)] codec_put [OF f64(1)])

lemma read_Group32Var6: "is_double (qv_value x) \<Longrightarrow> Group32Var6_Read E (Group32Var6_Write E x @ r) = Some (x, r)"
  by (simp add: Group32Var6_Read_def Group32Var6_Write_def LE_read2_put [OF UInt8_ok(1) f64(1)])

lemma length_Group32Var7: "length (Group32Var7_Write E x) = Group32Var7_Size"
  by (simp add: Group32Var7_Write_def Group32Var7_Size_def codec_oks codec_put [OF UInt8_ok(1)] codec_put [OF f32(1)] codec_put [OF time_ok(1)])

lemma read_Group32Var7: "wire_time (qvt_time x) \<Longrightarrow> Group32Var7_Read E (Group32Var7_Write E x @ r) = Some (x, r)"
  by (simp add: Group32Var7_Read_def Group32Var7_Write_def LE_read3_put [OF UInt8_ok(1) f32(1) time_ok(1)])

lemma length_Group32Var8: "length (Group32Var8_Write E x) = Group32Var8_Size"
  by (simp add: Group32Var8_Write_def Group32Var8_Size_def codec_oks codec_put [OF UInt8_ok(1)] codec_put [OF f64(1)] codec_put [OF time_ok(1)])

lemma read_Group32Var8: "is_double (qv_value x) \<Longrightarrow> wire_time (qvt_time x) \<Longrightarrow> Group32Var8_Read E (Group32Var8_Write E x @ r) = Some (x, r)"
  by (simp add: Group32Var8_Read_def Group32Var8_Write_def LE_read3_put [OF UInt8_ok(1) f64(1) time_ok(1)])

lemma length_Group40Var1: "length (Group40Var1_Write E x) = Group40Var1_Size"
  by (simp add: Group40Var1_Write_def Group40Var1_Size_def codec_oks codec_put [OF UInt8_ok(1)] codec_put [OF i32(1)])

lemma read_Group40Var1: "Group40Var1_Read E (Group40Var1_Write E x @ r) = Some (x, r)"
  by (simp add: Group40Var1_Read_def Group40Var1_Write_def LE_read2_put [OF UInt8_ok(1) i32(1)])

lemma length_Group40Var2: "length (Group40Var2_Write E x) = Group40Var2_Size"
  by (simp add: Group40Var2_Write_def Group40Var2_Size_def codec_oks codec_put [OF UInt8_ok(1)] codec_put [OF i16(1)])

lemma read_Group40Var2: "Group40Var2_Read E (Group40Var2_Write E x @ r) = Some (x, r)"
  by (simp add: Group40Var2_Read_def Group40Var2_Write_def LE_read2_put [OF UInt8_ok(1) i16(1)])

lemma length_Group40Var3: "length (Group40Var3_Write E x) = Group40Var3_Size"
  by (simp add: Group40Var3_Write_def Group40Var3_Size_def codec_oks codec_put [OF UInt8_ok(1)] codec_put [OF f32(1)])

lemma read_Group40Var3: "Group40Var3_Read E (Group40Var3_Write E x @ r) = Some (x, r)"
  by (simp add: Group40Var3_Read_def Group40Var3_Write_def LE_read2_put [OF UInt8_ok(1) f32(1)])

lemma length_Group40Var4: "length (Group40Var4_Write E x) = Group40Var4_Size"
  by (simp add: Group40Var4_Write_def Group40Var4_Size_def codec_oks codec_put [OF UInt8_ok(1)] codec_put [OF f64(1)])

lemma read_Group40Var4: "is_double (qv_value x) \<Longrightarrow> Group40Var4_Read E (Group40Var4_Write E x @ r) = Some (x, r)"
  by (simp add: Group40Var4_Read_def Group40Var4_Write_def LE_read2_put [OF UInt8_ok(1) f64(1)])

lemma length_Group41Var1: "length (Group41Var1_Write E x) = Group41Var1_Size"
  by (simp add: Group41Var1_Write_def Group41Var1_Size_def codec_oks codec_put [OF UInt8_ok(1)] codec_put [OF i32(1)])

lemma read_Group41Var1: "Group41Var1_Read E (Group41Var1_Write E x @ r) = Some (x, r)"
  by (simp add: Group41Var1_Read_def Group41Var1_Write_def LE_read2_put [OF i32(1) UInt8_ok(1)])

lemma length_Group41Var2: "length (Group41Var2_Write E x) = Group41Var2_Size"
  by (simp add: Group41Var2_Write_def Group41Var2_Size_def codec_oks codec_put [OF UInt8_ok(1)] codec_put [OF i16(1)])

lemma read_Group41Var2: "Group41Var2_Read E (Group41Var2_Write E x @ r) = Some (x, r)"
  by (simp add: Group41Var2_Read_def Group41Var2_Write_def LE_read2_put [OF i16(1) UInt8_ok(1)])

lemma length_Group41Var3: "length (Group41Var3_Write E x) = Group41Var3_Size"
  by (simp add: Group41Var3_Write_def Group41Var3_Size_def codec_oks codec_put [OF UInt8_ok(1)] codec_put [OF f32(1)])

lemma read_Group41Var3: "Group41Var3_Read E (Group41Var3_Write E x @ r) = Some (x, r)"
  by (simp add: Group41Var3_Read_def Group41Var3_Write_def LE_read2_put [OF f32(1) UInt8_ok(1)])

lemma length_Group41Var4: "length (Group41Var4_Write E x) = Group41Var4_Size"
  by (simp add: Group41Var4_Write_def Group41Var4_Size_def codec_oks codec_put [OF UInt8_ok(1)] codec_put [OF f64(1)])

lemma read_Group41Var4: "is_double (vs_value x) \<Longrightarrow> Group41Var4_Read E (Group41Var4_Write E x @ r) = Some (x, r)"
  by (simp add: Group41Var4_Read_def Group41Var4_Write_def LE_read2_put [OF f64(1) UInt8_ok(1)])

lemma length_Group42Var1: "length (Group42Var1_Write E x) = Group42Var1_Size"
  by (simp add: Group42Var1_Write_def Group42Var1_Size_def codec_oks codec_put [OF UInt8_ok(1)] codec_put [OF i32(1)])

lemma read_Group42Var1: "Group42Var1_Read E (Group42Var1_Write E x @ r) = Some (x, r)"
  by (simp add: Group42Var1_Read_def Group42Var1_Write_def LE_read2_put [OF UInt8_ok(1) i32(1)])

lemma length_Group42Var2: "length (Group42Var2_Write E x) = Group42Var2_Size"
  by (simp add: Group42Var2_Write_def Group42Var2_Size_def codec_oks codec_put [OF UInt8_ok(1)] codec_put [OF i16(1)])

lemma read_Group42Var2: "Group42Var2_Read E (Group42Var2_Write E x @ r) = Some (x, r)"
  by (simp add: Group42Var2_Read_def Group42Var2_Write_def LE_read2_put [OF UInt8_ok(1) i16(1)])

lemma length_Group42Var3: "length (Group42Var3_Write E x) = Group42Var3_Size"
  by (simp add: Group42Var3_Write_def Group42Var3_Size_def codec_oks codec_put [OF UInt8_ok(1)] codec_put [OF i32(1)] codec_put [OF time_ok(1)])

lemma read_Group42Var3: "wire_time (qvt_time x) \<Longrightarrow> Group42Var3_Read E (Group42Var3_Write E x @ r) = Some (x, r)"
  by (simp add: Group42Var3_Read_def Group42Var3_Write_def LE_read3_put [OF UInt8_ok(1) i32(1) time_ok(1)])

lemma length_Group42Var4: "length (Group42Var4_Write E x) = Group42Var4_Size"
  by (simp add: Group42Var4_Write_def Group42Var4_Size_def codec_oks codec_put [OF UInt8_ok(1)] codec_put [OF i16(1)] codec_put [OF time_ok(1)])

lemma read_Group42Var4: "wire_time (qvt_time x) \<Longrightarrow> Group42Var4_Read E (Group42Var4_Write E x @ r) = Some (x, r)"
  by (simp add: Group42Var4_Read_def Group42Var4_Write_def LE_read3_put [OF UInt8_ok(1) i16(1) time_ok(1)])

lemma length_Group42Var5: "length (Group42Var5_Write E x) = Group42Var5_Size"
  by (simp add: Group42Var5_Write_def Group42Var5_Size_def codec_oks codec_put [OF UInt8_ok(1)] codec_put [OF f32(1)])

lemma read_Group42Var5: "Group42Var5_Read E (Group42Var5_Write E x @ r) = Some (x, r)"
  by (simp add: Group42Var5_Read_def Group42Var5_Write_def LE_read2_put [OF UInt8_ok(1) f32(1)])

lemma length_Group42Var6: "length (Group42Var6_Write E x) = Group42Var6_Size"
  by (simp add: Group42Var6_Write_def Group42Var6_Size_def codec_oks codec_put [OF UInt8_ok(1)] codec_put [OF f64(1)])

lemma read_Group42Var6: "is_double (qv_value x) \<Longrightarrow> Group42Var6_Read E (Group42Var6_Write E x @ r) = Some (x, r)"
  by (simp add: Group42Var6_Read_def Group42Var6_Write_def LE_read2_put [OF UInt8_ok(1) f64(1)])

lemma length_Group42Var7: "length (Group42Var7_Write E x) = Group42Var7_Size"
  by (simp add: Group42Var7_Write_def Group42Var7_Size_def codec_oks codec_put [OF UInt8_ok(1)] codec_put [OF f32(1)] codec_put [OF time_ok(1)])

lemma read_Group42Var7: "wire_time (qvt_time x) \<Longrightarrow> Group42Var7_Read E (Group42Var7_Write E x @ r) = Some (x, r)"
  by (simp add: Group42Var7_Read_def Group42Var7_Write_def LE_read3_put [OF UInt8_ok(1) f32(1) time_ok(1)])

lemma length_Group42Var8: "length (Group42Var8_Write E x) = Group42Var8_Size"
  by (simp add: Group42Var8_Write_def Group42Var8_Size_def codec_oks codec_put [OF UInt8_ok(1)] codec_put [OF f64(1)] codec_put [OF time_ok(1)])

lemma read_Group42Var8: "is_double (qv_value x) \<Longrightarrow> wire_time (qvt_time x) \<Longrightarrow> Group42Var8_Read E (Group42Var8_Write E x @ r) = Some (x, r)"
  by (simp add: Group42Var8_Read_def Group42Var8_Write_def LE_read3_put [OF UInt8_ok(1) f64(1) time_ok(1)])

lemma length_Group43Var1: "length (Group43Var1_Write E x) = Group43Var1_Size"
  by (simp add: Group43Var1_Write_def Group43Var1_Size_def codec_oks codec_put [OF UInt8_ok(1)] codec_put [OF i32(1)])

lemma read_Group43Var1: "Group43Var1_Read E (Group43Var1_Write E x @ r) = Some (x, r)"
  by (simp add: Group43Var1_Read_def Group43Var1_Write_def LE_read2_put [OF UInt8_ok(1) i32(1)])

lemma length_Group43Var2: "length (Group43Var2_Write E x) = Group43Var2_Size"
  by (simp add: Group43Var2_Write_def Group43Var2_Size_def codec_oks codec_put [OF UInt8_ok(1)] codec_put [OF i16(1)])

lemma read_Group43Var2: "Group43Var2_Read E (Group43Var2_Write E x @ r) = Some (x, r)"
  by (simp add: Group43Var2_Read_def Group43Var2_Write_def LE_read2_put [OF UInt8_ok(1) i16(1)])

lemma length_Group43Var3: "length (Group43Var3_Write E x) = Group43Var3_Size"
  by (simp add: Group43Var3_Write_def Group43Var3_Size_def codec_oks codec_put [OF UInt8_ok(1)] codec_put [OF i32(1)] codec_put [OF time_ok(1)])

lemma read_Group43Var3: "wire_time (svt_time x) \<Longrightarrow> Group43Var3_Read E (Group43Var3_Write E x @ r) = Some (x, r)"
  by (simp add: Group43Var3_Read_def Group43Var3_Write_def LE_read3_put [OF UInt8_ok(1) i32(1) time_ok(1)])

lemma length_Group43Var4: "length (Group43Var4_Write E x) = Group43Var4_Size"
  by (simp add: Group43Var4_Write_def Group43Var4_Size_def codec_oks codec_put [OF UInt8_ok(1)] codec_put [OF i16(1)] codec_put [OF time_ok(1)])

lemma read_Group43Var4: "wire_time (svt_time x) \<Longrightarrow> Group43Var4_Read E (Group43Var4_Write E x @ r) = Some (x, r)"
  by (simp add: Group43Var4_Read_def Group43Var4_Write_def LE_read3_put [OF UInt8_ok(1) i16(1) time_ok(1)])

lemma length_Group43Var5: "length (Group43Var5_Write E x) = Group43Var5_Size"
  by (simp add: Group43Var5_Write_def Group43Var5_Size_def codec_oks codec_put [OF UInt8_ok(1)] codec_put [OF f32(1)])

lemma read_Group43Var5: "Group43Var5_Read E (Group43Var5_Write E x @ r) = Some (x, r)"
  by (simp add: Group43Var5_Read_def Group43Var5_Write_def LE_read2_put [OF UInt8_ok(1) f32(1)])

lemma length_Group43Var6: "length (Group43Var6_Write E x) = Group43Var6_Size"
  by (simp add: Group43Var6_Write_def Group43Var6_Size_def codec_oks codec_put [OF UInt8_ok(1)] codec_put [OF f64(1)])

lemma read_Group43Var6: "is_double (sv_value x) \<Longrightarrow> Group43Var6_Read E (Group43Var6_Write E x @ r) = Some (x, r)"
  by (simp add: Group43Var6_Read_def Group43Var6_Write_def LE_read2_put [OF UInt8_ok(1) f64(1)])

lemma length_Group43Var7: "length (Group43Var7_Write E x) = Group43Var7_Size"
  by (simp add: Group43Var7_Write_def Group43Var7_Size_def codec_oks codec_put [OF UInt8_ok(1)] codec_put [OF f32(1)] codec_put [OF time_ok(1)])

lemma read_Group43Var7: "wire_time (svt_time x) \<Longrightarrow> Group43Var7_Read E (Group43Var7_Write E x @ r) = Some (x, r)"
  by (simp add: Group43Var7_Read_def Group43Var7_Write_def LE_read3_put [OF UInt8_ok(1) f32(1) time_ok(1)])

lemma length_Group43Var8: "length (Group43Var8_Write E x) = Group43Var8_Size"
  by (simp add: Group43Var8_Write_def Group43Var8_Size_def codec_oks codec_put [OF UInt8_ok(1)] codec_put [OF f64(1)] codec_put [OF time_ok(1)])

lemma read_Group43Var8: "is_double (sv_value x) \<Longrightarrow> wire_time (svt_time x) \<Longrightarrow> Group43Var8_Read E (Group43Var8_Write E x @ r) = Some (x, r)"
  by (simp add: Group43Var8_Read_def Group43Var8_Write_def LE_read3_put [OF UInt8_ok(1) f64(1) time_ok(1)])

lemma length_Group50Var1: "length (Group50Var1_Write E x) = Group50Var1_Size"
  by (simp add: Group50Var1_Write_def Group50Var1_Size_def codec_oks codec_put [OF time_ok(1)])

lemma read_Group50Var1: "wire_time (o_time x) \<Longrightarrow> Group50Var1_Read E (Group50Var1_Write E x @ r) = Some (x, r)"
  by (simp add: Group50Var1_Read_def Group50Var1_Write_def LE_read1_put [OF time_ok(1)])

lemma length_Group50Var3: "length (Group50Var3_Write E x) = Group50Var3_Size"
  by (simp add: Group50Var3_Write_def Group50Var3_Size_def codec_oks codec_put [OF time_ok(1)])

lemma read_Group50Var3: "wire_time (o_time x) \<Longrightarrow> Group50Var3_Read E (Group50Var3_Write E x @ r) = Some (x, r)"
  by (simp add: Group50Var3_Read_def Group50Var3_Write_def LE_read1_put [OF time_ok(1)])

lemma length_Group50Var4: "length (Group50Var4_Write E x) = Group50Var4_Size"
  by (simp add: Group50Var4_Write_def Group50Var4_Size_def codec_oks codec_put [OF UInt8_ok(1)] codec_put [OF time_ok(1)] codec_put [OF u32(1)])

lemma read_Group50Var4: "wire_time (tiu_time x) \<Longrightarrow> Group50Var4_Read E (Group50Var4_Write E x @ r) = Some (x, r)"
  by (simp add: Group50Var4_Read_def Group50Var4_Write_def LE_read3_put [OF time_ok(1) u32(1) UInt8_ok(1)])

lemma length_Group51Var1: "length (Group51Var1_Write E x) = Group51Var1_Size"
  by (simp add: Group51Var1_Write_def Group51Var1_Size_def codec_oks codec_put [OF time_ok(1)])

lemma read_Group51Var1: "wire_time (o_time x) \<Longrightarrow> Group51Var1_Read E (Group51Var1_Write E x @ r) = Some (x, r)"
  by (simp add: Group51Var1_Read_def Group51Var1_Write_def LE_read1_put [OF time_ok(1)])

lemma length_Group51Var2: "length (Group51Var2_Write E x) = Group51Var2_Size"
  by (simp add: Group51Var2_Write_def Group51Var2_Size_def codec_oks codec_put [OF time_ok(1)])

lemma read_Group51Var2: "wire_time (o_time x) \<Longrightarrow> Group51Var2_Read E (Group51Var2_Write E x @ r) = Some (x, r)"
  by (simp add: Group51Var2_Read_def Group51Var2_Write_def LE_read1_put [OF time_ok(1)])

lemma length_Group52Var1: "length (Group52Var1_Write E x) = Group52Var1_Size"
  by (simp add: Group52Var1_Write_def Group52Var1_Size_def codec_oks codec_put [OF UInt16_ok(1)])

lemma read_Group52Var1: "Group52Var1_Read E (Group52Var1_Write E x @ r) = Some (x, r)"
  by (simp add: Group52Var1_Read_def Group52Var1_Write_def LE_read1_put [OF UInt16_ok(1)])

lemma length_Group52Var2: "length (Group52Var2_Write E x) = Group52Var2_Size"
  by (simp add: Group52Var2_Write_def Group52Var2_Size_def codec_oks codec_put [OF UInt16_ok(1)])

lemma read_Group52Var2: "Group52Var2_Read E (Group52Var2_Write E x @ r) = Some (x, r)"
  by (simp add: Group52Var2_Read_def Group52Var2_Write_def LE_read1_put [OF UInt16_ok(1)])

lemmas object_lengths =
  length_Group1Var2 length_Group2Var1 length_Group2Var2 length_Group2Var3 length_Group3Var2 length_Group4Var1
  length_Group4Var2 length_Group4Var3 length_Group10Var2 length_Group11Var1 length_Group11Var2 length_Group12Var1
  length_Group13Var1 length_Group13Var2 length_Group20Var1 length_Group20Var2 length_Group20Var5 length_Group20Var6
  length_Group21Var1 length_Group21Var2 length_Group21Var5 length_Group21Var6 length_Group21Var9 length_Group21Var10
  length_Group22Var1 length_Group22Var2 length_Group22Var5 length_Group22Var6 length_Group23Var1 length_Group23Var2
  length_Group23Var5 length_Group23Var6 length_Group30Var1 length_Group30Var2 length_Group30Var3 length_Group30Var4
  length_Group30Var5 length_Group30Var6 length_Group32Var1 length_Group32Var2 length_Group32Var3 length_Group32Var4
  length_Group32Var5 length_Group32Var6 length_Group32Var7 length_Group32Var8 length_Group40Var1 length_Group40Var2
  length_Group40Var3 length_Group40Var4 length_Group41Var1 length_Group41Var2 length_Group41Var3 length_Group41Var4
  length_Group42Var1 length_Group42Var2 length_Group42Var3 length_Group42Var4 length_Group42Var5 length_Group42Var6
  length_Group42Var7 length_Group42Var8 length_Group43Var1 length_Group43Var2 length_Group43Var3 length_Group43Var4
  length_Group43Var5 length_Group43Var6 length_Group43Var7 length_Group43Var8 length_Group50Var1 length_Group50Var3
  length_Group50Var4 length_Group51Var1 length_Group51Var2 length_Group52Var1 length_Group52Var2

lemmas object_reads =
  read_Group1Var2 read_Group2Var1 read_Group2Var2 read_Group2Var3 read_Group3Var2 read_Group4Var1
  read_Group4Var2 read_Group4Var3 read_Group10Var2 read_Group11Var1 read_Group11Var2 read_Group12Var1
  read_Group13Var1 read_Group13Var2 read_Group20Var1 read_Group20Var2 read_Group20Var5 read_Group20Var6
  read_Group21Var1 read_Group21Var2 read_Group21Var5 read_Group21Var6 read_Group21Var9 read_Group21Var10
  read_Group22Var1 read_Group22Var2 read_Group22Var5 read_Group22Var6 read_Group23Var1 read_Group23Var2
  read_Group23Var5 read_Group23Var6 read_Group30Var1 read_Group30Var2 read_Group30Var3 read_Group30Var4
  read_Group30Var5 read_Group30Var6 read_Group32Var1 read_Group32Var2 read_Group32Var3 read_Group32Var4
  read_Group32Var5 read_Group32Var6 read_Group32Var7 read_Group32Var8 read_Group40Var1 read_Group40Var2
  read_Group40Var3 read_Group40Var4 read_Group41Var1 read_Group41Var2 read_Group41Var3 read_Group41Var4
  read_Group42Var1 read_Group42Var2 read_Group42Var3 read_Group42Var4 read_Group42Var5 read_Group42Var6
  read_Group42Var7 read_Group42Var8 read_Group43Var1 read_Group43Var2 read_Group43Var3 read_Group43Var4
  read_Group43Var5 read_Group43Var6 read_Group43Var7 read_Group43Var8 read_Group50Var1 read_Group50Var3
  read_Group50Var4 read_Group51Var1 read_Group51Var2 read_Group52Var1 read_Group52Var2

end

section \<open>Serializers are exact\<close>

text \<open>
  A serializer is exact when it writes its size, and reads as many bytes, failing on fewer and never
  otherwise. The client of a serializer (the header writer, the parser) relies on this; it is the locale
  \<open>exact_serializer\<close>, which the serializers of the default variations and of the control block interpret;
  the others are exact by the lemmas \<open>sized_*\<close>.
\<close>

definition well_sized :: "'t DNP3Serializer \<Rightarrow> bool" where
  "well_sized S =
     ((\<forall>v. length (ser_write S v) = ser_size S)
      \<and> (\<forall>b. case ser_read S b of None \<Rightarrow> length b < ser_size S | Some (v, r) \<Rightarrow> ser_size S \<le> length b \<and> r = drop (ser_size S) b))"

locale exact_serializer =
  fixes S :: "'t DNP3Serializer"
  assumes exact: "well_sized S"
begin

lemma length_write: "length (ser_write S v) = ser_size S"
  using exact by (simp add: well_sized_def)

lemma length_writes: "length (concat (map (ser_write S) vs)) = length vs * ser_size S"
  by (induction vs) (simp_all add: length_write)

lemma read_rest: "ser_read S b = Some (v, r) \<Longrightarrow> r = drop (ser_size S) b"
  using exact unfolding well_sized_def by (metis (mono_tags, lifting) case_prodD option.simps(5))

lemma read_fails: "(ser_read S b = None) = (length b < ser_size S)"
proof -
  have "case ser_read S b of None \<Rightarrow> length b < ser_size S | Some (v, r) \<Rightarrow> ser_size S \<le> length b \<and> r = drop (ser_size S) b"
    using exact unfolding well_sized_def by blast
  then show ?thesis by (cases "ser_read S b") auto
qed

end

lemma LE_read_eqs:
  "LE_read1 c f b = (if length b < c_size c then None else Some (f (c_get c b), drop (c_size c) b))"
  "LE_read2 c d f2 b = (if length b < c_size c + c_size d then None
     else Some (f2 (c_get c b) (c_get d (drop (c_size c) b)), drop (c_size c + c_size d) b))"
  "LE_read3 c d e f3 b = (if length b < c_size c + c_size d + c_size e then None
     else Some (f3 (c_get c b) (c_get d (drop (c_size c) b)) (c_get e (drop (c_size c + c_size d) b)), drop (c_size c + c_size d + c_size e) b))"
  by (auto simp: LE_read1_def LE_read2_def LE_read3_def read_one_def add.commute add.left_commute)

lemma LE_read5_eq:
  "LE_read5 c d e g h f b = (if length b < c_size c + c_size d + c_size e + c_size g + c_size h then None
     else Some (f (c_get c b) (c_get d (drop (c_size c) b)) (c_get e (drop (c_size c + c_size d) b))
       (c_get g (drop (c_size c + c_size d + c_size e) b)) (c_get h (drop (c_size c + c_size d + c_size e + c_size g) b)),
       drop (c_size c + c_size d + c_size e + c_size g + c_size h) b))"
  by (auto simp: LE_read5_def LE_read_eqs read_one_def add.commute add.left_commute)

context le_codec
begin

lemmas sizing = well_sized_def LE_read_eqs codec_oks size_defs Suc_le_eq numeral_3_eq_3

lemma sized_Group1Var2: "well_sized (Group1Var2_Inst E)"
  by (simp add: sizing Group1Var2_Inst_def Group1Var2_WriteTarget_def Group1Var2_ReadTarget_def Group1Var2_Read_def length_Group1Var2)

lemma sized_Group2Var1: "well_sized (Group2Var1_Inst E)"
  by (simp add: sizing Group2Var1_Inst_def Group2Var1_WriteTarget_def Group2Var1_ReadTarget_def Group2Var1_Read_def length_Group2Var1)

lemma sized_Group2Var2: "well_sized (Group2Var2_Inst E)"
  by (simp add: sizing Group2Var2_Inst_def Group2Var2_WriteTarget_def Group2Var2_ReadTarget_def Group2Var2_Read_def length_Group2Var2)

lemma sized_Group2Var3: "well_sized (Group2Var3_Inst E)"
  by (simp add: sizing Group2Var3_Inst_def Group2Var3_WriteTarget_def Group2Var3_ReadTarget_def Group2Var3_Read_def length_Group2Var3)

lemma sized_Group3Var2: "well_sized (Group3Var2_Inst E)"
  by (simp add: sizing Group3Var2_Inst_def Group3Var2_WriteTarget_def Group3Var2_ReadTarget_def Group3Var2_Read_def length_Group3Var2)

lemma sized_Group4Var1: "well_sized (Group4Var1_Inst E)"
  by (simp add: sizing Group4Var1_Inst_def Group4Var1_WriteTarget_def Group4Var1_ReadTarget_def Group4Var1_Read_def length_Group4Var1)

lemma sized_Group4Var2: "well_sized (Group4Var2_Inst E)"
  by (simp add: sizing Group4Var2_Inst_def Group4Var2_WriteTarget_def Group4Var2_ReadTarget_def Group4Var2_Read_def length_Group4Var2)

lemma sized_Group4Var3: "well_sized (Group4Var3_Inst E)"
  by (simp add: sizing Group4Var3_Inst_def Group4Var3_WriteTarget_def Group4Var3_ReadTarget_def Group4Var3_Read_def length_Group4Var3)

lemma sized_Group10Var2: "well_sized (Group10Var2_Inst E)"
  by (simp add: sizing Group10Var2_Inst_def Group10Var2_WriteTarget_def Group10Var2_ReadTarget_def Group10Var2_Read_def length_Group10Var2)

lemma sized_Group11Var1: "well_sized (Group11Var1_Inst E)"
  by (simp add: sizing Group11Var1_Inst_def Group11Var1_WriteTarget_def Group11Var1_ReadTarget_def Group11Var1_Read_def length_Group11Var1)

lemma sized_Group11Var2: "well_sized (Group11Var2_Inst E)"
  by (simp add: sizing Group11Var2_Inst_def Group11Var2_WriteTarget_def Group11Var2_ReadTarget_def Group11Var2_Read_def length_Group11Var2)

lemma sized_Group12Var1: "well_sized (Group12Var1_Inst E)"
proof -
  have "ControlRelayOutputBlockFactory_From a b c d e = Some (the (ControlRelayOutputBlockFactory_From a b c d e))" for a b c d e
    using trip_code_total [of "drop_bit 6 a"] by (auto simp: ControlRelayOutputBlockFactory_From_def CROB_of_raw_def)
  then have *: "map_option f (ControlRelayOutputBlockFactory_From a b c d e) = Some (f (the (ControlRelayOutputBlockFactory_From a b c d e)))" for f a b c d e
    by (metis option.simps(9))
  show ?thesis
    by (simp add: sizing LE_read5_eq Group12Var1_Inst_def Group12Var1_WriteTarget_def Group12Var1_ReadTarget_def Group12Var1_Read_def
        length_Group12Var1 *)
qed

lemma sized_Group13Var1: "well_sized (Group13Var1_Inst E)"
  by (simp add: sizing Group13Var1_Inst_def Group13Var1_WriteTarget_def Group13Var1_ReadTarget_def Group13Var1_Read_def length_Group13Var1)

lemma sized_Group13Var2: "well_sized (Group13Var2_Inst E)"
  by (simp add: sizing Group13Var2_Inst_def Group13Var2_WriteTarget_def Group13Var2_ReadTarget_def Group13Var2_Read_def length_Group13Var2)

lemma sized_Group20Var1: "well_sized (Group20Var1_Inst E)"
  by (simp add: sizing Group20Var1_Inst_def Group20Var1_WriteTarget_def Group20Var1_ReadTarget_def Group20Var1_Read_def length_Group20Var1)

lemma sized_Group20Var2: "well_sized (Group20Var2_Inst E)"
  by (simp add: sizing Group20Var2_Inst_def Group20Var2_WriteTarget_def Group20Var2_ReadTarget_def Group20Var2_Read_def length_Group20Var2)

lemma sized_Group20Var5: "well_sized (Group20Var5_Inst E)"
  by (simp add: sizing Group20Var5_Inst_def Group20Var5_WriteTarget_def Group20Var5_ReadTarget_def Group20Var5_Read_def length_Group20Var5)

lemma sized_Group20Var6: "well_sized (Group20Var6_Inst E)"
  by (simp add: sizing Group20Var6_Inst_def Group20Var6_WriteTarget_def Group20Var6_ReadTarget_def Group20Var6_Read_def length_Group20Var6)

lemma sized_Group21Var1: "well_sized (Group21Var1_Inst E)"
  by (simp add: sizing Group21Var1_Inst_def Group21Var1_WriteTarget_def Group21Var1_ReadTarget_def Group21Var1_Read_def length_Group21Var1)

lemma sized_Group21Var2: "well_sized (Group21Var2_Inst E)"
  by (simp add: sizing Group21Var2_Inst_def Group21Var2_WriteTarget_def Group21Var2_ReadTarget_def Group21Var2_Read_def length_Group21Var2)

lemma sized_Group21Var5: "well_sized (Group21Var5_Inst E)"
  by (simp add: sizing Group21Var5_Inst_def Group21Var5_WriteTarget_def Group21Var5_ReadTarget_def Group21Var5_Read_def length_Group21Var5)

lemma sized_Group21Var6: "well_sized (Group21Var6_Inst E)"
  by (simp add: sizing Group21Var6_Inst_def Group21Var6_WriteTarget_def Group21Var6_ReadTarget_def Group21Var6_Read_def length_Group21Var6)

lemma sized_Group21Var9: "well_sized (Group21Var9_Inst E)"
  by (simp add: sizing Group21Var9_Inst_def Group21Var9_WriteTarget_def Group21Var9_ReadTarget_def Group21Var9_Read_def length_Group21Var9)

lemma sized_Group21Var10: "well_sized (Group21Var10_Inst E)"
  by (simp add: sizing Group21Var10_Inst_def Group21Var10_WriteTarget_def Group21Var10_ReadTarget_def Group21Var10_Read_def length_Group21Var10)

lemma sized_Group22Var1: "well_sized (Group22Var1_Inst E)"
  by (simp add: sizing Group22Var1_Inst_def Group22Var1_WriteTarget_def Group22Var1_ReadTarget_def Group22Var1_Read_def length_Group22Var1)

lemma sized_Group22Var2: "well_sized (Group22Var2_Inst E)"
  by (simp add: sizing Group22Var2_Inst_def Group22Var2_WriteTarget_def Group22Var2_ReadTarget_def Group22Var2_Read_def length_Group22Var2)

lemma sized_Group22Var5: "well_sized (Group22Var5_Inst E)"
  by (simp add: sizing Group22Var5_Inst_def Group22Var5_WriteTarget_def Group22Var5_ReadTarget_def Group22Var5_Read_def length_Group22Var5)

lemma sized_Group22Var6: "well_sized (Group22Var6_Inst E)"
  by (simp add: sizing Group22Var6_Inst_def Group22Var6_WriteTarget_def Group22Var6_ReadTarget_def Group22Var6_Read_def length_Group22Var6)

lemma sized_Group23Var1: "well_sized (Group23Var1_Inst E)"
  by (simp add: sizing Group23Var1_Inst_def Group23Var1_WriteTarget_def Group23Var1_ReadTarget_def Group23Var1_Read_def length_Group23Var1)

lemma sized_Group23Var2: "well_sized (Group23Var2_Inst E)"
  by (simp add: sizing Group23Var2_Inst_def Group23Var2_WriteTarget_def Group23Var2_ReadTarget_def Group23Var2_Read_def length_Group23Var2)

lemma sized_Group23Var5: "well_sized (Group23Var5_Inst E)"
  by (simp add: sizing Group23Var5_Inst_def Group23Var5_WriteTarget_def Group23Var5_ReadTarget_def Group23Var5_Read_def length_Group23Var5)

lemma sized_Group23Var6: "well_sized (Group23Var6_Inst E)"
  by (simp add: sizing Group23Var6_Inst_def Group23Var6_WriteTarget_def Group23Var6_ReadTarget_def Group23Var6_Read_def length_Group23Var6)

lemma sized_Group30Var1: "well_sized (Group30Var1_Inst E)"
  by (simp add: sizing Group30Var1_Inst_def Group30Var1_WriteTarget_def Group30Var1_ReadTarget_def Group30Var1_Read_def length_Group30Var1)

lemma sized_Group30Var2: "well_sized (Group30Var2_Inst E)"
  by (simp add: sizing Group30Var2_Inst_def Group30Var2_WriteTarget_def Group30Var2_ReadTarget_def Group30Var2_Read_def length_Group30Var2)

lemma sized_Group30Var3: "well_sized (Group30Var3_Inst E)"
  by (simp add: sizing Group30Var3_Inst_def Group30Var3_WriteTarget_def Group30Var3_ReadTarget_def Group30Var3_Read_def length_Group30Var3)

lemma sized_Group30Var4: "well_sized (Group30Var4_Inst E)"
  by (simp add: sizing Group30Var4_Inst_def Group30Var4_WriteTarget_def Group30Var4_ReadTarget_def Group30Var4_Read_def length_Group30Var4)

lemma sized_Group30Var5: "well_sized (Group30Var5_Inst E)"
  by (simp add: sizing Group30Var5_Inst_def Group30Var5_WriteTarget_def Group30Var5_ReadTarget_def Group30Var5_Read_def length_Group30Var5)

lemma sized_Group30Var6: "well_sized (Group30Var6_Inst E)"
  by (simp add: sizing Group30Var6_Inst_def Group30Var6_WriteTarget_def Group30Var6_ReadTarget_def Group30Var6_Read_def length_Group30Var6)

lemma sized_Group32Var1: "well_sized (Group32Var1_Inst E)"
  by (simp add: sizing Group32Var1_Inst_def Group32Var1_WriteTarget_def Group32Var1_ReadTarget_def Group32Var1_Read_def length_Group32Var1)

lemma sized_Group32Var2: "well_sized (Group32Var2_Inst E)"
  by (simp add: sizing Group32Var2_Inst_def Group32Var2_WriteTarget_def Group32Var2_ReadTarget_def Group32Var2_Read_def length_Group32Var2)

lemma sized_Group32Var3: "well_sized (Group32Var3_Inst E)"
  by (simp add: sizing Group32Var3_Inst_def Group32Var3_WriteTarget_def Group32Var3_ReadTarget_def Group32Var3_Read_def length_Group32Var3)

lemma sized_Group32Var4: "well_sized (Group32Var4_Inst E)"
  by (simp add: sizing Group32Var4_Inst_def Group32Var4_WriteTarget_def Group32Var4_ReadTarget_def Group32Var4_Read_def length_Group32Var4)

lemma sized_Group32Var5: "well_sized (Group32Var5_Inst E)"
  by (simp add: sizing Group32Var5_Inst_def Group32Var5_WriteTarget_def Group32Var5_ReadTarget_def Group32Var5_Read_def length_Group32Var5)

lemma sized_Group32Var6: "well_sized (Group32Var6_Inst E)"
  by (simp add: sizing Group32Var6_Inst_def Group32Var6_WriteTarget_def Group32Var6_ReadTarget_def Group32Var6_Read_def length_Group32Var6)

lemma sized_Group32Var7: "well_sized (Group32Var7_Inst E)"
  by (simp add: sizing Group32Var7_Inst_def Group32Var7_WriteTarget_def Group32Var7_ReadTarget_def Group32Var7_Read_def length_Group32Var7)

lemma sized_Group32Var8: "well_sized (Group32Var8_Inst E)"
  by (simp add: sizing Group32Var8_Inst_def Group32Var8_WriteTarget_def Group32Var8_ReadTarget_def Group32Var8_Read_def length_Group32Var8)

lemma sized_Group40Var1: "well_sized (Group40Var1_Inst E)"
  by (simp add: sizing Group40Var1_Inst_def Group40Var1_WriteTarget_def Group40Var1_ReadTarget_def Group40Var1_Read_def length_Group40Var1)

lemma sized_Group40Var2: "well_sized (Group40Var2_Inst E)"
  by (simp add: sizing Group40Var2_Inst_def Group40Var2_WriteTarget_def Group40Var2_ReadTarget_def Group40Var2_Read_def length_Group40Var2)

lemma sized_Group40Var3: "well_sized (Group40Var3_Inst E)"
  by (simp add: sizing Group40Var3_Inst_def Group40Var3_WriteTarget_def Group40Var3_ReadTarget_def Group40Var3_Read_def length_Group40Var3)

lemma sized_Group40Var4: "well_sized (Group40Var4_Inst E)"
  by (simp add: sizing Group40Var4_Inst_def Group40Var4_WriteTarget_def Group40Var4_ReadTarget_def Group40Var4_Read_def length_Group40Var4)

lemma sized_Group41Var1: "well_sized (Group41Var1_Inst E)"
  by (simp add: sizing Group41Var1_Inst_def Group41Var1_WriteTarget_def Group41Var1_ReadTarget_def Group41Var1_Read_def length_Group41Var1)

lemma sized_Group41Var2: "well_sized (Group41Var2_Inst E)"
  by (simp add: sizing Group41Var2_Inst_def Group41Var2_WriteTarget_def Group41Var2_ReadTarget_def Group41Var2_Read_def length_Group41Var2)

lemma sized_Group41Var3: "well_sized (Group41Var3_Inst E)"
  by (simp add: sizing Group41Var3_Inst_def Group41Var3_WriteTarget_def Group41Var3_ReadTarget_def Group41Var3_Read_def length_Group41Var3)

lemma sized_Group41Var4: "well_sized (Group41Var4_Inst E)"
  by (simp add: sizing Group41Var4_Inst_def Group41Var4_WriteTarget_def Group41Var4_ReadTarget_def Group41Var4_Read_def length_Group41Var4)

lemma sized_Group42Var1: "well_sized (Group42Var1_Inst E)"
  by (simp add: sizing Group42Var1_Inst_def Group42Var1_WriteTarget_def Group42Var1_ReadTarget_def Group42Var1_Read_def length_Group42Var1)

lemma sized_Group42Var2: "well_sized (Group42Var2_Inst E)"
  by (simp add: sizing Group42Var2_Inst_def Group42Var2_WriteTarget_def Group42Var2_ReadTarget_def Group42Var2_Read_def length_Group42Var2)

lemma sized_Group42Var3: "well_sized (Group42Var3_Inst E)"
  by (simp add: sizing Group42Var3_Inst_def Group42Var3_WriteTarget_def Group42Var3_ReadTarget_def Group42Var3_Read_def length_Group42Var3)

lemma sized_Group42Var4: "well_sized (Group42Var4_Inst E)"
  by (simp add: sizing Group42Var4_Inst_def Group42Var4_WriteTarget_def Group42Var4_ReadTarget_def Group42Var4_Read_def length_Group42Var4)

lemma sized_Group42Var5: "well_sized (Group42Var5_Inst E)"
  by (simp add: sizing Group42Var5_Inst_def Group42Var5_WriteTarget_def Group42Var5_ReadTarget_def Group42Var5_Read_def length_Group42Var5)

lemma sized_Group42Var6: "well_sized (Group42Var6_Inst E)"
  by (simp add: sizing Group42Var6_Inst_def Group42Var6_WriteTarget_def Group42Var6_ReadTarget_def Group42Var6_Read_def length_Group42Var6)

lemma sized_Group42Var7: "well_sized (Group42Var7_Inst E)"
  by (simp add: sizing Group42Var7_Inst_def Group42Var7_WriteTarget_def Group42Var7_ReadTarget_def Group42Var7_Read_def length_Group42Var7)

lemma sized_Group42Var8: "well_sized (Group42Var8_Inst E)"
  by (simp add: sizing Group42Var8_Inst_def Group42Var8_WriteTarget_def Group42Var8_ReadTarget_def Group42Var8_Read_def length_Group42Var8)

lemma sized_Group43Var1: "well_sized (Group43Var1_Inst E)"
  by (simp add: sizing Group43Var1_Inst_def Group43Var1_WriteTarget_def Group43Var1_ReadTarget_def Group43Var1_Read_def length_Group43Var1)

lemma sized_Group43Var2: "well_sized (Group43Var2_Inst E)"
  by (simp add: sizing Group43Var2_Inst_def Group43Var2_WriteTarget_def Group43Var2_ReadTarget_def Group43Var2_Read_def length_Group43Var2)

lemma sized_Group43Var3: "well_sized (Group43Var3_Inst E)"
  by (simp add: sizing Group43Var3_Inst_def Group43Var3_WriteTarget_def Group43Var3_ReadTarget_def Group43Var3_Read_def length_Group43Var3)

lemma sized_Group43Var4: "well_sized (Group43Var4_Inst E)"
  by (simp add: sizing Group43Var4_Inst_def Group43Var4_WriteTarget_def Group43Var4_ReadTarget_def Group43Var4_Read_def length_Group43Var4)

lemma sized_Group43Var5: "well_sized (Group43Var5_Inst E)"
  by (simp add: sizing Group43Var5_Inst_def Group43Var5_WriteTarget_def Group43Var5_ReadTarget_def Group43Var5_Read_def length_Group43Var5)

lemma sized_Group43Var6: "well_sized (Group43Var6_Inst E)"
  by (simp add: sizing Group43Var6_Inst_def Group43Var6_WriteTarget_def Group43Var6_ReadTarget_def Group43Var6_Read_def length_Group43Var6)

lemma sized_Group43Var7: "well_sized (Group43Var7_Inst E)"
  by (simp add: sizing Group43Var7_Inst_def Group43Var7_WriteTarget_def Group43Var7_ReadTarget_def Group43Var7_Read_def length_Group43Var7)

lemma sized_Group43Var8: "well_sized (Group43Var8_Inst E)"
  by (simp add: sizing Group43Var8_Inst_def Group43Var8_WriteTarget_def Group43Var8_ReadTarget_def Group43Var8_Read_def length_Group43Var8)

lemma sized_Group50Var4: "well_sized (Group50Var4_Inst E)"
  by (simp add: sizing Group50Var4_Inst_def Group50Var4_WriteTarget_def Group50Var4_ReadTarget_def Group50Var4_Read_def length_Group50Var4)

lemmas sized_Insts =
  sized_Group1Var2 sized_Group2Var1 sized_Group2Var2 sized_Group2Var3 sized_Group3Var2 sized_Group4Var1
  sized_Group4Var2 sized_Group4Var3 sized_Group10Var2 sized_Group11Var1 sized_Group11Var2 sized_Group12Var1
  sized_Group13Var1 sized_Group13Var2 sized_Group20Var1 sized_Group20Var2 sized_Group20Var5 sized_Group20Var6
  sized_Group21Var1 sized_Group21Var2 sized_Group21Var5 sized_Group21Var6 sized_Group21Var9 sized_Group21Var10
  sized_Group22Var1 sized_Group22Var2 sized_Group22Var5 sized_Group22Var6 sized_Group23Var1 sized_Group23Var2
  sized_Group23Var5 sized_Group23Var6 sized_Group30Var1 sized_Group30Var2 sized_Group30Var3 sized_Group30Var4
  sized_Group30Var5 sized_Group30Var6 sized_Group32Var1 sized_Group32Var2 sized_Group32Var3 sized_Group32Var4
  sized_Group32Var5 sized_Group32Var6 sized_Group32Var7 sized_Group32Var8 sized_Group40Var1 sized_Group40Var2
  sized_Group40Var3 sized_Group40Var4 sized_Group41Var1 sized_Group41Var2 sized_Group41Var3 sized_Group41Var4
  sized_Group42Var1 sized_Group42Var2 sized_Group42Var3 sized_Group42Var4 sized_Group42Var5 sized_Group42Var6
  sized_Group42Var7 sized_Group42Var8 sized_Group43Var1 sized_Group43Var2 sized_Group43Var3 sized_Group43Var4
  sized_Group43Var5 sized_Group43Var6 sized_Group43Var7 sized_Group43Var8 sized_Group50Var4

end

sublocale le_codec \<subseteq> g1v2: exact_serializer "Group1Var2_Inst E"
  by unfold_locales (rule sized_Group1Var2)

sublocale le_codec \<subseteq> g3v2: exact_serializer "Group3Var2_Inst E"
  by unfold_locales (rule sized_Group3Var2)

sublocale le_codec \<subseteq> g10v2: exact_serializer "Group10Var2_Inst E"
  by unfold_locales (rule sized_Group10Var2)

sublocale le_codec \<subseteq> g20v1: exact_serializer "Group20Var1_Inst E"
  by unfold_locales (rule sized_Group20Var1)

sublocale le_codec \<subseteq> g30v1: exact_serializer "Group30Var1_Inst E"
  by unfold_locales (rule sized_Group30Var1)

sublocale le_codec \<subseteq> g40v1: exact_serializer "Group40Var1_Inst E"
  by unfold_locales (rule sized_Group40Var1)

sublocale le_codec \<subseteq> g32v1: exact_serializer "Group32Var1_Inst E"
  by unfold_locales (rule sized_Group32Var1)

sublocale le_codec \<subseteq> g12v1: exact_serializer "Group12Var1_Inst E"
  by unfold_locales (rule sized_Group12Var1)

section \<open>What a reader gets\<close>

definition lossless :: "'t DNP3Serializer \<Rightarrow> 't \<Rightarrow> bool" where
  "lossless S v = (\<forall>r. ser_read S (ser_write S v @ r) = Some (v, r))"

text \<open>
  An analog value is read as the integer \<open>k\<close>; the flag \<open>OVERRANGE\<close> tells whether it had to be clipped, where
  the variation has flags. An infinite value passes a bound too. Without flags a reader assumes \<open>ONLINE\<close>.
\<close>

definition is_nan :: "double \<Rightarrow> bool" where
  "is_nan d = (case d of NaN _ _ \<Rightarrow> True | _ \<Rightarrow> False)"

definition double_in :: "int \<Rightarrow> int \<Rightarrow> double \<Rightarrow> bool" where
  "double_in lo hi d = (case real_of_double d of None \<Rightarrow> False | Some x \<Rightarrow> real_of_int lo \<le> x \<and> x \<le> real_of_int hi)"

definition double_clipped :: "int \<Rightarrow> int \<Rightarrow> double \<Rightarrow> int \<Rightarrow> bool" where
  "double_clipped lo hi d k =
     (case d of NaN _ _ \<Rightarrow> False | Infinity negative \<Rightarrow> k = (if negative then lo else hi)
      | Finite _ _ _ \<Rightarrow> clipped lo hi (the (real_of_double d)) k)"

definition reads_clipped :: "int \<Rightarrow> int \<Rightarrow> Analog \<Rightarrow> Analog DNP3Serializer \<Rightarrow> bool" where
  "reads_clipped lo hi a S =
     (\<exists>k a'. (\<forall>r. ser_read S (ser_write S a @ r) = Some (a', r))
        \<and> m_value a' = double_of_int k \<and> double_clipped lo hi (m_value a) k
        \<and> m_flags a' = (if double_in lo hi (m_value a) then 0 else 0x20) OR m_flags a)"

definition reads_clipped_bare :: "int \<Rightarrow> int \<Rightarrow> Analog \<Rightarrow> Analog DNP3Serializer \<Rightarrow> bool" where
  "reads_clipped_bare lo hi a S =
     (\<exists>k a'. (\<forall>r. ser_read S (ser_write S a @ r) = Some (a', r))
        \<and> m_value a' = double_of_int k \<and> double_clipped lo hi (m_value a) k \<and> m_flags a' = 0x01)"

lemma DownSampling_int32_double:
  assumes "\<not> is_nan d"
  shows "fst (DownSampling_int32 unspec d) = (\<not> double_in (- 2147483648) 2147483647 d)"
    "double_clipped (- 2147483648) 2147483647 d (sint (snd (DownSampling_int32 unspec d)))"
  using assms DownSampling_int32_clipped [of d]
  by (cases d; simp add: is_nan_def double_in_def double_clipped_def DownSampling_int32_def DownSampling_Apply_def double_of_int_def)+

lemma DownSampling_int16_double:
  assumes "\<not> is_nan d"
  shows "fst (DownSampling_int16 unspec d) = (\<not> double_in (- 32768) 32767 d)"
    "double_clipped (- 32768) 32767 d (sint (snd (DownSampling_int16 unspec d)))"
  using assms DownSampling_int16_clipped [of d]
  by (cases d; simp add: is_nan_def double_in_def double_clipped_def DownSampling_int16_def DownSampling_Apply_def double_of_int_def)+

lemmas factory_defs = BinaryFactory_From_def BinaryFactory_From_time_def DoubleBitBinaryFactory_From_def DoubleBitBinaryFactory_From_time_def
  AnalogFactory_From_def AnalogFactory_From_time_def CounterFactory_From_def CounterFactory_From_time_def FrozenCounterFactory_From_def
  FrozenCounterFactory_From_time_def TimeAndIntervalFactory_From_def BinaryOutputStatusFactory_From_def BinaryOutputStatusFactory_From_time_def
  BinaryCommandEventFactory_From_def BinaryCommandEventFactory_From_time_def AnalogOutputStatusFactory_From_def
  AnalogOutputStatusFactory_From_time_def AnalogCommandEventFactory_From_def AnalogCommandEventFactory_From_time_def AnalogOutputFactory_From_def
  ControlRelayOutputBlockFactory_From_def

lemmas template_defs = ConvertQ_def ConvertQV_def ConvertQVT_def ConvertQT_def ConvertQS_def

lemmas make_defs = TypedMeasurement_make_def TypedMeasurement_make_time_def

lemma GetBinaryValue_flags [simp]: "GetBinaryValue (GetBinaryFlags fl v) = v"
proof (cases v)
  case True
  have "bit ((fl OR 0x80) AND 0x80) 7" by (simp add: bit_simps bit_numeral_word_iff)
  then have "(fl OR 0x80) AND 0x80 \<noteq> 0" by (metis bit_0_eq bot_apply bot_bool_def)
  with True show ?thesis by (simp add: GetBinaryValue_def GetBinaryFlags_def BinaryQuality_STATE_def)
next
  case False
  have "(fl AND NOT 0x80) AND 0x80 = (0 :: byte)" by (rule bit_word_eqI) (simp add: bit_simps)
  with False show ?thesis by (simp add: GetBinaryValue_def GetBinaryFlags_def BinaryQuality_STATE_def)
qed

lemma DoubleBitBinary_value_flags [simp]: "DoubleBitBinary_GetValue (DoubleBitBinary_GetFlags fl d) = d"
  by (cases d) (simp_all add: DoubleBitBinary_GetValue_def DoubleBitBinary_GetFlags_def DoubleBit_from_type_def drop_bit_or drop_bit_and)

lemma command_flags:
  "GetValueFromFlags (BinaryCommandEvent_GetFlags ev) = bce_value ev"
  "GetStatusFromFlags (BinaryCommandEvent_GetFlags ev) = bce_status ev"
  by (cases "bce_value ev"; cases "bce_status ev";
      simp add: GetValueFromFlags_def GetStatusFromFlags_def BinaryCommandEvent_GetFlags_def CommandStatus_from_type_def)+

context le_codec
begin

lemma lossless_binary:
  assumes "wire_time t"
  shows "lossless (Group1Var2_Inst E) (Binary_make v fl)" "lossless (Group2Var1_Inst E) (Binary_make v fl)"
    "lossless (Group10Var2_Inst E) (Binary_make v fl)" "lossless (Group11Var1_Inst E) (Binary_make v fl)"
    "lossless (Group2Var2_Inst E) (Binary_make_time v fl t)" "lossless (Group11Var2_Inst E) (Binary_make_time v fl t)"
    "lossless (Group3Var2_Inst E) (DoubleBitBinary_make db fl)" "lossless (Group4Var1_Inst E) (DoubleBitBinary_make db fl)"
    "lossless (Group4Var2_Inst E) (DoubleBitBinary_make_time db fl t)"
  by (simp_all add: lossless_def Inst_defs WriteTarget_defs ReadTarget_defs Convert_defs object_reads template_defs factory_defs assms
      Binary_make_def Binary_make_time_def Binary_of_flags_def Binary_of_flags_time_def make_defs DoubleBitBinary_make_def
      DoubleBitBinary_make_time_def DoubleBitBinary_of_flags_def DoubleBitBinary_of_flags_time_def)

lemma lossless_counter:
  assumes "wire_time t"
  shows "lossless (Group20Var1_Inst E) (TypedMeasurement_make n fl)" "lossless (Group21Var1_Inst E) (TypedMeasurement_make n fl)"
    "lossless (Group22Var1_Inst E) (TypedMeasurement_make n fl)" "lossless (Group23Var1_Inst E) (TypedMeasurement_make n fl)"
    "lossless (Group21Var5_Inst E) (TypedMeasurement_make_time n fl t)" "lossless (Group22Var5_Inst E) (TypedMeasurement_make_time n fl t)"
    "lossless (Group23Var5_Inst E) (TypedMeasurement_make_time n fl t)"
  by (simp_all add: lossless_def Inst_defs WriteTarget_defs ReadTarget_defs Convert_defs object_reads template_defs factory_defs assms make_defs)

lemma lossless_analog:
  assumes "wire_time t" "is_double d"
  shows "lossless (Group30Var6_Inst E) (TypedMeasurement_make d fl)" "lossless (Group32Var6_Inst E) (TypedMeasurement_make d fl)"
    "lossless (Group40Var4_Inst E) (TypedMeasurement_make d fl)" "lossless (Group42Var6_Inst E) (TypedMeasurement_make d fl)"
    "lossless (Group32Var8_Inst E) (TypedMeasurement_make_time d fl t)" "lossless (Group42Var8_Inst E) (TypedMeasurement_make_time d fl t)"
  by (simp_all add: lossless_def Inst_defs WriteTarget_defs ReadTarget_defs Convert_defs object_reads template_defs factory_defs assms make_defs)

lemma lossless_command:
  assumes "wire_time t" "is_double d"
  shows "lossless (Group13Var2_Inst E) \<lparr>bce_value = v, bce_status = st, bce_time = t\<rparr>"
    "lossless (Group43Var8_Inst E) \<lparr>ace_value = d, ace_status = st, ace_time = t\<rparr>"
    "lossless (Group41Var1_Inst E) \<lparr>ao_value = i, ao_status = st\<rparr>" "lossless (Group41Var2_Inst E) \<lparr>ao_value = j, ao_status = st\<rparr>"
    "lossless (Group41Var3_Inst E) \<lparr>ao_value = i, ao_status = st\<rparr>" "lossless (Group41Var4_Inst E) \<lparr>ao_value = d, ao_status = st\<rparr>"
    "lossless (Group50Var4_Inst E) \<lparr>tai_time = t, tai_interval = i, tai_units = u\<rparr>"
  by (simp_all add: lossless_def Inst_defs WriteTarget_defs ReadTarget_defs Convert_defs object_reads template_defs factory_defs assms
      command_flags BinaryCommandEvent_of_flags_time_def)

lemma lossless_crob:
  "CROB_of_raw (rawCode b) (crob_count b) (onTimeMS b) (offTimeMS b) (crob_status b) = Some b \<Longrightarrow> lossless (Group12Var1_Inst E) b"
  by (simp add: lossless_def Group12Var1_Inst_def Group12Var1_WriteTarget_def Group12Var1_ReadTarget_def ConvertGroup12Var1_def
      read_Group12Var1 factory_defs)

lemma clipped_int32:
  assumes "\<not> is_nan (m_value a)" "wire_time (m_time a)"
  shows "reads_clipped (- 2147483648) 2147483647 a (Group30Var1_Inst E)" "reads_clipped (- 2147483648) 2147483647 a (Group32Var1_Inst E)"
    "reads_clipped (- 2147483648) 2147483647 a (Group32Var3_Inst E)" "reads_clipped (- 2147483648) 2147483647 a (Group40Var1_Inst E)"
    "reads_clipped (- 2147483648) 2147483647 a (Group42Var1_Inst E)" "reads_clipped (- 2147483648) 2147483647 a (Group42Var3_Inst E)"
  unfolding reads_clipped_def
  by (rule exI [of _ "sint (snd (DownSampling_int32 (undef_cast E) (m_value a)))"],
      simp add: Inst_defs WriteTarget_defs ReadTarget_defs Convert_defs object_reads ConvertQVRangeCheck_def ConvertQVTRangeCheck_def
        factory_defs make_defs split_beta DownSampling_int32_double [OF assms(1)] assms(2))+

lemma clipped_int16:
  assumes "\<not> is_nan (m_value a)" "wire_time (m_time a)"
  shows "reads_clipped (- 32768) 32767 a (Group30Var2_Inst E)" "reads_clipped (- 32768) 32767 a (Group32Var2_Inst E)"
    "reads_clipped (- 32768) 32767 a (Group32Var4_Inst E)" "reads_clipped (- 32768) 32767 a (Group40Var2_Inst E)"
    "reads_clipped (- 32768) 32767 a (Group42Var2_Inst E)" "reads_clipped (- 32768) 32767 a (Group42Var4_Inst E)"
  unfolding reads_clipped_def
  by (rule exI [of _ "sint (snd (DownSampling_int16 (undef_cast E) (m_value a)))"],
      simp add: Inst_defs WriteTarget_defs ReadTarget_defs Convert_defs object_reads ConvertQVRangeCheck_def ConvertQVTRangeCheck_def
        factory_defs make_defs split_beta DownSampling_int16_double [OF assms(1)] assms(2))+

lemma clipped_bare:
  assumes "\<not> is_nan (m_value a)"
  shows "reads_clipped_bare (- 2147483648) 2147483647 a (Group30Var3_Inst E)" "reads_clipped_bare (- 32768) 32767 a (Group30Var4_Inst E)"
proof -
  show "reads_clipped_bare (- 2147483648) 2147483647 a (Group30Var3_Inst E)"
    unfolding reads_clipped_bare_def
    by (rule exI [of _ "sint (snd (DownSampling_int32 (undef_cast E) (m_value a)))"],
        simp add: Inst_defs WriteTarget_defs ReadTarget_defs Convert_defs object_reads ConvertVRangeCheck_def make_defs
          DownSampling_int32_double [OF assms] AnalogFactory_From_count_def Analog_of_value_def ONLINE_def)
  show "reads_clipped_bare (- 32768) 32767 a (Group30Var4_Inst E)"
    unfolding reads_clipped_bare_def
    by (rule exI [of _ "sint (snd (DownSampling_int16 (undef_cast E) (m_value a)))"],
        simp add: Inst_defs WriteTarget_defs ReadTarget_defs Convert_defs object_reads ConvertVRangeCheck_def make_defs
          DownSampling_int16_double [OF assms] AnalogFactory_From_count_def Analog_of_value_def ONLINE_def sint_up_scast is_up)
qed

end

section \<open>The properties\<close>

text \<open>
  C35. Every serializer of a measurement or command is exact: it writes as many bytes as its size says,
  reading fails exactly on fewer bytes, and takes exactly these. The parser advances by the size without
  looking at what the reader of the object did, and the header writer reserves the size before it writes.
\<close>

theorem serializers_are_exact:
  assumes "le_codec E"
  shows "list_all well_sized [Group1Var2_Inst E, Group2Var1_Inst E, Group2Var2_Inst E, Group2Var3_Inst E]
    \<and> list_all well_sized [Group3Var2_Inst E, Group4Var1_Inst E, Group4Var2_Inst E, Group4Var3_Inst E]
    \<and> list_all well_sized [Group10Var2_Inst E, Group11Var1_Inst E, Group11Var2_Inst E]
    \<and> list_all well_sized [Group12Var1_Inst E]
    \<and> list_all well_sized [Group13Var1_Inst E, Group13Var2_Inst E]
    \<and> list_all well_sized [Group20Var1_Inst E, Group20Var2_Inst E, Group20Var5_Inst E, Group20Var6_Inst E, Group22Var1_Inst E, Group22Var2_Inst E, 
        Group22Var5_Inst E, Group22Var6_Inst E]
    \<and> list_all well_sized [Group21Var1_Inst E, Group21Var2_Inst E, Group21Var5_Inst E, Group21Var6_Inst E, Group21Var9_Inst E, Group21Var10_Inst E, 
        Group23Var1_Inst E, Group23Var2_Inst E, Group23Var5_Inst E, Group23Var6_Inst E]
    \<and> list_all well_sized [Group30Var1_Inst E, Group30Var2_Inst E, Group30Var3_Inst E, Group30Var4_Inst E, Group30Var5_Inst E, Group30Var6_Inst E, 
        Group32Var1_Inst E, Group32Var2_Inst E, Group32Var3_Inst E, Group32Var4_Inst E, Group32Var5_Inst E, Group32Var6_Inst E, 
        Group32Var7_Inst E, Group32Var8_Inst E]
    \<and> list_all well_sized [Group40Var1_Inst E, Group40Var2_Inst E, Group40Var3_Inst E, Group40Var4_Inst E, Group42Var1_Inst E, Group42Var2_Inst E, 
        Group42Var3_Inst E, Group42Var4_Inst E, Group42Var5_Inst E, Group42Var6_Inst E, Group42Var7_Inst E, Group42Var8_Inst E]
    \<and> list_all well_sized [Group41Var1_Inst E, Group41Var3_Inst E]
    \<and> list_all well_sized [Group41Var2_Inst E]
    \<and> list_all well_sized [Group41Var4_Inst E]
    \<and> list_all well_sized [Group43Var1_Inst E, Group43Var2_Inst E, Group43Var3_Inst E, Group43Var4_Inst E, Group43Var5_Inst E, Group43Var6_Inst E, 
        Group43Var7_Inst E, Group43Var8_Inst E]
    \<and> list_all well_sized [Group50Var4_Inst E]"
  using le_codec.sized_Insts [OF assms] by simp

lemma serializers_are_exact_witness: "well_sized (Group30Var1_Inst little_endian) \<and> well_sized (Group12Var1_Inst little_endian)"
  using serializers_are_exact [OF little_endian.le_codec_axioms] by simp

text \<open>
  C30. For each kind of measurement and command there are variations that lose nothing: what a reader gets
  is what was written, value, flags and time, for binaries and double-bit binaries with any flags,
  counters, analog values that are doubles, command events, set points, times with an interval and control
  blocks. A time must fit 48 bits and be synchronized, since the wire carries no quality of the time.
\<close>

theorem measurements_roundtrip:
  assumes "le_codec E" "wire_time t" "is_double d"
    and "CROB_of_raw (rawCode b) (crob_count b) (onTimeMS b) (offTimeMS b) (crob_status b) = Some b"
  shows "list_all (\<lambda>S. lossless S (Binary_make v fl)) [Group1Var2_Inst E, Group2Var1_Inst E, Group10Var2_Inst E, Group11Var1_Inst E]
    \<and> list_all (\<lambda>S. lossless S (Binary_make_time v fl t)) [Group2Var2_Inst E, Group11Var2_Inst E]
    \<and> list_all (\<lambda>S. lossless S (DoubleBitBinary_make db fl)) [Group3Var2_Inst E, Group4Var1_Inst E]
    \<and> lossless (Group4Var2_Inst E) (DoubleBitBinary_make_time db fl t)
    \<and> list_all (\<lambda>S. lossless S (TypedMeasurement_make n fl)) [Group20Var1_Inst E, Group21Var1_Inst E, Group22Var1_Inst E, Group23Var1_Inst E]
    \<and> list_all (\<lambda>S. lossless S (TypedMeasurement_make_time n fl t)) [Group21Var5_Inst E, Group22Var5_Inst E, Group23Var5_Inst E]
    \<and> list_all (\<lambda>S. lossless S (TypedMeasurement_make d fl)) [Group30Var6_Inst E, Group32Var6_Inst E, Group40Var4_Inst E, Group42Var6_Inst E]
    \<and> list_all (\<lambda>S. lossless S (TypedMeasurement_make_time d fl t)) [Group32Var8_Inst E, Group42Var8_Inst E]
    \<and> lossless (Group13Var2_Inst E) \<lparr>bce_value = v, bce_status = st, bce_time = t\<rparr>
    \<and> lossless (Group43Var8_Inst E) \<lparr>ace_value = d, ace_status = st, ace_time = t\<rparr>
    \<and> lossless (Group41Var1_Inst E) \<lparr>ao_value = n, ao_status = st\<rparr> \<and> lossless (Group41Var2_Inst E) \<lparr>ao_value = j, ao_status = st\<rparr>
    \<and> lossless (Group41Var3_Inst E) \<lparr>ao_value = n, ao_status = st\<rparr> \<and> lossless (Group41Var4_Inst E) \<lparr>ao_value = d, ao_status = st\<rparr>
    \<and> lossless (Group50Var4_Inst E) \<lparr>tai_time = t, tai_interval = n, tai_units = u\<rparr> \<and> lossless (Group12Var1_Inst E) b"
  using le_codec.lossless_binary [OF assms(1,2)] le_codec.lossless_counter [OF assms(1,2)] le_codec.lossless_analog [OF assms(1-3)]
    le_codec.lossless_command [OF assms(1-3)] le_codec.lossless_crob [OF assms(1,4)]
  by simp

lemma measurements_roundtrip_witness:
  "lossless (Group32Var8_Inst little_endian) (TypedMeasurement_make_time (double_of_double_bits 0x3FF8000000000000) 1 (DNPTime_of 1700000000000))
   \<and> lossless (Group12Var1_Inst little_endian) (CROB_make LATCH_ON CLOSE False 1 100 100 SUCCESS)"
proof -
  have t: "wire_time (DNPTime_of 1700000000000)" by (simp add: wire_time_def DNPTime_of_def)
  have d: "is_double (double_of_double_bits 0x3FF8000000000000)" by (simp add: is_double_def)
  have b: "CROB_of_raw (rawCode (CROB_make LATCH_ON CLOSE False 1 100 100 SUCCESS)) (crob_count (CROB_make LATCH_ON CLOSE False 1 100 100 SUCCESS))
      (onTimeMS (CROB_make LATCH_ON CLOSE False 1 100 100 SUCCESS)) (offTimeMS (CROB_make LATCH_ON CLOSE False 1 100 100 SUCCESS))
      (crob_status (CROB_make LATCH_ON CLOSE False 1 100 100 SUCCESS)) = Some (CROB_make LATCH_ON CLOSE False 1 100 100 SUCCESS)"
    by (simp add: CROB_of_raw_def CROB_make_def OperationType_from_type_def TripCloseCode_from_type_def)
  from measurements_roundtrip [OF little_endian.le_codec_axioms t d b] show ?thesis by simp
qed

text \<open>
  C31. An analog value that is not a NaN (and whose time fits the wire), in any of the fourteen variations of integers. Inside the range of
  the integer type it is read as the value cut toward zero; outside, also when it is infinite, as the bound that it
  passed, so that a reader never sees a value that wrapped around. The twelve variations with flags keep
  the flags and add \<open>OVERRANGE\<close> exactly when the value was clipped. The two without flags,
  \<open>Group30Var3\<close> and \<open>Group30Var4\<close>, do not tell: their reader finds \<open>ONLINE\<close>, clipped or not.
\<close>

theorem analog_is_clipped:
  assumes "le_codec E" "\<not> is_nan (m_value a)" "wire_time (m_time a)"
  shows "list_all (reads_clipped (- 2147483648) 2147483647 a)
      [Group30Var1_Inst E, Group32Var1_Inst E, Group32Var3_Inst E, Group40Var1_Inst E, Group42Var1_Inst E, Group42Var3_Inst E]
    \<and> list_all (reads_clipped (- 32768) 32767 a)
      [Group30Var2_Inst E, Group32Var2_Inst E, Group32Var4_Inst E, Group40Var2_Inst E, Group42Var2_Inst E, Group42Var4_Inst E]
    \<and> reads_clipped_bare (- 2147483648) 2147483647 a (Group30Var3_Inst E)
    \<and> reads_clipped_bare (- 32768) 32767 a (Group30Var4_Inst E)"
  using le_codec.clipped_int32 [OF assms] le_codec.clipped_int16 [OF assms] le_codec.clipped_bare [OF assms(1,2)] by simp

lemma analog_is_clipped_witness:
  "reads_clipped (- 32768) 32767 (TypedMeasurement_make_time (double_of_int 40000) 1 (DNPTime_of 0)) (Group30Var2_Inst little_endian)
   \<and> reads_clipped_bare (- 32768) 32767 (TypedMeasurement_make_time (double_of_int 40000) 1 (DNPTime_of 0)) (Group30Var4_Inst little_endian)"
  using analog_is_clipped [OF little_endian.le_codec_axioms, of "TypedMeasurement_make_time (double_of_int 40000) 1 (DNPTime_of 0)"]
  by (simp add: make_defs wire_time_def DNPTime_of_def is_nan_def double_of_int_def)

end
