(* ===== verification/App_Parse.thy ===== *)
theory App_Parse
  imports App_Gv
begin

text \<open>
  The parser of object headers (\<open>lib/src/app/parsing\<close>): \<open>APDUParser\<close> with \<open>ObjectHeaderParser\<close>,
  \<open>NumParser\<close>, \<open>CountParser\<close>, \<open>CountIndexParser\<close>, \<open>RangeParser\<close>, \<open>BitReader\<close> and \<open>BufferedCollection\<close>, and
  \<open>app/Range.h\<close>. A buffer is the list of the bytes that are left; a call of the handler is a value of
  \<open>header_event\<close>, which holds the whole collection that the handler may visit. A fixed-size object is
  given as its bytes; the fields of the objects are not modelled here.
\<close>

section \<open>Numbers and ranges\<close>

datatype ParseResult = OK | NOT_ON_WHITELIST | NOT_ENOUGH_DATA_FOR_HEADER | NOT_ENOUGH_DATA_FOR_RANGE
  | NOT_ENOUGH_DATA_FOR_OBJECTS | UNREASONABLE_OBJECT_COUNT | UNKNOWN_OBJECT | UNKNOWN_QUALIFIER | INVALID_OBJECT_QUALIFIER
  | INVALID_OBJECT | BAD_START_STOP | COUNT_OF_ZERO

record Range =
  start :: u16
  stop :: u16

definition Range_IsValid :: "Range \<Rightarrow> bool" where
  "Range_IsValid r = (start r \<le> stop r)"

definition Range_Count :: "Range \<Rightarrow> nat" where
  "Range_Count r = (if Range_IsValid r then unat (stop r) - unat (start r) + 1 else 0)"

definition Range_Advance :: "Range \<Rightarrow> bool \<times> Range" where
  "Range_Advance r =
     (if Range_IsValid r
      then (True, if start r < stop r then r\<lparr>start := start r + 1\<rparr> else \<lparr>start = 1, stop = 0\<rparr>)
      else (False, r))"

definition Range_Contains :: "Range \<Rightarrow> u16 \<Rightarrow> bool" where
  "Range_Contains r index = (index \<ge> start r \<and> index \<le> stop r)"

definition Range_Intersection :: "Range \<Rightarrow> Range \<Rightarrow> Range" where
  "Range_Intersection r other = \<lparr>start = max (start r) (start other), stop = min (stop r) (stop other)\<rparr>"

definition Range_Union :: "Range \<Rightarrow> Range \<Rightarrow> Range" where
  "Range_Union r other =
     (if \<not> Range_IsValid r then other else \<lparr>start = min (start r) (start other), stop = max (stop r) (stop other)\<rparr>)"

definition Range_IsOneByte :: "Range \<Rightarrow> bool" where
  "Range_IsOneByte r = (Range_IsValid r \<and> start r \<le> 255 \<and> stop r \<le> 255)"

text \<open>A parser of numbers: the function that consumes one from a buffer, and its size.\<close>

record NumParser =
  ReadNum :: "byte list \<Rightarrow> u16 \<times> byte list"
  NumBytes :: nat

definition ReadOneByte :: "byte list \<Rightarrow> u16 \<times> byte list" where
  "ReadOneByte buffer = (case buffer of [] \<Rightarrow> (0, []) | b # r \<Rightarrow> (ucast b, r))"

definition ReadTwoBytes :: "u16_codec \<Rightarrow> byte list \<Rightarrow> u16 \<times> byte list" where
  "ReadTwoBytes C buffer = (if length buffer < 2 then (0, buffer) else (read_from C buffer, drop 2 buffer))"

definition OneByte :: NumParser where
  "OneByte = \<lparr>ReadNum = ReadOneByte, NumBytes = 1\<rparr>"

definition TwoByte :: "u16_codec \<Rightarrow> NumParser" where
  "TwoByte C = \<lparr>ReadNum = ReadTwoBytes C, NumBytes = 2\<rparr>"

definition ParseCount :: "NumParser \<Rightarrow> byte list \<Rightarrow> ParseResult + (u16 \<times> byte list)" where
  "ParseCount np buffer =
     (if length buffer < NumBytes np then Inl NOT_ENOUGH_DATA_FOR_RANGE
      else let (count, buffer) = ReadNum np buffer in if count = 0 then Inl COUNT_OF_ZERO else Inr (count, buffer))"

definition ParseRange :: "NumParser \<Rightarrow> byte list \<Rightarrow> ParseResult + (Range \<times> byte list)" where
  "ParseRange np buffer =
     (if length buffer < 2 * NumBytes np then Inl NOT_ENOUGH_DATA_FOR_RANGE
      else let (a, buffer) = ReadNum np buffer; (b, buffer) = ReadNum np buffer; rng = \<lparr>start = a, stop = b\<rparr>
           in if Range_IsValid rng then Inr (rng, buffer) else Inl BAD_START_STOP)"

section \<open>Collections\<close>

text \<open>The values that a collection visits, from position \<open>pos\<close> on.\<close>

fun Foreach :: "(byte list \<Rightarrow> nat \<Rightarrow> 'v \<times> byte list) \<Rightarrow> byte list \<Rightarrow> nat \<Rightarrow> nat \<Rightarrow> 'v list" where
  "Foreach readFunc buffer pos 0 = []"
| "Foreach readFunc buffer pos (Suc n) = (let (v, buffer) = readFunc buffer pos in v # Foreach readFunc buffer (pos + 1) n)"

definition NumBytesInBits :: "nat \<Rightarrow> nat" where
  "NumBytesInBits numBits = (let numBytes = numBits div 8 in if numBits mod 8 = 0 then numBytes else numBytes + 1)"

definition GetBit :: "byte list \<Rightarrow> nat \<Rightarrow> bool" where
  "GetBit buffer position = (buffer ! (position div 8) AND push_bit (position mod 8) 1 \<noteq> 0)"

definition NumBytesInDoubleBits :: "nat \<Rightarrow> nat" where
  "NumBytesInDoubleBits numBits = (let numBytes = numBits div 4 in if numBits mod 4 = 0 then numBytes else numBytes + 1)"

definition GetDoubleBit :: "byte list \<Rightarrow> nat \<Rightarrow> DoubleBit" where
  "GetDoubleBit buffer index =
     (let byte = buffer ! (index div 4); bitshift = 2 * (index mod 4) in DoubleBit_from_type (drop_bit bitshift byte AND 0x03))"

datatype header_event =
    OnAllObjects HeaderRecord
  | OnCount HeaderRecord u16
  | OnCountOf HeaderRecord u16 "byte list list"
  | OnRange HeaderRecord Range
  | OnRangeOf HeaderRecord Range "(u16 \<times> byte list) list"
  | OnRangeBits HeaderRecord Range "(u16 \<times> bool) list"
  | OnRangeDoubleBits HeaderRecord Range "(u16 \<times> DoubleBit) list"
  | OnPrefixIndices HeaderRecord u16 "u16 list"
  | OnPrefixOf HeaderRecord u16 "(u16 \<times> byte list) list"

type_synonym header_result = "ParseResult + (header_event list \<times> byte list)"

text \<open>
  The common end of the parsers: enough bytes are there, the handler is called when there is one, and
  the buffer is advanced.
\<close>

definition Process :: "nat \<Rightarrow> header_event \<Rightarrow> bool \<Rightarrow> byte list \<Rightarrow> header_result" where
  "Process requiredSize event hasHandler buffer =
     (if length buffer < requiredSize then Inl NOT_ENOUGH_DATA_FOR_OBJECTS
      else Inr (if hasHandler then [event] else [], drop requiredSize buffer))"

section \<open>Counts\<close>

definition count_descriptors :: "(GroupVariation \<times> nat) list" where
  "count_descriptors =
    [(Group50Var1, Group50Var1_Size), (Group50Var3, Group50Var3_Size), (Group51Var1, Group51Var1_Size), (Group51Var2, Group51Var2_Size),
     (Group52Var1, Group52Var1_Size), (Group52Var2, Group52Var2_Size)]"

definition read_object :: "nat \<Rightarrow> byte list \<Rightarrow> nat \<Rightarrow> byte list \<times> byte list" where
  "read_object sz buffer pos = (take sz buffer, drop sz buffer)"

definition CountParser_ParseCountOfObjects :: "byte list \<Rightarrow> HeaderRecord \<Rightarrow> u16 \<Rightarrow> bool \<Rightarrow> header_result" where
  "CountParser_ParseCountOfObjects buffer record count hasHandler =
     (case map_of count_descriptors (enumeration record) of
        None \<Rightarrow> Inl INVALID_OBJECT_QUALIFIER
      | Some sz \<Rightarrow>
          Process (unat count * sz) (OnCountOf record count (Foreach (read_object sz) buffer 0 (unat count))) hasHandler buffer)"

definition CountParser_ParseHeader ::
  "byte list \<Rightarrow> NumParser \<Rightarrow> bool \<Rightarrow> HeaderRecord \<Rightarrow> bool \<Rightarrow> header_result" where
  "CountParser_ParseHeader buffer np expectsContents record hasHandler =
     (case ParseCount np buffer of
        Inl result \<Rightarrow> Inl result
      | Inr (count, buffer) \<Rightarrow>
          if expectsContents then CountParser_ParseCountOfObjects buffer record count hasHandler
          else Inr (if hasHandler then [OnCount record count] else [], buffer))"

section \<open>Counts with index prefixes\<close>

definition count_index_descriptors :: "(GroupVariation \<times> nat) list" where
  "count_index_descriptors =
    [(Group2Var1, Group2Var1_Size), (Group2Var2, Group2Var2_Size), (Group2Var3, Group2Var3_Size), (Group4Var1, Group4Var1_Size),
     (Group4Var2, Group4Var2_Size), (Group4Var3, Group4Var3_Size), (Group11Var1, Group11Var1_Size), (Group11Var2, Group11Var2_Size),
     (Group12Var1, Group12Var1_Size), (Group13Var1, Group13Var1_Size), (Group13Var2, Group13Var2_Size), (Group22Var1, Group22Var1_Size),
     (Group22Var2, Group22Var2_Size), (Group22Var5, Group22Var5_Size), (Group22Var6, Group22Var6_Size), (Group23Var1, Group23Var1_Size),
     (Group23Var2, Group23Var2_Size), (Group23Var5, Group23Var5_Size), (Group23Var6, Group23Var6_Size), (Group32Var1, Group32Var1_Size),
     (Group32Var2, Group32Var2_Size), (Group32Var3, Group32Var3_Size), (Group32Var4, Group32Var4_Size), (Group32Var5, Group32Var5_Size),
     (Group32Var6, Group32Var6_Size), (Group32Var7, Group32Var7_Size), (Group32Var8, Group32Var8_Size), (Group41Var1, Group41Var1_Size),
     (Group41Var2, Group41Var2_Size), (Group41Var3, Group41Var3_Size), (Group41Var4, Group41Var4_Size), (Group42Var1, Group42Var1_Size),
     (Group42Var2, Group42Var2_Size), (Group42Var3, Group42Var3_Size), (Group42Var4, Group42Var4_Size), (Group42Var5, Group42Var5_Size),
     (Group42Var6, Group42Var6_Size), (Group42Var7, Group42Var7_Size), (Group42Var8, Group42Var8_Size), (Group43Var1, Group43Var1_Size),
     (Group43Var2, Group43Var2_Size), (Group43Var3, Group43Var3_Size), (Group43Var4, Group43Var4_Size), (Group43Var5, Group43Var5_Size),
     (Group43Var6, Group43Var6_Size), (Group43Var7, Group43Var7_Size), (Group43Var8, Group43Var8_Size), (Group50Var4, Group50Var4_Size)]"

definition read_prefixed :: "NumParser \<Rightarrow> nat \<Rightarrow> byte list \<Rightarrow> nat \<Rightarrow> (u16 \<times> byte list) \<times> byte list" where
  "read_prefixed np sz buffer pos =
     (let (index, buffer) = ReadNum np buffer in ((index, take sz buffer), drop sz buffer))"

definition ParseIndexPrefixedOctetData ::
  "byte list \<Rightarrow> HeaderRecord \<Rightarrow> NumParser \<Rightarrow> u16 \<Rightarrow> bool \<Rightarrow> header_result" where
  "ParseIndexPrefixedOctetData buffer record np count hasHandler =
     (if gv_variation record = 0 then Inl INVALID_OBJECT
      else let TOTAL_SIZE = (ucast count :: u32) * of_nat (NumBytes np + unat (gv_variation record))
           in Process (unat TOTAL_SIZE)
                (OnPrefixOf record count (Foreach (read_prefixed np (unat (gv_variation record))) buffer 0 (unat count)))
                hasHandler buffer)"

definition CountIndexParser_ParseCountOfObjects ::
  "byte list \<Rightarrow> HeaderRecord \<Rightarrow> NumParser \<Rightarrow> u16 \<Rightarrow> bool \<Rightarrow> header_result" where
  "CountIndexParser_ParseCountOfObjects buffer record np count hasHandler =
     (case map_of count_index_descriptors (enumeration record) of
        Some sz \<Rightarrow>
          Process (unat count * (sz + NumBytes np))
            (OnPrefixOf record count (Foreach (read_prefixed np sz) buffer 0 (unat count))) hasHandler buffer
      | None \<Rightarrow>
          if enumeration record = Group111Var0 then ParseIndexPrefixedOctetData buffer record np count hasHandler
          else Inl INVALID_OBJECT_QUALIFIER)"

definition ParseCountOfIndices :: "byte list \<Rightarrow> HeaderRecord \<Rightarrow> NumParser \<Rightarrow> u16 \<Rightarrow> bool \<Rightarrow> header_result" where
  "ParseCountOfIndices buffer record np count hasHandler =
     Process (unat count * NumBytes np)
       (OnPrefixIndices record count (Foreach (\<lambda>buffer pos. ReadNum np buffer) buffer 0 (unat count))) hasHandler buffer"

definition CountIndexParser_ParseHeader ::
  "byte list \<Rightarrow> NumParser \<Rightarrow> bool \<Rightarrow> HeaderRecord \<Rightarrow> bool \<Rightarrow> header_result" where
  "CountIndexParser_ParseHeader buffer np expectsContents record hasHandler =
     (case ParseCount np buffer of
        Inl result \<Rightarrow> Inl result
      | Inr (count, buffer) \<Rightarrow>
          if expectsContents then CountIndexParser_ParseCountOfObjects buffer record np count hasHandler
          else ParseCountOfIndices buffer record np count hasHandler)"

section \<open>Ranges\<close>

definition range_descriptors :: "(GroupVariation \<times> nat) list" where
  "range_descriptors =
    [(Group1Var2, Group1Var2_Size), (Group3Var2, Group3Var2_Size), (Group10Var2, Group10Var2_Size), (Group20Var1, Group20Var1_Size),
     (Group20Var2, Group20Var2_Size), (Group20Var5, Group20Var5_Size), (Group20Var6, Group20Var6_Size), (Group21Var1, Group21Var1_Size),
     (Group21Var2, Group21Var2_Size), (Group21Var5, Group21Var5_Size), (Group21Var6, Group21Var6_Size), (Group21Var9, Group21Var9_Size),
     (Group21Var10, Group21Var10_Size), (Group30Var1, Group30Var1_Size), (Group30Var2, Group30Var2_Size), (Group30Var3, Group30Var3_Size),
     (Group30Var4, Group30Var4_Size), (Group30Var5, Group30Var5_Size), (Group30Var6, Group30Var6_Size), (Group40Var1, Group40Var1_Size),
     (Group40Var2, Group40Var2_Size), (Group40Var3, Group40Var3_Size), (Group40Var4, Group40Var4_Size), (Group50Var4, Group50Var4_Size)]"

definition read_ranged :: "Range \<Rightarrow> nat \<Rightarrow> byte list \<Rightarrow> nat \<Rightarrow> (u16 \<times> byte list) \<times> byte list" where
  "read_ranged rng sz buffer pos = ((start rng + of_nat pos, take sz buffer), drop sz buffer)"

definition FromFixedSize :: "nat \<Rightarrow> Range \<Rightarrow> HeaderRecord \<Rightarrow> byte list \<Rightarrow> bool \<Rightarrow> header_result" where
  "FromFixedSize sz rng record buffer hasHandler =
     Process (Range_Count rng * sz)
       (OnRangeOf record rng (Foreach (read_ranged rng sz) buffer 0 (Range_Count rng))) hasHandler buffer"

definition FromBitfieldType :: "Range \<Rightarrow> HeaderRecord \<Rightarrow> byte list \<Rightarrow> bool \<Rightarrow> header_result" where
  "FromBitfieldType rng record buffer hasHandler =
     Process (NumBytesInBits (Range_Count rng))
       (OnRangeBits record rng
          (Foreach (\<lambda>buffer pos. ((start rng + of_nat pos, GetBit buffer pos), buffer)) buffer 0 (Range_Count rng)))
       hasHandler buffer"

definition FromDoubleBitfieldType :: "Range \<Rightarrow> HeaderRecord \<Rightarrow> byte list \<Rightarrow> bool \<Rightarrow> header_result" where
  "FromDoubleBitfieldType rng record buffer hasHandler =
     Process (NumBytesInDoubleBits (Range_Count rng))
       (OnRangeDoubleBits record rng
          (Foreach (\<lambda>buffer pos. ((start rng + of_nat pos, GetDoubleBit buffer pos), buffer)) buffer 0 (Range_Count rng)))
       hasHandler buffer"

definition ParseRangeOfOctetData :: "byte list \<Rightarrow> HeaderRecord \<Rightarrow> Range \<Rightarrow> bool \<Rightarrow> header_result" where
  "ParseRangeOfOctetData buffer record rng hasHandler =
     (if gv_variation record > 0
      then Process (unat (gv_variation record) * Range_Count rng)
             (OnRangeOf record rng (Foreach (read_ranged rng (unat (gv_variation record))) buffer 0 (Range_Count rng)))
             hasHandler buffer
      else Inl INVALID_OBJECT)"

definition ParseRangeOfObjects :: "byte list \<Rightarrow> HeaderRecord \<Rightarrow> Range \<Rightarrow> bool \<Rightarrow> header_result" where
  "ParseRangeOfObjects buffer record rng hasHandler =
     (if enumeration record \<in> {Group1Var1, Group10Var1, Group80Var1} then FromBitfieldType rng record buffer hasHandler
      else if enumeration record = Group3Var1 then FromDoubleBitfieldType rng record buffer hasHandler
      else if enumeration record = Group110Var0 then ParseRangeOfOctetData buffer record rng hasHandler
      else case map_of range_descriptors (enumeration record) of
             Some sz \<Rightarrow> FromFixedSize sz rng record buffer hasHandler
           | None \<Rightarrow> Inl INVALID_OBJECT_QUALIFIER)"

definition RangeParser_ParseHeader ::
  "byte list \<Rightarrow> NumParser \<Rightarrow> bool \<Rightarrow> HeaderRecord \<Rightarrow> bool \<Rightarrow> header_result" where
  "RangeParser_ParseHeader buffer np expectsContents record hasHandler =
     (case ParseRange np buffer of
        Inl result \<Rightarrow> Inl result
      | Inr (rng, buffer) \<Rightarrow>
          if expectsContents then ParseRangeOfObjects buffer record rng hasHandler
          else Inr (if hasHandler then [OnRange record rng] else [], buffer))"

section \<open>Headers\<close>

definition ParseObjectHeader :: "byte list \<Rightarrow> ParseResult + (byte \<times> byte \<times> byte \<times> byte list)" where
  "ParseObjectHeader buffer =
     (if length buffer < 3 then Inl NOT_ENOUGH_DATA_FOR_HEADER
      else Inr (buffer ! 0, buffer ! 1, buffer ! 2, drop 3 buffer))"

definition ReadFirstGroupVariation :: "byte list \<Rightarrow> GroupVariation option" where
  "ReadFirstGroupVariation objects =
     (case ParseObjectHeader objects of
        Inl result \<Rightarrow> None
      | Inr (grp, variation, qual, buffer) \<Rightarrow> Some (enumeration (GetRecord grp variation)))"

definition HandleAllObjectsHeader :: "HeaderRecord \<Rightarrow> bool \<Rightarrow> byte list \<Rightarrow> header_result" where
  "HandleAllObjectsHeader record hasHandler buffer = Inr (if hasHandler then [OnAllObjects record] else [], buffer)"

definition ParseQualifier :: "u16_codec \<Rightarrow> byte list \<Rightarrow> HeaderRecord \<Rightarrow> bool \<Rightarrow> bool \<Rightarrow> header_result" where
  "ParseQualifier C buffer record expectsContents hasHandler =
     (case GetQualifierCode record of
        ALL_OBJECTS \<Rightarrow> HandleAllObjectsHeader record hasHandler buffer
      | UINT8_CNT \<Rightarrow> CountParser_ParseHeader buffer OneByte expectsContents record hasHandler
      | UINT16_CNT \<Rightarrow> CountParser_ParseHeader buffer (TwoByte C) expectsContents record hasHandler
      | UINT8_START_STOP \<Rightarrow> RangeParser_ParseHeader buffer OneByte expectsContents record hasHandler
      | UINT16_START_STOP \<Rightarrow> RangeParser_ParseHeader buffer (TwoByte C) expectsContents record hasHandler
      | UINT8_CNT_UINT8_INDEX \<Rightarrow> CountIndexParser_ParseHeader buffer OneByte expectsContents record hasHandler
      | UINT16_CNT_UINT16_INDEX \<Rightarrow> CountIndexParser_ParseHeader buffer (TwoByte C) expectsContents record hasHandler
      | QC_UNDEFINED \<Rightarrow> Inl UNKNOWN_QUALIFIER)"

type_synonym white_list = "u32 \<Rightarrow> GroupVariation \<Rightarrow> QualifierCode \<Rightarrow> bool"

definition APDUParser_ParseHeader ::
  "u16_codec \<Rightarrow> byte list \<Rightarrow> u32 \<Rightarrow> bool \<Rightarrow> bool \<Rightarrow> white_list option \<Rightarrow> header_result" where
  "APDUParser_ParseHeader C buffer count expectsContents hasHandler whiteList =
     (case ParseObjectHeader buffer of
        Inl result \<Rightarrow> Inl result
      | Inr (grp, variation, qual, buffer) \<Rightarrow>
          (let GV = GetRecord grp variation
           in if enumeration GV = UNKNOWN_GroupVariation then Inl UNKNOWN_OBJECT
              else if \<not> (case whiteList of None \<Rightarrow> True | Some isAllowed \<Rightarrow> isAllowed count (enumeration GV) (QualifierCode_from_type qual))
              then Inl NOT_ON_WHITELIST
              else ParseQualifier C buffer (HeaderRecord_make GV qual count) expectsContents hasHandler))"

section \<open>Every header consumes bytes\<close>

lemma ReadNum_length [simp]:
  "length (snd (ReadOneByte buffer)) = length buffer - 1" "length (snd (ReadTwoBytes C buffer)) \<le> length buffer"
  by (simp_all add: ReadOneByte_def ReadTwoBytes_def split: list.split)

lemma Process_length: "Process n e h buffer = Inr (evs, rest) \<Longrightarrow> length rest \<le> length buffer"
  by (auto simp: Process_def split: if_splits)
lemma NumBytes_simps [simp]: "NumBytes OneByte = 1" "NumBytes (TwoByte C) = 2" "ReadNum OneByte = ReadOneByte" "ReadNum (TwoByte C) = ReadTwoBytes C"
  by (simp_all add: OneByte_def TwoByte_def)

text \<open>Both parsers of numbers consume at most their size.\<close>

definition num_parser :: "NumParser \<Rightarrow> bool" where
  "num_parser np = (NumBytes np > 0 \<and> (\<forall>b. length (snd (ReadNum np b)) = length b - NumBytes np
     \<or> length b < NumBytes np \<and> length (snd (ReadNum np b)) \<le> length b))"

lemma num_parsers [simp]: "num_parser OneByte" "num_parser (TwoByte C)"
  by (auto simp: num_parser_def ReadOneByte_def ReadTwoBytes_def split: list.split)

lemma ReadNum_shorter: "num_parser np \<Longrightarrow> length (snd (ReadNum np b)) \<le> length b"
  unfolding num_parser_def by (metis diff_le_self)

lemma ReadNum_exact: "num_parser np \<Longrightarrow> NumBytes np \<le> length b \<Longrightarrow> length (snd (ReadNum np b)) = length b - NumBytes np"
  unfolding num_parser_def by (metis linorder_not_less)

lemma ParseCount_length:
  assumes "num_parser np" "ParseCount np buffer = Inr (count, rest)"
  shows "length rest < length buffer \<and> count \<noteq> 0"
  using assms ReadNum_exact [of np buffer]
  by (auto simp: ParseCount_def num_parser_def Let_def split_beta not_less split: if_splits)

lemma ParseRange_length:
  assumes "num_parser np" "ParseRange np buffer = Inr (rng, rest)"
  shows "length rest < length buffer \<and> Range_IsValid rng"
proof -
  have "0 < NumBytes np" using assms(1) by (simp add: num_parser_def)
  then have "NumBytes np \<le> length buffer" "0 < length buffer" using assms(2) by (auto simp: ParseRange_def split: if_splits)
  then have "length (snd (ReadNum np (snd (ReadNum np buffer)))) < length buffer"
    using ReadNum_exact [OF assms(1), of buffer] ReadNum_shorter [OF assms(1), of "snd (ReadNum np buffer)"] \<open>0 < NumBytes np\<close> by simp
  then show ?thesis
    using assms(2) by (auto simp: ParseRange_def Let_def split_beta split: if_splits)
qed

lemmas parser_defs = CountParser_ParseHeader_def CountParser_ParseCountOfObjects_def CountIndexParser_ParseHeader_def
  CountIndexParser_ParseCountOfObjects_def ParseIndexPrefixedOctetData_def ParseCountOfIndices_def RangeParser_ParseHeader_def
  ParseRangeOfObjects_def FromFixedSize_def FromBitfieldType_def FromDoubleBitfieldType_def ParseRangeOfOctetData_def
  HandleAllObjectsHeader_def

lemma CountParser_length: "num_parser np \<Longrightarrow> CountParser_ParseHeader buffer np ex r h = Inr (evs, rest) \<Longrightarrow> length rest \<le> length buffer"
  by (auto simp: CountParser_ParseHeader_def CountParser_ParseCountOfObjects_def dest!: ParseCount_length Process_length dest: less_imp_le le_less_trans split: sum.splits if_splits option.splits)

lemma CountIndexParser_length: "num_parser np \<Longrightarrow> CountIndexParser_ParseHeader buffer np ex r h = Inr (evs, rest) \<Longrightarrow> length rest \<le> length buffer"
  by (auto simp: CountIndexParser_ParseHeader_def CountIndexParser_ParseCountOfObjects_def ParseIndexPrefixedOctetData_def
      ParseCountOfIndices_def Let_def dest!: ParseCount_length Process_length dest: less_imp_le le_less_trans split: sum.splits if_splits option.splits)

lemma RangeParser_length: "num_parser np \<Longrightarrow> RangeParser_ParseHeader buffer np ex r h = Inr (evs, rest) \<Longrightarrow> length rest \<le> length buffer"
  by (auto simp: RangeParser_ParseHeader_def ParseRangeOfObjects_def FromFixedSize_def FromBitfieldType_def
      FromDoubleBitfieldType_def ParseRangeOfOctetData_def dest!: ParseRange_length Process_length dest: less_imp_le le_less_trans split: sum.splits if_splits option.splits)

lemma ParseQualifier_length: "ParseQualifier C buffer r ex h = Inr (evs, rest) \<Longrightarrow> length rest \<le> length buffer"
  using CountParser_length [OF num_parsers(1)] CountParser_length [OF num_parsers(2)] CountIndexParser_length [OF num_parsers(1)]
    CountIndexParser_length [OF num_parsers(2)] RangeParser_length [OF num_parsers(1)] RangeParser_length [OF num_parsers(2)]
  by (auto simp: ParseQualifier_def HandleAllObjectsHeader_def split: QualifierCode.splits)

lemma APDUParser_ParseHeader_length:
  assumes "APDUParser_ParseHeader C buffer count ex h wl = Inr (evs, rest)"
  shows "length rest + 3 \<le> length buffer"
proof -
  obtain r where "3 \<le> length buffer" "ParseQualifier C (drop 3 buffer) r ex h = Inr (evs, rest)"
    using assms by (auto simp: APDUParser_ParseHeader_def ParseObjectHeader_def Let_def split: sum.splits if_splits option.splits)
  with ParseQualifier_length [OF this(2)] show ?thesis by simp
qed

section \<open>A whole fragment\<close>

function ParseSinglePass_loop ::
  "u16_codec \<Rightarrow> byte list \<Rightarrow> u32 \<Rightarrow> bool \<Rightarrow> bool \<Rightarrow> white_list option \<Rightarrow> ParseResult \<times> header_event list" where
  "ParseSinglePass_loop C copy count expectsContents hasHandler whiteList =
     (if copy = [] then (OK, [])
      else case APDUParser_ParseHeader C copy count expectsContents hasHandler whiteList of
             Inl result \<Rightarrow> (result, [])
           | Inr (events, copy') \<Rightarrow>
               (let (result, more) = ParseSinglePass_loop C copy' (count + 1) expectsContents hasHandler whiteList
                in (result, events @ more)))"
  by pat_completeness auto
termination
  by (relation "measure (\<lambda>(C, copy, _). length copy)") (auto dest!: APDUParser_ParseHeader_length)

declare ParseSinglePass_loop.simps [simp del]

definition ParseSinglePass ::
  "u16_codec \<Rightarrow> byte list \<Rightarrow> bool \<Rightarrow> white_list option \<Rightarrow> bool \<Rightarrow> ParseResult \<times> header_event list" where
  "ParseSinglePass C buffer hasHandler whiteList expectsContents =
     ParseSinglePass_loop C buffer 0 expectsContents hasHandler whiteList"

definition APDUParser_Parse :: "u16_codec \<Rightarrow> byte list \<Rightarrow> white_list \<Rightarrow> bool \<Rightarrow> ParseResult \<times> header_event list" where
  "APDUParser_Parse C buffer whiteList expectsContents =
     (let (result, events) = ParseSinglePass C buffer False (Some whiteList) expectsContents
      in if result = OK then ParseSinglePass C buffer True None expectsContents else (result, events))"

section \<open>Two passes are one\<close>

definition silent :: "header_result \<Rightarrow> header_result" where
  "silent r = (case r of Inl e \<Rightarrow> Inl e | Inr (evs, rest) \<Rightarrow> Inr ([], rest))"

lemma silent_simps [simp]: "silent (Inl e) = Inl e" "silent (Inr (evs, rest)) = Inr ([], rest)"
  by (simp_all add: silent_def)

lemma Process_silent: "Process n e False buffer = silent (Process n e True buffer)"
  by (simp add: Process_def)

lemma number_parsers_silent:
  "CountParser_ParseHeader buffer np ex r False = silent (CountParser_ParseHeader buffer np ex r True)"
  "CountIndexParser_ParseHeader buffer np ex r False = silent (CountIndexParser_ParseHeader buffer np ex r True)"
  "RangeParser_ParseHeader buffer np ex r False = silent (RangeParser_ParseHeader buffer np ex r True)"
proof -
  show "CountParser_ParseHeader buffer np ex r False = silent (CountParser_ParseHeader buffer np ex r True)"
    by (simp add: CountParser_ParseHeader_def CountParser_ParseCountOfObjects_def Process_silent split: sum.split option.split)
  have o: "ParseIndexPrefixedOctetData b r np n False = silent (ParseIndexPrefixedOctetData b r np n True)"
    "ParseCountOfIndices b r np n False = silent (ParseCountOfIndices b r np n True)" for b n
    by (simp_all only: ParseIndexPrefixedOctetData_def ParseCountOfIndices_def Process_silent Let_def silent_simps split: if_split) simp_all
  have "CountIndexParser_ParseCountOfObjects b r np n False = silent (CountIndexParser_ParseCountOfObjects b r np n True)" for b n
    by (simp add: CountIndexParser_ParseCountOfObjects_def o Process_silent split: option.split)
  then show "CountIndexParser_ParseHeader buffer np ex r False = silent (CountIndexParser_ParseHeader buffer np ex r True)"
    by (simp add: CountIndexParser_ParseHeader_def o split: sum.split)
  have f: "FromFixedSize s rng r b False = silent (FromFixedSize s rng r b True)"
    "FromBitfieldType rng r b False = silent (FromBitfieldType rng r b True)"
    "FromDoubleBitfieldType rng r b False = silent (FromDoubleBitfieldType rng r b True)"
    "ParseRangeOfOctetData b r rng False = silent (ParseRangeOfOctetData b r rng True)" for s rng b
    by (simp_all add: FromFixedSize_def FromBitfieldType_def FromDoubleBitfieldType_def ParseRangeOfOctetData_def Process_silent)
  have "ParseRangeOfObjects b r rng False = silent (ParseRangeOfObjects b r rng True)" for b rng
    by (simp add: ParseRangeOfObjects_def f split: option.split)
  then show "RangeParser_ParseHeader buffer np ex r False = silent (RangeParser_ParseHeader buffer np ex r True)"
    by (simp add: RangeParser_ParseHeader_def split: sum.split)
qed

lemma ParseQualifier_silent: "ParseQualifier C buffer r ex False = silent (ParseQualifier C buffer r ex True)"
  by (simp add: ParseQualifier_def HandleAllObjectsHeader_def number_parsers_silent split: QualifierCode.split)

lemma ParseHeader_silent:
  "APDUParser_ParseHeader C buffer count ex False wl = silent (APDUParser_ParseHeader C buffer count ex True wl)"
  by (simp add: APDUParser_ParseHeader_def ParseQualifier_silent Let_def split: sum.split)

lemma ParseHeader_white_list:
  "APDUParser_ParseHeader C buffer count ex h (Some wl) = Inr x \<Longrightarrow> APDUParser_ParseHeader C buffer count ex h None = Inr x"
  by (auto simp: APDUParser_ParseHeader_def Let_def split: sum.splits if_splits)

lemma Process_error: "Process n e h buffer \<noteq> Inl OK"
  by (simp add: Process_def)

lemma number_errors: "ParseCount np buffer \<noteq> Inl OK" "ParseRange np buffer \<noteq> Inl OK"
  by (simp_all add: ParseCount_def ParseRange_def Let_def split_beta)

lemma number_parsers_error:
  "CountParser_ParseHeader buffer np ex r h \<noteq> Inl OK" "CountIndexParser_ParseHeader buffer np ex r h \<noteq> Inl OK"
  "RangeParser_ParseHeader buffer np ex r h \<noteq> Inl OK"
proof -
  show "CountParser_ParseHeader buffer np ex r h \<noteq> Inl OK"
    using number_errors(1) [of np buffer]
    by (auto simp: CountParser_ParseHeader_def CountParser_ParseCountOfObjects_def Process_error split: sum.splits option.splits)
  have "ParseIndexPrefixedOctetData b r np n h \<noteq> Inl OK" "ParseCountOfIndices b r np n h \<noteq> Inl OK" for b n
    by (simp_all add: ParseIndexPrefixedOctetData_def ParseCountOfIndices_def Process_error Let_def)
  then show "CountIndexParser_ParseHeader buffer np ex r h \<noteq> Inl OK"
    using number_errors(1) [of np buffer]
    by (auto simp: CountIndexParser_ParseHeader_def CountIndexParser_ParseCountOfObjects_def Process_error split: sum.splits option.splits)
  have "ParseRangeOfObjects b r rng h \<noteq> Inl OK" for b rng
    by (simp add: ParseRangeOfObjects_def FromFixedSize_def FromBitfieldType_def FromDoubleBitfieldType_def ParseRangeOfOctetData_def
        Process_error split: option.split)
  then show "RangeParser_ParseHeader buffer np ex r h \<noteq> Inl OK"
    using number_errors(2) [of np buffer] by (auto simp: RangeParser_ParseHeader_def split: sum.splits)
qed

lemma ParseQualifier_error: "ParseQualifier C buffer r ex h \<noteq> Inl OK"
  by (simp add: ParseQualifier_def HandleAllObjectsHeader_def number_parsers_error split: QualifierCode.split)

lemma ParseHeader_error: "APDUParser_ParseHeader C buffer count ex h wl \<noteq> Inl OK"
  by (simp add: APDUParser_ParseHeader_def ParseObjectHeader_def ParseQualifier_error Let_def split: sum.split)

lemma loop_silent:
  "ParseSinglePass_loop C copy count ex False wl = (fst (ParseSinglePass_loop C copy count ex True wl), [])"
proof (induction C copy count ex "False" wl rule: ParseSinglePass_loop.induct)
  case (1 C copy count ex wl)
  show ?case
  proof (cases "copy = []")
    case True
    then show ?thesis by (subst (1 2) ParseSinglePass_loop.simps) simp
  next
    case False
    show ?thesis
    proof (cases "APDUParser_ParseHeader C copy count ex True wl")
      case (Inl e)
      with False show ?thesis by (subst (1 2) ParseSinglePass_loop.simps) (simp add: ParseHeader_silent)
    next
      case (Inr x)
      obtain evs rest where x: "x = (evs, rest)" by (cases x)
      have s: "APDUParser_ParseHeader C copy count ex False wl = Inr ([], rest)" by (simp add: ParseHeader_silent Inr x)
      from 1 [OF False s refl] have "ParseSinglePass_loop C rest (count + 1) ex False wl
          = (fst (ParseSinglePass_loop C rest (count + 1) ex True wl), [])" .
      with False show ?thesis
        by (subst (1 2) ParseSinglePass_loop.simps) (simp add: s Inr x split_beta)
    qed
  qed
qed

lemma loop_white_list:
  "fst (ParseSinglePass_loop C copy count ex h (Some wl)) = OK
     \<Longrightarrow> ParseSinglePass_loop C copy count ex h None = ParseSinglePass_loop C copy count ex h (Some wl)"
proof (induction C copy count ex h "Some wl" rule: ParseSinglePass_loop.induct)
  case (1 C copy count ex h)
  show ?case
  proof (cases "copy = []")
    case True
    then show ?thesis by (subst (1 2) ParseSinglePass_loop.simps) simp
  next
    case False
    show ?thesis
    proof (cases "APDUParser_ParseHeader C copy count ex h (Some wl)")
      case (Inl e)
      then have "e \<noteq> OK" using ParseHeader_error by blast
      then show ?thesis using 1(2) False by (subst (asm) ParseSinglePass_loop.simps) (simp add: Inl)
    next
      case (Inr x)
      obtain evs rest where x: "x = (evs, rest)" by (cases x)
      have "fst (ParseSinglePass_loop C rest (count + 1) ex h (Some wl)) = OK"
        using 1(2) False by (subst (asm) ParseSinglePass_loop.simps) (simp add: Inr x split_beta)
      from 1(1) [OF False Inr [unfolded x] refl this] False show ?thesis
        by (subst (1 2) ParseSinglePass_loop.simps) (simp add: Inr x ParseHeader_white_list [OF Inr])
    qed
  qed
qed

section \<open>What the handler gets\<close>

text \<open>How many values the calls of the handler hold.\<close>

fun num_values :: "header_event \<Rightarrow> nat" where
  "num_values (OnCountOf r n vs) = length vs"
| "num_values (OnRangeOf r rng vs) = length vs"
| "num_values (OnRangeBits r rng vs) = length vs"
| "num_values (OnRangeDoubleBits r rng vs) = length vs"
| "num_values (OnPrefixIndices r n vs) = length vs"
| "num_values (OnPrefixOf r n vs) = length vs"
| "num_values e = 0"

text \<open>
  The call agrees with its header: as many values as the header says, the indices of a range in order and
  without a gap, and every object whole.
\<close>

definition range_indices :: "Range \<Rightarrow> u16 list" where
  "range_indices rng = map (\<lambda>i. of_nat i) [unat (start rng) ..< Suc (unat (stop rng))]"

fun event_exact :: "header_event \<Rightarrow> bool" where
  "event_exact (OnCountOf r n vs) = (length vs = unat n \<and> (\<forall>v \<in> set vs. map_of count_descriptors (enumeration r) = Some (length v)))"
| "event_exact (OnRangeOf r rng vs) = (Range_IsValid rng \<and> map fst vs = range_indices rng
     \<and> (\<forall>(i, v) \<in> set vs. if enumeration r = Group110Var0 then length v = unat (gv_variation r)
          else map_of range_descriptors (enumeration r) = Some (length v)))"
| "event_exact (OnRangeBits r rng vs) = (Range_IsValid rng \<and> map fst vs = range_indices rng)"
| "event_exact (OnRangeDoubleBits r rng vs) = (Range_IsValid rng \<and> map fst vs = range_indices rng)"
| "event_exact (OnRange r rng) = Range_IsValid rng"
| "event_exact (OnPrefixIndices r n vs) = (length vs = unat n)"
| "event_exact (OnPrefixOf r n vs) = (length vs = unat n
     \<and> (\<forall>(i, v) \<in> set vs. if enumeration r = Group111Var0 then length v = unat (gv_variation r)
          else map_of count_index_descriptors (enumeration r) = Some (length v)))"
| "event_exact (OnAllObjects r) = True"
| "event_exact (OnCount r n) = True"

lemma length_Foreach [simp]: "length (Foreach f b p n) = n"
  by (induction n arbitrary: b p) (simp_all add: Let_def split_beta)

lemma Foreach_all:
  assumes "\<And>b p. k \<le> length b \<Longrightarrow> Q (fst (f b p)) \<and> length (snd (f b p)) = length b - k"
  shows "n * k \<le> length b \<Longrightarrow> v \<in> set (Foreach f b p n) \<Longrightarrow> Q v"
proof (induction n arbitrary: b p)
  case (Suc n)
  have f: "Q (fst (f b p))" "length (snd (f b p)) = length b - k" using assms [of b p] Suc.prems(1) by auto
  then have "n * k \<le> length (snd (f b p))" using Suc.prems(1) by simp
  from Suc.IH [OF this] Suc.prems(2) f(1) show ?case by (auto simp: Let_def split_beta)
qed simp

lemma Foreach_read_object: "n * k \<le> length b \<Longrightarrow> v \<in> set (Foreach (read_object k) b p n) \<Longrightarrow> length v = k"
  by (rule Foreach_all [where Q = "\<lambda>v. length v = k"]) (auto simp: read_object_def)

lemma Foreach_read_prefixed:
  assumes "num_parser np"
  shows "n * (k + NumBytes np) \<le> length b \<Longrightarrow> x \<in> set (Foreach (read_prefixed np k) b p n) \<Longrightarrow> length (snd x) = k"
  by (rule Foreach_all [where Q = "\<lambda>x. length (snd x) = k"])
    (auto simp: read_prefixed_def split_beta ReadNum_exact [OF assms])

lemma Foreach_read_ranged: "n * k \<le> length b \<Longrightarrow> x \<in> set (Foreach (read_ranged rng k) b p n) \<Longrightarrow> length (snd x) = k"
  by (rule Foreach_all [where Q = "\<lambda>x. length (snd x) = k"]) (auto simp: read_ranged_def)

lemma Foreach_indices:
  assumes "\<And>b p. fst (f b p) = (start rng + of_nat p, g b p)"
  shows "map fst (Foreach f b p n) = map (\<lambda>i. start rng + of_nat i) [p ..< p + n]"
proof (induction n arbitrary: b p)
  case (Suc n)
  have "map fst (Foreach f b p (Suc n)) = (start rng + of_nat p) # map (\<lambda>i. start rng + of_nat i) [Suc p ..< Suc p + n]"
    using assms [of b p] Suc.IH [of "snd (f b p)" "Suc p"] by (simp add: Let_def split_beta del: upt_Suc)
  moreover have "[p ..< p + Suc n] = p # [Suc p ..< Suc p + n]" by (simp add: upt_conv_Cons del: upt_Suc)
  ultimately show ?case by simp
qed simp

lemma range_indices_eq: "Range_IsValid rng \<Longrightarrow> map (\<lambda>i. start rng + of_nat i) [0 ..< 0 + Range_Count rng] = range_indices rng"
proof -
  assume v: "Range_IsValid rng"
  then have le: "unat (start rng) \<le> unat (stop rng)" by (simp add: Range_IsValid_def word_le_nat_alt)
  have "map (\<lambda>i. start rng + of_nat i) [0 ..< Range_Count rng] = map of_nat (map (\<lambda>i. i + unat (start rng)) [0 ..< Range_Count rng])"
    by simp
  also have "map (\<lambda>i. i + unat (start rng)) [0 ..< Range_Count rng] = [unat (start rng) ..< Suc (unat (stop rng))]"
    using le v by (simp add: map_add_upt Range_Count_def)
  finally show ?thesis by (simp add: range_indices_def)
qed

lemmas Foreach_range_indices = trans [OF Foreach_indices range_indices_eq]

section \<open>Bounds and exactness of a header\<close>

text \<open>One header: its calls are exact, and its values are at most eight for each byte that it consumes.\<close>

definition header_ok :: "byte list \<Rightarrow> header_result \<Rightarrow> bool" where
  "header_ok buffer r = (case r of Inl e \<Rightarrow> True
     | Inr (evs, rest) \<Rightarrow> length rest \<le> length buffer
         \<and> sum_list (map num_values evs) \<le> 8 * (length buffer - length rest) \<and> (\<forall>e \<in> set evs. event_exact e))"

lemma header_ok_simps [simp]: "header_ok buffer (Inl e)"
  "header_ok buffer (Inr (evs, rest)) \<longleftrightarrow> length rest \<le> length buffer
         \<and> sum_list (map num_values evs) \<le> 8 * (length buffer - length rest) \<and> (\<forall>e \<in> set evs. event_exact e)"
  by (simp_all add: header_ok_def)

lemma Process_ok: "(n \<le> length b \<Longrightarrow> num_values e \<le> 8 * n \<and> event_exact e) \<Longrightarrow> header_ok b (Process n e h b)"
  by (auto simp: Process_def)

lemma header_ok_mono: "header_ok b r \<Longrightarrow> length b \<le> length buffer \<Longrightarrow> header_ok buffer r"
  by (auto simp: header_ok_def split: sum.splits)

lemma descriptor_sizes:
  "map_of count_descriptors e = Some k \<Longrightarrow> 0 < k" "map_of count_index_descriptors e = Some k \<Longrightarrow> 0 < k"
  "map_of range_descriptors e = Some k \<Longrightarrow> 0 < k"
proof -
  have "\<forall>(e, k) \<in> set count_descriptors. 0 < k" "\<forall>(e, k) \<in> set count_index_descriptors. 0 < k"
    "\<forall>(e, k) \<in> set range_descriptors. 0 < k"
    by (simp_all add: count_descriptors_def count_index_descriptors_def range_descriptors_def size_defs)
  then show "map_of count_descriptors e = Some k \<Longrightarrow> 0 < k" "map_of count_index_descriptors e = Some k \<Longrightarrow> 0 < k"
    "map_of range_descriptors e = Some k \<Longrightarrow> 0 < k"
    by (fast dest: map_of_SomeD)+
qed

lemma no_octet_descriptors:
  "map_of count_index_descriptors Group111Var0 = None" "map_of range_descriptors Group110Var0 = None"
  by (simp_all add: count_index_descriptors_def range_descriptors_def)

lemma times_le_8: "0 < k \<Longrightarrow> n \<le> 8 * (n * k)" for n k :: nat
  by (cases k) simp_all

lemma CountParser_ok: "num_parser np \<Longrightarrow> header_ok buffer (CountParser_ParseHeader buffer np ex r h)"
proof (cases "ParseCount np buffer")
  case (Inr x)
  assume np: "num_parser np"
  obtain count b where x: "x = (count, b)" by (cases x)
  have l: "length b < length buffer" using ParseCount_length [OF np Inr [unfolded x]] by simp
  have "header_ok b (CountParser_ParseCountOfObjects b r count h)"
  proof (cases "map_of count_descriptors (enumeration r)")
    case (Some k)
    have "event_exact (OnCountOf r count (Foreach (read_object k) b 0 (unat count)))" if "unat count * k \<le> length b"
      using Foreach_read_object [OF that] by (auto simp: Some)
    then show ?thesis
      using times_le_8 [OF descriptor_sizes(1) [OF Some]] by (auto simp: CountParser_ParseCountOfObjects_def Some intro!: Process_ok)
  qed (simp add: CountParser_ParseCountOfObjects_def)
  with l show ?thesis by (auto simp: CountParser_ParseHeader_def Inr x intro: header_ok_mono)
qed (simp add: CountParser_ParseHeader_def)

lemma octet_total: "unat ((ucast (count :: u16) :: u32) * of_nat (k + unat (v :: byte))) = unat count * (k + unat v)" if "k \<le> 2"
proof -
  have "unat count \<le> 65535" "unat v \<le> 255" using unat_u16_less [of count] unat_byte_less [of v] by linarith+
  then have "unat count * (k + unat v) \<le> 65535 * 257" using that by (intro mult_le_mono) auto
  then have "unat count * (k + unat v) < 4294967296" and small: "k + unat v < 4294967296" using that \<open>unat v \<le> 255\<close> by auto
  moreover have "unat (ucast count :: u32) = unat count"
    by (simp add: unsigned_ucast_eq take_bit_nat_eq_self_iff less_trans [OF unat_u16_less])
  moreover have "unat (of_nat (k + unat v) :: u32) = k + unat v"
    using small by (simp only: unat_of_nat) simp
  ultimately show ?thesis by (simp only: unat_word_ariths) simp
qed

lemma CountIndexParser_ok:
  assumes np: "num_parser np" and k: "NumBytes np \<le> 2"
  shows "header_ok buffer (CountIndexParser_ParseHeader buffer np ex r h)"
proof (cases "ParseCount np buffer")
  case (Inr x)
  obtain count b where x: "x = (count, b)" by (cases x)
  have l: "length b < length buffer" using ParseCount_length [OF np Inr [unfolded x]] by simp
  have pos: "0 < NumBytes np" using np by (simp add: num_parser_def)
  have "header_ok b (ParseCountOfIndices b r np count h)"
    unfolding ParseCountOfIndices_def using times_le_8 [OF pos] by (intro Process_ok) simp
  moreover have "header_ok b (CountIndexParser_ParseCountOfObjects b r np count h)"
  proof (cases "map_of count_index_descriptors (enumeration r)")
    case (Some m)
    have "event_exact (OnPrefixOf r count (Foreach (read_prefixed np m) b 0 (unat count)))"
      if "unat count * (m + NumBytes np) \<le> length b"
      using Foreach_read_prefixed [OF np that] Some no_octet_descriptors by fastforce
    then show ?thesis
      using times_le_8 [of "m + NumBytes np" "unat count"] pos
      by (auto simp: CountIndexParser_ParseCountOfObjects_def Some intro!: Process_ok)
  next
    case None
    show ?thesis
    proof (cases "enumeration r = Group111Var0")
      case True
      have "event_exact (OnPrefixOf r count (Foreach (read_prefixed np (unat (gv_variation r))) b 0 (unat count)))"
        if "unat count * (NumBytes np + unat (gv_variation r)) \<le> length b"
        using Foreach_read_prefixed [OF np, of "unat count" "unat (gv_variation r)" b] that True by (fastforce simp: add.commute)
      then have "header_ok b (Process (unat count * (NumBytes np + unat (gv_variation r)))
          (OnPrefixOf r count (Foreach (read_prefixed np (unat (gv_variation r))) b 0 (unat count))) h b)"
        using times_le_8 [of "NumBytes np + unat (gv_variation r)" "unat count"] pos by (intro Process_ok) simp
      then have "header_ok b (ParseIndexPrefixedOctetData b r np count h)"
        by (simp only: ParseIndexPrefixedOctetData_def Let_def octet_total [OF k] split: if_split) simp
      then show ?thesis by (simp add: CountIndexParser_ParseCountOfObjects_def True no_octet_descriptors)
    qed (simp add: CountIndexParser_ParseCountOfObjects_def None)
  qed
  ultimately show ?thesis using l by (auto simp: CountIndexParser_ParseHeader_def Inr x intro: header_ok_mono)
qed (simp add: CountIndexParser_ParseHeader_def)

lemma bits_bound: "n \<le> 8 * NumBytesInBits n" "n \<le> 8 * NumBytesInDoubleBits n"
  by (simp_all add: NumBytesInBits_def NumBytesInDoubleBits_def Let_def) presburger+

lemma RangeParser_ok:
  assumes np: "num_parser np"
  shows "header_ok buffer (RangeParser_ParseHeader buffer np ex r h)"
proof (cases "ParseRange np buffer")
  case (Inr x)
  obtain rng b where x: "x = (rng, b)" by (cases x)
  have l: "length b < length buffer" and v: "Range_IsValid rng" using ParseRange_length [OF np Inr [unfolded x]] by simp_all
  let ?n = "Range_Count rng"
  have idx: "map fst (Foreach (read_ranged rng k) b 0 ?n) = range_indices rng"
    "map fst (Foreach (\<lambda>buffer pos. ((start rng + of_nat pos, GetBit buffer pos), buffer)) b 0 ?n) = range_indices rng"
    "map fst (Foreach (\<lambda>buffer pos. ((start rng + of_nat pos, GetDoubleBit buffer pos), buffer)) b 0 ?n) = range_indices rng" for k
    by (rule Foreach_range_indices; (simp add: read_ranged_def | rule v))+
  have fixed: "header_ok b (FromFixedSize k rng r b h)" if "map_of range_descriptors (enumeration r) = Some k" for k
  proof -
    have "event_exact (OnRangeOf r rng (Foreach (read_ranged rng k) b 0 ?n))" if "?n * k \<le> length b"
      using Foreach_read_ranged [OF that] \<open>map_of range_descriptors (enumeration r) = Some k\<close> no_octet_descriptors v idx(1) by fastforce
    then show ?thesis unfolding FromFixedSize_def using times_le_8 [OF descriptor_sizes(3) [OF that]] by (intro Process_ok) auto
  qed
  have octet: "header_ok b (ParseRangeOfOctetData b r rng h)" if "enumeration r = Group110Var0"
  proof (cases "gv_variation r = 0")
    case False
    then have p: "0 < unat (gv_variation r)" by (simp add: unat_gt_0)
    have "event_exact (OnRangeOf r rng (Foreach (read_ranged rng (unat (gv_variation r))) b 0 ?n))"
      if "unat (gv_variation r) * ?n \<le> length b"
      using Foreach_read_ranged [of ?n "unat (gv_variation r)" b] that \<open>enumeration r = Group110Var0\<close> v idx(1)
      by (fastforce simp: mult.commute)
    then show ?thesis unfolding ParseRangeOfOctetData_def
      using times_le_8 [OF p] False by (auto simp: mult.commute word_gt_0 intro!: Process_ok)
  qed (simp add: ParseRangeOfOctetData_def)
  have "header_ok b (ParseRangeOfObjects b r rng h)"
    using fixed octet bits_bound v idx
    by (auto simp: ParseRangeOfObjects_def FromBitfieldType_def FromDoubleBitfieldType_def intro!: Process_ok split: option.split)
  then show ?thesis using l v by (auto simp: RangeParser_ParseHeader_def Inr x intro: header_ok_mono)
qed (simp add: RangeParser_ParseHeader_def)

lemma ParseQualifier_ok: "header_ok buffer (ParseQualifier C buffer r ex h)"
  by (simp add: ParseQualifier_def CountParser_ok CountIndexParser_ok RangeParser_ok HandleAllObjectsHeader_def split: QualifierCode.split)

lemma ParseHeader_ok: "header_ok buffer (APDUParser_ParseHeader C buffer count ex h wl)"
  by (auto simp: APDUParser_ParseHeader_def ParseObjectHeader_def Let_def split: sum.split
      intro: header_ok_mono [OF ParseQualifier_ok])

lemma loop_ok:
  "sum_list (map num_values (snd (ParseSinglePass_loop C copy count ex h wl))) \<le> 8 * length copy
   \<and> (\<forall>e \<in> set (snd (ParseSinglePass_loop C copy count ex h wl)). event_exact e)"
proof (induction C copy count ex h wl rule: ParseSinglePass_loop.induct)
  case (1 C copy count ex h wl)
  show ?case
  proof (cases "copy = [] \<or> (\<exists>e. APDUParser_ParseHeader C copy count ex h wl = Inl e)")
    case True
    then show ?thesis by (subst (1 2) ParseSinglePass_loop.simps) auto
  next
    case False
    then obtain evs rest where p: "APDUParser_ParseHeader C copy count ex h wl = Inr (evs, rest)"
      by (metis sum.exhaust surj_pair)
    have "header_ok copy (Inr (evs, rest))" using ParseHeader_ok [of copy C count ex h wl] p by simp
    with 1 [OF _ p refl] False show ?thesis
      by (subst (1 2) ParseSinglePass_loop.simps) (auto simp: p split_beta)
  qed
qed

section \<open>The properties\<close>

text \<open>
  C36. The parser works in two passes over a fragment, the first with the white list and without the
  handler. This is the same as one pass whose calls of the handler are kept back until the whole fragment is
  known to be valid: no object of a fragment that fails anywhere is ever given to the handler.
\<close>

theorem two_passes_are_one:
  "APDUParser_Parse C buffer whiteList ex
     = (let (result, events) = ParseSinglePass C buffer True (Some whiteList) ex
        in (result, if result = OK then events else []))"
  using loop_silent [of C buffer 0 ex "Some whiteList"] loop_white_list [of C buffer 0 ex True whiteList]
  by (simp add: APDUParser_Parse_def ParseSinglePass_def Let_def split_beta prod_eq_iff)

text \<open>
  C37. What the handler gets from a fragment, whatever bytes it has: each call is exact, that is, it has as
  many values as its header says, the indices of a range are all there in order, and each object has
  its full size within the buffer; and all calls together have at most eight values for each
  byte of the fragment, so that a short fragment cannot make a handler visit many values.
\<close>

theorem handler_calls_are_exact:
  "list_all event_exact (snd (APDUParser_Parse C buffer whiteList ex))
   \<and> sum_list (map num_values (snd (APDUParser_Parse C buffer whiteList ex))) \<le> 8 * length buffer"
  using loop_ok [of C buffer 0 ex True None] loop_ok [of C buffer 0 ex False "Some whiteList"]
  by (simp add: APDUParser_Parse_def ParseSinglePass_def Let_def split_beta list_all_iff)
end
