(* ===== verification/App_Writer.thy ===== *)
theory App_Writer
  imports App_Objects App_Parse
begin

text \<open>
  Writing object headers (\<open>app/HeaderWriter\<close> and the iterators \<open>RangeWriteIterator\<close>, \<open>CountWriteIterator\<close>,
  \<open>PrefixedWriteIterator\<close>, \<open>BitfieldRangeWriteIterator\<close>). All \<open>wseq_t\<close> of a fragment are views of one buffer:
  a view is a position in it, and its length is what is left to the end. An iterator writes the stop index
  or the count at a position that it remembered, when it is destroyed; the destructors are the functions
  \<open>*_destroy\<close>. An index type is a record of its size, largest value and writing function; its values are
  natural numbers, and arithmetic on them wraps by \<open>narrow\<close>.
\<close>

section \<open>The buffer and index types\<close>

record HeaderWriter =
  hw_mem :: "byte list"
  hw_pos :: nat
  hw_mark :: "nat option"

definition HeaderWriter_make :: "byte list \<Rightarrow> nat \<Rightarrow> HeaderWriter" where
  "HeaderWriter_make buffer position = \<lparr>hw_mem = buffer, hw_pos = position, hw_mark = None\<rparr>"

definition Remaining :: "HeaderWriter \<Rightarrow> nat" where
  "Remaining w = length (hw_mem w) - hw_pos w"

definition poke :: "nat \<Rightarrow> byte list \<Rightarrow> HeaderWriter \<Rightarrow> HeaderWriter" where
  "poke off bs w = (if off + length bs \<le> length (hw_mem w)
     then w\<lparr>hw_mem := take off (hw_mem w) @ bs @ drop (off + length bs) (hw_mem w)\<rparr> else w)"

definition advance :: "nat \<Rightarrow> HeaderWriter \<Rightarrow> HeaderWriter" where
  "advance n w = w\<lparr>hw_pos := min (hw_pos w + n) (length (hw_mem w))\<rparr>"

definition put :: "byte list \<Rightarrow> HeaderWriter \<Rightarrow> HeaderWriter" where
  "put bs w = (if length bs \<le> Remaining w then advance (length bs) (poke (hw_pos w) bs w) else w)"

record index_type =
  it_size :: nat
  it_max :: nat
  it_put :: "nat \<Rightarrow> byte list"

definition index8 :: index_type where
  "index8 = \<lparr>it_size = 1, it_max = 255, it_put = (\<lambda>n. [of_nat n])\<rparr>"

definition index16 :: "u16_codec \<Rightarrow> index_type" where
  "index16 C = \<lparr>it_size = 2, it_max = 65535, it_put = (\<lambda>n. write_to C (of_nat n))\<rparr>"

definition narrow :: "index_type \<Rightarrow> nat \<Rightarrow> nat" where
  "narrow T n = n mod (it_max T + 1)"

record write_iterator =
  wi_start :: nat
  wi_count :: nat
  wi_max :: nat
  wi_valid :: bool
  wi_at :: nat

definition Null_iterator :: write_iterator where
  "Null_iterator = \<lparr>wi_start = 0, wi_count = 0, wi_max = 0, wi_valid = False, wi_at = 0\<rparr>"

section \<open>Headers\<close>

definition WriteHeader :: "GroupVariationID \<Rightarrow> QualifierCode \<Rightarrow> HeaderWriter \<Rightarrow> bool \<times> HeaderWriter" where
  "WriteHeader gvId qc w =
     (if Remaining w < 3 then (False, w)
      else (True, put [QualifierCode_to_type qc] (put [id_variation gvId] (put [id_group gvId] w))))"

definition WriteHeaderWithReserve :: "GroupVariationID \<Rightarrow> QualifierCode \<Rightarrow> nat \<Rightarrow> HeaderWriter \<Rightarrow> bool \<times> HeaderWriter" where
  "WriteHeaderWithReserve gvId qc reserve w = (if Remaining w < 3 + reserve then (False, w) else WriteHeader gvId qc w)"

definition Mark :: "HeaderWriter \<Rightarrow> HeaderWriter" where
  "Mark w = w\<lparr>hw_mark := Some (hw_pos w)\<rparr>"

definition Rollback :: "HeaderWriter \<Rightarrow> bool \<times> HeaderWriter" where
  "Rollback w = (case hw_mark w of None \<Rightarrow> (False, w) | Some p \<Rightarrow> (True, w\<lparr>hw_pos := p, hw_mark := None\<rparr>))"

definition WriteRangeHeader ::
  "index_type \<Rightarrow> QualifierCode \<Rightarrow> GroupVariationID \<Rightarrow> nat \<Rightarrow> nat \<Rightarrow> HeaderWriter \<Rightarrow> bool \<times> HeaderWriter" where
  "WriteRangeHeader T qc gvId first final w =
     (let (ok, w) = WriteHeaderWithReserve gvId qc (2 * it_size T) w
      in if ok then (True, put (it_put T final) (put (it_put T first) w)) else (False, w))"

definition WriteCountHeader :: "index_type \<Rightarrow> QualifierCode \<Rightarrow> GroupVariationID \<Rightarrow> nat \<Rightarrow> HeaderWriter \<Rightarrow> bool \<times> HeaderWriter" where
  "WriteCountHeader T qc gvId count w =
     (let (ok, w) = WriteHeaderWithReserve gvId qc (it_size T) w
      in if ok then (True, put (it_put T count) w) else (False, w))"

text \<open>A single value of an object type that is given by its identifier, its size and the bytes that it writes.\<close>

definition WriteSingleValue ::
  "index_type \<Rightarrow> QualifierCode \<Rightarrow> GroupVariationID \<Rightarrow> nat \<Rightarrow> byte list \<Rightarrow> HeaderWriter \<Rightarrow> bool \<times> HeaderWriter" where
  "WriteSingleValue T qc gvId sz bytes w =
     (let (ok, w) = WriteHeaderWithReserve gvId qc (it_size T + sz) w
      in if ok then (True, put bytes (put (it_put T 1) w)) else (False, w))"

definition WriteSingleIndexedValue ::
  "index_type \<Rightarrow> QualifierCode \<Rightarrow> 't DNP3Serializer \<Rightarrow> 't \<Rightarrow> nat \<Rightarrow> HeaderWriter \<Rightarrow> bool \<times> HeaderWriter" where
  "WriteSingleIndexedValue T qc S v index w =
     (let (ok, w) = WriteHeaderWithReserve (ser_id S) qc (2 * it_size T + ser_size S) w
      in if ok then (True, put (ser_write S v) (put (it_put T index) (put (it_put T 1) w))) else (False, w))"

section \<open>Ranges of values\<close>

definition RangeWriteIterator_make :: "index_type \<Rightarrow> nat \<Rightarrow> HeaderWriter \<Rightarrow> write_iterator \<times> HeaderWriter" where
  "RangeWriteIterator_make T first w =
     (let valid = (Remaining w \<ge> 2 * it_size T);
          it = \<lparr>wi_start = first, wi_count = 0, wi_max = 0, wi_valid = valid, wi_at = hw_pos w + it_size T\<rparr>
      in (it, if valid then advance (2 * it_size T) (poke (hw_pos w) (it_put T first) w) else w))"

definition RangeWriteIterator_destroy :: "index_type \<Rightarrow> write_iterator \<Rightarrow> HeaderWriter \<Rightarrow> HeaderWriter" where
  "RangeWriteIterator_destroy T it w =
     (if wi_valid it \<and> wi_count it > 0
      then poke (wi_at it) (it_put T (narrow T (wi_start it + wi_count it - 1))) w else w)"

definition RangeWriteIterator_Write ::
  "index_type \<Rightarrow> 't DNP3Serializer \<Rightarrow> 't \<Rightarrow> write_iterator \<Rightarrow> HeaderWriter \<Rightarrow> bool \<times> write_iterator \<times> HeaderWriter" where
  "RangeWriteIterator_Write T S v it w =
     (if wi_valid it \<and> Remaining w \<ge> ser_size S \<and> wi_count it \<le> it_max T
      then (True, it\<lparr>wi_count := wi_count it + 1\<rparr>, put (ser_write S v) w)
      else (False, it, w))"

definition IterateOverRange ::
  "index_type \<Rightarrow> QualifierCode \<Rightarrow> 't DNP3Serializer \<Rightarrow> nat \<Rightarrow> HeaderWriter \<Rightarrow> write_iterator \<times> HeaderWriter" where
  "IterateOverRange T qc S first w =
     (let (ok, w) = WriteHeaderWithReserve (ser_id S) qc (2 * it_size T + ser_size S) w
      in if ok then RangeWriteIterator_make T first w else (Null_iterator, w))"

section \<open>Counts of values\<close>

definition CountWriteIterator_make :: "index_type \<Rightarrow> HeaderWriter \<Rightarrow> write_iterator \<times> HeaderWriter" where
  "CountWriteIterator_make T w =
     (let valid = (Remaining w \<ge> it_size T);
          it = \<lparr>wi_start = 0, wi_count = 0, wi_max = 0, wi_valid = valid, wi_at = hw_pos w\<rparr>
      in (it, if valid then advance (it_size T) w else w))"

definition CountWriteIterator_destroy :: "index_type \<Rightarrow> write_iterator \<Rightarrow> HeaderWriter \<Rightarrow> HeaderWriter" where
  "CountWriteIterator_destroy T it w = (if wi_valid it then poke (wi_at it) (it_put T (wi_count it)) w else w)"

definition CountWriteIterator_Write ::
  "index_type \<Rightarrow> 't DNP3Serializer \<Rightarrow> 't \<Rightarrow> write_iterator \<Rightarrow> HeaderWriter \<Rightarrow> bool \<times> write_iterator \<times> HeaderWriter" where
  "CountWriteIterator_Write T S v it w =
     (if wi_valid it \<and> ser_size S \<le> Remaining w \<and> wi_count it < it_max T
      then (True, it\<lparr>wi_count := wi_count it + 1\<rparr>, put (ser_write S v) w)
      else (False, it, w))"

definition IterateOverCount :: "index_type \<Rightarrow> QualifierCode \<Rightarrow> 't DNP3Serializer \<Rightarrow> HeaderWriter \<Rightarrow> write_iterator \<times> HeaderWriter" where
  "IterateOverCount T qc S w =
     (let (ok, w) = WriteHeaderWithReserve (ser_id S) qc (it_size T + ser_size S) w
      in if ok then CountWriteIterator_make T w else (Null_iterator, w))"

section \<open>Values with their indices\<close>

definition PrefixedWriteIterator_make :: "index_type \<Rightarrow> HeaderWriter \<Rightarrow> write_iterator \<times> HeaderWriter" where
  "PrefixedWriteIterator_make T w =
     (let valid = (Remaining w \<ge> it_size T);
          it = \<lparr>wi_start = 0, wi_count = 0, wi_max = 0, wi_valid = valid, wi_at = hw_pos w\<rparr>
      in (it, if valid then advance (it_size T) w else w))"

definition PrefixedWriteIterator_destroy :: "index_type \<Rightarrow> write_iterator \<Rightarrow> HeaderWriter \<Rightarrow> HeaderWriter" where
  "PrefixedWriteIterator_destroy T it w = (if wi_valid it then poke (wi_at it) (it_put T (wi_count it)) w else w)"

definition PrefixedWriteIterator_Write ::
  "index_type \<Rightarrow> 't DNP3Serializer \<Rightarrow> 't \<Rightarrow> nat \<Rightarrow> write_iterator \<Rightarrow> HeaderWriter \<Rightarrow> bool \<times> write_iterator \<times> HeaderWriter" where
  "PrefixedWriteIterator_Write T S v index it w =
     (if wi_valid it \<and> Remaining w \<ge> ser_size S + it_size T
      then (True, it\<lparr>wi_count := narrow T (wi_count it + 1)\<rparr>, put (ser_write S v) (put (it_put T index) w))
      else (False, it, w))"

definition IterateOverCountWithPrefix ::
  "index_type \<Rightarrow> QualifierCode \<Rightarrow> 't DNP3Serializer \<Rightarrow> HeaderWriter \<Rightarrow> write_iterator \<times> HeaderWriter" where
  "IterateOverCountWithPrefix T qc S w =
     (let (ok, w) = WriteHeaderWithReserve (ser_id S) qc (2 * it_size T + ser_size S) w
      in if ok then PrefixedWriteIterator_make T w else (Null_iterator, w))"

definition IterateOverCountWithPrefixAndCTO ::
  "index_type \<Rightarrow> QualifierCode \<Rightarrow> 't DNP3Serializer \<Rightarrow> GroupVariationID \<Rightarrow> nat \<Rightarrow> byte list \<Rightarrow> HeaderWriter
     \<Rightarrow> write_iterator \<times> HeaderWriter" where
  "IterateOverCountWithPrefixAndCTO T qc S cto_id cto_size cto w =
     (let (ok, w) = WriteSingleValue index8 UINT8_CNT cto_id cto_size cto (Mark w)
      in if ok then (let (it, w) = IterateOverCountWithPrefix T qc S w
                     in (it, if wi_valid it then w else snd (Rollback w)))
         else (Null_iterator, w))"

section \<open>Bits\<close>

definition BitfieldRangeWriteIterator_make :: "index_type \<Rightarrow> nat \<Rightarrow> HeaderWriter \<Rightarrow> write_iterator \<times> HeaderWriter" where
  "BitfieldRangeWriteIterator_make T first w =
     (let valid = (Remaining w \<ge> 2 * it_size T);
          w' = (if valid then advance (2 * it_size T) (poke (hw_pos w) (it_put T first) w) else w);
          it = \<lparr>wi_start = first, wi_count = 0, wi_max = (if valid then Remaining w' * 8 else 0), wi_valid = valid,
                wi_at = hw_pos w + it_size T\<rparr>
      in (it, w'))"

definition BitfieldRangeWriteIterator_destroy :: "index_type \<Rightarrow> write_iterator \<Rightarrow> HeaderWriter \<Rightarrow> HeaderWriter" where
  "BitfieldRangeWriteIterator_destroy T it w =
     (if wi_valid it \<and> wi_count it > 0
      then (let w = poke (wi_at it) (it_put T (narrow T (wi_start it + wi_count it - 1))) w;
                num = wi_count it div 8; num = (if wi_count it mod 8 > 0 then num + 1 else num)
            in advance num w)
      else w)"

definition BitfieldRangeWriteIterator_Write :: "index_type \<Rightarrow> bool \<Rightarrow> write_iterator \<Rightarrow> HeaderWriter \<Rightarrow> bool \<times> write_iterator \<times> HeaderWriter" where
  "BitfieldRangeWriteIterator_Write T v it w =
     (if wi_valid it \<and> wi_count it < wi_max it
      then (let byte = wi_count it div 8; bit = wi_count it mod 8; i = hw_pos w + byte;
                mem = (if bit = 0 then (hw_mem w)[i := 0] else hw_mem w);
                mem = (if v then mem[i := mem ! i OR push_bit bit 1] else mem)
            in (True, it\<lparr>wi_count := narrow T (wi_count it + 1)\<rparr>, w\<lparr>hw_mem := mem\<rparr>))
      else (False, it, w))"

definition IterateOverSingleBitfield ::
  "index_type \<Rightarrow> GroupVariationID \<Rightarrow> QualifierCode \<Rightarrow> nat \<Rightarrow> HeaderWriter \<Rightarrow> write_iterator \<times> HeaderWriter" where
  "IterateOverSingleBitfield T gvId qc first w =
     (let (ok, w) = WriteHeaderWithReserve gvId qc (2 * it_size T + 1) w
      in if ok then BitfieldRangeWriteIterator_make T first w else (Null_iterator, w))"

text \<open>Writing a list of values with an iterator, until one does not fit; the values that were written are counted.\<close>

fun write_each :: "('v \<Rightarrow> write_iterator \<Rightarrow> HeaderWriter \<Rightarrow> bool \<times> write_iterator \<times> HeaderWriter) \<Rightarrow> 'v list
    \<Rightarrow> write_iterator \<Rightarrow> HeaderWriter \<Rightarrow> nat \<times> write_iterator \<times> HeaderWriter" where
  "write_each f [] it w = (0, it, w)"
| "write_each f (v # vs) it w =
     (let (ok, it, w) = f v it w
      in if ok then (let (n, it, w) = write_each f vs it w in (n + 1, it, w)) else (0, it, w))"

section \<open>What has been written\<close>

definition writer_ok :: "HeaderWriter \<Rightarrow> bool" where
  "writer_ok w = (hw_pos w \<le> length (hw_mem w))"

definition written :: "HeaderWriter \<Rightarrow> byte list" where
  "written w = take (hw_pos w) (hw_mem w)"

named_theorems writer \<open>rules for the buffer of a writer\<close>

lemma length_written [simp]: "writer_ok w \<Longrightarrow> length (written w) = hw_pos w"
  by (simp add: writer_ok_def written_def)

lemma poke_simps [simp]: "hw_pos (poke off bs w) = hw_pos w" "length (hw_mem (poke off bs w)) = length (hw_mem w)"
  "writer_ok (poke off bs w) = writer_ok w" "Remaining (poke off bs w) = Remaining w"
  by (simp_all add: poke_def writer_ok_def Remaining_def)

lemma advance_simps [simp]: "hw_mem (advance n w) = hw_mem w" "writer_ok (advance n w)"
  "n \<le> Remaining w \<Longrightarrow> writer_ok w \<Longrightarrow> hw_pos (advance n w) = hw_pos w + n"
  "n \<le> Remaining w \<Longrightarrow> writer_ok w \<Longrightarrow> Remaining (advance n w) = Remaining w - n"
  by (auto simp: advance_def writer_ok_def Remaining_def)

lemma put_ok [simp]: "writer_ok w \<Longrightarrow> writer_ok (put bs w)" "length (hw_mem (put bs w)) = length (hw_mem w)"
  by (auto simp: put_def)

lemma put_fits:
  assumes "writer_ok w" "length bs \<le> Remaining w"
  shows "written (put bs w) = written w @ bs" "Remaining (put bs w) = Remaining w - length bs" "hw_pos (put bs w) = hw_pos w + length bs"
proof -
  have le: "hw_pos w + length bs \<le> length (hw_mem w)" using assms by (simp add: writer_ok_def Remaining_def)
  then show "written (put bs w) = written w @ bs" using assms by (simp add: put_def written_def poke_def advance_def)
  show "Remaining (put bs w) = Remaining w - length bs" "hw_pos (put bs w) = hw_pos w + length bs"
    using assms by (simp_all add: put_def)
qed

lemma written_advance:
  "writer_ok w \<Longrightarrow> n \<le> Remaining w \<Longrightarrow> written (advance n w) = written w @ take n (drop (hw_pos w) (hw_mem w))"
  by (simp add: written_def take_add)

lemma written_poke:
  assumes "writer_ok w" "written w = a @ gap @ b" "off = length a" "length gap = length bs"
  shows "written (poke off bs w) = a @ bs @ b"
proof -
  have "hw_pos w = length (written w)" using assms(1) by simp
  then have p: "off + length bs \<le> hw_pos w" "hw_pos w \<le> length (hw_mem w)" using assms by (simp_all add: writer_ok_def)
  have "written (poke off bs w) = take off (hw_mem w) @ bs @ take (hw_pos w - (off + length bs)) (drop (off + length bs) (hw_mem w))"
    using p by (simp add: written_def poke_def)
  also have "take off (hw_mem w) = take off (written w)" using p by (simp add: written_def)
  also have "take (hw_pos w - (off + length bs)) (drop (off + length bs) (hw_mem w)) = drop (off + length bs) (written w)"
    using p by (simp add: written_def drop_take)
  finally show ?thesis using assms by simp
qed

definition index_of :: "u16_codec \<Rightarrow> bool \<Rightarrow> index_type" where
  "index_of C one = (if one then index8 else index16 C)"

definition number_of :: "u16_codec \<Rightarrow> bool \<Rightarrow> NumParser" where
  "number_of C one = (if one then OneByte else TwoByte C)"

definition range_code :: "bool \<Rightarrow> QualifierCode" where
  "range_code one = (if one then UINT8_START_STOP else UINT16_START_STOP)"

definition prefix_code :: "bool \<Rightarrow> QualifierCode" where
  "prefix_code one = (if one then UINT8_CNT_UINT8_INDEX else UINT16_CNT_UINT16_INDEX)"

lemma index_of_simps [simp]: "it_size (index_of C one) = (if one then 1 else 2)" "it_max (index_of C one) = (if one then 255 else 65535)"
  "NumBytes (number_of C one) = it_size (index_of C one)"
  by (simp_all add: index_of_def index8_def index16_def number_of_def)

lemma length_it_put [simp]: "codec16 C \<Longrightarrow> length (it_put (index_of C one) n) = it_size (index_of C one)"
  by (simp add: index_of_def index8_def index16_def codec16.length_write)

lemma ReadNum_put:
  assumes "codec16 C" "n \<le> it_max (index_of C one)"
  shows "ReadNum (number_of C one) (it_put (index_of C one) n @ r) = (of_nat n, r)"
proof (cases one)
  case True
  then have "ucast (of_nat n :: byte) = (of_nat n :: u16)"
    using assms(2) by (simp add: unsigned_of_nat take_bit_nat_eq_self)
  with True show ?thesis by (simp add: number_of_def index_of_def index8_def ReadOneByte_def)
next
  case False
  then show ?thesis
    using codec16.length_write [OF assms(1)] codec16.read_write [OF assms(1)] codec16.drop_write [OF assms(1)]
    by (simp add: number_of_def index_of_def index16_def ReadTwoBytes_def)
qed

lemma WriteHeaderWithReserve_ok:
  assumes "writer_ok w" "WriteHeaderWithReserve gvId qc n w = (True, w')"
  shows "writer_ok w' \<and> written w' = written w @ [id_group gvId, id_variation gvId, QualifierCode_to_type qc]
    \<and> n \<le> Remaining w' \<and> hw_pos w' = hw_pos w + 3"
  using assms by (auto simp: WriteHeaderWithReserve_def WriteHeader_def put_fits split: if_splits)

section \<open>Ranges\<close>

lemma write_each_written:
  assumes step: "\<And>v it w it' w'. writer_ok w \<Longrightarrow> wi_valid it \<Longrightarrow> f v it w = (True, it', w')
      \<Longrightarrow> writer_ok w' \<and> written w' = written w @ g v \<and> it' = it\<lparr>wi_count := c (wi_count it)\<rparr>"
  shows "writer_ok w \<Longrightarrow> wi_valid it \<Longrightarrow> write_each f vs it w = (length vs, it', w')
    \<Longrightarrow> writer_ok w' \<and> written w' = written w @ concat (map g vs) \<and> it' = it\<lparr>wi_count := (c ^^ length vs) (wi_count it)\<rparr>"
proof (induction vs arbitrary: it w)
  case (Cons v vs)
  obtain ok j x where s: "f v it w = (ok, j, x)" by (metis surj_pair)
  obtain m j' x' where r: "write_each f vs j x = (m, j', x')" by (metis surj_pair)
  have ok: "ok" "m = length vs" "it' = j'" "w' = x'" using Cons.prems(3) s r by (auto split: if_splits)
  have S: "writer_ok x \<and> written x = written w @ g v \<and> j = it\<lparr>wi_count := c (wi_count it)\<rparr>"
    using step [OF Cons.prems(1,2)] s ok(1) by simp
  with Cons.prems(2) have v: "wi_valid j" by simp
  have "writer_ok x" using S by blast
  moreover have "write_each f vs j x = (length vs, it', w')" using r ok by simp
  ultimately show ?case using Cons.IH [of x j] v S by (simp add: funpow_swap1)
qed simp

lemma write_each_range:
  assumes "well_sized S" "writer_ok w" "wi_valid it" "write_each (RangeWriteIterator_Write T S) vs it w = (length vs, it', w')"
  shows "writer_ok w' \<and> written w' = written w @ concat (map (ser_write S) vs)
    \<and> it' = it\<lparr>wi_count := (Suc ^^ length vs) (wi_count it)\<rparr>"
  by (rule write_each_written [OF _ assms(2-4)])
    (use assms(1) in \<open>auto simp: RangeWriteIterator_Write_def well_sized_def put_fits split: if_splits\<close>)

text \<open>The header of a range that a list of values was written for.\<close>

definition range_header :: "u16_codec \<Rightarrow> bool \<Rightarrow> GroupVariationID \<Rightarrow> nat \<Rightarrow> nat \<Rightarrow> byte list \<Rightarrow> byte list" where
  "range_header C one gvId first count body =
     [id_group gvId, id_variation gvId, QualifierCode_to_type (range_code one)]
       @ it_put (index_of C one) first @ it_put (index_of C one) (first + count - 1) @ body"

lemma RangeWriteIterator_make_ok:
  assumes "codec16 C" "writer_ok w" "2 * it_size (index_of C one) \<le> Remaining w"
    "RangeWriteIterator_make (index_of C one) first w = (it, w')"
  shows "\<exists>gap. length gap = it_size (index_of C one) \<and> writer_ok w' \<and> written w' = written w @ it_put (index_of C one) first @ gap
    \<and> it = \<lparr>wi_start = first, wi_count = 0, wi_max = 0, wi_valid = True, wi_at = hw_pos w + it_size (index_of C one)\<rparr>"
proof -
  let ?T = "index_of C one" and ?w = "poke (hw_pos w) (it_put (index_of C one) first) w"
  have w': "w' = advance (2 * it_size ?T) ?w" and it: "it = \<lparr>wi_start = first, wi_count = 0, wi_max = 0, wi_valid = True, wi_at = hw_pos w + it_size ?T\<rparr>"
    using assms(3,4) by (auto simp: RangeWriteIterator_make_def Let_def)
  have fits: "hw_pos w + 2 * it_size ?T \<le> length (hw_mem w)" using assms(2,3) by (auto simp: Remaining_def writer_ok_def split: if_splits)
  have len: "length (it_put ?T first) = it_size ?T" using assms(1) by simp
  have "written w' = written ?w @ take (2 * it_size ?T) (drop (hw_pos w) (hw_mem ?w))"
    using written_advance [of ?w "2 * it_size ?T"] assms(2,3) by (simp add: w')
  moreover have "written ?w = written w" using fits by (simp add: written_def poke_def)
  moreover have "hw_mem ?w = take (hw_pos w) (hw_mem w) @ it_put ?T first @ drop (hw_pos w + it_size ?T) (hw_mem w)"
    using fits len by (simp add: poke_def)
  then have "take (2 * it_size ?T) (drop (hw_pos w) (hw_mem ?w)) = it_put ?T first @ take (it_size ?T) (drop (hw_pos w + it_size ?T) (hw_mem w))"
    using fits len by (simp add: mult_2)
  ultimately have "written w' = written w @ it_put ?T first @ take (it_size ?T) (drop (hw_pos w + it_size ?T) (hw_mem w))" by simp
  moreover have "length (take (it_size ?T) (drop (hw_pos w + it_size ?T) (hw_mem w))) = it_size ?T" using fits by simp
  moreover have "writer_ok w'" by (simp add: w')
  ultimately show ?thesis using it by blast
qed

lemma narrow_id [simp]: "n \<le> it_max T \<Longrightarrow> narrow T n = n"
  by (simp add: narrow_def)

definition write_range :: "index_type \<Rightarrow> QualifierCode \<Rightarrow> 't DNP3Serializer \<Rightarrow> nat \<Rightarrow> 't list \<Rightarrow> HeaderWriter \<Rightarrow> nat \<times> HeaderWriter" where
  "write_range T qc S first vs w =
     (let (it, w) = IterateOverRange T qc S first w; (n, it, w) = write_each (RangeWriteIterator_Write T S) vs it w
      in (n, RangeWriteIterator_destroy T it w))"

lemma write_range_written:
  assumes "codec16 C" "well_sized S" "writer_ok w" "vs \<noteq> []" "first + length vs - 1 \<le> it_max (index_of C one)"
    and "write_range (index_of C one) (range_code one) S first vs w = (length vs, w')"
  shows "writer_ok w' \<and> written w' = written w @ range_header C one (ser_id S) first (length vs) (concat (map (ser_write S) vs))"
proof -
  let ?T = "index_of C one"
  obtain ok w1 where h: "WriteHeaderWithReserve (ser_id S) (range_code one) (2 * it_size ?T + ser_size S) w = (ok, w1)" by fastforce
  have "ok"
  proof (rule ccontr)
    assume "\<not> ok"
    then have "IterateOverRange ?T (range_code one) S first w = (Null_iterator, w1)" using h by (simp add: IterateOverRange_def)
    moreover have "write_each (RangeWriteIterator_Write ?T S) vs Null_iterator w1 = (0, Null_iterator, w1)"
      using assms(4) by (cases vs) (simp_all add: RangeWriteIterator_Write_def Null_iterator_def)
    ultimately show False using assms(4,6) by (simp add: write_range_def)
  qed
  with h have h: "WriteHeaderWithReserve (ser_id S) (range_code one) (2 * it_size ?T + ser_size S) w = (True, w1)" by simp
  note H = WriteHeaderWithReserve_ok [OF assms(3) h]
  obtain it w2 where m: "RangeWriteIterator_make ?T first w1 = (it, w2)" by fastforce
  have "2 * it_size ?T \<le> Remaining w1" using H by linarith
  from RangeWriteIterator_make_ok [OF assms(1) _ this m] H
  obtain gap where M: "length gap = it_size ?T" "writer_ok w2" "written w2 = written w1 @ it_put ?T first @ gap"
    "it = \<lparr>wi_start = first, wi_count = 0, wi_max = 0, wi_valid = True, wi_at = hw_pos w1 + it_size ?T\<rparr>" by blast
  obtain n it3 w3 where e: "write_each (RangeWriteIterator_Write ?T S) vs it w2 = (n, it3, w3)" by (metis surj_pair)
  have n: "n = length vs" and w': "w' = RangeWriteIterator_destroy ?T it3 w3"
    using assms(6) h m e by (simp_all add: write_range_def IterateOverRange_def)
  have v: "wi_valid it" using M(4) by simp
  note V = write_each_range [OF assms(2) M(2) v e [unfolded n]]
  have l: "length vs > 0" using assms(4) by simp
  have d: "w' = poke (hw_pos w1 + it_size ?T) (it_put ?T (first + length vs - 1)) w3"
    using V M(4) l assms(5) unfolding w' by (simp add: RangeWriteIterator_destroy_def)
  let ?a = "written w1 @ it_put ?T first"
  have "length (written w1) = hw_pos w1" using H length_written by blast
  then have off: "hw_pos w1 + it_size ?T = length ?a" using assms(1) by simp
  have "written w' = ?a @ it_put ?T (first + length vs - 1) @ concat (map (ser_write S) vs)"
    unfolding d by (rule written_poke [OF _ _ off]) (use V M assms(1) in simp_all)
  then show ?thesis using H V by (simp add: d range_header_def)
qed

section \<open>Values with indices\<close>

lemma write_each_prefixed:
  assumes "well_sized S" "codec16 C" "writer_ok w" "wi_valid it"
    "write_each (\<lambda>(v, i). PrefixedWriteIterator_Write (index_of C one) S v i) vs it w = (length vs, it', w')"
  shows "writer_ok w' \<and> written w' = written w @ concat (map (\<lambda>(v, i). it_put (index_of C one) i @ ser_write S v) vs)
    \<and> it' = it\<lparr>wi_count := ((\<lambda>n. narrow (index_of C one) (n + 1)) ^^ length vs) (wi_count it)\<rparr>"
  by (rule write_each_written [OF _ assms(3-5)])
    (use assms(1,2) in \<open>auto simp: PrefixedWriteIterator_Write_def well_sized_def put_fits split: if_splits\<close>)

lemma narrow_count: "((\<lambda>n. narrow T (n + 1)) ^^ k) 0 = narrow T k"
  by (induction k) (simp_all add: narrow_def mod_simps)

definition prefix_header :: "u16_codec \<Rightarrow> bool \<Rightarrow> GroupVariationID \<Rightarrow> nat \<Rightarrow> byte list \<Rightarrow> byte list" where
  "prefix_header C one gvId count body =
     [id_group gvId, id_variation gvId, QualifierCode_to_type (prefix_code one)] @ it_put (index_of C one) count @ body"

definition write_prefixed ::
  "index_type \<Rightarrow> QualifierCode \<Rightarrow> 't DNP3Serializer \<Rightarrow> ('t \<times> nat) list \<Rightarrow> HeaderWriter \<Rightarrow> nat \<times> HeaderWriter" where
  "write_prefixed T qc S vs w =
     (let (it, w) = IterateOverCountWithPrefix T qc S w;
          (n, it, w) = write_each (\<lambda>(v, i). PrefixedWriteIterator_Write T S v i) vs it w
      in (n, PrefixedWriteIterator_destroy T it w))"

text \<open>The count in the header wraps around, whatever was written.\<close>

lemma write_prefixed_written:
  assumes "codec16 C" "well_sized S" "writer_ok w" "vs \<noteq> []"
    and "write_prefixed (index_of C one) (prefix_code one) S vs w = (length vs, w')"
  shows "writer_ok w' \<and> written w' = written w @ prefix_header C one (ser_id S) (narrow (index_of C one) (length vs))
    (concat (map (\<lambda>(v, i). it_put (index_of C one) i @ ser_write S v) vs))"
proof -
  let ?T = "index_of C one" and ?f = "\<lambda>(v, i). PrefixedWriteIterator_Write (index_of C one) S v i"
  obtain ok w1 where h: "WriteHeaderWithReserve (ser_id S) (prefix_code one) (2 * it_size ?T + ser_size S) w = (ok, w1)" by fastforce
  have "ok"
  proof (rule ccontr)
    assume "\<not> ok"
    then have "IterateOverCountWithPrefix ?T (prefix_code one) S w = (Null_iterator, w1)" using h by (simp add: IterateOverCountWithPrefix_def)
    moreover have "write_each ?f vs Null_iterator w1 = (0, Null_iterator, w1)"
      using assms(4) by (cases vs) (auto simp: PrefixedWriteIterator_Write_def Null_iterator_def)
    ultimately show False using assms(4,5) by (simp add: write_prefixed_def)
  qed
  with h have h: "WriteHeaderWithReserve (ser_id S) (prefix_code one) (2 * it_size ?T + ser_size S) w = (True, w1)" by simp
  note H = WriteHeaderWithReserve_ok [OF assms(3) h]
  have r: "it_size ?T \<le> Remaining w1" using H by linarith
  define w2 where "w2 = advance (it_size ?T) w1"
  define it where "it = \<lparr>wi_start = 0, wi_count = 0, wi_max = 0, wi_valid = True, wi_at = hw_pos w1\<rparr>"
  have m: "PrefixedWriteIterator_make ?T w1 = (it, w2)" using r by (simp add: PrefixedWriteIterator_make_def it_def w2_def)
  obtain n it3 w3 where e: "write_each ?f vs it w2 = (n, it3, w3)" by (metis surj_pair)
  have n: "n = length vs" and w': "w' = PrefixedWriteIterator_destroy ?T it3 w3"
    using assms(5) h m e by (simp_all add: write_prefixed_def IterateOverCountWithPrefix_def)
  have v: "wi_valid it" and ok2: "writer_ok w2" by (simp_all add: it_def w2_def)
  note V = write_each_prefixed [OF assms(2,1) ok2 v e [unfolded n]]
  have d: "w' = poke (hw_pos w1) (it_put ?T (narrow ?T (length vs))) w3"
  proof -
    have "it3 = it\<lparr>wi_count := narrow ?T (length vs)\<rparr>" using V narrow_count [where T = ?T and k = "length vs"] by (simp only: it_def) simp
    then show ?thesis unfolding w' by (simp add: PrefixedWriteIterator_destroy_def it_def)
  qed
  have "length (take (it_size ?T) (drop (hw_pos w1) (hw_mem w1))) = it_size ?T" using r by (auto simp: Remaining_def)
  moreover have "written w2 = written w1 @ take (it_size ?T) (drop (hw_pos w1) (hw_mem w1))"
    using written_advance [of w1 "it_size ?T"] H r by (simp add: w2_def)
  ultimately obtain gap where gap: "written w2 = written w1 @ gap" "length gap = it_size ?T" by blast
  have off: "hw_pos w1 = length (written w1)" using H length_written by metis
  have "written w' = written w1 @ it_put ?T (narrow ?T (length vs)) @ concat (map (\<lambda>(v, i). it_put ?T i @ ser_write S v) vs)"
    unfolding d by (rule written_poke [OF _ _ off]) (use V gap assms(1) in simp_all)
  then show ?thesis using H V by (simp add: d prefix_header_def)
qed

section \<open>Bits\<close>

definition bits_packed :: "nat \<Rightarrow> bool list \<Rightarrow> byte list \<Rightarrow> bool" where
  "bits_packed p bs mem =
     (\<forall>j < 8 * NumBytesInBits (length bs). bit (mem ! (p + j div 8)) (j mod 8) = (j < length bs \<and> bs ! j))"

lemma NumBytesInBits_Suc: "NumBytesInBits (Suc c) = c div 8 + 1"
  by (simp add: NumBytesInBits_def Let_def div_Suc)

lemma NumBytesInBits_eq: "NumBytesInBits c = (if c mod 8 = 0 then c div 8 else c div 8 + 1)"
  by (simp add: NumBytesInBits_def Let_def)

lemma bits_packed_step:
  assumes inv: "bits_packed p bs mem" and i: "i = p + length bs div 8" "i < length mem" and b: "b = length bs mod 8"
    and mem1: "mem1 = (if b = 0 then mem[i := 0] else mem)"
    and mem2: "mem2 = (if v then mem1[i := mem1 ! i OR push_bit b 1] else mem1)"
  shows "bits_packed p (bs @ [v]) mem2"
  unfolding bits_packed_def
proof (intro allI impI)
  let ?c = "length bs"
  fix j assume "j < 8 * NumBytesInBits (length (bs @ [v]))"
  then have j: "j < 8 * (?c div 8 + 1)" by (simp add: NumBytesInBits_Suc)
  have len: "length mem1 = length mem" by (simp add: mem1)
  have c: "?c = 8 * (?c div 8) + b" by (simp add: b)
  show "bit (mem2 ! (p + j div 8)) (j mod 8) = (j < length (bs @ [v]) \<and> (bs @ [v]) ! j)"
  proof (cases "j div 8 < ?c div 8")
    case True
    then have "p + j div 8 \<noteq> i" "j < ?c" "j < 8 * NumBytesInBits ?c" using i(1) by (auto simp: NumBytesInBits_eq)
    then show ?thesis using inv by (simp add: bits_packed_def mem2 mem1 nth_append)
  next
    case False
    have "j div 8 < ?c div 8 + 1" using j by (intro less_mult_imp_div_less) (simp add: mult.commute)
    with False have d: "j div 8 = ?c div 8" by simp
    then have pi: "p + j div 8 = i" using i(1) by simp
    have jc: "j = 8 * (?c div 8) + j mod 8" using d by (metis mult_div_mod_eq)
    have bit2: "bit (mem2 ! i) (j mod 8) = (bit (mem1 ! i) (j mod 8) \<or> v \<and> j mod 8 = b)"
      using i(2) len by (auto simp: mem2 bit_simps)
    have eqc: "(j = ?c) = (j mod 8 = b)" using jc c by linarith
    show ?thesis
    proof (cases "b = 0")
      case True
      then have "\<not> bit (mem1 ! i) (j mod 8)" "\<not> j < ?c" using i(2) c jc by (simp_all add: mem1)
      then show ?thesis using bit2 eqc by (auto simp: pi nth_append)
    next
      case False
      then have jn: "j < 8 * NumBytesInBits ?c" using j b by (simp add: NumBytesInBits_eq)
      then have "bit (mem1 ! i) (j mod 8) = (j < ?c \<and> bs ! j)" using inv [unfolded bits_packed_def, rule_format, OF jn] False pi by (simp add: mem1)
      then show ?thesis using bit2 eqc by (auto simp: pi nth_append)
    qed
  qed
qed

lemma write_each_bits:
  assumes "write_each (BitfieldRangeWriteIterator_Write T) vs it w = (length vs, it', w')"
    and "wi_valid it" "wi_count it = length bs" "bits_packed (hw_pos w) bs (hw_mem w)" "wi_max it = 8 * Remaining w"
    and "length bs + length vs \<le> it_max T" "writer_ok w" "length bs \<le> 8 * Remaining w"
  shows "it' = it\<lparr>wi_count := length bs + length vs\<rparr> \<and> hw_pos w' = hw_pos w \<and> take (hw_pos w) (hw_mem w') = take (hw_pos w) (hw_mem w)
    \<and> length (hw_mem w') = length (hw_mem w) \<and> bits_packed (hw_pos w) (bs @ vs) (hw_mem w') \<and> length bs + length vs \<le> 8 * Remaining w"
  using assms
proof (induction vs arbitrary: it w bs)
  case (Cons v vs)
  let ?i = "hw_pos w + length bs div 8" and ?b = "length bs mod 8"
  obtain ok j x where s: "BitfieldRangeWriteIterator_Write T v it w = (ok, j, x)" by (metis surj_pair)
  obtain m j' x' where r: "write_each (BitfieldRangeWriteIterator_Write T) vs j x = (m, j', x')" by (metis surj_pair)
  have ok: "ok" "m = length vs" "it' = j'" "w' = x'" using Cons.prems(1) s r by (auto split: if_splits)
  have lt: "length bs < 8 * Remaining w"
  proof (rule ccontr)
    assume "\<not> length bs < 8 * Remaining w"
    then have "BitfieldRangeWriteIterator_Write T v it w = (False, it, w)"
      using Cons.prems(3,5) by (simp add: BitfieldRangeWriteIterator_Write_def)
    with s ok(1) show False by simp
  qed
  define mem1 where "mem1 = (if ?b = 0 then (hw_mem w)[?i := 0] else hw_mem w)"
  define mem2 where "mem2 = (if v then mem1[?i := mem1 ! ?i OR push_bit ?b 1] else mem1)"
  have "BitfieldRangeWriteIterator_Write T v it w = (True, it\<lparr>wi_count := length bs + 1\<rparr>, w\<lparr>hw_mem := mem2\<rparr>)"
    using Cons.prems(2,3,5,6) lt by (simp add: BitfieldRangeWriteIterator_Write_def Let_def mem1_def mem2_def)
  then have x: "x = w\<lparr>hw_mem := mem2\<rparr>" and j: "j = it\<lparr>wi_count := length bs + 1\<rparr>" using s by simp_all
  have i: "?i < length (hw_mem w)" using lt by (auto simp: Remaining_def)
  have len: "length mem2 = length (hw_mem w)" "take (hw_pos w) mem2 = take (hw_pos w) (hw_mem w)" by (simp_all add: mem2_def mem1_def)
  have "bits_packed (hw_pos w) (bs @ [v]) mem2"
    by (rule bits_packed_step [OF Cons.prems(4) refl i refl mem1_def mem2_def])
  then show ?case
    using Cons.IH [of j x "bs @ [v]"] r ok Cons.prems(2-) lt len by (simp add: x j Remaining_def writer_ok_def)
qed simp

definition write_bits :: "index_type \<Rightarrow> QualifierCode \<Rightarrow> GroupVariationID \<Rightarrow> nat \<Rightarrow> bool list \<Rightarrow> HeaderWriter \<Rightarrow> nat \<times> HeaderWriter" where
  "write_bits T qc gvId first bs w =
     (let (it, w) = IterateOverSingleBitfield T gvId qc first w; (n, it, w) = write_each (BitfieldRangeWriteIterator_Write T) bs it w
      in (n, BitfieldRangeWriteIterator_destroy T it w))"

lemma bits_packed_GetBit:
  assumes "bits_packed p bs mem" "p + NumBytesInBits (length bs) \<le> length mem" "i < length bs"
  shows "GetBit (take (NumBytesInBits (length bs)) (drop p mem) @ r) i = bs ! i"
proof -
  have n: "i < 8 * NumBytesInBits (length bs)" "i div 8 < NumBytesInBits (length bs)"
    using assms(3) bits_bound(1) [of "length bs"] by (simp_all add: less_mult_imp_div_less mult.commute)
  then have "(take (NumBytesInBits (length bs)) (drop p mem) @ r) ! (i div 8) = mem ! (p + i div 8)"
    using assms(2) by (simp add: nth_append)
  moreover have "bit (mem ! (p + i div 8)) (i mod 8) = bs ! i"
    using assms(1,3) n(1) unfolding bits_packed_def by blast
  ultimately show ?thesis by (simp add: GetBit_def push_bit_eq_mult and_exp_eq_0_iff_not_bit)
qed

lemma bits_packed_Nil [simp]: "bits_packed p [] mem"
  by (simp add: bits_packed_def NumBytesInBits_def)

lemma BitfieldRangeWriteIterator_make_ok:
  assumes "codec16 C" "writer_ok w" "2 * it_size (index_of C one) \<le> Remaining w"
    "BitfieldRangeWriteIterator_make (index_of C one) first w = (it, w')"
  shows "\<exists>gap. length gap = it_size (index_of C one) \<and> writer_ok w' \<and> written w' = written w @ it_put (index_of C one) first @ gap
    \<and> it = \<lparr>wi_start = first, wi_count = 0, wi_max = 8 * Remaining w', wi_valid = True, wi_at = hw_pos w + it_size (index_of C one)\<rparr>"
proof -
  obtain j x where r: "RangeWriteIterator_make (index_of C one) first w = (j, x)" by fastforce
  have "x = w'" and it: "it = j\<lparr>wi_max := 8 * Remaining w'\<rparr>"
    using r assms(3,4) by (auto simp: RangeWriteIterator_make_def BitfieldRangeWriteIterator_make_def Let_def)
  with RangeWriteIterator_make_ok [OF assms(1-3) r] show ?thesis by auto
qed

lemma NumBytesInBits_le:
  assumes "c \<le> 8 * m"
  shows "NumBytesInBits c \<le> m"
proof (cases "c mod 8 = 0")
  case True
  then show ?thesis using assms by (simp add: NumBytesInBits_eq)
next
  case False
  have "c = 8 * (c div 8) + c mod 8" by simp
  then have "c div 8 < m" using False assms by linarith
  with False show ?thesis by (simp add: NumBytesInBits_eq)
qed

lemma bytes_of_count: "(if 0 < c mod 8 then c div 8 + 1 else c div 8) = NumBytesInBits c"
  by (simp add: NumBytesInBits_def Let_def)

lemma write_bits_written:
  assumes "codec16 C" "writer_ok w" "bs \<noteq> []" "length bs \<le> it_max (index_of C one)" "first + length bs - 1 \<le> it_max (index_of C one)"
    and "write_bits (index_of C one) (range_code one) gvId first bs w = (length bs, w')"
  shows "\<exists>body. writer_ok w' \<and> written w' = written w @ range_header C one gvId first (length bs) body
    \<and> length body = NumBytesInBits (length bs) \<and> (\<forall>i < length bs. \<forall>r. GetBit (body @ r) i = bs ! i)"
proof -
  let ?T = "index_of C one"
  obtain ok w1 where h: "WriteHeaderWithReserve gvId (range_code one) (2 * it_size ?T + 1) w = (ok, w1)" by fastforce
  have "ok"
  proof (rule ccontr)
    assume "\<not> ok"
    then have "IterateOverSingleBitfield ?T gvId (range_code one) first w = (Null_iterator, w1)" using h by (simp add: IterateOverSingleBitfield_def)
    moreover have "write_each (BitfieldRangeWriteIterator_Write ?T) bs Null_iterator w1 = (0, Null_iterator, w1)"
      using assms(3) by (cases bs) (simp_all add: BitfieldRangeWriteIterator_Write_def Null_iterator_def)
    ultimately show False using assms(3,6) by (simp add: write_bits_def)
  qed
  with h have h: "WriteHeaderWithReserve gvId (range_code one) (2 * it_size ?T + 1) w = (True, w1)" by simp
  note H = WriteHeaderWithReserve_ok [OF assms(2) h]
  obtain it w2 where m: "BitfieldRangeWriteIterator_make ?T first w1 = (it, w2)" by fastforce
  have "2 * it_size ?T \<le> Remaining w1" using H by linarith
  from BitfieldRangeWriteIterator_make_ok [OF assms(1) _ this m] H
  obtain gap where M: "length gap = it_size ?T" "writer_ok w2" "written w2 = written w1 @ it_put ?T first @ gap"
    "it = \<lparr>wi_start = first, wi_count = 0, wi_max = 8 * Remaining w2, wi_valid = True, wi_at = hw_pos w1 + it_size ?T\<rparr>" by blast
  obtain n it3 w3 where e: "write_each (BitfieldRangeWriteIterator_Write ?T) bs it w2 = (n, it3, w3)" by (metis surj_pair)
  have n: "n = length bs" and w': "w' = BitfieldRangeWriteIterator_destroy ?T it3 w3"
    using assms(6) h m e by (simp_all add: write_bits_def IterateOverSingleBitfield_def)
  have V: "it3 = it\<lparr>wi_count := length bs\<rparr>" "hw_pos w3 = hw_pos w2" "take (hw_pos w2) (hw_mem w3) = take (hw_pos w2) (hw_mem w2)"
    "length (hw_mem w3) = length (hw_mem w2)" "bits_packed (hw_pos w2) bs (hw_mem w3)" "length bs \<le> 8 * Remaining w2"
    using write_each_bits [OF e [unfolded n], of "[]"] M assms(4) by simp_all
  define N where "N = NumBytesInBits (length bs)"
  have N: "N \<le> Remaining w2" using V(6) by (simp add: N_def NumBytesInBits_le)
  have ok3: "writer_ok w3" and r3: "Remaining w3 = Remaining w2" using V(2,4) M(2) by (simp_all add: writer_ok_def Remaining_def)
  have wr3: "written w3 = written w2" using V(2,3) by (simp add: written_def)
  define w4 where "w4 = poke (hw_pos w1 + it_size ?T) (it_put ?T (first + length bs - 1)) w3"
  have d: "w' = advance N w4"
    using assms(3,5) bytes_of_count [of "length bs"] unfolding w' by (simp add: BitfieldRangeWriteIterator_destroy_def V(1) M(4) w4_def N_def Let_def del: index_of_simps)
  let ?a = "written w1 @ it_put ?T first"
  have "length (written w1) = hw_pos w1" using H length_written by blast
  then have off: "hw_pos w1 + it_size ?T = length ?a" using assms(1) by simp
  have wr4: "written w4 = ?a @ it_put ?T (first + length bs - 1)"
  proof -
    have "written w3 = ?a @ gap @ []" using M(3) by (simp add: wr3)
    moreover have "length gap = length (it_put ?T (first + length bs - 1))" using M(1) assms(1) by (simp del: index_of_simps)
    ultimately have "written w4 = ?a @ it_put ?T (first + length bs - 1) @ []" unfolding w4_def by (rule written_poke [OF ok3 _ off])
    then show ?thesis by simp
  qed
  let ?body = "take N (drop (hw_pos w2) (hw_mem w4))"
  have fit: "hw_pos w2 + N \<le> length (hw_mem w3)" using N V(4) M(2) by (simp add: Remaining_def writer_ok_def)
  have "written w' = written w4 @ ?body"
    unfolding d using written_advance [of w4 N] ok3 N r3 V(2) by (simp add: w4_def)
  moreover have mem4: "drop (hw_pos w2) (hw_mem w4) = drop (hw_pos w2) (hw_mem w3)"
  proof -
    have "hw_pos w2 = length (written w2)" using M(2) by simp
    then have "length ?a + length (it_put ?T (first + length bs - 1)) = hw_pos w2" using M(1,3) assms(1) by simp
    then show ?thesis unfolding w4_def off poke_def using M(2) V(4) assms(1) by (simp add: writer_ok_def)
  qed
  moreover have "GetBit (?body @ r) i = bs ! i" if "i < length bs" for i r
    unfolding mem4 unfolding N_def by (rule bits_packed_GetBit [OF V(5) _ that]) (use fit in \<open>simp add: N_def\<close>)
  moreover have "length ?body = N" using fit mem4 by simp
  moreover have "writer_ok w'" by (simp add: d)
  ultimately show ?thesis using H by (intro exI [of _ ?body]) (simp add: wr4 range_header_def N_def)
qed

section \<open>What the parser makes of it\<close>

definition parsed_record :: "GroupVariationID \<Rightarrow> QualifierCode \<Rightarrow> u32 \<Rightarrow> HeaderRecord" where
  "parsed_record gvId qc i = HeaderRecord_make (GetRecord (id_group gvId) (id_variation gvId)) (QualifierCode_to_type qc) i"

lemma parsed_record_simps [simp]:
  "enumeration (parsed_record gvId qc i) = enumeration (GetRecord (id_group gvId) (id_variation gvId))"
  "gv_variation (parsed_record gvId qc i) = id_variation gvId"
  by (simp_all add: parsed_record_def)

lemma QualifierCode_parsed [simp]:
  "GetQualifierCode (parsed_record gvId (range_code one) i) = range_code one"
  "GetQualifierCode (parsed_record gvId (prefix_code one) i) = prefix_code one"
  by (simp_all add: parsed_record_def GetQualifierCode_def range_code_def prefix_code_def)

lemma ParseHeader_cons:
  assumes "enumeration (GetRecord (id_group gvId) (id_variation gvId)) \<noteq> UNKNOWN_GroupVariation"
  shows "APDUParser_ParseHeader C ([id_group gvId, id_variation gvId, QualifierCode_to_type qc] @ body) i ex h None
    = ParseQualifier C body (parsed_record gvId qc i) ex h"
  using assms by (simp add: APDUParser_ParseHeader_def ParseObjectHeader_def parsed_record_def Let_def)

lemma ParseQualifier_range:
  "ParseQualifier C body (parsed_record gvId (range_code one) i) ex h
     = RangeParser_ParseHeader body (number_of C one) ex (parsed_record gvId (range_code one) i) h"
  by (simp add: ParseQualifier_def) (simp add: range_code_def number_of_def)

lemma ParseQualifier_prefix:
  "ParseQualifier C body (parsed_record gvId (prefix_code one) i) ex h
     = CountIndexParser_ParseHeader body (number_of C one) ex (parsed_record gvId (prefix_code one) i) h"
  by (simp add: ParseQualifier_def) (simp add: prefix_code_def number_of_def)

lemma it_max_le: "it_max (index_of C one) \<le> 65535"
  by simp

definition written_range :: "nat \<Rightarrow> nat \<Rightarrow> Range" where
  "written_range first count = \<lparr>start = of_nat first, stop = of_nat (first + count - 1)\<rparr>"

lemma written_range_simps:
  assumes "0 < count" "first + count - 1 \<le> 65535"
  shows "Range_IsValid (written_range first count)" "Range_Count (written_range first count) = count"
proof -
  have u: "unat (of_nat n :: u16) = n" if "n \<le> 65535" for n using that by (simp add: unat_of_nat)
  have "unat (start (written_range first count)) = first" "unat (stop (written_range first count)) = first + count - 1"
    using u [of first] u [OF assms(2)] assms by (simp_all only: written_range_def Range.select_convs)
  then show "Range_IsValid (written_range first count)" "Range_Count (written_range first count) = count"
    using assms(1) by (simp_all add: Range_Count_def Range_IsValid_def word_le_nat_alt)
qed

lemma ParseRange_put:
  assumes "codec16 C" "0 < count" "first + count - 1 \<le> it_max (index_of C one)"
  shows "ParseRange (number_of C one) (it_put (index_of C one) first @ it_put (index_of C one) (first + count - 1) @ r)
    = Inr (written_range first count, r)"
proof -
  have "first \<le> it_max (index_of C one)" "first + count - 1 \<le> 65535" using assms(2,3) it_max_le [of C one] by linarith+
  with written_range_simps(1) [OF assms(2) this(2)] show ?thesis
    using ReadNum_put [OF assms(1)] assms(3) by (simp add: ParseRange_def assms(1) written_range_def del: index_of_simps(2))
qed

lemma Foreach_ranged:
  assumes "\<forall>v \<in> set vs. length v = sz"
  shows "Foreach (read_ranged rng sz) (concat vs @ r) p (length vs) = zip (map (\<lambda>k. start rng + of_nat k) [p ..< p + length vs]) vs"
  using assms
proof (induction vs arbitrary: p)
  case (Cons v vs)
  have "[p ..< p + length (v # vs)] = p # [Suc p ..< Suc p + length vs]" by (simp add: upt_conv_Cons del: upt_Suc)
  with Cons show ?case by (simp add: read_ranged_def del: upt_Suc)
qed simp

lemma range_indices_map: "map (\<lambda>k. (of_nat first :: u16) + of_nat k) [0 ..< n] = map of_nat [first ..< first + n]"
proof -
  have "map (\<lambda>k. (of_nat first :: u16) + of_nat k) [0 ..< n] = map of_nat (map (\<lambda>k. k + first) [0 ..< n])" by (simp add: add.commute)
  then show ?thesis by (simp only: map_add_upt) (simp add: add.commute)
qed

text \<open>The indices of a range that starts at \<open>first\<close>.\<close>

definition indices_from :: "nat \<Rightarrow> nat \<Rightarrow> u16 list" where
  "indices_from first n = map of_nat [first ..< first + n]"

lemma parse_range_header:
  assumes "codec16 C" "well_sized S" "vs \<noteq> []" "first + length vs - 1 \<le> it_max (index_of C one)"
    and "map_of range_descriptors (enumeration (GetRecord (id_group (ser_id S)) (id_variation (ser_id S)))) = Some (ser_size S)"
  shows "APDUParser_ParseHeader C (range_header C one (ser_id S) first (length vs) (concat (map (ser_write S) vs)) @ rest) i True True None
    = Inr ([OnRangeOf (parsed_record (ser_id S) (range_code one) i) (written_range first (length vs))
             (zip (indices_from first (length vs)) (map (ser_write S) vs))], rest)"
proof -
  let ?e = "enumeration (GetRecord (id_group (ser_id S)) (id_variation (ser_id S)))"
  have e: "?e \<noteq> UNKNOWN_GroupVariation" "?e \<notin> {Group1Var1, Group10Var1, Group80Var1}" "?e \<noteq> Group3Var1" "?e \<noteq> Group110Var0"
    using map_of_SomeD [OF assms(5)] by (auto simp: range_descriptors_def)
  have l: "0 < length vs" "first + length vs - 1 \<le> 65535" using assms(3,4) it_max_le [of C one] by (simp, linarith)
  have S: "exact_serializer S" using assms(2) by (rule exact_serializer.intro)
  have sz: "\<forall>v \<in> set (map (ser_write S) vs). length v = ser_size S" by (simp add: exact_serializer.length_write [OF S])
  note len = exact_serializer.length_writes [OF S]
  have F: "Foreach (read_ranged (written_range first (length vs)) (ser_size S)) (concat (map (ser_write S) vs) @ rest) 0 (length vs)
      = zip (indices_from first (length vs)) (map (ser_write S) vs)"
    using Foreach_ranged [OF sz, of "written_range first (length vs)" rest 0] range_indices_map [of first "length vs"]
    by (simp add: written_range_def indices_from_def)
  have "APDUParser_ParseHeader C (range_header C one (ser_id S) first (length vs) (concat (map (ser_write S) vs)) @ rest) i True True None
      = RangeParser_ParseHeader (it_put (index_of C one) first @ it_put (index_of C one) (first + length vs - 1) @ concat (map (ser_write S) vs) @ rest)
          (number_of C one) True (parsed_record (ser_id S) (range_code one) i) True"
    unfolding range_header_def by (simp only: append_assoc ParseHeader_cons [OF e(1)] ParseQualifier_range)
  also have "\<dots> = FromFixedSize (ser_size S) (written_range first (length vs)) (parsed_record (ser_id S) (range_code one) i)
        (concat (map (ser_write S) vs) @ rest) True"
    using e assms(5) by (simp add: RangeParser_ParseHeader_def ParseRange_put [OF assms(1) l(1) assms(4)] ParseRangeOfObjects_def del: index_of_simps One_nat_def)
  finally show ?thesis
    using len by (simp add: FromFixedSize_def Process_def written_range_simps [OF l] F)
qed

lemma Foreach_prefixed:
  assumes "codec16 C" "well_sized S" "\<forall>(v, k) \<in> set vs. k \<le> it_max (index_of C one)"
  shows "Foreach (read_prefixed (number_of C one) (ser_size S)) (concat (map (\<lambda>(v, k). it_put (index_of C one) k @ ser_write S v) vs) @ r) p (length vs)
    = map (\<lambda>(v, k). (of_nat k, ser_write S v)) vs"
  using assms(3)
proof (induction vs arbitrary: p)
  case (Cons x vs)
  obtain v k where x: "x = (v, k)" by (cases x)
  have "k \<le> it_max (index_of C one)" using Cons.prems by (simp add: x)
  note R = ReadNum_put [OF assms(1) this]
  have l: "length (ser_write S v) = ser_size S" using assms(2) by (simp add: well_sized_def)
  have IH: "Foreach (read_prefixed (number_of C one) (ser_size S)) (concat (map (\<lambda>(v, k). it_put (index_of C one) k @ ser_write S v) vs) @ r) (Suc p) (length vs)
    = map (\<lambda>(v, k). (of_nat k, ser_write S v)) vs" using Cons.IH [of "Suc p"] Cons.prems by simp
  have "read_prefixed (number_of C one) (ser_size S) (it_put (index_of C one) k @ ser_write S v @ z) p = ((of_nat k, ser_write S v), z)" for z
    using l by (simp add: read_prefixed_def R)
  with IH show ?case by (simp add: x)
qed simp

lemma ParseCount_put:
  assumes "codec16 C" "0 < n" "n \<le> it_max (index_of C one)"
  shows "ParseCount (number_of C one) (it_put (index_of C one) n @ r) = Inr (of_nat n, r) \<and> unat (of_nat n :: u16) = n"
proof -
  have "n \<le> 65535" using assms(3) it_max_le [of C one] by linarith
  then have u: "unat (of_nat n :: u16) = n" by (simp add: unat_of_nat)
  then have "(of_nat n :: u16) \<noteq> 0" using assms(2) by (metis less_numeral_extra(3) unat_0)
  with u show ?thesis using ReadNum_put [OF assms(1,3)] assms(1) by (simp add: ParseCount_def del: index_of_simps(1,2))
qed

lemma parse_prefix_header:
  assumes "codec16 C" "well_sized S" "vs \<noteq> []" "length vs \<le> it_max (index_of C one)" "\<forall>(v, k) \<in> set vs. k \<le> it_max (index_of C one)"
    and "map_of count_index_descriptors (enumeration (GetRecord (id_group (ser_id S)) (id_variation (ser_id S)))) = Some (ser_size S)"
  shows "APDUParser_ParseHeader C (prefix_header C one (ser_id S) (length vs) (concat (map (\<lambda>(v, k). it_put (index_of C one) k @ ser_write S v) vs)) @ rest)
      i True True None
    = Inr ([OnPrefixOf (parsed_record (ser_id S) (prefix_code one) i) (of_nat (length vs)) (map (\<lambda>(v, k). (of_nat k, ser_write S v)) vs)], rest)"
proof -
  let ?e = "enumeration (GetRecord (id_group (ser_id S)) (id_variation (ser_id S)))"
    and ?b = "concat (map (\<lambda>(v, k). it_put (index_of C one) k @ ser_write S v) vs)"
  have e: "?e \<noteq> UNKNOWN_GroupVariation" using map_of_SomeD [OF assms(6)] by (auto simp: count_index_descriptors_def)
  have n: "0 < length vs" using assms(3) by simp
  note P = ParseCount_put [OF assms(1) n assms(4)]
  have "length (ser_write S v) = ser_size S" for v using assms(2) by (simp add: well_sized_def)
  then have len: "length ?b = length vs * (ser_size S + it_size (index_of C one))"
    using assms(1) by (induction vs) (simp_all del: index_of_simps add: split_beta)
  have "APDUParser_ParseHeader C (prefix_header C one (ser_id S) (length vs) ?b @ rest) i True True None
      = CountIndexParser_ParseHeader (it_put (index_of C one) (length vs) @ ?b @ rest) (number_of C one) True (parsed_record (ser_id S) (prefix_code one) i) True"
    unfolding prefix_header_def by (simp only: append_assoc ParseHeader_cons [OF e] ParseQualifier_prefix)
  also have "\<dots> = Process (length vs * (ser_size S + it_size (index_of C one)))
     (OnPrefixOf (parsed_record (ser_id S) (prefix_code one) i) (of_nat (length vs)) (map (\<lambda>(v, k). (of_nat k, ser_write S v)) vs)) True (?b @ rest)"
    using assms(6) P Foreach_prefixed [OF assms(1,2,5), of rest 0]
    by (simp add: CountIndexParser_ParseHeader_def CountIndexParser_ParseCountOfObjects_def del: index_of_simps(1,2))
  finally show ?thesis using len by (simp add: Process_def)
qed

lemma Foreach_bits:
  assumes "\<And>k. k < length bs \<Longrightarrow> GetBit body k = bs ! k"
  shows "p + n = length bs \<Longrightarrow> Foreach (\<lambda>buffer pos. ((start rng + of_nat pos, GetBit buffer pos), buffer)) body p n
    = map (\<lambda>k. (start rng + of_nat k, bs ! k)) [p ..< length bs]"
proof (induction n arbitrary: p)
  case (Suc n)
  then have "p < length bs" by simp
  with Suc assms show ?case by (simp add: upt_conv_Cons)
qed simp

lemma parse_bits_header:
  assumes "codec16 C" "bs \<noteq> []" "first + length bs - 1 \<le> it_max (index_of C one)" "length body = NumBytesInBits (length bs)"
    and "\<And>k r. k < length bs \<Longrightarrow> GetBit (body @ r) k = bs ! k"
    and "enumeration (GetRecord (id_group gvId) (id_variation gvId)) \<in> {Group1Var1, Group10Var1, Group80Var1}"
  shows "APDUParser_ParseHeader C (range_header C one gvId first (length bs) body @ rest) i True True None
    = Inr ([OnRangeBits (parsed_record gvId (range_code one) i) (written_range first (length bs)) (zip (indices_from first (length bs)) bs)], rest)"
proof -
  let ?r = "written_range first (length bs)"
  have e: "enumeration (GetRecord (id_group gvId) (id_variation gvId)) \<noteq> UNKNOWN_GroupVariation" using assms(6) by auto
  have l: "0 < length bs" "first + length bs - 1 \<le> 65535" using assms(2,3) it_max_le [of C one] by (simp, linarith)
  have "map (\<lambda>k. (start ?r + of_nat k, bs ! k)) [0 ..< length bs] = zip (map (\<lambda>k. start ?r + of_nat k) [0 ..< length bs]) (map ((!) bs) [0 ..< length bs])"
    by (simp add: zip_map_map zip_same_conv_map)
  then have z: "map (\<lambda>k. (start ?r + of_nat k, bs ! k)) [0 ..< length bs] = zip (indices_from first (length bs)) bs"
    using range_indices_map [of first "length bs"] by (simp add: map_nth written_range_def indices_from_def)
  have F: "Foreach (\<lambda>buffer pos. ((start ?r + of_nat pos, GetBit buffer pos), buffer)) (body @ rest) 0 (length bs) = zip (indices_from first (length bs)) bs"
    using Foreach_bits [of bs "body @ rest" 0 "length bs" ?r] assms(5) z by simp
  have "APDUParser_ParseHeader C (range_header C one gvId first (length bs) body @ rest) i True True None
      = RangeParser_ParseHeader (it_put (index_of C one) first @ it_put (index_of C one) (first + length bs - 1) @ body @ rest)
          (number_of C one) True (parsed_record gvId (range_code one) i) True"
    unfolding range_header_def by (simp only: append_assoc ParseHeader_cons [OF e] ParseQualifier_range)
  also have "\<dots> = FromBitfieldType ?r (parsed_record gvId (range_code one) i) (body @ rest) True"
    using assms(6) by (simp add: RangeParser_ParseHeader_def ParseRange_put [OF assms(1) l(1) assms(3)] ParseRangeOfObjects_def
        del: index_of_simps One_nat_def)
  finally show ?thesis using assms(4) by (simp add: FromBitfieldType_def Process_def written_range_simps [OF l] F)
qed

section \<open>Values that have room are written\<close>

lemma write_each_fits:
  assumes step: "\<And>v it w. writer_ok w \<Longrightarrow> wi_valid it \<Longrightarrow> k \<le> Remaining w \<Longrightarrow> wi_count it < M
      \<Longrightarrow> \<exists>w'. f v it w = (True, it\<lparr>wi_count := wi_count it + 1\<rparr>, w') \<and> writer_ok w' \<and> Remaining w' = Remaining w - k"
  shows "writer_ok w \<Longrightarrow> wi_valid it \<Longrightarrow> length vs * k \<le> Remaining w \<Longrightarrow> wi_count it + length vs \<le> M
    \<Longrightarrow> fst (write_each f vs it w) = length vs"
proof (induction vs arbitrary: it w)
  case (Cons v vs)
  then obtain w' where s: "f v it w = (True, it\<lparr>wi_count := wi_count it + 1\<rparr>, w')" "writer_ok w'" "Remaining w' = Remaining w - k"
    using step [of w it v] by auto
  have "fst (write_each f vs (it\<lparr>wi_count := wi_count it + 1\<rparr>) w') = length vs"
    using Cons.IH [of w' "it\<lparr>wi_count := wi_count it + 1\<rparr>"] Cons.prems s by simp
  then show ?case by (simp add: s(1) split_beta)
qed simp

lemma header_fits:
  assumes "writer_ok w" "3 + n \<le> Remaining w"
  shows "\<exists>w'. WriteHeaderWithReserve gvId qc n w = (True, w') \<and> writer_ok w' \<and> Remaining w' = Remaining w - 3"
  using assms by (simp add: WriteHeaderWithReserve_def WriteHeader_def put_fits)

lemma write_range_fits:
  assumes "writer_ok w" "well_sized S" "vs \<noteq> []" "3 + 2 * it_size T + length vs * ser_size S \<le> Remaining w" "length vs \<le> it_max T + 1"
  shows "fst (write_range T qc S first vs w) = length vs"
proof -
  have "ser_size S \<le> length vs * ser_size S" using assms(3) by (cases vs) simp_all
  then have "3 + (2 * it_size T + ser_size S) \<le> Remaining w" using assms(4) by linarith
  from header_fits [OF assms(1) this] obtain w1 where h: "WriteHeaderWithReserve (ser_id S) qc (2 * it_size T + ser_size S) w = (True, w1)"
    "writer_ok w1" "Remaining w1 = Remaining w - 3" by blast
  obtain it w2 where m: "RangeWriteIterator_make T first w1 = (it, w2)" by fastforce
  have M: "wi_valid it" "wi_count it = 0" "writer_ok w2" "Remaining w2 = Remaining w1 - 2 * it_size T"
    using m h(2,3) assms(4) by (auto simp: RangeWriteIterator_make_def Let_def)
  have "fst (write_each (RangeWriteIterator_Write T S) vs it w2) = length vs"
    by (rule write_each_fits [where k = "ser_size S" and M = "it_max T + 1"])
      (use assms(2,4,5) M h in \<open>auto simp: RangeWriteIterator_Write_def well_sized_def put_fits\<close>)
  then show ?thesis using h m by (simp add: write_range_def IterateOverRange_def split_beta)
qed

lemma write_prefixed_fits:
  assumes "writer_ok w" "well_sized S" "codec16 C" "vs \<noteq> []" "length vs \<le> it_max (index_of C one)"
    "3 + it_size (index_of C one) + length vs * (ser_size S + it_size (index_of C one)) \<le> Remaining w"
  shows "fst (write_prefixed (index_of C one) qc S vs w) = length vs"
proof -
  let ?T = "index_of C one" and ?f = "\<lambda>(v, i). PrefixedWriteIterator_Write (index_of C one) S v i"
  have "ser_size S + it_size ?T \<le> length vs * (ser_size S + it_size ?T)" using assms(4) by (cases vs) simp_all
  then have "3 + (2 * it_size ?T + ser_size S) \<le> Remaining w" using assms(6) by linarith
  from header_fits [OF assms(1) this] obtain w1 where h: "WriteHeaderWithReserve (ser_id S) qc (2 * it_size ?T + ser_size S) w = (True, w1)"
    "writer_ok w1" "Remaining w1 = Remaining w - 3" by blast
  obtain it w2 where m: "PrefixedWriteIterator_make ?T w1 = (it, w2)" by fastforce
  have M: "wi_valid it" "wi_count it = 0" "writer_ok w2" "Remaining w2 = Remaining w1 - it_size ?T"
    using m h(2,3) assms(6) by (auto simp: PrefixedWriteIterator_make_def Let_def simp del: index_of_simps)
  have step: "\<exists>w'. ?f x it w = (True, it\<lparr>wi_count := wi_count it + 1\<rparr>, w') \<and> writer_ok w' \<and> Remaining w' = Remaining w - (ser_size S + it_size ?T)"
    if "writer_ok w" "wi_valid it" "ser_size S + it_size ?T \<le> Remaining w" "wi_count it < it_max ?T" for x it w
    using that assms(2,3) by (cases x) (simp add: PrefixedWriteIterator_Write_def well_sized_def put_fits Suc_leI add.commute del: index_of_simps)
  have "fst (write_each ?f vs it w2) = length vs"
    by (rule write_each_fits [OF step]) (use assms(5,6) M h in \<open>simp_all del: index_of_simps\<close>)
  then show ?thesis using h m by (simp add: write_prefixed_def IterateOverCountWithPrefix_def split_beta)
qed

lemma write_each_bits_fits:
  "wi_valid it \<Longrightarrow> wi_count it + length vs \<le> wi_max it \<Longrightarrow> wi_count it + length vs \<le> it_max T
    \<Longrightarrow> fst (write_each (BitfieldRangeWriteIterator_Write T) vs it w) = length vs"
  by (induction vs arbitrary: it w) (simp_all add: BitfieldRangeWriteIterator_Write_def Let_def split_beta)

lemma write_bits_fits:
  assumes "writer_ok w" "bs \<noteq> []" "length bs \<le> it_max T" "3 + 2 * it_size T + NumBytesInBits (length bs) \<le> Remaining w"
  shows "fst (write_bits T qc gvId first bs w) = length bs"
proof -
  have "0 < NumBytesInBits (length bs)" using assms(2) by (cases bs) (simp_all add: NumBytesInBits_Suc)
  then have "3 + (2 * it_size T + 1) \<le> Remaining w" using assms(4) by linarith
  from header_fits [OF assms(1) this] obtain w1 where h: "WriteHeaderWithReserve gvId qc (2 * it_size T + 1) w = (True, w1)"
    "writer_ok w1" "Remaining w1 = Remaining w - 3" by blast
  obtain it w2 where m: "BitfieldRangeWriteIterator_make T first w1 = (it, w2)" by fastforce
  have M: "wi_valid it" "wi_count it = 0" "wi_max it = (Remaining w1 - 2 * it_size T) * 8"
    using m h(2,3) assms(4) by (auto simp: BitfieldRangeWriteIterator_make_def Let_def)
  have "length bs \<le> (Remaining w1 - 2 * it_size T) * 8" using assms(4) h(3) bits_bound(1) [of "length bs"] by linarith
  then have "fst (write_each (BitfieldRangeWriteIterator_Write T) bs it w2) = length bs" using M assms(3) by (intro write_each_bits_fits) simp_all
  then show ?thesis using h m by (simp add: write_bits_def IterateOverSingleBitfield_def split_beta)
qed

section \<open>The properties\<close>

text \<open>
  C32. What the header writer and its iterators write, the parser gives back: a range of values, values
  with their indices, and a range of bits, with one-byte and with two-byte numbers. When there is room,
  all values are written, and the bytes that were added are parsed, whatever follows them, as one header
  with the right range or count and with each value in the bytes that the serializer gave it; what
  follows is left to the next header. The other hypotheses are the limits of the formats: the indices and
  the count fit the size of the numbers.
\<close>

theorem written_headers_are_parsed:
  assumes "codec16 C" "writer_ok w" "well_sized S" "vs \<noteq> []" "ws \<noteq> []" "bs \<noteq> []"
    and "first + length vs - 1 \<le> it_max (index_of C one)" "first + length bs - 1 \<le> it_max (index_of C one)"
    and "length ws \<le> it_max (index_of C one)" "length bs \<le> it_max (index_of C one)" "\<forall>(v, k) \<in> set ws. k \<le> it_max (index_of C one)"
    and "map_of range_descriptors (enumeration (GetRecord (id_group (ser_id S)) (id_variation (ser_id S)))) = Some (ser_size S)"
    and "well_sized S'" "map_of count_index_descriptors (enumeration (GetRecord (id_group (ser_id S')) (id_variation (ser_id S')))) = Some (ser_size S')"
    and "enumeration (GetRecord (id_group gvId) (id_variation gvId)) \<in> {Group1Var1, Group10Var1, Group80Var1}"
    and "3 + 2 * it_size (index_of C one) + length vs * ser_size S \<le> Remaining w"
    and "3 + it_size (index_of C one) + length ws * (ser_size S' + it_size (index_of C one)) \<le> Remaining w"
    and "3 + 2 * it_size (index_of C one) + NumBytesInBits (length bs) \<le> Remaining w"
  shows "(case write_range (index_of C one) (range_code one) S first vs w of (n, w') \<Rightarrow> n = length vs \<and>
      (\<exists>h. written w' = written w @ h \<and> (\<forall>rest i. APDUParser_ParseHeader C (h @ rest) i True True None =
         Inr ([OnRangeOf (parsed_record (ser_id S) (range_code one) i) (written_range first (length vs))
                (zip (indices_from first (length vs)) (map (ser_write S) vs))], rest))))
    \<and> (case write_prefixed (index_of C one) (prefix_code one) S' ws w of (n, w') \<Rightarrow> n = length ws \<and>
      (\<exists>h. written w' = written w @ h \<and> (\<forall>rest i. APDUParser_ParseHeader C (h @ rest) i True True None =
         Inr ([OnPrefixOf (parsed_record (ser_id S') (prefix_code one) i) (of_nat (length ws)) (map (\<lambda>(v, k). (of_nat k, ser_write S' v)) ws)], rest))))
    \<and> (case write_bits (index_of C one) (range_code one) gvId first bs w of (n, w') \<Rightarrow> n = length bs \<and>
      (\<exists>h. written w' = written w @ h \<and> (\<forall>rest i. APDUParser_ParseHeader C (h @ rest) i True True None =
         Inr ([OnRangeBits (parsed_record gvId (range_code one) i) (written_range first (length bs)) (zip (indices_from first (length bs)) bs)], rest))))"
proof (intro conjI)
  have "length vs \<le> it_max (index_of C one) + 1" using assms(7) by linarith
  from write_range_fits [OF assms(2-4,16) this] obtain w' where r: "write_range (index_of C one) (range_code one) S first vs w = (length vs, w')"
    by (metis prod.collapse)
  show "case write_range (index_of C one) (range_code one) S first vs w of (n, w') \<Rightarrow> n = length vs \<and>
      (\<exists>h. written w' = written w @ h \<and> (\<forall>rest i. APDUParser_ParseHeader C (h @ rest) i True True None =
         Inr ([OnRangeOf (parsed_record (ser_id S) (range_code one) i) (written_range first (length vs))
                (zip (indices_from first (length vs)) (map (ser_write S) vs))], rest)))"
    using write_range_written [OF assms(1,3,2,4,7) r] parse_range_header [OF assms(1,3,4,7,12)] by (auto simp: r)
next
  have n: "narrow (index_of C one) (length ws) = length ws" using assms(9) by (rule narrow_id)
  from write_prefixed_fits [OF assms(2,13,1,5,9,17)] obtain w' where r: "write_prefixed (index_of C one) (prefix_code one) S' ws w = (length ws, w')"
    by (metis prod.collapse)
  show "case write_prefixed (index_of C one) (prefix_code one) S' ws w of (n, w') \<Rightarrow> n = length ws \<and>
      (\<exists>h. written w' = written w @ h \<and> (\<forall>rest i. APDUParser_ParseHeader C (h @ rest) i True True None =
         Inr ([OnPrefixOf (parsed_record (ser_id S') (prefix_code one) i) (of_nat (length ws)) (map (\<lambda>(v, k). (of_nat k, ser_write S' v)) ws)], rest)))"
    using write_prefixed_written [OF assms(1,13,2,5) r] parse_prefix_header [OF assms(1,13,5,9,11,14)] n by (auto simp: r)
next
  from write_bits_fits [OF assms(2,6,10,18)] obtain w' where r: "write_bits (index_of C one) (range_code one) gvId first bs w = (length bs, w')"
    by (metis prod.collapse)
  from write_bits_written [OF assms(1,2,6,10,8) r] obtain body
    where b: "written w' = written w @ range_header C one gvId first (length bs) body" "length body = NumBytesInBits (length bs)"
      "\<And>k r. k < length bs \<Longrightarrow> GetBit (body @ r) k = bs ! k" by blast
  show "case write_bits (index_of C one) (range_code one) gvId first bs w of (n, w') \<Rightarrow> n = length bs \<and>
      (\<exists>h. written w' = written w @ h \<and> (\<forall>rest i. APDUParser_ParseHeader C (h @ rest) i True True None =
         Inr ([OnRangeBits (parsed_record gvId (range_code one) i) (written_range first (length bs)) (zip (indices_from first (length bs)) bs)], rest)))"
    using parse_bits_header [OF assms(1,6,8) b(2,3) assms(15)] by (auto simp: r b(1))
qed

lemma written_headers_are_parsed_witness:
  "case write_range index8 UINT8_START_STOP (Group30Var1_Inst little_endian) 5 [TypedMeasurement_make (double_of_int 7) 1]
       (HeaderWriter_make (replicate 64 0) 0) of (n, w') \<Rightarrow> n = 1 \<and>
      (\<forall>rest i. APDUParser_ParseHeader le16 (written w' @ rest) i True True None =
         Inr ([OnRangeOf (parsed_record \<lparr>id_group = 30, id_variation = 1\<rparr> UINT8_START_STOP i) (written_range 5 1)
                (zip (indices_from 5 1) [ser_write (Group30Var1_Inst little_endian) (TypedMeasurement_make (double_of_int 7) 1)])], rest))"
proof -
  have s: "well_sized (Group30Var1_Inst little_endian)" "well_sized (Group32Var1_Inst little_endian)"
    using little_endian.sized_Insts by blast+
  have c: "codec16 le16" by (rule le16.codec16_axioms)
  have w: "writer_ok (HeaderWriter_make (replicate 64 0) 0)" "written (HeaderWriter_make (replicate 64 0) 0) = []"
    "Remaining (HeaderWriter_make (replicate 64 0) 0) = 64"
    by (simp_all add: writer_ok_def HeaderWriter_make_def written_def Remaining_def)
  have d: "map_of range_descriptors (enumeration (GetRecord 30 1)) = Some Group30Var1_Size"
    "map_of count_index_descriptors (enumeration (GetRecord 32 1)) = Some Group32Var1_Size"
    "enumeration (GetRecord 1 1) = Group1Var1"
    by (simp_all add: GetRecord_def GetEnumAndType_def GetGroupVar_def GetType_def GroupVariation_from_type_def GroupVariation_codes_def Let_def
        range_descriptors_def count_index_descriptors_def)
  have "ser_id (Group30Var1_Inst little_endian) = \<lparr>id_group = 30, id_variation = 1\<rparr>" "ser_size (Group30Var1_Inst little_endian) = Group30Var1_Size"
    "ser_id (Group32Var1_Inst little_endian) = \<lparr>id_group = 32, id_variation = 1\<rparr>" "ser_size (Group32Var1_Inst little_endian) = Group32Var1_Size"
    by (simp_all add: Group30Var1_Inst_def Group32Var1_Inst_def)
  with written_headers_are_parsed [OF c w(1) s(1), of "[TypedMeasurement_make (double_of_int 7) 1]" "[(TypedMeasurement_make (double_of_int 7) 1, 3)]"
      "[True]" 5 True "Group32Var1_Inst little_endian" "\<lparr>id_group = 1, id_variation = 1\<rparr>"] s(2) d w(2,3)
  show ?thesis
    by (simp add: index_of_def range_code_def index8_def [THEN arg_cong [where f = it_max]] index8_def [THEN arg_cong [where f = it_size]]
        size_defs NumBytesInBits_def split_beta)
qed

lemma put_beyond: "writer_ok w \<Longrightarrow> hw_pos w + length bs \<le> k \<Longrightarrow> hw_mem (put bs w) ! k = hw_mem w ! k"
  by (auto simp: put_def poke_def nth_append writer_ok_def)

lemma write_each_bits_wrap:
  assumes "wi_valid it" "it_max T < wi_max it" "wi_count it \<le> it_max T"
  shows "\<exists>w'. write_each (BitfieldRangeWriteIterator_Write T) vs it w
     = (length vs, it\<lparr>wi_count := narrow T (wi_count it + length vs)\<rparr>, w')
     \<and> hw_pos w' = hw_pos w \<and> take (hw_pos w) (hw_mem w') = take (hw_pos w) (hw_mem w)"
  using assms
proof (induction vs arbitrary: it w)
  case Nil
  then show ?case by (simp add: narrow_def)
next
  case (Cons v vs)
  obtain mem2 where s: "BitfieldRangeWriteIterator_Write T v it w = (True, it\<lparr>wi_count := narrow T (wi_count it + 1)\<rparr>, w\<lparr>hw_mem := mem2\<rparr>)"
    and m: "take (hw_pos w) mem2 = take (hw_pos w) (hw_mem w)"
    using Cons.prems by (simp add: BitfieldRangeWriteIterator_Write_def Let_def)
  let ?it = "it\<lparr>wi_count := narrow T (wi_count it + 1)\<rparr>"
  have "narrow T (wi_count it + 1) \<le> it_max T" by (simp add: narrow_def mod_Suc_le_divisor)
  with Cons.IH [of ?it "w\<lparr>hw_mem := mem2\<rparr>"] Cons.prems
  obtain w' where "write_each (BitfieldRangeWriteIterator_Write T) vs ?it (w\<lparr>hw_mem := mem2\<rparr>)
     = (length vs, it\<lparr>wi_count := narrow T (narrow T (wi_count it + 1) + length vs)\<rparr>, w')"
     "hw_pos w' = hw_pos w" "take (hw_pos w) (hw_mem w') = take (hw_pos w) mem2"
    by auto
  moreover have "narrow T (narrow T (wi_count it + 1) + length vs) = narrow T (wi_count it + length (v # vs))"
    by (simp add: narrow_def mod_simps)
  ultimately show ?case using s m by (intro exI [of _ w']) simp
qed

text \<open>
  C34. A range of 256 bits with one-byte indices is lost. The iterator counts in the index type, so that its
  count is 0 after 256 bits; its destructor then writes no stop index and does not move over the bits.
  Every write reported success, but the bytes that were added are the header, the start index and one byte
  that was in the buffer before. \<open>StaticWriters\<close> uses one-byte indices for the range 0 to 255.
\<close>

theorem full_bitfield_is_lost:
  assumes "writer_ok w" "length bs = 256" "37 \<le> Remaining w"
  shows "case write_bits index8 UINT8_START_STOP gvId 0 bs w of (n, w') \<Rightarrow>
     n = 256 \<and> written w' = written w @ [id_group gvId, id_variation gvId, 0, 0, hw_mem w ! (hw_pos w + 4)]"
proof -
  obtain w1 where h: "WriteHeaderWithReserve gvId UINT8_START_STOP 3 w = (True, w1)" and w1: "w1 = snd (WriteHeader gvId UINT8_START_STOP w)"
    using assms(3) by (simp add: WriteHeaderWithReserve_def WriteHeader_def)
  have H: "writer_ok w1" "written w1 = written w @ [id_group gvId, id_variation gvId, 0]" "hw_pos w1 = hw_pos w + 3" "3 \<le> Remaining w1"
    using WriteHeaderWithReserve_ok [OF assms(1) h] by simp_all
  have "hw_mem w1 ! (hw_pos w + 4) = hw_mem w ! (hw_pos w + 4)" "length (hw_mem w1) = length (hw_mem w)"
    using assms by (simp_all add: w1 WriteHeader_def put_beyond put_fits)
  then have r: "Remaining w1 = Remaining w - 3" using H(3) by (simp add: Remaining_def)
  define w2 where "w2 = advance 2 (poke (hw_pos w1) [0] w1)"
  define it where "it = \<lparr>wi_start = 0, wi_count = 0, wi_max = Remaining w2 * 8, wi_valid = True, wi_at = hw_pos w1 + 1\<rparr>"
  have m: "BitfieldRangeWriteIterator_make index8 0 w1 = (it, w2)"
    using H(4) by (simp add: BitfieldRangeWriteIterator_make_def Let_def it_def w2_def index8_def)
  have r2: "32 \<le> Remaining w2" using assms(3) H r by (simp add: w2_def)
  then obtain w3 where e: "write_each (BitfieldRangeWriteIterator_Write index8) bs it w2 = (256, it\<lparr>wi_count := 0\<rparr>, w3)"
    and w3: "hw_pos w3 = hw_pos w2" "take (hw_pos w2) (hw_mem w3) = take (hw_pos w2) (hw_mem w2)"
    using write_each_bits_wrap [of it index8 bs w2] assms(2) by (auto simp: it_def index8_def narrow_def)
  have b: "write_bits index8 UINT8_START_STOP gvId 0 bs w = (256, w3)"
    using h m e by (simp add: write_bits_def IterateOverSingleBitfield_def BitfieldRangeWriteIterator_destroy_def index8_def [THEN arg_cong [where f = it_size]])
  have "written w3 = written w2" using w3 by (simp add: written_def)
  also have "\<dots> = written (poke (hw_pos w1) [0] w1) @ take 2 (drop (hw_pos w1) (hw_mem (poke (hw_pos w1) [0] w1)))"
    unfolding w2_def using H by (subst written_advance) simp_all
  also have "\<dots> = written w1 @ [0, hw_mem w ! (hw_pos w + 4)]"
  proof -
    have "take 2 (drop (hw_pos w1) (hw_mem (poke (hw_pos w1) [0] w1))) = [0, hw_mem w1 ! (hw_pos w1 + 1)]"
      using H(1,4) by (simp add: poke_def Remaining_def take_Suc_conv_app_nth numeral_2_eq_2 writer_ok_def)
    moreover have "written (poke (hw_pos w1) [0] w1) = written w1" by (simp add: written_def poke_def)
    ultimately show ?thesis using \<open>hw_mem w1 ! (hw_pos w + 4) = _\<close> H(3) by (simp add: eval_nat_numeral)
  qed
  finally show ?thesis using H(2) by (simp add: b)
qed

lemma full_bitfield_is_lost_witness:
  "case write_bits index8 UINT8_START_STOP \<lparr>id_group = 1, id_variation = 1\<rparr> 0 (replicate 256 True) (HeaderWriter_make (replicate 100 7) 0)
   of (n, w') \<Rightarrow> n = 256 \<and> written w' = [1, 1, 0, 0, 7]"
  using full_bitfield_is_lost [of "HeaderWriter_make (replicate 100 7) 0" "replicate 256 True" "\<lparr>id_group = 1, id_variation = 1\<rparr>"]
  by (simp add: HeaderWriter_make_def writer_ok_def Remaining_def written_def)

end
