(* ===== verification/App_Header.thy ===== *)
theory App_Header
  imports App_Writer Transport
begin

text \<open>
  The header of a fragment: the control byte (\<open>app/AppControlField.cpp\<close>), the internal indications
  (\<open>app/IINField.cpp\<close>), the header itself (\<open>app/APDUHeader.cpp\<close>, \<open>app/parsing/APDUHeaderParser.cpp\<close>), the wrappers that
  build a fragment in a buffer (\<open>app/APDUWrapper.cpp\<close>, \<open>APDURequest.cpp\<close>, \<open>APDUResponse.cpp\<close>, \<open>TxBuffer.h\<close>), the sets of
  event classes (\<open>app/ClassField.cpp\<close>) and the standard requests (\<open>app/APDUBuilders.cpp\<close>).
\<close>

abbreviation AppSeq_Next :: "byte \<Rightarrow> byte" where
  "AppSeq_Next \<equiv> SequenceNum_Next 16"

section \<open>The control byte\<close>

record AppControlField =
  FIR :: bool
  FIN :: bool
  CON :: bool
  UNS :: bool
  SEQ :: byte

definition AppControlField_make :: "bool \<Rightarrow> bool \<Rightarrow> bool \<Rightarrow> bool \<Rightarrow> byte \<Rightarrow> AppControlField" where
  "AppControlField_make fir fin con uns seq = \<lparr>FIR = fir, FIN = fin, CON = con, UNS = uns, SEQ = seq\<rparr>"

definition AppControlField_of_byte :: "byte \<Rightarrow> AppControlField" where
  "AppControlField_of_byte b =
     \<lparr>FIR = (b AND 0x80 \<noteq> 0), FIN = (b AND 0x40 \<noteq> 0), CON = (b AND 0x20 \<noteq> 0), UNS = (b AND 0x10 \<noteq> 0), SEQ = b AND 0x0F\<rparr>"

definition AppControlField_Request :: "byte \<Rightarrow> AppControlField" where
  "AppControlField_Request seq = AppControlField_make True True False False seq"

definition AppControlField_ToByte :: "AppControlField \<Rightarrow> byte" where
  "AppControlField_ToByte c =
     (let ret = (if FIR c then 0x80 else 0);
          ret = (if FIN c then ret OR 0x40 else ret);
          ret = (if CON c then ret OR 0x20 else ret);
          ret = (if UNS c then ret OR 0x10 else ret)
      in ret OR (SEQ c mod 16))"

definition IsFirAndFin :: "AppControlField \<Rightarrow> bool" where
  "IsFirAndFin c = (FIR c \<and> FIN c)"

section \<open>Internal indications\<close>

datatype IINBit =
    BROADCAST | CLASS1_EVENTS | CLASS2_EVENTS | CLASS3_EVENTS | NEED_TIME | LOCAL_CONTROL | DEVICE_TROUBLE | DEVICE_RESTART
  | FUNC_NOT_SUPPORTED | OBJECT_UNKNOWN | PARAM_ERROR | EVENT_BUFFER_OVERFLOW | ALREADY_EXECUTING | CONFIG_CORRUPT
  | RESERVED1 | RESERVED2

record IINField =
  LSB :: byte
  MSB :: byte

definition IIN_Empty :: IINField where "IIN_Empty = \<lparr>LSB = 0, MSB = 0\<rparr>"

text \<open>The masks of the two bytes: the first component says whether the bit is in the first byte.\<close>

fun IIN_mask :: "IINBit \<Rightarrow> bool \<times> byte" where
  "IIN_mask BROADCAST = (True, 0x01)"
| "IIN_mask CLASS1_EVENTS = (True, 0x02)"
| "IIN_mask CLASS2_EVENTS = (True, 0x04)"
| "IIN_mask CLASS3_EVENTS = (True, 0x08)"
| "IIN_mask NEED_TIME = (True, 0x10)"
| "IIN_mask LOCAL_CONTROL = (True, 0x20)"
| "IIN_mask DEVICE_TROUBLE = (True, 0x40)"
| "IIN_mask DEVICE_RESTART = (True, 0x80)"
| "IIN_mask FUNC_NOT_SUPPORTED = (False, 0x01)"
| "IIN_mask OBJECT_UNKNOWN = (False, 0x02)"
| "IIN_mask PARAM_ERROR = (False, 0x04)"
| "IIN_mask EVENT_BUFFER_OVERFLOW = (False, 0x08)"
| "IIN_mask ALREADY_EXECUTING = (False, 0x10)"
| "IIN_mask CONFIG_CORRUPT = (False, 0x20)"
| "IIN_mask RESERVED1 = (False, 0x40)"
| "IIN_mask RESERVED2 = (False, 0x80)"

definition IsSet :: "IINField \<Rightarrow> IINBit \<Rightarrow> bool" where
  "IsSet f b = (case IIN_mask b of (True, m) \<Rightarrow> LSB f AND m \<noteq> 0 | (False, m) \<Rightarrow> MSB f AND m \<noteq> 0)"

definition SetBit :: "IINBit \<Rightarrow> IINField \<Rightarrow> IINField" where
  "SetBit b f = (case IIN_mask b of (True, m) \<Rightarrow> f\<lparr>LSB := LSB f OR m\<rparr> | (False, m) \<Rightarrow> f\<lparr>MSB := MSB f OR m\<rparr>)"

definition ClearBit :: "IINBit \<Rightarrow> IINField \<Rightarrow> IINField" where
  "ClearBit b f = (case IIN_mask b of (True, m) \<Rightarrow> f\<lparr>LSB := LSB f AND NOT m\<rparr> | (False, m) \<Rightarrow> f\<lparr>MSB := MSB f AND NOT m\<rparr>)"

definition SetBitToValue :: "IINBit \<Rightarrow> bool \<Rightarrow> IINField \<Rightarrow> IINField" where
  "SetBitToValue b v f = (if v then SetBit b f else ClearBit b f)"

definition IIN_of :: "IINBit \<Rightarrow> IINField" where "IIN_of b = SetBit b \<lparr>LSB = 0, MSB = 0\<rparr>"

definition IIN_or :: "IINField \<Rightarrow> IINField \<Rightarrow> IINField" where
  "IIN_or a b = \<lparr>LSB = LSB a OR LSB b, MSB = MSB a OR MSB b\<rparr>"

definition HasRequestError :: "IINField \<Rightarrow> bool" where
  "HasRequestError f = (MSB f AND (0x01 OR 0x02 OR 0x04) \<noteq> 0)"

lemma IIN_set: "IsSet (SetBit b f) c = (c = b \<or> IsSet f c)"
  by (cases b; cases c; simp add: IsSet_def SetBit_def bit.conj_disj_distrib2)

lemma IIN_clear: "IsSet (ClearBit b f) c = (c \<noteq> b \<and> IsSet f c)"
  by (cases b; cases c; simp add: IsSet_def ClearBit_def and.assoc)

lemma IIN_or_bits: "IsSet (IIN_or f g) c = (IsSet f c \<or> IsSet g c)"
  by (cases c; simp add: IsSet_def IIN_or_def bit.conj_disj_distrib2 or_eq_0_iff)

lemma IIN_single: "\<not> IsSet IIN_Empty c" "IsSet (IIN_of b) c = (c = b)"
  by (cases c; simp add: IsSet_def IIN_Empty_def) (cases b; cases c; simp add: IsSet_def SetBit_def IIN_of_def)

lemma IIN_value: "IsSet (SetBitToValue b v f) c = (if c = b then v else IsSet f c)"
  by (simp add: SetBitToValue_def IIN_set IIN_clear)

lemmas IIN_bits [simp] = IIN_set IIN_clear IIN_value IIN_single IIN_or_bits

section \<open>Headers\<close>

record APDUHeader =
  control :: AppControlField
  func :: FunctionCode

definition APDUHeader_default :: APDUHeader where
  "APDUHeader_default = \<lparr>control = AppControlField_make True True False False 0, func = UNKNOWN\<rparr>"

record APDUResponseHeader = APDUHeader +
  IIN :: IINField

definition APDUHeader_Confirm :: "byte \<Rightarrow> bool \<Rightarrow> APDUHeader" where
  "APDUHeader_Confirm seq unsolicited = \<lparr>control = AppControlField_make True True False unsolicited seq, func = CONFIRM\<rparr>"

definition SolicitedConfirm :: "byte \<Rightarrow> APDUHeader" where "SolicitedConfirm seq = APDUHeader_Confirm seq False"
definition UnsolicitedConfirm :: "byte \<Rightarrow> APDUHeader" where "UnsolicitedConfirm seq = APDUHeader_Confirm seq True"

definition APDUHeader_Equals :: "APDUHeader \<Rightarrow> APDUHeader \<Rightarrow> bool" where
  "APDUHeader_Equals a b = (func b = func a \<and> AppControlField_ToByte (control b) = AppControlField_ToByte (control a))"

definition ParseRequest :: "byte list \<Rightarrow> (APDUHeader \<times> byte list) option" where
  "ParseRequest apdu =
     (if length apdu < 2 then None
      else Some (\<lparr>control = AppControlField_of_byte (apdu ! 0), func = FunctionCode_from_type (apdu ! 1)\<rparr>, drop 2 apdu))"

definition ParseResponse :: "byte list \<Rightarrow> (APDUResponseHeader \<times> byte list) option" where
  "ParseResponse apdu =
     (if length apdu < 4 then None
      else Some (\<lparr>control = AppControlField_of_byte (apdu ! 0), func = FunctionCode_from_type (apdu ! 1),
                  IIN = \<lparr>LSB = apdu ! 2, MSB = apdu ! 3\<rparr>\<rparr>, drop 4 apdu))"

definition IsNoAckFuncCode :: "FunctionCode \<Rightarrow> bool" where
  "IsNoAckFuncCode code = (code \<in> {DIRECT_OPERATE_NR, IMMED_FREEZE_NR, FREEZE_AT_TIME_NR, FREEZE_CLEAR_NR})"

section \<open>Fragments under construction\<close>

text \<open>
  A wrapper is the writer of its objects: the whole buffer, and the position up to which it is used. The function
  \<open>GetWriter\<close> of the code hands out this writer.
\<close>

type_synonym APDUWrapper = HeaderWriter

definition APDUWrapper_make :: "byte list \<Rightarrow> APDUWrapper" where
  "APDUWrapper_make buffer = advance 2 (HeaderWriter_make buffer 0)"

definition APDUResponse_make :: "byte list \<Rightarrow> APDUWrapper" where
  "APDUResponse_make buffer = advance 2 (APDUWrapper_make buffer)"

definition SetFunction :: "FunctionCode \<Rightarrow> APDUWrapper \<Rightarrow> APDUWrapper" where
  "SetFunction code w = w\<lparr>hw_mem := (hw_mem w)[1 := FunctionCode_to_type code]\<rparr>"

definition GetFunction :: "APDUWrapper \<Rightarrow> FunctionCode" where
  "GetFunction w = FunctionCode_from_type (hw_mem w ! 1)"

definition SetControl :: "AppControlField \<Rightarrow> APDUWrapper \<Rightarrow> APDUWrapper" where
  "SetControl c w = w\<lparr>hw_mem := (hw_mem w)[0 := AppControlField_ToByte c]\<rparr>"

definition GetControl :: "APDUWrapper \<Rightarrow> AppControlField" where
  "GetControl w = AppControlField_of_byte (hw_mem w ! 0)"

definition SetIIN :: "IINField \<Rightarrow> APDUWrapper \<Rightarrow> APDUWrapper" where
  "SetIIN f w = w\<lparr>hw_mem := (hw_mem w)[2 := LSB f, 3 := MSB f]\<rparr>"

definition GetIIN :: "APDUWrapper \<Rightarrow> IINField" where
  "GetIIN w = \<lparr>LSB = hw_mem w ! 2, MSB = hw_mem w ! 3\<rparr>"

definition ToRSeq :: "APDUWrapper \<Rightarrow> byte list" where
  "ToRSeq w = take (hw_pos w) (hw_mem w)"

definition ConfigureHeader :: "FunctionCode \<Rightarrow> byte \<Rightarrow> APDUWrapper \<Rightarrow> APDUWrapper" where
  "ConfigureHeader code seq w = SetControl (AppControlField_Request seq) (SetFunction AUTH_REQUEST w)"

text \<open>
  The transmit buffer of a channel. The last response is a view of the buffer: it is kept as its length, so that
  what is transmitted again is what the buffer holds by then.
\<close>

record TxBuffer =
  tx_buffer :: "byte list"
  lastResponse :: nat
  lastControl :: AppControlField

definition TxBuffer_make :: "nat \<Rightarrow> TxBuffer" where
  "TxBuffer_make maxTxSize = \<lparr>tx_buffer = replicate maxTxSize 0, lastResponse = 0,
     lastControl = AppControlField_make True True False False 0\<rparr>"

definition TxBuffer_Start :: "TxBuffer \<Rightarrow> APDUWrapper" where
  "TxBuffer_Start tx = APDUResponse_make (tx_buffer tx)"

definition TxBuffer_Record :: "AppControlField \<Rightarrow> APDUWrapper \<Rightarrow> TxBuffer \<Rightarrow> TxBuffer" where
  "TxBuffer_Record c w tx = \<lparr>tx_buffer = hw_mem w, lastResponse = hw_pos w, lastControl = c\<rparr>"

definition GetLastResponse :: "TxBuffer \<Rightarrow> byte list" where
  "GetLastResponse tx = take (lastResponse tx) (tx_buffer tx)"

section \<open>Classes\<close>

datatype EventClass = EC1 | EC2 | EC3

fun PointClass_to_type :: "PointClass \<Rightarrow> byte" where
  "PointClass_to_type Class0 = 0x1"
| "PointClass_to_type Class1 = 0x2"
| "PointClass_to_type Class2 = 0x4"
| "PointClass_to_type Class3 = 0x8"

record ClassField =
  bitfield :: byte

definition ClassField_None :: ClassField where "ClassField_None = \<lparr>bitfield = 0\<rparr>"

definition ClassField_of_mask :: "byte \<Rightarrow> ClassField" where
  "ClassField_of_mask m = \<lparr>bitfield = m AND 0x0F\<rparr>"

definition AllClasses :: ClassField where "AllClasses = ClassField_of_mask 0x0F"
definition AllEventClasses :: ClassField where "AllEventClasses = ClassField_of_mask 0x0E"

definition ClassField_make :: "bool \<Rightarrow> bool \<Rightarrow> bool \<Rightarrow> bool \<Rightarrow> ClassField" where
  "ClassField_make class0 class1 class2 class3 =
     \<lparr>bitfield = (if class0 then 0x1 else 0) OR (if class1 then 0x2 else 0) OR (if class2 then 0x4 else 0) OR (if class3 then 0x8 else 0)\<rparr>"

definition ClassField_of_point :: "PointClass \<Rightarrow> ClassField" where
  "ClassField_of_point pc = \<lparr>bitfield = PointClass_to_type pc\<rparr>"

definition ClassField_of_event :: "EventClass \<Rightarrow> ClassField" where
  "ClassField_of_event ec = ClassField_make False (ec = EC1) (ec = EC2) (ec = EC3)"

definition ClassField_IsEmpty :: "ClassField \<Rightarrow> bool" where "ClassField_IsEmpty f = (bitfield f = 0)"

definition Intersects :: "ClassField \<Rightarrow> ClassField \<Rightarrow> bool" where
  "Intersects f g = (bitfield f AND bitfield g \<noteq> 0)"

definition OnlyEventClasses :: "ClassField \<Rightarrow> ClassField" where
  "OnlyEventClasses f = ClassField_of_mask (bitfield f AND 0x0E)"

definition ClassField_Clear :: "ClassField \<Rightarrow> ClassField \<Rightarrow> ClassField" where
  "ClassField_Clear g f = f\<lparr>bitfield := bitfield f AND NOT (bitfield g)\<rparr>"

definition ClassField_Set :: "ClassField \<Rightarrow> ClassField \<Rightarrow> ClassField" where
  "ClassField_Set g f = f\<lparr>bitfield := bitfield f OR bitfield g\<rparr>"

definition ClassField_SetPoint :: "PointClass \<Rightarrow> ClassField \<Rightarrow> ClassField" where
  "ClassField_SetPoint pc f = f\<lparr>bitfield := bitfield f OR PointClass_to_type pc\<rparr>"

definition HasClass :: "PointClass \<Rightarrow> ClassField \<Rightarrow> bool" where
  "HasClass pc f = (bitfield f AND PointClass_to_type pc \<noteq> 0)"

fun HasEventType :: "EventClass \<Rightarrow> ClassField \<Rightarrow> bool" where
  "HasEventType EC1 f = HasClass Class1 f"
| "HasEventType EC2 f = HasClass Class2 f"
| "HasEventType EC3 f = HasClass Class3 f"

definition HasEventClass :: "ClassField \<Rightarrow> bool" where "HasEventClass f = (bitfield f AND 0x0E \<noteq> 0)"
definition HasAnyClass :: "ClassField \<Rightarrow> bool" where "HasAnyClass f = (bitfield f \<noteq> 0)"

lemma class_make_bits: "HasClass Class0 (ClassField_make a b c d) = a" "HasClass Class1 (ClassField_make a b c d) = b"
  "HasClass Class2 (ClassField_make a b c d) = c" "HasClass Class3 (ClassField_make a b c d) = d"
  by (cases a; cases b; cases c; cases d; simp add: HasClass_def ClassField_make_def)+

lemma class_bits [simp]: "HasClass p (ClassField_Set g f) = (HasClass p f \<or> HasClass p g)"
  "HasClass p (ClassField_Clear (ClassField_of_point q) f) = (p \<noteq> q \<and> HasClass p f)" "\<not> HasClass p ClassField_None"
  "HasClass p (ClassField_SetPoint q f) = (p = q \<or> HasClass p f)"
proof -
  show "HasClass p (ClassField_Set g f) = (HasClass p f \<or> HasClass p g)"
    by (cases p; simp add: HasClass_def ClassField_Set_def bit.conj_disj_distrib2 or_eq_0_iff)
  show "HasClass p (ClassField_Clear (ClassField_of_point q) f) = (p \<noteq> q \<and> HasClass p f)"
    by (cases p; cases q; simp add: HasClass_def ClassField_Clear_def ClassField_of_point_def and.assoc)
  show "\<not> HasClass p ClassField_None" by (simp add: HasClass_def ClassField_None_def)
  show "HasClass p (ClassField_SetPoint q f) = (p = q \<or> HasClass p f)"
    by (cases p; cases q; simp add: HasClass_def ClassField_SetPoint_def bit.conj_disj_distrib2)
qed

lemma class_event_bits [simp]: "HasEventType e (ClassField_make a b c d) = (case e of EC1 \<Rightarrow> b | EC2 \<Rightarrow> c | EC3 \<Rightarrow> d)"
  "HasEventType e (ClassField_of_event ec) = (e = ec)"
  by (cases e; cases ec; simp add: class_make_bits ClassField_of_event_def)+

section \<open>Standard requests\<close>

definition gvid :: "byte \<Rightarrow> byte \<Rightarrow> GroupVariationID" where
  "gvid g v = \<lparr>id_group = g, id_variation = v\<rparr>"

definition WriteClassHeaders :: "ClassField \<Rightarrow> APDUWrapper \<Rightarrow> bool \<times> APDUWrapper" where
  "WriteClassHeaders classes w =
     (let step = (\<lambda>(pc, v) (ok, w). if ok \<and> HasClass pc classes then WriteHeader (gvid 60 v) ALL_OBJECTS w else (ok, w))
      in fold step [(Class1, 2), (Class2, 3), (Class3, 4), (Class0, 1)] (True, w))"

definition ClassRequest :: "FunctionCode \<Rightarrow> ClassField \<Rightarrow> byte \<Rightarrow> APDUWrapper \<Rightarrow> APDUWrapper" where
  "ClassRequest fc classes seq request =
     snd (WriteClassHeaders classes (SetFunction fc (SetControl (AppControlField_make True True False False seq) request)))"

definition ReadIntegrity :: "ClassField \<Rightarrow> byte \<Rightarrow> APDUWrapper \<Rightarrow> APDUWrapper" where
  "ReadIntegrity classes seq request = ClassRequest READ classes seq request"

definition ReadAllObjects :: "GroupVariationID \<Rightarrow> byte \<Rightarrow> APDUWrapper \<Rightarrow> APDUWrapper" where
  "ReadAllObjects gvId seq request =
     snd (WriteHeader gvId ALL_OBJECTS (SetFunction READ (SetControl (AppControlField_make True True False False seq) request)))"

definition DisableUnsolicited :: "byte \<Rightarrow> APDUWrapper \<Rightarrow> APDUWrapper" where
  "DisableUnsolicited seq request = ClassRequest DISABLE_UNSOLICITED AllEventClasses seq request"

definition EnableUnsolicited :: "ClassField \<Rightarrow> byte \<Rightarrow> APDUWrapper \<Rightarrow> APDUWrapper" where
  "EnableUnsolicited classes seq request = ClassRequest ENABLE_UNSOLICITED classes seq request"

definition ClearRestartIIN :: "byte \<Rightarrow> APDUWrapper \<Rightarrow> APDUWrapper" where
  "ClearRestartIIN seq request =
     (let w = SetControl (AppControlField_make True True False False seq) (SetFunction WRITE request);
          (it, w) = IterateOverSingleBitfield index8 (gvid 80 1) UINT8_START_STOP 7 w;
          (ok, it, w) = BitfieldRangeWriteIterator_Write index8 False it w
      in BitfieldRangeWriteIterator_destroy index8 it w)"

definition MeasureDelay :: "byte \<Rightarrow> APDUWrapper \<Rightarrow> APDUWrapper" where
  "MeasureDelay seq request = SetControl (AppControlField_Request seq) (SetFunction DELAY_MEASURE request)"

definition RecordCurrentTime_request :: "byte \<Rightarrow> APDUWrapper \<Rightarrow> APDUWrapper" where
  "RecordCurrentTime_request seq request = SetControl (AppControlField_Request seq) (SetFunction RECORD_CURRENT_TIME request)"

definition NullUnsolicited :: "byte \<Rightarrow> IINField \<Rightarrow> APDUWrapper \<Rightarrow> APDUWrapper" where
  "NullUnsolicited seq iin response =
     SetIIN iin (SetFunction UNSOLICITED_RESPONSE (SetControl (AppControlField_make True True True True seq) response))"

section \<open>Reading what was built\<close>

lemma byte_masks: "(b AND 0x80 \<noteq> 0) = bit b 7" "(b AND 0x40 \<noteq> 0) = bit b 6" "(b AND 0x20 \<noteq> 0) = bit b 5" "(b AND 0x10 \<noteq> 0) = bit b 4"
  for b :: byte
  using and_exp_eq_0_iff_not_bit [of b 7] and_exp_eq_0_iff_not_bit [of b 6] and_exp_eq_0_iff_not_bit [of b 5] and_exp_eq_0_iff_not_bit [of b 4]
  by simp_all

definition control_flags :: "AppControlField \<Rightarrow> byte" where
  "control_flags c = (if FIR c then 0x80 else 0) OR (if FIN c then 0x40 else 0) OR (if CON c then 0x20 else 0) OR (if UNS c then 0x10 else 0)"

lemma ToByte_flags: "AppControlField_ToByte c = control_flags c OR SEQ c AND 0x0F"
proof -
  have "SEQ c mod 16 = SEQ c AND 0x0F"
    using take_bit_eq_mask [of 4 "SEQ c"] take_bit_eq_mod [of 4 "SEQ c"] by (simp add: mask_eq_exp_minus_1)
  then show ?thesis by (simp add: AppControlField_ToByte_def control_flags_def Let_def)
qed

lemma control_flags_simps: "bit (control_flags c) 7 = FIR c" "bit (control_flags c) 6 = FIN c" "bit (control_flags c) 5 = CON c"
  "bit (control_flags c) 4 = UNS c" "control_flags c AND 0x0F = 0"
  by (cases "FIR c"; cases "FIN c"; cases "CON c"; cases "UNS c"; simp add: control_flags_def)+

lemma control_roundtrip:
  assumes "SEQ c < 16"
  shows "AppControlField_of_byte (AppControlField_ToByte c) = c"
proof -
  have s: "SEQ c AND 0x0F = SEQ c"
  proof -
    have "SEQ c mod 16 = SEQ c" using assms by (simp add: word_unat_eq_iff unat_mod word_less_nat_alt)
    then show ?thesis using take_bit_eq_mask [of 4 "SEQ c"] take_bit_eq_mod [of 4 "SEQ c"] by (simp add: mask_eq_exp_minus_1)
  qed
  have hi: "\<not> bit (SEQ c AND 0x0F) n" if "4 \<le> n" for n
    using that bit_take_bit_iff [of 4 "SEQ c" n] by (simp add: take_bit_eq_mask mask_eq_exp_minus_1)
  then show ?thesis
    unfolding AppControlField_of_byte_def byte_masks ToByte_flags bit_or_iff control_flags_simps
    using s hi [of 4] hi [of 5] hi [of 6] hi [of 7] by (simp add: bit.conj_disj_distrib2 control_flags_simps)
qed

end
