(* ===== verification/App_Specs.thy ===== *)
theory App_Specs
  imports App_Header
begin

text \<open>
  What the database and the event buffer know of each type of measurement: \<open>app/MeasurementTypeSpecs.h\<close>,
  \<open>app/MeasurementInfo.cpp\<close>, \<open>app/EventTriggers.cpp\<close>, \<open>outstation/MeasurementConfig.h\<close>, \<open>app/OctetData.cpp\<close> and the
  enumerations they use. An enumerator of the generated types \<open>Static*Variation\<close> and \<open>Event*Variation\<close> is
  the code of the group and variation in its name; the lists below are the enumerators of each type.
\<close>

section \<open>Enumerations\<close>

definition StaticBinaryVariations :: "GroupVariation list" where "StaticBinaryVariations = [Group1Var1, Group1Var2]"
definition StaticDoubleBinaryVariations :: "GroupVariation list" where "StaticDoubleBinaryVariations = [Group3Var2]"
definition StaticBinaryOutputStatusVariations :: "GroupVariation list" where "StaticBinaryOutputStatusVariations = [Group10Var2]"
definition StaticCounterVariations :: "GroupVariation list" where
  "StaticCounterVariations = [Group20Var1, Group20Var2, Group20Var5, Group20Var6]"
definition StaticFrozenCounterVariations :: "GroupVariation list" where
  "StaticFrozenCounterVariations = [Group21Var1, Group21Var2, Group21Var5, Group21Var6, Group21Var9, Group21Var10]"
definition StaticAnalogVariations :: "GroupVariation list" where
  "StaticAnalogVariations = [Group30Var1, Group30Var2, Group30Var3, Group30Var4, Group30Var5, Group30Var6]"
definition StaticAnalogOutputStatusVariations :: "GroupVariation list" where
  "StaticAnalogOutputStatusVariations = [Group40Var1, Group40Var2, Group40Var3, Group40Var4]"
definition StaticTimeAndIntervalVariations :: "GroupVariation list" where "StaticTimeAndIntervalVariations = [Group50Var4]"
definition StaticOctetStringVariations :: "GroupVariation list" where "StaticOctetStringVariations = [Group110Var0]"

definition EventBinaryVariations :: "GroupVariation list" where "EventBinaryVariations = [Group2Var1, Group2Var2, Group2Var3]"
definition EventDoubleBinaryVariations :: "GroupVariation list" where "EventDoubleBinaryVariations = [Group4Var1, Group4Var2, Group4Var3]"
definition EventBinaryOutputStatusVariations :: "GroupVariation list" where
  "EventBinaryOutputStatusVariations = [Group11Var1, Group11Var2]"
definition EventCounterVariations :: "GroupVariation list" where
  "EventCounterVariations = [Group22Var1, Group22Var2, Group22Var5, Group22Var6]"
definition EventFrozenCounterVariations :: "GroupVariation list" where
  "EventFrozenCounterVariations = [Group23Var1, Group23Var2, Group23Var5, Group23Var6]"
definition EventAnalogVariations :: "GroupVariation list" where
  "EventAnalogVariations = [Group32Var1, Group32Var2, Group32Var3, Group32Var4, Group32Var5, Group32Var6, Group32Var7, Group32Var8]"
definition EventAnalogOutputStatusVariations :: "GroupVariation list" where
  "EventAnalogOutputStatusVariations =
     [Group42Var1, Group42Var2, Group42Var3, Group42Var4, Group42Var5, Group42Var6, Group42Var7, Group42Var8]"
definition EventOctetStringVariations :: "GroupVariation list" where "EventOctetStringVariations = [Group111Var0]"

datatype EventType =
    Binary_event | Analog_event | Counter_event | FrozenCounter_event | DoubleBitBinary_event | BinaryOutputStatus_event
  | AnalogOutputStatus_event | OctetString_event

datatype EventMode = Detect | Force | Suppress | EventOnly
datatype FlagsType =
    DoubleBinaryInput_flags | Counter_flags | FrozenCounter_flags | AnalogInput_flags | BinaryOutputStatus_flags
  | AnalogOutputStatus_flags | BinaryInput_flags
datatype AssignClassType =
    BinaryInput_class | DoubleBinaryInput_class | Counter_class | FrozenCounter_class | AnalogInput_class
  | BinaryOutputStatus_class | AnalogOutputStatus_class
datatype RestartMode = UNSUPPORTED | SUPPORTED_DELAY_FINE | SUPPORTED_DELAY_COARSE
datatype StaticType =
    BinaryInput | DoubleBinaryInput | CounterInput | FrozenCounterInput | AnalogInput | BinaryOutputStatusInput
  | AnalogOutputStatusInput | TimeAndIntervalInput | OctetStringInput

fun StaticTypeBitmask :: "StaticType \<Rightarrow> u16" where
  "StaticTypeBitmask BinaryInput = 0x1"
| "StaticTypeBitmask DoubleBinaryInput = 0x2"
| "StaticTypeBitmask CounterInput = 0x4"
| "StaticTypeBitmask FrozenCounterInput = 0x8"
| "StaticTypeBitmask AnalogInput = 0x10"
| "StaticTypeBitmask BinaryOutputStatusInput = 0x20"
| "StaticTypeBitmask AnalogOutputStatusInput = 0x40"
| "StaticTypeBitmask TimeAndIntervalInput = 0x80"
| "StaticTypeBitmask OctetStringInput = 0x100"

text \<open>A \<open>StaticTypeBitField\<close> is its mask.\<close>

definition AllTypes :: u16 where "AllTypes = NOT 0"

definition StaticTypeBitField_IsSet :: "u16 \<Rightarrow> StaticType \<Rightarrow> bool" where
  "StaticTypeBitField_IsSet m type = (m AND StaticTypeBitmask type \<noteq> 0)"

definition StaticTypeBitField_Except :: "u16 \<Rightarrow> StaticType \<Rightarrow> u16" where
  "StaticTypeBitField_Except m type = m AND NOT (StaticTypeBitmask type)"

section \<open>Octet strings\<close>

text \<open>An octet string is the bytes of its array up to its size; the size is a byte.\<close>

type_synonym OctetString = "byte list"

definition OctetData_default :: OctetString where "OctetData_default = [0]"

definition OctetData_of_buffer :: "byte list \<Rightarrow> OctetString" where
  "OctetData_of_buffer input =
     (if input = [] then [0] else take (min 255 (unat (of_nat (length input) :: byte))) input)"

definition OctetData_Set :: "byte list \<Rightarrow> bool \<times> OctetString" where
  "OctetData_Set input =
     (if input = [] then (False, [])
      else (\<not> length input > 255, take (if length input > 255 then 255 else length input) input))"

definition OctetStringSerializer :: "bool \<Rightarrow> nat \<Rightarrow> OctetString DNP3Serializer" where
  "OctetStringSerializer isEvent sz =
     \<lparr>ser_id = gvid (if isEvent then 111 else 110) (of_nat sz), ser_size = sz, ser_read = (\<lambda>bs. None), ser_write = (\<lambda>v. v)\<rparr>"

section \<open>Differences of doubles\<close>

text \<open>
  Rounding of an exact value to the nearest \<open>double\<close>, with ties to the even one, and the absolute
  value of a difference, as the processor computes it.
\<close>

definition round_to_double :: "bool \<Rightarrow> nat \<Rightarrow> int \<Rightarrow> double" where
  "round_to_double s m e =
     (if m = 0 then Finite s 0 0
      else let e' = max (e + int (bitlen m) - 53) (- 1074);
               q = (if e' \<le> e then m * 2 ^ nat (e - e') else round_shift m (nat (e' - e)));
               (q, e') = (if q = 2 ^ 53 then (2 ^ 52, e' + 1) else (q, e'))
           in if e' > 971 then Infinity s else Finite s q e')"

fun abs_difference :: "double \<Rightarrow> double \<Rightarrow> double" where
  "abs_difference (NaN s f) b = NaN False f"
| "abs_difference (Infinity s) (NaN t f) = NaN False f"
| "abs_difference (Finite s m e) (NaN t f) = NaN False f"
| "abs_difference (Infinity s) (Infinity t) = (if s = t then NaN False 4194304 else Infinity False)"
| "abs_difference (Infinity s) (Finite t n f) = Infinity False"
| "abs_difference (Finite s m e) (Infinity t) = Infinity False"
| "abs_difference (Finite s m e) (Finite t n f) =
     round_to_double False (nat \<bar>scaled s m e (min e f) - scaled t n f (min e f)\<bar>) (min e f)"

section \<open>Events\<close>

definition IsEvent_double :: "double TypedMeasurement \<Rightarrow> double TypedMeasurement \<Rightarrow> double \<Rightarrow> bool" where
  "IsEvent_double newMeas oldMeas deadband =
     (if m_flags newMeas \<noteq> m_flags oldMeas then True
      else let diff = abs_difference (m_value newMeas) (m_value oldMeas)
           in if diff = Infinity False then True else double_less deadband diff)"

definition IsEvent_count :: "u32 \<Rightarrow> u32 \<Rightarrow> u32 \<Rightarrow> bool" where
  "IsEvent_count val1 val2 deadband =
     (let diff = (if val2 > val1 then ucast val2 - ucast val1 else ucast val1 - ucast val2) in diff > (ucast deadband :: u64))"

text \<open>
  The configuration of a point. Types without a deadband do not use that field, and
  \<open>TimeAndInterval\<close> uses the static variation only.
\<close>

record 'd PointConfig =
  svariation :: GroupVariation
  clazz :: PointClass
  evariation :: GroupVariation
  deadband :: 'd

definition IsQualityOnlineOnly :: "Binary \<Rightarrow> bool" where
  "IsQualityOnlineOnly value = (m_flags value AND 0x7F = ONLINE)"

definition flags_IsEvent :: "'v TypedMeasurement \<Rightarrow> 'v TypedMeasurement \<Rightarrow> unit PointConfig \<Rightarrow> bool" where
  "flags_IsEvent old_value new_value cfg = (m_flags old_value \<noteq> m_flags new_value)"

definition analog_IsEvent :: "double TypedMeasurement \<Rightarrow> double TypedMeasurement \<Rightarrow> double PointConfig \<Rightarrow> bool" where
  "analog_IsEvent old_value new_value cfg = IsEvent_double new_value old_value (deadband cfg)"

definition counter_IsEvent :: "u32 TypedMeasurement \<Rightarrow> u32 TypedMeasurement \<Rightarrow> u32 PointConfig \<Rightarrow> bool" where
  "counter_IsEvent old_value new_value cfg =
     (if m_flags old_value \<noteq> m_flags new_value then True
      else IsEvent_count (m_value old_value) (m_value new_value) (deadband cfg))"

definition octet_IsEvent :: "OctetString \<Rightarrow> OctetString \<Rightarrow> unit PointConfig \<Rightarrow> bool" where
  "octet_IsEvent old_value new_value cfg = (old_value \<noteq> new_value)"

lemma IsEvent_count_iff: "IsEvent_count a b d = (unat d < (unat a - unat b) + (unat b - unat a))"
proof -
  have u: "unat (ucast x :: u64) = unat x" for x :: u32
    using unat_u32_less [of x] by (simp add: unsigned_ucast_eq take_bit_nat_eq_self)
  have s: "unat (ucast x - ucast y :: u64) = unat x - unat y" if "y \<le> x" for x y :: u32
    using that by (subst unat_sub) (simp_all add: u word_le_nat_alt)
  show ?thesis
    using s [of a b] s [of b a] by (auto simp: IsEvent_count_def Let_def word_less_nat_alt word_le_nat_alt u)
qed

lemma OctetData_Set_length: "length (snd (OctetData_Set input)) = min 255 (length input)"
  by (auto simp: OctetData_Set_def)

lemma OctetData_of_buffer_length: "input \<noteq> [] \<Longrightarrow> length (OctetData_of_buffer input) = length input mod 256"
proof -
  have "length input mod 256 \<le> length input" "length input mod 256 < 256" by simp_all
  then show "input \<noteq> [] \<Longrightarrow> length (OctetData_of_buffer input) = length input mod 256"
    by (simp add: OctetData_of_buffer_def unat_of_nat)
qed

end
