(* ===== verification/Out_List.thy ===== *)
theory Out_List
  imports Prelude
begin

text \<open>
  The list of the event buffer (\<open>outstation/event/List.h\<close>): doubly linked nodes in an array that is allocated once, and a
  free list through the same links. A pointer to a node is its position in the array, the null pointer is
  \<open>None\<close>. The invariant relates the nodes to the abstract list of positions that the program sees
  (\<open>xs\<close>) and to the free positions (\<open>fs\<close>); each operation is proved to be the operation on the abstract list.
\<close>

section \<open>Nodes and links\<close>

record 'a Node =
  value_of :: 'a
  prev :: "nat option"
  nxt :: "nat option"

record 'a LinkedList =
  underlying :: "'a Node list"
  head :: "nat option"
  tail :: "nat option"
  free :: "nat option"
  m_length :: nat

definition set_next :: "nat option \<Rightarrow> nat option \<Rightarrow> 'a Node list \<Rightarrow> 'a Node list" where
  "set_next a b ns = (case a of None \<Rightarrow> ns | Some i \<Rightarrow> ns[i := (ns ! i)\<lparr>nxt := b\<rparr>])"

definition set_prev :: "nat option \<Rightarrow> nat option \<Rightarrow> 'a Node list \<Rightarrow> 'a Node list" where
  "set_prev b a ns = (case b of None \<Rightarrow> ns | Some i \<Rightarrow> ns[i := (ns ! i)\<lparr>prev := a\<rparr>])"

definition Link :: "nat option \<Rightarrow> nat option \<Rightarrow> 'a Node list \<Rightarrow> 'a Node list" where
  "Link first second ns = set_prev second first (set_next first second ns)"

definition LinkedList_Initialize :: "'a LinkedList \<Rightarrow> 'a LinkedList" where
  "LinkedList_Initialize l =
     (if underlying l = [] then l
      else l\<lparr>free := Some 0,
             underlying := fold (\<lambda>i. Link (Some (i - 1)) (Some i)) [1 ..< length (underlying l)] (underlying l)\<rparr>)"

definition LinkedList_make :: "'a \<Rightarrow> nat \<Rightarrow> 'a LinkedList" where
  "LinkedList_make v maxSize =
     LinkedList_Initialize \<lparr>underlying = replicate maxSize \<lparr>value_of = v, prev = None, nxt = None\<rparr>,
        head = None, tail = None, free = None, m_length = 0\<rparr>"

definition Capacity :: "'a LinkedList \<Rightarrow> nat" where
  "Capacity l = length (underlying l)"

definition IsFullAndCapacityNotZero :: "'a LinkedList \<Rightarrow> bool" where
  "IsFullAndCapacityNotZero l = (free l = None \<and> Capacity l > 0)"

definition LinkedList_Insert :: "'a \<Rightarrow> nat option \<Rightarrow> nat option \<Rightarrow> 'a LinkedList \<Rightarrow> nat option \<times> 'a LinkedList" where
  "LinkedList_Insert v left right l =
     (case free l of
        None \<Rightarrow> (None, l)
      | Some n \<Rightarrow>
          (let ns = (underlying l)[n := (underlying l ! n)\<lparr>value_of := v\<rparr>]
           in (Some n,
               l\<lparr>free := nxt (underlying l ! n), m_length := m_length l + 1,
                 underlying := Link (Some n) right (Link left (Some n) ns),
                 head := (if left = None then Some n else head l),
                 tail := (if right = None then Some n else tail l)\<rparr>)))"

definition LinkedList_Add :: "'a \<Rightarrow> 'a LinkedList \<Rightarrow> nat option \<times> 'a LinkedList" where
  "LinkedList_Add v l = LinkedList_Insert v (tail l) None l"

definition LinkedList_Remove :: "nat \<Rightarrow> 'a LinkedList \<Rightarrow> 'a LinkedList" where
  "LinkedList_Remove n l =
     (let l = (if Some n = head l then l\<lparr>head := nxt (underlying l ! n)\<rparr> else l);
          l = (if Some n = tail l then l\<lparr>tail := (case tail l of None \<Rightarrow> None | Some t \<Rightarrow> prev (underlying l ! t))\<rparr> else l);
          ns = Link (prev (underlying l ! n)) (nxt (underlying l ! n)) (underlying l);
          ns = set_prev (Some n) None ns;
          ns = Link (Some n) (free l) ns
      in l\<lparr>underlying := ns, free := Some n, m_length := m_length l - 1\<rparr>)"

text \<open>
  The loops follow the links; the fuel is the number of nodes, which is enough when the invariant holds.
  \<open>RemoveAll\<close> reads the link of a node before it removes the node.
\<close>

fun Iterate_from :: "nat \<Rightarrow> 'a Node list \<Rightarrow> nat option \<Rightarrow> nat list" where
  "Iterate_from 0 ns cur = []"
| "Iterate_from (Suc k) ns None = []"
| "Iterate_from (Suc k) ns (Some i) = i # Iterate_from k ns (nxt (ns ! i))"

definition Iterate :: "'a LinkedList \<Rightarrow> nat list" where
  "Iterate l = Iterate_from (Capacity l) (underlying l) (head l)"

fun RemoveAll_from :: "nat \<Rightarrow> ('a \<Rightarrow> bool) \<Rightarrow> nat option \<Rightarrow> 'a LinkedList \<Rightarrow> nat \<times> 'a LinkedList" where
  "RemoveAll_from 0 match cur l = (0, l)"
| "RemoveAll_from (Suc k) match None l = (0, l)"
| "RemoveAll_from (Suc k) match (Some i) l =
     (let after = nxt (underlying l ! i)
      in if match (value_of (underlying l ! i))
         then (let (n, l') = RemoveAll_from k match after (LinkedList_Remove i l) in (n + 1, l'))
         else RemoveAll_from k match after l)"

definition LinkedList_RemoveAll :: "('a \<Rightarrow> bool) \<Rightarrow> 'a LinkedList \<Rightarrow> nat \<times> 'a LinkedList" where
  "LinkedList_RemoveAll match l = RemoveAll_from (Capacity l) match (head l) l"

section \<open>Chains of nodes\<close>

definition first_of :: "nat list \<Rightarrow> nat option \<Rightarrow> nat option" where
  "first_of xs q = (case xs of [] \<Rightarrow> q | y # _ \<Rightarrow> Some y)"

definition last_of :: "nat option \<Rightarrow> nat list \<Rightarrow> nat option" where
  "last_of p xs = (if xs = [] then p else Some (last xs))"

lemma first_of_simps [simp]: "first_of [] q = q" "first_of (y # ys) q = Some y" "first_of (xs @ ys) q = first_of xs (first_of ys q)"
  by (simp_all add: first_of_def split: list.split)

lemma last_of_simps [simp]: "last_of p [] = p" "last_of p (y # ys) = last_of (Some y) ys" "last_of p (xs @ ys) = last_of (last_of p xs) ys"
  by (simp_all add: last_of_def)

fun chain :: "'a Node list \<Rightarrow> nat option \<Rightarrow> nat list \<Rightarrow> nat option \<Rightarrow> bool" where
  "chain ns p [] q = True"
| "chain ns p (x # xs) q = (x < length ns \<and> prev (ns ! x) = p \<and> nxt (ns ! x) = first_of xs q \<and> chain ns (Some x) xs q)"

fun free_chain :: "'a Node list \<Rightarrow> nat list \<Rightarrow> bool" where
  "free_chain ns [] = True"
| "free_chain ns (x # xs) = (x < length ns \<and> nxt (ns ! x) = first_of xs None \<and> free_chain ns xs)"

lemma chain_append: "chain ns p (xs @ ys) q = (chain ns p xs (first_of ys q) \<and> chain ns (last_of p xs) ys q)"
  by (induction xs arbitrary: p) auto

lemma chain_frame:
  "(\<And>x. x \<in> set xs \<Longrightarrow> prev (ms ! x) = prev (ns ! x) \<and> nxt (ms ! x) = nxt (ns ! x)) \<Longrightarrow> length ms = length ns
   \<Longrightarrow> chain ms p xs q = chain ns p xs q"
  by (induction xs arbitrary: p) auto

lemma free_chain_frame:
  "(\<And>x. x \<in> set fs \<Longrightarrow> nxt (ms ! x) = nxt (ns ! x)) \<Longrightarrow> length ms = length ns \<Longrightarrow> free_chain ms fs = free_chain ns fs"
  by (induction fs) auto

lemma length_links [simp]: "length (set_next a b ns) = length ns" "length (set_prev a b ns) = length ns" "length (Link a b ns) = length ns"
  by (simp_all add: set_next_def set_prev_def Link_def split: option.split)

lemma nth_next: "nxt (ns[i := (ns ! i)\<lparr>nxt := b\<rparr>] ! x) = (if i = x \<and> x < length ns then b else nxt (ns ! x))"
  "prev (ns[i := (ns ! i)\<lparr>nxt := b\<rparr>] ! x) = prev (ns ! x)" "value_of (ns[i := (ns ! i)\<lparr>nxt := b\<rparr>] ! x) = value_of (ns ! x)"
  by (cases "i = x"; cases "x < length ns"; simp add: list_update_beyond)+

lemma nth_prev: "prev (ns[i := (ns ! i)\<lparr>prev := b\<rparr>] ! x) = (if i = x \<and> x < length ns then b else prev (ns ! x))"
  "nxt (ns[i := (ns ! i)\<lparr>prev := b\<rparr>] ! x) = nxt (ns ! x)" "value_of (ns[i := (ns ! i)\<lparr>prev := b\<rparr>] ! x) = value_of (ns ! x)"
  by (cases "i = x"; cases "x < length ns"; simp add: list_update_beyond)+

lemma set_next_nth [simp]:
  "prev (set_next a b ns ! x) = prev (ns ! x)" "value_of (set_next a b ns ! x) = value_of (ns ! x)"
  "nxt (set_next a b ns ! x) = (if a = Some x \<and> x < length ns then b else nxt (ns ! x))"
  by (simp_all add: set_next_def nth_next split: option.split)

lemma set_prev_nth [simp]:
  "nxt (set_prev b a ns ! x) = nxt (ns ! x)" "value_of (set_prev b a ns ! x) = value_of (ns ! x)"
  "prev (set_prev b a ns ! x) = (if b = Some x \<and> x < length ns then a else prev (ns ! x))"
  by (simp_all add: set_prev_def nth_prev split: option.split)

lemma Link_nth [simp]:
  "nxt (Link a b ns ! x) = (if a = Some x \<and> x < length ns then b else nxt (ns ! x))"
  "prev (Link a b ns ! x) = (if b = Some x \<and> x < length ns then a else prev (ns ! x))"
  "value_of (Link a b ns ! x) = value_of (ns ! x)"
  by (simp_all add: Link_def)

section \<open>The invariant\<close>

definition list_inv :: "'a LinkedList \<Rightarrow> nat list \<Rightarrow> nat list \<Rightarrow> bool" where
  "list_inv l xs fs =
     (chain (underlying l) None xs None \<and> head l = first_of xs None \<and> tail l = last_of None xs
      \<and> free_chain (underlying l) fs \<and> free l = first_of fs None
      \<and> distinct (xs @ fs) \<and> set (xs @ fs) = {..< length (underlying l)} \<and> m_length l = length xs)"

definition contents :: "'a LinkedList \<Rightarrow> nat list \<Rightarrow> 'a list" where
  "contents l xs = map (\<lambda>i. value_of (underlying l ! i)) xs"

lemma list_inv_length: "list_inv l xs fs \<Longrightarrow> length xs + length fs = Capacity l"
  unfolding list_inv_def Capacity_def by (metis card_lessThan distinct_card length_append)

lemma full_iff: "list_inv l xs fs \<Longrightarrow> IsFullAndCapacityNotZero l = (length xs = Capacity l \<and> 0 < Capacity l)"
  using list_inv_length [of l xs fs] by (cases fs) (auto simp: list_inv_def IsFullAndCapacityNotZero_def)

lemma last_of_nonempty: "xs \<noteq> [] \<Longrightarrow> last_of p xs = Some (last xs)"
  by (simp add: last_of_def)

lemma chain_last:
  assumes "chain ns p (xs @ [x]) q" "distinct (xs @ [x])" "\<And>y. y \<in> set xs \<Longrightarrow> nxt (ms ! y) = nxt (ns ! y)"
    "\<And>y. y \<in> set (xs @ [x]) \<Longrightarrow> prev (ms ! y) = prev (ns ! y)" "nxt (ms ! x) = q'" "length ms = length ns"
  shows "chain ms p (xs @ [x]) q'"
  using assms by (simp add: chain_append chain_frame [of xs ms ns])

lemma Add_full: "list_inv l xs [] \<Longrightarrow> LinkedList_Add v l = (None, l)"
  by (simp add: list_inv_def LinkedList_Add_def LinkedList_Insert_def)

lemma Add_appends:
  assumes inv: "list_inv l xs (f # fs)" and add: "LinkedList_Add v l = (r, l')"
  shows "r = Some f \<and> list_inv l' (xs @ [f]) fs \<and> contents l' (xs @ [f]) = contents l xs @ [v]"
proof -
  let ?ns = "underlying l"
  have f: "free l = Some f" "nxt (?ns ! f) = first_of fs None" "f < length ?ns" "f \<notin> set xs" "f \<notin> set fs" "free_chain ?ns fs"
    using inv by (auto simp: list_inv_def)
  define ms where "ms = ?ns[f := (?ns ! f)\<lparr>value_of := v\<rparr>]"
  define us where "us = Link (Some f) None (Link (tail l) (Some f) ms)"
  have l': "r = Some f" "l' = l\<lparr>free := first_of fs None, m_length := m_length l + 1, underlying := us,
      head := (if tail l = None then Some f else head l), tail := Some f\<rparr>"
    using add by (auto simp: LinkedList_Add_def LinkedList_Insert_def f us_def ms_def Let_def)
  have ms: "prev (ms ! x) = prev (?ns ! x)" "nxt (ms ! x) = nxt (?ns ! x)" "length ms = length ?ns"
    "value_of (ms ! x) = (if x = f then v else value_of (?ns ! x))" for x
    using f(3) by (cases "f = x"; simp add: ms_def)+
  have us: "length us = length ?ns" "prev (us ! x) = (if x = f then tail l else prev (?ns ! x))"
    "nxt (us ! x) = (if x = f then None else if tail l = Some x \<and> x < length ?ns then Some f else nxt (?ns ! x))"
    "value_of (us ! x) = (if x = f then v else value_of (?ns ! x))" for x
    using f(3) by (auto simp: us_def ms)
  have t: "tail l = last_of None xs" using inv by (simp add: list_inv_def)
  have ch: "chain us None xs (Some f)"
  proof (cases xs rule: rev_cases)
    case (snoc ys y)
    have "chain ?ns None (ys @ [y]) None" "y < length ?ns" "distinct (ys @ [y])" using inv snoc by (auto simp: list_inv_def)
    then show ?thesis unfolding snoc
      by (rule_tac chain_last [where ns = ?ns and q = None]) (use f(4) snoc t in \<open>auto simp: us last_of_def\<close>)
  qed simp
  have fr: "free_chain us fs"
  proof -
    have "tail l \<noteq> Some x" if "x \<in> set fs" for x
      using t inv that by (cases xs rule: rev_cases) (auto simp: list_inv_def)
    then show ?thesis using f(5,6) by (subst free_chain_frame [of fs us ?ns]) (auto simp: us)
  qed
  have "list_inv l' (xs @ [f]) fs"
    using inv ch fr f t by (auto simp: list_inv_def l'(2) us chain_append last_of_def first_of_def split: if_splits list.splits)
  moreover have "contents l' (xs @ [f]) = contents l xs @ [v]"
    using f(4) by (auto simp: contents_def l'(2) us)
  ultimately show ?thesis using l'(1) by simp
qed

lemma Remove_removes:
  assumes inv: "list_inv l (xs @ n # ys) fs"
  shows "list_inv (LinkedList_Remove n l) (xs @ ys) (n # fs)
    \<and> contents (LinkedList_Remove n l) (xs @ ys) = contents l (xs @ ys)"
proof -
  let ?ns = "underlying l"
  have ch: "chain ?ns None xs (Some n)" "chain ?ns (Some n) ys None"
    and n: "n < length ?ns" "prev (?ns ! n) = last_of None xs" "nxt (?ns ! n) = first_of ys None"
    and d: "distinct xs" "distinct ys" "distinct fs" "n \<notin> set xs" "n \<notin> set ys" "n \<notin> set fs"
      "set xs \<inter> set ys = {}" "set xs \<inter> set fs = {}" "set ys \<inter> set fs = {}"
    and h: "head l = first_of (xs @ [n]) None" "tail l = last_of (Some n) ys" "free l = first_of fs None" "free_chain ?ns fs"
      "m_length l = length xs + length ys + 1" "set xs \<union> insert n (set ys) \<union> set fs = {..< length ?ns}"
    using inv by (auto simp: list_inv_def chain_append)
  define us where "us = Link (Some n) (free l) (set_prev (Some n) None (Link (last_of None xs) (first_of ys None) ?ns))"
  have ns_last: "last_of None xs \<noteq> Some n" "first_of ys None \<noteq> Some n" "free l \<noteq> Some n"
    using d h(3) by (auto simp: last_of_def first_of_def split: list.splits)
  have us: "length us = length ?ns"
    "nxt (us ! x) = (if x = n then free l else if last_of None xs = Some x \<and> x < length ?ns then first_of ys None else nxt (?ns ! x))"
    "x \<noteq> n \<Longrightarrow> free l \<noteq> Some x \<Longrightarrow> prev (us ! x) = (if first_of ys None = Some x \<and> x < length ?ns then last_of None xs else prev (?ns ! x))"
    "value_of (us ! x) = value_of (?ns ! x)" for x
    using n(1) ns_last by (auto simp: us_def)
  have in_fs: "free l = Some x \<Longrightarrow> x \<in> set fs" for x using h(3) by (cases fs) auto
  have hd: "(if Some n = head l then first_of ys None else head l) = first_of (xs @ ys) None"
    using h(1) d by (cases xs) auto
  have tl: "(if Some n = tail l then last_of None xs else tail l) = last_of None (xs @ ys)"
    using h(2) d by (cases ys rule: rev_cases) (auto simp: last_of_def)
  have rm: "LinkedList_Remove n l = l\<lparr>underlying := us, free := Some n, m_length := m_length l - 1,
      head := first_of (xs @ ys) None, tail := last_of None (xs @ ys)\<rparr>"
    unfolding hd [symmetric] tl [symmetric]
    by (cases "head l = Some n"; cases "tail l = Some n") (simp_all add: LinkedList_Remove_def Let_def us_def n)
  have "chain us None xs (first_of ys None)"
  proof (cases xs rule: rev_cases)
    case (snoc zs z)
    have z: "z < length ?ns" and "chain ?ns None (zs @ [z]) (Some n)" "distinct (zs @ [z])"
      using ch(1) d(1) snoc by (auto simp: chain_append)
    from this(2,3) show ?thesis unfolding snoc
    proof (rule chain_last)
      show "nxt (us ! y) = nxt (?ns ! y)" if "y \<in> set zs" for y using that snoc d(1,4) by (auto simp: us)
      show "prev (us ! y) = prev (?ns ! y)" if "y \<in> set (zs @ [z])" for y
        using that d(4,7,8) in_fs [of y] unfolding snoc [symmetric] by (subst us) (auto simp: first_of_def split: list.splits)
      show "nxt (us ! z) = first_of ys None" using z snoc d(4) by (simp add: us)
    qed (simp add: us)
  qed simp
  moreover have "chain us (last_of None xs) ys None"
  proof (cases ys)
    case (Cons y zs)
    have y: "y < length ?ns" "nxt (?ns ! y) = first_of zs None" "chain ?ns (Some y) zs None" using ch(2) Cons by auto
    have "x \<in> set ys \<Longrightarrow> x \<noteq> n \<and> free l \<noteq> Some x \<and> last_of None xs \<noteq> Some x" for x
      using d in_fs [of x] by (cases xs rule: rev_cases) (auto simp: last_of_def)
    note o = this
    have yz: "x \<in> set zs \<Longrightarrow> x \<noteq> y" for x using d(2) Cons by auto
    have "chain us (Some y) zs None = chain ?ns (Some y) zs None"
    proof (rule chain_frame)
      fix x assume "x \<in> set zs"
      with o [of x] yz [of x] Cons show "prev (us ! x) = prev (?ns ! x) \<and> nxt (us ! x) = nxt (?ns ! x)" by (simp add: us)
    qed (simp add: us)
    then show ?thesis using y o [of y] Cons by (simp add: us)
  qed simp
  moreover have "free_chain us (n # fs)"
  proof -
    have "last_of None xs \<noteq> Some x" if "x \<in> set fs" for x
      using d(8) that by (cases xs rule: rev_cases) auto
    then have "free_chain us fs" using h(4) d(6) by (subst free_chain_frame [of fs us ?ns]) (auto simp: us)
    then show ?thesis using n(1) h(3) by (simp add: us)
  qed
  ultimately have "list_inv (LinkedList_Remove n l) (xs @ ys) (n # fs)"
    using d h by (auto simp: list_inv_def rm chain_append us)
  then show ?thesis by (simp add: contents_def rm us)
qed

section \<open>Loops\<close>

lemma Iterate_from_chain: "chain ns p xs None \<Longrightarrow> length xs \<le> k \<Longrightarrow> Iterate_from k ns (first_of xs None) = xs"
proof (induction xs arbitrary: p k)
  case Nil then show ?case by (cases k) auto
next
  case (Cons x xs) then show ?case by (cases k) auto
qed

lemma Iterate_all: "list_inv l xs fs \<Longrightarrow> Iterate l = xs"
  using list_inv_length [of l xs fs] by (auto simp: Iterate_def list_inv_def intro!: Iterate_from_chain)

lemma RemoveAll_from_filters:
  assumes "list_inv l (xs @ ys) fs" "length ys \<le> k" "RemoveAll_from k match (first_of ys None) l = (n, l')"
  shows "\<exists>fs'. list_inv l' (xs @ filter (\<lambda>i. \<not> match (value_of (underlying l ! i))) ys) fs'
    \<and> (\<forall>i. value_of (underlying l' ! i) = value_of (underlying l ! i))
    \<and> n = length (filter (\<lambda>i. match (value_of (underlying l ! i))) ys)"
  using assms
proof (induction ys arbitrary: xs fs k l n)
  case Nil then show ?case by (cases k) auto
next
  case (Cons y ys)
  then obtain j where k: "k = Suc j" "length ys \<le> j" by (cases k) auto
  have nx: "nxt (underlying l ! y) = first_of ys None" using Cons.prems(1) by (simp add: list_inv_def chain_append)
  have vals: "value_of (underlying (LinkedList_Remove y l) ! i) = value_of (underlying l ! i)" for i
    by (simp add: LinkedList_Remove_def Let_def)
  show ?case
  proof (cases "match (value_of (underlying l ! y))")
    case True
    then obtain m where m: "RemoveAll_from j match (first_of ys None) (LinkedList_Remove y l) = (m, l')" "n = m + 1"
      using Cons.prems(3) by (auto simp: k nx split: prod.splits)
    from Cons.IH [OF conjunct1 [OF Remove_removes [OF Cons.prems(1)]] k(2) m(1)] True m(2) show ?thesis
      by (simp add: vals)
  next
    case False
    then have "RemoveAll_from j match (first_of ys None) l = (n, l')" using Cons.prems(3) by (simp add: k nx)
    from Cons.IH [of l "xs @ [y]", OF _ k(2) this] Cons.prems(1) False show ?thesis by simp
  qed
qed

lemma RemoveAll_filters:
  assumes "list_inv l xs fs" "LinkedList_RemoveAll match l = (n, l')"
  shows "\<exists>xs' fs'. list_inv l' xs' fs' \<and> contents l' xs' = filter (\<lambda>v. \<not> match v) (contents l xs)
    \<and> n = length (filter match (contents l xs))"
proof -
  have "RemoveAll_from (Capacity l) match (first_of xs None) l = (n, l')"
    using assms by (simp add: LinkedList_RemoveAll_def list_inv_def)
  from RemoveAll_from_filters [of l "[]" xs fs, OF _ _ this] assms(1) list_inv_length [OF assms(1)]
  obtain fs' where "list_inv l' (filter (\<lambda>i. \<not> match (value_of (underlying l ! i))) xs) fs'"
    "\<forall>i. value_of (underlying l' ! i) = value_of (underlying l ! i)"
    "n = length (filter (\<lambda>i. match (value_of (underlying l ! i))) xs)" by auto
  then show ?thesis
    by (intro exI [of _ "filter (\<lambda>i. \<not> match (value_of (underlying l ! i))) xs"] exI [of _ fs'])
       (simp add: contents_def filter_map comp_def)
qed

section \<open>The empty list\<close>

lemma fold_links_nth:
  assumes "n \<le> length ns" and "ms = fold (\<lambda>i. Link (Some (i - 1)) (Some i)) [1 ..< n] ns"
  shows "length ms = length ns \<and> (\<forall>x. nxt (ms ! x) = (if Suc x < n then Some (Suc x) else nxt (ns ! x)))"
  using assms
proof (induction n arbitrary: ms)
  case (Suc n)
  show ?case
  proof (cases "n = 0")
    case False
    define ks where "ks = fold (\<lambda>i. Link (Some (i - 1)) (Some i)) [1 ..< n] ns"
    have "ms = Link (Some (n - 1)) (Some n) ks" using Suc.prems(2) False by (simp add: ks_def)
    then show ?thesis using Suc.IH [OF _ ks_def] Suc.prems(1) False by auto
  qed (use Suc.prems in simp)
qed simp

lemma free_chain_upt: "(\<And>x. k \<le> x \<Longrightarrow> x < n \<Longrightarrow> nxt (ns ! x) = (if Suc x < n then Some (Suc x) else None)) \<Longrightarrow> n \<le> length ns
   \<Longrightarrow> free_chain ns [k ..< n]"
proof (induction "n - k" arbitrary: k)
  case (Suc d)
  then have "free_chain ns [Suc k ..< n]" "k < n" by auto
  with Suc.prems show ?case by (auto simp: upt_conv_Cons first_of_def split: list.split)
qed simp

lemma make_empty: "list_inv (LinkedList_make v n) [] [0 ..< n] \<and> contents (LinkedList_make v n) [] = [] \<and> Capacity (LinkedList_make v n) = n"
proof (cases n)
  case 0 then show ?thesis by (simp add: list_inv_def contents_def LinkedList_make_def LinkedList_Initialize_def Capacity_def)
next
  case (Suc k)
  let ?ns = "replicate n \<lparr>value_of = v, prev = None, nxt = None\<rparr>"
  define ms where "ms = fold (\<lambda>i. Link (Some (i - 1)) (Some i)) [1 ..< length ?ns] ?ns"
  have ms: "length ms = n" "nxt (ms ! x) = (if Suc x < n then Some (Suc x) else None)" if "x < n" for x
    using fold_links_nth [of "length ?ns" ?ns ms] that by (auto simp: ms_def)
  have "length ms = n" using ms(1) [of 0] Suc by simp
  then have "free_chain ms [0 ..< n]" using ms(2) by (intro free_chain_upt) auto
  moreover have "LinkedList_make v n = \<lparr>underlying = ms, head = None, tail = None, free = Some 0, m_length = 0\<rparr>"
    using Suc by (simp add: LinkedList_make_def LinkedList_Initialize_def ms_def)
  ultimately show ?thesis
    using ms(1) [of 0] Suc by (simp add: list_inv_def contents_def Capacity_def upt_conv_Cons atLeast_upt del: upt_Suc)
qed

end
