(* ===== verification/Out_Events.thy ===== *)
theory Out_Events
  imports App_Specs Out_List
begin

text \<open>
  The event buffer of the outstation (\<open>outstation/event\<close>): counters (\<open>ClazzCount.h\<close>), the lists of events with the
  update, selection, writing and removal of events (\<open>EventUpdate.h\<close>, \<open>EventSelection\<close>, \<open>EventWriting\<close>, \<open>EventStorage\<close>), the
  writers of event headers (\<open>EventWriters\<close>, \<open>ASDUEventWriteHandler\<close>) and the buffer itself (\<open>EventBuffer\<close>).

  The code keeps one list of all events and one list per type; both get a node when an event is added
  and lose it together, and the nodes point to each other. Here a record is the pair of nodes: the list of a
  type is the events of that type, in the same order. That the code's lists append and remove in this way is proved
  in \<open>Out_List\<close>.
\<close>

section \<open>Counters\<close>

record ClazzCount =
  num_class_1 :: u32
  num_class_2 :: u32
  num_class_3 :: u32

definition ClazzCount_zero :: ClazzCount where
  "ClazzCount_zero = \<lparr>num_class_1 = 0, num_class_2 = 0, num_class_3 = 0\<rparr>"

fun ClazzCount_Get :: "EventClass \<Rightarrow> ClazzCount \<Rightarrow> u32" where
  "ClazzCount_Get EC1 n = num_class_1 n"
| "ClazzCount_Get EC2 n = num_class_2 n"
| "ClazzCount_Get EC3 n = num_class_3 n"

fun ClazzCount_Increment :: "EventClass \<Rightarrow> ClazzCount \<Rightarrow> ClazzCount" where
  "ClazzCount_Increment EC1 n = n\<lparr>num_class_1 := num_class_1 n + 1\<rparr>"
| "ClazzCount_Increment EC2 n = n\<lparr>num_class_2 := num_class_2 n + 1\<rparr>"
| "ClazzCount_Increment EC3 n = n\<lparr>num_class_3 := num_class_3 n + 1\<rparr>"

fun ClazzCount_Decrement :: "EventClass \<Rightarrow> ClazzCount \<Rightarrow> ClazzCount" where
  "ClazzCount_Decrement EC1 n = n\<lparr>num_class_1 := num_class_1 n - 1\<rparr>"
| "ClazzCount_Decrement EC2 n = n\<lparr>num_class_2 := num_class_2 n - 1\<rparr>"
| "ClazzCount_Decrement EC3 n = n\<lparr>num_class_3 := num_class_3 n - 1\<rparr>"

definition ClazzCount_Any :: "ClazzCount \<Rightarrow> bool" where
  "ClazzCount_Any n = (num_class_1 n > 0 \<or> num_class_2 n > 0 \<or> num_class_3 n > 0)"

datatype EventState = Unselected | Selected | Written

record EventClassCounters =
  cc_total :: ClazzCount
  cc_written :: ClazzCount
  cc_selected :: u32

definition EventClassCounters_zero :: EventClassCounters where
  "EventClassCounters_zero = \<lparr>cc_total = ClazzCount_zero, cc_written = ClazzCount_zero, cc_selected = 0\<rparr>"

definition OnAdd :: "EventClass \<Rightarrow> EventClassCounters \<Rightarrow> EventClassCounters" where
  "OnAdd cl c = c\<lparr>cc_total := ClazzCount_Increment cl (cc_total c)\<rparr>"

definition OnSelect :: "EventClassCounters \<Rightarrow> EventClassCounters" where
  "OnSelect c = c\<lparr>cc_selected := cc_selected c + 1\<rparr>"

definition OnWrite :: "EventClass \<Rightarrow> EventClassCounters \<Rightarrow> EventClassCounters" where
  "OnWrite cl c = c\<lparr>cc_selected := cc_selected c - 1, cc_written := ClazzCount_Increment cl (cc_written c)\<rparr>"

definition ResetOnFail :: "EventClassCounters \<Rightarrow> EventClassCounters" where
  "ResetOnFail c = c\<lparr>cc_selected := 0, cc_written := ClazzCount_zero\<rparr>"

definition OnRemove :: "EventClass \<Rightarrow> EventState \<Rightarrow> EventClassCounters \<Rightarrow> EventClassCounters" where
  "OnRemove cl st c =
     (let c = (case st of Selected \<Rightarrow> c\<lparr>cc_selected := cc_selected c - 1\<rparr>
                 | Written \<Rightarrow> c\<lparr>cc_written := ClazzCount_Decrement cl (cc_written c)\<rparr>
                 | Unselected \<Rightarrow> c)
      in c\<lparr>cc_total := ClazzCount_Decrement cl (cc_total c)\<rparr>)"

section \<open>Events\<close>

datatype event_value =
    EvBinary Binary | EvDoubleBit DoubleBitBinary | EvAnalog Analog | EvCounter Counter | EvFrozen FrozenCounter
  | EvBOStatus BinaryOutputStatus | EvAOStatus AnalogOutputStatus | EvOctet OctetString

fun event_type :: "event_value \<Rightarrow> EventType" where
  "event_type (EvBinary m) = Binary_event"
| "event_type (EvDoubleBit m) = DoubleBitBinary_event"
| "event_type (EvAnalog m) = Analog_event"
| "event_type (EvCounter m) = Counter_event"
| "event_type (EvFrozen m) = FrozenCounter_event"
| "event_type (EvBOStatus m) = BinaryOutputStatus_event"
| "event_type (EvAOStatus m) = AnalogOutputStatus_event"
| "event_type (EvOctet m) = OctetString_event"

record Event =
  e_value :: event_value
  e_index :: u16
  e_clazz :: EventClass
  e_variation :: GroupVariation

record EventRecord =
  er_index :: u16
  er_clazz :: EventClass
  er_state :: EventState
  er_value :: event_value
  defaultVariation :: GroupVariation
  selectedVariation :: GroupVariation

definition EventRecord_make :: "Event \<Rightarrow> EventRecord" where
  "EventRecord_make e =
     \<lparr>er_index = e_index e, er_clazz = e_clazz e, er_state = Unselected, er_value = e_value e,
      defaultVariation = e_variation e, selectedVariation = e_variation e\<rparr>"

record EventBufferConfig =
  maxBinaryEvents :: u16
  maxDoubleBinaryEvents :: u16
  maxAnalogEvents :: u16
  maxCounterEvents :: u16
  maxFrozenCounterEvents :: u16
  maxBinaryOutputStatusEvents :: u16
  maxAnalogOutputStatusEvents :: u16
  maxOctetStringEvents :: u16

definition EventBufferConfig_AllTypes :: "u16 \<Rightarrow> EventBufferConfig" where
  "EventBufferConfig_AllTypes n =
     \<lparr>maxBinaryEvents = n, maxDoubleBinaryEvents = n, maxAnalogEvents = n, maxCounterEvents = n, maxFrozenCounterEvents = n,
      maxBinaryOutputStatusEvents = n, maxAnalogOutputStatusEvents = n, maxOctetStringEvents = n\<rparr>"

fun type_capacity :: "EventBufferConfig \<Rightarrow> EventType \<Rightarrow> nat" where
  "type_capacity c Binary_event = unat (maxBinaryEvents c)"
| "type_capacity c DoubleBitBinary_event = unat (maxDoubleBinaryEvents c)"
| "type_capacity c Analog_event = unat (maxAnalogEvents c)"
| "type_capacity c Counter_event = unat (maxCounterEvents c)"
| "type_capacity c FrozenCounter_event = unat (maxFrozenCounterEvents c)"
| "type_capacity c BinaryOutputStatus_event = unat (maxBinaryOutputStatusEvents c)"
| "type_capacity c AnalogOutputStatus_event = unat (maxAnalogOutputStatusEvents c)"
| "type_capacity c OctetString_event = unat (maxOctetStringEvents c)"

definition event_types :: "EventType list" where
  "event_types = [Binary_event, DoubleBitBinary_event, Analog_event, Counter_event, FrozenCounter_event,
     BinaryOutputStatus_event, AnalogOutputStatus_event, OctetString_event]"

definition TotalEvents :: "EventBufferConfig \<Rightarrow> nat" where
  "TotalEvents c = sum_list (map (type_capacity c) event_types)"

record EventLists =
  el_config :: EventBufferConfig
  el_events :: "EventRecord list"
  el_counters :: EventClassCounters

definition EventLists_make :: "EventBufferConfig \<Rightarrow> EventLists" where
  "EventLists_make c = \<lparr>el_config = c, el_events = [], el_counters = EventClassCounters_zero\<rparr>"

definition has_type :: "EventType \<Rightarrow> EventRecord \<Rightarrow> bool" where
  "has_type T r = (event_type (er_value r) = T)"

definition GetList :: "EventType \<Rightarrow> EventLists \<Rightarrow> EventRecord list" where
  "GetList T l = filter (has_type T) (el_events l)"

definition type_full :: "EventType \<Rightarrow> EventLists \<Rightarrow> bool" where
  "type_full T l = (length (GetList T l) = type_capacity (el_config l) T \<and> type_capacity (el_config l) T > 0)"

definition IsAnyTypeFull :: "EventLists \<Rightarrow> bool" where
  "IsAnyTypeFull l = list_ex (\<lambda>T. type_full T l) event_types"

section \<open>Storage\<close>

definition remove_head :: "EventType \<Rightarrow> EventLists \<Rightarrow> EventLists" where
  "remove_head T l =
     (case List.extract (has_type T) (el_events l) of
        None \<Rightarrow> l
      | Some (before, r, after) \<Rightarrow>
          l\<lparr>el_events := before @ after, el_counters := OnRemove (er_clazz r) (er_state r) (el_counters l)\<rparr>)"

definition EventUpdate_Update :: "Event \<Rightarrow> EventLists \<Rightarrow> bool \<times> EventLists" where
  "EventUpdate_Update e l =
     (let T = event_type (e_value e)
      in if type_capacity (el_config l) T = 0 then (False, l)
         else (let overflow = type_full T l;
                   l = (if overflow then remove_head T l else l)
               in (overflow, l\<lparr>el_events := el_events l @ [EventRecord_make e], el_counters := OnAdd (e_clazz e) (el_counters l)\<rparr>)))"

text \<open>The loops that select: at most \<open>max\<close> events that match and are not selected; the count is returned.\<close>

fun select_while :: "(EventRecord \<Rightarrow> bool) \<Rightarrow> (EventRecord \<Rightarrow> EventRecord) \<Rightarrow> nat \<Rightarrow> EventRecord list \<Rightarrow> nat \<times> EventRecord list" where
  "select_while match upd m [] = (0, [])"
| "select_while match upd m (r # rs) =
     (if m = 0 then (0, r # rs)
      else if match r \<and> er_state r = Unselected
      then (let (n, rs') = select_while match upd (m - 1) rs in (n + 1, upd (r\<lparr>er_state := Selected\<rparr>) # rs'))
      else (let (n, rs') = select_while match upd m rs in (n, r # rs')))"

definition select_events :: "(EventRecord \<Rightarrow> bool) \<Rightarrow> (EventRecord \<Rightarrow> EventRecord) \<Rightarrow> nat \<Rightarrow> EventLists \<Rightarrow> nat \<times> EventLists" where
  "select_events match upd m l =
     (let (n, rs) = select_while match upd m (el_events l)
      in (n, l\<lparr>el_events := rs, el_counters := (OnSelect ^^ n) (el_counters l)\<rparr>))"

definition SelectByType_default :: "EventType \<Rightarrow> nat \<Rightarrow> EventLists \<Rightarrow> nat \<times> EventLists" where
  "SelectByType_default T m l = select_events (has_type T) (\<lambda>r. r\<lparr>selectedVariation := defaultVariation r\<rparr>) m l"

definition SelectByType_variation :: "EventType \<Rightarrow> GroupVariation \<Rightarrow> nat \<Rightarrow> EventLists \<Rightarrow> nat \<times> EventLists" where
  "SelectByType_variation T v m l = select_events (has_type T) (\<lambda>r. r\<lparr>selectedVariation := v\<rparr>) m l"

definition EventSelection_SelectByClass :: "ClassField \<Rightarrow> nat \<Rightarrow> EventLists \<Rightarrow> nat \<times> EventLists" where
  "EventSelection_SelectByClass classes m l = select_events (\<lambda>r. HasEventType (er_clazz r) classes) (\<lambda>r. r) m l"

definition u32_max :: nat where "u32_max = 4294967295"

definition EventStorage_ClearWritten :: "EventLists \<Rightarrow> nat \<times> EventLists" where
  "EventStorage_ClearWritten l =
     (let gone = filter (\<lambda>r. er_state r = Written) (el_events l)
      in (length gone, l\<lparr>el_events := filter (\<lambda>r. er_state r \<noteq> Written) (el_events l),
                         el_counters := fold (\<lambda>r. OnRemove (er_clazz r) (er_state r)) gone (el_counters l)\<rparr>))"

definition EventStorage_Unselect :: "EventLists \<Rightarrow> EventLists" where
  "EventStorage_Unselect l =
     l\<lparr>el_events := map (\<lambda>r. r\<lparr>er_state := Unselected\<rparr>) (el_events l), el_counters := ResetOnFail (el_counters l)\<rparr>"

definition NumSelected :: "EventLists \<Rightarrow> u32" where
  "NumSelected l = cc_selected (el_counters l)"

definition NumUnwritten :: "EventClass \<Rightarrow> EventLists \<Rightarrow> u32" where
  "NumUnwritten cl l = ClazzCount_Get cl (cc_total (el_counters l)) - ClazzCount_Get cl (cc_written (el_counters l))"

section \<open>Writing\<close>

text \<open>
  One header: events of one type and variation, from the position of the iterator. The records that the
  iterator has passed are returned in front of those that are left.
\<close>

fun WriteSome_loop ::
  "EventType \<Rightarrow> GroupVariation \<Rightarrow> (event_value \<Rightarrow> u16 \<Rightarrow> 'w \<Rightarrow> bool \<times> 'w) \<Rightarrow> EventRecord list \<Rightarrow> EventClassCounters \<Rightarrow> 'w
     \<Rightarrow> u16 \<times> EventRecord list \<times> EventRecord list \<times> EventClassCounters \<times> 'w" where
  "WriteSome_loop T v wr1 [] c w = (0, [], [], c, w)"
| "WriteSome_loop T v wr1 (r # rs) c w =
     (if cc_selected c = 0 then (0, [], r # rs, c, w)
      else if er_state r \<noteq> Selected
      then (let (n, passed, rest, c, w) = WriteSome_loop T v wr1 rs c w in (n, r # passed, rest, c, w))
      else if \<not> has_type T r \<or> selectedVariation r \<noteq> v then (0, [], r # rs, c, w)
      else (let (ok, w) = wr1 (er_value r) (er_index r) w
            in if ok
               then (let (n, passed, rest, c, w) = WriteSome_loop T v wr1 rs (OnWrite (er_clazz r) c) w
                     in (n + 1, r\<lparr>er_state := Written\<rparr> # passed, rest, c, w))
               else (0, [], r # rs, c, w)))"

definition basic_write :: "u16_codec \<Rightarrow> 't DNP3Serializer \<Rightarrow> (event_value \<Rightarrow> 't) \<Rightarrow> event_value \<Rightarrow> u16
    \<Rightarrow> write_iterator \<times> HeaderWriter \<Rightarrow> bool \<times> write_iterator \<times> HeaderWriter" where
  "basic_write C S get v index it_w =
     (if wi_valid (fst it_w) then PrefixedWriteIterator_Write (index16 C) S (get v) (unat index) (fst it_w) (snd it_w)
      else (False, it_w))"

definition cto_write :: "u16_codec \<Rightarrow> DNPTime \<Rightarrow> 'v TypedMeasurement DNP3Serializer \<Rightarrow> (event_value \<Rightarrow> 'v TypedMeasurement) \<Rightarrow> event_value
    \<Rightarrow> u16 \<Rightarrow> write_iterator \<times> HeaderWriter \<Rightarrow> bool \<times> write_iterator \<times> HeaderWriter" where
  "cto_write C cto S get v index it_w =
     (let meas = get v
      in if \<not> wi_valid (fst it_w) then (False, it_w)
         else if (dt_quality cto = SYNCHRONIZED) \<noteq> (dt_quality (m_time meas) = SYNCHRONIZED) then (False, it_w)
         else if dt_value (m_time meas) < dt_value cto then (False, it_w)
         else (let diff = dt_value (m_time meas) - dt_value cto
               in if diff > 65535 then (False, it_w)
                  else PrefixedWriteIterator_Write (index16 C) S (meas\<lparr>m_time := DNPTime_of diff\<rparr>) (unat index) (fst it_w) (snd it_w)))"

text \<open>The common shape of the writers: the iterator is made, the loop runs, and the iterator is destroyed.\<close>

definition write_group ::
  "u16_codec \<Rightarrow> EventType \<Rightarrow> GroupVariation \<Rightarrow> (event_value \<Rightarrow> u16 \<Rightarrow> write_iterator \<times> HeaderWriter \<Rightarrow> bool \<times> write_iterator \<times> HeaderWriter)
     \<Rightarrow> write_iterator \<times> HeaderWriter \<Rightarrow> EventRecord list \<Rightarrow> EventClassCounters
     \<Rightarrow> u16 \<times> EventRecord list \<times> EventRecord list \<times> EventClassCounters \<times> HeaderWriter" where
  "write_group C T v wr1 it_w rs c =
     (let (n, passed, rest, c, it, w) = WriteSome_loop T v wr1 rs c it_w
      in (n, passed, rest, c, PrefixedWriteIterator_destroy (index16 C) it w))"

definition EventWriters_Write ::
  "u16_codec \<Rightarrow> 't DNP3Serializer \<Rightarrow> (event_value \<Rightarrow> 't) \<Rightarrow> EventType \<Rightarrow> GroupVariation \<Rightarrow> HeaderWriter \<Rightarrow> EventRecord list \<Rightarrow> EventClassCounters
     \<Rightarrow> u16 \<times> EventRecord list \<times> EventRecord list \<times> EventClassCounters \<times> HeaderWriter" where
  "EventWriters_Write C S get T v w rs c =
     write_group C T v (basic_write C S get) (IterateOverCountWithPrefix (index16 C) UINT16_CNT_UINT16_INDEX S w) rs c"

definition EventWriters_WriteWithCTO ::
  "le_lib \<Rightarrow> DNPTime \<Rightarrow> 'v TypedMeasurement DNP3Serializer \<Rightarrow> (event_value \<Rightarrow> 'v TypedMeasurement) \<Rightarrow> EventType \<Rightarrow> GroupVariation
     \<Rightarrow> HeaderWriter \<Rightarrow> EventRecord list \<Rightarrow> EventClassCounters
     \<Rightarrow> u16 \<times> EventRecord list \<times> EventRecord list \<times> EventClassCounters \<times> HeaderWriter" where
  "EventWriters_WriteWithCTO E cto S get T v w rs c =
     write_group (lib_u16 E) T v (cto_write (lib_u16 E) cto S get)
       (if dt_quality cto = SYNCHRONIZED
        then IterateOverCountWithPrefixAndCTO (index16 (lib_u16 E)) UINT16_CNT_UINT16_INDEX S (gvid 51 1) Group51Var1_Size
               (Group51Var1_Write E \<lparr>o_time = cto\<rparr>) w
        else IterateOverCountWithPrefixAndCTO (index16 (lib_u16 E)) UINT16_CNT_UINT16_INDEX S (gvid 51 2) Group51Var2_Size
               (Group51Var2_Write E \<lparr>o_time = cto\<rparr>) w) rs c"

definition octet_write :: "u16_codec \<Rightarrow> OctetString DNP3Serializer \<Rightarrow> (event_value \<Rightarrow> OctetString) \<Rightarrow> event_value \<Rightarrow> u16
    \<Rightarrow> write_iterator \<times> HeaderWriter \<Rightarrow> bool \<times> write_iterator \<times> HeaderWriter" where
  "octet_write C S get v index it_w =
     (if length (get v) \<noteq> ser_size S then (False, it_w)
      else PrefixedWriteIterator_Write (index16 C) S (get v) (unat index) (fst it_w) (snd it_w))"

definition EventWriters_WriteOctets ::
  "u16_codec \<Rightarrow> nat \<Rightarrow> (event_value \<Rightarrow> OctetString) \<Rightarrow> EventType \<Rightarrow> GroupVariation \<Rightarrow> HeaderWriter \<Rightarrow> EventRecord list \<Rightarrow> EventClassCounters
     \<Rightarrow> u16 \<times> EventRecord list \<times> EventRecord list \<times> EventClassCounters \<times> HeaderWriter" where
  "EventWriters_WriteOctets C firstSize get T v w rs c =
     write_group C T v (octet_write C (OctetStringSerializer True firstSize) get)
       (IterateOverCountWithPrefix (index16 C) UINT16_CNT_UINT16_INDEX (OctetStringSerializer True firstSize) w) rs c"

text \<open>
  The typed node of a record (\<open>TypedStorage<T>::Retrieve\<close>). The code casts without a check, and calls it for
  records of the type only; the other cases are never evaluated.
\<close>

definition as_binary :: "event_value \<Rightarrow> Binary" where
  "as_binary v = (case v of EvBinary m \<Rightarrow> m | EvBOStatus m \<Rightarrow> m | _ \<Rightarrow> Binary_default)"
definition as_double_bit :: "event_value \<Rightarrow> DoubleBitBinary" where
  "as_double_bit v = (case v of EvDoubleBit m \<Rightarrow> m | _ \<Rightarrow> DoubleBitBinary_default)"
definition as_analog :: "event_value \<Rightarrow> Analog" where
  "as_analog v = (case v of EvAnalog m \<Rightarrow> m | EvAOStatus m \<Rightarrow> m | _ \<Rightarrow> Analog_of_value double_zero)"
definition as_counter :: "event_value \<Rightarrow> Counter" where
  "as_counter v = (case v of EvCounter m \<Rightarrow> m | EvFrozen m \<Rightarrow> m | _ \<Rightarrow> Counter_of_value 0)"
definition as_octets :: "event_value \<Rightarrow> OctetString" where
  "as_octets v = (case v of EvOctet m \<Rightarrow> m | _ \<Rightarrow> OctetData_default)"

definition counter_event_serializer :: "le_lib \<Rightarrow> GroupVariation \<Rightarrow> Counter DNP3Serializer" where
  "counter_event_serializer E v =
     (if v = Group22Var2 then Group22Var2_Inst E else if v = Group22Var5 then Group22Var5_Inst E
      else if v = Group22Var6 then Group22Var6_Inst E else Group22Var1_Inst E)"

definition frozen_event_serializer :: "le_lib \<Rightarrow> GroupVariation \<Rightarrow> FrozenCounter DNP3Serializer option" where
  "frozen_event_serializer E v =
     (if v = Group23Var1 then Some (Group23Var1_Inst E) else if v = Group23Var2 then Some (Group23Var2_Inst E)
      else if v = Group23Var5 then Some (Group23Var5_Inst E) else if v = Group23Var6 then Some (Group23Var6_Inst E) else None)"

definition analog_event_serializer :: "le_lib \<Rightarrow> GroupVariation \<Rightarrow> Analog DNP3Serializer" where
  "analog_event_serializer E v =
     (if v = Group32Var2 then Group32Var2_Inst E else if v = Group32Var3 then Group32Var3_Inst E
      else if v = Group32Var4 then Group32Var4_Inst E else if v = Group32Var5 then Group32Var5_Inst E
      else if v = Group32Var6 then Group32Var6_Inst E else if v = Group32Var7 then Group32Var7_Inst E
      else if v = Group32Var8 then Group32Var8_Inst E else Group32Var1_Inst E)"

definition bo_event_serializer :: "le_lib \<Rightarrow> GroupVariation \<Rightarrow> BinaryOutputStatus DNP3Serializer" where
  "bo_event_serializer E v = (if v = Group11Var2 then Group11Var2_Inst E else Group11Var1_Inst E)"

definition ao_event_serializer :: "le_lib \<Rightarrow> GroupVariation \<Rightarrow> AnalogOutputStatus DNP3Serializer" where
  "ao_event_serializer E v =
     (if v = Group42Var2 then Group42Var2_Inst E else if v = Group42Var3 then Group42Var3_Inst E
      else if v = Group42Var4 then Group42Var4_Inst E else if v = Group42Var5 then Group42Var5_Inst E
      else if v = Group42Var6 then Group42Var6_Inst E else if v = Group42Var7 then Group42Var7_Inst E
      else if v = Group42Var8 then Group42Var8_Inst E else Group42Var1_Inst E)"

text \<open>\<open>ASDUEventWriteHandler::Write\<close> for the first selected event: its type and variation choose the writer.\<close>

definition ASDUEventWriteHandler_Write ::
  "le_lib \<Rightarrow> GroupVariation \<Rightarrow> event_value \<Rightarrow> HeaderWriter \<Rightarrow> EventRecord list \<Rightarrow> EventClassCounters
     \<Rightarrow> u16 \<times> EventRecord list \<times> EventRecord list \<times> EventClassCounters \<times> HeaderWriter" where
  "ASDUEventWriteHandler_Write E v first w rs c =
     (let C = lib_u16 E; T = event_type first
      in case first of
           EvBinary m \<Rightarrow>
             if v = Group2Var2 then EventWriters_Write C (Group2Var2_Inst E) as_binary T v w rs c
             else if v = Group2Var3 then EventWriters_WriteWithCTO E (m_time m) (Group2Var3_Inst E) as_binary T v w rs c
             else EventWriters_Write C (Group2Var1_Inst E) as_binary T v w rs c
         | EvDoubleBit m \<Rightarrow>
             if v = Group4Var2 then EventWriters_Write C (Group4Var2_Inst E) as_double_bit T v w rs c
             else if v = Group4Var3 then EventWriters_WriteWithCTO E (m_time m) (Group4Var3_Inst E) as_double_bit T v w rs c
             else EventWriters_Write C (Group4Var1_Inst E) as_double_bit T v w rs c
         | EvCounter m \<Rightarrow> EventWriters_Write C (counter_event_serializer E v) as_counter T v w rs c
         | EvFrozen m \<Rightarrow>
             (case frozen_event_serializer E v of
                None \<Rightarrow> (0, [], rs, c, w)
              | Some S \<Rightarrow> EventWriters_Write C S as_counter T v w rs c)
         | EvAnalog m \<Rightarrow> EventWriters_Write C (analog_event_serializer E v) as_analog T v w rs c
         | EvBOStatus m \<Rightarrow> EventWriters_Write C (bo_event_serializer E v) as_binary T v w rs c
         | EvAOStatus m \<Rightarrow> EventWriters_Write C (ao_event_serializer E v) as_analog T v w rs c
         | EvOctet m \<Rightarrow> EventWriters_WriteOctets C (length m) as_octets T v w rs c)"

definition EventWriting_WriteSome ::
  "le_lib \<Rightarrow> HeaderWriter \<Rightarrow> EventRecord list \<Rightarrow> EventClassCounters
     \<Rightarrow> u16 \<times> EventRecord list \<times> EventRecord list \<times> EventClassCounters \<times> HeaderWriter" where
  "EventWriting_WriteSome E w rs c =
     (if cc_selected c = 0 then (0, [], rs, c, w)
      else let skipped = takeWhile (\<lambda>r. er_state r \<noteq> Selected) rs; rs = dropWhile (\<lambda>r. er_state r \<noteq> Selected) rs
           in case rs of
                [] \<Rightarrow> (0, skipped, [], c, w)
              | r # _ \<Rightarrow>
                  (let (n, passed, rest, c, w) = ASDUEventWriteHandler_Write E (selectedVariation r) (er_value r) w rs c
                   in (n, skipped @ passed, rest, c, w)))"

lemma WriteSome_loop_split:
  "WriteSome_loop T v wr1 rs c w = (n, passed, rest, c', w') \<Longrightarrow>
     length passed + length rest = length rs \<and> (n \<noteq> 0 \<longrightarrow> passed \<noteq> [])"
proof (induction T v wr1 rs c w arbitrary: n passed rest c' w' rule: WriteSome_loop.induct)
  case (2 T v wr1 r rs c w)
  show ?case
  proof (cases "cc_selected c = 0 \<or> (er_state r = Selected \<and> (\<not> has_type T r \<or> selectedVariation r \<noteq> v))")
    case True with 2(3) show ?thesis by (auto split: if_splits)
  next
    case False
    then show ?thesis using 2 by (fastforce split: if_splits prod.splits)
  qed
qed simp

lemma ASDU_split:
  "ASDUEventWriteHandler_Write E v f w rs c = (n, passed, rest, c', w') \<Longrightarrow>
     length passed + length rest = length rs \<and> (n \<noteq> 0 \<longrightarrow> passed \<noteq> [])"
  by (auto simp: ASDUEventWriteHandler_Write_def EventWriters_Write_def EventWriters_WriteWithCTO_def EventWriters_WriteOctets_def
      write_group_def Let_def dest!: WriteSome_loop_split split: event_value.splits if_splits option.splits prod.splits)

lemma WriteSome_split:
  assumes "EventWriting_WriteSome E w rs c = (n, passed, rest, c', w')"
  shows "length passed + length rest = length rs \<and> (n \<noteq> 0 \<longrightarrow> passed \<noteq> [])"
proof (cases "cc_selected c = 0")
  case False
  let ?d = "dropWhile (\<lambda>r. er_state r \<noteq> Selected) rs"
  have l: "length (takeWhile (\<lambda>r. er_state r \<noteq> Selected) rs) + length ?d = length rs"
    by (metis length_append takeWhile_dropWhile_id)
  with assms False show ?thesis
    by (auto simp: EventWriting_WriteSome_def Let_def dest!: ASDU_split split: list.splits prod.splits)
qed (use assms in \<open>auto simp: EventWriting_WriteSome_def\<close>)

function EventWriting_loop ::
  "le_lib \<Rightarrow> HeaderWriter \<Rightarrow> EventRecord list \<Rightarrow> EventClassCounters \<Rightarrow> EventRecord list \<times> EventClassCounters \<times> HeaderWriter" where
  "EventWriting_loop E w rs c =
     (let (n, passed, rest, c', w') = EventWriting_WriteSome E w rs c
      in if n = 0 then (passed @ rest, c', w')
         else (let (rs', c', w') = EventWriting_loop E w' rest c' in (passed @ rs', c', w')))"
  by pat_completeness auto
termination
proof (relation "measure (\<lambda>(E, w, rs, c). length rs)")
  fix E w rs c x n y passed z rest u c' w'
  assume "x = EventWriting_WriteSome E w rs c" "(n, y) = x" "(passed, z) = y" "(rest, u) = z" "(c', w') = u" "n \<noteq> 0"
  with WriteSome_split [of E w rs c n passed rest c' w']
  show "((E, w', rest, c'), (E, w, rs, c)) \<in> measure (\<lambda>(E, w, rs, c). length rs)" by (cases passed) auto
qed simp

declare EventWriting_loop.simps [simp del]

definition EventWriting_Write :: "le_lib \<Rightarrow> HeaderWriter \<Rightarrow> EventLists \<Rightarrow> EventLists \<times> HeaderWriter" where
  "EventWriting_Write E w l =
     (let (rs, c, w) = EventWriting_loop E w (el_events l) (el_counters l) in (l\<lparr>el_events := rs, el_counters := c\<rparr>, w))"

section \<open>The buffer\<close>

record EventBuffer =
  eb_overflow :: bool
  eb_storage :: EventLists

definition EventBuffer_make :: "EventBufferConfig \<Rightarrow> EventBuffer" where
  "EventBuffer_make c = \<lparr>eb_overflow = False, eb_storage = EventLists_make c\<rparr>"

definition EventBuffer_Update :: "Event \<Rightarrow> EventBuffer \<Rightarrow> EventBuffer" where
  "EventBuffer_Update e b =
     (let (overflow, l) = EventUpdate_Update e (eb_storage b) in b\<lparr>eb_overflow := (if overflow then True else eb_overflow b), eb_storage := l\<rparr>)"

definition EventBuffer_Unselect :: "EventBuffer \<Rightarrow> EventBuffer" where
  "EventBuffer_Unselect b = b\<lparr>eb_storage := EventStorage_Unselect (eb_storage b)\<rparr>"

text \<open>The cases of the switch by group and variation.\<close>

definition default_selections :: "(GroupVariation \<times> EventType) list" where
  "default_selections =
     [(Group2Var0, Binary_event), (Group4Var0, DoubleBitBinary_event), (Group11Var0, BinaryOutputStatus_event),
      (Group22Var0, Counter_event), (Group23Var0, FrozenCounter_event), (Group32Var0, Analog_event),
      (Group42Var0, AnalogOutputStatus_event)]"

definition variation_selections :: "(GroupVariation \<times> EventType) list" where
  "variation_selections =
     map (\<lambda>v. (v, Binary_event)) EventBinaryVariations @ map (\<lambda>v. (v, DoubleBitBinary_event)) EventDoubleBinaryVariations
     @ map (\<lambda>v. (v, BinaryOutputStatus_event)) EventBinaryOutputStatusVariations @ map (\<lambda>v. (v, Counter_event)) EventCounterVariations
     @ map (\<lambda>v. (v, FrozenCounter_event)) EventFrozenCounterVariations @ map (\<lambda>v. (v, Analog_event)) EventAnalogVariations
     @ map (\<lambda>v. (v, AnalogOutputStatus_event)) EventAnalogOutputStatusVariations @ map (\<lambda>v. (v, OctetString_event)) EventOctetStringVariations"

definition class_selections :: "(GroupVariation \<times> EventClass) list" where
  "class_selections = [(Group60Var2, EC1), (Group60Var3, EC2), (Group60Var4, EC3)]"

definition SelectMaxCount :: "GroupVariation \<Rightarrow> nat \<Rightarrow> EventBuffer \<Rightarrow> IINField \<times> EventBuffer" where
  "SelectMaxCount gv maximum b =
     (case map_of default_selections gv of
        Some T \<Rightarrow> (IIN_Empty, b\<lparr>eb_storage := snd (SelectByType_default T maximum (eb_storage b))\<rparr>)
      | None \<Rightarrow>
          case map_of variation_selections gv of
            Some T \<Rightarrow> (IIN_Empty, b\<lparr>eb_storage := snd (SelectByType_variation T gv maximum (eb_storage b))\<rparr>)
          | None \<Rightarrow>
              case map_of class_selections gv of
                Some cl \<Rightarrow> (IIN_Empty, b\<lparr>eb_storage := snd (EventSelection_SelectByClass (ClassField_of_event cl) maximum (eb_storage b))\<rparr>)
              | None \<Rightarrow> (IIN_of FUNC_NOT_SUPPORTED, b))"

definition EventBuffer_SelectAll :: "GroupVariation \<Rightarrow> EventBuffer \<Rightarrow> IINField \<times> EventBuffer" where
  "EventBuffer_SelectAll gv b = SelectMaxCount gv u32_max b"

definition EventBuffer_SelectCount :: "GroupVariation \<Rightarrow> u16 \<Rightarrow> EventBuffer \<Rightarrow> IINField \<times> EventBuffer" where
  "EventBuffer_SelectCount gv count b = SelectMaxCount gv (unat count) b"

definition EventBuffer_HasAnySelection :: "EventBuffer \<Rightarrow> bool" where
  "EventBuffer_HasAnySelection b = (NumSelected (eb_storage b) > 0)"

definition EventBuffer_Load :: "le_lib \<Rightarrow> HeaderWriter \<Rightarrow> EventBuffer \<Rightarrow> bool \<times> EventBuffer \<times> HeaderWriter" where
  "EventBuffer_Load E w b =
     (let (l, w) = EventWriting_Write E w (eb_storage b) in (NumSelected l = 0, b\<lparr>eb_storage := l\<rparr>, w))"

definition UnwrittenClassField :: "EventBuffer \<Rightarrow> ClassField" where
  "UnwrittenClassField b =
     ClassField_make False (NumUnwritten EC1 (eb_storage b) > 0) (NumUnwritten EC2 (eb_storage b) > 0) (NumUnwritten EC3 (eb_storage b) > 0)"

definition IsOverflown :: "EventBuffer \<Rightarrow> bool \<times> EventBuffer" where
  "IsOverflown b =
     (let b = (if eb_overflow b \<and> \<not> IsAnyTypeFull (eb_storage b) then b\<lparr>eb_overflow := False\<rparr> else b) in (eb_overflow b, b))"

definition SelectAllByClass :: "ClassField \<Rightarrow> EventBuffer \<Rightarrow> EventBuffer" where
  "SelectAllByClass classes b = b\<lparr>eb_storage := snd (EventSelection_SelectByClass classes u32_max (eb_storage b))\<rparr>"

definition EventBuffer_ClearWritten :: "EventBuffer \<Rightarrow> EventBuffer" where
  "EventBuffer_ClearWritten b = b\<lparr>eb_storage := snd (EventStorage_ClearWritten (eb_storage b))\<rparr>"

definition NumEvents :: "EventClass \<Rightarrow> EventBuffer \<Rightarrow> u32" where
  "NumEvents cl b = NumUnwritten cl (eb_storage b)"

section \<open>The counters count\<close>

definition class_counts :: "EventRecord list \<Rightarrow> ClazzCount" where
  "class_counts rs =
     \<lparr>num_class_1 = of_nat (length (filter (\<lambda>r. er_clazz r = EC1) rs)), num_class_2 = of_nat (length (filter (\<lambda>r. er_clazz r = EC2) rs)),
      num_class_3 = of_nat (length (filter (\<lambda>r. er_clazz r = EC3) rs))\<rparr>"

abbreviation is_selected :: "EventRecord \<Rightarrow> bool" where "is_selected r \<equiv> er_state r = Selected"
abbreviation is_written :: "EventRecord \<Rightarrow> bool" where "is_written r \<equiv> er_state r = Written"

definition counts :: "EventRecord list \<Rightarrow> EventClassCounters" where
  "counts rs =
     \<lparr>cc_total = class_counts rs, cc_written = class_counts (filter is_written rs), cc_selected = of_nat (length (filter is_selected rs))\<rparr>"

lemma class_counts_snoc: "class_counts (a @ r # b) = ClazzCount_Increment (er_clazz r) (class_counts (a @ b))"
  by (cases "er_clazz r") (simp_all add: class_counts_def)

lemma decrement_increment [simp]: "ClazzCount_Decrement cl (ClazzCount_Increment cl n) = n"
  by (cases cl) simp_all

lemma counts_OnAdd: "er_state r = Unselected \<Longrightarrow> OnAdd (er_clazz r) (counts rs) = counts (rs @ [r])"
  using class_counts_snoc [of rs r "[]"] by (simp add: counts_def OnAdd_def)

lemma counts_OnRemove: "OnRemove (er_clazz r) (er_state r) (counts (a @ r # b)) = counts (a @ b)"
  using class_counts_snoc [of a r b] class_counts_snoc [of "filter is_written a" r "filter is_written b"]
  by (cases "er_state r") (simp_all add: counts_def OnRemove_def Let_def)

lemma counts_OnSelect:
  assumes "er_state r = Unselected" "er_state r' = Selected" "er_clazz r' = er_clazz r"
  shows "OnSelect (counts (a @ r # b)) = counts (a @ r' # b)"
  using assms class_counts_snoc [of a r b] class_counts_snoc [of a r' b] by (simp add: counts_def OnSelect_def)

lemma counts_OnWrite:
  assumes "er_state r = Selected" "er_state r' = Written" "er_clazz r' = er_clazz r"
  shows "OnWrite (er_clazz r) (counts (a @ r # b)) = counts (a @ r' # b)"
  using assms class_counts_snoc [of a r b] class_counts_snoc [of a r' b]
    class_counts_snoc [of "filter is_written a" r' "filter is_written b"] by (simp add: counts_def OnWrite_def)

lemma class_counts_map: "(\<And>r. er_clazz (f r) = er_clazz r) \<Longrightarrow> class_counts (map f rs) = class_counts rs"
  by (simp add: class_counts_def filter_map comp_def)

lemma counts_Reset: "ResetOnFail (counts rs) = counts (map (\<lambda>r. r\<lparr>er_state := Unselected\<rparr>) rs)"
  by (simp add: counts_def ResetOnFail_def class_counts_map filter_map comp_def) (simp add: class_counts_def ClazzCount_zero_def)

lemma counts_empty: "counts [] = EventClassCounters_zero"
  by (simp add: counts_def class_counts_def EventClassCounters_zero_def ClazzCount_zero_def)

lemma of_nat_zero_iff: "n < 4294967296 \<Longrightarrow> ((of_nat n :: u32) = 0) = (n = 0)"
  by (auto simp: word_of_nat_eq_0_iff dest: dvd_imp_le)

section \<open>The invariant of the storage\<close>

text \<open>No type has more events than its list has nodes, and the counters count the events.\<close>

definition storage_inv :: "EventLists \<Rightarrow> bool" where
  "storage_inv l =
     (el_counters l = counts (el_events l) \<and> (\<forall>T. length (GetList T l) \<le> type_capacity (el_config l) T))"

lemma type_capacity_le: "type_capacity c T \<le> 65535"
proof -
  have "unat w \<le> 65535" for w :: u16 using unat_u16_less [of w] by linarith
  then show ?thesis by (cases T) simp_all
qed

lemma length_by_types: "length rs = sum_list (map (\<lambda>T. length (filter (has_type T) rs)) event_types)"
proof (induction rs)
  case (Cons r rs)
  then show ?case by (cases "er_value r") (simp_all add: event_types_def has_type_def)
qed (simp add: event_types_def)

lemma storage_bound:
  assumes "\<And>T. length (GetList T l) \<le> type_capacity (el_config l) T"
  shows "length (el_events l) \<le> TotalEvents (el_config l) \<and> length (el_events l) \<le> 524280"
proof -
  have "length (el_events l) \<le> TotalEvents (el_config l)"
    unfolding length_by_types [of "el_events l"] TotalEvents_def using assms by (intro sum_list_mono) (simp add: GetList_def)
  moreover have "TotalEvents (el_config l) \<le> 8 * 65535"
    using sum_list_mono [of event_types "type_capacity (el_config l)" "\<lambda>_. 65535"] type_capacity_le
    by (simp add: TotalEvents_def event_types_def)
  ultimately show ?thesis by simp
qed

lemma storage_make: "storage_inv (EventLists_make c)"
  by (simp add: storage_inv_def EventLists_make_def counts_empty GetList_def)

lemma remove_head_split:
  assumes "storage_inv l" "type_full T l"
  obtains before r after where "el_events l = before @ r # after" "has_type T r" "filter (has_type T) before = []"
    "remove_head T l = l\<lparr>el_events := before @ after, el_counters := counts (before @ after)\<rparr>"
proof -
  have "GetList T l \<noteq> []" using assms(2) by (auto simp: type_full_def)
  then have "\<exists>x \<in> set (el_events l). has_type T x" by (auto simp: GetList_def filter_empty_conv)
  then obtain before r after where e: "List.extract (has_type T) (el_events l) = Some (before, r, after)"
    using extract_None_iff [of "has_type T" "el_events l"] by (cases "List.extract (has_type T) (el_events l)") auto
  then have s: "el_events l = before @ r # after" "has_type T r" "filter (has_type T) before = []"
    by (auto simp: extract_Some_iff filter_empty_conv)
  have "remove_head T l = l\<lparr>el_events := before @ after, el_counters := counts (before @ after)\<rparr>"
    using e s(1) assms(1) by (simp add: remove_head_def storage_inv_def counts_OnRemove)
  with s show ?thesis using that by blast
qed

lemma has_type_make [simp]: "has_type T (EventRecord_make e) = (T = event_type (e_value e))"
  by (auto simp: has_type_def EventRecord_make_def)

text \<open>
  An update appends the event; when the list of its type is full, the oldest event of that type, and no other, goes.
\<close>

lemma Update_spec:
  assumes "storage_inv l" "EventUpdate_Update e l = (overflow, l')"
  shows "storage_inv l' \<and> el_config l' = el_config l \<and>
    (let T = event_type (e_value e)
     in if type_capacity (el_config l) T = 0 then l' = l \<and> \<not> overflow
        else if length (GetList T l) < type_capacity (el_config l) T
        then \<not> overflow \<and> el_events l' = el_events l @ [EventRecord_make e]
        else overflow \<and> (\<exists>before r after. el_events l = before @ r # after \<and> has_type T r \<and> filter (has_type T) before = []
               \<and> el_events l' = before @ after @ [EventRecord_make e]))"
proof -
  let ?T = "event_type (e_value e)"
  have m: "er_state (EventRecord_make e) = Unselected" "er_clazz (EventRecord_make e) = e_clazz e"
    by (simp_all add: EventRecord_make_def)
  show ?thesis
  proof (cases "type_capacity (el_config l) ?T = 0")
    case True then show ?thesis using assms by (simp add: EventUpdate_Update_def)
  next
    case cap: False
    show ?thesis
    proof (cases "type_full ?T l")
      case True
      from remove_head_split [OF assms(1) this] obtain before r after
        where s: "el_events l = before @ r # after" "has_type ?T r" "filter (has_type ?T) before = []"
          "remove_head ?T l = l\<lparr>el_events := before @ after, el_counters := counts (before @ after)\<rparr>" .
      have l': "overflow" "l' = l\<lparr>el_events := before @ after @ [EventRecord_make e], el_counters := counts (before @ after @ [EventRecord_make e])\<rparr>"
        using assms(2) cap True s(4) counts_OnAdd [OF m(1), of "before @ after"] by (auto simp: EventUpdate_Update_def Let_def m)
      have c: "length (filter (has_type T) (before @ r # after)) \<le> type_capacity (el_config l) T" for T
        using assms(1) s(1) by (simp add: storage_inv_def GetList_def)
      have "has_type T r = (T = ?T)" for T using s(2) by (auto simp: has_type_def)
      then have "length (filter (has_type T) (before @ after @ [EventRecord_make e])) \<le> type_capacity (el_config l) T" for T
        using c [of T] by (cases "T = ?T") simp_all
      then have "storage_inv l'" by (simp add: storage_inv_def l' GetList_def)
      then show ?thesis using True cap l' s by (auto simp: type_full_def Let_def)
    next
      case False
      have le: "length (GetList T l) \<le> type_capacity (el_config l) T" for T using assms(1) by (simp add: storage_inv_def)
      have l': "\<not> overflow" "l' = l\<lparr>el_events := el_events l @ [EventRecord_make e], el_counters := counts (el_events l @ [EventRecord_make e])\<rparr>"
        using assms cap False counts_OnAdd [OF m(1), of "el_events l"] by (auto simp: EventUpdate_Update_def Let_def m storage_inv_def)
      have lt: "length (GetList ?T l) < type_capacity (el_config l) ?T"
        using le [of ?T] cap False by (auto simp: type_full_def)
      have "storage_inv l'" using le lt by (auto simp: storage_inv_def l' GetList_def)
      then show ?thesis using lt cap l' by (simp add: Let_def)
    qed
  qed
qed

end
