(* ===== verification/Out_Map.thy ===== *)
theory Out_Map
  imports App_Specs Out_Events
begin

text \<open>
  The points of one type (\<open>outstation/StaticDataMap\<close>, \<open>outstation/StaticDataCell.h\<close>): values, event cells and
  the selection that a read leaves and the writing of the response consumes. A \<open>std::map\<close> with the
  indices as keys is the list of its elements in the order of their keys. The template parameter \<open>Spec\<close> is a
  record of the functions of the type (\<open>app/MeasurementTypeSpecs.h\<close>).
\<close>

section \<open>Cells\<close>

record 'm SelectedValue =
  sel_selected :: bool
  sel_value :: 'm
  sel_variation :: GroupVariation

record ('m, 'd) StaticDataCell =
  c_value :: 'm
  c_config :: "'d PointConfig"
  c_lastEvent :: 'm
  c_selection :: "'m SelectedValue"

record ('m, 'd) Spec =
  sp_default :: 'm
  sp_variation :: GroupVariation
  sp_IsEvent :: "'m \<Rightarrow> 'm \<Rightarrow> 'd PointConfig \<Rightarrow> bool"
  sp_promote :: "'m \<Rightarrow> GroupVariation \<Rightarrow> GroupVariation"
  sp_event :: "'m \<Rightarrow> event_value"

definition StaticDataCell_make :: "('m, 'd) Spec \<Rightarrow> 'd PointConfig \<Rightarrow> ('m, 'd) StaticDataCell" where
  "StaticDataCell_make S cfg =
     \<lparr>c_value = sp_default S, c_config = cfg, c_lastEvent = sp_default S,
      c_selection = \<lparr>sel_selected = False, sel_value = sp_default S, sel_variation = sp_variation S\<rparr>\<rparr>"

record ('m, 'd) StaticDataMap =
  sd_map :: "(u16 \<times> ('m, 'd) StaticDataCell) list"
  sd_selected :: Range

definition Range_Invalid :: Range where "Range_Invalid = \<lparr>start = 1, stop = 0\<rparr>"

definition StaticDataMap_make :: "('m, 'd) Spec \<Rightarrow> (u16 \<times> 'd PointConfig) list \<Rightarrow> ('m, 'd) StaticDataMap" where
  "StaticDataMap_make S cfg = \<lparr>sd_map = map (\<lambda>(i, c). (i, StaticDataCell_make S c)) cfg, sd_selected = Range_Invalid\<rparr>"

fun convert_to_event_class :: "PointClass \<Rightarrow> EventClass option" where
  "convert_to_event_class Class1 = Some EC1"
| "convert_to_event_class Class2 = Some EC2"
| "convert_to_event_class Class3 = Some EC3"
| "convert_to_event_class _ = None"

definition binary_promotion :: "Binary \<Rightarrow> GroupVariation \<Rightarrow> GroupVariation" where
  "binary_promotion v variation = (if variation = Group1Var1 then (if IsQualityOnlineOnly v then variation else Group1Var2) else variation)"

section \<open>Iteration\<close>

text \<open>
  The iterator of the selection: the elements it has passed, and those from its position to the end of the map.
  Going on clears the selection of the element at its position and stops at the next one that is selected; the
  range becomes shorter, or invalid at the end.
\<close>

record ('m, 'd) map_iterator =
  mi_passed :: "(u16 \<times> ('m, 'd) StaticDataCell) list"
  mi_rest :: "(u16 \<times> ('m, 'd) StaticDataCell) list"
  mi_range :: Range

definition is_picked :: "u16 \<times> ('m, 'd) StaticDataCell \<Rightarrow> bool" where
  "is_picked e = sel_selected (c_selection (snd e))"

definition unpick :: "u16 \<times> ('m, 'd) StaticDataCell \<Rightarrow> u16 \<times> ('m, 'd) StaticDataCell" where
  "unpick = (\<lambda>(i, c). (i, c\<lparr>c_selection := (c_selection c)\<lparr>sel_selected := False\<rparr>\<rparr>))"

definition sd_begin :: "('m, 'd) StaticDataMap \<Rightarrow> ('m, 'd) map_iterator" where
  "sd_begin m =
     (if Range_IsValid (sd_selected m)
      then \<lparr>mi_passed = takeWhile (\<lambda>(i, c). i < start (sd_selected m)) (sd_map m),
            mi_rest = dropWhile (\<lambda>(i, c). i < start (sd_selected m)) (sd_map m), mi_range = sd_selected m\<rparr>
      else \<lparr>mi_passed = sd_map m, mi_rest = [], mi_range = sd_selected m\<rparr>)"

definition mi_next :: "('m, 'd) map_iterator \<Rightarrow> ('m, 'd) map_iterator" where
  "mi_next z =
     (case mi_rest z of
        [] \<Rightarrow> z
      | e # rest \<Rightarrow>
          let skipped = takeWhile (\<lambda>x. \<not> is_picked x) rest; rest = dropWhile (\<lambda>x. \<not> is_picked x) rest
          in \<lparr>mi_passed = mi_passed z @ unpick e # skipped, mi_rest = rest,
              mi_range = (case rest of [] \<Rightarrow> Range_Invalid | (i, c) # _ \<Rightarrow> (mi_range z)\<lparr>start := i\<rparr>)\<rparr>)"

definition mi_map :: "('m, 'd) map_iterator \<Rightarrow> ('m, 'd) StaticDataMap" where
  "mi_map z = \<lparr>sd_map = mi_passed z @ mi_rest z, sd_selected = mi_range z\<rparr>"

lemma mi_next_less: "mi_rest z \<noteq> [] \<Longrightarrow> length (mi_rest (mi_next z)) < length (mi_rest z)"
  by (cases "mi_rest z") (simp_all add: mi_next_def Let_def le_imp_less_Suc length_dropWhile_le)

lemma mi_next_less_cons: "mi_rest z = e # rest \<Longrightarrow> length (mi_rest (mi_next z)) < Suc (length rest)"
  using mi_next_less [of z] by simp

function clear_loop :: "('m, 'd) map_iterator \<Rightarrow> ('m, 'd) map_iterator" where
  "clear_loop z = (if mi_rest z = [] then z else clear_loop (mi_next z))"
  by pat_completeness auto
termination by (relation "measure (\<lambda>z. length (mi_rest z))") (simp_all add: mi_next_less)

declare clear_loop.simps [simp del]

definition clear_selection :: "('m, 'd) StaticDataMap \<Rightarrow> ('m, 'd) StaticDataMap" where
  "clear_selection m = mi_map (clear_loop (sd_begin m))"

definition has_any_selection :: "('m, 'd) StaticDataMap \<Rightarrow> bool" where
  "has_any_selection m = Range_IsValid (sd_selected m)"

section \<open>Selection\<close>

text \<open>The variation of a point is its own (\<open>None\<close>), or the one of the request.\<close>

definition pick :: "('m, 'd) Spec \<Rightarrow> GroupVariation option \<Rightarrow> u16 \<times> ('m, 'd) StaticDataCell \<Rightarrow> u16 \<times> ('m, 'd) StaticDataCell" where
  "pick S vo = (\<lambda>(i, c). (i, c\<lparr>c_selection := \<lparr>sel_selected = True, sel_value = c_value c,
     sel_variation = sp_promote S (c_value c) (case vo of None \<Rightarrow> svariation (c_config c) | Some v \<Rightarrow> v)\<rparr>\<rparr>))"

definition get_full_range :: "('m, 'd) StaticDataMap \<Rightarrow> Range" where
  "get_full_range m = (if sd_map m = [] then Range_Invalid else \<lparr>start = fst (hd (sd_map m)), stop = fst (List.last (sd_map m))\<rparr>)"

definition sd_select_all :: "('m, 'd) Spec \<Rightarrow> GroupVariation option \<Rightarrow> ('m, 'd) StaticDataMap \<Rightarrow> nat \<times> ('m, 'd) StaticDataMap" where
  "sd_select_all S vo m =
     (if sd_map m = [] then (0, m)
      else (length (sd_map m), \<lparr>sd_map = map (pick S vo) (sd_map m), sd_selected = get_full_range m\<rparr>))"

definition sd_select :: "('m, 'd) Spec \<Rightarrow> GroupVariation option \<Rightarrow> Range \<Rightarrow> ('m, 'd) StaticDataMap \<Rightarrow> nat \<times> ('m, 'd) StaticDataMap" where
  "sd_select S vo range1 m =
     (if \<not> Range_IsValid range1 then (0, m)
      else let below = takeWhile (\<lambda>(i, c). i < start range1) (sd_map m); from1 = dropWhile (\<lambda>(i, c). i < start range1) (sd_map m);
               hit = takeWhile (\<lambda>(i, c). Range_Contains range1 i) from1; above = dropWhile (\<lambda>(i, c). Range_Contains range1 i) from1
           in if hit = [] then (0, m)
              else (length hit, \<lparr>sd_map = below @ map (pick S vo) hit @ above,
                sd_selected = Range_Union (sd_selected m) \<lparr>start = fst (hd hit), stop = fst (List.last hit)\<rparr>\<rparr>))"

section \<open>Changes\<close>

definition sd_add :: "('m, 'd) Spec \<Rightarrow> 'm \<Rightarrow> u16 \<Rightarrow> 'd PointConfig \<Rightarrow> ('m, 'd) StaticDataMap \<Rightarrow> bool \<times> ('m, 'd) StaticDataMap" where
  "sd_add S v i cfg m =
     (if i \<in> fst ` set (sd_map m) then (False, m)
      else (True, m\<lparr>sd_map := takeWhile (\<lambda>(j, c). j < i) (sd_map m) @ (i, (StaticDataCell_make S cfg)\<lparr>c_value := v\<rparr>)
                                # dropWhile (\<lambda>(j, c). j < i) (sd_map m)\<rparr>))"

text \<open>The events that an update reports to the receiver are returned: none or one.\<close>

definition update_cell :: "('m, 'd) Spec \<Rightarrow> 'm \<Rightarrow> EventMode \<Rightarrow> u16 \<Rightarrow> ('m, 'd) StaticDataCell \<Rightarrow> Event list \<times> ('m, 'd) StaticDataCell" where
  "update_cell S new_value mode i c =
     (let c = (if mode \<noteq> EventOnly then c\<lparr>c_value := new_value\<rparr> else c)
      in if mode = Force \<or> mode = EventOnly \<or> sp_IsEvent S (c_lastEvent c) new_value (c_config c)
         then (if mode \<noteq> Suppress
               then case convert_to_event_class (clazz (c_config c)) of
                      None \<Rightarrow> []
                    | Some ec \<Rightarrow> [\<lparr>e_value = sp_event S new_value, e_index = i, e_clazz = ec, e_variation = evariation (c_config c)\<rparr>]
               else [], c\<lparr>c_lastEvent := new_value\<rparr>)
         else ([], c))"

definition replace_cell :: "u16 \<Rightarrow> 'c \<Rightarrow> (u16 \<times> 'c) list \<Rightarrow> (u16 \<times> 'c) list" where
  "replace_cell i c = map (\<lambda>(j, d). if j = i then (j, c) else (j, d))"

definition sd_update :: "('m, 'd) Spec \<Rightarrow> 'm \<Rightarrow> u16 \<Rightarrow> EventMode \<Rightarrow> ('m, 'd) StaticDataMap \<Rightarrow> bool \<times> Event list \<times> ('m, 'd) StaticDataMap" where
  "sd_update S v i mode m =
     (case map_of (sd_map m) i of
        None \<Rightarrow> (False, [], m)
      | Some c \<Rightarrow> (let (evs, c) = update_cell S v mode i c in (True, evs, m\<lparr>sd_map := replace_cell i c (sd_map m)\<rparr>)))"

text \<open>The update of a time and interval only stores the value.\<close>

definition sd_update_time :: "TimeAndInterval \<Rightarrow> u16 \<Rightarrow> (TimeAndInterval, 'd) StaticDataMap \<Rightarrow> bool \<times> (TimeAndInterval, 'd) StaticDataMap" where
  "sd_update_time v i m =
     (case map_of (sd_map m) i of
        None \<Rightarrow> (False, m)
      | Some c \<Rightarrow> (True, m\<lparr>sd_map := replace_cell i (c\<lparr>c_value := v\<rparr>) (sd_map m)\<rparr>))"

fun modify_loop :: "('v TypedMeasurement, 'd) Spec \<Rightarrow> u16 \<Rightarrow> byte \<Rightarrow> (u16 \<times> ('v TypedMeasurement, 'd) StaticDataCell) list
    \<Rightarrow> bool \<times> Event list \<times> (u16 \<times> ('v TypedMeasurement, 'd) StaticDataCell) list" where
  "modify_loop S final flags [] = (True, [], [])"
| "modify_loop S final flags ((i, c) # rest) =
     (if i > final then (False, [], (i, c) # rest)
      else (let (evs, c) = update_cell S ((c_value c)\<lparr>m_flags := flags\<rparr>) Detect i c;
                (ok, more, rest) = modify_loop S final flags rest
            in (ok, evs @ more, (i, c) # rest)))"

definition sd_modify :: "('v TypedMeasurement, 'd) Spec \<Rightarrow> u16 \<Rightarrow> u16 \<Rightarrow> byte \<Rightarrow> ('v TypedMeasurement, 'd) StaticDataMap
    \<Rightarrow> bool \<times> Event list \<times> ('v TypedMeasurement, 'd) StaticDataMap" where
  "sd_modify S first final flags m =
     (if final < first then (False, [], m)
      else let below = takeWhile (\<lambda>(i, c). i < first) (sd_map m);
               (ok, evs, rest) = modify_loop S final flags (dropWhile (\<lambda>(i, c). i < first) (sd_map m))
           in (ok, evs, m\<lparr>sd_map := below @ rest\<rparr>))"

definition with_class :: "PointClass \<Rightarrow> u16 \<times> ('m, 'd) StaticDataCell \<Rightarrow> u16 \<times> ('m, 'd) StaticDataCell" where
  "with_class pc = (\<lambda>(i, c). (i, c\<lparr>c_config := (c_config c)\<lparr>clazz := pc\<rparr>\<rparr>))"

definition assign_class_all :: "PointClass \<Rightarrow> ('m, 'd) StaticDataMap \<Rightarrow> Range \<times> ('m, 'd) StaticDataMap" where
  "assign_class_all pc m = (get_full_range m, m\<lparr>sd_map := map (with_class pc) (sd_map m)\<rparr>)"

definition assign_class_range :: "PointClass \<Rightarrow> Range \<Rightarrow> ('m, 'd) StaticDataMap \<Rightarrow> Range \<times> ('m, 'd) StaticDataMap" where
  "assign_class_range pc range1 m =
     (let below = takeWhile (\<lambda>(i, c). i < start range1) (sd_map m); from1 = dropWhile (\<lambda>(i, c). i < start range1) (sd_map m);
          hit = takeWhile (\<lambda>(i, c). Range_Contains range1 i) from1; above = dropWhile (\<lambda>(i, c). Range_Contains range1 i) from1
      in (Range_Intersection range1 (get_full_range m), m\<lparr>sd_map := below @ map (with_class pc) hit @ above\<rparr>))"

end
