(* ===== verification/Out_Writers.thy ===== *)
theory Out_Writers
  imports Out_Map
begin

text \<open>
  Writing the selected points (\<open>outstation/StaticWriters\<close>, \<open>outstation/OctetStringSerializer\<close>) and the loop of the
  database that calls the writers (\<open>load_type\<close> in \<open>outstation/Database.cpp\<close>). A writer takes from the selection a
  run of points with consecutive indices and one variation, and returns whether there was room for them.
\<close>

section \<open>One header\<close>

text \<open>The loop of \<open>LoadWithRangeIterator\<close> and \<open>LoadWithBitfieldIterator\<close>; \<open>wr1\<close> is the writing function of the iterator.\<close>

function load_loop ::
  "('m \<Rightarrow> write_iterator \<Rightarrow> HeaderWriter \<Rightarrow> bool \<times> write_iterator \<times> HeaderWriter) \<Rightarrow> GroupVariation \<Rightarrow> u16 \<Rightarrow> ('m, 'd) map_iterator
     \<Rightarrow> write_iterator \<Rightarrow> HeaderWriter \<Rightarrow> bool \<times> ('m, 'd) map_iterator \<times> write_iterator \<times> HeaderWriter" where
  "load_loop wr1 variation next_index z it w =
     (case mi_rest z of
        [] \<Rightarrow> (True, z, it, w)
      | (i, c) # _ \<Rightarrow>
          if sel_variation (c_selection c) \<noteq> variation then (True, z, it, w)
          else if i \<noteq> next_index then (True, z, it, w)
          else (let (ok, it, w) = wr1 (sel_value (c_selection c)) it w
                in if \<not> ok then (False, z, it, w) else load_loop wr1 variation (next_index + 1) (mi_next z) it w))"
  by pat_completeness auto
termination by (relation "measure (\<lambda>(_, _, _, z, _, _). length (mi_rest z))") (auto dest: mi_next_less_cons)

declare load_loop.simps [simp del]

definition static_index :: "u16_codec \<Rightarrow> Range \<Rightarrow> index_type \<times> QualifierCode" where
  "static_index C range1 = (if Range_IsOneByte range1 then (index8, UINT8_START_STOP) else (index16 C, UINT16_START_STOP))"

definition WriteWithSerializer :: "u16_codec \<Rightarrow> 'm DNP3Serializer \<Rightarrow> GroupVariation \<Rightarrow> ('m, 'd) StaticDataMap \<Rightarrow> HeaderWriter
    \<Rightarrow> bool \<times> ('m, 'd) StaticDataMap \<times> HeaderWriter" where
  "WriteWithSerializer C S variation m w =
     (let range1 = sd_selected m; (T, qc) = static_index C range1;
          (it, w) = IterateOverRange T qc S (unat (start range1)) w;
          (ok, z, it, w) = load_loop (RangeWriteIterator_Write T S) variation (start range1) (sd_begin m) it w
      in (ok, mi_map z, RangeWriteIterator_destroy T it w))"

definition WriteSingleBitfield :: "u16_codec \<Rightarrow> GroupVariationID \<Rightarrow> GroupVariation \<Rightarrow> (bool TypedMeasurement, 'd) StaticDataMap \<Rightarrow> HeaderWriter
    \<Rightarrow> bool \<times> (bool TypedMeasurement, 'd) StaticDataMap \<times> HeaderWriter" where
  "WriteSingleBitfield C gvId variation m w =
     (let range1 = sd_selected m; (T, qc) = static_index C range1;
          (it, w) = IterateOverSingleBitfield T gvId qc (unat (start range1)) w;
          (ok, z, it, w) = load_loop (\<lambda>v. BitfieldRangeWriteIterator_Write T (m_value v)) variation (start range1) (sd_begin m) it w
      in (ok, mi_map z, BitfieldRangeWriteIterator_destroy T it w))"

text \<open>Octet strings: a header holds strings of one length. \<open>last\<close> is the next index and the length, after the first string.\<close>

function write_some_octet_strings ::
  "index_type \<Rightarrow> OctetString DNP3Serializer \<Rightarrow> (u16 \<times> nat) option \<Rightarrow> (OctetString, 'd) map_iterator \<Rightarrow> write_iterator \<Rightarrow> HeaderWriter
     \<Rightarrow> bool \<times> (OctetString, 'd) map_iterator \<times> write_iterator \<times> HeaderWriter" where
  "write_some_octet_strings T S prior z it w =
     (case mi_rest z of
        [] \<Rightarrow> (True, z, it, w)
      | (i, c) # _ \<Rightarrow>
          let v = sel_value (c_selection c)
          in if (case prior of None \<Rightarrow> False | Some (next_index, last_length) \<Rightarrow> next_index \<noteq> i \<or> last_length \<noteq> length v) then (True, z, it, w)
             else (let (ok, it, w) = RangeWriteIterator_Write T S v it w
                   in if \<not> ok then (False, z, it, w)
                      else write_some_octet_strings T S (Some (i + 1, length v)) (mi_next z) it w))"
  by pat_completeness auto
termination by (relation "measure (\<lambda>(_, _, _, z, _, _). length (mi_rest z))") (auto dest: mi_next_less_cons)

declare write_some_octet_strings.simps [simp del]

definition write_octet_strings :: "u16_codec \<Rightarrow> (OctetString, 'd) StaticDataMap \<Rightarrow> HeaderWriter
    \<Rightarrow> bool \<times> (OctetString, 'd) StaticDataMap \<times> HeaderWriter" where
  "write_octet_strings C m w =
     (let range1 = sd_selected m; (T, qc) = static_index C range1;
          starting_size = length (sel_value (c_selection (snd (hd (mi_rest (sd_begin m))))));
          S = OctetStringSerializer False starting_size;
          (it, w) = IterateOverRange T qc S (unat (start range1)) w;
          (ok, z, it, w) = write_some_octet_strings T S None (sd_begin m) it w
      in (ok, mi_map z, RangeWriteIterator_destroy T it w))"

section \<open>The writers by variation\<close>

text \<open>Each entry is the serializer of a variation and the constant \<open>svariation\<close> of its class; the last case is the default.\<close>

definition binary_writer where
  "binary_writer E variation =
     (if variation = Group1Var1 then WriteSingleBitfield (lib_u16 E) (gvid 1 1) Group1Var1
      else WriteWithSerializer (lib_u16 E) (Group1Var2_Inst E) Group1Var2)"

definition double_bit_writer where
  "double_bit_writer E (variation :: GroupVariation) = WriteWithSerializer (lib_u16 E) (Group3Var2_Inst E) Group3Var2"

definition choose_writer :: "le_lib \<Rightarrow> (GroupVariation \<times> 'm DNP3Serializer) list \<Rightarrow> GroupVariation \<Rightarrow> ('m, 'd) StaticDataMap \<Rightarrow> HeaderWriter
    \<Rightarrow> bool \<times> ('m, 'd) StaticDataMap \<times> HeaderWriter" where
  "choose_writer E table variation =
     (case map_of table variation of
        Some S \<Rightarrow> WriteWithSerializer (lib_u16 E) S variation
      | None \<Rightarrow> WriteWithSerializer (lib_u16 E) (snd (hd table)) (fst (hd table)))"

definition static_analogs :: "le_lib \<Rightarrow> (GroupVariation \<times> Analog DNP3Serializer) list" where
  "static_analogs E =
     [(Group30Var1, Group30Var1_Inst E), (Group30Var2, Group30Var2_Inst E), (Group30Var3, Group30Var3_Inst E),
      (Group30Var4, Group30Var4_Inst E), (Group30Var5, Group30Var5_Inst E), (Group30Var6, Group30Var6_Inst E)]"

definition static_counters :: "le_lib \<Rightarrow> (GroupVariation \<times> Counter DNP3Serializer) list" where
  "static_counters E =
     [(Group20Var1, Group20Var1_Inst E), (Group20Var2, Group20Var2_Inst E), (Group20Var5, Group20Var5_Inst E),
      (Group20Var6, Group20Var6_Inst E)]"

definition static_frozen_counters :: "le_lib \<Rightarrow> (GroupVariation \<times> FrozenCounter DNP3Serializer) list" where
  "static_frozen_counters E =
     [(Group21Var1, Group21Var1_Inst E), (Group21Var2, Group21Var2_Inst E), (Group21Var5, Group21Var5_Inst E),
      (Group21Var6, Group21Var6_Inst E), (Group21Var9, Group21Var9_Inst E), (Group21Var10, Group21Var10_Inst E)]"

definition static_analog_outputs :: "le_lib \<Rightarrow> (GroupVariation \<times> AnalogOutputStatus DNP3Serializer) list" where
  "static_analog_outputs E =
     [(Group40Var1, Group40Var1_Inst E), (Group40Var2, Group40Var2_Inst E), (Group40Var3, Group40Var3_Inst E),
      (Group40Var4, Group40Var4_Inst E)]"

definition analog_writer where "analog_writer E = choose_writer E (static_analogs E)"
definition counter_writer where "counter_writer E = choose_writer E (static_counters E)"
definition frozen_counter_writer where "frozen_counter_writer E = choose_writer E (static_frozen_counters E)"
definition analog_output_writer where "analog_output_writer E = choose_writer E (static_analog_outputs E)"

definition binary_output_writer where
  "binary_output_writer E (variation :: GroupVariation) = WriteWithSerializer (lib_u16 E) (Group10Var2_Inst E) Group10Var2"

definition octet_writer where
  "octet_writer E (variation :: GroupVariation) = write_octet_strings (lib_u16 E)"

definition time_writer where
  "time_writer E (variation :: GroupVariation) = WriteWithSerializer (lib_u16 E) (Group50Var4_Inst E) Group50Var4"

section \<open>All headers of a type\<close>

text \<open>The loop has no bound in the code: \<open>None\<close> is a loop that does not end.\<close>

partial_function (option) load_type ::
  "(GroupVariation \<Rightarrow> ('m, 'd) StaticDataMap \<Rightarrow> HeaderWriter \<Rightarrow> bool \<times> ('m, 'd) StaticDataMap \<times> HeaderWriter)
     \<Rightarrow> ('m, 'd) StaticDataMap \<Rightarrow> HeaderWriter \<Rightarrow> (bool \<times> ('m, 'd) StaticDataMap \<times> HeaderWriter) option" where
  "load_type get_writer m w =
     (case mi_rest (sd_begin m) of
        [] \<Rightarrow> Some (True, m, w)
      | (i, c) # _ \<Rightarrow>
          (case get_writer (sel_variation (c_selection c)) m w of
             (ok, m', w') \<Rightarrow> if \<not> ok then Some (False, m', w') else load_type get_writer m' w'))"

section \<open>The invariant of the selection\<close>

text \<open>
  The indices ascend. The selected range is invalid and no point is selected, or it starts at the first
  point that is selected and reaches the last one.
\<close>

definition picked :: "(u16 \<times> ('m, 'd) StaticDataCell) list \<Rightarrow> (u16 \<times> ('m, 'd) StaticDataCell) list" where
  "picked = filter is_picked"

definition picks :: "('m, 'd) StaticDataMap \<Rightarrow> (u16 \<times> ('m, 'd) StaticDataCell) list" where
  "picks m = picked (sd_map m)"

definition sd_inv :: "('m, 'd) StaticDataMap \<Rightarrow> bool" where
  "sd_inv m =
     (sorted_wrt (<) (map fst (sd_map m))
      \<and> (if Range_IsValid (sd_selected m)
          then picks m \<noteq> [] \<and> start (sd_selected m) = fst (hd (picks m)) \<and> fst (List.last (picks m)) \<le> stop (sd_selected m)
          else picks m = []))"

definition mi_ok :: "('m, 'd) map_iterator \<Rightarrow> bool" where
  "mi_ok z =
     (sorted_wrt (<) (map fst (mi_passed z @ mi_rest z)) \<and> picked (mi_passed z) = []
      \<and> (case mi_rest z of
           [] \<Rightarrow> \<not> Range_IsValid (mi_range z)
         | e # _ \<Rightarrow> is_picked e \<and> start (mi_range z) = fst e \<and> fst (List.last (picked (mi_rest z))) \<le> stop (mi_range z)))"

lemma picked_simps [simp]: "picked [] = []" "picked (xs @ ys) = picked xs @ picked ys"
  "picked (e # xs) = (if is_picked e then e # picked xs else picked xs)"
  by (simp_all add: picked_def)

lemma unpick_simps [simp]: "\<not> is_picked (unpick e)" "fst (unpick e) = fst e"
  by (simp_all add: is_picked_def unpick_def split: prod.splits)

lemma picked_skip: "picked (takeWhile (\<lambda>x. \<not> is_picked x) xs) = []" "picked (dropWhile (\<lambda>x. \<not> is_picked x) xs) = picked xs"
  by (induction xs) (simp_all add: picked_def)

lemma picked_head: "dropWhile (\<lambda>x. \<not> is_picked x) xs = e # ys \<Longrightarrow> is_picked e"
  using hd_dropWhile [of "\<lambda>x. \<not> is_picked x" xs] by force

text \<open>The map without its selection.\<close>

definition unselected :: "(u16 \<times> ('m, 'd) StaticDataCell) list \<Rightarrow> (u16 \<times> ('m, 'd) StaticDataCell) list" where
  "unselected = map unpick"

lemma unpick_unpick [simp]: "unpick (unpick e) = unpick e" by (simp add: unpick_def split: prod.splits)

lemma unpick_not_picked: "\<not> is_picked e \<Longrightarrow> unpick e = e"
  by (auto simp: unpick_def is_picked_def split: prod.splits)

lemma mi_next_spec:
  assumes "mi_ok z" "mi_rest z = e # rest"
  shows "mi_ok (mi_next z)" "picked (mi_rest (mi_next z)) = picked rest" "picked (mi_rest z) = e # picked rest"
    "unselected (mi_passed (mi_next z) @ mi_rest (mi_next z)) = unselected (mi_passed z @ mi_rest z)"
proof -
  let ?s = "takeWhile (\<lambda>x. \<not> is_picked x) rest" and ?r = "dropWhile (\<lambda>x. \<not> is_picked x) rest"
  have sr: "rest = ?s @ ?r" by simp
  have e: "is_picked e" "picked (mi_passed z) = []" "sorted_wrt (<) (map fst (mi_passed z @ e # rest))"
    "start (mi_range z) = fst e" "fst (List.last (picked (e # rest))) \<le> stop (mi_range z)"
    using assms by (auto simp: mi_ok_def)
  have n: "mi_passed (mi_next z) = mi_passed z @ unpick e # ?s" "mi_rest (mi_next z) = ?r"
    "mi_range (mi_next z) = (case ?r of [] \<Rightarrow> Range_Invalid | (i, c) # _ \<Rightarrow> (mi_range z)\<lparr>start := i\<rparr>)"
    using assms(2) by (simp_all add: mi_next_def Let_def)
  show p: "picked (mi_rest (mi_next z)) = picked rest" by (simp add: n picked_skip)
  show "picked (mi_rest z) = e # picked rest" using assms(2) e(1) by simp
  have keys: "map fst (mi_passed (mi_next z) @ mi_rest (mi_next z)) = map fst (mi_passed z @ e # rest)"
  proof -
    have "map fst ?s @ map fst ?r = map fst rest" using arg_cong [OF sr [symmetric], of "map fst"] by (simp only: map_append)
    then show ?thesis by (simp add: n)
  qed
  show "unselected (mi_passed (mi_next z) @ mi_rest (mi_next z)) = unselected (mi_passed z @ mi_rest z)"
  proof -
    have "map unpick ?s @ map unpick ?r = map unpick rest" using arg_cong [OF sr [symmetric], of "map unpick"] by (simp only: map_append)
    then show ?thesis by (simp add: n assms(2) unselected_def)
  qed
  show "mi_ok (mi_next z)"
  proof (cases ?r)
    case Nil
    have "\<not> Range_IsValid (mi_range (mi_next z))" by (simp only: n Nil list.case) (simp add: Range_Invalid_def Range_IsValid_def)
    then show ?thesis using Nil e(2,3) keys unfolding mi_ok_def n(1,2) by (simp only: Nil list.case) (simp add: picked_skip)
  next
    case (Cons x xs)
    have "picked rest = x # picked xs" using picked_head [OF Cons] picked_skip(2) [of rest] Cons by simp
    then show ?thesis using Cons picked_head [OF Cons] e keys by (auto simp: mi_ok_def n picked_skip split: prod.splits)
  qed
qed

lemma sd_begin_map [simp]: "mi_passed (sd_begin m) @ mi_rest (sd_begin m) = sd_map m" "mi_range (sd_begin m) = sd_selected m"
  by (simp_all add: sd_begin_def)

lemma sd_begin_ok:
  assumes "sd_inv m"
  shows "mi_ok (sd_begin m)" "picked (mi_rest (sd_begin m)) = picks m"
proof -
  have s: "sorted_wrt (<) (map fst (sd_map m))" using assms by (simp add: sd_inv_def)
  have "mi_ok (sd_begin m) \<and> picked (mi_rest (sd_begin m)) = picks m"
  proof (cases "Range_IsValid (sd_selected m)")
    case False
    then show ?thesis using assms by (simp add: sd_begin_def mi_ok_def sd_inv_def picks_def)
  next
    case True
    let ?k = "start (sd_selected m)"
    have h: "picks m \<noteq> []" "?k = fst (hd (picks m))" "fst (List.last (picks m)) \<le> stop (sd_selected m)"
      using assms True by (simp_all add: sd_inv_def)
    obtain e es where "picks m = e # es" using h(1) by (cases "picks m") auto
    then obtain xs ys where e: "sd_map m = xs @ e # ys" "picked xs = []" "is_picked e" "picks m = e # picked ys"
      using filter_eq_ConsD [of is_picked "sd_map m" e es] by (auto simp: picks_def picked_def filter_empty_conv)
    have k: "?k = fst e" using h(2) e(4) by simp
    have lt: "\<And>x. x \<in> set xs \<Longrightarrow> fst x < fst e" using s by (simp add: e(1) sorted_wrt_append)
    then have tw: "takeWhile (\<lambda>(i, c). i < ?k) (sd_map m) = xs" "dropWhile (\<lambda>(i, c). i < ?k) (sd_map m) = e # ys"
      unfolding e(1) k by (simp_all add: takeWhile_append2 dropWhile_append2 case_prod_beta)
    show ?thesis using True s h e k tw by (simp add: sd_begin_def mi_ok_def)
  qed
  then show "mi_ok (sd_begin m)" "picked (mi_rest (sd_begin m)) = picks m" by simp_all
qed

lemma picked_sorted: "sorted_wrt (<) (map fst xs) \<Longrightarrow> sorted_wrt (<) (map fst (picked xs))"
  by (induction xs) (auto simp: picked_def)

lemma head_le_last: "sorted_wrt (<) (map fst (e # xs)) \<Longrightarrow> fst e \<le> (fst (List.last (e # xs)) :: u16)"
  by (cases "xs = []") (auto simp: less_imp_le)

lemma mi_ok_valid:
  assumes "mi_ok z"
  shows "Range_IsValid (mi_range z) = (mi_rest z \<noteq> [])"
proof (cases "mi_rest z")
  case (Cons e rest)
  then have "sorted_wrt (<) (map fst (e # rest))" "is_picked e" "start (mi_range z) = fst e"
    "fst (List.last (e # picked rest)) \<le> stop (mi_range z)"
    using assms by (auto simp: mi_ok_def sorted_wrt_append)
  then have "fst e \<le> stop (mi_range z)"
    using head_le_last [of e "picked rest"] picked_sorted [of "e # rest"] by (auto intro: order_trans)
  then show ?thesis using Cons \<open>start (mi_range z) = fst e\<close> by (simp add: Range_IsValid_def)
qed (use assms in \<open>simp add: mi_ok_def\<close>)

lemma mi_map_inv:
  assumes "mi_ok z"
  shows "sd_inv (mi_map z)" "picks (mi_map z) = picked (mi_rest z)"
  using assms mi_ok_valid [OF assms] by (auto simp: mi_ok_def sd_inv_def mi_map_def picks_def split: list.splits)

section \<open>What a loop takes from the selection\<close>

text \<open>The run at the head of the selection: consecutive indices from \<open>k\<close>, and one variation.\<close>

fun run_of :: "GroupVariation \<Rightarrow> u16 \<Rightarrow> (u16 \<times> ('m, 'd) StaticDataCell) list \<Rightarrow> (u16 \<times> ('m, 'd) StaticDataCell) list" where
  "run_of v k [] = []"
| "run_of v k (e # es) = (if sel_variation (c_selection (snd e)) = v \<and> fst e = k then e # run_of v (k + 1) es else [])"

abbreviation reported :: "u16 \<times> ('m, 'd) StaticDataCell \<Rightarrow> 'm" where
  "reported e \<equiv> sel_value (c_selection (snd e))"

lemma load_loop_step:
  assumes "mi_rest z = e # rest"
  shows "load_loop wr1 v k z it w =
    (if sel_variation (c_selection (snd e)) = v \<and> fst e = k
     then (case wr1 (reported e) it w of (ok, it', w') \<Rightarrow> if ok then load_loop wr1 v (k + 1) (mi_next z) it' w' else (False, z, it', w'))
     else (True, z, it, w))"
  using assms by (cases e) (simp add: load_loop.simps [of _ _ _ z] split: prod.splits)

lemma load_loop_end: "mi_rest z = [] \<Longrightarrow> load_loop wr1 v k z it w = (True, z, it, w)"
  by (simp add: load_loop.simps)

lemma load_loop_spec:
  assumes "mi_ok z" "load_loop wr1 v k z it w = (ok, z', it', w')"
  shows "\<exists>n. mi_ok z' \<and> unselected (mi_passed z' @ mi_rest z') = unselected (mi_passed z @ mi_rest z)
    \<and> write_each wr1 (map reported (run_of v k (picked (mi_rest z)))) it w = (n, it', w') \<and> n \<le> length (run_of v k (picked (mi_rest z)))
    \<and> picked (mi_rest z') = drop n (picked (mi_rest z)) \<and> ok = (n = length (run_of v k (picked (mi_rest z))))"
  using assms
proof (induction "length (mi_rest z)" arbitrary: z k it w rule: less_induct)
  case less
  note prems = less(2,3)
  let ?ps = "picked (mi_rest z)"
  show ?case
  proof (cases "mi_rest z")
    case Nil
    then show ?thesis using prems by (intro exI [of _ 0]) (simp add: load_loop_end)
  next
    case (Cons e rest)
    note nxt = mi_next_spec [OF prems(1) Cons] and step = load_loop_step [OF Cons, of wr1 v k it w]
    show ?thesis
    proof (cases "sel_variation (c_selection (snd e)) = v \<and> fst e = k")
      case False
      then have "run_of v k ?ps = []" using nxt(3) by auto
      moreover from False have "ok" "z' = z" "it' = it" "w' = w" using prems(2) step by auto
      ultimately show ?thesis using prems(1) by (intro exI [of _ 0]) simp
    next
      case True
      obtain ok1 it1 w1 where w1: "wr1 (reported e) it w = (ok1, it1, w1)" by (metis surj_pair)
      have run: "run_of v k ?ps = e # run_of v (k + 1) (picked rest)" using True nxt(3) by simp
      show ?thesis
      proof (cases ok1)
        case False
        then have "ok = False" "z' = z" "it' = it1" "w' = w1" using prems(2) step True w1 by auto
        then show ?thesis using prems(1) run w1 False by (intro exI [of _ 0]) simp
      next
        case True2: True
        have l: "load_loop wr1 v (k + 1) (mi_next z) it1 w1 = (ok, z', it', w')" using prems(2) step True True2 w1 by auto
        from less(1) [OF mi_next_less nxt(1) l] Cons
        obtain n where n: "mi_ok z'" "unselected (mi_passed z' @ mi_rest z') = unselected (mi_passed (mi_next z) @ mi_rest (mi_next z))"
          "write_each wr1 (map reported (run_of v (k + 1) (picked rest))) it1 w1 = (n, it', w')"
          "n \<le> length (run_of v (k + 1) (picked rest))" "picked (mi_rest z') = drop n (picked rest)"
          "ok = (n = length (run_of v (k + 1) (picked rest)))" by (auto simp: nxt(2))
        show ?thesis unfolding run nxt(3)
          using n nxt(4) w1 True True2 by (intro exI [of _ "Suc n"]) simp
      qed
    qed
  qed
qed

end
