(* ===== verification/Out_Reads.thy ===== *)
theory Out_Reads
  imports Out_Writers
begin

text \<open>
  What a master reads from the headers of a response: bytes that the parser turns into calls of its
  handler with given values, and the proof that the headers of the static data report the selected values, each once
  and in order.
\<close>

section \<open>The values in the calls of the handler\<close>

type_synonym read_value = "GroupVariation \<times> u16 \<times> byte list"

fun values_of :: "header_event \<Rightarrow> read_value list" where
  "values_of (OnRangeOf r rng vs) = map (\<lambda>(i, b). (enumeration r, i, b)) vs"
| "values_of (OnPrefixOf r n vs) = map (\<lambda>(i, b). (enumeration r, i, b)) vs"
| "values_of (OnRangeBits r rng vs) = map (\<lambda>(i, b). (enumeration r, i, [of_bool b])) vs"
| "values_of e = []"

text \<open>Bytes that hold whole headers with these values, whatever follows them.\<close>

definition parses :: "u16_codec \<Rightarrow> byte list \<Rightarrow> read_value list \<Rightarrow> bool" where
  "parses C bs items =
     (\<forall>i rest. \<exists>k evs. concat (map values_of evs) = items \<and>
        ParseSinglePass_loop C (bs @ rest) i True True None
          = (let (result, more) = ParseSinglePass_loop C rest (i + k) True True None in (result, evs @ more)))"

lemma parses_Nil [simp]: "parses C [] []"
  unfolding parses_def by (intro allI exI [of _ 0] exI [of _ "[]"]) simp

lemma parses_append:
  assumes "parses C xs is" "parses C ys js"
  shows "parses C (xs @ ys) (is @ js)"
  unfolding parses_def
proof (intro allI)
  fix i rest
  from assms(1) obtain k1 e1 where 1: "concat (map values_of e1) = is"
    "ParseSinglePass_loop C (xs @ (ys @ rest)) i True True None
       = (let (result, more) = ParseSinglePass_loop C (ys @ rest) (i + k1) True True None in (result, e1 @ more))"
    unfolding parses_def by blast
  from assms(2) obtain k2 e2 where 2: "concat (map values_of e2) = js"
    "ParseSinglePass_loop C (ys @ rest) (i + k1) True True None
       = (let (result, more) = ParseSinglePass_loop C rest (i + k1 + k2) True True None in (result, e2 @ more))"
    unfolding parses_def by blast
  show "\<exists>k evs. concat (map values_of evs) = is @ js \<and>
      ParseSinglePass_loop C ((xs @ ys) @ rest) i True True None
        = (let (result, more) = ParseSinglePass_loop C rest (i + k) True True None in (result, evs @ more))"
    using 1 2 by (intro exI [of _ "k1 + k2"] exI [of _ "e1 @ e2"]) (simp add: add.assoc split_beta)
qed

lemma parses_header:
  assumes "bs \<noteq> []" "\<And>rest i. APDUParser_ParseHeader C (bs @ rest) i True True None = Inr ([ev i], rest)" "\<And>i. values_of (ev i) = items"
  shows "parses C bs items"
  unfolding parses_def
proof (intro allI)
  fix i rest
  show "\<exists>k evs. concat (map values_of evs) = items \<and>
      ParseSinglePass_loop C (bs @ rest) i True True None
        = (let (result, more) = ParseSinglePass_loop C rest (i + k) True True None in (result, evs @ more))"
    using assms by (intro exI [of _ 1] exI [of _ "[ev i]"]) (simp add: ParseSinglePass_loop.simps [of C "bs @ rest"])
qed

lemma parses_complete: "parses C bs items \<Longrightarrow> \<exists>evs. ParseSinglePass C bs True None True = (OK, evs) \<and> concat (map values_of evs) = items"
  unfolding parses_def ParseSinglePass_def
  by (drule spec [of _ 0], drule spec [of _ "[]"]) (auto simp: ParseSinglePass_loop.simps [of C "[]"])

section \<open>One header of static data\<close>

text \<open>A serializer that the parser knows as variation \<open>v\<close>.\<close>

definition static_ok :: "GroupVariation \<Rightarrow> 'm DNP3Serializer \<Rightarrow> bool" where
  "static_ok v S =
     (well_sized S \<and> enumeration (GetRecord (id_group (ser_id S)) (id_variation (ser_id S))) = v \<and> map_of range_descriptors v = Some (ser_size S))"

lemma write_each_take:
  assumes "\<And>v it w it' w'. f v it w = (False, it', w') \<Longrightarrow> it' = it \<and> w' = w"
  shows "write_each f vs it w = (n, it', w') \<Longrightarrow> write_each f (take n vs) it w = (n, it', w')"
proof (induction vs arbitrary: it w n it' w')
  case (Cons v vs)
  obtain ok it1 w1 where f: "f v it w = (ok, it1, w1)" by (metis surj_pair)
  obtain k it2 w2 where r: "write_each f vs it1 w1 = (k, it2, w2)" by (metis surj_pair)
  show ?case using Cons.prems Cons.IH [OF r] f r assms [of v it w] by (cases ok) auto
qed simp

lemma write_each_first: "f v it w = (True, it', w') \<Longrightarrow> fst (write_each f (v # vs) it w) \<noteq> 0"
  by (simp split: prod.splits)

lemma RangeWriteIterator_Write_fails: "RangeWriteIterator_Write T S v it w = (False, it', w') \<Longrightarrow> it' = it \<and> w' = w"
  by (auto simp: RangeWriteIterator_Write_def split: if_splits)

lemma static_index_of: "static_index C r = (index_of C (Range_IsOneByte r), range_code (Range_IsOneByte r))"
  by (simp add: static_index_def index_of_def range_code_def)

lemma run_of_prefix: "\<exists>rest. es = run_of v k es @ rest"
  by (induction v k es rule: run_of.induct) auto

lemma run_of_variation: "e \<in> set (run_of v k es) \<Longrightarrow> sel_variation (c_selection (snd e)) = v"
  by (induction v k es rule: run_of.induct) (auto split: if_splits)

lemma run_of_indices:
  "sorted_wrt (<) (map fst es) \<Longrightarrow> map fst (run_of v k es) = map of_nat [unat k ..< unat k + length (run_of v k es)]
     \<and> (run_of v k es \<noteq> [] \<longrightarrow> unat k + length (run_of v k es) - 1 = unat (fst (List.last (run_of v k es))))"
proof (induction v k es rule: run_of.induct)
  case (2 v k e es)
  show ?case
  proof (cases "sel_variation (c_selection (snd e)) = v \<and> fst e = k")
    case True
    let ?r = "run_of v (k + 1) es"
    have IH: "map fst ?r = map of_nat [unat (k + 1) ..< unat (k + 1) + length ?r]"
      "?r \<noteq> [] \<Longrightarrow> unat (k + 1) + length ?r - 1 = unat (fst (List.last ?r))" using 2 True by simp_all
    show ?thesis
    proof (cases ?r)
      case Nil then show ?thesis using True by simp
    next
      case (Cons x xs)
      have "k + 1 = fst x" using Cons by (cases es) (auto split: if_splits)
      moreover obtain rest where "es = ?r @ rest" using run_of_prefix by blast
      then have "x \<in> set es" using Cons by (metis append_Cons list.set_intros(1))
      then have "k < fst x" using 2(2) True by auto
      ultimately have "unat k < unat (fst x)" by (simp add: word_less_nat_alt)
      then have "unat k + 1 < 65536" using unat_u16_less [of "fst x"] by linarith
      then have u: "unat (k + 1) = unat k + 1" by (simp add: unat_word_ariths)
      have run: "run_of v k (e # es) = e # ?r" using True by simp
      have "[unat k ..< unat k + length (e # ?r)] = unat k # [unat (k + 1) ..< unat (k + 1) + length ?r]"
        using u by (simp add: upt_conv_Cons del: upt_Suc)
      then have "map fst (e # ?r) = map of_nat [unat k ..< unat k + length (e # ?r)]" using True IH(1) by (simp only: list.map) simp
      moreover have "List.last (e # ?r) = List.last ?r" "?r \<noteq> []" using Cons by simp_all
      then have "unat k + length (e # ?r) - 1 = unat (fst (List.last (e # ?r)))" using IH(2) u by simp
      ultimately show ?thesis unfolding run by blast
    qed
  qed simp
qed simp

text \<open>The values that the parser finds for points of the selection, written with the serializer of their variation.\<close>

definition on_wire :: "(GroupVariation \<Rightarrow> 'm DNP3Serializer) \<Rightarrow> u16 \<times> ('m, 'd) StaticDataCell \<Rightarrow> read_value" where
  "on_wire S e = (sel_variation (c_selection (snd e)), fst e, ser_write (S (sel_variation (c_selection (snd e)))) (reported e))"

lemma parses_run:
  assumes "codec16 C" "static_ok v (S v)" "vs \<noteq> []" "\<And>e. e \<in> set vs \<Longrightarrow> sel_variation (c_selection (snd e)) = v"
    "map fst vs = map of_nat [first ..< first + length vs]" "first + length vs - 1 \<le> it_max (index_of C one)"
  shows "parses C (range_header C one (ser_id (S v)) first (length vs) (concat (map (ser_write (S v)) (map reported vs)))) (map (on_wire S) vs)"
proof -
  have s: "well_sized (S v)" "enumeration (GetRecord (id_group (ser_id (S v))) (id_variation (ser_id (S v)))) = v"
    "map_of range_descriptors (enumeration (GetRecord (id_group (ser_id (S v))) (id_variation (ser_id (S v))))) = Some (ser_size (S v))"
    using assms(2) by (simp_all add: static_ok_def)
  have "zip (indices_from first (length vs)) (map (ser_write (S v)) (map reported vs)) = map (\<lambda>e. (fst e, ser_write (S v) (reported e))) vs"
    using assms(5) by (simp add: indices_from_def zip_map_fst_snd comp_def flip: assms(5)) (simp add: zip_map_map zip_same_conv_map)
  moreover have "map (on_wire S) vs = map (\<lambda>e. (v, fst e, ser_write (S v) (reported e))) vs"
    using assms(4) by (simp add: on_wire_def)
  ultimately show ?thesis
    using parse_range_header [OF assms(1) s(1) _ _ s(3), of "map reported vs" first one] assms(3,6) s(2)
    by (intro parses_header [where ev = "\<lambda>i. OnRangeOf (parsed_record (ser_id (S v)) (range_code one) i) (written_range first (length vs))
             (zip (indices_from first (length vs)) (map (ser_write (S v)) (map reported vs)))"]) (simp_all add: range_header_def comp_def)
qed

lemma WriteWithSerializer_spec:
  assumes "codec16 C" "static_ok v (S v)" "writer_ok w" "sd_inv m" "picks m = e # es" "sel_variation (c_selection (snd e)) = v"
    "WriteWithSerializer C (S v) v m w = (ok, m', w')"
  shows "\<exists>n bs. sd_inv m' \<and> writer_ok w' \<and> unselected (sd_map m') = unselected (sd_map m) \<and> picks m' = drop n (picks m) \<and> n \<le> length (picks m)
    \<and> written w' = written w @ bs \<and> parses C bs (map (on_wire S) (take n (picks m)))
    \<and> (if ok then 0 < n else picks m' \<noteq> [] \<and> (7 + ser_size (S v) \<le> Remaining w \<longrightarrow> 0 < n))"
proof -
  let ?r = "sd_selected m" and ?one = "Range_IsOneByte (sd_selected m)" and ?k = "start (sd_selected m)"
  let ?T = "index_of C ?one" and ?qc = "range_code ?one"
  let ?run = "run_of v ?k (picks m)"
  obtain it w1 where h: "IterateOverRange ?T ?qc (S v) (unat ?k) w = (it, w1)" by (metis surj_pair)
  obtain ok1 z it2 w2 where l: "load_loop (RangeWriteIterator_Write ?T (S v)) v ?k (sd_begin m) it w1 = (ok1, z, it2, w2)" by (metis surj_pair)
  have r: "ok = ok1" "m' = mi_map z" "w' = RangeWriteIterator_destroy ?T it2 w2"
    using assms(7) h l by (simp_all add: WriteWithSerializer_def static_index_of Let_def)
  note b = sd_begin_ok [OF assms(4)]
  from load_loop_spec [OF b(1) l] b(2) obtain n where
    n: "mi_ok z" "unselected (mi_passed z @ mi_rest z) = unselected (sd_map m)"
      "write_each (RangeWriteIterator_Write ?T (S v)) (map reported ?run) it w1 = (n, it2, w2)" "n \<le> length ?run"
      "picked (mi_rest z) = drop n (picks m)" "ok1 = (n = length ?run)" by auto
  have valid: "Range_IsValid ?r" "?k = fst e" "fst (List.last (picks m)) \<le> stop ?r"
    using assms(4,5) by (auto simp: sd_inv_def split: if_splits)
  have run: "?run \<noteq> []" using assms(5,6) valid(2) by simp
  obtain rest where rest: "picks m = ?run @ rest" using run_of_prefix by blast
  have tk: "take n ?run = take n (picks m)" "length ?run \<le> length (picks m)"
    using n(4) by (subst (2) rest, simp) (subst rest, simp)
  note m' = mi_map_inv [OF n(1)]
  have keep: "sd_inv m'" "unselected (sd_map m') = unselected (sd_map m)" "picks m' = drop n (picks m)"
    using m' n(2,5) r(2) by (simp_all add: mi_map_def)
  have srt: "sorted_wrt (<) (map fst (picks m))" using assms(4) picked_sorted by (auto simp: sd_inv_def picks_def)
  note idx = run_of_indices [OF srt, of v ?k]
  have bound: "unat ?k + length ?run - 1 \<le> it_max ?T"
  proof -
    have "fst (List.last ?run) \<le> fst (List.last (picks m))"
    proof (cases "rest = []")
      case False
      have "List.last ?run \<in> set ?run" "List.last rest \<in> set rest" using run False by simp_all
      then have "fst (List.last ?run) < fst (List.last rest)" using srt by (subst (asm) rest) (auto simp: sorted_wrt_append)
      then show ?thesis using False by (subst rest) simp
    qed (use rest in simp)
    then have "fst (List.last ?run) \<le> stop ?r" using valid(3) by (rule order_trans)
    then have "?one \<Longrightarrow> unat (fst (List.last ?run)) \<le> 255"
      by (auto simp: Range_IsOneByte_def word_le_nat_alt intro: order_trans)
    moreover have "unat (fst (List.last ?run)) \<le> 65535" using unat_u16_less [of "fst (List.last ?run)"] by linarith
    ultimately show ?thesis using idx run by simp
  qed
  show ?thesis
  proof (cases "n = 0")
    case True
    have inv: "it = Null_iterator \<and> w1 = w"
    proof (rule ccontr)
      assume a: "\<not> ?thesis"
      then obtain w0 where h0: "WriteHeaderWithReserve (ser_id (S v)) ?qc (2 * it_size ?T + ser_size (S v)) w = (True, w0)"
        "RangeWriteIterator_make ?T (unat ?k) w0 = (it, w1)"
        using h by (auto simp: IterateOverRange_def WriteHeaderWithReserve_def WriteHeader_def split: if_splits)
      note H = WriteHeaderWithReserve_ok [OF assms(3) h0(1)]
      have "wi_valid it" "wi_count it = 0" "ser_size (S v) \<le> Remaining w1"
        using h0(2) H by (auto simp: RangeWriteIterator_make_def Let_def)
      then have "\<exists>it' w'. RangeWriteIterator_Write ?T (S v) x it w1 = (True, it', w')" for x by (simp add: RangeWriteIterator_Write_def)
      moreover obtain x xs where "?run = x # xs" using run by (cases ?run) auto
      ultimately show False using n(3) True by (metis fst_conv list.simps(9) write_each_first)
    qed
    then have "it2 = Null_iterator" "w2 = w"
      using n(3) True run by (cases ?run; auto simp: RangeWriteIterator_Write_def Null_iterator_def split: prod.splits if_splits)+
    then have "w' = w" using r(3) by (simp add: RangeWriteIterator_destroy_def Null_iterator_def)
    moreover have "Remaining w < 7 + ser_size (S v)"
    proof (rule ccontr)
      assume "\<not> Remaining w < 7 + ser_size (S v)"
      then have "3 + (2 * it_size ?T + ser_size (S v)) \<le> Remaining w" by simp
      from header_fits [OF assms(3) this] obtain w0 where h0: "WriteHeaderWithReserve (ser_id (S v)) ?qc (2 * it_size ?T + ser_size (S v)) w = (True, w0)"
        by blast
      then have "wi_valid it" using h WriteHeaderWithReserve_ok [OF assms(3) h0]
        by (auto simp: IterateOverRange_def RangeWriteIterator_make_def Let_def)
      then show False using inv by (simp add: Null_iterator_def)
    qed
    ultimately show ?thesis
      using keep True r(1) n(6) run assms(3,5) by (intro exI [of _ 0] exI [of _ "[]"]) simp
  next
    case False
    let ?vs = "take n ?run"
    have len: "length ?vs = n" using n(4) by simp
    have "write_each (RangeWriteIterator_Write ?T (S v)) (take n (map reported ?run)) it w1 = (n, it2, w2)"
      using n(3) by (rule write_each_take [rotated]) (rule RangeWriteIterator_Write_fails)
    then have wr: "write_range ?T ?qc (S v) (unat ?k) (map reported ?vs) w = (length (map reported ?vs), w')"
      using h r(3) len by (simp add: write_range_def take_map)
    have b1: "unat ?k + length (map reported ?vs) - 1 \<le> it_max ?T" using bound n(4) len by simp
    have ne: "map reported ?vs \<noteq> []" using False len by auto
    have ws: "well_sized (S v)" using assms(2) by (simp add: static_ok_def)
    note w = write_range_written [OF assms(1) ws assms(3) ne b1 wr]
    have "map fst ?vs = map of_nat [unat ?k ..< unat ?k + length ?vs]"
    proof -
      have "map fst ?vs = take n (map fst ?run)" by (simp add: take_map)
      also have "\<dots> = map of_nat (take n [unat ?k ..< unat ?k + length ?run])" using idx by (simp only: take_map)
      also have "take n [unat ?k ..< unat ?k + length ?run] = [unat ?k ..< unat ?k + n]" using n(4) by (simp add: take_upt)
      finally show ?thesis using len by simp
    qed
    from parses_run [OF assms(1) _ _ _ this, of v S ?one] assms(2) ne b1
    have "parses C (range_header C ?one (ser_id (S v)) (unat ?k) (length ?vs) (concat (map (ser_write (S v)) (map reported ?vs)))) (map (on_wire S) ?vs)"
      by (auto dest!: in_set_takeD run_of_variation)
    moreover have "\<not> ok \<Longrightarrow> picks m' \<noteq> []" using n(4,6) r(1) keep(3) tk(2) by simp
    ultimately show ?thesis
      using keep w False n(4) tk by (intro exI [of _ n] exI [of _ "range_header C ?one (ser_id (S v)) (unat ?k) (length ?vs) (concat (map (ser_write (S v)) (map reported ?vs)))"])
        (simp add: comp_def)
  qed
qed

section \<open>All headers of a type\<close>

text \<open>
  What the loop of the database relies on in the writers of a type: a writer for each of its variations, which
  writes objects that the parser knows.
\<close>

locale static_writers =
  fixes valid :: "GroupVariation set" and S :: "le_lib \<Rightarrow> GroupVariation \<Rightarrow> 'm DNP3Serializer"
    and get_writer :: "le_lib \<Rightarrow> GroupVariation \<Rightarrow> ('m, 'd) StaticDataMap \<Rightarrow> HeaderWriter \<Rightarrow> bool \<times> ('m, 'd) StaticDataMap \<times> HeaderWriter"
  assumes known: "le_codec E \<Longrightarrow> v \<in> valid \<Longrightarrow> static_ok v (S E v)"
    and small: "le_codec E \<Longrightarrow> v \<in> valid \<Longrightarrow> ser_size (S E v) \<le> 16"
    and writes: "v \<in> valid \<Longrightarrow> get_writer E v = WriteWithSerializer (lib_u16 E) (S E v) v"
begin

definition valid_picks :: "('m, 'd) StaticDataMap \<Rightarrow> bool" where
  "valid_picks m = (\<forall>e \<in> set (picks m). sel_variation (c_selection (snd e)) \<in> valid)"

lemma load_type_spec:
  assumes "le_codec E" "writer_ok w" "sd_inv m" "valid_picks m"
  shows "\<exists>ok m' w' n bs. load_type (get_writer E) m w = Some (ok, m', w') \<and> sd_inv m' \<and> writer_ok w'
    \<and> unselected (sd_map m') = unselected (sd_map m) \<and> picks m' = drop n (picks m) \<and> ok = (picks m' = [])
    \<and> written w' = written w @ bs \<and> parses (lib_u16 E) bs (map (on_wire (S E)) (take n (picks m)))
    \<and> (23 \<le> Remaining w \<longrightarrow> picks m \<noteq> [] \<longrightarrow> picks m' \<noteq> picks m)"
  using assms(2-)
proof (induction "length (picks m)" arbitrary: m w rule: less_induct)
  case less
  note b = sd_begin_ok [OF less(3)]
  show ?case
  proof (cases "mi_rest (sd_begin m)")
    case Nil
    then have "load_type (get_writer E) m w = Some (True, m, w)" by (simp add: load_type.simps [of _ m])
    then show ?thesis using b(2) Nil less(2,3)
      by (intro exI [of _ True] exI [of _ m] exI [of _ w] exI [of _ 0] exI [of _ "[]"]) simp
  next
    case (Cons e rest)
    then have p: "picks m = e # picked rest" using b by (auto simp: mi_ok_def)
    let ?v = "sel_variation (c_selection (snd e))"
    have v: "?v \<in> valid" using less(4) p by (simp add: valid_picks_def)
    obtain ok m1 w1 where g: "get_writer E ?v m w = (ok, m1, w1)" by (metis surj_pair)
    have c16: "codec16 (lib_u16 E)" using assms(1) by (simp add: le_codec_def)
    have g': "WriteWithSerializer (lib_u16 E) (S E ?v) ?v m w = (ok, m1, w1)" using g writes [OF v] by simp
    from WriteWithSerializer_spec [of "lib_u16 E" ?v "S E", OF c16 known [OF assms(1) v] less(2,3) p refl g']
    obtain n bs where s: "sd_inv m1" "writer_ok w1" "unselected (sd_map m1) = unselected (sd_map m)" "picks m1 = drop n (picks m)"
      "n \<le> length (picks m)" "written w1 = written w @ bs" "parses (lib_u16 E) bs (map (on_wire (S E)) (take n (picks m)))"
      "if ok then 0 < n else picks m1 \<noteq> [] \<and> (7 + ser_size (S E ?v) \<le> Remaining w \<longrightarrow> 0 < n)" by auto
    have l: "load_type (get_writer E) m w = (if ok then load_type (get_writer E) m1 w1 else Some (False, m1, w1))"
      using Cons g by (cases e) (simp add: load_type.simps [of _ m])
    have moved: "0 < n \<Longrightarrow> drop k (drop n (picks m)) \<noteq> picks m" for k
      using p by (auto dest: arg_cong [where f = length])
    show ?thesis
    proof (cases ok)
      case False
      have "23 \<le> Remaining w \<Longrightarrow> 0 < n" using s(8) False small [OF assms(1) v] by auto
      then have "23 \<le> Remaining w \<Longrightarrow> drop n (picks m) \<noteq> picks m" using moved [of 0] by simp
      then show ?thesis using l s False
        by (intro exI [of _ False] exI [of _ m1] exI [of _ w1] exI [of _ n] exI [of _ bs]) simp
    next
      case True
      then have n: "0 < n" using s(8) by simp
      have "length (picks m1) < length (picks m)" using s(4) n p by simp
      moreover have "valid_picks m1" using less(4) s(4) by (auto simp: valid_picks_def dest: in_set_dropD)
      ultimately obtain ok' m' w' k bs' where r: "load_type (get_writer E) m1 w1 = Some (ok', m', w')" "sd_inv m'" "writer_ok w'"
        "unselected (sd_map m') = unselected (sd_map m1)" "picks m' = drop k (picks m1)" "ok' = (picks m' = [])"
        "written w' = written w1 @ bs'" "parses (lib_u16 E) bs' (map (on_wire (S E)) (take k (picks m1)))"
        using less(1) [OF _ s(2,1)] by blast
      have "parses (lib_u16 E) (bs @ bs') (map (on_wire (S E)) (take (n + k) (picks m)))"
        using parses_append [OF s(7) r(8)] s(4) by (simp add: take_add)
      then show ?thesis using l r s True moved [OF n, of k]
        by (intro exI [of _ ok'] exI [of _ m'] exI [of _ w'] exI [of _ "n + k"] exI [of _ "bs @ bs'"]) (simp add: add.commute)
    qed
  qed
qed

end

lemmas record_simps = GetRecord_def GetEnumAndType_def GetGroupVar_def GetType_def GroupVariation_from_type_def GroupVariation_codes_def
  range_descriptors_def

lemma static_ok_analogs:
  assumes "le_codec E"
  shows "list_all (\<lambda>(v, S). static_ok v S) (static_analogs E)" "list_all (\<lambda>(v, S). ser_size S \<le> 16) (static_analogs E)"
  using le_codec.sized_Insts [OF assms]
  by (simp_all add: static_analogs_def static_ok_def record_simps Group30Var1_Inst_def Group30Var2_Inst_def Group30Var3_Inst_def
      Group30Var4_Inst_def Group30Var5_Inst_def Group30Var6_Inst_def size_defs Let_def)

lemma static_ok_counters:
  assumes "le_codec E"
  shows "list_all (\<lambda>(v, S). static_ok v S) (static_counters E)" "list_all (\<lambda>(v, S). ser_size S \<le> 16) (static_counters E)"
    "list_all (\<lambda>(v, S). static_ok v S) (static_frozen_counters E)" "list_all (\<lambda>(v, S). ser_size S \<le> 16) (static_frozen_counters E)"
  using le_codec.sized_Insts [OF assms]
  by (simp_all add: static_counters_def static_frozen_counters_def static_ok_def record_simps Group20Var1_Inst_def Group20Var2_Inst_def
      Group20Var5_Inst_def Group20Var6_Inst_def Group21Var1_Inst_def Group21Var2_Inst_def Group21Var5_Inst_def Group21Var6_Inst_def
      Group21Var9_Inst_def Group21Var10_Inst_def size_defs Let_def)

lemma static_ok_others:
  assumes "le_codec E"
  shows "list_all (\<lambda>(v, S). static_ok v S) (static_analog_outputs E)" "list_all (\<lambda>(v, S). ser_size S \<le> 16) (static_analog_outputs E)"
    "static_ok Group1Var2 (Group1Var2_Inst E)" "static_ok Group3Var2 (Group3Var2_Inst E)" "static_ok Group10Var2 (Group10Var2_Inst E)"
    "static_ok Group50Var4 (Group50Var4_Inst E)"
  using le_codec.sized_Insts [OF assms]
  by (simp_all add: static_analog_outputs_def static_ok_def record_simps Group40Var1_Inst_def Group40Var2_Inst_def Group40Var3_Inst_def
      Group40Var4_Inst_def Group1Var2_Inst_def Group3Var2_Inst_def Group10Var2_Inst_def Group50Var4_Inst_def size_defs Let_def)

definition table_serializer :: "(le_lib \<Rightarrow> (GroupVariation \<times> 'm DNP3Serializer) list) \<Rightarrow> le_lib \<Rightarrow> GroupVariation \<Rightarrow> 'm DNP3Serializer" where
  "table_serializer table E v = the (map_of (table E) v)"

text \<open>A table of serializers gives such writers.\<close>

lemma table_writers:
  assumes "\<And>E. le_codec E \<Longrightarrow> list_all (\<lambda>(v, S). static_ok v S) (table E)" "\<And>E. le_codec E \<Longrightarrow> list_all (\<lambda>(v, S). ser_size S \<le> 16) (table E)"
    "\<And>E. map fst (table E) = vs"
  shows "static_writers (set vs) (table_serializer table) (\<lambda>E. choose_writer E (table E))"
proof
  fix E v assume v: "v \<in> set vs"
  then have "v \<in> fst ` set (table E)" using assms(3) [of E] by (metis list.set_map)
  then obtain S where S: "map_of (table E) v = Some S" by (meson map_of_eq_None_iff option.exhaust)
  have m: "(v, S) \<in> set (table E)" using S by (rule map_of_SomeD)
  show "ser_size (table_serializer table E v) \<le> 16" if "le_codec E" using m assms(2) [OF that] S by (auto simp: table_serializer_def list_all_iff)
  show "choose_writer E (table E) v = WriteWithSerializer (lib_u16 E) (table_serializer table E v) v"
    by (simp add: choose_writer_def table_serializer_def S)
  show "static_ok v (table_serializer table E v)" if "le_codec E"
    using m assms(1) [OF that] S by (auto simp: table_serializer_def list_all_iff)
qed

interpretation analogs: static_writers "set StaticAnalogVariations" "table_serializer static_analogs" analog_writer
  unfolding analog_writer_def
  by (rule table_writers) (use static_ok_analogs in \<open>simp_all add: static_analogs_def StaticAnalogVariations_def\<close>)

interpretation counters: static_writers "set StaticCounterVariations" "table_serializer static_counters" counter_writer
  unfolding counter_writer_def
  by (rule table_writers) (use static_ok_counters in \<open>simp_all add: static_counters_def StaticCounterVariations_def\<close>)

interpretation frozen_counters: static_writers "set StaticFrozenCounterVariations" "table_serializer static_frozen_counters" frozen_counter_writer
  unfolding frozen_counter_writer_def
  by (rule table_writers) (use static_ok_counters in \<open>simp_all add: static_frozen_counters_def StaticFrozenCounterVariations_def\<close>)

interpretation analog_outputs: static_writers "set StaticAnalogOutputStatusVariations" "table_serializer static_analog_outputs" analog_output_writer
  unfolding analog_output_writer_def
  by (rule table_writers) (use static_ok_others in \<open>simp_all add: static_analog_outputs_def StaticAnalogOutputStatusVariations_def\<close>)

text \<open>Binary inputs with flags; their other variation is packed into bits.\<close>

interpretation binaries: static_writers "{Group1Var2}" "\<lambda>E v. Group1Var2_Inst E" binary_writer
  by unfold_locales (use static_ok_others in \<open>auto simp: binary_writer_def Group1Var2_Inst_def size_defs\<close>)

interpretation double_bits: static_writers "set StaticDoubleBinaryVariations" "\<lambda>E v. Group3Var2_Inst E" double_bit_writer
  by unfold_locales (use static_ok_others in \<open>auto simp: double_bit_writer_def StaticDoubleBinaryVariations_def Group3Var2_Inst_def size_defs\<close>)

interpretation binary_outputs: static_writers "set StaticBinaryOutputStatusVariations" "\<lambda>E v. Group10Var2_Inst E" binary_output_writer
  by unfold_locales (use static_ok_others in \<open>auto simp: binary_output_writer_def StaticBinaryOutputStatusVariations_def Group10Var2_Inst_def size_defs\<close>)

interpretation times: static_writers "set StaticTimeAndIntervalVariations" "\<lambda>E v. Group50Var4_Inst E" time_writer
  by unfold_locales (use static_ok_others in \<open>auto simp: time_writer_def StaticTimeAndIntervalVariations_def Group50Var4_Inst_def size_defs\<close>)

end
