(* ===== verification/Out_Event_Laws.thy ===== *)
theory Out_Event_Laws
  imports Out_Events
begin

text \<open>
  Laws of the event buffer: every operation keeps the counters equal to the numbers of events and no type over its
  capacity; selection marks the oldest matching events; writing marks a prefix of the selected ones; clearing
  removes the written ones and no other.
\<close>

section \<open>Selection\<close>

lemma same_values_types:
  assumes "map er_value rs = map er_value rs'"
  shows "length (filter (has_type T) rs) = length (filter (has_type T) rs')"
proof -
  have "length (filter (has_type T) xs) = length (filter (\<lambda>v. event_type v = T) (map er_value xs))" for xs
    by (induction xs) (simp_all add: has_type_def)
  then show ?thesis using assms by metis
qed

lemma storage_inv_same_values:
  assumes "storage_inv l" "map er_value rs = map er_value (el_events l)" "c = counts rs"
  shows "storage_inv (l\<lparr>el_events := rs, el_counters := c\<rparr>)"
  using assms(1,3) same_values_types [OF assms(2)] by (simp add: storage_inv_def GetList_def)

text \<open>Selecting the oldest \<open>m\<close> of the events that match.\<close>

fun mark_first :: "(EventRecord \<Rightarrow> bool) \<Rightarrow> (EventRecord \<Rightarrow> EventRecord) \<Rightarrow> nat \<Rightarrow> EventRecord list \<Rightarrow> EventRecord list" where
  "mark_first P f m [] = []"
| "mark_first P f 0 rs = rs"
| "mark_first P f (Suc m) (r # rs) = (if P r then f r # mark_first P f m rs else r # mark_first P f (Suc m) rs)"

lemma mark_first_all: "length (filter P rs) \<le> m \<Longrightarrow> mark_first P f m rs = map (\<lambda>r. if P r then f r else r) rs"
proof (induction P f m rs rule: mark_first.induct)
  case (2 P f r rs)
  then have "\<forall>x \<in> set (r # rs). \<not> P x" by (auto simp: filter_empty_conv split: if_splits)
  then show ?case by (auto intro!: map_idI [symmetric])
qed auto

locale selecting =
  fixes upd :: "EventRecord \<Rightarrow> EventRecord"
  assumes keeps: "er_state (upd r) = er_state r" "er_clazz (upd r) = er_clazz r" "er_value (upd r) = er_value r"
begin

abbreviation selects :: "EventRecord \<Rightarrow> EventRecord" where
  "selects r \<equiv> upd (r\<lparr>er_state := Selected\<rparr>)"

lemma select_while_counts:
  "select_while match upd m rs = (n, rs') \<Longrightarrow> (OnSelect ^^ n) (counts (pre @ rs)) = counts (pre @ rs')"
proof (induction rs arbitrary: m n rs' pre)
  case (Cons r rs)
  show ?case
  proof (cases "m = 0")
    case False
    show ?thesis
    proof (cases "match r \<and> er_state r = Unselected")
      case True
      obtain n1 rs1 where s: "select_while match upd (m - 1) rs = (n1, rs1)" by (metis surj_pair)
      have e: "n = Suc n1" "rs' = selects r # rs1" using Cons.prems s True False by auto
      have "OnSelect (counts (pre @ r # rs)) = counts ((pre @ [selects r]) @ rs)"
        using counts_OnSelect [of r "selects r" pre rs] True by (simp add: keeps)
      then show ?thesis using Cons.IH [OF s, of "pre @ [selects r]"] e by (simp add: funpow_swap1)
    next
      case no: False
      obtain n1 rs1 where s: "select_while match upd m rs = (n1, rs1)" by (metis surj_pair)
      have e: "n = n1" "rs' = r # rs1" using Cons.prems s no False by (auto split: if_splits)
      then show ?thesis using Cons.IH [OF s, of "pre @ [r]"] by simp
    qed
  qed (use Cons.prems in auto)
qed simp

lemma select_while_values: "select_while match upd m rs = (n, rs') \<Longrightarrow> map er_value rs' = map er_value rs"
  by (induction rs arbitrary: m n rs') (auto simp: keeps split: if_splits prod.splits)

lemma select_while_marks:
  "select_while match upd m rs
     = (min m (length (filter (\<lambda>r. match r \<and> er_state r = Unselected) rs)),
        mark_first (\<lambda>r. match r \<and> er_state r = Unselected) selects m rs)"
proof (induction rs arbitrary: m)
  case (Cons r rs) then show ?case by (cases m) simp_all
qed simp

lemma select_events_spec:
  fixes match :: "EventRecord \<Rightarrow> bool"
  assumes "storage_inv l"
  defines "P \<equiv> (\<lambda>r. match r \<and> er_state r = Unselected)"
  shows "storage_inv (snd (select_events match upd m l))"
    and "el_config (snd (select_events match upd m l)) = el_config l"
    and "el_events (snd (select_events match upd m l)) = mark_first P selects m (el_events l)"
    and "fst (select_events match upd m l) = min m (length (filter P (el_events l)))"
proof -
  obtain n rs where s: "select_while match upd m (el_events l) = (n, rs)" by (metis surj_pair)
  have e: "select_events match upd m l = (n, l\<lparr>el_events := rs, el_counters := (OnSelect ^^ n) (el_counters l)\<rparr>)"
    using s by (simp add: select_events_def)
  have "(OnSelect ^^ n) (el_counters l) = counts rs"
    using select_while_counts [OF s, of "[]"] assms(1) by (simp add: storage_inv_def)
  then show "storage_inv (snd (select_events match upd m l))"
    using storage_inv_same_values [OF assms(1) select_while_values [OF s]] by (simp add: e)
  show "el_config (snd (select_events match upd m l)) = el_config l" by (simp add: e)
  show "el_events (snd (select_events match upd m l)) = mark_first P selects m (el_events l)"
    "fst (select_events match upd m l) = min m (length (filter P (el_events l)))"
    using s select_while_marks [of match m "el_events l"] by (simp_all add: e P_def)
qed

end

interpretation by_default: selecting "\<lambda>r. r\<lparr>selectedVariation := defaultVariation r\<rparr>" by unfold_locales simp_all
interpretation by_variation: selecting "\<lambda>r. r\<lparr>selectedVariation := v\<rparr>" for v by unfold_locales simp_all
interpretation by_class: selecting "\<lambda>r. r" by unfold_locales simp_all

section \<open>Clearing and resetting\<close>

lemma fold_OnRemove: "fold (\<lambda>r. OnRemove (er_clazz r) (er_state r)) (filter P rs) (counts (pre @ rs)) = counts (pre @ filter (\<lambda>r. \<not> P r) rs)"
proof (induction rs arbitrary: pre)
  case (Cons r rs)
  show ?case using Cons.IH [of "pre @ [r]"] Cons.IH [of pre] by (simp add: counts_OnRemove)
qed simp

lemma filter_has_type_le: "length (filter (has_type T) (filter P rs)) \<le> length (filter (has_type T) rs)"
  by (induction rs) auto

lemma ClearWritten_spec:
  assumes "storage_inv l"
  shows "storage_inv (snd (EventStorage_ClearWritten l))"
    and "el_config (snd (EventStorage_ClearWritten l)) = el_config l"
    and "el_events (snd (EventStorage_ClearWritten l)) = filter (\<lambda>r. \<not> is_written r) (el_events l)"
proof -
  let ?rs = "filter (\<lambda>r. \<not> is_written r) (el_events l)"
  have "el_counters (snd (EventStorage_ClearWritten l)) = counts ?rs"
    using assms fold_OnRemove [of is_written "el_events l" "[]"] by (simp add: EventStorage_ClearWritten_def storage_inv_def)
  moreover have "length (filter (has_type T) ?rs) \<le> type_capacity (el_config l) T" for T
    using filter_has_type_le [of T "\<lambda>r. \<not> is_written r" "el_events l"] assms order_trans
    by (simp add: storage_inv_def GetList_def) blast
  ultimately show "storage_inv (snd (EventStorage_ClearWritten l))"
    by (simp add: storage_inv_def GetList_def EventStorage_ClearWritten_def Let_def)
qed (simp_all add: EventStorage_ClearWritten_def Let_def)

lemma Unselect_spec:
  assumes "storage_inv l"
  shows "storage_inv (EventStorage_Unselect l)" "el_config (EventStorage_Unselect l) = el_config l"
    "el_events (EventStorage_Unselect l) = map (\<lambda>r. r\<lparr>er_state := Unselected\<rparr>) (el_events l)"
proof -
  show "storage_inv (EventStorage_Unselect l)"
    using storage_inv_same_values [OF assms, of "map (\<lambda>r. r\<lparr>er_state := Unselected\<rparr>) (el_events l)"] counts_Reset assms
    by (simp add: EventStorage_Unselect_def storage_inv_def)
qed (simp_all add: EventStorage_Unselect_def)

section \<open>Writing\<close>

definition mark_written :: "EventRecord \<Rightarrow> EventRecord" where
  "mark_written r = (if is_selected r then r\<lparr>er_state := Written\<rparr> else r)"

text \<open>A prefix of the events has been passed, and its selected events are written; the counters agree.\<close>

definition wrote :: "EventRecord list \<Rightarrow> EventRecord list \<Rightarrow> EventRecord list \<Rightarrow> EventRecord list \<Rightarrow> EventClassCounters \<Rightarrow> bool" where
  "wrote pre rs passed rest c = (\<exists>xs. rs = xs @ rest \<and> passed = map mark_written xs \<and> c = counts (pre @ passed @ rest))"

lemma wroteI: "rs = xs @ rest \<Longrightarrow> passed = map mark_written xs \<Longrightarrow> c = counts (pre @ passed @ rest) \<Longrightarrow> wrote pre rs passed rest c"
  by (auto simp: wrote_def)

lemma wrote_nothing: "c = counts (pre @ rs) \<Longrightarrow> wrote pre rs [] rs c"
  by (auto simp: wrote_def)

lemma wrote_cons: "wrote (pre @ [mark_written r]) rs passed rest c \<Longrightarrow> wrote pre (r # rs) (mark_written r # passed) rest c"
  unfolding wrote_def by (elim exE, rule_tac x = "r # xs" in exI) simp

lemma wrote_trans:
  "wrote pre rs p1 r1 c1 \<Longrightarrow> (c1 = counts ((pre @ p1) @ r1) \<Longrightarrow> wrote (pre @ p1) r1 p2 r2 c2) \<Longrightarrow> wrote pre rs (p1 @ p2) r2 c2"
  unfolding wrote_def by (elim exE) (auto simp: append_assoc)

lemma WriteSome_loop_wrote:
  "WriteSome_loop T v wr1 rs c w = (n, passed, rest, c', w') \<Longrightarrow> c = counts (pre @ rs) \<Longrightarrow> wrote pre rs passed rest c'"
proof (induction rs arbitrary: c w n passed rest c' w' pre)
  case (Cons r rs)
  note IH = Cons.IH and prems = Cons.prems
  consider (out) "cc_selected c = 0" | (skip) "cc_selected c \<noteq> 0" "er_state r \<noteq> Selected"
    | (other) "cc_selected c \<noteq> 0" "er_state r = Selected" "\<not> has_type T r \<or> selectedVariation r \<noteq> v"
    | (good) "cc_selected c \<noteq> 0" "er_state r = Selected" "has_type T r" "selectedVariation r = v" by blast
  then show ?case
  proof cases
    case skip
    obtain n1 p1 r1 c1 w1 where s: "WriteSome_loop T v wr1 rs c w = (n1, p1, r1, c1, w1)" by (metis surj_pair)
    have m: "mark_written r = r" using skip by (simp add: mark_written_def)
    have "wrote (pre @ [mark_written r]) rs p1 r1 c1" using IH [OF s, of "pre @ [r]"] prems(2) by (simp add: m)
    then show ?thesis using wrote_cons [of pre r rs p1 r1 c1] prems(1) skip s m by auto
  next
    case good
    obtain ok w0 where w0: "wr1 (er_value r) (er_index r) w = (ok, w0)" by (metis surj_pair)
    show ?thesis
    proof (cases ok)
      case True
      obtain n1 p1 r1 c1 w1 where s: "WriteSome_loop T v wr1 rs (OnWrite (er_clazz r) c) w0 = (n1, p1, r1, c1, w1)" by (metis surj_pair)
      have m: "mark_written r = r\<lparr>er_state := Written\<rparr>" using good by (simp add: mark_written_def)
      have "OnWrite (er_clazz r) c = counts ((pre @ [mark_written r]) @ rs)"
        using counts_OnWrite [of r "mark_written r" pre rs] good(2) prems(2) by (simp add: m)
      then have "wrote (pre @ [mark_written r]) rs p1 r1 c1" by (rule IH [OF s])
      then show ?thesis using wrote_cons [of pre r rs p1 r1 c1] prems(1) good w0 True s m by auto
    next
      case False
      then show ?thesis using prems good w0 by (auto intro: wrote_nothing)
    qed
  qed (use prems in \<open>auto intro: wrote_nothing\<close>)
qed (auto simp: wrote_nothing)

lemma ASDU_wrote:
  "ASDUEventWriteHandler_Write E v f w rs c = (n, passed, rest, c', w') \<Longrightarrow> c = counts (pre @ rs) \<Longrightarrow> wrote pre rs passed rest c'"
  by (auto simp: ASDUEventWriteHandler_Write_def EventWriters_Write_def EventWriters_WriteWithCTO_def EventWriters_WriteOctets_def
      write_group_def Let_def dest!: WriteSome_loop_wrote intro: wrote_nothing split: event_value.splits if_splits option.splits prod.splits)

lemma wrote_skipped:
  assumes "wrote (pre @ takeWhile P rs) (dropWhile P rs) passed rest c" "\<And>r. P r \<Longrightarrow> \<not> is_selected r"
  shows "wrote pre rs (takeWhile P rs @ passed) rest c"
proof -
  have "map mark_written (takeWhile P rs) = takeWhile P rs"
    using assms(2) by (auto intro!: map_idI simp: mark_written_def dest!: set_takeWhileD)
  moreover obtain xs where "dropWhile P rs = xs @ rest" "passed = map mark_written xs"
      "c = counts ((pre @ takeWhile P rs) @ passed @ rest)" using assms(1) by (auto simp: wrote_def)
  ultimately show ?thesis
    by (intro wroteI [where xs = "takeWhile P rs @ xs"]) (use takeWhile_dropWhile_id [of P rs] in simp_all)
qed

lemma WriteSome_wrote:
  assumes "EventWriting_WriteSome E w rs c = (n, passed, rest, c', w')" "c = counts (pre @ rs)"
  shows "wrote pre rs passed rest c'"
proof (cases "cc_selected c = 0")
  case False
  let ?P = "\<lambda>r. er_state r \<noteq> Selected"
  show ?thesis
  proof (cases "dropWhile ?P rs")
    case Nil
    then have "wrote (pre @ takeWhile ?P rs) (dropWhile ?P rs) [] [] c"
      using assms(2) takeWhile_dropWhile_id [of ?P rs] by (simp add: wrote_def del: takeWhile_eq_all_conv dropWhile_eq_Nil_conv)
    from wrote_skipped [OF this] show ?thesis using assms(1) False Nil by (simp add: EventWriting_WriteSome_def)
  next
    case (Cons r rs')
    obtain n1 p1 r1 c1 w1 where s: "ASDUEventWriteHandler_Write E (selectedVariation r) (er_value r) w (dropWhile ?P rs) c = (n1, p1, r1, c1, w1)"
      by (metis surj_pair)
    have "c = counts ((pre @ takeWhile ?P rs) @ dropWhile ?P rs)" using assms(2) by simp
    from wrote_skipped [OF ASDU_wrote [OF s this]] have "wrote pre rs (takeWhile ?P rs @ p1) r1 c1" by simp
    then show ?thesis using assms(1) False s Cons by (simp add: EventWriting_WriteSome_def)
  qed
qed (use assms in \<open>auto simp: EventWriting_WriteSome_def intro: wrote_nothing\<close>)

lemma EventWriting_loop_wrote:
  "c = counts (pre @ rs) \<Longrightarrow> EventWriting_loop E w rs c = (rs', c', w') \<Longrightarrow>
     \<exists>passed rest. wrote pre rs passed rest c' \<and> rs' = passed @ rest"
proof (induction E w rs c arbitrary: rs' c' w' pre rule: EventWriting_loop.induct [case_names 1])
  case (1 E w rs c)
  obtain n p1 r1 c1 w1 where s: "EventWriting_WriteSome E w rs c = (n, p1, r1, c1, w1)" by (metis surj_pair)
  note w = WriteSome_wrote [OF s 1(2)]
  show ?case
  proof (cases "n = 0")
    case True
    then have "rs' = p1 @ r1" "c' = c1" using 1(3) s by (simp_all add: EventWriting_loop.simps [of E w rs])
    then show ?thesis using w by blast
  next
    case False
    obtain rs2 c2 w2 where l: "EventWriting_loop E w1 r1 c1 = (rs2, c2, w2)" by (metis surj_pair)
    have e: "rs' = p1 @ rs2" "c' = c2" using 1(3) s l False by (simp_all add: EventWriting_loop.simps [of E w rs])
    have c1: "c1 = counts ((pre @ p1) @ r1)" using w by (auto simp: wrote_def)
    from 1(1) [OF s [symmetric] refl refl refl refl False c1 l]
    obtain p2 r2 where p2: "wrote (pre @ p1) r1 p2 r2 c2" "rs2 = p2 @ r2" by blast
    have "wrote pre rs (p1 @ p2) r2 c2" using wrote_trans [OF w p2(1)] .
    then show ?thesis using e p2(2) by (intro exI [of _ "p1 @ p2"] exI [of _ r2]) simp
  qed
qed

lemma mark_written_value [simp]: "er_value (mark_written r) = er_value r" "er_clazz (mark_written r) = er_clazz r" "er_index (mark_written r) = er_index r"
  by (simp_all add: mark_written_def)

lemma EventWriting_Write_spec:
  assumes "storage_inv l" "EventWriting_Write E w l = (l', w')"
  shows "storage_inv l' \<and> el_config l' = el_config l
    \<and> (\<exists>xs rest. el_events l = xs @ rest \<and> el_events l' = map mark_written xs @ rest)"
proof -
  obtain rs c x where lp: "EventWriting_loop E w (el_events l) (el_counters l) = (rs, c, x)" by (metis surj_pair)
  have l': "l' = l\<lparr>el_events := rs, el_counters := c\<rparr>" using assms(2) lp by (simp add: EventWriting_Write_def)
  have "el_counters l = counts ([] @ el_events l)" using assms(1) by (simp add: storage_inv_def)
  from EventWriting_loop_wrote [OF this lp] obtain xs rest
    where x: "el_events l = xs @ rest" "rs = map mark_written xs @ rest" "c = counts rs" by (auto simp: wrote_def)
  have "map er_value rs = map er_value (el_events l)" by (simp add: x comp_def)
  from storage_inv_same_values [OF assms(1) this x(3)] show ?thesis using x l' by auto
qed

section \<open>The buffer\<close>

text \<open>The calls of the outstation on the buffer; \<open>Do_Load w\<close> writes a response into \<open>w\<close>.\<close>

datatype event_op =
    Do_Update Event | Do_Unselect | Do_SelectAll GroupVariation | Do_SelectCount GroupVariation u16
  | Do_SelectAllByClass ClassField | Do_Load HeaderWriter | Do_IsOverflown | Do_ClearWritten

fun run_event_op :: "le_lib \<Rightarrow> event_op \<Rightarrow> EventBuffer \<Rightarrow> EventBuffer" where
  "run_event_op E (Do_Update e) b = EventBuffer_Update e b"
| "run_event_op E Do_Unselect b = EventBuffer_Unselect b"
| "run_event_op E (Do_SelectAll gv) b = snd (EventBuffer_SelectAll gv b)"
| "run_event_op E (Do_SelectCount gv n) b = snd (EventBuffer_SelectCount gv n b)"
| "run_event_op E (Do_SelectAllByClass cf) b = SelectAllByClass cf b"
| "run_event_op E (Do_Load w) b = fst (snd (EventBuffer_Load E w b))"
| "run_event_op E Do_IsOverflown b = snd (IsOverflown b)"
| "run_event_op E Do_ClearWritten b = EventBuffer_ClearWritten b"

definition buffer_events :: "EventBuffer \<Rightarrow> EventRecord list" where
  "buffer_events b = el_events (eb_storage b)"

definition buffer_inv :: "EventBufferConfig \<Rightarrow> EventBuffer \<Rightarrow> bool" where
  "buffer_inv cfg b = (storage_inv (eb_storage b) \<and> el_config (eb_storage b) = cfg)"

text \<open>What an event is for the master: everything but its state and the variation it is reported in.\<close>

definition ident :: "EventRecord \<Rightarrow> u16 \<times> EventClass \<times> event_value" where
  "ident r = (er_index r, er_clazz r, er_value r)"

lemma ident_simps [simp]: "ident (r\<lparr>er_state := st\<rparr>) = ident r" "ident (r\<lparr>selectedVariation := v\<rparr>) = ident r" "ident (mark_written r) = ident r"
  by (simp_all add: ident_def mark_written_def)

lemma mark_first_ident: "(\<And>r. ident (f r) = ident r) \<Longrightarrow> map ident (mark_first P f m rs) = map ident rs"
  by (induction P f m rs rule: mark_first.induct) auto

lemma selection_keeps:
  fixes match :: "EventRecord \<Rightarrow> bool" and m :: nat
  assumes "buffer_inv cfg b" "selecting upd" "\<And>r. ident (upd r) = ident r"
  defines "b' \<equiv> b\<lparr>eb_storage := snd (select_events match upd m (eb_storage b))\<rparr>"
  shows "buffer_inv cfg b' \<and> map ident (buffer_events b') = map ident (buffer_events b)"
  using assms(1) selecting.select_events_spec [OF assms(2), of "eb_storage b" match m]
  by (simp add: buffer_inv_def b'_def buffer_events_def mark_first_ident assms(3))

lemma SelectMaxCount_keeps:
  assumes "buffer_inv cfg b"
  shows "buffer_inv cfg (snd (SelectMaxCount gv m b)) \<and> map ident (buffer_events (snd (SelectMaxCount gv m b))) = map ident (buffer_events b)"
  using assms
    selection_keeps [OF assms by_default.selecting_axioms] selection_keeps [OF assms by_variation.selecting_axioms]
    selection_keeps [OF assms by_class.selecting_axioms]
  by (simp add: SelectMaxCount_def SelectByType_default_def SelectByType_variation_def EventSelection_SelectByClass_def split: option.splits)

lemma Load_spec:
  assumes "buffer_inv cfg b" "EventBuffer_Load E w b = (ok, b', w')"
  shows "buffer_inv cfg b'"
    and "\<exists>xs rest. buffer_events b = xs @ rest \<and> buffer_events b' = map mark_written xs @ rest"
    and "ok = (NumSelected (eb_storage b') = 0)"
proof -
  obtain l x where e: "EventWriting_Write E w (eb_storage b) = (l, x)" by (metis surj_pair)
  have "storage_inv (eb_storage b)" using assms(1) by (simp add: buffer_inv_def)
  note s = EventWriting_Write_spec [OF this e]
  have b': "eb_storage b' = l" "ok = (NumSelected l = 0)" using assms(2) e by (auto simp: EventBuffer_Load_def)
  show "buffer_inv cfg b'" using s assms(1) b' by (simp add: buffer_inv_def)
  show "\<exists>xs rest. buffer_events b = xs @ rest \<and> buffer_events b' = map mark_written xs @ rest"
    using s by (simp add: buffer_events_def b')
  show "ok = (NumSelected (eb_storage b') = 0)" by (simp add: b')
qed

text \<open>The abstract queue: a new event goes to the end, and displaces the oldest of its type when there are \<open>cap\<close> of them.\<close>

definition queue_update :: "EventBufferConfig \<Rightarrow> Event \<Rightarrow> (u16 \<times> EventClass \<times> event_value) list \<Rightarrow> (u16 \<times> EventClass \<times> event_value) list" where
  "queue_update cfg e q =
     (let T = event_type (e_value e); new = (e_index e, e_clazz e, e_value e); same = (\<lambda>(i, c, v). event_type v = T)
      in if type_capacity cfg T = 0 then q
         else if length (filter same q) < type_capacity cfg T then q @ [new]
         else takeWhile (\<lambda>x. \<not> same x) q @ tl (dropWhile (\<lambda>x. \<not> same x) q) @ [new])"

lemma filter_ident: "filter (\<lambda>(i, c, v). event_type v = T) (map ident rs) = map ident (filter (has_type T) rs)"
  by (induction rs) (simp_all add: ident_def has_type_def)

lemma Update_queue:
  assumes "buffer_inv cfg b"
  shows "buffer_inv cfg (EventBuffer_Update e b) \<and> map ident (buffer_events (EventBuffer_Update e b)) = queue_update cfg e (map ident (buffer_events b))"
proof -
  obtain ov l where u: "EventUpdate_Update e (eb_storage b) = (ov, l)" by (metis surj_pair)
  let ?T = "event_type (e_value e)" and ?s = "eb_storage b" and ?same = "\<lambda>(i :: u16, c :: EventClass, v). event_type v = event_type (e_value e)"
  have inv: "storage_inv ?s" "el_config ?s = cfg" using assms by (simp_all add: buffer_inv_def)
  have new: "ident (EventRecord_make e) = (e_index e, e_clazz e, e_value e)" by (simp add: ident_def EventRecord_make_def)
  have same: "?same (ident r) = has_type ?T r" for r by (simp add: ident_def has_type_def)
  note spec = Update_spec [OF inv(1) u]
  have b': "buffer_inv cfg (EventBuffer_Update e b)" "buffer_events (EventBuffer_Update e b) = el_events l"
    using spec u inv by (auto simp: EventBuffer_Update_def buffer_inv_def buffer_events_def)
  have len: "length (filter ?same (map ident (el_events ?s))) = length (GetList ?T ?s)" by (simp add: filter_ident GetList_def)
  have "map ident (el_events l) = queue_update cfg e (map ident (el_events ?s))"
  proof (cases "type_capacity cfg ?T = 0 \<or> length (GetList ?T ?s) < type_capacity cfg ?T")
    case True
    then show ?thesis using spec inv len new by (auto simp: queue_update_def Let_def split: if_splits)
  next
    case False
    with spec inv obtain xs r ys where s: "el_events ?s = xs @ r # ys" "has_type ?T r" "filter (has_type ?T) xs = []"
      "el_events l = xs @ ys @ [EventRecord_make e]" by (auto simp: Let_def)
    have no: "\<not> ?same x" if "x \<in> set (map ident xs)" for x
      using that s(3) same by (fastforce simp: filter_empty_conv simp del: split_conv)
    have "takeWhile (\<lambda>x. \<not> ?same x) (map ident xs @ ident r # map ident ys) = map ident xs"
      "dropWhile (\<lambda>x. \<not> ?same x) (map ident xs @ ident r # map ident ys) = ident r # map ident ys"
      using no s(2) same [of r] by (simp_all only: takeWhile_append2 dropWhile_append2 takeWhile.simps dropWhile.simps if_False if_True simp_thms append_Nil2)
    then show ?thesis using False len s new by (auto simp: queue_update_def Let_def)
  qed
  then show ?thesis using b' by (simp add: buffer_events_def)
qed

fun queue_op :: "EventBufferConfig \<Rightarrow> event_op \<Rightarrow> EventRecord list \<Rightarrow> (u16 \<times> EventClass \<times> event_value) list" where
  "queue_op cfg (Do_Update e) rs = queue_update cfg e (map ident rs)"
| "queue_op cfg Do_ClearWritten rs = map ident (filter (\<lambda>r. \<not> is_written r) rs)"
| "queue_op cfg _ rs = map ident rs"

lemma run_event_op_step:
  assumes "buffer_inv cfg b"
  shows "buffer_inv cfg (run_event_op E x b) \<and> map ident (buffer_events (run_event_op E x b)) = queue_op cfg x (buffer_events b)"
proof (cases x)
  case (Do_Load w)
  obtain ok b' w' where l: "EventBuffer_Load E w b = (ok, b', w')" by (metis surj_pair)
  from Load_spec [OF assms l] obtain xs rest
    where "buffer_inv cfg b'" "buffer_events b = xs @ rest" "buffer_events b' = map mark_written xs @ rest" by blast
  then show ?thesis using Do_Load l by (simp add: comp_def)
next
  case Do_Unselect
  then show ?thesis using assms Unselect_spec [of "eb_storage b"]
    by (simp add: EventBuffer_Unselect_def buffer_inv_def buffer_events_def comp_def)
next
  case Do_ClearWritten
  then show ?thesis using assms ClearWritten_spec [of "eb_storage b"]
    by (simp add: EventBuffer_ClearWritten_def buffer_inv_def buffer_events_def)
next
  case (Do_SelectAllByClass cf)
  then show ?thesis using selection_keeps [OF assms by_class.selecting_axioms]
    by (simp add: SelectAllByClass_def EventSelection_SelectByClass_def)
next
  case Do_IsOverflown
  then show ?thesis using assms by (simp add: IsOverflown_def buffer_inv_def buffer_events_def Let_def)
qed (use assms Update_queue SelectMaxCount_keeps in \<open>simp_all add: EventBuffer_SelectAll_def EventBuffer_SelectCount_def\<close>)

lemma reachable_buffer: "buffer_inv cfg (fold (run_event_op E) ops (EventBuffer_make cfg))"
proof -
  have "buffer_inv cfg b \<Longrightarrow> buffer_inv cfg (fold (run_event_op E) ops b)" for b
    by (induction ops arbitrary: b) (simp_all add: run_event_op_step)
  moreover have "buffer_inv cfg (EventBuffer_make cfg)"
    using storage_make [of cfg] by (simp add: buffer_inv_def EventBuffer_make_def) (simp add: EventLists_make_def)
  ultimately show ?thesis .
qed

lemma of_nat_pos: "n < 4294967296 \<Longrightarrow> ((of_nat n :: u32) > 0) = (n > 0)"
  by (metis of_nat_zero_iff word_gt_0 gr0I less_irrefl)

lemma length_filter_split: "length (filter P rs) = length (filter (\<lambda>r. P r \<and> Q r) rs) + length (filter (\<lambda>r. P r \<and> \<not> Q r) rs)"
  by (induction rs) auto

lemma few_events:
  assumes "storage_inv l"
  shows "length (filter P (el_events l)) < 4294967296"
proof -
  have "length (el_events l) \<le> 524280" using storage_bound [of l] assms by (simp add: storage_inv_def)
  then show ?thesis using length_filter_le [of P "el_events l"] by linarith
qed

lemma NumUnwritten_counts:
  assumes "storage_inv l"
  shows "NumUnwritten cl l = of_nat (length (filter (\<lambda>r. er_clazz r = cl \<and> \<not> is_written r) (el_events l)))"
proof -
  have t: "ClazzCount_Get cl (class_counts rs) = of_nat (length (filter (\<lambda>r. er_clazz r = cl) rs))" for rs
    by (cases cl) (simp_all add: class_counts_def)
  have "filter (\<lambda>r. er_clazz r = cl) (filter is_written (el_events l)) = filter (\<lambda>r. er_clazz r = cl \<and> is_written r) (el_events l)"
    by (simp add: conj_commute)
  then show ?thesis
    using assms length_filter_split [of "\<lambda>r. er_clazz r = cl" "el_events l" is_written]
    by (simp add: NumUnwritten_def storage_inv_def counts_def t)
qed

lemma some_filter: "length (filter P rs) > 0 \<longleftrightarrow> (\<exists>r \<in> set rs. P r)"
  by (auto simp: filter_empty_conv)

lemma NumUnwritten_pos:
  assumes "storage_inv l"
  shows "NumUnwritten cl l > 0 \<longleftrightarrow> (\<exists>r \<in> set (el_events l). er_clazz r = cl \<and> \<not> is_written r)"
proof -
  have "length (filter (\<lambda>r. er_clazz r = cl \<and> \<not> is_written r) (el_events l)) < 4294967296"
    by (rule few_events [OF assms])
  then show ?thesis unfolding NumUnwritten_counts [OF assms] by (simp only: of_nat_pos some_filter)
qed

lemma NumSelected_pos:
  assumes "storage_inv l"
  shows "NumSelected l > 0 \<longleftrightarrow> (\<exists>r \<in> set (el_events l). is_selected r)"
proof -
  have "length (filter is_selected (el_events l)) < 4294967296"
    by (rule few_events [OF assms])
  moreover have "NumSelected l = of_nat (length (filter is_selected (el_events l)))"
    using assms by (simp add: NumSelected_def storage_inv_def counts_def)
  ultimately show ?thesis by (simp only: of_nat_pos some_filter)
qed

section \<open>The buffer as a queue\<close>

lemma HasAnySelection_iff: "buffer_inv cfg b \<Longrightarrow> EventBuffer_HasAnySelection b = list_ex is_selected (buffer_events b)"
  by (simp add: EventBuffer_HasAnySelection_def NumSelected_pos buffer_inv_def buffer_events_def list_ex_iff)

lemma UnwrittenClassField_iff:
  "buffer_inv cfg b \<Longrightarrow> UnwrittenClassField b
     = (let some = (\<lambda>cl. list_ex (\<lambda>r. er_clazz r = cl \<and> \<not> is_written r) (buffer_events b)) in ClassField_make False (some EC1) (some EC2) (some EC3))"
  by (simp add: UnwrittenClassField_def NumUnwritten_pos buffer_inv_def buffer_events_def list_ex_iff)

lemma buffer_length: "buffer_inv cfg b \<Longrightarrow> length (buffer_events b) \<le> TotalEvents cfg"
  using storage_bound [of "eb_storage b"] unfolding buffer_inv_def buffer_events_def storage_inv_def by blast

text \<open>
  C13. The event buffer implements a queue. After any sequence of calls, a further call changes the events (index,
  class and value, in their order) as the abstract queue does: an update appends and displaces the oldest event of
  its type when the type is full, the clearing of written events removes them, and no other call adds, drops,
  reorders or changes an event. There are never more events than the configuration allows, the class bits
  of the internal indications are set for the classes with an event that has not been written, and there is a
  selection just when an event is selected: the 32-bit counters do not drift.
\<close>

theorem event_buffer_is_a_queue:
  "let b = fold (run_event_op E) ops (EventBuffer_make cfg);
       unwritten = (\<lambda>cl. list_ex (\<lambda>r. er_clazz r = cl \<and> \<not> is_written r) (buffer_events b))
   in map ident (buffer_events (run_event_op E x b)) = queue_op cfg x (buffer_events b)
      \<and> length (buffer_events b) \<le> TotalEvents cfg
      \<and> UnwrittenClassField b = ClassField_make False (unwritten EC1) (unwritten EC2) (unwritten EC3)
      \<and> EventBuffer_HasAnySelection b = list_ex is_selected (buffer_events b)"
  using reachable_buffer [of cfg E ops] run_event_op_step UnwrittenClassField_iff HasAnySelection_iff buffer_length
  by (simp add: Let_def)

end
