(* ===== verification/Out_Database.thy ===== *)
theory Out_Database
  imports Out_Reads Out_Event_Laws
begin

text \<open>
  The database of the outstation (\<open>outstation/Database\<close>, \<open>outstation/DatabaseConfig.cpp\<close>): the maps of the nine types
  of points, their selection by a read, the updates of the application and the freezing of counters. The
  events that an operation reports to its receiver are returned in their order; the time of the application's clock
  at its \<open>n\<close>-th reading is \<open>now n\<close>.
\<close>

section \<open>The types of points\<close>

definition Counter_default :: Counter where "Counter_default = TypedMeasurement_make 0 RESTART"
definition Analog_default :: Analog where "Analog_default = TypedMeasurement_make double_zero RESTART"
definition TimeAndInterval_default :: TimeAndInterval where
  "TimeAndInterval_default = \<lparr>tai_time = DNPTime_of 0, tai_interval = 0, tai_units = 0\<rparr>"

definition keep_variation :: "'m \<Rightarrow> GroupVariation \<Rightarrow> GroupVariation" where "keep_variation v variation = variation"

definition BinarySpec :: "(Binary, unit) Spec" where
  "BinarySpec = \<lparr>sp_default = Binary_default, sp_variation = Group1Var2, sp_IsEvent = flags_IsEvent,
     sp_promote = binary_promotion, sp_event = EvBinary\<rparr>"
definition DoubleBitBinarySpec :: "(DoubleBitBinary, unit) Spec" where
  "DoubleBitBinarySpec = \<lparr>sp_default = DoubleBitBinary_default, sp_variation = Group3Var2, sp_IsEvent = flags_IsEvent,
     sp_promote = keep_variation, sp_event = EvDoubleBit\<rparr>"
definition AnalogSpec :: "(Analog, double) Spec" where
  "AnalogSpec = \<lparr>sp_default = Analog_default, sp_variation = Group30Var1, sp_IsEvent = analog_IsEvent,
     sp_promote = keep_variation, sp_event = EvAnalog\<rparr>"
definition CounterSpec :: "(Counter, u32) Spec" where
  "CounterSpec = \<lparr>sp_default = Counter_default, sp_variation = Group20Var1, sp_IsEvent = counter_IsEvent,
     sp_promote = keep_variation, sp_event = EvCounter\<rparr>"
definition FrozenCounterSpec :: "(FrozenCounter, u32) Spec" where
  "FrozenCounterSpec = \<lparr>sp_default = Counter_default, sp_variation = Group21Var1, sp_IsEvent = counter_IsEvent,
     sp_promote = keep_variation, sp_event = EvFrozen\<rparr>"
definition BinaryOutputStatusSpec :: "(BinaryOutputStatus, unit) Spec" where
  "BinaryOutputStatusSpec = \<lparr>sp_default = Binary_default, sp_variation = Group10Var2, sp_IsEvent = flags_IsEvent,
     sp_promote = keep_variation, sp_event = EvBOStatus\<rparr>"
definition AnalogOutputStatusSpec :: "(AnalogOutputStatus, double) Spec" where
  "AnalogOutputStatusSpec = \<lparr>sp_default = Analog_default, sp_variation = Group40Var1, sp_IsEvent = analog_IsEvent,
     sp_promote = keep_variation, sp_event = EvAOStatus\<rparr>"
definition OctetStringSpec :: "(OctetString, unit) Spec" where
  "OctetStringSpec = \<lparr>sp_default = OctetData_default, sp_variation = Group110Var0, sp_IsEvent = octet_IsEvent,
     sp_promote = keep_variation, sp_event = EvOctet\<rparr>"

text \<open>Times with an interval have no events; the last two functions are not used for them.\<close>

definition TimeAndIntervalSpec :: "(TimeAndInterval, unit) Spec" where
  "TimeAndIntervalSpec = \<lparr>sp_default = TimeAndInterval_default, sp_variation = Group50Var4, sp_IsEvent = (\<lambda>_ _ _. False),
     sp_promote = keep_variation, sp_event = (\<lambda>_. EvOctet [])\<rparr>"

record DatabaseConfig =
  dc_binary_input :: "(u16 \<times> unit PointConfig) list"
  dc_double_binary :: "(u16 \<times> unit PointConfig) list"
  dc_analog_input :: "(u16 \<times> double PointConfig) list"
  dc_counter :: "(u16 \<times> u32 PointConfig) list"
  dc_frozen_counter :: "(u16 \<times> u32 PointConfig) list"
  dc_binary_output_status :: "(u16 \<times> unit PointConfig) list"
  dc_analog_output_status :: "(u16 \<times> double PointConfig) list"
  dc_time_and_interval :: "(u16 \<times> unit PointConfig) list"
  dc_octet_string :: "(u16 \<times> unit PointConfig) list"

record Database =
  allowed_class_zero_types :: u16
  binary_input :: "(Binary, unit) StaticDataMap"
  double_binary :: "(DoubleBitBinary, unit) StaticDataMap"
  analog_input :: "(Analog, double) StaticDataMap"
  counter :: "(Counter, u32) StaticDataMap"
  frozen_counter :: "(FrozenCounter, u32) StaticDataMap"
  binary_output_status :: "(BinaryOutputStatus, unit) StaticDataMap"
  analog_output_status :: "(AnalogOutputStatus, double) StaticDataMap"
  time_and_interval :: "(TimeAndInterval, unit) StaticDataMap"
  octet_string :: "(OctetString, unit) StaticDataMap"

definition Database_make :: "DatabaseConfig \<Rightarrow> u16 \<Rightarrow> Database" where
  "Database_make cfg types =
     \<lparr>allowed_class_zero_types = types,
      binary_input = StaticDataMap_make BinarySpec (dc_binary_input cfg),
      double_binary = StaticDataMap_make DoubleBitBinarySpec (dc_double_binary cfg),
      analog_input = StaticDataMap_make AnalogSpec (dc_analog_input cfg),
      counter = StaticDataMap_make CounterSpec (dc_counter cfg),
      frozen_counter = StaticDataMap_make FrozenCounterSpec (dc_frozen_counter cfg),
      binary_output_status = StaticDataMap_make BinaryOutputStatusSpec (dc_binary_output_status cfg),
      analog_output_status = StaticDataMap_make AnalogOutputStatusSpec (dc_analog_output_status cfg),
      time_and_interval = StaticDataMap_make TimeAndIntervalSpec (dc_time_and_interval cfg),
      octet_string = StaticDataMap_make OctetStringSpec (dc_octet_string cfg)\<rparr>"

text \<open>The default configuration of a point, and \<open>count\<close> points of each type.\<close>

definition PointConfig_default :: "GroupVariation \<Rightarrow> GroupVariation \<Rightarrow> 'd \<Rightarrow> 'd PointConfig" where
  "PointConfig_default sv ev d = \<lparr>svariation = sv, clazz = Class1, evariation = ev, deadband = d\<rparr>"

definition initialize :: "'c \<Rightarrow> u16 \<Rightarrow> (u16 \<times> 'c) list" where
  "initialize c count = map (\<lambda>i. (of_nat i, c)) [0 ..< unat count]"

definition DatabaseConfig_make :: "u16 \<Rightarrow> DatabaseConfig" where
  "DatabaseConfig_make all_types =
     \<lparr>dc_binary_input = initialize (PointConfig_default Group1Var2 Group2Var1 ()) all_types,
      dc_double_binary = initialize (PointConfig_default Group3Var2 Group4Var1 ()) all_types,
      dc_analog_input = initialize (PointConfig_default Group30Var1 Group32Var1 double_zero) all_types,
      dc_counter = initialize (PointConfig_default Group20Var1 Group22Var1 0) all_types,
      dc_frozen_counter = initialize (PointConfig_default Group21Var1 Group23Var1 0) all_types,
      dc_binary_output_status = initialize (PointConfig_default Group10Var2 Group11Var1 ()) all_types,
      dc_analog_output_status = initialize (PointConfig_default Group40Var1 Group42Var1 double_zero) all_types,
      dc_time_and_interval = initialize (PointConfig_default Group50Var4 Group50Var4 ()) all_types,
      dc_octet_string = initialize (PointConfig_default Group110Var0 Group111Var0 ()) all_types\<rparr>"

section \<open>Selection\<close>

text \<open>What a request selects of a type: everything, or the points of a range.\<close>

datatype choice = Everything | In_range Range

fun sd_choose :: "('m, 'd) Spec \<Rightarrow> GroupVariation option \<Rightarrow> choice \<Rightarrow> ('m, 'd) StaticDataMap \<Rightarrow> nat \<times> ('m, 'd) StaticDataMap" where
  "sd_choose S vo Everything m = sd_select_all S vo m"
| "sd_choose S vo (In_range r) m = sd_select S vo r m"

fun choose_points :: "StaticType \<Rightarrow> GroupVariation option \<Rightarrow> choice \<Rightarrow> Database \<Rightarrow> nat \<times> Database" where
  "choose_points BinaryInput vo ch db = (let (n, m) = sd_choose BinarySpec vo ch (binary_input db) in (n, db\<lparr>binary_input := m\<rparr>))"
| "choose_points DoubleBinaryInput vo ch db = (let (n, m) = sd_choose DoubleBitBinarySpec vo ch (double_binary db) in (n, db\<lparr>double_binary := m\<rparr>))"
| "choose_points CounterInput vo ch db = (let (n, m) = sd_choose CounterSpec vo ch (counter db) in (n, db\<lparr>counter := m\<rparr>))"
| "choose_points FrozenCounterInput vo ch db = (let (n, m) = sd_choose FrozenCounterSpec vo ch (frozen_counter db) in (n, db\<lparr>frozen_counter := m\<rparr>))"
| "choose_points AnalogInput vo ch db = (let (n, m) = sd_choose AnalogSpec vo ch (analog_input db) in (n, db\<lparr>analog_input := m\<rparr>))"
| "choose_points BinaryOutputStatusInput vo ch db =
     (let (n, m) = sd_choose BinaryOutputStatusSpec vo ch (binary_output_status db) in (n, db\<lparr>binary_output_status := m\<rparr>))"
| "choose_points AnalogOutputStatusInput vo ch db =
     (let (n, m) = sd_choose AnalogOutputStatusSpec vo ch (analog_output_status db) in (n, db\<lparr>analog_output_status := m\<rparr>))"
| "choose_points TimeAndIntervalInput vo ch db =
     (let (n, m) = sd_choose TimeAndIntervalSpec vo ch (time_and_interval db) in (n, db\<lparr>time_and_interval := m\<rparr>))"
| "choose_points OctetStringInput vo ch db = (let (n, m) = sd_choose OctetStringSpec vo ch (octet_string db) in (n, db\<lparr>octet_string := m\<rparr>))"

text \<open>The cases of the switches by group and variation, in the order of the code.\<close>

definition own :: "GroupVariation \<Rightarrow> GroupVariation \<times> GroupVariation option" where "own v = (v, Some v)"
definition default_of :: "GroupVariation \<Rightarrow> GroupVariation \<times> GroupVariation option" where "default_of v = (v, None)"

definition of_type :: "StaticType \<Rightarrow> (GroupVariation \<times> GroupVariation option) list \<Rightarrow> (GroupVariation \<times> StaticType \<times> GroupVariation option) list" where
  "of_type T = map (\<lambda>(v, vo). (v, T, vo))"

definition static_cases :: "(GroupVariation \<times> StaticType \<times> GroupVariation option) list" where
  "static_cases =
     of_type BinaryInput [default_of Group1Var0, own Group1Var1, own Group1Var2]
     @ of_type DoubleBinaryInput [default_of Group3Var0, own Group3Var2]
     @ of_type BinaryOutputStatusInput [default_of Group10Var0, own Group10Var2]
     @ of_type CounterInput [default_of Group20Var0, own Group20Var1, own Group20Var2, own Group20Var5, own Group20Var6]
     @ of_type FrozenCounterInput [default_of Group21Var0, own Group21Var1, own Group21Var2, own Group21Var5, own Group21Var6,
         own Group21Var9, own Group21Var10]
     @ of_type AnalogInput [default_of Group30Var0, own Group30Var1, own Group30Var2, own Group30Var3, own Group30Var4,
         own Group30Var5, own Group30Var6]
     @ of_type AnalogOutputStatusInput [default_of Group40Var0, own Group40Var1, own Group40Var2, own Group40Var3, own Group40Var4]
     @ of_type TimeAndIntervalInput [own Group50Var4]"

definition all_cases where "all_cases = static_cases @ of_type OctetStringInput [default_of Group110Var0]"
definition range_cases where "range_cases = static_cases @ of_type OctetStringInput [own Group110Var0]"

definition class_zero_order :: "StaticType list" where
  "class_zero_order = [BinaryInput, DoubleBinaryInput, BinaryOutputStatusInput, CounterInput, FrozenCounterInput, AnalogInput,
     AnalogOutputStatusInput, TimeAndIntervalInput, OctetStringInput]"

definition select_all_class_zero :: "StaticType \<Rightarrow> Database \<Rightarrow> Database" where
  "select_all_class_zero T db =
     (if StaticTypeBitField_IsSet (allowed_class_zero_types db) T then snd (choose_points T None Everything db) else db)"

definition Database_SelectAll :: "GroupVariation \<Rightarrow> Database \<Rightarrow> IINField \<times> Database" where
  "Database_SelectAll gv db =
     (if gv = Group60Var1 then (IIN_Empty, fold select_all_class_zero class_zero_order db)
      else case map_of all_cases gv of
             None \<Rightarrow> (IIN_of FUNC_NOT_SUPPORTED, db)
           | Some (T, vo) \<Rightarrow> (IIN_Empty, snd (choose_points T vo Everything db)))"

definition Database_SelectRange :: "GroupVariation \<Rightarrow> Range \<Rightarrow> Database \<Rightarrow> IINField \<times> Database" where
  "Database_SelectRange gv range1 db =
     (case map_of range_cases gv of
        None \<Rightarrow> (IIN_of FUNC_NOT_SUPPORTED, db)
      | Some (T, vo) \<Rightarrow>
          (let (count, db) = choose_points T vo (In_range range1) db
           in (if count \<noteq> Range_Count range1 then IIN_of PARAM_ERROR else IIN_Empty, db)))"

text \<open>The indices are selected one by one; a missing one is reported when all have been tried.\<close>

fun select_indices :: "StaticType \<Rightarrow> GroupVariation option \<Rightarrow> u16 list \<Rightarrow> Database \<Rightarrow> bool \<times> Database" where
  "select_indices T vo [] db = (False, db)"
| "select_indices T vo (i # is) db =
     (let (count, db) = choose_points T vo (In_range \<lparr>start = i, stop = i\<rparr>) db; (missing, db) = select_indices T vo is db
      in (count = 0 \<or> missing, db))"

definition Database_SelectIndices :: "GroupVariation \<Rightarrow> u16 list \<Rightarrow> Database \<Rightarrow> IINField \<times> Database" where
  "Database_SelectIndices gv indices db =
     (case map_of range_cases gv of
        None \<Rightarrow> (IIN_of FUNC_NOT_SUPPORTED, db)
      | Some (T, vo) \<Rightarrow>
          (let (missing, db) = select_indices T vo indices db in (if missing then IIN_of PARAM_ERROR else IIN_Empty, db)))"

definition Database_Unselect :: "Database \<Rightarrow> Database" where
  "Database_Unselect db =
     db\<lparr>binary_input := clear_selection (binary_input db), double_binary := clear_selection (double_binary db),
        binary_output_status := clear_selection (binary_output_status db), counter := clear_selection (counter db),
        frozen_counter := clear_selection (frozen_counter db), analog_input := clear_selection (analog_input db),
        analog_output_status := clear_selection (analog_output_status db), time_and_interval := clear_selection (time_and_interval db),
        octet_string := clear_selection (octet_string db)\<rparr>"

fun AssignClassToAll :: "AssignClassType \<Rightarrow> PointClass \<Rightarrow> Database \<Rightarrow> Range \<times> Database" where
  "AssignClassToAll BinaryInput_class pc db = (let (r, m) = assign_class_all pc (binary_input db) in (r, db\<lparr>binary_input := m\<rparr>))"
| "AssignClassToAll DoubleBinaryInput_class pc db = (let (r, m) = assign_class_all pc (double_binary db) in (r, db\<lparr>double_binary := m\<rparr>))"
| "AssignClassToAll Counter_class pc db = (let (r, m) = assign_class_all pc (counter db) in (r, db\<lparr>counter := m\<rparr>))"
| "AssignClassToAll FrozenCounter_class pc db = (let (r, m) = assign_class_all pc (frozen_counter db) in (r, db\<lparr>frozen_counter := m\<rparr>))"
| "AssignClassToAll AnalogInput_class pc db = (let (r, m) = assign_class_all pc (analog_input db) in (r, db\<lparr>analog_input := m\<rparr>))"
| "AssignClassToAll BinaryOutputStatus_class pc db = (let (r, m) = assign_class_all pc (binary_output_status db) in (r, db\<lparr>binary_output_status := m\<rparr>))"
| "AssignClassToAll AnalogOutputStatus_class pc db = (let (r, m) = assign_class_all pc (analog_output_status db) in (r, db\<lparr>analog_output_status := m\<rparr>))"

fun AssignClassToRange :: "AssignClassType \<Rightarrow> PointClass \<Rightarrow> Range \<Rightarrow> Database \<Rightarrow> Range \<times> Database" where
  "AssignClassToRange BinaryInput_class pc rg db = (let (r, m) = assign_class_range pc rg (binary_input db) in (r, db\<lparr>binary_input := m\<rparr>))"
| "AssignClassToRange DoubleBinaryInput_class pc rg db = (let (r, m) = assign_class_range pc rg (double_binary db) in (r, db\<lparr>double_binary := m\<rparr>))"
| "AssignClassToRange Counter_class pc rg db = (let (r, m) = assign_class_range pc rg (counter db) in (r, db\<lparr>counter := m\<rparr>))"
| "AssignClassToRange FrozenCounter_class pc rg db = (let (r, m) = assign_class_range pc rg (frozen_counter db) in (r, db\<lparr>frozen_counter := m\<rparr>))"
| "AssignClassToRange AnalogInput_class pc rg db = (let (r, m) = assign_class_range pc rg (analog_input db) in (r, db\<lparr>analog_input := m\<rparr>))"
| "AssignClassToRange BinaryOutputStatus_class pc rg db =
     (let (r, m) = assign_class_range pc rg (binary_output_status db) in (r, db\<lparr>binary_output_status := m\<rparr>))"
| "AssignClassToRange AnalogOutputStatus_class pc rg db =
     (let (r, m) = assign_class_range pc rg (analog_output_status db) in (r, db\<lparr>analog_output_status := m\<rparr>))"

section \<open>Loading a response\<close>

definition Database_HasAnySelection :: "Database \<Rightarrow> bool" where
  "Database_HasAnySelection db =
     (has_any_selection (binary_input db) \<or> has_any_selection (double_binary db) \<or> has_any_selection (analog_input db)
      \<or> has_any_selection (counter db) \<or> has_any_selection (frozen_counter db) \<or> has_any_selection (binary_output_status db)
      \<or> has_any_selection (analog_output_status db) \<or> has_any_selection (time_and_interval db) \<or> has_any_selection (octet_string db))"

text \<open>The conjunction stops at the first type that does not fit.\<close>

definition and_then :: "(bool \<times> Database \<times> HeaderWriter) option \<Rightarrow> (Database \<Rightarrow> HeaderWriter \<Rightarrow> (bool \<times> Database \<times> HeaderWriter) option)
    \<Rightarrow> (bool \<times> Database \<times> HeaderWriter) option" where
  "and_then r f = (case r of None \<Rightarrow> None | Some (ok, db, w) \<Rightarrow> if ok then f db w else Some (ok, db, w))"

definition load_in :: "('m, 'd) StaticDataMap \<Rightarrow> (('m, 'd) StaticDataMap \<Rightarrow> Database) \<Rightarrow>
    (GroupVariation \<Rightarrow> ('m, 'd) StaticDataMap \<Rightarrow> HeaderWriter \<Rightarrow> bool \<times> ('m, 'd) StaticDataMap \<times> HeaderWriter) \<Rightarrow> HeaderWriter
    \<Rightarrow> (bool \<times> Database \<times> HeaderWriter) option" where
  "load_in m upd get_writer w = map_option (\<lambda>(ok, m, w). (ok, upd m, w)) (load_type get_writer m w)"

definition Database_Load :: "le_lib \<Rightarrow> Database \<Rightarrow> HeaderWriter \<Rightarrow> (bool \<times> Database \<times> HeaderWriter) option" where
  "Database_Load E db w =
     and_then (and_then (and_then (and_then (and_then (and_then (and_then (and_then
       (load_in (binary_input db) (\<lambda>m. db\<lparr>binary_input := m\<rparr>) (binary_writer E) w)
       (\<lambda>db. load_in (double_binary db) (\<lambda>m. db\<lparr>double_binary := m\<rparr>) (double_bit_writer E)))
       (\<lambda>db. load_in (analog_input db) (\<lambda>m. db\<lparr>analog_input := m\<rparr>) (analog_writer E)))
       (\<lambda>db. load_in (counter db) (\<lambda>m. db\<lparr>counter := m\<rparr>) (counter_writer E)))
       (\<lambda>db. load_in (frozen_counter db) (\<lambda>m. db\<lparr>frozen_counter := m\<rparr>) (frozen_counter_writer E)))
       (\<lambda>db. load_in (binary_output_status db) (\<lambda>m. db\<lparr>binary_output_status := m\<rparr>) (binary_output_writer E)))
       (\<lambda>db. load_in (analog_output_status db) (\<lambda>m. db\<lparr>analog_output_status := m\<rparr>) (analog_output_writer E)))
       (\<lambda>db. load_in (time_and_interval db) (\<lambda>m. db\<lparr>time_and_interval := m\<rparr>) (time_writer E)))
       (\<lambda>db. load_in (octet_string db) (\<lambda>m. db\<lparr>octet_string := m\<rparr>) (octet_writer E))"

section \<open>Updates\<close>

datatype measurement =
    UpdBinary Binary | UpdDoubleBit DoubleBitBinary | UpdAnalog Analog | UpdCounter Counter | UpdBOStatus BinaryOutputStatus
  | UpdAOStatus AnalogOutputStatus | UpdOctet OctetString | UpdTime TimeAndInterval

fun Database_Update :: "measurement \<Rightarrow> u16 \<Rightarrow> EventMode \<Rightarrow> Database \<Rightarrow> bool \<times> Event list \<times> Database" where
  "Database_Update (UpdBinary v) i mode db = (let (ok, evs, m) = sd_update BinarySpec v i mode (binary_input db) in (ok, evs, db\<lparr>binary_input := m\<rparr>))"
| "Database_Update (UpdDoubleBit v) i mode db =
     (let (ok, evs, m) = sd_update DoubleBitBinarySpec v i mode (double_binary db) in (ok, evs, db\<lparr>double_binary := m\<rparr>))"
| "Database_Update (UpdAnalog v) i mode db = (let (ok, evs, m) = sd_update AnalogSpec v i mode (analog_input db) in (ok, evs, db\<lparr>analog_input := m\<rparr>))"
| "Database_Update (UpdCounter v) i mode db = (let (ok, evs, m) = sd_update CounterSpec v i mode (counter db) in (ok, evs, db\<lparr>counter := m\<rparr>))"
| "Database_Update (UpdBOStatus v) i mode db =
     (let (ok, evs, m) = sd_update BinaryOutputStatusSpec v i mode (binary_output_status db) in (ok, evs, db\<lparr>binary_output_status := m\<rparr>))"
| "Database_Update (UpdAOStatus v) i mode db =
     (let (ok, evs, m) = sd_update AnalogOutputStatusSpec v i mode (analog_output_status db) in (ok, evs, db\<lparr>analog_output_status := m\<rparr>))"
| "Database_Update (UpdOctet v) i mode db = (let (ok, evs, m) = sd_update OctetStringSpec v i mode (octet_string db) in (ok, evs, db\<lparr>octet_string := m\<rparr>))"
| "Database_Update (UpdTime v) i mode db = (let (ok, m) = sd_update_time v i (time_and_interval db) in (ok, [], db\<lparr>time_and_interval := m\<rparr>))"

fun Database_Modify :: "FlagsType \<Rightarrow> u16 \<Rightarrow> u16 \<Rightarrow> byte \<Rightarrow> Database \<Rightarrow> bool \<times> Event list \<times> Database" where
  "Database_Modify BinaryInput_flags a b fl db = (let (ok, evs, m) = sd_modify BinarySpec a b fl (binary_input db) in (ok, evs, db\<lparr>binary_input := m\<rparr>))"
| "Database_Modify DoubleBinaryInput_flags a b fl db =
     (let (ok, evs, m) = sd_modify DoubleBitBinarySpec a b fl (double_binary db) in (ok, evs, db\<lparr>double_binary := m\<rparr>))"
| "Database_Modify AnalogInput_flags a b fl db = (let (ok, evs, m) = sd_modify AnalogSpec a b fl (analog_input db) in (ok, evs, db\<lparr>analog_input := m\<rparr>))"
| "Database_Modify Counter_flags a b fl db = (let (ok, evs, m) = sd_modify CounterSpec a b fl (counter db) in (ok, evs, db\<lparr>counter := m\<rparr>))"
| "Database_Modify FrozenCounter_flags a b fl db =
     (let (ok, evs, m) = sd_modify FrozenCounterSpec a b fl (frozen_counter db) in (ok, evs, db\<lparr>frozen_counter := m\<rparr>))"
| "Database_Modify BinaryOutputStatus_flags a b fl db =
     (let (ok, evs, m) = sd_modify BinaryOutputStatusSpec a b fl (binary_output_status db) in (ok, evs, db\<lparr>binary_output_status := m\<rparr>))"
| "Database_Modify AnalogOutputStatus_flags a b fl db =
     (let (ok, evs, m) = sd_modify AnalogOutputStatusSpec a b fl (analog_output_status db) in (ok, evs, db\<lparr>analog_output_status := m\<rparr>))"

section \<open>Freezing\<close>

text \<open>
  The loop over the selected counters. The frozen value is the one that was selected; with \<open>clear\<close> the counter
  at the position of the iterator is set to zero.
\<close>

function freeze_loop ::
  "(nat \<Rightarrow> DNPTime) \<Rightarrow> bool \<Rightarrow> EventMode \<Rightarrow> nat \<Rightarrow> (Counter, u32) map_iterator \<Rightarrow> (FrozenCounter, u32) StaticDataMap
     \<Rightarrow> Event list \<times> (Counter, u32) map_iterator \<times> (FrozenCounter, u32) StaticDataMap" where
  "freeze_loop now clr mode n z frozen =
     (case mi_rest z of
        [] \<Rightarrow> ([], z, frozen)
      | (i, c) # rest \<Rightarrow>
          (let sel = sel_value (c_selection c);
               (_, evs1, frozen) = sd_update FrozenCounterSpec (TypedMeasurement_make_time (m_value sel) (m_flags sel) (now n)) i mode frozen
           in if clr
              then (let zero = sel\<lparr>m_value := 0, m_time := now (n + 1)\<rparr>;
                        (evs2, c) = update_cell CounterSpec zero mode i (c\<lparr>c_selection := (c_selection c)\<lparr>sel_value := zero\<rparr>\<rparr>);
                        (evs, z, frozen) = freeze_loop now clr mode (n + 2) (mi_next (z\<lparr>mi_rest := (i, c) # rest\<rparr>)) frozen
                    in (evs1 @ evs2 @ evs, z, frozen))
              else (let (evs, z, frozen) = freeze_loop now clr mode (n + 1) (mi_next z) frozen in (evs1 @ evs, z, frozen))))"
  by pat_completeness auto
termination
  by (relation "measure (\<lambda>(_, _, _, _, z, _). length (mi_rest z))") (auto dest: mi_next_less_cons intro: mi_next_less_cons)

declare freeze_loop.simps [simp del]

definition FreezeSelectedCounters :: "(nat \<Rightarrow> DNPTime) \<Rightarrow> bool \<Rightarrow> EventMode \<Rightarrow> Database \<Rightarrow> Event list \<times> Database" where
  "FreezeSelectedCounters now clr mode db =
     (let (evs, z, frozen) = freeze_loop now clr mode 0 (sd_begin (counter db)) (frozen_counter db)
      in (evs, db\<lparr>counter := clear_selection (mi_map z), frozen_counter := frozen\<rparr>))"

definition FreezeCounter :: "(nat \<Rightarrow> DNPTime) \<Rightarrow> u16 \<Rightarrow> bool \<Rightarrow> EventMode \<Rightarrow> Database \<Rightarrow> bool \<times> Event list \<times> Database" where
  "FreezeCounter now i clr mode db =
     (let (num_selected, db) = choose_points CounterInput None (In_range \<lparr>start = i, stop = i\<rparr>) db;
          (evs, db) = FreezeSelectedCounters now clr mode db
      in (num_selected > 0, evs, db))"

end
