(* ===== verification/Out_Selection.thy ===== *)
theory Out_Selection
  imports Out_Database
begin

text \<open>
  The operations of the database keep the invariant of the selection, and change of the selection only what
  they say: a read adds the points it asks for with the values they have, and no update, change of flags or assignment of
  classes alters what has been selected.
\<close>

section \<open>The selection by itself\<close>

text \<open>A point with what the selection holds of it; the invariant speaks of nothing else.\<close>

definition snap :: "u16 \<times> ('m, 'd) StaticDataCell \<Rightarrow> u16 \<times> 'm SelectedValue" where
  "snap e = (fst e, c_selection (snd e))"

definition snaps :: "('m, 'd) StaticDataMap \<Rightarrow> (u16 \<times> 'm SelectedValue) list" where
  "snaps m = map snap (sd_map m)"

lemma snap_simps [simp]: "fst (snap e) = fst e" "sel_selected (snd (snap e)) = is_picked e"
  by (simp_all add: snap_def is_picked_def)

lemma map_fst_snap: "map fst (map snap xs) = map fst xs"
  by (induction xs) simp_all

lemma snaps_keys: "map fst (sd_map m) = map fst (snaps m)"
  by (simp add: snaps_def comp_def)

lemma snaps_picks: "map snap (picks m) = filter (\<lambda>x. sel_selected (snd x)) (snaps m)"
  by (simp add: snaps_def picks_def picked_def filter_map comp_def)

lemma wire_snap: "on_wire S e = (sel_variation (snd (snap e)), fst (snap e), ser_write (S (sel_variation (snd (snap e)))) (sel_value (snd (snap e))))"
  by (simp add: on_wire_def snap_def)

lemma sorted_hd: "sorted_wrt (<) (map fst xs) \<Longrightarrow> xs \<noteq> [] \<Longrightarrow> e \<in> set xs \<Longrightarrow> fst (hd xs) \<le> (fst e :: u16)"
  by (cases xs) auto

lemma sorted_last: "sorted_wrt (<) (map fst xs) \<Longrightarrow> e \<in> set xs \<Longrightarrow> fst e \<le> (fst (List.last xs) :: u16)"
  by (induction xs) (auto intro: less_imp_le order_trans)

lemma sd_inv_alt:
  "sd_inv m = (sorted_wrt (<) (map fst (sd_map m))
     \<and> (if Range_IsValid (sd_selected m)
        then start (sd_selected m) \<in> fst ` set (picks m) \<and> (\<forall>e \<in> set (picks m). start (sd_selected m) \<le> fst e \<and> fst e \<le> stop (sd_selected m))
        else picks m = []))"
proof (cases "sorted_wrt (<) (map fst (sd_map m)) \<and> picks m \<noteq> []")
  case True
  then have s: "sorted_wrt (<) (map fst (picks m))" "picks m \<noteq> []" by (simp_all add: picks_def picked_sorted)
  have m: "hd (picks m) \<in> set (picks m)" "List.last (picks m) \<in> set (picks m)" using s(2) by simp_all
  have eq: "(start r = fst (hd (picks m)) \<and> fst (List.last (picks m)) \<le> stop r)
      = (start r \<in> fst ` set (picks m) \<and> (\<forall>e \<in> set (picks m). start r \<le> fst e \<and> fst e \<le> stop r))" for r :: Range
  proof -
    have "start r \<in> fst ` set (picks m) \<Longrightarrow> \<forall>e \<in> set (picks m). start r \<le> fst e \<Longrightarrow> start r = fst (hd (picks m))"
      using m(1) sorted_hd [OF s] by (metis antisym imageE)
    moreover have "start r = fst (hd (picks m)) \<Longrightarrow> start r \<in> fst ` set (picks m) \<and> (\<forall>e \<in> set (picks m). start r \<le> fst e)"
      using m(1) sorted_hd [OF s] by (auto simp del: split_paired_All)
    moreover have "fst (List.last (picks m)) \<le> stop r \<longleftrightarrow> (\<forall>e \<in> set (picks m). fst e \<le> stop r)"
      using m(2) sorted_last [OF s(1)] by (meson order_trans)
    ultimately show ?thesis by meson
  qed
  show ?thesis unfolding sd_inv_def using True eq [of "sd_selected m"] by simp
qed (auto simp: sd_inv_def)

lemma sd_inv_snaps:
  assumes "snaps m' = snaps m" "sd_selected m' = sd_selected m"
  shows "sd_inv m' = sd_inv m" "map snap (picks m') = map snap (picks m)"
proof -
  show p: "map snap (picks m') = map snap (picks m)" unfolding snaps_picks assms ..
  from arg_cong [OF p, of "map fst"] have e: "map fst (picks m') = map fst (picks m)" unfolding map_fst_snap .
  have keyed: "(\<forall>e \<in> set xs. Q (fst e)) = (\<forall>k \<in> set (map fst xs). Q k)" for Q :: "u16 \<Rightarrow> bool" and xs :: "(u16 \<times> ('m, 'd) StaticDataCell) list" by simp
  have "fst ` set (picks m') = fst ` set (picks m)" using e by (metis list.set_map)
  moreover have "(picks m' = []) = (picks m = [])" using e by (metis map_is_Nil_conv)
  ultimately show "sd_inv m' = sd_inv m"
    unfolding sd_inv_alt snaps_keys assms keyed [of _ "\<lambda>k. start (sd_selected m) \<le> k \<and> k \<le> stop (sd_selected m)"] e by simp
qed

section \<open>Updates\<close>

lemma update_cell_selection [simp]: "c_selection (snd (update_cell S v mode i c)) = c_selection c"
  by (simp add: update_cell_def Let_def)

lemma replace_cell_snap:
  assumes "distinct (map fst xs)" "map_of xs i = Some c" "c_selection c' = c_selection c"
  shows "map snap (replace_cell i c' xs) = map snap xs"
proof -
  have "snap (case e of (j, d) \<Rightarrow> if j = i then (j, c') else (j, d)) = snap e" if "e \<in> set xs" for e
    using assms(3) that eq_key_imp_eq_value [OF assms(1) map_of_SomeD [OF assms(2)], of "snd e"] by (cases e) (auto simp: snap_def)
  then show ?thesis by (simp add: replace_cell_def)
qed

lemma sd_inv_distinct: "sd_inv m \<Longrightarrow> distinct (map fst (sd_map m))"
  unfolding sd_inv_def by (metis strict_sorted_iff)

lemma sd_update_keeps:
  assumes "sd_inv m" "sd_update S v i mode m = (ok, evs, m')"
  shows "snaps m' = snaps m \<and> sd_selected m' = sd_selected m"
proof (cases "map_of (sd_map m) i")
  case (Some c)
  have "m' = m\<lparr>sd_map := replace_cell i (snd (update_cell S v mode i c)) (sd_map m)\<rparr>"
    using assms(2) Some by (auto simp: sd_update_def split: prod.splits)
  then show ?thesis using replace_cell_snap [OF sd_inv_distinct [OF assms(1)] Some] by (simp add: snaps_def)
qed (use assms in \<open>simp add: sd_update_def\<close>)

lemma sd_update_time_keeps:
  assumes "sd_inv m" "sd_update_time v i m = (ok, m')"
  shows "snaps m' = snaps m \<and> sd_selected m' = sd_selected m"
proof (cases "map_of (sd_map m) i")
  case (Some c)
  then have "m' = m\<lparr>sd_map := replace_cell i (c\<lparr>c_value := v\<rparr>) (sd_map m)\<rparr>" using assms(2) by (simp add: sd_update_time_def)
  then show ?thesis using replace_cell_snap [OF sd_inv_distinct [OF assms(1)] Some, of "c\<lparr>c_value := v\<rparr>"] by (simp add: snaps_def)
qed (use assms in \<open>simp add: sd_update_time_def\<close>)

lemma modify_loop_keeps: "map snap (snd (snd (modify_loop S final fl xs))) = map snap xs"
proof (induction S final fl xs rule: modify_loop.induct)
  case (2 S final fl i c rest)
  have "snap (i, snd (update_cell S v Detect i c)) = snap (i, c)" for v by (simp add: snap_def)
  with 2 show ?case by (simp split: prod.split) (metis prod.collapse snd_conv)
qed simp

lemma sd_modify_keeps: "sd_modify S a b fl m = (ok, evs, m') \<Longrightarrow> snaps m' = snaps m \<and> sd_selected m' = sd_selected m"
proof -
  assume "sd_modify S a b fl m = (ok, evs, m')"
  moreover have "map snap (takeWhile P xs @ snd (snd (modify_loop S b fl (dropWhile P xs)))) = map snap xs" for P xs
    unfolding map_append modify_loop_keeps by (simp flip: map_append)
  note this [of "\<lambda>(i, c). i < a" "sd_map m"]
  ultimately show ?thesis by (auto simp: sd_modify_def snaps_def Let_def split: if_splits prod.splits)
qed

lemma with_class_snap [simp]: "snap (with_class pc e) = snap e"
  by (simp add: snap_def with_class_def split: prod.split)

lemma assign_class_keeps:
  "snaps (snd (assign_class_all pc m)) = snaps m \<and> sd_selected (snd (assign_class_all pc m)) = sd_selected m"
  "snaps (snd (assign_class_range pc r m)) = snaps m \<and> sd_selected (snd (assign_class_range pc r m)) = sd_selected m"
proof -
  have "map snap (takeWhile P xs @ map (with_class pc) (takeWhile Q (dropWhile P xs)) @ dropWhile Q (dropWhile P xs)) = map snap xs" for P Q xs
    by (simp add: comp_def) (simp flip: map_append)
  then show "snaps (snd (assign_class_range pc r m)) = snaps m \<and> sd_selected (snd (assign_class_range pc r m)) = sd_selected m"
    by (simp add: assign_class_range_def snaps_def Let_def)
qed (simp add: assign_class_all_def snaps_def comp_def)

section \<open>Taking the selection back\<close>

lemma clear_loop_spec: "mi_ok z \<Longrightarrow> mi_ok (clear_loop z) \<and> mi_rest (clear_loop z) = []
    \<and> unselected (mi_passed (clear_loop z)) = unselected (mi_passed z @ mi_rest z)"
proof (induction z rule: clear_loop.induct)
  case (1 z)
  show ?case
  proof (cases "mi_rest z")
    case Nil then show ?thesis using 1(2) by (simp add: clear_loop.simps [of z])
  next
    case (Cons e rest)
    then show ?thesis using 1(1) mi_next_spec [OF 1(2) Cons] by (simp add: clear_loop.simps [of z])
  qed
qed

lemma clear_selection_spec:
  assumes "sd_inv m"
  shows "sd_inv (clear_selection m)" "picks (clear_selection m) = []" "unselected (sd_map (clear_selection m)) = unselected (sd_map m)"
    "\<not> has_any_selection (clear_selection m)"
proof -
  note b = sd_begin_ok [OF assms] and c = clear_loop_spec [OF sd_begin_ok(1) [OF assms]]
  show "sd_inv (clear_selection m)" "picks (clear_selection m) = []"
    using mi_map_inv [of "clear_loop (sd_begin m)"] c by (simp_all add: clear_selection_def)
  show "unselected (sd_map (clear_selection m)) = unselected (sd_map m)" using c by (simp add: clear_selection_def mi_map_def)
  show "\<not> has_any_selection (clear_selection m)"
    using mi_ok_valid [of "clear_loop (sd_begin m)"] c by (simp add: has_any_selection_def clear_selection_def mi_map_def)
qed

lemma has_any_selection_iff: "sd_inv m \<Longrightarrow> has_any_selection m = (picks m \<noteq> [])"
  by (auto simp: sd_inv_def has_any_selection_def split: if_splits)

section \<open>Selecting\<close>

lemma pick_simps [simp]: "fst (pick S vo e) = fst e" "is_picked (pick S vo e)"
  by (simp_all add: pick_def is_picked_def split: prod.split)

lemma range_split:
  assumes "sorted_wrt (<) (map fst xs)" "Range_IsValid r"
  defines "below \<equiv> takeWhile (\<lambda>(i, c). i < start r) xs" and "from1 \<equiv> dropWhile (\<lambda>(i, c). i < start r) xs"
  shows "xs = below @ takeWhile (\<lambda>(i, c). Range_Contains r i) from1 @ dropWhile (\<lambda>(i, c). Range_Contains r i) from1"
    and "\<forall>e \<in> set below. \<not> Range_Contains r (fst e)"
    and "\<forall>e \<in> set (dropWhile (\<lambda>(i, c). Range_Contains r i) from1). \<not> Range_Contains r (fst e)"
proof -
  show "xs = below @ takeWhile (\<lambda>(i, c). Range_Contains r i) from1 @ dropWhile (\<lambda>(i, c). Range_Contains r i) from1"
    by (simp add: below_def from1_def)
  show "\<forall>e \<in> set below. \<not> Range_Contains r (fst e)"
    by (auto simp: below_def Range_Contains_def dest!: set_takeWhileD)
  show "\<forall>e \<in> set (dropWhile (\<lambda>(i, c). Range_Contains r i) from1). \<not> Range_Contains r (fst e)"
  proof (cases "dropWhile (\<lambda>(i, c). Range_Contains r i) from1")
    case (Cons e es)
    have "\<not> Range_Contains r (fst e)" using hd_dropWhile [of "\<lambda>(i, c). Range_Contains r i" from1] Cons by (auto split: prod.splits)
    have "sorted_wrt (<) (map fst (takeWhile (\<lambda>(i, c). i < start r) xs @ from1))" using assms(1) by (simp add: from1_def)
    then have s1: "sorted_wrt (<) (map fst from1)" by (simp add: sorted_wrt_append)
    have "from1 \<noteq> []" "e \<in> set from1" using Cons by (auto, metis list.set_intros(1) set_dropWhileD)
    then have "fst (hd from1) \<le> fst e" using sorted_hd [OF s1] by simp
    moreover have "\<not> fst (hd from1) < start r"
      using hd_dropWhile [of "\<lambda>(i, c). i < start r" xs] \<open>from1 \<noteq> []\<close> by (auto simp: from1_def split: prod.splits)
    ultimately have "start r \<le> fst e" by simp
    then have "stop r < fst e" using \<open>\<not> Range_Contains r (fst e)\<close> by (simp add: Range_Contains_def)
    moreover have "sorted_wrt (<) (map fst (takeWhile (\<lambda>(i, c). Range_Contains r i) from1 @ e # es))"
      using s1 by (simp flip: Cons)
    then have "\<forall>x \<in> set es. fst e < fst x" by (simp add: sorted_wrt_append)
    ultimately show ?thesis using Cons by (auto simp: Range_Contains_def)
  next
    case Nil
    show ?thesis unfolding Nil by (simp only: list.set(1)) blast
  qed
qed

definition pick_in :: "('m, 'd) Spec \<Rightarrow> GroupVariation option \<Rightarrow> Range \<Rightarrow> u16 \<times> ('m, 'd) StaticDataCell \<Rightarrow> u16 \<times> ('m, 'd) StaticDataCell" where
  "pick_in S vo r e = (if Range_Contains r (fst e) then pick S vo e else e)"

lemma sd_select_spec:
  assumes "sd_inv m" "Range_IsValid r" "sd_select S vo r m = (n, m')"
  shows "sd_inv m' \<and> sd_map m' = map (pick_in S vo r) (sd_map m) \<and> n = length (filter (\<lambda>e. Range_Contains r (fst e)) (sd_map m))"
proof -
  have srt: "sorted_wrt (<) (map fst (sd_map m))" using assms(1) by (simp add: sd_inv_def)
  define below where "below = takeWhile (\<lambda>(i, c). i < start r) (sd_map m)"
  define hit where "hit = takeWhile (\<lambda>(i, c). Range_Contains r i) (dropWhile (\<lambda>(i, c). i < start r) (sd_map m))"
  define above where "above = dropWhile (\<lambda>(i, c). Range_Contains r i) (dropWhile (\<lambda>(i, c). i < start r) (sd_map m))"
  note rs = range_split [OF srt assms(2), folded below_def, folded hit_def above_def]
  have in_hit: "\<forall>e \<in> set hit. Range_Contains r (fst e)" by (auto simp: hit_def dest!: set_takeWhileD)
  have f: "filter (\<lambda>e. Range_Contains r (fst e)) (sd_map m) = hit"
    using rs(2,3) in_hit by (subst rs(1)) (simp add: filter_empty_conv filter_id_conv)
  have mp: "map (pick_in S vo r) (sd_map m) = below @ map (pick S vo) hit @ above"
    using rs(2,3) in_hit by (subst rs(1)) (auto simp: pick_in_def intro!: map_idI)
  show ?thesis
  proof (cases "hit = []")
    case True
    then have "n = 0" "m' = m" using assms(2,3) by (simp_all add: sd_select_def Let_def flip: hit_def)
    moreover have "sd_map m = map (pick_in S vo r) (sd_map m)" unfolding mp using rs(1) True by simp
    ultimately show ?thesis using assms(1) f True by simp
  next
    case False
    let ?u = "\<lparr>start = fst (hd hit), stop = fst (List.last hit)\<rparr>"
    have m': "n = length hit" "sd_map m' = below @ map (pick S vo) hit @ above" "sd_selected m' = Range_Union (sd_selected m) ?u"
      using False assms(2,3) by (simp_all add: sd_select_def Let_def flip: below_def hit_def above_def) auto
    have "map fst (sd_map m') = map fst (sd_map m)" by (subst rs(1)) (simp add: m'(2) comp_def)
    then have srt': "sorted_wrt (<) (map fst (sd_map m'))" using srt by simp
    have hs: "sorted_wrt (<) (map fst hit)" using srt by (subst (asm) rs(1)) (simp add: sorted_wrt_append)
    have hit_in: "\<And>e. e \<in> set hit \<Longrightarrow> fst (hd hit) \<le> fst e \<and> fst e \<le> fst (List.last hit)"
      using sorted_hd [OF hs False] sorted_last [OF hs] by blast
    have pk: "set (picks m') = {e \<in> set (picks m). \<not> Range_Contains r (fst e)} \<union> pick S vo ` set hit"
    proof -
      have "set (picks m') = {e \<in> set below. is_picked e} \<union> pick S vo ` set hit \<union> {e \<in> set above. is_picked e}"
        by (auto simp: picks_def picked_def m'(2))
      moreover have "{e \<in> set (picks m). \<not> Range_Contains r (fst e)} = {e \<in> set below. is_picked e} \<union> {e \<in> set above. is_picked e}"
        using rs(2,3) in_hit unfolding picks_def picked_def by (subst rs(1)) auto
      ultimately show ?thesis by blast
    qed
    have inv: "if Range_IsValid (sd_selected m)
        then start (sd_selected m) \<in> fst ` set (picks m) \<and> (\<forall>e \<in> set (picks m). start (sd_selected m) \<le> fst e \<and> fst e \<le> stop (sd_selected m))
        else picks m = []" using assms(1) by (simp add: sd_inv_alt)
    have hdh: "hd hit \<in> set hit" "List.last hit \<in> set hit" using False by simp_all
    have key: "fst (hd hit) \<in> fst ` (pick S vo ` set hit)" using hdh(1) by (force simp: image_image)
    have "sd_inv m'"
    proof (cases "Range_IsValid (sd_selected m)")
      case invalid: False
      then have "set (picks m') = pick S vo ` set hit" using inv pk by simp
      then show ?thesis using key hit_in hdh srt' invalid
        by (auto simp: sd_inv_alt m'(3) Range_Union_def Range_IsValid_def)
    next
      case valid: True
      let ?s = "start (sd_selected m)" and ?t = "stop (sd_selected m)"
      have u: "sd_selected m' = \<lparr>start = min ?s (fst (hd hit)), stop = max ?t (fst (List.last hit))\<rparr>"
        using valid by (simp add: m'(3) Range_Union_def)
      have i: "?s \<in> fst ` set (picks m)" "\<And>e. e \<in> set (picks m) \<Longrightarrow> ?s \<le> fst e \<and> fst e \<le> ?t" using inv valid by auto
      have "fst (hd hit) \<le> fst (List.last hit)" using hit_in hdh by blast
      then have v: "Range_IsValid (sd_selected m')" unfolding u Range_IsValid_def by (simp add: min_le_iff_disj le_max_iff_disj)
      have "min ?s (fst (hd hit)) \<in> fst ` set (picks m')"
      proof (cases "fst (hd hit) \<le> ?s")
        case True
        then show ?thesis using key unfolding pk by (simp add: image_Un min_absorb2)
      next
        case False2: False
        from i(1) obtain e where e: "e \<in> set (picks m)" "fst e = ?s" by auto
        have "e \<notin> set hit" using hit_in [of e] e(2) False2 by auto
        then have "\<not> Range_Contains r (fst e)"
          using f e(1) by (auto simp: picks_def picked_def)
        then have "?s \<in> fst ` set (picks m')" using e unfolding pk by force
        then show ?thesis using False2 by (simp add: min_absorb1)
      qed
      moreover have "min ?s (fst (hd hit)) \<le> fst e \<and> fst e \<le> max ?t (fst (List.last hit))" if "e \<in> set (picks m')" for e
      proof -
        have "e \<in> {e \<in> set (picks m). \<not> Range_Contains r (fst e)} \<union> pick S vo ` set hit" using that unfolding pk .
        then consider "e \<in> set (picks m)" | x where "x \<in> set hit" "e = pick S vo x" by (elim UnE imageE) blast+
        then show ?thesis
        proof cases
          case 1 then show ?thesis using i(2) [of e] by (simp add: min_le_iff_disj le_max_iff_disj)
        next
          case 2 then show ?thesis using hit_in [of x] by (simp add: min_le_iff_disj le_max_iff_disj)
        qed
      qed
      ultimately show ?thesis using srt' v unfolding sd_inv_alt u by simp
    qed
    then show ?thesis using m' mp f by simp
  qed
qed

lemma sd_select_all_spec:
  assumes "sd_inv m" "sd_select_all S vo m = (n, m')"
  shows "sd_inv m' \<and> sd_map m' = map (pick S vo) (sd_map m) \<and> n = length (sd_map m)"
proof (cases "sd_map m = []")
  case False
  have s: "sorted_wrt (<) (map fst (sd_map m))" using assms(1) by (simp add: sd_inv_def)
  have m': "m' = \<lparr>sd_map = map (pick S vo) (sd_map m), sd_selected = get_full_range m\<rparr>" "n = length (sd_map m)"
    using assms(2) False by (simp_all add: sd_select_all_def)
  have p: "picks m' = map (pick S vo) (sd_map m)" by (simp add: picks_def picked_def m' filter_id_conv)
  have r: "fst (hd (sd_map m)) \<le> fst (List.last (sd_map m))"
    using sorted_hd [OF s False] False by simp
  then have "sd_inv m'" using s False r
    by (simp add: sd_inv_def p) (simp add: m' get_full_range_def Range_IsValid_def comp_def hd_map last_map)
  then show ?thesis using m' by simp
qed (use assms in \<open>simp add: sd_select_all_def\<close>)

lemma sd_select_invalid: "\<not> Range_IsValid r \<Longrightarrow> sd_select S vo r m = (0, m)"
  by (simp add: sd_select_def)

lemma make_inv: "sorted_wrt (<) (map fst cfg) \<Longrightarrow> sd_inv (StaticDataMap_make S cfg)"
  by (simp add: sd_inv_def StaticDataMap_make_def picks_def picked_def StaticDataCell_make_def is_picked_def filter_empty_conv
      Range_Invalid_def Range_IsValid_def comp_def case_prod_beta)

end
