(* ===== verification/Out_Db_Inv.thy ===== *)
theory Out_Db_Inv
  imports Out_Selection
begin

text \<open>
  The invariant of the database over all its operations, and what follows from it: loading a response always
  returns, whatever has been selected, and what has been selected is not changed by updates.
\<close>

section \<open>One map\<close>

text \<open>The variations of the points, and of what is selected of them, are variations of their type.\<close>

definition map_inv :: "GroupVariation set \<Rightarrow> ('m, 'd) StaticDataMap \<Rightarrow> bool" where
  "map_inv V m = (sd_inv m \<and> (\<forall>e \<in> set (sd_map m). svariation (c_config (snd e)) \<in> V \<and> sel_variation (c_selection (snd e)) \<in> V))"

definition spec_ok :: "GroupVariation set \<Rightarrow> ('m, 'd) Spec \<Rightarrow> bool" where
  "spec_ok V S = (sp_variation S \<in> V \<and> (\<forall>v x. v \<in> V \<longrightarrow> sp_promote S x v \<in> V))"

lemma map_invI: "sd_inv m \<Longrightarrow> (\<And>e. e \<in> set (sd_map m) \<Longrightarrow> svariation (c_config (snd e)) \<in> V \<and> sel_variation (c_selection (snd e)) \<in> V) \<Longrightarrow> map_inv V m"
  by (simp add: map_inv_def)

lemma map_inv_make:
  assumes "spec_ok V S" "sorted_wrt (<) (map fst cfg)" "\<forall>e \<in> set cfg. svariation (snd e) \<in> V"
  shows "map_inv V (StaticDataMap_make S cfg)"
  using assms make_inv [of cfg S] by (auto simp: map_inv_def spec_ok_def StaticDataMap_make_def StaticDataCell_make_def)

lemma pick_variations:
  assumes "spec_ok V S" "\<And>v. vo = Some v \<Longrightarrow> v \<in> V" "svariation (c_config (snd e)) \<in> V"
  shows "svariation (c_config (snd (pick S vo e))) \<in> V \<and> sel_variation (c_selection (snd (pick S vo e))) \<in> V"
  using assms by (cases e) (auto simp: pick_def spec_ok_def split: option.splits)

lemma map_inv_choose:
  assumes "spec_ok V S" "\<And>v. vo = Some v \<Longrightarrow> v \<in> V" "map_inv V m" "sd_choose S vo ch m = (n, m')"
  shows "map_inv V m'"
proof (cases ch)
  case Everything
  then have "sd_inv m' \<and> sd_map m' = map (pick S vo) (sd_map m)"
    using assms(3,4) sd_select_all_spec [of m S vo n m'] by (simp add: map_inv_def)
  then show ?thesis using assms(3) pick_variations [OF assms(1,2)] by (auto simp: map_inv_def)
next
  case (In_range r)
  show ?thesis
  proof (cases "Range_IsValid r")
    case True
    then have "sd_inv m' \<and> sd_map m' = map (pick_in S vo r) (sd_map m)"
      using In_range assms(3,4) sd_select_spec [of m r S vo n m'] by (simp add: map_inv_def)
    then show ?thesis using assms(3) pick_variations [OF assms(1,2)] by (auto simp: map_inv_def pick_in_def)
  qed (use In_range assms(3,4) in \<open>simp add: sd_select_invalid\<close>)
qed

lemma unselected_variations:
  fixes m :: "('m, 'd) StaticDataMap"
  assumes "unselected (sd_map m') = unselected (sd_map m)" "map_inv V m" "sd_inv m'"
  shows "map_inv V m'"
proof (rule map_invI [OF assms(3)])
  fix e assume "e \<in> set (sd_map m')"
  then have "unpick e \<in> set (unselected (sd_map m'))" by (simp add: unselected_def)
  then obtain f where "f \<in> set (sd_map m)" "unpick e = unpick f" unfolding assms(1) by (auto simp: unselected_def)
  moreover have "svariation (c_config (snd (unpick x))) = svariation (c_config (snd x))"
    "sel_variation (c_selection (snd (unpick x))) = sel_variation (c_selection (snd x))" for x :: "u16 \<times> ('m, 'd) StaticDataCell"
    by (simp_all add: unpick_def split: prod.split)
  ultimately show "svariation (c_config (snd e)) \<in> V \<and> sel_variation (c_selection (snd e)) \<in> V"
    using assms(2) unfolding map_inv_def by (metis (no_types, lifting))
qed

lemma map_inv_clear: "map_inv V m \<Longrightarrow> map_inv V (clear_selection m)"
  using clear_selection_spec [of m] unselected_variations [of "clear_selection m" m V] by (simp add: map_inv_def)

lemma update_cell_config [simp]: "c_config (snd (update_cell S v mode i c)) = c_config c"
  by (simp add: update_cell_def Let_def)

lemma map_inv_update: "map_inv V m \<Longrightarrow> sd_update S v i mode m = (ok, evs, m') \<Longrightarrow> map_inv V m'"
proof -
  assume a: "map_inv V m" "sd_update S v i mode m = (ok, evs, m')"
  then have inv: "sd_inv m" by (simp add: map_inv_def)
  have k: "sd_inv m'" using sd_inv_snaps(1) [of m' m] sd_update_keeps [OF inv a(2)] inv by simp
  show "map_inv V m'"
  proof (cases "map_of (sd_map m) i")
    case (Some c)
    let ?c = "snd (update_cell S v mode i c)"
    have m': "sd_map m' = replace_cell i ?c (sd_map m)" using a(2) Some by (auto simp: sd_update_def split: prod.splits)
    have "svariation (c_config c) \<in> V \<and> sel_variation (c_selection c) \<in> V"
      using a(1) map_of_SomeD [OF Some] by (force simp: map_inv_def)
    then show ?thesis using a(1) k by (auto simp: map_inv_def m' replace_cell_def)
  qed (use a in \<open>simp add: sd_update_def\<close>)
qed

lemma map_inv_update_time: "map_inv V m \<Longrightarrow> sd_update_time v i m = (ok, m') \<Longrightarrow> map_inv V m'"
proof -
  assume a: "map_inv V m" "sd_update_time v i m = (ok, m')"
  then have inv: "sd_inv m" by (simp add: map_inv_def)
  have k: "sd_inv m'" using sd_inv_snaps(1) [of m' m] sd_update_time_keeps [OF inv a(2)] inv by simp
  show "map_inv V m'"
  proof (cases "map_of (sd_map m) i")
    case (Some c)
    have m': "sd_map m' = replace_cell i (c\<lparr>c_value := v\<rparr>) (sd_map m)" using a(2) Some by (auto simp: sd_update_time_def)
    have "svariation (c_config c) \<in> V \<and> sel_variation (c_selection c) \<in> V"
      using a(1) map_of_SomeD [OF Some] by (force simp: map_inv_def)
    then show ?thesis using a(1) k by (auto simp: map_inv_def m' replace_cell_def)
  qed (use a in \<open>simp add: sd_update_time_def\<close>)
qed

lemma modify_loop_variations:
  "\<forall>e \<in> set xs. svariation (c_config (snd e)) \<in> V \<and> sel_variation (c_selection (snd e)) \<in> V \<Longrightarrow>
     \<forall>e \<in> set (snd (snd (modify_loop S final fl xs))). svariation (c_config (snd e)) \<in> V \<and> sel_variation (c_selection (snd e)) \<in> V"
proof (induction S final fl xs rule: modify_loop.induct)
  case (2 S final fl i c rest)
  obtain evs c' where u: "update_cell S (c_value c\<lparr>m_flags := fl\<rparr>) Detect i c = (evs, c')" by fastforce
  obtain ok more rest' where r: "modify_loop S final fl rest = (ok, more, rest')" by (metis surj_pair)
  have "c_config c' = c_config c" "c_selection c' = c_selection c"
    using update_cell_config [of S _ Detect i c] update_cell_selection [of S _ Detect i c] u by (metis snd_conv)+
  then show ?case using 2 u r by auto
qed simp

lemma map_inv_modify: "map_inv V m \<Longrightarrow> sd_modify S a b fl m = (ok, evs, m') \<Longrightarrow> map_inv V m'"
proof -
  assume a: "map_inv V m" "sd_modify S a b fl m = (ok, evs, m')"
  then have k: "sd_inv m'" using sd_inv_snaps(1) [of m' m] sd_modify_keeps [OF a(2)] by (simp add: map_inv_def)
  show "map_inv V m'"
  proof (cases "b < a")
    case False
    let ?d = "dropWhile (\<lambda>(i, c). i < a) (sd_map m)"
    have m': "sd_map m' = takeWhile (\<lambda>(i, c). i < a) (sd_map m) @ snd (snd (modify_loop S b fl ?d))"
      using a(2) False by (auto simp: sd_modify_def Let_def split: prod.splits)
    have "\<forall>e \<in> set (sd_map m). svariation (c_config (snd e)) \<in> V \<and> sel_variation (c_selection (snd e)) \<in> V"
      using a(1) by (simp add: map_inv_def)
    then have "\<forall>e \<in> set (sd_map m'). svariation (c_config (snd e)) \<in> V \<and> sel_variation (c_selection (snd e)) \<in> V"
    proof -
      assume all: "\<forall>e \<in> set (sd_map m). svariation (c_config (snd e)) \<in> V \<and> sel_variation (c_selection (snd e)) \<in> V"
      then have "\<forall>e \<in> set ?d. svariation (c_config (snd e)) \<in> V \<and> sel_variation (c_selection (snd e)) \<in> V"
        by (blast dest: set_dropWhileD)
      from modify_loop_variations [OF this, of S b fl] all show ?thesis
        unfolding m' set_append by (blast dest: set_takeWhileD)
    qed
    then show ?thesis using k by (simp add: map_inv_def)
  qed (use a in \<open>simp add: sd_modify_def\<close>)
qed

lemma with_class_config [simp]: "svariation (c_config (snd (with_class pc e))) = svariation (c_config (snd e))"
  "c_selection (snd (with_class pc e)) = c_selection (snd e)"
  by (simp_all add: with_class_def split: prod.split)

lemma map_inv_assign:
  assumes "map_inv V m"
  shows "map_inv V (snd (assign_class_all pc m))" "map_inv V (snd (assign_class_range pc r m))"
proof -
  have k: "sd_inv (snd (assign_class_all pc m))" "sd_inv (snd (assign_class_range pc r m))"
    using sd_inv_snaps(1) assign_class_keeps(1) [of pc m] assign_class_keeps(2) [of pc r m] assms unfolding map_inv_def by blast+
  show "map_inv V (snd (assign_class_all pc m))"
    using assms k(1) by (auto simp: map_inv_def assign_class_all_def)
  show "map_inv V (snd (assign_class_range pc r m))"
  proof (rule map_invI [OF k(2)])
    fix e assume "e \<in> set (sd_map (snd (assign_class_range pc r m)))"
    then have "\<exists>f \<in> set (sd_map m). e = f \<or> e = with_class pc f"
      by (auto simp: assign_class_range_def Let_def dest!: set_takeWhileD set_dropWhileD)
    then show "svariation (c_config (snd e)) \<in> V \<and> sel_variation (c_selection (snd e)) \<in> V"
      using assms by (auto simp: map_inv_def)
  qed
qed

section \<open>Loading always returns\<close>

text \<open>What the loop needs of a writer: it keeps the map, and when it reports success it has taken a point.\<close>

locale progressing =
  fixes V :: "GroupVariation set"
    and get_writer :: "GroupVariation \<Rightarrow> ('m, 'd) StaticDataMap \<Rightarrow> HeaderWriter \<Rightarrow> bool \<times> ('m, 'd) StaticDataMap \<times> HeaderWriter"
  assumes progress: "sel_variation (c_selection (snd e)) \<in> V \<Longrightarrow> sd_inv m \<Longrightarrow> picks m = e # es \<Longrightarrow>
      get_writer (sel_variation (c_selection (snd e))) m w = (ok, m', w') \<Longrightarrow>
      sd_inv m' \<and> unselected (sd_map m') = unselected (sd_map m) \<and> (\<exists>n. picks m' = drop n (e # es) \<and> (ok \<longrightarrow> 0 < n)) \<and> (\<not> ok \<longrightarrow> picks m' \<noteq> [])"
begin

lemma load_type_returns:
  "map_inv V m \<Longrightarrow> \<exists>ok m' w'. load_type get_writer m w = Some (ok, m', w') \<and> map_inv V m' \<and> unselected (sd_map m') = unselected (sd_map m)
     \<and> ok = (picks m' = [])"
proof (induction "length (picks m)" arbitrary: m w rule: less_induct)
  case less
  have inv: "sd_inv m" using less(2) by (simp add: map_inv_def)
  note b = sd_begin_ok [OF inv]
  show ?case
  proof (cases "mi_rest (sd_begin m)")
    case Nil
    then have "load_type get_writer m w = Some (True, m, w)" by (simp add: load_type.simps [of _ m])
    moreover have "picks m = []" using b(2) Nil by simp
    ultimately show ?thesis using less(2) by blast
  next
    case (Cons e rest)
    then have p: "picks m = e # picked rest" using b by (auto simp: mi_ok_def)
    have "e \<in> set (picks m)" using p by simp
    then have "e \<in> set (sd_map m)" by (simp add: picks_def picked_def)
    then have v: "sel_variation (c_selection (snd e)) \<in> V" using less(2) by (simp add: map_inv_def)
    obtain ok m1 w1 where g: "get_writer (sel_variation (c_selection (snd e))) m w = (ok, m1, w1)" by (metis surj_pair)
    from progress [OF v inv p g] obtain n where n: "sd_inv m1" "unselected (sd_map m1) = unselected (sd_map m)"
      "picks m1 = drop n (picks m)" "ok \<longrightarrow> 0 < n" "\<not> ok \<longrightarrow> picks m1 \<noteq> []" unfolding p by blast
    have i1: "map_inv V m1" using unselected_variations n(1,2) less(2) by blast
    have l: "load_type get_writer m w = (if ok then load_type get_writer m1 w1 else Some (False, m1, w1))"
      using Cons g by (cases e) (simp add: load_type.simps [of _ m])
    show ?thesis
    proof (cases ok)
      case True
      then have "length (picks m1) < length (picks m)" using n p by simp
      then show ?thesis using less(1) [OF _ i1, of w1] l True n(2) by (metis (no_types, lifting))
    next
      case False
      then have "load_type get_writer m w = Some (False, m1, w1)" using l by simp
      then show ?thesis using i1 n(2,5) False by blast
    qed
  qed
qed

end

lemma run_of_length: "length (run_of v k es) \<le> length es"
  by (induction v k es rule: run_of.induct) auto

lemma load_loop_progress:
  assumes "sd_inv m" "picks m = e # es" "sel_variation (c_selection (snd e)) = v"
    "load_loop wr1 v (start (sd_selected m)) (sd_begin m) it w = (ok, z, it', w')"
  shows "sd_inv (mi_map z) \<and> unselected (sd_map (mi_map z)) = unselected (sd_map m)
    \<and> (\<exists>n. picks (mi_map z) = drop n (e # es) \<and> (ok \<longrightarrow> 0 < n)) \<and> (\<not> ok \<longrightarrow> picks (mi_map z) \<noteq> [])"
proof -
  note b = sd_begin_ok [OF assms(1)]
  have k: "start (sd_selected m) = fst e" using assms(1,2) by (auto simp: sd_inv_def split: if_splits)
  have run: "run_of v (start (sd_selected m)) (picks m) \<noteq> []" using assms(2,3) k by simp
  from load_loop_spec [OF b(1) assms(4)] b(2) obtain n where
    n: "mi_ok z" "unselected (mi_passed z @ mi_rest z) = unselected (sd_map m)" "picked (mi_rest z) = drop n (picks m)"
      "ok = (n = length (run_of v (start (sd_selected m)) (picks m)))" "n \<le> length (run_of v (start (sd_selected m)) (picks m))" by auto
  have "ok \<longrightarrow> 0 < n" using n(4) run by simp
  moreover have "length (run_of v (start (sd_selected m)) (picks m)) \<le> length (picks m)" by (rule run_of_length)
  then have "\<not> ok \<longrightarrow> drop n (picks m) \<noteq> []" using n(4,5) by simp
  ultimately show ?thesis using mi_map_inv [OF n(1)] n(2,3) assms(2) by (auto simp: mi_map_def)
qed

lemma WriteWithSerializer_progress:
  assumes "sd_inv m" "picks m = e # es" "sel_variation (c_selection (snd e)) = v" "WriteWithSerializer C S v m w = (ok, m', w')"
  shows "sd_inv m' \<and> unselected (sd_map m') = unselected (sd_map m) \<and> (\<exists>n. picks m' = drop n (e # es) \<and> (ok \<longrightarrow> 0 < n)) \<and> (\<not> ok \<longrightarrow> picks m' \<noteq> [])"
proof -
  obtain T qc where s: "static_index C (sd_selected m) = (T, qc)" by fastforce
  obtain it w1 where i: "IterateOverRange T qc S (unat (start (sd_selected m))) w = (it, w1)" by fastforce
  obtain ok1 z it2 w2 where l: "load_loop (RangeWriteIterator_Write T S) v (start (sd_selected m)) (sd_begin m) it w1 = (ok1, z, it2, w2)"
    by (metis surj_pair)
  have "ok = ok1" "m' = mi_map z" using assms(4) s i l by (simp_all add: WriteWithSerializer_def Let_def)
  then show ?thesis using load_loop_progress [OF assms(1-3) l] by simp
qed

lemma WriteSingleBitfield_progress:
  assumes "sd_inv m" "picks m = e # es" "sel_variation (c_selection (snd e)) = v" "WriteSingleBitfield C gvId v m w = (ok, m', w')"
  shows "sd_inv m' \<and> unselected (sd_map m') = unselected (sd_map m) \<and> (\<exists>n. picks m' = drop n (e # es) \<and> (ok \<longrightarrow> 0 < n)) \<and> (\<not> ok \<longrightarrow> picks m' \<noteq> [])"
proof -
  obtain T qc where s: "static_index C (sd_selected m) = (T, qc)" by fastforce
  obtain it w1 where i: "IterateOverSingleBitfield T gvId qc (unat (start (sd_selected m))) w = (it, w1)" by fastforce
  obtain ok1 z it2 w2 where l: "load_loop (\<lambda>v. BitfieldRangeWriteIterator_Write T (m_value v)) v (start (sd_selected m)) (sd_begin m) it w1 = (ok1, z, it2, w2)"
    by (metis surj_pair)
  have "ok = ok1" "m' = mi_map z" using assms(4) s i l by (simp_all add: WriteSingleBitfield_def Let_def)
  then show ?thesis using load_loop_progress [OF assms(1-3) l] by simp
qed

lemma octets_step:
  assumes "mi_rest z = e # rest"
  shows "write_some_octet_strings T S prior z it w =
    (if (case prior of None \<Rightarrow> False | Some (k, n) \<Rightarrow> k \<noteq> fst e \<or> n \<noteq> length (reported e)) then (True, z, it, w)
     else case RangeWriteIterator_Write T S (reported e) it w of (ok, it', w') \<Rightarrow>
       if ok then write_some_octet_strings T S (Some (fst e + 1, length (reported e))) (mi_next z) it' w' else (False, z, it', w'))"
  using assms by (cases e; cases prior) (auto simp: write_some_octet_strings.simps [of _ _ _ z] Let_def split: prod.splits)

lemma octets_loop:
  "mi_ok z \<Longrightarrow> write_some_octet_strings T S prior z it w = (ok, z', it', w') \<Longrightarrow>
    mi_ok z' \<and> unselected (mi_passed z' @ mi_rest z') = unselected (mi_passed z @ mi_rest z)
    \<and> (\<exists>n. picked (mi_rest z') = drop n (picked (mi_rest z)) \<and> (prior = None \<and> mi_rest z \<noteq> [] \<and> ok \<longrightarrow> 0 < n))
    \<and> (\<not> ok \<longrightarrow> picked (mi_rest z') \<noteq> [])"
proof (induction "length (mi_rest z)" arbitrary: z prior it w rule: less_induct)
  case less
  show ?case
  proof (cases "mi_rest z")
    case Nil
    then show ?thesis using less(2,3) by (auto simp: write_some_octet_strings.simps [of _ _ _ z] intro: exI [of _ 0])
  next
    case (Cons e rest)
    note nxt = mi_next_spec [OF less(2) Cons] and step = octets_step [OF Cons, of T S prior it w]
    obtain ok1 it1 w1 where w1: "RangeWriteIterator_Write T S (reported e) it w = (ok1, it1, w1)" by (metis surj_pair)
    show ?thesis
    proof (cases "(case prior of None \<Rightarrow> False | Some (k, n) \<Rightarrow> k \<noteq> fst e \<or> n \<noteq> length (reported e)) \<or> \<not> ok1")
      case True
      then have "z' = z" "prior = None \<longrightarrow> \<not> ok" using less(3) step w1 by (cases prior; auto split: if_splits)+
      moreover have "picked (mi_rest z) \<noteq> []" using nxt by (simp add: mi_next_spec(3) [OF less(2) Cons])
      ultimately show ?thesis using less(2) by (auto intro: exI [of _ 0])
    next
      case False
      then have l: "write_some_octet_strings T S (Some (fst e + 1, length (reported e))) (mi_next z) it1 w1 = (ok, z', it', w')"
        using less(3) step w1 by auto
      from less(1) [OF mi_next_less nxt(1) l] Cons
      obtain n where n: "mi_ok z'" "unselected (mi_passed z' @ mi_rest z') = unselected (mi_passed (mi_next z) @ mi_rest (mi_next z))"
        "picked (mi_rest z') = drop n (picked rest)"
        "\<not> ok \<longrightarrow> picked (mi_rest z') \<noteq> []" by (auto simp: nxt(2))
      show ?thesis using n nxt(3,4) by (auto intro: exI [of _ "Suc n"])
    qed
  qed
qed

lemma octets_progress:
  assumes "sd_inv m" "picks m = e # es" "write_octet_strings C m w = (ok, m', w')"
  shows "sd_inv m' \<and> unselected (sd_map m') = unselected (sd_map m) \<and> (\<exists>n. picks m' = drop n (e # es) \<and> (ok \<longrightarrow> 0 < n)) \<and> (\<not> ok \<longrightarrow> picks m' \<noteq> [])"
proof -
  define S where "S = OctetStringSerializer False (length (sel_value (c_selection (snd (hd (mi_rest (sd_begin m)))))))"
  obtain T qc where s: "static_index C (sd_selected m) = (T, qc)" by fastforce
  obtain it w1 where i: "IterateOverRange T qc S (unat (start (sd_selected m))) w = (it, w1)" by fastforce
  obtain ok1 z it2 w2 where l: "write_some_octet_strings T S None (sd_begin m) it w1 = (ok1, z, it2, w2)" by (metis surj_pair)
  have r: "ok = ok1" "m' = mi_map z" using assms(3) s i l by (simp_all add: write_octet_strings_def Let_def flip: S_def)
  note b = sd_begin_ok [OF assms(1)]
  have "mi_rest (sd_begin m) \<noteq> []" using b(2) assms(2) by auto
  with octets_loop [OF b(1) l] b(2) obtain n where n: "mi_ok z" "unselected (mi_passed z @ mi_rest z) = unselected (sd_map m)"
    "picked (mi_rest z) = drop n (picks m)" "ok1 \<longrightarrow> 0 < n" "\<not> ok1 \<longrightarrow> picked (mi_rest z) \<noteq> []" by auto
  then show ?thesis using mi_map_inv [OF n(1)] r assms(2) by (auto simp: mi_map_def)
qed

lemma progressing_serializers:
  fixes get_writer :: "GroupVariation \<Rightarrow> ('m, 'd) StaticDataMap \<Rightarrow> HeaderWriter \<Rightarrow> bool \<times> ('m, 'd) StaticDataMap \<times> HeaderWriter"
  assumes "\<And>v. v \<in> V \<Longrightarrow> \<exists>S. get_writer v = WriteWithSerializer C S v"
  shows "progressing V get_writer"
proof
  fix e :: "u16 \<times> ('m, 'd) StaticDataCell" and m :: "('m, 'd) StaticDataMap" and es w ok m' w'
  assume a: "sel_variation (c_selection (snd e)) \<in> V" "sd_inv m" "picks m = e # es"
    "get_writer (sel_variation (c_selection (snd e))) m w = (ok, m', w')"
  obtain S where "get_writer (sel_variation (c_selection (snd e))) = WriteWithSerializer C S (sel_variation (c_selection (snd e)))"
    using assms [OF a(1)] by blast
  then show "sd_inv m' \<and> unselected (sd_map m') = unselected (sd_map m) \<and> (\<exists>n. picks m' = drop n (e # es) \<and> (ok \<longrightarrow> 0 < n)) \<and> (\<not> ok \<longrightarrow> picks m' \<noteq> [])"
    using a(4) by (intro WriteWithSerializer_progress [OF a(2,3) refl, of C S]) (simp only:)
qed

interpretation binary_loop: progressing "set StaticBinaryVariations" "binary_writer E :: _ \<Rightarrow> (bool TypedMeasurement, 'd) StaticDataMap \<Rightarrow> _" for E
proof
  fix e :: "u16 \<times> (bool TypedMeasurement, 'd) StaticDataCell" and m :: "(bool TypedMeasurement, 'd) StaticDataMap" and es w ok m' w'
  assume a: "sel_variation (c_selection (snd e)) \<in> set StaticBinaryVariations" "sd_inv m" "picks m = e # es"
    "binary_writer E (sel_variation (c_selection (snd e))) m w = (ok, m', w')"
  show "sd_inv m' \<and> unselected (sd_map m') = unselected (sd_map m) \<and> (\<exists>n. picks m' = drop n (e # es) \<and> (ok \<longrightarrow> 0 < n)) \<and> (\<not> ok \<longrightarrow> picks m' \<noteq> [])"
  proof (cases "sel_variation (c_selection (snd e)) = Group1Var1")
    case True
    then have "WriteSingleBitfield (lib_u16 E) (gvid 1 1) Group1Var1 m w = (ok, m', w')" using a(4) by (simp add: binary_writer_def)
    then show ?thesis by (rule WriteSingleBitfield_progress [OF a(2,3) True])
  next
    case False
    then have v: "sel_variation (c_selection (snd e)) = Group1Var2" using a(1) by (simp add: StaticBinaryVariations_def)
    then have "WriteWithSerializer (lib_u16 E) (Group1Var2_Inst E) Group1Var2 m w = (ok, m', w')" using a(4) by (simp add: binary_writer_def)
    then show ?thesis by (rule WriteWithSerializer_progress [OF a(2,3) v])
  qed
qed

interpretation double_bit_loop: progressing "set StaticDoubleBinaryVariations" "double_bit_writer E :: _ \<Rightarrow> (DoubleBit TypedMeasurement, 'd) StaticDataMap \<Rightarrow> _" for E
  by (rule progressing_serializers [of _ _ "lib_u16 E"]) (auto simp: double_bit_writer_def StaticDoubleBinaryVariations_def)

interpretation binary_output_loop: progressing "set StaticBinaryOutputStatusVariations" "binary_output_writer E :: _ \<Rightarrow> (bool TypedMeasurement, 'd) StaticDataMap \<Rightarrow> _" for E
  by (rule progressing_serializers [of _ _ "lib_u16 E"]) (auto simp: binary_output_writer_def StaticBinaryOutputStatusVariations_def)

interpretation time_loop: progressing "set StaticTimeAndIntervalVariations" "time_writer E :: _ \<Rightarrow> (TimeAndInterval, 'd) StaticDataMap \<Rightarrow> _" for E
  by (rule progressing_serializers [of _ _ "lib_u16 E"]) (auto simp: time_writer_def StaticTimeAndIntervalVariations_def)

interpretation octet_loop: progressing "set StaticOctetStringVariations" "octet_writer E :: _ \<Rightarrow> (OctetString, 'd) StaticDataMap \<Rightarrow> _" for E
proof
  fix e :: "u16 \<times> (OctetString, 'd) StaticDataCell" and m :: "(OctetString, 'd) StaticDataMap" and es w ok m' w'
  assume a: "sd_inv m" "picks m = e # es" "octet_writer E (sel_variation (c_selection (snd e))) m w = (ok, m', w')"
  show "sd_inv m' \<and> unselected (sd_map m') = unselected (sd_map m) \<and> (\<exists>n. picks m' = drop n (e # es) \<and> (ok \<longrightarrow> 0 < n)) \<and> (\<not> ok \<longrightarrow> picks m' \<noteq> [])"
    by (rule octets_progress [OF a(1,2) a(3) [unfolded octet_writer_def]])
qed

text \<open>The types whose variations are in a table.\<close>

lemma table_progress:
  fixes table :: "(GroupVariation \<times> 'm DNP3Serializer) list"
  assumes "map fst table = vs"
  shows "progressing (set vs) (choose_writer E table :: GroupVariation \<Rightarrow> ('m, 'd) StaticDataMap \<Rightarrow> _)"
proof (rule progressing_serializers [of _ _ "lib_u16 E"])
  fix v assume "v \<in> set vs"
  then have "v \<in> fst ` set table" using assms by (metis list.set_map)
  then obtain S where "map_of table v = Some S" by (meson map_of_eq_None_iff option.exhaust)
  then show "\<exists>S. (choose_writer E table v :: ('m, 'd) StaticDataMap \<Rightarrow> _) = WriteWithSerializer (lib_u16 E) S v"
    by (auto simp: choose_writer_def)
qed

interpretation analog_loop: progressing "set StaticAnalogVariations" "analog_writer E" for E
  unfolding analog_writer_def by (rule table_progress) (simp add: static_analogs_def StaticAnalogVariations_def)

interpretation counter_loop: progressing "set StaticCounterVariations" "counter_writer E" for E
  unfolding counter_writer_def by (rule table_progress) (simp add: static_counters_def StaticCounterVariations_def)

interpretation frozen_loop: progressing "set StaticFrozenCounterVariations" "frozen_counter_writer E" for E
  unfolding frozen_counter_writer_def by (rule table_progress) (simp add: static_frozen_counters_def StaticFrozenCounterVariations_def)

interpretation analog_output_loop: progressing "set StaticAnalogOutputStatusVariations" "analog_output_writer E" for E
  unfolding analog_output_writer_def by (rule table_progress) (simp add: static_analog_outputs_def StaticAnalogOutputStatusVariations_def)

section \<open>The database\<close>

definition db_inv :: "Database \<Rightarrow> bool" where
  "db_inv db =
     (map_inv (set StaticBinaryVariations) (binary_input db) \<and> map_inv (set StaticDoubleBinaryVariations) (double_binary db)
      \<and> map_inv (set StaticAnalogVariations) (analog_input db) \<and> map_inv (set StaticCounterVariations) (counter db)
      \<and> map_inv (set StaticFrozenCounterVariations) (frozen_counter db) \<and> map_inv (set StaticBinaryOutputStatusVariations) (binary_output_status db)
      \<and> map_inv (set StaticAnalogOutputStatusVariations) (analog_output_status db) \<and> map_inv (set StaticTimeAndIntervalVariations) (time_and_interval db)
      \<and> map_inv (set StaticOctetStringVariations) (octet_string db))"

named_theorems db_laws \<open>specifications and maps that meet the invariant of the database\<close>

lemma spec_oks [db_laws]:
  "spec_ok (set StaticBinaryVariations) BinarySpec" "spec_ok (set StaticDoubleBinaryVariations) DoubleBitBinarySpec"
  "spec_ok (set StaticAnalogVariations) AnalogSpec" "spec_ok (set StaticCounterVariations) CounterSpec"
  "spec_ok (set StaticFrozenCounterVariations) FrozenCounterSpec" "spec_ok (set StaticBinaryOutputStatusVariations) BinaryOutputStatusSpec"
  "spec_ok (set StaticAnalogOutputStatusVariations) AnalogOutputStatusSpec" "spec_ok (set StaticTimeAndIntervalVariations) TimeAndIntervalSpec"
  "spec_ok (set StaticOctetStringVariations) OctetStringSpec"
  by (auto simp: spec_ok_def BinarySpec_def DoubleBitBinarySpec_def AnalogSpec_def CounterSpec_def FrozenCounterSpec_def
      BinaryOutputStatusSpec_def AnalogOutputStatusSpec_def TimeAndIntervalSpec_def OctetStringSpec_def keep_variation_def
      binary_promotion_def StaticBinaryVariations_def StaticDoubleBinaryVariations_def StaticAnalogVariations_def StaticCounterVariations_def
      StaticFrozenCounterVariations_def StaticBinaryOutputStatusVariations_def StaticAnalogOutputStatusVariations_def
      StaticTimeAndIntervalVariations_def StaticOctetStringVariations_def)

fun type_variations :: "StaticType \<Rightarrow> GroupVariation set" where
  "type_variations BinaryInput = set StaticBinaryVariations"
| "type_variations DoubleBinaryInput = set StaticDoubleBinaryVariations"
| "type_variations CounterInput = set StaticCounterVariations"
| "type_variations FrozenCounterInput = set StaticFrozenCounterVariations"
| "type_variations AnalogInput = set StaticAnalogVariations"
| "type_variations BinaryOutputStatusInput = set StaticBinaryOutputStatusVariations"
| "type_variations AnalogOutputStatusInput = set StaticAnalogOutputStatusVariations"
| "type_variations TimeAndIntervalInput = set StaticTimeAndIntervalVariations"
| "type_variations OctetStringInput = set StaticOctetStringVariations"

lemma choose_points_inv:
  assumes "db_inv db" "\<And>v. vo = Some v \<Longrightarrow> v \<in> type_variations T"
  shows "db_inv (snd (choose_points T vo ch db))"
  using assms by (cases T) (auto simp: db_inv_def split: prod.split intro: map_inv_choose [OF spec_oks(1)] map_inv_choose [OF spec_oks(2)]
      map_inv_choose [OF spec_oks(3)] map_inv_choose [OF spec_oks(4)] map_inv_choose [OF spec_oks(5)] map_inv_choose [OF spec_oks(6)]
      map_inv_choose [OF spec_oks(7)] map_inv_choose [OF spec_oks(8)] map_inv_choose [OF spec_oks(9)])

lemma cases_typed: "list_all (\<lambda>(gv, T, vo). case vo of None \<Rightarrow> True | Some v \<Rightarrow> v \<in> type_variations T) (static_cases @ of_type OctetStringInput [own Group110Var0])"
  "list_all (\<lambda>(gv, T, vo). case vo of None \<Rightarrow> True | Some v \<Rightarrow> v \<in> type_variations T) (static_cases @ of_type OctetStringInput [default_of Group110Var0])"
  by (simp_all add: static_cases_def of_type_def own_def default_of_def StaticBinaryVariations_def StaticDoubleBinaryVariations_def StaticAnalogVariations_def
      StaticCounterVariations_def StaticFrozenCounterVariations_def StaticBinaryOutputStatusVariations_def
      StaticAnalogOutputStatusVariations_def StaticTimeAndIntervalVariations_def StaticOctetStringVariations_def)

lemma case_typed:
  "map_of all_cases gv = Some (T, Some v) \<Longrightarrow> v \<in> type_variations T" "map_of range_cases gv = Some (T, Some v) \<Longrightarrow> v \<in> type_variations T"
  using cases_typed unfolding all_cases_def range_cases_def list_all_iff by (fastforce dest!: map_of_SomeD)+

lemma load_in_law:
  assumes "progressing V gw" "map_inv V m"
  shows "\<exists>ok m' w'. load_in m upd gw w = Some (ok, upd m', w') \<and> map_inv V m' \<and> ok = (\<not> has_any_selection m')"
proof -
  from progressing.load_type_returns [OF assms] obtain ok m' w' where
    l: "load_type gw m w = Some (ok, m', w')" "map_inv V m'" "ok = (picks m' = [])" by blast
  moreover have "has_any_selection m' = (picks m' \<noteq> [])" using l(2) has_any_selection_iff [of m'] by (simp add: map_inv_def)
  ultimately show ?thesis by (auto simp: load_in_def intro!: exI [of _ m'])
qed

section \<open>The operations\<close>

datatype db_op =
    Select_all GroupVariation | Select_range GroupVariation Range | Select_indices GroupVariation "u16 list" | Unselect_all
  | Assign_all AssignClassType PointClass | Assign_range AssignClassType PointClass Range | Load_into HeaderWriter
  | Update_point measurement u16 EventMode | Modify_flags FlagsType u16 u16 byte
  | Freeze_selected "nat \<Rightarrow> DNPTime" bool EventMode | Freeze_point "nat \<Rightarrow> DNPTime" u16 bool EventMode

fun run_db_op :: "le_lib \<Rightarrow> db_op \<Rightarrow> Database \<Rightarrow> Database option" where
  "run_db_op E (Select_all gv) db = Some (snd (Database_SelectAll gv db))"
| "run_db_op E (Select_range gv r) db = Some (snd (Database_SelectRange gv r db))"
| "run_db_op E (Select_indices gv is) db = Some (snd (Database_SelectIndices gv is db))"
| "run_db_op E Unselect_all db = Some (Database_Unselect db)"
| "run_db_op E (Assign_all T pc) db = Some (snd (AssignClassToAll T pc db))"
| "run_db_op E (Assign_range T pc r) db = Some (snd (AssignClassToRange T pc r db))"
| "run_db_op E (Load_into w) db = map_option (\<lambda>(ok, db, w). db) (Database_Load E db w)"
| "run_db_op E (Update_point v i mode) db = Some (snd (snd (Database_Update v i mode db)))"
| "run_db_op E (Modify_flags T a b fl) db = Some (snd (snd (Database_Modify T a b fl db)))"
| "run_db_op E (Freeze_selected now clr mode) db = Some (snd (FreezeSelectedCounters now clr mode db))"
| "run_db_op E (Freeze_point now i clr mode) db = Some (snd (snd (FreezeCounter now i clr mode db)))"

text \<open>A sequence of operations; \<open>None\<close> is an operation that does not return.\<close>

fun run_db_ops :: "le_lib \<Rightarrow> db_op list \<Rightarrow> Database \<Rightarrow> Database option" where
  "run_db_ops E [] db = Some db"
| "run_db_ops E (p # ps) db = (case run_db_op E p db of None \<Rightarrow> None | Some db \<Rightarrow> run_db_ops E ps db)"

subsection \<open>Selecting\<close>

lemma choose_points_typed: "db_inv db \<Longrightarrow> (\<And>v. vo = Some v \<Longrightarrow> v \<in> type_variations T) \<Longrightarrow> choose_points T vo ch db = (n, db') \<Longrightarrow> db_inv db'"
  using choose_points_inv [of db vo T ch] by simp

lemma select_all_inv: "db_inv db \<Longrightarrow> db_inv (snd (Database_SelectAll gv db))"
proof -
  assume a: "db_inv db"
  have "db_inv (fold select_all_class_zero Ts db)" for Ts
    using a by (induction Ts arbitrary: db) (auto simp: select_all_class_zero_def intro: choose_points_inv)
  then show ?thesis using a case_typed(1)
    by (auto simp: Database_SelectAll_def intro!: choose_points_inv split: option.splits)
qed

lemma select_range_inv: "db_inv db \<Longrightarrow> db_inv (snd (Database_SelectRange gv r db))"
proof (cases "map_of range_cases gv")
  case (Some c)
  assume a: "db_inv db"
  obtain T vo where c: "c = (T, vo)" by fastforce
  have "db_inv (snd (choose_points T vo (In_range r) db))" by (rule choose_points_inv [OF a]) (use Some c case_typed(2) in simp)
  then show ?thesis using Some c by (cases "choose_points T vo (In_range r) db") (simp add: Database_SelectRange_def)
qed (simp add: Database_SelectRange_def)

lemma select_indices_inv:
  "db_inv db \<Longrightarrow> (\<And>v. vo = Some v \<Longrightarrow> v \<in> type_variations T) \<Longrightarrow> db_inv (snd (select_indices T vo is db))"
proof (induction "is" arbitrary: db)
  case (Cons i "is")
  obtain n db1 where c: "choose_points T vo (In_range \<lparr>start = i, stop = i\<rparr>) db = (n, db1)" by fastforce
  show ?case using Cons.IH [OF choose_points_typed [OF Cons.prems c]] Cons.prems(2) c by (auto split: prod.split)
qed simp

lemma select_some_inv: "db_inv db \<Longrightarrow> db_inv (snd (Database_SelectIndices gv is db))"
proof (cases "map_of range_cases gv")
  case (Some c)
  assume a: "db_inv db"
  obtain T vo where c: "c = (T, vo)" by fastforce
  have "db_inv (snd (select_indices T vo is db))" by (rule select_indices_inv [OF a]) (use Some c case_typed(2) in simp)
  then show ?thesis using Some c by (cases "select_indices T vo is db") (simp add: Database_SelectIndices_def)
qed (simp add: Database_SelectIndices_def)

lemma unselect_inv: "db_inv db \<Longrightarrow> db_inv (Database_Unselect db)"
  by (simp add: db_inv_def Database_Unselect_def map_inv_clear)

lemma map_inv_assigned: "map_inv V m \<Longrightarrow> assign_class_all pc m = (r, m') \<Longrightarrow> map_inv V m'"
  "map_inv V m \<Longrightarrow> assign_class_range pc rg m = (r, m') \<Longrightarrow> map_inv V m'"
  using map_inv_assign [of V m pc] by (metis snd_conv)+

lemma assign_inv: "db_inv db \<Longrightarrow> db_inv (snd (AssignClassToAll T pc db))" "db_inv db \<Longrightarrow> db_inv (snd (AssignClassToRange T pc rg db))"
  by (cases T; simp add: db_inv_def split: prod.split; blast intro: map_inv_assigned)+

subsection \<open>Updating\<close>

lemma update_inv: "db_inv db \<Longrightarrow> db_inv (snd (snd (Database_Update v i mode db)))"
  by (cases v) (simp add: db_inv_def split: prod.split; blast intro: map_inv_update map_inv_update_time)+

lemma modify_inv: "db_inv db \<Longrightarrow> db_inv (snd (snd (Database_Modify T a b fl db)))"
  by (cases T) (simp add: db_inv_def split: prod.split; blast intro: map_inv_modify)+

subsection \<open>Loading\<close>

text \<open>Which types still have points selected, in the order of loading.\<close>

definition pending :: "Database \<Rightarrow> bool list" where
  "pending db =
     [has_any_selection (binary_input db), has_any_selection (double_binary db), has_any_selection (analog_input db),
      has_any_selection (counter db), has_any_selection (frozen_counter db), has_any_selection (binary_output_status db),
      has_any_selection (analog_output_status db), has_any_selection (time_and_interval db), has_any_selection (octet_string db)]"

text \<open>After \<open>k\<close> types: all of them are done, or one is not and the loading has stopped.\<close>

definition loaded :: "nat \<Rightarrow> (bool \<times> Database \<times> HeaderWriter) option \<Rightarrow> bool" where
  "loaded k r = (case r of None \<Rightarrow> False
     | Some (ok, db, w) \<Rightarrow> db_inv db \<and> (if ok then list_all Not (take k (pending db)) else \<not> list_all Not (pending db)))"

lemma loaded_and_then:
  assumes "loaded k r" "\<And>db w. db_inv db \<Longrightarrow> list_all Not (take k (pending db)) \<Longrightarrow> loaded n (f db w)"
  shows "loaded n (and_then r f)"
  using assms by (cases r) (auto simp: loaded_def and_then_def)

lemma load_in_loaded:
  assumes "progressing V gw" "map_inv V m"
    "\<And>m'. map_inv V m' \<Longrightarrow> db_inv (upd m')"
    "\<And>m'. list_all Not (take k (pending (upd m'))) = (\<not> has_any_selection m')" "\<And>m'. has_any_selection m' \<Longrightarrow> \<not> list_all Not (pending (upd m'))"
  shows "loaded k (load_in m upd gw w)"
proof -
  from load_in_law [OF assms(1,2), of upd w] obtain ok m' w' where
    "load_in m upd gw w = Some (ok, upd m', w')" "map_inv V m'" "ok = (\<not> has_any_selection m')" by blast
  then show ?thesis using assms(3-5) by (auto simp: loaded_def)
qed

lemma loaded_stages:
  assumes "db_inv db"
  shows "loaded 1 (load_in (binary_input db) (\<lambda>m. db\<lparr>binary_input := m\<rparr>) (binary_writer E) w)"
    "list_all Not (take 1 (pending db)) \<Longrightarrow> loaded 2 (load_in (double_binary db) (\<lambda>m. db\<lparr>double_binary := m\<rparr>) (double_bit_writer E) w)"
    "list_all Not (take 2 (pending db)) \<Longrightarrow> loaded 3 (load_in (analog_input db) (\<lambda>m. db\<lparr>analog_input := m\<rparr>) (analog_writer E) w)"
    "list_all Not (take 3 (pending db)) \<Longrightarrow> loaded 4 (load_in (counter db) (\<lambda>m. db\<lparr>counter := m\<rparr>) (counter_writer E) w)"
    "list_all Not (take 4 (pending db)) \<Longrightarrow> loaded 5 (load_in (frozen_counter db) (\<lambda>m. db\<lparr>frozen_counter := m\<rparr>) (frozen_counter_writer E) w)"
    "list_all Not (take 5 (pending db)) \<Longrightarrow>
       loaded 6 (load_in (binary_output_status db) (\<lambda>m. db\<lparr>binary_output_status := m\<rparr>) (binary_output_writer E) w)"
    "list_all Not (take 6 (pending db)) \<Longrightarrow>
       loaded 7 (load_in (analog_output_status db) (\<lambda>m. db\<lparr>analog_output_status := m\<rparr>) (analog_output_writer E) w)"
    "list_all Not (take 7 (pending db)) \<Longrightarrow> loaded 8 (load_in (time_and_interval db) (\<lambda>m. db\<lparr>time_and_interval := m\<rparr>) (time_writer E) w)"
    "list_all Not (take 8 (pending db)) \<Longrightarrow> loaded 9 (load_in (octet_string db) (\<lambda>m. db\<lparr>octet_string := m\<rparr>) (octet_writer E) w)"
  subgoal using assms by (intro load_in_loaded [OF binary_loop.progressing_axioms]) (simp_all add: db_inv_def pending_def)
  subgoal using assms by (intro load_in_loaded [OF double_bit_loop.progressing_axioms]) (simp_all add: db_inv_def pending_def)
  subgoal using assms by (intro load_in_loaded [OF analog_loop.progressing_axioms]) (simp_all add: db_inv_def pending_def)
  subgoal using assms by (intro load_in_loaded [OF counter_loop.progressing_axioms]) (simp_all add: db_inv_def pending_def)
  subgoal using assms by (intro load_in_loaded [OF frozen_loop.progressing_axioms]) (simp_all add: db_inv_def pending_def)
  subgoal using assms by (intro load_in_loaded [OF binary_output_loop.progressing_axioms]) (simp_all add: db_inv_def pending_def)
  subgoal using assms by (intro load_in_loaded [OF analog_output_loop.progressing_axioms]) (simp_all add: db_inv_def pending_def)
  subgoal using assms by (intro load_in_loaded [OF time_loop.progressing_axioms]) (simp_all add: db_inv_def pending_def)
  subgoal using assms by (intro load_in_loaded [OF octet_loop.progressing_axioms]) (simp_all add: db_inv_def pending_def)
  done

lemma load_law:
  assumes "db_inv db"
  shows "\<exists>ok db' w'. Database_Load E db w = Some (ok, db', w') \<and> db_inv db' \<and> ok = (\<not> Database_HasAnySelection db')"
proof -
  have "loaded 9 (Database_Load E db w)" unfolding Database_Load_def
    by (rule loaded_and_then [of 8], rule loaded_and_then [of 7], rule loaded_and_then [of 6], rule loaded_and_then [of 5],
        rule loaded_and_then [of 4], rule loaded_and_then [of 3], rule loaded_and_then [of 2], rule loaded_and_then [of 1])
      (rule loaded_stages, (rule assms | assumption)+)+
  then obtain ok db' w' where l: "Database_Load E db w = Some (ok, db', w')" "db_inv db'"
    "if ok then list_all Not (take 9 (pending db')) else \<not> list_all Not (pending db')"
    by (cases "Database_Load E db w") (auto simp: loaded_def)
  have "list_all Not (take 9 (pending db')) = (\<not> Database_HasAnySelection db')" "list_all Not (pending db') = (\<not> Database_HasAnySelection db')"
    by (simp_all add: pending_def Database_HasAnySelection_def)
  with l show ?thesis by (simp split: if_splits)
qed

subsection \<open>Freezing\<close>

definition typed :: "GroupVariation set \<Rightarrow> (u16 \<times> ('m, 'd) StaticDataCell) list \<Rightarrow> bool" where
  "typed V xs = (\<forall>e \<in> set xs. svariation (c_config (snd e)) \<in> V \<and> sel_variation (c_selection (snd e)) \<in> V)"

lemma map_inv_typed: "map_inv V m = (sd_inv m \<and> typed V (sd_map m))"
  by (simp add: map_inv_def typed_def)

lemma typed_unselected: "typed V (unselected xs) = typed V xs"
  by (simp add: typed_def unselected_def unpick_def case_prod_beta)

lemma mi_next_typed: "mi_ok z \<Longrightarrow> mi_rest z = e # rest \<Longrightarrow> typed V (mi_passed (mi_next z) @ mi_rest (mi_next z)) = typed V (mi_passed z @ mi_rest z)"
  using typed_unselected mi_next_spec(4) by metis

lemma update_cell_picked: "sel_selected (c_selection (snd (update_cell S v mode i c))) = sel_selected (c_selection c)"
  "sel_variation (c_selection (snd (update_cell S v mode i c))) = sel_variation (c_selection c)"
  by (simp_all add: update_cell_def Let_def)

lemma mi_ok_replace:
  assumes "mi_ok z" "mi_rest z = (i, c) # rest" "sel_selected (c_selection c') = sel_selected (c_selection c)"
  shows "mi_ok (z\<lparr>mi_rest := (i, c') # rest\<rparr>)"
  using assms by (auto simp: mi_ok_def is_picked_def split: if_splits)

lemma freeze_loop_inv:
  "mi_ok z \<Longrightarrow> typed V (mi_passed z @ mi_rest z) \<Longrightarrow> map_inv W frozen \<Longrightarrow> freeze_loop now clr mode n z frozen = (evs, z', frozen')
     \<Longrightarrow> mi_ok z' \<and> mi_rest z' = [] \<and> typed V (mi_passed z' @ mi_rest z') \<and> map_inv W frozen'"
proof (induction "length (mi_rest z)" arbitrary: n z frozen evs rule: less_induct)
  case less
  show ?case
  proof (cases "mi_rest z")
    case Nil
    then show ?thesis using less(2-5) by (auto simp: freeze_loop.simps [of _ _ _ _ z])
  next
    case (Cons e rest)
    obtain i c where e: "e = (i, c)" by fastforce
    define sel where "sel = sel_value (c_selection c)"
    obtain ok evs1 frozen1 where u: "sd_update FrozenCounterSpec (TypedMeasurement_make_time (m_value sel) (m_flags sel) (now n)) i mode frozen
        = (ok, evs1, frozen1)" by (metis surj_pair)
    have f1: "map_inv W frozen1" by (rule map_inv_update [OF less(4) u])
    show ?thesis
    proof (cases clr)
      case False
      obtain evs2 where l: "freeze_loop now clr mode (n + 1) (mi_next z) frozen1 = (evs2, z', frozen')"
        using less(5) Cons False u by (auto simp: freeze_loop.simps [of _ _ _ _ z] e Let_def simp flip: sel_def split: prod.splits)
      have "typed V (mi_passed (mi_next z) @ mi_rest (mi_next z))" using mi_next_typed [OF less(2) Cons] less(3) by blast
      moreover have "mi_rest z \<noteq> []" using Cons by simp
      ultimately show ?thesis using less(1) [OF mi_next_less mi_next_spec(1) [OF less(2) Cons] _ f1 l] by blast
    next
      case True
      define zero where "zero = sel\<lparr>m_value := 0, m_time := now (Suc n)\<rparr>"
      obtain evs2 c' where c': "update_cell CounterSpec zero mode i (c\<lparr>c_selection := (c_selection c)\<lparr>sel_value := zero\<rparr>\<rparr>) = (evs2, c')" by fastforce
      define y where "y = z\<lparr>mi_rest := (i, c') # rest\<rparr>"
      obtain evs3 where l: "freeze_loop now clr mode (n + 2) (mi_next y) frozen1 = (evs3, z', frozen')"
        using less(5) Cons True u c' by (auto simp: freeze_loop.simps [of _ _ _ _ z] e Let_def simp flip: sel_def zero_def y_def split: prod.splits)
      have cc: "sel_selected (c_selection c') = sel_selected (c_selection c)" "sel_variation (c_selection c') = sel_variation (c_selection c)"
        "c_config c' = c_config c"
        using update_cell_picked [of CounterSpec zero mode i "c\<lparr>c_selection := (c_selection c)\<lparr>sel_value := zero\<rparr>\<rparr>"]
          update_cell_config [of CounterSpec zero mode i "c\<lparr>c_selection := (c_selection c)\<lparr>sel_value := zero\<rparr>\<rparr>"] c' by simp_all
      have y: "mi_ok y" "mi_rest y = (i, c') # rest" "mi_passed y = mi_passed z"
        using mi_ok_replace [OF less(2) Cons [unfolded e] cc(1)] by (simp_all add: y_def)
      have "typed V (mi_passed y @ mi_rest y)" using less(3) Cons cc(2,3) by (simp add: y(2,3) e typed_def)
      then have "typed V (mi_passed (mi_next y) @ mi_rest (mi_next y))" using mi_next_typed [OF y(1,2)] by blast
      moreover have "length (mi_rest (mi_next y)) < length (mi_rest z)" using mi_next_less [of y] y(2) Cons by simp
      ultimately show ?thesis using less(1) [OF _ mi_next_spec(1) [OF y(1,2)] _ f1 l] by blast
    qed
  qed
qed

lemma freeze_inv: "db_inv db \<Longrightarrow> db_inv (snd (FreezeSelectedCounters now clr mode db))"
proof -
  assume a: "db_inv db"
  then have c: "map_inv (set StaticCounterVariations) (counter db)" and f: "map_inv (set StaticFrozenCounterVariations) (frozen_counter db)"
    by (simp_all add: db_inv_def)
  obtain evs z frozen where l: "freeze_loop now clr mode 0 (sd_begin (counter db)) (frozen_counter db) = (evs, z, frozen)" by (metis surj_pair)
  have b: "mi_ok (sd_begin (counter db))" "typed (set StaticCounterVariations) (mi_passed (sd_begin (counter db)) @ mi_rest (sd_begin (counter db)))"
    using c sd_begin_ok [of "counter db"] by (simp_all add: map_inv_typed)
  from freeze_loop_inv [OF b f l] have z: "mi_ok z" "typed (set StaticCounterVariations) (mi_passed z @ mi_rest z)"
    "map_inv (set StaticFrozenCounterVariations) frozen" by blast+
  then have "map_inv (set StaticCounterVariations) (mi_map z)" using mi_map_inv [OF z(1)] by (simp add: map_inv_typed mi_map_def)
  then show ?thesis using a z(3) map_inv_clear l by (simp add: FreezeSelectedCounters_def db_inv_def)
qed

lemma freeze_point_inv: "db_inv db \<Longrightarrow> db_inv (snd (snd (FreezeCounter now i clr mode db)))"
proof -
  assume a: "db_inv db"
  obtain n db1 where c: "choose_points CounterInput None (In_range \<lparr>start = i, stop = i\<rparr>) db = (n, db1)" by fastforce
  have "db_inv db1" by (rule choose_points_typed [OF a _ c]) simp
  then show ?thesis using freeze_inv [of db1 now clr mode] unfolding FreezeCounter_def c by (simp split: prod.split)
qed

section \<open>Every sequence of operations\<close>

definition points_ok :: "GroupVariation list \<Rightarrow> (u16 \<times> 'd PointConfig) list \<Rightarrow> bool" where
  "points_ok vs points = (sorted_wrt (<) (map fst points) \<and> list_all (\<lambda>e. svariation (snd e) \<in> set vs) points)"

definition config_ok :: "DatabaseConfig \<Rightarrow> bool" where
  "config_ok cfg =
     (points_ok StaticBinaryVariations (dc_binary_input cfg)
      \<and> points_ok StaticDoubleBinaryVariations (dc_double_binary cfg)
      \<and> points_ok StaticAnalogVariations (dc_analog_input cfg)
      \<and> points_ok StaticCounterVariations (dc_counter cfg)
      \<and> points_ok StaticFrozenCounterVariations (dc_frozen_counter cfg)
      \<and> points_ok StaticBinaryOutputStatusVariations (dc_binary_output_status cfg)
      \<and> points_ok StaticAnalogOutputStatusVariations (dc_analog_output_status cfg)
      \<and> points_ok StaticTimeAndIntervalVariations (dc_time_and_interval cfg)
      \<and> points_ok StaticOctetStringVariations (dc_octet_string cfg))"

lemma points_ok_make: "spec_ok (set vs) S \<Longrightarrow> points_ok vs points \<Longrightarrow> map_inv (set vs) (StaticDataMap_make S points)"
  by (rule map_inv_make) (auto simp: points_ok_def list_all_iff)

lemma make_db_inv: "config_ok cfg \<Longrightarrow> db_inv (Database_make cfg types)"
  by (simp add: config_ok_def db_inv_def Database_make_def points_ok_make spec_oks)

lemma run_db_op_inv: "db_inv db \<Longrightarrow> \<exists>db'. run_db_op E p db = Some db' \<and> db_inv db'"
proof (cases p)
  case (Load_into w)
  assume "db_inv db"
  from load_law [OF this, of E w] show ?thesis by (auto simp: Load_into)
qed (simp_all add: select_all_inv select_range_inv select_some_inv unselect_inv assign_inv update_inv modify_inv freeze_inv freeze_point_inv)

lemma run_db_ops_inv: "db_inv db \<Longrightarrow> \<exists>db'. run_db_ops E ps db = Some db' \<and> db_inv db'"
proof (induction ps arbitrary: db)
  case (Cons p ps)
  from run_db_op_inv [OF Cons.prems, of E p] obtain db1 where "run_db_op E p db = Some db1" "db_inv db1" by blast
  then show ?case using Cons.IH [of db1] by simp
qed simp

text \<open>
  The database never hangs and knows when it is done. From any configuration that the types allow, every
  sequence of selections, updates, freezes, assignments and loads returns, although the loop of a load has no
  bound in the code; and a load after it returns, reporting that the response is complete exactly when no
  point is left selected.
\<close>

theorem database_load_terminates:
  assumes "config_ok cfg"
  shows "\<exists>db ok db' w'. run_db_ops E ps (Database_make cfg types) = Some db \<and> Database_Load E db w = Some (ok, db', w')
     \<and> ok = (\<not> Database_HasAnySelection db')"
proof -
  from run_db_ops_inv [OF make_db_inv [OF assms]] obtain db where db: "run_db_ops E ps (Database_make cfg types) = Some db" "db_inv db" by blast
  from load_law [OF db(2), of E w] db(1) show ?thesis by blast
qed

theorem database_load_terminates_witness:
  "\<exists>db ok db' w'. run_db_ops little_endian [Select_all Group60Var1, Load_into (HeaderWriter_make (replicate 40 0) 0)] (Database_make (DatabaseConfig_make 2) 0xFFFF) = Some db
     \<and> Database_Load little_endian db (HeaderWriter_make (replicate 40 0) 0) = Some (ok, db', w') \<and> ok = (\<not> Database_HasAnySelection db')"
  by (rule database_load_terminates) (simp add: config_ok_def points_ok_def DatabaseConfig_make_def initialize_def PointConfig_default_def StaticBinaryVariations_def
      StaticDoubleBinaryVariations_def StaticAnalogVariations_def StaticCounterVariations_def StaticFrozenCounterVariations_def
      StaticBinaryOutputStatusVariations_def StaticAnalogOutputStatusVariations_def StaticTimeAndIntervalVariations_def
      StaticOctetStringVariations_def upt_conv_Cons)

end
