(* ===== verification/Out_Control.thy ===== *)
theory Out_Control
  imports Out_Db_Inv "HOL-Library.Signed_Division"
begin

text \<open>
  What an outstation keeps about requests (\<open>outstation/ControlState.h\<close>, \<open>TimeSyncState.h\<close>, \<open>RequestHistory\<close>,
  \<open>DeferredRequest\<close>, \<open>NumRetries\<close>), and the handlers of the object headers of a request
  (\<open>app/parsing/IAPDUHandler\<close> and its subclasses in \<open>outstation\<close>). The application and its command handler are not part of
  the library: they are a record of functions on a state of their own.
\<close>

section \<open>Retries\<close>

record NumRetries =
  numRetries :: nat
  maxNumRetries :: nat
  isInfinite :: bool

definition NumRetries_Fixed :: "nat \<Rightarrow> NumRetries" where
  "NumRetries_Fixed m = \<lparr>numRetries = 0, maxNumRetries = m, isInfinite = False\<rparr>"
definition NumRetries_Infinite :: NumRetries where
  "NumRetries_Infinite = \<lparr>numRetries = 0, maxNumRetries = 0, isInfinite = True\<rparr>"
definition Retry :: "NumRetries \<Rightarrow> bool \<times> NumRetries" where
  "Retry r = (let r = r\<lparr>numRetries := numRetries r + 1\<rparr> in (isInfinite r \<or> numRetries r \<le> maxNumRetries r, r))"
definition NumRetries_Reset :: "NumRetries \<Rightarrow> NumRetries" where
  "NumRetries_Reset r = r\<lparr>numRetries := 0\<rparr>"

section \<open>Select before operate\<close>

record ControlState =
  cs_selected :: bool
  cs_expectedSeq :: byte
  cs_selectTime :: i64
  cs_digest :: u16
  cs_length :: nat

definition ControlState_init :: ControlState where
  "ControlState_init = \<lparr>cs_selected = False, cs_expectedSeq = 0, cs_selectTime = 0, cs_digest = 0, cs_length = 0\<rparr>"

definition ValidateSelection :: "byte \<Rightarrow> i64 \<Rightarrow> i64 \<Rightarrow> byte list \<Rightarrow> ControlState \<Rightarrow> CommandStatus" where
  "ValidateSelection seq now timeout objects c =
     (if cs_selected c \<and> cs_expectedSeq c = seq then
        if cs_selectTime c \<le>s now then
          let elapsed = Timestamp_diff now (cs_selectTime c)
          in if elapsed <s timeout then
               if cs_length c = length objects \<and> cs_digest c = CalcCrc objects then SUCCESS else NO_SELECT
             else TIMEOUT
        else TIMEOUT
      else NO_SELECT)"

definition ControlState_Select :: "byte \<Rightarrow> i64 \<Rightarrow> byte list \<Rightarrow> ControlState \<Rightarrow> ControlState" where
  "ControlState_Select currentSeqN now objects c =
     c\<lparr>cs_selected := True, cs_selectTime := now, cs_expectedSeq := AppSeq_Next currentSeqN, cs_digest := CalcCrc objects,
       cs_length := length objects\<rparr>"

definition ControlState_Unselect :: "ControlState \<Rightarrow> ControlState" where
  "ControlState_Unselect c = c\<lparr>cs_selected := False\<rparr>"

section \<open>Time synchronization\<close>

record TimeSyncState =
  ts_valid :: bool
  ts_time :: i64
  ts_difference :: i64
  ts_expectedSeqNum :: byte

definition TimeSyncState_init :: TimeSyncState where
  "TimeSyncState_init = \<lparr>ts_valid = False, ts_time = 0, ts_difference = 0, ts_expectedSeqNum = 0\<rparr>"

definition RecordCurrentTime :: "byte \<Rightarrow> i64 \<Rightarrow> TimeSyncState \<Rightarrow> TimeSyncState" where
  "RecordCurrentTime seq now t = t\<lparr>ts_valid := True, ts_time := now, ts_expectedSeqNum := AppSeq_Next seq\<rparr>"

definition CalcTimeDifference :: "byte \<Rightarrow> i64 \<Rightarrow> TimeSyncState \<Rightarrow> bool \<times> TimeSyncState" where
  "CalcTimeDifference seq now t =
     (if \<not> ts_valid t then (False, t)
      else if ts_expectedSeqNum t \<noteq> seq then (False, t)
      else if now <s ts_time t then (False, t)
      else (True, t\<lparr>ts_difference := Timestamp_diff now (ts_time t), ts_valid := False\<rparr>))"

section \<open>Requests\<close>

record ParsedRequest =
  rq_addresses :: Addresses
  rq_header :: APDUHeader
  rq_objects :: "byte list"

record RequestHistory =
  hasLast :: bool
  lastHeader :: APDUHeader
  lastDigest :: u16
  lastObjectsLength :: nat

definition RequestHistory_init :: RequestHistory where
  "RequestHistory_init = \<lparr>hasLast = False, lastHeader = APDUHeader_default, lastDigest = 0, lastObjectsLength = 0\<rparr>"

definition RequestHistory_Reset :: "RequestHistory \<Rightarrow> RequestHistory" where
  "RequestHistory_Reset h = h\<lparr>hasLast := False\<rparr>"

definition RecordLastProcessedRequest :: "APDUHeader \<Rightarrow> byte list \<Rightarrow> RequestHistory \<Rightarrow> RequestHistory" where
  "RecordLastProcessedRequest header objects h =
     h\<lparr>hasLast := True, lastHeader := header, lastObjectsLength := length objects, lastDigest := CalcCrc objects\<rparr>"

definition EqualsLastObjects :: "byte list \<Rightarrow> RequestHistory \<Rightarrow> bool" where
  "EqualsLastObjects objects h = (hasLast h \<and> lastObjectsLength h = length objects \<and> lastDigest h = CalcCrc objects)"

definition FullyEqualsLastRequest :: "APDUHeader \<Rightarrow> byte list \<Rightarrow> RequestHistory \<Rightarrow> bool" where
  "FullyEqualsLastRequest header objects h = (APDUHeader_Equals (lastHeader h) header \<and> EqualsLastObjects objects h)"

text \<open>The buffer of a deferred request has the size of the largest fragment that the transport layer delivers.\<close>

record DeferredRequest =
  df_isSet :: bool
  df_request :: ParsedRequest

definition DeferredRequest_Set :: "ParsedRequest \<Rightarrow> DeferredRequest \<Rightarrow> DeferredRequest" where
  "DeferredRequest_Set request d = \<lparr>df_isSet = True, df_request = request\<rparr>"

definition DeferredRequest_Reset :: "DeferredRequest \<Rightarrow> DeferredRequest" where
  "DeferredRequest_Reset d = d\<lparr>df_isSet := False\<rparr>"

section \<open>The application\<close>

text \<open>Commands by the type of their object.\<close>

datatype command =
    Cmd_CROB ControlRelayOutputBlock | Cmd_Int16 "u16 AnalogOutput" | Cmd_Int32 "u32 AnalogOutput" | Cmd_Float32 "u32 AnalogOutput"
  | Cmd_Double64 "double AnalogOutput"

record ApplicationIIN =
  needTime :: bool
  localControl :: bool
  deviceTrouble :: bool
  configCorrupt :: bool
  eventBufferOverflow :: bool

definition ToIIN :: "ApplicationIIN \<Rightarrow> IINField" where
  "ToIIN a = SetBitToValue EVENT_BUFFER_OVERFLOW (eventBufferOverflow a)
     (SetBitToValue DEVICE_TROUBLE (deviceTrouble a) (SetBitToValue CONFIG_CORRUPT (configCorrupt a)
       (SetBitToValue LOCAL_CONTROL (localControl a) (SetBitToValue NEED_TIME (needTime a) IIN_Empty))))"

text \<open>What the outstation hands to a command handler and gets back: the application, the database and the events.\<close>

record 'a Resources =
  rs_app :: 'a
  rs_db :: Database
  rs_events :: EventBuffer

text \<open>
  \<open>IOutstationApplication\<close> and \<open>ICommandHandler\<close>. The time source is read once per frozen or cleared counter.
\<close>

record 'a Application =
  SupportsWriteAbsoluteTime :: "'a \<Rightarrow> bool"
  WriteAbsoluteTime :: "u64 \<Rightarrow> 'a \<Rightarrow> bool \<times> 'a"
  SupportsWriteTimeAndInterval :: "'a \<Rightarrow> bool"
  WriteTimeAndInterval :: "(u16 \<times> TimeAndInterval) list \<Rightarrow> 'a \<Rightarrow> bool \<times> 'a"
  SupportsAssignClass :: "'a \<Rightarrow> bool"
  RecordClassAssignment :: "AssignClassType \<Rightarrow> PointClass \<Rightarrow> u16 \<Rightarrow> u16 \<Rightarrow> 'a \<Rightarrow> 'a"
  GetApplicationIIN :: "'a \<Rightarrow> ApplicationIIN"
  ColdRestartSupport :: "'a \<Rightarrow> RestartMode"
  WarmRestartSupport :: "'a \<Rightarrow> RestartMode"
  ColdRestart :: "'a \<Rightarrow> u16 \<times> 'a"
  WarmRestart :: "'a \<Rightarrow> u16 \<times> 'a"
  OnConfirmProcessed :: "bool \<Rightarrow> u32 \<Rightarrow> u32 \<Rightarrow> u32 \<Rightarrow> 'a \<Rightarrow> 'a"
  Now :: "'a \<Rightarrow> nat \<Rightarrow> DNPTime"
  Cmd_Begin :: "'a \<Rightarrow> 'a"
  Cmd_End :: "'a \<Rightarrow> 'a"
  Cmd_Select :: "command \<Rightarrow> u16 \<Rightarrow> 'a \<Rightarrow> CommandStatus \<times> 'a"
  Cmd_Operate :: "command \<Rightarrow> u16 \<Rightarrow> OperateType \<Rightarrow> 'a Resources \<Rightarrow> CommandStatus \<times> 'a Resources"

text \<open>The event buffer receives the events of the database.\<close>

definition post_events :: "Event list \<Rightarrow> EventBuffer \<Rightarrow> EventBuffer" where
  "post_events evs b = fold EventBuffer_Update evs b"

section \<open>Handlers of headers\<close>

text \<open>
  \<open>IAPDUHandler\<close>: the results of the headers are collected. A subclass is a function of the number of the
  header, the header and its own state; \<open>None\<close> is a header that it does not override.
\<close>

type_synonym 's header_processor = "u32 \<Rightarrow> header_event \<Rightarrow> 's \<Rightarrow> (IINField \<times> 's) option"

record 's IAPDUHandler =
  hn_errors :: IINField
  numTotalHeaders :: u32
  numIgnoredHeaders :: u32
  hn_state :: 's

definition IAPDUHandler_make :: "'s \<Rightarrow> 's IAPDUHandler" where
  "IAPDUHandler_make s = \<lparr>hn_errors = IIN_Empty, numTotalHeaders = 0, numIgnoredHeaders = 0, hn_state = s\<rparr>"

definition Record_header :: "IINField \<Rightarrow> 's IAPDUHandler \<Rightarrow> 's IAPDUHandler" where
  "Record_header result h = h\<lparr>hn_errors := IIN_or (hn_errors h) result, numTotalHeaders := numTotalHeaders h + 1\<rparr>"

definition OnHeader :: "'s header_processor \<Rightarrow> header_event \<Rightarrow> 's IAPDUHandler \<Rightarrow> 's IAPDUHandler" where
  "OnHeader P ev h =
     (case P (numTotalHeaders h) ev (hn_state h) of
        None \<Rightarrow> Record_header (IIN_of FUNC_NOT_SUPPORTED) (h\<lparr>numIgnoredHeaders := numIgnoredHeaders h + 1\<rparr>)
      | Some (result, s) \<Rightarrow> Record_header result (h\<lparr>hn_state := s\<rparr>))"

text \<open>\<open>APDUParser::Parse\<close> with a handler: its white list decides the first pass, the second one calls it.\<close>

definition Parse_with :: "u16_codec \<Rightarrow> byte list \<Rightarrow> white_list \<Rightarrow> bool \<Rightarrow> 's header_processor \<Rightarrow> 's \<Rightarrow> ParseResult \<times> 's IAPDUHandler" where
  "Parse_with C objects allowed expectsContents P s =
     (let (result, evs) = APDUParser_Parse C objects allowed expectsContents in (result, fold (OnHeader P) evs (IAPDUHandler_make s)))"

definition allow_all :: white_list where "allow_all headerCount gv qc = True"

fun IINFromParseResult :: "ParseResult \<Rightarrow> IINField" where
  "IINFromParseResult OK = IIN_Empty"
| "IINFromParseResult UNKNOWN_OBJECT = IIN_of OBJECT_UNKNOWN"
| "IINFromParseResult _ = IIN_of PARAM_ERROR"

subsection \<open>Reading\<close>

fun ReadHandler_ProcessHeader :: "(Database \<times> EventBuffer) header_processor" where
  "ReadHandler_ProcessHeader n (OnAllObjects record) (db, evb) =
     (case gv_type record of
        STATIC \<Rightarrow> (let (iin, db) = Database_SelectAll (enumeration record) db in Some (iin, db, evb))
      | EVENT \<Rightarrow> (let (iin, evb) = EventBuffer_SelectAll (enumeration record) evb in Some (iin, db, evb))
      | OTHER \<Rightarrow> Some (IIN_of FUNC_NOT_SUPPORTED, db, evb))"
| "ReadHandler_ProcessHeader n (OnRange record range1) (db, evb) =
     (let (iin, db) = Database_SelectRange (enumeration record) range1 db in Some (iin, db, evb))"
| "ReadHandler_ProcessHeader n (OnCount record count) (db, evb) =
     (let (iin, evb) = EventBuffer_SelectCount (enumeration record) count evb in Some (iin, db, evb))"
| "ReadHandler_ProcessHeader n (OnPrefixIndices record count indices) (db, evb) =
     (let (iin, db) = Database_SelectIndices (enumeration record) indices db in Some (iin, db, evb))"
| "ReadHandler_ProcessHeader n ev s = None"

subsection \<open>Writing\<close>

record 'a WriteHandler =
  wr_app :: 'a
  wr_timeSync :: TimeSyncState
  wr_writeIIN :: IINField
  wroteTime :: bool
  wroteIIN :: bool

text \<open>The only value of a collection, if it has one.\<close>

fun ReadOnlyValue :: "'v list \<Rightarrow> 'v option" where
  "ReadOnlyValue [v] = Some v"
| "ReadOnlyValue _ = None"

definition write_iin :: "(u16 \<times> bool) list \<Rightarrow> 'a WriteHandler \<Rightarrow> IINField \<times> 'a WriteHandler" where
  "write_iin values h =
     (case ReadOnlyValue values of
        None \<Rightarrow> (IIN_of PARAM_ERROR, h)
      | Some (index, value) \<Rightarrow>
          if wroteIIN h then (IIN_of PARAM_ERROR, h)
          else if index \<noteq> 7 then (IIN_of PARAM_ERROR, h)
          else if value then (IIN_of PARAM_ERROR, h)
          else (IIN_Empty, h\<lparr>wroteIIN := True, wr_writeIIN := ClearBit DEVICE_RESTART (wr_writeIIN h)\<rparr>))"

definition apply_time :: "'a Application \<Rightarrow> u64 \<Rightarrow> 'a WriteHandler \<Rightarrow> IINField \<times> 'a WriteHandler" where
  "apply_time A t h =
     (let (ok, a) = WriteAbsoluteTime A t (wr_app h)
      in (if ok then IIN_Empty else IIN_of PARAM_ERROR, h\<lparr>wroteTime := True, wr_app := a\<rparr>))"

text \<open>The milliseconds of a duration of nanoseconds, toward zero.\<close>

definition duration_ms :: "i64 \<Rightarrow> u64" where "duration_ms d = word_of_int (sint d sdiv 1000000)"

definition write_time :: "le_lib \<Rightarrow> 'a Application \<Rightarrow> byte list list \<Rightarrow> 'a WriteHandler \<Rightarrow> IINField \<times> 'a WriteHandler" where
  "write_time E A values h =
     (if wroteTime h then (IIN_of PARAM_ERROR, h)
      else if \<not> SupportsWriteAbsoluteTime A (wr_app h) then (IIN_of FUNC_NOT_SUPPORTED, h)
      else case Option.bind (ReadOnlyValue values) (Group50Var1_Read E) of
             None \<Rightarrow> (IIN_of PARAM_ERROR, h)
           | Some (value, rest) \<Rightarrow> apply_time A (dt_value (o_time value)) h)"

definition write_recorded_time ::
  "le_lib \<Rightarrow> 'a Application \<Rightarrow> byte \<Rightarrow> i64 \<Rightarrow> byte list list \<Rightarrow> 'a WriteHandler \<Rightarrow> IINField \<times> 'a WriteHandler" where
  "write_recorded_time E A seq now values h =
     (if wroteTime h then (IIN_of PARAM_ERROR, h)
      else if \<not> SupportsWriteAbsoluteTime A (wr_app h) then (IIN_of FUNC_NOT_SUPPORTED, h)
      else case Option.bind (ReadOnlyValue values) (Group50Var3_Read E) of
             None \<Rightarrow> (IIN_of PARAM_ERROR, h)
           | Some (value, rest) \<Rightarrow>
               (let (ok, t) = CalcTimeDifference seq now (wr_timeSync h); h = h\<lparr>wr_timeSync := t\<rparr>
                in if \<not> ok then (IIN_of PARAM_ERROR, h)
                   else apply_time A (dt_value (o_time value) + duration_ms (ts_difference t)) h))"

text \<open>The values of a collection of objects that are read with a serializer.\<close>

definition read_indexed :: "'t DNP3Serializer \<Rightarrow> (u16 \<times> byte list) list \<Rightarrow> (u16 \<times> 't) list" where
  "read_indexed S values = map (\<lambda>(i, bs). (i, fst (the (ser_read S bs)))) values"

definition write_intervals :: "le_lib \<Rightarrow> 'a Application \<Rightarrow> (u16 \<times> byte list) list \<Rightarrow> 'a WriteHandler \<Rightarrow> IINField \<times> 'a WriteHandler" where
  "write_intervals E A values h =
     (if \<not> SupportsWriteTimeAndInterval A (wr_app h) then (IIN_of FUNC_NOT_SUPPORTED, h)
      else (let (ok, a) = WriteTimeAndInterval A (read_indexed (Group50Var4_Inst E) values) (wr_app h)
            in (if ok then IIN_Empty else IIN_of PARAM_ERROR, h\<lparr>wr_app := a\<rparr>)))"

fun WriteHandler_ProcessHeader :: "le_lib \<Rightarrow> 'a Application \<Rightarrow> byte \<Rightarrow> i64 \<Rightarrow> 'a WriteHandler header_processor" where
  "WriteHandler_ProcessHeader E A seq now n (OnRangeBits record range1 values) h =
     (if enumeration record = Group80Var1 then Some (write_iin values h) else None)"
| "WriteHandler_ProcessHeader E A seq now n (OnCountOf record count values) h =
     (if enumeration record = Group50Var1 then Some (write_time E A values h)
      else if enumeration record = Group50Var3 then Some (write_recorded_time E A seq now values h)
      else None)"
| "WriteHandler_ProcessHeader E A seq now n (OnPrefixOf record count values) h =
     (if enumeration record = Group50Var4 then Some (write_intervals E A values h) else None)"
| "WriteHandler_ProcessHeader E A seq now n ev h = None"

subsection \<open>Assigning classes\<close>

record 'a AssignClassHandler =
  as_app :: 'a
  as_db :: Database
  as_classHeader :: int
  as_clazz :: PointClass

text \<open>The types that a header can name.\<close>

definition assign_cases :: "(GroupVariation \<times> AssignClassType) list" where
  "assign_cases =
     [(Group1Var0, BinaryInput_class), (Group3Var0, DoubleBinaryInput_class), (Group10Var0, BinaryOutputStatus_class),
      (Group20Var0, Counter_class), (Group21Var0, FrozenCounter_class), (Group30Var0, AnalogInput_class),
      (Group40Var0, AnalogOutputStatus_class)]"

definition IsExpectingAssignment :: "u32 \<Rightarrow> 'a AssignClassHandler \<Rightarrow> bool \<times> 'a AssignClassHandler" where
  "IsExpectingAssignment n h =
     (let current = sint n
      in if current > 0 \<and> current - 1 = as_classHeader h then (True, h\<lparr>as_classHeader := -1\<rparr>) else (False, h))"

definition RecordClass :: "u32 \<Rightarrow> GroupVariation \<Rightarrow> 'a AssignClassHandler \<Rightarrow> IINField \<times> 'a AssignClassHandler" where
  "RecordClass n gv h =
     (let h = h\<lparr>as_classHeader := sint n\<rparr>
      in if gv = Group60Var1 then (IIN_Empty, h\<lparr>as_clazz := Class0\<rparr>)
         else if gv = Group60Var2 then (IIN_Empty, h\<lparr>as_clazz := Class1\<rparr>)
         else if gv = Group60Var3 then (IIN_Empty, h\<lparr>as_clazz := Class2\<rparr>)
         else if gv = Group60Var4 then (IIN_Empty, h\<lparr>as_clazz := Class3\<rparr>)
         else (IIN_of PARAM_ERROR, h\<lparr>as_classHeader := -1\<rparr>))"

definition NotifyApplicationOfAssignment :: "'a Application \<Rightarrow> AssignClassType \<Rightarrow> PointClass \<Rightarrow> Range \<Rightarrow> 'a \<Rightarrow> 'a" where
  "NotifyApplicationOfAssignment A type pc range1 a =
     (if Range_IsValid range1 then RecordClassAssignment A type pc (start range1) (stop range1) a else a)"

definition ProcessAssignAll :: "'a Application \<Rightarrow> AssignClassType \<Rightarrow> 'a AssignClassHandler \<Rightarrow> IINField \<times> 'a AssignClassHandler" where
  "ProcessAssignAll A type h =
     (let (full, db) = AssignClassToAll type (as_clazz h) (as_db h)
      in (if Range_IsValid full then IIN_Empty else IIN_of PARAM_ERROR,
          h\<lparr>as_db := db, as_app := NotifyApplicationOfAssignment A type (as_clazz h) full (as_app h)\<rparr>))"

definition ProcessAssignRange ::
  "'a Application \<Rightarrow> AssignClassType \<Rightarrow> Range \<Rightarrow> 'a AssignClassHandler \<Rightarrow> IINField \<times> 'a AssignClassHandler" where
  "ProcessAssignRange A type range1 h =
     (let (actual, db) = AssignClassToRange type (as_clazz h) range1 (as_db h)
      in (if actual = range1 then IIN_Empty else IIN_of PARAM_ERROR,
          h\<lparr>as_db := db, as_app := NotifyApplicationOfAssignment A type (as_clazz h) actual (as_app h)\<rparr>))"

fun AssignClassHandler_ProcessHeader :: "'a Application \<Rightarrow> 'a AssignClassHandler header_processor" where
  "AssignClassHandler_ProcessHeader A n (OnAllObjects record) h =
     (let (expecting, h) = IsExpectingAssignment n h
      in if expecting then
           (case map_of assign_cases (enumeration record) of
              None \<Rightarrow> Some (IIN_of FUNC_NOT_SUPPORTED, h)
            | Some type \<Rightarrow> Some (ProcessAssignAll A type h))
         else Some (RecordClass n (enumeration record) h))"
| "AssignClassHandler_ProcessHeader A n (OnRange record range1) h =
     (let (expecting, h) = IsExpectingAssignment n h
      in if expecting then
           (case map_of assign_cases (enumeration record) of
              None \<Rightarrow> Some (IIN_of FUNC_NOT_SUPPORTED, h)
            | Some type \<Rightarrow> Some (ProcessAssignRange A type range1 h))
         else Some (IIN_of PARAM_ERROR, h))"
| "AssignClassHandler_ProcessHeader A n ev h = None"

subsection \<open>Freezing and classes of events\<close>

definition freeze_allowed :: white_list where
  "freeze_allowed headerCount gv qc = (gv = Group20Var0 \<and> qc \<in> {ALL_OBJECTS, UINT8_START_STOP, UINT16_START_STOP})"

definition freeze_now :: "'a Application \<Rightarrow> bool \<Rightarrow> 'a Resources \<Rightarrow> 'a Resources" where
  "freeze_now A clr r =
     (let (evs, db) = FreezeSelectedCounters (Now A (rs_app r)) clr Detect (rs_db r)
      in r\<lparr>rs_db := db, rs_events := post_events evs (rs_events r)\<rparr>)"

text \<open>The result of the selection is not used.\<close>

fun FreezeRequestHandler_ProcessHeader :: "'a Application \<Rightarrow> bool \<Rightarrow> 'a Resources header_processor" where
  "FreezeRequestHandler_ProcessHeader A clr n (OnAllObjects record) r =
     Some (IIN_Empty, freeze_now A clr (r\<lparr>rs_db := snd (Database_SelectAll (enumeration record) (rs_db r))\<rparr>))"
| "FreezeRequestHandler_ProcessHeader A clr n (OnRange record range1) r =
     Some (IIN_Empty, freeze_now A clr (r\<lparr>rs_db := snd (Database_SelectRange (enumeration record) range1 (rs_db r))\<rparr>))"
| "FreezeRequestHandler_ProcessHeader A clr n ev r = None"

fun ClassBasedRequestHandler_ProcessHeader :: "ClassField header_processor" where
  "ClassBasedRequestHandler_ProcessHeader n (OnAllObjects record) classes =
     (if enumeration record = Group60Var2 then Some (IIN_Empty, ClassField_SetPoint Class1 classes)
      else if enumeration record = Group60Var3 then Some (IIN_Empty, ClassField_SetPoint Class2 classes)
      else if enumeration record = Group60Var4 then Some (IIN_Empty, ClassField_SetPoint Class3 classes)
      else Some (IIN_of FUNC_NOT_SUPPORTED, classes))"
| "ClassBasedRequestHandler_ProcessHeader n ev classes = None"

section \<open>Commands\<close>

text \<open>
  The state of \<open>CommandResponseHandler\<close>: its counters, the writer of the response if there is one, and what the
  action works on.
\<close>

record 'w CommandResponseHandler =
  numRequests :: u32
  numSuccess :: u32
  cr_writer :: "HeaderWriter option"
  cr_world :: 'w

definition AllCommandsSuccessful :: "'w CommandResponseHandler \<Rightarrow> bool" where
  "AllCommandsSuccessful h = (numRequests h = numSuccess h)"

type_synonym 'w command_action = "command \<Rightarrow> u16 \<Rightarrow> 'w \<Rightarrow> CommandStatus \<times> 'w"

definition ProcessCommand :: "'w command_action \<Rightarrow> u32 \<Rightarrow> command \<Rightarrow> u16 \<Rightarrow> 'w CommandResponseHandler \<Rightarrow> CommandStatus \<times> 'w CommandResponseHandler" where
  "ProcessCommand action maxCommands cmd index h =
     (if numRequests h < maxCommands
      then (let (status, world) = action cmd index (cr_world h)
            in (status, h\<lparr>numRequests := numRequests h + 1, cr_world := world\<rparr>))
      else (TOO_MANY_OPS, h))"

text \<open>A command type: its serializer, its constructor and the change of its status.\<close>

record 't command_object =
  ct_serializer :: "'t DNP3Serializer"
  ct_command :: "'t \<Rightarrow> command"
  ct_set_status :: "CommandStatus \<Rightarrow> 't \<Rightarrow> 't"

definition count_status :: "CommandStatus \<Rightarrow> IINField \<Rightarrow> 'w CommandResponseHandler \<Rightarrow> IINField \<times> 'w CommandResponseHandler" where
  "count_status status ret h =
     (if status = SUCCESS then (ret, h\<lparr>numSuccess := numSuccess h + 1\<rparr>)
      else if status = NOT_SUPPORTED then (SetBit PARAM_ERROR ret, h)
      else (ret, h))"

text \<open>The commands of a header, with the iterator that writes the response; \<open>T\<close> is the type of its indices.\<close>

fun respond_with_iterator ::
  "'t command_object \<Rightarrow> 'w command_action \<Rightarrow> u32 \<Rightarrow> index_type \<Rightarrow> (u16 \<times> 't) list \<Rightarrow> IINField \<Rightarrow> write_iterator \<Rightarrow> HeaderWriter
     \<Rightarrow> 'w CommandResponseHandler \<Rightarrow> IINField \<times> write_iterator \<times> HeaderWriter \<times> 'w CommandResponseHandler" where
  "respond_with_iterator CT action maxCommands T [] ret it w h = (ret, it, w, h)"
| "respond_with_iterator CT action maxCommands T ((index, value) # values) ret it w h =
     (let (status, h) = ProcessCommand action maxCommands (ct_command CT value) index h;
          (ret, h) = count_status status ret h;
          (_, it, w) = PrefixedWriteIterator_Write T (ct_serializer CT) (ct_set_status CT status value) (narrow T (unat index)) it w
      in respond_with_iterator CT action maxCommands T values ret it w h)"

text \<open>Without a writer.\<close>

fun respond_silently ::
  "'t command_object \<Rightarrow> 'w command_action \<Rightarrow> u32 \<Rightarrow> (u16 \<times> 't) list \<Rightarrow> IINField \<Rightarrow> 'w CommandResponseHandler \<Rightarrow> IINField \<times> 'w CommandResponseHandler" where
  "respond_silently CT action maxCommands [] ret h = (ret, h)"
| "respond_silently CT action maxCommands ((index, value) # values) ret h =
     (let (status, h) = ProcessCommand action maxCommands (ct_command CT value) index h;
          (ret, h) = count_status status ret h
      in respond_silently CT action maxCommands values ret h)"

definition RespondToHeader ::
  "'t command_object \<Rightarrow> 'w command_action \<Rightarrow> u32 \<Rightarrow> index_type \<Rightarrow> QualifierCode \<Rightarrow> (u16 \<times> 't) list \<Rightarrow> 'w CommandResponseHandler
     \<Rightarrow> IINField \<times> 'w CommandResponseHandler" where
  "RespondToHeader CT action maxCommands T qc values h =
     (case cr_writer h of
        None \<Rightarrow> respond_silently CT action maxCommands values IIN_Empty h
      | Some w \<Rightarrow>
          (let (it, w) = IterateOverCountWithPrefix T qc (ct_serializer CT) w;
               (ret, it, w, h) = respond_with_iterator CT action maxCommands T values IIN_Empty it w h
           in (ret, h\<lparr>cr_writer := Some (PrefixedWriteIterator_destroy T it w)\<rparr>)))"

definition ProcessAny ::
  "u16_codec \<Rightarrow> 't command_object \<Rightarrow> 'w command_action \<Rightarrow> u32 \<Rightarrow> HeaderRecord \<Rightarrow> (u16 \<times> byte list) list \<Rightarrow> 'w CommandResponseHandler
     \<Rightarrow> IINField \<times> 'w CommandResponseHandler" where
  "ProcessAny C CT action maxCommands record values h =
     (let values = read_indexed (ct_serializer CT) values
      in if GetQualifierCode record = UINT8_CNT_UINT8_INDEX
         then RespondToHeader CT action maxCommands index8 UINT8_CNT_UINT8_INDEX values h
         else RespondToHeader CT action maxCommands (index16 C) UINT16_CNT_UINT16_INDEX values h)"

definition set_crob_status :: "CommandStatus \<Rightarrow> ControlRelayOutputBlock \<Rightarrow> ControlRelayOutputBlock" where
  "set_crob_status st v = v\<lparr>crob_status := st\<rparr>"
definition set_ao_status :: "CommandStatus \<Rightarrow> 'v AnalogOutput \<Rightarrow> 'v AnalogOutput" where
  "set_ao_status st v = v\<lparr>ao_status := st\<rparr>"

definition crob_type :: "le_lib \<Rightarrow> ControlRelayOutputBlock command_object" where
  "crob_type E = \<lparr>ct_serializer = Group12Var1_Inst E, ct_command = Cmd_CROB, ct_set_status = set_crob_status\<rparr>"
definition int32_type :: "le_lib \<Rightarrow> u32 AnalogOutput command_object" where
  "int32_type E = \<lparr>ct_serializer = Group41Var1_Inst E, ct_command = Cmd_Int32, ct_set_status = set_ao_status\<rparr>"
definition int16_type :: "le_lib \<Rightarrow> u16 AnalogOutput command_object" where
  "int16_type E = \<lparr>ct_serializer = Group41Var2_Inst E, ct_command = Cmd_Int16, ct_set_status = set_ao_status\<rparr>"
definition float32_type :: "le_lib \<Rightarrow> u32 AnalogOutput command_object" where
  "float32_type E = \<lparr>ct_serializer = Group41Var3_Inst E, ct_command = Cmd_Float32, ct_set_status = set_ao_status\<rparr>"
definition double64_type :: "le_lib \<Rightarrow> double AnalogOutput command_object" where
  "double64_type E = \<lparr>ct_serializer = Group41Var4_Inst E, ct_command = Cmd_Double64, ct_set_status = set_ao_status\<rparr>"

definition command_allowed :: white_list where
  "command_allowed headerCount gv qc =
     (qc \<in> {UINT8_CNT_UINT8_INDEX, UINT16_CNT_UINT16_INDEX} \<and> gv \<in> {Group12Var1, Group41Var1, Group41Var2, Group41Var3, Group41Var4})"

fun CommandResponseHandler_ProcessHeader :: "le_lib \<Rightarrow> 'w command_action \<Rightarrow> u32 \<Rightarrow> 'w CommandResponseHandler header_processor" where
  "CommandResponseHandler_ProcessHeader E action maxCommands n (OnPrefixOf record count values) h =
     (if enumeration record = Group12Var1 then Some (ProcessAny (lib_u16 E) (crob_type E) action maxCommands record values h)
      else if enumeration record = Group41Var1 then Some (ProcessAny (lib_u16 E) (int32_type E) action maxCommands record values h)
      else if enumeration record = Group41Var2 then Some (ProcessAny (lib_u16 E) (int16_type E) action maxCommands record values h)
      else if enumeration record = Group41Var3 then Some (ProcessAny (lib_u16 E) (float32_type E) action maxCommands record values h)
      else if enumeration record = Group41Var4 then Some (ProcessAny (lib_u16 E) (double64_type E) action maxCommands record values h)
      else None)"
| "CommandResponseHandler_ProcessHeader E action maxCommands n ev h = None"

text \<open>\<open>ConstantCommandAction\<close> answers every command with one status.\<close>

definition constant_action :: "CommandStatus \<Rightarrow> 'w command_action" where
  "constant_action status cmd index w = (status, w)"

text \<open>
  \<open>CommandActionAdapter\<close> begins a batch with the first command that it passes on; its destructor ends the batch.
  The flag tells whether it has begun.
\<close>

definition IsQUFlagSet :: "ControlRelayOutputBlock \<Rightarrow> bool" where
  "IsQUFlagSet c = (rawCode c AND 0x10 \<noteq> 0)"

definition CheckStart :: "'a Application \<Rightarrow> bool \<times> 'a Resources \<Rightarrow> bool \<times> 'a Resources" where
  "CheckStart A s = (case s of (started, r) \<Rightarrow> if started then (started, r) else (True, r\<lparr>rs_app := Cmd_Begin A (rs_app r)\<rparr>))"

definition ActionT :: "'a Application \<Rightarrow> bool \<Rightarrow> OperateType \<Rightarrow> (bool \<times> 'a Resources) command_action" where
  "ActionT A is_select op cmd index s =
     (case CheckStart A s of (started, r) \<Rightarrow>
        if is_select
        then (let (status, a) = Cmd_Select A cmd index (rs_app r) in (status, started, r\<lparr>rs_app := a\<rparr>))
        else (let (status, r) = Cmd_Operate A cmd index op r in (status, started, r)))"

fun adapter_Action :: "'a Application \<Rightarrow> bool \<Rightarrow> OperateType \<Rightarrow> (bool \<times> 'a Resources) command_action" where
  "adapter_Action A is_select op (Cmd_CROB c) index s =
     (if IsQUFlagSet c then (NOT_SUPPORTED, s) else ActionT A is_select op (Cmd_CROB c) index s)"
| "adapter_Action A is_select op cmd index s = ActionT A is_select op cmd index s"

definition adapter_destroy :: "'a Application \<Rightarrow> bool \<times> 'a Resources \<Rightarrow> 'a Resources" where
  "adapter_destroy A s = (case s of (started, r) \<Rightarrow> if started then r\<lparr>rs_app := Cmd_End A (rs_app r)\<rparr> else r)"

definition run_commands ::
  "le_lib \<Rightarrow> 'w command_action \<Rightarrow> u32 \<Rightarrow> byte list \<Rightarrow> HeaderWriter option \<Rightarrow> 'w \<Rightarrow> ParseResult \<times> 'w CommandResponseHandler IAPDUHandler" where
  "run_commands E action maxCommands objects writer world =
     Parse_with (lib_u16 E) objects command_allowed True (CommandResponseHandler_ProcessHeader E action maxCommands)
       \<lparr>numRequests = 0, numSuccess = 0, cr_writer = writer, cr_world = world\<rparr>"

section \<open>Loading a response\<close>

text \<open>\<open>ResponseContext\<close>: events first, then static values. \<open>None\<close> is a load of the database that does not return.\<close>

definition HasSelection :: "Database \<Rightarrow> EventBuffer \<Rightarrow> bool" where
  "HasSelection db evb = (Database_HasAnySelection db \<or> EventBuffer_HasAnySelection evb)"

definition LoadResponse ::
  "le_lib \<Rightarrow> u16 \<Rightarrow> Database \<Rightarrow> EventBuffer \<Rightarrow> HeaderWriter \<Rightarrow> (AppControlField \<times> Database \<times> EventBuffer \<times> HeaderWriter) option" where
  "LoadResponse E fragmentCount db evb w =
     (let fir = fragmentCount = 0; startingSize = Remaining w;
          (notFull, evb, w) = EventBuffer_Load E w evb;
          someEventsWritten = Remaining w < startingSize
      in if notFull
         then (case Database_Load E db w of
                 None \<Rightarrow> None
               | Some (fin, db, w) \<Rightarrow> Some (AppControlField_make fir fin (\<not> fin \<or> someEventsWritten) False 0, db, evb, w))
         else Some (AppControlField_make fir False True False 0, db, evb, w))"

end
