(* ===== verification/Out_Context.thy ===== *)
theory Out_Context
  imports Out_Control "HOL-Library.Monad_Syntax"
begin

text \<open>
  The session of the outstation (\<open>outstation/OutstationContext.cpp\<close> and \<open>OutstationStates.cpp\<close>): requests, their
  responses and confirmations, unsolicited responses and their retries, deferred requests and broadcasts. Every
  function has the state of the context as its last argument and in its result; the functions that load a response are
  in the option monad, where \<open>None\<close> is a load that does not return. The messages that are given to the transport layer
  are appended to \<open>transmitted\<close>. A timer is the duration for which it was started; its expiry is an event.
\<close>

section \<open>State\<close>

record OutstationParams =
  maxControlsPerRequest :: u32
  selectTimeout :: i64
  solConfirmTimeout :: i64
  unsolConfirmTimeout :: i64
  numUnsolRetries :: NumRetries
  noDefferedReadDuringUnsolicitedNullResponse :: bool
  maxTxFragSize :: u32
  maxRxFragSize :: u32
  allowUnsolicited :: bool
  typesAllowedInClass0 :: u16
  unsolClassMask :: ClassField
  respondToAnyMaster :: bool

definition OutstationParams_default :: OutstationParams where
  "OutstationParams_default =
     \<lparr>maxControlsPerRequest = 4294967295, selectTimeout = Seconds 10, solConfirmTimeout = Seconds 5, unsolConfirmTimeout = Seconds 5,
      numUnsolRetries = NumRetries_Infinite, noDefferedReadDuringUnsolicitedNullResponse = False, maxTxFragSize = 2048,
      maxRxFragSize = 2048, allowUnsolicited = False, typesAllowedInClass0 = AllTypes, unsolClassMask = ClassField_None,
      respondToAnyMaster = False\<rparr>"

datatype OutstationState = StateIdle | StateSolicitedConfirmWait | StateUnsolicitedConfirmWait | StateNullUnsolicitedConfirmWait

definition IsIdle :: "OutstationState \<Rightarrow> bool" where "IsIdle s = (s = StateIdle)"

record 'a OContext =
  oc_addresses :: Addresses
  oc_res :: "'a Resources"
  fragmentCount :: u16
  oc_params :: OutstationParams
  oc_isOnline :: bool
  isTransmitting :: bool
  staticIIN :: IINField
  confirmTimer :: "i64 option"
  history :: RequestHistory
  deferred :: DeferredRequest
  oc_control :: ControlState
  oc_time :: TimeSyncState
  sol_num :: byte
  sol_confirmNum :: byte
  sol_tx :: TxBuffer
  completedNull :: bool
  unsol_num :: byte
  unsol_confirmNum :: byte
  unsol_tx :: TxBuffer
  unsolRetries :: NumRetries
  shouldCheckForUnsolicited :: bool
  oc_state :: OutstationState
  lastBroadcastMessageReceived :: "u16 option"
  transmitted :: "Message list"

definition OContext_make :: "Addresses \<Rightarrow> OutstationParams \<Rightarrow> EventBufferConfig \<Rightarrow> DatabaseConfig \<Rightarrow> 'a \<Rightarrow> 'a OContext" where
  "OContext_make addrs params ec dbc app =
     \<lparr>oc_addresses = addrs,
      oc_res = \<lparr>rs_app = app, rs_db = Database_make dbc (typesAllowedInClass0 params), rs_events = EventBuffer_make ec\<rparr>,
      fragmentCount = 0, oc_params = params, oc_isOnline = False, isTransmitting = False, staticIIN = IIN_of DEVICE_RESTART,
      confirmTimer = None, history = RequestHistory_init,
      deferred = \<lparr>df_isSet = False, df_request = \<lparr>rq_addresses = \<lparr>source = 0, destination = 0\<rparr>, rq_header = APDUHeader_default, rq_objects = []\<rparr>\<rparr>,
      oc_control = ControlState_init, oc_time = TimeSyncState_init, sol_num = 0, sol_confirmNum = 0,
      sol_tx = TxBuffer_make (unat (maxTxFragSize params)), completedNull = False, unsol_num = 0, unsol_confirmNum = 0,
      unsol_tx = TxBuffer_make (unat (maxTxFragSize params)), unsolRetries = numUnsolRetries params, shouldCheckForUnsolicited = False,
      oc_state = StateIdle, lastBroadcastMessageReceived = None, transmitted = []\<rparr>"

abbreviation oc_db :: "'a OContext \<Rightarrow> Database" where "oc_db ctx \<equiv> rs_db (oc_res ctx)"
abbreviation oc_events :: "'a OContext \<Rightarrow> EventBuffer" where "oc_events ctx \<equiv> rs_events (oc_res ctx)"
abbreviation oc_app :: "'a OContext \<Rightarrow> 'a" where "oc_app ctx \<equiv> rs_app (oc_res ctx)"

definition set_db :: "Database \<Rightarrow> 'a OContext \<Rightarrow> 'a OContext" where "set_db db ctx = ctx\<lparr>oc_res := (oc_res ctx)\<lparr>rs_db := db\<rparr>\<rparr>"
definition set_events :: "EventBuffer \<Rightarrow> 'a OContext \<Rightarrow> 'a OContext" where "set_events b ctx = ctx\<lparr>oc_res := (oc_res ctx)\<lparr>rs_events := b\<rparr>\<rparr>"
definition set_app :: "'a \<Rightarrow> 'a OContext \<Rightarrow> 'a OContext" where "set_app a ctx = ctx\<lparr>oc_res := (oc_res ctx)\<lparr>rs_app := a\<rparr>\<rparr>"

section \<open>Sending\<close>

definition CanTransmit :: "'a OContext \<Rightarrow> bool" where "CanTransmit ctx = (oc_isOnline ctx \<and> \<not> isTransmitting ctx)"

definition BeginTx :: "u16 \<Rightarrow> byte list \<Rightarrow> 'a OContext \<Rightarrow> 'a OContext" where
  "BeginTx dest message ctx =
     ctx\<lparr>isTransmitting := True,
         transmitted := transmitted ctx @ [\<lparr>msg_addresses = \<lparr>source = source (oc_addresses ctx), destination = dest\<rparr>, msg_payload = message\<rparr>]\<rparr>"

definition RestartSolConfirmTimer :: "'a OContext \<Rightarrow> 'a OContext" where
  "RestartSolConfirmTimer ctx = ctx\<lparr>confirmTimer := Some (solConfirmTimeout (oc_params ctx))\<rparr>"
definition RestartUnsolConfirmTimer :: "'a OContext \<Rightarrow> 'a OContext" where
  "RestartUnsolConfirmTimer ctx = ctx\<lparr>confirmTimer := Some (unsolConfirmTimeout (oc_params ctx))\<rparr>"
definition cancel_timer :: "'a OContext \<Rightarrow> 'a OContext" where "cancel_timer ctx = ctx\<lparr>confirmTimer := None\<rparr>"

definition GetDynamicIIN :: "'a OContext \<Rightarrow> IINField \<times> 'a OContext" where
  "GetDynamicIIN ctx =
     (let classField = UnwrittenClassField (oc_events ctx);
          ret = SetBitToValue CLASS3_EVENTS (HasClass Class3 classField) (SetBitToValue CLASS2_EVENTS (HasClass Class2 classField)
                  (SetBitToValue CLASS1_EVENTS (HasClass Class1 classField) IIN_Empty));
          (overflown, b) = IsOverflown (oc_events ctx)
      in (SetBitToValue EVENT_BUFFER_OVERFLOW overflown ret, set_events b ctx))"

definition GetResponseIIN :: "'a Application \<Rightarrow> 'a OContext \<Rightarrow> IINField \<times> 'a OContext" where
  "GetResponseIIN A ctx =
     (let (dynamic, ctx) = GetDynamicIIN ctx in (IIN_or (IIN_or (staticIIN ctx) dynamic) (ToIIN (GetApplicationIIN A (oc_app ctx))), ctx))"

definition DontConfirm :: u16 where "DontConfirm = 0xFFFD"
definition ShallConfirm :: u16 where "ShallConfirm = 0xFFFE"
definition OptionalConfirm :: u16 where "OptionalConfirm = 0xFFFF"

definition UpdateLastBroadcastMessageReceived :: "u16 \<Rightarrow> 'a OContext \<Rightarrow> 'a OContext" where
  "UpdateLastBroadcastMessageReceived dest ctx =
     ctx\<lparr>lastBroadcastMessageReceived := (if dest \<in> {DontConfirm, ShallConfirm, OptionalConfirm} then Some dest else None)\<rparr>"

definition CheckForBroadcastConfirmation :: "APDUWrapper \<Rightarrow> 'a OContext \<Rightarrow> APDUWrapper \<times> 'a OContext" where
  "CheckForBroadcastConfirmation response ctx =
     (case lastBroadcastMessageReceived ctx of
        None \<Rightarrow> (response, ctx)
      | Some dest \<Rightarrow>
          (let response = SetIIN (IIN_or (GetIIN response) (IIN_of BROADCAST)) response
           in if dest \<noteq> ShallConfirm then (response, ctx\<lparr>lastBroadcastMessageReceived := None\<rparr>)
              else (SetControl ((GetControl response)\<lparr>CON := True\<rparr>) response, ctx)))"

definition BeginResponseTx :: "u16 \<Rightarrow> APDUWrapper \<Rightarrow> 'a OContext \<Rightarrow> OutstationState \<times> 'a OContext" where
  "BeginResponseTx dest response ctx =
     (let (response, ctx) = CheckForBroadcastConfirmation response ctx;
          ctx = ctx\<lparr>sol_tx := TxBuffer_Record (GetControl response) response (sol_tx ctx), sol_confirmNum := SEQ (GetControl response)\<rparr>;
          ctx = BeginTx dest (ToRSeq response) ctx
      in if CON (GetControl response) then (StateSolicitedConfirmWait, RestartSolConfirmTimer ctx) else (StateIdle, ctx))"

definition BeginRetransmitLastResponse :: "u16 \<Rightarrow> 'a OContext \<Rightarrow> 'a OContext" where
  "BeginRetransmitLastResponse dest ctx = BeginTx dest (GetLastResponse (sol_tx ctx)) ctx"

definition BeginRetransmitLastUnsolicitedResponse :: "'a OContext \<Rightarrow> 'a OContext" where
  "BeginRetransmitLastUnsolicitedResponse ctx = BeginTx (destination (oc_addresses ctx)) (GetLastResponse (unsol_tx ctx)) ctx"

definition BeginUnsolTx :: "APDUWrapper \<Rightarrow> 'a OContext \<Rightarrow> 'a OContext" where
  "BeginUnsolTx response ctx =
     (let (response, ctx) = CheckForBroadcastConfirmation response ctx;
          ctx = ctx\<lparr>unsol_tx := TxBuffer_Record (GetControl response) response (unsol_tx ctx),
                    unsol_confirmNum := unsol_num ctx, unsol_num := AppSeq_Next (unsol_num ctx)\<rparr>
      in BeginTx (destination (oc_addresses ctx)) (ToRSeq response) ctx)"

section \<open>Functions\<close>

definition errors_or_result :: "ParseResult \<Rightarrow> IINField \<Rightarrow> IINField" where
  "errors_or_result result errors = (if result = OK then errors else IINFromParseResult result)"

definition HandleRead :: "le_lib \<Rightarrow> byte list \<Rightarrow> HeaderWriter \<Rightarrow> 'a OContext \<Rightarrow> (IINField \<times> AppControlField \<times> HeaderWriter \<times> 'a OContext) option" where
  "HandleRead E objects w ctx =
     (let ctx = ctx\<lparr>fragmentCount := 0\<rparr>;
          (result, h) = Parse_with (lib_u16 E) objects allow_all False ReadHandler_ProcessHeader
             (Database_Unselect (oc_db ctx), EventBuffer_Unselect (oc_events ctx));
          (db, evb) = hn_state h
      in if result = OK
         then do {
           (ctl, db, evb, w) \<leftarrow> LoadResponse E (fragmentCount ctx) db evb w;
           Some (hn_errors h, ctl, w, set_db db (set_events evb (ctx\<lparr>fragmentCount := fragmentCount ctx + 1\<rparr>)))
         }
         else Some (IINFromParseResult result, AppControlField_make True True False False 0, w, set_db db (set_events evb (ctx\<lparr>fragmentCount := 0\<rparr>))))"

definition HandleWrite :: "le_lib \<Rightarrow> 'a Application \<Rightarrow> i64 \<Rightarrow> byte list \<Rightarrow> 'a OContext \<Rightarrow> IINField \<times> 'a OContext" where
  "HandleWrite E A now objects ctx =
     (let (result, h) = Parse_with (lib_u16 E) objects allow_all True (WriteHandler_ProcessHeader E A (sol_num ctx) now)
             \<lparr>wr_app = oc_app ctx, wr_timeSync = oc_time ctx, wr_writeIIN = staticIIN ctx, wroteTime = False, wroteIIN = False\<rparr>;
          s = hn_state h
      in (errors_or_result result (hn_errors h), set_app (wr_app s) (ctx\<lparr>oc_time := wr_timeSync s, staticIIN := wr_writeIIN s\<rparr>)))"

definition too_large :: "byte list \<Rightarrow> HeaderWriter option \<Rightarrow> bool" where
  "too_large objects writer = (case writer of None \<Rightarrow> False | Some w \<Rightarrow> length objects > Remaining w)"

text \<open>Commands for the application, from the construction of the adapter to its destruction.\<close>

definition run_adapter ::
  "le_lib \<Rightarrow> 'a Application \<Rightarrow> bool \<Rightarrow> OperateType \<Rightarrow> byte list \<Rightarrow> HeaderWriter option \<Rightarrow> 'a OContext
     \<Rightarrow> ParseResult \<times> (bool \<times> 'a Resources) CommandResponseHandler IAPDUHandler \<times> 'a OContext" where
  "run_adapter E A is_select op objects writer ctx =
     (let (result, h) = run_commands E (adapter_Action A is_select op) (maxControlsPerRequest (oc_params ctx)) objects writer (False, oc_res ctx)
      in (result, h, ctx\<lparr>oc_res := adapter_destroy A (cr_world (hn_state h))\<rparr>))"

definition HandleDirectOperate ::
  "le_lib \<Rightarrow> 'a Application \<Rightarrow> byte list \<Rightarrow> OperateType \<Rightarrow> HeaderWriter option \<Rightarrow> 'a OContext \<Rightarrow> IINField \<times> HeaderWriter option \<times> 'a OContext" where
  "HandleDirectOperate E A objects op writer ctx =
     (if too_large objects writer then (IIN_of PARAM_ERROR, writer, ctx)
      else (let (result, h, ctx) = run_adapter E A False op objects writer ctx
            in (errors_or_result result (hn_errors h), cr_writer (hn_state h), ctx\<lparr>shouldCheckForUnsolicited := True\<rparr>)))"

definition HandleSelect :: "le_lib \<Rightarrow> 'a Application \<Rightarrow> i64 \<Rightarrow> byte list \<Rightarrow> HeaderWriter \<Rightarrow> 'a OContext \<Rightarrow> IINField \<times> HeaderWriter option \<times> 'a OContext" where
  "HandleSelect E A now objects w ctx =
     (if too_large objects (Some w) then (IIN_of PARAM_ERROR, Some w, ctx)
      else (let (result, h, ctx) = run_adapter E A True DirectOperate objects (Some w) ctx
            in if result = OK
               then (hn_errors h, cr_writer (hn_state h),
                     if AllCommandsSuccessful (hn_state h)
                     then ctx\<lparr>oc_control := ControlState_Select (sol_num ctx) now objects (oc_control ctx)\<rparr> else ctx)
               else (IINFromParseResult result, cr_writer (hn_state h), ctx)))"

definition HandleCommandWithConstant :: "le_lib \<Rightarrow> byte list \<Rightarrow> HeaderWriter \<Rightarrow> CommandStatus \<Rightarrow> 'a OContext \<Rightarrow> IINField \<times> HeaderWriter option" where
  "HandleCommandWithConstant E objects w status ctx =
     (let (result, h) = run_commands E (constant_action status) (maxControlsPerRequest (oc_params ctx)) objects (Some w) ()
      in (IINFromParseResult result, cr_writer (hn_state h)))"

definition HandleOperate :: "le_lib \<Rightarrow> 'a Application \<Rightarrow> i64 \<Rightarrow> byte list \<Rightarrow> HeaderWriter \<Rightarrow> 'a OContext \<Rightarrow> IINField \<times> HeaderWriter option \<times> 'a OContext" where
  "HandleOperate E A now objects w ctx =
     (if too_large objects (Some w) then (IIN_of PARAM_ERROR, Some w, ctx)
      else (let result = ValidateSelection (sol_num ctx) now (selectTimeout (oc_params ctx)) objects (oc_control ctx)
            in if result = SUCCESS
               then (let (result, h, ctx) = run_adapter E A False SelectBeforeOperate objects (Some w) ctx
                     in (errors_or_result result (hn_errors h), cr_writer (hn_state h), ctx\<lparr>shouldCheckForUnsolicited := True\<rparr>))
               else (let ctx = ctx\<lparr>oc_control := ControlState_Unselect (oc_control ctx)\<rparr>;
                         (iin, w) = HandleCommandWithConstant E objects w result ctx
                     in (iin, w, ctx))))"

definition HandleDelayMeasure :: "le_lib \<Rightarrow> byte list \<Rightarrow> HeaderWriter \<Rightarrow> IINField \<times> HeaderWriter" where
  "HandleDelayMeasure E objects w =
     (if objects = []
      then (IIN_Empty, snd (WriteSingleValue index8 UINT8_CNT (gvid 52 2) Group52Var2_Size (Group52Var2_Write E \<lparr>o_time16 = 0\<rparr>) w))
      else (IIN_of PARAM_ERROR, w))"

definition HandleRecordCurrentTime :: "i64 \<Rightarrow> 'a OContext \<Rightarrow> IINField \<times> 'a OContext" where
  "HandleRecordCurrentTime now ctx = (IIN_Empty, ctx\<lparr>oc_time := RecordCurrentTime (sol_num ctx) now (oc_time ctx)\<rparr>)"

definition HandleRestart :: "le_lib \<Rightarrow> 'a Application \<Rightarrow> byte list \<Rightarrow> bool \<Rightarrow> HeaderWriter \<Rightarrow> 'a OContext \<Rightarrow> IINField \<times> HeaderWriter \<times> 'a OContext" where
  "HandleRestart E A objects isWarmRestart w ctx =
     (if objects \<noteq> [] then (IIN_of PARAM_ERROR, w, ctx)
      else let mode = (if isWarmRestart then WarmRestartSupport A (oc_app ctx) else ColdRestartSupport A (oc_app ctx));
               (delay, a) = (if isWarmRestart then WarmRestart A (oc_app ctx) else ColdRestart A (oc_app ctx))
           in case mode of
                UNSUPPORTED \<Rightarrow> (IIN_of FUNC_NOT_SUPPORTED, w, ctx)
              | SUPPORTED_DELAY_COARSE \<Rightarrow>
                  (IIN_Empty, snd (WriteSingleValue index8 UINT8_CNT (gvid 52 1) Group52Var1_Size (Group52Var1_Write E \<lparr>o_time16 = delay\<rparr>) w), set_app a ctx)
              | SUPPORTED_DELAY_FINE \<Rightarrow>
                  (IIN_Empty, snd (WriteSingleValue index8 UINT8_CNT (gvid 52 2) Group52Var2_Size (Group52Var2_Write E \<lparr>o_time16 = delay\<rparr>) w), set_app a ctx))"

definition HandleAssignClass :: "le_lib \<Rightarrow> 'a Application \<Rightarrow> byte list \<Rightarrow> 'a OContext \<Rightarrow> IINField \<times> 'a OContext" where
  "HandleAssignClass E A objects ctx =
     (if SupportsAssignClass A (oc_app ctx)
      then (let (result, h) = Parse_with (lib_u16 E) objects allow_all False (AssignClassHandler_ProcessHeader A)
                   \<lparr>as_app = oc_app ctx, as_db = oc_db ctx, as_classHeader = -1, as_clazz = Class0\<rparr>
            in (errors_or_result result (hn_errors h), set_app (as_app (hn_state h)) (set_db (as_db (hn_state h)) ctx)))
      else (IIN_of FUNC_NOT_SUPPORTED, ctx))"

definition parse_classes :: "le_lib \<Rightarrow> byte list \<Rightarrow> ParseResult \<times> ClassField IAPDUHandler" where
  "parse_classes E objects = Parse_with (lib_u16 E) objects allow_all True ClassBasedRequestHandler_ProcessHeader ClassField_None"

definition set_mask :: "ClassField \<Rightarrow> 'a OContext \<Rightarrow> 'a OContext" where
  "set_mask f ctx = ctx\<lparr>oc_params := (oc_params ctx)\<lparr>unsolClassMask := f\<rparr>\<rparr>"

definition HandleDisableUnsolicited :: "le_lib \<Rightarrow> byte list \<Rightarrow> 'a OContext \<Rightarrow> IINField \<times> 'a OContext" where
  "HandleDisableUnsolicited E objects ctx =
     (let (result, h) = parse_classes E objects
      in if result = OK then (hn_errors h, set_mask (ClassField_Clear (hn_state h) (unsolClassMask (oc_params ctx))) ctx)
         else (IINFromParseResult result, ctx))"

definition HandleEnableUnsolicited :: "le_lib \<Rightarrow> byte list \<Rightarrow> 'a OContext \<Rightarrow> IINField \<times> 'a OContext" where
  "HandleEnableUnsolicited E objects ctx =
     (let (result, h) = parse_classes E objects
      in if result = OK
         then (hn_errors h, (set_mask (ClassField_Set (hn_state h) (unsolClassMask (oc_params ctx))) ctx)\<lparr>shouldCheckForUnsolicited := True\<rparr>)
         else (IINFromParseResult result, ctx))"

text \<open>\<open>HandleFreeze\<close> and \<open>HandleFreezeAndClear\<close>\<close>

definition HandleFreeze :: "le_lib \<Rightarrow> 'a Application \<Rightarrow> bool \<Rightarrow> byte list \<Rightarrow> 'a OContext \<Rightarrow> IINField \<times> 'a OContext" where
  "HandleFreeze E A clr objects ctx =
     (let (result, h) = Parse_with (lib_u16 E) objects freeze_allowed False (FreezeRequestHandler_ProcessHeader A clr) (oc_res ctx)
      in (IINFromParseResult result, ctx\<lparr>oc_res := hn_state h\<rparr>))"

definition HandleNonReadResponse ::
  "le_lib \<Rightarrow> 'a Application \<Rightarrow> i64 \<Rightarrow> APDUHeader \<Rightarrow> byte list \<Rightarrow> HeaderWriter \<Rightarrow> 'a OContext \<Rightarrow> IINField \<times> HeaderWriter option \<times> 'a OContext" where
  "HandleNonReadResponse E A now header objects w ctx =
     (case func header of
        WRITE \<Rightarrow> (let (iin, ctx) = HandleWrite E A now objects ctx in (iin, Some w, ctx))
      | SELECT \<Rightarrow> HandleSelect E A now objects w ctx
      | OPERATE \<Rightarrow> HandleOperate E A now objects w ctx
      | DIRECT_OPERATE \<Rightarrow> HandleDirectOperate E A objects DirectOperate (Some w) ctx
      | COLD_RESTART \<Rightarrow> (let (iin, w, ctx) = HandleRestart E A objects False w ctx in (iin, Some w, ctx))
      | WARM_RESTART \<Rightarrow> (let (iin, w, ctx) = HandleRestart E A objects True w ctx in (iin, Some w, ctx))
      | ASSIGN_CLASS \<Rightarrow> (let (iin, ctx) = HandleAssignClass E A objects ctx in (iin, Some w, ctx))
      | DELAY_MEASURE \<Rightarrow> (let (iin, w) = HandleDelayMeasure E objects w in (iin, Some w, ctx))
      | RECORD_CURRENT_TIME \<Rightarrow>
          if objects = [] then (let (iin, ctx) = HandleRecordCurrentTime now ctx in (iin, Some w, ctx)) else (IIN_of PARAM_ERROR, Some w, ctx)
      | DISABLE_UNSOLICITED \<Rightarrow>
          if allowUnsolicited (oc_params ctx) then (let (iin, ctx) = HandleDisableUnsolicited E objects ctx in (iin, Some w, ctx))
          else (IIN_of FUNC_NOT_SUPPORTED, Some w, ctx)
      | ENABLE_UNSOLICITED \<Rightarrow>
          if allowUnsolicited (oc_params ctx) then (let (iin, ctx) = HandleEnableUnsolicited E objects ctx in (iin, Some w, ctx))
          else (IIN_of FUNC_NOT_SUPPORTED, Some w, ctx)
      | IMMED_FREEZE \<Rightarrow> (let (iin, ctx) = HandleFreeze E A False objects ctx in (iin, Some w, ctx))
      | FREEZE_CLEAR \<Rightarrow> (let (iin, ctx) = HandleFreeze E A True objects ctx in (iin, Some w, ctx))
      | _ \<Rightarrow> (IIN_of FUNC_NOT_SUPPORTED, Some w, ctx))"

definition ProcessRequestNoAck :: "le_lib \<Rightarrow> 'a Application \<Rightarrow> ParsedRequest \<Rightarrow> 'a OContext \<Rightarrow> 'a OContext" where
  "ProcessRequestNoAck E A request ctx =
     (case func (rq_header request) of
        DIRECT_OPERATE_NR \<Rightarrow> snd (snd (HandleDirectOperate E A (rq_objects request) DirectOperateNoAck None ctx))
      | IMMED_FREEZE_NR \<Rightarrow> snd (HandleFreeze E A False (rq_objects request) ctx)
      | FREEZE_CLEAR_NR \<Rightarrow> snd (HandleFreeze E A True (rq_objects request) ctx)
      | _ \<Rightarrow> ctx)"

definition ProcessBroadcastRequest :: "le_lib \<Rightarrow> 'a Application \<Rightarrow> i64 \<Rightarrow> ParsedRequest \<Rightarrow> 'a OContext \<Rightarrow> 'a OContext" where
  "ProcessBroadcastRequest E A now request ctx =
     (let objects = rq_objects request
      in case func (rq_header request) of
           WRITE \<Rightarrow> snd (HandleWrite E A now objects ctx)
         | DIRECT_OPERATE_NR \<Rightarrow> snd (snd (HandleDirectOperate E A objects DirectOperateNoAck None ctx))
         | IMMED_FREEZE_NR \<Rightarrow> snd (HandleFreeze E A False objects ctx)
         | FREEZE_CLEAR_NR \<Rightarrow> snd (HandleFreeze E A True objects ctx)
         | ASSIGN_CLASS \<Rightarrow> if SupportsAssignClass A (oc_app ctx) then snd (HandleAssignClass E A objects ctx) else ctx
         | RECORD_CURRENT_TIME \<Rightarrow> if objects \<noteq> [] then snd (HandleRecordCurrentTime now ctx) else ctx
         | DISABLE_UNSOLICITED \<Rightarrow> if allowUnsolicited (oc_params ctx) then snd (HandleDisableUnsolicited E objects ctx) else ctx
         | ENABLE_UNSOLICITED \<Rightarrow> if allowUnsolicited (oc_params ctx) then snd (HandleEnableUnsolicited E objects ctx) else ctx
         | _ \<Rightarrow> ctx)"

section \<open>Responses\<close>

definition RespondToNonReadRequest :: "le_lib \<Rightarrow> 'a Application \<Rightarrow> i64 \<Rightarrow> ParsedRequest \<Rightarrow> 'a OContext \<Rightarrow> OutstationState \<times> 'a OContext" where
  "RespondToNonReadRequest E A now request ctx =
     (let header = rq_header request; objects = rq_objects request;
          ctx = ctx\<lparr>history := RecordLastProcessedRequest header objects (history ctx)\<rparr>;
          response = SetControl (AppControlField_make True True False False (SEQ (control header))) (SetFunction RESPONSE (TxBuffer_Start (sol_tx ctx)));
          (iin, w, ctx) = HandleNonReadResponse E A now header objects response ctx;
          response = (case w of Some w \<Rightarrow> w | None \<Rightarrow> response);
          (riin, ctx) = GetResponseIIN A ctx
      in BeginResponseTx (source (rq_addresses request)) (SetIIN (IIN_or iin riin) response) ctx)"

definition RespondToReadRequest :: "le_lib \<Rightarrow> 'a Application \<Rightarrow> ParsedRequest \<Rightarrow> 'a OContext \<Rightarrow> (OutstationState \<times> 'a OContext) option" where
  "RespondToReadRequest E A request ctx =
     (let header = rq_header request; objects = rq_objects request;
          ctx = ctx\<lparr>history := RecordLastProcessedRequest header objects (history ctx)\<rparr>;
          response = SetFunction RESPONSE (TxBuffer_Start (sol_tx ctx))
      in do {
           (iin, ctl, response, ctx) \<leftarrow> HandleRead E objects response ctx;
           let response = SetControl (ctl\<lparr>SEQ := SEQ (control header)\<rparr>) response;
           let (riin, ctx) = GetResponseIIN A ctx;
           Some (BeginResponseTx (source (rq_addresses request)) (SetIIN (IIN_or iin riin) response) ctx)
         })"

definition ContinueMultiFragResponse :: "le_lib \<Rightarrow> 'a Application \<Rightarrow> Addresses \<Rightarrow> byte \<Rightarrow> 'a OContext \<Rightarrow> (OutstationState \<times> 'a OContext) option" where
  "ContinueMultiFragResponse E A addrs seq ctx =
     (let response = SetFunction RESPONSE (TxBuffer_Start (sol_tx ctx))
      in do {
           (ctl, db, evb, response) \<leftarrow> LoadResponse E (fragmentCount ctx) (oc_db ctx) (oc_events ctx) response;
           let ctx = set_db db (set_events evb (ctx\<lparr>fragmentCount := fragmentCount ctx + 1\<rparr>));
           let response = SetControl (ctl\<lparr>SEQ := seq\<rparr>) response;
           let (riin, ctx) = GetResponseIIN A ctx;
           Some (BeginResponseTx (source addrs) (SetIIN riin response) ctx)
         })"

section \<open>The states\<close>

text \<open>The application hears of a processed confirmation, with the number of events that are left.\<close>

definition notify_confirm :: "'a Application \<Rightarrow> bool \<Rightarrow> 'a OContext \<Rightarrow> 'a OContext" where
  "notify_confirm A is_unsolicited ctx =
     set_app (OnConfirmProcessed A is_unsolicited (NumEvents EC1 (oc_events ctx)) (NumEvents EC2 (oc_events ctx)) (NumEvents EC3 (oc_events ctx)) (oc_app ctx)) ctx"

definition clear_written :: "'a OContext \<Rightarrow> 'a OContext" where
  "clear_written ctx = set_events (EventBuffer_ClearWritten (oc_events ctx)) ctx"

definition reset_history :: "'a OContext \<Rightarrow> 'a OContext" where
  "reset_history ctx = ctx\<lparr>history := RequestHistory_Reset (history ctx)\<rparr>"

definition defer_request :: "ParsedRequest \<Rightarrow> 'a OContext \<Rightarrow> 'a OContext" where
  "defer_request request ctx = ctx\<lparr>deferred := DeferredRequest_Set request (deferred ctx)\<rparr>"

definition OnConfirm_solicited :: "le_lib \<Rightarrow> 'a Application \<Rightarrow> ParsedRequest \<Rightarrow> 'a OContext \<Rightarrow> (OutstationState \<times> 'a OContext) option" where
  "OnConfirm_solicited E A request ctx =
     (let ctl = control (rq_header request)
      in if UNS ctl then Some (StateSolicitedConfirmWait, ctx)
         else if sol_confirmNum ctx \<noteq> SEQ ctl then Some (StateSolicitedConfirmWait, ctx)
         else let ctx = clear_written (cancel_timer (reset_history ctx));
                  ctx = notify_confirm A False (ctx\<lparr>lastBroadcastMessageReceived := None\<rparr>)
              in if HasSelection (oc_db ctx) (oc_events ctx)
                 then ContinueMultiFragResponse E A (rq_addresses request) (AppSeq_Next (SEQ ctl)) ctx
                 else Some (StateIdle, ctx))"

definition OnConfirm_unsolicited :: "'a Application \<Rightarrow> OutstationState \<Rightarrow> ParsedRequest \<Rightarrow> 'a OContext \<Rightarrow> OutstationState \<times> 'a OContext" where
  "OnConfirm_unsolicited A s request ctx =
     (let ctl = control (rq_header request)
      in if \<not> UNS ctl then (s, ctx)
         else if unsol_confirmNum ctx \<noteq> SEQ ctl then (s, ctx)
         else let ctx = notify_confirm A True ((cancel_timer (reset_history ctx))\<lparr>lastBroadcastMessageReceived := None\<rparr>);
                  ctx = (if completedNull ctx then clear_written ctx else ctx\<lparr>completedNull := True\<rparr>)
              in (StateIdle, ctx\<lparr>shouldCheckForUnsolicited := True\<rparr>))"

definition OnConfirm :: "le_lib \<Rightarrow> 'a Application \<Rightarrow> ParsedRequest \<Rightarrow> 'a OContext \<Rightarrow> (OutstationState \<times> 'a OContext) option" where
  "OnConfirm E A request ctx =
     (case oc_state ctx of
        StateIdle \<Rightarrow> Some (StateIdle, ctx)
      | StateSolicitedConfirmWait \<Rightarrow> OnConfirm_solicited E A request ctx
      | s \<Rightarrow> Some (OnConfirm_unsolicited A s request ctx))"

definition OnConfirmTimeout :: "'a OContext \<Rightarrow> OutstationState \<times> 'a OContext" where
  "OnConfirmTimeout ctx =
     (case oc_state ctx of
        StateIdle \<Rightarrow> (StateIdle, ctx)
      | StateSolicitedConfirmWait \<Rightarrow> (StateIdle, ctx)
      | s \<Rightarrow>
          if completedNull ctx
          then (let (shouldRetry, retries) = Retry (unsolRetries ctx); ctx = ctx\<lparr>unsolRetries := retries\<rparr>
                in if shouldRetry \<and> \<not> df_isSet (deferred ctx)
                   then (s, BeginRetransmitLastUnsolicitedResponse (RestartUnsolConfirmTimer ctx))
                   else (StateIdle, set_events (EventBuffer_Unselect (oc_events ctx)) ctx))
          else (StateIdle, ctx))"

definition OnNewReadRequest :: "le_lib \<Rightarrow> 'a Application \<Rightarrow> ParsedRequest \<Rightarrow> 'a OContext \<Rightarrow> (OutstationState \<times> 'a OContext) option" where
  "OnNewReadRequest E A request ctx =
     (case oc_state ctx of
        StateIdle \<Rightarrow> RespondToReadRequest E A request ctx
      | StateSolicitedConfirmWait \<Rightarrow> RespondToReadRequest E A request (cancel_timer ctx)
      | StateUnsolicitedConfirmWait \<Rightarrow> Some (StateUnsolicitedConfirmWait, defer_request request ctx)
      | StateNullUnsolicitedConfirmWait \<Rightarrow> RespondToReadRequest E A request (cancel_timer ctx))"

definition OnNewNonReadRequest :: "le_lib \<Rightarrow> 'a Application \<Rightarrow> i64 \<Rightarrow> ParsedRequest \<Rightarrow> 'a OContext \<Rightarrow> OutstationState \<times> 'a OContext" where
  "OnNewNonReadRequest E A now request ctx =
     (case oc_state ctx of
        StateIdle \<Rightarrow> RespondToNonReadRequest E A now request ctx
      | StateSolicitedConfirmWait \<Rightarrow> RespondToNonReadRequest E A now request (cancel_timer ctx)
      | s \<Rightarrow> (s, snd (RespondToNonReadRequest E A now request (ctx\<lparr>deferred := DeferredRequest_Reset (deferred ctx)\<rparr>))))"

definition OnRepeatNonReadRequest :: "ParsedRequest \<Rightarrow> 'a OContext \<Rightarrow> OutstationState \<times> 'a OContext" where
  "OnRepeatNonReadRequest request ctx =
     (case oc_state ctx of
        StateSolicitedConfirmWait \<Rightarrow> (StateSolicitedConfirmWait, BeginRetransmitLastResponse (source (rq_addresses request)) (cancel_timer ctx))
      | s \<Rightarrow> (s, BeginRetransmitLastResponse (source (rq_addresses request)) ctx))"

definition OnRepeatReadRequest :: "ParsedRequest \<Rightarrow> 'a OContext \<Rightarrow> OutstationState \<times> 'a OContext" where
  "OnRepeatReadRequest request ctx =
     (case oc_state ctx of
        StateIdle \<Rightarrow> (StateIdle, BeginRetransmitLastResponse (source (rq_addresses request)) ctx)
      | StateSolicitedConfirmWait \<Rightarrow> (StateSolicitedConfirmWait, BeginRetransmitLastResponse (source (rq_addresses request)) (RestartSolConfirmTimer ctx))
      | s \<Rightarrow> (s, defer_request request ctx))"

definition OnBroadcastMessage :: "le_lib \<Rightarrow> 'a Application \<Rightarrow> i64 \<Rightarrow> ParsedRequest \<Rightarrow> 'a OContext \<Rightarrow> OutstationState \<times> 'a OContext" where
  "OnBroadcastMessage E A now request ctx = (StateIdle, ProcessBroadcastRequest E A now request ctx)"

text \<open>The state that a function returns becomes the state of the context.\<close>

definition enter :: "OutstationState \<times> 'a OContext \<Rightarrow> 'a OContext" where
  "enter r = (case r of (s, ctx) \<Rightarrow> ctx\<lparr>oc_state := s\<rparr>)"

section \<open>Requests\<close>

definition ProcessNewRequest :: "le_lib \<Rightarrow> 'a Application \<Rightarrow> i64 \<Rightarrow> ParsedRequest \<Rightarrow> 'a OContext \<Rightarrow> (OutstationState \<times> 'a OContext) option" where
  "ProcessNewRequest E A now request ctx =
     (let ctx = ctx\<lparr>sol_num := SEQ (control (rq_header request))\<rparr>
      in if func (rq_header request) = READ then OnNewReadRequest E A request ctx
         else Some (OnNewNonReadRequest E A now request ctx))"

definition OnReceiveSolRequest :: "le_lib \<Rightarrow> 'a Application \<Rightarrow> i64 \<Rightarrow> ParsedRequest \<Rightarrow> 'a OContext \<Rightarrow> (OutstationState \<times> 'a OContext) option" where
  "OnReceiveSolRequest E A now request ctx =
     (if hasLast (history ctx) then
        if sol_num ctx = SEQ (control (rq_header request)) then
          if FullyEqualsLastRequest (rq_header request) (rq_objects request) (history ctx) then
            if func (rq_header request) = READ then Some (OnRepeatReadRequest request ctx)
            else Some (OnRepeatNonReadRequest request ctx)
          else ProcessNewRequest E A now request ctx
        else ProcessNewRequest E A now request ctx
      else ProcessNewRequest E A now request ctx)"

definition ProcessRequest :: "le_lib \<Rightarrow> 'a Application \<Rightarrow> i64 \<Rightarrow> ParsedRequest \<Rightarrow> 'a OContext \<Rightarrow> 'a OContext option" where
  "ProcessRequest E A now request ctx =
     (if UNS (control (rq_header request)) then Some ctx else map_option enter (OnReceiveSolRequest E A now request ctx))"

definition ProcessConfirm :: "le_lib \<Rightarrow> 'a Application \<Rightarrow> ParsedRequest \<Rightarrow> 'a OContext \<Rightarrow> 'a OContext option" where
  "ProcessConfirm E A request ctx = map_option enter (OnConfirm E A request ctx)"

definition ProcessObjects :: "le_lib \<Rightarrow> 'a Application \<Rightarrow> i64 \<Rightarrow> ParsedRequest \<Rightarrow> 'a OContext \<Rightarrow> 'a OContext option" where
  "ProcessObjects E A now request ctx =
     (if IsBroadcast (rq_addresses request) then Some (enter (OnBroadcastMessage E A now request ctx))
      else if IsNoAckFuncCode (func (rq_header request)) then Some (ProcessRequestNoAck E A request ctx)
      else if isTransmitting ctx then Some (defer_request request ctx)
      else if func (rq_header request) = CONFIRM then ProcessConfirm E A request ctx
      else ProcessRequest E A now request ctx)"

definition ProcessMessage :: "le_lib \<Rightarrow> 'a Application \<Rightarrow> i64 \<Rightarrow> Message \<Rightarrow> 'a OContext \<Rightarrow> 'a OContext option" where
  "ProcessMessage E A now message ctx =
     (let ad = msg_addresses message
      in if destination ad \<noteq> source (oc_addresses ctx) \<and> \<not> IsBroadcast ad then Some ctx
         else if \<not> respondToAnyMaster (oc_params ctx) \<and> source ad \<noteq> destination (oc_addresses ctx) then Some ctx
         else let ctx = (if IsBroadcast ad then UpdateLastBroadcastMessageReceived (destination ad) ctx else ctx)
              in case ParseRequest (msg_payload message) of
                   None \<Rightarrow> Some ctx
                 | Some (header, objects) \<Rightarrow>
                     if \<not> IsFirAndFin (control header) then Some ctx
                     else if CON (control header) then Some ctx
                     else ProcessObjects E A now \<lparr>rq_addresses = ad, rq_header = header, rq_objects = objects\<rparr> ctx)"

section \<open>Tasks\<close>

definition ProcessDeferredRequest :: "le_lib \<Rightarrow> 'a Application \<Rightarrow> i64 \<Rightarrow> ParsedRequest \<Rightarrow> 'a OContext \<Rightarrow> (bool \<times> 'a OContext) option" where
  "ProcessDeferredRequest E A now request ctx =
     (if func (rq_header request) = CONFIRM then map_option (Pair True) (ProcessConfirm E A request ctx)
      else if func (rq_header request) = READ then
        if IsIdle (oc_state ctx) then map_option (Pair True) (ProcessRequest E A now request ctx) else Some (False, ctx)
      else map_option (Pair True) (ProcessRequest E A now request ctx))"

definition CheckForDeferredRequest :: "le_lib \<Rightarrow> 'a Application \<Rightarrow> i64 \<Rightarrow> 'a OContext \<Rightarrow> 'a OContext option" where
  "CheckForDeferredRequest E A now ctx =
     (if CanTransmit ctx \<and> df_isSet (deferred ctx)
      then do {
        (processed, ctx) \<leftarrow> ProcessDeferredRequest E A now (df_request (deferred ctx)) ctx;
        Some (ctx\<lparr>deferred := (deferred ctx)\<lparr>df_isSet := \<not> processed\<rparr>\<rparr>)
      }
      else Some ctx)"

definition CheckForUnsolicitedNull :: "'a Application \<Rightarrow> 'a OContext \<Rightarrow> 'a OContext" where
  "CheckForUnsolicitedNull A ctx =
     (if CanTransmit ctx \<and> IsIdle (oc_state ctx) \<and> allowUnsolicited (oc_params ctx) \<and> \<not> completedNull ctx
      then (let response = TxBuffer_Start (unsol_tx ctx);
                (iin, ctx) = GetResponseIIN A ctx;
                response = NullUnsolicited (unsol_num ctx) iin response;
                ctx = RestartUnsolConfirmTimer ctx;
                ctx = ctx\<lparr>oc_state := if noDefferedReadDuringUnsolicitedNullResponse (oc_params ctx)
                                     then StateNullUnsolicitedConfirmWait else StateUnsolicitedConfirmWait\<rparr>
            in BeginUnsolTx response ctx)
      else ctx)"

definition CheckForUnsolicited :: "le_lib \<Rightarrow> 'a Application \<Rightarrow> 'a OContext \<Rightarrow> 'a OContext" where
  "CheckForUnsolicited E A ctx =
     (if shouldCheckForUnsolicited ctx \<and> CanTransmit ctx \<and> IsIdle (oc_state ctx) \<and> allowUnsolicited (oc_params ctx)
      then (let ctx = ctx\<lparr>shouldCheckForUnsolicited := False\<rparr>
            in if completedNull ctx \<and> Intersects (unsolClassMask (oc_params ctx)) (UnwrittenClassField (oc_events ctx))
               then (let ctx = ctx\<lparr>unsolRetries := NumRetries_Reset (unsolRetries ctx)\<rparr>;
                         b = SelectAllByClass (unsolClassMask (oc_params ctx)) (EventBuffer_Unselect (oc_events ctx));
                         (_, b, response) = EventBuffer_Load E (TxBuffer_Start (unsol_tx ctx)) b;
                         (iin, ctx) = GetResponseIIN A (set_events b ctx);
                         response = NullUnsolicited (unsol_num ctx) iin response;
                         ctx = (RestartUnsolConfirmTimer ctx)\<lparr>oc_state := StateUnsolicitedConfirmWait\<rparr>
                     in BeginUnsolTx response ctx)
               else ctx)
      else ctx)"

definition CheckForTaskStart :: "le_lib \<Rightarrow> 'a Application \<Rightarrow> i64 \<Rightarrow> 'a OContext \<Rightarrow> 'a OContext option" where
  "CheckForTaskStart E A now ctx =
     map_option (\<lambda>ctx. CheckForUnsolicited E A (CheckForUnsolicitedNull A ctx)) (CheckForDeferredRequest E A now ctx)"

section \<open>Events from outside\<close>

datatype point_update = Upd_value measurement u16 EventMode | Upd_flags FlagsType u16 u16 byte | Upd_freeze u16 bool EventMode

definition after_update :: "'b \<times> Event list \<times> Database \<Rightarrow> 'a Resources \<Rightarrow> 'a Resources" where
  "after_update res r = (case res of (_, evs, db) \<Rightarrow> r\<lparr>rs_db := db, rs_events := post_events evs (rs_events r)\<rparr>)"

fun apply_update :: "(nat \<Rightarrow> DNPTime) \<Rightarrow> point_update \<Rightarrow> 'a Resources \<Rightarrow> 'a Resources" where
  "apply_update now (Upd_value v i mode) r = after_update (Database_Update v i mode (rs_db r)) r"
| "apply_update now (Upd_flags T a b fl) r = after_update (Database_Modify T a b fl (rs_db r)) r"
| "apply_update now (Upd_freeze i clr mode) r = after_update (FreezeCounter now i clr mode (rs_db r)) r"

datatype o_event =
    LowerLayerUp | LowerLayerDown | TxReady | Receive Message | ConfirmTimer | NewEvents "point_update list" | SetRestart

definition OnLowerLayerDown :: "'a OContext \<Rightarrow> 'a OContext" where
  "OnLowerLayerDown ctx =
     (if \<not> oc_isOnline ctx then ctx
      else cancel_timer (set_events (EventBuffer_Unselect (oc_events ctx))
        (ctx\<lparr>oc_state := StateIdle, oc_isOnline := False, isTransmitting := False, completedNull := False,
             history := RequestHistory_Reset (history ctx), deferred := DeferredRequest_Reset (deferred ctx), fragmentCount := 0\<rparr>)))"

text \<open>One event at the time \<open>now\<close> of the executor. Applied updates are followed by \<open>HandleNewEvents\<close>.\<close>

fun outstation_step :: "le_lib \<Rightarrow> 'a Application \<Rightarrow> i64 \<Rightarrow> o_event \<Rightarrow> 'a OContext \<Rightarrow> 'a OContext option" where
  "outstation_step E A now LowerLayerUp ctx =
     (if oc_isOnline ctx then Some ctx
      else CheckForTaskStart E A now (ctx\<lparr>oc_isOnline := True, shouldCheckForUnsolicited := True\<rparr>))"
| "outstation_step E A now LowerLayerDown ctx = Some (OnLowerLayerDown ctx)"
| "outstation_step E A now TxReady ctx =
     (if \<not> oc_isOnline ctx \<or> \<not> isTransmitting ctx then Some ctx
      else CheckForTaskStart E A now (ctx\<lparr>isTransmitting := False\<rparr>))"
| "outstation_step E A now (Receive message) ctx =
     (if \<not> oc_isOnline ctx then Some ctx
      else do { ctx \<leftarrow> ProcessMessage E A now message ctx; CheckForTaskStart E A now ctx })"
| "outstation_step E A now ConfirmTimer ctx =
     (if confirmTimer ctx = None then Some ctx
      else CheckForTaskStart E A now (enter (OnConfirmTimeout (cancel_timer ctx))))"
| "outstation_step E A now (NewEvents us) ctx =
     (if us = [] then Some ctx
      else CheckForTaskStart E A now (ctx\<lparr>oc_res := fold (\<lambda>u r. apply_update (Now A (rs_app r)) u r) us (oc_res ctx), shouldCheckForUnsolicited := True\<rparr>))"
| "outstation_step E A now SetRestart ctx = Some (ctx\<lparr>staticIIN := SetBit DEVICE_RESTART (staticIIN ctx)\<rparr>)"

fun outstation_run :: "le_lib \<Rightarrow> 'a Application \<Rightarrow> (i64 \<times> o_event) list \<Rightarrow> 'a OContext \<Rightarrow> 'a OContext option" where
  "outstation_run E A [] ctx = Some ctx"
| "outstation_run E A ((now, ev) # evs) ctx = Option.bind (outstation_step E A now ev ctx) (outstation_run E A evs)"

end
