(* ===== verification/Out_Context_Laws.thy ===== *)
theory Out_Context_Laws
  imports Out_Context
begin

text \<open>
  What every event keeps of the database and of the event buffer of an outstation, as a locale over the primitive
  operations; with two invariants, that of the database and the contents of the event buffer, it gives that the
  outstation always returns and that events stay until they are confirmed.
\<close>

section \<open>Handlers\<close>

lemma Parse_with_keeps:
  assumes "\<And>n ev s iin s'. K s \<Longrightarrow> P n ev s = Some (iin, s') \<Longrightarrow> K s'" "K s"
  shows "K (hn_state (snd (Parse_with C objects al ex P s)))"
proof -
  have "K (hn_state h) \<Longrightarrow> K (hn_state (fold (OnHeader P) evs h))" for evs h
  proof (induction evs arbitrary: h)
    case (Cons ev evs)
    have "K (hn_state (OnHeader P ev h))"
      using Cons.prems assms(1) [of "hn_state h"] by (auto simp: OnHeader_def Record_header_def split: option.split)
    then show ?case using Cons.IH by simp
  qed simp
  from this [of "IAPDUHandler_make s"] assms(2) show ?thesis
    by (simp add: Parse_with_def IAPDUHandler_make_def split: prod.split)
qed

text \<open>An action keeps a property of what it works on; then so do the handlers of commands.\<close>

definition keeps_action :: "('w \<Rightarrow> bool) \<Rightarrow> 'w command_action \<Rightarrow> bool" where
  "keeps_action W action = (\<forall>cmd i w. W w \<longrightarrow> W (snd (action cmd i w)))"

lemma ProcessCommand_keeps:
  "keeps_action W action \<Longrightarrow> W (cr_world h) \<Longrightarrow> ProcessCommand action mx cmd i h = (st, h') \<Longrightarrow> W (cr_world h')"
  unfolding keeps_action_def by (auto simp: ProcessCommand_def split: if_splits prod.splits) (metis snd_conv)

lemma count_status_world: "count_status st ret h = (ret', h') \<Longrightarrow> cr_world h' = cr_world h"
  by (auto simp: count_status_def split: if_splits)

lemma respond_with_iterator_keeps:
  assumes "keeps_action W action"
  shows "W (cr_world h) \<Longrightarrow> respond_with_iterator CT action mx T vs ret it w h = (ret', it', w', h') \<Longrightarrow> W (cr_world h')"
proof (induction vs arbitrary: ret it w h)
  case (Cons v vs)
  obtain i x where v: "v = (i, x)" by fastforce
  obtain st h1 where p: "ProcessCommand action mx (ct_command CT x) i h = (st, h1)" by fastforce
  obtain ret1 h2 where c: "count_status st ret h1 = (ret1, h2)" by fastforce
  obtain ok it1 w1 where o: "PrefixedWriteIterator_Write T (ct_serializer CT) (ct_set_status CT st x) (narrow T (unat i)) it w = (ok, it1, w1)"
    by (metis surj_pair)
  have "W (cr_world h2)" using ProcessCommand_keeps [OF assms Cons.prems(1) p] count_status_world [OF c] by simp
  then show ?case using Cons.IH [of h2 ret1 it1 w1] Cons.prems(2) by (simp add: v p c o)
qed simp

lemma respond_silently_keeps:
  assumes "keeps_action W action"
  shows "W (cr_world h) \<Longrightarrow> respond_silently CT action mx vs ret h = (ret', h') \<Longrightarrow> W (cr_world h')"
proof (induction vs arbitrary: ret h)
  case (Cons v vs)
  obtain i x where v: "v = (i, x)" by fastforce
  obtain st h1 where p: "ProcessCommand action mx (ct_command CT x) i h = (st, h1)" by fastforce
  obtain ret1 h2 where c: "count_status st ret h1 = (ret1, h2)" by fastforce
  have "W (cr_world h2)" using ProcessCommand_keeps [OF assms Cons.prems(1) p] count_status_world [OF c] by simp
  then show ?case using Cons.IH [of h2 ret1] Cons.prems(2) by (simp add: v p c)
qed simp

lemma ProcessAny_keeps:
  "keeps_action W action \<Longrightarrow> W (cr_world h) \<Longrightarrow> ProcessAny C CT action mx record vs h = (ret, h') \<Longrightarrow> W (cr_world h')"
  by (auto simp: ProcessAny_def RespondToHeader_def Let_def split: if_splits option.splits prod.splits
      intro: respond_with_iterator_keeps respond_silently_keeps)

lemma commands_keep:
  assumes "keeps_action W action" "W (cr_world h)" "CommandResponseHandler_ProcessHeader E action mx n ev h = Some (ret, h')"
  shows "W (cr_world h')"
  using assms(3) by (cases ev) (auto split: if_splits dest: ProcessAny_keeps [OF assms(1,2)])

lemma run_commands_keeps:
  assumes "keeps_action W action" "W world"
  shows "W (cr_world (hn_state (snd (run_commands E action mx objects writer world))))"
  unfolding run_commands_def
  by (rule Parse_with_keeps [of "\<lambda>h. W (cr_world h)"]) (auto intro: commands_keep [OF assms(1)] simp: assms(2))

lemma HandleRead_split:
  assumes "Parse_with (lib_u16 E) objects allow_all False ReadHandler_ProcessHeader
      (Database_Unselect (oc_db ctx), EventBuffer_Unselect (oc_events ctx)) = (res, hn)" "hn_state hn = (db, b)"
  shows "HandleRead E objects w ctx =
    (if res = OK
     then (case LoadResponse E 0 db b w of None \<Rightarrow> None
           | Some (ctl, db', b', w') \<Rightarrow> Some (hn_errors hn, ctl, w', set_db db' (set_events b' (ctx\<lparr>fragmentCount := 1\<rparr>))))
     else Some (IINFromParseResult res, AppControlField_make True True False False 0, w, set_db db (set_events b (ctx\<lparr>fragmentCount := 0\<rparr>))))"
  using assms by (simp add: HandleRead_def split: option.split)

definition accepts_confirm :: "APDUHeader \<Rightarrow> 'a OContext \<Rightarrow> bool" where
  "accepts_confirm header ctx =
     (case oc_state ctx of
        StateIdle \<Rightarrow> False
      | StateSolicitedConfirmWait \<Rightarrow> \<not> UNS (control header) \<and> SEQ (control header) = sol_confirmNum ctx
      | _ \<Rightarrow> UNS (control header) \<and> SEQ (control header) = unsol_confirmNum ctx)"

section \<open>What every operation keeps\<close>

text \<open>The updates that a handler of commands makes, each with the time that the application has for it.\<close>

definition apply_updates :: "((nat \<Rightarrow> DNPTime) \<times> point_update) list \<Rightarrow> 'a Resources \<Rightarrow> 'a Resources" where
  "apply_updates us r = fold (\<lambda>(now, u). apply_update now u) us r"

text \<open>
  \<open>I\<close> is a property of the database and the event buffer that their operations keep; removing the written events is
  among them when \<open>clears\<close>. In the second locale the command handler of the application keeps it too.
\<close>

locale resource_laws =
  fixes E :: le_lib and I :: "Database \<Rightarrow> EventBuffer \<Rightarrow> bool" and clears :: bool
  assumes db_step: "I db b \<Longrightarrow> run_db_op E p db = Some db' \<Longrightarrow> I db' b"
    and event_step: "I db b \<Longrightarrow> x \<noteq> Do_ClearWritten \<or> clears \<Longrightarrow> I db (run_event_op E x b)"
begin

lemma db_ops:
  assumes "I db b"
  shows "I (snd (Database_SelectAll gv db)) b" "I (snd (Database_SelectRange gv r db)) b" "I (snd (Database_SelectIndices gv is db)) b"
    "I (Database_Unselect db) b" "I (snd (AssignClassToAll T pc db)) b" "I (snd (AssignClassToRange T pc r db)) b"
    "Database_Load E db w = Some (ok, db', w') \<Longrightarrow> I db' b"
  using db_step [OF assms, of "Select_all gv"] db_step [OF assms, of "Select_range gv r"] db_step [OF assms, of "Select_indices gv is"]
    db_step [OF assms, of Unselect_all] db_step [OF assms, of "Assign_all T pc"] db_step [OF assms, of "Assign_range T pc r"]
    db_step [OF assms, of "Load_into w"] by simp_all

lemma event_ops:
  assumes "I db b"
  shows "I db (EventBuffer_Update e b)" "I db (EventBuffer_Unselect b)" "I db (snd (EventBuffer_SelectAll gv b))"
    "I db (snd (EventBuffer_SelectCount gv n b))" "I db (SelectAllByClass cf b)" "I db (fst (snd (EventBuffer_Load E w b)))" "I db (snd (IsOverflown b))"
    "clears \<Longrightarrow> I db (EventBuffer_ClearWritten b)"
  using event_step [OF assms, of "Do_Update e"] event_step [OF assms, of Do_Unselect] event_step [OF assms, of "Do_SelectAll gv"]
    event_step [OF assms, of "Do_SelectCount gv n"] event_step [OF assms, of "Do_SelectAllByClass cf"] event_step [OF assms, of "Do_Load w"]
    event_step [OF assms, of Do_IsOverflown] event_step [OF assms, of Do_ClearWritten] by simp_all

lemma post_events_keeps: "I db b \<Longrightarrow> I db (post_events evs b)"
  unfolding post_events_def by (induction evs arbitrary: b) (simp_all add: event_ops(1))

lemma after_update_keeps:
  "I (rs_db r) (rs_events r) \<Longrightarrow> run_db_op E p (rs_db r) = Some (snd (snd res)) \<Longrightarrow> I (rs_db (after_update res r)) (rs_events (after_update res r))"
  by (simp add: after_update_def case_prod_beta post_events_keeps [OF db_step])

lemma apply_update_keeps: "I (rs_db r) (rs_events r) \<Longrightarrow> I (rs_db (apply_update now u r)) (rs_events (apply_update now u r))"
proof (cases u)
  case (Upd_value v i mode)
  then show "I (rs_db r) (rs_events r) \<Longrightarrow> ?thesis" by (simp add: after_update_keeps [of r "Update_point v i mode"])
next
  case (Upd_flags T a b fl)
  then show "I (rs_db r) (rs_events r) \<Longrightarrow> ?thesis" by (simp add: after_update_keeps [of r "Modify_flags T a b fl"])
next
  case (Upd_freeze i clr mode)
  then show "I (rs_db r) (rs_events r) \<Longrightarrow> ?thesis" by (simp add: after_update_keeps [of r "Freeze_point now i clr mode"])
qed

lemma apply_updates_keep:
  "I (rs_db r) (rs_events r) \<Longrightarrow> I (rs_db (apply_updates us r)) (rs_events (apply_updates us r))"
  unfolding apply_updates_def by (induction us arbitrary: r) (simp_all add: apply_update_keeps case_prod_beta)

lemma apply_now_keeps:
  "I (rs_db r) (rs_events r) \<Longrightarrow> I (rs_db (fold (\<lambda>u r. apply_update (N r) u r) us r)) (rs_events (fold (\<lambda>u r. apply_update (N r) u r) us r))"
  by (induction us arbitrary: r) (simp_all add: apply_update_keeps)

end

locale resource_invariant = resource_laws E I clears for E and I and clears +
  fixes A :: "'a Application"
  assumes operate_step: "I (rs_db r) (rs_events r) \<Longrightarrow> Cmd_Operate A cmd i op r = (st, r') \<Longrightarrow> I (rs_db r') (rs_events r')"
begin

text \<open>The handlers.\<close>

lemma read_headers_keep:
  "I (fst s) (snd s) \<Longrightarrow> ReadHandler_ProcessHeader n ev s = Some (iin, s') \<Longrightarrow> I (fst s') (snd s')"
proof (cases s)
  case (Pair db b)
  assume "I (fst s) (snd s)" and h: "ReadHandler_ProcessHeader n ev s = Some (iin, s')"
  then have i: "I db b" by (simp add: Pair)
  show ?thesis using h unfolding Pair
    by (cases ev) (auto simp: case_prod_beta i db_ops(1-3) [OF i] event_ops(3,4) [OF i] split: GroupVariationType.splits)
qed

lemma freeze_now_keeps: "I (rs_db r) (rs_events r) \<Longrightarrow> I (rs_db (freeze_now A clr r)) (rs_events (freeze_now A clr r))"
  using db_step [of "rs_db r" "rs_events r" "Freeze_selected (Now A (rs_app r)) clr Detect"]
  by (simp add: freeze_now_def case_prod_beta post_events_keeps)

lemma freeze_headers_keep:
  "I (rs_db r) (rs_events r) \<Longrightarrow> FreezeRequestHandler_ProcessHeader A clr n ev r = Some (iin, r') \<Longrightarrow> I (rs_db r') (rs_events r')"
  by (cases ev) (auto simp: freeze_now_keeps db_ops(1,2))

lemma assign_headers_keep:
  "I (as_db h) b \<Longrightarrow> AssignClassHandler_ProcessHeader A n ev h = Some (iin, h') \<Longrightarrow> I (as_db h') b"
proof -
  assume i: "I (as_db h) b" and h: "AssignClassHandler_ProcessHeader A n ev h = Some (iin, h')"
  have e: "I (as_db (snd (IsExpectingAssignment n h))) b" using i by (simp add: IsExpectingAssignment_def Let_def)
  have a: "I (as_db (snd (ProcessAssignAll A T k))) b" "I (as_db (snd (ProcessAssignRange A T r k))) b" if "I (as_db k) b" for T r k
    using db_ops(5,6) [OF that] by (simp_all add: ProcessAssignAll_def ProcessAssignRange_def case_prod_beta)
  have c: "I (as_db (snd (RecordClass n gv k))) b" if "I (as_db k) b" for gv k
    using that by (simp add: RecordClass_def Let_def)
  obtain ex k where k: "IsExpectingAssignment n h = (ex, k)" by fastforce
  then have i: "I (as_db k) b" using e by simp
  consider T where "ProcessAssignAll A T k = (iin, h')" | T r where "ProcessAssignRange A T r k = (iin, h')"
    | gv where "RecordClass n gv k = (iin, h')" | "h' = k"
    using h by (cases ev) (simp_all add: k split: if_splits option.splits)
  then show ?thesis
  proof cases
    case 1 then show ?thesis using a(1) [OF i] by (metis snd_conv)
  next
    case 2 then show ?thesis using a(2) [OF i] by (metis snd_conv)
  next
    case 3 then show ?thesis using c [OF i] by (metis snd_conv)
  qed (simp add: i)
qed

lemma adapter_keeps: "keeps_action (\<lambda>s. I (rs_db (snd s)) (rs_events (snd s))) (adapter_Action A is_select op)"
proof -
  have "I (rs_db (snd s)) (rs_events (snd s)) \<Longrightarrow> I (rs_db (snd (snd (ActionT A is_select op cmd i s)))) (rs_events (snd (snd (ActionT A is_select op cmd i s))))"
    for cmd i s
  proof -
    assume "I (rs_db (snd s)) (rs_events (snd s))"
    then have "I (rs_db (snd (CheckStart A s))) (rs_events (snd (CheckStart A s)))" by (cases s) (simp add: CheckStart_def)
    then show ?thesis
      by (cases "CheckStart A s"; cases "Cmd_Operate A cmd i op (snd (CheckStart A s))") (simp add: ActionT_def case_prod_beta operate_step)
  qed
  then show ?thesis unfolding keeps_action_def
    by (intro allI impI, case_tac cmd) simp_all
qed

lemma adapter_destroy_keeps:
  "I (rs_db (snd s)) (rs_events (snd s)) \<Longrightarrow> I (rs_db (adapter_destroy A s)) (rs_events (adapter_destroy A s))"
  by (cases s) (simp add: adapter_destroy_def)

text \<open>The functions of the context.\<close>

definition kept :: "'a OContext \<Rightarrow> bool" where "kept ctx = I (oc_db ctx) (oc_events ctx)"

lemma kept_res: "oc_res ctx' = oc_res ctx \<Longrightarrow> kept ctx' = kept ctx" by (simp add: kept_def)

lemma kept_app [simp]: "kept (set_app a ctx) = kept ctx" by (simp add: kept_def set_app_def)

lemma kept_set: "kept (set_db db (set_events b ctx)) = I db b" "kept (set_events b ctx) = I (oc_db ctx) b" "kept (set_db db ctx) = I db (oc_events ctx)"
  by (simp_all add: kept_def set_db_def set_events_def)

lemma unchanged [simp]:
  "oc_res (BeginTx dest m ctx) = oc_res ctx" "oc_res (RestartSolConfirmTimer ctx) = oc_res ctx" "oc_res (RestartUnsolConfirmTimer ctx) = oc_res ctx"
  "oc_res (cancel_timer ctx) = oc_res ctx" "oc_res (reset_history ctx) = oc_res ctx" "oc_res (defer_request q ctx) = oc_res ctx"
  "oc_res (snd (CheckForBroadcastConfirmation rsp ctx)) = oc_res ctx" "oc_res (set_mask f ctx) = oc_res ctx"
  "oc_res (UpdateLastBroadcastMessageReceived d ctx) = oc_res ctx" "oc_res (enter (s, ctx)) = oc_res ctx"
  "oc_res (BeginRetransmitLastResponse dest ctx) = oc_res ctx" "oc_res (BeginRetransmitLastUnsolicitedResponse ctx) = oc_res ctx"
  by (simp_all add: BeginTx_def RestartSolConfirmTimer_def RestartUnsolConfirmTimer_def cancel_timer_def reset_history_def defer_request_def
      CheckForBroadcastConfirmation_def set_mask_def UpdateLastBroadcastMessageReceived_def enter_def BeginRetransmitLastResponse_def
      BeginRetransmitLastUnsolicitedResponse_def Let_def split: option.split)

lemma transmissions [simp]: "oc_res (snd (BeginResponseTx dest rsp ctx)) = oc_res ctx" "oc_res (BeginUnsolTx rsp ctx) = oc_res ctx"
  using unchanged(7) [of rsp ctx] by (simp_all add: BeginResponseTx_def BeginUnsolTx_def Let_def case_prod_beta)

lemma GetResponseIIN_keeps: "kept ctx \<Longrightarrow> kept (snd (GetResponseIIN A ctx))"
  by (simp add: GetResponseIIN_def GetDynamicIIN_def case_prod_beta kept_set Let_def) (simp add: kept_def event_ops(7))

lemma notify_keeps [simp]: "kept (notify_confirm A u ctx) = kept ctx" by (simp add: notify_confirm_def)

lemma LoadResponse_keeps: "I db b \<Longrightarrow> LoadResponse E n db b w = Some (ctl, db', b', w') \<Longrightarrow> I db' b'"
proof -
  assume i: "I db b" and l: "LoadResponse E n db b w = Some (ctl, db', b', w')"
  obtain full b1 w1 where e: "EventBuffer_Load E w b = (full, b1, w1)" by (metis surj_pair)
  have i1: "I db b1" using event_ops(6) [OF i, of w] e by simp
  show ?thesis using l e i1 db_ops(7) [OF i1] by (auto simp: LoadResponse_def Let_def split: if_splits option.splits)
qed

lemma HandleRead_keeps: "kept ctx \<Longrightarrow> HandleRead E objects w ctx = Some (iin, ctl, w', ctx') \<Longrightarrow> kept ctx'"
proof -
  assume k: "kept ctx" and h: "HandleRead E objects w ctx = Some (iin, ctl, w', ctx')"
  define s0 where "s0 = (Database_Unselect (oc_db ctx), EventBuffer_Unselect (oc_events ctx))"
  obtain res hn where p: "Parse_with (lib_u16 E) objects allow_all False ReadHandler_ProcessHeader s0 = (res, hn)" by fastforce
  obtain db b where s: "hn_state hn = (db, b)" by (metis surj_pair)
  have "I (fst s0) (snd s0)" using k db_ops(4) event_ops(2) by (simp add: s0_def kept_def)
  have "(\<lambda>s. I (fst s) (snd s)) (hn_state (snd (Parse_with (lib_u16 E) objects allow_all False ReadHandler_ProcessHeader s0)))"
    by (rule Parse_with_keeps [where K = "\<lambda>s. I (fst s) (snd s)"]) (erule (1) read_headers_keep, fact)
  then have i: "I db b" by (simp add: p s)
  note e = HandleRead_split [OF p [unfolded s0_def] s, of w]
  show ?thesis
  proof (cases "res = OK")
    case True
    show ?thesis
    proof (cases "LoadResponse E 0 db b w")
      case None
      then show ?thesis using h True unfolding e by simp
    next
      case (Some r)
      obtain ctl1 db1 b1 w1 where r: "r = (ctl1, db1, b1, w1)" by (metis surj_pair)
      have "ctx' = set_db db1 (set_events b1 (ctx\<lparr>fragmentCount := 1\<rparr>))" using h True Some r unfolding e by simp
      then show ?thesis using LoadResponse_keeps [OF i Some [unfolded r]] by (simp only: kept_set(1))
    qed
  next
    case False
    then have "ctx' = set_db db (set_events b (ctx\<lparr>fragmentCount := 0\<rparr>))" using h unfolding e by simp
    then show ?thesis using i by (simp only: kept_set(1))
  qed
qed

lemma run_adapter_keeps: "kept ctx \<Longrightarrow> run_adapter E A is_select op objects writer ctx = (res, h, ctx') \<Longrightarrow> kept ctx'"
proof -
  assume k: "kept ctx" and r: "run_adapter E A is_select op objects writer ctx = (res, h, ctx')"
  have "I (rs_db (snd (False, oc_res ctx))) (rs_events (snd (False, oc_res ctx)))" using k by (simp add: kept_def)
  from run_commands_keeps [OF adapter_keeps this, of E is_select op "maxControlsPerRequest (oc_params ctx)" objects writer]
  moreover obtain hn where "run_commands E (adapter_Action A is_select op) (maxControlsPerRequest (oc_params ctx)) objects writer (False, oc_res ctx) = (res, hn)"
    "ctx' = ctx\<lparr>oc_res := adapter_destroy A (cr_world (hn_state hn))\<rparr>" using r by (auto simp: run_adapter_def split: prod.splits)
  ultimately show ?thesis using adapter_destroy_keeps [of "cr_world (hn_state hn)"] by (simp add: kept_def)
qed

lemma handlers_keep:
  assumes "kept ctx"
  shows "kept (snd (HandleWrite E A now objects ctx))" "kept (snd (HandleFreeze E A clr objects ctx))"
    "kept (snd (HandleAssignClass E A objects ctx))" "kept (snd (HandleDisableUnsolicited E objects ctx))"
    "kept (snd (HandleEnableUnsolicited E objects ctx))" "kept (snd (HandleRecordCurrentTime now ctx))"
    "kept (snd (snd (HandleRestart E A objects warm w ctx)))" "kept (snd (snd (HandleDirectOperate E A objects op writer ctx)))"
    "kept (snd (snd (HandleSelect E A now objects w ctx)))" "kept (snd (snd (HandleOperate E A now objects w ctx)))"
proof -
  show "kept (snd (HandleWrite E A now objects ctx))"
    using assms by (simp add: HandleWrite_def case_prod_beta Let_def) (simp add: kept_def)
  show "kept (snd (HandleFreeze E A clr objects ctx))"
    using Parse_with_keeps [of "\<lambda>r. I (rs_db r) (rs_events r)", OF freeze_headers_keep] assms
    by (simp add: HandleFreeze_def case_prod_beta kept_def)
  show "kept (snd (HandleAssignClass E A objects ctx))"
    using Parse_with_keeps [of "\<lambda>h. I (as_db h) (oc_events ctx)", OF assign_headers_keep] assms
    by (simp add: HandleAssignClass_def case_prod_beta kept_set) (simp add: kept_def)
  show "kept (snd (HandleDisableUnsolicited E objects ctx))" "kept (snd (HandleEnableUnsolicited E objects ctx))" "kept (snd (HandleRecordCurrentTime now ctx))"
    using assms by (simp_all add: HandleDisableUnsolicited_def HandleEnableUnsolicited_def HandleRecordCurrentTime_def case_prod_beta kept_def)
  show "kept (snd (snd (HandleRestart E A objects warm w ctx)))"
    using assms by (simp add: HandleRestart_def case_prod_beta Let_def split: RestartMode.split)
  obtain r1 h1 c1 where a1: "run_adapter E A False op objects writer ctx = (r1, h1, c1)" by (metis surj_pair)
  show "kept (snd (snd (HandleDirectOperate E A objects op writer ctx)))"
    using assms run_adapter_keeps [OF assms a1] by (simp add: HandleDirectOperate_def a1) (simp add: kept_def)
  obtain r2 h2 c2 where a2: "run_adapter E A True DirectOperate objects (Some w) ctx = (r2, h2, c2)" by (metis surj_pair)
  show "kept (snd (snd (HandleSelect E A now objects w ctx)))"
    using assms run_adapter_keeps [OF assms a2] by (simp add: HandleSelect_def a2) (simp add: kept_def)
  obtain r3 h3 c3 where a3: "run_adapter E A False SelectBeforeOperate objects (Some w) ctx = (r3, h3, c3)" by (metis surj_pair)
  show "kept (snd (snd (HandleOperate E A now objects w ctx)))"
    using assms run_adapter_keeps [OF assms a3] by (simp add: HandleOperate_def a3 Let_def case_prod_beta) (simp add: kept_def)
qed

lemma HandleNonReadResponse_keeps: "kept ctx \<Longrightarrow> kept (snd (snd (HandleNonReadResponse E A now header objects w ctx)))"
  by (simp add: HandleNonReadResponse_def case_prod_beta handlers_keep split: FunctionCode.split)

lemma broadcast_keeps: "kept ctx \<Longrightarrow> kept (ProcessBroadcastRequest E A now request ctx)"
  by (simp add: ProcessBroadcastRequest_def Let_def handlers_keep split: FunctionCode.split)

lemma no_ack_keeps: "kept ctx \<Longrightarrow> kept (ProcessRequestNoAck E A request ctx)"
  by (simp add: ProcessRequestNoAck_def handlers_keep split: FunctionCode.split)

lemma RespondToNonReadRequest_keeps: "kept ctx \<Longrightarrow> kept (snd (RespondToNonReadRequest E A now request ctx))"
proof -
  assume k: "kept ctx"
  let ?c0 = "ctx\<lparr>history := RecordLastProcessedRequest (rq_header request) (rq_objects request) (history ctx)\<rparr>"
  have "kept ?c0" using k by (simp add: kept_def)
  note k1 = HandleNonReadResponse_keeps [OF this]
  show ?thesis
    unfolding RespondToNonReadRequest_def Let_def case_prod_beta
    by (subst kept_res [OF transmissions(1)], rule GetResponseIIN_keeps, rule k1)
qed

lemma BeginResponseTx_kept: "BeginResponseTx dest rsp c = (s, c') \<Longrightarrow> kept c \<Longrightarrow> kept c'"
  using kept_res [OF transmissions(1) [of dest rsp c]] by simp

lemma RespondToReadRequest_keeps: "kept ctx \<Longrightarrow> RespondToReadRequest E A request ctx = Some (s, ctx') \<Longrightarrow> kept ctx'"
proof -
  assume k: "kept ctx" and r: "RespondToReadRequest E A request ctx = Some (s, ctx')"
  define c0 where "c0 = ctx\<lparr>history := RecordLastProcessedRequest (rq_header request) (rq_objects request) (history ctx)\<rparr>"
  have k0: "kept c0" using k by (simp add: kept_def c0_def)
  have sol: "sol_tx c0 = sol_tx ctx" by (simp add: c0_def)
  show ?thesis
  proof (cases "HandleRead E (rq_objects request) (SetFunction RESPONSE (TxBuffer_Start (sol_tx ctx))) c0")
    case None
    then show ?thesis using r by (simp add: RespondToReadRequest_def Let_def sol flip: c0_def)
  next
    case (Some x)
    obtain iin ctl rsp c1 where x: "x = (iin, ctl, rsp, c1)" by (metis surj_pair)
    have "kept c1" by (rule HandleRead_keeps [OF k0 Some [unfolded x]])
    then have g: "kept (snd (GetResponseIIN A c1))" by (rule GetResponseIIN_keeps)
    have "\<exists>rsp'. BeginResponseTx (source (rq_addresses request)) rsp' (snd (GetResponseIIN A c1)) = (s, ctx')"
      using r Some by (simp add: RespondToReadRequest_def Let_def sol x case_prod_beta flip: c0_def) blast
    then show ?thesis using BeginResponseTx_kept g by blast
  qed
qed

lemma Continue_keeps: "kept ctx \<Longrightarrow> ContinueMultiFragResponse E A ad seq ctx = Some (s, ctx') \<Longrightarrow> kept ctx'"
proof -
  assume k: "kept ctx" and r: "ContinueMultiFragResponse E A ad seq ctx = Some (s, ctx')"
  show ?thesis
  proof (cases "LoadResponse E (fragmentCount ctx) (oc_db ctx) (oc_events ctx) (SetFunction RESPONSE (TxBuffer_Start (sol_tx ctx)))")
    case None
    then show ?thesis using r by (simp add: ContinueMultiFragResponse_def)
  next
    case (Some x)
    obtain ctl db b rsp where x: "x = (ctl, db, b, rsp)" by (metis surj_pair)
    define c1 where "c1 = set_db db (set_events b (ctx\<lparr>fragmentCount := fragmentCount ctx + 1\<rparr>))"
    have "I db b" using LoadResponse_keeps [OF _ Some [unfolded x]] k by (simp add: kept_def)
    then have "kept c1" unfolding c1_def by (simp only: kept_set(1))
    then have g: "kept (snd (GetResponseIIN A c1))" by (rule GetResponseIIN_keeps)
    have "\<exists>rsp'. BeginResponseTx (source ad) rsp' (snd (GetResponseIIN A c1)) = (s, ctx')"
      using r Some by (simp add: ContinueMultiFragResponse_def Let_def x case_prod_beta flip: c1_def) blast
    then show ?thesis using BeginResponseTx_kept g by blast
  qed
qed

text \<open>A confirmation that the state accepts is the only reason to clear events.\<close>

lemma clear_written_keeps: "kept ctx \<Longrightarrow> clears \<Longrightarrow> kept (clear_written ctx)"
  by (simp add: clear_written_def kept_set) (simp add: kept_def event_ops(8))

end

end
