(* ===== verification/Out_Session.thy ===== *)
theory Out_Session
  imports Out_Context_Laws
begin

text \<open>
  What an event of the outstation keeps: the states and the requests over the lemmas of the handlers, then two
  instances of the locale, for the invariant of the database and for the contents of the event buffer.
\<close>

section \<open>Confirmations\<close>

text \<open>A confirmation that is not accepted changes nothing.\<close>

lemma OnConfirm_rejected:
  assumes "\<not> accepts_confirm (rq_header request) ctx"
  shows "OnConfirm E A request ctx = Some (oc_state ctx, ctx)"
proof (cases "oc_state ctx = StateSolicitedConfirmWait")
  case True
  then have "UNS (control (rq_header request)) \<or> sol_confirmNum ctx \<noteq> SEQ (control (rq_header request))"
    using assms by (auto simp: accepts_confirm_def)
  then show ?thesis by (simp only: OnConfirm_def OnConfirm_solicited_def True Let_def OutstationState.case) (cases "UNS (control (rq_header request))"; simp)
next
  case False
  show ?thesis
  proof (cases "oc_state ctx = StateIdle")
    case False
    then have u: "\<not> UNS (control (rq_header request)) \<or> unsol_confirmNum ctx \<noteq> SEQ (control (rq_header request))"
      using assms \<open>oc_state ctx \<noteq> StateSolicitedConfirmWait\<close> by (cases "oc_state ctx") (auto simp: accepts_confirm_def)
    have "OnConfirm_unsolicited A s request ctx = (s, ctx)" for s
      using u by (cases "UNS (control (rq_header request))") (simp_all add: OnConfirm_unsolicited_def)
    then show ?thesis using \<open>oc_state ctx \<noteq> StateSolicitedConfirmWait\<close> False by (cases "oc_state ctx") (simp_all add: OnConfirm_def)
  qed (simp add: OnConfirm_def)
qed

definition confirmed_solicited :: "'a Application \<Rightarrow> 'a OContext \<Rightarrow> 'a OContext" where
  "confirmed_solicited A ctx = notify_confirm A False ((clear_written (cancel_timer (reset_history ctx)))\<lparr>lastBroadcastMessageReceived := None\<rparr>)"

definition confirmed_unsolicited :: "'a Application \<Rightarrow> 'a OContext \<Rightarrow> 'a OContext" where
  "confirmed_unsolicited A ctx =
     (let ctx = notify_confirm A True ((cancel_timer (reset_history ctx))\<lparr>lastBroadcastMessageReceived := None\<rparr>)
      in (if completedNull ctx then clear_written ctx else ctx\<lparr>completedNull := True\<rparr>)\<lparr>shouldCheckForUnsolicited := True\<rparr>)"

lemma OnConfirm_accepted:
  assumes "accepts_confirm (rq_header request) ctx"
  shows "OnConfirm E A request ctx =
    (if oc_state ctx = StateSolicitedConfirmWait
     then let ctx = confirmed_solicited A ctx
          in if HasSelection (oc_db ctx) (oc_events ctx)
             then ContinueMultiFragResponse E A (rq_addresses request) (AppSeq_Next (SEQ (control (rq_header request)))) ctx
             else Some (StateIdle, ctx)
     else Some (StateIdle, confirmed_unsolicited A ctx))"
  using assms by (cases "oc_state ctx")
    (simp_all add: OnConfirm_def OnConfirm_solicited_def OnConfirm_unsolicited_def accepts_confirm_def confirmed_solicited_def confirmed_unsolicited_def Let_def)

text \<open>Confirmations that were deferred, and confirmations in a message.\<close>

definition is_confirm :: "ParsedRequest \<Rightarrow> bool" where "is_confirm request = (func (rq_header request) = CONFIRM)"

definition holds_confirm :: "'a OContext \<Rightarrow> bool" where
  "holds_confirm ctx = (CanTransmit ctx \<and> df_isSet (deferred ctx) \<and> is_confirm (df_request (deferred ctx)))"

context resource_invariant
begin

lemma confirmed_keeps:
  assumes k: "kept ctx" and c: clears
  shows "kept (confirmed_solicited A ctx)" "kept (confirmed_unsolicited A ctx)"
proof -
  have r: "kept (cancel_timer (reset_history ctx))" using k kept_res [of "cancel_timer (reset_history ctx)" ctx] by simp
  have u: "kept (x\<lparr>lastBroadcastMessageReceived := None\<rparr>) = kept x" "kept (x\<lparr>shouldCheckForUnsolicited := True\<rparr>) = kept x"
    "kept (x\<lparr>completedNull := True\<rparr>) = kept x" for x
    by (simp_all add: kept_def)
  show "kept (confirmed_solicited A ctx)"
    unfolding confirmed_solicited_def notify_keeps u(1) by (rule clear_written_keeps [OF r c])
  define n where "n = notify_confirm A True ((cancel_timer (reset_history ctx))\<lparr>lastBroadcastMessageReceived := None\<rparr>)"
  have n: "kept n" unfolding n_def notify_keeps u(1) by (rule r)
  have "kept (if completedNull n then clear_written n else n\<lparr>completedNull := True\<rparr>)"
    using n clear_written_keeps [OF n c] by (cases "completedNull n") (simp_all only: u(3) if_True if_False)
  then show "kept (confirmed_unsolicited A ctx)"
    unfolding confirmed_unsolicited_def Let_def u(2) n_def .
qed

lemma OnConfirm_keeps:
  assumes k: "kept ctx" and c: "clears \<or> \<not> accepts_confirm (rq_header request) ctx" and r: "OnConfirm E A request ctx = Some (s, ctx')"
  shows "kept ctx'"
proof (cases "accepts_confirm (rq_header request) ctx")
  case False
  show ?thesis using r k unfolding OnConfirm_rejected [OF False] by simp
next
  case True
  then have c: clears using c by blast
  note k = confirmed_keeps [OF k c]
  show ?thesis
  proof (cases "oc_state ctx = StateSolicitedConfirmWait \<and> HasSelection (oc_db (confirmed_solicited A ctx)) (oc_events (confirmed_solicited A ctx))")
    case sel: True
    show ?thesis
      by (rule Continue_keeps [OF k(1)]) (use r sel in \<open>simp add: OnConfirm_accepted [OF True] Let_def\<close>)
  next
    case False
    then have "ctx' = confirmed_solicited A ctx \<or> ctx' = confirmed_unsolicited A ctx"
      using r unfolding OnConfirm_accepted [OF True] Let_def by (auto simp only: option.inject prod.inject if_False split: if_split_asm)
    then show ?thesis using k by blast
  qed
qed

text \<open>Timeouts, requests and repeats.\<close>

lemma kept_fields:
  "kept (ctx\<lparr>oc_state := s\<rparr>) = kept ctx" "kept (ctx\<lparr>unsolRetries := r\<rparr>) = kept ctx" "kept (ctx\<lparr>deferred := d\<rparr>) = kept ctx"
  "kept (ctx\<lparr>sol_num := n\<rparr>) = kept ctx" "kept (ctx\<lparr>shouldCheckForUnsolicited := x\<rparr>) = kept ctx" "kept (ctx\<lparr>isTransmitting := x\<rparr>) = kept ctx"
  "kept (ctx\<lparr>oc_isOnline := x\<rparr>) = kept ctx" "kept (ctx\<lparr>staticIIN := y\<rparr>) = kept ctx"
  by (simp_all add: kept_def)

lemma kept_unchanged:
  "kept (BeginTx dest m ctx) = kept ctx" "kept (RestartSolConfirmTimer ctx) = kept ctx" "kept (RestartUnsolConfirmTimer ctx) = kept ctx"
  "kept (cancel_timer ctx) = kept ctx" "kept (defer_request q ctx) = kept ctx" "kept (UpdateLastBroadcastMessageReceived d ctx) = kept ctx"
  "kept (BeginRetransmitLastResponse dest ctx) = kept ctx" "kept (BeginRetransmitLastUnsolicitedResponse ctx) = kept ctx"
  "kept (BeginUnsolTx rsp ctx) = kept ctx" "kept (enter (s, ctx)) = kept ctx"
  by (rule kept_res; simp)+

lemma enter_keeps: "kept (enter r) = kept (snd r)"
  by (cases r) (simp add: kept_unchanged(10))

lemma unselect_events_keeps: "kept ctx \<Longrightarrow> kept (set_events (EventBuffer_Unselect (oc_events ctx)) ctx)"
  by (simp only: kept_set(2)) (simp add: kept_def event_ops(2))

lemma OnConfirmTimeout_keeps:
  assumes k: "kept ctx"
  shows "kept (snd (OnConfirmTimeout ctx))"
proof -
  have u: "kept (set_events (EventBuffer_Unselect (oc_events c)) c)" "kept (BeginRetransmitLastUnsolicitedResponse (RestartUnsolConfirmTimer c))"
    if "c = ctx\<lparr>unsolRetries := r\<rparr>" for c r
    using unselect_events_keeps [of c] k by (simp_all add: that kept_unchanged kept_fields)
  show ?thesis
    using u [OF refl] k by (cases "oc_state ctx"; cases "Retry (unsolRetries ctx)") (simp_all add: OnConfirmTimeout_def Let_def)
qed

lemma OnNewReadRequest_keeps: "kept ctx \<Longrightarrow> OnNewReadRequest E A request ctx = Some (s, ctx') \<Longrightarrow> kept ctx'"
  using RespondToReadRequest_keeps [of ctx request s ctx'] RespondToReadRequest_keeps [of "cancel_timer ctx" request s ctx']
  by (cases "oc_state ctx") (auto simp: OnNewReadRequest_def kept_unchanged)

lemma OnNewNonReadRequest_keeps: "kept ctx \<Longrightarrow> kept (snd (OnNewNonReadRequest E A now request ctx))"
  by (cases "oc_state ctx") (simp_all add: OnNewNonReadRequest_def RespondToNonReadRequest_keeps kept_unchanged kept_fields)

lemma OnRepeat_keeps:
  "kept ctx \<Longrightarrow> kept (snd (OnRepeatNonReadRequest request ctx))" "kept ctx \<Longrightarrow> kept (snd (OnRepeatReadRequest request ctx))"
  by (cases "oc_state ctx"; simp add: OnRepeatNonReadRequest_def OnRepeatReadRequest_def kept_unchanged)+

lemma ProcessNewRequest_keeps: "kept ctx \<Longrightarrow> ProcessNewRequest E A now request ctx = Some (s, ctx') \<Longrightarrow> kept ctx'"
  using OnNewReadRequest_keeps [of "ctx\<lparr>sol_num := SEQ (control (rq_header request))\<rparr>" request s ctx']
    OnNewNonReadRequest_keeps [of "ctx\<lparr>sol_num := SEQ (control (rq_header request))\<rparr>" now request]
  by (auto simp: ProcessNewRequest_def Let_def kept_fields split: if_split_asm)

lemma OnReceiveSolRequest_keeps: "kept ctx \<Longrightarrow> OnReceiveSolRequest E A now request ctx = Some (s, ctx') \<Longrightarrow> kept ctx'"
  using ProcessNewRequest_keeps [of ctx now request s ctx'] OnRepeat_keeps [of ctx request]
  by (simp add: OnReceiveSolRequest_def split: if_split_asm)

lemma ProcessRequest_keeps: "kept ctx \<Longrightarrow> ProcessRequest E A now request ctx = Some ctx' \<Longrightarrow> kept ctx'"
  using OnReceiveSolRequest_keeps [of ctx now request] by (auto simp: ProcessRequest_def enter_keeps split: if_split_asm)

lemma ProcessConfirm_keeps:
  "kept ctx \<Longrightarrow> clears \<or> \<not> accepts_confirm (rq_header request) ctx \<Longrightarrow> ProcessConfirm E A request ctx = Some ctx' \<Longrightarrow> kept ctx'"
  using OnConfirm_keeps [of ctx request] by (auto simp: ProcessConfirm_def enter_keeps)

lemma ProcessObjects_keeps:
  assumes k: "kept ctx" and c: "clears \<or> \<not> (is_confirm request \<and> accepts_confirm (rq_header request) ctx)"
    and r: "ProcessObjects E A now request ctx = Some ctx'"
  shows "kept ctx'"
proof -
  have b: "kept (enter (OnBroadcastMessage E A now request ctx))" by (simp add: enter_keeps OnBroadcastMessage_def broadcast_keeps k)
  show ?thesis
    using r b c no_ack_keeps [OF k] ProcessConfirm_keeps [OF k _, of request ctx'] ProcessRequest_keeps [OF k, of now request ctx'] k
    by (auto simp: ProcessObjects_def kept_unchanged is_confirm_def split: if_split_asm)
qed

lemma ProcessDeferredRequest_keeps:
  assumes k: "kept ctx" and c: "clears \<or> \<not> is_confirm request" and r: "ProcessDeferredRequest E A now request ctx = Some (x, ctx')"
  shows "kept ctx'"
  using r c ProcessConfirm_keeps [OF k _, of request ctx'] ProcessRequest_keeps [OF k, of now request ctx'] k
  by (auto simp: ProcessDeferredRequest_def is_confirm_def split: if_split_asm)

lemma CheckForDeferredRequest_keeps:
  assumes k: "kept ctx" and c: "clears \<or> \<not> holds_confirm ctx" and r: "CheckForDeferredRequest E A now ctx = Some ctx'"
  shows "kept ctx'"
proof (cases "CanTransmit ctx \<and> df_isSet (deferred ctx)")
  case True
  then have c': "clears \<or> \<not> is_confirm (df_request (deferred ctx))" using c by (auto simp: holds_confirm_def)
  show ?thesis
  proof (cases "ProcessDeferredRequest E A now (df_request (deferred ctx)) ctx")
    case None
    then show ?thesis using r True by (simp add: CheckForDeferredRequest_def)
  next
    case (Some x)
    obtain p c1 where x: "x = (p, c1)" by fastforce
    have "ctx' = c1\<lparr>deferred := (deferred c1)\<lparr>df_isSet := \<not> p\<rparr>\<rparr>" using r True Some x by (simp add: CheckForDeferredRequest_def)
    then show ?thesis using ProcessDeferredRequest_keeps [OF k c' Some [unfolded x]] by (simp only: kept_fields)
  qed
next
  case False
  then have "CheckForDeferredRequest E A now ctx = Some ctx" unfolding CheckForDeferredRequest_def by (simp only: if_False)
  then show ?thesis using r k by simp
qed

lemma CheckForUnsolicitedNull_keeps: "kept ctx \<Longrightarrow> kept (CheckForUnsolicitedNull A ctx)"
  using GetResponseIIN_keeps [of ctx]
  by (simp add: CheckForUnsolicitedNull_def Let_def case_prod_beta kept_unchanged kept_fields)

lemma CheckForUnsolicited_keeps: "kept ctx \<Longrightarrow> kept (CheckForUnsolicited E A ctx)"
proof -
  assume k: "kept ctx"
  define c where "c = ctx\<lparr>shouldCheckForUnsolicited := False\<rparr>"
  define c1 where "c1 = c\<lparr>unsolRetries := NumRetries_Reset (unsolRetries c)\<rparr>"
  define b where "b = SelectAllByClass (unsolClassMask (oc_params c1)) (EventBuffer_Unselect (oc_events c1))"
  obtain x b1 rsp where l: "EventBuffer_Load E (TxBuffer_Start (unsol_tx c1)) b = (x, b1, rsp)" by (metis surj_pair)
  have kc: "kept c" "kept c1" using k by (simp_all add: c_def c1_def kept_fields)
  then have "I (oc_db c1) (oc_events c1)" by (simp add: kept_def)
  then have "I (oc_db c1) b" unfolding b_def by (intro event_ops(5) event_ops(2))
  then have "I (oc_db c1) b1" using event_ops(6) [of "oc_db c1" b "TxBuffer_Start (unsol_tx c1)"] l by simp
  then have "kept (set_events b1 c1)" by (simp only: kept_set(2))
  note g = GetResponseIIN_keeps [OF this]
  show ?thesis
    using k kc g unfolding CheckForUnsolicited_def Let_def case_prod_beta c_def [symmetric] c1_def [symmetric] b_def [symmetric] l fst_conv snd_conv
    by (simp only: kept_unchanged kept_fields split: if_split) blast
qed

lemma CheckForTaskStart_keeps:
  assumes k: "kept ctx" and c: "clears \<or> \<not> holds_confirm ctx" and r: "CheckForTaskStart E A now ctx = Some ctx'"
  shows "kept ctx'"
proof -
  obtain c1 where c1: "CheckForDeferredRequest E A now ctx = Some c1" "ctx' = CheckForUnsolicited E A (CheckForUnsolicitedNull A c1)"
    using r by (auto simp: CheckForTaskStart_def)
  show ?thesis
    unfolding c1(2) by (intro CheckForUnsolicited_keeps CheckForUnsolicitedNull_keeps CheckForDeferredRequest_keeps [OF k c c1(1)])
qed

lemma OnLowerLayerDown_keeps: "kept ctx \<Longrightarrow> kept (OnLowerLayerDown ctx)"
proof -
  assume k: "kept ctx"
  have "kept (set_events (EventBuffer_Unselect (oc_events ctx)) (ctx\<lparr>oc_state := StateIdle, oc_isOnline := False, isTransmitting := False, completedNull := False,
             history := RequestHistory_Reset (history ctx), deferred := DeferredRequest_Reset (deferred ctx), fragmentCount := 0\<rparr>))"
    using k by (simp only: kept_set(2)) (simp add: kept_def event_ops(2))
  then show ?thesis using k by (simp only: OnLowerLayerDown_def kept_unchanged split: if_split) blast
qed

end

text \<open>
  What the handlers of functions leave alone: the last request and response, the transmissions, the deferred request
  and the state.
\<close>

definition session :: "'a OContext \<Rightarrow>
    (RequestHistory \<times> DeferredRequest \<times> byte \<times> TxBuffer) \<times> (Message list \<times> bool \<times> bool) \<times> OutstationState \<times> u16 option \<times> bool" where
  "session ctx = ((history ctx, deferred ctx, sol_num ctx, sol_tx ctx), (transmitted ctx, isTransmitting ctx, oc_isOnline ctx),
     oc_state ctx, lastBroadcastMessageReceived ctx, completedNull ctx)"

lemma session_fields:
  assumes "session c = session d"
  shows "history c = history d" "deferred c = deferred d" "sol_num c = sol_num d" "sol_tx c = sol_tx d" "transmitted c = transmitted d"
    "isTransmitting c = isTransmitting d" "oc_isOnline c = oc_isOnline d" "oc_state c = oc_state d"
    "lastBroadcastMessageReceived c = lastBroadcastMessageReceived d" "completedNull c = completedNull d"
  using assms by (simp_all add: session_def)

lemma session_set [simp]:
  "session (set_db db ctx) = session ctx" "session (set_events b ctx) = session ctx" "session (set_app a ctx) = session ctx"
  "session (set_mask f ctx) = session ctx" "session (clear_written ctx) = session ctx" "session (notify_confirm A u ctx) = session ctx"
  by (simp_all add: session_def set_db_def set_events_def set_app_def set_mask_def clear_written_def notify_confirm_def)

lemma session_update [simp]:
  "session (ctx\<lparr>oc_res := r\<rparr>) = session ctx" "session (ctx\<lparr>fragmentCount := n\<rparr>) = session ctx" "session (ctx\<lparr>oc_time := s\<rparr>) = session ctx"
  "session (ctx\<lparr>staticIIN := i\<rparr>) = session ctx" "session (ctx\<lparr>oc_control := c\<rparr>) = session ctx" "session (ctx\<lparr>shouldCheckForUnsolicited := x\<rparr>) = session ctx"
  "session (ctx\<lparr>oc_time := s, staticIIN := i\<rparr>) = session ctx"
  by (simp_all add: session_def)

lemma session_GetResponseIIN [simp]: "session (snd (GetResponseIIN A ctx)) = session ctx"
  by (simp add: GetResponseIIN_def GetDynamicIIN_def Let_def case_prod_beta)

lemma session_handlers [simp]:
  "session (snd (HandleWrite E A now objects ctx)) = session ctx" "session (snd (HandleFreeze E A clr objects ctx)) = session ctx"
  "session (snd (HandleAssignClass E A objects ctx)) = session ctx" "session (snd (HandleDisableUnsolicited E objects ctx)) = session ctx"
  "session (snd (HandleEnableUnsolicited E objects ctx)) = session ctx" "session (snd (HandleRecordCurrentTime now ctx)) = session ctx"
  by (simp_all add: HandleWrite_def HandleFreeze_def HandleAssignClass_def HandleDisableUnsolicited_def HandleEnableUnsolicited_def
      HandleRecordCurrentTime_def Let_def case_prod_beta)

lemma session_run_adapter [simp]: "session (snd (snd (run_adapter E A is_select op objects writer ctx))) = session ctx"
  by (simp add: run_adapter_def case_prod_beta)

lemma session_responders [simp]:
  "session (snd (snd (HandleRestart E A objects warm w ctx))) = session ctx" "session (snd (snd (HandleDirectOperate E A objects op writer ctx))) = session ctx"
  "session (snd (snd (HandleSelect E A now objects w ctx))) = session ctx" "session (snd (snd (HandleOperate E A now objects w ctx))) = session ctx"
  by (simp_all add: HandleRestart_def HandleDirectOperate_def HandleSelect_def HandleOperate_def Let_def case_prod_beta split: RestartMode.split)

lemma session_functions [simp]:
  "session (snd (snd (HandleNonReadResponse E A now header objects w ctx))) = session ctx"
  "session (ProcessBroadcastRequest E A now request ctx) = session ctx" "session (ProcessRequestNoAck E A request ctx) = session ctx"
  by (simp_all add: HandleNonReadResponse_def ProcessBroadcastRequest_def ProcessRequestNoAck_def Let_def case_prod_beta split: FunctionCode.split)

lemma session_HandleRead: "HandleRead E objects w ctx = Some (iin, ctl, w', ctx') \<Longrightarrow> session ctx' = session ctx"
  by (auto simp: HandleRead_def Let_def case_prod_beta split: if_split_asm option.split_asm bind_splits)

text \<open>The deferred request.\<close>

lemma deferred_set [simp]:
  "deferred (set_db db ctx) = deferred ctx" "deferred (set_events b ctx) = deferred ctx" "deferred (set_app a ctx) = deferred ctx"
  "deferred (BeginTx dest m ctx) = deferred ctx" "deferred (RestartSolConfirmTimer ctx) = deferred ctx" "deferred (RestartUnsolConfirmTimer ctx) = deferred ctx"
  "deferred (cancel_timer ctx) = deferred ctx" "deferred (reset_history ctx) = deferred ctx" "deferred (set_mask f ctx) = deferred ctx"
  "deferred (UpdateLastBroadcastMessageReceived d ctx) = deferred ctx" "deferred (enter (s, ctx)) = deferred ctx"
  "deferred (BeginRetransmitLastResponse dest ctx) = deferred ctx"
  "deferred (clear_written ctx) = deferred ctx" "deferred (notify_confirm A u ctx) = deferred ctx"
  by (simp_all add: set_db_def set_events_def set_app_def BeginTx_def RestartSolConfirmTimer_def RestartUnsolConfirmTimer_def cancel_timer_def
      reset_history_def set_mask_def UpdateLastBroadcastMessageReceived_def enter_def BeginRetransmitLastResponse_def clear_written_def notify_confirm_def)

lemma deferred_broadcast [simp]: "deferred (snd (CheckForBroadcastConfirmation rsp ctx)) = deferred ctx"
  by (simp add: CheckForBroadcastConfirmation_def Let_def split: option.split)

lemma deferred_BeginResponseTx [simp]: "deferred (snd (BeginResponseTx dest rsp ctx)) = deferred ctx"
  by (simp add: BeginResponseTx_def Let_def case_prod_beta)

lemmas deferred_functions [simp] = session_functions [THEN session_fields(2)]
lemmas deferred_GetResponseIIN [simp] = session_GetResponseIIN [THEN session_fields(2)]
lemmas deferred_HandleRead = session_HandleRead [THEN session_fields(2)]

lemma deferred_nonread [simp]: "deferred (snd (RespondToNonReadRequest E A now request ctx)) = deferred ctx"
  by (simp add: RespondToNonReadRequest_def Let_def case_prod_beta)

lemma deferred_read: "RespondToReadRequest E A request ctx = Some (s, ctx') \<Longrightarrow> deferred ctx' = deferred ctx"
proof -
  assume r: "RespondToReadRequest E A request ctx = Some (s, ctx')"
  define c0 where "c0 = ctx\<lparr>history := RecordLastProcessedRequest (rq_header request) (rq_objects request) (history ctx)\<rparr>"
  obtain iin ctl rsp c1 w where h: "HandleRead E (rq_objects request) w c0 = Some (iin, ctl, rsp, c1)"
    "(s, ctx') = BeginResponseTx (source (rq_addresses request)) (SetIIN (IIN_or iin (fst (GetResponseIIN A c1))) (SetControl (ctl\<lparr>SEQ := SEQ (control (rq_header request))\<rparr>) rsp)) (snd (GetResponseIIN A c1))"
    using r by (auto simp: RespondToReadRequest_def Let_def case_prod_beta c0_def split: bind_splits)
  have "deferred c1 = deferred c0" by (rule deferred_HandleRead [OF h(1)])
  then have c: "deferred c1 = deferred ctx" by (simp add: c0_def)
  have "ctx' = snd (BeginResponseTx (source (rq_addresses request)) (SetIIN (IIN_or iin (fst (GetResponseIIN A c1)))
      (SetControl (ctl\<lparr>SEQ := SEQ (control (rq_header request))\<rparr>) rsp)) (snd (GetResponseIIN A c1)))"
    using h(2) by (metis snd_conv)
  then show ?thesis using c by simp
qed

lemma deferred_continue: "ContinueMultiFragResponse E A ad seq ctx = Some (s, ctx') \<Longrightarrow> deferred ctx' = deferred ctx"
proof -
  assume r: "ContinueMultiFragResponse E A ad seq ctx = Some (s, ctx')"
  obtain db b rsp f where "(s, ctx') = BeginResponseTx (source ad) rsp (snd (GetResponseIIN A (set_db db (set_events b (ctx\<lparr>fragmentCount := f\<rparr>)))))"
    using r by (auto simp: ContinueMultiFragResponse_def Let_def case_prod_beta split: bind_splits) metis
  then have "ctx' = snd (BeginResponseTx (source ad) rsp (snd (GetResponseIIN A (set_db db (set_events b (ctx\<lparr>fragmentCount := f\<rparr>))))))"
    by (metis snd_conv)
  then show ?thesis by simp
qed

text \<open>Only a request to read and anything that comes in during a transmission are deferred.\<close>

definition confirm_deferred :: "'a OContext \<Rightarrow> bool" where
  "confirm_deferred ctx = (df_isSet (deferred ctx) \<and> is_confirm (df_request (deferred ctx)))"

lemma holds_confirm_deferred: "holds_confirm ctx \<Longrightarrow> confirm_deferred ctx"
  by (simp add: holds_confirm_def confirm_deferred_def)

lemma defers_read: "func (rq_header request) = READ \<Longrightarrow> \<not> confirm_deferred (defer_request request ctx)"
  by (simp add: confirm_deferred_def defer_request_def DeferredRequest_Set_def is_confirm_def)

lemma deferral_cong: "deferred ctx' = deferred ctx \<Longrightarrow> confirm_deferred ctx' = confirm_deferred ctx"
  by (simp add: confirm_deferred_def)

lemma OnReceiveSolRequest_defers:
  assumes d: "\<not> confirm_deferred ctx" and r: "OnReceiveSolRequest E A now request ctx = Some (s, ctx')"
  shows "\<not> confirm_deferred ctx'"
proof -
  have n: "\<not> confirm_deferred ctx'" if "\<not> confirm_deferred c" "OnNewReadRequest E A request c = Some (s, ctx')" "func (rq_header request) = READ" for c
  proof (cases "oc_state c = StateUnsolicitedConfirmWait")
    case True
    then show ?thesis using that by (auto simp: OnNewReadRequest_def defers_read)
  next
    case False
    then have "deferred ctx' = deferred c"
      using that(2) deferred_read [of E A request c] deferred_read [of E A request "cancel_timer c"]
      by (cases "oc_state c") (simp_all add: OnNewReadRequest_def)
    then show ?thesis using that(1) deferral_cong by blast
  qed
  have nn: "\<not> confirm_deferred (snd (OnNewNonReadRequest E A now request c))" if "\<not> confirm_deferred c" for c
    using that by (cases "oc_state c") (simp_all add: OnNewNonReadRequest_def confirm_deferred_def DeferredRequest_Reset_def)
  note nn' = nn
  have rn: "\<not> confirm_deferred (snd (OnRepeatNonReadRequest request ctx))"
    using d by (cases "oc_state ctx") (simp_all add: OnRepeatNonReadRequest_def confirm_deferred_def)
  have rr: "\<not> confirm_deferred (snd (OnRepeatReadRequest request ctx))" if "func (rq_header request) = READ"
    using d defers_read [OF that] by (cases "oc_state ctx") (simp_all add: OnRepeatReadRequest_def confirm_deferred_def)
  have nn: "OnNewNonReadRequest E A now request c = (s, ctx') \<Longrightarrow> \<not> confirm_deferred c \<Longrightarrow> \<not> confirm_deferred ctx'" for c
    using nn' by (metis snd_conv)
  have sn: "\<not> confirm_deferred (ctx\<lparr>sol_num := x\<rparr>)" for x using d by (simp add: confirm_deferred_def)
  show ?thesis
    using r n [OF sn] nn [OF _ sn] rn rr unfolding OnReceiveSolRequest_def ProcessNewRequest_def Let_def
    by (auto split: if_split_asm)
qed

lemma ProcessObjects_defers:
  assumes d: "\<not> confirm_deferred ctx" and r: "ProcessObjects E A now request ctx = Some ctx'"
  shows "\<not> holds_confirm ctx'"
proof -
  have req: "\<not> confirm_deferred ctx'" if p: "ProcessRequest E A now request ctx = Some ctx'"
  proof (cases "UNS (control (rq_header request))")
    case False
    then obtain s c where c: "OnReceiveSolRequest E A now request ctx = Some (s, c)" "ctx' = enter (s, c)"
      using p by (auto simp: ProcessRequest_def)
    show ?thesis using OnReceiveSolRequest_defers [OF d c(1)] by (simp add: c(2) confirm_deferred_def)
  qed (use p d in \<open>simp add: ProcessRequest_def\<close>)
  have con: "\<not> confirm_deferred ctx'" if p: "ProcessConfirm E A request ctx = Some ctx'"
  proof -
    obtain s c where c: "OnConfirm E A request ctx = Some (s, c)" "ctx' = enter (s, c)" using p by (auto simp: ProcessConfirm_def)
    have "deferred c = deferred ctx"
    proof (cases "accepts_confirm (rq_header request) ctx")
      case False
      then show ?thesis using c(1) by (simp add: OnConfirm_rejected)
    next
      case True
      have u: "deferred (confirmed_solicited A ctx) = deferred ctx" "deferred (confirmed_unsolicited A ctx) = deferred ctx"
        by (simp_all add: confirmed_solicited_def confirmed_unsolicited_def Let_def)
      show ?thesis using c(1) u deferred_continue [of E A "rq_addresses request" _ "confirmed_solicited A ctx" s c]
        by (auto simp: OnConfirm_accepted [OF True] Let_def split: if_split_asm)
    qed
    then show ?thesis using d by (simp add: c(2) confirm_deferred_def)
  qed
  show ?thesis
  proof (cases "\<not> IsBroadcast (rq_addresses request) \<and> \<not> IsNoAckFuncCode (func (rq_header request)) \<and> isTransmitting ctx")
    case True
    then show ?thesis using r by (auto simp: ProcessObjects_def holds_confirm_def CanTransmit_def defer_request_def)
  next
    case False
    have b: "\<not> confirm_deferred (enter (OnBroadcastMessage E A now request ctx))" "\<not> confirm_deferred (ProcessRequestNoAck E A request ctx)"
      using d by (simp_all add: OnBroadcastMessage_def confirm_deferred_def)
    show ?thesis
      using r False b req con holds_confirm_deferred [of ctx'] unfolding ProcessObjects_def by (auto split: if_split_asm)
  qed
qed

text \<open>An event confirms a response when its message is a confirmation that the state accepts.\<close>

definition confirms :: "o_event \<Rightarrow> 'a OContext \<Rightarrow> bool" where
  "confirms ev ctx =
     (case ev of
        Receive message \<Rightarrow>
          (case ParseRequest (msg_payload message) of
             None \<Rightarrow> False
           | Some (header, objects) \<Rightarrow> func header = CONFIRM \<and> accepts_confirm header ctx)
      | _ \<Rightarrow> False)"

definition with_broadcast :: "Addresses \<Rightarrow> 'a OContext \<Rightarrow> 'a OContext" where
  "with_broadcast ad ctx = (if IsBroadcast ad then UpdateLastBroadcastMessageReceived (destination ad) ctx else ctx)"

lemma ProcessMessage_cases:
  assumes "ProcessMessage E A now message ctx = Some ctx'"
  obtains "ctx' = ctx" | "ctx' = with_broadcast (msg_addresses message) ctx"
  | header objects where "ParseRequest (msg_payload message) = Some (header, objects)" "IsFirAndFin (control header)" "\<not> CON (control header)"
      "ProcessObjects E A now \<lparr>rq_addresses = msg_addresses message, rq_header = header, rq_objects = objects\<rparr> (with_broadcast (msg_addresses message) ctx) = Some ctx'"
  using assms unfolding ProcessMessage_def Let_def with_broadcast_def [symmetric]
  by (cases "ParseRequest (msg_payload message)") (auto split: if_split_asm)

lemma with_broadcast_frame:
  "deferred (with_broadcast ad ctx) = deferred ctx" "accepts_confirm header (with_broadcast ad ctx) = accepts_confirm header ctx"
  "oc_res (with_broadcast ad ctx) = oc_res ctx"
  by (simp_all add: with_broadcast_def accepts_confirm_def UpdateLastBroadcastMessageReceived_def split: OutstationState.split)

lemma ProcessMessage_defers:
  assumes d: "\<not> confirm_deferred ctx" and r: "ProcessMessage E A now message ctx = Some ctx'"
  shows "\<not> holds_confirm ctx'"
proof -
  have w: "\<not> confirm_deferred (with_broadcast ad ctx)" for ad using d by (simp add: confirm_deferred_def with_broadcast_frame)
  show ?thesis
    using r by (rule ProcessMessage_cases) (use d w holds_confirm_deferred ProcessObjects_defers [OF w] in blast)+
qed

context resource_invariant
begin

lemma ProcessMessage_keeps:
  assumes k: "kept ctx" and c: "clears \<or> \<not> confirms (Receive message) ctx" and r: "ProcessMessage E A now message ctx = Some ctx'"
  shows "kept ctx'"
  using r
proof (rule ProcessMessage_cases)
  fix header objects
  assume p: "ParseRequest (msg_payload message) = Some (header, objects)"
    and o: "ProcessObjects E A now \<lparr>rq_addresses = msg_addresses message, rq_header = header, rq_objects = objects\<rparr> (with_broadcast (msg_addresses message) ctx) = Some ctx'"
  have "kept (with_broadcast (msg_addresses message) ctx)" using k kept_res [OF with_broadcast_frame(3)] by blast
  then show "kept ctx'"
    by (rule ProcessObjects_keeps [OF _ _ o]) (use c in \<open>simp add: confirms_def p is_confirm_def with_broadcast_frame\<close>)
qed (use k kept_res [OF with_broadcast_frame(3)] in auto)

theorem outstation_step_keeps:
  assumes k: "kept ctx" and c: "clears \<or> \<not> confirms ev ctx \<and> \<not> confirm_deferred ctx" and r: "outstation_step E A now ev ctx = Some ctx'"
  shows "kept ctx'"
proof (cases ev)
  case LowerLayerUp
  have "clears \<or> \<not> holds_confirm (ctx\<lparr>oc_isOnline := True, shouldCheckForUnsolicited := True\<rparr>)"
    using c by (auto simp: holds_confirm_def confirm_deferred_def)
  moreover have "kept (ctx\<lparr>oc_isOnline := True, shouldCheckForUnsolicited := True\<rparr>)" using k by (simp add: kept_def)
  ultimately show ?thesis using r k CheckForTaskStart_keeps by (auto simp: LowerLayerUp split: if_split_asm)
next
  case LowerLayerDown
  then show ?thesis using r k by (auto simp: OnLowerLayerDown_keeps)
next
  case TxReady
  have "clears \<or> \<not> holds_confirm (ctx\<lparr>isTransmitting := False\<rparr>)" using c by (auto simp: holds_confirm_def confirm_deferred_def)
  moreover have "kept (ctx\<lparr>isTransmitting := False\<rparr>)" using k by (simp add: kept_def)
  ultimately show ?thesis using r k CheckForTaskStart_keeps by (auto simp: TxReady split: if_split_asm)
next
  case (Receive message)
  show ?thesis
  proof (cases "oc_isOnline ctx")
    case True
    obtain c1 where c1: "ProcessMessage E A now message ctx = Some c1" "CheckForTaskStart E A now c1 = Some ctx'"
      using r True by (auto simp: Receive split: bind_splits)
    have "kept c1" by (rule ProcessMessage_keeps [OF k _ c1(1)]) (use c Receive in blast)
    then show ?thesis by (rule CheckForTaskStart_keeps [OF _ _ c1(2)]) (use c ProcessMessage_defers [OF _ c1(1)] in blast)
  qed (use r k in \<open>simp add: Receive\<close>)
next
  case ConfirmTimer
  have f: "deferred (snd (OnConfirmTimeout x)) = deferred x" for x :: "'a OContext"
    by (cases "oc_state x"; cases "Retry (unsolRetries x)")
      (simp_all add: OnConfirmTimeout_def Let_def BeginRetransmitLastUnsolicitedResponse_def)
  have "clears \<or> \<not> holds_confirm (enter (OnConfirmTimeout (cancel_timer ctx)))"
    using c holds_confirm_deferred [of "enter (OnConfirmTimeout (cancel_timer ctx))"] f [of "cancel_timer ctx"]
    by (auto simp: confirm_deferred_def enter_def case_prod_beta)
  moreover have "kept (enter (OnConfirmTimeout (cancel_timer ctx)))" using k by (simp add: enter_keeps OnConfirmTimeout_keeps kept_unchanged)
  ultimately show ?thesis using r k CheckForTaskStart_keeps by (auto simp: ConfirmTimer split: if_split_asm)
next
  case (NewEvents us)
  define c1 where "c1 = ctx\<lparr>oc_res := fold (\<lambda>u r. apply_update (Now A (rs_app r)) u r) us (oc_res ctx), shouldCheckForUnsolicited := True\<rparr>"
  have "clears \<or> \<not> holds_confirm c1" using c by (auto simp: holds_confirm_def confirm_deferred_def c1_def)
  moreover have "kept c1" using k apply_now_keeps [of "oc_res ctx" "\<lambda>r. Now A (rs_app r)" us] by (simp add: kept_def c1_def)
  ultimately show ?thesis using r k CheckForTaskStart_keeps [of c1 now ctx'] by (auto simp: NewEvents c1_def split: if_split_asm)
next
  case SetRestart
  then show ?thesis using r k by (auto simp: kept_fields)
qed

end

end
