(* ===== verification/Out_Application.thy ===== *)
theory Out_Application
  imports Out_Session Gw_Dnp3
begin

text \<open>
  The applications that the gateway hands to its outstation (\<open>Main.cpp\<close>): \<open>DefaultOutstationApplication\<close>, with
  \<open>SimpleCommandHandler\<close> where the program is built without Modbus, and else with the gateway's own handler of commands
  (\<open>RPI_slavednp3/src/Dnp3.cpp\<close>).
\<close>

section \<open>The default application\<close>

text \<open>
  \<open>clock_readings\<close> are the values that the system clock has for the calls of one event, in nanoseconds since its epoch,
  in the order in which the code reads it.
\<close>

record DefaultOutstationApplication =
  refresh_rate :: i64
  last_timestamp :: u64
  last_update :: i64
  clock_readings :: "nat \<Rightarrow> i64"

definition DefaultOutstationApplication_make :: "i64 \<Rightarrow> (nat \<Rightarrow> i64) \<Rightarrow> DefaultOutstationApplication" where
  "DefaultOutstationApplication_make refresh readings =
     \<lparr>refresh_rate = refresh, last_timestamp = 0, last_update = 0, clock_readings = readings\<rparr>"

definition IsTimeValid :: "i64 \<Rightarrow> DefaultOutstationApplication \<Rightarrow> bool" where
  "IsTimeValid reading a = (reading - last_update a \<le>s refresh_rate a)"

definition NeedsTime :: "i64 \<Rightarrow> DefaultOutstationApplication \<Rightarrow> bool" where
  "NeedsTime reading a = (word_of_int (sint (refresh_rate a) sdiv 2) <s reading - last_update a)"

definition Default_Now :: "i64 \<Rightarrow> i64 \<Rightarrow> DefaultOutstationApplication \<Rightarrow> DNPTime" where
  "Default_Now reading1 reading2 a =
     \<lparr>dt_value = last_timestamp a + word_of_int (sint (reading1 - last_update a) sdiv 1000000),
      dt_quality = (if IsTimeValid reading2 a then SYNCHRONIZED else UNSYNCHRONIZED)\<rparr>"

definition Default_WriteAbsoluteTime :: "u64 \<Rightarrow> DefaultOutstationApplication \<Rightarrow> bool \<times> DefaultOutstationApplication" where
  "Default_WriteAbsoluteTime timestamp a = (True, a\<lparr>last_timestamp := timestamp, last_update := clock_readings a 0\<rparr>)"

definition Default_GetApplicationIIN :: "DefaultOutstationApplication \<Rightarrow> ApplicationIIN" where
  "Default_GetApplicationIIN a =
     \<lparr>needTime = NeedsTime (clock_readings a 0) a, localControl = False, deviceTrouble = False, configCorrupt = False, eventBufferOverflow = False\<rparr>"

text \<open>The default application beside a handler of commands, which does not update points.\<close>

record 'h hosted =
  host :: DefaultOutstationApplication
  handler :: 'h

record 'h command_handler =
  handler_Begin :: "'h \<Rightarrow> 'h"
  handler_End :: "'h \<Rightarrow> 'h"
  handler_Select :: "command \<Rightarrow> u16 \<Rightarrow> 'h \<Rightarrow> CommandStatus \<times> 'h"
  handler_Operate :: "command \<Rightarrow> u16 \<Rightarrow> OperateType \<Rightarrow> 'h \<Rightarrow> CommandStatus \<times> 'h"

definition default_application :: "'h command_handler \<Rightarrow> 'h hosted Application" where
  "default_application H =
     \<lparr>SupportsWriteAbsoluteTime = (\<lambda>_. True),
      WriteAbsoluteTime = (\<lambda>t a. let (ok, d) = Default_WriteAbsoluteTime t (host a) in (ok, a\<lparr>host := d\<rparr>)),
      SupportsWriteTimeAndInterval = (\<lambda>_. False), WriteTimeAndInterval = (\<lambda>_ a. (False, a)),
      SupportsAssignClass = (\<lambda>_. True), RecordClassAssignment = (\<lambda>_ _ _ _ a. a),
      GetApplicationIIN = (\<lambda>a. Default_GetApplicationIIN (host a)),
      ColdRestartSupport = (\<lambda>_. UNSUPPORTED), WarmRestartSupport = (\<lambda>_. UNSUPPORTED),
      ColdRestart = (\<lambda>a. (65535, a)), WarmRestart = (\<lambda>a. (65535, a)), OnConfirmProcessed = (\<lambda>_ _ _ _ a. a),
      Now = (\<lambda>a n. Default_Now (clock_readings (host a) (2 * n)) (clock_readings (host a) (2 * n + 1)) (host a)),
      Cmd_Begin = (\<lambda>a. a\<lparr>handler := handler_Begin H (handler a)\<rparr>), Cmd_End = (\<lambda>a. a\<lparr>handler := handler_End H (handler a)\<rparr>),
      Cmd_Select = (\<lambda>c i a. let (st, h) = handler_Select H c i (handler a) in (st, a\<lparr>handler := h\<rparr>)),
      Cmd_Operate = (\<lambda>c i op r. let (st, h) = handler_Operate H c i op (handler (rs_app r)) in (st, r\<lparr>rs_app := (rs_app r)\<lparr>handler := h\<rparr>\<rparr>))\<rparr>"

section \<open>Handlers of commands\<close>

record SimpleCommandHandler =
  sc_status :: CommandStatus
  numOperate :: u32
  numSelect :: u32
  numStart :: u32
  numEnd :: u32

definition SimpleCommandHandler_make :: "CommandStatus \<Rightarrow> SimpleCommandHandler" where
  "SimpleCommandHandler_make status = \<lparr>sc_status = status, numOperate = 0, numSelect = 0, numStart = 0, numEnd = 0\<rparr>"

definition Simple_handler :: "SimpleCommandHandler command_handler" where
  "Simple_handler =
     \<lparr>handler_Begin = (\<lambda>h. h\<lparr>numStart := numStart h + 1\<rparr>), handler_End = (\<lambda>h. h\<lparr>numEnd := numEnd h + 1\<rparr>),
      handler_Select = (\<lambda>_ _ h. (sc_status h, h\<lparr>numSelect := numSelect h + 1\<rparr>)),
      handler_Operate = (\<lambda>_ _ _ h. (sc_status h, h\<lparr>numOperate := numOperate h + 1\<rparr>))\<rparr>"

text \<open>The handler of the gateway, over the lists of commands that it was made with.\<close>

fun analog_of :: "command \<Rightarrow> AnalogCommand option" where
  "analog_of (Cmd_CROB c) = None"
| "analog_of (Cmd_Int16 v) = Some (AnalogOutputInt16 (ao_value v))"
| "analog_of (Cmd_Int32 v) = Some (AnalogOutputInt32 (ao_value v))"
| "analog_of (Cmd_Float32 v) = Some (AnalogOutputFloat32 (ao_value v))"
| "analog_of (Cmd_Double64 v) = Some (AnalogOutputDouble64 (ao_value v))"

definition gateway_handler :: "env \<Rightarrow> 'w modbus_lib \<Rightarrow> CommandPointConfig list \<Rightarrow> CommandPointConfig list \<Rightarrow> 'w gateway command_handler" where
  "gateway_handler E L analog_cmds binary_cmds =
     \<lparr>handler_Begin = id, handler_End = id,
      handler_Select = (\<lambda>c i st. case c of
         Cmd_CROB crob \<Rightarrow> Select_CROB E binary_cmds crob i st
       | _ \<Rightarrow> (case analog_of c of None \<Rightarrow> (UNDEFINED, st) | Some a \<Rightarrow> Select_Analog E analog_cmds a i st)),
      handler_Operate = (\<lambda>c i op st. case c of
         Cmd_CROB crob \<Rightarrow> Operate_CROB E L binary_cmds crob i op st
       | _ \<Rightarrow> (case analog_of c of None \<Rightarrow> (UNDEFINED, st) | Some a \<Rightarrow> Operate_Analog E L analog_cmds a i op st))\<rparr>"

end
