(* ===== verification/Out_Returns.thy ===== *)
theory Out_Returns
  imports Out_Application
begin

text \<open>
  An outstation returns from every event. Its handler of commands touches points only by updates; the invariant of the
  database and the contents of the event buffer are two instances of the locales of \<open>Out_Context_Laws\<close>.
\<close>

section \<open>Handlers that update points\<close>

locale updating_handler =
  fixes A :: "'a Application"
  assumes operates: "Cmd_Operate A cmd i op r = (st, r')
    \<Longrightarrow> \<exists>us. rs_db r' = rs_db (apply_updates us r) \<and> rs_events r' = rs_events (apply_updates us r)"

text \<open>The events of a buffer are those that it had, after the updates that came in.\<close>

definition updated_from :: "EventBufferConfig \<Rightarrow> (u16 \<times> EventClass \<times> event_value) list \<Rightarrow> EventBuffer \<Rightarrow> bool" where
  "updated_from cfg q b = (buffer_inv cfg b \<and> (\<exists>es. map ident (buffer_events b) = fold (queue_update cfg) es q))"

lemma updated_from_refl: "buffer_inv cfg b \<Longrightarrow> updated_from cfg (map ident (buffer_events b)) b"
  unfolding updated_from_def by (intro conjI exI [of _ "[]"]) simp_all

interpretation db_laws: resource_laws E "\<lambda>db b. db_inv db" True for E
proof unfold_locales
  fix db db' :: Database and p
  assume "db_inv db" "run_db_op E p db = Some db'"
  with run_db_op_inv [of db E p] show "db_inv db'" by auto
qed

interpretation queue_laws: resource_laws E "\<lambda>db b. updated_from cfg q b" False for E cfg q
proof unfold_locales
  fix b x
  assume u: "updated_from cfg q b" and x: "x \<noteq> Do_ClearWritten \<or> False"
  then obtain es where es: "map ident (buffer_events b) = fold (queue_update cfg) es q" by (auto simp: updated_from_def)
  have inv: "buffer_inv cfg (run_event_op E x b)" "map ident (buffer_events (run_event_op E x b)) = queue_op cfg x (buffer_events b)"
    using run_event_op_step [of cfg b E x] u by (simp_all add: updated_from_def)
  have "\<exists>es'. queue_op cfg x (buffer_events b) = fold (queue_update cfg) (es @ es') q"
  proof (cases x)
    case (Do_Update e)
    then show ?thesis by (intro exI [of _ "[e]"]) (simp add: es)
  qed (use x es in \<open>auto intro: exI [of _ "[]"]\<close>)
  then show "updated_from cfg q (run_event_op E x b)" using inv unfolding updated_from_def by (metis (no_types))
qed

interpretation buffer_laws: resource_laws E "\<lambda>db b. buffer_inv cfg b" True for E cfg
  by unfold_locales (simp_all add: run_event_op_step)

sublocale updating_handler \<subseteq> total: resource_invariant E "\<lambda>db b. db_inv db" True A for E
proof unfold_locales
  fix r r' :: "'a Resources" and cmd i op st
  assume i: "db_inv (rs_db r)" and o: "Cmd_Operate A cmd i op r = (st, r')"
  from operates [OF o] db_laws.apply_updates_keep [OF i] show "db_inv (rs_db r')" by auto
qed

sublocale updating_handler \<subseteq> buffered: resource_invariant E "\<lambda>db b. buffer_inv cfg b" True A for E cfg
proof unfold_locales
  fix r r' :: "'a Resources" and cmd i op st
  assume i: "buffer_inv cfg (rs_events r)" and o: "Cmd_Operate A cmd i op r = (st, r')"
  from operates [OF o] buffer_laws.apply_updates_keep [OF i] show "buffer_inv cfg (rs_events r')" by auto
qed

sublocale updating_handler \<subseteq> queue: resource_invariant E "\<lambda>db b. updated_from cfg q b" False A for E cfg q
proof unfold_locales
  fix r r' :: "'a Resources" and cmd i op st
  assume i: "updated_from cfg q (rs_events r)" and o: "Cmd_Operate A cmd i op r = (st, r')"
  from operates [OF o] queue_laws.apply_updates_keep [OF i] show "updated_from cfg q (rs_events r')" by auto
qed

section \<open>Every function returns\<close>

lemma LoadResponse_returns: "db_inv db \<Longrightarrow> \<exists>r. LoadResponse E n db b w = Some r"
proof -
  assume i: "db_inv db"
  obtain full b1 w1 where e: "EventBuffer_Load E w b = (full, b1, w1)" by (metis surj_pair)
  obtain ok db' w' where l: "Database_Load E db w1 = Some (ok, db', w')" using load_law [OF i] by blast
  show ?thesis by (cases full) (simp_all add: LoadResponse_def e l Let_def)
qed

context updating_handler
begin

lemma total_kept: "total.kept ctx = db_inv (oc_db ctx)" by (simp add: total.kept_def)

lemma HandleRead_returns: "db_inv (oc_db ctx) \<Longrightarrow> \<exists>r. HandleRead E objects w ctx = Some r"
proof -
  assume i: "db_inv (oc_db ctx)"
  define s0 where "s0 = (Database_Unselect (oc_db ctx), EventBuffer_Unselect (oc_events ctx))"
  obtain res hn where p: "Parse_with (lib_u16 E) objects allow_all False ReadHandler_ProcessHeader s0 = (res, hn)" by fastforce
  obtain db b where s: "hn_state hn = (db, b)" by (metis surj_pair)
  have "(\<lambda>s. db_inv (fst s)) (hn_state (snd (Parse_with (lib_u16 E) objects allow_all False ReadHandler_ProcessHeader s0)))"
    by (rule Parse_with_keeps [where K = "\<lambda>s. db_inv (fst s)"]) (erule (1) total.read_headers_keep, simp add: s0_def unselect_inv i)
  then have "db_inv db" by (simp add: p s)
  then obtain r where "LoadResponse E 0 db b w = Some r" using LoadResponse_returns by blast
  then show ?thesis unfolding HandleRead_split [OF p [unfolded s0_def] s] by (cases r) simp
qed

lemma RespondToReadRequest_returns: "db_inv (oc_db ctx) \<Longrightarrow> \<exists>r. RespondToReadRequest E A request ctx = Some r"
proof -
  assume i: "db_inv (oc_db ctx)"
  define c0 where "c0 = ctx\<lparr>history := RecordLastProcessedRequest (rq_header request) (rq_objects request) (history ctx)\<rparr>"
  have s: "sol_tx c0 = sol_tx ctx" by (simp add: c0_def)
  obtain r where "HandleRead E (rq_objects request) (SetFunction RESPONSE (TxBuffer_Start (sol_tx ctx))) c0 = Some r"
    using HandleRead_returns [of c0] i by (simp add: c0_def) blast
  then show ?thesis by (cases r) (simp add: RespondToReadRequest_def Let_def case_prod_beta s flip: c0_def)
qed

lemma Continue_returns: "db_inv (oc_db ctx) \<Longrightarrow> \<exists>r. ContinueMultiFragResponse E A ad seq ctx = Some r"
proof -
  assume i: "db_inv (oc_db ctx)"
  obtain r where "LoadResponse E (fragmentCount ctx) (oc_db ctx) (oc_events ctx) (SetFunction RESPONSE (TxBuffer_Start (sol_tx ctx))) = Some r"
    using LoadResponse_returns [OF i] by blast
  then show ?thesis by (cases r) (simp add: ContinueMultiFragResponse_def Let_def case_prod_beta)
qed

lemma OnConfirm_returns: "db_inv (oc_db ctx) \<Longrightarrow> \<exists>r. OnConfirm E A request ctx = Some r"
proof -
  assume i: "db_inv (oc_db ctx)"
  show ?thesis
  proof (cases "accepts_confirm (rq_header request) ctx")
    case True
    have "db_inv (oc_db (confirmed_solicited A ctx))"
      using total.confirmed_keeps(1) [of ctx] i by (simp add: total.kept_def)
    from Continue_returns [OF this] show ?thesis by (simp add: OnConfirm_accepted [OF True] Let_def)
  qed (simp add: OnConfirm_rejected)
qed

lemma OnReceiveSolRequest_returns: "db_inv (oc_db ctx) \<Longrightarrow> \<exists>r. OnReceiveSolRequest E A tm request ctx = Some r"
proof -
  assume i: "db_inv (oc_db ctx)"
  have n: "\<exists>r. OnNewReadRequest E A request c = Some r" if "db_inv (oc_db c)" for c
    using that RespondToReadRequest_returns [of c] RespondToReadRequest_returns [of "cancel_timer c"]
    by (cases "oc_state c") (simp_all add: OnNewReadRequest_def)
  show ?thesis using n [of "ctx\<lparr>sol_num := SEQ (control (rq_header request))\<rparr>"] i
    by (simp add: OnReceiveSolRequest_def ProcessNewRequest_def Let_def)
qed

lemma ProcessRequest_returns: "db_inv (oc_db ctx) \<Longrightarrow> \<exists>r. ProcessRequest E A tm request ctx = Some r"
  using OnReceiveSolRequest_returns [of ctx E tm request] by (auto simp: ProcessRequest_def)

lemma ProcessConfirm_returns: "db_inv (oc_db ctx) \<Longrightarrow> \<exists>r. ProcessConfirm E A request ctx = Some r"
  using OnConfirm_returns [of ctx E request] by (auto simp: ProcessConfirm_def)

lemma ProcessMessage_returns: "db_inv (oc_db ctx) \<Longrightarrow> \<exists>r. ProcessMessage E A tm message ctx = Some r"
proof -
  assume i: "db_inv (oc_db ctx)"
  define c where "c = with_broadcast (msg_addresses message) ctx"
  have i: "db_inv (oc_db c)" using i by (simp add: c_def with_broadcast_frame)
  have "\<exists>r. ProcessObjects E A tm request c = Some r" for request
    using ProcessRequest_returns [OF i, of E tm request] ProcessConfirm_returns [OF i, of E request] by (simp add: ProcessObjects_def)
  then show ?thesis
    unfolding ProcessMessage_def Let_def with_broadcast_def [symmetric] c_def [symmetric]
    by (cases "ParseRequest (msg_payload message)") auto
qed

lemma CheckForTaskStart_returns: "db_inv (oc_db ctx) \<Longrightarrow> \<exists>r. CheckForTaskStart E A tm ctx = Some r"
proof -
  assume i: "db_inv (oc_db ctx)"
  have "\<exists>p c. ProcessDeferredRequest E A tm request ctx = Some (p, c)" for request
    using ProcessRequest_returns [OF i, of E tm request] ProcessConfirm_returns [OF i, of E request] by (auto simp: ProcessDeferredRequest_def)
  from this [of "df_request (deferred ctx)"] show ?thesis by (auto simp: CheckForTaskStart_def CheckForDeferredRequest_def)
qed

lemma outstation_step_returns:
  assumes i: "db_inv (oc_db ctx)"
  shows "\<exists>ctx'. outstation_step E A tm ev ctx = Some ctx' \<and> db_inv (oc_db ctx')"
proof -
  have t: "\<exists>r. CheckForTaskStart E A tm c = Some r" if "total.kept c" for c
    using CheckForTaskStart_returns that by (simp only: total_kept)
  have k: "total.kept ctx" using i by (simp only: total_kept)
  have "\<exists>ctx'. outstation_step E A tm ev ctx = Some ctx'"
  proof (cases ev)
    case LowerLayerUp
    then show ?thesis using CheckForTaskStart_returns [of "ctx\<lparr>oc_isOnline := True, shouldCheckForUnsolicited := True\<rparr>"] i by simp
  next
    case TxReady
    then show ?thesis using CheckForTaskStart_returns [of "ctx\<lparr>isTransmitting := False\<rparr>"] i by simp
  next
    case (Receive message)
    obtain c where c: "ProcessMessage E A tm message ctx = Some c" using ProcessMessage_returns [OF i] by blast
    have "total.kept c" using total.ProcessMessage_keeps [OF k _ c] by blast
    with t show ?thesis by (simp add: Receive c)
  next
    case ConfirmTimer
    have "total.kept (enter (OnConfirmTimeout (cancel_timer ctx)))" using k by (simp add: total.enter_keeps total.OnConfirmTimeout_keeps total.kept_unchanged)
    with t show ?thesis by (simp add: ConfirmTimer)
  next
    case (NewEvents us)
    have "db_inv (oc_db (ctx\<lparr>oc_res := fold (\<lambda>u r. apply_update (Now A (rs_app r)) u r) us (oc_res ctx), shouldCheckForUnsolicited := True\<rparr>))"
      using db_laws.apply_now_keeps [of "oc_res ctx" "\<lambda>r. Now A (rs_app r)" us] i by simp
    from CheckForTaskStart_returns [OF this] show ?thesis by (simp add: NewEvents)
  qed simp_all
  then obtain c where c: "outstation_step E A tm ev ctx = Some c" by blast
  from total.outstation_step_keeps [OF k _ c] have "total.kept c" by blast
  with c show ?thesis by (simp only: total_kept) blast
qed

lemma outstation_run_returns: "db_inv (oc_db ctx) \<Longrightarrow> \<exists>ctx'. outstation_run E A evs ctx = Some ctx' \<and> db_inv (oc_db ctx')"
proof (induction evs arbitrary: ctx)
  case (Cons e evs)
  obtain tm ev where e: "e = (tm, ev)" by fastforce
  from outstation_step_returns [OF Cons.prems, of E tm ev] obtain c where c: "outstation_step E A tm ev ctx = Some c" "db_inv (oc_db c)" by blast
  from Cons.IH [OF c(2)] show ?case by (simp add: e c(1))
qed simp

lemma outstation_run_buffer:
  "buffer_inv cfg (oc_events ctx) \<Longrightarrow> outstation_run E A evs ctx = Some ctx' \<Longrightarrow> buffer_inv cfg (oc_events ctx')"
proof (induction evs arbitrary: ctx)
  case (Cons e evs)
  obtain tm ev where e: "e = (tm, ev)" by fastforce
  obtain c where c: "outstation_step E A tm ev ctx = Some c" "outstation_run E A evs c = Some ctx'"
    using Cons.prems(2) by (auto simp: e split: bind_splits)
  have "buffered.kept cfg c"
    by (rule buffered.outstation_step_keeps [OF _ _ c(1)]) (use Cons.prems(1) in \<open>simp_all add: buffered.kept_def\<close>)
  then show ?case using Cons.IH c(2) by (simp add: buffered.kept_def)
qed simp

lemma step_keeps_events:
  assumes "buffer_inv cfg (oc_events ctx)" "\<not> confirms ev ctx" "\<not> confirm_deferred ctx" "outstation_step E A tm ev ctx = Some ctx'"
  shows "\<exists>es. map ident (buffer_events (oc_events ctx')) = fold (queue_update cfg) es (map ident (buffer_events (oc_events ctx)))"
proof -
  have "queue.kept cfg (map ident (buffer_events (oc_events ctx))) ctx'"
    by (rule queue.outstation_step_keeps [OF _ _ assms(4)]) (use assms in \<open>simp_all add: queue.kept_def updated_from_refl\<close>)
  then have "updated_from cfg (map ident (buffer_events (oc_events ctx))) (oc_events ctx')" by (simp only: queue.kept_def)
  then show ?thesis unfolding updated_from_def by blast
qed

end

section \<open>The applications of the gateway\<close>

interpretation default: updating_handler "default_application H" for H
proof unfold_locales
  fix cmd i op r st r'
  assume "Cmd_Operate (default_application H) cmd i op r = (st, r')"
  then have "rs_db r' = rs_db (apply_updates [] r) \<and> rs_events r' = rs_events (apply_updates [] r)"
    by (auto simp: default_application_def apply_updates_def case_prod_beta Let_def)
  then show "\<exists>us. rs_db r' = rs_db (apply_updates us r) \<and> rs_events r' = rs_events (apply_updates us r)" by blast
qed

text \<open>
  C6. The outstation returns from everything. From any configuration that the types allow and with any
  command handler that changes points only by updates, every sequence of messages, timeouts, updates and changes of the
  layer below is processed to its end, although reads loop until the response is full or complete.
\<close>

theorem outstation_always_returns:
  assumes "config_ok cfg" "updating_handler A"
  shows "\<exists>ctx. outstation_run E A evs (OContext_make addrs params ec cfg app) = Some ctx"
proof -
  have "db_inv (oc_db (OContext_make addrs params ec cfg app))" by (simp add: OContext_make_def make_db_inv [OF assms(1)])
  from updating_handler.outstation_run_returns [OF assms(2) this] show ?thesis by blast
qed

lemma make_buffer_inv: "buffer_inv cfg (EventBuffer_make cfg)"
  using storage_make [of cfg] by (simp add: buffer_inv_def EventBuffer_make_def) (simp add: EventLists_make_def)

text \<open>
  C7. Events stay until the master confirms them. In any reachable state of the outstation, an event that
  is not an accepted confirmation, when none was deferred either, removes no event: the buffer holds the
  events it had, in their order, after the updates that came in, which drop the oldest event of a type only when its queue is full.
\<close>

theorem events_kept_until_confirmed:
  assumes "updating_handler A" "outstation_run E A evs (OContext_make addrs params ec cfg app) = Some ctx"
    "\<not> confirms ev ctx" "\<not> confirm_deferred ctx" "outstation_step E A tm ev ctx = Some ctx'"
  shows "\<exists>es. map ident (buffer_events (oc_events ctx')) = fold (queue_update ec) es (map ident (buffer_events (oc_events ctx)))"
proof -
  have "buffer_inv ec (oc_events (OContext_make addrs params ec cfg app))" by (simp add: OContext_make_def make_buffer_inv)
  from updating_handler.outstation_run_buffer [OF assms(1) this assms(2)] show ?thesis
    by (rule updating_handler.step_keeps_events [OF assms(1) _ assms(3-5)])
qed

text \<open>Witnesses: the program that is built without Modbus.\<close>

abbreviation plain_application :: "SimpleCommandHandler hosted Application" where
  "plain_application \<equiv> default_application Simple_handler"

definition plain_start :: "SimpleCommandHandler hosted OContext" where
  "plain_start = OContext_make \<lparr>source = 10, destination = 1\<rparr> OutstationParams_default (EventBufferConfig_AllTypes 2) (DatabaseConfig_make 2)
     \<lparr>host = DefaultOutstationApplication_make (Minutes 1) (\<lambda>_. 0), handler = SimpleCommandHandler_make NOT_SUPPORTED\<rparr>"

lemma two_points_ok: "config_ok (DatabaseConfig_make 2)"
  by (simp add: config_ok_def points_ok_def DatabaseConfig_make_def initialize_def PointConfig_default_def StaticBinaryVariations_def
      StaticDoubleBinaryVariations_def StaticAnalogVariations_def StaticCounterVariations_def StaticFrozenCounterVariations_def
      StaticBinaryOutputStatusVariations_def StaticAnalogOutputStatusVariations_def StaticTimeAndIntervalVariations_def
      StaticOctetStringVariations_def upt_conv_Cons)

theorem outstation_always_returns_witness:
  "\<exists>ctx. outstation_run little_endian plain_application
     [(0, LowerLayerUp), (1, Receive \<lparr>msg_addresses = \<lparr>source = 1, destination = 10\<rparr>, msg_payload = [0xC0, 0x01, 60, 2, 6]\<rparr>)] plain_start = Some ctx"
  unfolding plain_start_def by (rule outstation_always_returns [OF two_points_ok default.updating_handler_axioms])

theorem events_kept_until_confirmed_witness:
  "\<exists>ctx ctx' es. outstation_run little_endian plain_application [(0, LowerLayerUp)] plain_start = Some ctx
     \<and> outstation_step little_endian plain_application 1
         (Receive \<lparr>msg_addresses = \<lparr>source = 1, destination = 10\<rparr>, msg_payload = [0xC0, 0x01, 60, 2, 6]\<rparr>) ctx = Some ctx'
     \<and> map ident (buffer_events (oc_events ctx')) = fold (queue_update (EventBufferConfig_AllTypes 2)) es (map ident (buffer_events (oc_events ctx)))"
proof -
  let ?m = "\<lparr>msg_addresses = \<lparr>source = 1, destination = 10\<rparr>, msg_payload = [0xC0, 0x01, 60, 2, 6]\<rparr>"
  have inv: "db_inv (oc_db plain_start)" by (simp add: plain_start_def OContext_make_def make_db_inv two_points_ok)
  obtain ctx where r: "outstation_run little_endian plain_application [(0, LowerLayerUp)] plain_start = Some ctx" "db_inv (oc_db ctx)"
    using default.outstation_run_returns [OF inv] by blast
  obtain ctx' where s: "outstation_step little_endian plain_application 1 (Receive ?m) ctx = Some ctx'"
    using default.outstation_step_returns [OF r(2)] by blast
  have c: "\<not> confirms (Receive ?m) ctx"
    by (simp add: confirms_def ParseRequest_def Let_def FunctionCode_from_type_def)
  have "\<not> confirm_deferred ctx"
    using r(1) by (auto simp: plain_start_def OContext_make_def CheckForTaskStart_def CheckForDeferredRequest_def CheckForUnsolicited_def
        CheckForUnsolicitedNull_def OutstationParams_default_def confirm_deferred_def CanTransmit_def)
  from events_kept_until_confirmed [OF default.updating_handler_axioms r(1) [unfolded plain_start_def] c this s]
  show ?thesis using r(1) s by blast
qed

end
