(* ===== verification/Out_Safety.thy ===== *)
theory Out_Safety
  imports Out_Returns
begin

text \<open>
  What the session of the outstation does not do: it does not execute a request twice, does not send a fragment while
  another is on its way, and does not operate without a selection; and what it does against its intent, with a
  confirmation of another response and with a selection that failed.
\<close>

section \<open>Responses that are sent\<close>

lemma CheckForBroadcastConfirmation_frame:
  "history (snd (CheckForBroadcastConfirmation rsp ctx)) = history ctx" "sol_num (snd (CheckForBroadcastConfirmation rsp ctx)) = sol_num ctx"
  "transmitted (snd (CheckForBroadcastConfirmation rsp ctx)) = transmitted ctx" "oc_addresses (snd (CheckForBroadcastConfirmation rsp ctx)) = oc_addresses ctx"
  "isTransmitting (snd (CheckForBroadcastConfirmation rsp ctx)) = isTransmitting ctx" "oc_isOnline (snd (CheckForBroadcastConfirmation rsp ctx)) = oc_isOnline ctx"
  by (simp_all add: CheckForBroadcastConfirmation_def Let_def split: option.split)

text \<open>The message with the last response.\<close>

definition last_response :: "u16 \<Rightarrow> 'a OContext \<Rightarrow> Message" where
  "last_response dest ctx = \<lparr>msg_addresses = \<lparr>source = source (oc_addresses ctx), destination = dest\<rparr>, msg_payload = GetLastResponse (sol_tx ctx)\<rparr>"

lemma BeginResponseTx_sends:
  assumes "BeginResponseTx dest rsp ctx = (s, ctx')"
  shows "transmitted ctx' = transmitted ctx @ [last_response dest ctx']" "isTransmitting ctx'" "history ctx' = history ctx" "sol_num ctx' = sol_num ctx"
    "oc_addresses ctx' = oc_addresses ctx" "oc_isOnline ctx' = oc_isOnline ctx"
proof -
  obtain r c where b: "CheckForBroadcastConfirmation rsp ctx = (r, c)" by fastforce
  note f = CheckForBroadcastConfirmation_frame [of rsp ctx, unfolded b snd_conv]
  show "transmitted ctx' = transmitted ctx @ [last_response dest ctx']" "isTransmitting ctx'" "history ctx' = history ctx" "sol_num ctx' = sol_num ctx"
    "oc_addresses ctx' = oc_addresses ctx" "oc_isOnline ctx' = oc_isOnline ctx"
    using assms f
    by (auto simp: BeginResponseTx_def b Let_def BeginTx_def RestartSolConfirmTimer_def last_response_def GetLastResponse_def TxBuffer_Record_def
        ToRSeq_def split: if_splits)
qed

lemma BeginRetransmit_sends:
  "transmitted (BeginRetransmitLastResponse dest ctx) = transmitted ctx @ [last_response dest ctx]"
  "isTransmitting (BeginRetransmitLastResponse dest ctx)" "sol_tx (BeginRetransmitLastResponse dest ctx) = sol_tx ctx"
  "oc_addresses (BeginRetransmitLastResponse dest ctx) = oc_addresses ctx"
  by (simp_all add: BeginRetransmitLastResponse_def BeginTx_def last_response_def)

section \<open>Repeated requests\<close>

text \<open>The context remembers a request and its response.\<close>

definition remembers :: "ParsedRequest \<Rightarrow> 'a OContext \<Rightarrow> bool" where
  "remembers request ctx =
     (hasLast (history ctx) \<and> sol_num ctx = SEQ (control (rq_header request))
      \<and> FullyEqualsLastRequest (rq_header request) (rq_objects request) (history ctx))"

lemma RespondToNonReadRequest_remembers:
  assumes "sol_num ctx = SEQ (control (rq_header request))" "RespondToNonReadRequest E A tm request ctx = (s, ctx')"
  shows "remembers request ctx' \<and> transmitted ctx' = transmitted ctx @ [last_response (source (rq_addresses request)) ctx']"
proof -
  define c0 where "c0 = ctx\<lparr>history := RecordLastProcessedRequest (rq_header request) (rq_objects request) (history ctx)\<rparr>"
  define rsp where "rsp = SetControl (AppControlField_make True True False False (SEQ (control (rq_header request)))) (SetFunction RESPONSE (TxBuffer_Start (sol_tx ctx)))"
  obtain iin w c1 where h: "HandleNonReadResponse E A tm (rq_header request) (rq_objects request) rsp c0 = (iin, w, c1)" by (metis surj_pair)
  obtain riin c2 where g: "GetResponseIIN A c1 = (riin, c2)" by fastforce
  have "session c1 = session c0" using session_functions(1) [of E A tm "rq_header request" "rq_objects request" rsp c0] by (simp add: h)
  moreover have "session c2 = session c1" using session_GetResponseIIN [of A c1] by (simp add: g)
  ultimately have "session c2 = session c0" by simp
  note f = session_fields [OF this]
  have s: "sol_tx c0 = sol_tx ctx" by (simp add: c0_def)
  obtain w' where b: "BeginResponseTx (source (rq_addresses request)) w' c2 = (s, ctx')"
    using assms(2) by (simp add: RespondToNonReadRequest_def Let_def s h g flip: c0_def rsp_def)
  note b = BeginResponseTx_sends [OF b]
  show ?thesis
    using b(1,3,4) f(1,3,5) assms(1)
    by (simp add: remembers_def c0_def RecordLastProcessedRequest_def FullyEqualsLastRequest_def APDUHeader_Equals_def EqualsLastObjects_def)
qed

lemma cancel_timer_frame: "sol_num (cancel_timer ctx) = sol_num ctx" "transmitted (cancel_timer ctx) = transmitted ctx"
  "oc_addresses (cancel_timer ctx) = oc_addresses ctx" "sol_tx (cancel_timer ctx) = sol_tx ctx" "history (cancel_timer ctx) = history ctx"
  by (simp_all add: cancel_timer_def)

lemma OnNewNonReadRequest_remembers:
  assumes "sol_num ctx = SEQ (control (rq_header request))" "OnNewNonReadRequest E A tm request ctx = (s, ctx')"
  shows "remembers request ctx' \<and> transmitted ctx' = transmitted ctx @ [last_response (source (rq_addresses request)) ctx']"
proof -
  have r: "remembers request (snd (RespondToNonReadRequest E A tm request c)) \<and>
      transmitted (snd (RespondToNonReadRequest E A tm request c)) = transmitted c @ [last_response (source (rq_addresses request)) (snd (RespondToNonReadRequest E A tm request c))]"
    if "sol_num c = SEQ (control (rq_header request))" for c
    using RespondToNonReadRequest_remembers [OF that] by (metis surjective_pairing)
  from assms(2) have "ctx' = snd (OnNewNonReadRequest E A tm request ctx)" by simp
  then show ?thesis using r [of ctx] r [of "cancel_timer ctx"] r [of "ctx\<lparr>deferred := DeferredRequest_Reset (deferred ctx)\<rparr>"] assms(1)
    by (cases "oc_state ctx") (simp_all add: OnNewNonReadRequest_def cancel_timer_frame)
qed

lemma OnRepeatNonReadRequest_repeats:
  assumes "OnRepeatNonReadRequest request ctx = (s, ctx')"
  shows "transmitted ctx' = transmitted ctx @ [last_response (source (rq_addresses request)) ctx] \<and> oc_res ctx' = oc_res ctx
    \<and> last_response (source (rq_addresses request)) ctx' = last_response (source (rq_addresses request)) ctx \<and> history ctx' = history ctx \<and> sol_num ctx' = sol_num ctx"
  using assms by (cases "oc_state ctx")
    (auto simp: OnRepeatNonReadRequest_def BeginRetransmitLastResponse_def BeginTx_def last_response_def cancel_timer_def)

lemma ProcessRequest_remembers:
  assumes "func (rq_header request) \<noteq> READ" "\<not> UNS (control (rq_header request))" "ProcessRequest E A tm request ctx = Some ctx'"
  shows "remembers request ctx' \<and> transmitted ctx' = transmitted ctx @ [last_response (source (rq_addresses request)) ctx']"
proof (cases "remembers request ctx")
  case True
  obtain s c where r: "OnRepeatNonReadRequest request ctx = (s, c)" by fastforce
  have "ctx' = c\<lparr>oc_state := s\<rparr>" using assms True by (simp add: ProcessRequest_def OnReceiveSolRequest_def remembers_def r enter_def)
  then show ?thesis using OnRepeatNonReadRequest_repeats [OF r] True by (auto simp: remembers_def last_response_def)
next
  case False
  let ?c = "ctx\<lparr>sol_num := SEQ (control (rq_header request))\<rparr>"
  obtain s c where r: "OnNewNonReadRequest E A tm request ?c = (s, c)" by fastforce
  have "OnReceiveSolRequest E A tm request ctx = Some (s, c)"
    using False assms(1) r by (auto simp: OnReceiveSolRequest_def ProcessNewRequest_def Let_def remembers_def)
  then have "ctx' = c\<lparr>oc_state := s\<rparr>" using assms(2,3) by (simp add: ProcessRequest_def enter_def)
  then show ?thesis using OnNewNonReadRequest_remembers [OF _ r] by (simp add: remembers_def last_response_def)
qed

text \<open>
  C8. A repeated request is not executed again. When a request other than a read comes in twice with nothing
  between but the end of the transmission or changes of the points, the second time the outstation sends the very bytes of its first
  response, to the same master, and leaves the application, the database and the events alone.
\<close>

theorem repeated_request_not_executed:
  assumes "func (rq_header request) \<noteq> READ" "\<not> UNS (control (rq_header request))"
    "ProcessRequest E A t1 request ctx = Some ctx1" "ProcessRequest E A t2 request (ctx1\<lparr>isTransmitting := False, oc_res := r, confirmTimer := t\<rparr>) = Some ctx2"
  shows "oc_res ctx2 = r \<and> transmitted ctx2 = transmitted ctx1 @ [List.last (transmitted ctx1)]"
proof -
  let ?c = "ctx1\<lparr>isTransmitting := False, oc_res := r, confirmTimer := t\<rparr>"
  note p = ProcessRequest_remembers [OF assms(1-3)]
  have m: "remembers request ?c" "last_response d ?c = last_response d ctx1" for d using p by (simp_all add: remembers_def last_response_def)
  obtain s c where r: "OnRepeatNonReadRequest request ?c = (s, c)" by fastforce
  have "ctx2 = c\<lparr>oc_state := s\<rparr>" using assms m(1) by (simp add: ProcessRequest_def OnReceiveSolRequest_def remembers_def r enter_def)
  then show ?thesis using OnRepeatNonReadRequest_repeats [OF r] p m(2) by simp
qed

section \<open>One fragment at a time\<close>

text \<open>Nothing is sent, or one message when nothing was on its way.\<close>

definition sends_one :: "'a OContext \<Rightarrow> 'a OContext \<Rightarrow> bool" where
  "sends_one c c' = (isTransmitting c' \<and> (\<exists>m. transmitted c' = transmitted c @ [m]))"

definition may_send :: "'a OContext \<Rightarrow> 'a OContext \<Rightarrow> bool" where
  "may_send c c' = (transmitted c' = transmitted c \<and> isTransmitting c' = isTransmitting c \<or> \<not> isTransmitting c \<and> sends_one c c')"

lemma may_send_refl: "may_send c c" by (simp add: may_send_def)
lemma may_send_trans: "may_send c d \<Longrightarrow> may_send d e \<Longrightarrow> may_send c e" by (auto simp: may_send_def sends_one_def)
lemma may_send_one: "\<not> isTransmitting c \<Longrightarrow> sends_one c c' \<Longrightarrow> may_send c c'" by (simp add: may_send_def)
lemma may_send_session: "session c' = session c \<Longrightarrow> may_send c c'" by (simp add: may_send_def session_def)

lemma BeginResponseTx_one: "BeginResponseTx dest rsp c0 = (s, c') \<Longrightarrow> transmitted c0 = transmitted c \<Longrightarrow> sends_one c c'"
  using BeginResponseTx_sends [of dest rsp c0 s c'] by (simp add: sends_one_def)

lemma RespondToNonReadRequest_one: "sends_one ctx (snd (RespondToNonReadRequest E A tm request ctx))"
proof -
  define c0 where "c0 = ctx\<lparr>history := RecordLastProcessedRequest (rq_header request) (rq_objects request) (history ctx)\<rparr>"
  define rsp where "rsp = SetControl (AppControlField_make True True False False (SEQ (control (rq_header request)))) (SetFunction RESPONSE (TxBuffer_Start (sol_tx ctx)))"
  obtain iin w c1 where h: "HandleNonReadResponse E A tm (rq_header request) (rq_objects request) rsp c0 = (iin, w, c1)" by (metis surj_pair)
  obtain riin c2 where g: "GetResponseIIN A c1 = (riin, c2)" by fastforce
  have s: "session c2 = session c0"
    using session_functions(1) [of E A tm "rq_header request" "rq_objects request" rsp c0] session_GetResponseIIN [of A c1] by (simp add: h g)
  have tx: "sol_tx c0 = sol_tx ctx" "transmitted c0 = transmitted ctx" by (simp_all add: c0_def)
  obtain s' c' w' where b: "BeginResponseTx (source (rq_addresses request)) w' c2 = (s', c')" "snd (RespondToNonReadRequest E A tm request ctx) = c'"
    by (simp add: RespondToNonReadRequest_def Let_def tx h g prod_eq_iff flip: c0_def rsp_def)
  show ?thesis unfolding b(2) by (rule BeginResponseTx_one [OF b(1)]) (simp add: session_fields(5) [OF s] tx)
qed

lemma RespondToReadRequest_one: "RespondToReadRequest E A request ctx = Some (s, ctx') \<Longrightarrow> sends_one ctx ctx'"
proof -
  assume r: "RespondToReadRequest E A request ctx = Some (s, ctx')"
  define c0 where "c0 = ctx\<lparr>history := RecordLastProcessedRequest (rq_header request) (rq_objects request) (history ctx)\<rparr>"
  obtain iin ctl rsp c1 w where h: "HandleRead E (rq_objects request) w c0 = Some (iin, ctl, rsp, c1)"
    "\<exists>x. BeginResponseTx (source (rq_addresses request)) x (snd (GetResponseIIN A c1)) = (s, ctx')"
    using r by (auto simp: RespondToReadRequest_def Let_def case_prod_beta c0_def split: bind_splits) metis
  have t: "transmitted (snd (GetResponseIIN A c1)) = transmitted ctx"
    using session_fields(5) [OF session_GetResponseIIN [of A c1]] session_fields(5) [OF session_HandleRead [OF h(1)]] by (simp add: c0_def)
  show ?thesis using h(2) BeginResponseTx_one [OF _ t] by blast
qed

lemma Continue_one: "ContinueMultiFragResponse E A ad seq ctx = Some (s, ctx') \<Longrightarrow> sends_one ctx ctx'"
proof -
  assume r: "ContinueMultiFragResponse E A ad seq ctx = Some (s, ctx')"
  obtain db b f where "\<exists>x. BeginResponseTx (source ad) x (snd (GetResponseIIN A (set_db db (set_events b (ctx\<lparr>fragmentCount := f\<rparr>))))) = (s, ctx')"
    using r by (auto simp: ContinueMultiFragResponse_def Let_def case_prod_beta split: bind_splits)
  moreover have "transmitted (snd (GetResponseIIN A (set_db db (set_events b (ctx\<lparr>fragmentCount := f\<rparr>))))) = transmitted ctx"
    by (rule session_fields(5)) simp
  ultimately show ?thesis using BeginResponseTx_one by blast
qed

lemma sends_one_cong: "sends_one d c' \<Longrightarrow> transmitted d = transmitted c \<Longrightarrow> sends_one c c'" by (simp add: sends_one_def)

lemma sends_one_update: "sends_one c (c'\<lparr>oc_state := s\<rparr>) = sends_one c c'" "may_send c (c'\<lparr>oc_state := s\<rparr>) = may_send c c'"
  by (simp_all add: sends_one_def may_send_def)

lemma OnRepeat_sends:
  assumes i: "\<not> isTransmitting ctx"
  shows "may_send ctx (snd (OnRepeatNonReadRequest request ctx))" "may_send ctx (snd (OnRepeatReadRequest request ctx))"
proof -
  have b: "may_send ctx (BeginRetransmitLastResponse dest c)" if "transmitted c = transmitted ctx" for dest c
    by (rule may_send_one [OF i]) (simp add: sends_one_def BeginRetransmit_sends that)
  have f: "transmitted (RestartSolConfirmTimer ctx) = transmitted ctx" by (simp add: RestartSolConfirmTimer_def)
  have d: "may_send ctx (defer_request request ctx)" by (simp add: may_send_def defer_request_def)
  show "may_send ctx (snd (OnRepeatNonReadRequest request ctx))"
    by (cases "oc_state ctx") (simp_all add: OnRepeatNonReadRequest_def b cancel_timer_frame)
  show "may_send ctx (snd (OnRepeatReadRequest request ctx))"
    by (cases "oc_state ctx") (simp_all add: OnRepeatReadRequest_def b f d)
qed

lemma OnNewNonReadRequest_sends:
  assumes i: "\<not> isTransmitting ctx"
  shows "may_send ctx (snd (OnNewNonReadRequest E A tm request (ctx\<lparr>sol_num := n\<rparr>)))"
proof -
  have r: "may_send ctx (snd (RespondToNonReadRequest E A tm request d))" if "transmitted d = transmitted ctx" for d
    by (rule may_send_one [OF i sends_one_cong [OF RespondToNonReadRequest_one that]])
  show ?thesis by (cases "oc_state ctx") (simp_all add: OnNewNonReadRequest_def r cancel_timer_frame)
qed

lemma OnNewReadRequest_sends:
  assumes i: "\<not> isTransmitting ctx" and r: "OnNewReadRequest E A request (ctx\<lparr>sol_num := n\<rparr>) = Some (s, ctx')"
  shows "may_send ctx ctx'"
proof (cases "oc_state ctx = StateUnsolicitedConfirmWait")
  case True
  then show ?thesis using r by (auto simp: OnNewReadRequest_def defer_request_def may_send_def)
next
  case False
  then have "RespondToReadRequest E A request (ctx\<lparr>sol_num := n\<rparr>) = Some (s, ctx') \<or> RespondToReadRequest E A request (cancel_timer (ctx\<lparr>sol_num := n\<rparr>)) = Some (s, ctx')"
    using r by (cases "oc_state ctx") (simp_all add: OnNewReadRequest_def)
  then have "sends_one ctx ctx'"
    by (elim disjE) (erule sends_one_cong [OF RespondToReadRequest_one], simp add: cancel_timer_frame)+
  then show ?thesis by (rule may_send_one [OF i])
qed

lemma OnReceiveSolRequest_sends:
  assumes i: "\<not> isTransmitting ctx" and r: "OnReceiveSolRequest E A tm request ctx = Some (s, ctx')"
  shows "may_send ctx ctx'"
proof (cases "func (rq_header request) = READ")
  case True
  then have "(s, ctx') = OnRepeatReadRequest request ctx \<or> OnNewReadRequest E A request (ctx\<lparr>sol_num := SEQ (control (rq_header request))\<rparr>) = Some (s, ctx')"
    using r by (simp add: OnReceiveSolRequest_def ProcessNewRequest_def Let_def split: if_split_asm)
  then show ?thesis using OnRepeat_sends(2) [OF i, of request] OnNewReadRequest_sends [OF i] by (elim disjE) (metis snd_conv)+
next
  case False
  then have "(s, ctx') = OnRepeatNonReadRequest request ctx \<or> (s, ctx') = OnNewNonReadRequest E A tm request (ctx\<lparr>sol_num := SEQ (control (rq_header request))\<rparr>)"
    using r by (simp add: OnReceiveSolRequest_def ProcessNewRequest_def Let_def split: if_split_asm)
  then show ?thesis using OnRepeat_sends(1) [OF i, of request] OnNewNonReadRequest_sends [OF i] by (elim disjE) (metis snd_conv)+
qed

lemma ProcessRequest_sends:
  assumes i: "\<not> isTransmitting ctx" and r: "ProcessRequest E A tm request ctx = Some ctx'"
  shows "may_send ctx ctx'"
proof (cases "UNS (control (rq_header request))")
  case False
  then obtain x where "OnReceiveSolRequest E A tm request ctx = Some x" "ctx' = enter x" using r by (auto simp: ProcessRequest_def)
  then show ?thesis using OnReceiveSolRequest_sends [OF i] by (cases x) (simp add: enter_def sends_one_update)
qed (use r may_send_refl in \<open>simp add: ProcessRequest_def\<close>)

lemma ProcessConfirm_sends:
  assumes i: "\<not> isTransmitting ctx" and r: "ProcessConfirm E A request ctx = Some ctx'"
  shows "may_send ctx ctx'"
proof -
  obtain s c where c: "OnConfirm E A request ctx = Some (s, c)" "ctx' = c\<lparr>oc_state := s\<rparr>" using r by (auto simp: ProcessConfirm_def enter_def)
  have q: "transmitted (confirmed_solicited A ctx) = transmitted ctx" "isTransmitting (confirmed_solicited A ctx) = isTransmitting ctx"
    "transmitted (confirmed_unsolicited A ctx) = transmitted ctx" "isTransmitting (confirmed_unsolicited A ctx) = isTransmitting ctx"
    by (simp_all add: confirmed_solicited_def confirmed_unsolicited_def Let_def notify_confirm_def clear_written_def cancel_timer_def reset_history_def
        set_app_def set_events_def)
  have m: "may_send ctx c"
  proof (cases "accepts_confirm (rq_header request) ctx")
    case True
    have "c = confirmed_solicited A ctx \<or> c = confirmed_unsolicited A ctx
        \<or> (\<exists>ad seq. ContinueMultiFragResponse E A ad seq (confirmed_solicited A ctx) = Some (s, c))"
      using c(1) unfolding OnConfirm_accepted [OF True] Let_def by (auto split: if_split_asm)
    then show ?thesis
    proof (elim disjE exE)
      fix ad seq
      assume "ContinueMultiFragResponse E A ad seq (confirmed_solicited A ctx) = Some (s, c)"
      from sends_one_cong [OF Continue_one [OF this] q(1)] show ?thesis by (rule may_send_one [OF i])
    qed (simp_all add: may_send_def q)
  qed (use c(1) may_send_refl in \<open>simp add: OnConfirm_rejected\<close>)
  show ?thesis unfolding c(2) sends_one_update(2) by (rule m)
qed

lemma ProcessMessage_sends:
  assumes r: "ProcessMessage E A tm message ctx = Some ctx'"
  shows "may_send ctx ctx'"
proof -
  define c0 where "c0 = with_broadcast (msg_addresses message) ctx"
  have w: "may_send ctx c0" "isTransmitting c0 = isTransmitting ctx"
    by (simp_all add: c0_def may_send_def with_broadcast_def UpdateLastBroadcastMessageReceived_def)
  show ?thesis
    using r
  proof (rule ProcessMessage_cases)
    fix header objects
    let ?q = "\<lparr>rq_addresses = msg_addresses message, rq_header = header, rq_objects = objects\<rparr>"
    assume o: "ProcessObjects E A tm ?q (with_broadcast (msg_addresses message) ctx) = Some ctx'"
    consider "ctx' = enter (OnBroadcastMessage E A tm ?q c0)" | "ctx' = ProcessRequestNoAck E A ?q c0" | "ctx' = defer_request ?q c0"
      | "\<not> isTransmitting c0" "ProcessConfirm E A ?q c0 = Some ctx' \<or> ProcessRequest E A tm ?q c0 = Some ctx'"
      using o unfolding ProcessObjects_def c0_def by (auto split: if_split_asm)
    then have "may_send c0 ctx'"
    proof cases
      case 1
      show ?thesis unfolding 1 by (simp add: enter_def OnBroadcastMessage_def sends_one_update may_send_session)
    next
      case 2
      show ?thesis unfolding 2 by (rule may_send_session) simp
    next
      case 3
      show ?thesis unfolding 3 by (simp add: may_send_def defer_request_def)
    next
      case 4
      then show ?thesis using ProcessConfirm_sends ProcessRequest_sends by blast
    qed
    with w(1) show ?thesis by (rule may_send_trans)
  qed (use w may_send_refl in \<open>simp_all add: c0_def\<close>)
qed

lemma BeginUnsolTx_one: "transmitted c = transmitted ctx \<Longrightarrow> sends_one ctx (BeginUnsolTx rsp c)"
  using CheckForBroadcastConfirmation_frame(3) [of rsp c]
  by (simp add: BeginUnsolTx_def Let_def case_prod_beta BeginTx_def sends_one_def)

lemma CheckForUnsolicitedNull_sends: "may_send ctx (CheckForUnsolicitedNull A ctx)"
proof (cases "CanTransmit ctx \<and> IsIdle (oc_state ctx) \<and> allowUnsolicited (oc_params ctx) \<and> \<not> completedNull ctx")
  case True
  have t: "transmitted (snd (GetResponseIIN A ctx)) = transmitted ctx" by (rule session_fields(5)) simp
  have "sends_one ctx (CheckForUnsolicitedNull A ctx)"
    using True by (simp add: CheckForUnsolicitedNull_def Let_def case_prod_beta) (intro conjI impI; rule BeginUnsolTx_one; simp add: t RestartUnsolConfirmTimer_def)
  then show ?thesis using True by (intro may_send_one) (simp_all add: CanTransmit_def)
next
  case False
  then have "CheckForUnsolicitedNull A ctx = ctx" unfolding CheckForUnsolicitedNull_def by (simp only: if_False)
  then show ?thesis by (simp add: may_send_refl)
qed

lemma CheckForUnsolicited_sends: "may_send ctx (CheckForUnsolicited E A ctx)"
proof (cases "shouldCheckForUnsolicited ctx \<and> CanTransmit ctx \<and> IsIdle (oc_state ctx) \<and> allowUnsolicited (oc_params ctx)")
  case True
  have t: "transmitted (snd (GetResponseIIN A (set_events b (ctx\<lparr>shouldCheckForUnsolicited := x, unsolRetries := y\<rparr>)))) = transmitted ctx" for b x y
    by (simp add: session_fields(5) [OF session_GetResponseIIN]) (simp add: set_events_def)
  have "sends_one ctx (CheckForUnsolicited E A ctx) \<or> CheckForUnsolicited E A ctx = ctx\<lparr>shouldCheckForUnsolicited := False\<rparr>"
    using True unfolding CheckForUnsolicited_def Let_def case_prod_beta
    by (simp only: if_True simp_thms split: if_split) (intro impI disjI1 BeginUnsolTx_one, simp add: t RestartUnsolConfirmTimer_def)
  then show ?thesis using True by (auto simp: may_send_def CanTransmit_def)
next
  case False
  then have "CheckForUnsolicited E A ctx = ctx" unfolding CheckForUnsolicited_def by (simp only: if_False)
  then show ?thesis by (simp add: may_send_refl)
qed

lemma CheckForTaskStart_sends:
  assumes "CheckForTaskStart E A tm ctx = Some ctx'"
  shows "may_send ctx ctx'"
proof -
  obtain c where c: "CheckForDeferredRequest E A tm ctx = Some c" "ctx' = CheckForUnsolicited E A (CheckForUnsolicitedNull A c)"
    using assms by (auto simp: CheckForTaskStart_def)
  have "may_send ctx c"
  proof (cases "CanTransmit ctx \<and> df_isSet (deferred ctx)")
    case True
    then have i: "\<not> isTransmitting ctx" by (simp add: CanTransmit_def)
    obtain p d where d: "ProcessDeferredRequest E A tm (df_request (deferred ctx)) ctx = Some (p, d)" "c = d\<lparr>deferred := (deferred d)\<lparr>df_isSet := \<not> p\<rparr>\<rparr>"
      using c(1) True by (auto simp: CheckForDeferredRequest_def split: bind_splits)
    have "may_send ctx d"
      using d(1) may_send_refl ProcessConfirm_sends [OF i, of E A "df_request (deferred ctx)" d] ProcessRequest_sends [OF i, of E A tm "df_request (deferred ctx)" d]
      unfolding ProcessDeferredRequest_def by (auto split: if_split_asm)
    then show ?thesis by (simp add: d(2) may_send_def sends_one_def)
  next
    case False
    then have "CheckForDeferredRequest E A tm ctx = Some ctx" unfolding CheckForDeferredRequest_def by (simp only: if_False)
    then show ?thesis using c(1) may_send_refl by simp
  qed
  then show ?thesis
    unfolding c(2) using may_send_trans CheckForUnsolicitedNull_sends CheckForUnsolicited_sends by blast
qed

lemma OnConfirmTimeout_sends:
  "transmitted (snd (OnConfirmTimeout ctx)) = transmitted ctx \<and> isTransmitting (snd (OnConfirmTimeout ctx)) = isTransmitting ctx
    \<or> sends_one ctx (snd (OnConfirmTimeout ctx))"
  by (cases "oc_state ctx"; cases "Retry (unsolRetries ctx)")
    (simp_all add: OnConfirmTimeout_def Let_def BeginRetransmitLastUnsolicitedResponse_def BeginTx_def RestartUnsolConfirmTimer_def
      set_events_def sends_one_def)

lemma receive_sends:
  assumes "Option.bind (ProcessMessage E A tm message ctx) (CheckForTaskStart E A tm) = Some ctx'"
  shows "may_send ctx ctx'"
proof -
  obtain c where c: "ProcessMessage E A tm message ctx = Some c" "CheckForTaskStart E A tm c = Some ctx'"
    using assms by (auto split: bind_splits)
  show ?thesis by (rule may_send_trans [OF ProcessMessage_sends [OF c(1)] CheckForTaskStart_sends [OF c(2)]])
qed

lemma confirm_timer_sends:
  assumes "CheckForTaskStart E A tm (enter (OnConfirmTimeout (cancel_timer ctx))) = Some ctx'"
  shows "transmitted ctx' = transmitted ctx \<or> (\<exists>m. transmitted ctx' = transmitted ctx @ [m]) \<and> isTransmitting ctx'"
proof -
  let ?c = "enter (OnConfirmTimeout (cancel_timer ctx))"
  have "transmitted ?c = transmitted ctx \<or> isTransmitting ?c \<and> (\<exists>m. transmitted ?c = transmitted ctx @ [m])"
    using OnConfirmTimeout_sends [of "cancel_timer ctx"] by (auto simp: enter_def case_prod_beta sends_one_def cancel_timer_def)
  then show ?thesis using CheckForTaskStart_sends [OF assms] by (auto simp: may_send_def sends_one_def)
qed

text \<open>
  C12. One fragment is on its way at a time. An event makes the outstation send at most one message, after which it is
  transmitting; and while a transmission is in progress it sends nothing, unless the event ends the transmission or is the confirm
  timer, which sends an unsolicited response again without asking.
\<close>

theorem one_fragment_at_a_time:
  assumes "outstation_step E A tm ev ctx = Some ctx'"
  shows "transmitted ctx' = transmitted ctx
     \<or> (\<exists>m. transmitted ctx' = transmitted ctx @ [m]) \<and> isTransmitting ctx' \<and> (ev \<in> {TxReady, ConfirmTimer} \<or> isTransmitting ctx = False)"
proof -
  have t: "transmitted c' = transmitted ctx \<or> (\<exists>m. transmitted c' = transmitted ctx @ [m]) \<and> isTransmitting c' \<and> isTransmitting c = False"
    if "may_send c c'" "transmitted c = transmitted ctx" for c c' :: "'a OContext"
    using that by (auto simp: may_send_def sends_one_def)
  show ?thesis
  proof (cases ev)
    case LowerLayerUp
    then show ?thesis using assms t [OF CheckForTaskStart_sends] by (fastforce split: if_split_asm)
  next
    case LowerLayerDown
    have "transmitted (OnLowerLayerDown ctx) = transmitted ctx"
      by (cases "oc_isOnline ctx") (simp_all add: OnLowerLayerDown_def cancel_timer_def set_events_def)
    then show ?thesis using assms LowerLayerDown by auto
  next
    case TxReady
    then show ?thesis using assms t [OF CheckForTaskStart_sends, of E A tm "ctx\<lparr>isTransmitting := False\<rparr>" ctx'] by (auto split: if_split_asm)
  next
    case (Receive message)
    then show ?thesis using assms t [OF receive_sends refl] by (auto split: if_split_asm)
  next
    case ConfirmTimer
    then show ?thesis using assms confirm_timer_sends [of E A tm ctx ctx'] by (auto split: if_split_asm)
  next
    case (NewEvents us)
    define c1 where "c1 = ctx\<lparr>oc_res := fold (\<lambda>u r. apply_update (Now A (rs_app r)) u r) us (oc_res ctx), shouldCheckForUnsolicited := True\<rparr>"
    have "transmitted c1 = transmitted ctx" "isTransmitting c1 = isTransmitting ctx" by (simp_all add: c1_def)
    then show ?thesis using assms t [OF CheckForTaskStart_sends, of E A tm c1 ctx'] by (auto simp: NewEvents c1_def [symmetric] split: if_split_asm)
  next
    case SetRestart
    then show ?thesis using assms by auto
  qed
qed

section \<open>Confirmations of another response\<close>

text \<open>After a response timed out, a broadcast that shall be confirmed, and a request for the delay, whose response asks for the confirmation.\<close>

definition after_timeout_and_broadcast :: "'a OContext \<Rightarrow> 'a OContext" where
  "after_timeout_and_broadcast ctx = UpdateLastBroadcastMessageReceived ShallConfirm (enter (OnConfirmTimeout (cancel_timer ctx)))"

lemma after_timeout_and_broadcast_frame:
  assumes "oc_state ctx = StateSolicitedConfirmWait"
  shows "oc_res (after_timeout_and_broadcast ctx) = oc_res ctx" "oc_state (after_timeout_and_broadcast ctx) = StateIdle"
  using assms by (simp_all add: after_timeout_and_broadcast_def OnConfirmTimeout_def cancel_timer_def enter_def UpdateLastBroadcastMessageReceived_def)

lemma IsOverflown_storage: "eb_storage (snd (IsOverflown b)) = eb_storage b"
  by (simp add: IsOverflown_def Let_def)

lemma GetResponseIIN_res: "oc_db (snd (GetResponseIIN A ctx)) = oc_db ctx" "eb_storage (oc_events (snd (GetResponseIIN A ctx))) = eb_storage (oc_events ctx)"
  by (simp_all add: GetResponseIIN_def GetDynamicIIN_def Let_def case_prod_beta set_events_def IsOverflown_storage)

lemma BeginResponseTx_res: "oc_res (snd (BeginResponseTx dest rsp ctx)) = oc_res ctx"
proof -
  have "oc_res (snd (CheckForBroadcastConfirmation rsp ctx)) = oc_res ctx"
    by (simp add: CheckForBroadcastConfirmation_def Let_def split: option.split)
  then show ?thesis by (simp add: BeginResponseTx_def Let_def case_prod_beta BeginTx_def RestartSolConfirmTimer_def)
qed

lemma delay_request_res:
  assumes "func (rq_header q) = DELAY_MEASURE" "oc_state ctx = StateIdle"
  shows "oc_db (enter (OnNewNonReadRequest E A tm q ctx)) = oc_db ctx"
    "eb_storage (oc_events (enter (OnNewNonReadRequest E A tm q ctx))) = eb_storage (oc_events ctx)"
proof -
  have r: "oc_res (enter x) = oc_res (snd x)" for x :: "OutstationState \<times> 'a OContext" by (simp add: enter_def case_prod_beta)
  show "oc_db (enter (OnNewNonReadRequest E A tm q ctx)) = oc_db ctx"
    "eb_storage (oc_events (enter (OnNewNonReadRequest E A tm q ctx))) = eb_storage (oc_events ctx)"
    unfolding r using assms
    by (simp_all add: OnNewNonReadRequest_def RespondToNonReadRequest_def HandleNonReadResponse_def Let_def case_prod_beta
        BeginResponseTx_res GetResponseIIN_res)
qed

text \<open>
  C10. Events can be lost without ever being confirmed. When the confirmation of a response with events does not come,
  the events stay marked as written; if a broadcast that asks for confirmation is then followed by any request other than a read, here for the
  delay of the line, the confirmation of that response removes all of them, although the master never confirmed the
  response that carried them.
\<close>

theorem unconfirmed_events_are_lost:
  assumes c3: "c3 = enter (OnNewNonReadRequest E A tm q (after_timeout_and_broadcast ctx))"
    and "buffer_inv cfg (oc_events ctx)" "oc_state ctx = StateSolicitedConfirmWait" "\<not> HasSelection (oc_db ctx) (oc_events ctx)"
    "func (rq_header q) = DELAY_MEASURE" "\<not> UNS (control (rq_header confirmation))" "accepts_confirm (rq_header confirmation) c3"
  shows "\<exists>ctx'. OnConfirm E A confirmation c3 = Some (StateIdle, ctx')
     \<and> buffer_events (oc_events ctx') = filter (\<lambda>r. \<not> is_written r) (buffer_events (oc_events ctx))"
proof -
  note f = after_timeout_and_broadcast_frame [OF assms(3)]
  have db: "oc_db c3 = oc_db ctx" and st: "eb_storage (oc_events c3) = eb_storage (oc_events ctx)"
    unfolding c3 delay_request_res [OF assms(5) f(2)] f(1) by (rule refl)+
  define b where "b = EventBuffer_ClearWritten (oc_events c3)"
  have inv: "buffer_inv cfg (oc_events c3)" using assms(2) by (simp add: buffer_inv_def st)
  have inv': "buffer_inv cfg b" using run_event_op_step [OF inv, of E Do_ClearWritten] by (simp add: b_def)
  have ev: "buffer_events b = filter (\<lambda>r. \<not> is_written r) (buffer_events (oc_events ctx))"
    using ClearWritten_spec(3) [of "eb_storage (oc_events c3)"] inv
    by (simp add: b_def buffer_events_def EventBuffer_ClearWritten_def buffer_inv_def st)
  have res: "oc_db (confirmed_solicited A c3) = oc_db ctx" "oc_events (confirmed_solicited A c3) = b"
    by (simp_all add: confirmed_solicited_def notify_confirm_def clear_written_def cancel_timer_def reset_history_def set_app_def set_events_def db b_def)
  have "\<not> list_ex is_selected (buffer_events (oc_events ctx))" "\<not> Database_HasAnySelection (oc_db ctx)"
    using assms(4) HasAnySelection_iff [OF assms(2)] by (simp_all add: HasSelection_def)
  then have sel: "\<not> HasSelection (oc_db ctx) b"
    by (simp add: HasSelection_def HasAnySelection_iff [OF inv'] ev list_ex_iff)
  have "oc_state c3 = StateSolicitedConfirmWait"
    using assms(6,7) by (cases "oc_state c3") (auto simp: accepts_confirm_def)
  then have "OnConfirm E A confirmation c3 = Some (StateIdle, confirmed_solicited A c3)"
    using sel by (simp add: OnConfirm_accepted [OF assms(7)] Let_def res)
  then show ?thesis using res(2) ev by simp
qed

section \<open>Select before operate\<close>

lemma ValidateSelection_success:
  "ValidateSelection seq tm timeout objects c = SUCCESS \<longleftrightarrow>
     cs_selected c \<and> cs_expectedSeq c = seq \<and> cs_selectTime c \<le>s tm \<and> Timestamp_diff tm (cs_selectTime c) <s timeout
     \<and> cs_length c = length objects \<and> cs_digest c = CalcCrc objects"
  by (auto simp: ValidateSelection_def Let_def)

lemma run_adapter_control: "run_adapter E A is_select op objects writer ctx = (r, h, ctx') \<Longrightarrow> oc_control ctx' = oc_control ctx \<and> oc_params ctx' = oc_params ctx"
  by (auto simp: run_adapter_def case_prod_beta)

lemma HandleOperate_valid:
  assumes "\<not> too_large objects (Some w)" "ValidateSelection (sol_num ctx) tm (selectTimeout (oc_params ctx)) objects (oc_control ctx) = SUCCESS"
    "run_adapter E A False SelectBeforeOperate objects (Some w) ctx = (r, h, c)"
  shows "HandleOperate E A tm objects w ctx = (errors_or_result r (hn_errors h), cr_writer (hn_state h), c\<lparr>shouldCheckForUnsolicited := True\<rparr>)"
  using assms by (simp add: HandleOperate_def)

text \<open>
  C9. Nothing is operated without a selection. An operate request leaves the application, the database and the events
  alone unless a selection with the expected sequence number, the same length and the same checksum of the objects
  was made, not later than now and less than the timeout ago.
\<close>

theorem operate_needs_selection:
  "oc_res (snd (snd (HandleOperate E A tm objects w ctx))) = oc_res ctx
   \<or> (let c = oc_control ctx
      in cs_selected c \<and> cs_expectedSeq c = sol_num ctx \<and> cs_length c = length objects \<and> cs_digest c = CalcCrc objects
         \<and> cs_selectTime c \<le>s tm \<and> Timestamp_diff tm (cs_selectTime c) <s selectTimeout (oc_params ctx))"
proof (cases "too_large objects (Some w) \<or> ValidateSelection (sol_num ctx) tm (selectTimeout (oc_params ctx)) objects (oc_control ctx) \<noteq> SUCCESS")
  case True
  then have "oc_res (snd (snd (HandleOperate E A tm objects w ctx))) = oc_res ctx"
    by (cases "too_large objects (Some w)") (simp_all add: HandleOperate_def Let_def case_prod_beta)
  then show ?thesis ..
next
  case False
  then show ?thesis by (simp add: ValidateSelection_success Let_def)
qed

text \<open>
  C11. A selection is not used up by an operate. After a valid operate request the selection is still there, so
  that the same objects with the same sequence number pass again until the timeout; only the comparison with the last
  request stands before a second execution, and any request in between takes it away.
\<close>

theorem selection_survives_operate:
  assumes "\<not> too_large objects (Some w)" "ValidateSelection (sol_num ctx) tm (selectTimeout (oc_params ctx)) objects (oc_control ctx) = SUCCESS"
    "ctx1 = snd (snd (HandleOperate E A tm objects w ctx))" "tm \<le>s t2" "Timestamp_diff t2 (cs_selectTime (oc_control ctx)) <s selectTimeout (oc_params ctx)"
  shows "oc_control ctx1 = oc_control ctx
     \<and> ValidateSelection (sol_num ctx) t2 (selectTimeout (oc_params ctx1)) objects (oc_control ctx1) = SUCCESS"
proof -
  obtain r h c where a: "run_adapter E A False SelectBeforeOperate objects (Some w) ctx = (r, h, c)" by (metis surj_pair)
  have "ctx1 = c\<lparr>shouldCheckForUnsolicited := True\<rparr>" using assms(3) HandleOperate_valid [OF assms(1,2) a] by simp
  then have k: "oc_control ctx1 = oc_control ctx" "oc_params ctx1 = oc_params ctx" using run_adapter_control [OF a] by simp_all
  have "cs_selectTime (oc_control ctx) \<le>s t2" using assms(2,4) by (simp add: ValidateSelection_success word_sle_eq)
  then show ?thesis using assms(2,5) by (simp add: k ValidateSelection_success)
qed

section \<open>Witnesses\<close>

definition request_of :: "FunctionCode \<Rightarrow> byte \<Rightarrow> byte list \<Rightarrow> ParsedRequest" where
  "request_of fc seq objects = \<lparr>rq_addresses = \<lparr>source = 1, destination = 10\<rparr>,
     rq_header = \<lparr>control = AppControlField_make True True False False seq, func = fc\<rparr>, rq_objects = objects\<rparr>"

lemma nonread_returns: "func (rq_header request) \<noteq> READ \<Longrightarrow> \<exists>ctx'. ProcessRequest E A tm request ctx = Some ctx'"
  by (simp add: ProcessRequest_def OnReceiveSolRequest_def ProcessNewRequest_def Let_def)

theorem repeated_request_not_executed_witness:
  "\<exists>ctx1 ctx2. ProcessRequest little_endian plain_application 0 (request_of DELAY_MEASURE 3 []) plain_start = Some ctx1
     \<and> ProcessRequest little_endian plain_application 1 (request_of DELAY_MEASURE 3 []) (ctx1\<lparr>isTransmitting := False, oc_res := oc_res ctx1, confirmTimer := None\<rparr>) = Some ctx2
     \<and> oc_res ctx2 = oc_res ctx1 \<and> transmitted ctx2 = transmitted ctx1 @ [List.last (transmitted ctx1)]"
proof -
  let ?q = "request_of DELAY_MEASURE 3 []"
  have q: "func (rq_header ?q) \<noteq> READ" "\<not> UNS (control (rq_header ?q))" by (simp_all add: request_of_def AppControlField_make_def)
  obtain ctx1 where c1: "ProcessRequest little_endian plain_application 0 ?q plain_start = Some ctx1" using nonread_returns [OF q(1)] by blast
  obtain ctx2 where c2: "ProcessRequest little_endian plain_application 1 ?q (ctx1\<lparr>isTransmitting := False, oc_res := oc_res ctx1, confirmTimer := None\<rparr>) = Some ctx2"
    using nonread_returns [OF q(1)] by blast
  from repeated_request_not_executed [OF q c1 c2] c1 c2 show ?thesis by blast
qed

theorem one_fragment_at_a_time_witness:
  "\<exists>ctx'. outstation_step little_endian plain_application 0 LowerLayerUp plain_start = Some ctx'
     \<and> (transmitted ctx' = transmitted plain_start \<or> (\<exists>m. transmitted ctx' = transmitted plain_start @ [m]) \<and> isTransmitting ctx'
          \<and> (LowerLayerUp \<in> {TxReady, ConfirmTimer} \<or> isTransmitting plain_start = False))"
proof -
  have inv: "db_inv (oc_db plain_start)" by (simp add: plain_start_def OContext_make_def make_db_inv two_points_ok)
  obtain ctx' where s: "outstation_step little_endian plain_application 0 LowerLayerUp plain_start = Some ctx'"
    using default.outstation_step_returns [OF inv] by blast
  from one_fragment_at_a_time [OF s] s show ?thesis by blast
qed

text \<open>One command was selected with sequence number 4, and its operate comes in time.\<close>

definition selected_start :: "byte list \<Rightarrow> SimpleCommandHandler hosted OContext" where
  "selected_start objects = plain_start\<lparr>sol_num := 5, oc_control := ControlState_Select 4 100 objects ControlState_init\<rparr>"

theorem selection_survives_operate_witness:
  "let ctx = selected_start [12, 1, 0x17, 0];
       ctx1 = snd (snd (HandleOperate little_endian plain_application 200 [12, 1, 0x17, 0] (TxBuffer_Start (sol_tx ctx)) ctx))
   in oc_control ctx1 = oc_control ctx
      \<and> ValidateSelection (sol_num ctx) 300 (selectTimeout (oc_params ctx1)) [12, 1, 0x17, 0] (oc_control ctx1) = SUCCESS"
proof -
  let ?o = "[12, 1, 0x17, 0] :: byte list"
  let ?ctx = "selected_start ?o"
  have d: "selectTimeout (oc_params ?ctx) = Seconds 10" "sol_num ?ctx = 5"
    by (simp_all add: selected_start_def plain_start_def OContext_make_def OutstationParams_default_def)
  have v: "ValidateSelection (sol_num ?ctx) 200 (selectTimeout (oc_params ?ctx)) ?o (oc_control ?ctx) = SUCCESS"
    unfolding ValidateSelection_success d
    by (simp add: selected_start_def ControlState_Select_def SequenceNum_Next_def Timestamp_diff_def Seconds_def FromValue_def)
  have l: "\<not> too_large ?o (Some (TxBuffer_Start (sol_tx ?ctx)))"
    by (simp add: too_large_def TxBuffer_Start_def selected_start_def plain_start_def OContext_make_def OutstationParams_default_def
        TxBuffer_make_def APDUResponse_make_def APDUWrapper_make_def Remaining_def HeaderWriter_make_def advance_def)
  show ?thesis
    unfolding Let_def
    by (rule selection_survives_operate [OF l v refl])
      (simp_all add: d, simp_all add: selected_start_def ControlState_Select_def Timestamp_diff_def Seconds_def FromValue_def)
qed

text \<open>One event that was written into a response, and the confirmation of which is awaited.\<close>

definition written_event :: EventRecord where
  "written_event = (EventRecord_make \<lparr>e_value = EvBinary (Binary_of_value True), e_index = 0, e_clazz = EC1, e_variation = App_Gv.Group2Var1\<rparr>)\<lparr>er_state := Written\<rparr>"

definition written_buffer :: EventBuffer where
  "written_buffer = \<lparr>eb_overflow = False, eb_storage = \<lparr>el_config = EventBufferConfig_AllTypes 2, el_events = [written_event], el_counters = counts [written_event]\<rparr>\<rparr>"

definition waiting_start :: "SimpleCommandHandler hosted OContext" where
  "waiting_start = plain_start\<lparr>oc_state := StateSolicitedConfirmWait, oc_res := (oc_res plain_start)\<lparr>rs_events := written_buffer\<rparr>\<rparr>"

lemma written_buffer_inv: "buffer_inv (EventBufferConfig_AllTypes 2) written_buffer"
  by (simp add: buffer_inv_def written_buffer_def storage_inv_def GetList_def EventBufferConfig_AllTypes_def has_type_def written_event_def EventRecord_make_def)

lemma fresh_database: "\<not> Database_HasAnySelection (Database_make (DatabaseConfig_make 2) types)"
  by (simp add: Database_HasAnySelection_def Database_make_def has_any_selection_def StaticDataMap_make_def Range_Invalid_def Range_IsValid_def)

lemma waiting_unselected: "\<not> HasSelection (oc_db waiting_start) (oc_events waiting_start)"
proof -
  have "\<not> EventBuffer_HasAnySelection written_buffer"
    by (simp add: HasAnySelection_iff [OF written_buffer_inv]) (simp add: buffer_events_def written_buffer_def written_event_def)
  then show ?thesis using fresh_database by (simp add: HasSelection_def waiting_start_def plain_start_def OContext_make_def)
qed

lemma mem_length:
  "length (hw_mem (SetControl c w)) = length (hw_mem w)" "length (hw_mem (SetFunction fc w)) = length (hw_mem w)" "length (hw_mem (SetIIN iin w)) = length (hw_mem w)"
  by (simp_all add: SetControl_def SetFunction_def SetIIN_def)

lemma response_asks_for_confirmation:
  assumes "lastBroadcastMessageReceived ctx = Some ShallConfirm" "hw_mem rsp \<noteq> []"
  shows "\<exists>c. BeginResponseTx dest rsp ctx = (StateSolicitedConfirmWait, c) \<and> sol_confirmNum c = SEQ (GetControl rsp)"
proof -
  have m: "SEQ (AppControlField_of_byte b) < 16" for b
  proof -
    have "b AND 0x0F \<le> (0x0F :: byte)" by (rule word_and_le1)
    then show ?thesis unfolding AppControlField_of_byte_def by (auto simp: word_le_nat_alt word_less_nat_alt)
  qed
  let ?r = "SetIIN (IIN_or (GetIIN rsp) (IIN_of BROADCAST)) rsp"
  have "hw_mem ?r \<noteq> []" using assms(2) by (simp add: SetIIN_def)
  then have g: "GetControl (SetControl c ?r) = AppControlField_of_byte (AppControlField_ToByte c)" for c
    by (simp add: GetControl_def SetControl_def)
  have k: "GetControl ?r = GetControl rsp" by (simp add: GetControl_def SetIIN_def)
  have "GetControl (SetControl ((GetControl ?r)\<lparr>CON := True\<rparr>) ?r) = (GetControl rsp)\<lparr>CON := True\<rparr>"
    unfolding g k by (rule control_roundtrip) (simp add: GetControl_def m)
  then show ?thesis
    using assms(1) by (simp add: BeginResponseTx_def CheckForBroadcastConfirmation_def Let_def BeginTx_def RestartSolConfirmTimer_def k)
qed

lemma delay_response_length: "length (hw_mem (snd (HandleDelayMeasure E objects w))) = length (hw_mem w)"
  by (simp add: HandleDelayMeasure_def WriteSingleValue_def WriteHeaderWithReserve_def WriteHeader_def)

lemma delay_asks_for_confirmation:
  assumes "lastBroadcastMessageReceived ctx = Some ShallConfirm" "oc_state ctx = StateIdle" "tx_buffer (sol_tx ctx) \<noteq> []"
    "func (rq_header q) = DELAY_MEASURE" "rq_objects q = []"
  shows "oc_state (enter (OnNewNonReadRequest E A tm q ctx)) = StateSolicitedConfirmWait"
proof -
  define c0 where "c0 = ctx\<lparr>history := RecordLastProcessedRequest (rq_header q) (rq_objects q) (history ctx)\<rparr>"
  define rsp where "rsp = SetControl (AppControlField_make True True False False (SEQ (control (rq_header q)))) (SetFunction RESPONSE (TxBuffer_Start (sol_tx ctx)))"
  obtain iin w where h: "HandleDelayMeasure E (rq_objects q) rsp = (iin, w)" by fastforce
  have r: "HandleNonReadResponse E A tm (rq_header q) (rq_objects q) rsp c0 = (iin, Some w, c0)"
    using assms(4) h by (simp add: HandleNonReadResponse_def)
  have s: "sol_tx c0 = sol_tx ctx" by (simp add: c0_def)
  have "length (hw_mem w) = length (tx_buffer (sol_tx ctx))"
    using delay_response_length [of E "rq_objects q" rsp] unfolding h snd_conv
    by (simp add: rsp_def mem_length TxBuffer_Start_def APDUResponse_make_def APDUWrapper_make_def HeaderWriter_make_def)
  then have m: "hw_mem (SetIIN i w) \<noteq> []" for i using assms(3) mem_length(3) [of i w] by (metis length_0_conv)
  have b: "lastBroadcastMessageReceived (snd (GetResponseIIN A c0)) = Some ShallConfirm"
    using session_fields(9) [OF session_GetResponseIIN [of A c0]] assms(1) by (simp add: c0_def)
  have "fst (RespondToNonReadRequest E A tm q ctx)
      = fst (BeginResponseTx (source (rq_addresses q)) (SetIIN (IIN_or iin (fst (GetResponseIIN A c0))) w) (snd (GetResponseIIN A c0)))"
    by (simp add: RespondToNonReadRequest_def Let_def case_prod_beta s r flip: c0_def rsp_def)
  then have "fst (RespondToNonReadRequest E A tm q ctx) = StateSolicitedConfirmWait"
    using response_asks_for_confirmation [OF b m] by (metis fst_conv)
  then show ?thesis using assms(2) by (simp add: OnNewNonReadRequest_def enter_def case_prod_beta)
qed

theorem unconfirmed_events_are_lost_witness:
  "let c3 = enter (OnNewNonReadRequest little_endian plain_application 9 (request_of DELAY_MEASURE 3 []) (after_timeout_and_broadcast waiting_start))
   in \<exists>ctx'. OnConfirm little_endian plain_application (request_of CONFIRM (sol_confirmNum c3) []) c3 = Some (StateIdle, ctx')
     \<and> buffer_events (oc_events ctx') = [] \<and> buffer_events (oc_events waiting_start) = [written_event]"
proof -
  let ?q = "request_of DELAY_MEASURE 3 []"
  define c3 where "c3 = enter (OnNewNonReadRequest little_endian plain_application 9 ?q (after_timeout_and_broadcast waiting_start))"
  let ?conf = "request_of CONFIRM (sol_confirmNum c3) []"
  have w: "oc_state waiting_start = StateSolicitedConfirmWait" "oc_events waiting_start = written_buffer"
    by (simp_all add: waiting_start_def)
  have u: "lastBroadcastMessageReceived (after_timeout_and_broadcast waiting_start) = Some ShallConfirm"
    by (simp add: after_timeout_and_broadcast_def UpdateLastBroadcastMessageReceived_def)
  have x: "sol_tx (after_timeout_and_broadcast waiting_start) = TxBuffer_make 2048"
    using w(1) by (simp add: after_timeout_and_broadcast_def UpdateLastBroadcastMessageReceived_def enter_def OnConfirmTimeout_def cancel_timer_def)
      (simp add: waiting_start_def plain_start_def OContext_make_def OutstationParams_default_def)
  have "oc_state c3 = StateSolicitedConfirmWait"
    unfolding c3_def
    by (rule delay_asks_for_confirmation [OF u after_timeout_and_broadcast_frame(2) [OF w(1)]]) (simp_all add: x TxBuffer_make_def request_of_def)
  then have a: "accepts_confirm (rq_header ?conf) c3" "\<not> UNS (control (rq_header ?conf))"
    by (simp_all add: accepts_confirm_def request_of_def AppControlField_make_def)
  have b: "buffer_inv (EventBufferConfig_AllTypes 2) (oc_events waiting_start)" unfolding w(2) by (rule written_buffer_inv)
  have "func (rq_header ?q) = DELAY_MEASURE" by (simp add: request_of_def)
  from unconfirmed_events_are_lost [OF c3_def b w(1) waiting_unselected this a(2,1)]
  show ?thesis unfolding Let_def c3_def [symmetric] w(2)
    by (simp add: buffer_events_def written_buffer_def written_event_def)
qed

end
