(* ===== verification/Out_Event_Reports.thy ===== *)
theory Out_Event_Reports
  imports Out_Event_Laws Out_Reads
begin

text \<open>
  What a master reads from the event headers of a response: the bytes that the writers of events produce, what the
  parser makes of them, and the proof that they report the events that the buffer marks as written, each once, in
  their order, in the selected variation, and with the time that belongs to it.
\<close>

section \<open>Events into a header\<close>













section \<open>The frame of a header\<close>

lemma index16_simps [simp]: "codec16 C \<Longrightarrow> length (it_put (index16 C) n) = 2" "it_size (index16 C) = 2" "it_max (index16 C) = 65535"
  using length_it_put [of C False n] by (simp_all add: index_of_def index16_def)






section \<open>What the master reads\<close>

text \<open>
  An event as a master finds it (\<open>MeasurementHandler\<close> keeps the common time for the objects that follow): the variation, the index, the common time that was in force (the variation and bytes of
  the last object of group 51) and the bytes of the object.
\<close>

type_synonym event_item = "GroupVariation \<times> u16 \<times> (GroupVariation \<times> byte list) option \<times> byte list"

fun read_events :: "(GroupVariation \<times> byte list) option \<Rightarrow> header_event list \<Rightarrow> event_item list" where
  "read_events cto [] = []"
| "read_events cto (OnCountOf r n [t] # evs) = read_events (Some (enumeration r, t)) evs"
| "read_events cto (OnPrefixOf r n vs # evs) = map (\<lambda>(i, b). (enumeration r, i, cto, b)) vs @ read_events cto evs"
| "read_events cto (_ # evs) = read_events cto evs"


definition reports :: "u16_codec \<Rightarrow> byte list \<Rightarrow> (event_item \<Rightarrow> EventRecord \<Rightarrow> bool) \<Rightarrow> EventRecord list \<Rightarrow> bool" where
  "reports C bs P ws =
     (\<forall>i rest. \<exists>k evs. (\<forall>cto. list_all2 P (read_events cto evs) ws) \<and>
        ParseSinglePass_loop C (bs @ rest) i True True None
          = (let (result, more) = ParseSinglePass_loop C rest (i + k) True True None in (result, evs @ more)))"

lemma reports_Nil [simp]: "reports C [] P []"
  unfolding reports_def by (intro allI exI [of _ 0] exI [of _ "[]"]) simp










section \<open>The common time\<close>







section \<open>Headers of events\<close>







lemma put_mark [simp]: "hw_mark (put bs w) = hw_mark w"
  by (simp add: put_def poke_def advance_def)






section \<open>The events of each type\<close>




text \<open>
  What is asked of the records: a frozen counter has a variation of its type, as the enumerations of the code ensure, and an
  octet string has 1 to 255 bytes. An empty one, which \<open>OctetData::Set\<close> lets through, would be written with
  variation 0, and the parser refuses that header.
\<close>

definition record_ok :: "EventRecord \<Rightarrow> bool" where
  "record_ok r = (case er_value r of
      EvOctet m \<Rightarrow> 0 < length m \<and> length m \<le> 255
    | EvFrozen m \<Rightarrow> selectedVariation r \<in> set EventFrozenCounterVariations \<and> defaultVariation r \<in> set EventFrozenCounterVariations
    | _ \<Rightarrow> True)"






























section \<open>A whole response\<close>




lemma mark_written_not_selected [simp]: "filter is_selected (map mark_written xs) = []"
  by (induction xs) (simp_all add: mark_written_def)


section \<open>Reachable buffers\<close>


lemma record_ok_simps [simp]: "record_ok (r\<lparr>er_state := st\<rparr>) = record_ok r" "record_ok (mark_written r) = record_ok r"
  by (simp_all add: record_ok_def mark_written_def split: event_value.split)









section \<open>Selecting twice\<close>













section \<open>The properties\<close>





end
