(* ===== verification/Spec2Isabelle.thy ===== *)
theory Spec2Isabelle
  imports Stack Gw_System Out_Safety Out_Event_Reports
begin

text \<open>
  Verification of the DNP3/Modbus gateway and of the DNP3 stack that it runs on.

  \<^bold>\<open>The program.\<close> \<open>RPI_slavednp3\<close> is a gateway: it polls devices over Modbus TCP, publishes their values
  as DNP3 points of an outstation, and turns DNP3 commands into Modbus writes; a web page and a console
  administer a file of points. It uses the DNP3 stack \<open>opendnp3\<close>, which is part of the repository:
  a link layer that frames and checks bytes, a transport layer that cuts messages into segments, an
  application layer of requests and responses, and the outstation and master on top.

  \<^bold>\<open>The stack.\<close> All paths are below \<open>src/opendnp3/cpp/lib\<close>.
  \<^item> \<open>Link_Crc\<close> (\<open>link/CRC.cpp\<close>): the table CRC is equal to the bit-serial one, and detects any changed byte.
  \<^item> \<open>Link_Frame\<close> (\<open>LinkHeader\<close>, \<open>LinkFrame\<close>, \<open>LinkFunctionSpec\<close>, \<open>Addresses\<close>): the nine frame formats.
  \<^item> \<open>Link_Parser\<close> (\<open>LinkLayerParser\<close>, \<open>ShiftableBuffer\<close>): the incremental parser refines a decoder of the
    whole byte stream, however the stream is cut into reads; frames of the formatter are parsed back.
  \<^item> \<open>Link_Context\<close> and \<open>Link_Layer\<close> (\<open>LinkContext\<close>, \<open>LinkLayer\<close>, \<open>PriLinkLayerStates\<close>, \<open>SecLinkLayerStates\<close>): the
    state machine over sequences of events, its invariant, the frame count bit, the reply buffer.
  \<^item> \<open>Transport\<close> and \<open>Transport_Layer\<close> (\<open>lib/src/transport\<close>): segmentation and reassembly.
  \<^item> \<open>Stack\<close> and this theory: transport and link layer together, and the end-to-end theorem.
  \<^item> \<open>Util_Time\<close> (\<open>TimeDuration\<close>, \<open>Timestamp\<close>): saturating arithmetic.
  \<^item> \<open>App_Types\<close> (\<open>gen/\<close>, \<open>app/ControlRelayOutputBlock.cpp\<close>): codes of the application layer.
  \<^item> \<open>App_Gv\<close> and \<open>App_Parse\<close> (\<open>app/parsing\<close>): the object headers of a fragment; the two passes of the parser
    are one pass with late effects, and what a handler gets is exact and bounded.
  \<^item> \<open>App_Meas\<close>, \<open>App_Codec\<close> and \<open>App_Objects\<close> (\<open>app/\<close>, \<open>gen/objects\<close>): measurements, conversions and the bytes of every
    object; \<open>App_Writer\<close> (\<open>HeaderWriter\<close> and its iterators): what is written is parsed back.
  \<^item> \<open>App_Header\<close> (\<open>AppControlField\<close>, \<open>IINField\<close>, \<open>APDUWrapper\<close>, \<open>ClassField\<close>, \<open>APDUBuilders\<close>): the head of a fragment.
  \<^item> \<open>App_Specs\<close> (\<open>MeasurementTypeSpecs\<close>, \<open>EventTriggers\<close>, \<open>OctetData\<close>): the types of points and when a change is an event.
  \<^item> \<open>Out_List\<close>, \<open>Out_Events\<close> and \<open>Out_Event_Laws\<close> (\<open>outstation/event\<close>): the event buffer of the outstation, as a bounded
    queue per type; what a response takes from it, and what its confirmation removes. \<open>Out_Event_Reports\<close>: what a master
    reads from the bytes of such a response, for every type and variation of an event.
  \<^item> \<open>Out_Map\<close>, \<open>Out_Writers\<close>, \<open>Out_Reads\<close>, \<open>Out_Database\<close>, \<open>Out_Selection\<close> and \<open>Out_Db_Inv\<close> (\<open>outstation/StaticDataMap\<close>,
    \<open>StaticWriters\<close>, \<open>Database\<close>): the points, their selection and the headers that report them; loading terminates.
  \<^item> \<open>Out_Control\<close> (\<open>ControlState\<close>, \<open>TimeSyncState\<close>, \<open>RequestHistory\<close>, \<open>DeferredRequest\<close>, \<open>IAPDUHandler\<close> and the handlers of \<open>outstation\<close>):
    what is kept about requests, and what each header of a request does.
  \<^item> \<open>Out_Context\<close> (\<open>OutstationContext.cpp\<close>, \<open>OutstationStates.cpp\<close>): the session, one function \<open>outstation_step\<close> over the events from
    outside. \<open>None\<close> is a load that does not return; \<open>Out_Returns\<close> proves that there is none. \<open>Out_Context_Laws\<close> and
    \<open>Out_Session\<close> hold what every handler and every event keeps; \<open>Out_Safety\<close> what the session never does (execute a
    request twice, operate without a selection, send two fragments at once), and two cases where it fails its intent.
  \<^item> \<open>Out_Application\<close> (\<open>DefaultOutstationApplication\<close>, \<open>SimpleCommandHandler\<close>, the handler of \<open>Dnp3.cpp\<close>): the applications
    that \<open>Main.cpp\<close> hands to the outstation.
  The layers talk through interfaces that are locales here: \<open>codec16\<close> for the two-byte integers of
  the external library \<open>ser4cpp\<close>, \<open>transport_segment\<close> for the segments that the link layer asks for, and
  \<open>byte_checksum\<close> for the checksum; the code's own providers interpret them. So do the codecs of \<open>ser4cpp\<close> for the
  objects (\<open>le_codec\<close>), their serializers (\<open>exact_serializer\<close>), the selections of the event buffer (\<open>selecting\<close>), and the
  writers of static values (\<open>static_writers\<close>, \<open>progressing\<close>). An invariant of the database and the event buffer is \<open>resource_laws\<close>
  over their operations and \<open>resource_invariant\<close> with a handler of commands; a handler that changes points only by updates
  (\<open>updating_handler\<close>) has it for the three invariants that are used, and the applications of the gateway are such handlers.

  \<^bold>\<open>The gateway.\<close> All paths are below \<open>src/RPI_slavednp3\<close>.
  \<^item> \<open>Gw_Types\<close> (\<open>include/Tipos.h\<close>, the classification functions of \<open>src/Config.cpp\<close>), \<open>Gw_Numeric\<close> (doubles, floats and
    \<open>llround\<close>), \<open>Gw_Text\<close> (escapes, trimming, numbers as text), \<open>Gw_Log\<close> (\<open>src/Log.cpp\<close>).
  \<^item> \<open>Gw_Config\<close> (\<open>src/Config.cpp\<close>): the points file and the profile that is built from it.
  \<^item> \<open>Gw_Modbus\<close> (\<open>src/Modbus.cpp\<close>): reads and writes over \<open>libmodbus\<close>, which is a record of functions on an
    arbitrary state of the world; every call is recorded, so that a property can speak of their order.
  \<^item> \<open>Gw_Dnp3\<close> (\<open>src/Dnp3.cpp\<close>): the database configuration, a polling round, publication, the command handler.
  \<^item> \<open>Gw_Http\<close> (\<open>src/Interface.cpp\<close>): the console commands, the web page and the handling of a request.
  \<^item> \<open>Gw_System\<close> (\<open>src/Main.cpp\<close>): the start of the program and a step relation in which the polling
    threads, the DNP3 commands, the web clients, the console and the devices interleave.

  \<^bold>\<open>State.\<close> The globals of the process are a record that grows by extension, one theory adding the
  fields of its source file (\<open>globals\<close>, \<open>config_state\<close>, \<open>gateway\<close>, \<open>system\<close>, \<open>process\<close>). Files are a map from
  paths to contents, the system clock and text of \<open>strerror\<close> are in the record \<open>env\<close>. Link and transport objects are
  records; their events to the outside are appended to a list.

  \<^bold>\<open>Bounds.\<close> Machine integers have their width (\<open>byte\<close>, \<open>u16\<close>, \<open>u32\<close>); counters of statistics and \<open>failure_count\<close> are
  unbounded. The loops of the parsers are functions with termination proofs. Loops that may not end
  (\<open>for_indices\<close>) are \<open>partial_function (option)\<close>, and that they end is a property.

  \<^bold>\<open>Not modelled.\<close> Threads inside one lock region are atomic steps; a polling round is three steps since it
  takes three locks. Sockets, asio, TLS, serial ports, sleeps and the console stream are outside, as are the languages
  bound to the stack (Java, .NET), the examples and the tests. Writing to an open file never
  fails half way. The master, the channel and the multi-drop router are not modelled, nor is the executor: an event of the
  outstation is a step at a given time, and a timer is an event that may come whenever it is set. A deferred request is kept
  whole, since the code's buffer has the size of the largest fragment.
\<close>

section \<open>End to end\<close>

lemma length_unconfirmed_frame:
  "codec16 C \<Longrightarrow> length (unconfirmed_frame C m ad d) = 10 + CalcUserDataSize (length d)"
  by (simp add: unconfirmed_frame_def frame_bytes_def codec16.length_header_bytes codec16.length_WriteUserData
      del: length_take)

text \<open>
  C2. End to end. An application message of any length that is sent by one stack, cut into segments by its
  transport layer, framed by its link layer, cut by the channel into reads of any size, parsed,
  checked and reassembled by a second stack, arrives at the second application exactly once and
  unchanged, and the first application is told once that the transmission is complete.
\<close>

theorem message_end_to_end:
  assumes "codec16 C" and "can_send st" and "msg_payload m \<noteq> []" and "length (msg_payload m) < 4294967296"
    and "length ts = (length (msg_payload m) + 248) div 249"
    and "st' = stack_run C st (StSend t0 m # map (\<lambda>t. StLink t EvTxReady) ts)"
    and "concat cs = wire (new_events (link st) (link st'))"
    and "length mem = 292" and "chunks_fit C (Parser_init mem) cs"
    and "frames = fst (feed C (Parser_init mem) cs)" and "length us = length frames"
    and "can_receive rst (msg_addresses m) (IsMaster (config (link st)))"
    and "rx_ok (receiver (transport rst))" and "length (msg_payload m) \<le> length (reassembly (receiver (transport rst)))"
    and "rst' = stack_run C rst (map (\<lambda>(t, h, d). StLink t (EvFrame h d)) (zip us frames))"
  shows "app_log st' = app_log st @ [AppOnTxReady] \<and> app_log rst' = app_log rst @ [AppOnReceive m]"
proof -
  let ?s = "tx_sequence (segments (link st))" and ?m = "IsMaster (config (link st))" and ?ad = "msg_addresses m"
  define segs where "segs = tx_segments True ?s (msg_payload m)"
  have l: "length ts = length segs" using assms(5) by (simp add: segs_def length_tx_segments)
  note sent = stack_send_run [OF assms(1-4) segs_def l assms(6)]
  have ne: "1 \<le> length d \<and> length d \<le> 250" if "d \<in> set segs" for d
    using that unfolding segs_def using tx_segments_nonempty tx_segments_fit by blast
  have "frames = decode C (concat cs)"
    using codec16.feed_decode [OF assms(1) codec16.parser_inv_init [OF assms(1,8)] assms(9)] assms(10)
    by (simp add: ReadBuffer_def Parser_init_def NumBytesRead_def)
  then have f: "frames = map (\<lambda>d. (mk_fields PRI_UNCONFIRMED_USER_DATA ?m False False (destination ?ad) (source ?ad), d)) segs"
    using sent wire_decode [OF assms(1) ne] assms(7) by simp
  obtain out rx where r: "rx_run (receiver (transport rst)) (map (mk_message ?ad) segs) = (out, rx)" by fastforce
  have "?s < 64" using assms(2) by (simp add: can_send_def)
  from rx_whole_message [OF assms(13) this assms(3,14) r [unfolded segs_def]]
  have out: "out = [m]" by simp
  have "rst' = stack_run C rst (map (\<lambda>(t, d). StLink t (EvFrame
           (mk_fields PRI_UNCONFIRMED_USER_DATA ?m False False (destination ?ad) (source ?ad)) d)) (zip us segs))"
    unfolding assms(15) f by (simp add: zip_map2 case_prod_beta' comp_def)
  from stack_receive_frames [OF assms(12) r this] assms(11) f out sent show ?thesis by simp
qed

definition stack_up :: "bool \<Rightarrow> TransportStack" where
  "stack_up master =
     (let st = TransportStack_init (LinkConfig_default master False) (replicate 292 0) (replicate 10 0) (replicate 250 0) (replicate 2048 0) 0
      in st\<lparr>transport := (SetAppLayer (transport st))\<lparr>tl_isOnline := True\<rparr>, link := (link st)\<lparr>isOnline := True\<rparr>\<rparr>)"

abbreviation hello :: Message where
  "hello \<equiv> mk_message \<lparr>source = 1, destination = 1024\<rparr> [1, 2, 3]"

lemma message_end_to_end_witness:
  "let st' = stack_run le16 (stack_up True) [StSend 0 hello, StLink 0 EvTxReady];
       frames = fst (feed le16 (Parser_init (replicate 292 0)) [wire (new_events (link (stack_up True)) (link st'))]);
       rst' = stack_run le16 (stack_up False) (map (\<lambda>(t, h, d). StLink t (EvFrame h d)) (zip (replicate (length frames) 0) frames))
   in app_log rst' = [AppOnReceive hello]"
proof -
  have s: "can_send (stack_up True)"
    by (simp add: can_send_def stack_up_def TransportStack_init_def link_idle_def LinkContext_init_def SetLinkLayer_def
        SetAppLayer_def TransportLayer_init_def TransportTx_init_def Let_def)
  have r: "can_receive (stack_up False) \<lparr>source = 1, destination = 1024\<rparr> (IsMaster (config (link (stack_up True))))"
    by (simp add: can_receive_def stack_up_def TransportStack_init_def LinkContext_init_def LinkConfig_default_def
        SetLinkLayer_def SetAppLayer_def TransportLayer_init_def Let_def frame_accepted_def mk_fields_def)
  have b: "reassembly (receiver (transport (stack_up False))) = replicate 2048 0"
    "numBytesRead (receiver (transport (stack_up False))) = 0" "app_log (stack_up False) = []"
    by (simp_all add: stack_up_def TransportStack_init_def SetLinkLayer_def SetAppLayer_def TransportLayer_init_def
        TransportRx_init_def Let_def)
  define st' where "st' = stack_run le16 (stack_up True) (StSend 0 hello # map (\<lambda>t. StLink t EvTxReady) [0])"
  have "length (tx_segments True (tx_sequence (segments (link (stack_up True)))) [1, 2, 3]) = 1"
    by (simp add: length_tx_segments)
  then have "length (wire (new_events (link (stack_up True)) (link st'))) \<le> 292"
    using stack_send_run [OF le16.codec16_axioms s _ _ refl _ st'_def]
    by (simp add: wire_def comp_def tx_segments_step length_unconfirmed_frame [OF le16.codec16_axioms] CalcUserDataSize_def)
  then have fit: "chunks_fit le16 (Parser_init (replicate 292 0)) [wire (new_events (link (stack_up True)) (link st'))]"
    by (intro init_chunks_fit [OF le16.codec16_axioms]) simp_all
  have "app_log st' = app_log (stack_up True) @ [AppOnTxReady] \<and>
     app_log (stack_run le16 (stack_up False) (map (\<lambda>(t, h, d). StLink t (EvFrame h d))
        (zip (replicate (length (fst (feed le16 (Parser_init (replicate 292 0)) [wire (new_events (link (stack_up True)) (link st'))]))) 0)
          (fst (feed le16 (Parser_init (replicate 292 0)) [wire (new_events (link (stack_up True)) (link st'))])))))
     = app_log (stack_up False) @ [AppOnReceive hello]"
    by (rule message_end_to_end [OF le16.codec16_axioms s _ _ _ st'_def _ _ fit refl _ _ _ _ refl])
       (simp_all add: r b rx_ok_def del: feed.simps)
  then show ?thesis unfolding Let_def using st'_def b(3) by (simp del: feed.simps stack_run.simps)
qed

end
